(* ===== verification/Prelude.thy ===== *)
theory Prelude
  imports Complex_Main "HOL-Library.Word" "HOL-Library.Product_Lexorder"
    "HOL-Library.List_Lexorder" "HOL-Library.Char_ord"
begin

text \<open>
  What the components share: the machine types of the C++ sources, \<^verbatim>\<open>double\<close> with its IEEE
  comparisons, \<^verbatim>\<open>std::bitset\<close> and its string form, \<^verbatim>\<open>std::map\<close> as a list of pairs in
  ascending key order, \<^verbatim>\<open>std::set\<close> as an ascending list, and \<^verbatim>\<open>std::list::remove\<close>.

  The components add their lemmas to the collections declared here:
  \<open>cmap_simps\<close> holds the lookup and order laws of the ordered maps, \<open>bit_simps\<close> the laws
  of the bit masks, \<open>parcel_intros\<close> the structural rules of the serialisation code.
\<close>

unbundle bit_operations_syntax

named_theorems cmap_simps "lookup, key and order laws of the ordered maps"
named_theorems bit_simps "laws of the bit masks"
named_theorems parcel_intros "structural rules for parcel readers and writers"

section \<open>Machine types\<close>

type_synonym i32 = "32 word"
type_synonym i64 = "64 word"
type_synonym byte = "8 word"

text \<open>
  A \<^verbatim>\<open>double\<close>: a finite value, an infinity (\<open>True\<close> for the negative one) or a NaN. The
  sources compare, store and send doubles and never compute with them, so no rounding is
  involved; the two zeros compare equal and are one value here.
\<close>

datatype dbl = DFin rat | DInf bool | DNaN

fun dbl_eq :: "dbl \<Rightarrow> dbl \<Rightarrow> bool" where
  "dbl_eq (DFin x) (DFin y) = (x = y)"
| "dbl_eq (DInf a) (DInf b) = (a = b)"
| "dbl_eq _ _ = False"

fun dbl_less :: "dbl \<Rightarrow> dbl \<Rightarrow> bool" where
  "dbl_less (DFin x) (DFin y) = (x < y)"
| "dbl_less (DFin x) (DInf b) = (\<not> b)"
| "dbl_less (DInf a) (DFin y) = a"
| "dbl_less (DInf a) (DInf b) = (a \<and> \<not> b)"
| "dbl_less _ _ = False"

definition dbl_le :: "dbl \<Rightarrow> dbl \<Rightarrow> bool" where
  "dbl_le x y \<longleftrightarrow> dbl_less x y \<or> dbl_eq x y"

definition dbl_isfinite :: "dbl \<Rightarrow> bool" where
  "dbl_isfinite x \<longleftrightarrow> (case x of DFin _ \<Rightarrow> True | _ \<Rightarrow> False)"

lemma dbl_eq_refl [simp]: "dbl_eq x x \<longleftrightarrow> x \<noteq> DNaN"
  by (cases x) auto

lemma dbl_eq_sound: "dbl_eq x y \<Longrightarrow> x = y"
  by (cases "(x, y)" rule: dbl_eq.cases) auto

lemma dbl_le_not_less: "x \<noteq> DNaN \<Longrightarrow> y \<noteq> DNaN \<Longrightarrow> dbl_le x y \<longleftrightarrow> \<not> dbl_less y x"
  by (cases x; cases y) (auto simp: dbl_le_def)

section \<open>Bit sets\<close>

text \<open>
  \<^verbatim>\<open>std::bitset<N>\<close> is a word of \<open>N\<close> bits: \<^verbatim>\<open>test\<close> is \<open>bit\<close>, \<^verbatim>\<open>set\<close> is \<open>set_bit\<close>,
  \<^verbatim>\<open>flip\<close> is \<open>flip_bit\<close>, \<^verbatim>\<open>reset\<close> gives \<open>0\<close>. \<^verbatim>\<open>to_string\<close> writes the highest bit first.
\<close>

definition bitset_to_string :: "'n::len word \<Rightarrow> string" where
  "bitset_to_string w =
     map (\<lambda>i. if bit w i then CHR ''1'' else CHR ''0'') (rev [0..<LENGTH('n)])"

definition bitset_of_string :: "string \<Rightarrow> 'n::len word" where
  "bitset_of_string s =
     fold (\<lambda>i w. if i < length s \<and> s ! (length s - i - 1) = CHR ''1'' then set_bit i w else w)
       [0..<LENGTH('n)] 0"

lemma bit_set_bit_word [bit_simps]:
  "bit (set_bit i (w::'n::len word)) j \<longleftrightarrow> bit w j \<or> (i = j \<and> j < LENGTH('n))"
  by (auto simp: bit_set_bit_iff dest: bit_imp_le_length)

lemma bit_flip_bit_word [bit_simps]:
  "bit (flip_bit i (w::'n::len word)) j \<longleftrightarrow> j < LENGTH('n) \<and> (i = j) \<noteq> bit w j"
  by (auto simp: bit_flip_bit_iff dest: bit_imp_le_length)

lemma length_bitset_to_string [simp]:
  "length (bitset_to_string (w::'n::len word)) = LENGTH('n)"
  by (simp add: bitset_to_string_def)

lemma bitset_to_string_not_Nil [simp]: "bitset_to_string (w::'n::len word) \<noteq> []"
  using length_bitset_to_string [of w] by (metis length_0_conv len_not_eq_0)

lemma bitset_to_string_nth:
  "i < LENGTH('n) \<Longrightarrow>
     bitset_to_string (w::'n::len word) ! (LENGTH('n) - i - 1)
       = (if bit w i then CHR ''1'' else CHR ''0'')"
  by (simp add: bitset_to_string_def rev_map [symmetric] rev_nth)

lemma bitset_to_string_binary: "set (bitset_to_string w) \<subseteq> {CHR ''0'', CHR ''1''}"
  by (auto simp: bitset_to_string_def)

lemma bit_fold_set:
  fixes w :: "'n::len word"
  shows "bit (fold (\<lambda>i w. if P i then set_bit i w else w) is w) j
    \<longleftrightarrow> bit w j \<or> (j \<in> set is \<and> P j \<and> j < LENGTH('n))"
  by (induction "is" arbitrary: w) (auto simp: bit_simps)

lemma bit_bitset_of_string:
  "bit (bitset_of_string s :: 'n::len word) j
    \<longleftrightarrow> j < LENGTH('n) \<and> j < length s \<and> s ! (length s - j - 1) = CHR ''1''"
  unfolding bitset_of_string_def by (subst bit_fold_set) auto

lemma bitset_of_to_string [simp]:
  "bitset_of_string (bitset_to_string w) = (w::'a::len word)"
proof (rule bit_word_eqI)
  fix n assume "n < LENGTH('a)"
  then show "bit (bitset_of_string (bitset_to_string w) :: 'a word) n \<longleftrightarrow> bit w n"
    using bitset_to_string_nth [of n w] by (simp add: bit_bitset_of_string)
qed

section \<open>Ordered maps and sets\<close>

text \<open>
  \<^verbatim>\<open>std::map\<close>: the pairs in ascending key order, which is the order of iteration.
  \<open>cmap_put\<close> is \<^verbatim>\<open>m[k] = v\<close>, \<open>cmap_insert\<close> is \<^verbatim>\<open>m.insert(\<dots>)\<close> (an existing entry is
  kept), \<open>cmap_erase\<close> is \<^verbatim>\<open>m.erase(k)\<close>; \<open>map_of\<close> is \<^verbatim>\<open>find\<close>.
\<close>

type_synonym ('k, 'v) cmap = "('k \<times> 'v) list"

fun cmap_put :: "'k::linorder \<Rightarrow> 'v \<Rightarrow> ('k, 'v) cmap \<Rightarrow> ('k, 'v) cmap" where
  "cmap_put k v [] = [(k, v)]"
| "cmap_put k v ((k', v') # m) =
     (if k < k' then (k, v) # (k', v') # m
      else if k = k' then (k, v) # m
      else (k', v') # cmap_put k v m)"

definition cmap_insert :: "'k::linorder \<Rightarrow> 'v \<Rightarrow> ('k, 'v) cmap \<Rightarrow> ('k, 'v) cmap" where
  "cmap_insert k v m = (if map_of m k = None then cmap_put k v m else m)"

definition cmap_erase :: "'k \<Rightarrow> ('k, 'v) cmap \<Rightarrow> ('k, 'v) cmap" where
  "cmap_erase k m = filter (\<lambda>e. fst e \<noteq> k) m"

definition cmap_ok :: "('k::linorder, 'v) cmap \<Rightarrow> bool" where
  "cmap_ok m \<longleftrightarrow> sorted_wrt (<) (map fst m)"

lemma map_of_cmap_put [cmap_simps]: "map_of (cmap_put k v m) = (map_of m)(k \<mapsto> v)"
  by (induction k v m rule: cmap_put.induct) (auto simp: fun_eq_iff)

lemma map_of_cmap_erase [cmap_simps]: "map_of (cmap_erase k m) = (map_of m)(k := None)"
  by (induction m) (auto simp: cmap_erase_def fun_eq_iff)

lemma keys_cmap_put [cmap_simps]: "fst ` set (cmap_put k v m) = insert k (fst ` set m)"
  by (induction k v m rule: cmap_put.induct) auto

lemma set_cmap_erase [cmap_simps]: "set (cmap_erase k m) = {e \<in> set m. fst e \<noteq> k}"
  by (auto simp: cmap_erase_def)

lemma cmap_ok_Nil [simp]: "cmap_ok []"
  by (simp add: cmap_ok_def)

lemma cmap_ok_Cons: "cmap_ok (e # m) \<longleftrightarrow> (\<forall>k \<in> fst ` set m. fst e < k) \<and> cmap_ok m"
  by (simp add: cmap_ok_def)

lemma cmap_ok_put [cmap_simps]: "cmap_ok m \<Longrightarrow> cmap_ok (cmap_put k v m)"
  by (induction k v m rule: cmap_put.induct) (auto simp: cmap_ok_Cons keys_cmap_put)

lemma cmap_ok_filter: "cmap_ok m \<Longrightarrow> cmap_ok (filter P m)"
  by (induction m) (auto simp: cmap_ok_Cons)

lemma cmap_ok_erase [cmap_simps]: "cmap_ok m \<Longrightarrow> cmap_ok (cmap_erase k m)"
  by (simp add: cmap_erase_def cmap_ok_filter)

lemma cmap_ok_insert [cmap_simps]: "cmap_ok m \<Longrightarrow> cmap_ok (cmap_insert k v m)"
  by (simp add: cmap_insert_def cmap_ok_put)

lemma cmap_ok_distinct: "cmap_ok m \<Longrightarrow> distinct (map fst m)"
  by (simp add: cmap_ok_def strict_sorted_iff)

lemma cmap_ok_in_set: "cmap_ok m \<Longrightarrow> (k, v) \<in> set m \<longleftrightarrow> map_of m k = Some v"
  by (simp add: cmap_ok_distinct)

lemma set_cmap_put [cmap_simps]:
  "cmap_ok m \<Longrightarrow> set (cmap_put k v m) = insert (k, v) {e \<in> set m. fst e \<noteq> k}"
  by (induction k v m rule: cmap_put.induct) (auto simp: cmap_ok_Cons)

lemma cmap_put_put [cmap_simps]: "cmap_put k v (cmap_put k w m) = cmap_put k v m"
  by (induction m) auto

text \<open>\<^verbatim>\<open>std::set\<close>: its elements in ascending order.\<close>

definition cset_insert :: "'a::linorder \<Rightarrow> 'a list \<Rightarrow> 'a list" where
  "cset_insert x s = (if x \<in> set s then s else insort x s)"

definition cset_erase :: "'a \<Rightarrow> 'a list \<Rightarrow> 'a list" where
  "cset_erase x s = filter (\<lambda>y. y \<noteq> x) s"

lemma set_cset_insert [cmap_simps]: "set (cset_insert x s) = insert x (set s)"
  by (auto simp: cset_insert_def set_insort_key)

lemma set_cset_erase [cmap_simps]: "set (cset_erase x s) = set s - {x}"
  by (auto simp: cset_erase_def)

text \<open>\<^verbatim>\<open>std::list::remove\<close> drops every occurrence.\<close>

definition list_remove :: "'a \<Rightarrow> 'a list \<Rightarrow> 'a list" where
  "list_remove x xs = filter (\<lambda>y. y \<noteq> x) xs"

lemma set_list_remove [simp]: "set (list_remove x xs) = set xs - {x}"
  by (auto simp: list_remove_def)

lemma distinct_list_remove [simp]: "distinct xs \<Longrightarrow> distinct (list_remove x xs)"
  by (simp add: list_remove_def)

lemma list_remove_id [simp]: "x \<notin> set xs \<Longrightarrow> list_remove x xs = xs"
  by (auto simp: list_remove_def filter_id_conv)

end
