(* ===== verification/Parcel.thy ===== *)
theory Parcel
  imports Prelude
begin

text \<open>
  The serialisation boundary. \<^verbatim>\<open>Parcel\<close> and \<^verbatim>\<open>MessageParcel\<close> belong to the IPC library and are
  not part of the repository: the record \<open>parcel_ops\<close> holds their operations as parameters,
  and \<open>fifo_parcel\<close> states what the sources rely on, that values are read back in the order in
  which they were written, that reading past the end fails, and that \<^verbatim>\<open>WriteParcelable\<close> writes a
  null marker or a marker followed by the object's own data. A read that fails gives
  \<open>None\<close>, which leaves the variable it was to fill unchanged.

  The pixel maps of \<^verbatim>\<open>avsession_pixel_map.h\<close> are here too, because \<^verbatim>\<open>ReadParcelable\<close> is used at
  that type. The combinators \<open>w_all\<close> and \<open>r_all\<close> are the \<^verbatim>\<open>&&\<close> and \<^verbatim>\<open>||\<close> chains of the sources:
  they stop at the first operation that fails.
\<close>

section \<open>Pixel maps\<close>

record pixel_map =
  innerImgBuffer :: "byte list"
  originalWidth :: i32
  originalHeight :: i32

definition new_pixel_map :: pixel_map where
  "new_pixel_map = \<lparr>innerImgBuffer = [], originalWidth = 0, originalHeight = 0\<rparr>"

definition pm_SetInnerImgBuffer :: "byte list \<Rightarrow> pixel_map \<Rightarrow> pixel_map" where
  "pm_SetInnerImgBuffer buf pm = pm\<lparr>innerImgBuffer := buf\<rparr>"

definition pm_Equals :: "pixel_map \<Rightarrow> pixel_map \<Rightarrow> bool" where
  "pm_Equals a b \<longleftrightarrow> innerImgBuffer a = innerImgBuffer b"

section \<open>The operations of a parcel\<close>

record ('p, 'w) parcel_ops =
  WriteInt32 :: "i32 \<Rightarrow> 'p \<Rightarrow> bool \<times> 'p"
  ReadInt32 :: "'p \<Rightarrow> i32 option \<times> 'p"
  WriteInt64 :: "i64 \<Rightarrow> 'p \<Rightarrow> bool \<times> 'p"
  ReadInt64 :: "'p \<Rightarrow> i64 option \<times> 'p"
  WriteDouble :: "dbl \<Rightarrow> 'p \<Rightarrow> bool \<times> 'p"
  ReadDouble :: "'p \<Rightarrow> dbl option \<times> 'p"
  WriteBool :: "bool \<Rightarrow> 'p \<Rightarrow> bool \<times> 'p"
  ReadBool :: "'p \<Rightarrow> bool option \<times> 'p"
  WriteString :: "string \<Rightarrow> 'p \<Rightarrow> bool \<times> 'p"
  ReadString :: "'p \<Rightarrow> string option \<times> 'p"
  WriteUInt8Vector :: "byte list \<Rightarrow> 'p \<Rightarrow> bool \<times> 'p"
  ReadUInt8Vector :: "'p \<Rightarrow> byte list option \<times> 'p"
  WriteRawData :: "byte list \<Rightarrow> 'p \<Rightarrow> bool \<times> 'p"
  ReadRawData :: "nat \<Rightarrow> 'p \<Rightarrow> byte list option \<times> 'p"
  WriteParcelable :: "('p \<Rightarrow> bool \<times> 'p) option \<Rightarrow> 'p \<Rightarrow> bool \<times> 'p"
  ReadParcelable :: "('p \<Rightarrow> pixel_map option \<times> 'p) \<Rightarrow> 'p \<Rightarrow> pixel_map option \<times> 'p"
  WriteWantParams :: "'w option \<Rightarrow> 'p \<Rightarrow> bool \<times> 'p"
  ReadWantParams :: "'p \<Rightarrow> 'w option \<times> 'p"

text \<open>
  What the unread part of a parcel holds, as far as the sources can tell. The last four are an
  interface token, vectors, and an object of a type that the sources only pass on.
\<close>

datatype 'w token = TI32 i32 | TI64 i64 | TDbl dbl | TBool bool | TStr string
  | TVec "byte list" | TRaw "byte list" | TMark bool | TWant "'w option"
  | TName string | TInts "i32 list" | TDbls "dbl list" | TObj nat

definition fifo_op ::
  "('p \<Rightarrow> 'w token list) \<Rightarrow> ('v \<Rightarrow> 'p \<Rightarrow> bool \<times> 'p) \<Rightarrow> ('p \<Rightarrow> 'v option \<times> 'p)
    \<Rightarrow> ('v \<Rightarrow> 'w token) \<Rightarrow> bool" where
  "fifo_op V wr rd T \<longleftrightarrow>
     (\<forall>v p p'. wr v p = (True, p') \<longrightarrow> V p' = V p @ [T v]) \<and>
     (\<forall>v p ts. V p = T v # ts \<longrightarrow> (\<exists>p'. rd p = (Some v, p') \<and> V p' = ts)) \<and>
     (\<forall>p. V p = [] \<longrightarrow> fst (rd p) = None)"

definition fifo_raw :: "('p, 'w) parcel_ops \<Rightarrow> ('p \<Rightarrow> 'w token list) \<Rightarrow> bool" where
  "fifo_raw P V \<longleftrightarrow>
     (\<forall>bs p p'. WriteRawData P bs p = (True, p') \<longrightarrow> V p' = V p @ [TRaw bs]) \<and>
     (\<forall>bs p ts. V p = TRaw bs # ts \<longrightarrow>
        (\<exists>p'. ReadRawData P (length bs) p = (Some bs, p') \<and> V p' = ts))"

definition fifo_parcelable :: "('p, 'w) parcel_ops \<Rightarrow> ('p \<Rightarrow> 'w token list) \<Rightarrow> bool" where
  "fifo_parcelable P V \<longleftrightarrow>
     (\<forall>p p'. WriteParcelable P None p = (True, p') \<longrightarrow> V p' = V p @ [TMark False]) \<and>
     (\<forall>m p p'. WriteParcelable P (Some m) p = (True, p') \<longrightarrow>
        (\<exists>p1. V p1 = V p @ [TMark True] \<and> m p1 = (True, p'))) \<and>
     (\<forall>u p ts. V p = TMark False # ts \<longrightarrow>
        (\<exists>p'. ReadParcelable P u p = (None, p') \<and> V p' = ts)) \<and>
     (\<forall>u p ts. V p = TMark True # ts \<longrightarrow>
        (\<exists>p1. V p1 = ts \<and> ReadParcelable P u p = u p1))"

definition fifo_want :: "('p, 'w) parcel_ops \<Rightarrow> ('p \<Rightarrow> 'w token list) \<Rightarrow> bool" where
  "fifo_want P V \<longleftrightarrow>
     (\<forall>w p p'. WriteWantParams P w p = (True, p') \<longrightarrow> V p' = V p @ [TWant w]) \<and>
     (\<forall>w p ts. V p = TWant w # ts \<longrightarrow> (\<exists>p'. ReadWantParams P p = (w, p') \<and> V p' = ts))"

definition fifo_parcel :: "('p, 'w) parcel_ops \<Rightarrow> ('p \<Rightarrow> 'w token list) \<Rightarrow> bool" where
  "fifo_parcel P V \<longleftrightarrow>
     fifo_op V (WriteInt32 P) (ReadInt32 P) TI32 \<and>
     fifo_op V (WriteInt64 P) (ReadInt64 P) TI64 \<and>
     fifo_op V (WriteDouble P) (ReadDouble P) TDbl \<and>
     fifo_op V (WriteBool P) (ReadBool P) TBool \<and>
     fifo_op V (WriteString P) (ReadString P) TStr \<and>
     fifo_op V (WriteUInt8Vector P) (ReadUInt8Vector P) TVec \<and>
     fifo_raw P V \<and> fifo_parcelable P V \<and> fifo_want P V"

text \<open>
  A parcel with room left: no write fails. The sources ignore the result of some writes, and
  only there a property needs this.
\<close>

definition roomy :: "('p, 'w) parcel_ops \<Rightarrow> bool" where
  "roomy P \<longleftrightarrow>
     (\<forall>v p. fst (WriteInt32 P v p)) \<and> (\<forall>v p. fst (WriteInt64 P v p)) \<and>
     (\<forall>v p. fst (WriteDouble P v p)) \<and> (\<forall>v p. fst (WriteBool P v p)) \<and>
     (\<forall>v p. fst (WriteString P v p)) \<and> (\<forall>v p. fst (WriteUInt8Vector P v p)) \<and>
     (\<forall>v p. fst (WriteRawData P v p)) \<and> (\<forall>v p. fst (WriteWantParams P v p)) \<and>
     (\<forall>p. fst (WriteParcelable P None p)) \<and>
     (\<forall>m p. (\<forall>q. fst (m q)) \<longrightarrow> fst (WriteParcelable P (Some m) p))"

section \<open>Chains of writes and reads\<close>

fun w_all :: "('p \<Rightarrow> bool \<times> 'p) list \<Rightarrow> 'p \<Rightarrow> bool \<times> 'p" where
  "w_all [] p = (True, p)"
| "w_all (w # ws) p = (case w p of (ok, p') \<Rightarrow> if ok then w_all ws p' else (False, p'))"

definition r_field ::
  "('p \<Rightarrow> 'v option \<times> 'p) \<Rightarrow> ('v \<Rightarrow> 'o \<Rightarrow> 'o) \<Rightarrow> 'o \<times> 'p \<Rightarrow> bool \<times> 'o \<times> 'p" where
  "r_field rd upd s = (case s of (obj, p) \<Rightarrow>
     (case rd p of (Some v, p') \<Rightarrow> (True, upd v obj, p') | (None, p') \<Rightarrow> (False, obj, p')))"

fun r_all :: "('o \<times> 'p \<Rightarrow> bool \<times> 'o \<times> 'p) list \<Rightarrow> 'o \<times> 'p \<Rightarrow> bool \<times> 'o \<times> 'p" where
  "r_all [] s = (True, s)"
| "r_all (r # rs) s = (case r s of (ok, s') \<Rightarrow> if ok then r_all rs s' else (False, s'))"

text \<open>\<open>writes\<close>: a successful run appends these tokens. \<open>reads\<close>: the tokens are consumed.\<close>

definition writes :: "('p \<Rightarrow> 'w token list) \<Rightarrow> ('p \<Rightarrow> bool \<times> 'p) \<Rightarrow> 'w token list \<Rightarrow> bool" where
  "writes V w ts \<longleftrightarrow> (\<forall>p p'. w p = (True, p') \<longrightarrow> V p' = V p @ ts)"

definition reads ::
  "('p \<Rightarrow> 'w token list) \<Rightarrow> ('o \<times> 'p \<Rightarrow> bool \<times> 'o \<times> 'p) \<Rightarrow> 'w token list \<Rightarrow> ('o \<Rightarrow> 'o) \<Rightarrow> bool"
where
  "reads V r ts f \<longleftrightarrow>
     (\<forall>obj p us. V p = ts @ us \<longrightarrow> (\<exists>p'. r (obj, p) = (True, f obj, p') \<and> V p' = us))"

definition reads_value ::
  "('p \<Rightarrow> 'w token list) \<Rightarrow> ('p \<Rightarrow> 'v \<times> 'p) \<Rightarrow> 'w token list \<Rightarrow> 'v \<Rightarrow> bool" where
  "reads_value V rd ts v \<longleftrightarrow>
     (\<forall>p us. V p = ts @ us \<longrightarrow> (\<exists>p'. rd p = (v, p') \<and> V p' = us))"

lemma writesD: "writes V w ts \<Longrightarrow> w p = (True, p') \<Longrightarrow> V p' = V p @ ts"
  by (simp add: writes_def)

lemma readsD:
  "reads V r ts f \<Longrightarrow> V p = ts @ us \<Longrightarrow> \<exists>p'. r (obj, p) = (True, f obj, p') \<and> V p' = us"
  by (simp add: reads_def)

lemma reads_valueD:
  "reads_value V rd ts v \<Longrightarrow> V p = ts @ us \<Longrightarrow> \<exists>p'. rd p = (v, p') \<and> V p' = us"
  by (simp add: reads_value_def)

lemma writes_Nil [parcel_intros]: "writes V (w_all []) []"
  by (simp add: writes_def)

lemma writes_Cons [parcel_intros]:
  "writes V w ts \<Longrightarrow> writes V (w_all ws) us \<Longrightarrow> writes V (w_all (w # ws)) (ts @ us)"
  by (fastforce simp: writes_def split: prod.splits if_splits)

lemma reads_Nil [parcel_intros]: "reads V (r_all []) [] (\<lambda>x. x)"
  by (simp add: reads_def)

lemma reads_Cons [parcel_intros]:
  assumes "reads V r ts f" and "reads V (r_all rs) us g"
  shows "reads V (r_all (r # rs)) (ts @ us) (\<lambda>x. g (f x))"
  unfolding reads_def
proof (intro allI impI)
  fix obj p vs assume "V p = (ts @ us) @ vs"
  then obtain p1 where "r (obj, p) = (True, f obj, p1)" "V p1 = us @ vs"
    using readsD [OF assms(1), of p "us @ vs" obj] by auto
  moreover obtain p2 where "r_all rs (f obj, p1) = (True, g (f obj), p2)" "V p2 = vs"
    using readsD [OF assms(2) \<open>V p1 = us @ vs\<close>] by blast
  ultimately show "\<exists>p'. r_all (r # rs) (obj, p) = (True, g (f obj), p') \<and> V p' = vs"
    by simp
qed

text \<open>The same rules with the tokens and the updates in list form, for long chains.\<close>

lemma writes_single: "writes V w ts \<Longrightarrow> writes V (w_all [w]) ts"
  using writes_Cons [OF _ writes_Nil] by fastforce

lemma writes_Cons1:
  "writes V w [t] \<Longrightarrow> writes V (w_all ws) us \<Longrightarrow> writes V (w_all (w # ws)) (t # us)"
  using writes_Cons by fastforce

lemma reads_done: "reads V (r_all []) [] (fold (\<lambda>u. u) [])"
  by (simp add: reads_def)

lemma reads_Cons1:
  "reads V r [t] u \<Longrightarrow> reads V (r_all rs) us (fold (\<lambda>u. u) gs)
    \<Longrightarrow> reads V (r_all (r # rs)) (t # us) (fold (\<lambda>u. u) (u # gs))"
  using reads_Cons [of V r "[t]" u rs us "fold (\<lambda>u. u) gs"] by (simp add: comp_def)

lemma w_all_succeeds: "(\<And>w q. w \<in> set ws \<Longrightarrow> fst (w q)) \<Longrightarrow> fst (w_all ws p)"
proof (induction ws arbitrary: p)
  case (Cons w ws)
  from Cons.prems have "fst (w p)" by simp
  with Cons show ?case by (cases "w p") simp
qed simp

lemma reads_field [parcel_intros]:
  "reads_value V rd ts (Some v) \<Longrightarrow> reads V (r_field rd upd) ts (upd v)"
  by (fastforce simp: reads_def reads_value_def r_field_def)

section \<open>What the laws give for each operation\<close>

lemma fifo_opD:
  assumes "fifo_op V wr rd T"
  shows "writes V (wr v) [T v]" and "reads_value V rd [T v] (Some v)"
    and "V p = [] \<Longrightarrow> fst (rd p) = None"
  using assms by (auto simp: fifo_op_def writes_def reads_value_def)

lemma fifo_parcelD:
  assumes "fifo_parcel P V"
  shows "fifo_op V (WriteInt32 P) (ReadInt32 P) TI32"
    and "fifo_op V (WriteInt64 P) (ReadInt64 P) TI64"
    and "fifo_op V (WriteDouble P) (ReadDouble P) TDbl"
    and "fifo_op V (WriteBool P) (ReadBool P) TBool"
    and "fifo_op V (WriteString P) (ReadString P) TStr"
    and "fifo_op V (WriteUInt8Vector P) (ReadUInt8Vector P) TVec"
    and "fifo_raw P V" and "fifo_parcelable P V" and "fifo_want P V"
  using assms by (auto simp: fifo_parcel_def)

lemma fifo_rawD:
  assumes "fifo_raw P V"
  shows "writes V (WriteRawData P v) [TRaw v]"
    and "reads_value V (ReadRawData P (length v)) [TRaw v] (Some v)"
  using assms by (auto simp: fifo_raw_def writes_def reads_value_def)

lemma fifo_wantD:
  assumes "fifo_want P V"
  shows "writes V (WriteWantParams P w) [TWant w]"
    and "reads_value V (ReadWantParams P) [TWant w] w"
  using assms by (auto simp: fifo_want_def writes_def reads_value_def)

lemma writes_ops [parcel_intros]:
  assumes "fifo_parcel P V"
  shows "writes V (WriteInt32 P i) [TI32 i]" and "writes V (WriteInt64 P l) [TI64 l]"
    and "writes V (WriteDouble P d) [TDbl d]" and "writes V (WriteBool P b) [TBool b]"
    and "writes V (WriteString P s) [TStr s]" and "writes V (WriteUInt8Vector P v) [TVec v]"
    and "writes V (WriteRawData P v) [TRaw v]" and "writes V (WriteWantParams P w) [TWant w]"
  using fifo_parcelD [OF assms]
  by (blast intro: fifo_opD(1) fifo_rawD(1) fifo_wantD(1))+

lemma reads_ops [parcel_intros]:
  assumes "fifo_parcel P V"
  shows "reads_value V (ReadInt32 P) [TI32 i] (Some i)"
    and "reads_value V (ReadInt64 P) [TI64 l] (Some l)"
    and "reads_value V (ReadDouble P) [TDbl d] (Some d)"
    and "reads_value V (ReadBool P) [TBool b] (Some b)"
    and "reads_value V (ReadString P) [TStr s] (Some s)"
    and "reads_value V (ReadUInt8Vector P) [TVec v] (Some v)"
    and "reads_value V (ReadRawData P (length v)) [TRaw v] (Some v)"
    and "reads_value V (ReadWantParams P) [TWant w] w"
  using fifo_parcelD [OF assms]
  by (blast intro: fifo_opD(2) fifo_rawD(2) fifo_wantD(2))+

section \<open>Pixel maps in a parcel\<close>

definition pm_Marshalling :: "('p, 'w) parcel_ops \<Rightarrow> pixel_map \<Rightarrow> 'p \<Rightarrow> bool \<times> 'p" where
  "pm_Marshalling P pm = WriteUInt8Vector P (innerImgBuffer pm)"

definition pm_Unmarshalling :: "('p, 'w) parcel_ops \<Rightarrow> 'p \<Rightarrow> pixel_map option \<times> 'p" where
  "pm_Unmarshalling P p = (case ReadUInt8Vector P p of
     (None, p') \<Rightarrow> (None, p')
   | (Some buf, p') \<Rightarrow> (Some (pm_SetInnerImgBuffer buf new_pixel_map), p'))"

text \<open>What of a pixel map crosses the boundary: the buffer, not the original size.\<close>

definition pm_wire :: "pixel_map \<Rightarrow> pixel_map" where
  "pm_wire pm = pm_SetInnerImgBuffer (innerImgBuffer pm) new_pixel_map"

fun pm_tokens :: "pixel_map option \<Rightarrow> 'w token list" where
  "pm_tokens None = [TMark False]"
| "pm_tokens (Some pm) = [TMark True, TVec (innerImgBuffer pm)]"

lemma innerImgBuffer_pm_wire [simp]: "innerImgBuffer (pm_wire pm) = innerImgBuffer pm"
  by (simp add: pm_wire_def pm_SetInnerImgBuffer_def)

lemma writes_pixel_map [parcel_intros]:
  assumes "fifo_parcel P V"
  shows "writes V (WriteParcelable P (map_option (pm_Marshalling P) pm)) (pm_tokens pm)"
proof (cases pm)
  case None
  then show ?thesis
    using fifo_parcelD(8) [OF assms] by (simp add: writes_def fifo_parcelable_def)
next
  case (Some m)
  have "writes V (pm_Marshalling P m) [TVec (innerImgBuffer m)]"
    using writes_ops(6) [OF assms] by (simp add: pm_Marshalling_def)
  then have "V p' = V p @ [TMark True, TVec (innerImgBuffer m)]"
    if "WriteParcelable P (Some (pm_Marshalling P m)) p = (True, p')" for p p'
    using fifo_parcelD(8) [OF assms] that
    unfolding fifo_parcelable_def by (fastforce dest: writesD)
  with Some show ?thesis by (simp add: writes_def)
qed

lemma reads_pixel_map [parcel_intros]:
  assumes "fifo_parcel P V"
  shows "reads_value V (ReadParcelable P (pm_Unmarshalling P)) (pm_tokens pm)
           (map_option pm_wire pm)"
proof (cases pm)
  case None
  then show ?thesis
    using fifo_parcelD(8) [OF assms] by (simp add: reads_value_def fifo_parcelable_def)
next
  case (Some m)
  have "reads_value V (pm_Unmarshalling P) [TVec (innerImgBuffer m)] (Some (pm_wire m))"
    using reads_ops(6) [OF assms]
    by (fastforce simp: reads_value_def pm_Unmarshalling_def pm_wire_def)
  then have "\<exists>p'. ReadParcelable P (pm_Unmarshalling P) p = (Some (pm_wire m), p') \<and> V p' = us"
    if "V p = [TMark True, TVec (innerImgBuffer m)] @ us" for p us
    using fifo_parcelD(8) [OF assms] that
    unfolding fifo_parcelable_def reads_value_def by (metis append_Cons append_Nil)
  with Some show ?thesis by (simp add: reads_value_def)
qed

lemma roomy_pixel_map:
  "roomy P \<Longrightarrow> fst (WriteParcelable P (map_option (pm_Marshalling P) pm) p)"
  by (cases pm) (auto simp: roomy_def pm_Marshalling_def)

lemma roomy_ops:
  assumes "roomy P"
  shows "fst (WriteInt32 P i p)" and "fst (WriteInt64 P l p)" and "fst (WriteDouble P d p)"
    and "fst (WriteBool P b p)" and "fst (WriteString P s p)" and "fst (WriteUInt8Vector P v p)"
    and "fst (WriteRawData P v p)" and "fst (WriteWantParams P w p)"
  using assms by (auto simp: roomy_def)

section \<open>A parcel as a list of tokens\<close>

text \<open>
  The unread tokens themselves, with writes appended and reads taken from the front: a parcel
  that keeps the laws, on which concrete runs are evaluated.
\<close>

definition tok_read :: "('w token \<Rightarrow> 'v option) \<Rightarrow> 'w token list \<Rightarrow> 'v option \<times> 'w token list" where
  "tok_read f ts = (case ts of [] \<Rightarrow> (None, [])
     | t # ts' \<Rightarrow> (case f t of None \<Rightarrow> (None, ts) | Some v \<Rightarrow> (Some v, ts')))"

definition token_parcel :: "('w token list, 'w) parcel_ops" where
  "token_parcel = \<lparr>
     WriteInt32 = (\<lambda>v ts. (True, ts @ [TI32 v])),
     ReadInt32 = tok_read (\<lambda>t. case t of TI32 v \<Rightarrow> Some v | _ \<Rightarrow> None),
     WriteInt64 = (\<lambda>v ts. (True, ts @ [TI64 v])),
     ReadInt64 = tok_read (\<lambda>t. case t of TI64 v \<Rightarrow> Some v | _ \<Rightarrow> None),
     WriteDouble = (\<lambda>v ts. (True, ts @ [TDbl v])),
     ReadDouble = tok_read (\<lambda>t. case t of TDbl v \<Rightarrow> Some v | _ \<Rightarrow> None),
     WriteBool = (\<lambda>v ts. (True, ts @ [TBool v])),
     ReadBool = tok_read (\<lambda>t. case t of TBool v \<Rightarrow> Some v | _ \<Rightarrow> None),
     WriteString = (\<lambda>v ts. (True, ts @ [TStr v])),
     ReadString = tok_read (\<lambda>t. case t of TStr v \<Rightarrow> Some v | _ \<Rightarrow> None),
     WriteUInt8Vector = (\<lambda>v ts. (True, ts @ [TVec v])),
     ReadUInt8Vector = tok_read (\<lambda>t. case t of TVec v \<Rightarrow> Some v | _ \<Rightarrow> None),
     WriteRawData = (\<lambda>v ts. (True, ts @ [TRaw v])),
     ReadRawData = (\<lambda>n. tok_read (\<lambda>t. case t of TRaw v \<Rightarrow>
       if length v = n then Some v else None | _ \<Rightarrow> None)),
     WriteParcelable = (\<lambda>m ts. case m of None \<Rightarrow> (True, ts @ [TMark False])
       | Some w \<Rightarrow> w (ts @ [TMark True])),
     ReadParcelable = (\<lambda>u ts. case ts of TMark True # ts' \<Rightarrow> u ts'
       | TMark False # ts' \<Rightarrow> (None, ts') | _ \<Rightarrow> (None, ts)),
     WriteWantParams = (\<lambda>w ts. (True, ts @ [TWant w])),
     ReadWantParams = (\<lambda>ts. case ts of TWant w # ts' \<Rightarrow> (w, ts') | _ \<Rightarrow> (None, ts))\<rparr>"

lemma fifo_token_parcel: "fifo_parcel token_parcel (\<lambda>ts. ts)"
  by (simp add: fifo_parcel_def fifo_op_def fifo_raw_def fifo_parcelable_def fifo_want_def
        token_parcel_def tok_read_def)

lemma roomy_token_parcel: "roomy token_parcel"
  by (simp add: roomy_def token_parcel_def)

end
