(* ===== verification/MaskedData.thy ===== *)
theory MaskedData
  imports Prelude
begin

text \<open>
  \<^verbatim>\<open>AVMetaData\<close> and \<^verbatim>\<open>AVPlaybackState\<close> share one design: an object with numbered fields, a bit
  mask of the fields that were set, a table of clone actions and a table of check actions, and
  loops over the keys that copy the fields of a mask or compute the mask of the fields that
  changed. The loops are here once, over the tables as arguments; the locale \<open>masked_data\<close>
  is the contract between a class and the loops, and each of the two classes interprets it.
\<close>

section \<open>The loops\<close>

text \<open>
  \<^verbatim>\<open>for i: if (mask.test(i)) { cloneActions[i](from, to); to.mask.set(i); result = true; }\<close>
\<close>

fun copy_masked ::
  "(nat \<Rightarrow> 'o \<Rightarrow> 'o \<Rightarrow> 'o) \<Rightarrow> (nat \<Rightarrow> 'o \<Rightarrow> 'o) \<Rightarrow> 'm::len word \<Rightarrow> 'o \<Rightarrow> nat list
    \<Rightarrow> bool \<times> 'o \<Rightarrow> bool \<times> 'o" where
  "copy_masked clone setbit m from [] acc = acc"
| "copy_masked clone setbit m from (i # is) (result, to) =
     copy_masked clone setbit m from is
       (if bit m i then (True, setbit i (clone i from to)) else (result, to))"

text \<open>\<^verbatim>\<open>for i: if (filter.test(i) && checkActions[i](a, b)) { result.set(i); }\<close>\<close>

definition changed_mask ::
  "(nat \<Rightarrow> 'o \<Rightarrow> 'o \<Rightarrow> bool) \<Rightarrow> 'm::len word \<Rightarrow> nat list \<Rightarrow> 'o \<Rightarrow> 'o \<Rightarrow> 'm word" where
  "changed_mask check filt is a b =
     fold (\<lambda>i w. if bit filt i \<and> check i a b then set_bit i w else w) is 0"

lemma bit_changed_mask [bit_simps]:
  "bit (changed_mask check (filt::'m::len word) is a b) j
    \<longleftrightarrow> j \<in> set is \<and> bit filt j \<and> check j a b"
  unfolding changed_mask_def by (subst bit_fold_set) (auto dest: bit_imp_le_length)

section \<open>The contract\<close>

text \<open>
  \<open>field\<close> reads a numbered field, \<open>differs\<close> is the comparison of the check actions. A value
  is \<open>stable\<close> if it does not differ from itself: every value but one that holds a NaN.
\<close>

locale masked_data =
  fixes keys :: nat
    and clone :: "nat \<Rightarrow> 'o \<Rightarrow> 'o \<Rightarrow> 'o"
    and check :: "nat \<Rightarrow> 'o \<Rightarrow> 'o \<Rightarrow> bool"
    and getmask :: "'o \<Rightarrow> 'm::len word"
    and setbit :: "nat \<Rightarrow> 'o \<Rightarrow> 'o"
    and field :: "nat \<Rightarrow> 'o \<Rightarrow> 'v"
    and differs :: "'v \<Rightarrow> 'v \<Rightarrow> bool"
  assumes keys_length: "keys = LENGTH('m)"
    and field_clone: "i < keys \<Longrightarrow> j < keys \<Longrightarrow>
          field j (clone i a b) = (if j = i then field i a else field j b)"
    and mask_clone: "i < keys \<Longrightarrow> getmask (clone i a b) = getmask b"
    and field_setbit: "i < keys \<Longrightarrow> field j (setbit i b) = field j b"
    and mask_setbit: "i < keys \<Longrightarrow> getmask (setbit i b) = set_bit i (getmask b)"
    and check_differs: "i < keys \<Longrightarrow> check i a b \<longleftrightarrow> differs (field i a) (field i b)"
begin

definition stable :: "'v \<Rightarrow> bool" where
  "stable v \<longleftrightarrow> \<not> differs v v"

lemma copy_masked_spec:
  fixes m :: "'m word"
  assumes "set is \<subseteq> {..<keys}" and "distinct is" and "j < keys"
    and "copy_masked clone setbit m from is (r, to) = (r', to')"
  shows "field j to' = (if j \<in> set is \<and> bit m j then field j from else field j to) \<and>
    (bit (getmask to') j \<longleftrightarrow> bit (getmask to) j \<or> (j \<in> set is \<and> bit m j)) \<and>
    (r' \<longleftrightarrow> r \<or> (\<exists>i \<in> set is. bit m i))"
  using assms
proof (induction "is" arbitrary: r to)
  case Nil
  then show ?case by simp
next
  case (Cons i "is")
  let ?to = "if bit m i then setbit i (clone i from to) else to"
  have i: "i < keys" "set is \<subseteq> {..<keys}" "distinct is" "i \<notin> set is"
    using Cons.prems(1,2) by auto
  have j: "i = j \<Longrightarrow> j < LENGTH('m)" using i(1) by (simp add: keys_length)
  have "copy_masked clone setbit m from is (r \<or> bit m i, ?to) = (r', to')"
    using Cons.prems(4) by (cases "bit m i") auto
  note IH = Cons.IH [OF i(2,3) Cons.prems(3) this]
  show ?case
    using IH i j Cons.prems(3)
    by (cases "bit m i") (auto simp: field_clone field_setbit mask_clone mask_setbit bit_simps)
qed

lemma copy_keys:
  fixes m :: "'m word"
  assumes "copy_masked clone setbit m from [0..<keys] (False, to) = (r, to')" and "j < keys"
  shows "field j to' = (if bit m j then field j from else field j to)"
    and "bit (getmask to') j \<longleftrightarrow> bit (getmask to) j \<or> bit m j"
    and "r \<longleftrightarrow> m \<noteq> 0"
proof -
  have "r \<longleftrightarrow> (\<exists>i \<in> {..<keys}. bit m i)"
    using copy_masked_spec [OF _ _ assms(2,1)] by (auto simp: atLeast0LessThan)
  also have "\<dots> \<longleftrightarrow> m \<noteq> 0"
    by (auto simp: bit_eq_iff keys_length dest: bit_imp_le_length)
  finally show "r \<longleftrightarrow> m \<noteq> 0" .
qed (use copy_masked_spec [OF _ _ assms(2,1)] assms(2) in \<open>auto simp: atLeast0LessThan\<close>)

lemma copy_mask_or:
  fixes m :: "'m word"
  assumes "copy_masked clone setbit m from [0..<keys] (False, to) = (r, to')"
  shows "getmask to' = getmask to OR m"
proof (rule bit_word_eqI)
  fix j assume "j < LENGTH('m)"
  then show "bit (getmask to') j \<longleftrightarrow> bit (getmask to OR m) j"
    using copy_keys(2) [OF assms] by (simp add: keys_length bit_or_iff)
qed

text \<open>After a copy, no field of the mask counts as changed, unless it holds a NaN.\<close>

lemma changed_after_copy:
  fixes m :: "'m word"
  assumes "copy_masked clone setbit m from [0..<keys] (False, to) = (r, to')"
    and "\<And>j. bit m j \<Longrightarrow> stable (field j from)"
  shows "changed_mask check m [0..<keys] from to' = 0"
    and "changed_mask check m [0..<keys] to' from = 0"
proof -
  have same: "field j to' = field j from" if "j < keys" "bit m j" for j
    using copy_keys(1) [OF assms(1) that(1)] that(2) by simp
  show "changed_mask check m [0..<keys] from to' = 0"
    using assms(2) same by (auto simp: bit_eq_iff bit_simps check_differs stable_def)
  show "changed_mask check m [0..<keys] to' from = 0"
    using assms(2) same by (auto simp: bit_eq_iff bit_simps check_differs stable_def)
qed

text \<open>Copying twice with the same mask is copying once.\<close>

lemma copy_again:
  fixes m :: "'m word"
  assumes "copy_masked clone setbit m from [0..<keys] (False, to) = (r, to')"
    and "copy_masked clone setbit m from [0..<keys] (False, to') = (r2, to2)" and "j < keys"
  shows "field j to2 = field j to'" and "bit (getmask to2) j \<longleftrightarrow> bit (getmask to') j"
  using copy_keys [OF assms(1,3)] copy_keys [OF assms(2,3)] by auto

text \<open>
  Sending only what changed is enough: copying the changed fields leaves no difference within
  the filter, for the fields the sender has set.
\<close>

lemma copy_changed_syncs:
  fixes filt :: "'m word"
  assumes "copy_masked clone setbit (getmask new AND changed_mask check filt [0..<keys] new old) new
      [0..<keys] (False, old) = (r, old')"
    and "j < keys" and "bit filt j" and "bit (getmask new) j" and "stable (field j new)"
  shows "\<not> differs (field j new) (field j old')"
  using copy_keys(1) [OF assms(1,2)] assms(2-5)
  by (auto simp: bit_and_iff bit_simps check_differs stable_def split: if_splits)

end

end
