(* ===== verification/MetaData.thy ===== *)
theory MetaData
  imports Parcel MaskedData
begin

text \<open>
  \<^verbatim>\<open>AVMetaData\<close> (\<^verbatim>\<open>avmeta_data.h\<close>, \<^verbatim>\<open>avmeta_data.cpp\<close>): the object, its setters, the tables of
  clone and check actions, \<^verbatim>\<open>CopyFrom\<close>, \<^verbatim>\<open>CopyToByMask\<close>, \<^verbatim>\<open>GetChangedDataMask\<close>, the two resets,
  \<^verbatim>\<open>IsValid\<close>, \<^verbatim>\<open>EqualWithUri\<close> and \<^verbatim>\<open>GetMediaImageTopic\<close>. The marshalling code is in \<open>MetaWire\<close>.
  A \<^verbatim>\<open>shared_ptr\<close> to a pixel map is an \<open>option\<close>: the operations here never write through it.
\<close>

section \<open>Keys\<close>

abbreviation (input) META_KEY_ASSET_ID :: nat where "META_KEY_ASSET_ID \<equiv> 0"
abbreviation (input) META_KEY_TITLE :: nat where "META_KEY_TITLE \<equiv> 1"
abbreviation (input) META_KEY_ARTIST :: nat where "META_KEY_ARTIST \<equiv> 2"
abbreviation (input) META_KEY_AUTHOR :: nat where "META_KEY_AUTHOR \<equiv> 3"
abbreviation (input) META_KEY_AVQUEUE_NAME :: nat where "META_KEY_AVQUEUE_NAME \<equiv> 4"
abbreviation (input) META_KEY_AVQUEUE_ID :: nat where "META_KEY_AVQUEUE_ID \<equiv> 5"
abbreviation (input) META_KEY_AVQUEUE_IMAGE :: nat where "META_KEY_AVQUEUE_IMAGE \<equiv> 6"
abbreviation (input) META_KEY_AVQUEUE_IMAGE_URI :: nat where "META_KEY_AVQUEUE_IMAGE_URI \<equiv> 7"
abbreviation (input) META_KEY_ALBUM :: nat where "META_KEY_ALBUM \<equiv> 8"
abbreviation (input) META_KEY_WRITER :: nat where "META_KEY_WRITER \<equiv> 9"
abbreviation (input) META_KEY_COMPOSER :: nat where "META_KEY_COMPOSER \<equiv> 10"
abbreviation (input) META_KEY_DURATION :: nat where "META_KEY_DURATION \<equiv> 11"
abbreviation (input) META_KEY_MEDIA_IMAGE :: nat where "META_KEY_MEDIA_IMAGE \<equiv> 12"
abbreviation (input) META_KEY_MEDIA_IMAGE_URI :: nat where "META_KEY_MEDIA_IMAGE_URI \<equiv> 13"
abbreviation (input) META_KEY_PUBLISH_DATE :: nat where "META_KEY_PUBLISH_DATE \<equiv> 14"
abbreviation (input) META_KEY_SUBTITLE :: nat where "META_KEY_SUBTITLE \<equiv> 15"
abbreviation (input) META_KEY_DESCRIPTION :: nat where "META_KEY_DESCRIPTION \<equiv> 16"
abbreviation (input) META_KEY_LYRIC :: nat where "META_KEY_LYRIC \<equiv> 17"
abbreviation (input) META_KEY_PREVIOUS_ASSET_ID :: nat where "META_KEY_PREVIOUS_ASSET_ID \<equiv> 18"
abbreviation (input) META_KEY_NEXT_ASSET_ID :: nat where "META_KEY_NEXT_ASSET_ID \<equiv> 19"
abbreviation (input) META_KEY_SKIP_INTERVALS :: nat where "META_KEY_SKIP_INTERVALS \<equiv> 20"
abbreviation (input) META_KEY_FILTER :: nat where "META_KEY_FILTER \<equiv> 21"
abbreviation (input) META_KEY_DISPLAY_TAGS :: nat where "META_KEY_DISPLAY_TAGS \<equiv> 22"
abbreviation (input) META_KEY_DRM_SCHEMES :: nat where "META_KEY_DRM_SCHEMES \<equiv> 23"
abbreviation (input) META_KEY_BUNDLE_ICON :: nat where "META_KEY_BUNDLE_ICON \<equiv> 24"
abbreviation (input) META_KEY_SINGLE_LYRIC_TEXT :: nat where "META_KEY_SINGLE_LYRIC_TEXT \<equiv> 25"
abbreviation (input) META_KEY_FAST_FORWARD_SKIP_INTERVALS :: nat where "META_KEY_FAST_FORWARD_SKIP_INTERVALS \<equiv> 26"
abbreviation (input) META_KEY_REWIND_SKIP_INTERVALS :: nat where "META_KEY_REWIND_SKIP_INTERVALS \<equiv> 27"

definition META_KEY_MAX :: nat where
  "META_KEY_MAX = 28"

definition DURATION_ALWAYS_PLAY :: int where
  "DURATION_ALWAYS_PLAY = -1"

definition DISPLAY_TAG_ALL :: int where
  "DISPLAY_TAG_ALL = 1"

definition SECONDS_15 :: i32 where
  "SECONDS_15 = 15"

section \<open>The object\<close>

text \<open>
  The mutable lengths \<open>mediaLength\<close> and \<open>avQueueLength\<close> have no key: they are written when the
  object is marshalled. \<open>metaFilter\<close> is \<^verbatim>\<open>filter_\<close>.
\<close>

record avmeta =
  metaMask :: "28 word"
  assetId :: string
  title :: string
  artist :: string
  author :: string
  avQueueName :: string
  avQueueId :: string
  avQueueImage :: "pixel_map option"
  avQueueImageUri :: string
  album :: string
  writer :: string
  composer :: string
  duration :: i64
  mediaImage :: "pixel_map option"
  mediaImageUri :: string
  publishDate :: dbl
  subTitle :: string
  description :: string
  lyric :: string
  previousAssetId :: string
  nextAssetId :: string
  skipIntervals :: i32
  fastForwardSkipIntervals :: i32
  rewindSkipIntervals :: i32
  metaFilter :: i32
  mediaLength :: i32
  avQueueLength :: i32
  displayTags :: i32
  drmSchemes :: "string list"
  bundleIcon :: "pixel_map option"
  singleLyricText :: string

definition new_avmeta :: avmeta where
  "new_avmeta = \<lparr>metaMask = 0,
     assetId = '''', title = '''', artist = '''',
     author = '''', avQueueName = '''', avQueueId = '''',
     avQueueImage = None, avQueueImageUri = '''', album = '''',
     writer = '''', composer = '''', duration = 0,
     mediaImage = None, mediaImageUri = '''', publishDate = DFin 0,
     subTitle = '''', description = '''', lyric = '''',
     previousAssetId = '''', nextAssetId = '''', skipIntervals = SECONDS_15,
     fastForwardSkipIntervals = 0, rewindSkipIntervals = 0, metaFilter = 2,
     mediaLength = 0, avQueueLength = 0, displayTags = 0,
     drmSchemes = [], bundleIcon = None, singleLyricText = ''''\<rparr>"

definition meta_setbit :: "nat \<Rightarrow> avmeta \<Rightarrow> avmeta" where
  "meta_setbit i m = m\<lparr>metaMask := set_bit i (metaMask m)\<rparr>"

section \<open>Setters\<close>

definition meta_SetAssetId :: "string \<Rightarrow> avmeta \<Rightarrow> avmeta" where
  "meta_SetAssetId v m = meta_setbit META_KEY_ASSET_ID (m\<lparr>assetId := v\<rparr>)"

definition meta_SetTitle :: "string \<Rightarrow> avmeta \<Rightarrow> avmeta" where
  "meta_SetTitle v m = meta_setbit META_KEY_TITLE (m\<lparr>title := v\<rparr>)"

definition meta_SetArtist :: "string \<Rightarrow> avmeta \<Rightarrow> avmeta" where
  "meta_SetArtist v m = meta_setbit META_KEY_ARTIST (m\<lparr>artist := v\<rparr>)"

definition meta_SetAuthor :: "string \<Rightarrow> avmeta \<Rightarrow> avmeta" where
  "meta_SetAuthor v m = meta_setbit META_KEY_AUTHOR (m\<lparr>author := v\<rparr>)"

definition meta_SetAVQueueName :: "string \<Rightarrow> avmeta \<Rightarrow> avmeta" where
  "meta_SetAVQueueName v m = meta_setbit META_KEY_AVQUEUE_NAME (m\<lparr>avQueueName := v\<rparr>)"

definition meta_SetAVQueueId :: "string \<Rightarrow> avmeta \<Rightarrow> avmeta" where
  "meta_SetAVQueueId v m = meta_setbit META_KEY_AVQUEUE_ID (m\<lparr>avQueueId := v\<rparr>)"

definition meta_SetAVQueueImage :: "pixel_map option \<Rightarrow> avmeta \<Rightarrow> avmeta" where
  "meta_SetAVQueueImage v m = meta_setbit META_KEY_AVQUEUE_IMAGE (m\<lparr>avQueueImage := v\<rparr>)"

definition meta_SetAVQueueImageUri :: "string \<Rightarrow> avmeta \<Rightarrow> avmeta" where
  "meta_SetAVQueueImageUri v m = meta_setbit META_KEY_AVQUEUE_IMAGE_URI (m\<lparr>avQueueImageUri := v\<rparr>)"

definition meta_SetAlbum :: "string \<Rightarrow> avmeta \<Rightarrow> avmeta" where
  "meta_SetAlbum v m = meta_setbit META_KEY_ALBUM (m\<lparr>album := v\<rparr>)"

definition meta_SetWriter :: "string \<Rightarrow> avmeta \<Rightarrow> avmeta" where
  "meta_SetWriter v m = meta_setbit META_KEY_WRITER (m\<lparr>writer := v\<rparr>)"

definition meta_SetComposer :: "string \<Rightarrow> avmeta \<Rightarrow> avmeta" where
  "meta_SetComposer v m = meta_setbit META_KEY_COMPOSER (m\<lparr>composer := v\<rparr>)"

definition meta_SetDuration :: "i64 \<Rightarrow> avmeta \<Rightarrow> avmeta" where
  "meta_SetDuration v m = meta_setbit META_KEY_DURATION (m\<lparr>duration := v\<rparr>)"

definition meta_SetMediaImage :: "pixel_map option \<Rightarrow> avmeta \<Rightarrow> avmeta" where
  "meta_SetMediaImage v m = meta_setbit META_KEY_MEDIA_IMAGE (m\<lparr>mediaImage := v\<rparr>)"

definition meta_SetMediaImageUri :: "string \<Rightarrow> avmeta \<Rightarrow> avmeta" where
  "meta_SetMediaImageUri v m = meta_setbit META_KEY_MEDIA_IMAGE_URI (m\<lparr>mediaImageUri := v\<rparr>)"

definition meta_SetPublishDate :: "dbl \<Rightarrow> avmeta \<Rightarrow> avmeta" where
  "meta_SetPublishDate v m = meta_setbit META_KEY_PUBLISH_DATE (m\<lparr>publishDate := v\<rparr>)"

definition meta_SetSubTitle :: "string \<Rightarrow> avmeta \<Rightarrow> avmeta" where
  "meta_SetSubTitle v m = meta_setbit META_KEY_SUBTITLE (m\<lparr>subTitle := v\<rparr>)"

definition meta_SetDescription :: "string \<Rightarrow> avmeta \<Rightarrow> avmeta" where
  "meta_SetDescription v m = meta_setbit META_KEY_DESCRIPTION (m\<lparr>description := v\<rparr>)"

definition meta_SetLyric :: "string \<Rightarrow> avmeta \<Rightarrow> avmeta" where
  "meta_SetLyric v m = meta_setbit META_KEY_LYRIC (m\<lparr>lyric := v\<rparr>)"

definition meta_SetPreviousAssetId :: "string \<Rightarrow> avmeta \<Rightarrow> avmeta" where
  "meta_SetPreviousAssetId v m = meta_setbit META_KEY_PREVIOUS_ASSET_ID (m\<lparr>previousAssetId := v\<rparr>)"

definition meta_SetNextAssetId :: "string \<Rightarrow> avmeta \<Rightarrow> avmeta" where
  "meta_SetNextAssetId v m = meta_setbit META_KEY_NEXT_ASSET_ID (m\<lparr>nextAssetId := v\<rparr>)"

definition meta_SetSkipIntervals :: "i32 \<Rightarrow> avmeta \<Rightarrow> avmeta" where
  "meta_SetSkipIntervals v m = meta_setbit META_KEY_SKIP_INTERVALS (m\<lparr>skipIntervals := v\<rparr>)"

definition meta_SetFilter :: "i32 \<Rightarrow> avmeta \<Rightarrow> avmeta" where
  "meta_SetFilter v m = meta_setbit META_KEY_FILTER (m\<lparr>metaFilter := v\<rparr>)"

definition meta_SetDisplayTags :: "i32 \<Rightarrow> avmeta \<Rightarrow> avmeta" where
  "meta_SetDisplayTags v m = 
     (if sint v < 0 \<or> DISPLAY_TAG_ALL < sint v then m
      else meta_setbit META_KEY_DISPLAY_TAGS (m\<lparr>displayTags := v\<rparr>))"

definition meta_SetDrmSchemes :: "string list \<Rightarrow> avmeta \<Rightarrow> avmeta" where
  "meta_SetDrmSchemes v m = meta_setbit META_KEY_DRM_SCHEMES (m\<lparr>drmSchemes := v\<rparr>)"

definition meta_SetBundleIcon :: "pixel_map option \<Rightarrow> avmeta \<Rightarrow> avmeta" where
  "meta_SetBundleIcon v m = meta_setbit META_KEY_BUNDLE_ICON (m\<lparr>bundleIcon := v\<rparr>)"

definition meta_SetSingleLyricText :: "string \<Rightarrow> avmeta \<Rightarrow> avmeta" where
  "meta_SetSingleLyricText v m = meta_setbit META_KEY_SINGLE_LYRIC_TEXT (m\<lparr>singleLyricText := v\<rparr>)"

definition meta_SetFastForwardSkipIntervals :: "i32 \<Rightarrow> avmeta \<Rightarrow> avmeta" where
  "meta_SetFastForwardSkipIntervals v m = meta_setbit META_KEY_FAST_FORWARD_SKIP_INTERVALS (m\<lparr>fastForwardSkipIntervals := v\<rparr>)"

definition meta_SetRewindSkipIntervals :: "i32 \<Rightarrow> avmeta \<Rightarrow> avmeta" where
  "meta_SetRewindSkipIntervals v m = meta_setbit META_KEY_REWIND_SKIP_INTERVALS (m\<lparr>rewindSkipIntervals := v\<rparr>)"

definition meta_SetMediaLength :: "i32 \<Rightarrow> avmeta \<Rightarrow> avmeta" where
  "meta_SetMediaLength v m = m\<lparr>mediaLength := v\<rparr>"

definition meta_SetAVQueueLength :: "i32 \<Rightarrow> avmeta \<Rightarrow> avmeta" where
  "meta_SetAVQueueLength v m = m\<lparr>avQueueLength := v\<rparr>"

section \<open>Clone and check actions\<close>

text \<open>The comparison of two images: equal when both are absent or hold the same bytes.\<close>

fun image_change :: "pixel_map option \<Rightarrow> pixel_map option \<Rightarrow> bool" where
  "image_change None None = False"
| "image_change (Some a) (Some b) = (\<not> pm_Equals a b)"
| "image_change _ _ = True"

definition meta_CloneAssetId :: "avmeta \<Rightarrow> avmeta \<Rightarrow> avmeta" where
  "meta_CloneAssetId from to = to\<lparr>assetId := assetId from\<rparr>"

definition meta_CloneTitle :: "avmeta \<Rightarrow> avmeta \<Rightarrow> avmeta" where
  "meta_CloneTitle from to = to\<lparr>title := title from\<rparr>"

definition meta_CloneArtist :: "avmeta \<Rightarrow> avmeta \<Rightarrow> avmeta" where
  "meta_CloneArtist from to = to\<lparr>artist := artist from\<rparr>"

definition meta_CloneAuthor :: "avmeta \<Rightarrow> avmeta \<Rightarrow> avmeta" where
  "meta_CloneAuthor from to = to\<lparr>author := author from\<rparr>"

definition meta_CloneAVQueueName :: "avmeta \<Rightarrow> avmeta \<Rightarrow> avmeta" where
  "meta_CloneAVQueueName from to = to\<lparr>avQueueName := avQueueName from\<rparr>"

definition meta_CloneAVQueueId :: "avmeta \<Rightarrow> avmeta \<Rightarrow> avmeta" where
  "meta_CloneAVQueueId from to = to\<lparr>avQueueId := avQueueId from\<rparr>"

definition meta_CloneAVQueueImage :: "avmeta \<Rightarrow> avmeta \<Rightarrow> avmeta" where
  "meta_CloneAVQueueImage from to = to\<lparr>avQueueImage := avQueueImage from\<rparr>"

definition meta_CloneAVQueueImageUri :: "avmeta \<Rightarrow> avmeta \<Rightarrow> avmeta" where
  "meta_CloneAVQueueImageUri from to = to\<lparr>avQueueImageUri := avQueueImageUri from\<rparr>"

definition meta_CloneAlbum :: "avmeta \<Rightarrow> avmeta \<Rightarrow> avmeta" where
  "meta_CloneAlbum from to = to\<lparr>album := album from\<rparr>"

definition meta_CloneWriter :: "avmeta \<Rightarrow> avmeta \<Rightarrow> avmeta" where
  "meta_CloneWriter from to = to\<lparr>writer := writer from\<rparr>"

definition meta_CloneComposer :: "avmeta \<Rightarrow> avmeta \<Rightarrow> avmeta" where
  "meta_CloneComposer from to = to\<lparr>composer := composer from\<rparr>"

definition meta_CloneDuration :: "avmeta \<Rightarrow> avmeta \<Rightarrow> avmeta" where
  "meta_CloneDuration from to = to\<lparr>duration := duration from\<rparr>"

definition meta_CloneMediaImage :: "avmeta \<Rightarrow> avmeta \<Rightarrow> avmeta" where
  "meta_CloneMediaImage from to = to\<lparr>mediaImage := mediaImage from\<rparr>"

definition meta_CloneMediaImageUri :: "avmeta \<Rightarrow> avmeta \<Rightarrow> avmeta" where
  "meta_CloneMediaImageUri from to = to\<lparr>mediaImageUri := mediaImageUri from\<rparr>"

definition meta_ClonePublishData :: "avmeta \<Rightarrow> avmeta \<Rightarrow> avmeta" where
  "meta_ClonePublishData from to = to\<lparr>publishDate := publishDate from\<rparr>"

definition meta_CloneSubTitle :: "avmeta \<Rightarrow> avmeta \<Rightarrow> avmeta" where
  "meta_CloneSubTitle from to = to\<lparr>subTitle := subTitle from\<rparr>"

definition meta_CloneDescription :: "avmeta \<Rightarrow> avmeta \<Rightarrow> avmeta" where
  "meta_CloneDescription from to = to\<lparr>description := description from\<rparr>"

definition meta_CloneLyric :: "avmeta \<Rightarrow> avmeta \<Rightarrow> avmeta" where
  "meta_CloneLyric from to = to\<lparr>lyric := lyric from\<rparr>"

definition meta_ClonePreviousAssetId :: "avmeta \<Rightarrow> avmeta \<Rightarrow> avmeta" where
  "meta_ClonePreviousAssetId from to = to\<lparr>previousAssetId := previousAssetId from\<rparr>"

definition meta_CloneNextAssetId :: "avmeta \<Rightarrow> avmeta \<Rightarrow> avmeta" where
  "meta_CloneNextAssetId from to = to\<lparr>nextAssetId := nextAssetId from\<rparr>"

definition meta_CloneSkipIntervals :: "avmeta \<Rightarrow> avmeta \<Rightarrow> avmeta" where
  "meta_CloneSkipIntervals from to = to\<lparr>skipIntervals := skipIntervals from\<rparr>"

definition meta_CloneFilter :: "avmeta \<Rightarrow> avmeta \<Rightarrow> avmeta" where
  "meta_CloneFilter from to = to\<lparr>metaFilter := metaFilter from\<rparr>"

definition meta_CloneDisplayTags :: "avmeta \<Rightarrow> avmeta \<Rightarrow> avmeta" where
  "meta_CloneDisplayTags from to = to\<lparr>displayTags := displayTags from\<rparr>"

definition meta_CloneDrmSchemes :: "avmeta \<Rightarrow> avmeta \<Rightarrow> avmeta" where
  "meta_CloneDrmSchemes from to = to\<lparr>drmSchemes := drmSchemes from\<rparr>"

definition meta_CloneBundleIcon :: "avmeta \<Rightarrow> avmeta \<Rightarrow> avmeta" where
  "meta_CloneBundleIcon from to = to\<lparr>bundleIcon := bundleIcon from\<rparr>"

definition meta_CloneSingleLyricText :: "avmeta \<Rightarrow> avmeta \<Rightarrow> avmeta" where
  "meta_CloneSingleLyricText from to = to\<lparr>singleLyricText := singleLyricText from\<rparr>"

definition meta_CloneFastForwardSkipIntervals :: "avmeta \<Rightarrow> avmeta \<Rightarrow> avmeta" where
  "meta_CloneFastForwardSkipIntervals from to = to\<lparr>fastForwardSkipIntervals := fastForwardSkipIntervals from\<rparr>"

definition meta_CloneRewindSkipIntervals :: "avmeta \<Rightarrow> avmeta \<Rightarrow> avmeta" where
  "meta_CloneRewindSkipIntervals from to = to\<lparr>rewindSkipIntervals := rewindSkipIntervals from\<rparr>"

definition meta_CheckAssetIdChange :: "avmeta \<Rightarrow> avmeta \<Rightarrow> bool" where
  "meta_CheckAssetIdChange from to \<longleftrightarrow> assetId from \<noteq> assetId to"

definition meta_CheckTitleChange :: "avmeta \<Rightarrow> avmeta \<Rightarrow> bool" where
  "meta_CheckTitleChange from to \<longleftrightarrow> title from \<noteq> title to"

definition meta_CheckArtistChange :: "avmeta \<Rightarrow> avmeta \<Rightarrow> bool" where
  "meta_CheckArtistChange from to \<longleftrightarrow> artist from \<noteq> artist to"

definition meta_CheckAuthorChange :: "avmeta \<Rightarrow> avmeta \<Rightarrow> bool" where
  "meta_CheckAuthorChange from to \<longleftrightarrow> author from \<noteq> author to"

definition meta_CheckAVQueueNameChange :: "avmeta \<Rightarrow> avmeta \<Rightarrow> bool" where
  "meta_CheckAVQueueNameChange from to \<longleftrightarrow> avQueueName from \<noteq> avQueueName to"

definition meta_CheckAVQueueIdChange :: "avmeta \<Rightarrow> avmeta \<Rightarrow> bool" where
  "meta_CheckAVQueueIdChange from to \<longleftrightarrow> avQueueId from \<noteq> avQueueId to"

definition meta_CheckAVQueueImageChange :: "avmeta \<Rightarrow> avmeta \<Rightarrow> bool" where
  "meta_CheckAVQueueImageChange from to \<longleftrightarrow> image_change (avQueueImage from) (avQueueImage to)"

definition meta_CheckAVQueueImageUriChange :: "avmeta \<Rightarrow> avmeta \<Rightarrow> bool" where
  "meta_CheckAVQueueImageUriChange from to \<longleftrightarrow> avQueueImageUri from \<noteq> avQueueImageUri to"

definition meta_CheckAlbumChange :: "avmeta \<Rightarrow> avmeta \<Rightarrow> bool" where
  "meta_CheckAlbumChange from to \<longleftrightarrow> album from \<noteq> album to"

definition meta_CheckWriterChange :: "avmeta \<Rightarrow> avmeta \<Rightarrow> bool" where
  "meta_CheckWriterChange from to \<longleftrightarrow> writer from \<noteq> writer to"

definition meta_CheckComposerChange :: "avmeta \<Rightarrow> avmeta \<Rightarrow> bool" where
  "meta_CheckComposerChange from to \<longleftrightarrow> composer from \<noteq> composer to"

definition meta_CheckDurationChange :: "avmeta \<Rightarrow> avmeta \<Rightarrow> bool" where
  "meta_CheckDurationChange from to \<longleftrightarrow> duration from \<noteq> duration to"

definition meta_CheckMediaImageChange :: "avmeta \<Rightarrow> avmeta \<Rightarrow> bool" where
  "meta_CheckMediaImageChange from to \<longleftrightarrow> image_change (mediaImage from) (mediaImage to)"

definition meta_CheckMediaImageUriChange :: "avmeta \<Rightarrow> avmeta \<Rightarrow> bool" where
  "meta_CheckMediaImageUriChange from to \<longleftrightarrow> mediaImageUri from \<noteq> mediaImageUri to"

definition meta_CheckPublishDataChange :: "avmeta \<Rightarrow> avmeta \<Rightarrow> bool" where
  "meta_CheckPublishDataChange from to \<longleftrightarrow> \<not> dbl_eq (publishDate from) (publishDate to)"

definition meta_CheckSubTitleChange :: "avmeta \<Rightarrow> avmeta \<Rightarrow> bool" where
  "meta_CheckSubTitleChange from to \<longleftrightarrow> subTitle from \<noteq> subTitle to"

definition meta_CheckDescriptionChange :: "avmeta \<Rightarrow> avmeta \<Rightarrow> bool" where
  "meta_CheckDescriptionChange from to \<longleftrightarrow> description from \<noteq> description to"

definition meta_CheckLyricChange :: "avmeta \<Rightarrow> avmeta \<Rightarrow> bool" where
  "meta_CheckLyricChange from to \<longleftrightarrow> lyric from \<noteq> lyric to"

definition meta_CheckPreviousAssetIdChange :: "avmeta \<Rightarrow> avmeta \<Rightarrow> bool" where
  "meta_CheckPreviousAssetIdChange from to \<longleftrightarrow> previousAssetId from \<noteq> previousAssetId to"

definition meta_CheckNextAssetIdChange :: "avmeta \<Rightarrow> avmeta \<Rightarrow> bool" where
  "meta_CheckNextAssetIdChange from to \<longleftrightarrow> nextAssetId from \<noteq> nextAssetId to"

definition meta_CheckSkipIntervalsChange :: "avmeta \<Rightarrow> avmeta \<Rightarrow> bool" where
  "meta_CheckSkipIntervalsChange from to \<longleftrightarrow> skipIntervals from \<noteq> skipIntervals to"

definition meta_CheckFilterChange :: "avmeta \<Rightarrow> avmeta \<Rightarrow> bool" where
  "meta_CheckFilterChange from to \<longleftrightarrow> metaFilter from \<noteq> metaFilter to"

definition meta_CheckDisplayTagsChange :: "avmeta \<Rightarrow> avmeta \<Rightarrow> bool" where
  "meta_CheckDisplayTagsChange from to \<longleftrightarrow> displayTags from \<noteq> displayTags to"

definition meta_CheckDrmSchemesChange :: "avmeta \<Rightarrow> avmeta \<Rightarrow> bool" where
  "meta_CheckDrmSchemesChange from to \<longleftrightarrow> drmSchemes from \<noteq> drmSchemes to"

definition meta_CheckBundleIconChange :: "avmeta \<Rightarrow> avmeta \<Rightarrow> bool" where
  "meta_CheckBundleIconChange from to \<longleftrightarrow> image_change (bundleIcon from) (bundleIcon to)"

definition meta_CheckSingleLyricTextChange :: "avmeta \<Rightarrow> avmeta \<Rightarrow> bool" where
  "meta_CheckSingleLyricTextChange from to \<longleftrightarrow> singleLyricText from \<noteq> singleLyricText to"

definition meta_CheckFastForwardSkipIntervalsChange :: "avmeta \<Rightarrow> avmeta \<Rightarrow> bool" where
  "meta_CheckFastForwardSkipIntervalsChange from to \<longleftrightarrow> fastForwardSkipIntervals from \<noteq> fastForwardSkipIntervals to"

definition meta_CheckRewindSkipIntervalsChange :: "avmeta \<Rightarrow> avmeta \<Rightarrow> bool" where
  "meta_CheckRewindSkipIntervalsChange from to \<longleftrightarrow> rewindSkipIntervals from \<noteq> rewindSkipIntervals to"

definition meta_cloneActions :: "(avmeta \<Rightarrow> avmeta \<Rightarrow> avmeta) list" where
  "meta_cloneActions = [
     meta_CloneAssetId, meta_CloneTitle, meta_CloneArtist, meta_CloneAuthor,
     meta_CloneAVQueueName, meta_CloneAVQueueId, meta_CloneAVQueueImage,
     meta_CloneAVQueueImageUri, meta_CloneAlbum, meta_CloneWriter, meta_CloneComposer,
     meta_CloneDuration, meta_CloneMediaImage, meta_CloneMediaImageUri, meta_ClonePublishData,
     meta_CloneSubTitle, meta_CloneDescription, meta_CloneLyric, meta_ClonePreviousAssetId,
     meta_CloneNextAssetId, meta_CloneSkipIntervals, meta_CloneFilter, meta_CloneDisplayTags,
     meta_CloneDrmSchemes, meta_CloneBundleIcon, meta_CloneSingleLyricText,
     meta_CloneFastForwardSkipIntervals, meta_CloneRewindSkipIntervals]"

definition meta_checkActions :: "(avmeta \<Rightarrow> avmeta \<Rightarrow> bool) list" where
  "meta_checkActions = [
     meta_CheckAssetIdChange, meta_CheckTitleChange, meta_CheckArtistChange,
     meta_CheckAuthorChange, meta_CheckAVQueueNameChange, meta_CheckAVQueueIdChange,
     meta_CheckAVQueueImageChange, meta_CheckAVQueueImageUriChange, meta_CheckAlbumChange,
     meta_CheckWriterChange, meta_CheckComposerChange, meta_CheckDurationChange,
     meta_CheckMediaImageChange, meta_CheckMediaImageUriChange, meta_CheckPublishDataChange,
     meta_CheckSubTitleChange, meta_CheckDescriptionChange, meta_CheckLyricChange,
     meta_CheckPreviousAssetIdChange, meta_CheckNextAssetIdChange,
     meta_CheckSkipIntervalsChange, meta_CheckFilterChange, meta_CheckDisplayTagsChange,
     meta_CheckDrmSchemesChange, meta_CheckBundleIconChange, meta_CheckSingleLyricTextChange,
     meta_CheckFastForwardSkipIntervalsChange, meta_CheckRewindSkipIntervalsChange]"

text \<open>All fields with a key, as a list of tagged values.\<close>

datatype meta_field = MStr string | MImg "pixel_map option" | MLong i64 | MInt i32 | MDbl dbl
  | MStrs "string list"

definition meta_fields :: "avmeta \<Rightarrow> meta_field list" where
  "meta_fields m = [
     MStr (assetId m), MStr (title m), MStr (artist m), MStr (author m), MStr (avQueueName m),
     MStr (avQueueId m), MImg (avQueueImage m), MStr (avQueueImageUri m), MStr (album m),
     MStr (writer m), MStr (composer m), MLong (duration m), MImg (mediaImage m),
     MStr (mediaImageUri m), MDbl (publishDate m), MStr (subTitle m), MStr (description m),
     MStr (lyric m), MStr (previousAssetId m), MStr (nextAssetId m), MInt (skipIntervals m),
     MInt (metaFilter m), MInt (displayTags m), MStrs (drmSchemes m), MImg (bundleIcon m),
     MStr (singleLyricText m), MInt (fastForwardSkipIntervals m), MInt (rewindSkipIntervals m)]"

lemmas meta_clone_defs =
  meta_CloneAssetId_def meta_CloneTitle_def meta_CloneArtist_def meta_CloneAuthor_def
  meta_CloneAVQueueName_def meta_CloneAVQueueId_def meta_CloneAVQueueImage_def
  meta_CloneAVQueueImageUri_def meta_CloneAlbum_def meta_CloneWriter_def
  meta_CloneComposer_def meta_CloneDuration_def meta_CloneMediaImage_def
  meta_CloneMediaImageUri_def meta_ClonePublishData_def meta_CloneSubTitle_def
  meta_CloneDescription_def meta_CloneLyric_def meta_ClonePreviousAssetId_def
  meta_CloneNextAssetId_def meta_CloneSkipIntervals_def meta_CloneFilter_def
  meta_CloneDisplayTags_def meta_CloneDrmSchemes_def meta_CloneBundleIcon_def
  meta_CloneSingleLyricText_def meta_CloneFastForwardSkipIntervals_def
  meta_CloneRewindSkipIntervals_def

lemmas meta_check_defs =
  meta_CheckAssetIdChange_def meta_CheckTitleChange_def meta_CheckArtistChange_def
  meta_CheckAuthorChange_def meta_CheckAVQueueNameChange_def meta_CheckAVQueueIdChange_def
  meta_CheckAVQueueImageChange_def meta_CheckAVQueueImageUriChange_def
  meta_CheckAlbumChange_def meta_CheckWriterChange_def meta_CheckComposerChange_def
  meta_CheckDurationChange_def meta_CheckMediaImageChange_def
  meta_CheckMediaImageUriChange_def meta_CheckPublishDataChange_def
  meta_CheckSubTitleChange_def meta_CheckDescriptionChange_def meta_CheckLyricChange_def
  meta_CheckPreviousAssetIdChange_def meta_CheckNextAssetIdChange_def
  meta_CheckSkipIntervalsChange_def meta_CheckFilterChange_def
  meta_CheckDisplayTagsChange_def meta_CheckDrmSchemesChange_def
  meta_CheckBundleIconChange_def meta_CheckSingleLyricTextChange_def
  meta_CheckFastForwardSkipIntervalsChange_def meta_CheckRewindSkipIntervalsChange_def

lemmas meta_set_defs =
  meta_SetAssetId_def meta_SetTitle_def meta_SetArtist_def meta_SetAuthor_def
  meta_SetAVQueueName_def meta_SetAVQueueId_def meta_SetAVQueueImage_def
  meta_SetAVQueueImageUri_def meta_SetAlbum_def meta_SetWriter_def meta_SetComposer_def
  meta_SetDuration_def meta_SetMediaImage_def meta_SetMediaImageUri_def
  meta_SetPublishDate_def meta_SetSubTitle_def meta_SetDescription_def meta_SetLyric_def
  meta_SetPreviousAssetId_def meta_SetNextAssetId_def meta_SetSkipIntervals_def
  meta_SetFilter_def meta_SetDisplayTags_def meta_SetDrmSchemes_def meta_SetBundleIcon_def
  meta_SetSingleLyricText_def meta_SetFastForwardSkipIntervals_def
  meta_SetRewindSkipIntervals_def
section \<open>Operations on whole objects\<close>

definition meta_CopyToByMask :: "28 word \<Rightarrow> avmeta \<Rightarrow> avmeta \<Rightarrow> bool \<times> avmeta" where
  "meta_CopyToByMask msk self metaOut =
     copy_masked ((!) meta_cloneActions) meta_setbit (metaMask self AND msk) self
       [0..<META_KEY_MAX] (False, metaOut)"

definition meta_GetChangedDataMask :: "28 word \<Rightarrow> avmeta \<Rightarrow> avmeta \<Rightarrow> 28 word" where
  "meta_GetChangedDataMask filt self newData =
     changed_mask ((!) meta_checkActions) filt [0..<META_KEY_MAX] self newData"

definition meta_CopyFrom :: "avmeta \<Rightarrow> avmeta \<Rightarrow> bool \<times> avmeta" where
  "meta_CopyFrom metaIn self =
     (if assetId metaIn = '''' then (False, self)
      else if assetId metaIn \<noteq> assetId self then (True, metaIn)
      else copy_masked ((!) meta_cloneActions) meta_setbit (metaMask metaIn) metaIn
             [0..<META_KEY_MAX] (False, self))"

definition meta_IsValid :: "avmeta \<Rightarrow> bool" where
  "meta_IsValid m \<longleftrightarrow> DURATION_ALWAYS_PLAY \<le> sint (duration m) \<and> dbl_le (DFin 0) (publishDate m)
     \<and> sint (displayTags m) \<le> DISPLAY_TAG_ALL"

definition meta_EqualWithUri :: "avmeta \<Rightarrow> avmeta \<Rightarrow> bool" where
  "meta_EqualWithUri metaData self =
     (if mediaImage metaData \<noteq> None then False
      else assetId self = assetId metaData \<and> title self = title metaData
        \<and> artist self = artist metaData \<and> author self = author metaData
        \<and> avQueueName self = avQueueName metaData \<and> avQueueId self = avQueueId metaData
        \<and> avQueueImageUri self = avQueueImageUri metaData \<and> album self = album metaData
        \<and> writer self = writer metaData \<and> composer self = composer metaData
        \<and> duration self = duration metaData \<and> mediaImageUri self = mediaImageUri metaData
        \<and> dbl_eq (publishDate self) (publishDate metaData) \<and> subTitle self = subTitle metaData
        \<and> description self = description metaData \<and> lyric self = lyric metaData
        \<and> singleLyricText self = singleLyricText metaData
        \<and> previousAssetId self = previousAssetId metaData
        \<and> nextAssetId self = nextAssetId metaData \<and> skipIntervals self = skipIntervals metaData
        \<and> fastForwardSkipIntervals self = fastForwardSkipIntervals metaData
        \<and> rewindSkipIntervals self = rewindSkipIntervals metaData
        \<and> metaFilter self = metaFilter metaData \<and> displayTags self = displayTags metaData
        \<and> drmSchemes self = drmSchemes metaData)"

text \<open>
  \<^verbatim>\<open>GetMediaImageTopic\<close> adds two neighbouring bytes of the buffer as a \<^verbatim>\<open>uint8_t\<close>. An index out of
  range would be \<open>None\<close>; \<open>INT_MAX\<close> is 2147483647.
\<close>

definition nth_byte :: "byte list \<Rightarrow> nat \<Rightarrow> byte option" where
  "nth_byte bs i = (if i < length bs then Some (bs ! i) else None)"

definition meta_GetMediaImageTopic :: "avmeta \<Rightarrow> int option" where
  "meta_GetMediaImageTopic m = (case mediaImage m of
     None \<Rightarrow> Some (-1)
   | Some pm \<Rightarrow>
       (let imgBuffer = innerImgBuffer pm; imgSize = length imgBuffer in
        if \<not> imgSize \<le> 2147483647 then Some (-1)
        else if \<not> 2 < imgSize then Some (-1)
        else (case (nth_byte imgBuffer (imgSize div 2), nth_byte imgBuffer (imgSize div 2 + 1)) of
                (Some a, Some b) \<Rightarrow> Some (uint (a + b))
              | _ \<Rightarrow> None)))"

definition meta_Reset :: "avmeta \<Rightarrow> avmeta" where
  "meta_Reset m = m\<lparr>metaMask := 0, assetId := '''', title := '''', artist := '''', author := '''',
     avQueueName := '''', avQueueId := '''', avQueueImage := None, avQueueImageUri := '''',
     bundleIcon := None, album := '''', writer := '''', composer := '''', duration := 0,
     mediaImage := None, mediaImageUri := '''', publishDate := DFin 0, subTitle := '''',
     description := '''', lyric := '''', singleLyricText := '''', previousAssetId := '''',
     nextAssetId := '''', skipIntervals := SECONDS_15, fastForwardSkipIntervals := 0,
     rewindSkipIntervals := 0, displayTags := 0, drmSchemes := []\<rparr>"

definition meta_ResetToBaseMeta :: "avmeta \<Rightarrow> avmeta" where
  "meta_ResetToBaseMeta m = m\<lparr>
     metaMask := set_bit META_KEY_MEDIA_IMAGE_URI (set_bit META_KEY_MEDIA_IMAGE
                   (set_bit META_KEY_ASSET_ID 0)),
     title := '''', artist := '''', author := '''', avQueueName := '''', avQueueId := '''',
     avQueueImage := None, avQueueImageUri := '''', bundleIcon := None, album := '''',
     writer := '''', composer := '''', duration := 0, publishDate := DFin 0, subTitle := '''',
     description := '''', lyric := '''', singleLyricText := '''', previousAssetId := '''',
     nextAssetId := '''', skipIntervals := SECONDS_15, fastForwardSkipIntervals := 0,
     rewindSkipIntervals := 0, displayTags := 0, drmSchemes := []\<rparr>"

section \<open>The tables keep the contract\<close>

fun meta_differs :: "meta_field \<Rightarrow> meta_field \<Rightarrow> bool" where
  "meta_differs (MImg a) (MImg b) = image_change a b"
| "meta_differs (MDbl a) (MDbl b) = (\<not> dbl_eq a b)"
| "meta_differs a b = (a \<noteq> b)"

lemma less_META_KEY_MAX:
  assumes "i < META_KEY_MAX"
  obtains "i = 0" | "i = 1" | "i = 2" | "i = 3" | "i = 4" | "i = 5" | "i = 6" | "i = 7" | "i = 8"
    | "i = 9" | "i = 10" | "i = 11" | "i = 12" | "i = 13" | "i = 14" | "i = 15" | "i = 16"
    | "i = 17" | "i = 18" | "i = 19" | "i = 20" | "i = 21" | "i = 22" | "i = 23" | "i = 24"
    | "i = 25" | "i = 26" | "i = 27"
  using assms unfolding META_KEY_MAX_def by (atomize_elim) presburger

lemma length_meta_fields [simp]: "length (meta_fields m) = META_KEY_MAX"
  by (simp add: meta_fields_def META_KEY_MAX_def)

lemma meta_fields_clone:
  "i < META_KEY_MAX \<Longrightarrow>
     meta_fields ((meta_cloneActions ! i) a b) = (meta_fields b)[i := meta_fields a ! i]"
  by (erule less_META_KEY_MAX)
    (simp_all add: meta_cloneActions_def meta_clone_defs meta_fields_def)

lemma metaMask_clone: "i < META_KEY_MAX \<Longrightarrow> metaMask ((meta_cloneActions ! i) a b) = metaMask b"
  by (erule less_META_KEY_MAX) (simp_all add: meta_cloneActions_def meta_clone_defs)

lemma meta_check_fields:
  "i < META_KEY_MAX \<Longrightarrow>
     (meta_checkActions ! i) a b \<longleftrightarrow> meta_differs (meta_fields a ! i) (meta_fields b ! i)"
  by (erule less_META_KEY_MAX)
    (simp_all add: meta_checkActions_def meta_check_defs meta_fields_def)

lemma meta_fields_setbit [simp]: "meta_fields (meta_setbit i m) = meta_fields m"
  by (simp add: meta_setbit_def meta_fields_def)

lemma metaMask_setbit [simp]: "metaMask (meta_setbit i m) = set_bit i (metaMask m)"
  by (simp add: meta_setbit_def)

interpretation meta: masked_data META_KEY_MAX "(!) meta_cloneActions" "(!) meta_checkActions"
  metaMask meta_setbit "\<lambda>i m. meta_fields m ! i" meta_differs
  by unfold_locales
    (simp_all add: meta_fields_clone metaMask_clone meta_check_fields, simp add: META_KEY_MAX_def)

lemma meta_stable_iff: "meta.stable v \<longleftrightarrow> v \<noteq> MDbl DNaN"
proof -
  have "\<not> image_change x x" for x by (cases x) (simp_all add: pm_Equals_def)
  then show ?thesis by (cases v) (auto simp: meta.stable_def)
qed

text \<open>Two objects with the same mask, the same fields and the same lengths are equal.\<close>

lemma avmeta_eqI:
  "metaMask a = metaMask b \<Longrightarrow> meta_fields a = meta_fields b \<Longrightarrow> mediaLength a = mediaLength b
    \<Longrightarrow> avQueueLength a = avQueueLength b \<Longrightarrow> a = (b::avmeta)"
  by (cases a; cases b) (simp add: meta_fields_def)

end
