(* ===== verification/MetaInv.thy ===== *)
theory MetaInv
  imports MetaData
begin

text \<open>
  The metadata objects a client can build: from a new object by any sequence of setters, resets
  and copies. What holds of all of them: a field whose mask bit is clear has its initial value
  (but for the filter, which \<^verbatim>\<open>Reset\<close> leaves alone), and the display tags are in range. Then the
  properties of the copy operations, read off the interpretation of \<open>masked_data\<close>.
\<close>

section \<open>Reachable objects\<close>

inductive meta_reachable :: "avmeta \<Rightarrow> bool" where
  meta_new: "meta_reachable new_avmeta"
| meta_set_assetId: "meta_reachable m \<Longrightarrow> meta_reachable (meta_SetAssetId v m)"
| meta_set_title: "meta_reachable m \<Longrightarrow> meta_reachable (meta_SetTitle v m)"
| meta_set_artist: "meta_reachable m \<Longrightarrow> meta_reachable (meta_SetArtist v m)"
| meta_set_author: "meta_reachable m \<Longrightarrow> meta_reachable (meta_SetAuthor v m)"
| meta_set_avQueueName: "meta_reachable m \<Longrightarrow> meta_reachable (meta_SetAVQueueName v m)"
| meta_set_avQueueId: "meta_reachable m \<Longrightarrow> meta_reachable (meta_SetAVQueueId v m)"
| meta_set_avQueueImage: "meta_reachable m \<Longrightarrow> meta_reachable (meta_SetAVQueueImage v m)"
| meta_set_avQueueImageUri: "meta_reachable m \<Longrightarrow> meta_reachable (meta_SetAVQueueImageUri v m)"
| meta_set_album: "meta_reachable m \<Longrightarrow> meta_reachable (meta_SetAlbum v m)"
| meta_set_writer: "meta_reachable m \<Longrightarrow> meta_reachable (meta_SetWriter v m)"
| meta_set_composer: "meta_reachable m \<Longrightarrow> meta_reachable (meta_SetComposer v m)"
| meta_set_duration: "meta_reachable m \<Longrightarrow> meta_reachable (meta_SetDuration v m)"
| meta_set_mediaImage: "meta_reachable m \<Longrightarrow> meta_reachable (meta_SetMediaImage v m)"
| meta_set_mediaImageUri: "meta_reachable m \<Longrightarrow> meta_reachable (meta_SetMediaImageUri v m)"
| meta_set_publishDate: "meta_reachable m \<Longrightarrow> meta_reachable (meta_SetPublishDate v m)"
| meta_set_subTitle: "meta_reachable m \<Longrightarrow> meta_reachable (meta_SetSubTitle v m)"
| meta_set_description: "meta_reachable m \<Longrightarrow> meta_reachable (meta_SetDescription v m)"
| meta_set_lyric: "meta_reachable m \<Longrightarrow> meta_reachable (meta_SetLyric v m)"
| meta_set_previousAssetId: "meta_reachable m \<Longrightarrow> meta_reachable (meta_SetPreviousAssetId v m)"
| meta_set_nextAssetId: "meta_reachable m \<Longrightarrow> meta_reachable (meta_SetNextAssetId v m)"
| meta_set_skipIntervals: "meta_reachable m \<Longrightarrow> meta_reachable (meta_SetSkipIntervals v m)"
| meta_set_metaFilter: "meta_reachable m \<Longrightarrow> meta_reachable (meta_SetFilter v m)"
| meta_set_displayTags: "meta_reachable m \<Longrightarrow> meta_reachable (meta_SetDisplayTags v m)"
| meta_set_drmSchemes: "meta_reachable m \<Longrightarrow> meta_reachable (meta_SetDrmSchemes v m)"
| meta_set_bundleIcon: "meta_reachable m \<Longrightarrow> meta_reachable (meta_SetBundleIcon v m)"
| meta_set_singleLyricText: "meta_reachable m \<Longrightarrow> meta_reachable (meta_SetSingleLyricText v m)"
| meta_set_fastForwardSkipIntervals: "meta_reachable m \<Longrightarrow> meta_reachable (meta_SetFastForwardSkipIntervals v m)"
| meta_set_rewindSkipIntervals: "meta_reachable m \<Longrightarrow> meta_reachable (meta_SetRewindSkipIntervals v m)"
| meta_reset: "meta_reachable m \<Longrightarrow> meta_reachable (meta_Reset m)"
| meta_reset_base: "meta_reachable m \<Longrightarrow> meta_reachable (meta_ResetToBaseMeta m)"
| meta_copy_from: "meta_reachable m \<Longrightarrow> meta_reachable n \<Longrightarrow> meta_CopyFrom n m = (r, m') \<Longrightarrow>
     meta_reachable m'"
| meta_copy_mask: "meta_reachable m \<Longrightarrow> meta_reachable n \<Longrightarrow>
     meta_CopyToByMask msk n m = (r, m') \<Longrightarrow> meta_reachable m'"

definition meta_masked :: "avmeta \<Rightarrow> bool" where
  "meta_masked m \<longleftrightarrow>
     (\<forall>k < META_KEY_MAX. k \<noteq> META_KEY_FILTER \<longrightarrow> \<not> bit (metaMask m) k \<longrightarrow>
        meta_fields m ! k = meta_fields new_avmeta ! k)
     \<and> 0 \<le> sint (displayTags m) \<and> sint (displayTags m) \<le> DISPLAY_TAG_ALL"

lemma META_KEY_MAX_len: "META_KEY_MAX = LENGTH(28)"
  by (simp add: META_KEY_MAX_def)

lemma displayTags_field: "meta_fields m ! META_KEY_DISPLAY_TAGS = MInt (displayTags m)"
  by (simp add: meta_fields_def)

lemma meta_masked_set:
  assumes "meta_masked m" and "metaMask m' = metaMask m" and "k < META_KEY_MAX"
    and "meta_fields m' = (meta_fields m)[k := x]"
    and "0 \<le> sint (displayTags m') \<and> sint (displayTags m') \<le> DISPLAY_TAG_ALL"
  shows "meta_masked (meta_setbit k m')"
proof -
  have "displayTags (meta_setbit k m') = displayTags m'"
    by (simp add: meta_setbit_def)
  with assms show ?thesis
    by (auto simp: meta_masked_def bit_simps META_KEY_MAX_def nth_list_update)
qed

lemma meta_masked_set':
  assumes "meta_masked m" and "metaMask m' = metaMask m" and "k < META_KEY_MAX"
    and "meta_fields m' = (meta_fields m)[k := x]" and "displayTags m' = displayTags m"
  shows "meta_masked (meta_setbit k m')"
  using assms(1,5) by (intro meta_masked_set [OF assms(1-4)]) (simp add: meta_masked_def)

lemma meta_masked_copy:
  fixes msk :: "28 word"
  assumes "meta_masked m" and "meta_masked n"
    and "copy_masked ((!) meta_cloneActions) meta_setbit msk n [0..<META_KEY_MAX] (False, m) = (r, m')"
    and "\<And>k. bit msk k \<Longrightarrow> bit (metaMask n) k"
  shows "meta_masked m'"
proof -
  have tags: "0 \<le> sint (displayTags m') \<and> sint (displayTags m') \<le> DISPLAY_TAG_ALL"
    using meta.copy_keys(1) [OF assms(3), of META_KEY_DISPLAY_TAGS] assms(1,2)
    by (auto simp: displayTags_field META_KEY_MAX_def meta_masked_def split: if_splits)
  have "meta_fields m' ! k = meta_fields new_avmeta ! k"
    if "k < META_KEY_MAX" "k \<noteq> META_KEY_FILTER" "\<not> bit (metaMask m') k" for k
    using meta.copy_keys(1,2) [OF assms(3) that(1)] that assms(1)
    by (auto simp: meta_masked_def)
  with tags show ?thesis by (simp add: meta_masked_def)
qed

lemma meta_masked_new: "meta_masked new_avmeta"
  by (simp add: meta_masked_def new_avmeta_def DISPLAY_TAG_ALL_def)

lemma meta_fields_Reset:
  "meta_fields (meta_Reset m) = (meta_fields new_avmeta)[META_KEY_FILTER := MInt (metaFilter m)]"
  by (simp add: meta_Reset_def meta_fields_def new_avmeta_def)

lemma meta_masked_Reset: "meta_masked (meta_Reset m)"
  unfolding meta_masked_def meta_fields_Reset
  by (simp add: meta_Reset_def DISPLAY_TAG_ALL_def)

lemma meta_fields_ResetToBaseMeta:
  "meta_fields (meta_ResetToBaseMeta m) = (meta_fields new_avmeta)
     [META_KEY_ASSET_ID := MStr (assetId m), META_KEY_MEDIA_IMAGE := MImg (mediaImage m),
      META_KEY_MEDIA_IMAGE_URI := MStr (mediaImageUri m), META_KEY_FILTER := MInt (metaFilter m)]"
  by (simp add: meta_ResetToBaseMeta_def meta_fields_def new_avmeta_def)

lemma meta_masked_ResetToBaseMeta: "meta_masked (meta_ResetToBaseMeta m)"
proof -
  have "metaMask (meta_ResetToBaseMeta m) = set_bit META_KEY_MEDIA_IMAGE_URI
      (set_bit META_KEY_MEDIA_IMAGE (set_bit META_KEY_ASSET_ID 0))"
    and "displayTags (meta_ResetToBaseMeta m) = 0"
    by (simp_all add: meta_ResetToBaseMeta_def)
  then show ?thesis
    unfolding meta_masked_def meta_fields_ResetToBaseMeta
    by (auto simp: DISPLAY_TAG_ALL_def bit_simps bit_1_iff)
qed

lemma meta_masked_CopyFrom:
  "meta_masked m \<Longrightarrow> meta_masked n \<Longrightarrow> meta_CopyFrom n m = (r, m') \<Longrightarrow> meta_masked m'"
  by (auto simp: meta_CopyFrom_def split: if_splits intro: meta_masked_copy)

lemma meta_masked_CopyToByMask:
  "meta_masked m \<Longrightarrow> meta_masked n \<Longrightarrow> meta_CopyToByMask msk n m = (r, m') \<Longrightarrow> meta_masked m'"
  unfolding meta_CopyToByMask_def by (erule (2) meta_masked_copy) (simp add: bit_and_iff)

lemma meta_masked_SetAssetId: "meta_masked m \<Longrightarrow> meta_masked (meta_SetAssetId v m)"
  unfolding meta_SetAssetId_def
  by (erule meta_masked_set' [where x = "MStr v"]) (simp_all add: meta_fields_def META_KEY_MAX_def)

lemma meta_masked_SetTitle: "meta_masked m \<Longrightarrow> meta_masked (meta_SetTitle v m)"
  unfolding meta_SetTitle_def
  by (erule meta_masked_set' [where x = "MStr v"]) (simp_all add: meta_fields_def META_KEY_MAX_def)

lemma meta_masked_SetArtist: "meta_masked m \<Longrightarrow> meta_masked (meta_SetArtist v m)"
  unfolding meta_SetArtist_def
  by (erule meta_masked_set' [where x = "MStr v"]) (simp_all add: meta_fields_def META_KEY_MAX_def)

lemma meta_masked_SetAuthor: "meta_masked m \<Longrightarrow> meta_masked (meta_SetAuthor v m)"
  unfolding meta_SetAuthor_def
  by (erule meta_masked_set' [where x = "MStr v"]) (simp_all add: meta_fields_def META_KEY_MAX_def)

lemma meta_masked_SetAVQueueName: "meta_masked m \<Longrightarrow> meta_masked (meta_SetAVQueueName v m)"
  unfolding meta_SetAVQueueName_def
  by (erule meta_masked_set' [where x = "MStr v"]) (simp_all add: meta_fields_def META_KEY_MAX_def)

lemma meta_masked_SetAVQueueId: "meta_masked m \<Longrightarrow> meta_masked (meta_SetAVQueueId v m)"
  unfolding meta_SetAVQueueId_def
  by (erule meta_masked_set' [where x = "MStr v"]) (simp_all add: meta_fields_def META_KEY_MAX_def)

lemma meta_masked_SetAVQueueImage: "meta_masked m \<Longrightarrow> meta_masked (meta_SetAVQueueImage v m)"
  unfolding meta_SetAVQueueImage_def
  by (erule meta_masked_set' [where x = "MImg v"]) (simp_all add: meta_fields_def META_KEY_MAX_def)

lemma meta_masked_SetAVQueueImageUri: "meta_masked m \<Longrightarrow> meta_masked (meta_SetAVQueueImageUri v m)"
  unfolding meta_SetAVQueueImageUri_def
  by (erule meta_masked_set' [where x = "MStr v"]) (simp_all add: meta_fields_def META_KEY_MAX_def)

lemma meta_masked_SetAlbum: "meta_masked m \<Longrightarrow> meta_masked (meta_SetAlbum v m)"
  unfolding meta_SetAlbum_def
  by (erule meta_masked_set' [where x = "MStr v"]) (simp_all add: meta_fields_def META_KEY_MAX_def)

lemma meta_masked_SetWriter: "meta_masked m \<Longrightarrow> meta_masked (meta_SetWriter v m)"
  unfolding meta_SetWriter_def
  by (erule meta_masked_set' [where x = "MStr v"]) (simp_all add: meta_fields_def META_KEY_MAX_def)

lemma meta_masked_SetComposer: "meta_masked m \<Longrightarrow> meta_masked (meta_SetComposer v m)"
  unfolding meta_SetComposer_def
  by (erule meta_masked_set' [where x = "MStr v"]) (simp_all add: meta_fields_def META_KEY_MAX_def)

lemma meta_masked_SetDuration: "meta_masked m \<Longrightarrow> meta_masked (meta_SetDuration v m)"
  unfolding meta_SetDuration_def
  by (erule meta_masked_set' [where x = "MLong v"]) (simp_all add: meta_fields_def META_KEY_MAX_def)

lemma meta_masked_SetMediaImage: "meta_masked m \<Longrightarrow> meta_masked (meta_SetMediaImage v m)"
  unfolding meta_SetMediaImage_def
  by (erule meta_masked_set' [where x = "MImg v"]) (simp_all add: meta_fields_def META_KEY_MAX_def)

lemma meta_masked_SetMediaImageUri: "meta_masked m \<Longrightarrow> meta_masked (meta_SetMediaImageUri v m)"
  unfolding meta_SetMediaImageUri_def
  by (erule meta_masked_set' [where x = "MStr v"]) (simp_all add: meta_fields_def META_KEY_MAX_def)

lemma meta_masked_SetPublishDate: "meta_masked m \<Longrightarrow> meta_masked (meta_SetPublishDate v m)"
  unfolding meta_SetPublishDate_def
  by (erule meta_masked_set' [where x = "MDbl v"]) (simp_all add: meta_fields_def META_KEY_MAX_def)

lemma meta_masked_SetSubTitle: "meta_masked m \<Longrightarrow> meta_masked (meta_SetSubTitle v m)"
  unfolding meta_SetSubTitle_def
  by (erule meta_masked_set' [where x = "MStr v"]) (simp_all add: meta_fields_def META_KEY_MAX_def)

lemma meta_masked_SetDescription: "meta_masked m \<Longrightarrow> meta_masked (meta_SetDescription v m)"
  unfolding meta_SetDescription_def
  by (erule meta_masked_set' [where x = "MStr v"]) (simp_all add: meta_fields_def META_KEY_MAX_def)

lemma meta_masked_SetLyric: "meta_masked m \<Longrightarrow> meta_masked (meta_SetLyric v m)"
  unfolding meta_SetLyric_def
  by (erule meta_masked_set' [where x = "MStr v"]) (simp_all add: meta_fields_def META_KEY_MAX_def)

lemma meta_masked_SetPreviousAssetId: "meta_masked m \<Longrightarrow> meta_masked (meta_SetPreviousAssetId v m)"
  unfolding meta_SetPreviousAssetId_def
  by (erule meta_masked_set' [where x = "MStr v"]) (simp_all add: meta_fields_def META_KEY_MAX_def)

lemma meta_masked_SetNextAssetId: "meta_masked m \<Longrightarrow> meta_masked (meta_SetNextAssetId v m)"
  unfolding meta_SetNextAssetId_def
  by (erule meta_masked_set' [where x = "MStr v"]) (simp_all add: meta_fields_def META_KEY_MAX_def)

lemma meta_masked_SetSkipIntervals: "meta_masked m \<Longrightarrow> meta_masked (meta_SetSkipIntervals v m)"
  unfolding meta_SetSkipIntervals_def
  by (erule meta_masked_set' [where x = "MInt v"]) (simp_all add: meta_fields_def META_KEY_MAX_def)

lemma meta_masked_SetFilter: "meta_masked m \<Longrightarrow> meta_masked (meta_SetFilter v m)"
  unfolding meta_SetFilter_def
  by (erule meta_masked_set' [where x = "MInt v"]) (simp_all add: meta_fields_def META_KEY_MAX_def)

lemma meta_masked_SetDrmSchemes: "meta_masked m \<Longrightarrow> meta_masked (meta_SetDrmSchemes v m)"
  unfolding meta_SetDrmSchemes_def
  by (erule meta_masked_set' [where x = "MStrs v"]) (simp_all add: meta_fields_def META_KEY_MAX_def)

lemma meta_masked_SetBundleIcon: "meta_masked m \<Longrightarrow> meta_masked (meta_SetBundleIcon v m)"
  unfolding meta_SetBundleIcon_def
  by (erule meta_masked_set' [where x = "MImg v"]) (simp_all add: meta_fields_def META_KEY_MAX_def)

lemma meta_masked_SetSingleLyricText: "meta_masked m \<Longrightarrow> meta_masked (meta_SetSingleLyricText v m)"
  unfolding meta_SetSingleLyricText_def
  by (erule meta_masked_set' [where x = "MStr v"]) (simp_all add: meta_fields_def META_KEY_MAX_def)

lemma meta_masked_SetFastForwardSkipIntervals: "meta_masked m \<Longrightarrow> meta_masked (meta_SetFastForwardSkipIntervals v m)"
  unfolding meta_SetFastForwardSkipIntervals_def
  by (erule meta_masked_set' [where x = "MInt v"]) (simp_all add: meta_fields_def META_KEY_MAX_def)

lemma meta_masked_SetRewindSkipIntervals: "meta_masked m \<Longrightarrow> meta_masked (meta_SetRewindSkipIntervals v m)"
  unfolding meta_SetRewindSkipIntervals_def
  by (erule meta_masked_set' [where x = "MInt v"]) (simp_all add: meta_fields_def META_KEY_MAX_def)

lemma meta_masked_SetDisplayTags: "meta_masked m \<Longrightarrow> meta_masked (meta_SetDisplayTags v m)"
  by (auto simp: meta_SetDisplayTags_def intro!: meta_masked_set [where m = m and x = "MInt v"])
    (auto simp: meta_fields_def META_KEY_MAX_def)

lemmas meta_masked_intros =
  meta_masked_new meta_masked_Reset meta_masked_ResetToBaseMeta meta_masked_CopyFrom
  meta_masked_CopyToByMask
  meta_masked_SetAssetId
  meta_masked_SetTitle
  meta_masked_SetArtist
  meta_masked_SetAuthor
  meta_masked_SetAVQueueName
  meta_masked_SetAVQueueId
  meta_masked_SetAVQueueImage
  meta_masked_SetAVQueueImageUri
  meta_masked_SetAlbum
  meta_masked_SetWriter
  meta_masked_SetComposer
  meta_masked_SetDuration
  meta_masked_SetMediaImage
  meta_masked_SetMediaImageUri
  meta_masked_SetPublishDate
  meta_masked_SetSubTitle
  meta_masked_SetDescription
  meta_masked_SetLyric
  meta_masked_SetPreviousAssetId
  meta_masked_SetNextAssetId
  meta_masked_SetSkipIntervals
  meta_masked_SetFilter
  meta_masked_SetDisplayTags
  meta_masked_SetDrmSchemes
  meta_masked_SetBundleIcon
  meta_masked_SetSingleLyricText
  meta_masked_SetFastForwardSkipIntervals
  meta_masked_SetRewindSkipIntervals
lemma meta_field_not_NaN:
  "j < META_KEY_MAX \<Longrightarrow> publishDate m \<noteq> DNaN \<Longrightarrow> meta_fields m ! j \<noteq> MDbl DNaN"
  by (erule less_META_KEY_MAX) (simp_all add: meta_fields_def)

section \<open>Properties\<close>

text \<open>C21: every metadata object that can be built through the public operations keeps the mask
  sound for every field but the filter: a field whose bit is clear holds its initial value, and the
  display tags lie between 0 and DISPLAY_TAG_ALL. The filter is a real exception: Reset and
  ResetToBaseMeta clear its bit and leave the filter that was set.\<close>

theorem meta_reachable_masked:
  assumes "meta_reachable m"
  shows "meta_masked m
    \<and> \<not> bit (metaMask (meta_Reset m)) META_KEY_FILTER \<and> metaFilter (meta_Reset m) = metaFilter m
    \<and> \<not> bit (metaMask (meta_ResetToBaseMeta m)) META_KEY_FILTER
    \<and> metaFilter (meta_ResetToBaseMeta m) = metaFilter m"
proof -
  have "meta_masked m"
    using assms by (induction rule: meta_reachable.induct) (auto intro: meta_masked_intros)
  moreover have "metaMask (meta_ResetToBaseMeta m) = set_bit META_KEY_MEDIA_IMAGE_URI
      (set_bit META_KEY_MEDIA_IMAGE (set_bit META_KEY_ASSET_ID (0 :: 28 word)))"
    by (simp add: meta_ResetToBaseMeta_def)
  then have "\<not> bit (metaMask (meta_ResetToBaseMeta m)) META_KEY_FILTER"
    by (auto simp: bit_simps bit_1_iff)
  ultimately show ?thesis by (simp add: meta_Reset_def meta_ResetToBaseMeta_def)
qed

theorem meta_reachable_masked_witness:
  "meta_masked (meta_Reset (meta_SetTitle ''t'' new_avmeta))"
  by (rule meta_reachable_masked [THEN conjunct1]) (intro meta_reachable.intros)

text \<open>CopyToByMask copies exactly the fields that are both set in the source and asked for,
  leaves every other field of the target alone, adds exactly those bits to the target's mask,
  and returns true iff there was something to copy.\<close>

theorem meta_CopyToByMask_spec:
  assumes "meta_CopyToByMask msk self out = (r, out')"
  shows "(\<forall>k < META_KEY_MAX. meta_fields out' ! k =
            (if bit (metaMask self) k \<and> bit msk k then meta_fields self ! k else meta_fields out ! k))
    \<and> metaMask out' = metaMask out OR (metaMask self AND msk)
    \<and> (r \<longleftrightarrow> metaMask self AND msk \<noteq> 0)"
proof -
  note copy = assms [unfolded meta_CopyToByMask_def]
  show ?thesis
    using meta.copy_keys(1) [OF copy] meta.copy_mask_or [OF copy]
      meta.copy_keys(3) [OF copy, of 0]
    by (simp add: bit_and_iff META_KEY_MAX_def)
qed

theorem meta_CopyToByMask_spec_witness:
  "title (snd (meta_CopyToByMask 3 (meta_SetTitle ''t'' new_avmeta) new_avmeta)) = ''t''"
proof -
  obtain r out' where eq: "meta_CopyToByMask 3 (meta_SetTitle ''t'' new_avmeta) new_avmeta = (r, out')"
    by (cases "meta_CopyToByMask 3 (meta_SetTitle ''t'' new_avmeta) new_avmeta")
  have "meta_fields out' ! META_KEY_TITLE =
      (if bit (metaMask (meta_SetTitle ''t'' new_avmeta)) META_KEY_TITLE \<and> bit (3::28 word) META_KEY_TITLE
       then meta_fields (meta_SetTitle ''t'' new_avmeta) ! META_KEY_TITLE
       else meta_fields new_avmeta ! META_KEY_TITLE)"
    using meta_CopyToByMask_spec [OF eq] by (simp add: META_KEY_MAX_def)
  also have "\<dots> = MStr ''t''"
    by (simp add: meta_SetTitle_def bit_simps meta_fields_def meta_setbit_def)
  finally show ?thesis by (simp add: eq meta_fields_def)
qed

text \<open>CopyFrom refuses an object without an asset id; replaces the whole object when the
  asset id is another one; and otherwise takes over exactly the fields set in the incoming
  object, keeps the others and merges the masks.\<close>

theorem meta_CopyFrom_spec:
  "(assetId metaIn = '''' \<longrightarrow> meta_CopyFrom metaIn self = (False, self)) \<and>
   (assetId metaIn \<noteq> '''' \<and> assetId metaIn \<noteq> assetId self \<longrightarrow>
      meta_CopyFrom metaIn self = (True, metaIn)) \<and>
   (assetId metaIn \<noteq> '''' \<and> assetId metaIn = assetId self \<longrightarrow>
      (\<exists>out. meta_CopyFrom metaIn self = (metaMask metaIn \<noteq> 0, out)
        \<and> metaMask out = metaMask self OR metaMask metaIn
        \<and> (\<forall>k < META_KEY_MAX. meta_fields out ! k =
             (if bit (metaMask metaIn) k then meta_fields metaIn ! k else meta_fields self ! k))))"
proof -
  obtain r out where copy: "copy_masked ((!) meta_cloneActions) meta_setbit (metaMask metaIn) metaIn
      [0..<META_KEY_MAX] (False, self) = (r, out)"
    by (cases "copy_masked ((!) meta_cloneActions) meta_setbit (metaMask metaIn) metaIn
      [0..<META_KEY_MAX] (False, self)")
  have "0 < META_KEY_MAX" by (simp add: META_KEY_MAX_def)
  note spec = meta.copy_keys(1) [OF copy] meta.copy_mask_or [OF copy]
    meta.copy_keys(3) [OF copy this]
  have "meta_CopyFrom metaIn self = (r, out)"
    if "assetId metaIn \<noteq> ''''" "assetId metaIn = assetId self"
    using that copy by (simp add: meta_CopyFrom_def)
  with spec show ?thesis by (auto simp: meta_CopyFrom_def)
qed

theorem meta_CopyFrom_spec_witness:
  "\<exists>out. meta_CopyFrom (meta_SetTitle ''t'' (meta_SetAssetId ''a'' new_avmeta))
     (meta_SetAssetId ''a'' new_avmeta) = (True, out) \<and> metaMask out = 3"
  using meta_CopyFrom_spec [of "meta_SetTitle ''t'' (meta_SetAssetId ''a'' new_avmeta)"
      "meta_SetAssetId ''a'' new_avmeta"]
  by (auto simp: meta_SetTitle_def meta_SetAssetId_def meta_setbit_def new_avmeta_def
      set_bit_eq_or)

text \<open>an object copied with a mask shows no change in that mask: after CopyToByMask,
  GetChangedDataMask over the copied keys is empty, in both directions, unless the publish date
  is a NaN (which C++ never finds equal to itself).\<close>

theorem meta_no_change_after_copy:
  assumes "meta_CopyToByMask msk self out = (r, out')" and "publishDate self \<noteq> DNaN"
  shows "meta_GetChangedDataMask (metaMask self AND msk) self out' = 0
    \<and> meta_GetChangedDataMask (metaMask self AND msk) out' self = 0"
proof -
  have "meta.stable (meta_fields self ! j)" if "bit (metaMask self AND msk) j" for j
  proof -
    from that have "j < META_KEY_MAX"
      by (auto simp: META_KEY_MAX_len dest: bit_imp_le_length)
    then show ?thesis
      using assms(2) by (simp add: meta_stable_iff meta_field_not_NaN)
  qed
  then show ?thesis
    using meta.changed_after_copy [OF assms(1) [unfolded meta_CopyToByMask_def]]
    by (simp add: meta_GetChangedDataMask_def)
qed

theorem meta_no_change_after_copy_witness:
  "\<exists>r out'. meta_CopyToByMask 2 (meta_SetTitle ''t'' new_avmeta) new_avmeta = (r, out')
     \<and> meta_GetChangedDataMask (metaMask (meta_SetTitle ''t'' new_avmeta) AND 2)
         (meta_SetTitle ''t'' new_avmeta) out' = 0"
proof -
  obtain r out' where eq: "meta_CopyToByMask 2 (meta_SetTitle ''t'' new_avmeta) new_avmeta = (r, out')"
    by (cases "meta_CopyToByMask 2 (meta_SetTitle ''t'' new_avmeta) new_avmeta")
  have "publishDate (meta_SetTitle ''t'' new_avmeta) \<noteq> DNaN"
    by (simp add: meta_SetTitle_def meta_setbit_def new_avmeta_def)
  from meta_no_change_after_copy [OF eq this] eq show ?thesis by blast
qed

text \<open>GetMediaImageTopic never reads past the image buffer: the two indices it adds are in
  range whenever the buffer is long enough to pass its checks, and the result is -1 or a byte.\<close>

theorem meta_GetMediaImageTopic_in_range:
  "\<exists>n. meta_GetMediaImageTopic m = Some n \<and> -1 \<le> n \<and> n < 256"
proof (cases "mediaImage m")
  case None
  then show ?thesis by (simp add: meta_GetMediaImageTopic_def)
next
  case (Some pm)
  have "uint (a + b) < 256" for a b :: byte
    using uint_bounded [of "a + b"] by simp
  moreover have "-1 \<le> uint (a + b)" for a b :: byte
    using uint_nonnegative [of "a + b"] by linarith
  ultimately show ?thesis
    using Some by (auto simp: meta_GetMediaImageTopic_def nth_byte_def Let_def)
qed

end
