(* ===== verification/MetaWire.thy ===== *)
theory MetaWire
  imports MetaData
begin

text \<open>
  Marshalling of \<^verbatim>\<open>AVMetaData\<close> (\<^verbatim>\<open>avmeta_data.cpp\<close>): a length word, the mask as a string, the fields
  in a fixed order, the DRM schemes, and the bytes of the two images in one raw block that is
  only written when their total size is between 1 and 10 MB. The received object is compared
  with the sent one. \<^verbatim>\<open>new (std::nothrow)\<close> is taken to succeed.
\<close>

section \<open>DRM schemes\<close>

definition maxDrmSchemesLen :: nat where
  "maxDrmSchemesLen = 10"

definition meta_WriteDrmSchemes :: "('p, 'w) parcel_ops \<Rightarrow> avmeta \<Rightarrow> 'p \<Rightarrow> bool \<times> 'p" where
  "meta_WriteDrmSchemes P m p =
     (if \<not> length (drmSchemes m) \<le> maxDrmSchemesLen then (False, p)
      else w_all (WriteInt32 P (of_nat (length (drmSchemes m)))
                  # map (WriteString P) (drmSchemes m)) p)"

fun read_strings :: "('p, 'w) parcel_ops \<Rightarrow> nat \<Rightarrow> 'p \<Rightarrow> string list option \<times> 'p" where
  "read_strings P 0 p = (Some [], p)"
| "read_strings P (Suc n) p = (case ReadString P p of
     (None, p') \<Rightarrow> (None, p')
   | (Some s, p') \<Rightarrow> (case read_strings P n p' of
       (None, p'') \<Rightarrow> (None, p'')
     | (Some ss, p'') \<Rightarrow> (Some (s # ss), p'')))"

definition meta_ReadDrmSchemes ::
  "('p, 'w) parcel_ops \<Rightarrow> avmeta \<times> 'p \<Rightarrow> bool \<times> avmeta \<times> 'p" where
  "meta_ReadDrmSchemes P s = (case s of (m, p) \<Rightarrow>
     (case ReadInt32 P p of
       (None, p1) \<Rightarrow> (False, m, p1)
     | (Some n, p1) \<Rightarrow>
         (if \<not> (0 \<le> sint n \<and> sint n \<le> int maxDrmSchemesLen) then (False, m, p1)
          else (case read_strings P (unat n) p1 of
              (None, p2) \<Rightarrow> (False, m, p2)
            | (Some ss, p2) \<Rightarrow> (True, m\<lparr>drmSchemes := ss\<rparr>, p2)))))"

section \<open>The fields without the images\<close>

definition meta_writes :: "('p, 'w) parcel_ops \<Rightarrow> avmeta \<Rightarrow> ('p \<Rightarrow> bool \<times> 'p) list" where
  "meta_writes P m = [
     WriteString P (bitset_to_string (metaMask m)),
     WriteString P (assetId m), WriteString P (title m), WriteString P (artist m),
     WriteString P (author m), WriteString P (avQueueName m), WriteString P (avQueueId m),
     WriteString P (avQueueImageUri m), WriteString P (album m), WriteString P (writer m),
     WriteString P (composer m), WriteInt64 P (duration m), WriteString P (mediaImageUri m),
     WriteDouble P (publishDate m), WriteString P (subTitle m), WriteString P (description m),
     WriteString P (lyric m), WriteString P (singleLyricText m),
     WriteString P (previousAssetId m), WriteString P (nextAssetId m),
     WriteInt32 P (skipIntervals m), WriteInt32 P (fastForwardSkipIntervals m),
     WriteInt32 P (rewindSkipIntervals m), WriteInt32 P (metaFilter m),
     WriteInt32 P (mediaLength m), WriteInt32 P (avQueueLength m), WriteInt32 P (displayTags m),
     WriteParcelable P (map_option (pm_Marshalling P) (bundleIcon m))]"

text \<open>The DRM schemes are written after the chain, whatever it gave, and their result is dropped.\<close>

definition meta_MarshallingExceptImg ::
  "('p, 'w) parcel_ops \<Rightarrow> avmeta \<Rightarrow> 'p \<Rightarrow> bool \<times> 'p" where
  "meta_MarshallingExceptImg P m p =
     (case w_all (meta_writes P m) p of (ret, p1) \<Rightarrow>
        (case meta_WriteDrmSchemes P m p1 of (_, p2) \<Rightarrow> (ret, p2)))"

definition meta_reads :: "('p, 'w) parcel_ops \<Rightarrow> (avmeta \<times> 'p \<Rightarrow> bool \<times> avmeta \<times> 'p) list" where
  "meta_reads P = [
     r_field (ReadString P) (\<lambda>v m. m\<lparr>assetId := v\<rparr>),
     r_field (ReadString P) (\<lambda>v m. m\<lparr>title := v\<rparr>),
     r_field (ReadString P) (\<lambda>v m. m\<lparr>artist := v\<rparr>),
     r_field (ReadString P) (\<lambda>v m. m\<lparr>author := v\<rparr>),
     r_field (ReadString P) (\<lambda>v m. m\<lparr>avQueueName := v\<rparr>),
     r_field (ReadString P) (\<lambda>v m. m\<lparr>avQueueId := v\<rparr>),
     r_field (ReadString P) (\<lambda>v m. m\<lparr>avQueueImageUri := v\<rparr>),
     r_field (ReadString P) (\<lambda>v m. m\<lparr>album := v\<rparr>),
     r_field (ReadString P) (\<lambda>v m. m\<lparr>writer := v\<rparr>),
     r_field (ReadString P) (\<lambda>v m. m\<lparr>composer := v\<rparr>),
     r_field (ReadInt64 P) (\<lambda>v m. m\<lparr>duration := v\<rparr>),
     r_field (ReadString P) (\<lambda>v m. m\<lparr>mediaImageUri := v\<rparr>),
     r_field (ReadDouble P) (\<lambda>v m. m\<lparr>publishDate := v\<rparr>),
     r_field (ReadString P) (\<lambda>v m. m\<lparr>subTitle := v\<rparr>),
     r_field (ReadString P) (\<lambda>v m. m\<lparr>description := v\<rparr>),
     r_field (ReadString P) (\<lambda>v m. m\<lparr>lyric := v\<rparr>),
     r_field (ReadString P) (\<lambda>v m. m\<lparr>singleLyricText := v\<rparr>),
     r_field (ReadString P) (\<lambda>v m. m\<lparr>previousAssetId := v\<rparr>),
     r_field (ReadString P) (\<lambda>v m. m\<lparr>nextAssetId := v\<rparr>),
     r_field (ReadInt32 P) (\<lambda>v m. m\<lparr>skipIntervals := v\<rparr>),
     r_field (ReadInt32 P) (\<lambda>v m. m\<lparr>fastForwardSkipIntervals := v\<rparr>),
     r_field (ReadInt32 P) (\<lambda>v m. m\<lparr>rewindSkipIntervals := v\<rparr>),
     r_field (ReadInt32 P) (\<lambda>v m. m\<lparr>metaFilter := v\<rparr>),
     r_field (ReadInt32 P) (\<lambda>v m. m\<lparr>mediaLength := v\<rparr>),
     r_field (ReadInt32 P) (\<lambda>v m. m\<lparr>avQueueLength := v\<rparr>),
     r_field (ReadInt32 P) (\<lambda>v m. m\<lparr>displayTags := v\<rparr>)]"

definition flip_mask_bits :: "string \<Rightarrow> 28 word \<Rightarrow> 28 word" where
  "flip_mask_bits s w =
     fold (\<lambda>i w. if s ! i = CHR ''1'' then flip_bit (length s - i - 1) w else w) [0..<length s] w"

text \<open>
  \<^verbatim>\<open>UnmarshallingExceptImg\<close> returns true for a failure. Its two early returns give false: a mask
  of a wrong length, and a missing bundle icon whose mask bit is set.
\<close>

definition meta_UnmarshallingExceptImg ::
  "('p, 'w) parcel_ops \<Rightarrow> avmeta \<times> 'p \<Rightarrow> bool \<times> avmeta \<times> 'p" where
  "meta_UnmarshallingExceptImg P s = (case s of (m, p) \<Rightarrow>
     (case ReadString P p of (msk_opt, p1) \<Rightarrow>
       (let msk = (case msk_opt of None \<Rightarrow> '''' | Some s \<Rightarrow> s) in
        if length msk = 0 \<or> META_KEY_MAX < length msk then (False, m, p1)
        else
          (case r_all (meta_reads P) (m\<lparr>metaMask := flip_mask_bits msk (metaMask m)\<rparr>, p1) of
            (ok, m2, p2) \<Rightarrow>
              (case ReadParcelable P (pm_Unmarshalling P) p2 of (icon, p3) \<Rightarrow>
                (let m3 = m2\<lparr>bundleIcon := icon\<rparr> in
                 if \<not> (\<not> bit (metaMask m3) META_KEY_BUNDLE_ICON \<or> icon \<noteq> None)
                 then (False, m3, p3)
                 else if \<not> ok then (True, m3, p3)
                 else (case meta_ReadDrmSchemes P (m3, p3) of
                         (drm_ok, m4, p4) \<Rightarrow> (\<not> drm_ok, m4, p4))))))))"

section \<open>The whole object\<close>

definition maxImageSize :: nat where
  "maxImageSize = 10 * 1024 * 1024"

definition isImageValid :: "i32 \<Rightarrow> bool" where
  "isImageValid twoImageLength \<longleftrightarrow> 0 < sint twoImageLength \<and> sint twoImageLength \<le> int maxImageSize"

text \<open>The bytes of an image that will be sent: an oversized buffer is ignored.\<close>

definition sent_bytes :: "pixel_map option \<Rightarrow> byte list" where
  "sent_bytes im = (case im of None \<Rightarrow> []
     | Some pm \<Rightarrow> if maxImageSize < length (innerImgBuffer pm) then [] else innerImgBuffer pm)"

definition meta_update_lengths :: "avmeta \<Rightarrow> avmeta" where
  "meta_update_lengths m =
     (let m1 = (case mediaImage m of None \<Rightarrow> m
                | Some _ \<Rightarrow> meta_SetMediaLength (of_nat (length (sent_bytes (mediaImage m)))) m)
      in (case avQueueImage m1 of None \<Rightarrow> m1
          | Some _ \<Rightarrow> meta_SetAVQueueLength (of_nat (length (sent_bytes (avQueueImage m1)))) m1))"

definition meta_WriteToParcel ::
  "('p, 'w) parcel_ops \<Rightarrow> avmeta \<Rightarrow> 'p \<Rightarrow> bool \<times> avmeta \<times> 'p" where
  "meta_WriteToParcel P m p =
     (let mediaImageBuffer = sent_bytes (mediaImage m);
          avQueueImageBuffer = sent_bytes (avQueueImage m);
          m1 = meta_update_lengths m;
          twoImageLength = (of_nat (length mediaImageBuffer) + of_nat (length avQueueImageBuffer) :: i32)
      in case WriteInt32 P twoImageLength p of (ok1, p1) \<Rightarrow>
         if \<not> ok1 then (False, m1, p1)
         else (case meta_MarshallingExceptImg P m1 p1 of (ok2, p2) \<Rightarrow>
           if \<not> ok2 then (False, m1, p2)
           else if \<not> isImageValid twoImageLength then (True, m1, p2)
           else (case WriteRawData P (mediaImageBuffer @ avQueueImageBuffer) p2 of
                   (ok3, p3) \<Rightarrow> (ok3, m1, p3))))"

definition meta_ReadFromParcel ::
  "('p, 'w) parcel_ops \<Rightarrow> i32 \<Rightarrow> avmeta \<times> 'p \<Rightarrow> bool \<times> avmeta \<times> 'p" where
  "meta_ReadFromParcel P twoImageLength s = (case s of (m, p) \<Rightarrow>
     (case ReadRawData P (unat twoImageLength) p of
       (None, p1) \<Rightarrow> (False, m, p1)
     | (Some buffer, p1) \<Rightarrow>
         (let len = mediaLength m in
          if \<not> (0 \<le> sint len \<and> sint len \<le> sint twoImageLength) then (False, m, p1)
          else
            (let m1 = (if 0 < sint len
                       then meta_SetMediaImage
                              (Some (pm_SetInnerImgBuffer (take (unat len) buffer) new_pixel_map)) m
                       else m) in
             if sint twoImageLength \<le> sint len then (True, m1, p1)
             else (True, meta_SetAVQueueImage
                     (Some (pm_SetInnerImgBuffer (drop (unat len) buffer) new_pixel_map)) m1, p1)))))"

definition meta_Unmarshalling :: "('p, 'w) parcel_ops \<Rightarrow> 'p \<Rightarrow> avmeta option \<times> 'p" where
  "meta_Unmarshalling P p = (case ReadInt32 P p of
     (None, p1) \<Rightarrow> (None, p1)
   | (Some twoImageLength, p1) \<Rightarrow>
       (case meta_UnmarshallingExceptImg P (new_avmeta, p1) of (failed, m, p2) \<Rightarrow>
          if failed then (None, p2)
          else if sint (displayTags m) < 0 \<or> DISPLAY_TAG_ALL < sint (displayTags m) then (None, p2)
          else if \<not> isImageValid twoImageLength then (Some m, p2)
          else (case meta_ReadFromParcel P twoImageLength (m, p2) of (ok, m', p3) \<Rightarrow>
                  if ok then (Some m', p3) else (None, p3))))"


section \<open>The tokens of an object\<close>

definition meta_core_tokens :: "avmeta \<Rightarrow> 'w token list" where
  "meta_core_tokens m = [
     TStr (assetId m), TStr (title m), TStr (artist m), TStr (author m), TStr (avQueueName m),
     TStr (avQueueId m), TStr (avQueueImageUri m), TStr (album m), TStr (writer m),
     TStr (composer m), TI64 (duration m), TStr (mediaImageUri m), TDbl (publishDate m),
     TStr (subTitle m), TStr (description m), TStr (lyric m), TStr (singleLyricText m),
     TStr (previousAssetId m), TStr (nextAssetId m), TI32 (skipIntervals m),
     TI32 (fastForwardSkipIntervals m), TI32 (rewindSkipIntervals m), TI32 (metaFilter m),
     TI32 (mediaLength m), TI32 (avQueueLength m), TI32 (displayTags m)]"

definition meta_drm_tokens :: "avmeta \<Rightarrow> 'w token list" where
  "meta_drm_tokens m = TI32 (of_nat (length (drmSchemes m))) # map TStr (drmSchemes m)"

lemma writes_meta:
  assumes "fifo_parcel P V"
  shows "writes V (w_all (meta_writes P m))
    (TStr (bitset_to_string (metaMask m)) # meta_core_tokens m @ pm_tokens (bundleIcon m))"
  unfolding meta_writes_def meta_core_tokens_def append_Cons append_Nil
  by (intro writes_Cons1 writes_single writes_pixel_map writes_ops assms)

lemma writes_strings:
  assumes "fifo_parcel P V"
  shows "writes V (w_all (map (WriteString P) ss)) (map TStr ss)"
proof (induction ss)
  case Nil
  show ?case unfolding list.map by (rule writes_Nil)
next
  case (Cons s ss)
  then show ?case unfolding list.map by (intro writes_Cons1 writes_ops assms)
qed

lemma writes_drm:
  assumes "fifo_parcel P V" and "length (drmSchemes m) \<le> maxDrmSchemesLen"
  shows "writes V (meta_WriteDrmSchemes P m) (meta_drm_tokens m)"
proof -
  have "writes V (w_all (WriteInt32 P (of_nat (length (drmSchemes m)))
      # map (WriteString P) (drmSchemes m))) (meta_drm_tokens m)"
    unfolding meta_drm_tokens_def by (intro writes_Cons1 writes_strings writes_ops assms)
  with assms(2) show ?thesis by (simp add: meta_WriteDrmSchemes_def writes_def)
qed

text \<open>Reading the core fields takes them over and keeps the mask, the images and the schemes.\<close>

definition meta_fill :: "avmeta \<Rightarrow> avmeta \<Rightarrow> avmeta" where
  "meta_fill m obj = m\<lparr>metaMask := metaMask obj, mediaImage := mediaImage obj,
     avQueueImage := avQueueImage obj, bundleIcon := bundleIcon obj, drmSchemes := drmSchemes obj\<rparr>"

lemma reads_meta:
  assumes "fifo_parcel P V"
  shows "reads V (r_all (meta_reads P)) (meta_core_tokens m) (meta_fill m)"
proof -
  have "\<exists>us. reads V (r_all (meta_reads P)) (meta_core_tokens m) (fold (\<lambda>u. u) us)
      \<and> fold (\<lambda>u. u) us = meta_fill m"
    unfolding meta_reads_def meta_core_tokens_def
    apply (rule exI, rule conjI)
     apply (rule reads_Cons1 reads_done reads_field reads_ops assms)+
    apply (rule ext)
    subgoal for obj by (cases m; cases obj) (simp add: meta_fill_def)
    done
  then show ?thesis by auto
qed

lemma reads_strings:
  assumes "fifo_parcel P V"
  shows "reads_value V (read_strings P (length ss)) (map TStr ss) (Some ss)"
proof (induction ss)
  case Nil
  then show ?case by (simp add: reads_value_def)
next
  case (Cons s ss)
  show ?case
    unfolding reads_value_def
  proof (intro allI impI)
    fix p us assume "V p = map TStr (s # ss) @ us"
    then obtain p1 where p1: "ReadString P p = (Some s, p1)" "V p1 = map TStr ss @ us"
      using reads_valueD [OF reads_ops(5) [OF assms], of p s "map TStr ss @ us"] by auto
    obtain p2 where "read_strings P (length ss) p1 = (Some ss, p2)" "V p2 = us"
      using reads_valueD [OF Cons.IH p1(2)] by blast
    with p1 show "\<exists>p'. read_strings P (length (s # ss)) p = (Some (s # ss), p') \<and> V p' = us"
      by simp
  qed
qed

lemma sint_of_nat_i32: "n < 2 ^ 31 \<Longrightarrow> sint (of_nat n :: i32) = int n"
  by (simp add: signed_of_nat signed_take_bit_int_eq_self)

lemma unat_of_nat_i32: "n < 2 ^ 31 \<Longrightarrow> unat (of_nat n :: i32) = n"
  by (simp add: unsigned_of_nat take_bit_nat_eq_self)

end
