(* ===== verification/MetaWireProps.thy ===== *)
theory MetaWireProps
  imports MetaWire
begin

text \<open>
  What arrives of a metadata object: the round trip through a parcel, and the malformed or
  oversized inputs that the marshalling code lets through.
\<close>

section \<open>The mask\<close>

lemma bit_fold_flip:
  fixes w :: "'n::len word"
  assumes "k \<le> n"
  shows "bit (fold (\<lambda>i w. if Q i then flip_bit (n - i - 1) w else w) [0..<k] w) j
    \<longleftrightarrow> j < LENGTH('n) \<and> (bit w j \<noteq> (\<exists>i < k. Q i \<and> n - i - 1 = j))"
  using assms
proof (induction k)
  case 0
  then show ?case by (auto dest: bit_imp_le_length)
next
  case (Suc k)
  then have IH: "bit (fold (\<lambda>i w. if Q i then flip_bit (n - i - 1) w else w) [0..<k] w) j
    \<longleftrightarrow> j < LENGTH('n) \<and> (bit w j \<noteq> (\<exists>i < k. Q i \<and> n - i - 1 = j))" by simp
  have new: "\<not> (\<exists>i < k. Q i \<and> n - i - 1 = j)" if "n - k - 1 = j"
    using Suc.prems that by auto
  show ?case
    using IH new by (auto simp: bit_simps less_Suc_eq)
qed

lemma flip_mask_bits_to_string:
  "flip_mask_bits (bitset_to_string w) 0 = (w :: 28 word)"
proof (rule bit_word_eqI)
  fix j assume j: "j < LENGTH(28)"
  have "(\<exists>i < 28. bitset_to_string w ! i = CHR ''1'' \<and> 28 - i - 1 = j)
      \<longleftrightarrow> bitset_to_string w ! (28 - j - 1) = CHR ''1''"
    using j by (auto intro: exI [of _ "28 - j - 1"])
  then show "bit (flip_mask_bits (bitset_to_string w) 0) j \<longleftrightarrow> bit w j"
    using j bitset_to_string_nth [of j w]
    unfolding flip_mask_bits_def by (subst bit_fold_flip) auto
qed

section \<open>What is sent and what arrives\<close>

definition total_image_bytes :: "avmeta \<Rightarrow> nat" where
  "total_image_bytes m = length (sent_bytes (mediaImage m)) + length (sent_bytes (avQueueImage m))"

definition received_image :: "bool \<Rightarrow> pixel_map option \<Rightarrow> pixel_map option" where
  "received_image fits im =
     (if fits \<and> sent_bytes im \<noteq> [] then Some (pm_SetInnerImgBuffer (sent_bytes im) new_pixel_map)
      else None)"

text \<open>
  The object a receiver builds: every field but the images as sent, an image only if it holds
  bytes and the two together fit into the block, and the mask bits of the images that came.
\<close>

definition meta_received :: "avmeta \<Rightarrow> avmeta" where
  "meta_received m =
     (let fits = total_image_bytes m \<le> maxImageSize;
          media = received_image fits (mediaImage m);
          queue = received_image fits (avQueueImage m);
          m1 = (if media \<noteq> None then set_bit META_KEY_MEDIA_IMAGE (metaMask m) else metaMask m);
          m2 = (if queue \<noteq> None then set_bit META_KEY_AVQUEUE_IMAGE m1 else m1)
      in m\<lparr>metaMask := m2, mediaImage := media, avQueueImage := queue,
           bundleIcon := map_option pm_wire (bundleIcon m)\<rparr>)"

text \<open>
  The objects that arrive whole: at most ten DRM schemes, valid display tags, an icon if its bit
  is set, and no length of an earlier media image left over when only the queue image is sent.
\<close>

definition meta_sendable :: "avmeta \<Rightarrow> bool" where
  "meta_sendable m \<longleftrightarrow> length (drmSchemes m) \<le> maxDrmSchemesLen
     \<and> 0 \<le> sint (displayTags m) \<and> sint (displayTags m) \<le> DISPLAY_TAG_ALL
     \<and> (bit (metaMask m) META_KEY_BUNDLE_ICON \<longrightarrow> bundleIcon m \<noteq> None)
     \<and> (mediaImage m = None \<longrightarrow> avQueueImage m \<noteq> None \<longrightarrow> mediaLength m = 0)"

lemma length_sent_bytes: "length (sent_bytes im) \<le> maxImageSize"
  by (auto simp: sent_bytes_def split: option.splits)

lemma sint_two:
  "sint (of_nat (length (sent_bytes a)) + of_nat (length (sent_bytes b)) :: i32)
    = int (length (sent_bytes a) + length (sent_bytes b))"
  "unat (of_nat (length (sent_bytes a)) + of_nat (length (sent_bytes b)) :: i32)
    = length (sent_bytes a) + length (sent_bytes b)"
proof -
  have "length (sent_bytes a) + length (sent_bytes b) < 2 ^ 31"
    using length_sent_bytes [of a] length_sent_bytes [of b] by (simp add: maxImageSize_def)
  then show "sint (of_nat (length (sent_bytes a)) + of_nat (length (sent_bytes b)) :: i32)
      = int (length (sent_bytes a) + length (sent_bytes b))"
    and "unat (of_nat (length (sent_bytes a)) + of_nat (length (sent_bytes b)) :: i32)
      = length (sent_bytes a) + length (sent_bytes b)"
    using sint_of_nat_i32 unat_of_nat_i32 by (simp_all flip: of_nat_add)
qed

lemma sint_len:
  "sint (of_nat (length (sent_bytes a)) :: i32) = int (length (sent_bytes a))"
  "unat (of_nat (length (sent_bytes a)) :: i32) = length (sent_bytes a)"
  using sint_of_nat_i32 unat_of_nat_i32 length_sent_bytes [of a] by (simp_all add: maxImageSize_def)

lemma meta_update_lengths_simps [simp]:
  "metaMask (meta_update_lengths m) = metaMask m"
  "mediaImage (meta_update_lengths m) = mediaImage m"
  "avQueueImage (meta_update_lengths m) = avQueueImage m"
  "drmSchemes (meta_update_lengths m) = drmSchemes m"
  "displayTags (meta_update_lengths m) = displayTags m"
  "bundleIcon (meta_update_lengths m) = bundleIcon m"
  by (simp_all add: meta_update_lengths_def Let_def meta_SetMediaLength_def
      meta_SetAVQueueLength_def split: option.splits)

lemma mediaLength_update_lengths:
  "mediaLength (meta_update_lengths m) =
     (if mediaImage m = None then mediaLength m else of_nat (length (sent_bytes (mediaImage m))))"
  by (auto simp: meta_update_lengths_def Let_def meta_SetMediaLength_def
      meta_SetAVQueueLength_def split: option.splits)

section \<open>The round trip\<close>

lemma roomy_meta_writes: "roomy P \<Longrightarrow> fst (w_all (meta_writes P m) p)"
  by (rule w_all_succeeds) (auto simp: meta_writes_def roomy_ops roomy_pixel_map)

lemma roomy_drm:
  assumes "roomy P" and "length (drmSchemes m) \<le> maxDrmSchemesLen"
  shows "fst (meta_WriteDrmSchemes P m p)"
proof -
  have "fst (w_all (WriteInt32 P (of_nat (length (drmSchemes m)))
      # map (WriteString P) (drmSchemes m)) p)"
    by (rule w_all_succeeds) (auto simp: roomy_ops [OF assms(1)])
  with assms(2) show ?thesis by (simp add: meta_WriteDrmSchemes_def)
qed

lemma marshalled_except_img:
  assumes "fifo_parcel P V" and "roomy P" and "length (drmSchemes m) \<le> maxDrmSchemesLen"
  shows "\<exists>p'. meta_MarshallingExceptImg P m p = (True, p') \<and> V p' = V p @
    TStr (bitset_to_string (metaMask m)) # meta_core_tokens m @ pm_tokens (bundleIcon m)
      @ meta_drm_tokens m"
proof -
  obtain p1 where p1: "w_all (meta_writes P m) p = (True, p1)"
    using roomy_meta_writes [OF assms(2), of m p] by (metis prod.collapse)
  obtain p2 where p2: "meta_WriteDrmSchemes P m p1 = (True, p2)"
    using roomy_drm [OF assms(2,3), of p1] by (metis prod.collapse)
  show ?thesis
    using p1 p2 writesD [OF writes_meta [OF assms(1)] p1] writesD [OF writes_drm [OF assms(1,3)] p2]
    by (simp add: meta_MarshallingExceptImg_def)
qed

lemma unmarshalled_except_img:
  assumes "fifo_parcel P V" and "length (drmSchemes m) \<le> maxDrmSchemesLen"
    and "bit (metaMask m) META_KEY_BUNDLE_ICON \<longrightarrow> bundleIcon m \<noteq> None"
    and "V p = TStr (bitset_to_string (metaMask m)) # meta_core_tokens m @ pm_tokens (bundleIcon m)
      @ meta_drm_tokens m @ us"
  shows "\<exists>p'. meta_UnmarshallingExceptImg P (new_avmeta, p) =
    (False, m\<lparr>mediaImage := None, avQueueImage := None,
       bundleIcon := map_option pm_wire (bundleIcon m)\<rparr>, p') \<and> V p' = us"
proof -
  obtain p1 where p1: "ReadString P p = (Some (bitset_to_string (metaMask m)), p1)"
      "V p1 = meta_core_tokens m @ pm_tokens (bundleIcon m) @ meta_drm_tokens m @ us"
    using reads_valueD [OF reads_ops(5) [OF assms(1)], of p "bitset_to_string (metaMask m)"] assms(4)
    by auto
  let ?o1 = "new_avmeta\<lparr>metaMask := metaMask m\<rparr>"
  obtain p2 where p2: "r_all (meta_reads P) (?o1, p1) = (True, meta_fill m ?o1, p2)"
      "V p2 = pm_tokens (bundleIcon m) @ meta_drm_tokens m @ us"
    using readsD [OF reads_meta [OF assms(1)] p1(2), of ?o1] by blast
  obtain p3 where p3: "ReadParcelable P (pm_Unmarshalling P) p2
        = (map_option pm_wire (bundleIcon m), p3)" "V p3 = meta_drm_tokens m @ us"
    using reads_valueD [OF reads_pixel_map [OF assms(1)] p2(2)] by blast
  obtain p4 where p4: "ReadInt32 P p3 = (Some (of_nat (length (drmSchemes m))), p4)"
      "V p4 = map TStr (drmSchemes m) @ us"
    using reads_valueD [OF reads_ops(1) [OF assms(1)], of p3] p3(2)
    by (auto simp: meta_drm_tokens_def)
  obtain p5 where p5: "read_strings P (length (drmSchemes m)) p4 = (Some (drmSchemes m), p5)"
      "V p5 = us"
    using reads_valueD [OF reads_strings [OF assms(1)] p4(2)] by blast
  have n: "sint (of_nat (length (drmSchemes m)) :: i32) = int (length (drmSchemes m))"
    "unat (of_nat (length (drmSchemes m)) :: i32) = length (drmSchemes m)"
    using assms(2) by (simp_all add: sint_of_nat_i32 unat_of_nat_i32 maxDrmSchemesLen_def)
  have drm: "meta_ReadDrmSchemes P (obj, p3) = (True, obj\<lparr>drmSchemes := drmSchemes m\<rparr>, p5)" for obj
    using p4 p5 assms(2) n by (simp add: meta_ReadDrmSchemes_def)
  have fill: "meta_fill m ?o1 \<lparr>bundleIcon := i, drmSchemes := drmSchemes m\<rparr>
      = m\<lparr>mediaImage := None, avQueueImage := None, bundleIcon := i\<rparr>" for i
    by (simp add: meta_fill_def new_avmeta_def)
  have masks: "metaMask (meta_fill m ?o1) = metaMask m" "metaMask new_avmeta = 0"
    by (simp_all add: meta_fill_def new_avmeta_def)
  show ?thesis
    using p1 p2 p3 p5 assms(3) drm fill masks
    by (auto simp: meta_UnmarshallingExceptImg_def META_KEY_MAX_def flip_mask_bits_to_string
        Let_def)
qed


lemma sent_bytes_None [simp]: "sent_bytes None = []"
  by (simp add: sent_bytes_def)

lemma total_update_lengths [simp]: "total_image_bytes (meta_update_lengths m) = total_image_bytes m"
  by (simp add: total_image_bytes_def)

text \<open>The image part: reading the block back gives the two images their bytes.\<close>

definition with_images :: "byte list \<Rightarrow> byte list \<Rightarrow> avmeta \<Rightarrow> avmeta" where
  "with_images a b m =
     (let m1 = (if a = [] then m
                else meta_SetMediaImage (Some (pm_SetInnerImgBuffer a new_pixel_map)) m)
      in if b = [] then m1
         else meta_SetAVQueueImage (Some (pm_SetInnerImgBuffer b new_pixel_map)) m1)"

lemma read_images:
  assumes "fifo_parcel P V" and "V p = TRaw (a @ b) # us"
    and "sint two = int (length (a @ b))" and "unat two = length (a @ b)"
    and "sint (mediaLength m) = int (length a)" and "unat (mediaLength m) = length a"
  shows "\<exists>p'. meta_ReadFromParcel P two (m, p) = (True, with_images a b m, p') \<and> V p' = us"
proof -
  obtain p1 where "ReadRawData P (length (a @ b)) p = (Some (a @ b), p1)" "V p1 = us"
    using reads_valueD [OF reads_ops(7) [OF assms(1)], of p "a @ b" us] assms(2) by auto
  with assms(3-6) show ?thesis
    by (auto simp: meta_ReadFromParcel_def with_images_def Let_def)
qed

lemma isImageValid_total:
  "isImageValid (of_nat (length (sent_bytes (mediaImage m)))
      + of_nat (length (sent_bytes (avQueueImage m))))
    \<longleftrightarrow> total_image_bytes m \<noteq> 0 \<and> total_image_bytes m \<le> maxImageSize"
  unfolding isImageValid_def sint_two total_image_bytes_def by linarith

lemma meta_received_without_images:
  assumes "\<not> isImageValid (of_nat (length (sent_bytes (mediaImage m)))
      + of_nat (length (sent_bytes (avQueueImage m))))"
  shows "meta_received m = m\<lparr>mediaImage := None, avQueueImage := None,
     bundleIcon := map_option pm_wire (bundleIcon m)\<rparr>"
proof -
  have "received_image (total_image_bytes m \<le> maxImageSize) (mediaImage m) = None"
    and "received_image (total_image_bytes m \<le> maxImageSize) (avQueueImage m) = None"
    using assms unfolding isImageValid_total by (auto simp: received_image_def total_image_bytes_def)
  then show ?thesis by (simp add: meta_received_def)
qed

lemma meta_received_with_images:
  assumes "isImageValid (of_nat (length (sent_bytes (mediaImage m)))
      + of_nat (length (sent_bytes (avQueueImage m))))"
    and "obj = m\<lparr>mediaImage := None, avQueueImage := None,
      bundleIcon := map_option pm_wire (bundleIcon m)\<rparr>"
  shows "with_images (sent_bytes (mediaImage m)) (sent_bytes (avQueueImage m)) obj
    = meta_received m"
proof -
  have "total_image_bytes m \<le> maxImageSize"
    using assms(1) unfolding isImageValid_total by simp
  then show ?thesis
    unfolding assms(2) meta_received_def received_image_def with_images_def
    by (cases m) (simp add: Let_def meta_SetMediaImage_def meta_SetAVQueueImage_def meta_setbit_def)
qed

lemma media_length_sent:
  assumes "meta_sendable m" and "total_image_bytes m \<noteq> 0"
  shows "sint (mediaLength (meta_update_lengths m)) = int (length (sent_bytes (mediaImage m)))"
    and "unat (mediaLength (meta_update_lengths m)) = length (sent_bytes (mediaImage m))"
  using assms
  by (cases "mediaImage m"; cases "avQueueImage m";
      simp add: mediaLength_update_lengths sint_len meta_sendable_def total_image_bytes_def)+

text \<open>When the parcel ends before the number of DRM schemes, reading fails.\<close>

lemma unmarshalling_without_schemes:
  assumes "fifo_parcel P V"
    and "bit (metaMask m) META_KEY_BUNDLE_ICON \<longrightarrow> bundleIcon m \<noteq> None"
    and "V p = TStr (bitset_to_string (metaMask m)) # meta_core_tokens m
      @ pm_tokens (bundleIcon m) @ []"
  shows "fst (meta_UnmarshallingExceptImg P (new_avmeta, p))"
proof -
  obtain p1 where p1: "ReadString P p = (Some (bitset_to_string (metaMask m)), p1)"
      "V p1 = meta_core_tokens m @ pm_tokens (bundleIcon m) @ []"
    using reads_valueD [OF reads_ops(5) [OF assms(1)], of p "bitset_to_string (metaMask m)"] assms(3)
    by auto
  let ?o1 = "new_avmeta\<lparr>metaMask := metaMask m\<rparr>"
  obtain p2 where p2: "r_all (meta_reads P) (?o1, p1) = (True, meta_fill m ?o1, p2)"
      "V p2 = pm_tokens (bundleIcon m) @ []"
    using readsD [OF reads_meta [OF assms(1)] p1(2), of ?o1] by blast
  obtain p3 where p3: "ReadParcelable P (pm_Unmarshalling P) p2
        = (map_option pm_wire (bundleIcon m), p3)" "V p3 = []"
    using reads_valueD [OF reads_pixel_map [OF assms(1)] p2(2)] by blast
  have "fst (ReadInt32 P p3) = None"
    using fifo_opD(3) [OF fifo_parcelD(1) [OF assms(1)] p3(2)] .
  then have drm: "\<not> fst (meta_ReadDrmSchemes P (obj, p3))" for obj
    by (auto simp: meta_ReadDrmSchemes_def split: prod.splits option.splits)
  have drm': "meta_ReadDrmSchemes P (obj, p3) = (True, z) \<Longrightarrow> False" for obj z
    using drm [of obj] by simp
  have masks: "metaMask (meta_fill m ?o1) = metaMask m" "metaMask new_avmeta = 0"
    by (simp_all add: meta_fill_def new_avmeta_def)
  show ?thesis
    using p1 p2 p3 assms(2) masks
    by (auto simp: meta_UnmarshallingExceptImg_def META_KEY_MAX_def flip_mask_bits_to_string
        Let_def split: prod.splits dest: drm')
qed

text \<open>
  The transfer of one object, with the split of the image block that the receiver will make: at
  the length the object carries for its media image, whatever the images are.
\<close>

definition meta_whole :: "avmeta \<Rightarrow> bool" where
  "meta_whole m \<longleftrightarrow> length (drmSchemes m) \<le> maxDrmSchemesLen
     \<and> 0 \<le> sint (displayTags m) \<and> sint (displayTags m) \<le> DISPLAY_TAG_ALL
     \<and> (bit (metaMask m) META_KEY_BUNDLE_ICON \<longrightarrow> bundleIcon m \<noteq> None)"

abbreviation (input) without_images :: "avmeta \<Rightarrow> avmeta" where
  "without_images m \<equiv> m\<lparr>mediaImage := None, avQueueImage := None,
     bundleIcon := map_option pm_wire (bundleIcon m)\<rparr>"

lemma meta_transfer:
  assumes "fifo_parcel P V" and "roomy P" and "V p = []" and "meta_whole m"
    and "sent_bytes (mediaImage m) @ sent_bytes (avQueueImage m) = a @ b"
    and "isImageValid (of_nat (length (sent_bytes (mediaImage m)))
           + of_nat (length (sent_bytes (avQueueImage m))))
         \<Longrightarrow> sint (mediaLength (meta_update_lengths m)) = int (length a)
             \<and> unat (mediaLength (meta_update_lengths m)) = length a"
  shows "\<exists>p1 p2. meta_WriteToParcel P m p = (True, meta_update_lengths m, p1)
    \<and> meta_Unmarshalling P p1
        = (Some (if isImageValid (of_nat (length (sent_bytes (mediaImage m)))
                      + of_nat (length (sent_bytes (avQueueImage m))))
                 then with_images a b (without_images (meta_update_lengths m))
                 else without_images (meta_update_lengths m)), p2)
    \<and> V p2 = []"
proof -
  let ?m = "meta_update_lengths m"
  let ?a = "sent_bytes (mediaImage m)" and ?b = "sent_bytes (avQueueImage m)"
  let ?two = "of_nat (length ?a) + of_nat (length ?b) :: i32"
  let ?raw = "if isImageValid ?two then [TRaw (a @ b)] else []"
  have drm: "length (drmSchemes ?m) \<le> maxDrmSchemesLen"
    and icon: "bit (metaMask ?m) META_KEY_BUNDLE_ICON \<longrightarrow> bundleIcon ?m \<noteq> None"
    and tags: "\<not> (sint (displayTags (without_images ?m)) < 0
      \<or> DISPLAY_TAG_ALL < sint (displayTags (without_images ?m)))"
    using assms(4) by (auto simp: meta_whole_def)
  obtain q1 where q1: "WriteInt32 P ?two p = (True, q1)"
    using roomy_ops(1) [OF assms(2)] by (metis prod.collapse)
  obtain q2 where q2: "meta_MarshallingExceptImg P ?m q1 = (True, q2)"
      "V q2 = V q1 @ TStr (bitset_to_string (metaMask ?m)) # meta_core_tokens ?m
        @ pm_tokens (bundleIcon ?m) @ meta_drm_tokens ?m"
    using marshalled_except_img [OF assms(1,2) drm] by blast
  obtain q3 where q3: "WriteRawData P (?a @ ?b) q2 = (True, q3)"
    using roomy_ops(7) [OF assms(2)] by (metis prod.collapse)
  define p1 where "p1 = (if isImageValid ?two then q3 else q2)"
  have sent: "meta_WriteToParcel P m p = (True, ?m, p1)"
    using q1 q2(1) q3 by (simp add: meta_WriteToParcel_def p1_def)
  have V: "V p1 = TI32 ?two # TStr (bitset_to_string (metaMask ?m)) # meta_core_tokens ?m
      @ pm_tokens (bundleIcon ?m) @ meta_drm_tokens ?m @ ?raw"
    using q2(2) writesD [OF writes_ops(1) [OF assms(1)] q1] assms(5)
      writesD [OF writes_ops(7) [OF assms(1)] q3] assms(3)
    by (simp add: p1_def)
  obtain r1 where r1: "ReadInt32 P p1 = (Some ?two, r1)"
      "V r1 = TStr (bitset_to_string (metaMask ?m)) # meta_core_tokens ?m
      @ pm_tokens (bundleIcon ?m) @ meta_drm_tokens ?m @ ?raw"
    using reads_valueD [OF reads_ops(1) [OF assms(1)], of p1 ?two] V by auto
  obtain r2 where r2: "meta_UnmarshallingExceptImg P (new_avmeta, r1) = (False, without_images ?m, r2)"
      "V r2 = ?raw"
    using unmarshalled_except_img [OF assms(1) drm icon r1(2)] by blast
  have len: "sint ?two = int (length (a @ b))" "unat ?two = length (a @ b)"
    using sint_two [of "mediaImage m" "avQueueImage m"] assms(5) by (metis length_append)+
  have "\<exists>p2. meta_Unmarshalling P p1 = (Some (if isImageValid ?two
      then with_images a b (without_images ?m) else without_images ?m), p2) \<and> V p2 = []"
  proof (cases "isImageValid ?two")
    case False
    with r1(1) r2 tags show ?thesis by (simp add: meta_Unmarshalling_def)
  next
    case True
    then have "V r2 = TRaw (a @ b) # []" using r2(2) by simp
    from read_images [OF assms(1) this len, of "without_images ?m"] assms(6) True
    obtain r3 where "meta_ReadFromParcel P ?two (without_images ?m, r2)
        = (True, with_images a b (without_images ?m), r3)" "V r3 = []" by auto
    with True r1(1) r2(1) tags show ?thesis by (simp add: meta_Unmarshalling_def)
  qed
  with sent show ?thesis by blast
qed

text \<open>C22: round trip of a metadata object that \<open>meta_sendable\<close> allows: at most ten DRM schemes, display tags
  in range, an icon if its bit is set, and no length of an earlier media image when only the queue image is
  there. From an empty parcel with room, WriteToParcel succeeds and updates the lengths of the images in the
  sender, Unmarshalling consumes exactly what was written and gives back the object as \<open>meta_received\<close>
  describes it: every field but the mask, the icon and the two images as sent; an image with its bytes, and
  its bit in the mask, if it holds any and has at most 10 MB, otherwise none; no image at all when the two
  together exceed 10 MB; the icon as a pixel map crosses.\<close>

theorem meta_round_trip:
  assumes "fifo_parcel P V" and "roomy P" and "V p = []" and "meta_sendable m"
  shows "\<exists>p1 p2. meta_WriteToParcel P m p = (True, meta_update_lengths m, p1)
    \<and> meta_Unmarshalling P p1 = (Some (meta_received (meta_update_lengths m)), p2) \<and> V p2 = []"
proof -
  let ?m = "meta_update_lengths m"
  have "meta_whole m" using assms(4) by (simp add: meta_sendable_def meta_whole_def)
  from meta_transfer [OF assms(1-3) this refl]
  have "\<exists>p1 p2. meta_WriteToParcel P m p = (True, ?m, p1)
    \<and> meta_Unmarshalling P p1
        = (Some (if isImageValid (of_nat (length (sent_bytes (mediaImage m)))
                      + of_nat (length (sent_bytes (avQueueImage m))))
                 then with_images (sent_bytes (mediaImage m)) (sent_bytes (avQueueImage m))
                        (without_images ?m)
                 else without_images ?m), p2) \<and> V p2 = []"
    using media_length_sent [OF assms(4)] unfolding isImageValid_total by blast
  then show ?thesis
    using meta_received_with_images [of ?m, OF _ refl] meta_received_without_images [of ?m]
    by (auto split: if_splits)
qed

theorem meta_round_trip_witness:
  "\<exists>p1 p2. meta_WriteToParcel token_parcel new_avmeta [] = (True, meta_update_lengths new_avmeta, p1)
    \<and> meta_Unmarshalling token_parcel p1
        = (Some (meta_received (meta_update_lengths new_avmeta)), p2 :: nat token list) \<and> p2 = []"
proof -
  have "meta_sendable new_avmeta"
    by (simp add: meta_sendable_def new_avmeta_def maxDrmSchemesLen_def DISPLAY_TAG_ALL_def)
  from meta_round_trip [OF fifo_token_parcel roomy_token_parcel _ this] show ?thesis by auto
qed

section \<open>What the marshalling code lets through\<close>

text \<open>a length left over from an earlier media image misplaces the queue image. An object with
  no media image, a queue image of 1 to 10 MB bytes, and a stored media length of k bytes
  (SetMediaImage(nullptr) and Reset keep it) arrives with the first k bytes of the queue image
  as its media image and the rest as its queue image.\<close>

theorem meta_stale_length_splits_queue_image:
  assumes "fifo_parcel P V" and "roomy P" and "V p = []" and "meta_whole m"
    and "mediaImage m = None" and "avQueueImage m = Some pm"
    and "length (innerImgBuffer pm) \<le> maxImageSize"
    and "unat (mediaLength m) = k" and "0 < k" and "k < length (innerImgBuffer pm)"
  shows "\<exists>p1 p2 m'. meta_WriteToParcel P m p = (True, meta_update_lengths m, p1)
    \<and> meta_Unmarshalling P p1 = (Some m', p2)
    \<and> map_option innerImgBuffer (mediaImage m') = Some (take k (innerImgBuffer pm))
    \<and> map_option innerImgBuffer (avQueueImage m') = Some (drop k (innerImgBuffer pm))
    \<and> bit (metaMask m') META_KEY_MEDIA_IMAGE"
proof -
  let ?q = "innerImgBuffer pm"
  have q: "sent_bytes (mediaImage m) = []" "sent_bytes (avQueueImage m) = ?q"
    using assms(5-7) by (simp_all add: sent_bytes_def)
  have valid: "isImageValid (of_nat (length (sent_bytes (mediaImage m)))
      + of_nat (length (sent_bytes (avQueueImage m))))"
    unfolding isImageValid_total total_image_bytes_def using assms(7,9,10) q by auto
  have k: "mediaLength m = of_nat k" using assms(8) [symmetric] by simp
  have len: "sint (mediaLength (meta_update_lengths m)) = int (length (take k ?q))
      \<and> unat (mediaLength (meta_update_lengths m)) = length (take k ?q)"
    using assms(5,7,10) by (auto simp: mediaLength_update_lengths k maxImageSize_def
        intro!: sint_of_nat_i32 unat_of_nat_i32)
  have split: "sent_bytes (mediaImage m) @ sent_bytes (avQueueImage m) = take k ?q @ drop k ?q"
    by (simp add: q)
  have "take k ?q \<noteq> []" "drop k ?q \<noteq> []" using assms(9,10) by auto
  then have "map_option innerImgBuffer (mediaImage (with_images (take k ?q) (drop k ?q) obj))
        = Some (take k ?q)"
      "map_option innerImgBuffer (avQueueImage (with_images (take k ?q) (drop k ?q) obj))
        = Some (drop k ?q)"
      "bit (metaMask (with_images (take k ?q) (drop k ?q) obj)) META_KEY_MEDIA_IMAGE" for obj
    by (simp_all add: with_images_def meta_SetMediaImage_def meta_SetAVQueueImage_def
        meta_setbit_def pm_SetInnerImgBuffer_def bit_simps)
  with meta_transfer [OF assms(1-4) split len] valid show ?thesis by (auto split: if_splits)
qed

theorem meta_stale_length_splits_queue_image_witness:
  "let m = new_avmeta\<lparr>mediaLength := 1, avQueueImage := Some (new_pixel_map\<lparr>innerImgBuffer := [7, 8]\<rparr>)\<rparr>
   in \<exists>p1 p2 m'. meta_WriteToParcel token_parcel m [] = (True, meta_update_lengths m, p1)
    \<and> meta_Unmarshalling token_parcel p1 = (Some m', p2 :: nat token list)
    \<and> map_option innerImgBuffer (mediaImage m') = Some [7]
    \<and> map_option innerImgBuffer (avQueueImage m') = Some [8]
    \<and> bit (metaMask m') META_KEY_MEDIA_IMAGE"
proof -
  let ?m = "new_avmeta\<lparr>mediaLength := 1,
    avQueueImage := Some (new_pixel_map\<lparr>innerImgBuffer := [7, 8]\<rparr>)\<rparr>"
  have "meta_whole ?m"
    by (simp add: meta_whole_def new_avmeta_def maxDrmSchemesLen_def DISPLAY_TAG_ALL_def)
  from meta_stale_length_splits_queue_image [OF fifo_token_parcel roomy_token_parcel _ this,
      where k = 1 and pm = "new_pixel_map\<lparr>innerImgBuffer := [7, 8]\<rparr>" and p = "[] :: nat token list"]
  show ?thesis
    by (simp add: Let_def new_avmeta_def maxImageSize_def)
qed

text \<open>a mask string of length 0 or more than 28 does not make Unmarshalling fail: it returns a
  default object and leaves the fields in the parcel, since the early return of
  UnmarshallingExceptImg gives the value that its caller takes for success.\<close>

theorem meta_bad_mask_accepted:
  assumes "fifo_parcel P V" and "V p = TI32 n # TStr s # us" and "\<not> isImageValid n"
    and "length s = 0 \<or> META_KEY_MAX < length s"
  shows "\<exists>p'. meta_Unmarshalling P p = (Some new_avmeta, p') \<and> V p' = us"
proof -
  obtain p1 where p1: "ReadInt32 P p = (Some n, p1)" "V p1 = TStr s # us"
    using reads_valueD [OF reads_ops(1) [OF assms(1)], of p n "TStr s # us"] assms(2) by auto
  obtain p2 where p2: "ReadString P p1 = (Some s, p2)" "V p2 = us"
    using reads_valueD [OF reads_ops(5) [OF assms(1)], of p1 s us] p1(2) by auto
  have "displayTags new_avmeta = 0" by (simp add: new_avmeta_def)
  with p1 p2 assms(3,4) show ?thesis
    by (auto simp: meta_Unmarshalling_def meta_UnmarshallingExceptImg_def Let_def
        DISPLAY_TAG_ALL_def)
qed

theorem meta_bad_mask_accepted_witness:
  "\<exists>p'. meta_Unmarshalling token_parcel [TI32 0, TStr ''''] = (Some new_avmeta, p' :: nat token list)
    \<and> p' = []"
  using meta_bad_mask_accepted [OF fifo_token_parcel, of "[TI32 0, TStr []]" 0 "[]" "[]"]
  by (simp add: isImageValid_def)

text \<open>an object with more than ten DRM schemes and no image bytes is written with success and
  cannot be read back: the schemes are left out and the reader finds the end of the parcel.\<close>

theorem meta_too_many_schemes_lost:
  assumes "fifo_parcel P V" and "roomy P" and "V p = []"
    and "maxDrmSchemesLen < length (drmSchemes m)" and "total_image_bytes m = 0"
    and "bit (metaMask m) META_KEY_BUNDLE_ICON \<longrightarrow> bundleIcon m \<noteq> None"
  shows "\<exists>p1. meta_WriteToParcel P m p = (True, meta_update_lengths m, p1)
    \<and> fst (meta_Unmarshalling P p1) = None"
proof -
  let ?m = "meta_update_lengths m"
  let ?two = "of_nat (length (sent_bytes (mediaImage m)))
    + of_nat (length (sent_bytes (avQueueImage m))) :: i32"
  have noimg: "\<not> isImageValid ?two" unfolding isImageValid_total using assms(5) by simp
  obtain q1 where q1: "WriteInt32 P ?two p = (True, q1)"
    using roomy_ops(1) [OF assms(2)] by (metis prod.collapse)
  obtain q2 where q2: "w_all (meta_writes P ?m) q1 = (True, q2)"
    using roomy_meta_writes [OF assms(2), of ?m q1] by (metis prod.collapse)
  have "meta_WriteDrmSchemes P ?m q2 = (False, q2)"
    using assms(4) by (simp add: meta_WriteDrmSchemes_def)
  with q1 q2 noimg have sent: "meta_WriteToParcel P m p = (True, ?m, q2)"
    by (simp add: meta_WriteToParcel_def meta_MarshallingExceptImg_def)
  have V: "V q2 = TI32 ?two # TStr (bitset_to_string (metaMask ?m)) # meta_core_tokens ?m
      @ pm_tokens (bundleIcon ?m) @ []"
    using writesD [OF writes_meta [OF assms(1)] q2] writesD [OF writes_ops(1) [OF assms(1)] q1]
      assms(3) by simp
  obtain r1 where r1: "ReadInt32 P q2 = (Some ?two, r1)"
      "V r1 = TStr (bitset_to_string (metaMask ?m)) # meta_core_tokens ?m
        @ pm_tokens (bundleIcon ?m) @ []"
    using reads_valueD [OF reads_ops(1) [OF assms(1)], of q2 ?two] V by auto
  have icon: "bit (metaMask ?m) META_KEY_BUNDLE_ICON \<longrightarrow> bundleIcon ?m \<noteq> None"
    using assms(6) by simp
  have "fst (meta_UnmarshallingExceptImg P (new_avmeta, r1))"
    by (rule unmarshalling_without_schemes [OF assms(1) icon r1(2)])
  with r1(1) have "fst (meta_Unmarshalling P q2) = None"
    by (auto simp: meta_Unmarshalling_def split: prod.splits)
  with sent show ?thesis by blast
qed

theorem meta_too_many_schemes_lost_witness:
  "\<exists>p1. meta_WriteToParcel token_parcel (new_avmeta\<lparr>drmSchemes := replicate 11 ''x''\<rparr>) []
      = (True, meta_update_lengths (new_avmeta\<lparr>drmSchemes := replicate 11 ''x''\<rparr>),
         p1 :: nat token list)
    \<and> fst (meta_Unmarshalling token_parcel p1) = None"
  by (rule meta_too_many_schemes_lost [OF fifo_token_parcel roomy_token_parcel])
    (simp_all add: maxDrmSchemesLen_def total_image_bytes_def new_avmeta_def)

end
