(* ===== verification/PlaybackState.thy ===== *)
theory PlaybackState
  imports Parcel MaskedData
begin

text \<open>
  \<^verbatim>\<open>AVPlaybackState\<close> (\<^verbatim>\<open>avplayback_state.h\<close>, \<^verbatim>\<open>avplayback_state.cpp\<close>): the object, its setters, the
  tables of clone and check actions, the copies, the validity check and the marshalling code.
  The extras are an \<^verbatim>\<open>AAFwk::WantParams\<close>, a class of the ability framework: its values are a type
  parameter and its \<^verbatim>\<open>operator==\<close> is the argument \<open>weq\<close> of the definitions that compare extras.
\<close>

section \<open>Keys, states and loop modes\<close>

abbreviation (input) PLAYBACK_KEY_STATE :: nat where "PLAYBACK_KEY_STATE \<equiv> 0"
abbreviation (input) PLAYBACK_KEY_SPEED :: nat where "PLAYBACK_KEY_SPEED \<equiv> 1"
abbreviation (input) PLAYBACK_KEY_POSITION :: nat where "PLAYBACK_KEY_POSITION \<equiv> 2"
abbreviation (input) PLAYBACK_KEY_BUFFERED_TIME :: nat where "PLAYBACK_KEY_BUFFERED_TIME \<equiv> 3"
abbreviation (input) PLAYBACK_KEY_LOOP_MODE :: nat where "PLAYBACK_KEY_LOOP_MODE \<equiv> 4"
abbreviation (input) PLAYBACK_KEY_IS_FAVORITE :: nat where "PLAYBACK_KEY_IS_FAVORITE \<equiv> 5"
abbreviation (input) PLAYBACK_KEY_ACTIVE_ITEM_ID :: nat where "PLAYBACK_KEY_ACTIVE_ITEM_ID \<equiv> 6"
abbreviation (input) PLAYBACK_KEY_VOLUME :: nat where "PLAYBACK_KEY_VOLUME \<equiv> 7"
abbreviation (input) PLAYBACK_KEY_MAX_VOLUME :: nat where "PLAYBACK_KEY_MAX_VOLUME \<equiv> 8"
abbreviation (input) PLAYBACK_KEY_MUTED :: nat where "PLAYBACK_KEY_MUTED \<equiv> 9"
abbreviation (input) PLAYBACK_KEY_DURATION :: nat where "PLAYBACK_KEY_DURATION \<equiv> 10"
abbreviation (input) PLAYBACK_KEY_VIDEO_WIDTH :: nat where "PLAYBACK_KEY_VIDEO_WIDTH \<equiv> 11"
abbreviation (input) PLAYBACK_KEY_VIDEO_HEIGHT :: nat where "PLAYBACK_KEY_VIDEO_HEIGHT \<equiv> 12"
abbreviation (input) PLAYBACK_KEY_EXTRAS :: nat where "PLAYBACK_KEY_EXTRAS \<equiv> 13"

definition PLAYBACK_KEY_MAX :: nat where
  "PLAYBACK_KEY_MAX = 14"

definition PLAYBACK_STATE_INITIAL :: int where "PLAYBACK_STATE_INITIAL = 0"
definition PLAYBACK_STATE_PLAY :: int where "PLAYBACK_STATE_PLAY = 2"
definition PLAYBACK_STATE_MAX :: int where "PLAYBACK_STATE_MAX = 12"
definition LOOP_MODE_SEQUENCE :: int where "LOOP_MODE_SEQUENCE = 0"
definition LOOP_MODE_CUSTOM :: int where "LOOP_MODE_CUSTOM = 4"

section \<open>The object\<close>

record position =
  elapsedTime :: i64
  updateTime :: i64

record 'w playback_state =
  psMask :: "14 word"
  psState :: i32
  psSpeed :: dbl
  psPosition :: position
  psBufferedTime :: i64
  psLoopMode :: i32
  psIsFavorite :: bool
  psActiveItemId :: i32
  psVolume :: i32
  psMaxVolume :: i32
  psMuted :: bool
  psDuration :: i32
  psVideoWidth :: i32
  psVideoHeight :: i32
  psExtras :: "'w option"

definition new_playback_state :: "'w playback_state" where
  "new_playback_state = \<lparr>psMask = 0,
     psState = 0, psSpeed = DFin 1, psPosition = \<lparr>elapsedTime = 0, updateTime = 0\<rparr>,
     psBufferedTime = 0, psLoopMode = 0, psIsFavorite = False,
     psActiveItemId = 0, psVolume = 0, psMaxVolume = 0,
     psMuted = False, psDuration = 0, psVideoWidth = 0,
     psVideoHeight = 0, psExtras = None\<rparr>"

definition ps_setbit :: "nat \<Rightarrow> 'w playback_state \<Rightarrow> 'w playback_state" where
  "ps_setbit i s = s\<lparr>psMask := set_bit i (psMask s)\<rparr>"

section \<open>Setters\<close>

text \<open>The setters set the mask bit first and the field after it.\<close>

definition ps_SetState :: "i32 \<Rightarrow> 'w playback_state \<Rightarrow> 'w playback_state" where
  "ps_SetState v s = (ps_setbit PLAYBACK_KEY_STATE s)\<lparr>psState := v\<rparr>"

definition ps_SetSpeed :: "dbl \<Rightarrow> 'w playback_state \<Rightarrow> 'w playback_state" where
  "ps_SetSpeed v s = (ps_setbit PLAYBACK_KEY_SPEED s)\<lparr>psSpeed := v\<rparr>"

definition ps_SetPosition :: "position \<Rightarrow> 'w playback_state \<Rightarrow> 'w playback_state" where
  "ps_SetPosition v s = (ps_setbit PLAYBACK_KEY_POSITION s)\<lparr>psPosition := v\<rparr>"

definition ps_SetBufferedTime :: "i64 \<Rightarrow> 'w playback_state \<Rightarrow> 'w playback_state" where
  "ps_SetBufferedTime v s = (ps_setbit PLAYBACK_KEY_BUFFERED_TIME s)\<lparr>psBufferedTime := v\<rparr>"

definition ps_SetLoopMode :: "i32 \<Rightarrow> 'w playback_state \<Rightarrow> 'w playback_state" where
  "ps_SetLoopMode v s = (ps_setbit PLAYBACK_KEY_LOOP_MODE s)\<lparr>psLoopMode := v\<rparr>"

definition ps_SetFavorite :: "bool \<Rightarrow> 'w playback_state \<Rightarrow> 'w playback_state" where
  "ps_SetFavorite v s = (ps_setbit PLAYBACK_KEY_IS_FAVORITE s)\<lparr>psIsFavorite := v\<rparr>"

definition ps_SetActiveItemId :: "i32 \<Rightarrow> 'w playback_state \<Rightarrow> 'w playback_state" where
  "ps_SetActiveItemId v s = (ps_setbit PLAYBACK_KEY_ACTIVE_ITEM_ID s)\<lparr>psActiveItemId := v\<rparr>"

definition ps_SetVolume :: "i32 \<Rightarrow> 'w playback_state \<Rightarrow> 'w playback_state" where
  "ps_SetVolume v s = (ps_setbit PLAYBACK_KEY_VOLUME s)\<lparr>psVolume := v\<rparr>"

definition ps_SetMaxVolume :: "i32 \<Rightarrow> 'w playback_state \<Rightarrow> 'w playback_state" where
  "ps_SetMaxVolume v s = (ps_setbit PLAYBACK_KEY_MAX_VOLUME s)\<lparr>psMaxVolume := v\<rparr>"

definition ps_SetMuted :: "bool \<Rightarrow> 'w playback_state \<Rightarrow> 'w playback_state" where
  "ps_SetMuted v s = (ps_setbit PLAYBACK_KEY_MUTED s)\<lparr>psMuted := v\<rparr>"

definition ps_SetDuration :: "i32 \<Rightarrow> 'w playback_state \<Rightarrow> 'w playback_state" where
  "ps_SetDuration v s = (ps_setbit PLAYBACK_KEY_DURATION s)\<lparr>psDuration := v\<rparr>"

definition ps_SetVideoWidth :: "i32 \<Rightarrow> 'w playback_state \<Rightarrow> 'w playback_state" where
  "ps_SetVideoWidth v s = (ps_setbit PLAYBACK_KEY_VIDEO_WIDTH s)\<lparr>psVideoWidth := v\<rparr>"

definition ps_SetVideoHeight :: "i32 \<Rightarrow> 'w playback_state \<Rightarrow> 'w playback_state" where
  "ps_SetVideoHeight v s = (ps_setbit PLAYBACK_KEY_VIDEO_HEIGHT s)\<lparr>psVideoHeight := v\<rparr>"

definition ps_SetExtras :: "'w option \<Rightarrow> 'w playback_state \<Rightarrow> 'w playback_state" where
  "ps_SetExtras v s = (ps_setbit PLAYBACK_KEY_EXTRAS s)\<lparr>psExtras := v\<rparr>"

section \<open>Clone and check actions\<close>

definition ps_CloneState :: "'w playback_state \<Rightarrow> 'w playback_state \<Rightarrow> 'w playback_state" where
  "ps_CloneState from to = to\<lparr>psState := psState from\<rparr>"

definition ps_CloneSpeed :: "'w playback_state \<Rightarrow> 'w playback_state \<Rightarrow> 'w playback_state" where
  "ps_CloneSpeed from to = to\<lparr>psSpeed := psSpeed from\<rparr>"

definition ps_ClonePosition :: "'w playback_state \<Rightarrow> 'w playback_state \<Rightarrow> 'w playback_state" where
  "ps_ClonePosition from to = to\<lparr>psPosition := psPosition from\<rparr>"

definition ps_CloneBufferedTime :: "'w playback_state \<Rightarrow> 'w playback_state \<Rightarrow> 'w playback_state" where
  "ps_CloneBufferedTime from to = to\<lparr>psBufferedTime := psBufferedTime from\<rparr>"

definition ps_CloneLoopMode :: "'w playback_state \<Rightarrow> 'w playback_state \<Rightarrow> 'w playback_state" where
  "ps_CloneLoopMode from to = to\<lparr>psLoopMode := psLoopMode from\<rparr>"

definition ps_CloneIsFavorite :: "'w playback_state \<Rightarrow> 'w playback_state \<Rightarrow> 'w playback_state" where
  "ps_CloneIsFavorite from to = to\<lparr>psIsFavorite := psIsFavorite from\<rparr>"

definition ps_CloneActiveItemId :: "'w playback_state \<Rightarrow> 'w playback_state \<Rightarrow> 'w playback_state" where
  "ps_CloneActiveItemId from to = to\<lparr>psActiveItemId := psActiveItemId from\<rparr>"

definition ps_CloneVolume :: "'w playback_state \<Rightarrow> 'w playback_state \<Rightarrow> 'w playback_state" where
  "ps_CloneVolume from to = to\<lparr>psVolume := psVolume from\<rparr>"

definition ps_CloneMaxVolume :: "'w playback_state \<Rightarrow> 'w playback_state \<Rightarrow> 'w playback_state" where
  "ps_CloneMaxVolume from to = to\<lparr>psMaxVolume := psMaxVolume from\<rparr>"

definition ps_CloneMuted :: "'w playback_state \<Rightarrow> 'w playback_state \<Rightarrow> 'w playback_state" where
  "ps_CloneMuted from to = to\<lparr>psMuted := psMuted from\<rparr>"

definition ps_CloneDuration :: "'w playback_state \<Rightarrow> 'w playback_state \<Rightarrow> 'w playback_state" where
  "ps_CloneDuration from to = to\<lparr>psDuration := psDuration from\<rparr>"

definition ps_CloneVideoWidth :: "'w playback_state \<Rightarrow> 'w playback_state \<Rightarrow> 'w playback_state" where
  "ps_CloneVideoWidth from to = to\<lparr>psVideoWidth := psVideoWidth from\<rparr>"

definition ps_CloneVideoHeight :: "'w playback_state \<Rightarrow> 'w playback_state \<Rightarrow> 'w playback_state" where
  "ps_CloneVideoHeight from to = to\<lparr>psVideoHeight := psVideoHeight from\<rparr>"

definition ps_CloneExtras :: "'w playback_state \<Rightarrow> 'w playback_state \<Rightarrow> 'w playback_state" where
  "ps_CloneExtras from to = to\<lparr>psExtras := psExtras from\<rparr>"

definition ps_CheckStateChange :: "'w playback_state \<Rightarrow> 'w playback_state \<Rightarrow> bool" where
  "ps_CheckStateChange newState oldState \<longleftrightarrow> psState newState \<noteq> psState oldState"

definition ps_CheckSpeedChange :: "'w playback_state \<Rightarrow> 'w playback_state \<Rightarrow> bool" where
  "ps_CheckSpeedChange newState oldState \<longleftrightarrow> \<not> dbl_eq (psSpeed newState) (psSpeed oldState)"

definition ps_CheckPositionChange :: "'w playback_state \<Rightarrow> 'w playback_state \<Rightarrow> bool" where
  "ps_CheckPositionChange newState oldState \<longleftrightarrow> elapsedTime (psPosition newState) \<noteq> elapsedTime (psPosition oldState)
     \<or> updateTime (psPosition newState) \<noteq> updateTime (psPosition oldState)"

definition ps_CheckBufferedTimeChange :: "'w playback_state \<Rightarrow> 'w playback_state \<Rightarrow> bool" where
  "ps_CheckBufferedTimeChange newState oldState \<longleftrightarrow> psBufferedTime newState \<noteq> psBufferedTime oldState"

definition ps_CheckLoopModeChange :: "'w playback_state \<Rightarrow> 'w playback_state \<Rightarrow> bool" where
  "ps_CheckLoopModeChange newState oldState \<longleftrightarrow> psLoopMode newState \<noteq> psLoopMode oldState"

definition ps_CheckIsFavoriteChange :: "'w playback_state \<Rightarrow> 'w playback_state \<Rightarrow> bool" where
  "ps_CheckIsFavoriteChange newState oldState \<longleftrightarrow> psIsFavorite newState \<noteq> psIsFavorite oldState"

definition ps_CheckActiveItemIdChange :: "'w playback_state \<Rightarrow> 'w playback_state \<Rightarrow> bool" where
  "ps_CheckActiveItemIdChange newState oldState \<longleftrightarrow> psActiveItemId newState \<noteq> psActiveItemId oldState"

definition ps_CheckVolumeChange :: "'w playback_state \<Rightarrow> 'w playback_state \<Rightarrow> bool" where
  "ps_CheckVolumeChange newState oldState \<longleftrightarrow> psVolume newState \<noteq> psVolume oldState"

definition ps_CheckMaxVolumeChange :: "'w playback_state \<Rightarrow> 'w playback_state \<Rightarrow> bool" where
  "ps_CheckMaxVolumeChange newState oldState \<longleftrightarrow> psMaxVolume newState \<noteq> psMaxVolume oldState"

definition ps_CheckMutedChange :: "'w playback_state \<Rightarrow> 'w playback_state \<Rightarrow> bool" where
  "ps_CheckMutedChange newState oldState \<longleftrightarrow> psMuted newState \<noteq> psMuted oldState"

definition ps_CheckDurationChange :: "'w playback_state \<Rightarrow> 'w playback_state \<Rightarrow> bool" where
  "ps_CheckDurationChange newState oldState \<longleftrightarrow> psDuration newState \<noteq> psDuration oldState"

definition ps_CheckVideoWidthChange :: "'w playback_state \<Rightarrow> 'w playback_state \<Rightarrow> bool" where
  "ps_CheckVideoWidthChange newState oldState \<longleftrightarrow> psVideoWidth newState \<noteq> psVideoWidth oldState"

definition ps_CheckVideoHeightChange :: "'w playback_state \<Rightarrow> 'w playback_state \<Rightarrow> bool" where
  "ps_CheckVideoHeightChange newState oldState \<longleftrightarrow> psVideoHeight newState \<noteq> psVideoHeight oldState"

fun extras_change :: "('w \<Rightarrow> 'w \<Rightarrow> bool) \<Rightarrow> 'w option \<Rightarrow> 'w option \<Rightarrow> bool" where
  "extras_change weq None None = False"
| "extras_change weq (Some a) (Some b) = (\<not> weq a b)"
| "extras_change weq _ _ = True"

definition ps_CheckExtrasChange ::
  "('w \<Rightarrow> 'w \<Rightarrow> bool) \<Rightarrow> 'w playback_state \<Rightarrow> 'w playback_state \<Rightarrow> bool" where
  "ps_CheckExtrasChange weq newState oldState \<longleftrightarrow>
     extras_change weq (psExtras newState) (psExtras oldState)"

definition ps_cloneActions :: "('w playback_state \<Rightarrow> 'w playback_state \<Rightarrow> 'w playback_state) list" where
  "ps_cloneActions = [
     ps_CloneState, ps_CloneSpeed, ps_ClonePosition,
     ps_CloneBufferedTime, ps_CloneLoopMode, ps_CloneIsFavorite,
     ps_CloneActiveItemId, ps_CloneVolume, ps_CloneMaxVolume,
     ps_CloneMuted, ps_CloneDuration, ps_CloneVideoWidth,
     ps_CloneVideoHeight, ps_CloneExtras]"

definition ps_checkActions ::
  "('w \<Rightarrow> 'w \<Rightarrow> bool) \<Rightarrow> ('w playback_state \<Rightarrow> 'w playback_state \<Rightarrow> bool) list" where
  "ps_checkActions weq = [
     ps_CheckStateChange, ps_CheckSpeedChange, ps_CheckPositionChange,
     ps_CheckBufferedTimeChange, ps_CheckLoopModeChange, ps_CheckIsFavoriteChange,
     ps_CheckActiveItemIdChange, ps_CheckVolumeChange, ps_CheckMaxVolumeChange,
     ps_CheckMutedChange, ps_CheckDurationChange, ps_CheckVideoWidthChange,
     ps_CheckVideoHeightChange, ps_CheckExtrasChange weq]"

lemmas ps_clone_defs =
  ps_CloneState_def ps_CloneSpeed_def ps_ClonePosition_def
  ps_CloneBufferedTime_def ps_CloneLoopMode_def ps_CloneIsFavorite_def
  ps_CloneActiveItemId_def ps_CloneVolume_def ps_CloneMaxVolume_def
  ps_CloneMuted_def ps_CloneDuration_def ps_CloneVideoWidth_def
  ps_CloneVideoHeight_def ps_CloneExtras_def

lemmas ps_check_defs =
  ps_CheckStateChange_def ps_CheckSpeedChange_def ps_CheckPositionChange_def
  ps_CheckBufferedTimeChange_def ps_CheckLoopModeChange_def ps_CheckIsFavoriteChange_def
  ps_CheckActiveItemIdChange_def ps_CheckVolumeChange_def ps_CheckMaxVolumeChange_def
  ps_CheckMutedChange_def ps_CheckDurationChange_def ps_CheckVideoWidthChange_def
  ps_CheckVideoHeightChange_def ps_CheckExtrasChange_def

lemmas ps_set_defs =
  ps_SetState_def ps_SetSpeed_def ps_SetPosition_def
  ps_SetBufferedTime_def ps_SetLoopMode_def ps_SetFavorite_def
  ps_SetActiveItemId_def ps_SetVolume_def ps_SetMaxVolume_def
  ps_SetMuted_def ps_SetDuration_def ps_SetVideoWidth_def
  ps_SetVideoHeight_def ps_SetExtras_def

datatype 'w ps_field = PInt i32 | PDbl dbl | PPos position | PLong i64 | PBool bool
  | PExt "'w option"

definition ps_fields :: "'w playback_state \<Rightarrow> 'w ps_field list" where
  "ps_fields s = [
     PInt (psState s), PDbl (psSpeed s), PPos (psPosition s),
     PLong (psBufferedTime s), PInt (psLoopMode s), PBool (psIsFavorite s),
     PInt (psActiveItemId s), PInt (psVolume s), PInt (psMaxVolume s),
     PBool (psMuted s), PInt (psDuration s), PInt (psVideoWidth s),
     PInt (psVideoHeight s), PExt (psExtras s)]"

section \<open>Operations on whole objects\<close>

definition ps_IsValidLoopMode :: "i32 \<Rightarrow> bool" where
  "ps_IsValidLoopMode loopMode \<longleftrightarrow>
     LOOP_MODE_SEQUENCE \<le> sint loopMode \<and> sint loopMode \<le> LOOP_MODE_CUSTOM"

definition ps_IsValid :: "'w playback_state \<Rightarrow> bool" where
  "ps_IsValid s \<longleftrightarrow> PLAYBACK_STATE_INITIAL \<le> sint (psState s) \<and> sint (psState s) < PLAYBACK_STATE_MAX
     \<and> dbl_less (DFin 0) (psSpeed s) \<and> 0 \<le> sint (elapsedTime (psPosition s))
     \<and> 0 \<le> sint (updateTime (psPosition s)) \<and> 0 \<le> sint (psBufferedTime s)
     \<and> LOOP_MODE_SEQUENCE \<le> sint (psLoopMode s) \<and> sint (psLoopMode s) \<le> LOOP_MODE_CUSTOM
     \<and> 0 \<le> sint (psVolume s) \<and> 0 \<le> sint (psMaxVolume s)"

definition ps_CopyToByMask ::
  "14 word \<Rightarrow> 'w playback_state \<Rightarrow> 'w playback_state \<Rightarrow> bool \<times> 'w playback_state" where
  "ps_CopyToByMask msk self out =
     copy_masked ((!) ps_cloneActions) ps_setbit (psMask self AND msk) self
       [0..<PLAYBACK_KEY_MAX] (False, out)"

text \<open>The check actions get the new state first, the object itself second.\<close>

definition ps_GetChangedStateMask ::
  "('w \<Rightarrow> 'w \<Rightarrow> bool) \<Rightarrow> 14 word \<Rightarrow> 'w playback_state \<Rightarrow> 'w playback_state \<Rightarrow> 14 word" where
  "ps_GetChangedStateMask weq filt self newState =
     changed_mask ((!) (ps_checkActions weq)) filt [0..<PLAYBACK_KEY_MAX] newState self"

definition ps_CopyFrom :: "'w playback_state \<Rightarrow> 'w playback_state \<Rightarrow> bool \<times> 'w playback_state" where
  "ps_CopyFrom stateIn self =
     copy_masked ((!) ps_cloneActions) ps_setbit (psMask stateIn) stateIn
       [0..<PLAYBACK_KEY_MAX] (False, self)"

section \<open>Marshalling\<close>

definition ps_writes ::
  "('p, 'w) parcel_ops \<Rightarrow> 'w playback_state \<Rightarrow> ('p \<Rightarrow> bool \<times> 'p) list" where
  "ps_writes P s = [
     WriteString P (bitset_to_string (psMask s)), WriteInt32 P (psState s),
     WriteDouble P (psSpeed s), WriteInt64 P (elapsedTime (psPosition s)),
     WriteInt64 P (updateTime (psPosition s)), WriteInt64 P (psBufferedTime s),
     WriteInt32 P (psLoopMode s), WriteBool P (psIsFavorite s), WriteInt32 P (psActiveItemId s),
     WriteInt32 P (psVolume s), WriteInt32 P (psMaxVolume s), WriteBool P (psMuted s),
     WriteInt32 P (psDuration s), WriteInt32 P (psVideoWidth s), WriteInt32 P (psVideoHeight s),
     WriteWantParams P (psExtras s)]"

definition ps_Marshalling :: "('p, 'w) parcel_ops \<Rightarrow> 'w playback_state \<Rightarrow> 'p \<Rightarrow> bool \<times> 'p" where
  "ps_Marshalling P s p = w_all (ps_writes P s) p"

definition ps_reads ::
  "('p, 'w) parcel_ops \<Rightarrow> ('w playback_state \<times> 'p \<Rightarrow> bool \<times> 'w playback_state \<times> 'p) list" where
  "ps_reads P = [
     r_field (ReadInt32 P) (\<lambda>v s. s\<lparr>psState := v\<rparr>),
     r_field (ReadDouble P) (\<lambda>v s. s\<lparr>psSpeed := v\<rparr>),
     r_field (ReadInt64 P) (\<lambda>v s. s\<lparr>psPosition := (psPosition s)\<lparr>elapsedTime := v\<rparr>\<rparr>),
     r_field (ReadInt64 P) (\<lambda>v s. s\<lparr>psPosition := (psPosition s)\<lparr>updateTime := v\<rparr>\<rparr>),
     r_field (ReadInt64 P) (\<lambda>v s. s\<lparr>psBufferedTime := v\<rparr>),
     r_field (ReadInt32 P) (\<lambda>v s. s\<lparr>psLoopMode := v\<rparr>),
     r_field (ReadBool P) (\<lambda>v s. s\<lparr>psIsFavorite := v\<rparr>),
     r_field (ReadInt32 P) (\<lambda>v s. s\<lparr>psActiveItemId := v\<rparr>),
     r_field (ReadInt32 P) (\<lambda>v s. s\<lparr>psVolume := v\<rparr>),
     r_field (ReadInt32 P) (\<lambda>v s. s\<lparr>psMaxVolume := v\<rparr>),
     r_field (ReadBool P) (\<lambda>v s. s\<lparr>psMuted := v\<rparr>),
     r_field (ReadInt32 P) (\<lambda>v s. s\<lparr>psDuration := v\<rparr>),
     r_field (ReadInt32 P) (\<lambda>v s. s\<lparr>psVideoWidth := v\<rparr>),
     r_field (ReadInt32 P) (\<lambda>v s. s\<lparr>psVideoHeight := v\<rparr>)]"

definition ps_Unmarshalling :: "('p, 'w) parcel_ops \<Rightarrow> 'p \<Rightarrow> 'w playback_state option \<times> 'p" where
  "ps_Unmarshalling P p = (case ReadString P p of
     (None, p1) \<Rightarrow> (None, p1)
   | (Some msk, p1) \<Rightarrow>
       if length msk \<noteq> PLAYBACK_KEY_MAX then (None, p1)
       else if list_ex (\<lambda>c. c \<notin> {CHR ''0'', CHR ''1''}) msk then (None, p1)
       else (case r_all (ps_reads P) (new_playback_state\<lparr>psMask := bitset_of_string msk\<rparr>, p1) of
           (False, _, p2) \<Rightarrow> (None, p2)
         | (True, s, p2) \<Rightarrow>
             if sint (psState s) < PLAYBACK_STATE_INITIAL \<or> PLAYBACK_STATE_MAX \<le> sint (psState s)
             then (None, p2)
             else (case ReadWantParams P p2 of (extras, p3) \<Rightarrow> (Some (s\<lparr>psExtras := extras\<rparr>), p3))))"

section \<open>The tables keep the contract\<close>

fun ps_differs :: "('w \<Rightarrow> 'w \<Rightarrow> bool) \<Rightarrow> 'w ps_field \<Rightarrow> 'w ps_field \<Rightarrow> bool" where
  "ps_differs weq (PExt a) (PExt b) = extras_change weq a b"
| "ps_differs weq (PDbl a) (PDbl b) = (\<not> dbl_eq a b)"
| "ps_differs weq a b = (a \<noteq> b)"

lemma less_PLAYBACK_KEY_MAX:
  assumes "i < PLAYBACK_KEY_MAX"
  obtains "i = 0" | "i = 1" | "i = 2" | "i = 3" | "i = 4" | "i = 5" | "i = 6" | "i = 7" | "i = 8"
    | "i = 9" | "i = 10" | "i = 11" | "i = 12" | "i = 13"
  using assms unfolding PLAYBACK_KEY_MAX_def by (atomize_elim) presburger

lemma length_ps_fields [simp]: "length (ps_fields s) = PLAYBACK_KEY_MAX"
  by (simp add: ps_fields_def PLAYBACK_KEY_MAX_def)

lemma ps_fields_clone:
  "i < PLAYBACK_KEY_MAX \<Longrightarrow>
     ps_fields ((ps_cloneActions ! i) a b) = (ps_fields b)[i := ps_fields a ! i]"
  by (erule less_PLAYBACK_KEY_MAX) (simp_all add: ps_cloneActions_def ps_clone_defs ps_fields_def)

lemma psMask_clone: "i < PLAYBACK_KEY_MAX \<Longrightarrow> psMask ((ps_cloneActions ! i) a b) = psMask b"
  by (erule less_PLAYBACK_KEY_MAX) (simp_all add: ps_cloneActions_def ps_clone_defs)

lemma position_neq:
  "(p :: position) \<noteq> q \<longleftrightarrow> elapsedTime p \<noteq> elapsedTime q \<or> updateTime p \<noteq> updateTime q"
  by (cases p; cases q) simp

lemma ps_check_fields:
  "i < PLAYBACK_KEY_MAX \<Longrightarrow>
     (ps_checkActions weq ! i) a b \<longleftrightarrow> ps_differs weq (ps_fields a ! i) (ps_fields b ! i)"
  by (erule less_PLAYBACK_KEY_MAX)
    (simp_all add: ps_checkActions_def ps_check_defs ps_fields_def position_neq)

lemma ps_fields_setbit [simp]: "ps_fields (ps_setbit i s) = ps_fields s"
  by (simp add: ps_setbit_def ps_fields_def)

lemma psMask_setbit [simp]: "psMask (ps_setbit i s) = set_bit i (psMask s)"
  by (simp add: ps_setbit_def)

interpretation ps: masked_data PLAYBACK_KEY_MAX "(!) ps_cloneActions" "(!) (ps_checkActions weq)"
  psMask ps_setbit "\<lambda>i s. ps_fields s ! i" "ps_differs weq" for weq :: "'w \<Rightarrow> 'w \<Rightarrow> bool"
  by unfold_locales
    (simp_all add: ps_fields_clone psMask_clone ps_check_fields, simp add: PLAYBACK_KEY_MAX_def)

lemma ps_stable_iff:
  "ps.stable weq v \<longleftrightarrow> v \<noteq> PDbl DNaN \<and> (\<forall>w. v = PExt (Some w) \<longrightarrow> weq w w)"
proof -
  have "extras_change weq x x \<longleftrightarrow> (\<exists>w. x = Some w \<and> \<not> weq w w)" for x by (cases x) auto
  then show ?thesis by (cases v) (auto simp: ps.stable_def)
qed

lemma playback_state_eqI:
  "psMask a = psMask b \<Longrightarrow> ps_fields a = ps_fields b \<Longrightarrow> a = (b :: 'w playback_state)"
  by (cases a; cases b) (simp add: ps_fields_def)

section \<open>Reachable objects\<close>

text \<open>The objects that setters and copies build from a new one.\<close>

inductive ps_reachable :: "'w playback_state \<Rightarrow> bool" where
  ps_new: "ps_reachable new_playback_state"
| ps_set_state: "ps_reachable s \<Longrightarrow> ps_reachable (ps_SetState v s)"
| ps_set_speed: "ps_reachable s \<Longrightarrow> ps_reachable (ps_SetSpeed d s)"
| ps_set_position: "ps_reachable s \<Longrightarrow> ps_reachable (ps_SetPosition q s)"
| ps_set_buffered: "ps_reachable s \<Longrightarrow> ps_reachable (ps_SetBufferedTime l s)"
| ps_set_loop: "ps_reachable s \<Longrightarrow> ps_reachable (ps_SetLoopMode v s)"
| ps_set_favorite: "ps_reachable s \<Longrightarrow> ps_reachable (ps_SetFavorite b s)"
| ps_set_item: "ps_reachable s \<Longrightarrow> ps_reachable (ps_SetActiveItemId v s)"
| ps_set_volume: "ps_reachable s \<Longrightarrow> ps_reachable (ps_SetVolume v s)"
| ps_set_max_volume: "ps_reachable s \<Longrightarrow> ps_reachable (ps_SetMaxVolume v s)"
| ps_set_muted: "ps_reachable s \<Longrightarrow> ps_reachable (ps_SetMuted b s)"
| ps_set_duration: "ps_reachable s \<Longrightarrow> ps_reachable (ps_SetDuration v s)"
| ps_set_width: "ps_reachable s \<Longrightarrow> ps_reachable (ps_SetVideoWidth v s)"
| ps_set_height: "ps_reachable s \<Longrightarrow> ps_reachable (ps_SetVideoHeight v s)"
| ps_set_extras: "ps_reachable s \<Longrightarrow> ps_reachable (ps_SetExtras x s)"
| ps_copy_from: "ps_reachable s \<Longrightarrow> ps_reachable t \<Longrightarrow> ps_CopyFrom t s = (r, s') \<Longrightarrow> ps_reachable s'"
| ps_copy_mask: "ps_reachable s \<Longrightarrow> ps_reachable t \<Longrightarrow> ps_CopyToByMask msk t s = (r, s')
    \<Longrightarrow> ps_reachable s'"

definition ps_masked :: "'w playback_state \<Rightarrow> bool" where
  "ps_masked s \<longleftrightarrow> (\<forall>k < PLAYBACK_KEY_MAX. \<not> bit (psMask s) k \<longrightarrow>
     ps_fields s ! k = ps_fields new_playback_state ! k)"

lemma ps_masked_set:
  assumes "ps_masked s" and "psMask s' = set_bit k (psMask s)" and "k < PLAYBACK_KEY_MAX"
    and "ps_fields s' = (ps_fields s)[k := x]"
  shows "ps_masked s'"
  using assms by (auto simp: ps_masked_def bit_simps PLAYBACK_KEY_MAX_def nth_list_update)

lemma ps_masked_copy:
  fixes msk :: "14 word"
  assumes "ps_masked s" and "ps_masked t"
    and "copy_masked ((!) ps_cloneActions) ps_setbit msk t [0..<PLAYBACK_KEY_MAX] (False, s) = (r, s')"
  shows "ps_masked s'"
  unfolding ps_masked_def
proof (intro allI impI)
  fix k assume k: "k < PLAYBACK_KEY_MAX" "\<not> bit (psMask s') k"
  show "ps_fields s' ! k = ps_fields new_playback_state ! k"
    using ps.copy_keys(1,2) [OF assms(3) k(1)] k assms(1) by (auto simp: ps_masked_def)
qed

lemma ps_fields_sets:
  "ps_fields (ps_SetState v s) = (ps_fields s)[PLAYBACK_KEY_STATE := PInt v]"
  "ps_fields (ps_SetSpeed d s) = (ps_fields s)[PLAYBACK_KEY_SPEED := PDbl d]"
  "ps_fields (ps_SetPosition q s) = (ps_fields s)[PLAYBACK_KEY_POSITION := PPos q]"
  "ps_fields (ps_SetBufferedTime l s) = (ps_fields s)[PLAYBACK_KEY_BUFFERED_TIME := PLong l]"
  "ps_fields (ps_SetLoopMode v s) = (ps_fields s)[PLAYBACK_KEY_LOOP_MODE := PInt v]"
  "ps_fields (ps_SetFavorite b s) = (ps_fields s)[PLAYBACK_KEY_IS_FAVORITE := PBool b]"
  "ps_fields (ps_SetActiveItemId v s) = (ps_fields s)[PLAYBACK_KEY_ACTIVE_ITEM_ID := PInt v]"
  "ps_fields (ps_SetVolume v s) = (ps_fields s)[PLAYBACK_KEY_VOLUME := PInt v]"
  "ps_fields (ps_SetMaxVolume v s) = (ps_fields s)[PLAYBACK_KEY_MAX_VOLUME := PInt v]"
  "ps_fields (ps_SetMuted b s) = (ps_fields s)[PLAYBACK_KEY_MUTED := PBool b]"
  "ps_fields (ps_SetDuration v s) = (ps_fields s)[PLAYBACK_KEY_DURATION := PInt v]"
  "ps_fields (ps_SetVideoWidth v s) = (ps_fields s)[PLAYBACK_KEY_VIDEO_WIDTH := PInt v]"
  "ps_fields (ps_SetVideoHeight v s) = (ps_fields s)[PLAYBACK_KEY_VIDEO_HEIGHT := PInt v]"
  "ps_fields (ps_SetExtras x s) = (ps_fields s)[PLAYBACK_KEY_EXTRAS := PExt x]"
  by (simp_all add: ps_set_defs ps_fields_def ps_setbit_def)

lemma psMask_sets:
  "psMask (ps_SetState v s) = set_bit PLAYBACK_KEY_STATE (psMask s)"
  "psMask (ps_SetSpeed d s) = set_bit PLAYBACK_KEY_SPEED (psMask s)"
  "psMask (ps_SetPosition q s) = set_bit PLAYBACK_KEY_POSITION (psMask s)"
  "psMask (ps_SetBufferedTime l s) = set_bit PLAYBACK_KEY_BUFFERED_TIME (psMask s)"
  "psMask (ps_SetLoopMode v s) = set_bit PLAYBACK_KEY_LOOP_MODE (psMask s)"
  "psMask (ps_SetFavorite b s) = set_bit PLAYBACK_KEY_IS_FAVORITE (psMask s)"
  "psMask (ps_SetActiveItemId v s) = set_bit PLAYBACK_KEY_ACTIVE_ITEM_ID (psMask s)"
  "psMask (ps_SetVolume v s) = set_bit PLAYBACK_KEY_VOLUME (psMask s)"
  "psMask (ps_SetMaxVolume v s) = set_bit PLAYBACK_KEY_MAX_VOLUME (psMask s)"
  "psMask (ps_SetMuted b s) = set_bit PLAYBACK_KEY_MUTED (psMask s)"
  "psMask (ps_SetDuration v s) = set_bit PLAYBACK_KEY_DURATION (psMask s)"
  "psMask (ps_SetVideoWidth v s) = set_bit PLAYBACK_KEY_VIDEO_WIDTH (psMask s)"
  "psMask (ps_SetVideoHeight v s) = set_bit PLAYBACK_KEY_VIDEO_HEIGHT (psMask s)"
  "psMask (ps_SetExtras x s) = set_bit PLAYBACK_KEY_EXTRAS (psMask s)"
  by (simp_all add: ps_set_defs ps_setbit_def)

lemma ps_masked_sets:
  assumes "ps_masked s"
  shows "ps_masked (ps_SetState v s)" "ps_masked (ps_SetSpeed d s)" "ps_masked (ps_SetPosition q s)"
    "ps_masked (ps_SetBufferedTime l s)" "ps_masked (ps_SetLoopMode v s)"
    "ps_masked (ps_SetFavorite b s)" "ps_masked (ps_SetActiveItemId v s)"
    "ps_masked (ps_SetVolume v s)" "ps_masked (ps_SetMaxVolume v s)" "ps_masked (ps_SetMuted b s)"
    "ps_masked (ps_SetDuration v s)" "ps_masked (ps_SetVideoWidth v s)"
    "ps_masked (ps_SetVideoHeight v s)" "ps_masked (ps_SetExtras x s)"
  by (rule ps_masked_set [OF assms psMask_sets(1) _ ps_fields_sets(1)]
      ps_masked_set [OF assms psMask_sets(2) _ ps_fields_sets(2)]
      ps_masked_set [OF assms psMask_sets(3) _ ps_fields_sets(3)]
      ps_masked_set [OF assms psMask_sets(4) _ ps_fields_sets(4)]
      ps_masked_set [OF assms psMask_sets(5) _ ps_fields_sets(5)]
      ps_masked_set [OF assms psMask_sets(6) _ ps_fields_sets(6)]
      ps_masked_set [OF assms psMask_sets(7) _ ps_fields_sets(7)]
      ps_masked_set [OF assms psMask_sets(8) _ ps_fields_sets(8)]
      ps_masked_set [OF assms psMask_sets(9) _ ps_fields_sets(9)]
      ps_masked_set [OF assms psMask_sets(10) _ ps_fields_sets(10)]
      ps_masked_set [OF assms psMask_sets(11) _ ps_fields_sets(11)]
      ps_masked_set [OF assms psMask_sets(12) _ ps_fields_sets(12)]
      ps_masked_set [OF assms psMask_sets(13) _ ps_fields_sets(13)]
      ps_masked_set [OF assms psMask_sets(14) _ ps_fields_sets(14)];
      simp add: PLAYBACK_KEY_MAX_def)+

end
