(* ===== verification/PlaybackProps.thy ===== *)
theory PlaybackProps
  imports PlaybackState
begin

text \<open>
  Properties of the playback state: the mask of every object that clients can build, the copies,
  the updates by changed fields, and the round trip through a parcel.
\<close>

section \<open>Tokens\<close>

definition ps_core_tokens :: "'w playback_state \<Rightarrow> 'w token list" where
  "ps_core_tokens s = [
     TI32 (psState s), TDbl (psSpeed s), TI64 (elapsedTime (psPosition s)),
     TI64 (updateTime (psPosition s)), TI64 (psBufferedTime s), TI32 (psLoopMode s),
     TBool (psIsFavorite s), TI32 (psActiveItemId s), TI32 (psVolume s), TI32 (psMaxVolume s),
     TBool (psMuted s), TI32 (psDuration s), TI32 (psVideoWidth s), TI32 (psVideoHeight s)]"

lemma writes_ps:
  assumes "fifo_parcel P V"
  shows "writes V (ps_Marshalling P s)
    (TStr (bitset_to_string (psMask s)) # ps_core_tokens s @ [TWant (psExtras s)])"
proof -
  have "writes V (w_all (ps_writes P s))
    (TStr (bitset_to_string (psMask s)) # ps_core_tokens s @ [TWant (psExtras s)])"
    unfolding ps_writes_def ps_core_tokens_def append_Cons append_Nil
    by (intro writes_Cons1 writes_single writes_ops assms)
  then show ?thesis by (simp add: writes_def ps_Marshalling_def)
qed

definition ps_fill :: "'w playback_state \<Rightarrow> 'w playback_state \<Rightarrow> 'w playback_state" where
  "ps_fill s obj = s\<lparr>psMask := psMask obj, psExtras := psExtras obj\<rparr>"

lemma reads_ps:
  assumes "fifo_parcel P V"
  shows "reads V (r_all (ps_reads P)) (ps_core_tokens s) (ps_fill s)"
proof -
  have "\<exists>us. reads V (r_all (ps_reads P)) (ps_core_tokens s) (fold (\<lambda>u. u) us)
      \<and> fold (\<lambda>u. u) us = ps_fill s"
    unfolding ps_reads_def ps_core_tokens_def
    apply (rule exI, rule conjI)
     apply (rule reads_Cons1 reads_done reads_field reads_ops assms)+
    apply (rule ext)
    subgoal for obj by (cases s; cases obj) (simp add: ps_fill_def)
    done
  then show ?thesis by auto
qed

lemma bitset_string_accepted:
  "length (bitset_to_string (w :: 14 word)) = PLAYBACK_KEY_MAX"
  "\<not> list_ex (\<lambda>c. c \<notin> {CHR ''0'', CHR ''1''}) (bitset_to_string w)"
  using bitset_to_string_binary [of w]
  by (auto simp: PLAYBACK_KEY_MAX_def list_ex_iff)

text \<open>What Unmarshalling makes of what Marshalling wrote.\<close>

lemma ps_read_tokens:
  assumes "fifo_parcel P V"
    and "V p = (TStr (bitset_to_string (psMask s)) # ps_core_tokens s @ [TWant (psExtras s)]) @ us"
  shows "\<exists>p2. ps_Unmarshalling P p =
    (if PLAYBACK_STATE_INITIAL \<le> sint (psState s) \<and> sint (psState s) < PLAYBACK_STATE_MAX
     then Some s else None, p2)
    \<and> (PLAYBACK_STATE_INITIAL \<le> sint (psState s) \<and> sint (psState s) < PLAYBACK_STATE_MAX \<longrightarrow> V p2 = us)"
proof -
  have V: "V p = [TStr (bitset_to_string (psMask s))] @ ps_core_tokens s @ [TWant (psExtras s)] @ us"
    using assms(2) by simp
  obtain r1 where r1: "ReadString P p = (Some (bitset_to_string (psMask s)), r1)"
      "V r1 = ps_core_tokens s @ [TWant (psExtras s)] @ us"
    using reads_valueD [OF reads_ops(5) [OF assms(1)] V] by blast
  let ?o = "new_playback_state\<lparr>psMask := psMask s\<rparr>"
  obtain r2 where r2: "r_all (ps_reads P) (?o, r1) = (True, ps_fill s ?o, r2)"
      "V r2 = [TWant (psExtras s)] @ us"
    using readsD [OF reads_ps [OF assms(1)] r1(2), of ?o] by blast
  obtain r3 where r3: "ReadWantParams P r2 = (psExtras s, r3)" "V r3 = us"
    using reads_valueD [OF reads_ops(8) [OF assms(1)] r2(2)] by blast
  have fill: "(ps_fill s ?o)\<lparr>psExtras := psExtras s\<rparr> = s" "psState (ps_fill s ?o) = psState s"
    by (simp_all add: ps_fill_def)
  show ?thesis
    using r1(1) r2(1) r3 fill bitset_string_accepted [of "psMask s"]
    by (auto simp: ps_Unmarshalling_def)
qed

lemma ps_transfer:
  assumes "fifo_parcel P V" and "V p = []" and "ps_Marshalling P s p = (True, p1)"
  shows "\<exists>p2. ps_Unmarshalling P p1 =
    (if PLAYBACK_STATE_INITIAL \<le> sint (psState s) \<and> sint (psState s) < PLAYBACK_STATE_MAX
     then Some s else None, p2)"
  using ps_read_tokens [OF assms(1), of p1 s "[]"] writesD [OF writes_ps [OF assms(1)] assms(3)] assms(2)
  by auto

lemma roomy_ps: "roomy P \<Longrightarrow> fst (ps_Marshalling P s p)"
  unfolding ps_Marshalling_def by (rule w_all_succeeds) (auto simp: ps_writes_def roomy_ops)

section \<open>Properties\<close>

text \<open>C27: in every playback state that setters and copies can build, a field whose mask bit is clear
  holds its initial value, so a receiver that only looks at the fields of the mask misses
  nothing.\<close>

theorem ps_reachable_masked: "ps_reachable s \<Longrightarrow> ps_masked s"
proof (induction rule: ps_reachable.induct)
  case ps_new
  show ?case by (simp add: ps_masked_def)
qed (auto intro: ps_masked_sets ps_masked_copy simp: ps_CopyFrom_def ps_CopyToByMask_def)

theorem ps_reachable_masked_witness:
  "ps_masked (ps_SetMuted True (ps_SetState 2 (new_playback_state :: nat playback_state)))"
  by (rule ps_reachable_masked) (intro ps_reachable.intros)

text \<open>CopyFrom takes over exactly the fields set in the incoming state, keeps every other field,
  adds the incoming mask to its own and reports whether there was anything to take.\<close>

theorem ps_CopyFrom_spec:
  "\<exists>out. ps_CopyFrom stateIn self = (psMask stateIn \<noteq> 0, out)
     \<and> psMask out = psMask self OR psMask stateIn
     \<and> length (ps_fields out) = PLAYBACK_KEY_MAX
     \<and> list_all (\<lambda>k. ps_fields out ! k =
          (if bit (psMask stateIn) k then ps_fields stateIn ! k else ps_fields self ! k))
         [0..<PLAYBACK_KEY_MAX]"
proof -
  obtain r out where copy: "copy_masked ((!) ps_cloneActions) ps_setbit (psMask stateIn) stateIn
      [0..<PLAYBACK_KEY_MAX] (False, self) = (r, out)"
    by (cases "copy_masked ((!) ps_cloneActions) ps_setbit (psMask stateIn) stateIn
      [0..<PLAYBACK_KEY_MAX] (False, self)")
  have "0 < PLAYBACK_KEY_MAX" by (simp add: PLAYBACK_KEY_MAX_def)
  with ps.copy_keys(1) [OF copy] ps.copy_mask_or [OF copy] ps.copy_keys(3) [OF copy] copy
  show ?thesis by (auto simp: ps_CopyFrom_def list_all_iff)
qed

text \<open>updates by changed fields lose nothing. If a holder of an old state asks which fields of a
  new state differ within a filter, and the new state's fields of that mask are copied into the
  old one, then no field of the filter that the new state has set differs any more. A NaN speed
  is excluded, and so are extras that their own operator== finds unequal to themselves.\<close>

theorem ps_update_by_changes:
  assumes "ps_CopyToByMask (ps_GetChangedStateMask weq filt old new) new old = (r, old')"
    and "psSpeed new \<noteq> DNaN" and "\<And>w. psExtras new = Some w \<Longrightarrow> weq w w"
  shows "ps_GetChangedStateMask weq (filt AND psMask new) old' new = 0"
proof (rule bit_word_eqI)
  fix j assume "j < LENGTH(14)"
  then have j: "j < PLAYBACK_KEY_MAX" by (simp add: PLAYBACK_KEY_MAX_def)
  have "ps.stable weq (ps_fields new ! j)"
    using j assms(2,3) by (elim less_PLAYBACK_KEY_MAX) (auto simp: ps_stable_iff ps_fields_def)
  then show "bit (ps_GetChangedStateMask weq (filt AND psMask new) old' new) j \<longleftrightarrow> bit 0 j"
    using ps.copy_changed_syncs [OF assms(1) [unfolded ps_CopyToByMask_def
          ps_GetChangedStateMask_def] j] j
    by (auto simp: ps_GetChangedStateMask_def bit_simps bit_and_iff ps_check_fields)
qed

theorem ps_update_by_changes_witness:
  "\<exists>r old'. ps_CopyToByMask (ps_GetChangedStateMask (=) (1 :: 14 word) (new_playback_state :: nat playback_state)
       (ps_SetState 2 new_playback_state)) (ps_SetState 2 new_playback_state) new_playback_state
     = (r, old' :: nat playback_state)
   \<and> ps_GetChangedStateMask (=) (1 AND psMask (ps_SetState 2 new_playback_state :: nat playback_state))
       old' (ps_SetState 2 new_playback_state) = 0"
proof -
  let ?new = "ps_SetState 2 new_playback_state :: nat playback_state"
  obtain r old' where eq: "ps_CopyToByMask (ps_GetChangedStateMask (=) 1 new_playback_state ?new)
      ?new new_playback_state = (r, old')"
    by (cases "ps_CopyToByMask (ps_GetChangedStateMask (=) 1 new_playback_state ?new)
      ?new new_playback_state")
  have "psSpeed ?new \<noteq> DNaN"
    by (simp add: ps_SetState_def ps_setbit_def new_playback_state_def)
  from ps_update_by_changes [OF eq this] eq
  have "ps_GetChangedStateMask (=) (1 AND psMask ?new) old' ?new = 0" by simp
  with eq show ?thesis by blast
qed

text \<open>C28: round trip of a playback state. Whatever Marshalling wrote into an empty parcel,
  Unmarshalling reads back to an equal object, extras included, when the state number is one of
  the twelve states, and to null otherwise.\<close>

theorem ps_round_trip:
  assumes "fifo_parcel P V" and "V p = []" and "ps_Marshalling P s p = (True, p1)"
  shows "\<exists>p2. ps_Unmarshalling P p1 =
    (if PLAYBACK_STATE_INITIAL \<le> sint (psState s) \<and> sint (psState s) < PLAYBACK_STATE_MAX
     then Some s else None, p2)"
  by (rule ps_transfer [OF assms])

theorem ps_round_trip_witness:
  "\<exists>p2. ps_Unmarshalling token_parcel (snd (ps_Marshalling token_parcel
       (ps_SetState 2 (ps_SetExtras (Some 5) new_playback_state)) []))
     = (Some (ps_SetState 2 (ps_SetExtras (Some 5) new_playback_state)), p2 :: nat token list)"
proof -
  let ?s = "ps_SetState 2 (ps_SetExtras (Some 5) new_playback_state) :: nat playback_state"
  obtain p1 where p1: "ps_Marshalling token_parcel ?s [] = (True, p1)"
    by (simp add: ps_Marshalling_def ps_writes_def token_parcel_def)
  have "PLAYBACK_STATE_INITIAL \<le> sint (psState ?s) \<and> sint (psState ?s) < PLAYBACK_STATE_MAX"
    by (simp add: ps_SetState_def PLAYBACK_STATE_INITIAL_def PLAYBACK_STATE_MAX_def)
  with ps_round_trip [OF fifo_token_parcel _ p1] p1 show ?thesis by auto
qed

text \<open>whatever bytes a parcel holds, an object that Unmarshalling returns has one of the twelve
  states, and the mask string it was built from had exactly fourteen digits 0 or 1.\<close>

theorem ps_Unmarshalling_checks:
  assumes "ps_Unmarshalling P p = (Some s, p')"
  shows "PLAYBACK_STATE_INITIAL \<le> sint (psState s) \<and> sint (psState s) < PLAYBACK_STATE_MAX
    \<and> (\<exists>msk p1. ReadString P p = (Some msk, p1) \<and> length msk = PLAYBACK_KEY_MAX
         \<and> set msk \<subseteq> {CHR ''0'', CHR ''1''})"
proof -
  obtain msk p1 where msk: "ReadString P p = (Some msk, p1)" "length msk = PLAYBACK_KEY_MAX"
      "\<not> list_ex (\<lambda>c. c \<notin> {CHR ''0'', CHR ''1''}) msk"
    using assms unfolding ps_Unmarshalling_def
    by (cases "ReadString P p"; cases "fst (ReadString P p)") (fastforce split: if_splits)+
  obtain ok t p2 where t: "r_all (ps_reads P) (new_playback_state\<lparr>psMask := bitset_of_string msk\<rparr>, p1)
      = (ok, t, p2)" by (metis prod_cases3)
  have range: "\<not> (sint (psState t) < PLAYBACK_STATE_INITIAL \<or> PLAYBACK_STATE_MAX \<le> sint (psState t))"
      "psState s = psState t"
    using assms msk t unfolding ps_Unmarshalling_def
    by (cases ok; fastforce split: if_splits prod.splits)+
  moreover have "set msk \<subseteq> {CHR ''0'', CHR ''1''}"
    using msk(3) unfolding list_ex_iff by blast
  ultimately show ?thesis using msk(1,2) by auto
qed

theorem ps_Unmarshalling_checks_witness:
  "\<exists>s p'. ps_Unmarshalling token_parcel (snd (ps_Marshalling token_parcel
       (new_playback_state :: nat playback_state) [])) = (Some s, p')
     \<and> sint (psState s) < PLAYBACK_STATE_MAX"
proof -
  obtain p1 where p1: "ps_Marshalling token_parcel (new_playback_state :: nat playback_state) []
      = (True, p1)"
    by (simp add: ps_Marshalling_def ps_writes_def token_parcel_def)
  obtain p' where "ps_Unmarshalling token_parcel p1 = (Some new_playback_state, p')"
    using ps_transfer [OF fifo_token_parcel refl p1]
    by (auto simp: new_playback_state_def PLAYBACK_STATE_INITIAL_def PLAYBACK_STATE_MAX_def)
  from ps_Unmarshalling_checks [OF this] this p1 show ?thesis by auto
qed

end
