(* ===== verification/Errors.thy ===== *)
theory Errors
  imports Prelude
begin

text \<open>
  The result codes of \<^verbatim>\<open>avsession_errors.h\<close>, as the integers the functions return. A function
  with a result code and an out parameter returns a sum: \<open>Inl\<close> an error code, \<open>Inr\<close> the value.
\<close>

definition AVSESSION_ERROR :: int where "AVSESSION_ERROR = -1"
definition AVSESSION_SUCCESS :: int where "AVSESSION_SUCCESS = 0"
definition AVSESSION_ERROR_BASE :: int where "AVSESSION_ERROR_BASE = 1000"
definition ERR_NO_MEMORY :: int where "ERR_NO_MEMORY = -(AVSESSION_ERROR_BASE + 1)"
definition ERR_INVALID_PARAM :: int where "ERR_INVALID_PARAM = -(AVSESSION_ERROR_BASE + 2)"
definition ERR_SERVICE_NOT_EXIST :: int where "ERR_SERVICE_NOT_EXIST = -(AVSESSION_ERROR_BASE + 3)"
definition ERR_MARSHALLING :: int where "ERR_MARSHALLING = -(AVSESSION_ERROR_BASE + 5)"
definition ERR_UNMARSHALLING :: int where "ERR_UNMARSHALLING = -(AVSESSION_ERROR_BASE + 6)"
definition ERR_IPC_SEND_REQUEST :: int where "ERR_IPC_SEND_REQUEST = -(AVSESSION_ERROR_BASE + 7)"
definition ERR_SESSION_EXCEED_MAX :: int where "ERR_SESSION_EXCEED_MAX = -(AVSESSION_ERROR_BASE + 8)"
definition ERR_SESSION_NOT_EXIST :: int where "ERR_SESSION_NOT_EXIST = -(AVSESSION_ERROR_BASE + 9)"
definition ERR_COMMAND_NOT_SUPPORT :: int where
  "ERR_COMMAND_NOT_SUPPORT = -(AVSESSION_ERROR_BASE + 10)"
definition ERR_CONTROLLER_NOT_EXIST :: int where "ERR_CONTROLLER_NOT_EXIST = -(AVSESSION_ERROR_BASE + 11)"
definition ERR_NO_PERMISSION :: int where "ERR_NO_PERMISSION = -(AVSESSION_ERROR_BASE + 12)"
definition ERR_SESSION_DEACTIVE :: int where "ERR_SESSION_DEACTIVE = -(AVSESSION_ERROR_BASE + 13)"
definition ERR_CONTROLLER_IS_EXIST :: int where
  "ERR_CONTROLLER_IS_EXIST = -(AVSESSION_ERROR_BASE + 14)"
definition ERR_COMMAND_SEND_EXCEED_MAX :: int where
  "ERR_COMMAND_SEND_EXCEED_MAX = -(AVSESSION_ERROR_BASE + 18)"
definition ERR_DESKTOPLYRIC_NOT_SUPPORT :: int where
  "ERR_DESKTOPLYRIC_NOT_SUPPORT = -(AVSESSION_ERROR_BASE + 28)"
definition ERR_DESKTOPLYRIC_NOT_ENABLE :: int where
  "ERR_DESKTOPLYRIC_NOT_ENABLE = -(AVSESSION_ERROR_BASE + 29)"
definition ERR_DEVICE_CONNECTION_FAILED :: int where
  "ERR_DEVICE_CONNECTION_FAILED = -(AVSESSION_ERROR_BASE + 20)"
definition ERR_SESSION_IS_EXIST :: int where "ERR_SESSION_IS_EXIST = -(AVSESSION_ERROR_BASE + 22)"

lemmas error_code_defs =
  AVSESSION_ERROR_def AVSESSION_SUCCESS_def AVSESSION_ERROR_BASE_def ERR_NO_MEMORY_def
  ERR_INVALID_PARAM_def ERR_SERVICE_NOT_EXIST_def ERR_SESSION_EXCEED_MAX_def
  ERR_SESSION_NOT_EXIST_def ERR_COMMAND_NOT_SUPPORT_def ERR_NO_PERMISSION_def
  ERR_SESSION_DEACTIVE_def ERR_CONTROLLER_IS_EXIST_def ERR_SESSION_IS_EXIST_def
  ERR_COMMAND_SEND_EXCEED_MAX_def ERR_DESKTOPLYRIC_NOT_SUPPORT_def ERR_DESKTOPLYRIC_NOT_ENABLE_def
  ERR_MARSHALLING_def ERR_UNMARSHALLING_def ERR_IPC_SEND_REQUEST_def ERR_CONTROLLER_NOT_EXIST_def
  ERR_DEVICE_CONNECTION_FAILED_def

text \<open>Every error code differs from success.\<close>

lemma error_codes_not_success [simp]:
  "AVSESSION_ERROR \<noteq> AVSESSION_SUCCESS" "ERR_NO_MEMORY \<noteq> AVSESSION_SUCCESS"
  "ERR_INVALID_PARAM \<noteq> AVSESSION_SUCCESS" "ERR_SERVICE_NOT_EXIST \<noteq> AVSESSION_SUCCESS"
  "ERR_SESSION_EXCEED_MAX \<noteq> AVSESSION_SUCCESS" "ERR_SESSION_NOT_EXIST \<noteq> AVSESSION_SUCCESS"
  "ERR_COMMAND_NOT_SUPPORT \<noteq> AVSESSION_SUCCESS" "ERR_NO_PERMISSION \<noteq> AVSESSION_SUCCESS"
  "ERR_SESSION_DEACTIVE \<noteq> AVSESSION_SUCCESS" "ERR_CONTROLLER_IS_EXIST \<noteq> AVSESSION_SUCCESS"
  "ERR_SESSION_IS_EXIST \<noteq> AVSESSION_SUCCESS" "ERR_COMMAND_SEND_EXCEED_MAX \<noteq> AVSESSION_SUCCESS"
  "ERR_DESKTOPLYRIC_NOT_SUPPORT \<noteq> AVSESSION_SUCCESS" "ERR_DESKTOPLYRIC_NOT_ENABLE \<noteq> AVSESSION_SUCCESS"
  "ERR_MARSHALLING \<noteq> AVSESSION_SUCCESS" "ERR_UNMARSHALLING \<noteq> AVSESSION_SUCCESS"
  "ERR_IPC_SEND_REQUEST \<noteq> AVSESSION_SUCCESS" "ERR_CONTROLLER_NOT_EXIST \<noteq> AVSESSION_SUCCESS"
  "ERR_DEVICE_CONNECTION_FAILED \<noteq> AVSESSION_SUCCESS"
  by (simp_all add: error_code_defs)

end
