(* ===== verification/ControlCommand.thy ===== *)
theory ControlCommand
  imports Parcel Errors
begin

text \<open>
  \<^verbatim>\<open>AVControlCommand\<close> and \<^verbatim>\<open>CommandInfo\<close> (\<^verbatim>\<open>avcontrol_command.h\<close>, \<^verbatim>\<open>avcontrol_command.cpp\<close>,
  \<^verbatim>\<open>command_info.cpp\<close>): a command number, a parameter of one of five types, the caller's
  information, the setters with their checks, and the marshalling code, which reads and writes
  the parts that belong to the command. The error events that the setters report to the audio
  framework are left out: they have no effect on the object. The command \<open>AVCastControlCommand\<close>
  is in \<open>CastControlCommand\<close> and shares the parameter type.
\<close>

section \<open>Parameters\<close>

text \<open>\<^verbatim>\<open>std::variant<int32_t, double, int64_t, bool, std::string>\<close>; a new one holds the integer 0.\<close>

datatype cmd_param = VInt i32 | VDbl dbl | VLong i64 | VBool bool | VStr string

text \<open>\<^verbatim>\<open>std::holds_alternative<T>(p) && parcel.WriteT(std::get<T>(p))\<close>\<close>

definition w_long :: "('p, 'w) parcel_ops \<Rightarrow> cmd_param \<Rightarrow> 'p \<Rightarrow> bool \<times> 'p" where
  "w_long P par p = (case par of VLong v \<Rightarrow> WriteInt64 P v p | _ \<Rightarrow> (False, p))"

definition w_double :: "('p, 'w) parcel_ops \<Rightarrow> cmd_param \<Rightarrow> 'p \<Rightarrow> bool \<times> 'p" where
  "w_double P par p = (case par of VDbl v \<Rightarrow> WriteDouble P v p | _ \<Rightarrow> (False, p))"

definition w_int :: "('p, 'w) parcel_ops \<Rightarrow> cmd_param \<Rightarrow> 'p \<Rightarrow> bool \<times> 'p" where
  "w_int P par p = (case par of VInt v \<Rightarrow> WriteInt32 P v p | _ \<Rightarrow> (False, p))"

definition w_str :: "('p, 'w) parcel_ops \<Rightarrow> cmd_param \<Rightarrow> 'p \<Rightarrow> bool \<times> 'p" where
  "w_str P par p = (case par of VStr v \<Rightarrow> WriteString P v p | _ \<Rightarrow> (False, p))"

text \<open>A read whose result is not looked at: on failure the variable keeps its first value.\<close>

definition read_or :: "'v \<Rightarrow> ('p \<Rightarrow> 'v option \<times> 'p) \<Rightarrow> 'p \<Rightarrow> 'v \<times> 'p" where
  "read_or d rd p = (case rd p of (Some v, p') \<Rightarrow> (v, p') | (None, p') \<Rightarrow> (d, p'))"

section \<open>Command information\<close>

record command_info =
  callerDeviceId :: string
  callerBundleName :: string
  callerModuleName :: string
  callerType :: string

definition new_command_info :: command_info where
  "new_command_info = \<lparr>callerDeviceId = '''', callerBundleName = '''', callerModuleName = '''',
     callerType = ''''\<rparr>"

definition ci_Marshalling :: "('p, 'w) parcel_ops \<Rightarrow> command_info \<Rightarrow> 'p \<Rightarrow> bool \<times> 'p" where
  "ci_Marshalling P ci = w_all [WriteString P (callerDeviceId ci), WriteString P (callerBundleName ci),
     WriteString P (callerModuleName ci), WriteString P (callerType ci)]"

definition ci_Unmarshalling :: "('p, 'w) parcel_ops \<Rightarrow> 'p \<Rightarrow> command_info \<times> 'p" where
  "ci_Unmarshalling P p =
     (case read_or '''' (ReadString P) p of (a, p1) \<Rightarrow>
      (case read_or '''' (ReadString P) p1 of (b, p2) \<Rightarrow>
       (case read_or '''' (ReadString P) p2 of (c, p3) \<Rightarrow>
        (case read_or '''' (ReadString P) p3 of (d, p4) \<Rightarrow>
          (\<lparr>callerDeviceId = a, callerBundleName = b, callerModuleName = c, callerType = d\<rparr>, p4)))))"

section \<open>The command\<close>

abbreviation (input) SESSION_CMD_INVALID :: i32 where "SESSION_CMD_INVALID \<equiv> -1"
abbreviation (input) SESSION_CMD_PLAY :: i32 where "SESSION_CMD_PLAY \<equiv> 0"
abbreviation (input) SESSION_CMD_PAUSE :: i32 where "SESSION_CMD_PAUSE \<equiv> 1"
abbreviation (input) SESSION_CMD_STOP :: i32 where "SESSION_CMD_STOP \<equiv> 2"
abbreviation (input) SESSION_CMD_PLAY_NEXT :: i32 where "SESSION_CMD_PLAY_NEXT \<equiv> 3"
abbreviation (input) SESSION_CMD_PLAY_PREVIOUS :: i32 where "SESSION_CMD_PLAY_PREVIOUS \<equiv> 4"
abbreviation (input) SESSION_CMD_FAST_FORWARD :: i32 where "SESSION_CMD_FAST_FORWARD \<equiv> 5"
abbreviation (input) SESSION_CMD_REWIND :: i32 where "SESSION_CMD_REWIND \<equiv> 6"
abbreviation (input) SESSION_CMD_SEEK :: i32 where "SESSION_CMD_SEEK \<equiv> 7"
abbreviation (input) SESSION_CMD_SET_SPEED :: i32 where "SESSION_CMD_SET_SPEED \<equiv> 8"
abbreviation (input) SESSION_CMD_SET_LOOP_MODE :: i32 where "SESSION_CMD_SET_LOOP_MODE \<equiv> 9"
abbreviation (input) SESSION_CMD_TOGGLE_FAVORITE :: i32 where "SESSION_CMD_TOGGLE_FAVORITE \<equiv> 10"
abbreviation (input) SESSION_CMD_PLAY_FROM_ASSETID :: i32 where "SESSION_CMD_PLAY_FROM_ASSETID \<equiv> 11"
abbreviation (input) SESSION_CMD_MEDIA_KEY_SUPPORT :: i32 where "SESSION_CMD_MEDIA_KEY_SUPPORT \<equiv> 15"
abbreviation (input) SESSION_CMD_SET_TARGET_LOOP_MODE :: i32 where
  "SESSION_CMD_SET_TARGET_LOOP_MODE \<equiv> 16"
abbreviation (input) SESSION_CMD_PLAY_WITH_ASSETID :: i32 where "SESSION_CMD_PLAY_WITH_ASSETID \<equiv> 17"
abbreviation (input) SESSION_CMD_MAX :: int where "SESSION_CMD_MAX \<equiv> 18"
abbreviation (input) LOOP_UNDEFINED :: int where "LOOP_UNDEFINED \<equiv> -1"
abbreviation (input) LOOP_CUSTOM :: int where "LOOP_CUSTOM \<equiv> 4"

record control_command =
  cc_cmd :: i32
  cc_param :: cmd_param
  cc_info :: command_info

definition new_control_command :: control_command where
  "new_control_command = \<lparr>cc_cmd = SESSION_CMD_INVALID, cc_param = VInt 0, cc_info = new_command_info\<rparr>"

definition cc_IsValid :: "control_command \<Rightarrow> bool" where
  "cc_IsValid c \<longleftrightarrow> -1 < sint (cc_cmd c) \<and> sint (cc_cmd c) < SESSION_CMD_MAX"

definition cc_SetCommand :: "i32 \<Rightarrow> control_command \<Rightarrow> int \<times> control_command" where
  "cc_SetCommand cmd c =
     (if sint cmd \<le> -1 \<or> SESSION_CMD_MAX \<le> sint cmd then (ERR_INVALID_PARAM, c)
      else (AVSESSION_SUCCESS, c\<lparr>cc_cmd := cmd\<rparr>))"

definition cc_SetSpeed :: "dbl \<Rightarrow> control_command \<Rightarrow> int \<times> control_command" where
  "cc_SetSpeed speed c =
     (if \<not> dbl_isfinite speed \<or> dbl_le speed (DFin 0) then (ERR_INVALID_PARAM, c)
      else (AVSESSION_SUCCESS, c\<lparr>cc_param := VDbl speed\<rparr>))"

definition cc_SetForwardTime :: "i64 \<Rightarrow> control_command \<Rightarrow> int \<times> control_command" where
  "cc_SetForwardTime t c =
     (if sint t \<le> 0 then (ERR_INVALID_PARAM, c) else (AVSESSION_SUCCESS, c\<lparr>cc_param := VLong t\<rparr>))"

definition cc_SetRewindTime :: "i64 \<Rightarrow> control_command \<Rightarrow> int \<times> control_command" where
  "cc_SetRewindTime t c =
     (if sint t < 0 then (ERR_INVALID_PARAM, c) else (AVSESSION_SUCCESS, c\<lparr>cc_param := VLong t\<rparr>))"

definition cc_SetSeekTime :: "i64 \<Rightarrow> control_command \<Rightarrow> int \<times> control_command" where
  "cc_SetSeekTime t c =
     (if sint t < 0 then (ERR_INVALID_PARAM, c) else (AVSESSION_SUCCESS, c\<lparr>cc_param := VLong t\<rparr>))"

definition cc_SetLoopMode :: "i32 \<Rightarrow> control_command \<Rightarrow> int \<times> control_command" where
  "cc_SetLoopMode mode c =
     (if sint mode < LOOP_UNDEFINED \<or> LOOP_CUSTOM < sint mode then (ERR_INVALID_PARAM, c)
      else (AVSESSION_SUCCESS, c\<lparr>cc_param := VInt mode\<rparr>))"

definition cc_SetTargetLoopMode :: "i32 \<Rightarrow> control_command \<Rightarrow> int \<times> control_command" where
  "cc_SetTargetLoopMode mode c =
     (if sint mode < LOOP_UNDEFINED \<or> LOOP_CUSTOM < sint mode then (ERR_INVALID_PARAM, c)
      else (AVSESSION_SUCCESS, c\<lparr>cc_param := VInt mode\<rparr>))"

definition cc_SetAssetId :: "string \<Rightarrow> control_command \<Rightarrow> int \<times> control_command" where
  "cc_SetAssetId s c =
     (if s = '''' then (ERR_INVALID_PARAM, c) else (AVSESSION_SUCCESS, c\<lparr>cc_param := VStr s\<rparr>))"

definition cc_SetPlayFromAssetId :: "i64 \<Rightarrow> control_command \<Rightarrow> int \<times> control_command" where
  "cc_SetPlayFromAssetId t c = (AVSESSION_SUCCESS, c\<lparr>cc_param := VLong t\<rparr>)"

definition cc_SetPlayWithAssetId :: "string \<Rightarrow> control_command \<Rightarrow> int \<times> control_command" where
  "cc_SetPlayWithAssetId s c =
     (if s = '''' then (ERR_INVALID_PARAM, c) else (AVSESSION_SUCCESS, c\<lparr>cc_param := VStr s\<rparr>))"

definition cc_SetPlayParam :: "string \<Rightarrow> control_command \<Rightarrow> int \<times> control_command" where
  "cc_SetPlayParam s c = (AVSESSION_SUCCESS, c\<lparr>cc_param := VStr s\<rparr>)"

definition cc_SetCommandInfo :: "command_info \<Rightarrow> control_command \<Rightarrow> int \<times> control_command" where
  "cc_SetCommandInfo ci c = (AVSESSION_SUCCESS, c\<lparr>cc_info := ci\<rparr>)"

text \<open>The getters fail when the parameter has another type.\<close>

definition cc_GetSpeed :: "control_command \<Rightarrow> int + dbl" where
  "cc_GetSpeed c = (case cc_param c of VDbl v \<Rightarrow> Inr v | _ \<Rightarrow> Inl AVSESSION_ERROR)"

definition cc_GetForwardTime :: "control_command \<Rightarrow> int + i64" where
  "cc_GetForwardTime c = (case cc_param c of VLong v \<Rightarrow> Inr v | _ \<Rightarrow> Inl AVSESSION_ERROR)"

definition cc_GetRewindTime :: "control_command \<Rightarrow> int + i64" where
  "cc_GetRewindTime c = (case cc_param c of VLong v \<Rightarrow> Inr v | _ \<Rightarrow> Inl AVSESSION_ERROR)"

definition cc_GetSeekTime :: "control_command \<Rightarrow> int + i64" where
  "cc_GetSeekTime c = (case cc_param c of VLong v \<Rightarrow> Inr v | _ \<Rightarrow> Inl AVSESSION_ERROR)"

definition cc_GetLoopMode :: "control_command \<Rightarrow> int + i32" where
  "cc_GetLoopMode c = (case cc_param c of VInt v \<Rightarrow> Inr v | _ \<Rightarrow> Inl AVSESSION_ERROR)"

definition cc_GetTargetLoopMode :: "control_command \<Rightarrow> int + i32" where
  "cc_GetTargetLoopMode c = (case cc_param c of VInt v \<Rightarrow> Inr v | _ \<Rightarrow> Inl AVSESSION_ERROR)"

definition cc_GetAssetId :: "control_command \<Rightarrow> int + string" where
  "cc_GetAssetId c = (case cc_param c of VStr v \<Rightarrow> Inr v | _ \<Rightarrow> Inl AVSESSION_ERROR)"

definition cc_GetPlayFromAssetId :: "control_command \<Rightarrow> int + i64" where
  "cc_GetPlayFromAssetId c = (case cc_param c of VLong v \<Rightarrow> Inr v | _ \<Rightarrow> Inl AVSESSION_ERROR)"

definition cc_GetPlayWithAssetId :: "control_command \<Rightarrow> int + string" where
  "cc_GetPlayWithAssetId c = (case cc_param c of VStr v \<Rightarrow> Inr v | _ \<Rightarrow> Inl AVSESSION_ERROR)"

definition cc_GetPlayParam :: "control_command \<Rightarrow> int + string" where
  "cc_GetPlayParam c = (case cc_param c of VStr v \<Rightarrow> Inr v | _ \<Rightarrow> Inl AVSESSION_ERROR)"

section \<open>Marshalling\<close>

text \<open>The parts of a command in the parcel, by its number: the cases of the switch.\<close>

definition w_play :: "('p, 'w) parcel_ops \<Rightarrow> cmd_param \<Rightarrow> 'p \<Rightarrow> bool \<times> 'p" where
  "w_play P par p = (case par of VStr v \<Rightarrow> WriteString P v p | _ \<Rightarrow> WriteString P '''' p)"

definition cc_param_writes ::
  "('p, 'w) parcel_ops \<Rightarrow> control_command \<Rightarrow> ('p \<Rightarrow> bool \<times> 'p) list" where
  "cc_param_writes P c =
     (let cmd = cc_cmd c; par = cc_param c; info = ci_Marshalling P (cc_info c) in
      if cmd = SESSION_CMD_FAST_FORWARD then [w_long P par, info]
      else if cmd = SESSION_CMD_REWIND then [w_long P par, info]
      else if cmd = SESSION_CMD_SEEK then [w_long P par]
      else if cmd = SESSION_CMD_SET_SPEED then [w_double P par]
      else if cmd = SESSION_CMD_SET_LOOP_MODE then [w_int P par]
      else if cmd = SESSION_CMD_SET_TARGET_LOOP_MODE then [w_int P par]
      else if cmd = SESSION_CMD_TOGGLE_FAVORITE then [w_str P par]
      else if cmd = SESSION_CMD_PLAY_FROM_ASSETID then [w_long P par]
      else if cmd = SESSION_CMD_PLAY_WITH_ASSETID then [w_str P par]
      else if cmd = SESSION_CMD_PLAY then [w_play P par, info]
      else if cmd = SESSION_CMD_PLAY_NEXT \<or> cmd = SESSION_CMD_PLAY_PREVIOUS then [info]
      else [])"

definition cc_Marshalling :: "('p, 'w) parcel_ops \<Rightarrow> control_command \<Rightarrow> 'p \<Rightarrow> bool \<times> 'p" where
  "cc_Marshalling P c p = (case WriteInt32 P (cc_cmd c) p of (ok, p1) \<Rightarrow>
     if \<not> ok then (False, p1) else w_all (cc_param_writes P c) p1)"

definition cc_UnmarshalCommonInfo ::
  "('p, 'w) parcel_ops \<Rightarrow> control_command \<times> 'p \<Rightarrow> control_command \<times> 'p" where
  "cc_UnmarshalCommonInfo P s = (case s of (c, p) \<Rightarrow>
     (case ci_Unmarshalling P p of (ci, p') \<Rightarrow> (snd (cc_SetCommandInfo ci c), p')))"

definition cc_SetParamFromParcel ::
  "('p, 'w) parcel_ops \<Rightarrow> i32 \<Rightarrow> control_command \<times> 'p \<Rightarrow> int \<times> control_command \<times> 'p" where
  "cc_SetParamFromParcel P cmd s = (case s of (c, p) \<Rightarrow>
     if cmd = SESSION_CMD_FAST_FORWARD then
       (case read_or 0 (ReadInt64 P) p of (t, p1) \<Rightarrow>
        (case cc_UnmarshalCommonInfo P (c, p1) of (c2, p2) \<Rightarrow>
         (case cc_SetForwardTime t c2 of (r, c3) \<Rightarrow> (r, c3, p2))))
     else if cmd = SESSION_CMD_REWIND then
       (case read_or 0 (ReadInt64 P) p of (t, p1) \<Rightarrow>
        (case cc_UnmarshalCommonInfo P (c, p1) of (c2, p2) \<Rightarrow>
         (case cc_SetRewindTime t c2 of (r, c3) \<Rightarrow> (r, c3, p2))))
     else if cmd = SESSION_CMD_SEEK then
       (case read_or 0 (ReadInt64 P) p of (t, p1) \<Rightarrow>
        (case cc_SetSeekTime t c of (r, c2) \<Rightarrow> (r, c2, p1)))
     else if cmd = SESSION_CMD_SET_SPEED then
       (case read_or (DFin 0) (ReadDouble P) p of (d, p1) \<Rightarrow>
        (case cc_SetSpeed d c of (r, c2) \<Rightarrow> (r, c2, p1)))
     else if cmd = SESSION_CMD_SET_LOOP_MODE then
       (case read_or 0 (ReadInt32 P) p of (n, p1) \<Rightarrow>
        (case cc_SetLoopMode n c of (r, c2) \<Rightarrow> (r, c2, p1)))
     else if cmd = SESSION_CMD_SET_TARGET_LOOP_MODE then
       (case read_or 0 (ReadInt32 P) p of (n, p1) \<Rightarrow>
        (case cc_SetTargetLoopMode n c of (r, c2) \<Rightarrow> (r, c2, p1)))
     else if cmd = SESSION_CMD_TOGGLE_FAVORITE then
       (case read_or '''' (ReadString P) p of (str, p1) \<Rightarrow>
        (case cc_SetAssetId str c of (r, c2) \<Rightarrow> (r, c2, p1)))
     else if cmd = SESSION_CMD_PLAY_FROM_ASSETID then
       (case read_or 0 (ReadInt64 P) p of (t, p1) \<Rightarrow>
        (case cc_SetPlayFromAssetId t c of (r, c2) \<Rightarrow> (r, c2, p1)))
     else if cmd = SESSION_CMD_PLAY_WITH_ASSETID then
       (case read_or '''' (ReadString P) p of (str, p1) \<Rightarrow>
        (case cc_SetPlayWithAssetId str c of (r, c2) \<Rightarrow> (r, c2, p1)))
     else if cmd = SESSION_CMD_PLAY then
       (case read_or '''' (ReadString P) p of (str, p1) \<Rightarrow>
        (case cc_UnmarshalCommonInfo P (c, p1) of (c2, p2) \<Rightarrow>
         (case cc_SetPlayParam str c2 of (r, c3) \<Rightarrow> (r, c3, p2))))
     else if cmd = SESSION_CMD_PLAY_NEXT \<or> cmd = SESSION_CMD_PLAY_PREVIOUS then
       (case cc_UnmarshalCommonInfo P (c, p) of (c2, p1) \<Rightarrow> (AVSESSION_SUCCESS, c2, p1))
     else (AVSESSION_SUCCESS, c, p))"

definition cc_Unmarshalling :: "('p, 'w) parcel_ops \<Rightarrow> 'p \<Rightarrow> control_command option \<times> 'p" where
  "cc_Unmarshalling P p = (case ReadInt32 P p of
     (None, p1) \<Rightarrow> (None, p1)
   | (Some cmd, p1) \<Rightarrow>
       (case cc_SetCommand cmd new_control_command of (r, c) \<Rightarrow>
         if r \<noteq> AVSESSION_SUCCESS then (None, p1)
         else (case cc_SetParamFromParcel P cmd (c, p1) of (r2, c2, p2) \<Rightarrow>
           if r2 \<noteq> AVSESSION_SUCCESS then (None, p2) else (Some c2, p2))))"

section \<open>What a parcel holds of a command\<close>

fun param_token :: "cmd_param \<Rightarrow> 'w token" where
  "param_token (VInt v) = TI32 v"
| "param_token (VDbl v) = TDbl v"
| "param_token (VLong v) = TI64 v"
| "param_token (VBool v) = TBool v"
| "param_token (VStr v) = TStr v"

definition ci_tokens :: "command_info \<Rightarrow> 'w token list" where
  "ci_tokens ci = [TStr (callerDeviceId ci), TStr (callerBundleName ci), TStr (callerModuleName ci),
     TStr (callerType ci)]"

lemma writes_param:
  assumes "fifo_parcel P V"
  shows "writes V (w_long P par) [param_token par]" and "writes V (w_double P par) [param_token par]"
    and "writes V (w_int P par) [param_token par]" and "writes V (w_str P par) [param_token par]"
  using writes_ops [OF assms]
  by (auto simp: writes_def w_long_def w_double_def w_int_def w_str_def split: cmd_param.splits)

lemma param_written:
  "w_long P par p = (True, p') \<Longrightarrow> \<exists>v. par = VLong v"
  "w_double P par p = (True, p') \<Longrightarrow> \<exists>v. par = VDbl v"
  "w_int P par p = (True, p') \<Longrightarrow> \<exists>v. par = VInt v"
  "w_str P par p = (True, p') \<Longrightarrow> \<exists>v. par = VStr v"
  by (auto simp: w_long_def w_double_def w_int_def w_str_def split: cmd_param.splits)

lemma writes_ci:
  assumes "fifo_parcel P V"
  shows "writes V (ci_Marshalling P ci) (ci_tokens ci)"
  unfolding ci_Marshalling_def ci_tokens_def
  by (intro writes_Cons1 writes_single writes_ops assms)

lemma read_or_token:
  assumes "reads_value V rd ts (Some v)"
  shows "reads_value V (read_or d rd) ts v"
  using assms by (fastforce simp: reads_value_def read_or_def)

lemma reads_ci:
  assumes "fifo_parcel P V"
  shows "reads_value V (ci_Unmarshalling P) (ci_tokens ci) ci"
  unfolding reads_value_def
proof (intro allI impI)
  note rd = reads_valueD [OF read_or_token [OF reads_ops(5) [OF assms]]]
  fix p us assume "V p = ci_tokens ci @ us"
  then have V: "V p = [TStr (callerDeviceId ci)] @ [TStr (callerBundleName ci)]
      @ [TStr (callerModuleName ci)] @ [TStr (callerType ci)] @ us" by (simp add: ci_tokens_def)
  obtain p1 where p1: "read_or '''' (ReadString P) p = (callerDeviceId ci, p1)"
      "V p1 = [TStr (callerBundleName ci)] @ [TStr (callerModuleName ci)] @ [TStr (callerType ci)] @ us"
    using rd [OF V] by blast
  obtain p2 where p2: "read_or '''' (ReadString P) p1 = (callerBundleName ci, p2)"
      "V p2 = [TStr (callerModuleName ci)] @ [TStr (callerType ci)] @ us"
    using rd [OF p1(2)] by blast
  obtain p3 where p3: "read_or '''' (ReadString P) p2 = (callerModuleName ci, p3)"
      "V p3 = [TStr (callerType ci)] @ us"
    using rd [OF p2(2)] by blast
  obtain p4 where p4: "read_or '''' (ReadString P) p3 = (callerType ci, p4)" "V p4 = us"
    using rd [OF p3(2)] by blast
  show "\<exists>p'. ci_Unmarshalling P p = (ci, p') \<and> V p' = us"
    using p1(1) p2(1) p3(1) p4 by (cases ci) (simp add: ci_Unmarshalling_def)
qed

end
