(* ===== verification/ControlProps.thy ===== *)
theory ControlProps
  imports ControlCommand
begin

text \<open>
  Properties of the control command: what a receiver gets of a command, which objects the
  unmarshalling code can build from any parcel, and the commands that a truncated parcel makes.
\<close>

section \<open>Parameters and commands\<close>

text \<open>The check that the setter of a command's parameter makes, on the parameter's type as well.\<close>

definition cc_accepts :: "i32 \<Rightarrow> cmd_param \<Rightarrow> bool" where
  "cc_accepts cmd par =
     (if cmd = SESSION_CMD_FAST_FORWARD
      then (case par of VLong t \<Rightarrow> 0 < sint t | _ \<Rightarrow> False)
      else if cmd = SESSION_CMD_REWIND \<or> cmd = SESSION_CMD_SEEK
      then (case par of VLong t \<Rightarrow> 0 \<le> sint t | _ \<Rightarrow> False)
      else if cmd = SESSION_CMD_SET_SPEED
      then (case par of VDbl d \<Rightarrow> dbl_isfinite d \<and> dbl_less (DFin 0) d | _ \<Rightarrow> False)
      else if cmd = SESSION_CMD_SET_LOOP_MODE \<or> cmd = SESSION_CMD_SET_TARGET_LOOP_MODE
      then (case par of VInt n \<Rightarrow> LOOP_UNDEFINED \<le> sint n \<and> sint n \<le> LOOP_CUSTOM | _ \<Rightarrow> False)
      else if cmd = SESSION_CMD_TOGGLE_FAVORITE \<or> cmd = SESSION_CMD_PLAY_WITH_ASSETID
      then (case par of VStr s \<Rightarrow> s \<noteq> '''' | _ \<Rightarrow> False)
      else if cmd = SESSION_CMD_PLAY_FROM_ASSETID
      then (case par of VLong _ \<Rightarrow> True | _ \<Rightarrow> False)
      else True)"

definition cc_has_info :: "i32 \<Rightarrow> bool" where
  "cc_has_info cmd \<longleftrightarrow> cmd \<in> {SESSION_CMD_FAST_FORWARD, SESSION_CMD_REWIND, SESSION_CMD_PLAY,
     SESSION_CMD_PLAY_NEXT, SESSION_CMD_PLAY_PREVIOUS}"

definition cc_has_param :: "i32 \<Rightarrow> bool" where
  "cc_has_param cmd \<longleftrightarrow> cmd \<in> {SESSION_CMD_FAST_FORWARD, SESSION_CMD_REWIND, SESSION_CMD_SEEK,
     SESSION_CMD_SET_SPEED, SESSION_CMD_SET_LOOP_MODE, SESSION_CMD_SET_TARGET_LOOP_MODE,
     SESSION_CMD_TOGGLE_FAVORITE, SESSION_CMD_PLAY_FROM_ASSETID, SESSION_CMD_PLAY_WITH_ASSETID}"

text \<open>The parameter as it is sent: a play command without a string sends the empty one.\<close>

definition cc_sent_param :: "control_command \<Rightarrow> cmd_param" where
  "cc_sent_param c =
     (if cc_cmd c = SESSION_CMD_PLAY
      then (case cc_param c of VStr s \<Rightarrow> VStr s | _ \<Rightarrow> VStr '''')
      else cc_param c)"

text \<open>The command as it arrives: the parts that belong to the command number, no others.\<close>

definition cc_arrives :: "control_command \<Rightarrow> control_command" where
  "cc_arrives c = \<lparr>cc_cmd = cc_cmd c,
     cc_param = (if cc_has_param (cc_cmd c) \<or> cc_cmd c = SESSION_CMD_PLAY
                 then cc_sent_param c else VInt 0),
     cc_info = (if cc_has_info (cc_cmd c) then cc_info c else new_command_info)\<rparr>"

definition cc_tokens :: "control_command \<Rightarrow> 'w token list" where
  "cc_tokens c =
     (if cc_has_param (cc_cmd c) \<or> cc_cmd c = SESSION_CMD_PLAY
      then [param_token (cc_sent_param c)] else [])
     @ (if cc_has_info (cc_cmd c) then ci_tokens (cc_info c) else [])"

definition cc_typed :: "i32 \<Rightarrow> cmd_param \<Rightarrow> bool" where
  "cc_typed cmd par =
     (if cmd \<in> {SESSION_CMD_FAST_FORWARD, SESSION_CMD_REWIND, SESSION_CMD_SEEK,
        SESSION_CMD_PLAY_FROM_ASSETID} then (case par of VLong _ \<Rightarrow> True | _ \<Rightarrow> False)
      else if cmd = SESSION_CMD_SET_SPEED then (case par of VDbl _ \<Rightarrow> True | _ \<Rightarrow> False)
      else if cmd \<in> {SESSION_CMD_SET_LOOP_MODE, SESSION_CMD_SET_TARGET_LOOP_MODE}
      then (case par of VInt _ \<Rightarrow> True | _ \<Rightarrow> False)
      else if cmd \<in> {SESSION_CMD_TOGGLE_FAVORITE, SESSION_CMD_PLAY_WITH_ASSETID}
      then (case par of VStr _ \<Rightarrow> True | _ \<Rightarrow> False)
      else True)"

lemmas cc_kind_defs = cc_has_info_def cc_has_param_def cc_sent_param_def

lemma cc_SetSpeed_eq:
  "cc_SetSpeed d c = (if dbl_isfinite d \<and> dbl_less (DFin 0) d
     then (AVSESSION_SUCCESS, c\<lparr>cc_param := VDbl d\<rparr>) else (ERR_INVALID_PARAM, c))"
  by (cases d) (auto simp: cc_SetSpeed_def dbl_isfinite_def dbl_le_def)

lemmas cc_setter_defs =
  cc_SetForwardTime_def cc_SetRewindTime_def cc_SetSeekTime_def cc_SetSpeed_eq cc_SetLoopMode_def
  cc_SetTargetLoopMode_def cc_SetAssetId_def cc_SetPlayFromAssetId_def cc_SetPlayWithAssetId_def
  cc_SetPlayParam_def cc_SetCommandInfo_def

text \<open>The command numbers that the switches name, and the rest.\<close>

lemma cmd_cases:
  fixes cmd :: i32
  obtains "cmd = SESSION_CMD_FAST_FORWARD" | "cmd = SESSION_CMD_REWIND" | "cmd = SESSION_CMD_SEEK"
    | "cmd = SESSION_CMD_SET_SPEED" | "cmd = SESSION_CMD_SET_LOOP_MODE"
    | "cmd = SESSION_CMD_SET_TARGET_LOOP_MODE" | "cmd = SESSION_CMD_TOGGLE_FAVORITE"
    | "cmd = SESSION_CMD_PLAY_FROM_ASSETID" | "cmd = SESSION_CMD_PLAY_WITH_ASSETID"
    | "cmd = SESSION_CMD_PLAY" | "cmd = SESSION_CMD_PLAY_NEXT" | "cmd = SESSION_CMD_PLAY_PREVIOUS"
    | "\<not> cc_has_info cmd" "\<not> cc_has_param cmd" "cmd \<noteq> SESSION_CMD_PLAY"
  unfolding cc_has_info_def cc_has_param_def by blast

section \<open>Writing and reading\<close>

lemma writes_play:
  assumes "fifo_parcel P V"
  shows "writes V (w_play P par) [TStr (case par of VStr s \<Rightarrow> s | _ \<Rightarrow> '''')]"
  using writes_ops(5) [OF assms] by (auto simp: writes_def w_play_def split: cmd_param.splits)

lemma writes_cc_params:
  assumes "fifo_parcel P V"
  shows "writes V (w_all (cc_param_writes P c)) (cc_tokens c)"
proof (cases "cc_cmd c" rule: cmd_cases)
  case 10
  then show ?thesis
    using writes_Cons1 [OF writes_play [OF assms, of "cc_param c"]
        writes_single [OF writes_ci [OF assms, of "cc_info c"]]]
    by (cases "cc_param c") (simp_all add: cc_param_writes_def cc_tokens_def cc_kind_defs)
next
  case 13
  then have "cc_param_writes P c = []"
    by (simp add: cc_param_writes_def cc_kind_defs Let_def)
  with 13 show ?thesis by (simp add: cc_tokens_def writes_def)
qed (use writes_param [OF assms] writes_ci [OF assms] in
    \<open>auto simp: cc_param_writes_def cc_tokens_def cc_kind_defs intro!: writes_Cons1 writes_single\<close>)

lemma cc_params_typed:
  assumes "w_all (cc_param_writes P c) p = (True, p')"
  shows "cc_typed (cc_cmd c) (cc_param c)"
  using assms
  by (cases "cc_cmd c" rule: cmd_cases)
    (auto simp: cc_param_writes_def cc_typed_def cc_kind_defs dest!: param_written
      split: prod.splits if_splits)

lemma reads_param_and_info:
  assumes "fifo_parcel P V" and "reads_value V rd [t] v" and "V p = t # ci_tokens ci @ us"
  shows "\<exists>p1 p2. rd p = (v, p1) \<and> ci_Unmarshalling P p1 = (ci, p2) \<and> V p2 = us"
proof -
  obtain p1 where "rd p = (v, p1)" "V p1 = ci_tokens ci @ us"
    using reads_valueD [OF assms(2), of p "ci_tokens ci @ us"] assms(3) by auto
  with reads_valueD [OF reads_ci [OF assms(1)]] show ?thesis by blast
qed

lemma reads_param:
  assumes "reads_value V rd [t] v" and "V p = t # us"
  shows "\<exists>p1. rd p = (v, p1) \<and> V p1 = us"
  using reads_valueD [OF assms(1), of p us] assms(2) by simp

text \<open>
  Reading the parts of a command back: the setter decides, and when it accepts, the command that
  arrives is built.
\<close>

lemma cc_read_back:
  assumes "fifo_parcel P V" and "V p = cc_tokens c @ us" and "cc_typed (cc_cmd c) (cc_param c)"
    and "c0 = new_control_command\<lparr>cc_cmd := cc_cmd c\<rparr>"
  shows "\<exists>r c1 p'. cc_SetParamFromParcel P (cc_cmd c) (c0, p) = (r, c1, p')
    \<and> (r = AVSESSION_SUCCESS \<longleftrightarrow> cc_accepts (cc_cmd c) (cc_param c))
    \<and> (r = AVSESSION_SUCCESS \<longrightarrow> c1 = cc_arrives c) \<and> V p' = us"
proof -
  note rd = read_or_token [OF reads_ops(1) [OF assms(1)], where d = 0]
    read_or_token [OF reads_ops(2) [OF assms(1)], where d = 0]
    read_or_token [OF reads_ops(3) [OF assms(1)], where d = "DFin 0"]
    read_or_token [OF reads_ops(5) [OF assms(1)], where d = "[]"]
  note defs = cc_SetParamFromParcel_def cc_setter_defs cc_accepts_def cc_arrives_def cc_kind_defs
    cc_tokens_def cc_typed_def new_control_command_def cc_UnmarshalCommonInfo_def
  show ?thesis
  proof (cases "cc_cmd c" rule: cmd_cases)
    case 1
    then obtain t where t: "cc_param c = VLong t"
      using assms(3) by (auto simp: cc_typed_def split: cmd_param.splits)
    with 1 assms(2) have "V p = TI64 t # ci_tokens (cc_info c) @ us" by (simp add: defs)
    from reads_param_and_info [OF assms(1) rd(2) this] 1 t assms(4) show ?thesis
      by (fastforce simp: defs)
  next
    case 2
    then obtain t where t: "cc_param c = VLong t"
      using assms(3) by (auto simp: cc_typed_def split: cmd_param.splits)
    with 2 assms(2) have "V p = TI64 t # ci_tokens (cc_info c) @ us" by (simp add: defs)
    from reads_param_and_info [OF assms(1) rd(2) this] 2 t assms(4) show ?thesis
      by (fastforce simp: defs)
  next
    case 10
    obtain s where s: "cc_sent_param c = VStr s"
      using 10 by (cases "cc_param c") (simp_all add: cc_sent_param_def)
    with 10 assms(2) have "V p = TStr s # ci_tokens (cc_info c) @ us"
      by (simp add: cc_tokens_def cc_has_info_def)
    from reads_param_and_info [OF assms(1) rd(4) this] 10 s assms(4) show ?thesis
      by (fastforce simp: cc_SetParamFromParcel_def cc_setter_defs cc_accepts_def cc_arrives_def
          cc_has_info_def new_control_command_def cc_UnmarshalCommonInfo_def)
  next
    case 11
    with assms(2) have "V p = ci_tokens (cc_info c) @ us" by (simp add: defs)
    from reads_valueD [OF reads_ci [OF assms(1)] this] 11 assms(4) show ?thesis
      by (fastforce simp: defs)
  next
    case 12
    with assms(2) have "V p = ci_tokens (cc_info c) @ us" by (simp add: defs)
    from reads_valueD [OF reads_ci [OF assms(1)] this] 12 assms(4) show ?thesis
      by (fastforce simp: defs)
  next
    case 13
    with assms show ?thesis by (simp add: defs)
  next
    case 3
    then obtain t where t: "cc_param c = VLong t"
      using assms(3) by (auto simp: cc_typed_def split: cmd_param.splits)
    with 3 assms(2) have "V p = TI64 t # us" by (simp add: defs)
    from reads_param [OF rd(2) this] 3 t assms(4) show ?thesis by (fastforce simp: defs)
  next
    case 4
    then obtain d where d: "cc_param c = VDbl d"
      using assms(3) by (auto simp: cc_typed_def split: cmd_param.splits)
    with 4 assms(2) have "V p = TDbl d # us" by (simp add: defs)
    from reads_param [OF rd(3) this] 4 d assms(4) show ?thesis by (fastforce simp: defs)
  next
    case 5
    then obtain n where n: "cc_param c = VInt n"
      using assms(3) by (auto simp: cc_typed_def split: cmd_param.splits)
    with 5 assms(2) have "V p = TI32 n # us" by (simp add: defs)
    from reads_param [OF rd(1) this] 5 n assms(4) show ?thesis by (fastforce simp: defs)
  next
    case 6
    then obtain n where n: "cc_param c = VInt n"
      using assms(3) by (auto simp: cc_typed_def split: cmd_param.splits)
    with 6 assms(2) have "V p = TI32 n # us" by (simp add: defs)
    from reads_param [OF rd(1) this] 6 n assms(4) show ?thesis by (fastforce simp: defs)
  next
    case 7
    then obtain s where s: "cc_param c = VStr s"
      using assms(3) by (auto simp: cc_typed_def split: cmd_param.splits)
    with 7 assms(2) have "V p = TStr s # us" by (simp add: defs)
    from reads_param [OF rd(4) this] 7 s assms(4) show ?thesis by (fastforce simp: defs)
  next
    case 8
    then obtain t where t: "cc_param c = VLong t"
      using assms(3) by (auto simp: cc_typed_def split: cmd_param.splits)
    with 8 assms(2) have "V p = TI64 t # us" by (simp add: defs)
    from reads_param [OF rd(2) this] 8 t assms(4) show ?thesis by (fastforce simp: defs)
  next
    case 9
    then obtain s where s: "cc_param c = VStr s"
      using assms(3) by (auto simp: cc_typed_def split: cmd_param.splits)
    with 9 assms(2) have "V p = TStr s # us" by (simp add: defs)
    from reads_param [OF rd(4) this] 9 s assms(4) show ?thesis by (fastforce simp: defs)
  qed
qed

section \<open>Properties\<close>

text \<open>The commands that lose nothing on the way.\<close>

lemma cc_arrives_same:
  "cc_arrives c = c \<longleftrightarrow>
     (cc_has_info (cc_cmd c) \<or> cc_info c = new_command_info)
     \<and> (if cc_cmd c = SESSION_CMD_PLAY then \<exists>s. cc_param c = VStr s
        else cc_has_param (cc_cmd c) \<or> cc_param c = VInt 0)"
  by (cases c; cases "cc_param c") (auto simp: cc_arrives_def cc_sent_param_def)

text \<open>C29: round trip of a control command. What Marshalling wrote into an empty parcel is read back
  to the command with exactly the parts that belong to its number (\<open>cc_arrives\<close>), when the number
  is in range and the parameter passes the check of the setter for that number; every other
  command is refused by the receiver. The command that arrives is the one that was sent exactly
  when it had nothing else to lose: a command without a CommandInfo on the wire (all but play, play
  next, play previous, fast forward and rewind) must not carry one, a play command must have a
  string as its parameter (otherwise the empty one arrives), and a command without a parameter must
  not carry one.\<close>

theorem cc_round_trip:
  assumes "fifo_parcel P V" and "V p = []" and "cc_Marshalling P c p = (True, p1)"
  shows "(\<exists>p2. cc_Unmarshalling P p1 =
      (if cc_IsValid c \<and> cc_accepts (cc_cmd c) (cc_param c) then Some (cc_arrives c) else None, p2))
    \<and> (cc_arrives c = c \<longleftrightarrow>
         (cc_has_info (cc_cmd c) \<or> cc_info c = new_command_info)
         \<and> (if cc_cmd c = SESSION_CMD_PLAY then \<exists>s. cc_param c = VStr s
            else cc_has_param (cc_cmd c) \<or> cc_param c = VInt 0))"
proof -
  obtain q where q: "WriteInt32 P (cc_cmd c) p = (True, q)" "w_all (cc_param_writes P c) q = (True, p1)"
    using assms(3) by (auto simp: cc_Marshalling_def split: prod.splits if_splits)
  have "V p1 = [TI32 (cc_cmd c)] @ cc_tokens c @ []"
    using writesD [OF writes_ops(1) [OF assms(1)] q(1)]
      writesD [OF writes_cc_params [OF assms(1)] q(2)] assms(2) by simp
  then obtain r where r: "ReadInt32 P p1 = (Some (cc_cmd c), r)" "V r = cc_tokens c @ []"
    using reads_valueD [OF reads_ops(1) [OF assms(1)]] by blast
  obtain rc c1 p2 where "cc_SetParamFromParcel P (cc_cmd c)
      (new_control_command\<lparr>cc_cmd := cc_cmd c\<rparr>, r) = (rc, c1, p2)"
      "rc = AVSESSION_SUCCESS \<longleftrightarrow> cc_accepts (cc_cmd c) (cc_param c)"
      "rc = AVSESSION_SUCCESS \<longrightarrow> c1 = cc_arrives c"
    using cc_read_back [OF assms(1) r(2) cc_params_typed [OF q(2)] refl] by blast
  with r(1) have "\<exists>p2. cc_Unmarshalling P p1 =
      (if cc_IsValid c \<and> cc_accepts (cc_cmd c) (cc_param c) then Some (cc_arrives c) else None, p2)"
    by (auto simp: cc_Unmarshalling_def cc_SetCommand_def cc_IsValid_def)
  with cc_arrives_same [of c] show ?thesis by blast
qed

theorem cc_round_trip_witness:
  "\<exists>p2. cc_Unmarshalling token_parcel (snd (cc_Marshalling token_parcel
       (new_control_command\<lparr>cc_cmd := SESSION_CMD_SEEK, cc_param := VLong 30\<rparr>) []))
     = (Some (new_control_command\<lparr>cc_cmd := SESSION_CMD_SEEK, cc_param := VLong 30\<rparr>),
        p2 :: nat token list)"
proof -
  let ?c = "new_control_command\<lparr>cc_cmd := SESSION_CMD_SEEK, cc_param := VLong 30\<rparr>"
  obtain p1 :: "nat token list" where p1: "cc_Marshalling token_parcel ?c [] = (True, p1)"
    by (simp add: cc_Marshalling_def cc_param_writes_def w_long_def token_parcel_def)
  have "cc_IsValid ?c" "cc_accepts (cc_cmd ?c) (cc_param ?c)" "cc_arrives ?c = ?c"
    by (simp_all add: cc_IsValid_def cc_accepts_def cc_arrives_def cc_kind_defs new_control_command_def)
  with cc_round_trip [OF fifo_token_parcel refl p1] p1 show ?thesis by simp
qed

lemma cc_accepted:
  assumes "cc_Unmarshalling P p = (Some c, p')"
  shows "cc_IsValid c \<and> cc_accepts (cc_cmd c) (cc_param c)"
proof -
  obtain cmd p1 where rd: "ReadInt32 P p = (Some cmd, p1)"
    using assms by (auto simp: cc_Unmarshalling_def split: prod.splits option.splits)
  let ?c0 = "new_control_command\<lparr>cc_cmd := cmd\<rparr>"
  have cmd: "-1 < sint cmd" "sint cmd < SESSION_CMD_MAX"
    and set: "cc_SetParamFromParcel P cmd (?c0, p1) = (AVSESSION_SUCCESS, c, p')"
    using assms rd by (auto simp: cc_Unmarshalling_def cc_SetCommand_def split: prod.splits if_splits)
  have "cc_cmd c = cmd \<and> cc_accepts cmd (cc_param c)"
    using set
    by (cases cmd rule: cmd_cases)
      (auto simp: cc_SetParamFromParcel_def cc_setter_defs cc_accepts_def cc_UnmarshalCommonInfo_def
        cc_kind_defs split: prod.splits if_splits)
  with cmd show ?thesis by (simp add: cc_IsValid_def)
qed

text \<open>whatever a parcel holds, a control command that Unmarshalling returns is valid: its number
  is one of the eighteen commands and its parameter has the type and the range that the command
  requires, so a forward time is positive, a speed is a positive finite number, a loop mode is
  known, and the getter of the command's parameter succeeds.\<close>

theorem cc_Unmarshalling_well_formed:
  assumes "cc_Unmarshalling P p = (Some c, p')"
  shows "cc_IsValid c \<and> cc_accepts (cc_cmd c) (cc_param c)"
  by (rule cc_accepted [OF assms])

theorem cc_Unmarshalling_well_formed_witness:
  "\<exists>c p'. cc_Unmarshalling token_parcel [TI32 SESSION_CMD_SET_SPEED, TDbl (DFin 2)]
       = (Some c, p' :: nat token list)
     \<and> cc_IsValid c \<and> cc_accepts (cc_cmd c) (cc_param c)"
proof -
  have "\<exists>c p'. cc_Unmarshalling token_parcel [TI32 SESSION_CMD_SET_SPEED, TDbl (DFin 2)]
       = (Some c, p' :: nat token list)"
    by (simp add: cc_Unmarshalling_def token_parcel_def tok_read_def cc_SetCommand_def read_or_def
        cc_SetParamFromParcel_def cc_SetSpeed_def dbl_isfinite_def dbl_le_def)
  then obtain c and p' :: "nat token list" where
    eq: "cc_Unmarshalling token_parcel [TI32 SESSION_CMD_SET_SPEED, TDbl (DFin 2)] = (Some c, p')"
    by blast
  from cc_Unmarshalling_well_formed [OF eq] eq show ?thesis by blast
qed

text \<open>a parcel cut off after the command number is not refused for the commands whose
  parameter may be zero: a seek without a time becomes a seek to the start, a loop mode command
  without a mode selects the sequence mode, since the results of the reads are dropped.\<close>

theorem cc_truncated_accepted:
  assumes "fifo_parcel P V" and "V p = [TI32 cmd]"
  shows "(cmd \<in> {SESSION_CMD_SEEK, SESSION_CMD_PLAY_FROM_ASSETID} \<longrightarrow>
            fst (cc_Unmarshalling P p) = Some (new_control_command\<lparr>cc_cmd := cmd, cc_param := VLong 0\<rparr>))
    \<and> (cmd \<in> {SESSION_CMD_SET_LOOP_MODE, SESSION_CMD_SET_TARGET_LOOP_MODE} \<longrightarrow>
            fst (cc_Unmarshalling P p) = Some (new_control_command\<lparr>cc_cmd := cmd, cc_param := VInt 0\<rparr>))
    \<and> (cmd \<in> {SESSION_CMD_SET_SPEED, SESSION_CMD_TOGGLE_FAVORITE, SESSION_CMD_PLAY_WITH_ASSETID}
         \<longrightarrow> fst (cc_Unmarshalling P p) = None)"
proof -
  obtain p1 where p1: "ReadInt32 P p = (Some cmd, p1)" "V p1 = []"
    using reads_valueD [OF reads_ops(1) [OF assms(1)], of p cmd "[]"] assms(2) by auto
  note ends = fifo_opD(3) [OF fifo_parcelD(1) [OF assms(1)] p1(2)]
    fifo_opD(3) [OF fifo_parcelD(2) [OF assms(1)] p1(2)]
    fifo_opD(3) [OF fifo_parcelD(3) [OF assms(1)] p1(2)]
    fifo_opD(3) [OF fifo_parcelD(5) [OF assms(1)] p1(2)]
  have reads: "\<exists>q. read_or d (ReadInt32 P) p1 = (d, q)" "\<exists>q. read_or e (ReadInt64 P) p1 = (e, q)"
    "\<exists>q. read_or f (ReadDouble P) p1 = (f, q)" "\<exists>q. read_or g (ReadString P) p1 = (g, q)"
    for d e f g
    using ends by (auto simp: read_or_def split: prod.splits)
  show ?thesis
    using p1(1) reads(1) [of 0] reads(2) [of 0] reads(3) [of "DFin 0"] reads(4) [of "[]"]
    by (auto simp: cc_Unmarshalling_def cc_SetCommand_def cc_SetParamFromParcel_def cc_setter_defs
        dbl_isfinite_def dbl_le_def)
qed

theorem cc_truncated_accepted_witness:
  "fst (cc_Unmarshalling token_parcel [TI32 SESSION_CMD_SEEK :: nat token])
     = Some (new_control_command\<lparr>cc_cmd := SESSION_CMD_SEEK, cc_param := VLong 0\<rparr>)"
  using cc_truncated_accepted [OF fifo_token_parcel refl, of SESSION_CMD_SEEK] by simp

end
