(* ===== verification/CastControlCommand.thy ===== *)
theory CastControlCommand
  imports ControlCommand
begin

text \<open>
  \<^verbatim>\<open>AVCastControlCommand\<close> (\<^verbatim>\<open>avcast_control_command.h\<close>, \<^verbatim>\<open>avcast_control_command.cpp\<close>): the
  commands for a cast device, whose parameters are 32-bit integers, and their round trip. The
  variant has no string; the parameter type is the one of \<open>ControlCommand\<close>.
\<close>

section \<open>The command\<close>

abbreviation (input) CAST_CONTROL_CMD_INVALID :: i32 where "CAST_CONTROL_CMD_INVALID \<equiv> -1"
abbreviation (input) CAST_CONTROL_CMD_FAST_FORWARD :: i32 where "CAST_CONTROL_CMD_FAST_FORWARD \<equiv> 5"
abbreviation (input) CAST_CONTROL_CMD_REWIND :: i32 where "CAST_CONTROL_CMD_REWIND \<equiv> 6"
abbreviation (input) CAST_CONTROL_CMD_SEEK :: i32 where "CAST_CONTROL_CMD_SEEK \<equiv> 7"
abbreviation (input) CAST_CONTROL_CMD_SET_VOLUME :: i32 where "CAST_CONTROL_CMD_SET_VOLUME \<equiv> 8"
abbreviation (input) CAST_CONTROL_CMD_SET_SPEED :: i32 where "CAST_CONTROL_CMD_SET_SPEED \<equiv> 9"
abbreviation (input) CAST_CONTROL_CMD_SET_LOOP_MODE :: i32 where "CAST_CONTROL_CMD_SET_LOOP_MODE \<equiv> 10"
abbreviation (input) CAST_CONTROL_CMD_MAX :: int where "CAST_CONTROL_CMD_MAX \<equiv> 14"
abbreviation (input) LOOP_SEQUENCE :: int where "LOOP_SEQUENCE \<equiv> 0"

record cast_command =
  cast_cmd :: i32
  cast_param :: cmd_param

definition new_cast_command :: cast_command where
  "new_cast_command = \<lparr>cast_cmd = CAST_CONTROL_CMD_INVALID, cast_param = VInt 0\<rparr>"

definition cast_IsValid :: "cast_command \<Rightarrow> bool" where
  "cast_IsValid c \<longleftrightarrow> -1 < sint (cast_cmd c) \<and> sint (cast_cmd c) < CAST_CONTROL_CMD_MAX"

definition cast_SetCommand :: "i32 \<Rightarrow> cast_command \<Rightarrow> int \<times> cast_command" where
  "cast_SetCommand cmd c =
     (if sint cmd \<le> -1 \<or> CAST_CONTROL_CMD_MAX \<le> sint cmd then (ERR_INVALID_PARAM, c)
      else (AVSESSION_SUCCESS, c\<lparr>cast_cmd := cmd\<rparr>))"

definition cast_SetForwardTime :: "i32 \<Rightarrow> cast_command \<Rightarrow> int \<times> cast_command" where
  "cast_SetForwardTime v c =
     (if sint v \<le> 0 then (ERR_INVALID_PARAM, c) else (AVSESSION_SUCCESS, c\<lparr>cast_param := VInt v\<rparr>))"

definition cast_SetRewindTime :: "i32 \<Rightarrow> cast_command \<Rightarrow> int \<times> cast_command" where
  "cast_SetRewindTime v c =
     (if sint v < 0 then (ERR_INVALID_PARAM, c) else (AVSESSION_SUCCESS, c\<lparr>cast_param := VInt v\<rparr>))"

definition cast_SetSeekTime :: "i32 \<Rightarrow> cast_command \<Rightarrow> int \<times> cast_command" where
  "cast_SetSeekTime v c =
     (if sint v < 0 then (ERR_INVALID_PARAM, c) else (AVSESSION_SUCCESS, c\<lparr>cast_param := VInt v\<rparr>))"

definition cast_SetVolume :: "i32 \<Rightarrow> cast_command \<Rightarrow> int \<times> cast_command" where
  "cast_SetVolume v c =
     (if sint v < 0 then (ERR_INVALID_PARAM, c) else (AVSESSION_SUCCESS, c\<lparr>cast_param := VInt v\<rparr>))"

definition cast_SetSpeed :: "i32 \<Rightarrow> cast_command \<Rightarrow> int \<times> cast_command" where
  "cast_SetSpeed v c =
     (if sint v < 0 then (ERR_INVALID_PARAM, c) else (AVSESSION_SUCCESS, c\<lparr>cast_param := VInt v\<rparr>))"

definition cast_SetLoopMode :: "i32 \<Rightarrow> cast_command \<Rightarrow> int \<times> cast_command" where
  "cast_SetLoopMode v c =
     (if sint v < LOOP_SEQUENCE \<or> LOOP_CUSTOM < sint v then (ERR_INVALID_PARAM, c)
      else (AVSESSION_SUCCESS, c\<lparr>cast_param := VInt v\<rparr>))"

text \<open>The six getters have one body, under six names.\<close>

definition cast_GetInt :: "cast_command \<Rightarrow> int + i32" where
  "cast_GetInt c = (case cast_param c of VInt v \<Rightarrow> Inr v | _ \<Rightarrow> Inl AVSESSION_ERROR)"

section \<open>Marshalling\<close>

definition cast_param_writes ::
  "('p, 'w) parcel_ops \<Rightarrow> cast_command \<Rightarrow> ('p \<Rightarrow> bool \<times> 'p) list" where
  "cast_param_writes P c =
     (let cmd = cast_cmd c; par = cast_param c in
      if cmd = CAST_CONTROL_CMD_FAST_FORWARD then [w_int P par]
      else if cmd = CAST_CONTROL_CMD_REWIND then [w_int P par]
      else if cmd = CAST_CONTROL_CMD_SEEK then [w_int P par]
      else if cmd = CAST_CONTROL_CMD_SET_VOLUME then [w_int P par]
      else if cmd = CAST_CONTROL_CMD_SET_SPEED then [w_int P par]
      else if cmd = CAST_CONTROL_CMD_SET_LOOP_MODE then [w_int P par]
      else [])"

definition cast_Marshalling :: "('p, 'w) parcel_ops \<Rightarrow> cast_command \<Rightarrow> 'p \<Rightarrow> bool \<times> 'p" where
  "cast_Marshalling P c p = (case WriteInt32 P (cast_cmd c) p of (ok, p1) \<Rightarrow>
     if \<not> ok then (False, p1) else w_all (cast_param_writes P c) p1)"

definition cast_SetParamFromParcel ::
  "('p, 'w) parcel_ops \<Rightarrow> i32 \<Rightarrow> cast_command \<times> 'p \<Rightarrow> int \<times> cast_command \<times> 'p" where
  "cast_SetParamFromParcel P cmd s = (case s of (c, p) \<Rightarrow>
     if cmd = CAST_CONTROL_CMD_FAST_FORWARD then
       (case read_or 0 (ReadInt32 P) p of (v, p1) \<Rightarrow>
        (case cast_SetForwardTime v c of (r, c2) \<Rightarrow> (r, c2, p1)))
     else if cmd = CAST_CONTROL_CMD_REWIND then
       (case read_or 0 (ReadInt32 P) p of (v, p1) \<Rightarrow>
        (case cast_SetRewindTime v c of (r, c2) \<Rightarrow> (r, c2, p1)))
     else if cmd = CAST_CONTROL_CMD_SEEK then
       (case read_or 0 (ReadInt32 P) p of (v, p1) \<Rightarrow>
        (case cast_SetSeekTime v c of (r, c2) \<Rightarrow> (r, c2, p1)))
     else if cmd = CAST_CONTROL_CMD_SET_VOLUME then
       (case read_or 0 (ReadInt32 P) p of (v, p1) \<Rightarrow>
        (case cast_SetVolume v c of (r, c2) \<Rightarrow> (r, c2, p1)))
     else if cmd = CAST_CONTROL_CMD_SET_SPEED then
       (case read_or 0 (ReadInt32 P) p of (v, p1) \<Rightarrow>
        (case cast_SetSpeed v c of (r, c2) \<Rightarrow> (r, c2, p1)))
     else if cmd = CAST_CONTROL_CMD_SET_LOOP_MODE then
       (case read_or 0 (ReadInt32 P) p of (v, p1) \<Rightarrow>
        (case cast_SetLoopMode v c of (r, c2) \<Rightarrow> (r, c2, p1)))
     else (AVSESSION_SUCCESS, c, p))"

definition cast_Unmarshalling :: "('p, 'w) parcel_ops \<Rightarrow> 'p \<Rightarrow> cast_command option \<times> 'p" where
  "cast_Unmarshalling P p = (case ReadInt32 P p of
     (None, p1) \<Rightarrow> (None, p1)
   | (Some cmd, p1) \<Rightarrow>
       (case cast_SetCommand cmd new_cast_command of (r, c) \<Rightarrow>
         if r \<noteq> AVSESSION_SUCCESS then (None, p1)
         else (case cast_SetParamFromParcel P cmd (c, p1) of (r2, c2, p2) \<Rightarrow>
           if r2 \<noteq> AVSESSION_SUCCESS then (None, p2) else (Some c2, p2))))"

section \<open>The round trip\<close>

definition cast_has_param :: "i32 \<Rightarrow> bool" where
  "cast_has_param cmd \<longleftrightarrow> cmd \<in> {CAST_CONTROL_CMD_FAST_FORWARD, CAST_CONTROL_CMD_REWIND,
     CAST_CONTROL_CMD_SEEK, CAST_CONTROL_CMD_SET_VOLUME, CAST_CONTROL_CMD_SET_SPEED,
     CAST_CONTROL_CMD_SET_LOOP_MODE}"

text \<open>What the receiver requires of the integer parameter of a command.\<close>

definition cast_accepts :: "i32 \<Rightarrow> i32 \<Rightarrow> bool" where
  "cast_accepts cmd v \<longleftrightarrow>
     (if cmd = CAST_CONTROL_CMD_FAST_FORWARD then 0 < sint v
      else if cmd = CAST_CONTROL_CMD_SET_LOOP_MODE then 0 \<le> sint v \<and> sint v \<le> LOOP_CUSTOM
      else cast_has_param cmd \<longrightarrow> 0 \<le> sint v)"

lemmas cast_setter_defs =
  cast_SetForwardTime_def cast_SetRewindTime_def cast_SetSeekTime_def cast_SetVolume_def
  cast_SetSpeed_def cast_SetLoopMode_def

lemma cast_params_alternative:
  "cast_param_writes P c = (if cast_has_param (cast_cmd c) then [w_int P (cast_param c)] else [])"
  by (auto simp: cast_param_writes_def cast_has_param_def Let_def)

lemma cast_set_alternative:
  "cast_SetParamFromParcel P cmd (c, p) =
     (if cast_has_param cmd
      then (case read_or 0 (ReadInt32 P) p of (v, p1) \<Rightarrow>
              if cast_accepts cmd v then (AVSESSION_SUCCESS, c\<lparr>cast_param := VInt v\<rparr>, p1)
              else (ERR_INVALID_PARAM, c, p1))
      else (AVSESSION_SUCCESS, c, p))"
  by (auto simp: cast_SetParamFromParcel_def cast_has_param_def cast_accepts_def cast_setter_defs
      split: prod.splits)

text \<open>round trip of a cast command: the command number and, for the six commands with one, the
  integer parameter arrive unchanged; a number out of range or a parameter that the setter of
  the command refuses makes Unmarshalling return null.\<close>

theorem cast_round_trip:
  assumes "fifo_parcel P V" and "V p = []" and "cast_Marshalling P c p = (True, p1)"
  shows "\<exists>p2. cast_Unmarshalling P p1 =
    (if \<not> cast_IsValid c then None
     else if cast_has_param (cast_cmd c)
     then (if \<exists>v. cast_param c = VInt v \<and> cast_accepts (cast_cmd c) v then Some c else None)
     else Some (c\<lparr>cast_param := VInt 0\<rparr>), p2)"
proof -
  obtain q where q: "WriteInt32 P (cast_cmd c) p = (True, q)"
      "w_all (cast_param_writes P c) q = (True, p1)"
    using assms(3) by (auto simp: cast_Marshalling_def split: prod.splits if_splits)
  have Vq: "V q = [TI32 (cast_cmd c)]"
    using writesD [OF writes_ops(1) [OF assms(1)] q(1)] assms(2) by simp
  show ?thesis
  proof (cases "cast_has_param (cast_cmd c)")
    case True
    then have w: "w_int P (cast_param c) q = (True, p1)"
      using q(2) by (auto simp: cast_params_alternative split: prod.splits if_splits)
    then obtain v where v: "cast_param c = VInt v" using param_written(3) [OF w] by blast
    have "V p1 = [TI32 (cast_cmd c)] @ [TI32 v]"
      using writesD [OF writes_param(3) [OF assms(1)] w] Vq v by simp
    then obtain r where r: "ReadInt32 P p1 = (Some (cast_cmd c), r)" "V r = [TI32 v] @ []"
      using reads_valueD [OF reads_ops(1) [OF assms(1)], of p1] by auto
    obtain r2 where "read_or 0 (ReadInt32 P) r = (v, r2)"
      using reads_valueD [OF read_or_token [OF reads_ops(1) [OF assms(1)]] r(2)] by blast
    with r(1) v True show ?thesis
      by (cases c) (auto simp: cast_Unmarshalling_def cast_SetCommand_def cast_IsValid_def
          cast_set_alternative)
  next
    case False
    then have "V p1 = [TI32 (cast_cmd c)] @ []"
      using q(2) Vq by (simp add: cast_params_alternative)
    then obtain r where r: "ReadInt32 P p1 = (Some (cast_cmd c), r)"
      using reads_valueD [OF reads_ops(1) [OF assms(1)]] by blast
    with False show ?thesis
      by (cases c) (auto simp: cast_Unmarshalling_def cast_SetCommand_def cast_IsValid_def
          cast_set_alternative new_cast_command_def)
  qed
qed

theorem cast_round_trip_witness:
  "\<exists>p2. cast_Unmarshalling token_parcel (snd (cast_Marshalling token_parcel
       \<lparr>cast_cmd = CAST_CONTROL_CMD_SET_VOLUME, cast_param = VInt 9\<rparr> []))
     = (Some \<lparr>cast_cmd = CAST_CONTROL_CMD_SET_VOLUME, cast_param = VInt 9\<rparr>, p2 :: nat token list)"
proof -
  let ?c = "\<lparr>cast_cmd = CAST_CONTROL_CMD_SET_VOLUME, cast_param = VInt 9\<rparr>"
  obtain p1 :: "nat token list" where p1: "cast_Marshalling token_parcel ?c [] = (True, p1)"
    by (simp add: cast_Marshalling_def cast_param_writes_def w_int_def token_parcel_def)
  have "cast_IsValid ?c" "cast_has_param (cast_cmd ?c)" "cast_accepts (cast_cmd ?c) 9"
    by (simp_all add: cast_IsValid_def cast_has_param_def cast_accepts_def)
  with cast_round_trip [OF fifo_token_parcel refl p1] p1 show ?thesis by simp
qed

end
