(* ===== verification/SessionItem.thy ===== *)
theory SessionItem
  imports Errors
begin

text \<open>
  The objects the service works on: sessions (\<^verbatim>\<open>AVSessionItem\<close>) and controllers
  (\<^verbatim>\<open>AVControllerItem\<close>). Both are shared through reference-counted pointers: a pointer is a
  number into a store, a null pointer is \<open>None\<close>. Only the state that the containers and the
  service read or write is here; metadata and playback state have theories of their own.

  A session's \<^verbatim>\<open>IsCasting\<close> and the state of its cast playback belong to the cast engine, which is
  compiled in with \<^verbatim>\<open>CASTPLUS_CAST_ENGINE_ENABLE\<close>: two fields that no operation here changes, and
  \<open>siCasting\<close> is false in a build without it.
\<close>

section \<open>Sessions\<close>

type_synonym sref = nat
type_synonym cref = nat

abbreviation (input) SESSION_TYPE_AUDIO :: int where "SESSION_TYPE_AUDIO \<equiv> 0"
abbreviation (input) SESSION_TYPE_VIDEO :: int where "SESSION_TYPE_VIDEO \<equiv> 1"
abbreviation (input) SESSION_TYPE_VOICE_CALL :: int where "SESSION_TYPE_VOICE_CALL \<equiv> 2"
abbreviation (input) SESSION_TYPE_VIDEO_CALL :: int where "SESSION_TYPE_VIDEO_CALL \<equiv> 3"
abbreviation (input) SESSION_TYPE_PHOTO :: int where "SESSION_TYPE_PHOTO \<equiv> 4"

record session =
  siSessionId :: string
  siPid :: int
  siUid :: int
  siUserId :: int
  siDescUserId :: int
  siTag :: string
  siType :: int
  siBundle :: string
  siAbility :: string
  siThirdParty :: bool
  siIsTop :: bool
  siIsActive :: bool
  siPlayingTime :: int
  siPlaybackState :: int
  siBackgroundPlayMode :: int
  siDestroyed :: bool
  siCasting :: bool
  siCastState :: int
  siRemoteSource :: bool
  siControllers :: "(int, cref) cmap"

text \<open>A session as the constructor leaves it with an empty descriptor.\<close>

definition new_session :: session where
  "new_session = \<lparr>siSessionId = [], siPid = 0, siUid = 0, siUserId = 0, siDescUserId = 0,
     siTag = [], siType = -1, siBundle = [], siAbility = [], siThirdParty = True,
     siIsTop = False, siIsActive = False, siPlayingTime = 0, siPlaybackState = 0,
     siBackgroundPlayMode = -1, siDestroyed = False, siCasting = False, siCastState = 0,
     siRemoteSource = False, siControllers = []\<rparr>"

definition sessionTypeMap :: "(int \<times> string) list" where
  "sessionTypeMap = [(SESSION_TYPE_VIDEO, ''video''), (SESSION_TYPE_VOICE_CALL, ''voice_call''),
     (SESSION_TYPE_VIDEO_CALL, ''video_call''), (SESSION_TYPE_PHOTO, ''photo'')]"

definition si_GetSessionType :: "session \<Rightarrow> string" where
  "si_GetSessionType s = (case map_of sessionTypeMap (siType s) of Some t \<Rightarrow> t | None \<Rightarrow> ''audio'')"

definition si_IsActive :: "session \<Rightarrow> bool" where
  "si_IsActive s \<longleftrightarrow> siIsActive s \<or> siSessionId s = ''DEFAULT''"

definition si_SetTop :: "bool \<Rightarrow> session \<Rightarrow> session" where
  "si_SetTop b s = s\<lparr>siIsTop := b\<rparr>"

definition si_SetUserId :: "int \<Rightarrow> session \<Rightarrow> session" where
  "si_SetUserId userId s = s\<lparr>siUserId := userId\<rparr>"

definition si_SetPlayingTime :: "int \<Rightarrow> session \<Rightarrow> session" where
  "si_SetPlayingTime t s = s\<lparr>siPlayingTime := t\<rparr>"

definition si_UpdateSessionElement :: "string \<Rightarrow> string \<Rightarrow> session \<Rightarrow> session" where
  "si_UpdateSessionElement bundle ability s = s\<lparr>siBundle := bundle, siAbility := ability\<rparr>"

definition si_HandleControllerRelease :: "int \<Rightarrow> session \<Rightarrow> session" where
  "si_HandleControllerRelease pid s = s\<lparr>siControllers := cmap_erase pid (siControllers s)\<rparr>"

text \<open>The types as \<^verbatim>\<open>GetSessionType\<close> names them: an unknown number counts as audio.\<close>

lemma si_GetSessionType_cases:
  "si_GetSessionType s \<in> {''audio'', ''video'', ''voice_call'', ''video_call'', ''photo''}"
  by (simp add: si_GetSessionType_def sessionTypeMap_def)

lemma si_GetSessionType_photo: "si_GetSessionType s = ''photo'' \<longleftrightarrow> siType s = SESSION_TYPE_PHOTO"
  by (simp add: si_GetSessionType_def sessionTypeMap_def)

section \<open>Controllers\<close>

text \<open>\<open>ctHasCallback\<close> is a registered client callback, \<open>ctFromSession\<close> is \<^verbatim>\<open>isFromSession_\<close>.\<close>

record controller =
  ctPid :: int
  ctSession :: "sref option"
  ctSessionId :: string
  ctUserId :: int
  ctFromSession :: bool
  ctHasCallback :: bool

definition ct_HasSession :: "string \<Rightarrow> controller \<Rightarrow> bool" where
  "ct_HasSession sid c \<longleftrightarrow> ctSessionId c = sid"

text \<open>\<^verbatim>\<open>session_ = nullptr; sessionId_.clear();\<close>\<close>

definition ct_clear_session :: "controller \<Rightarrow> controller" where
  "ct_clear_session c = c\<lparr>ctSession := None, ctSessionId := ''''\<rparr>"

section \<open>The store\<close>

record store =
  items :: "sref \<Rightarrow> session"
  ctrls :: "cref \<Rightarrow> controller"

definition upd_item :: "sref \<Rightarrow> (session \<Rightarrow> session) \<Rightarrow> store \<Rightarrow> store" where
  "upd_item s f h = h\<lparr>items := (items h)(s := f (items h s))\<rparr>"

definition upd_ctrl :: "cref \<Rightarrow> (controller \<Rightarrow> controller) \<Rightarrow> store \<Rightarrow> store" where
  "upd_ctrl c f h = h\<lparr>ctrls := (ctrls h)(c := f (ctrls h c))\<rparr>"

lemma items_upd_item [simp]:
  "items (upd_item s f h) t = (if t = s then f (items h s) else items h t)"
  by (simp add: upd_item_def)

lemma ctrls_upd_item [simp]: "ctrls (upd_item s f h) = ctrls h"
  by (simp add: upd_item_def)

lemma items_upd_ctrl [simp]: "items (upd_ctrl c f h) = items h"
  by (simp add: upd_ctrl_def)

lemma ctrls_upd_ctrl [simp]:
  "ctrls (upd_ctrl c f h) d = (if d = c then f (ctrls h c) else ctrls h d)"
  by (simp add: upd_ctrl_def)

end
