(* ===== verification/SessionStack.thy ===== *)
theory SessionStack
  imports SessionItem
begin

text \<open>
  \<^verbatim>\<open>SessionContainer\<close> (\<^verbatim>\<open>session_container.h\<close>) and \<^verbatim>\<open>SessionStack\<close> (\<^verbatim>\<open>session_stack.cpp\<close>): the
  sessions of one user, or of all, by process and ability name, and their order, the session
  added or used last in front. The abstract class is the locale \<open>session_container\<close>: the laws
  that the users manager relies on, proved of the two members that implement it, the ordered map
  and the list. Locks are left out: every operation holds the stack's recursive mutex.
\<close>

section \<open>The stack\<close>

definition SESSION_NUM_MAX :: nat where
  "SESSION_NUM_MAX = 50"

type_synonym skey = "int \<times> string"

text \<open>
  \<open>ssReclaimTask\<close> is \<^verbatim>\<open>isActivatedMemReclaimTask_\<close>: the delayed task that gives memory back is
  pending.
\<close>

record session_stack =
  ssSessions :: "(skey, sref) cmap"
  ssStack :: "sref list"
  ssReclaimTask :: bool

definition new_session_stack :: session_stack where
  "new_session_stack = \<lparr>ssSessions = [], ssStack = [], ssReclaimTask = False\<rparr>"

definition ss_CheckSessionStateIdle :: "session_stack \<Rightarrow> bool" where
  "ss_CheckSessionStateIdle st \<longleftrightarrow> ssSessions st = []"

definition ss_PostReclaimMemoryTask :: "session_stack \<Rightarrow> session_stack" where
  "ss_PostReclaimMemoryTask st =
     (if ssReclaimTask st \<and> \<not> ss_CheckSessionStateIdle st then st\<lparr>ssReclaimTask := False\<rparr>
      else if \<not> ssReclaimTask st \<and> ss_CheckSessionStateIdle st then st\<lparr>ssReclaimTask := True\<rparr>
      else st)"

text \<open>The posted task writes to a file under \<^verbatim>\<open>/proc\<close> and clears the flag.\<close>

definition ss_reclaim_task_runs :: "session_stack \<Rightarrow> session_stack" where
  "ss_reclaim_task_runs st = st\<lparr>ssReclaimTask := False\<rparr>"

definition ss_AddSession :: "int \<Rightarrow> string \<Rightarrow> sref \<Rightarrow> session_stack \<Rightarrow> int \<times> session_stack" where
  "ss_AddSession pid abilityName item st =
     (if SESSION_NUM_MAX \<le> length (ssSessions st) then (ERR_SESSION_EXCEED_MAX, st)
      else (AVSESSION_SUCCESS,
        ss_PostReclaimMemoryTask (st\<lparr>ssSessions := cmap_insert (pid, abilityName) item (ssSessions st),
          ssStack := item # ssStack st\<rparr>)))"

definition ss_UpdateSessionSort :: "(sref \<Rightarrow> session) \<Rightarrow> sref \<Rightarrow> session_stack \<Rightarrow> session_stack" where
  "ss_UpdateSessionSort h item st =
     (let key = (siPid (h item), siAbility (h item)) in
      case map_of (ssSessions st) key of
        None \<Rightarrow> st
      | Some old \<Rightarrow> st\<lparr>ssSessions := cmap_insert key item (cmap_erase key (ssSessions st)),
          ssStack := item # list_remove old (ssStack st)\<rparr>)"

text \<open>
  The loop of the two removals by pid and by id: it walks over the map, erases the entries that
  match, removes their sessions from the list, and collects them.
\<close>

fun ss_erase_loop ::
  "(skey \<times> sref \<Rightarrow> bool) \<Rightarrow> (skey, sref) cmap \<Rightarrow> sref list
    \<Rightarrow> sref list \<times> (skey, sref) cmap \<times> sref list" where
  "ss_erase_loop match [] stk = ([], [], stk)"
| "ss_erase_loop match (e # es) stk =
     (if match e
      then (case ss_erase_loop match es (list_remove (snd e) stk) of (rs, ks, stk') \<Rightarrow>
              (snd e # rs, ks, stk'))
      else (case ss_erase_loop match es stk of (rs, ks, stk') \<Rightarrow> (rs, e # ks, stk')))"

definition ss_RemoveSessionByPid :: "int \<Rightarrow> session_stack \<Rightarrow> sref list \<times> session_stack" where
  "ss_RemoveSessionByPid pid st =
     (case ss_erase_loop (\<lambda>e. fst (fst e) = pid) (ssSessions st) (ssStack st) of (rs, ks, stk) \<Rightarrow>
       (rs, ss_PostReclaimMemoryTask (st\<lparr>ssSessions := ks, ssStack := stk\<rparr>)))"

definition ss_RemoveSessionById ::
  "(sref \<Rightarrow> session) \<Rightarrow> string \<Rightarrow> session_stack \<Rightarrow> sref option \<times> session_stack" where
  "ss_RemoveSessionById h sessionId st =
     (case ss_erase_loop (\<lambda>e. siSessionId (h (snd e)) = sessionId) (ssSessions st) (ssStack st) of
       (rs, ks, stk) \<Rightarrow>
         (if rs = [] then None else Some (last rs),
          ss_PostReclaimMemoryTask (st\<lparr>ssSessions := ks, ssStack := stk\<rparr>)))"

definition ss_RemoveSession :: "int \<Rightarrow> string \<Rightarrow> session_stack \<Rightarrow> sref option \<times> session_stack" where
  "ss_RemoveSession pid abilityName st =
     (case map_of (ssSessions st) (pid, abilityName) of
        None \<Rightarrow> (None, st)
      | Some result \<Rightarrow> (Some result,
          ss_PostReclaimMemoryTask (st\<lparr>ssSessions := cmap_erase (pid, abilityName) (ssSessions st),
            ssStack := list_remove result (ssStack st)\<rparr>)))"

definition ss_GetSession :: "int \<Rightarrow> string \<Rightarrow> session_stack \<Rightarrow> sref option" where
  "ss_GetSession pid abilityName st = map_of (ssSessions st) (pid, abilityName)"

definition ss_GetSessionsByPid :: "int \<Rightarrow> session_stack \<Rightarrow> sref list" where
  "ss_GetSessionsByPid pid st = map snd (filter (\<lambda>e. fst (fst e) = pid) (ssSessions st))"

definition ss_PidHasSession :: "int \<Rightarrow> session_stack \<Rightarrow> bool" where
  "ss_PidHasSession pid st \<longleftrightarrow> list_ex (\<lambda>e. fst (fst e) = pid) (ssSessions st)"

definition ss_UidHasSession :: "(sref \<Rightarrow> session) \<Rightarrow> int \<Rightarrow> session_stack \<Rightarrow> bool" where
  "ss_UidHasSession h uid st \<longleftrightarrow> list_ex (\<lambda>s. siUid (h s) = uid) (ssStack st)"

definition ss_GetSessionById :: "(sref \<Rightarrow> session) \<Rightarrow> string \<Rightarrow> session_stack \<Rightarrow> sref option" where
  "ss_GetSessionById h sessionId st = List.find (\<lambda>s. siSessionId (h s) = sessionId) (ssStack st)"

definition ss_GetSessionByUid :: "(sref \<Rightarrow> session) \<Rightarrow> int \<Rightarrow> session_stack \<Rightarrow> sref option" where
  "ss_GetSessionByUid h uid st = List.find (\<lambda>s. siUid (h s) = uid) (ssStack st)"

definition ss_GetAllSessions :: "session_stack \<Rightarrow> sref list" where
  "ss_GetAllSessions st = ssStack st"

definition ss_IsEmpty :: "session_stack \<Rightarrow> bool" where
  "ss_IsEmpty st \<longleftrightarrow> ssStack st = []"

definition ss_getAllSessionNum :: "session_stack \<Rightarrow> nat" where
  "ss_getAllSessionNum st = length (ssStack st)"

section \<open>The contract of a container\<close>

text \<open>
  \<open>inv\<close> is the container's own consistency. A session is added once, under a key that is free:
  \<open>fresh\<close>. The laws say what lookups and the list of all sessions give after an operation.
\<close>

locale session_container =
  fixes inv :: "'c \<Rightarrow> bool"
    and add :: "int \<Rightarrow> string \<Rightarrow> sref \<Rightarrow> 'c \<Rightarrow> int \<times> 'c"
    and remove :: "int \<Rightarrow> string \<Rightarrow> 'c \<Rightarrow> sref option \<times> 'c"
    and lookup :: "int \<Rightarrow> string \<Rightarrow> 'c \<Rightarrow> sref option"
    and all :: "'c \<Rightarrow> sref list"
    and empty :: 'c
    and limit :: nat
  assumes inv_empty: "inv empty" and all_empty: "all empty = []"
    and inv_distinct: "inv c \<Longrightarrow> distinct (all c)"
    and inv_all: "inv c \<Longrightarrow> s \<in> set (all c) \<longleftrightarrow> (\<exists>p a. lookup p a c = Some s)"
    and inv_inj: "inv c \<Longrightarrow> lookup p a c = Some s \<Longrightarrow> lookup q b c = Some s \<Longrightarrow> p = q \<and> a = b"
    and inv_limit: "inv c \<Longrightarrow> length (all c) \<le> limit"
    and add_full: "inv c \<Longrightarrow> limit \<le> length (all c) \<Longrightarrow> add p a s c = (ERR_SESSION_EXCEED_MAX, c)"
    and add_ok: "inv c \<Longrightarrow> length (all c) < limit \<Longrightarrow> lookup p a c = None \<Longrightarrow> s \<notin> set (all c) \<Longrightarrow>
          \<exists>c'. add p a s c = (AVSESSION_SUCCESS, c') \<and> inv c' \<and> all c' = s # all c
            \<and> (\<forall>q b. lookup q b c' = (if q = p \<and> b = a then Some s else lookup q b c))"
    and remove_none: "inv c \<Longrightarrow> lookup p a c = None \<Longrightarrow> remove p a c = (None, c)"
    and remove_some: "inv c \<Longrightarrow> lookup p a c = Some s \<Longrightarrow>
          \<exists>c'. remove p a c = (Some s, c') \<and> inv c' \<and> all c' = list_remove s (all c)
            \<and> (\<forall>q b. lookup q b c' = (if q = p \<and> b = a then None else lookup q b c))"
begin

lemma remove_inv: "inv c \<Longrightarrow> remove p a c = (r, c') \<Longrightarrow> inv c'"
  using remove_none remove_some by (cases "lookup p a c") fastforce+

lemma remove_result: "inv c \<Longrightarrow> remove p a c = (r, c') \<Longrightarrow> r = lookup p a c"
  using remove_none remove_some by (cases "lookup p a c") fastforce+

lemma remove_all:
  "inv c \<Longrightarrow> remove p a c = (r, c') \<Longrightarrow>
     all c' = (case lookup p a c of None \<Rightarrow> all c | Some s \<Rightarrow> list_remove s (all c))"
  using remove_none remove_some by (cases "lookup p a c") fastforce+

text \<open>A removed session is gone: no key leads to it and the list does not hold it.\<close>

lemma remove_gone:
  assumes "inv c" and "remove p a c = (Some s, c')"
  shows "s \<notin> set (all c') \<and> lookup q b c' \<noteq> Some s"
proof -
  have "lookup p a c = Some s" using remove_result [OF assms] by simp
  from remove_some [OF assms(1) this] assms(2) have "inv c'" "all c' = list_remove s (all c)" by auto
  then show ?thesis using inv_all [of c' s] by auto
qed

text \<open>Adding a new session and removing it restores the sessions and their order.\<close>

lemma add_remove:
  assumes "inv c" and "length (all c) < limit" and "lookup p a c = None" and "s \<notin> set (all c)"
    and "add p a s c = (r, c1)" and "remove p a c1 = (r2, c2)"
  shows "r = AVSESSION_SUCCESS \<and> r2 = Some s \<and> all c2 = all c
    \<and> (\<forall>q b. lookup q b c2 = lookup q b c)"
proof -
  from add_ok [OF assms(1-4)] assms(5)
  have c1: "r = AVSESSION_SUCCESS" "inv c1" "all c1 = s # all c"
      "\<And>q b. lookup q b c1 = (if q = p \<and> b = a then Some s else lookup q b c)"
    by auto
  from remove_some [OF c1(2), of p a s] c1(4) assms(6)
  have "r2 = Some s" "all c2 = list_remove s (all c1)"
      "\<And>q b. lookup q b c2 = (if q = p \<and> b = a then None else lookup q b c1)"
    by auto
  with c1 assms(3,4) show ?thesis by (auto simp: list_remove_def intro!: filter_True)
qed

text \<open>The limit holds after any operation.\<close>

lemma add_within_limit:
  assumes "inv c" and "lookup p a c = None" and "s \<notin> set (all c)" and "add p a s c = (r, c')"
  shows "inv c' \<and> length (all c') \<le> limit
    \<and> (r = AVSESSION_SUCCESS \<longleftrightarrow> length (all c) < limit)"
proof (cases "length (all c) < limit")
  case True
  from add_ok [OF assms(1) True assms(2,3)] assms(4) True inv_limit show ?thesis by auto
next
  case False
  with add_full [OF assms(1)] assms(1,4) inv_limit show ?thesis by auto
qed

end

section \<open>The stack keeps the contract\<close>

definition ss_ok :: "session_stack \<Rightarrow> bool" where
  "ss_ok st \<longleftrightarrow> cmap_ok (ssSessions st) \<and> distinct (map snd (ssSessions st))
     \<and> distinct (ssStack st) \<and> set (ssStack st) = snd ` set (ssSessions st)
     \<and> length (ssSessions st) \<le> SESSION_NUM_MAX"

lemma ss_Post_simps [simp]:
  "ssSessions (ss_PostReclaimMemoryTask st) = ssSessions st"
  "ssStack (ss_PostReclaimMemoryTask st) = ssStack st"
  by (simp_all add: ss_PostReclaimMemoryTask_def)

lemma ss_ok_Post [simp]: "ss_ok (ss_PostReclaimMemoryTask st) \<longleftrightarrow> ss_ok st"
  by (simp add: ss_ok_def)

lemma ss_lengths: "ss_ok st \<Longrightarrow> length (ssStack st) = length (ssSessions st)"
  unfolding ss_ok_def by (metis distinct_card length_map list.set_map)

lemma ss_lookup_set: "ss_ok st \<Longrightarrow> ss_GetSession p a st = Some s \<longleftrightarrow> ((p, a), s) \<in> set (ssSessions st)"
  by (simp add: ss_ok_def ss_GetSession_def cmap_ok_in_set)

lemma ss_inj: "ss_ok st \<Longrightarrow> e \<in> set (ssSessions st) \<Longrightarrow> f \<in> set (ssSessions st) \<Longrightarrow> snd e = snd f \<Longrightarrow> e = f"
  by (auto simp: ss_ok_def distinct_map dest: inj_onD)

lemma length_cmap_put_new: "map_of m k = None \<Longrightarrow> length (cmap_put k v m) = Suc (length m)"
  by (induction k v m rule: cmap_put.induct) (auto split: if_splits)

lemma distinct_snd_put:
  "map_of m k = None \<Longrightarrow> v \<notin> snd ` set m \<Longrightarrow> distinct (map snd m) \<Longrightarrow> distinct (map snd (cmap_put k v m))
    \<and> snd ` set (cmap_put k v m) = insert v (snd ` set m)"
  by (induction k v m rule: cmap_put.induct) (auto split: if_splits)

lemma ss_AddSession_ok:
  assumes "ss_ok st" and "length (ssStack st) < SESSION_NUM_MAX" and "ss_GetSession p a st = None"
    and "s \<notin> set (ssStack st)"
  shows "\<exists>st'. ss_AddSession p a s st = (AVSESSION_SUCCESS, st') \<and> ss_ok st'
    \<and> ssStack st' = s # ssStack st
    \<and> (\<forall>q b. ss_GetSession q b st' = (if q = p \<and> b = a then Some s else ss_GetSession q b st))"
proof -
  have new: "map_of (ssSessions st) (p, a) = None" "s \<notin> snd ` set (ssSessions st)"
      "distinct (map snd (ssSessions st))"
    using assms by (auto simp: ss_GetSession_def ss_ok_def)
  note put = distinct_snd_put [OF new] length_cmap_put_new [OF new(1)]
  show ?thesis
    using assms new(1) put ss_lengths [OF assms(1)]
    by (auto simp: ss_AddSession_def cmap_insert_def ss_ok_def ss_GetSession_def cmap_simps)
qed

lemma erase_images:
  assumes "distinct (map fst m)" and "distinct (map snd m)" and "map_of m k = Some v"
  shows "snd ` set (cmap_erase k m) = snd ` set m - {v}" and "distinct (map snd (cmap_erase k m))"
proof -
  have "snd e = v \<longleftrightarrow> fst e = k" if "e \<in> set m" for e
  proof -
    have "(k, v) \<in> set m" using assms(3) by (rule map_of_SomeD)
    moreover have "inj_on snd (set m)" using assms(2) by (simp add: distinct_map)
    ultimately have "snd e = v \<Longrightarrow> e = (k, v)" using that inj_onD [of snd "set m" e "(k, v)"] by simp
    moreover have "fst e = k \<Longrightarrow> snd e = v"
      using map_of_is_SomeI [OF assms(1), of "fst e" "snd e"] that assms(3) by auto
    ultimately show ?thesis by (metis fst_conv)
  qed
  then show "snd ` set (cmap_erase k m) = snd ` set m - {v}" by (auto simp: cmap_simps)
  show "distinct (map snd (cmap_erase k m))"
    using assms(2) by (simp add: cmap_erase_def distinct_map_filter)
qed

lemma ss_RemoveSession_ok:
  assumes "ss_ok st" and "ss_GetSession p a st = Some s"
  shows "\<exists>st'. ss_RemoveSession p a st = (Some s, st') \<and> ss_ok st'
    \<and> ssStack st' = list_remove s (ssStack st)
    \<and> (\<forall>q b. ss_GetSession q b st' = (if q = p \<and> b = a then None else ss_GetSession q b st))"
proof -
  have "distinct (map fst (ssSessions st))" using assms(1) by (simp add: ss_ok_def cmap_ok_distinct)
  note ers = erase_images [OF this, of "(p, a)" s]
  have "length (cmap_erase (p, a) (ssSessions st)) \<le> SESSION_NUM_MAX"
    unfolding cmap_erase_def
    by (rule order_trans [OF length_filter_le]) (use assms(1) in \<open>simp add: ss_ok_def\<close>)
  moreover have "map_of (ssSessions st) (p, a) = Some s" and snds: "distinct (map snd (ssSessions st))"
    using assms by (simp_all add: ss_GetSession_def ss_ok_def)
  ultimately have "ss_ok (st\<lparr>ssSessions := cmap_erase (p, a) (ssSessions st),
      ssStack := list_remove s (ssStack st)\<rparr>)"
    using assms(1) ers by (simp add: ss_ok_def cmap_ok_erase)
  with assms(2) show ?thesis
    by (simp add: ss_RemoveSession_def ss_GetSession_def map_of_cmap_erase)
qed

lemma ss_ok_new [simp]: "ss_ok new_session_stack"
  by (simp add: ss_ok_def new_session_stack_def)

interpretation stack: session_container ss_ok ss_AddSession ss_RemoveSession ss_GetSession
  ss_GetAllSessions new_session_stack SESSION_NUM_MAX
proof unfold_locales
  fix c p a s assume c: "ss_ok c" "SESSION_NUM_MAX \<le> length (ss_GetAllSessions c)"
  then show "ss_AddSession p a s c = (ERR_SESSION_EXCEED_MAX, c)"
    by (simp add: ss_AddSession_def ss_GetAllSessions_def ss_lengths)
next
  fix c s assume c: "ss_ok c"
  show "s \<in> set (ss_GetAllSessions c) \<longleftrightarrow> (\<exists>p a. ss_GetSession p a c = Some s)"
    using c by (simp add: ss_lookup_set ss_GetAllSessions_def) (force simp: ss_ok_def)
next
  fix c p a s q b assume "ss_ok c" "ss_GetSession p a c = Some s" "ss_GetSession q b c = Some s"
  then show "p = q \<and> a = b" using ss_inj [of c "((p, a), s)" "((q, b), s)"] by (simp add: ss_lookup_set)
next
  fix c assume "ss_ok c" then show "length (ss_GetAllSessions c) \<le> SESSION_NUM_MAX"
    by (simp add: ss_GetAllSessions_def ss_lengths) (simp add: ss_ok_def)
next
  fix c p a s
  assume "ss_ok c" "length (ss_GetAllSessions c) < SESSION_NUM_MAX" "ss_GetSession p a c = None"
    "s \<notin> set (ss_GetAllSessions c)"
  then show "\<exists>c'. ss_AddSession p a s c = (AVSESSION_SUCCESS, c') \<and> ss_ok c'
      \<and> ss_GetAllSessions c' = s # ss_GetAllSessions c
      \<and> (\<forall>q b. ss_GetSession q b c' = (if q = p \<and> b = a then Some s else ss_GetSession q b c))"
    unfolding ss_GetAllSessions_def by (rule ss_AddSession_ok)
next
  fix c p a s assume "ss_ok c" "ss_GetSession p a c = Some s"
  then show "\<exists>c'. ss_RemoveSession p a c = (Some s, c') \<and> ss_ok c'
      \<and> ss_GetAllSessions c' = list_remove s (ss_GetAllSessions c)
      \<and> (\<forall>q b. ss_GetSession q b c' = (if q = p \<and> b = a then None else ss_GetSession q b c))"
    unfolding ss_GetAllSessions_def by (rule ss_RemoveSession_ok)
qed (simp_all add: ss_GetAllSessions_def ss_GetSession_def ss_RemoveSession_def new_session_stack_def
      ss_ok_def)

end
