(* ===== verification/StackProps.thy ===== *)
theory StackProps
  imports SessionStack
begin

text \<open>
  Properties of the session stack: the operations beyond the container contract, the states that
  sequences of operations reach, the order of the sessions, and what happens when a key is used
  twice.
\<close>

section \<open>The erasing loop\<close>

lemma ss_erase_loop_spec:
  "ss_erase_loop M es stk = (map snd (filter M es), filter (\<lambda>e. \<not> M e) es,
     filter (\<lambda>s. s \<notin> snd ` {e \<in> set es. M e}) stk)"
proof (induction es arbitrary: stk)
  case (Cons e es)
  have "filter (\<lambda>s. s \<notin> snd ` {f \<in> set es. M f}) (list_remove (snd e) stk)
      = filter (\<lambda>s. s \<notin> snd ` {f \<in> set (e # es). M f}) stk" if "M e"
    using that by (auto simp: list_remove_def intro!: filter_cong)
  moreover have "{f \<in> set (e # es). M f} = {f \<in> set es. M f}" if "\<not> M e" using that by auto
  ultimately show ?case using Cons.IH by simp
qed simp

lemma ss_ok_filtered:
  assumes "ss_ok st"
  shows "ss_ok (st\<lparr>ssSessions := filter (\<lambda>e. \<not> M e) (ssSessions st),
    ssStack := filter (\<lambda>s. s \<notin> snd ` {e \<in> set (ssSessions st). M e}) (ssStack st)\<rparr>)"
proof -
  have len: "length (filter (\<lambda>e. \<not> M e) (ssSessions st)) \<le> SESSION_NUM_MAX"
    by (rule order_trans [OF length_filter_le]) (use assms in \<open>simp add: ss_ok_def\<close>)
  have "snd e \<noteq> snd f" if "e \<in> set (ssSessions st)" "\<not> M e" "f \<in> set (ssSessions st)" "M f" for e f
    using ss_inj [OF assms that(1,3)] that(2,4) by auto
  then have "{s \<in> set (ssStack st). s \<notin> snd ` {e \<in> set (ssSessions st). M e}}
      = snd ` {e \<in> set (ssSessions st). \<not> M e}"
    using assms by (auto simp: ss_ok_def)
  with len assms show ?thesis
    by (simp add: ss_ok_def cmap_ok_filter distinct_map_filter)
qed

lemma ss_RemoveSessionById_eq:
  "ss_RemoveSessionById h sid st =
     (let M = (\<lambda>e. siSessionId (h (snd e)) = sid); rs = map snd (filter M (ssSessions st))
      in (if rs = [] then None else Some (last rs),
          ss_PostReclaimMemoryTask (st\<lparr>ssSessions := filter (\<lambda>e. \<not> M e) (ssSessions st),
            ssStack := filter (\<lambda>s. s \<notin> snd ` {e \<in> set (ssSessions st). M e}) (ssStack st)\<rparr>)))"
  by (simp add: ss_RemoveSessionById_def ss_erase_loop_spec Let_def)

lemma ss_RemoveSessionByPid_eq:
  "ss_RemoveSessionByPid pid st =
     (let M = (\<lambda>e. fst (fst e) = pid)
      in (ss_GetSessionsByPid pid st,
          ss_PostReclaimMemoryTask (st\<lparr>ssSessions := filter (\<lambda>e. \<not> M e) (ssSessions st),
            ssStack := filter (\<lambda>s. s \<notin> snd ` {e \<in> set (ssSessions st). M e}) (ssStack st)\<rparr>)))"
  by (simp add: ss_RemoveSessionByPid_def ss_erase_loop_spec ss_GetSessionsByPid_def Let_def)

lemma ss_ok_RemoveSessionById: "ss_ok st \<Longrightarrow> ss_RemoveSessionById h sid st = (r, st') \<Longrightarrow> ss_ok st'"
  by (auto simp: ss_RemoveSessionById_eq Let_def intro: ss_ok_filtered)

lemma ss_ok_RemoveSessionByPid: "ss_ok st \<Longrightarrow> ss_RemoveSessionByPid pid st = (r, st') \<Longrightarrow> ss_ok st'"
  by (auto simp: ss_RemoveSessionByPid_eq Let_def intro: ss_ok_filtered)

text \<open>The sessions that stay after a removal by id are those with another id.\<close>

lemma ss_RemoveSessionById_stack:
  assumes "ss_ok st" and "ss_RemoveSessionById h sid st = (r, st')"
  shows "ssStack st' = filter (\<lambda>s. siSessionId (h s) \<noteq> sid) (ssStack st)"
    and "r = None \<longleftrightarrow> (\<forall>s \<in> set (ssStack st). siSessionId (h s) \<noteq> sid)"
    and "r = Some s \<Longrightarrow> s \<in> set (ssStack st) \<and> siSessionId (h s) = sid"
    and "ssSessions st' = filter (\<lambda>e. siSessionId (h (snd e)) \<noteq> sid) (ssSessions st)"
proof -
  have stack: "set (ssStack st) = snd ` set (ssSessions st)" using assms(1) by (simp add: ss_ok_def)
  have "s \<in> snd ` {e \<in> set (ssSessions st). siSessionId (h (snd e)) = sid} \<longleftrightarrow> siSessionId (h s) = sid"
    if "s \<in> set (ssStack st)" for s using that stack by force
  then show "ssStack st' = filter (\<lambda>s. siSessionId (h s) \<noteq> sid) (ssStack st)"
    using assms(2) by (auto simp: ss_RemoveSessionById_eq Let_def simp del: image_iff cong: filter_cong)
  show "r = None \<longleftrightarrow> (\<forall>s \<in> set (ssStack st). siSessionId (h s) \<noteq> sid)"
    using assms(2) stack
    by (auto simp: ss_RemoveSessionById_eq Let_def filter_empty_conv split: if_split_asm)
  show "ssSessions st' = filter (\<lambda>e. siSessionId (h (snd e)) \<noteq> sid) (ssSessions st)"
    using assms(2) by (auto simp: ss_RemoveSessionById_eq Let_def)
  assume "r = Some s"
  then obtain rs where rs: "rs = map snd (filter (\<lambda>e. siSessionId (h (snd e)) = sid) (ssSessions st))"
      "rs \<noteq> []" "s = last rs"
    using assms(2) by (auto simp: ss_RemoveSessionById_eq Let_def split: if_splits)
  then have "s \<in> set rs" using last_in_set by blast
  with rs(1) stack show "s \<in> set (ssStack st) \<and> siSessionId (h s) = sid" by auto
qed

lemma ss_ok_UpdateSessionSort:
  assumes "ss_ok st" and "item \<notin> set (ssStack st) \<or> ss_GetSession (siPid (h item)) (siAbility (h item)) st = Some item"
  shows "ss_ok (ss_UpdateSessionSort h item st)"
proof (cases "map_of (ssSessions st) (siPid (h item), siAbility (h item))")
  case None
  with assms(1) show ?thesis by (simp add: ss_UpdateSessionSort_def Let_def)
next
  case (Some old)
  let ?k = "(siPid (h item), siAbility (h item))"
  let ?m = "cmap_erase ?k (ssSessions st)"
  have ok: "cmap_ok (ssSessions st)" "distinct (map snd (ssSessions st))" "distinct (ssStack st)"
      "set (ssStack st) = snd ` set (ssSessions st)" "length (ssSessions st) \<le> SESSION_NUM_MAX"
    using assms(1) by (simp_all add: ss_ok_def)
  note ers = erase_images [OF cmap_ok_distinct [OF ok(1)] ok(2) Some]
  have none: "map_of ?m ?k = None" by (simp add: map_of_cmap_erase)
  have fresh: "item \<notin> snd ` set ?m"
    using assms(2) Some ok(4) ers(1) by (auto simp: ss_GetSession_def)
  have "length ?m < length (ssSessions st)"
    using map_of_SomeD [OF Some] unfolding cmap_erase_def by (intro length_filter_less) auto
  with ok distinct_snd_put [OF none fresh ers(2)] length_cmap_put_new [OF none] ers none fresh Some
  show ?thesis
    by (auto simp: ss_UpdateSessionSort_def Let_def ss_ok_def cmap_insert_def cmap_ok_put cmap_ok_erase)
qed

section \<open>Reachable stacks\<close>

text \<open>
  What a client does with a stack: it adds sessions that are not yet there under free keys,
  removes them, and moves a session to the front.
\<close>

inductive ss_step :: "(sref \<Rightarrow> session) \<Rightarrow> session_stack \<Rightarrow> session_stack \<Rightarrow> bool"
  for h :: "sref \<Rightarrow> session" where
  step_add: "ss_GetSession p a st = None \<Longrightarrow> s \<notin> set (ss_GetAllSessions st) \<Longrightarrow>
    ss_AddSession p a s st = (r, st') \<Longrightarrow> ss_step h st st'"
| step_remove: "ss_RemoveSession p a st = (r, st') \<Longrightarrow> ss_step h st st'"
| step_remove_id: "ss_RemoveSessionById h sid st = (r, st') \<Longrightarrow> ss_step h st st'"
| step_remove_pid: "ss_RemoveSessionByPid pid st = (rs, st') \<Longrightarrow> ss_step h st st'"
| step_sort: "ss_GetSession (siPid (h s)) (siAbility (h s)) st = Some s \<Longrightarrow>
    ss_step h st (ss_UpdateSessionSort h s st)"
| step_task: "ss_step h st (ss_reclaim_task_runs st)"

inductive ss_reachable :: "(sref \<Rightarrow> session) \<Rightarrow> session_stack \<Rightarrow> bool" for h :: "sref \<Rightarrow> session" where
  ss_init: "ss_reachable h new_session_stack"
| ss_steps: "ss_reachable h st \<Longrightarrow> ss_step h st st' \<Longrightarrow> ss_reachable h st'"

inductive_cases ss_stepE: "ss_step h st st'"

definition ss_task_idle :: "session_stack \<Rightarrow> bool" where
  "ss_task_idle st \<longleftrightarrow> (ssReclaimTask st \<longrightarrow> ss_CheckSessionStateIdle st)"

lemma ss_task_idle_Post: "ss_task_idle (ss_PostReclaimMemoryTask st)"
  by (simp add: ss_task_idle_def ss_PostReclaimMemoryTask_def ss_CheckSessionStateIdle_def)

lemma cmap_put_not_Nil [simp]: "cmap_put k v m \<noteq> []"
  by (cases m) (auto split: if_splits)

lemma ss_step_task: "ss_step h st st' \<Longrightarrow> ss_task_idle st \<Longrightarrow> ss_task_idle st'"
proof (induction rule: ss_step.induct)
  case (step_sort s st)
  then show ?case
    by (auto simp: ss_UpdateSessionSort_def ss_task_idle_def ss_CheckSessionStateIdle_def
        Let_def split: option.splits)
qed (auto simp: ss_AddSession_def ss_RemoveSession_def ss_RemoveSessionById_eq
      ss_RemoveSessionByPid_eq ss_reclaim_task_runs_def Let_def ss_task_idle_Post
      split: if_splits option.splits, simp_all add: ss_task_idle_def)

lemma ss_step_ok:
  assumes "ss_step h st st'" and "ss_ok st"
  shows "ss_ok st'"
  using assms
proof (induction rule: ss_step.induct)
  case (step_add p a st s r st')
  then show ?case using stack.add_within_limit by blast
next
  case (step_remove p a st r st')
  then show ?case using stack.remove_inv by blast
next
  case (step_sort s st)
  then show ?case by (simp add: ss_ok_UpdateSessionSort)
next
  case (step_task st)
  then show ?case by (simp add: ss_reclaim_task_runs_def ss_ok_def)
qed (auto intro: ss_ok_RemoveSessionById ss_ok_RemoveSessionByPid)

section \<open>Properties\<close>

text \<open>C25: in every state of a session stack, the map and the list hold the same sessions, each of
  them once, at most fifty; and the task that gives memory back is pending only while there is
  no session. The sessions of a client are added under free keys.\<close>

theorem ss_reachable_ok: "ss_reachable h st \<Longrightarrow> ss_ok st \<and> ss_task_idle st"
proof (induction rule: ss_reachable.induct)
  case ss_init
  have "ss_task_idle new_session_stack" by (simp add: ss_task_idle_def new_session_stack_def)
  then show ?case by simp
next
  case (ss_steps st st')
  then show ?case using ss_step_ok ss_step_task by blast
qed

theorem ss_reachable_ok_witness:
  "ss_ok (snd (ss_AddSession 7 ''a'' 0 new_session_stack))
   \<and> ss_task_idle (snd (ss_AddSession 7 ''a'' 0 new_session_stack))"
proof (rule ss_reachable_ok)
  show "ss_reachable (\<lambda>_. new_session) (snd (ss_AddSession 7 ''a'' 0 new_session_stack))"
    by (rule ss_steps [OF ss_init], rule step_add [OF _ _ prod.collapse [symmetric]])
      (simp_all add: ss_GetSession_def ss_GetAllSessions_def new_session_stack_def)
qed

text \<open>a session that is added and then removed leaves the stack as it was: the same sessions
  under the same keys in the same order; and a full stack of fifty refuses the session with
  ERR_SESSION_EXCEED_MAX and does not change.\<close>

theorem ss_add_remove:
  assumes "ss_ok st" and "ss_GetSession p a st = None" and "s \<notin> set (ss_GetAllSessions st)"
    and "ss_AddSession p a s st = (r, st1)" and "ss_RemoveSession p a st1 = (r2, st2)"
  shows "if length (ss_GetAllSessions st) < SESSION_NUM_MAX
    then r = AVSESSION_SUCCESS \<and> r2 = Some s \<and> ss_GetAllSessions st2 = ss_GetAllSessions st
      \<and> (\<forall>q b. ss_GetSession q b st2 = ss_GetSession q b st)
    else r = ERR_SESSION_EXCEED_MAX \<and> st1 = st \<and> r2 = None \<and> st2 = st"
  using assms stack.add_remove [OF assms(1) _ assms(2-5)] stack.add_full [OF assms(1), of p a s]
    stack.remove_none [OF assms(1,2)]
  by auto

theorem ss_add_remove_witness:
  "let st1 = snd (ss_AddSession 7 ''a'' 0 new_session_stack)
   in fst (ss_RemoveSession 7 ''a'' st1) = Some 0
     \<and> ss_GetAllSessions (snd (ss_RemoveSession 7 ''a'' st1)) = []"
proof -
  have "ss_GetSession 7 ''a'' new_session_stack = None" "0 \<notin> set (ss_GetAllSessions new_session_stack)"
    by (simp_all add: ss_GetSession_def ss_GetAllSessions_def new_session_stack_def)
  from ss_add_remove [OF ss_ok_new this prod.collapse [symmetric] prod.collapse [symmetric]]
  show ?thesis
    by (simp add: ss_GetAllSessions_def new_session_stack_def SESSION_NUM_MAX_def Let_def)
qed

text \<open>RemoveSession(pid) returns exactly the sessions of the process, in the order of their
  ability names, and leaves the sessions of the other processes in place and in order.\<close>

theorem ss_RemoveSessionByPid_spec:
  assumes "ss_ok st" and "ss_RemoveSessionByPid pid st = (rs, st')"
  shows "rs = ss_GetSessionsByPid pid st \<and> ss_ok st' \<and> \<not> ss_PidHasSession pid st'
    \<and> ss_GetAllSessions st' = filter (\<lambda>s. s \<notin> set rs) (ss_GetAllSessions st)
    \<and> (\<forall>p a. ss_GetSession p a st' = (if p = pid then None else ss_GetSession p a st))"
proof -
  have st': "ssSessions st' = filter (\<lambda>e. fst (fst e) \<noteq> pid) (ssSessions st)"
    "ssStack st' = filter (\<lambda>s. s \<notin> snd ` {e \<in> set (ssSessions st). fst (fst e) = pid}) (ssStack st)"
    "rs = ss_GetSessionsByPid pid st"
    using assms(2) by (auto simp: ss_RemoveSessionByPid_eq Let_def)
  have "map_of (filter (\<lambda>e. fst (fst e) \<noteq> pid) m) (p, a) = (if p = pid then None else map_of m (p, a))"
    for p a and m :: "(skey, sref) cmap" by (induction m) auto
  then show ?thesis
    using st' ss_ok_RemoveSessionByPid [OF assms]
    by (auto simp: ss_GetSessionsByPid_def ss_PidHasSession_def ss_GetAllSessions_def
        ss_GetSession_def list_ex_iff)
qed

theorem ss_RemoveSessionByPid_spec_witness:
  "fst (ss_RemoveSessionByPid 7 (snd (ss_AddSession 7 ''a'' 0 new_session_stack))) = [0]"
proof -
  let ?st = "snd (ss_AddSession 7 ''a'' 0 new_session_stack)"
  have "ss_ok ?st"
    by (rule stack.add_within_limit [THEN conjunct1, OF ss_ok_new _ _ prod.collapse [symmetric]])
      (simp_all add: ss_GetSession_def ss_GetAllSessions_def new_session_stack_def)
  from ss_RemoveSessionByPid_spec [OF this prod.collapse [symmetric], of 7]
  show ?thesis
    by (simp add: ss_GetSessionsByPid_def ss_AddSession_def new_session_stack_def SESSION_NUM_MAX_def
        cmap_insert_def)
qed

text \<open>UpdateSessionSort moves a session of the stack to the front and keeps the others in their
  order; no session is lost and the keys do not change.\<close>

theorem ss_UpdateSessionSort_spec:
  assumes "ss_ok st" and "ss_GetSession (siPid (h s)) (siAbility (h s)) st = Some s"
    and "st' = ss_UpdateSessionSort h s st"
  shows "ss_ok st' \<and> ss_GetAllSessions st' = s # list_remove s (ss_GetAllSessions st)
    \<and> set (ss_GetAllSessions st') = set (ss_GetAllSessions st)
    \<and> (\<forall>p a. ss_GetSession p a st' = ss_GetSession p a st)"
proof -
  have "s \<in> set (ss_GetAllSessions st)" using stack.inv_all [OF assms(1)] assms(2) by blast
  moreover have "ss_ok st'"
    using ss_ok_UpdateSessionSort [OF assms(1), of s h] assms(2,3) by simp
  ultimately show ?thesis
    using assms(2) unfolding assms(3)
    by (auto simp: ss_UpdateSessionSort_def ss_GetSession_def ss_GetAllSessions_def Let_def
        cmap_insert_def cmap_simps)
qed

theorem ss_UpdateSessionSort_spec_witness:
  "\<exists>h. ss_GetAllSessions (ss_UpdateSessionSort h 0 (snd (ss_AddSession 7 ''b'' 1
     (snd (ss_AddSession 7 ''a'' 0 new_session_stack))))) = [0, 1]"
proof -
  define h :: "sref \<Rightarrow> session" where
    "h = (\<lambda>n. new_session\<lparr>siPid := 7, siAbility := if n = 0 then ''a'' else ''b''\<rparr>)"
  let ?st = "snd (ss_AddSession 7 ''b'' 1 (snd (ss_AddSession 7 ''a'' 0 new_session_stack)))"
  have "ss_reachable h (snd (ss_AddSession 7 ''a'' 0 new_session_stack))"
    by (rule ss_steps [OF ss_init], rule step_add [OF _ _ prod.collapse [symmetric]])
      (simp_all add: ss_GetSession_def ss_GetAllSessions_def new_session_stack_def)
  then have "ss_ok (snd (ss_AddSession 7 ''a'' 0 new_session_stack))"
    by (induction rule: ss_reachable.induct) (auto intro: ss_step_ok)
  then have "ss_ok ?st"
    by (rule stack.add_within_limit [THEN conjunct1, OF _ _ _ prod.collapse [symmetric]])
      (simp_all add: ss_GetSession_def ss_GetAllSessions_def new_session_stack_def ss_AddSession_def
        SESSION_NUM_MAX_def cmap_insert_def)
  moreover have "ss_GetSession (siPid (h 0)) (siAbility (h 0)) ?st = Some 0"
    by (simp add: h_def ss_GetSession_def new_session_stack_def ss_AddSession_def
        SESSION_NUM_MAX_def cmap_insert_def)
  ultimately have "ss_GetAllSessions (ss_UpdateSessionSort h 0 ?st)
      = 0 # list_remove 0 (ss_GetAllSessions ?st)"
    using ss_UpdateSessionSort_spec [OF _ _ refl] by blast
  also have "\<dots> = [0, 1]"
    by (simp add: ss_GetAllSessions_def new_session_stack_def ss_AddSession_def cmap_insert_def
        SESSION_NUM_MAX_def list_remove_def)
  finally show ?thesis by blast
qed

text \<open>a second session under a key that is in use is listed but not stored: AddSession reports
  success, the key still leads to the first session, and removing the key removes the first
  session and leaves the second in the list with no key that leads to it.\<close>

theorem ss_duplicate_key:
  assumes "ss_ok st" and "length (ss_GetAllSessions st) < SESSION_NUM_MAX"
    and "ss_GetSession p a st = Some old" and "s \<notin> set (ss_GetAllSessions st)"
    and "ss_AddSession p a s st = (r, st1)" and "ss_RemoveSession p a st1 = (r2, st2)"
  shows "r = AVSESSION_SUCCESS \<and> ss_GetSession p a st1 = Some old \<and> r2 = Some old
    \<and> s \<in> set (ss_GetAllSessions st2) \<and> old \<notin> set (ss_GetAllSessions st2)
    \<and> (\<forall>q b. ss_GetSession q b st2 \<noteq> Some s)"
proof -
  have old: "old \<in> set (ss_GetAllSessions st)" and none: "\<And>q b. ss_GetSession q b st \<noteq> Some s"
    using stack.inv_all [OF assms(1)] assms(3,4) by blast+
  have "old \<noteq> s" using old assms(4) by auto
  moreover have st1: "r = AVSESSION_SUCCESS" "ssSessions st1 = ssSessions st" "ssStack st1 = s # ssStack st"
    using assms(2,3,5) ss_lengths [OF assms(1)]
    by (auto simp: ss_AddSession_def ss_GetAllSessions_def ss_GetSession_def cmap_insert_def split: if_splits)
  moreover have "r2 = Some old" "ssSessions st2 = cmap_erase (p, a) (ssSessions st)"
      "ssStack st2 = list_remove old (s # ssStack st)"
    using assms(3,6) st1 by (auto simp: ss_RemoveSession_def ss_GetSession_def)
  ultimately show ?thesis
    using none assms(3) by (auto simp: ss_GetAllSessions_def ss_GetSession_def cmap_simps list_remove_def)
qed

theorem ss_duplicate_key_witness:
  "let st = snd (ss_AddSession 7 ''a'' 0 new_session_stack);
       st2 = snd (ss_RemoveSession 7 ''a'' (snd (ss_AddSession 7 ''a'' 1 st)))
   in 1 \<in> set (ss_GetAllSessions st2) \<and> ss_GetSession 7 ''a'' st2 \<noteq> Some 1"
proof -
  let ?st = "snd (ss_AddSession 7 ''a'' 0 new_session_stack)"
  have "ss_ok ?st"
    by (rule stack.add_within_limit [THEN conjunct1, OF ss_ok_new _ _ prod.collapse [symmetric]])
      (simp_all add: ss_GetSession_def ss_GetAllSessions_def new_session_stack_def)
  moreover have "length (ss_GetAllSessions ?st) < SESSION_NUM_MAX" "ss_GetSession 7 ''a'' ?st = Some 0"
      "1 \<notin> set (ss_GetAllSessions ?st)"
    by (simp_all add: ss_GetSession_def ss_GetAllSessions_def new_session_stack_def ss_AddSession_def
        SESSION_NUM_MAX_def cmap_insert_def)
  ultimately show ?thesis
    using ss_duplicate_key [OF _ _ _ _ prod.collapse [symmetric] prod.collapse [symmetric]]
    unfolding Let_def by blast
qed

end
