(* ===== verification/CppString.thy ===== *)
theory CppString
  imports Prelude "HOL-Library.Sublist"
begin

text \<open>
  What the sources use of \<^verbatim>\<open>std::string\<close> and of the C library's number conversions: searching,
  \<^verbatim>\<open>std::to_string\<close> and \<^verbatim>\<open>strtol\<close>. A position that is not found, \<^verbatim>\<open>npos\<close>, is \<open>None\<close>.
\<close>

section \<open>Searching\<close>

definition occurs_at :: "string \<Rightarrow> string \<Rightarrow> nat \<Rightarrow> bool" where
  "occurs_at pat s i \<longleftrightarrow> take (length pat) (drop i s) = pat"

definition str_find :: "string \<Rightarrow> string \<Rightarrow> nat option" where
  "str_find pat s = List.find (occurs_at pat s) [0..<Suc (length s)]"

definition str_rfind :: "string \<Rightarrow> string \<Rightarrow> nat option" where
  "str_rfind pat s = List.find (occurs_at pat s) (rev [0..<Suc (length s)])"

lemma find_None: "List.find P xs = None \<longleftrightarrow> (\<forall>x \<in> set xs. \<not> P x)"
  by (induction xs) auto

lemma str_find_None: "str_find pat s = None \<longleftrightarrow> (\<forall>i \<le> length s. \<not> occurs_at pat s i)"
  unfolding str_find_def find_None by auto

lemma str_find_char: "str_find [c] s = None \<longleftrightarrow> c \<notin> set s"
proof -
  have "occurs_at [c] s i \<longleftrightarrow> i < length s \<and> s ! i = c" for i
  proof (cases "i < length s")
    case True
    then show ?thesis by (simp add: occurs_at_def take_Suc_conv_app_nth hd_drop_conv_nth take_Suc)
  qed (simp add: occurs_at_def)
  then show ?thesis unfolding str_find_None by (metis in_set_conv_nth less_imp_le)
qed

text \<open>A pattern at the end is its own last occurrence.\<close>

lemma find_append: "List.find P (xs @ ys) = (case List.find P xs of None \<Rightarrow> List.find P ys | Some x \<Rightarrow> Some x)"
  by (induction xs) auto

lemma str_rfind_end:
  assumes "pat \<noteq> []"
  shows "str_rfind pat (s @ pat) = Some (length s)"
proof -
  have "rev [0..<Suc (length (s @ pat))]
      = rev [Suc (length s)..<Suc (length (s @ pat))] @ length s # rev [0..<length s]"
    using upt_add_eq_append [of 0 "Suc (length s)" "length pat"] by simp
  moreover have "\<not> occurs_at pat (s @ pat) i" if "length s < i" for i
  proof
    assume "occurs_at pat (s @ pat) i"
    then have "length pat \<le> length (s @ pat) - i"
      by (metis length_drop length_take min.cobounded1 occurs_at_def)
    with that assms show False by (cases pat) simp_all
  qed
  then have "List.find (occurs_at pat (s @ pat)) (rev [Suc (length s)..<Suc (length (s @ pat))]) = None"
    unfolding find_None set_rev set_upt by auto
  moreover have "occurs_at pat (s @ pat) (length s)" by (simp add: occurs_at_def)
  ultimately show ?thesis by (simp add: str_rfind_def find_append)
qed

lemma str_find_end: "str_find pat (s @ pat) \<noteq> None"
  unfolding str_find_None by (auto simp: occurs_at_def intro!: exI [of _ "length s"])

text \<open>The part after the last slash.\<close>

definition find_last_of :: "char \<Rightarrow> string \<Rightarrow> nat option" where
  "find_last_of c s = List.find (\<lambda>i. s ! i = c) (rev [0..<length s])"

lemma find_last_of_split:
  assumes "c \<notin> set b"
  shows "find_last_of c (a @ c # b) = Some (length a)"
proof -
  have "rev [0..<length (a @ c # b)]
      = rev [Suc (length a)..<Suc (length a + length b)] @ length a # rev [0..<length a]"
    using upt_add_eq_append [of 0 "Suc (length a)" "length b"] by simp
  moreover have "List.find (\<lambda>i. (a @ c # b) ! i = c) (rev [Suc (length a)..<Suc (length a + length b)]) = None"
  proof -
    have "(a @ c # b) ! i \<noteq> c" if "length a < i" "i < Suc (length a + length b)" for i
    proof -
      have "(a @ c # b) ! i = b ! (i - Suc (length a))" "i - Suc (length a) < length b"
        using that by (auto simp: nth_append nth_Cons')
      with assms show ?thesis by (metis nth_mem)
    qed
    then show ?thesis unfolding find_None set_rev set_upt by auto
  qed
  ultimately show ?thesis by (simp add: find_last_of_def find_append)
qed

lemma find_last_of_none: "c \<notin> set s \<Longrightarrow> find_last_of c s = None"
  unfolding find_last_of_def find_None by (auto simp: in_set_conv_nth)

section \<open>Numbers\<close>

definition digit_char :: "nat \<Rightarrow> char" where
  "digit_char d = char_of (48 + d)"

definition char_digit :: "char \<Rightarrow> nat option" where
  "char_digit c = (let n = of_char c in if 48 \<le> n \<and> n < 58 then Some (n - 48) else None)"

fun nat_to_string :: "nat \<Rightarrow> string" where
  "nat_to_string n = (if n < 10 then [digit_char n]
     else nat_to_string (n div 10) @ [digit_char (n mod 10)])"

declare nat_to_string.simps [simp del]

definition int_to_string :: "int \<Rightarrow> string" where
  "int_to_string i = (if i < 0 then CHR ''-'' # nat_to_string (nat (- i)) else nat_to_string (nat i))"

definition is_space :: "char \<Rightarrow> bool" where
  "is_space c \<longleftrightarrow> c \<in> {CHR '' '', CHR 0x09, CHR 0x0A, CHR 0x0B, CHR 0x0C, CHR 0x0D}"

text \<open>The digits at the front of a string, their value, and the rest.\<close>

fun scan_digits :: "nat \<Rightarrow> string \<Rightarrow> nat \<times> string" where
  "scan_digits acc [] = (acc, [])"
| "scan_digits acc (c # s) = (case char_digit c of
     None \<Rightarrow> (acc, c # s)
   | Some d \<Rightarrow> scan_digits (10 * acc + d) s)"

definition scan_sign :: "string \<Rightarrow> bool \<times> string" where
  "scan_sign s = (case s of
     [] \<Rightarrow> (False, s)
   | c # r \<Rightarrow> if c = CHR ''-'' then (True, r) else if c = CHR ''+'' then (False, r) else (False, s))"

text \<open>
  \<^verbatim>\<open>strtol(s, &end, 10)\<close> with a 64-bit \<^verbatim>\<open>long\<close>: the value, whether \<^verbatim>\<open>errno\<close> is set to
  \<^verbatim>\<open>ERANGE\<close>, and the text from \<^verbatim>\<open>end\<close> on; \<^verbatim>\<open>end\<close> is the start of the string if no digit follows.
\<close>

definition strtol :: "string \<Rightarrow> int \<times> bool \<times> string" where
  "strtol s =
     (let t = dropWhile is_space s; (neg, u) = scan_sign t; (n, rest) = scan_digits 0 u;
          v = if neg then - int n else int n
      in if rest = u then (0, False, s)
         else if v < - (2 ^ 63) then (- (2 ^ 63), True, rest)
         else if 2 ^ 63 \<le> v then (2 ^ 63 - 1, True, rest)
         else (v, False, rest))"

lemma of_char_digit_char: "d < 10 \<Longrightarrow> of_char (digit_char d) = 48 + d"
  by (simp add: digit_char_def)

lemma char_digit_digit_char [simp]: "d < 10 \<Longrightarrow> char_digit (digit_char d) = Some d"
  by (simp add: char_digit_def of_char_digit_char)

lemma digit_char_props: "d < 10 \<Longrightarrow> digit_char d \<noteq> CHR ''-'' \<and> digit_char d \<noteq> CHR ''+''
  \<and> \<not> is_space (digit_char d) \<and> digit_char d \<noteq> CHR 0x00 \<and> digit_char d \<noteq> CHR ''/''"
proof -
  assume d: "d < 10"
  have "digit_char d \<noteq> c" if "of_char c < (48 :: nat)" for c
    using that of_char_digit_char [OF d] by auto
  then show ?thesis by (simp add: is_space_def)
qed

fun digits_weight :: "nat \<Rightarrow> nat" where
  "digits_weight n = (if n < 10 then 10 else 10 * digits_weight (n div 10))"

declare digits_weight.simps [simp del]

lemma scan_digits_nat_to_string:
  "scan_digits acc (nat_to_string n @ s) = scan_digits (digits_weight n * acc + n) s"
proof (induction n arbitrary: acc s rule: nat_to_string.induct)
  case (1 n)
  show ?case
  proof (cases "n < 10")
    case True
    then show ?thesis by (simp add: nat_to_string.simps [of n] digits_weight.simps [of n])
  next
    case False
    have "10 * (digits_weight (n div 10) * acc + n div 10) + n mod 10 = digits_weight n * acc + n"
      using False by (simp add: digits_weight.simps [of n])
    then have "digits_weight n * acc + n = 10 * (digits_weight (n div 10) * acc + n div 10) + n mod 10" ..
    with False show ?thesis
      by (simp only: nat_to_string.simps [of n] if_False append_assoc 1 [OF False]) simp
  qed
qed

lemma nat_to_string_chars: "c \<in> set (nat_to_string n) \<Longrightarrow> \<exists>d < 10. c = digit_char d"
proof (induction n rule: nat_to_string.induct)
  case (1 n)
  then show ?case
    by (cases "n < 10") (auto simp: nat_to_string.simps [of n] intro: exI [of _ "n mod 10"])
qed

lemma nat_to_string_not_Nil [simp]: "nat_to_string n \<noteq> []"
  by (simp add: nat_to_string.simps [of n])

lemma nat_to_string_hd: "\<exists>d < 10. \<exists>r. nat_to_string n = digit_char d # r"
proof (cases "nat_to_string n")
  case (Cons c r)
  then have "\<exists>d < 10. c = digit_char d" by (intro nat_to_string_chars [of c n]) simp
  with Cons show ?thesis by blast
qed simp

lemma scan_digits_to_string: "scan_digits 0 (nat_to_string n) = (n, [])"
  using scan_digits_nat_to_string [of 0 n "[]"] by simp

text \<open>\<^verbatim>\<open>strtol\<close> reads back what \<^verbatim>\<open>to_string\<close> wrote, and reports a number out of range.\<close>

lemma strtol_int_to_string:
  "strtol (int_to_string i) =
     (if i < - (2 ^ 63) then (- (2 ^ 63), True, [])
      else if 2 ^ 63 \<le> i then (2 ^ 63 - 1, True, []) else (i, False, []))"
proof (cases "i < 0")
  case True
  then show ?thesis using nat_to_string_not_Nil [of "nat (- i)", symmetric]
    by (simp add: strtol_def int_to_string_def is_space_def scan_sign_def scan_digits_to_string Let_def)
next
  case False
  obtain d r where d: "d < 10" "nat_to_string (nat i) = digit_char d # r"
    using nat_to_string_hd by blast
  have "scan_digits 0 (digit_char d # r) = (nat i, [])"
    using scan_digits_to_string [of "nat i"] d(2) by simp
  with False d digit_char_props [OF d(1)] show ?thesis
    by (simp add: strtol_def int_to_string_def scan_sign_def Let_def del: scan_digits.simps)
qed

lemma int_to_string_not_Nil [simp]: "int_to_string i \<noteq> []"
  by (simp add: int_to_string_def)

lemma int_to_string_inj: "int_to_string i = int_to_string j \<longleftrightarrow> i = j"
proof
  have val: "scan_digits 0 (snd (scan_sign (int_to_string i))) = (nat \<bar>i\<bar>, [])
      \<and> fst (scan_sign (int_to_string i)) = (i < 0)" for i
  proof (cases "i < 0")
    case True
    then show ?thesis by (simp add: int_to_string_def scan_sign_def scan_digits_to_string)
  next
    case False
    obtain d r where d: "d < 10" "nat_to_string (nat i) = digit_char d # r"
      using nat_to_string_hd by blast
    with digit_char_props [OF d(1)] scan_digits_to_string [of "nat i"] False show ?thesis
      by (simp add: int_to_string_def scan_sign_def)
  qed
  assume "int_to_string i = int_to_string j"
  then have "nat \<bar>i\<bar> = nat \<bar>j\<bar> \<and> (i < 0) = (j < 0)" using val [of i] val [of j] by simp
  then show "i = j" by linarith
qed simp

lemma int_to_string_chars: "c \<in> set (int_to_string i) \<Longrightarrow> c \<noteq> CHR ''/'' \<and> c \<noteq> CHR 0x00"
proof -
  assume "c \<in> set (int_to_string i)"
  then have "c = CHR ''-'' \<or> (\<exists>n. c \<in> set (nat_to_string n))"
    by (auto simp: int_to_string_def split: if_splits)
  moreover have "c \<noteq> CHR ''/'' \<and> c \<noteq> CHR 0x00" if "c \<in> set (nat_to_string n)" for n
  proof -
    obtain d where "d < 10" "c = digit_char d" using nat_to_string_chars [OF \<open>c \<in> set (nat_to_string n)\<close>] by blast
    then show ?thesis using digit_char_props [of d] by simp
  qed
  ultimately show ?thesis by auto
qed

end
