(* ===== verification/Utils.thy ===== *)
theory Utils
  imports CppString "HOL-Library.Signed_Division"
begin

text \<open>
  \<^verbatim>\<open>AVSessionUtils\<close> (\<^verbatim>\<open>utils/include/avsession_utils.h\<close>): the names of the cache files, the
  files themselves, and the small string functions that the service relies on to log without
  names and to keep file names inside their directory.

  The file system is a function from a path to the bytes of a file. What the operating system
  decides is a parameter: \<open>reachable\<close>, whether \<^verbatim>\<open>realpath\<close> resolves a directory,
  \<open>creatable\<close>, whether \<^verbatim>\<open>ForceCreateDirectory\<close> succeeds, \<open>openable\<close>, whether a file that is
  there (or is created) can be opened, \<open>removable\<close>, whether \<^verbatim>\<open>OHOS::RemoveFile\<close> succeeds on a
  path (where it fails, the code only logs it), and the listing that \<^verbatim>\<open>GetDirFiles\<close> gives.
\<close>

section \<open>Names\<close>

definition DATA_PATH_NAME :: string where "DATA_PATH_NAME = ''/data/service/el2/''"
definition CACHE_PATH_NAME :: string where "CACHE_PATH_NAME = ''/av_session/cache/''"
definition FIXED_PATH_NAME :: string where "FIXED_PATH_NAME = ''/av_session/''"
definition DEVICE_PATH_NAME :: string where "DEVICE_PATH_NAME = ''/av_session/deviceInfo/''"
definition PUBLIC_PATH_NAME :: string where "PUBLIC_PATH_NAME = ''public''"
definition FILE_SUFFIX :: string where "FILE_SUFFIX = ''.image.dat''"
definition PAIR_FILE_SUFFIX :: string where "PAIR_FILE_SUFFIX = ''.dat''"
definition CAST_PREFIX :: string where "CAST_PREFIX = ''cast_''"
definition DEVICE_ID_MIN_LEN :: nat where "DEVICE_ID_MIN_LEN = 10"
definition MAX_FILE_SIZE :: nat where "MAX_FILE_SIZE = 4 * 1024 * 1024"

definition GetPublicCachePathName :: string where
  "GetPublicCachePathName = DATA_PATH_NAME @ PUBLIC_PATH_NAME @ CACHE_PATH_NAME"

definition GetCachePathName :: "int \<Rightarrow> string" where
  "GetCachePathName userId = DATA_PATH_NAME @ int_to_string userId @ CACHE_PATH_NAME"

definition GetCachePathNameForCast :: "int \<Rightarrow> string" where
  "GetCachePathNameForCast userId = DATA_PATH_NAME @ int_to_string userId @ CACHE_PATH_NAME @ CAST_PREFIX"

definition GetPublicFixedPathName :: string where
  "GetPublicFixedPathName = DATA_PATH_NAME @ PUBLIC_PATH_NAME @ FIXED_PATH_NAME"

definition GetFixedPathName :: "int \<Rightarrow> string" where
  "GetFixedPathName userId = DATA_PATH_NAME @ int_to_string userId @ FIXED_PATH_NAME"

definition GetFixedPathNameForDevice :: "int \<Rightarrow> string" where
  "GetFixedPathNameForDevice userId = DATA_PATH_NAME @ int_to_string userId @ DEVICE_PATH_NAME"

section \<open>Files\<close>

type_synonym files = "string \<Rightarrow> byte list option"

definition DeleteFile :: "(string \<Rightarrow> bool) \<Rightarrow> string \<Rightarrow> files \<Rightarrow> files" where
  "DeleteFile removable filePath fs = (if removable filePath then fs(filePath := None) else fs)"

definition DeleteCacheFiles ::
  "(string \<Rightarrow> bool) \<Rightarrow> (string \<Rightarrow> string list) \<Rightarrow> string \<Rightarrow> files \<Rightarrow> files" where
  "DeleteCacheFiles removable getDirFiles path fs =
     foldl (\<lambda>fs file. if str_find FILE_SUFFIX file \<noteq> None then DeleteFile removable file fs else fs) fs
       (getDirFiles path)"

text \<open>The session that an image file belongs to, by the file's name.\<close>

definition file_base_name :: "string \<Rightarrow> string" where
  "file_base_name file = (case find_last_of CHR ''/'' file of
     None \<Rightarrow> file | Some slashPos \<Rightarrow> drop (slashPos + 1) file)"

definition file_stem :: "string \<Rightarrow> string" where
  "file_stem baseName = (case str_rfind FILE_SUFFIX baseName of
     None \<Rightarrow> baseName
   | Some suffixPos \<Rightarrow> if 0 < suffixPos then take suffixPos baseName else baseName)"

definition stem_session_id :: "string \<Rightarrow> string" where
  "stem_session_id stem =
     (if length CAST_PREFIX < length stem \<and> take (length CAST_PREFIX) stem = CAST_PREFIX
      then drop (length CAST_PREFIX) stem else stem)"

definition keeps_file :: "string list \<Rightarrow> string \<Rightarrow> bool" where
  "keeps_file retainedSessionIds file \<longleftrightarrow> str_find FILE_SUFFIX file = None
     \<or> stem_session_id (file_stem (file_base_name file)) \<in> set retainedSessionIds"

definition DeleteCacheFilesExcluding ::
  "(string \<Rightarrow> bool) \<Rightarrow> (string \<Rightarrow> string list) \<Rightarrow> string \<Rightarrow> string list \<Rightarrow> files \<Rightarrow> files" where
  "DeleteCacheFilesExcluding removable getDirFiles path retainedSessionIds fs =
     foldl (\<lambda>fs file. if keeps_file retainedSessionIds file then fs else DeleteFile removable file fs) fs
       (getDirFiles path)"

text \<open>An object of the machine in memory order, least significant byte first.\<close>

definition le_bytes :: "nat \<Rightarrow> 'a::len word \<Rightarrow> byte list" where
  "le_bytes n w = map (\<lambda>i. ucast (drop_bit (8 * i) w)) [0..<n]"

fun of_le_bytes :: "byte list \<Rightarrow> 'a::len word" where
  "of_le_bytes [] = 0"
| "of_le_bytes (b # bs) = ucast b OR push_bit 8 (of_le_bytes bs)"

text \<open>
  \<^verbatim>\<open>ifstream::read(p, n)\<close>: on a stream that has not failed, the bytes that are left, at most
  \<open>n\<close>, overwrite the front of what \<open>p\<close> pointed to; fewer than \<open>n\<close> fail the stream. A stream
  that has failed reads nothing.
\<close>

type_synonym ifstream = "byte list \<times> bool"

definition stream_read :: "byte list \<Rightarrow> ifstream \<Rightarrow> byte list \<times> ifstream" where
  "stream_read old st = (case st of (bs, failed) \<Rightarrow>
     if failed then (old, st)
     else (let got = take (length old) bs
           in (got @ drop (length got) old, (drop (length old) bs, length bs < length old))))"

definition file_size_ok :: "64 word \<Rightarrow> bool" where
  "file_size_ok n \<longleftrightarrow> \<not> (of_nat MAX_FILE_SIZE < n \<or> n = 0)"

definition WriteImageToFile ::
  "(string \<Rightarrow> bool) \<Rightarrow> (string \<Rightarrow> bool) \<Rightarrow> (string \<Rightarrow> bool) \<Rightarrow> byte list option
    \<Rightarrow> string \<Rightarrow> string \<Rightarrow> files \<Rightarrow> files" where
  "WriteImageToFile reachable creatable openable innerPixelMap fileDir fileName fs =
     (case innerPixelMap of
        None \<Rightarrow> fs
      | Some tempBuffer \<Rightarrow>
          if \<not> reachable fileDir \<and> \<not> creatable fileDir then fs
          else if MAX_FILE_SIZE < length tempBuffer \<or> length tempBuffer = 0 then fs
          else if \<not> openable (fileDir @ fileName) then fs
          else fs(fileDir @ fileName :=
                 Some (le_bytes 8 (of_nat (length tempBuffer) :: 64 word) @ tempBuffer)))"

text \<open>
  \<open>sizeMemory\<close> is what the stack holds where \<^verbatim>\<open>size_t imgBufferSize;\<close> is declared: the source
  does not initialise it. A short file leaves part of it in place.
\<close>

definition ReadImageFromFile ::
  "(string \<Rightarrow> bool) \<Rightarrow> (string \<Rightarrow> bool) \<Rightarrow> byte list \<Rightarrow> byte list option
    \<Rightarrow> string \<Rightarrow> string \<Rightarrow> files \<Rightarrow> byte list option" where
  "ReadImageFromFile reachable openable sizeMemory innerPixelMap fileDir fileName fs =
     (if innerPixelMap = None \<or> \<not> reachable fileDir then innerPixelMap
      else (case fs (fileDir @ fileName) of
        None \<Rightarrow> innerPixelMap
      | Some content \<Rightarrow>
          if \<not> openable (fileDir @ fileName) then innerPixelMap
          else (let (hd, st) = stream_read sizeMemory (content, False);
                    imgBufferSize = of_le_bytes hd :: 64 word
                in if \<not> file_size_ok imgBufferSize then innerPixelMap
                   else Some (fst (stream_read (replicate (unat imgBufferSize) 0) st)))))"

definition WritePairToFile ::
  "(string \<Rightarrow> bool) \<Rightarrow> (string \<Rightarrow> bool) \<Rightarrow> (string \<Rightarrow> bool) \<Rightarrow> byte list \<times> i32
    \<Rightarrow> string \<Rightarrow> string \<Rightarrow> files \<Rightarrow> files" where
  "WritePairToFile reachable creatable openable castPair fileDir fileName fs =
     (if \<not> reachable fileDir \<and> \<not> creatable fileDir then fs
      else if MAX_FILE_SIZE < length (fst castPair) \<or> length (fst castPair) = 0 then fs
      else if \<not> openable (fileDir @ fileName) then fs
      else fs(fileDir @ fileName :=
             Some (le_bytes 8 (of_nat (length (fst castPair)) :: 64 word)
               @ fst castPair @ le_bytes 4 (snd castPair))))"

definition ReadPairFromFile ::
  "(string \<Rightarrow> bool) \<Rightarrow> (string \<Rightarrow> bool) \<Rightarrow> byte list \<Rightarrow> byte list \<times> i32
    \<Rightarrow> string \<Rightarrow> string \<Rightarrow> files \<Rightarrow> bool \<times> byte list \<times> i32" where
  "ReadPairFromFile reachable openable sizeMemory castPair fileDir fileName fs =
     (if \<not> reachable fileDir then (False, castPair)
      else (case fs (fileDir @ fileName) of
        None \<Rightarrow> (False, castPair)
      | Some content \<Rightarrow>
          if \<not> openable (fileDir @ fileName) then (False, castPair)
          else (let (hd, st) = stream_read sizeMemory (content, False);
                    strLen = of_le_bytes hd :: 64 word
                in if \<not> file_size_ok strLen then (False, castPair)
                   else (let (str, st2) = stream_read (replicate (unat strLen) 0) st;
                             (mode, st3) = stream_read (le_bytes 4 (snd castPair)) st2
                         in (True, str, of_le_bytes mode)))))"

section \<open>Names without their contents\<close>

definition cpp_word_char :: "char \<Rightarrow> bool" where
  "cpp_word_char c \<longleftrightarrow> (let n = of_char c :: nat
     in (48 \<le> n \<and> n \<le> 57) \<or> (65 \<le> n \<and> n \<le> 90) \<or> (97 \<le> n \<and> n \<le> 122) \<or> n = 95)"

definition GetAnonySessionId :: "string \<Rightarrow> string" where
  "GetAnonySessionId sessionId =
     (if length sessionId < 3 \<or> 100 < length sessionId then ''ERROR_LENGTH''
      else if \<not> list_all cpp_word_char sessionId then ''ERROR_CONTENT''
      else take 3 sessionId @ ''******'' @ drop (length sessionId - 3) sessionId)"

definition GetAnonymousDeviceId :: "string \<Rightarrow> string" where
  "GetAnonymousDeviceId deviceId =
     (if deviceId = [] \<or> length deviceId < DEVICE_ID_MIN_LEN then ''unknown''
      else (let half = DEVICE_ID_MIN_LEN div 2
            in take half deviceId @ ''**'' @ drop (length deviceId - half) deviceId))"

text \<open>The bytes that start a character of UTF-8: all but the continuation bytes.\<close>

definition char_byte :: "char \<Rightarrow> byte" where
  "char_byte c = of_char c"

definition starts_char :: "char \<Rightarrow> bool" where
  "starts_char c \<longleftrightarrow> char_byte c AND 0xC0 \<noteq> 0x80"

definition char_positions :: "string \<Rightarrow> nat list" where
  "char_positions s = filter (\<lambda>i. starts_char (s ! i)) [0..<length s]"

text \<open>
  \<^verbatim>\<open>ratio\<close> is a \<^verbatim>\<open>double\<close> whose default, 0.3, is the only value used; the product and its
  ceiling are exact here, which gives the same number for the at most seven characters at hand.
\<close>

definition anony_keep :: "rat \<Rightarrow> int \<Rightarrow> int \<times> int" where
  "anony_keep ratio char_count =
     (if char_count \<le> 7
      then (let mask_len = \<lceil>of_int char_count * ratio\<rceil>;
                front = (char_count - mask_len) sdiv 2;
                back = char_count - mask_len - front
            in (max front 1, max back 1))
      else (2, 2))"

definition GetAnonyTitle :: "rat \<Rightarrow> string \<Rightarrow> string" where
  "GetAnonyTitle ratio title =
     (if title = [] then ''''
      else let cp = char_positions title; char_count = length cp
      in if char_count = 0 then ''***''
         else if char_count \<le> 3 then
           (let first_char = take 3 (drop (cp ! 0) title); first_byte = char_byte (title ! 0)
            in if char_count = 3 \<and> 0xE0 \<le> first_byte \<and> first_byte \<le> 0xEF then first_char @ ''***''
               else if char_count = 2 then first_char @ ''***''
               else ''*'' @ title @ ''*'')
         else
           (let (keep_front, keep_back) = anony_keep ratio (int char_count)
            in if int char_count \<le> keep_front + keep_back then [title ! 0] @ ''***''
               else take (cp ! nat keep_front) title @ ''***''
                 @ drop (cp ! nat (int char_count - keep_back)) title))"

definition device_keep :: "nat \<Rightarrow> nat \<times> nat" where
  "device_keep char_count =
     (if 16 \<le> char_count then (4, 3) else if 9 \<le> char_count then (3, 2)
      else if 6 \<le> char_count then (2, 2) else (2, 1))"

definition GetAnonyDeviceName :: "string \<Rightarrow> string" where
  "GetAnonyDeviceName deviceName =
     (if deviceName = [] then ''''
      else let cp = char_positions deviceName; char_count = length cp
      in if char_count = 0 then ''****''
         else (let first_char_len = (if 2 \<le> char_count then cp ! 1 - cp ! 0
                                     else length deviceName - cp ! 0);
                   first_char = take first_char_len (drop (cp ! 0) deviceName)
               in if char_count < 3 then first_char @ ''****''
                  else (let (keep_front, keep_back) = device_keep char_count
                        in take (cp ! keep_front) deviceName @ ''****''
                             @ drop (cp ! (char_count - keep_back)) deviceName)))"

definition GetAnonyNetworkId :: "string \<Rightarrow> string" where
  "GetAnonyNetworkId networkId =
     (if networkId = [] then ''''
      else if length networkId < 4 + 4 then replicate (length networkId) CHR ''*''
      else take 4 networkId @ replicate (length networkId - 4 - 4) CHR ''*''
        @ drop (length networkId - 4) networkId)"

section \<open>Checks on names and numbers\<close>

definition IsValidFileName :: "string \<Rightarrow> bool" where
  "IsValidFileName fileName \<longleftrightarrow> \<not> (fileName = [] \<or> str_find ''/'' fileName \<noteq> None
     \<or> str_find [CHR 0x5C] fileName \<noteq> None \<or> str_find ''..'' fileName \<noteq> None)"

text \<open>\<^verbatim>\<open>c_str\<close> ends at the first NUL. \<open>None\<close> is a false result: the variable keeps its value.\<close>

definition StringToInt32 :: "string \<Rightarrow> int option" where
  "StringToInt32 str =
     (if str = [] then None
      else let cs = takeWhile (\<lambda>c. c \<noteq> CHR 0x00) str; (value, erange, rest) = strtol cs
      in if rest = cs \<or> rest \<noteq> [] then None
         else if erange \<or> value < - (2 ^ 31) \<or> 2 ^ 31 - 1 < value then None
         else Some value)"

end
