(* ===== verification/UsersManager.thy ===== *)
theory UsersManager
  imports StackProps Utils
begin

text \<open>
  \<^verbatim>\<open>AVSessionUsersManager\<close> (\<^verbatim>\<open>avsession_users_manager.cpp\<close>): a session container for all users and
  one for each, the ordered lists of sessions in front and of sessions that take key events, the
  listeners, and the top session, by user, with the cache files and the operating system's answer to
  the removal of each (\<open>umRemovable\<close>). Containers and lists are created when they are first
  asked for. The manager's lock is left out. The variants for audio zones are compiled with
  \<^verbatim>\<open>CAR_FEATURE_ENABLE\<close> only and are not here.
\<close>

section \<open>State\<close>

type_synonym lref = nat

record users_manager =
  umStacks :: "(int, session_stack) cmap"
  umAll :: session_stack
  umFront :: "(int, sref list) cmap"
  umKeyEvent :: "(int, sref list) cmap"
  umListeners :: "(int, (int, lref) cmap) cmap"
  umAllListeners :: "(int, lref) cmap"
  umTop :: "(int, sref option) cmap"
  umCurUser :: int
  umAlive :: "int list"
  umFiles :: files
  umRemovable :: "string \<Rightarrow> bool"

definition new_users_manager :: "(string \<Rightarrow> bool) \<Rightarrow> users_manager" where
  "new_users_manager removable = \<lparr>umStacks = [], umAll = new_session_stack, umFront = [], umKeyEvent = [],
     umListeners = [], umAllListeners = [], umTop = [], umCurUser = 100, umAlive = [],
     umFiles = (\<lambda>_. None), umRemovable = removable\<rparr>"

text \<open>The end of \<^verbatim>\<open>Init\<close>, with the current user that the account service reports.\<close>

definition um_Init :: "int \<Rightarrow> users_manager \<Rightarrow> users_manager" where
  "um_Init currentAccount um = um\<lparr>umCurUser := currentAccount, umAlive := umAlive um @ [currentAccount]\<rparr>"

definition um_GetAliveUserList :: "users_manager \<Rightarrow> int list" where
  "um_GetAliveUserList um = umAlive um"

definition um_IsUserAlive :: "int \<Rightarrow> users_manager \<Rightarrow> bool" where
  "um_IsUserAlive userId um \<longleftrightarrow> userId \<in> set (umAlive um)"

definition um_GetCurrentUserId :: "users_manager \<Rightarrow> int" where
  "um_GetCurrentUserId um = umCurUser um"

text \<open>\<^verbatim>\<open>userId = (userId <= 0) ? curUserId_ : userId\<close>\<close>

definition um_user :: "int \<Rightarrow> users_manager \<Rightarrow> int" where
  "um_user userId um = (if userId \<le> 0 then umCurUser um else userId)"

section \<open>Containers and lists\<close>

definition um_GetContainerFromUser :: "int \<Rightarrow> users_manager \<Rightarrow> session_stack \<times> users_manager" where
  "um_GetContainerFromUser userId um = (case map_of (umStacks um) userId of
     Some stackPtr \<Rightarrow> (stackPtr, um)
   | None \<Rightarrow> (new_session_stack, um\<lparr>umStacks := cmap_put userId new_session_stack (umStacks um)\<rparr>))"

text \<open>The container is a reference: an operation on it changes the manager.\<close>

definition um_set_container :: "int \<Rightarrow> session_stack \<Rightarrow> users_manager \<Rightarrow> users_manager" where
  "um_set_container userId st um = um\<lparr>umStacks := cmap_put userId st (umStacks um)\<rparr>"

definition um_GetContainer :: "users_manager \<Rightarrow> session_stack \<times> users_manager" where
  "um_GetContainer um = um_GetContainerFromUser (umCurUser um) um"

definition um_GetContainerFromAll :: "users_manager \<Rightarrow> session_stack" where
  "um_GetContainerFromAll um = umAll um"

definition um_GetCurSessionListForFront :: "int \<Rightarrow> users_manager \<Rightarrow> sref list \<times> users_manager" where
  "um_GetCurSessionListForFront userId um = (let userId = um_user userId um in
     case map_of (umFront um) userId of
       Some sessionListForFront \<Rightarrow> (sessionListForFront, um)
     | None \<Rightarrow> ([], um\<lparr>umFront := cmap_put userId [] (umFront um)\<rparr>))"

definition um_set_front :: "int \<Rightarrow> sref list \<Rightarrow> users_manager \<Rightarrow> users_manager" where
  "um_set_front userId l um = um\<lparr>umFront := cmap_put (um_user userId um) l (umFront um)\<rparr>"

definition um_GetCurSessionListForKeyEvent :: "int \<Rightarrow> users_manager \<Rightarrow> sref list \<times> users_manager" where
  "um_GetCurSessionListForKeyEvent userId um = (let userId = um_user userId um in
     case map_of (umKeyEvent um) userId of
       Some keyEventSessionList \<Rightarrow> (keyEventSessionList, um)
     | None \<Rightarrow> ([], um\<lparr>umKeyEvent := cmap_put userId [] (umKeyEvent um)\<rparr>))"

definition um_set_key_event :: "int \<Rightarrow> sref list \<Rightarrow> users_manager \<Rightarrow> users_manager" where
  "um_set_key_event userId l um = um\<lparr>umKeyEvent := cmap_put (um_user userId um) l (umKeyEvent um)\<rparr>"

definition AVSESSION_FILE_PUBLIC_DIR :: string where
  "AVSESSION_FILE_PUBLIC_DIR = ''/data/service/el2/public/av_session/''"
definition AVSESSION_FILE_DIR_HEAD :: string where "AVSESSION_FILE_DIR_HEAD = ''/data/service/el2/''"
definition AVSESSION_FILE_DIR_TAIL :: string where "AVSESSION_FILE_DIR_TAIL = ''/av_session/''"

definition um_GetDirForCurrentUser :: "int \<Rightarrow> users_manager \<Rightarrow> string" where
  "um_GetDirForCurrentUser userId um =
     (if umCurUser um < 0 then AVSESSION_FILE_PUBLIC_DIR
      else if userId \<le> 0
           then AVSESSION_FILE_DIR_HEAD @ int_to_string (umCurUser um) @ AVSESSION_FILE_DIR_TAIL
      else AVSESSION_FILE_DIR_HEAD @ int_to_string userId @ AVSESSION_FILE_DIR_TAIL)"

section \<open>Sessions\<close>

definition um_AddSessionForCurrentUser ::
  "int \<Rightarrow> string \<Rightarrow> sref \<Rightarrow> int \<Rightarrow> users_manager \<Rightarrow> int \<times> users_manager" where
  "um_AddSessionForCurrentUser pid abilityName item userId um =
     (let userId = um_user userId um;
          (ret, allStack) = ss_AddSession pid abilityName item (umAll um);
          um = um\<lparr>umAll := allStack\<rparr>
      in if ret \<noteq> AVSESSION_SUCCESS then (ret, um)
         else let (userStack, um) = um_GetContainerFromUser userId um;
                  (ret, userStack) = ss_AddSession pid abilityName item userStack
              in (ret, um_set_container userId userStack um))"

text \<open>The two files that a session may leave behind: \<^verbatim>\<open>fileNameLocal\<close> and \<^verbatim>\<open>fileNameCast\<close>.\<close>

definition um_delete_cache :: "int \<Rightarrow> string \<Rightarrow> users_manager \<Rightarrow> users_manager" where
  "um_delete_cache userId sessionId um = um\<lparr>umFiles :=
     DeleteFile (umRemovable um) (GetCachePathNameForCast userId @ sessionId @ FILE_SUFFIX)
       (DeleteFile (umRemovable um) (GetCachePathName userId @ sessionId @ FILE_SUFFIX) (umFiles um))\<rparr>"

definition um_RemoveSessionForAllUser ::
  "(sref \<Rightarrow> session) \<Rightarrow> int \<Rightarrow> string \<Rightarrow> users_manager \<Rightarrow> sref option \<times> users_manager" where
  "um_RemoveSessionForAllUser h pid abilityName um =
     (let (result, allStack) = ss_RemoveSession pid abilityName (umAll um);
          um = um\<lparr>umAll := allStack\<rparr>
      in case result of
        None \<Rightarrow> (None, um)
      | Some s \<Rightarrow>
          (let userId = siUserId (h s);
               (userStack, um) = um_GetContainerFromUser userId um;
               um = um_set_container userId (snd (ss_RemoveSession pid abilityName userStack)) um
           in (Some s, um_delete_cache userId (siSessionId (h s)) um)))"

definition um_RemoveSessionForAllUserById ::
  "(sref \<Rightarrow> session) \<Rightarrow> string \<Rightarrow> users_manager \<Rightarrow> sref option \<times> users_manager" where
  "um_RemoveSessionForAllUserById h sessionId um =
     (let (result, allStack) = ss_RemoveSessionById h sessionId (umAll um);
          um = um\<lparr>umAll := allStack\<rparr>
      in case result of
        None \<Rightarrow> (None, um)
      | Some s \<Rightarrow>
          (let userId = siUserId (h s);
               (userStack, um) = um_GetContainerFromUser userId um;
               um = um_set_container userId (snd (ss_RemoveSessionById h sessionId userStack)) um
           in (Some s, um_delete_cache userId sessionId um)))"

definition um_remove_item :: "(sref \<Rightarrow> session) \<Rightarrow> sref \<Rightarrow> users_manager \<Rightarrow> users_manager" where
  "um_remove_item h s um =
     (let userId = siUserId (h s);
          (userStack, um) = um_GetContainerFromUser userId um;
          um = um_set_container userId (snd (ss_RemoveSessionById h (siSessionId (h s)) userStack)) um
      in um\<lparr>umAll := snd (ss_RemoveSessionById h (siSessionId (h s)) (umAll um))\<rparr>)"

definition um_RemoveSessionForAllUserByPid ::
  "(sref \<Rightarrow> session) \<Rightarrow> int \<Rightarrow> users_manager \<Rightarrow> sref list \<times> users_manager" where
  "um_RemoveSessionForAllUserByPid h pid um =
     (let result = ss_GetSessionsByPid pid (umAll um)
      in (result, foldl (\<lambda>um s. um_remove_item h s um) um result))"

definition um_UpdateSessionForCurrentUser ::
  "(sref \<Rightarrow> session) \<Rightarrow> int \<Rightarrow> string \<Rightarrow> string \<Rightarrow> sref \<Rightarrow> users_manager \<Rightarrow> int \<times> users_manager" where
  "um_UpdateSessionForCurrentUser h pid oldAbilityName newAbilityName item um =
     (case um_RemoveSessionForAllUser h pid oldAbilityName um of
        (None, um) \<Rightarrow> (AVSESSION_ERROR, um)
      | (Some _, um) \<Rightarrow> um_AddSessionForCurrentUser pid newAbilityName item 0 um)"

definition um_UpdateSessionForUserChange ::
  "int \<Rightarrow> int \<Rightarrow> sref \<Rightarrow> store \<Rightarrow> users_manager \<Rightarrow> int \<times> store \<times> users_manager" where
  "um_UpdateSessionForUserChange oldUserId newUserId item h um =
     (let s = items h item;
          (oldStack, um) = um_GetContainerFromUser oldUserId um;
          um = um_set_container oldUserId (snd (ss_RemoveSessionById (items h) (siSessionId s) oldStack)) um;
          um = um\<lparr>umAll := snd (ss_RemoveSessionById (items h) (siSessionId s) (umAll um))\<rparr>;
          h = upd_item item (si_SetUserId newUserId) h;
          (newStack, um) = um_GetContainerFromUser newUserId um;
          (ret, newStack) = ss_AddSession (siPid s) (siAbility s) item newStack;
          um = um_set_container newUserId newStack um
      in if ret \<noteq> AVSESSION_SUCCESS then (ret, h, um)
         else let (ret, allStack) = ss_AddSession (siPid s) (siAbility s) item (umAll um)
              in (ret, h, um\<lparr>umAll := allStack\<rparr>))"

section \<open>Account events\<close>

definition um_HandleUserRemoved :: "(sref \<Rightarrow> session) \<Rightarrow> int \<Rightarrow> users_manager \<Rightarrow> users_manager" where
  "um_HandleUserRemoved h userId um =
     (let um = (case map_of (umStacks um) userId of
            None \<Rightarrow> um
          | Some stackPtr \<Rightarrow> um\<lparr>umAll :=
                foldl (\<lambda>st s. snd (ss_RemoveSessionById h (siSessionId (h s)) st)) (umAll um)
                  (ss_GetAllSessions stackPtr),
              umStacks := cmap_erase userId (umStacks um)\<rparr>)
      in um\<lparr>umFront := cmap_erase userId (umFront um), umKeyEvent := cmap_erase userId (umKeyEvent um),
           umListeners := cmap_erase userId (umListeners um), umTop := cmap_erase userId (umTop um),
           umAlive := list_remove userId (umAlive um)\<rparr>)"

datatype account_event = SWITCHED | REMOVED

definition um_account_event ::
  "(sref \<Rightarrow> session) \<Rightarrow> account_event \<Rightarrow> int \<Rightarrow> users_manager \<Rightarrow> users_manager" where
  "um_account_event h type userId um = (case type of
     SWITCHED \<Rightarrow> um\<lparr>umCurUser := userId,
       umAlive := (if userId \<in> set (umAlive um) then umAlive um else umAlive um @ [userId])\<rparr>
   | REMOVED \<Rightarrow> um_HandleUserRemoved h userId um)"

section \<open>Listeners, top sessions, cache\<close>

text \<open>A null listener is refused with no effect.\<close>

definition um_AddSessionListener :: "int \<Rightarrow> lref option \<Rightarrow> int \<Rightarrow> users_manager \<Rightarrow> users_manager" where
  "um_AddSessionListener pid listener userId um = (case listener of
     None \<Rightarrow> um
   | Some l \<Rightarrow>
       (let userId = um_user userId um
        in case map_of (umListeners um) userId of
          Some m \<Rightarrow> um\<lparr>umListeners := cmap_put userId (cmap_put pid l m) (umListeners um)\<rparr>
        | None \<Rightarrow> um\<lparr>umListeners := cmap_put userId [(pid, l)] (umListeners um)\<rparr>))"

definition um_AddSessionListenerForAllUsers :: "int \<Rightarrow> lref option \<Rightarrow> users_manager \<Rightarrow> users_manager" where
  "um_AddSessionListenerForAllUsers pid listener um = (case listener of
     None \<Rightarrow> um
   | Some l \<Rightarrow> um\<lparr>umAllListeners := cmap_put pid l (umAllListeners um)\<rparr>)"

definition um_RemoveSessionListener :: "int \<Rightarrow> users_manager \<Rightarrow> users_manager" where
  "um_RemoveSessionListener pid um =
     um\<lparr>umListeners := map (\<lambda>(u, m). (u, cmap_erase pid m)) (umListeners um),
        umAllListeners := cmap_erase pid (umAllListeners um)\<rparr>"

definition um_GetSessionListener :: "int \<Rightarrow> users_manager \<Rightarrow> (int, lref) cmap \<times> users_manager" where
  "um_GetSessionListener userId um = (let userId = um_user userId um in
     case map_of (umListeners um) userId of
       Some m \<Rightarrow> (m, um)
     | None \<Rightarrow> ([], um\<lparr>umListeners := cmap_put userId [] (umListeners um)\<rparr>))"

definition um_GetSessionListenerForAllUsers :: "users_manager \<Rightarrow> (int, lref) cmap" where
  "um_GetSessionListenerForAllUsers um = umAllListeners um"

definition um_SetTopSession :: "sref option \<Rightarrow> int \<Rightarrow> users_manager \<Rightarrow> users_manager" where
  "um_SetTopSession session userId um = um\<lparr>umTop := cmap_put userId session (umTop um)\<rparr>"

definition um_SetCurrentTopSession :: "sref option \<Rightarrow> users_manager \<Rightarrow> users_manager" where
  "um_SetCurrentTopSession session um = um_SetTopSession session (umCurUser um) um"

definition um_GetTopSession :: "int \<Rightarrow> users_manager \<Rightarrow> sref option" where
  "um_GetTopSession userId um = (case map_of (umTop um) userId of Some s \<Rightarrow> s | None \<Rightarrow> None)"

definition um_GetCurrentTopSession :: "users_manager \<Rightarrow> sref option" where
  "um_GetCurrentTopSession um = um_GetTopSession (umCurUser um) um"

definition um_ClearCache :: "(string \<Rightarrow> string list) \<Rightarrow> users_manager \<Rightarrow> users_manager" where
  "um_ClearCache getDirFiles um = um\<lparr>umFiles :=
     foldl (\<lambda>fs u. DeleteCacheFiles (umRemovable um) getDirFiles (GetCachePathName u) fs)
       (umFiles um) (umAlive um)\<rparr>"

definition um_CleanupCacheOnUnlock ::
  "(string \<Rightarrow> string list) \<Rightarrow> (sref \<Rightarrow> session) \<Rightarrow> int \<Rightarrow> users_manager \<Rightarrow> users_manager" where
  "um_CleanupCacheOnUnlock getDirFiles h userId um =
     (let userId = um_user userId um;
          aliveSessionIds = (case map_of (umStacks um) userId of
             None \<Rightarrow> [] | Some st \<Rightarrow> map (\<lambda>s. siSessionId (h s)) (ss_GetAllSessions st));
          fs = DeleteCacheFilesExcluding (umRemovable um) getDirFiles (GetCachePathName userId)
                 aliveSessionIds (umFiles um)
      in um\<lparr>umFiles := DeleteCacheFilesExcluding (umRemovable um) getDirFiles
                 (GetCachePathNameForCast userId) aliveSessionIds fs\<rparr>)"

end
