(* ===== verification/UsersInv.thy ===== *)
theory UsersInv
  imports UsersManager
begin

text \<open>
  The consistency of the users manager: the container of all users and the containers of the users
  hold the same sessions under the same keys, each session in the container of its own user and in
  no other. Every operation that the service calls keeps it, \<^verbatim>\<open>UpdateSessionForCurrentUser\<close> for
  a session of the current user.
\<close>

section \<open>The invariant\<close>

definition um_stack :: "int \<Rightarrow> users_manager \<Rightarrow> session_stack" where
  "um_stack u um = (case map_of (umStacks um) u of Some st \<Rightarrow> st | None \<Rightarrow> new_session_stack)"

definition um_stacks_ok :: "users_manager \<Rightarrow> bool" where
  "um_stacks_ok um \<longleftrightarrow> ss_ok (umAll um) \<and> cmap_ok (umStacks um) \<and> (\<forall>u. ss_ok (um_stack u um))"

definition um_partition :: "(sref \<Rightarrow> session) \<Rightarrow> users_manager \<Rightarrow> bool" where
  "um_partition h um \<longleftrightarrow> (\<forall>u p a s. ss_GetSession p a (um_stack u um) = Some s
     \<longleftrightarrow> ss_GetSession p a (umAll um) = Some s \<and> siUserId (h s) = u)"

definition um_ids_ok :: "(sref \<Rightarrow> session) \<Rightarrow> users_manager \<Rightarrow> bool" where
  "um_ids_ok h um \<longleftrightarrow> inj_on (\<lambda>s. siSessionId (h s)) (set (ss_GetAllSessions (umAll um)))"

definition um_keys_ok :: "(sref \<Rightarrow> session) \<Rightarrow> users_manager \<Rightarrow> bool" where
  "um_keys_ok h um \<longleftrightarrow> (\<forall>p a s. ss_GetSession p a (umAll um) = Some s
     \<longrightarrow> p = siPid (h s) \<and> a = siAbility (h s))"

definition um_ok :: "(sref \<Rightarrow> session) \<Rightarrow> users_manager \<Rightarrow> bool" where
  "um_ok h um \<longleftrightarrow> um_stacks_ok um \<and> um_partition h um \<and> um_ids_ok h um \<and> um_keys_ok h um"

lemma um_okD:
  assumes "um_ok h um"
  shows "ss_ok (umAll um)" and "cmap_ok (umStacks um)" and "ss_ok (um_stack u um)"
    and "ss_GetSession p a (um_stack u um) = Some s
      \<longleftrightarrow> ss_GetSession p a (umAll um) = Some s \<and> siUserId (h s) = u"
    and "ss_GetSession p a (umAll um) = Some s \<Longrightarrow> p = siPid (h s) \<and> a = siAbility (h s)"
    and "inj_on (\<lambda>s. siSessionId (h s)) (set (ss_GetAllSessions (umAll um)))"
  using assms by (auto simp: um_ok_def um_stacks_ok_def um_partition_def um_ids_ok_def um_keys_ok_def)

section \<open>Containers by user\<close>

lemma um_GetContainerFromUser_fst [simp]: "fst (um_GetContainerFromUser u um) = um_stack u um"
  by (simp add: um_GetContainerFromUser_def um_stack_def split: option.splits)

lemma um_GetContainerFromUser_simps [simp]:
  "umAll (snd (um_GetContainerFromUser u um)) = umAll um"
  "um_stack v (snd (um_GetContainerFromUser u um)) = um_stack v um"
  "cmap_ok (umStacks um) \<Longrightarrow> cmap_ok (umStacks (snd (um_GetContainerFromUser u um)))"
  "umFiles (snd (um_GetContainerFromUser u um)) = umFiles um"
  "umFront (snd (um_GetContainerFromUser u um)) = umFront um"
  "umKeyEvent (snd (um_GetContainerFromUser u um)) = umKeyEvent um"
  "umTop (snd (um_GetContainerFromUser u um)) = umTop um"
  "umCurUser (snd (um_GetContainerFromUser u um)) = umCurUser um"
  "umListeners (snd (um_GetContainerFromUser u um)) = umListeners um"
  "umAlive (snd (um_GetContainerFromUser u um)) = umAlive um"
  "umRemovable (snd (um_GetContainerFromUser u um)) = umRemovable um"
  by (auto simp: um_GetContainerFromUser_def um_stack_def map_of_cmap_put cmap_ok_put split: option.splits)

lemma um_set_container_simps [simp]:
  "umAll (um_set_container u st um) = umAll um"
  "um_stack v (um_set_container u st um) = (if v = u then st else um_stack v um)"
  "cmap_ok (umStacks um) \<Longrightarrow> cmap_ok (umStacks (um_set_container u st um))"
  "umFiles (um_set_container u st um) = umFiles um"
  "umFront (um_set_container u st um) = umFront um"
  "umKeyEvent (um_set_container u st um) = umKeyEvent um"
  "umTop (um_set_container u st um) = umTop um"
  "umCurUser (um_set_container u st um) = umCurUser um"
  "umListeners (um_set_container u st um) = umListeners um"
  "umAlive (um_set_container u st um) = umAlive um"
  "umRemovable (um_set_container u st um) = umRemovable um"
  by (simp_all add: um_set_container_def um_stack_def map_of_cmap_put cmap_ok_put)

lemma um_stack_update [simp]:
  "um_stack u (um\<lparr>umAll := x1\<rparr>) = um_stack u um"
  "um_stack u (um\<lparr>umFiles := x2\<rparr>) = um_stack u um"
  "um_stack u (um\<lparr>umFront := x3\<rparr>) = um_stack u um"
  "um_stack u (um\<lparr>umKeyEvent := x4\<rparr>) = um_stack u um"
  "um_stack u (um\<lparr>umListeners := x5\<rparr>) = um_stack u um"
  "um_stack u (um\<lparr>umAllListeners := x6\<rparr>) = um_stack u um"
  "um_stack u (um\<lparr>umTop := x7\<rparr>) = um_stack u um"
  "um_stack u (um\<lparr>umCurUser := x8\<rparr>) = um_stack u um"
  "um_stack u (um\<lparr>umAlive := x9\<rparr>) = um_stack u um"
  by (simp_all add: um_stack_def)

lemma um_delete_cache_simps [simp]:
  "umAll (um_delete_cache u sid um) = umAll um" "umStacks (um_delete_cache u sid um) = umStacks um"
  "um_stack v (um_delete_cache u sid um) = um_stack v um"
  "umFront (um_delete_cache u sid um) = umFront um"
  "umKeyEvent (um_delete_cache u sid um) = umKeyEvent um" "umTop (um_delete_cache u sid um) = umTop um"
  "umCurUser (um_delete_cache u sid um) = umCurUser um"
  by (simp_all add: um_delete_cache_def)

text \<open>Nothing but the containers and the store matters.\<close>

lemma um_ok_cong:
  assumes "umAll um' = umAll um" and "umStacks um' = umStacks um"
  shows "um_ok h um' = um_ok h um"
  using assms by (simp add: um_ok_def um_stacks_ok_def um_partition_def um_ids_ok_def um_keys_ok_def um_stack_def)

section \<open>Removing sessions\<close>

definition opt_drop :: "('a \<Rightarrow> bool) \<Rightarrow> 'a option \<Rightarrow> 'a option" where
  "opt_drop P x = (case x of Some s \<Rightarrow> if P s then None else Some s | None \<Rightarrow> None)"

lemma opt_drop_Some [simp]: "opt_drop P x = Some s \<longleftrightarrow> x = Some s \<and> \<not> P s"
  by (auto simp: opt_drop_def split: option.splits)

lemma ss_RemoveSession_lookup:
  assumes "ss_ok st"
  shows "ss_ok (snd (ss_RemoveSession p a st))"
    and "fst (ss_RemoveSession p a st) = ss_GetSession p a st"
    and "ss_GetSession q b (snd (ss_RemoveSession p a st))
      = opt_drop (\<lambda>s. ss_GetSession p a st = Some s) (ss_GetSession q b st)"
proof -
  show "ss_ok (snd (ss_RemoveSession p a st))" using stack.remove_inv [OF assms prod.collapse [symmetric]] .
  show "fst (ss_RemoveSession p a st) = ss_GetSession p a st"
    using stack.remove_result [OF assms prod.collapse [symmetric]] .
  show "ss_GetSession q b (snd (ss_RemoveSession p a st))
      = opt_drop (\<lambda>s. ss_GetSession p a st = Some s) (ss_GetSession q b st)"
  proof (cases "ss_GetSession p a st")
    case None
    then show ?thesis using stack.remove_none [OF assms]
      by (auto simp: opt_drop_def split: option.splits)
  next
    case (Some s)
    from stack.remove_some [OF assms Some] obtain st' where st': "ss_RemoveSession p a st = (Some s, st')"
      "ss_GetSession q b st' = (if q = p \<and> b = a then None else ss_GetSession q b st)" by blast
    have "ss_GetSession q b st = Some s \<longleftrightarrow> q = p \<and> b = a"
      using Some stack.inv_inj [OF assms, of q b s p a] by blast
    with st' Some show ?thesis
      by (cases "ss_GetSession q b st") (auto simp: opt_drop_def)
  qed
qed

lemma map_of_filter_val:
  "distinct (map fst m) \<Longrightarrow> map_of (filter (\<lambda>e. \<not> P (snd e)) m) k = opt_drop P (map_of m k)"
proof (induction m)
  case (Cons e m)
  then have "map_of m (fst e) = None" by (simp add: map_of_eq_None_iff)
  with Cons show ?case by (auto simp: opt_drop_def)
qed (simp add: opt_drop_def)

lemma ss_RemoveSessionById_lookup:
  assumes "ss_ok st"
  shows "ss_ok (snd (ss_RemoveSessionById h sid st))"
    and "ss_GetSession q b (snd (ss_RemoveSessionById h sid st))
      = opt_drop (\<lambda>s. siSessionId (h s) = sid) (ss_GetSession q b st)"
    and "ss_GetAllSessions (snd (ss_RemoveSessionById h sid st))
      = filter (\<lambda>s. siSessionId (h s) \<noteq> sid) (ss_GetAllSessions st)"
proof -
  note eq = prod.collapse [of "ss_RemoveSessionById h sid st", symmetric]
  show "ss_ok (snd (ss_RemoveSessionById h sid st))" using ss_ok_RemoveSessionById [OF assms eq] .
  show "ss_GetAllSessions (snd (ss_RemoveSessionById h sid st))
      = filter (\<lambda>s. siSessionId (h s) \<noteq> sid) (ss_GetAllSessions st)"
    unfolding ss_GetAllSessions_def using ss_RemoveSessionById_stack(1) [OF assms eq] .
  have "distinct (map fst (ssSessions st))" using assms by (simp add: ss_ok_def cmap_ok_distinct)
  then show "ss_GetSession q b (snd (ss_RemoveSessionById h sid st))
      = opt_drop (\<lambda>s. siSessionId (h s) = sid) (ss_GetSession q b st)"
    unfolding ss_GetSession_def ss_RemoveSessionById_stack(4) [OF assms eq]
    by (rule map_of_filter_val)
qed

text \<open>
  A step that takes the sessions with \<open>P\<close> out of the container of all users and out of those of
  their users keeps the invariant.
\<close>

lemma um_ok_drop:
  assumes "um_ok h um" and "um_stacks_ok um'"
    and "\<And>p a. ss_GetSession p a (umAll um') = opt_drop P (ss_GetSession p a (umAll um))"
    and "\<And>u p a. ss_GetSession p a (um_stack u um') = opt_drop P (ss_GetSession p a (um_stack u um))"
  shows "um_ok h um'"
proof -
  have "set (ss_GetAllSessions (umAll um')) \<subseteq> set (ss_GetAllSessions (umAll um))"
    using assms stack.inv_all um_okD(1) [OF assms(1)] by (auto simp: um_stacks_ok_def)
  with assms show ?thesis
    by (auto simp: um_ok_def um_partition_def um_ids_ok_def um_keys_ok_def intro: inj_on_subset)
qed

lemma opt_drop_eq:
  "(\<And>s. x = Some s \<Longrightarrow> P s = Q s) \<Longrightarrow> opt_drop P x = opt_drop Q x"
  by (auto simp: opt_drop_def split: option.splits)

lemma opt_drop_none: "(\<And>s. x = Some s \<Longrightarrow> \<not> P s) \<Longrightarrow> opt_drop P x = x"
  by (auto simp: opt_drop_def split: option.splits)

text \<open>A session of the container of all users that goes by its id goes from both containers.\<close>

lemma um_drop_id:
  assumes ok: "um_ok h um" and all: "umAll um' = snd (ss_RemoveSessionById h sid (umAll um))"
    and keys: "cmap_ok (umStacks um')"
    and stack: "\<And>v. um_stack v um' =
      (if v = u then snd (ss_RemoveSessionById h sid (um_stack u um)) else um_stack v um)"
    and user: "\<And>p a s. ss_GetSession p a (umAll um) = Some s \<Longrightarrow> siSessionId (h s) = sid \<Longrightarrow> siUserId (h s) = u"
  shows "um_ok h um'"
    and "ss_GetSession p a (umAll um') = opt_drop (\<lambda>s. siSessionId (h s) = sid) (ss_GetSession p a (umAll um))"
    and "ss_GetSession p a (um_stack v um') = opt_drop (\<lambda>s. siSessionId (h s) = sid) (ss_GetSession p a (um_stack v um))"
proof -
  note D = um_okD [OF ok]
  show A: "ss_GetSession p a (umAll um') = opt_drop (\<lambda>s. siSessionId (h s) = sid) (ss_GetSession p a (umAll um))"
    for p a unfolding all by (rule ss_RemoveSessionById_lookup(2) [OF D(1)])
  show B: "ss_GetSession p a (um_stack v um') = opt_drop (\<lambda>s. siSessionId (h s) = sid) (ss_GetSession p a (um_stack v um))"
    for p a v
  proof (cases "v = u")
    case True
    then show ?thesis unfolding stack by (simp add: ss_RemoveSessionById_lookup(2) [OF D(3)])
  next
    case False
    then show ?thesis unfolding stack using user D(4) by (auto intro!: opt_drop_none [symmetric])
  qed
  have "um_stacks_ok um'"
    using D keys by (simp add: um_stacks_ok_def all stack ss_RemoveSessionById_lookup(1))
  then show "um_ok h um'" using um_ok_drop [OF ok _ A B] by blast
qed

lemma um_same_id:
  assumes "um_ok h um" and "ss_GetSession p a (umAll um) = Some s" and "ss_GetSession q b (umAll um) = Some t"
    and "siSessionId (h s) = siSessionId (h t)"
  shows "s = t"
  using um_okD(6) [OF assms(1)] assms(2-4) stack.inv_all [OF um_okD(1) [OF assms(1)]]
  by (auto dest: inj_onD)

lemma um_remove_item_ok:
  assumes ok: "um_ok h um" and s: "ss_GetSession p a (umAll um) = Some s"
  shows "um_ok h (um_remove_item h s um)"
    and "ss_GetSession q b (umAll (um_remove_item h s um)) = opt_drop ((=) s) (ss_GetSession q b (umAll um))"
    and "ss_GetSession q b (um_stack v (um_remove_item h s um)) = opt_drop ((=) s) (ss_GetSession q b (um_stack v um))"
proof -
  let ?um = "um_remove_item h s um"
  have all: "umAll ?um = snd (ss_RemoveSessionById h (siSessionId (h s)) (umAll um))"
    and keys: "cmap_ok (umStacks ?um)"
    and st: "um_stack v ?um = (if v = siUserId (h s)
      then snd (ss_RemoveSessionById h (siSessionId (h s)) (um_stack (siUserId (h s)) um)) else um_stack v um)" for v
    using um_okD(2) [OF ok] by (simp_all add: um_remove_item_def split_beta Let_def)
  have user: "siUserId (h t) = siUserId (h s)"
    if "ss_GetSession p' a' (umAll um) = Some t" "siSessionId (h t) = siSessionId (h s)" for p' a' t
    using um_same_id [OF ok that(1) s that(2)] by simp
  note D = um_drop_id [OF ok all keys st user]
  show "um_ok h ?um" by (rule D)
  have eq: "siSessionId (h t) = siSessionId (h s) \<longleftrightarrow> s = t" if "ss_GetSession p' a' (umAll um) = Some t" for t p' a'
    using um_same_id [OF ok that s] by auto
  show "ss_GetSession q b (umAll ?um) = opt_drop ((=) s) (ss_GetSession q b (umAll um))"
    by (rule trans [OF D(2) opt_drop_eq]) (use eq in blast)+
  show "ss_GetSession q b (um_stack v ?um) = opt_drop ((=) s) (ss_GetSession q b (um_stack v um))"
    by (rule trans [OF D(3) opt_drop_eq]) (use eq um_okD(4) [OF ok] in blast)+
qed

lemma um_RemoveSessionForAllUser_ok:
  assumes ok: "um_ok h um" and r: "um_RemoveSessionForAllUser h p a um = (r, um')"
  shows "r = ss_GetSession p a (umAll um)" and "um_ok h um'"
    and "ss_GetSession q b (umAll um') = opt_drop (\<lambda>s. r = Some s) (ss_GetSession q b (umAll um))"
    and "ss_GetSession q b (um_stack v um') = opt_drop (\<lambda>s. r = Some s) (ss_GetSession q b (um_stack v um))"
proof -
  note D = um_okD [OF ok] and R = ss_RemoveSession_lookup [OF um_okD(1) [OF ok]]
  show r_eq: "r = ss_GetSession p a (umAll um)"
    using r R(2) [of p a] by (auto simp: um_RemoveSessionForAllUser_def split_beta Let_def split: option.splits)
  have all: "umAll um' = snd (ss_RemoveSession p a (umAll um))"
    using r by (auto simp: um_RemoveSessionForAllUser_def split_beta Let_def split: option.splits)
  show A: "ss_GetSession q b (umAll um') = opt_drop (\<lambda>s. r = Some s) (ss_GetSession q b (umAll um))" for q b
    unfolding all r_eq by (rule R(3))
  have st: "um_stack v um' = (case r of None \<Rightarrow> um_stack v um
      | Some s \<Rightarrow> if v = siUserId (h s) then snd (ss_RemoveSession p a (um_stack v um)) else um_stack v um)" for v
    using r R(2) [of p a] r_eq
    by (auto simp: um_RemoveSessionForAllUser_def split_beta Let_def split: option.splits)
  show B: "ss_GetSession q b (um_stack v um') = opt_drop (\<lambda>s. r = Some s) (ss_GetSession q b (um_stack v um))" for q b v
  proof (cases r)
    case None
    then show ?thesis by (simp add: st opt_drop_none)
  next
    case (Some s)
    show ?thesis
    proof (cases "v = siUserId (h s)")
      case True
      have "ss_GetSession p a (um_stack v um) = Some s" using Some r_eq True D(4) by simp
      moreover have "um_stack v um' = snd (ss_RemoveSession p a (um_stack v um))" using Some True st by simp
      ultimately show ?thesis using Some by (simp add: ss_RemoveSession_lookup(3) [OF D(3)])
    next
      case False
      with Some show ?thesis using D(4) by (auto simp: st intro!: opt_drop_none [symmetric])
    qed
  qed
  have "cmap_ok (umStacks um')"
    using r D(2) by (auto simp: um_RemoveSessionForAllUser_def split_beta Let_def split: option.splits)
  then have "um_stacks_ok um'"
    using D R(1) ss_RemoveSession_lookup(1) [OF D(3)]
    by (auto simp: um_stacks_ok_def all st split: option.splits)
  then show "um_ok h um'" using um_ok_drop [OF ok _ A B] by blast
qed

end
