(* ===== verification/UsersOps.thy ===== *)
theory UsersOps
  imports UsersInv
begin

text \<open>The remaining operations of the users manager keep its consistency.\<close>

section \<open>Removal by id, by process, and of a user\<close>

lemma all_of_id:
  assumes ok: "um_ok h um" and r: "ss_RemoveSessionById h sid (umAll um) = (res, st)"
  shows "res = None \<Longrightarrow> ss_GetSession p a (umAll um) = Some t \<Longrightarrow> siSessionId (h t) \<noteq> sid"
    and "res = Some s \<Longrightarrow> siSessionId (h s) = sid \<and> (\<exists>p a. ss_GetSession p a (umAll um) = Some s)"
proof -
  have mem: "(\<exists>p a. ss_GetSession p a (umAll um) = Some x) \<longleftrightarrow> x \<in> set (ssStack (umAll um))" for x
    using stack.inv_all [OF um_okD(1) [OF ok], of x] by (simp add: ss_GetAllSessions_def)
  show "res = None \<Longrightarrow> ss_GetSession p a (umAll um) = Some t \<Longrightarrow> siSessionId (h t) \<noteq> sid"
    using ss_RemoveSessionById_stack(2) [OF um_okD(1) [OF ok] r] mem [of t] by auto
  show "res = Some s \<Longrightarrow> siSessionId (h s) = sid \<and> (\<exists>p a. ss_GetSession p a (umAll um) = Some s)"
    using ss_RemoveSessionById_stack(3) [OF um_okD(1) [OF ok] r, of s] mem [of s] by auto
qed

lemma um_RemoveSessionForAllUserById_ok:
  assumes ok: "um_ok h um" and r: "um_RemoveSessionForAllUserById h sid um = (r, um')"
  shows "um_ok h um'"
    and "ss_GetSession q b (umAll um') = opt_drop (\<lambda>s. siSessionId (h s) = sid) (ss_GetSession q b (umAll um))"
    and "r = Some s \<longleftrightarrow> (\<exists>p a. ss_GetSession p a (umAll um) = Some s) \<and> siSessionId (h s) = sid"
proof -
  note D = um_okD [OF ok]
  obtain res st where R: "ss_RemoveSessionById h sid (umAll um) = (res, st)" by fastforce
  note ids = all_of_id [OF ok R]
  have r_eq: "r = res" and all: "umAll um' = snd (ss_RemoveSessionById h sid (umAll um))"
    using r R by (auto simp: um_RemoveSessionForAllUserById_def split_beta Let_def split: option.splits)
  show "r = Some s \<longleftrightarrow> (\<exists>p a. ss_GetSession p a (umAll um) = Some s) \<and> siSessionId (h s) = sid"
  proof (cases res)
    case None
    then show ?thesis using ids(1) r_eq by auto
  next
    case (Some t)
    then show ?thesis using ids(2) [OF Some] um_same_id [OF ok] r_eq by blast
  qed
  have "um_ok h um' \<and> ss_GetSession q b (umAll um')
      = opt_drop (\<lambda>s. siSessionId (h s) = sid) (ss_GetSession q b (umAll um))"
  proof (cases res)
    case None
    then have um': "um' = um\<lparr>umAll := st\<rparr>"
      using r R by (simp add: um_RemoveSessionForAllUserById_def)
    have "umStacks um' = umStacks um" "\<And>v. um_stack v um' = um_stack v um" using um' by simp_all
    moreover have "ss_GetSession p a (umAll um') = opt_drop (\<lambda>s. siSessionId (h s) = sid) (ss_GetSession p a (umAll um))"
      for p a unfolding all by (rule ss_RemoveSessionById_lookup(2) [OF D(1)])
    moreover have "ss_GetSession p a (um_stack v um) = opt_drop (\<lambda>s. siSessionId (h s) = sid) (ss_GetSession p a (um_stack v um))"
      for p a v
    proof (rule opt_drop_none [symmetric])
      fix s assume "ss_GetSession p a (um_stack v um) = Some s"
      then show "siSessionId (h s) \<noteq> sid" using ids(1) [OF None, of p a s] D(4) by simp
    qed
    moreover have "um_stacks_ok um'"
      using D um' all ss_RemoveSessionById_lookup(1) [OF D(1)] by (simp add: um_stacks_ok_def)
    ultimately show ?thesis using um_ok_drop [OF ok, of um'] by simp
  next
    case (Some t)
    have keys: "cmap_ok (umStacks um')" and stk: "um_stack v um' = (if v = siUserId (h t)
        then snd (ss_RemoveSessionById h sid (um_stack (siUserId (h t)) um)) else um_stack v um)" for v
      using r R Some D(2) by (auto simp: um_RemoveSessionForAllUserById_def split_beta Let_def)
    have "siUserId (h x) = siUserId (h t)"
      if "ss_GetSession p a (umAll um) = Some x" "siSessionId (h x) = sid" for p a x
      using ids(2) [OF Some] um_same_id [OF ok that(1)] that(2) by metis
    then show ?thesis by (blast intro: um_drop_id(1,2) [OF ok all keys stk])
  qed
  then show "um_ok h um'" "ss_GetSession q b (umAll um')
      = opt_drop (\<lambda>s. siSessionId (h s) = sid) (ss_GetSession q b (umAll um))" by blast+
qed

lemma opt_drop_twice: "opt_drop P (opt_drop Q x) = opt_drop (\<lambda>s. Q s \<or> P s) x"
  by (auto simp: opt_drop_def split: option.splits)

lemma um_remove_items_ok:
  assumes "um_ok h um" and "\<And>s. s \<in> set rs \<Longrightarrow> \<exists>p a. ss_GetSession p a (umAll um) = Some s" and "distinct rs"
    and "um' = foldl (\<lambda>um s. um_remove_item h s um) um rs"
  shows "um_ok h um' \<and> (\<forall>q b. ss_GetSession q b (umAll um') = opt_drop (\<lambda>s. s \<in> set rs) (ss_GetSession q b (umAll um)))"
  using assms
proof (induction rs arbitrary: um um')
  case (Cons s rs)
  obtain p a where s: "ss_GetSession p a (umAll um) = Some s" using Cons.prems(2) [of s] by auto
  note I = um_remove_item_ok [OF Cons.prems(1) s]
  have "\<exists>p a. ss_GetSession p a (umAll (um_remove_item h s um)) = Some t" if "t \<in> set rs" for t
  proof -
    have "t \<noteq> s" using that Cons.prems(3) by auto
    then show ?thesis using Cons.prems(2) [of t] that I(2) by auto
  qed
  from Cons.IH [OF I(1) this _ refl] Cons.prems(3,4) I(2) show ?case
    by (simp add: opt_drop_twice) (auto simp: opt_drop_def split: option.splits)
qed (simp add: opt_drop_def split: option.splits)

lemma um_RemoveSessionForAllUserByPid_ok:
  assumes ok: "um_ok h um" and r: "um_RemoveSessionForAllUserByPid h pid um = (rs, um')"
  shows "um_ok h um'" and "rs = ss_GetSessionsByPid pid (umAll um)"
    and "ss_GetSession q b (umAll um') = opt_drop (\<lambda>s. s \<in> set rs) (ss_GetSession q b (umAll um))"
proof -
  note D = um_okD [OF ok]
  show rs: "rs = ss_GetSessionsByPid pid (umAll um)"
    using r by (simp add: um_RemoveSessionForAllUserByPid_def Let_def)
  have "\<exists>p a. ss_GetSession p a (umAll um) = Some s" if "s \<in> set rs" for s
    using that ss_lookup_set [OF D(1)] by (fastforce simp: rs ss_GetSessionsByPid_def)
  moreover have "distinct rs"
    using D(1) by (simp add: rs ss_GetSessionsByPid_def ss_ok_def distinct_map_filter)
  moreover have "um' = foldl (\<lambda>um s. um_remove_item h s um) um rs"
    using r by (auto simp: um_RemoveSessionForAllUserByPid_def Let_def)
  ultimately have R: "um_ok h um' \<and> (\<forall>q b. ss_GetSession q b (umAll um')
      = opt_drop (\<lambda>s. s \<in> set rs) (ss_GetSession q b (umAll um)))"
    by (rule um_remove_items_ok [OF ok])
  then show "um_ok h um'" by blast
  from R show "ss_GetSession q b (umAll um') = opt_drop (\<lambda>s. s \<in> set rs) (ss_GetSession q b (umAll um))"
    by blast
qed

lemma foldl_remove_ids:
  "ss_ok st \<Longrightarrow> ss_ok (foldl (\<lambda>st s. snd (ss_RemoveSessionById h (siSessionId (h s)) st)) st rs)
     \<and> ss_GetSession q b (foldl (\<lambda>st s. snd (ss_RemoveSessionById h (siSessionId (h s)) st)) st rs)
       = opt_drop (\<lambda>s. siSessionId (h s) \<in> (\<lambda>s. siSessionId (h s)) ` set rs) (ss_GetSession q b st)"
proof (induction rs arbitrary: st)
  case (Cons r rs)
  from Cons.IH [OF ss_RemoveSessionById_lookup(1) [OF Cons.prems]] show ?case
    by (simp add: ss_RemoveSessionById_lookup(2) [OF Cons.prems] opt_drop_twice)
qed (simp add: opt_drop_def split: option.splits)

lemma um_HandleUserRemoved_ok:
  assumes ok: "um_ok h um" and um': "um' = um_HandleUserRemoved h u um"
  shows "um_ok h um'"
    and "ss_GetSession q b (umAll um') = opt_drop (\<lambda>s. siUserId (h s) = u) (ss_GetSession q b (umAll um))"
    and "um_stack v um' = (if v = u then new_session_stack else um_stack v um)"
proof -
  note D = um_okD [OF ok]
  let ?rs = "ss_GetAllSessions (um_stack u um)"
  have all: "umAll um' = foldl (\<lambda>st s. snd (ss_RemoveSessionById h (siSessionId (h s)) st)) (umAll um) ?rs"
    unfolding um' by (simp add: um_HandleUserRemoved_def um_stack_def ss_GetAllSessions_def new_session_stack_def Let_def split: option.splits)
  show stk: "um_stack v um' = (if v = u then new_session_stack else um_stack v um)" for v
    unfolding um' by (auto simp: um_HandleUserRemoved_def um_stack_def map_of_cmap_erase Let_def split: option.splits)
  have mem: "s \<in> set ?rs \<longleftrightarrow> siUserId (h s) = u" if "ss_GetSession p a (umAll um) = Some s" for p a s
    using that D(4) stack.inv_all [OF D(3) [of u], of s] by blast
  have ids: "siSessionId (h s) \<in> (\<lambda>s. siSessionId (h s)) ` set ?rs \<longleftrightarrow> siUserId (h s) = u"
    if s: "ss_GetSession p a (umAll um) = Some s" for p a s
  proof
    assume "siSessionId (h s) \<in> (\<lambda>s. siSessionId (h s)) ` set ?rs"
    then obtain t where t: "t \<in> set ?rs" "siSessionId (h s) = siSessionId (h t)" by blast
    then obtain q b where "ss_GetSession q b (umAll um) = Some t"
      using stack.inv_all [OF D(3) [of u], of t] D(4) by blast
    with t um_same_id [OF ok s] mem show "siUserId (h s) = u" by blast
  qed (use mem s in blast)
  show A: "ss_GetSession q b (umAll um') = opt_drop (\<lambda>s. siUserId (h s) = u) (ss_GetSession q b (umAll um))" for q b
    unfolding all by (rule trans [OF foldl_remove_ids [OF D(1), THEN conjunct2] opt_drop_eq]) (rule ids)
  have B: "ss_GetSession q b (um_stack v um') = opt_drop (\<lambda>s. siUserId (h s) = u) (ss_GetSession q b (um_stack v um))" for q b v
  proof (cases "v = u")
    case True
    then have "ss_GetSession q b (um_stack v um) = Some s \<Longrightarrow> siUserId (h s) = u" for s using D(4) by blast
    with True show ?thesis
      by (cases "ss_GetSession q b (um_stack v um)") (simp_all add: stk opt_drop_def ss_GetSession_def new_session_stack_def)
  next
    case False
    then show ?thesis using D(4) by (auto simp: stk intro!: opt_drop_none [symmetric])
  qed
  have "cmap_ok (umStacks um')"
    unfolding um' using D(2) by (auto simp: um_HandleUserRemoved_def cmap_ok_erase Let_def split: option.splits)
  then have "um_stacks_ok um'"
    using D(3) foldl_remove_ids [OF D(1)] by (auto simp: um_stacks_ok_def stk all)
  then show "um_ok h um'" using um_ok_drop [OF ok _ A B] by blast
qed

section \<open>Adding a session\<close>

lemma um_ok_add:
  assumes ok: "um_ok h um" and st: "um_stacks_ok um'"
    and new: "\<And>p a. ss_GetSession p a (umAll um) \<noteq> Some item"
      "\<And>p a s. ss_GetSession p a (umAll um) = Some s \<Longrightarrow> siSessionId (h s) \<noteq> siSessionId (h item)"
    and all: "\<And>p a. ss_GetSession p a (umAll um') =
      (if p = siPid (h item) \<and> a = siAbility (h item) then Some item else ss_GetSession p a (umAll um))"
    and user: "\<And>v p a. ss_GetSession p a (um_stack v um') =
      (if v = siUserId (h item) \<and> p = siPid (h item) \<and> a = siAbility (h item) then Some item
       else ss_GetSession p a (um_stack v um))"
    and free: "ss_GetSession (siPid (h item)) (siAbility (h item)) (umAll um) = None"
  shows "um_ok h um'"
proof -
  note D = um_okD [OF ok]
  have "um_partition h um'"
    unfolding um_partition_def using D(4) free by (auto simp: all user)
  moreover have "um_keys_ok h um'" unfolding um_keys_ok_def using D(5) by (auto simp: all)
  moreover have "um_ids_ok h um'"
  proof -
    have mem: "s \<in> set (ss_GetAllSessions (umAll um')) \<longleftrightarrow> s = item \<or> s \<in> set (ss_GetAllSessions (umAll um))" for s
    proof -
      have "s \<in> set (ss_GetAllSessions (umAll um')) \<longleftrightarrow> (\<exists>p a. ss_GetSession p a (umAll um') = Some s)"
        using st stack.inv_all [of "umAll um'" s] by (simp add: um_stacks_ok_def)
      also have "\<dots> \<longleftrightarrow> s = item \<or> (\<exists>p a. ss_GetSession p a (umAll um) = Some s)"
        unfolding all using free by (metis option.inject option.distinct(1))
      finally show ?thesis using stack.inv_all [OF D(1), of s] by blast
    qed
    have "siSessionId (h item) \<notin> (\<lambda>s. siSessionId (h s)) ` set (ss_GetAllSessions (umAll um))"
      using new(2) stack.inv_all [OF D(1)] by (metis (no_types, lifting) imageE)
    moreover have "set (ss_GetAllSessions (umAll um')) = insert item (set (ss_GetAllSessions (umAll um)))"
      using mem by auto
    ultimately show ?thesis using D(6) by (auto simp: um_ids_ok_def)
  qed
  ultimately show ?thesis using st by (simp add: um_ok_def)
qed

lemma um_user_stack_smaller:
  assumes ok: "um_ok h um"
  shows "length (ss_GetAllSessions (um_stack u um)) \<le> length (ss_GetAllSessions (umAll um))"
proof -
  note D = um_okD [OF ok]
  have "set (ss_GetAllSessions (um_stack u um)) \<subseteq> set (ss_GetAllSessions (umAll um))"
    using stack.inv_all [OF D(1)] stack.inv_all [OF D(3) [of u]] D(4) by blast
  from card_mono [OF _ this] show ?thesis
    using stack.inv_distinct [OF D(1)] stack.inv_distinct [OF D(3) [of u]] by (simp add: distinct_card)
qed

end
