(* ===== verification/UsersProps.thy ===== *)
theory UsersProps
  imports UsersOps
begin

text \<open>
  Adding sessions and moving them between users, the states that the users manager reaches, and
  its properties.
\<close>

section \<open>Adding and moving\<close>

definition um_new_item :: "(sref \<Rightarrow> session) \<Rightarrow> sref \<Rightarrow> users_manager \<Rightarrow> bool" where
  "um_new_item h item um \<longleftrightarrow> item \<notin> set (ss_GetAllSessions (umAll um))
     \<and> (\<forall>s \<in> set (ss_GetAllSessions (umAll um)). siSessionId (h s) \<noteq> siSessionId (h item))
     \<and> ss_GetSession (siPid (h item)) (siAbility (h item)) (umAll um) = None"

lemma um_new_itemD:
  assumes "um_ok h um" and "um_new_item h item um"
  shows "ss_GetSession p a (umAll um) \<noteq> Some item"
    and "ss_GetSession p a (umAll um) = Some s \<Longrightarrow> siSessionId (h s) \<noteq> siSessionId (h item)"
    and "ss_GetSession p a (um_stack v um) \<noteq> Some item"
    and "item \<notin> set (ss_GetAllSessions (um_stack v um))"
    and "ss_GetSession (siPid (h item)) (siAbility (h item)) (um_stack v um) = None"
proof -
  note D = um_okD [OF assms(1)]
  note mem = stack.inv_all [OF D(1)]
  show A: "ss_GetSession p a (umAll um) \<noteq> Some item" for p a
    using assms(2) mem [of item] by (auto simp: um_new_item_def)
  show "ss_GetSession p a (umAll um) = Some s \<Longrightarrow> siSessionId (h s) \<noteq> siSessionId (h item)"
    using assms(2) mem [of s] unfolding um_new_item_def by blast
  show B: "ss_GetSession p a (um_stack v um) \<noteq> Some item" for p a v using A D(4) by blast
  show "item \<notin> set (ss_GetAllSessions (um_stack v um))" using B stack.inv_all [OF D(3)] by blast
  show "ss_GetSession (siPid (h item)) (siAbility (h item)) (um_stack v um) = None"
    using assms(2) D(4) by (cases "ss_GetSession (siPid (h item)) (siAbility (h item)) (um_stack v um)")
      (auto simp: um_new_item_def)
qed

text \<open>The two insertions, of the container of all users and of the user's, in either order.\<close>

lemma um_add_both:
  assumes ok: "um_ok h um" and new: "um_new_item h item um" and room: "length (ss_GetAllSessions (umAll um)) < SESSION_NUM_MAX"
    and u: "siUserId (h item) = u"
    and all: "umAll um' = snd (ss_AddSession (siPid (h item)) (siAbility (h item)) item (umAll um))"
    and keys: "cmap_ok (umStacks um')"
    and stk: "\<And>v. um_stack v um' = (if v = u
      then snd (ss_AddSession (siPid (h item)) (siAbility (h item)) item (um_stack u um)) else um_stack v um)"
  shows "um_ok h um'"
    and "fst (ss_AddSession (siPid (h item)) (siAbility (h item)) item (umAll um)) = AVSESSION_SUCCESS"
    and "fst (ss_AddSession (siPid (h item)) (siAbility (h item)) item (um_stack u um)) = AVSESSION_SUCCESS"
    and "ss_GetSession p a (umAll um') = (if p = siPid (h item) \<and> a = siAbility (h item) then Some item
      else ss_GetSession p a (umAll um))"
    and "ss_GetAllSessions (umAll um') = item # ss_GetAllSessions (umAll um)"
    and "ss_GetAllSessions (um_stack u um') = item # ss_GetAllSessions (um_stack u um)"
proof -
  note D = um_okD [OF ok] and N = um_new_itemD [OF ok new]
  have free: "ss_GetSession (siPid (h item)) (siAbility (h item)) (umAll um) = None"
    and out: "item \<notin> set (ss_GetAllSessions (umAll um))" using new by (simp_all add: um_new_item_def)
  from stack.add_ok [OF D(1) room free out] obtain A where A:
    "ss_AddSession (siPid (h item)) (siAbility (h item)) item (umAll um) = (AVSESSION_SUCCESS, A)" "ss_ok A"
    "ss_GetAllSessions A = item # ss_GetAllSessions (umAll um)"
    "\<And>q b. ss_GetSession q b A = (if q = siPid (h item) \<and> b = siAbility (h item) then Some item
      else ss_GetSession q b (umAll um))" by blast
  have "length (ss_GetAllSessions (um_stack u um)) < SESSION_NUM_MAX"
    using um_user_stack_smaller [OF ok, of u] room by simp
  from stack.add_ok [OF D(3) this N(5) N(4)] obtain B where B:
    "ss_AddSession (siPid (h item)) (siAbility (h item)) item (um_stack u um) = (AVSESSION_SUCCESS, B)" "ss_ok B"
    "ss_GetAllSessions B = item # ss_GetAllSessions (um_stack u um)"
    "\<And>q b. ss_GetSession q b B = (if q = siPid (h item) \<and> b = siAbility (h item) then Some item
      else ss_GetSession q b (um_stack u um))" by blast
  show "fst (ss_AddSession (siPid (h item)) (siAbility (h item)) item (umAll um)) = AVSESSION_SUCCESS"
    "fst (ss_AddSession (siPid (h item)) (siAbility (h item)) item (um_stack u um)) = AVSESSION_SUCCESS"
    "ss_GetAllSessions (umAll um') = item # ss_GetAllSessions (umAll um)"
    "ss_GetAllSessions (um_stack u um') = item # ss_GetAllSessions (um_stack u um)"
    using A B all stk by simp_all
  show L: "ss_GetSession p a (umAll um') = (if p = siPid (h item) \<and> a = siAbility (h item) then Some item
      else ss_GetSession p a (umAll um))" for p a using A all by simp
  have S1: "um_stacks_ok um'" using A B D keys by (simp add: um_stacks_ok_def all stk)
  have S2: "ss_GetSession p a (um_stack v um') =
      (if v = siUserId (h item) \<and> p = siPid (h item) \<and> a = siAbility (h item) then Some item
       else ss_GetSession p a (um_stack v um))" for v p a using B u stk by simp
  show "um_ok h um'" by (rule um_ok_add [OF ok S1 N(1) _ L S2 free]) (rule N(2))
qed

lemma um_AddSession_ok:
  assumes ok: "um_ok h um" and new: "um_new_item h item um" and u: "siUserId (h item) = um_user userId um"
    and r: "um_AddSessionForCurrentUser (siPid (h item)) (siAbility (h item)) item userId um = (r, um')"
  shows "if length (ss_GetAllSessions (umAll um)) < SESSION_NUM_MAX
    then r = AVSESSION_SUCCESS \<and> um_ok h um'
      \<and> ss_GetAllSessions (umAll um') = item # ss_GetAllSessions (umAll um)
      \<and> ss_GetAllSessions (um_stack (siUserId (h item)) um') = item # ss_GetAllSessions (um_stack (siUserId (h item)) um)
    else r = ERR_SESSION_EXCEED_MAX \<and> um' = um"
proof (cases "length (ss_GetAllSessions (umAll um)) < SESSION_NUM_MAX")
  case True
  let ?add = "\<lambda>st. ss_AddSession (siPid (h item)) (siAbility (h item)) item st"
  let ?u = "um_user userId um"
  have all_ok: "fst (?add (umAll um)) = AVSESSION_SUCCESS"
    using stack.add_ok [OF um_okD(1) [OF ok] True, of "siPid (h item)" "siAbility (h item)" item] new
    by (auto simp: um_new_item_def)
  let ?um = "um\<lparr>umAll := snd (?add (umAll um))\<rparr>"
  have um': "um' = um_set_container ?u (snd (?add (um_stack ?u um))) (snd (um_GetContainerFromUser ?u ?um))"
    and r_eq: "r = fst (?add (um_stack ?u um))"
    using r all_ok by (auto simp: um_AddSessionForCurrentUser_def split_beta Let_def)
  have "cmap_ok (umStacks um')" using um_okD(2) [OF ok] by (simp add: um')
  moreover have "umAll um' = snd (?add (umAll um))" by (simp add: um')
  moreover have "um_stack v um' = (if v = ?u then snd (?add (um_stack ?u um)) else um_stack v um)" for v
    by (simp add: um')
  ultimately show ?thesis
    using um_add_both [OF ok new True u, of um'] r_eq True u by auto
next
  case False
  then have "?thesis \<longleftrightarrow> r = ERR_SESSION_EXCEED_MAX \<and> um' = um" by simp
  moreover have "ss_AddSession (siPid (h item)) (siAbility (h item)) item (umAll um) = (ERR_SESSION_EXCEED_MAX, umAll um)"
    using False stack.add_full [OF um_okD(1) [OF ok]] by simp
  ultimately show ?thesis using r by (auto simp: um_AddSessionForCurrentUser_def Let_def)
qed

text \<open>Sessions of the containers that keep what the manager reads of them.\<close>

definition um_same_items :: "(sref \<Rightarrow> session) \<Rightarrow> (sref \<Rightarrow> session) \<Rightarrow> users_manager \<Rightarrow> bool" where
  "um_same_items h h' um \<longleftrightarrow> (\<forall>s \<in> set (ss_GetAllSessions (umAll um)).
     siSessionId (h' s) = siSessionId (h s) \<and> siPid (h' s) = siPid (h s)
     \<and> siAbility (h' s) = siAbility (h s) \<and> siUserId (h' s) = siUserId (h s))"

lemma um_ok_same_items:
  assumes ok: "um_ok h um" and same: "um_same_items h h' um"
  shows "um_ok h' um"
proof -
  note D = um_okD [OF ok]
  have same: "siSessionId (h' s) = siSessionId (h s)" "siPid (h' s) = siPid (h s)"
    "siAbility (h' s) = siAbility (h s)" "siUserId (h' s) = siUserId (h s)"
    if "ss_GetSession p a (umAll um) = Some s" for p a s
    using same stack.inv_all [OF D(1), of s] that unfolding um_same_items_def by blast+
  have "um_ids_ok h' um"
    unfolding um_ids_ok_def
  proof (rule inj_onI)
    fix s t assume st: "s \<in> set (ss_GetAllSessions (umAll um))" "t \<in> set (ss_GetAllSessions (umAll um))"
      "siSessionId (h' s) = siSessionId (h' t)"
    with assms(2) have "siSessionId (h s) = siSessionId (h t)" by (simp add: um_same_items_def)
    with st inj_onD [OF D(6)] show "s = t" by blast
  qed
  moreover have "um_partition h' um" unfolding um_partition_def using D(4) same(4) by (metis (full_types))
  moreover have "um_keys_ok h' um" unfolding um_keys_ok_def using D(5) same(2,3) by metis
  ultimately show ?thesis using ok by (simp add: um_ok_def)
qed

text \<open>Moving a session to another user.\<close>

lemma um_UpdateSessionForUserChange_ok:
  assumes ok: "um_ok (items h) um"
    and item: "ss_GetSession p a (umAll um) = Some item" and old: "oldUserId = siUserId (items h item)"
    and r: "um_UpdateSessionForUserChange oldUserId newUserId item h um = (r, h', um')"
  shows "r = AVSESSION_SUCCESS" and "h' = upd_item item (si_SetUserId newUserId) h" and "um_ok (items h') um'"
    and "ss_GetSession q b (umAll um') = ss_GetSession q b (umAll um)"
    and "ss_GetAllSessions (umAll um') = item # list_remove item (ss_GetAllSessions (umAll um))"
proof -
  note D = um_okD [OF ok]
  let ?s = "items h item"
  let ?rm = "\<lambda>st. snd (ss_RemoveSessionById (items h) (siSessionId ?s) st)"
  let ?add = "\<lambda>st. ss_AddSession (siPid ?s) (siAbility ?s) item st"
  define um1 where "um1 = um_remove_item (items h) item um"
  have pa: "p = siPid ?s" "a = siAbility ?s" using D(5) [OF item] by simp_all
  note R = um_remove_item_ok [OF ok item, folded um1_def]
  have um1: "umAll um1 = ?rm (umAll um)"
    "um_stack v um1 = (if v = oldUserId then ?rm (um_stack oldUserId um) else um_stack v um)" for v
    using old by (simp_all add: um1_def um_remove_item_def split_beta Let_def)
  let ?h = "items (upd_item item (si_SetUserId newUserId) h)"
  have gone: "item \<notin> set (ss_GetAllSessions (umAll um1))"
    using stack.inv_all [OF um_okD(1) [OF R(1)], of item] R(2) by simp
  then have ok1: "um_ok ?h um1"
    by (intro um_ok_same_items [OF R(1)]) (auto simp: um_same_items_def)
  have fields: "siPid (?h item) = siPid ?s" "siAbility (?h item) = siAbility ?s"
    "siUserId (?h item) = newUserId" by (simp_all add: si_SetUserId_def)
  have free: "ss_GetSession (siPid ?s) (siAbility ?s) (umAll um1) = None"
    unfolding R(2) using item pa by (simp add: opt_drop_def)
  have new: "um_new_item ?h item um1"
  proof -
    have "siSessionId (items h s) \<noteq> siSessionId ?s" if s: "s \<in> set (ss_GetAllSessions (umAll um1))" for s
    proof -
      obtain q b where "ss_GetSession q b (umAll um) = Some s"
        using s stack.inv_all [OF um_okD(1) [OF R(1)], of s] R(2) by auto
      with um_same_id [OF ok _ item] s gone show ?thesis by blast
    qed
    with gone free fields show ?thesis by (auto simp: um_new_item_def si_SetUserId_def)
  qed
  have all_list: "ss_GetAllSessions (umAll um1) = list_remove item (ss_GetAllSessions (umAll um))"
  proof -
    have "siSessionId (items h s) \<noteq> siSessionId ?s \<longleftrightarrow> s \<noteq> item" if "s \<in> set (ss_GetAllSessions (umAll um))" for s
      using that stack.inv_all [OF D(1), of s] um_same_id [OF ok _ item] by blast
    then show ?thesis
      unfolding um1(1) ss_RemoveSessionById_lookup(3) [OF D(1)] list_remove_def by (auto intro: filter_cong)
  qed
  have "item \<in> set (ss_GetAllSessions (umAll um))" using stack.inv_all [OF D(1)] item by blast
  then have room: "length (ss_GetAllSessions (umAll um1)) < SESSION_NUM_MAX"
    unfolding all_list list_remove_def
    using stack.inv_limit [OF D(1)] by (intro less_le_trans [OF length_filter_less]) auto
  define um2 where "um2 = um_set_container newUserId (snd (?add (um_stack newUserId um1)))
    (snd (um_GetContainerFromUser newUserId um1))"
  have um2: "umAll (um2\<lparr>umAll := snd (?add (umAll um1))\<rparr>) = snd (ss_AddSession (siPid (?h item)) (siAbility (?h item)) item (umAll um1))"
    "cmap_ok (umStacks (um2\<lparr>umAll := snd (?add (umAll um1))\<rparr>))"
    using um_okD(2) [OF R(1)] by (simp_all add: um2_def si_SetUserId_def)
  have um2_stack: "um_stack v (um2\<lparr>umAll := snd (?add (umAll um1))\<rparr>) = (if v = newUserId
      then snd (ss_AddSession (siPid (?h item)) (siAbility (?h item)) item (um_stack newUserId um1)) else um_stack v um1)" for v
    by (simp add: um2_def si_SetUserId_def)
  note A = um_add_both [OF ok1 new room fields(3) um2 um2_stack]
  have "fst (?add (um_stack newUserId um1)) = AVSESSION_SUCCESS"
    "fst (?add (umAll um1)) = AVSESSION_SUCCESS" using A(2,3) fields by simp_all
  then have res: "r = AVSESSION_SUCCESS \<and> h' = upd_item item (si_SetUserId newUserId) h
      \<and> um' = um2\<lparr>umAll := snd (?add (umAll um1))\<rparr>"
    using r unfolding um2_def um1_def old
    by (auto simp: um_UpdateSessionForUserChange_def um_remove_item_def split_beta Let_def)
  then show "r = AVSESSION_SUCCESS" "h' = upd_item item (si_SetUserId newUserId) h" by simp_all
  from res have "h' = upd_item item (si_SetUserId newUserId) h" "um' = um2\<lparr>umAll := snd (?add (umAll um1))\<rparr>"
    by simp_all
  with A(1) show "um_ok (items h') um'" by (simp only:)
  show "ss_GetAllSessions (umAll um') = item # list_remove item (ss_GetAllSessions (umAll um))"
    using A(5) res all_list by simp
  have "ss_GetSession q b (umAll um') = (if q = p \<and> b = a then Some item else ss_GetSession q b (umAll um1))"
    using A(4) [of q b] res fields pa by simp
  also have "\<dots> = ss_GetSession q b (umAll um)"
    unfolding R(2) using item stack.inv_inj [OF D(1) item, of q b]
    by (cases "ss_GetSession q b (umAll um)") (auto simp: opt_drop_def)
  finally show "ss_GetSession q b (umAll um') = ss_GetSession q b (umAll um)" .
qed

section \<open>Reachable states\<close>

text \<open>
  What the service does with the manager: it adds a new session under its own process, ability and
  user, removes sessions, moves a session from its user to another, passes account events on, and
  works on the lists, listeners and top sessions. Between these steps the sessions change, but no
  session of a container changes its id, process, ability or user.
\<close>

inductive um_step :: "store \<times> users_manager \<Rightarrow> store \<times> users_manager \<Rightarrow> bool" where
  um_add: "um_new_item (items h) item um \<Longrightarrow> siUserId (items h item) = um_user userId um \<Longrightarrow>
    um_AddSessionForCurrentUser (siPid (items h item)) (siAbility (items h item)) item userId um = (r, um') \<Longrightarrow>
    um_step (h, um) (h, um')"
| um_remove: "um_RemoveSessionForAllUser (items h) p a um = (res, um') \<Longrightarrow> um_step (h, um) (h, um')"
| um_remove_id: "um_RemoveSessionForAllUserById (items h) sid um = (res, um') \<Longrightarrow> um_step (h, um) (h, um')"
| um_remove_pid: "um_RemoveSessionForAllUserByPid (items h) p um = (rs, um') \<Longrightarrow> um_step (h, um) (h, um')"
| um_user_change: "item \<in> set (ss_GetAllSessions (umAll um)) \<Longrightarrow>
    um_UpdateSessionForUserChange (siUserId (items h item)) u item h um = (r, h', um') \<Longrightarrow>
    um_step (h, um) (h', um')"
| um_event: "um_step (h, um) (h, um_account_event (items h) e u um)"
| um_container: "um_step (h, um) (h, snd (um_GetContainerFromUser u um))"
| um_others: "umAll um' = umAll um \<Longrightarrow> umStacks um' = umStacks um \<Longrightarrow> um_same_items (items h) (items h') um \<Longrightarrow>
    um_step (h, um) (h', um')"

inductive um_reachable :: "store \<times> users_manager \<Rightarrow> bool" where
  um_init: "um_reachable (h, new_users_manager removable)"
| um_steps: "um_reachable x \<Longrightarrow> um_step x y \<Longrightarrow> um_reachable y"

inductive_cases um_stepE: "um_step (h, um) (h', um')"

lemma um_ok_new [simp]: "um_ok h (new_users_manager removable)"
  by (simp add: um_ok_def um_stacks_ok_def um_partition_def um_ids_ok_def um_keys_ok_def um_stack_def
      new_users_manager_def ss_GetSession_def ss_GetAllSessions_def new_session_stack_def)
    (simp add: ss_ok_def)

lemma um_ok_container: "um_ok h um \<Longrightarrow> um_ok h (snd (um_GetContainerFromUser u um))"
  by (auto simp: um_ok_def um_stacks_ok_def um_partition_def um_ids_ok_def um_keys_ok_def)

lemma um_step_ok: "um_step x y \<Longrightarrow> um_ok (items (fst x)) (snd x) \<Longrightarrow> um_ok (items (fst y)) (snd y)"
proof (induction rule: um_step.induct)
  case (um_add h item um userId r um')
  then show ?case using um_AddSession_ok [of "items h" um item userId r um'] by (auto split: if_splits)
next
  case (um_user_change item um h u r h' um')
  then obtain p a where "ss_GetSession p a (umAll um) = Some item"
    using stack.inv_all [OF um_okD(1), of "items h" um item] by auto
  from um_UpdateSessionForUserChange_ok(3) [OF _ this refl um_user_change(2)] um_user_change(3)
  show ?case by simp
next
  case (um_event h um e u)
  show ?case
  proof (cases e)
    case SWITCHED
    with um_event um_ok_cong [of "um_account_event (items h) SWITCHED u um" um "items h"] show ?thesis
      by (simp add: um_account_event_def)
  next
    case REMOVED
    with um_event um_HandleUserRemoved_ok(1) [OF _ refl, of "items h" um u] show ?thesis
      by (simp add: um_account_event_def)
  qed
next
  case (um_others um' um h h')
  then show ?case using um_ok_same_items [of "items h" um "items h'"] um_ok_cong [of um' um] by simp
qed (auto intro: um_RemoveSessionForAllUser_ok(2) um_RemoveSessionForAllUserById_ok(1)
    um_RemoveSessionForAllUserByPid_ok(1) um_ok_container)

lemma um_reachable_okI: "um_reachable x \<Longrightarrow> um_ok (items (fst x)) (snd x)"
  by (induction rule: um_reachable.induct) (auto intro: um_step_ok)

section \<open>Properties\<close>

text \<open>C2: in every state that the users manager reaches, the container of all users holds exactly the
  sessions of the containers of the users, under the same keys, and a session is in the container
  of the user it belongs to and in no other; ids and keys are unique, and no container holds more
  than fifty sessions.\<close>

theorem um_reachable_partition:
  assumes "um_reachable (h, um)"
  shows "um_ok (items h) um
    \<and> (\<forall>u p a s. ss_GetSession p a (um_stack u um) = Some s
        \<longleftrightarrow> ss_GetSession p a (umAll um) = Some s \<and> siUserId (items h s) = u)
    \<and> (\<forall>u. length (ss_GetAllSessions (um_stack u um)) \<le> SESSION_NUM_MAX)"
proof -
  have ok: "um_ok (items h) um" using um_reachable_okI [OF assms] by simp
  then show ?thesis using um_okD(4) [OF ok] stack.inv_limit [OF um_okD(3) [OF ok]] by blast
qed

definition example_store :: store where
  "example_store = \<lparr>items = (\<lambda>n. new_session\<lparr>siSessionId := [char_of n], siPid := int n,
     siAbility := ''a'', siUserId := 100\<rparr>), ctrls = (\<lambda>_. \<lparr>ctPid = 0, ctSession = None, ctSessionId = [],
     ctUserId = 0, ctFromSession = False, ctHasCallback = False\<rparr>)\<rparr>"

definition example_users :: users_manager where
  "example_users = snd (um_AddSessionForCurrentUser 7 ''a'' 7 0 (new_users_manager (\<lambda>_. True)))"

lemma example_reachable: "um_reachable (example_store, example_users)"
proof -
  have "um_new_item (items example_store) 7 (new_users_manager (\<lambda>_. True))"
    by (simp add: um_new_item_def new_users_manager_def new_session_stack_def ss_GetAllSessions_def ss_GetSession_def)
  moreover have "siUserId (items example_store 7) = um_user 0 (new_users_manager (\<lambda>_. True))"
    by (simp add: example_store_def um_user_def new_users_manager_def)
  moreover have "um_AddSessionForCurrentUser (siPid (items example_store 7)) (siAbility (items example_store 7)) 7 0
      (new_users_manager (\<lambda>_. True)) = (fst (um_AddSessionForCurrentUser 7 ''a'' 7 0 (new_users_manager (\<lambda>_. True))), example_users)"
    by (simp add: example_users_def example_store_def)
  ultimately show ?thesis by (rule um_steps [OF um_init um_add])
qed

lemma example_all: "ss_GetSession 7 ''a'' (umAll example_users) = Some 7"
  by (simp add: example_users_def um_AddSessionForCurrentUser_def new_users_manager_def ss_AddSession_def
      new_session_stack_def SESSION_NUM_MAX_def um_GetContainerFromUser_def um_user_def um_set_container_def
      ss_GetSession_def cmap_insert_def)

theorem um_reachable_partition_witness: "ss_GetSession 7 ''a'' (um_stack 100 example_users) = Some 7"
proof -
  have "siUserId (items example_store 7) = 100" by (simp add: example_store_def)
  then show ?thesis using um_reachable_partition [OF example_reachable] example_all by blast
qed

text \<open>a new session is added to both containers or to none: with fewer than fifty sessions the
  second insertion cannot fail, and the session is first in both lists; otherwise the result is
  ERR_SESSION_EXCEED_MAX and nothing changes.\<close>

theorem um_AddSession_both_or_none:
  assumes "um_reachable (h, um)" and "um_new_item (items h) item um"
    and "siUserId (items h item) = um_user userId um"
    and "um_AddSessionForCurrentUser (siPid (items h item)) (siAbility (items h item)) item userId um = (r, um')"
  shows "if length (ss_GetAllSessions (umAll um)) < SESSION_NUM_MAX
    then r = AVSESSION_SUCCESS \<and> ss_GetAllSessions (umAll um') = item # ss_GetAllSessions (umAll um)
      \<and> ss_GetAllSessions (um_stack (siUserId (items h item)) um')
        = item # ss_GetAllSessions (um_stack (siUserId (items h item)) um)
    else r = ERR_SESSION_EXCEED_MAX \<and> um' = um"
proof -
  have "um_ok (items h) um" using um_reachable_okI [OF assms(1)] by simp
  from um_AddSession_ok [OF this assms(2-4)] show ?thesis by (simp split: if_splits)
qed

theorem um_AddSession_both_or_none_witness:
  "ss_GetAllSessions (umAll (snd (um_AddSessionForCurrentUser 8 ''a'' 8 100 example_users))) = [8, 7]"
proof -
  have all: "umAll example_users = \<lparr>ssSessions = [((7, ''a''), 7)], ssStack = [7], ssReclaimTask = False\<rparr>"
    by (simp add: example_users_def um_AddSessionForCurrentUser_def new_users_manager_def ss_AddSession_def
        new_session_stack_def SESSION_NUM_MAX_def um_GetContainerFromUser_def um_user_def um_set_container_def
        cmap_insert_def ss_PostReclaimMemoryTask_def ss_CheckSessionStateIdle_def)
  have "um_new_item (items example_store) 8 example_users"
    by (simp add: um_new_item_def all ss_GetAllSessions_def ss_GetSession_def example_store_def)
  moreover have "siUserId (items example_store 8) = um_user 100 example_users"
    by (simp add: example_store_def um_user_def)
  ultimately show ?thesis
    using um_AddSession_both_or_none [OF example_reachable _ _ prod.collapse [symmetric], of 8 100]
    by (simp add: all ss_GetAllSessions_def SESSION_NUM_MAX_def example_store_def)
qed

text \<open>
  What the operations of the users manager achieve: a removed session is in no container and has no
  cache file, a removed user leaves nothing behind and disturbs no other user, a session that
  changes its user keeps its key, and what \<^verbatim>\<open>UpdateSessionForCurrentUser\<close> does to a session of
  another user.
\<close>

lemma um_Remove_frame:
  "um_RemoveSessionForAllUser h p a um = (Some s, um') \<Longrightarrow> umFiles um' =
     DeleteFile (umRemovable um) (GetCachePathNameForCast (siUserId (h s)) @ siSessionId (h s) @ FILE_SUFFIX)
       (DeleteFile (umRemovable um) (GetCachePathName (siUserId (h s)) @ siSessionId (h s) @ FILE_SUFFIX)
         (umFiles um))"
  by (auto simp: um_RemoveSessionForAllUser_def um_delete_cache_def split_beta Let_def split: option.splits)

text \<open>C24: RemoveSessionForAllUser(pid, ability) returns the session of that key, and then no
  container holds it, the key is free for every user, its two cache files are deleted (one that the
  operating system does not remove keeps what it held), no other file changes, and every other
  session stays where it was; without such a session nothing changes.\<close>

theorem um_RemoveSession_everywhere:
  assumes "um_reachable (h, um)" and "um_RemoveSessionForAllUser (items h) p a um = (r, um')"
  shows "r = ss_GetSession p a (umAll um)
    \<and> ss_GetSession p a (umAll um') = None \<and> (\<forall>u. ss_GetSession p a (um_stack u um') = None)
    \<and> (\<forall>s. r = Some s \<longrightarrow> s \<notin> set (ss_GetAllSessions (umAll um')) \<and> (\<forall>u. s \<notin> set (ss_GetAllSessions (um_stack u um')))
        \<and> (\<forall>f. umFiles um' f =
              (if umRemovable um f
                  \<and> f \<in> {GetCachePathName (siUserId (items h s)) @ siSessionId (items h s) @ FILE_SUFFIX,
                         GetCachePathNameForCast (siUserId (items h s)) @ siSessionId (items h s) @ FILE_SUFFIX}
               then None else umFiles um f)))
    \<and> (r = None \<longrightarrow> um' = um)
    \<and> (\<forall>q b s. r \<noteq> Some s \<longrightarrow> (ss_GetSession q b (umAll um') = Some s \<longleftrightarrow> ss_GetSession q b (umAll um) = Some s))"
proof -
  have ok: "um_ok (items h) um" using um_reachable_okI [OF assms(1)] by simp
  note R = um_RemoveSessionForAllUser_ok [OF ok assms(2)]
  note D = um_okD [OF R(2)]
  have gone: "ss_GetSession q b (umAll um') \<noteq> Some s" if "r = Some s" for q b s using R(3) that by simp
  then have "s \<notin> set (ss_GetAllSessions (umAll um'))" "s \<notin> set (ss_GetAllSessions (um_stack u um'))"
    if "r = Some s" for s u
    using that stack.inv_all [OF D(1), of s] stack.inv_all [OF D(3) [of u], of s] D(4) by blast+
  moreover have "ss_GetSession p a (umAll um') = None" using R(1,3) by (auto simp: opt_drop_def split: option.splits)
  moreover from this have "ss_GetSession p a (um_stack u um') = None" for u
    using D(4) by (cases "ss_GetSession p a (um_stack u um')") auto
  moreover have "umFiles um' f = (if umRemovable um f
      \<and> f \<in> {GetCachePathName (siUserId (items h s)) @ siSessionId (items h s) @ FILE_SUFFIX,
             GetCachePathNameForCast (siUserId (items h s)) @ siSessionId (items h s) @ FILE_SUFFIX}
     then None else umFiles um f)" if "r = Some s" for s f
    using um_Remove_frame [of "items h" p a um s um'] assms(2) that by (simp add: DeleteFile_def)
  moreover have "r = None \<Longrightarrow> um' = um"
    using assms(2) by (auto simp: um_RemoveSessionForAllUser_def ss_RemoveSession_def Let_def split: option.splits prod.splits)
  ultimately show ?thesis using R(1,3) by simp
qed

theorem um_RemoveSession_everywhere_witness:
  "fst (um_RemoveSessionForAllUser (items example_store) 7 ''a'' example_users) = Some 7
   \<and> 7 \<notin> set (ss_GetAllSessions (um_stack 100 (snd (um_RemoveSessionForAllUser (items example_store) 7 ''a'' example_users))))"
  using um_RemoveSession_everywhere [OF example_reachable prod.collapse [symmetric], of 7 "''a''"] example_all by simp

text \<open>when a user is removed, no container holds a session of the user, the user has no container,
  list, listeners or top session left and is not alive; the sessions, containers, lists and top
  sessions of every other user are as before.\<close>

theorem um_user_removed:
  assumes "um_reachable (h, um)" and "um' = um_account_event (items h) REMOVED u um"
  shows "um_ok (items h) um'
    \<and> (\<forall>p a s. ss_GetSession p a (umAll um') = Some s
        \<longleftrightarrow> ss_GetSession p a (umAll um) = Some s \<and> siUserId (items h s) \<noteq> u)
    \<and> map_of (umStacks um') u = None \<and> map_of (umFront um') u = None \<and> map_of (umKeyEvent um') u = None
    \<and> map_of (umListeners um') u = None \<and> um_GetTopSession u um' = None \<and> \<not> um_IsUserAlive u um'
    \<and> (\<forall>v. v \<noteq> u \<longrightarrow> um_stack v um' = um_stack v um \<and> map_of (umFront um') v = map_of (umFront um) v
        \<and> map_of (umKeyEvent um') v = map_of (umKeyEvent um) v
        \<and> map_of (umListeners um') v = map_of (umListeners um) v
        \<and> um_GetTopSession v um' = um_GetTopSession v um \<and> um_IsUserAlive v um' = um_IsUserAlive v um)"
proof -
  have ok: "um_ok (items h) um" using um_reachable_okI [OF assms(1)] by simp
  have um': "um' = um_HandleUserRemoved (items h) u um" using assms(2) by (simp add: um_account_event_def)
  note R = um_HandleUserRemoved_ok [OF ok um']
  have maps: "umFront um' = cmap_erase u (umFront um)" "umKeyEvent um' = cmap_erase u (umKeyEvent um)"
    "umListeners um' = cmap_erase u (umListeners um)" "umTop um' = cmap_erase u (umTop um)"
    "umAlive um' = list_remove u (umAlive um)"
    unfolding um' by (simp_all add: um_HandleUserRemoved_def Let_def split: option.splits)
  have "map_of (umStacks um') u = None"
    unfolding um' by (simp add: um_HandleUserRemoved_def Let_def map_of_cmap_erase split: option.splits)
  with R maps show ?thesis
    by (simp add: um_GetTopSession_def um_IsUserAlive_def map_of_cmap_erase)
qed

theorem um_user_removed_witness:
  "ss_GetSession 7 ''a'' (umAll (um_account_event (items example_store) REMOVED 100 example_users)) \<noteq> Some 7"
proof -
  have "siUserId (items example_store 7) = 100" by (simp add: example_store_def)
  then show ?thesis using um_user_removed [OF example_reachable refl, of 100] by blast
qed

text \<open>UpdateSessionForUserChange succeeds on every session, keeps the keys and moves the session to
  the front of the container of its new user; it sets the session's user and leaves the user in
  the session's descriptor as it was.\<close>

theorem um_user_change:
  assumes "um_reachable (h, um)" and "item \<in> set (ss_GetAllSessions (umAll um))"
    and "um_UpdateSessionForUserChange (siUserId (items h item)) u item h um = (r, h', um')"
  shows "r = AVSESSION_SUCCESS \<and> um_ok (items h') um'
    \<and> (\<forall>p a. ss_GetSession p a (umAll um') = ss_GetSession p a (umAll um))
    \<and> ss_GetSession (siPid (items h item)) (siAbility (items h item)) (um_stack u um') = Some item
    \<and> siUserId (items h' item) = u \<and> siDescUserId (items h' item) = siDescUserId (items h item)"
proof -
  have ok: "um_ok (items h) um" using um_reachable_okI [OF assms(1)] by simp
  obtain p a where item: "ss_GetSession p a (umAll um) = Some item"
    using stack.inv_all [OF um_okD(1) [OF ok]] assms(2) by blast
  note R = um_UpdateSessionForUserChange_ok [OF ok item refl assms(3)]
  have "p = siPid (items h item)" "a = siAbility (items h item)" using um_okD(5) [OF ok item] by simp_all
  then have "ss_GetSession (siPid (items h item)) (siAbility (items h item)) (umAll um') = Some item"
    using R(4) item by simp
  moreover have "siUserId (items h' item) = u" "siDescUserId (items h' item) = siDescUserId (items h item)"
    using R(2) by (simp_all add: si_SetUserId_def)
  ultimately show ?thesis using R um_okD(4) [OF R(3)] by simp
qed

theorem um_user_change_witness:
  "ss_GetSession 7 ''a'' (um_stack 101 (snd (snd (um_UpdateSessionForUserChange 100 101 7 example_store example_users)))) = Some 7"
proof -
  have "7 \<in> set (ss_GetAllSessions (umAll example_users))"
    using stack.inv_all [OF um_okD(1) [OF um_reachable_okI [OF example_reachable]], of 7] example_all by auto
  moreover have "siUserId (items example_store 7) = 100" "siPid (items example_store 7) = 7"
    "siAbility (items example_store 7) = ''a''" by (simp_all add: example_store_def)
  ultimately show ?thesis
    using um_user_change [OF example_reachable, of 7 101] by (metis prod.collapse)
qed

text \<open>UpdateSessionForCurrentUser re-keys a session under the current user: for a session of
  another user it reports success, and the session is then in the container of the current user
  and no longer in that of its own user.\<close>

theorem um_update_moves_to_current_user:
  assumes "um_reachable (h, um)" and "ss_GetSession p a (umAll um) = Some item"
    and "siUserId (items h item) \<noteq> umCurUser um" and "ss_GetSession p b (umAll um) = None \<or> b = a"
    and "um_UpdateSessionForCurrentUser (items h) p a b item um = (r, um')"
  shows "r = AVSESSION_SUCCESS \<and> ss_GetSession p b (um_stack (umCurUser um) um') = Some item
    \<and> item \<notin> set (ss_GetAllSessions (um_stack (siUserId (items h item)) um'))"
proof -
  have ok: "um_ok (items h) um" using um_reachable_okI [OF assms(1)] by simp
  obtain um1 res where rm: "um_RemoveSessionForAllUser (items h) p a um = (res, um1)" by fastforce
  note R = um_RemoveSessionForAllUser_ok [OF ok rm]
  note D = um_okD [OF R(2)]
  have res: "res = Some item" using R(1) assms(2) by simp
  have cur: "umCurUser um1 = umCurUser um"
    using rm by (auto simp: um_RemoveSessionForAllUser_def split_beta Let_def split: option.splits)
  have none: "ss_GetSession q c (umAll um1) \<noteq> Some item" for q c using R(3) res by simp
  then have out: "item \<notin> set (ss_GetAllSessions (umAll um1))" "item \<notin> set (ss_GetAllSessions (um_stack u um1))" for u
    using stack.inv_all [OF D(1), of item] stack.inv_all [OF D(3) [of u], of item] D(4) by blast+
  have free: "ss_GetSession p b (umAll um1) = None"
    using R(1,3) res assms(4) by (auto simp: opt_drop_def split: option.splits)
  then have freeu: "ss_GetSession p b (um_stack u um1) = None" for u
    using D(4) by (cases "ss_GetSession p b (um_stack u um1)") auto
  have "set (ss_GetAllSessions (umAll um1)) \<subset> set (ss_GetAllSessions (umAll um))"
    using R(3) none stack.inv_all [OF D(1)] stack.inv_all [OF um_okD(1) [OF ok]] assms(2) by (auto simp: psubset_eq)
  from psubset_card_mono [OF _ this] have room: "length (ss_GetAllSessions (umAll um1)) < SESSION_NUM_MAX"
    using stack.inv_distinct [OF D(1)] stack.inv_distinct [OF um_okD(1) [OF ok]] stack.inv_limit [OF um_okD(1) [OF ok]]
    by (simp add: distinct_card)
  from stack.add_ok [OF D(1) room free out(1)] obtain A where A:
    "ss_AddSession p b item (umAll um1) = (AVSESSION_SUCCESS, A)" by blast
  have "length (ss_GetAllSessions (um_stack (umCurUser um) um1)) < SESSION_NUM_MAX"
    using um_user_stack_smaller [OF R(2)] room by (rule le_less_trans)
  from stack.add_ok [OF D(3) this freeu out(2)] obtain B where B:
    "ss_AddSession p b item (um_stack (umCurUser um) um1) = (AVSESSION_SUCCESS, B)"
    "ss_GetSession p b B = Some item" by auto
  have "r = AVSESSION_SUCCESS \<and> um_stack (umCurUser um) um' = B
      \<and> um_stack (siUserId (items h item)) um' = um_stack (siUserId (items h item)) um1"
    using assms(3,5) rm res A B(1) cur
    by (auto simp: um_UpdateSessionForCurrentUser_def um_AddSessionForCurrentUser_def um_user_def split_beta Let_def)
  then show ?thesis using B(2) out(2) by simp
qed

theorem um_update_moves_to_current_user_witness:
  "let um = um_account_event (items example_store) SWITCHED 101 example_users
   in ss_GetSession 7 ''b'' (um_stack 101 (snd (um_UpdateSessionForCurrentUser (items example_store) 7 ''a'' ''b'' 7 um))) = Some 7"
proof -
  let ?um = "um_account_event (items example_store) SWITCHED 101 example_users"
  have all: "umAll ?um = umAll example_users" "umCurUser ?um = 101" by (simp_all add: um_account_event_def)
  have "ss_GetSession 7 ''b'' (umAll ?um) = None"
    by (subst all(1)) (simp add: example_users_def um_AddSessionForCurrentUser_def new_users_manager_def ss_AddSession_def
        new_session_stack_def SESSION_NUM_MAX_def um_GetContainerFromUser_def um_user_def um_set_container_def
        ss_GetSession_def cmap_insert_def)
  moreover have "um_reachable (example_store, ?um)" by (rule um_steps [OF example_reachable um_event])
  moreover have "siUserId (items example_store 7) = 100" by (simp add: example_store_def)
  ultimately show ?thesis
    using um_update_moves_to_current_user [of example_store ?um 7 "''a''" 7 "''b''", OF _ _ _ _ prod.collapse [symmetric]]
      example_all all by (simp add: Let_def)
qed

end
