(* ===== verification/UtilsProps.thy ===== *)
theory UtilsProps
  imports Utils
begin

text \<open>
  Properties of the utilities: image and pair files read back what was written, the cleaning of
  the cache keeps the files of the sessions that live, a file name that passes the check stays in
  its directory, numbers are parsed exactly, and titles are logged without their middle.
\<close>

section \<open>Sizes in files\<close>

lemma bit_of_le_bytes:
  "bit (of_le_bytes bs :: 'a::len word) j
    \<longleftrightarrow> j < LENGTH('a) \<and> j div 8 < length bs \<and> bit (bs ! (j div 8)) (j mod 8)"
proof (induction bs arbitrary: j)
  case (Cons b bs)
  have step: "bit (of_le_bytes (b # bs) :: 'a word) j
      \<longleftrightarrow> j < LENGTH('a) \<and> (bit b j \<or> (8 \<le> j \<and> bit (of_le_bytes bs :: 'a word) (j - 8)))"
    by (auto simp: bit_or_iff bit_push_bit_iff bit_ucast_iff)
  show ?case
  proof (cases "j < 8")
    case True
    then show ?thesis unfolding step by simp
  next
    case False
    then have "(j - 8) div 8 = j div 8 - 1" "(j - 8) mod 8 = j mod 8" "0 < j div 8"
      by (simp_all add: le_div_geq le_mod_geq div_greater_zero_iff)
    moreover have "\<not> bit b j" using False bit_imp_le_length [of b j] by auto
    ultimately show ?thesis
      using False unfolding step Cons.IH by (cases "j div 8") auto
  qed
qed simp

lemma length_le_bytes [simp]: "length (le_bytes n w) = n"
  by (simp add: le_bytes_def)

lemma of_le_bytes_le_bytes:
  assumes "LENGTH('a) \<le> 8 * n"
  shows "of_le_bytes (le_bytes n w) = (w :: 'a::len word)"
proof (rule bit_word_eqI)
  fix j assume j: "j < LENGTH('a)"
  then have "j div 8 < n" using assms by linarith
  with j show "bit (of_le_bytes (le_bytes n w) :: 'a word) j \<longleftrightarrow> bit w j"
    by (simp add: bit_of_le_bytes le_bytes_def bit_ucast_iff bit_drop_bit_eq)
qed

lemma stream_read_full:
  "length old = length xs \<Longrightarrow> stream_read old (xs @ ys, False) = (xs, (ys, False))"
  by (simp add: stream_read_def)

lemma size_word: "0 < n \<Longrightarrow> n \<le> MAX_FILE_SIZE \<Longrightarrow>
    file_size_ok (of_nat n) \<and> unat (of_nat n :: 64 word) = n"
proof -
  assume n: "0 < n" "n \<le> MAX_FILE_SIZE"
  then have "unat (of_nat n :: 64 word) = n"
    by (simp add: MAX_FILE_SIZE_def unat_of_nat take_bit_nat_eq_self)
  moreover have "unat (of_nat MAX_FILE_SIZE :: 64 word) = MAX_FILE_SIZE"
    by (simp add: MAX_FILE_SIZE_def)
  ultimately show ?thesis
    using n by (auto simp: file_size_ok_def word_less_nat_alt unat_eq_0 [symmetric])
qed

lemma read_header:
  "length mem = 8 \<Longrightarrow> stream_read mem (le_bytes 8 (w :: 64 word) @ xs, False) = (le_bytes 8 w, (xs, False))"
  by (simp add: stream_read_full)

section \<open>Cache files\<close>

lemma file_base_name_slash: "CHR ''/'' \<notin> set b \<Longrightarrow> file_base_name (a @ CHR ''/'' # b) = b"
  by (simp add: file_base_name_def find_last_of_split)

lemma file_stem_suffix: "s \<noteq> [] \<Longrightarrow> file_stem (s @ FILE_SUFFIX) = s"
  by (simp add: file_stem_def str_rfind_end FILE_SUFFIX_def)

lemma cache_path_last: "\<exists>p. GetCachePathName userId = p @ ''/''"
  by (intro exI [of _ "DATA_PATH_NAME @ int_to_string userId @ ''/av_session/cache''"])
    (simp add: GetCachePathName_def CACHE_PATH_NAME_def)

lemma cast_path: "GetCachePathNameForCast userId = GetCachePathName userId @ CAST_PREFIX"
  by (simp add: GetCachePathNameForCast_def GetCachePathName_def)

definition plain_session_id :: "string \<Rightarrow> bool" where
  "plain_session_id sid \<longleftrightarrow> sid \<noteq> [] \<and> CHR ''/'' \<notin> set sid \<and> take (length CAST_PREFIX) sid \<noteq> CAST_PREFIX"

lemma cache_file_session:
  assumes "plain_session_id sid"
  shows "stem_session_id (file_stem (file_base_name (GetCachePathName userId @ sid @ FILE_SUFFIX))) = sid"
    and "stem_session_id (file_stem (file_base_name (GetCachePathNameForCast userId @ sid @ FILE_SUFFIX))) = sid"
proof -
  obtain p where p: "GetCachePathName userId = p @ ''/''" using cache_path_last by blast
  have sid: "sid \<noteq> []" "CHR ''/'' \<notin> set sid" "take (length CAST_PREFIX) sid \<noteq> CAST_PREFIX"
    using assms by (simp_all add: plain_session_id_def)
  have suffix: "CHR ''/'' \<notin> set FILE_SUFFIX" "CHR ''/'' \<notin> set CAST_PREFIX"
    by (simp_all add: FILE_SUFFIX_def CAST_PREFIX_def)
  have "file_base_name (GetCachePathName userId @ sid @ FILE_SUFFIX) = sid @ FILE_SUFFIX"
    using file_base_name_slash [of "sid @ FILE_SUFFIX" p] sid suffix p by simp
  then show "stem_session_id (file_stem (file_base_name (GetCachePathName userId @ sid @ FILE_SUFFIX))) = sid"
    using sid by (simp add: file_stem_suffix stem_session_id_def)
  have "file_base_name (GetCachePathNameForCast userId @ sid @ FILE_SUFFIX) = (CAST_PREFIX @ sid) @ FILE_SUFFIX"
    using file_base_name_slash [of "CAST_PREFIX @ sid @ FILE_SUFFIX" p] sid suffix p
    by (simp add: cast_path)
  then have "file_stem (file_base_name (GetCachePathNameForCast userId @ sid @ FILE_SUFFIX)) = CAST_PREFIX @ sid"
    using file_stem_suffix [of "CAST_PREFIX @ sid"] sid by simp
  then show "stem_session_id (file_stem (file_base_name
      (GetCachePathNameForCast userId @ sid @ FILE_SUFFIX))) = sid"
    using sid(1) by (simp add: stem_session_id_def)
qed

lemma foldl_delete:
  "foldl (\<lambda>fs file. if K file then fs else DeleteFile R file fs) fs xs g
    = (if g \<in> set xs \<and> R g \<and> \<not> K g then None else fs g)"
  by (induction xs arbitrary: fs) (auto simp: DeleteFile_def)

section \<open>Properties\<close>

text \<open>an image of at most 4 MB written to a cache file is read back unchanged, whatever the
  memory of the size variable held; a larger or an empty one leaves every file as it was.\<close>

theorem image_file_round_trip:
  assumes "reachable dir \<or> creatable dir" and "openable (dir @ name)" and "length mem = 8"
    and "reachable' dir" and "fs' = WriteImageToFile reachable creatable openable (Some buf) dir name fs"
  shows "if buf \<noteq> [] \<and> length buf \<le> MAX_FILE_SIZE
    then ReadImageFromFile reachable' openable mem (Some old) dir name fs' = Some buf
    else fs' = fs"
proof (cases "buf \<noteq> [] \<and> length buf \<le> MAX_FILE_SIZE")
  case True
  then have "fs' = fs(dir @ name := Some (le_bytes 8 (of_nat (length buf) :: 64 word) @ buf))"
    using assms by (auto simp: WriteImageToFile_def)
  with True assms(2-4) size_word [of "length buf"] show ?thesis
    by (simp add: ReadImageFromFile_def read_header of_le_bytes_le_bytes
        stream_read_full [of _ buf "[]", simplified])
next
  case False
  with assms(5) show ?thesis by (auto simp: WriteImageToFile_def)
qed

theorem image_file_round_trip_witness:
  "ReadImageFromFile (\<lambda>_. True) (\<lambda>_. True) (replicate 8 0xFF) (Some []) ''d/'' ''n''
     (WriteImageToFile (\<lambda>_. True) (\<lambda>_. False) (\<lambda>_. True) (Some [1, 2, 3]) ''d/'' ''n'' (\<lambda>_. None))
   = Some [1, 2, 3]"
  using image_file_round_trip [of "\<lambda>_. True" "''d/''" "\<lambda>_. False" "\<lambda>_. True" "''n''"
      "replicate 8 0xFF" "\<lambda>_. True" _ "[1, 2, 3]" "\<lambda>_. None" "[]", OF _ _ _ _ refl]
  by (simp add: MAX_FILE_SIZE_def)

text \<open>an image file that lost its end is accepted: the missing bytes read as zero.\<close>

theorem truncated_image_zero_filled:
  assumes "reachable dir" and "openable (dir @ name)" and "length mem = 8"
    and "0 < n" and "n \<le> MAX_FILE_SIZE" and "length part < n"
    and "fs (dir @ name) = Some (le_bytes 8 (of_nat n :: 64 word) @ part)"
  shows "ReadImageFromFile reachable openable mem (Some old) dir name fs
    = Some (part @ replicate (n - length part) 0)"
  using assms size_word [of n]
  by (simp add: ReadImageFromFile_def read_header of_le_bytes_le_bytes) (simp add: stream_read_def)

theorem truncated_image_zero_filled_witness:
  "ReadImageFromFile (\<lambda>_. True) (\<lambda>_. True) (replicate 8 0xFF) (Some [9]) ''d/'' ''n''
     [''d/n'' \<mapsto> le_bytes 8 (4 :: 64 word) @ [1, 2]] = Some [1, 2, 0, 0]"
proof -
  have "[1, 2] @ replicate (4 - length [1, 2 :: byte]) 0 = [1, 2, 0, 0 :: byte]"
    by (simp add: numeral_2_eq_2)
  then show ?thesis
    using truncated_image_zero_filled [of "\<lambda>_. True" "''d/''" "\<lambda>_. True" "''n''" "replicate 8 0xFF" 4
        "[1, 2]" "[''d/n'' \<mapsto> le_bytes 8 (4 :: 64 word) @ [1, 2]]" "[9]"]
    by (simp only: MAX_FILE_SIZE_def) simp
qed

text \<open>a device and its mode are read back from the file they were saved to.\<close>

theorem pair_file_round_trip:
  assumes "reachable dir \<or> creatable dir" and "openable (dir @ name)" and "length mem = 8"
    and "reachable' dir" and "str \<noteq> []" and "length str \<le> MAX_FILE_SIZE"
  shows "ReadPairFromFile reachable' openable mem old dir name
    (WritePairToFile reachable creatable openable (str, mode) dir name fs) = (True, str, mode)"
proof -
  have "stream_read (le_bytes 4 (snd old)) (le_bytes 4 mode, False) = (le_bytes 4 mode, ([], False))"
    using stream_read_full [of "le_bytes 4 (snd old)" "le_bytes 4 mode" "[]"] by simp
  moreover have "WritePairToFile reachable creatable openable (str, mode) dir name fs
      = fs(dir @ name := Some (le_bytes 8 (of_nat (length str) :: 64 word) @ str @ le_bytes 4 mode))"
    using assms by (auto simp: WritePairToFile_def)
  ultimately show ?thesis using assms(2-) size_word [of "length str"]
    by (simp add: ReadPairFromFile_def read_header of_le_bytes_le_bytes stream_read_full)
qed

theorem pair_file_round_trip_witness:
  "ReadPairFromFile (\<lambda>_. True) (\<lambda>_. True) (replicate 8 0) ([], 0) ''d/'' ''n''
     (WritePairToFile (\<lambda>_. True) (\<lambda>_. False) (\<lambda>_. True) ([7, 8], 5) ''d/'' ''n'' (\<lambda>_. None))
   = (True, [7, 8], 5)"
  using pair_file_round_trip [of "\<lambda>_. True" "''d/''" "\<lambda>_. False" "\<lambda>_. True" "''n''" "replicate 8 0" "\<lambda>_. True"
      "[7, 8]" "([], 0)" 5 "\<lambda>_. None"]
  by (simp add: MAX_FILE_SIZE_def)

text \<open>C34: DeleteCacheFilesExcluding deletes exactly the listed image files whose session is not
  retained and which the operating system lets it remove, and the local and the cast image file of a retained session are never among them.
  The id of a session has no slash and does not start with the cast prefix.\<close>

theorem DeleteCacheFilesExcluding_spec:
  assumes "plain_session_id sid" and "sid \<in> set ids"
    and "fs' = DeleteCacheFilesExcluding removable getDirFiles path ids fs"
  shows "(\<forall>f. fs' f = (if f \<in> set (getDirFiles path) \<and> removable f \<and> \<not> keeps_file ids f then None else fs f))
    \<and> fs' (GetCachePathName userId @ sid @ FILE_SUFFIX) = fs (GetCachePathName userId @ sid @ FILE_SUFFIX)
    \<and> fs' (GetCachePathNameForCast userId @ sid @ FILE_SUFFIX)
      = fs (GetCachePathNameForCast userId @ sid @ FILE_SUFFIX)"
proof -
  have "keeps_file ids (GetCachePathName userId @ sid @ FILE_SUFFIX)"
    "keeps_file ids (GetCachePathNameForCast userId @ sid @ FILE_SUFFIX)"
    using assms(2) cache_file_session [OF assms(1)] by (simp_all add: keeps_file_def)
  then show ?thesis
    unfolding assms(3) DeleteCacheFilesExcluding_def by (simp add: foldl_delete)
qed

theorem DeleteCacheFilesExcluding_spec_witness:
  "DeleteCacheFilesExcluding (\<lambda>_. True) (\<lambda>p. [GetCachePathName 100 @ ''ab'' @ FILE_SUFFIX]) ''p'' [''ab'']
     (\<lambda>_. Some []) (GetCachePathName 100 @ ''ab'' @ FILE_SUFFIX) = Some []"
proof -
  have "plain_session_id ''ab''" by (simp add: plain_session_id_def CAST_PREFIX_def)
  moreover have "''ab'' \<in> set [''ab'']" by simp
  ultimately show ?thesis
    using DeleteCacheFilesExcluding_spec [OF _ _ refl, where fs = "\<lambda>_. Some []" and userId = 100] by blast
qed

text \<open>a file name that passes IsValidFileName names a file of the directory it is put in: the
  last slash of the path is the directory's, and the name is not the parent directory.\<close>

theorem IsValidFileName_confined:
  assumes "IsValidFileName name"
  shows "find_last_of CHR ''/'' (dir @ ''/'' @ name) = Some (length dir)
    \<and> file_base_name (dir @ ''/'' @ name) = name \<and> name \<noteq> ''..''"
proof -
  have "CHR ''/'' \<notin> set name" using assms by (simp add: IsValidFileName_def str_find_char)
  moreover have "name \<noteq> ''..''"
    using assms str_find_end [of "''..''" "[]"] by (auto simp: IsValidFileName_def)
  ultimately show ?thesis by (simp add: find_last_of_split file_base_name_slash)
qed

theorem IsValidFileName_confined_witness:
  "file_base_name (''/data'' @ ''/'' @ ''q.dat'') = ''q.dat''"
proof -
  have "IsValidFileName ''q.dat''"
    by (simp add: IsValidFileName_def str_find_def occurs_at_def upt_rec)
  from IsValidFileName_confined [OF this, of "''/data''"] show ?thesis by blast
qed

text \<open>StringToInt32 accepts the decimal form of a number exactly when it fits in 32 bits, and
  returns the number.\<close>

theorem StringToInt32_to_string:
  "StringToInt32 (int_to_string i) = (if - (2 ^ 31) \<le> i \<and> i < 2 ^ 31 then Some i else None)"
proof -
  have "takeWhile (\<lambda>c. c \<noteq> CHR 0x00) (int_to_string i) = int_to_string i"
    unfolding takeWhile_eq_all_conv using int_to_string_chars by blast
  then show ?thesis
    using int_to_string_not_Nil [of i, symmetric]
    by (simp add: StringToInt32_def strtol_int_to_string Let_def del: takeWhile_eq_all_conv)
qed

text \<open>The positions of the characters of a text ascend.\<close>

lemma char_positions_props:
  "sorted_wrt (<) (char_positions s)"
  "p \<in> set (char_positions s) \<longleftrightarrow> p < length s \<and> starts_char (s ! p)"
  by (auto simp: char_positions_def sorted_wrt_filter)

lemma char_positions_nth:
  assumes "i < length (char_positions s)"
  shows "char_positions s ! i < length s" and "starts_char (s ! (char_positions s ! i))"
  using nth_mem [OF assms] char_positions_props(2) by blast+

lemma char_positions_less:
  "i < j \<Longrightarrow> j < length (char_positions s) \<Longrightarrow> char_positions s ! i < char_positions s ! j"
  using char_positions_props(1) by (simp add: sorted_wrt_iff_nth_less)

lemma anony_keep_bounds:
  assumes "4 \<le> n" and "anony_keep (3 / 10) n = (kf, kb)"
  shows "1 \<le> kf \<and> 1 \<le> kb \<and> kf + kb + 2 \<le> n"
proof (cases "n \<le> 7")
  case True
  have ceil: "\<lceil>6 / 5 :: rat\<rceil> = 2" "\<lceil>3 / 2 :: rat\<rceil> = 2" "\<lceil>9 / 5 :: rat\<rceil> = 2" "\<lceil>21 / 10 :: rat\<rceil> = 3"
    by (simp_all add: ceiling_eq_iff)
  from True assms(1) have "n = 4 \<or> n = 5 \<or> n = 6 \<or> n = 7" by auto
  then show ?thesis using assms(2)
    by (elim disjE) (simp_all add: anony_keep_def ceil signed_divide_int_def Let_def)
qed (use assms in \<open>auto simp: anony_keep_def\<close>)

definition ascii :: "string \<Rightarrow> bool" where
  "ascii s \<longleftrightarrow> list_all (\<lambda>c. char_byte c < 0x80) s"

lemma ascii_starts: "char_byte c < 0x80 \<Longrightarrow> starts_char c"
proof -
  assume "char_byte c < 0x80"
  then have "char_byte c AND 0xC0 < 0x80" by (rule word_and_le2 [THEN order.strict_trans1])
  then show ?thesis by (auto simp: starts_char_def)
qed

lemma ascii_positions: "ascii s \<Longrightarrow> char_positions s = [0..<length s]"
  by (auto simp: char_positions_def ascii_def list_all_length ascii_starts intro!: filter_True)

text \<open>a title of four characters or more is logged with a part left out in which at least two
  characters start, with the ratio that every caller uses.\<close>

theorem GetAnonyTitle_hides:
  assumes "4 \<le> length (char_positions title)"
  shows "\<exists>a b p q. GetAnonyTitle (3 / 10) title = take a title @ ''***'' @ drop b title
    \<and> a \<le> p \<and> p < q \<and> q < b \<and> b \<le> length title \<and> starts_char (title ! p) \<and> starts_char (title ! q)"
proof -
  let ?cp = "char_positions title" and ?n = "length (char_positions title)"
  obtain kf kb where keep: "anony_keep (3 / 10) (int ?n) = (kf, kb)" by fastforce
  then have fb: "1 \<le> kf" "1 \<le> kb" "kf + kb + 2 \<le> int ?n"
    using anony_keep_bounds [of "int ?n"] assms by auto
  let ?i = "nat kf" and ?j = "nat (int ?n - kb)"
  have ij: "Suc ?i < ?j" "?j < ?n" using fb by linarith+
  have "title \<noteq> []" using assms by (auto simp: char_positions_def)
  then have "GetAnonyTitle (3 / 10) title = take (?cp ! ?i) title @ ''***'' @ drop (?cp ! ?j) title"
    using keep fb assms by (auto simp: GetAnonyTitle_def Let_def)
  moreover have "?cp ! ?i < ?cp ! Suc ?i" "?cp ! Suc ?i < ?cp ! ?j"
    using ij by (auto intro: char_positions_less)
  moreover have "?cp ! ?j < length title" "starts_char (title ! (?cp ! ?i))" "starts_char (title ! (?cp ! Suc ?i))"
    using ij by (auto intro: char_positions_nth)
  ultimately show ?thesis by (metis order.refl less_imp_le)
qed

theorem GetAnonyTitle_hides_witness:
  "\<exists>a b p q. GetAnonyTitle (3 / 10) ''abcde'' = take a ''abcde'' @ ''***'' @ drop b ''abcde''
    \<and> a \<le> p \<and> p < q \<and> q < b \<and> b \<le> length ''abcde'' \<and> starts_char (''abcde'' ! p)
    \<and> starts_char (''abcde'' ! q)"
proof (rule GetAnonyTitle_hides)
  have "ascii ''abcde''" by (simp add: ascii_def char_byte_def)
  then show "4 \<le> length (char_positions ''abcde'')" by (simp add: ascii_positions)
qed

text \<open>a title of one, two or three ASCII characters is logged in full.\<close>

theorem GetAnonyTitle_short_in_full:
  assumes "ascii title" and "title \<noteq> []" and "length title \<le> 3"
  shows "GetAnonyTitle ratio title = (if length title = 2 then title @ ''***'' else ''*'' @ title @ ''*'')"
proof -
  have "char_byte (title ! 0) < 0x80" using assms(1,2) by (simp add: ascii_def list_all_length)
  also have "(0x80 :: byte) < 0xE0" by simp
  finally have "\<not> 0xE0 \<le> char_byte (title ! 0)" by (simp add: not_le)
  with assms show ?thesis by (auto simp: GetAnonyTitle_def ascii_positions)
qed

theorem GetAnonyTitle_short_in_full_witness: "GetAnonyTitle (3 / 10) ''Her'' = ''*Her*''"
  using GetAnonyTitle_short_in_full [of "''Her''"] by (simp add: ascii_def char_byte_def)

text \<open>a device name of three characters or more is logged with a part left out, which is empty
  exactly for three characters.\<close>

theorem GetAnonyDeviceName_hides:
  assumes "3 \<le> length (char_positions name)"
  shows "\<exists>a b. GetAnonyDeviceName name = take a name @ ''****'' @ drop b name \<and> a \<le> b \<and> b < length name
    \<and> (a = b \<longleftrightarrow> length (char_positions name) = 3)"
proof -
  let ?cp = "char_positions name" and ?n = "length (char_positions name)"
  obtain kf kb where keep: "device_keep ?n = (kf, kb)" by fastforce
  then have fb: "kf \<le> ?n - kb" "?n - kb < ?n" "kf = ?n - kb \<longleftrightarrow> ?n = 3"
    using assms by (auto simp: device_keep_def split: if_splits)
  have "name \<noteq> []" using assms by (auto simp: char_positions_def)
  then have "GetAnonyDeviceName name = take (?cp ! kf) name @ ''****'' @ drop (?cp ! (?n - kb)) name"
    using keep assms by (auto simp: GetAnonyDeviceName_def Let_def)
  moreover have "?cp ! (?n - kb) < length name" using fb(2) by (rule char_positions_nth)
  moreover have "?cp ! kf \<le> ?cp ! (?n - kb) \<and> (?cp ! kf = ?cp ! (?n - kb) \<longleftrightarrow> ?n = 3)"
  proof (cases "kf = ?n - kb")
    case False
    then have "?cp ! kf < ?cp ! (?n - kb)" using fb by (intro char_positions_less) auto
    with False fb(3) show ?thesis by simp
  qed (use fb(3) in simp)
  ultimately show ?thesis by blast
qed

theorem GetAnonyDeviceName_hides_witness:
  "\<exists>a b. GetAnonyDeviceName ''Pad'' = take a ''Pad'' @ ''****'' @ drop b ''Pad'' \<and> a = b"
proof -
  have "ascii ''Pad''" by (simp add: ascii_def char_byte_def)
  then have "length (char_positions ''Pad'') = 3" by (simp add: ascii_positions)
  then show ?thesis using GetAnonyDeviceName_hides [of "''Pad''"] by auto
qed

end
