(* ===== verification/Base64.thy ===== *)
theory Base64
  imports CppString
begin

text \<open>
  \<^verbatim>\<open>Base64Utils\<close> (\<^verbatim>\<open>services/session/server/migrate/base64_utils.h\<close>): the text form in which
  images and states travel in the migration protocol. Both loops keep their index and their small
  array in the state of a fold, as the code does; the property is that the decoder inverts the
  encoder on every input.
\<close>

section \<open>The two loops\<close>

definition kBase64Chars :: string where
  "kBase64Chars = ''ABCDEFGHIJKLMNOPQRSTUVWXYZ'' @ ''abcdefghijklmnopqrstuvwxyz'' @ ''0123456789+/''"

definition b64_char :: "byte \<Rightarrow> char" where
  "b64_char b = kBase64Chars ! unat b"

definition b64_pos :: "char \<Rightarrow> nat option" where
  "b64_pos c = List.find (\<lambda>i. kBase64Chars ! i = c) [0..<length kBase64Chars]"

definition enc_byte4 :: "byte list \<Rightarrow> byte list" where
  "enc_byte4 byte3 =
     [drop_bit 2 (byte3 ! 0 AND 0xFC),
      push_bit 4 (byte3 ! 0 AND 0x03) OR drop_bit 4 (byte3 ! 1 AND 0xF0),
      push_bit 2 (byte3 ! 1 AND 0x0F) OR drop_bit 6 (byte3 ! 2 AND 0xC0),
      byte3 ! 2 AND 0x3F]"

type_synonym enc_state = "string \<times> nat \<times> byte list"

definition enc_step :: "enc_state \<Rightarrow> byte \<Rightarrow> enc_state" where
  "enc_step st b = (case st of (encoded, i, byte3) \<Rightarrow>
     (let byte3 = byte3[i := b]; i = i + 1
      in if i = 3 then (encoded @ map b64_char (enc_byte4 byte3), 0, byte3)
         else (encoded, i, byte3)))"

text \<open>The last one or two bytes: the rest of the array is cleared, and \<^verbatim>\<open>=\<close> fills the group.\<close>

definition enc_finish :: "enc_state \<Rightarrow> string" where
  "enc_finish st = (case st of (encoded, i, byte3) \<Rightarrow>
     if i \<noteq> 0
     then encoded @ map b64_char (take (i + 1) (enc_byte4 (take i byte3 @ replicate (3 - i) 0)))
       @ replicate (3 - i) CHR ''=''
     else encoded)"

definition Base64Encode :: "byte list \<Rightarrow> string" where
  "Base64Encode data = enc_finish (foldl enc_step ([], 0, replicate 3 0) data)"

definition dec_byte3 :: "byte list \<Rightarrow> byte list" where
  "dec_byte3 byte4 =
     [push_bit 2 (byte4 ! 0) OR drop_bit 4 (byte4 ! 1 AND 0x30),
      push_bit 4 (byte4 ! 1 AND 0x0F) OR drop_bit 2 (byte4 ! 2 AND 0x3C),
      push_bit 6 (byte4 ! 2 AND 0x03) OR byte4 ! 3]"

type_synonym dec_state = "byte list \<times> nat \<times> byte list"

definition dec_step :: "dec_state \<Rightarrow> char \<Rightarrow> dec_state" where
  "dec_step st c = (case st of (decoded, i, byte4) \<Rightarrow>
     (case b64_pos c of
        None \<Rightarrow> st
      | Some pos \<Rightarrow>
          (let byte4 = byte4[i := of_nat pos]; i = i + 1
           in if i = 4 then (decoded @ dec_byte3 byte4, 0, byte4) else (decoded, i, byte4))))"

definition dec_finish :: "dec_state \<Rightarrow> byte list" where
  "dec_finish st = (case st of (decoded, i, byte4) \<Rightarrow>
     if i \<noteq> 0
     then decoded @ take (i - 1) (dec_byte3 (take i byte4 @ replicate (4 - i) 0))
     else decoded)"

definition Base64Decode :: "string \<Rightarrow> byte list" where
  "Base64Decode encoded =
     dec_finish (foldl dec_step ([], 0, replicate 4 0) (takeWhile (\<lambda>c. c \<noteq> CHR ''='') encoded))"

section \<open>Groups\<close>

text \<open>The encoder as a function on groups of three bytes.\<close>

fun b64_groups :: "byte list \<Rightarrow> string" where
  "b64_groups [] = []"
| "b64_groups [a] = map b64_char (take 2 (enc_byte4 [a, 0, 0])) @ ''==''"
| "b64_groups [a, b] = map b64_char (take 3 (enc_byte4 [a, b, 0])) @ ''=''"
| "b64_groups (a # b # c # xs) = map b64_char (enc_byte4 [a, b, c]) @ b64_groups xs"

lemma three: "length xs = 3 \<Longrightarrow> \<exists>x y z. xs = [x, y, z]"
  by (cases xs; cases "tl xs"; cases "tl (tl xs)") auto

lemma four: "length xs = 4 \<Longrightarrow> \<exists>x y z w. xs = [x, y, z, w]"
  using three [of "tl xs"] by (cases xs) auto

lemma enc_group:
  "length byte3 = 3 \<Longrightarrow> foldl enc_step (e, 0, byte3) (a # b # c # xs)
     = foldl enc_step (e @ map b64_char (enc_byte4 [a, b, c]), 0, [a, b, c]) xs"
  using three [of byte3] by (auto simp: enc_step_def Let_def)

lemma enc_groups:
  "length byte3 = 3 \<Longrightarrow> enc_finish (foldl enc_step (e, 0, byte3) xs) = e @ b64_groups xs"
proof (induction xs arbitrary: e byte3 rule: b64_groups.induct)
  case (4 a b c xs)
  show ?case unfolding enc_group [OF 4(2)] by (simp add: 4(1))
next
  case (2 a)
  then show ?case using three [of byte3]
    by (auto simp: enc_step_def enc_finish_def numeral_2_eq_2 numeral_3_eq_3)
next
  case (3 a b)
  then show ?case using three [of byte3]
    by (auto simp: enc_step_def enc_finish_def numeral_2_eq_2 numeral_3_eq_3)
qed (simp add: enc_finish_def)

lemma Base64Encode_groups: "Base64Encode data = b64_groups data"
  by (simp add: Base64Encode_def enc_groups)

section \<open>The alphabet\<close>

lemma b64_alphabet: "list_all (\<lambda>p. b64_pos (kBase64Chars ! p) = Some p \<and> kBase64Chars ! p \<noteq> CHR ''='') [0..<64]"
  by code_simp

lemma b64_char_props:
  assumes "b < 64"
  shows "b64_pos (b64_char b) = Some (unat b)" and "b64_char b \<noteq> CHR ''=''"
proof -
  have "unat b < 64" using assms by (simp add: word_less_nat_alt)
  then show "b64_pos (b64_char b) = Some (unat b)" "b64_char b \<noteq> CHR ''=''"
    using b64_alphabet by (simp_all add: list_all_iff b64_char_def)
qed

section \<open>Groups of bits\<close>

lemma byte_bits_eqI:
  assumes "bit x 0 = bit y 0" and "bit x 1 = bit y 1" and "bit x 2 = bit y 2" and "bit x 3 = bit y 3"
    and "bit x 4 = bit y 4" and "bit x 5 = bit y 5" and "bit x 6 = bit y 6" and "bit x 7 = bit y 7"
  shows "x = (y :: byte)"
proof (rule bit_word_eqI)
  fix n assume "n < LENGTH(8)"
  then have "n \<in> {0, 1, 2, 3, 4, 5, 6, 7}" by auto
  with assms show "bit x n \<longleftrightarrow> bit y n" by auto
qed

lemmas byte_bits = bit_or_iff bit_and_iff bit_push_bit_iff bit_drop_bit_eq

lemma six_bits: "x AND 0x3F = x \<Longrightarrow> (x :: byte) < 64"
  using and_mask_less' [of 6 x] by (simp add: mask_eq_exp_minus_1)

lemma enc_byte4_less: "list_all (\<lambda>x. x < 64) (enc_byte4 [a, b, c])"
proof -
  have "drop_bit 2 (a AND 0xFC) AND 0x3F = drop_bit 2 (a AND 0xFC)"
    by (rule byte_bits_eqI) (simp_all add: byte_bits)
  moreover have "(push_bit 4 (a AND 0x03) OR drop_bit 4 (b AND 0xF0)) AND 0x3F
      = push_bit 4 (a AND 0x03) OR drop_bit 4 (b AND 0xF0)"
    by (rule byte_bits_eqI) (simp_all add: byte_bits)
  moreover have "(push_bit 2 (b AND 0x0F) OR drop_bit 6 (c AND 0xC0)) AND 0x3F
      = push_bit 2 (b AND 0x0F) OR drop_bit 6 (c AND 0xC0)"
    by (rule byte_bits_eqI) (simp_all add: byte_bits)
  moreover have "(c AND 0x3F) AND 0x3F = c AND 0x3F" by (simp add: and.assoc)
  ultimately show ?thesis by (simp add: enc_byte4_def six_bits)
qed

lemma dec_enc_group: "dec_byte3 (enc_byte4 [a, b, c]) = [a, b, c]"
proof -
  let ?e = "enc_byte4 [a, b, c]"
  have "push_bit 2 (?e ! 0) OR drop_bit 4 (?e ! 1 AND 0x30) = a"
    by (rule byte_bits_eqI) (simp_all add: enc_byte4_def byte_bits)
  moreover have "push_bit 4 (?e ! 1 AND 0x0F) OR drop_bit 2 (?e ! 2 AND 0x3C) = b"
    by (rule byte_bits_eqI) (simp_all add: enc_byte4_def byte_bits)
  moreover have "push_bit 6 (?e ! 2 AND 0x03) OR ?e ! 3 = c"
    by (rule byte_bits_eqI) (simp_all add: enc_byte4_def byte_bits)
  ultimately show ?thesis by (simp add: dec_byte3_def)
qed

section \<open>Decoding a group\<close>

lemma dec_step_char: "x < 64 \<Longrightarrow> dec_step (d, i, byte4) (b64_char x)
    = (if i + 1 = 4 then (d @ dec_byte3 (byte4[i := x]), 0, byte4[i := x]) else (d, i + 1, byte4[i := x]))"
  by (simp add: dec_step_def b64_char_props Let_def)

lemma dec_group:
  assumes "length byte4 = 4" and "list_all (\<lambda>x. x < 64) [p, q, r, s]"
  shows "foldl dec_step (d, 0, byte4) (map b64_char [p, q, r, s] @ cs)
    = foldl dec_step (d @ dec_byte3 [p, q, r, s], 0, [p, q, r, s]) cs"
  using four [OF assms(1)] assms(2) by (auto simp: dec_step_char)

lemma dec_part2:
  assumes "length byte4 = 4" and "p < 64" and "q < 64"
  shows "dec_finish (foldl dec_step (d, 0, byte4) (map b64_char [p, q])) = d @ take 1 (dec_byte3 [p, q, 0, 0])"
  using four [OF assms(1)] assms(2,3) by (auto simp: dec_step_char dec_finish_def numeral_2_eq_2)

lemma dec_part3:
  assumes "length byte4 = 4" and "p < 64" and "q < 64" and "r < 64"
  shows "dec_finish (foldl dec_step (d, 0, byte4) (map b64_char [p, q, r])) = d @ take 2 (dec_byte3 [p, q, r, 0])"
  using four [OF assms(1)] assms(2-4)
  by (auto simp: dec_step_char dec_finish_def numeral_2_eq_2 numeral_3_eq_3)

lemma takeWhile_chars:
  "list_all (\<lambda>x. x < 64) xs \<Longrightarrow> takeWhile (\<lambda>c. c \<noteq> CHR ''='') (map b64_char xs @ s)
     = map b64_char xs @ takeWhile (\<lambda>c. c \<noteq> CHR ''='') s"
  by (rule takeWhile_append2) (auto simp: list_all_iff b64_char_props)

lemma dec_groups:
  "length byte4 = 4 \<Longrightarrow>
     dec_finish (foldl dec_step (d, 0, byte4) (takeWhile (\<lambda>c. c \<noteq> CHR ''='') (b64_groups xs))) = d @ xs"
proof (induction xs arbitrary: d byte4 rule: b64_groups.induct)
  case 1
  then show ?case by (simp add: dec_finish_def)
next
  case (2 a)
  obtain p q r s where e: "enc_byte4 [a, 0, 0] = [p, q, r, s]" "r = 0" "s = 0"
    by (simp add: enc_byte4_def)
  with enc_byte4_less [of a 0 0] have less: "p < 64" "q < 64" by simp_all
  then have "takeWhile (\<lambda>c. c \<noteq> CHR ''='') (b64_groups [a]) = map b64_char [p, q]"
    using takeWhile_chars [of "[p, q]" "''==''"] e by (simp add: numeral_2_eq_2)
  with dec_part2 [OF 2 less, of d] dec_enc_group [of a 0 0] e show ?case by simp
next
  case (3 a b)
  obtain p q r s where e: "enc_byte4 [a, b, 0] = [p, q, r, s]" "s = 0"
    by (simp add: enc_byte4_def)
  with enc_byte4_less [of a b 0] have less: "p < 64" "q < 64" "r < 64" by simp_all
  then have "takeWhile (\<lambda>c. c \<noteq> CHR ''='') (b64_groups [a, b]) = map b64_char [p, q, r]"
    using takeWhile_chars [of "[p, q, r]" "''=''"] e by (simp add: numeral_3_eq_3)
  with dec_part3 [OF 3 less, of d] dec_enc_group [of a b 0] e show ?case
    by (simp add: numeral_2_eq_2)
next
  case (4 a b c xs)
  obtain p q r s where e: "enc_byte4 [a, b, c] = [p, q, r, s]" by (simp add: enc_byte4_def)
  with enc_byte4_less [of a b c] have less: "list_all (\<lambda>x. x < 64) [p, q, r, s]" by simp
  have "takeWhile (\<lambda>c. c \<noteq> CHR ''='') (b64_groups (a # b # c # xs))
      = map b64_char [p, q, r, s] @ takeWhile (\<lambda>c. c \<noteq> CHR ''='') (b64_groups xs)"
    using takeWhile_chars [OF less, of "b64_groups xs"] e by simp
  then have "foldl dec_step (d, 0, byte4) (takeWhile (\<lambda>c. c \<noteq> CHR ''='') (b64_groups (a # b # c # xs)))
      = foldl dec_step (d @ [a, b, c], 0, [p, q, r, s]) (takeWhile (\<lambda>c. c \<noteq> CHR ''='') (b64_groups xs))"
    using dec_group [OF 4(2) less] dec_enc_group [of a b c] e by simp
  with 4(1) [of "[p, q, r, s]" "d @ [a, b, c]"] show ?case by simp
qed

section \<open>Properties\<close>

text \<open>C30: Base64Decode inverts Base64Encode on every sequence of bytes, and the encoder writes the
  standard groups: four characters for three bytes, filled with = at the end.\<close>

theorem Base64_round_trip:
  "Base64Decode (Base64Encode data) = data \<and> Base64Encode data = b64_groups data"
  by (simp add: Base64Decode_def Base64Encode_groups dec_groups)

text \<open>the length of an encoding is a multiple of four and fits the data: four characters for every
  three bytes that begin.\<close>

theorem Base64Encode_length: "length (Base64Encode data) = 4 * ((length data + 2) div 3)"
  unfolding Base64Encode_groups
  by (induction data rule: b64_groups.induct) (simp_all add: enc_byte4_def, presburger)

end
