(* ===== verification/SessionService.thy ===== *)
theory SessionService
  imports UsersProps
begin

text \<open>
  \<^verbatim>\<open>AVSessionService\<close> (\<^verbatim>\<open>avsession_service.cpp\<close>): the top session of each user, the list of
  sessions in front, the creation and release of sessions and controllers, and the notification
  state. A build without the optional features (car, cast plus, start and stop on demand) is
  modelled; its locks are left out: every entry point holds the service lock.

  What other services answer is in the record \<open>env\<close>. What the service tells others (listeners,
  notifications, background tasks, the migration servers, the history file) is a log of events.
\<close>

section \<open>State\<close>

definition ancoUid :: int where "ancoUid = 1041"
definition audioBrokerUid :: int where "audioBrokerUid = 5557"
definition uidToUserId :: int where "uidToUserId = 200000"
definition otherPlayingSessionMinLen :: nat where "otherPlayingSessionMinLen = 2"
definition ENABLE_BACKGROUND_PLAY :: int where "ENABLE_BACKGROUND_PLAY = 0"
definition DISABLE_BACKGROUND_PLAY :: int where "DISABLE_BACKGROUND_PLAY = 1"

text \<open>
  \<open>envRunning\<close>: a renderer of the process runs; \<open>envNow\<close>: the clock; \<open>envNotifyOk\<close> and
  \<open>envWantOk\<close>: notifications are enabled and the request can be built; \<open>envFlow\<close>: too many
  notifications lately, the request is delayed; \<open>envCriticalOk\<close>: the memory manager accepts.
\<close>

record env =
  envRunning :: "int \<Rightarrow> int \<Rightarrow> bool"
  envNow :: int
  envNotifyOk :: bool
  envWantOk :: bool
  envFlow :: bool
  envCriticalOk :: bool

datatype sv_event =
    SessionCreated sref
  | SessionReleased sref
  | TopChanged sref
  | ActiveChanged "sref list"
  | UpdateNotification int int bool
  | SystemUI int bool bool
  | CancelNotification int
  | RefreshSort sref
  | FrontArrive string
  | FrontChange string
  | FrontLeave string
  | CancelCastAudio sref
  | ControllerTold cref

record service =
  svStore :: store
  svUsers :: users_manager
  svControllers :: "(int, cref list) cmap"
  svAnco :: "sref option"
  svHasMediaCapsule :: bool
  svHasRemoveEvent :: bool
  svMediaCardOpen :: "(int, bool) cmap"
  svCardStopTask :: "(int, bool) cmap"
  svCritical :: bool
  svControlBundleNames :: "string list"
  svControlListForNtf :: "string list"
  svControlBundles :: "(int \<times> int) list"
  svLocalFrontSessionId :: string
  svMigrateServers :: nat
  svAncoMediaSessionChange :: bool
  svEvents :: "sv_event list"

abbreviation (input) sv_item :: "service \<Rightarrow> sref \<Rightarrow> session" where
  "sv_item sv s \<equiv> items (svStore sv) s"

definition sv_log :: "sv_event \<Rightarrow> service \<Rightarrow> service" where
  "sv_log e sv = sv\<lparr>svEvents := svEvents sv @ [e]\<rparr>"

definition sv_upd_item :: "sref \<Rightarrow> (session \<Rightarrow> session) \<Rightarrow> service \<Rightarrow> service" where
  "sv_upd_item s f sv = sv\<lparr>svStore := upd_item s f (svStore sv)\<rparr>"

definition sv_upd_users :: "(users_manager \<Rightarrow> users_manager) \<Rightarrow> service \<Rightarrow> service" where
  "sv_upd_users f sv = sv\<lparr>svUsers := f (svUsers sv)\<rparr>"

section \<open>Users, playing, cards\<close>

text \<open>\<^verbatim>\<open>uid / uidToUserId\<close> truncates.\<close>

definition sv_GetUserIdFromCallingUid :: "int \<Rightarrow> service \<Rightarrow> int" where
  "sv_GetUserIdFromCallingUid uid sv =
     (let userId = uid sdiv uidToUserId in if userId \<le> 0 then umCurUser (svUsers sv) else userId)"

definition sv_GetTargetUserId :: "int \<Rightarrow> service \<Rightarrow> int" where
  "sv_GetTargetUserId userId sv =
     (if um_IsUserAlive userId (svUsers sv) then userId else umCurUser (svUsers sv))"

definition sv_IsLocalSessionPlaying :: "env \<Rightarrow> sref option \<Rightarrow> service \<Rightarrow> bool" where
  "sv_IsLocalSessionPlaying env session sv \<longleftrightarrow> (case session of
     None \<Rightarrow> False
   | Some s \<Rightarrow> envRunning env (siUid (sv_item sv s)) (siPid (sv_item sv s))
       \<or> (siUid (sv_item sv s) = audioBrokerUid \<and> siPlaybackState (sv_item sv s) = 2))"

definition sv_IsTopSessionPlaying :: "env \<Rightarrow> int \<Rightarrow> service \<Rightarrow> bool" where
  "sv_IsTopSessionPlaying env userId sv \<longleftrightarrow>
     (case um_GetTopSession (sv_GetTargetUserId userId sv) (svUsers sv) of
        None \<Rightarrow> False
      | Some t \<Rightarrow> if siCasting (sv_item sv t) then siCastState (sv_item sv t) = 2
                  else sv_IsLocalSessionPlaying env (Some t) sv)"

definition sv_IsMediaCardOpen :: "int \<Rightarrow> service \<Rightarrow> bool" where
  "sv_IsMediaCardOpen userId sv \<longleftrightarrow>
     map_of (svMediaCardOpen sv) (sv_GetTargetUserId userId sv) = Some True"

definition sv_SetMediaCardOpen :: "bool \<Rightarrow> int \<Rightarrow> service \<Rightarrow> service" where
  "sv_SetMediaCardOpen b userId sv =
     sv\<lparr>svMediaCardOpen := cmap_put (sv_GetTargetUserId userId sv) b (svMediaCardOpen sv)\<rparr>"

definition sv_HasCardStateChangeStopTask :: "int \<Rightarrow> service \<Rightarrow> bool" where
  "sv_HasCardStateChangeStopTask userId sv \<longleftrightarrow>
     map_of (svCardStopTask sv) (sv_GetTargetUserId userId sv) = Some True"

definition sv_SetCardStateChangeStopTask :: "bool \<Rightarrow> int \<Rightarrow> service \<Rightarrow> service" where
  "sv_SetCardStateChangeStopTask b userId sv =
     sv\<lparr>svCardStopTask := cmap_put (sv_GetTargetUserId userId sv) b (svCardStopTask sv)\<rparr>"

definition sv_ClearMediaCardStateByUser :: "int \<Rightarrow> service \<Rightarrow> service" where
  "sv_ClearMediaCardStateByUser userId sv =
     sv\<lparr>svMediaCardOpen := cmap_erase userId (svMediaCardOpen sv),
        svCardStopTask := cmap_erase userId (svCardStopTask sv)\<rparr>"

definition sv_IsCapsuleNeeded :: "int \<Rightarrow> service \<Rightarrow> bool" where
  "sv_IsCapsuleNeeded userId sv \<longleftrightarrow>
     (case um_GetTopSession (sv_GetTargetUserId userId sv) (svUsers sv) of
        None \<Rightarrow> False
      | Some t \<Rightarrow> (let playMode = siBackgroundPlayMode (sv_item sv t) in
          playMode = ENABLE_BACKGROUND_PLAY \<or> siCasting (sv_item sv t)
          \<or> (playMode \<noteq> DISABLE_BACKGROUND_PLAY \<and> si_GetSessionType (sv_item sv t) = ''audio'')))"

section \<open>Notification\<close>

text \<open>
  \<^verbatim>\<open>NotifySystemUI(nullptr, \<dots>)\<close>, the media notification: its effect on the service's own state
  and the request that is published, or delayed when there were too many. The variant for a photo
  session publishes a request and has no effect on the state.
\<close>

definition sv_NotifySystemUI :: "env \<Rightarrow> bool \<Rightarrow> bool \<Rightarrow> int \<Rightarrow> service \<Rightarrow> service" where
  "sv_NotifySystemUI env addCapsule isCapsuleUpdate userId sv =
     (if \<not> envNotifyOk env then sv
      else
        let targetUserId = sv_GetTargetUserId userId sv;
            sv = (if um_GetTopSession targetUserId (svUsers sv) \<noteq> None \<and> addCapsule
                  then sv_SetCardStateChangeStopTask False targetUserId sv else sv);
            sv = sv\<lparr>svHasMediaCapsule := addCapsule\<rparr>
        in if \<not> envWantOk env then sv
           else let sv = sv_log (SystemUI targetUserId addCapsule isCapsuleUpdate) sv
                in if envFlow env then sv else sv\<lparr>svHasRemoveEvent := False\<rparr>)"

text \<open>What the \<open>svMigrateServers\<close> migration servers are told when the session they preload changes.\<close>

definition front_message :: "string \<Rightarrow> string \<Rightarrow> sv_event list" where
  "front_message old new =
     (if old = [] \<and> new \<noteq> [] then [FrontArrive new]
      else if old \<noteq> [] \<and> new \<noteq> [] \<and> old \<noteq> new then [FrontChange new]
      else if old \<noteq> [] \<and> new = [] then [FrontLeave old]
      else [])"

definition sv_NotifyLocalFrontSessionChangeForMigrate :: "string \<Rightarrow> service \<Rightarrow> service" where
  "sv_NotifyLocalFrontSessionChangeForMigrate sid sv =
     sv\<lparr>svEvents := svEvents sv @ concat (replicate (svMigrateServers sv) (front_message (svLocalFrontSessionId sv) sid)),
        svLocalFrontSessionId := sid\<rparr>"

definition sv_NotifySessionChange :: "sref list \<Rightarrow> int \<Rightarrow> service \<Rightarrow> service" where
  "sv_NotifySessionChange l userId sv =
     (if userId = 0 \<or> userId = umCurUser (svUsers sv) then sv_log (ActiveChanged l) sv else sv)"

definition sv_UpdateLocalFrontSession :: "sref list \<Rightarrow> service \<Rightarrow> service" where
  "sv_UpdateLocalFrontSession l sv =
     (if l = [] then sv_NotifyLocalFrontSessionChangeForMigrate '''' sv
      else case um_GetCurrentTopSession (svUsers sv) of
        Some t \<Rightarrow>
          if \<not> siCasting (sv_item sv t)
          then sv_NotifyLocalFrontSessionChangeForMigrate (siSessionId (sv_item sv t)) sv
          else sv_NotifyLocalFrontSessionChangeForMigrate
            (case List.find (\<lambda>s. \<not> siCasting (sv_item sv s)) l of
               Some s \<Rightarrow> siSessionId (sv_item sv s) | None \<Rightarrow> '''') sv
      | None \<Rightarrow> sv_NotifyLocalFrontSessionChangeForMigrate
            (case List.find (\<lambda>s. \<not> siCasting (sv_item sv s)) l of
               Some s \<Rightarrow> siSessionId (sv_item sv s) | None \<Rightarrow> '''') sv)"

section \<open>The top session\<close>

definition sv_UpdateSessionTimestamp :: "env \<Rightarrow> sref \<Rightarrow> service \<Rightarrow> service" where
  "sv_UpdateSessionTimestamp env s sv = sv_upd_item s (si_SetPlayingTime (envNow env)) sv"

definition sv_clear_top :: "sref option \<Rightarrow> service \<Rightarrow> service" where
  "sv_clear_top old sv = (case old of None \<Rightarrow> sv | Some t \<Rightarrow> sv_upd_item t (si_SetTop False) sv)"

definition sv_UpdateTopSession :: "env \<Rightarrow> sref option \<Rightarrow> int \<Rightarrow> service \<Rightarrow> service" where
  "sv_UpdateTopSession env newTopSession userId sv = (case newTopSession of
     None \<Rightarrow>
       (let u = sv_GetTargetUserId userId sv;
            sv = sv_clear_top (um_GetTopSession u (svUsers sv)) sv
        in sv_upd_users (um_SetTopSession None u) sv)
   | Some s \<Rightarrow>
       (let u = siUserId (sv_item sv s);
            sv = sv_clear_top (um_GetTopSession u (svUsers sv)) sv;
            sv = sv_upd_users (um_SetTopSession (Some s) u) sv;
            sv = (if u = umCurUser (svUsers sv) then sv_UpdateSessionTimestamp env s sv else sv);
            sv = sv_upd_item s (si_SetTop True) sv;
            sv = sv_log (TopChanged s) sv
        in case um_GetTopSession u (svUsers sv) of
             None \<Rightarrow> sv
           | Some t \<Rightarrow> if siCasting (sv_item sv t) then sv
               else sv_NotifyLocalFrontSessionChangeForMigrate (siSessionId (sv_item sv t)) sv))"

section \<open>The list of sessions in front\<close>

definition sv_GetCurSessionListForFront :: "int \<Rightarrow> service \<Rightarrow> sref list \<times> service" where
  "sv_GetCurSessionListForFront userId sv =
     (let (l, um) = um_GetCurSessionListForFront userId (svUsers sv) in (l, sv\<lparr>svUsers := um\<rparr>))"

definition sv_UpdateOrder :: "env \<Rightarrow> sref \<Rightarrow> service \<Rightarrow> bool \<times> service" where
  "sv_UpdateOrder env s sv =
     (let userId = siUserId (sv_item sv s);
          (st, um) = um_GetContainerFromUser userId (svUsers sv);
          sv = sv\<lparr>svUsers := um_set_container userId (ss_UpdateSessionSort (items (svStore sv)) s st) um\<rparr>;
          sv = sv_log (RefreshSort s) sv;
          (l, sv) = sv_GetCurSessionListForFront userId sv
      in if si_GetSessionType (sv_item sv s) = ''photo'' then (False, sv)
         else if s \<in> set l
         then (let l = s # list_remove s l;
                   sv = sv_upd_users (um_set_front userId l) sv;
                   sv = sv_UpdateSessionTimestamp env s sv
               in (True, sv_NotifySessionChange l userId sv))
         else (True, sv))"

definition sv_SelectFocusSession :: "env \<Rightarrow> int \<Rightarrow> int \<Rightarrow> service \<Rightarrow> bool \<times> service" where
  "sv_SelectFocusSession env uid pid sv =
     (let userId = sv_GetUserIdFromCallingUid uid sv;
          (st, um) = um_GetContainerFromUser userId (svUsers sv);
          sv = sv\<lparr>svUsers := um\<rparr>
      in case List.find (\<lambda>s. siTag (sv_item sv s) \<noteq> ''RemoteCast'' \<and> siPid (sv_item sv s) = pid)
                (ss_GetAllSessions st) of
           None \<Rightarrow> (False, sv)
         | Some s \<Rightarrow> sv_UpdateOrder env s sv)"

definition is_call :: "session \<Rightarrow> bool" where
  "is_call s \<longleftrightarrow> si_GetSessionType s = ''voice_call'' \<or> si_GetSessionType s = ''video_call''"

definition is_media :: "session \<Rightarrow> bool" where
  "is_media s \<longleftrightarrow> si_GetSessionType s = ''audio'' \<or> si_GetSessionType s = ''video''"

definition sv_other_playing :: "env \<Rightarrow> string \<Rightarrow> service \<Rightarrow> sref \<Rightarrow> bool" where
  "sv_other_playing env bundleName sv s \<longleftrightarrow> \<not> is_call (sv_item sv s) \<and> siBundle (sv_item sv s) \<noteq> bundleName
     \<and> \<not> siCasting (sv_item sv s) \<and> sv_IsLocalSessionPlaying env (Some s) sv"

definition sv_GetOtherPlayingSession :: "env \<Rightarrow> int \<Rightarrow> string \<Rightarrow> service \<Rightarrow> sref option \<times> service" where
  "sv_GetOtherPlayingSession env userId bundleName sv =
     (let (l, sv) = sv_GetCurSessionListForFront userId sv
      in case List.find (sv_other_playing env bundleName sv) l of
           Some s \<Rightarrow> (Some s, sv)
         | None \<Rightarrow>
             if bundleName = [] \<or> length l < otherPlayingSessionMinLen then (None, sv)
             else if siCasting (sv_item sv (l ! 1)) \<and> siCastState (sv_item sv (l ! 1)) = 2
             then (Some (l ! 1), sv) else (None, sv))"

definition sv_session_user :: "sref \<Rightarrow> service \<Rightarrow> int" where
  "sv_session_user s sv =
     (if siUserId (sv_item sv s) \<le> 0 then umCurUser (svUsers sv) else siUserId (sv_item sv s))"

definition sv_HandleOtherSessionPlaying :: "env \<Rightarrow> sref option \<Rightarrow> service \<Rightarrow> service" where
  "sv_HandleOtherSessionPlaying env session sv = (case session of
     None \<Rightarrow> sv
   | Some s \<Rightarrow>
       (let userId = sv_session_user s sv;
            sv = sv_UpdateTopSession env (Some s) userId sv
        in if um_GetTopSession userId (svUsers sv) = None then sv
           else let (ok, sv) = sv_UpdateOrder env s sv
                in if ok \<and> is_media (sv_item sv s)
                   then sv_NotifySystemUI env (sv_IsCapsuleNeeded userId sv) False userId sv
                   else sv))"

definition sv_HandleTopSessionRelease :: "env \<Rightarrow> int \<Rightarrow> sref \<Rightarrow> service \<Rightarrow> service" where
  "sv_HandleTopSessionRelease env userId s sv =
     (if um_GetTopSession userId (svUsers sv) \<noteq> Some s then sv
      else case sv_GetOtherPlayingSession env userId (siBundle (sv_item sv s)) sv of
        (Some r, sv) \<Rightarrow> sv_HandleOtherSessionPlaying env (Some r) sv
      | (None, sv) \<Rightarrow>
          (let sv = sv_UpdateTopSession env None userId sv
           in sv_log (CancelNotification userId) (sv\<lparr>svHasMediaCapsule := False\<rparr>)))"

definition sv_UpdateFrontSession :: "env \<Rightarrow> sref \<Rightarrow> bool \<Rightarrow> service \<Rightarrow> service" where
  "sv_UpdateFrontSession env s isAdd sv =
     (let userId = siUserId (sv_item sv s)
      in if siBundle (sv_item sv s) \<in> set (svControlBundleNames sv) then sv
         else let (l, sv) = sv_GetCurSessionListForFront userId sv
         in if si_GetSessionType (sv_item sv s) = ''photo'' then sv
            else let sv = sv_log (UpdateNotification (siUid (sv_item sv s)) (siPid (sv_item sv s)) isAdd) sv
            in if isAdd then
                 if s \<in> set l then sv
                 else (let sv = sv_upd_users (um_set_front userId (s # l)) sv;
                           sv = (if sv_IsLocalSessionPlaying env (Some s) sv
                                 then let sv = sv_UpdateTopSession env (Some s) userId sv
                                      in sv_NotifySystemUI env (sv_IsCapsuleNeeded userId sv) False userId sv
                                 else sv);
                           sv = sv_UpdateLocalFrontSession (s # l) sv
                       in sv_NotifySessionChange (s # l) userId sv)
               else (let sv = sv_HandleTopSessionRelease env userId s sv;
                         (l, sv) = sv_GetCurSessionListForFront userId sv;
                         l = list_remove s l;
                         sv = sv_upd_users (um_set_front userId l) sv;
                         sv = sv_UpdateLocalFrontSession l sv
                     in sv_NotifySessionChange l userId sv))"

end
