(* ===== verification/SessionLife.thy ===== *)
theory SessionLife
  imports SessionService
begin

text \<open>
  The life of sessions and controllers in \<^verbatim>\<open>AVSessionService\<close>: creation with its checks, release,
  controllers, clients that die; and the events that move the top session: audio focus, account
  switches, the media card.
\<close>

section \<open>Focus\<close>

definition sv_HandleChangeTopSession :: "env \<Rightarrow> int \<Rightarrow> int \<Rightarrow> int \<Rightarrow> service \<Rightarrow> service" where
  "sv_HandleChangeTopSession env infoUid infoPid userId sv =
     (let (l, sv) = sv_GetCurSessionListForFront userId sv
      in case List.find (\<lambda>s. siUid (sv_item sv s) = infoUid \<and> siPid (sv_item sv s) = infoPid
                \<and> \<not> is_call (sv_item sv s)) l of
           None \<Rightarrow> sv
         | Some s \<Rightarrow>
             (let sv = sv_UpdateTopSession env (Some s) userId sv
              in case um_GetTopSession userId (svUsers sv) of
                   None \<Rightarrow> sv
                 | Some t \<Rightarrow>
                     if is_media (sv_item sv t)
                     then sv_log (UpdateNotification (siUid (sv_item sv t)) (siPid (sv_item sv t)) True)
                            (sv_NotifySystemUI env (sv_IsCapsuleNeeded userId sv) False userId sv)
                     else sv))"

text \<open>The branch of \<^verbatim>\<open>HandleFocusSession\<close> for the process of the top session \<open>t\<close>.\<close>

definition sv_focus_is_top :: "env \<Rightarrow> int \<Rightarrow> sref \<Rightarrow> bool \<Rightarrow> service \<Rightarrow> service" where
  "sv_focus_is_top env userId t isPlaying sv =
     (if siCasting (sv_item sv t) \<or> \<not> is_media (sv_item sv t) then sv
      else
        let (other, sv) = (if isPlaying then (None, sv) else sv_GetOtherPlayingSession env userId [] sv);
            sv = (if isPlaying then sv else sv_HandleOtherSessionPlaying env other sv)
        in if \<not> isPlaying \<and> (sv_IsMediaCardOpen userId sv \<or> svHasRemoveEvent sv
                \<or> sv_HasCardStateChangeStopTask userId sv) then sv
           else
             let sv = (if isPlaying
                    then sv_log (UpdateNotification (siUid (sv_item sv t)) (siPid (sv_item sv t)) True) sv
                    else sv)
             in if other = None
                then sv_NotifySystemUI env (isPlaying \<and> sv_IsCapsuleNeeded userId sv) False userId sv
                else sv)"

definition sv_anco_focus :: "env \<Rightarrow> int \<Rightarrow> int \<Rightarrow> service \<Rightarrow> service" where
  "sv_anco_focus env uid userId sv =
     (let (st, um) = um_GetContainerFromUser userId (svUsers sv); sv = sv\<lparr>svUsers := um\<rparr>
      in case ss_GetSessionByUid (items (svStore sv)) uid st of
           None \<Rightarrow> sv
         | Some s \<Rightarrow> sv_UpdateSessionTimestamp env s (sv\<lparr>svAnco := Some s\<rparr>))"

definition sv_HandleFocusSession :: "env \<Rightarrow> int \<Rightarrow> int \<Rightarrow> bool \<Rightarrow> service \<Rightarrow> service" where
  "sv_HandleFocusSession env uid pid isPlaying sv =
     (let userId = sv_GetUserIdFromCallingUid uid sv;
          topSession = um_GetTopSession userId (svUsers sv);
          is_focus = (case topSession of None \<Rightarrow> False
            | Some t \<Rightarrow> siUid (sv_item sv t) = uid \<and> siPid (sv_item sv t) = pid)
      in if uid = ancoUid \<and> isPlaying then sv_anco_focus env uid userId sv
         else if is_focus then
           (case topSession of None \<Rightarrow> sv | Some t \<Rightarrow> sv_focus_is_top env userId t isPlaying sv)
         else if isPlaying then sv_HandleChangeTopSession env uid pid userId sv
         else sv)"

definition sv_ProcTopSessionPlaying :: "env \<Rightarrow> sref option \<Rightarrow> bool \<Rightarrow> bool \<Rightarrow> service \<Rightarrow> bool \<times> service" where
  "sv_ProcTopSessionPlaying env session isPlaying isMediaChange sv = (case session of
     None \<Rightarrow> (False, sv)
   | Some s \<Rightarrow>
       (let userId = sv_session_user s sv
        in if um_GetTopSession userId (svUsers sv) \<noteq> Some s then (False, sv)
           else if \<not> (isPlaying \<or> (\<not> sv_IsMediaCardOpen userId sv \<and> \<not> svHasRemoveEvent sv)) then (True, sv)
           else
             (let (other, sv) = (if isPlaying then (None, sv) else sv_GetOtherPlayingSession env userId [] sv);
                  sv = (if isPlaying then sv else sv_HandleOtherSessionPlaying env other sv)
              in (True, if other = None
                        then sv_NotifySystemUI env (isPlaying \<and> sv_IsCapsuleNeeded userId sv) isMediaChange userId sv
                        else sv))))"

section \<open>Accounts and the media card\<close>

definition sv_HandleUserEvent :: "env \<Rightarrow> account_event \<Rightarrow> int \<Rightarrow> service \<Rightarrow> service" where
  "sv_HandleUserEvent env type userId sv =
     (let curUserId = um_GetCurrentUserId (svUsers sv);
          sv = (if type = SWITCHED \<and> userId \<noteq> curUserId then
                  sv_ClearMediaCardStateByUser curUserId
                    (if svHasMediaCapsule sv then sv_NotifySystemUI env False False curUserId sv else sv)
                else if type = REMOVED then sv_ClearMediaCardStateByUser userId sv else sv);
          sv = sv_upd_users (um_account_event (items (svStore sv)) type userId) sv
      in if type = SWITCHED
         then sv_UpdateTopSession env (um_GetCurrentTopSession (svUsers sv)) userId sv
         else sv)"

text \<open>The part that runs at once, and the task that is posted after a delay when it returns true.\<close>

definition sv_HandleMediaCardStateChangeEvent :: "env \<Rightarrow> string \<Rightarrow> int \<Rightarrow> service \<Rightarrow> bool \<times> service" where
  "sv_HandleMediaCardStateChangeEvent env isAppear userId sv =
     (if isAppear = ''APPEAR'' then
        (False, sv_SetCardStateChangeStopTask False userId (sv_SetMediaCardOpen True userId sv))
      else if isAppear = ''DISAPPEAR'' then
        (let sv = sv_SetMediaCardOpen False userId sv
         in if sv_IsTopSessionPlaying env userId sv \<or> svHasRemoveEvent sv then (False, sv)
            else (True, sv_SetCardStateChangeStopTask True userId sv))
      else (False, sv))"

definition sv_card_stop_task :: "env \<Rightarrow> int \<Rightarrow> service \<Rightarrow> service" where
  "sv_card_stop_task env userId sv =
     (if sv_IsTopSessionPlaying env userId sv \<or> svHasRemoveEvent sv \<or> sv_IsMediaCardOpen userId sv then sv
      else sv_SetCardStateChangeStopTask False userId (sv_NotifySystemUI env False False userId sv))"

section \<open>Creating a session\<close>

record element =
  elDevice :: string
  elBundle :: string
  elAbility :: string

text \<open>\<^verbatim>\<open>[A-Za-z\w\.]*\<close>\<close>

definition name_regex :: "string \<Rightarrow> bool" where
  "name_regex s \<longleftrightarrow> list_all (\<lambda>c. cpp_word_char c \<or> c = CHR ''.'') s"

definition sv_IsElementNameValid :: "element \<Rightarrow> bool" where
  "sv_IsElementNameValid e \<longleftrightarrow> elBundle e \<noteq> [] \<and> elAbility e \<noteq> []
     \<and> name_regex (elBundle e) \<and> name_regex (elAbility e)"

text \<open>Despite its name the function returns true for parameters that are valid.\<close>

definition sv_IsParamInvalid :: "int \<Rightarrow> string \<Rightarrow> int \<Rightarrow> element \<Rightarrow> bool" where
  "sv_IsParamInvalid callingUid tag type e \<longleftrightarrow>
     (if tag = [] then False
      else if type \<notin> {SESSION_TYPE_AUDIO, SESSION_TYPE_VIDEO, SESSION_TYPE_VOICE_CALL,
          SESSION_TYPE_VIDEO_CALL, SESSION_TYPE_PHOTO} then False
      else if elBundle e = [] \<or> elAbility e = [] then False
      else if callingUid = audioBrokerUid \<and> tag = ''ancoMediaSession'' then True
      else sv_IsElementNameValid e)"

definition sv_AbilityHasSession :: "int \<Rightarrow> int \<Rightarrow> service \<Rightarrow> bool \<times> service" where
  "sv_AbilityHasSession pid userId sv =
     (let (st, um) = (if userId \<le> 0 then um_GetContainer (svUsers sv)
                      else um_GetContainerFromUser userId (svUsers sv))
      in (ss_PidHasSession pid st, sv\<lparr>svUsers := um\<rparr>))"

definition sv_RefreshUserFromAnco :: "env \<Rightarrow> int \<Rightarrow> string \<Rightarrow> element \<Rightarrow> service \<Rightarrow> service" where
  "sv_RefreshUserFromAnco env callingUid tag e sv =
     (let isBroker = (tag = ''ancoMediaSession'' \<and> callingUid = audioBrokerUid);
          isAnco = (tag = ''anco_audio'' \<and> callingUid = ancoUid)
      in if \<not> ((isBroker \<or> isAnco) \<and> elDevice e \<noteq> []) then sv
         else (let cs = takeWhile (\<lambda>c. c \<noteq> CHR 0x00) (elDevice e); (v, erange, rest) = strtol cs
               in if rest = cs \<or> rest \<noteq> [] \<or> erange \<or> v < - (2 ^ 31) \<or> 2 ^ 31 - 1 < v then sv
                  else if um_GetCurrentUserId (svUsers sv) = v then sv
                  else sv_HandleUserEvent env SWITCHED v sv))"

text \<open>
  What the bundle manager answers about a third-party caller: the bundle of its uid and the
  default ability of that bundle.
\<close>

definition sv_CorrectElementForThirdPartyCaller ::
  "string \<Rightarrow> string \<Rightarrow> bool \<Rightarrow> element \<Rightarrow> element" where
  "sv_CorrectElementForThirdPartyCaller realBundleName defaultAbilityName thirdPartyApp e =
     (if \<not> thirdPartyApp then e
      else if realBundleName = [] then e
      else if realBundleName = elBundle e then e
      else let corrected = e\<lparr>elBundle := realBundleName\<rparr>
           in if defaultAbilityName = [] then corrected else corrected\<lparr>elAbility := defaultAbilityName\<rparr>)"

definition sv_CheckAndUpdateAncoMediaSession :: "int \<Rightarrow> element \<Rightarrow> service \<Rightarrow> service" where
  "sv_CheckAndUpdateAncoMediaSession callingUid e sv =
     (if callingUid \<noteq> audioBrokerUid then sv
      else let (st, um) = um_GetContainer (svUsers sv); sv = sv\<lparr>svUsers := um\<rparr>
      in case ss_GetSessionByUid (items (svStore sv)) callingUid st of
           None \<Rightarrow> sv
         | Some s \<Rightarrow>
             (let (res, um) = um_UpdateSessionForCurrentUser (items (svStore sv)) (siPid (sv_item sv s))
                    (siAbility (sv_item sv s)) (elAbility e) s (svUsers sv);
                  sv = sv\<lparr>svUsers := um\<rparr>
              in if res \<noteq> AVSESSION_SUCCESS then sv
                 else (sv_upd_item s (si_UpdateSessionElement (elBundle e) (elAbility e)) sv)
                   \<lparr>svAncoMediaSessionChange := True\<rparr>))"

text \<open>
  A new object at the address \<open>s\<close>; \<open>sid\<close> is the id that \<^verbatim>\<open>AllocSessionId\<close> made, empty when it
  failed.
\<close>

definition sv_CreateNewSession ::
  "sref \<Rightarrow> string \<Rightarrow> int \<Rightarrow> int \<Rightarrow> string \<Rightarrow> int \<Rightarrow> bool \<Rightarrow> element \<Rightarrow> service \<Rightarrow> sref option \<times> service" where
  "sv_CreateNewSession s sid callingUid callingPid tag type thirdPartyApp e sv =
     (if sid = [] then (None, sv)
      else
        let userId = sv_GetUserIdFromCallingUid callingUid sv;
            new = new_session\<lparr>siSessionId := sid, siDescUserId := userId, siUserId := userId, siTag := tag,
              siType := type, siBundle := elBundle e, siAbility := elAbility e, siThirdParty := thirdPartyApp,
              siPid := callingPid, siUid := callingUid\<rparr>;
            sv = sv_upd_item s (\<lambda>_. new) sv;
            sv = (if elBundle e \<in> set (svControlListForNtf sv)
                  then sv\<lparr>svControlBundles := cset_insert (callingUid, callingPid) (svControlBundles sv)\<rparr>
                  else sv)
        in (Some s, sv))"

definition sv_AddExtraFrontSession :: "int \<Rightarrow> sref \<Rightarrow> service \<Rightarrow> service" where
  "sv_AddExtraFrontSession type s sv =
     (let userId = siUserId (sv_item sv s);
          (l, sv) = sv_GetCurSessionListForFront userId sv
      in if (type = SESSION_TYPE_VOICE_CALL \<or> type = SESSION_TYPE_VIDEO_CALL) \<and> s \<notin> set l
         then sv_NotifySessionChange (s # l) userId (sv_upd_users (um_set_front userId (s # l)) sv)
         else sv)"

definition sv_SetCritical :: "env \<Rightarrow> bool \<Rightarrow> service \<Rightarrow> service" where
  "sv_SetCritical env b sv =
     (if b = svCritical sv then sv else if envCriticalOk env then sv\<lparr>svCritical := b\<rparr> else sv)"

definition sv_SetCriticalWhenCreate :: "env \<Rightarrow> sref \<Rightarrow> service \<Rightarrow> service" where
  "sv_SetCriticalWhenCreate env s sv =
     (let n = length (ss_GetAllSessions (umAll (svUsers sv)))
      in if n = 1 then sv_SetCritical env (siUid (sv_item sv s) \<noteq> ancoUid) sv
         else if 1 < n then sv_SetCritical env True sv else sv)"

definition sv_CreateSessionInner ::
  "env \<Rightarrow> string \<Rightarrow> string \<Rightarrow> sref \<Rightarrow> string \<Rightarrow> int \<Rightarrow> int \<Rightarrow> string \<Rightarrow> int \<Rightarrow> bool \<Rightarrow> element \<Rightarrow> service
    \<Rightarrow> int \<times> sref option \<times> service" where
  "sv_CreateSessionInner env realBundle defaultAbility s sid callingUid callingPid tag type thirdPartyApp e sv =
     (if \<not> sv_IsParamInvalid callingUid tag type e then (ERR_INVALID_PARAM, None, sv)
      else
        let sv = sv_RefreshUserFromAnco env callingUid tag e sv;
            el = sv_CorrectElementForThirdPartyCaller realBundle defaultAbility thirdPartyApp e;
            userId = sv_GetUserIdFromCallingUid callingUid sv;
            (has, sv) = sv_AbilityHasSession callingPid userId sv
        in if has then (ERR_SESSION_IS_EXIST, None, sv_CheckAndUpdateAncoMediaSession callingUid e sv)
           else case sv_CreateNewSession s sid callingUid callingPid tag type thirdPartyApp el sv of
             (None, sv) \<Rightarrow> (ERR_NO_MEMORY, None, sv)
           | (Some r, sv) \<Rightarrow>
               (let (ret, um) = um_AddSessionForCurrentUser callingPid (elAbility el) r userId (svUsers sv);
                    sv = sv\<lparr>svUsers := um\<rparr>
                in if ret \<noteq> AVSESSION_SUCCESS then (ERR_SESSION_EXCEED_MAX, None, sv)
                   else
                     let sv = sv_SetCriticalWhenCreate env r sv;
                         sv = sv_log (SessionCreated r) sv;
                         sv = sv_AddExtraFrontSession type r sv;
                         sv = (if siUid (sv_item sv r) = ancoUid \<and> sv_IsLocalSessionPlaying env (Some r) sv
                               then sv_UpdateSessionTimestamp env r (sv\<lparr>svAnco := Some r\<rparr>) else sv)
                     in (AVSESSION_SUCCESS, Some r, sv)))"

section \<open>Controllers\<close>

definition ctrl_add :: "int \<Rightarrow> cref \<Rightarrow> (int, cref list) cmap \<Rightarrow> (int, cref list) cmap" where
  "ctrl_add pid c m = cmap_put pid ((case map_of m pid of Some l \<Rightarrow> l | None \<Rightarrow> []) @ [c]) m"

definition ctrl_remove :: "int \<Rightarrow> cref \<Rightarrow> (int, cref list) cmap \<Rightarrow> (int, cref list) cmap" where
  "ctrl_remove pid c m = (case map_of m pid of
     None \<Rightarrow> m
   | Some l \<Rightarrow> (let l = list_remove c l in if l = [] then cmap_erase pid m else cmap_put pid l m))"

definition sv_GetPresentController :: "int \<Rightarrow> string \<Rightarrow> service \<Rightarrow> cref option" where
  "sv_GetPresentController pid sessionId sv = (case map_of (svControllers sv) pid of
     None \<Rightarrow> None
   | Some l \<Rightarrow> List.find (\<lambda>c. ct_HasSession sessionId (ctrls (svStore sv) c)) l)"

definition si_AddController :: "int \<Rightarrow> cref \<Rightarrow> session \<Rightarrow> session" where
  "si_AddController pid c s = s\<lparr>siControllers := cmap_insert pid c (siControllers s)\<rparr>"

definition sv_CreateNewControllerForSession :: "cref \<Rightarrow> int \<Rightarrow> sref \<Rightarrow> service \<Rightarrow> service" where
  "sv_CreateNewControllerForSession c pid s sv =
     (let new = \<lparr>ctPid = pid, ctSession = Some s, ctSessionId = siSessionId (sv_item sv s),
            ctUserId = siUserId (sv_item sv s), ctFromSession = (pid = siPid (sv_item sv s)),
            ctHasCallback = False\<rparr>
      in sv_upd_item s (si_AddController pid c) (sv\<lparr>svStore := upd_ctrl c (\<lambda>_. new) (svStore sv)\<rparr>))"

definition sv_CreateControllerInner ::
  "cref \<Rightarrow> int \<Rightarrow> int \<Rightarrow> int \<Rightarrow> string \<Rightarrow> int \<Rightarrow> service \<Rightarrow> int \<times> cref option \<times> service" where
  "sv_CreateControllerInner c callingUid callingPid ownPid sessionId pid sv =
     (let userId = sv_GetUserIdFromCallingUid callingUid sv;
          (st, um) = um_GetContainerFromUser userId (svUsers sv);
          sv = sv\<lparr>svUsers := um\<rparr>
      in case ss_GetSessionById (items (svStore sv)) sessionId st of
           None \<Rightarrow> (ERR_SESSION_NOT_EXIST, None, sv)
         | Some s \<Rightarrow>
             (let pid = (if pid < 0 \<or> callingPid \<noteq> ownPid then callingPid else pid)
              in case sv_GetPresentController pid sessionId sv of
                   Some existing \<Rightarrow> (ERR_CONTROLLER_IS_EXIST, Some existing, sv)
                 | None \<Rightarrow>
                     (let sv = sv_CreateNewControllerForSession c pid s sv
                      in (AVSESSION_SUCCESS, Some c, sv\<lparr>svControllers := ctrl_add pid c (svControllers sv)\<rparr>))))"

text \<open>\<^verbatim>\<open>HandleSessionDestroy\<close> of a controller: the client is told, the session is forgotten.\<close>

definition ct_HandleSessionDestroy :: "cref \<Rightarrow> service \<Rightarrow> service" where
  "ct_HandleSessionDestroy c sv =
     (let sv = (if ctHasCallback (ctrls (svStore sv) c) then sv_log (ControllerTold c) sv else sv)
      in sv\<lparr>svStore := upd_ctrl c ct_clear_session (svStore sv)\<rparr>)"

definition sv_HandleControllerRelease :: "cref \<Rightarrow> service \<Rightarrow> service" where
  "sv_HandleControllerRelease c sv =
     sv\<lparr>svControllers := ctrl_remove (ctPid (ctrls (svStore sv) c)) c (svControllers sv)\<rparr>"

definition ct_drop_callback :: "controller \<Rightarrow> controller" where
  "ct_drop_callback c = c\<lparr>ctHasCallback := False\<rparr>"

definition ct_DestroyWithoutReply :: "cref \<Rightarrow> service \<Rightarrow> service" where
  "ct_DestroyWithoutReply c sv =
     (let sv = sv\<lparr>svStore := upd_ctrl c ct_drop_callback (svStore sv)\<rparr>
      in case ctSession (ctrls (svStore sv) c) of
           None \<Rightarrow> sv
         | Some s \<Rightarrow> sv_upd_item s (si_HandleControllerRelease (ctPid (ctrls (svStore sv) c)))
             (sv\<lparr>svStore := upd_ctrl c ct_clear_session (svStore sv)\<rparr>))"

definition ct_Destroy :: "cref \<Rightarrow> service \<Rightarrow> service" where
  "ct_Destroy c sv =
     (if ctSessionId (ctrls (svStore sv) c) = ''DEFAULT'' then sv
      else let sv = sv_HandleControllerRelease c (sv\<lparr>svStore := upd_ctrl c ct_drop_callback (svStore sv)\<rparr>)
      in case ctSession (ctrls (svStore sv) c) of
           None \<Rightarrow> sv
         | Some s \<Rightarrow> sv_upd_item s (si_HandleControllerRelease (ctPid (ctrls (svStore sv) c)))
             (sv\<lparr>svStore := upd_ctrl c ct_clear_session (svStore sv)\<rparr>))"

section \<open>Releasing a session\<close>

definition si_destroy :: "session \<Rightarrow> session" where
  "si_destroy s = s\<lparr>siDestroyed := True, siControllers := []\<rparr>"

definition si_DestroyTask :: "sref \<Rightarrow> service \<Rightarrow> cref list \<times> service" where
  "si_DestroyTask s sv =
     (if siDestroyed (sv_item sv s) then ([], sv)
      else
        let controllerList = map snd (siControllers (sv_item sv s));
            sv = sv_upd_users (um_delete_cache (siUserId (sv_item sv s)) (siSessionId (sv_item sv s))) sv;
            sv = sv_upd_item s si_destroy sv
        in (controllerList, foldl (\<lambda>sv c. ct_HandleSessionDestroy c sv) sv controllerList))"

definition sv_RemoveControllersNoLock :: "cref list \<Rightarrow> service \<Rightarrow> service" where
  "sv_RemoveControllersNoLock cs sv = foldl (\<lambda>sv c. sv_HandleControllerRelease c sv) sv cs"

definition sv_SetCriticalWhenRelease :: "env \<Rightarrow> service \<Rightarrow> service" where
  "sv_SetCriticalWhenRelease env sv =
     (let n = length (ss_GetAllSessions (umAll (svUsers sv)))
      in if n = 0 then sv_SetCritical env False sv
         else if n = 1 \<and> ss_GetSessionByUid (items (svStore sv)) ancoUid (umAll (svUsers sv)) \<noteq> None
              then sv_SetCritical env False sv
         else sv)"

definition sv_remove_key_event :: "int \<Rightarrow> sref \<Rightarrow> service \<Rightarrow> service" where
  "sv_remove_key_event userId s sv =
     (let (l, um) = um_GetCurSessionListForKeyEvent userId (svUsers sv)
      in sv\<lparr>svUsers := um_set_key_event userId (remove1 s l) um\<rparr>)"

text \<open>The two lists that mention the session outside the users manager.\<close>

definition sv_forget_session :: "sref \<Rightarrow> service \<Rightarrow> service" where
  "sv_forget_session s sv =
     (let sv = (if siUid (sv_item sv s) = ancoUid then sv\<lparr>svAnco := None\<rparr> else sv)
      in if siBundle (sv_item sv s) \<in> set (svControlListForNtf sv)
         then sv\<lparr>svControlBundles := cset_erase (siUid (sv_item sv s), siPid (sv_item sv s)) (svControlBundles sv)\<rparr>
         else sv)"

definition sv_HandleSessionRelease :: "env \<Rightarrow> string \<Rightarrow> service \<Rightarrow> service" where
  "sv_HandleSessionRelease env sessionId sv =
     (case ss_GetSessionById (items (svStore sv)) sessionId (umAll (svUsers sv)) of
        None \<Rightarrow> sv
      | Some s \<Rightarrow>
          (let userId = sv_session_user s sv;
               sv = sv_log (SessionReleased s) sv;
               sv = sv_forget_session s sv;
               (controllersToDestroy, sv) = si_DestroyTask s sv;
               sv = sv_HandleTopSessionRelease env userId s sv;
               sv = (if siRemoteSource (sv_item sv s) then sv_log (CancelCastAudio s) sv else sv);
               sv = sv_upd_users (\<lambda>um. snd (um_RemoveSessionForAllUser (items (svStore sv))
                 (siPid (sv_item sv s)) (siAbility (sv_item sv s)) um)) sv;
               sv = sv_UpdateFrontSession env s False sv;
               sv = sv_remove_key_event userId s sv;
               sv = sv_SetCriticalWhenRelease env sv
           in sv_RemoveControllersNoLock controllersToDestroy sv))"

section \<open>Clients that die\<close>

definition sv_ClearSessionForClientDiedNoLock :: "env \<Rightarrow> int \<Rightarrow> service \<Rightarrow> service" where
  "sv_ClearSessionForClientDiedNoLock env pid sv =
     foldl (\<lambda>sv s. sv_HandleSessionRelease env (siSessionId (sv_item sv s)) sv) sv
       (ss_GetSessionsByPid pid (umAll (svUsers sv)))"

definition sv_ClearControllerForClientDiedNoLock :: "int \<Rightarrow> service \<Rightarrow> service" where
  "sv_ClearControllerForClientDiedNoLock pid sv = (case map_of (svControllers sv) pid of
     None \<Rightarrow> sv
   | Some cs \<Rightarrow>
       (let sv = foldl (\<lambda>sv c. ct_DestroyWithoutReply c sv) sv cs
        in sv\<lparr>svControllers := cmap_erase pid (svControllers sv)\<rparr>))"

definition sv_ClearClientResources :: "env \<Rightarrow> int \<Rightarrow> service \<Rightarrow> service" where
  "sv_ClearClientResources env pid sv =
     (let sv = sv_upd_users (um_RemoveSessionListener pid) sv;
          sv = sv_ClearSessionForClientDiedNoLock env pid sv
      in sv_ClearControllerForClientDiedNoLock pid sv)"

end
