(* ===== verification/FocusStrategy.thy ===== *)
theory FocusStrategy
  imports SessionLife
begin

text \<open>
  \<^verbatim>\<open>FocusSessionStrategy\<close> (\<^verbatim>\<open>focus_session_strategy.cpp\<close>): from the audio streams that the
  audio framework reports it works out which process starts to play and which one stops, and
  calls the service. The state of a process is that of the code: running (2), stopped (0) or
  released (4). The list of controlled bundles, which only the service changes, is
  \<open>svControlBundles\<close> of the service.

  Usages and states of a stream are the constants of the audio framework that the code names; any
  other value is \<open>USAGE_OTHER\<close> or \<open>RENDERER_OTHER\<close>.
\<close>

section \<open>State\<close>

datatype renderer_state = RENDERER_RUNNING | RENDERER_RELEASED | RENDERER_OTHER nat

datatype stream_usage = USAGE_UNKNOWN | USAGE_MUSIC | USAGE_MOVIE | USAGE_AUDIOBOOK
  | USAGE_VOICE_COMMUNICATION | USAGE_VIDEO_COMMUNICATION | USAGE_RINGTONE | USAGE_OTHER nat

record renderer_info =
  riUid :: int
  riPid :: int
  riUsage :: stream_usage
  riState :: renderer_state

type_synonym focus_key = "int \<times> int"

definition runningState :: int where "runningState = 2"
definition stopState :: int where "stopState = 0"
definition releaseState :: int where "releaseState = 4"

definition ALLOWED_ANCO_STREAM_USAGE :: "stream_usage list" where
  "ALLOWED_ANCO_STREAM_USAGE = [USAGE_MUSIC, USAGE_MOVIE, USAGE_VOICE_COMMUNICATION]"

definition ALLOWED_MEDIA_STREAM_USAGE :: "stream_usage list" where
  "ALLOWED_MEDIA_STREAM_USAGE = [USAGE_UNKNOWN, USAGE_MUSIC, USAGE_MOVIE, USAGE_AUDIOBOOK]"

definition AUDIO_PLAYING_STREAM_USAGE :: "stream_usage list" where
  "AUDIO_PLAYING_STREAM_USAGE = [USAGE_MUSIC, USAGE_MOVIE, USAGE_AUDIOBOOK, USAGE_VOICE_COMMUNICATION,
     USAGE_VIDEO_COMMUNICATION, USAGE_RINGTONE]"

text \<open>\<open>fsTasks\<close>: the delayed checks that are posted and have not run, by name and process.\<close>

record focus_strategy =
  fsLast :: "(focus_key, int) cmap"
  fsCurrent :: "(focus_key, int) cmap"
  fsPlayingUids :: "int list"
  fsPendingNames :: "string list"
  fsTasks :: "(string \<times> focus_key) list"

definition new_focus_strategy :: focus_strategy where
  "new_focus_strategy = \<lparr>fsLast = [], fsCurrent = [], fsPlayingUids = [], fsPendingNames = [], fsTasks = []\<rparr>"

definition focus_task_name :: "focus_key \<Rightarrow> string" where
  "focus_task_name key = ''CheckFocusStop'' @ int_to_string (snd key)"

definition fs_CancelAllPendingTasks :: "focus_strategy \<Rightarrow> focus_strategy" where
  "fs_CancelAllPendingTasks fs = fs\<lparr>fsTasks := filter (\<lambda>t. fst t \<notin> set (fsPendingNames fs)) (fsTasks fs),
     fsPendingNames := []\<rparr>"

definition fs_SetAudioPlayingUids :: "int list \<Rightarrow> focus_strategy \<Rightarrow> focus_strategy" where
  "fs_SetAudioPlayingUids uids fs = fs\<lparr>fsPlayingUids := uids\<rparr>"

section \<open>The states of the processes\<close>

text \<open>One pass of the loop: the uids that play, the states, and the process that was last seen running.\<close>

definition fs_render_step :: "focus_key list \<Rightarrow> renderer_info
    \<Rightarrow> int list \<times> (focus_key, int) cmap \<times> focus_key \<Rightarrow> int list \<times> (focus_key, int) cmap \<times> focus_key" where
  "fs_render_step control info st = (case st of (uids, cur, playingKey) \<Rightarrow>
     let key = (riUid info, riPid info);
         uids = (if riUid info \<notin> set uids \<and> riUsage info \<in> set AUDIO_PLAYING_STREAM_USAGE
                   \<and> riState info = RENDERER_RUNNING then uids @ [riUid info] else uids)
     in if riUid info = ancoUid \<and> riUsage info \<notin> set ALLOWED_ANCO_STREAM_USAGE then (uids, cur, playingKey)
        else if riUsage info \<notin> set ALLOWED_MEDIA_STREAM_USAGE \<and> key \<in> set control then (uids, cur, playingKey)
        else if riPid info = 0 then (uids, cur, playingKey)
        else
          let cur = (if map_of cur key = None then cmap_put key stopState cur else cur);
              (cur, playingKey) = (if riState info = RENDERER_RUNNING
                then (cmap_put key runningState cur, key) else (cur, playingKey));
              cur = (if playingKey \<noteq> key
                then cmap_put key (if riState info = RENDERER_RELEASED then releaseState else stopState) cur
                else cur)
          in (uids, cur, playingKey))"

definition fs_ProcAudioRenderChange :: "focus_key list \<Rightarrow> renderer_info list \<Rightarrow> focus_strategy \<Rightarrow> focus_strategy" where
  "fs_ProcAudioRenderChange control infos fs =
     (case fold (fs_render_step control) infos ([], fsCurrent fs, (-1, -1)) of
        (uids, cur, _) \<Rightarrow> fs\<lparr>fsPlayingUids := uids, fsCurrent := cur\<rparr>)"

definition fs_state :: "focus_key \<Rightarrow> (focus_key, int) cmap \<Rightarrow> int" where
  "fs_state key m = (case map_of m key of Some x \<Rightarrow> x | None \<Rightarrow> 0)"

definition fs_IsFocusSession :: "focus_key \<Rightarrow> focus_strategy \<Rightarrow> bool \<times> focus_strategy" where
  "fs_IsFocusSession key fs =
     (let isFocus = (map_of (fsLast fs) key \<noteq> Some runningState);
          fs = fs\<lparr>fsLast := cmap_put key (fs_state key (fsCurrent fs)) (fsLast fs)\<rparr>
      in (isFocus, if isFocus
          then fs\<lparr>fsTasks := filter (\<lambda>t. fst t \<noteq> focus_task_name key) (fsTasks fs),
                 fsPendingNames := cset_erase (focus_task_name key) (fsPendingNames fs)\<rparr>
          else fs))"

definition fs_CheckFocusSessionStop :: "focus_key \<Rightarrow> focus_strategy \<Rightarrow> bool \<times> focus_strategy" where
  "fs_CheckFocusSessionStop key fs =
     (map_of (fsLast fs) key = Some runningState,
      fs\<lparr>fsLast := cmap_put key (fs_state key (fsCurrent fs)) (fsLast fs)\<rparr>)"

text \<open>One pass of the loop over the states, which it visits in ascending order of the processes.\<close>

definition fs_visit :: "focus_key \<times> int \<Rightarrow> focus_strategy \<times> focus_key \<times> focus_key
    \<Rightarrow> focus_strategy \<times> focus_key \<times> focus_key" where
  "fs_visit e st = (case st of (fs, focusKey, stopKey) \<Rightarrow>
     let (key, state) = e;
         (fs, focusKey, stopKey) =
           (if state = runningState then
              (let (is, fs) = fs_IsFocusSession key fs in (fs, if is then key else focusKey, stopKey))
            else
              (let (is, fs) = fs_CheckFocusSessionStop key fs in (fs, focusKey, if is then key else stopKey)))
     in if state = releaseState
        then (fs\<lparr>fsLast := cmap_erase key (fsLast fs), fsCurrent := cmap_erase key (fsCurrent fs)\<rparr>, focusKey, stopKey)
        else (fs, focusKey, stopKey))"

definition valid_key :: "focus_key \<Rightarrow> bool" where
  "valid_key k \<longleftrightarrow> fst k \<noteq> -1 \<and> snd k \<noteq> -1"

definition fs_DelayStopFocusSession :: "focus_key \<Rightarrow> focus_strategy \<Rightarrow> focus_strategy" where
  "fs_DelayStopFocusSession key fs =
     fs\<lparr>fsPendingNames := cset_insert (focus_task_name key) (fsPendingNames fs),
        fsTasks := fsTasks fs @ [(focus_task_name key, key)]\<rparr>"

text \<open>The processes that the loop finds; the second is the one whose stop is checked later.\<close>

definition fs_scan :: "focus_strategy \<Rightarrow> focus_strategy \<times> focus_key \<times> focus_key" where
  "fs_scan fs = fold fs_visit (fsCurrent fs) (fs, (-1, -1), (-1, -1))"

definition fs_HandleAudioRenderStateChangeEvent ::
  "focus_key list \<Rightarrow> renderer_info list \<Rightarrow> focus_strategy \<Rightarrow> focus_key option \<times> focus_strategy" where
  "fs_HandleAudioRenderStateChangeEvent control infos fs =
     (let (fs, focusKey, stopKey) = fs_scan (fs_ProcAudioRenderChange control infos fs);
          focus = (if valid_key focusKey then Some focusKey else None)
      in (focus, if valid_key stopKey then fs_DelayStopFocusSession stopKey fs else fs))"

section \<open>The calls of the service\<close>

text \<open>\<^verbatim>\<open>UpdateFocusSession\<close>: the selector, then the callback.\<close>

definition sv_UpdateFocusSession :: "env \<Rightarrow> focus_key \<Rightarrow> service \<Rightarrow> service" where
  "sv_UpdateFocusSession env key sv =
     sv_HandleFocusSession env (fst key) (snd key) True (snd (sv_SelectFocusSession env (fst key) (snd key) sv))"

definition sv_audio_event :: "env \<Rightarrow> renderer_info list \<Rightarrow> focus_strategy \<times> service \<Rightarrow> focus_strategy \<times> service" where
  "sv_audio_event env infos st = (case st of (fs, sv) \<Rightarrow>
     case fs_HandleAudioRenderStateChangeEvent (svControlBundles sv) infos fs of
       (None, fs) \<Rightarrow> (fs, sv)
     | (Some key, fs) \<Rightarrow> (fs, sv_UpdateFocusSession env key sv))"

text \<open>A delayed check runs: the process may play again by now.\<close>

definition sv_focus_stop_task :: "env \<Rightarrow> focus_key \<Rightarrow> focus_strategy \<times> service \<Rightarrow> focus_strategy \<times> service" where
  "sv_focus_stop_task env key st = (case st of (fs, sv) \<Rightarrow>
     (fs\<lparr>fsTasks := remove1 (focus_task_name key, key) (fsTasks fs)\<rparr>,
      if map_of (fsLast fs) key = Some runningState then sv
      else sv_HandleFocusSession env (fst key) (snd key) False sv))"

end
