(* ===== verification/ServiceInv.thy ===== *)
theory ServiceInv
  imports SessionLife
begin

text \<open>
  The consistency of the service: the users manager's own, and that every session in a list of
  sessions in front, in a list of sessions for key events, or on top of a user is a session of that
  user's container. What the operations on the top session and the order of the lists leave alone
  is the relation \<open>sv_frame\<close>.
\<close>

section \<open>The invariant\<close>

definition um_front :: "int \<Rightarrow> users_manager \<Rightarrow> sref list" where
  "um_front u um = (case map_of (umFront um) u of Some l \<Rightarrow> l | None \<Rightarrow> [])"

definition um_key_list :: "int \<Rightarrow> users_manager \<Rightarrow> sref list" where
  "um_key_list u um = (case map_of (umKeyEvent um) u of Some l \<Rightarrow> l | None \<Rightarrow> [])"

definition um_of_user :: "(sref \<Rightarrow> session) \<Rightarrow> int \<Rightarrow> sref \<Rightarrow> users_manager \<Rightarrow> bool" where
  "um_of_user h u s um \<longleftrightarrow> s \<in> set (ss_GetAllSessions (umAll um)) \<and> siUserId (h s) = u"

definition sv_ok :: "service \<Rightarrow> bool" where
  "sv_ok sv \<longleftrightarrow> um_ok (items (svStore sv)) (svUsers sv)
     \<and> (\<forall>u. \<forall>s \<in> set (um_front u (svUsers sv)). um_of_user (items (svStore sv)) u s (svUsers sv))
     \<and> (\<forall>u. distinct (um_key_list u (svUsers sv))
        \<and> (\<forall>s \<in> set (um_key_list u (svUsers sv)). um_of_user (items (svStore sv)) u s (svUsers sv)))
     \<and> (\<forall>u s. um_GetTopSession u (svUsers sv) = Some s \<longrightarrow> um_of_user (items (svStore sv)) u s (svUsers sv))"

lemma sv_okD:
  assumes "sv_ok sv"
  shows "um_ok (items (svStore sv)) (svUsers sv)"
    and "s \<in> set (um_front u (svUsers sv)) \<Longrightarrow> um_of_user (items (svStore sv)) u s (svUsers sv)"
    and "s \<in> set (um_key_list u (svUsers sv)) \<Longrightarrow> um_of_user (items (svStore sv)) u s (svUsers sv)"
    and "distinct (um_key_list u (svUsers sv))"
    and "um_GetTopSession u (svUsers sv) = Some s \<Longrightarrow> um_of_user (items (svStore sv)) u s (svUsers sv)"
  using assms by (simp_all add: sv_ok_def)

section \<open>What a step on the top session leaves alone\<close>

text \<open>A session without the two fields that such a step sets.\<close>

definition si_core :: "session \<Rightarrow> session" where
  "si_core s = s\<lparr>siPlayingTime := 0, siIsTop := False\<rparr>"

lemma si_core_fields:
  assumes "si_core s = si_core t"
  shows "siSessionId s = siSessionId t" and "siPid s = siPid t" and "siUid s = siUid t"
    and "siUserId s = siUserId t" and "siType s = siType t" and "siBundle s = siBundle t"
    and "siAbility s = siAbility t" and "siCasting s = siCasting t" and "siControllers s = siControllers t"
    and "siDestroyed s = siDestroyed t" and "siRemoteSource s = siRemoteSource t"
    and "siPlaybackState s = siPlaybackState t" and "siTag s = siTag t"
  using assms by (cases s, cases t, simp add: si_core_def)+

lemma si_core_set [simp]: "si_core (si_SetTop b s) = si_core s" "si_core (si_SetPlayingTime t s) = si_core s"
  by (simp_all add: si_core_def si_SetTop_def si_SetPlayingTime_def)

definition sv_frame :: "service \<Rightarrow> service \<Rightarrow> bool" where
  "sv_frame sv sv' \<longleftrightarrow> (\<forall>s. si_core (items (svStore sv') s) = si_core (items (svStore sv) s))
     \<and> ctrls (svStore sv') = ctrls (svStore sv) \<and> svControllers sv' = svControllers sv
     \<and> svControlBundleNames sv' = svControlBundleNames sv
     \<and> umAll (svUsers sv') = umAll (svUsers sv) \<and> umCurUser (svUsers sv') = umCurUser (svUsers sv)
     \<and> umAlive (svUsers sv') = umAlive (svUsers sv) \<and> umFiles (svUsers sv') = umFiles (svUsers sv)
     \<and> um_stacks_ok (svUsers sv')
     \<and> (\<forall>u p a. ss_GetSession p a (um_stack u (svUsers sv')) = ss_GetSession p a (um_stack u (svUsers sv)))
     \<and> (\<forall>u. set (um_front u (svUsers sv')) = set (um_front u (svUsers sv)))
     \<and> (\<forall>u. um_key_list u (svUsers sv') = um_key_list u (svUsers sv))"

lemma sv_frame_refl: "um_stacks_ok (svUsers sv) \<Longrightarrow> sv_frame sv sv"
  by (simp add: sv_frame_def)

lemma sv_frame_trans: "sv_frame a b \<Longrightarrow> sv_frame b c \<Longrightarrow> sv_frame a c"
  by (simp add: sv_frame_def)

lemma sv_frame_items:
  assumes "sv_frame sv sv'"
  shows "siUserId (items (svStore sv') s) = siUserId (items (svStore sv) s)"
    and "siBundle (items (svStore sv') s) = siBundle (items (svStore sv) s)"
    and "siType (items (svStore sv') s) = siType (items (svStore sv) s)"
    and "siPid (items (svStore sv') s) = siPid (items (svStore sv) s)"
    and "siAbility (items (svStore sv') s) = siAbility (items (svStore sv) s)"
    and "siSessionId (items (svStore sv') s) = siSessionId (items (svStore sv) s)"
    and "siCasting (items (svStore sv') s) = siCasting (items (svStore sv) s)"
    and "siControllers (items (svStore sv') s) = siControllers (items (svStore sv) s)"
    and "siDestroyed (items (svStore sv') s) = siDestroyed (items (svStore sv) s)"
proof -
  have "si_core (items (svStore sv') s) = si_core (items (svStore sv) s)"
    using assms unfolding sv_frame_def by blast
  note F = si_core_fields [OF this]
  show "siUserId (items (svStore sv') s) = siUserId (items (svStore sv) s)"
    "siBundle (items (svStore sv') s) = siBundle (items (svStore sv) s)"
    "siType (items (svStore sv') s) = siType (items (svStore sv) s)"
    "siPid (items (svStore sv') s) = siPid (items (svStore sv) s)"
    "siAbility (items (svStore sv') s) = siAbility (items (svStore sv) s)"
    "siSessionId (items (svStore sv') s) = siSessionId (items (svStore sv) s)"
    "siCasting (items (svStore sv') s) = siCasting (items (svStore sv) s)"
    "siControllers (items (svStore sv') s) = siControllers (items (svStore sv) s)"
    "siDestroyed (items (svStore sv') s) = siDestroyed (items (svStore sv) s)"
    by (rule F)+
qed

lemma sv_frame_of_user:
  "sv_frame sv sv' \<Longrightarrow> um_of_user (items (svStore sv')) u s (svUsers sv') = um_of_user (items (svStore sv)) u s (svUsers sv)"
  using sv_frame_items(1) [of sv sv' s] unfolding um_of_user_def sv_frame_def by simp

text \<open>With the top sessions right, the frame keeps the invariant.\<close>

lemma sv_frame_ok:
  assumes ok: "sv_ok sv" and frame: "sv_frame sv sv'"
    and tops: "\<And>u s. um_GetTopSession u (svUsers sv') = Some s \<Longrightarrow> um_of_user (items (svStore sv)) u s (svUsers sv)"
  shows "sv_ok sv'"
proof -
  note O = sv_okD [OF ok] and I = sv_frame_items [OF frame]
  have F: "umAll (svUsers sv') = umAll (svUsers sv)" "um_stacks_ok (svUsers sv')"
    "\<And>u p a. ss_GetSession p a (um_stack u (svUsers sv')) = ss_GetSession p a (um_stack u (svUsers sv))"
    "\<And>u. set (um_front u (svUsers sv')) = set (um_front u (svUsers sv))"
    "\<And>u. um_key_list u (svUsers sv') = um_key_list u (svUsers sv)"
    using frame by (simp_all add: sv_frame_def)
  have "um_ok (items (svStore sv')) (svUsers sv')"
    using O(1) F I by (simp add: um_ok_def um_partition_def um_ids_ok_def um_keys_ok_def)
  then show ?thesis
    using O F tops by (simp add: sv_ok_def sv_frame_of_user [OF frame])
qed

section \<open>The simple steps\<close>

lemma um_of_stacks [simp]:
  "um_front u (um\<lparr>umTop := x\<rparr>) = um_front u um" "um_key_list u (um\<lparr>umTop := x\<rparr>) = um_key_list u um"
  "um_front u (um\<lparr>umKeyEvent := y\<rparr>) = um_front u um" "um_key_list u (um\<lparr>umFront := z\<rparr>) = um_key_list u um"
  "um_front u (um\<lparr>umAll := st\<rparr>) = um_front u um" "um_key_list u (um\<lparr>umAll := st\<rparr>) = um_key_list u um"
  by (simp_all add: um_front_def um_key_list_def)

lemma um_stacks_ok_cong: "umAll um' = umAll um \<Longrightarrow> umStacks um' = umStacks um \<Longrightarrow> um_stacks_ok um' = um_stacks_ok um"
  by (simp add: um_stacks_ok_def um_stack_def)

lemma sv_frame_log: "um_stacks_ok (svUsers sv) \<Longrightarrow> sv_frame sv (sv_log e sv)"
  by (simp add: sv_frame_def sv_log_def)

lemma sv_frame_upd_item:
  "um_stacks_ok (svUsers sv) \<Longrightarrow> (\<And>x. si_core (f x) = si_core x) \<Longrightarrow> sv_frame sv (sv_upd_item s f sv)"
  by (simp add: sv_frame_def sv_upd_item_def)

lemma sv_frame_top: "um_stacks_ok (svUsers sv) \<Longrightarrow> sv_frame sv (sv_upd_users (um_SetTopSession x u) sv)"
  using um_stacks_ok_cong [of "um_SetTopSession x u (svUsers sv)" "svUsers sv"]
  by (simp add: sv_frame_def sv_upd_users_def um_SetTopSession_def)

lemma sv_frame_fields:
  "um_stacks_ok (svUsers sv) \<Longrightarrow> svStore sv' = svStore sv \<Longrightarrow> svUsers sv' = svUsers sv \<Longrightarrow>
    svControllers sv' = svControllers sv \<Longrightarrow> svControlBundleNames sv' = svControlBundleNames sv \<Longrightarrow> sv_frame sv sv'"
  by (simp add: sv_frame_def)

lemma sv_frame_stacks_ok: "sv_frame sv sv' \<Longrightarrow> um_stacks_ok (svUsers sv')"
  by (simp add: sv_frame_def)

text \<open>Notifications touch nothing that the frame mentions, nor the top sessions.\<close>

lemma sv_quiet [simp]:
  "svStore (sv_NotifySystemUI env a b u sv) = svStore sv" "svUsers (sv_NotifySystemUI env a b u sv) = svUsers sv"
  "svControllers (sv_NotifySystemUI env a b u sv) = svControllers sv"
  "svControlBundleNames (sv_NotifySystemUI env a b u sv) = svControlBundleNames sv"
  "svStore (sv_NotifySessionChange l u sv) = svStore sv" "svUsers (sv_NotifySessionChange l u sv) = svUsers sv"
  "svControllers (sv_NotifySessionChange l u sv) = svControllers sv"
  "svControlBundleNames (sv_NotifySessionChange l u sv) = svControlBundleNames sv"
  "svStore (sv_UpdateLocalFrontSession l sv) = svStore sv" "svUsers (sv_UpdateLocalFrontSession l sv) = svUsers sv"
  "svControllers (sv_UpdateLocalFrontSession l sv) = svControllers sv"
  "svControlBundleNames (sv_UpdateLocalFrontSession l sv) = svControlBundleNames sv"
  "svStore (sv_NotifyLocalFrontSessionChangeForMigrate sid sv) = svStore sv"
  "svUsers (sv_NotifyLocalFrontSessionChangeForMigrate sid sv) = svUsers sv"
  "svControllers (sv_NotifyLocalFrontSessionChangeForMigrate sid sv) = svControllers sv"
  "svControlBundleNames (sv_NotifyLocalFrontSessionChangeForMigrate sid sv) = svControlBundleNames sv"
  "svStore (sv_log e sv) = svStore sv" "svUsers (sv_log e sv) = svUsers sv"
  "svControllers (sv_log e sv) = svControllers sv" "svControlBundleNames (sv_log e sv) = svControlBundleNames sv"
  by (simp_all add: sv_NotifySystemUI_def sv_NotifySessionChange_def sv_UpdateLocalFrontSession_def
      sv_NotifyLocalFrontSessionChangeForMigrate_def sv_log_def sv_SetCardStateChangeStopTask_def Let_def
      split: option.splits)

lemma sv_upd_simps [simp]:
  "svUsers (sv_upd_item s f sv) = svUsers sv" "svStore (sv_upd_item s f sv) = upd_item s f (svStore sv)"
  "svControllers (sv_upd_item s f sv) = svControllers sv"
  "svControlBundleNames (sv_upd_item s f sv) = svControlBundleNames sv"
  "svUsers (sv_upd_users g sv) = g (svUsers sv)" "svStore (sv_upd_users g sv) = svStore sv"
  "svControllers (sv_upd_users g sv) = svControllers sv"
  "svControlBundleNames (sv_upd_users g sv) = svControlBundleNames sv"
  by (simp_all add: sv_upd_item_def sv_upd_users_def)

lemma um_GetTopSession_set [simp]:
  "um_GetTopSession v (um_SetTopSession x u um) = (if v = u then x else um_GetTopSession v um)"
  by (simp add: um_GetTopSession_def um_SetTopSession_def map_of_cmap_put)

lemma um_SetTopSession_simps [simp]:
  "umCurUser (um_SetTopSession x u um) = umCurUser um" "umAlive (um_SetTopSession x u um) = umAlive um"
  "umAll (um_SetTopSession x u um) = umAll um" "um_stack v (um_SetTopSession x u um) = um_stack v um"
  "um_front v (um_SetTopSession x u um) = um_front v um" "um_key_list v (um_SetTopSession x u um) = um_key_list v um"
  by (simp_all add: um_SetTopSession_def)

end
