(* ===== verification/ServiceOps.thy ===== *)
theory ServiceOps
  imports ServiceInv
begin

text \<open>The operations on the top session and on the order of the lists keep the frame.\<close>

section \<open>Lists\<close>

lemma um_front_list:
  "fst (um_GetCurSessionListForFront u um) = um_front (um_user u um) um"
  "um_front v (snd (um_GetCurSessionListForFront u um)) = um_front v um"
  "um_key_list v (snd (um_GetCurSessionListForFront u um)) = um_key_list v um"
  "umAll (snd (um_GetCurSessionListForFront u um)) = umAll um"
  "umStacks (snd (um_GetCurSessionListForFront u um)) = umStacks um"
  "um_stack v (snd (um_GetCurSessionListForFront u um)) = um_stack v um"
  "umCurUser (snd (um_GetCurSessionListForFront u um)) = umCurUser um"
  "umAlive (snd (um_GetCurSessionListForFront u um)) = umAlive um"
  "umFiles (snd (um_GetCurSessionListForFront u um)) = umFiles um"
  "um_GetTopSession v (snd (um_GetCurSessionListForFront u um)) = um_GetTopSession v um"
  "um_user v (snd (um_GetCurSessionListForFront u um)) = um_user v um"
  by (auto simp: um_GetCurSessionListForFront_def um_front_def um_key_list_def um_GetTopSession_def
      um_user_def map_of_cmap_put Let_def split: option.splits)

lemma um_set_front_simps [simp]:
  "um_front v (um_set_front u l um) = (if v = um_user u um then l else um_front v um)"
  "um_key_list v (um_set_front u l um) = um_key_list v um" "umAll (um_set_front u l um) = umAll um"
  "umStacks (um_set_front u l um) = umStacks um" "um_stack v (um_set_front u l um) = um_stack v um"
  "umCurUser (um_set_front u l um) = umCurUser um" "umAlive (um_set_front u l um) = umAlive um"
  "umFiles (um_set_front u l um) = umFiles um"
  "um_GetTopSession v (um_set_front u l um) = um_GetTopSession v um"
  "um_user v (um_set_front u l um) = um_user v um"
  by (simp_all add: um_set_front_def um_front_def um_key_list_def um_GetTopSession_def um_user_def map_of_cmap_put)

lemma sv_front_list:
  assumes "sv_GetCurSessionListForFront u sv = (l, sv')" and "um_stacks_ok (svUsers sv)"
  shows "sv_frame sv sv'" and "l = um_front (um_user u (svUsers sv)) (svUsers sv)"
    and "um_GetTopSession v (svUsers sv') = um_GetTopSession v (svUsers sv)" and "svStore sv' = svStore sv"
    and "um_front v (svUsers sv') = um_front v (svUsers sv)" and "um_user v (svUsers sv') = um_user v (svUsers sv)"
proof -
  have sv': "l = fst (um_GetCurSessionListForFront u (svUsers sv))"
    "sv' = sv\<lparr>svUsers := snd (um_GetCurSessionListForFront u (svUsers sv))\<rparr>"
    using assms(1) by (auto simp: sv_GetCurSessionListForFront_def split: prod.splits)
  show "sv_frame sv sv'" unfolding sv'(2) sv_frame_def
    using assms(2) um_stacks_ok_cong [OF um_front_list(4,5), of u "svUsers sv"] by (simp add: um_front_list)
  show "l = um_front (um_user u (svUsers sv)) (svUsers sv)"
    "um_GetTopSession v (svUsers sv') = um_GetTopSession v (svUsers sv)" "svStore sv' = svStore sv"
    "um_front v (svUsers sv') = um_front v (svUsers sv)" "um_user v (svUsers sv') = um_user v (svUsers sv)"
    by (simp_all add: sv' um_front_list)
qed

section \<open>The top session\<close>

lemma sv_frame_clear_top: "um_stacks_ok (svUsers sv) \<Longrightarrow> sv_frame sv (sv_clear_top old sv)"
  by (cases old) (simp_all add: sv_clear_top_def sv_frame_refl sv_frame_upd_item)

lemma sv_clear_top_simps [simp]:
  "svUsers (sv_clear_top old sv) = svUsers sv"
  by (simp add: sv_clear_top_def split: option.splits)

lemma sv_UpdateTopSession_frame:
  assumes ok: "um_stacks_ok (svUsers sv)"
  shows "sv_frame sv (sv_UpdateTopSession env new u sv)"
    and "um_GetTopSession v (svUsers (sv_UpdateTopSession env (Some s) u sv)) =
      (if v = siUserId (items (svStore sv) s) then Some s else um_GetTopSession v (svUsers sv))"
    and "um_GetTopSession v (svUsers (sv_UpdateTopSession env None u sv)) =
      (if v = sv_GetTargetUserId u sv then None else um_GetTopSession v (svUsers sv))"
proof -
  show "um_GetTopSession v (svUsers (sv_UpdateTopSession env (Some s) u sv)) =
      (if v = siUserId (items (svStore sv) s) then Some s else um_GetTopSession v (svUsers sv))"
    by (simp add: sv_UpdateTopSession_def sv_UpdateSessionTimestamp_def Let_def)
  show "um_GetTopSession v (svUsers (sv_UpdateTopSession env None u sv)) =
      (if v = sv_GetTargetUserId u sv then None else um_GetTopSession v (svUsers sv))"
    by (simp add: sv_UpdateTopSession_def Let_def)
  show "sv_frame sv (sv_UpdateTopSession env new u sv)"
  proof (cases new)
    case None
    let ?u = "sv_GetTargetUserId u sv"
    let ?a = "sv_clear_top (um_GetTopSession ?u (svUsers sv)) sv"
    have "sv_frame sv ?a" using ok by (rule sv_frame_clear_top)
    moreover have "sv_frame ?a (sv_upd_users (um_SetTopSession None ?u) ?a)" using ok by (intro sv_frame_top) simp
    ultimately show ?thesis using None sv_frame_trans by (simp add: sv_UpdateTopSession_def Let_def)
  next
    case (Some s)
    let ?u = "siUserId (items (svStore sv) s)"
    let ?a = "sv_clear_top (um_GetTopSession ?u (svUsers sv)) sv"
    let ?b = "sv_upd_users (um_SetTopSession (Some s) ?u) ?a"
    let ?c = "if ?u = umCurUser (svUsers ?b) then sv_UpdateSessionTimestamp env s ?b else ?b"
    let ?d = "sv_upd_item s (si_SetTop True) ?c"
    have 1: "sv_frame sv ?a" using ok by (rule sv_frame_clear_top)
    have 2: "sv_frame ?a ?b" using ok by (intro sv_frame_top) simp
    note okb = sv_frame_stacks_ok [OF 2]
    have "sv_frame ?b (sv_UpdateSessionTimestamp env s ?b)"
      unfolding sv_UpdateSessionTimestamp_def using okb by (rule sv_frame_upd_item) simp
    then have 3: "sv_frame ?b ?c" using okb sv_frame_refl by presburger
    have 4: "sv_frame ?c ?d" using sv_frame_stacks_ok [OF 3] by (rule sv_frame_upd_item) simp
    have 5: "sv_frame ?d (sv_UpdateTopSession env new u sv)"
      using sv_frame_stacks_ok [OF 4] unfolding Some
      by (intro sv_frame_fields) (simp_all add: sv_UpdateTopSession_def Let_def split: option.splits)
    show ?thesis using 1 2 3 4 5 sv_frame_trans by blast
  qed
qed

section \<open>The order of a user's sessions\<close>

text \<open>Moving a session of the stack to the front of its list changes no lookup.\<close>

lemma ss_UpdateSessionSort_lookup:
  assumes "ss_ok st" and "ss_GetSession (siPid (h s)) (siAbility (h s)) st = Some s"
  shows "ss_ok (ss_UpdateSessionSort h s st)"
    and "ss_GetSession q b (ss_UpdateSessionSort h s st) = ss_GetSession q b st"
proof -
  show "ss_ok (ss_UpdateSessionSort h s st)" using ss_ok_UpdateSessionSort [OF assms(1), of s h] assms(2) by simp
  show "ss_GetSession q b (ss_UpdateSessionSort h s st) = ss_GetSession q b st"
    using assms(2) by (auto simp: ss_UpdateSessionSort_def ss_GetSession_def Let_def cmap_insert_def
        map_of_cmap_put map_of_cmap_erase)
qed

lemma um_of_user_lookup:
  assumes ok: "um_ok h um" and s: "um_of_user h u s um"
  shows "ss_GetSession (siPid (h s)) (siAbility (h s)) (um_stack u um) = Some s"
proof -
  obtain p a where "ss_GetSession p a (umAll um) = Some s"
    using s stack.inv_all [OF um_okD(1) [OF ok], of s] by (auto simp: um_of_user_def)
  with um_okD(4,5) [OF ok] s show ?thesis by (auto simp: um_of_user_def)
qed

lemma sv_UpdateOrder_frame:
  assumes ok: "um_ok (items (svStore sv)) (svUsers sv)"
    and s: "um_of_user (items (svStore sv)) u s (svUsers sv)" and r: "sv_UpdateOrder env s sv = (b, sv')"
  shows "sv_frame sv sv'" and "um_GetTopSession v (svUsers sv') = um_GetTopSession v (svUsers sv)"
proof -
  let ?h = "items (svStore sv)" and ?um = "svUsers sv"
  have u: "siUserId (?h s) = u" using s by (simp add: um_of_user_def)
  define um1 where "um1 = um_set_container u (ss_UpdateSessionSort ?h s (um_stack u ?um)) (snd (um_GetContainerFromUser u ?um))"
  define sv1 where "sv1 = sv_log (RefreshSort s) (sv\<lparr>svUsers := um1\<rparr>)"
  note L = ss_UpdateSessionSort_lookup [where h = ?h and s = s, OF um_okD(3) [OF ok] um_of_user_lookup [OF ok s]]
  have lists: "um_front v um1 = um_front v ?um" "um_key_list v um1 = um_key_list v ?um"
    "um_GetTopSession v um1 = um_GetTopSession v ?um" for v
    by (simp_all add: um1_def um_front_def um_key_list_def um_GetTopSession_def)
  have ok1: "um_stacks_ok um1"
    using um_okD(1-3) [OF ok] L(1) by (simp add: um_stacks_ok_def um1_def)
  have "umAll um1 = umAll ?um" "umCurUser um1 = umCurUser ?um" "umAlive um1 = umAlive ?um" "umFiles um1 = umFiles ?um"
    "ss_GetSession p a (um_stack v um1) = ss_GetSession p a (um_stack v ?um)" for p a v
    by (simp_all add: um1_def L(2))
  with ok1 have 1: "sv_frame sv sv1" using lists by (simp add: sv_frame_def sv1_def)
  obtain l sv2 where l: "sv_GetCurSessionListForFront u sv1 = (l, sv2)" by fastforce
  have okv1: "um_stacks_ok (svUsers sv1)" using ok1 by (simp add: sv1_def)
  note F = sv_front_list [OF l okv1]
  note okv2 = sv_frame_stacks_ok [OF F(1)]
  have r': "(b, sv') = (if si_GetSessionType (?h s) = ''photo'' then (False, sv2)
      else if s \<in> set l then (True, sv_NotifySessionChange (s # list_remove s l) u
        (sv_UpdateSessionTimestamp env s (sv_upd_users (um_set_front u (s # list_remove s l)) sv2)))
      else (True, sv2))"
  proof -
    obtain st um2 where g: "um_GetContainerFromUser u ?um = (st, um2)" by fastforce
    then have "st = um_stack u ?um" by (metis fst_conv um_GetContainerFromUser_fst)
    with g have "sv_log (RefreshSort s) (sv\<lparr>svUsers := um_set_container u (ss_UpdateSessionSort ?h s st) um2\<rparr>) = sv1"
      by (simp add: sv1_def um1_def)
    moreover have "svStore sv1 = svStore sv" by (simp add: sv1_def)
    ultimately show ?thesis
      unfolding r [symmetric] using g l u F(4) by (simp add: sv_UpdateOrder_def Let_def cong: if_cong)
  qed
  let ?l = "s # list_remove s l"
  have "sv_frame sv2 sv' \<and> (\<forall>v. um_GetTopSession v (svUsers sv') = um_GetTopSession v (svUsers sv2))"
  proof (cases "si_GetSessionType (?h s) \<noteq> ''photo'' \<and> s \<in> set l")
    case True
    have "sv_frame sv2 (sv_upd_users (um_set_front u ?l) sv2)"
      using okv2 True F(2,5,6) um_stacks_ok_cong [of "um_set_front u ?l (svUsers sv2)" "svUsers sv2"]
      by (auto simp: sv_frame_def)
    moreover from sv_frame_stacks_ok [OF this]
    have "sv_frame (sv_upd_users (um_set_front u ?l) sv2) (sv_UpdateSessionTimestamp env s (sv_upd_users (um_set_front u ?l) sv2))"
      by (simp add: sv_UpdateSessionTimestamp_def sv_frame_upd_item)
    moreover from sv_frame_stacks_ok [OF this]
    have "sv_frame (sv_UpdateSessionTimestamp env s (sv_upd_users (um_set_front u ?l) sv2)) sv'"
      using r' True by (intro sv_frame_fields) auto
    ultimately have "sv_frame sv2 sv'" using sv_frame_trans by blast
    moreover have "um_GetTopSession v (svUsers sv') = um_GetTopSession v (svUsers sv2)" for v
      using r' True by (simp add: sv_UpdateSessionTimestamp_def)
    ultimately show ?thesis by blast
  next
    case False
    then have "sv' = sv2" using r' by (auto split: if_splits)
    then show ?thesis using sv_frame_refl [OF okv2] by simp
  qed
  moreover have "um_GetTopSession v (svUsers sv2) = um_GetTopSession v ?um" for v
    using F(3) lists(3) by (simp add: sv1_def)
  ultimately show "sv_frame sv sv'" "um_GetTopSession v (svUsers sv') = um_GetTopSession v ?um"
    using 1 F(1) sv_frame_trans by (blast, simp)
qed

end
