(* ===== verification/ServiceRelease.thy ===== *)
theory ServiceRelease
  imports ServiceOps
begin

text \<open>
  The release of a session, step by step: the session that takes its place on top, the task that
  destroys it, the lists that forget it, and the controllers.
\<close>

section \<open>The session that takes over\<close>

lemma sv_GetOtherPlayingSession_spec:
  assumes ok: "um_stacks_ok (svUsers sv)" and u: "0 < u" and cast: "\<And>t. \<not> siCasting (items (svStore sv) t)"
    and g: "sv_GetOtherPlayingSession env u bundle sv = (r, sv')"
  shows "sv_frame sv sv'" and "svStore sv' = svStore sv"
    and "um_GetTopSession v (svUsers sv') = um_GetTopSession v (svUsers sv)"
    and "r = Some t \<Longrightarrow> t \<in> set (um_front u (svUsers sv)) \<and> siBundle (items (svStore sv) t) \<noteq> bundle"
proof -
  obtain l sv1 where l: "sv_GetCurSessionListForFront u sv = (l, sv1)" by fastforce
  note F = sv_front_list [OF l ok]
  have r: "r = List.find (sv_other_playing env bundle sv1) l \<and> sv' = sv1"
    using g l cast F(4) by (simp add: sv_GetOtherPlayingSession_def split: option.splits if_splits)
  show "sv_frame sv sv'" "svStore sv' = svStore sv" "um_GetTopSession v (svUsers sv') = um_GetTopSession v (svUsers sv)"
    using F r by simp_all
  assume "r = Some t"
  then have "t \<in> set l" "sv_other_playing env bundle sv1 t"
    using r by (auto simp: find_Some_iff)
  then show "t \<in> set (um_front u (svUsers sv)) \<and> siBundle (items (svStore sv) t) \<noteq> bundle"
    using F(2,4) u by (simp add: um_user_def sv_other_playing_def)
qed

lemma sv_frame_quiet:
  "um_stacks_ok (svUsers sv) \<Longrightarrow> sv_frame sv (sv_NotifySystemUI env a b u sv)"
  by (rule sv_frame_fields) simp_all

lemma sv_HandleOtherSessionPlaying_spec:
  assumes ok: "sv_ok sv" and r: "um_of_user (items (svStore sv)) u r (svUsers sv)" and u: "0 < u"
  shows "sv_frame sv (sv_HandleOtherSessionPlaying env (Some r) sv)"
    and "um_GetTopSession v (svUsers (sv_HandleOtherSessionPlaying env (Some r) sv)) =
      (if v = u then Some r else um_GetTopSession v (svUsers sv))"
proof -
  have stacks: "um_stacks_ok (svUsers sv)" using sv_okD(1) [OF ok] by (simp add: um_ok_def)
  have ur: "siUserId (items (svStore sv) r) = u" using r by (simp add: um_of_user_def)
  then have su: "sv_session_user r sv = u" using u by (simp add: sv_session_user_def)
  define sv1 where "sv1 = sv_UpdateTopSession env (Some r) u sv"
  note T = sv_UpdateTopSession_frame [OF stacks]
  have fr1: "sv_frame sv sv1" unfolding sv1_def by (rule T)
  have top1: "um_GetTopSession v (svUsers sv1) = (if v = u then Some r else um_GetTopSession v (svUsers sv))" for v
    unfolding sv1_def using T(2) ur by simp
  have ok1: "sv_ok sv1" using ok fr1
    by (rule sv_frame_ok) (use top1 r sv_okD(5) [OF ok] in \<open>auto split: if_splits\<close>)
  have r1: "um_of_user (items (svStore sv1)) u r (svUsers sv1)" using r sv_frame_of_user [OF fr1] by simp
  obtain b sv2 where o2: "sv_UpdateOrder env r sv1 = (b, sv2)" by fastforce
  note O = sv_UpdateOrder_frame [OF sv_okD(1) [OF ok1] r1 o2]
  have eq: "sv_HandleOtherSessionPlaying env (Some r) sv = (if b \<and> is_media (sv_item sv2 r)
      then sv_NotifySystemUI env (sv_IsCapsuleNeeded u sv2) False u sv2 else sv2)"
    using su top1 o2 by (simp add: sv_HandleOtherSessionPlaying_def sv1_def [symmetric] Let_def)
  have "sv_frame sv2 (sv_HandleOtherSessionPlaying env (Some r) sv)"
    unfolding eq using sv_frame_quiet sv_frame_refl sv_frame_stacks_ok [OF O(1)] by simp
  then show "sv_frame sv (sv_HandleOtherSessionPlaying env (Some r) sv)"
    using fr1 O(1) sv_frame_trans by blast
  show "um_GetTopSession v (svUsers (sv_HandleOtherSessionPlaying env (Some r) sv)) =
      (if v = u then Some r else um_GetTopSession v (svUsers sv))"
    unfolding eq using O(2) top1 by simp
qed

lemma sv_HandleTopSessionRelease_spec:
  assumes ok: "sv_ok sv" and cast: "\<And>t. \<not> siCasting (items (svStore sv) t)"
    and u: "0 < u" "um_IsUserAlive u (svUsers sv)" and s: "siUserId (items (svStore sv) s) = u"
    and sv': "sv' = sv_HandleTopSessionRelease env u s sv"
  shows "sv_frame sv sv'" and "sv_ok sv'" and "um_GetTopSession v (svUsers sv') \<noteq> Some s"
    and "v \<noteq> u \<Longrightarrow> um_GetTopSession v (svUsers sv') = um_GetTopSession v (svUsers sv)"
    and "um_GetTopSession v (svUsers sv) \<noteq> Some s \<Longrightarrow> um_GetTopSession v (svUsers sv') = um_GetTopSession v (svUsers sv)"
proof -
  have stacks: "um_stacks_ok (svUsers sv)" using sv_okD(1) [OF ok] by (simp add: um_ok_def)
  have other: "um_GetTopSession v (svUsers sv) \<noteq> Some s" if "v \<noteq> u" for v
    using that s sv_okD(5) [OF ok] by (auto simp: um_of_user_def)
  have "sv_frame sv sv' \<and> (\<forall>v. um_GetTopSession v (svUsers sv') =
      (if v = u then um_GetTopSession u (svUsers sv') else um_GetTopSession v (svUsers sv)))
    \<and> (\<forall>t. um_GetTopSession u (svUsers sv') = Some t \<longrightarrow> t \<noteq> s \<and> um_of_user (items (svStore sv)) u t (svUsers sv))"
  proof (cases "um_GetTopSession u (svUsers sv) = Some s")
    case False
    then show ?thesis using sv_frame_refl [OF stacks] sv_okD(5) [OF ok]
      by (auto simp: sv' sv_HandleTopSessionRelease_def)
  next
    case True
    obtain r sv1 where g: "sv_GetOtherPlayingSession env u (siBundle (items (svStore sv) s)) sv = (r, sv1)" by fastforce
    note G = sv_GetOtherPlayingSession_spec [OF stacks u(1) cast g]
    have ok1: "sv_ok sv1" using ok G(1) by (rule sv_frame_ok) (use G(3) sv_okD(5) [OF ok] in simp)
    show ?thesis
    proof (cases r)
      case None
      have eq: "sv' = sv_log (CancelNotification u) ((sv_UpdateTopSession env None u sv1)\<lparr>svHasMediaCapsule := False\<rparr>)"
        using True g None by (simp add: sv' sv_HandleTopSessionRelease_def Let_def)
      have alive: "sv_GetTargetUserId u sv1 = u"
        using u(2) G(1) by (simp add: sv_GetTargetUserId_def um_IsUserAlive_def sv_frame_def)
      note T = sv_UpdateTopSession_frame [OF sv_frame_stacks_ok [OF G(1)]]
      have "sv_frame (sv_UpdateTopSession env None u sv1) sv'"
        using sv_frame_stacks_ok [OF T(1)] by (rule sv_frame_fields) (simp_all add: eq)
      then have "sv_frame sv sv'" using G(1) T(1) sv_frame_trans by blast
      moreover have "um_GetTopSession v (svUsers sv') = (if v = u then None else um_GetTopSession v (svUsers sv))" for v
        using T(3) [of v env u] G(3) alive by (simp add: eq)
      ultimately show ?thesis by simp
    next
      case (Some t)
      have eq: "sv' = sv_HandleOtherSessionPlaying env (Some t) sv1"
        using True g Some by (simp add: sv' sv_HandleTopSessionRelease_def)
      have t: "t \<noteq> s" "um_of_user (items (svStore sv)) u t (svUsers sv)"
        using G(4) [OF Some] sv_okD(2) [OF ok] by auto
      then have "um_of_user (items (svStore sv1)) u t (svUsers sv1)" using sv_frame_of_user [OF G(1)] by simp
      note H = sv_HandleOtherSessionPlaying_spec [OF ok1 this u(1)]
      show ?thesis using sv_frame_trans [OF G(1) H(1)] H(2) G(3) t by (simp add: eq)
    qed
  qed
  note A = this
  show "sv_frame sv sv'" using A by blast
  show "um_GetTopSession v (svUsers sv') \<noteq> Some s" using A other by (metis (full_types))
  show elsewhere: "v \<noteq> u \<Longrightarrow> um_GetTopSession v (svUsers sv') = um_GetTopSession v (svUsers sv)" using A by simp
  show "um_GetTopSession v (svUsers sv) \<noteq> Some s \<Longrightarrow> um_GetTopSession v (svUsers sv') = um_GetTopSession v (svUsers sv)"
    using elsewhere by (cases "v = u") (simp_all add: sv' sv_HandleTopSessionRelease_def)
  show "sv_ok sv'" using ok conjunct1 [OF A]
    by (rule sv_frame_ok) (use A sv_okD(5) [OF ok] in \<open>metis (full_types)\<close>)
qed

section \<open>The invariant under steps that leave the lists alone\<close>

lemma sv_ok_cong:
  assumes ok: "sv_ok sv"
    and i: "\<And>t. siUserId (items (svStore sv') t) = siUserId (items (svStore sv) t)"
      "\<And>t. siSessionId (items (svStore sv') t) = siSessionId (items (svStore sv) t)"
      "\<And>t. siPid (items (svStore sv') t) = siPid (items (svStore sv) t)"
      "\<And>t. siAbility (items (svStore sv') t) = siAbility (items (svStore sv) t)"
    and l: "umAll (svUsers sv') = umAll (svUsers sv)" "umStacks (svUsers sv') = umStacks (svUsers sv)"
      "\<And>u. um_front u (svUsers sv') = um_front u (svUsers sv)"
      "\<And>u. um_key_list u (svUsers sv') = um_key_list u (svUsers sv)"
      "\<And>u. um_GetTopSession u (svUsers sv') = um_GetTopSession u (svUsers sv)"
  shows "sv_ok sv'"
proof -
  have "um_of_user (items (svStore sv')) u t (svUsers sv') = um_of_user (items (svStore sv)) u t (svUsers sv)" for u t
    by (simp add: um_of_user_def i l)
  moreover have "um_ok (items (svStore sv')) (svUsers sv')"
    using sv_okD(1) [OF ok] l(1,2)
    by (simp add: um_ok_def um_stacks_ok_def um_partition_def um_ids_ok_def um_keys_ok_def um_stack_def i)
  ultimately show ?thesis using ok l by (simp add: sv_ok_def)
qed

section \<open>Destroying the session\<close>

lemma um_delete_cache_lists [simp]:
  "um_front v (um_delete_cache u sid um) = um_front v um" "um_key_list v (um_delete_cache u sid um) = um_key_list v um"
  "um_GetTopSession v (um_delete_cache u sid um) = um_GetTopSession v um"
  "umAlive (um_delete_cache u sid um) = umAlive um"
  by (simp_all add: um_front_def um_key_list_def um_GetTopSession_def um_delete_cache_def)

lemma ct_HandleSessionDestroy_simps:
  "svUsers (ct_HandleSessionDestroy c sv) = svUsers sv"
  "items (svStore (ct_HandleSessionDestroy c sv)) = items (svStore sv)"
  "svControllers (ct_HandleSessionDestroy c sv) = svControllers sv"
  "svControlBundleNames (ct_HandleSessionDestroy c sv) = svControlBundleNames sv"
  "ctrls (svStore (ct_HandleSessionDestroy c sv)) d =
    (if d = c then ct_clear_session (ctrls (svStore sv) c) else ctrls (svStore sv) d)"
  by (simp_all add: ct_HandleSessionDestroy_def Let_def)

lemma ct_HandleSessionDestroy_list:
  "svUsers (foldl (\<lambda>sv c. ct_HandleSessionDestroy c sv) sv cs) = svUsers sv"
  "items (svStore (foldl (\<lambda>sv c. ct_HandleSessionDestroy c sv) sv cs)) = items (svStore sv)"
  "svControllers (foldl (\<lambda>sv c. ct_HandleSessionDestroy c sv) sv cs) = svControllers sv"
  "svControlBundleNames (foldl (\<lambda>sv c. ct_HandleSessionDestroy c sv) sv cs) = svControlBundleNames sv"
  "ctrls (svStore (foldl (\<lambda>sv c. ct_HandleSessionDestroy c sv) sv cs)) d =
    (if d \<in> set cs then ct_clear_session (ctrls (svStore sv) d) else ctrls (svStore sv) d)"
  by (induction cs arbitrary: sv) (simp_all add: ct_HandleSessionDestroy_simps ct_clear_session_def)

lemma si_DestroyTask_spec:
  assumes d: "\<not> siDestroyed (items (svStore sv) s)" and t: "si_DestroyTask s sv = (cs, sv')"
  shows "cs = map snd (siControllers (items (svStore sv) s))"
    and "items (svStore sv') = (items (svStore sv)) (s := si_destroy (items (svStore sv) s))"
    and "svControllers sv' = svControllers sv" and "svControlBundleNames sv' = svControlBundleNames sv"
    and "ctrls (svStore sv') c = (if c \<in> set cs then ct_clear_session (ctrls (svStore sv) c) else ctrls (svStore sv) c)"
    and "svUsers sv' = um_delete_cache (siUserId (items (svStore sv) s)) (siSessionId (items (svStore sv) s)) (svUsers sv)"
proof -
  let ?sv = "sv_upd_item s si_destroy (sv_upd_users (um_delete_cache (siUserId (items (svStore sv) s))
    (siSessionId (items (svStore sv) s))) sv)"
  have cs: "cs = map snd (siControllers (items (svStore sv) s))"
    and sv': "sv' = foldl (\<lambda>sv c. ct_HandleSessionDestroy c sv) ?sv cs"
    using t d by (auto simp: si_DestroyTask_def Let_def)
  show "cs = map snd (siControllers (items (svStore sv) s))" by (rule cs)
  show "items (svStore sv') = (items (svStore sv)) (s := si_destroy (items (svStore sv) s))"
    by (auto simp: sv' ct_HandleSessionDestroy_list)
  show "svControllers sv' = svControllers sv" "svControlBundleNames sv' = svControlBundleNames sv"
    "ctrls (svStore sv') c = (if c \<in> set cs then ct_clear_session (ctrls (svStore sv) c) else ctrls (svStore sv) c)"
    "svUsers sv' = um_delete_cache (siUserId (items (svStore sv) s)) (siSessionId (items (svStore sv) s)) (svUsers sv)"
    by (simp_all add: sv' ct_HandleSessionDestroy_list)
qed

lemma si_DestroyTask_ok:
  assumes d: "\<not> siDestroyed (items (svStore sv) s)" and t: "si_DestroyTask s sv = (cs, sv')" and ok: "sv_ok sv"
  shows "sv_ok sv'"
proof -
  note D = si_DestroyTask_spec [OF d t]
  have it: "siUserId (items (svStore sv') x) = siUserId (items (svStore sv) x)"
    "siSessionId (items (svStore sv') x) = siSessionId (items (svStore sv) x)"
    "siPid (items (svStore sv') x) = siPid (items (svStore sv) x)"
    "siAbility (items (svStore sv') x) = siAbility (items (svStore sv) x)" for x
    unfolding D(2) by (simp_all add: si_destroy_def)
  show ?thesis by (rule sv_ok_cong [OF ok it]) (simp_all add: D(6))
qed

section \<open>The controllers\<close>

definition in_ctrl_list :: "cref \<Rightarrow> int \<Rightarrow> (int, cref list) cmap \<Rightarrow> bool" where
  "in_ctrl_list c pid m \<longleftrightarrow> (case map_of m pid of Some l \<Rightarrow> c \<in> set l | None \<Rightarrow> False)"

lemma in_ctrl_remove:
  "in_ctrl_list d q (ctrl_remove pid c m) \<longleftrightarrow> in_ctrl_list d q m \<and> \<not> (d = c \<and> q = pid)"
  by (auto simp: in_ctrl_list_def ctrl_remove_def Let_def map_of_cmap_put map_of_cmap_erase list_remove_def
      filter_empty_conv split: option.splits if_splits)

lemma sv_RemoveControllers:
  "svUsers (sv_RemoveControllersNoLock cs sv) = svUsers sv"
  "svStore (sv_RemoveControllersNoLock cs sv) = svStore sv"
  "svControlBundleNames (sv_RemoveControllersNoLock cs sv) = svControlBundleNames sv"
  "in_ctrl_list d q (svControllers (sv_RemoveControllersNoLock cs sv)) \<longleftrightarrow>
     in_ctrl_list d q (svControllers sv) \<and> \<not> (d \<in> set cs \<and> q = ctPid (ctrls (svStore sv) d))"
  by (induction cs arbitrary: sv)
    (auto simp: sv_RemoveControllersNoLock_def sv_HandleControllerRelease_def in_ctrl_remove)

end
