(* ===== verification/ServiceProps.thy ===== *)
theory ServiceProps
  imports ServiceRelease
begin

text \<open>
  What \<^verbatim>\<open>AVSessionService\<close> promises about its sessions: a released session is nowhere, the top
  session of a user, creation and its refusals, and the places where the code does not keep the
  promise.
\<close>

section \<open>Releasing a session\<close>

text \<open>What is true of a session that the service has let go of.\<close>

definition sv_gone :: "sref \<Rightarrow> service \<Rightarrow> bool" where
  "sv_gone s sv \<longleftrightarrow> s \<notin> set (ss_GetAllSessions (umAll (svUsers sv)))
     \<and> (\<forall>u. s \<notin> set (ss_GetAllSessions (um_stack u (svUsers sv))) \<and> s \<notin> set (um_front u (svUsers sv))
        \<and> s \<notin> set (um_key_list u (svUsers sv)) \<and> um_GetTopSession u (svUsers sv) \<noteq> Some s)"

lemma um_key_list_steps:
  "fst (um_GetCurSessionListForKeyEvent u um) = um_key_list (um_user u um) um"
  "um_key_list v (um_set_key_event u l um) = (if v = um_user u um then l else um_key_list v um)"
  "um_user u (snd (um_GetCurSessionListForKeyEvent w um)) = um_user u um"
  "um_key_list v (snd (um_GetCurSessionListForKeyEvent w um)) = um_key_list v um"
  by (auto simp: um_GetCurSessionListForKeyEvent_def um_set_key_event_def um_key_list_def um_user_def
      map_of_cmap_put Let_def split: option.splits)

lemma sv_remove_key_event_spec:
  "svStore (sv_remove_key_event u s sv) = svStore sv"
  "svControllers (sv_remove_key_event u s sv) = svControllers sv"
  "svControlBundleNames (sv_remove_key_event u s sv) = svControlBundleNames sv"
  "umAlive (svUsers (sv_remove_key_event u s sv)) = umAlive (svUsers sv)"
  "umAll (svUsers (sv_remove_key_event u s sv)) = umAll (svUsers sv)"
  "umStacks (svUsers (sv_remove_key_event u s sv)) = umStacks (svUsers sv)"
  "um_front v (svUsers (sv_remove_key_event u s sv)) = um_front v (svUsers sv)"
  "um_GetTopSession v (svUsers (sv_remove_key_event u s sv)) = um_GetTopSession v (svUsers sv)"
  "um_key_list v (svUsers (sv_remove_key_event u s sv)) =
     (if v = um_user u (svUsers sv) then remove1 s (um_key_list v (svUsers sv)) else um_key_list v (svUsers sv))"
proof -
  obtain l um where g: "um_GetCurSessionListForKeyEvent u (svUsers sv) = (l, um)" by fastforce
  have l: "l = um_key_list (um_user u (svUsers sv)) (svUsers sv)" "um_user u um = um_user u (svUsers sv)"
    "um_key_list v um = um_key_list v (svUsers sv)" for v
    using um_key_list_steps(1) [of u "svUsers sv"] um_key_list_steps(3) [of u u "svUsers sv"]
      um_key_list_steps(4) [of _ u "svUsers sv"] g by simp_all
  have um: "umAll um = umAll (svUsers sv)" "umStacks um = umStacks (svUsers sv)" "umFront um = umFront (svUsers sv)"
    "umTop um = umTop (svUsers sv)" "umAlive um = umAlive (svUsers sv)" using g
    by (auto simp: um_GetCurSessionListForKeyEvent_def Let_def split: option.splits)
  show "svStore (sv_remove_key_event u s sv) = svStore sv"
    "svControllers (sv_remove_key_event u s sv) = svControllers sv"
    "svControlBundleNames (sv_remove_key_event u s sv) = svControlBundleNames sv"
    "umAlive (svUsers (sv_remove_key_event u s sv)) = umAlive (svUsers sv)"
    "umAll (svUsers (sv_remove_key_event u s sv)) = umAll (svUsers sv)"
    "umStacks (svUsers (sv_remove_key_event u s sv)) = umStacks (svUsers sv)"
    "um_front v (svUsers (sv_remove_key_event u s sv)) = um_front v (svUsers sv)"
    "um_GetTopSession v (svUsers (sv_remove_key_event u s sv)) = um_GetTopSession v (svUsers sv)"
    using g um by (simp_all add: sv_remove_key_event_def um_set_key_event_def um_front_def um_GetTopSession_def)
  show "um_key_list v (svUsers (sv_remove_key_event u s sv)) =
     (if v = um_user u (svUsers sv) then remove1 s (um_key_list v (svUsers sv)) else um_key_list v (svUsers sv))"
    using g l by (simp add: sv_remove_key_event_def um_key_list_steps)
qed

text \<open>The list of sessions in front, after the release of a session that is not on top any more.\<close>

lemma sv_UpdateFrontSession_remove:
  assumes u: "0 < siUserId (items (svStore sv) s)"
    and top: "um_GetTopSession (siUserId (items (svStore sv) s)) (svUsers sv) \<noteq> Some s"
    and listed: "s \<in> set (um_front (siUserId (items (svStore sv) s)) (svUsers sv)) \<Longrightarrow>
      siBundle (items (svStore sv) s) \<notin> set (svControlBundleNames sv) \<and> siType (items (svStore sv) s) \<noteq> SESSION_TYPE_PHOTO"
    and sv': "sv' = sv_UpdateFrontSession env s False sv"
  shows "svStore sv' = svStore sv" and "svControllers sv' = svControllers sv"
    and "umAll (svUsers sv') = umAll (svUsers sv)" and "umStacks (svUsers sv') = umStacks (svUsers sv)"
    and "um_key_list v (svUsers sv') = um_key_list v (svUsers sv)"
    and "um_GetTopSession v (svUsers sv') = um_GetTopSession v (svUsers sv)"
    and "set (um_front v (svUsers sv')) = (if v = siUserId (items (svStore sv) s)
      then set (um_front v (svUsers sv)) - {s} else set (um_front v (svUsers sv)))"
    and "umAlive (svUsers sv') = umAlive (svUsers sv)" and "svControlBundleNames sv' = svControlBundleNames sv"
proof -
  let ?u = "siUserId (items (svStore sv) s)"
  define um1 where "um1 = snd (um_GetCurSessionListForFront ?u (svUsers sv))"
  define um2 where "um2 = snd (um_GetCurSessionListForFront ?u um1)"
  define l where "l = list_remove s (um_front ?u (svUsers sv))"
  have usr: "um_user ?u (svUsers sv) = ?u" using u by (simp add: um_user_def)
  have early: "svUsers sv' = (if siBundle (items (svStore sv) s) \<in> set (svControlBundleNames sv) then svUsers sv
      else if siType (items (svStore sv) s) = SESSION_TYPE_PHOTO then um1
      else um_set_front ?u l um2)" (is ?A)
    and early2: "svStore sv' = svStore sv" (is ?B) and early3: "svControllers sv' = svControllers sv" (is ?C)
    and early4: "svControlBundleNames sv' = svControlBundleNames sv" (is ?D)
  proof -
    have 1: "sv_GetCurSessionListForFront ?u sv = (um_front ?u (svUsers sv), sv\<lparr>svUsers := um1\<rparr>)"
      using um_front_list(1) [of ?u "svUsers sv"] usr
      by (simp add: sv_GetCurSessionListForFront_def um1_def split_beta Let_def)
    let ?sv = "sv_log (UpdateNotification (siUid (items (svStore sv) s)) (siPid (items (svStore sv) s)) False) (sv\<lparr>svUsers := um1\<rparr>)"
    have 2: "sv_GetCurSessionListForFront ?u ?sv = (um_front ?u (svUsers sv), ?sv\<lparr>svUsers := um2\<rparr>)"
      using um_front_list(1) [of ?u um1] um_front_list(2,11) [of _ ?u "svUsers sv"] usr
      by (simp add: sv_GetCurSessionListForFront_def um1_def um2_def split_beta Let_def)
    have 3: "sv_HandleTopSessionRelease env ?u s ?sv = ?sv"
      using top um_front_list(10) [of ?u ?u "svUsers sv"] by (simp add: sv_HandleTopSessionRelease_def um1_def)
    show ?A ?B ?C ?D
      using 1 2 3 by (simp_all add: sv' sv_UpdateFrontSession_def si_GetSessionType_photo l_def Let_def cong: if_cong)
  qed
  note E = early
  note L = um_front_list um1_def um2_def
  show "svStore sv' = svStore sv" "svControllers sv' = svControllers sv"
    "svControlBundleNames sv' = svControlBundleNames sv" by (rule early2, rule early3, rule early4)
  show "umAll (svUsers sv') = umAll (svUsers sv)" "umStacks (svUsers sv') = umStacks (svUsers sv)"
    "um_key_list v (svUsers sv') = um_key_list v (svUsers sv)"
    "um_GetTopSession v (svUsers sv') = um_GetTopSession v (svUsers sv)"
    "umAlive (svUsers sv') = umAlive (svUsers sv)"
    unfolding E by (simp_all add: L)
  show "set (um_front v (svUsers sv')) = (if v = ?u
      then set (um_front v (svUsers sv)) - {s} else set (um_front v (svUsers sv)))"
    unfolding E using listed usr by (auto simp: L l_def)
qed

text \<open>The first half of the release: destroyed, and off the top.\<close>

definition sv_release_top :: "env \<Rightarrow> sref \<Rightarrow> service \<Rightarrow> cref list \<times> service" where
  "sv_release_top env s sv =
     (let userId = sv_session_user s sv;
          (cs, sv) = si_DestroyTask s (sv_forget_session s (sv_log (SessionReleased s) sv));
          sv = sv_HandleTopSessionRelease env userId s sv
      in (cs, if siRemoteSource (sv_item sv s) then sv_log (CancelCastAudio s) sv else sv))"

text \<open>The second half: out of the containers and lists.\<close>

definition sv_release_lists :: "env \<Rightarrow> int \<Rightarrow> sref \<Rightarrow> service \<Rightarrow> service" where
  "sv_release_lists env userId s sv =
     (let sv = sv_upd_users (\<lambda>um. snd (um_RemoveSessionForAllUser (items (svStore sv))
                 (siPid (sv_item sv s)) (siAbility (sv_item sv s)) um)) sv
      in sv_remove_key_event userId s (sv_UpdateFrontSession env s False sv))"

lemma sv_HandleSessionRelease_halves:
  assumes "ss_GetSessionById (items (svStore sv)) sid (umAll (svUsers sv)) = Some s"
    and "sv_release_top env s sv = (cs, sv1)"
  shows "sv_HandleSessionRelease env sid sv =
    sv_RemoveControllersNoLock cs (sv_SetCriticalWhenRelease env (sv_release_lists env (sv_session_user s sv) s sv1))"
proof -
  obtain cs' sv2 where d: "si_DestroyTask s (sv_forget_session s (sv_log (SessionReleased s) sv)) = (cs', sv2)" by fastforce
  show ?thesis using assms d
    by (simp add: sv_HandleSessionRelease_def sv_release_top_def sv_release_lists_def Let_def cong: if_cong)
qed

lemma sv_forget_simps [simp]:
  "svStore (sv_forget_session s sv) = svStore sv" "svUsers (sv_forget_session s sv) = svUsers sv"
  "svControllers (sv_forget_session s sv) = svControllers sv"
  "svControlBundleNames (sv_forget_session s sv) = svControlBundleNames sv"
  by (simp_all add: sv_forget_session_def Let_def)

lemma sv_SetCritical_simps [simp]:
  "svStore (sv_SetCriticalWhenRelease env sv) = svStore sv" "svUsers (sv_SetCriticalWhenRelease env sv) = svUsers sv"
  "svControllers (sv_SetCriticalWhenRelease env sv) = svControllers sv"
  "svControlBundleNames (sv_SetCriticalWhenRelease env sv) = svControlBundleNames sv"
  by (simp_all add: sv_SetCriticalWhenRelease_def sv_SetCritical_def Let_def)

text \<open>A session that a release may start from.\<close>

definition sv_releasable :: "sref \<Rightarrow> service \<Rightarrow> bool" where
  "sv_releasable s sv \<longleftrightarrow> s \<in> set (ss_GetAllSessions (umAll (svUsers sv)))
     \<and> \<not> siDestroyed (items (svStore sv) s)
     \<and> 0 < siUserId (items (svStore sv) s) \<and> um_IsUserAlive (siUserId (items (svStore sv) s)) (svUsers sv)"

text \<open>A session in front is one that \<^verbatim>\<open>UpdateFrontSession\<close> handles.\<close>

definition sv_listed :: "sref \<Rightarrow> service \<Rightarrow> bool" where
  "sv_listed s sv \<longleftrightarrow> (s \<in> set (um_front (siUserId (items (svStore sv) s)) (svUsers sv)) \<longrightarrow>
     siBundle (items (svStore sv) s) \<notin> set (svControlBundleNames sv) \<and> siType (items (svStore sv) s) \<noteq> SESSION_TYPE_PHOTO)"

lemma sv_release_top_spec:
  assumes ok: "sv_ok sv" and cast: "\<And>t. \<not> siCasting (items (svStore sv) t)" and s: "sv_releasable s sv"
    and r: "sv_release_top env s sv = (cs, sv')"
  shows "cs = map snd (siControllers (items (svStore sv) s))" and "sv_ok sv'"
    and "um_GetTopSession v (svUsers sv') \<noteq> Some s"
    and "si_core (items (svStore sv') t) = si_core (((items (svStore sv)) (s := si_destroy (items (svStore sv) s))) t)"
    and "svControllers sv' = svControllers sv" and "svControlBundleNames sv' = svControlBundleNames sv"
    and "ctrls (svStore sv') c = (if c \<in> set cs then ct_clear_session (ctrls (svStore sv) c) else ctrls (svStore sv) c)"
    and "umAll (svUsers sv') = umAll (svUsers sv)" and "set (um_front v (svUsers sv')) = set (um_front v (svUsers sv))"
    and "um_key_list v (svUsers sv') = um_key_list v (svUsers sv)"
    and "umAlive (svUsers sv') = umAlive (svUsers sv)"
    and "um_GetTopSession v (svUsers sv) \<noteq> Some s \<Longrightarrow> um_GetTopSession v (svUsers sv') = um_GetTopSession v (svUsers sv)"
proof -
  define sv1 where "sv1 = sv_forget_session s (sv_log (SessionReleased s) sv)"
  have 1: "svStore sv1 = svStore sv" "svUsers sv1 = svUsers sv" "svControllers sv1 = svControllers sv"
    "svControlBundleNames sv1 = svControlBundleNames sv" by (simp_all add: sv1_def)
  obtain cs' sv2 where d: "si_DestroyTask s sv1 = (cs', sv2)" by fastforce
  have alive: "\<not> siDestroyed (items (svStore sv1) s)" using s 1 by (simp add: sv_releasable_def)
  have "sv_ok sv1" using sv_ok_cong [OF ok, of sv1] 1 by simp
  note D = si_DestroyTask_spec [OF alive d] and ok2 = si_DestroyTask_ok [OF alive d this]
  define u where "u = siUserId (items (svStore sv) s)"
  define sv3 where "sv3 = sv_HandleTopSessionRelease env u s sv2"
  have u: "0 < u" "um_IsUserAlive u (svUsers sv2)" "sv_session_user s sv = u"
    using s 1 D(6) by (simp_all add: sv_releasable_def u_def um_IsUserAlive_def sv_session_user_def)
  have su: "siUserId (items (svStore sv2) s) = u" unfolding D(2) 1 by (simp add: si_destroy_def u_def)
  have "\<not> siCasting (items (svStore sv2) t)" for t using cast unfolding D(2) 1 by (simp add: si_destroy_def)
  note T = sv_HandleTopSessionRelease_spec [OF ok2 this u(1,2) su sv3_def]
  have r': "cs = cs'" "sv' = (if siRemoteSource (sv_item sv3 s) then sv_log (CancelCastAudio s) sv3 else sv3)"
    using r d u(3) by (auto simp: sv_release_top_def sv1_def [symmetric] sv3_def Let_def split: if_splits)
  then have q: "svStore sv' = svStore sv3" "svUsers sv' = svUsers sv3" "svControllers sv' = svControllers sv3"
    "svControlBundleNames sv' = svControlBundleNames sv3" by simp_all
  show "cs = map snd (siControllers (items (svStore sv) s))" using D(1) 1 r' by simp
  show "sv_ok sv'" using sv_ok_cong [OF T(2), of sv'] q by simp
  show "um_GetTopSession v (svUsers sv') \<noteq> Some s" using T(3) q by simp
  show "um_GetTopSession v (svUsers sv) \<noteq> Some s \<Longrightarrow> um_GetTopSession v (svUsers sv') = um_GetTopSession v (svUsers sv)"
    using T(5) [of v] D(6) 1 q by simp
  show "si_core (items (svStore sv') t) = si_core (((items (svStore sv)) (s := si_destroy (items (svStore sv) s))) t)"
    using T(1) D(2) 1 q by (simp add: sv_frame_def)
  show "svControllers sv' = svControllers sv" "svControlBundleNames sv' = svControlBundleNames sv"
    "ctrls (svStore sv') c = (if c \<in> set cs then ct_clear_session (ctrls (svStore sv) c) else ctrls (svStore sv) c)"
    "umAll (svUsers sv') = umAll (svUsers sv)" "set (um_front v (svUsers sv')) = set (um_front v (svUsers sv))"
    "um_key_list v (svUsers sv') = um_key_list v (svUsers sv)" "umAlive (svUsers sv') = umAlive (svUsers sv)"
    using T(1) D(3-6) 1 q r' by (simp_all add: sv_frame_def)
qed

lemma um_Remove_lists:
  assumes "um_RemoveSessionForAllUser h p a um = (r, um')"
  shows "um_front v um' = um_front v um" and "um_key_list v um' = um_key_list v um"
    and "um_GetTopSession v um' = um_GetTopSession v um" and "umCurUser um' = umCurUser um"
    and "umAlive um' = umAlive um"
  using assms by (auto simp: um_RemoveSessionForAllUser_def um_front_def um_key_list_def um_GetTopSession_def
      split_beta Let_def split: option.splits)

lemma um_gone_lookup:
  assumes ok: "um_ok h um" and none: "\<And>p a. ss_GetSession p a (umAll um) \<noteq> Some s"
  shows "s \<notin> set (ss_GetAllSessions (umAll um))" and "s \<notin> set (ss_GetAllSessions (um_stack u um))"
  using stack.inv_all [OF um_okD(1) [OF ok], of s] stack.inv_all [OF um_okD(3) [OF ok, of u], of s]
    um_okD(4) [OF ok] none by blast+

lemma sv_release_lists_spec:
  assumes ok: "sv_ok sv" and s: "s \<in> set (ss_GetAllSessions (umAll (svUsers sv)))"
    and u: "0 < u" "siUserId (items (svStore sv) s) = u"
    and top: "\<And>v. um_GetTopSession v (svUsers sv) \<noteq> Some s"
    and listed: "s \<in> set (um_front u (svUsers sv)) \<Longrightarrow>
      siBundle (items (svStore sv) s) \<notin> set (svControlBundleNames sv) \<and> siType (items (svStore sv) s) \<noteq> SESSION_TYPE_PHOTO"
    and sv': "sv' = sv_release_lists env u s sv"
  shows "svStore sv' = svStore sv" and "svControllers sv' = svControllers sv" and "sv_ok sv'" and "sv_gone s sv'"
    and "set (ss_GetAllSessions (umAll (svUsers sv'))) = set (ss_GetAllSessions (umAll (svUsers sv))) - {s}"
    and "set (um_front v (svUsers sv')) = set (um_front v (svUsers sv)) - {s}"
    and "umAlive (svUsers sv') = umAlive (svUsers sv)" and "svControlBundleNames sv' = svControlBundleNames sv"
    and "um_GetTopSession v (svUsers sv') = um_GetTopSession v (svUsers sv)"
proof -
  let ?h = "items (svStore sv)"
  obtain r um1 where rm: "um_RemoveSessionForAllUser ?h (siPid (?h s)) (siAbility (?h s)) (svUsers sv) = (r, um1)" by fastforce
  note R = um_RemoveSessionForAllUser_ok [OF sv_okD(1) [OF ok] rm] and L = um_Remove_lists [OF rm]
  have mem: "um_of_user ?h u s (svUsers sv)" using s u(2) by (simp add: um_of_user_def)
  have r: "r = Some s" using R(1) um_of_user_lookup [OF sv_okD(1) [OF ok] mem] um_okD(4) [OF sv_okD(1) [OF ok]] by simp
  define sv1 where "sv1 = sv\<lparr>svUsers := um1\<rparr>"
  define sv2 where "sv2 = sv_UpdateFrontSession env s False sv1"
  have 1: "svStore sv1 = svStore sv" "svUsers sv1 = um1" "svControllers sv1 = svControllers sv"
    "svControlBundleNames sv1 = svControlBundleNames sv" by (simp_all add: sv1_def)
  have pre: "0 < siUserId (items (svStore sv1) s)"
    "um_GetTopSession (siUserId (items (svStore sv1) s)) (svUsers sv1) \<noteq> Some s"
    "s \<in> set (um_front (siUserId (items (svStore sv1) s)) (svUsers sv1)) \<Longrightarrow>
      siBundle (items (svStore sv1) s) \<notin> set (svControlBundleNames sv1) \<and> siType (items (svStore sv1) s) \<noteq> SESSION_TYPE_PHOTO"
    using 1 L top u listed by simp_all
  note U = sv_UpdateFrontSession_remove [OF pre sv2_def]
  have sv'2: "sv' = sv_remove_key_event u s sv2"
    using rm by (simp add: sv' sv_release_lists_def sv2_def sv1_def sv_upd_users_def Let_def)
  note K = sv_remove_key_event_spec [where u = u and s = s and sv = sv2]
  have store: "svStore sv' = svStore sv" and ctrl: "svControllers sv' = svControllers sv"
    and all: "umAll (svUsers sv') = umAll um1" and stk: "umStacks (svUsers sv') = umStacks um1"
    and tops: "um_GetTopSession v (svUsers sv') = um_GetTopSession v (svUsers sv)" for v
    using K U 1 L by (simp_all add: sv'2)
  show "umAlive (svUsers sv') = umAlive (svUsers sv)" "svControlBundleNames sv' = svControlBundleNames sv"
    using K U 1 L by (simp_all add: sv'2)
  show "um_GetTopSession v (svUsers sv') = um_GetTopSession v (svUsers sv)" by (rule tops)
  have front: "set (um_front v (svUsers sv')) = (if v = u then set (um_front v (svUsers sv)) - {s}
      else set (um_front v (svUsers sv)))" for v
    using K(7) U(7) 1 L u(2) by (simp add: sv'2)
  have key: "um_key_list v (svUsers sv') = (if v = u then remove1 s (um_key_list v (svUsers sv))
      else um_key_list v (svUsers sv))" for v
    using K(9) U(5) 1 L u by (simp add: sv'2 um_user_def)
  have ok': "um_ok ?h (svUsers sv')" using R(2) um_ok_cong [of "svUsers sv'" um1] all stk by simp
  have none: "ss_GetSession p a (umAll (svUsers sv')) \<noteq> Some s" for p a using R(3) r all by simp
  note G = um_gone_lookup [OF ok' none]
  have own: "v = u" if "um_of_user ?h v s (svUsers sv)" for v using that u(2) by (simp add: um_of_user_def)
  have F: "s \<notin> set (um_front v (svUsers sv'))" "s \<notin> set (um_key_list v (svUsers sv'))" for v
    using front key sv_okD(2-4) [OF ok] own by auto
  have rest: "set (ss_GetAllSessions (umAll (svUsers sv'))) = set (ss_GetAllSessions (umAll (svUsers sv))) - {s}"
  proof -
    have "t \<in> set (ss_GetAllSessions (umAll (svUsers sv'))) \<longleftrightarrow>
        (\<exists>p a. ss_GetSession p a (umAll (svUsers sv)) = Some t \<and> t \<noteq> s)" for t
      using stack.inv_all [OF um_okD(1) [OF ok'], of t] R(3) r all by auto
    then show ?thesis using stack.inv_all [OF um_okD(1) [OF sv_okD(1) [OF ok]]] by auto
  qed
  have of_user: "um_of_user ?h v t (svUsers sv')" if "um_of_user ?h v t (svUsers sv)" "t \<noteq> s" for v t
    using that rest by (simp add: um_of_user_def)
  have "set (um_key_list v (svUsers sv')) \<subseteq> set (um_key_list v (svUsers sv)) \<and> distinct (um_key_list v (svUsers sv'))"
    "set (um_front v (svUsers sv')) \<subseteq> set (um_front v (svUsers sv))" for v
    using key front sv_okD(4) [OF ok] by (auto dest: set_remove1_subset [THEN subsetD])
  then show "sv_ok sv'" unfolding sv_ok_def store tops
    using ok' of_user F top sv_okD(2-5) [OF ok] by (metis subsetD)
  show "sv_gone s sv'" using G F top tops by (simp add: sv_gone_def)
  show "svStore sv' = svStore sv" "svControllers sv' = svControllers sv" by (rule store, rule ctrl)
  show "set (ss_GetAllSessions (umAll (svUsers sv'))) = set (ss_GetAllSessions (umAll (svUsers sv))) - {s}" by (rule rest)
  show "set (um_front v (svUsers sv')) = set (um_front v (svUsers sv)) - {s}" using F(1) [of v] front [of v] by (auto split: if_splits)
qed

lemma sv_HandleSessionRelease_spec:
  assumes "sv_ok sv" and "\<And>t. \<not> siCasting (items (svStore sv) t)"
    and "ss_GetSessionById (items (svStore sv)) sid (umAll (svUsers sv)) = Some s" and "sv_releasable s sv"
    and "sv_listed s sv" and "sv' = sv_HandleSessionRelease env sid sv"
  shows "sv_ok sv' \<and> sv_gone s sv'
    \<and> siDestroyed (items (svStore sv') s) \<and> siControllers (items (svStore sv') s) = []
    \<and> (\<forall>c \<in> snd ` set (siControllers (items (svStore sv) s)).
        ctSession (ctrls (svStore sv') c) = None \<and> \<not> in_ctrl_list c (ctPid (ctrls (svStore sv) c)) (svControllers sv'))
    \<and> set (ss_GetAllSessions (umAll (svUsers sv'))) = set (ss_GetAllSessions (umAll (svUsers sv))) - {s}
    \<and> (\<forall>v. set (um_front v (svUsers sv')) = set (um_front v (svUsers sv)) - {s})
    \<and> umAlive (svUsers sv') = umAlive (svUsers sv) \<and> svControlBundleNames sv' = svControlBundleNames sv
    \<and> (\<forall>t. si_core (items (svStore sv') t) = si_core (((items (svStore sv)) (s := si_destroy (items (svStore sv) s))) t))
    \<and> (\<forall>v. um_GetTopSession v (svUsers sv) \<noteq> Some s \<longrightarrow> um_GetTopSession v (svUsers sv') = um_GetTopSession v (svUsers sv))"
proof -
  define u where "u = siUserId (items (svStore sv) s)"
  obtain cs sv1 where h: "sv_release_top env s sv = (cs, sv1)" by fastforce
  note T = sv_release_top_spec [OF assms(1,2,4) h]
  have core: "si_core (items (svStore sv1) s) = si_core (si_destroy (items (svStore sv) s))" using T(4) [of s] by simp
  note C = si_core_fields [OF core]
  have f: "siUserId (items (svStore sv1) s) = u" "siBundle (items (svStore sv1) s) = siBundle (items (svStore sv) s)"
    "siType (items (svStore sv1) s) = siType (items (svStore sv) s)" "siDestroyed (items (svStore sv1) s)"
    "siControllers (items (svStore sv1) s) = []"
    using C by (simp_all add: si_destroy_def u_def)
  have u: "0 < u" "sv_session_user s sv = u" using assms(4) by (simp_all add: sv_releasable_def u_def sv_session_user_def)
  have s1: "s \<in> set (ss_GetAllSessions (umAll (svUsers sv1)))" using assms(4) T(8) by (simp add: sv_releasable_def)
  have listed: "s \<in> set (um_front u (svUsers sv1)) \<Longrightarrow>
      siBundle (items (svStore sv1) s) \<notin> set (svControlBundleNames sv1) \<and> siType (items (svStore sv1) s) \<noteq> SESSION_TYPE_PHOTO"
    using assms(5) T(6,9) f by (simp add: u_def sv_listed_def)
  define sv2 where "sv2 = sv_release_lists env u s sv1"
  note L = sv_release_lists_spec [OF T(2) s1 u(1) f(1) T(3) listed sv2_def]
  have sv': "sv' = sv_RemoveControllersNoLock cs (sv_SetCriticalWhenRelease env sv2)"
    using sv_HandleSessionRelease_halves [OF assms(3) h] assms(6) u(2) by (simp add: sv2_def)
  have q: "svUsers sv' = svUsers sv2" "svStore sv' = svStore sv1"
    using L(1) by (simp_all add: sv' sv_RemoveControllers)
  have "ctSession (ctrls (svStore sv') c) = None \<and> \<not> in_ctrl_list c (ctPid (ctrls (svStore sv) c)) (svControllers sv')"
    if "c \<in> set cs" for c
    using that T(7) [of c] L(1) by (simp add: q sv' sv_RemoveControllers ct_clear_session_def)
  moreover have "set cs = snd ` set (siControllers (items (svStore sv) s))" using T(1) by simp
  moreover have "sv_ok sv'" using sv_ok_cong [OF L(3), of sv'] q L(1) by simp
  moreover have "sv_gone s sv'" using L(4) q by (simp add: sv_gone_def)
  moreover have "si_core (items (svStore sv') t) = si_core (((items (svStore sv)) (s := si_destroy (items (svStore sv) s))) t)" for t
    unfolding q(2) by (rule T(4))
  moreover have "svControlBundleNames sv' = svControlBundleNames sv"
    using L(8) T(6) by (simp add: sv' sv_RemoveControllers)
  moreover have "um_GetTopSession v (svUsers sv') = um_GetTopSession v (svUsers sv)" if "um_GetTopSession v (svUsers sv) \<noteq> Some s" for v
    using T(12) [OF that] L(9) q by simp
  ultimately show ?thesis using f L(5-7) T(8,9,11) q by simp
qed

text \<open>C3: releasing a session of a consistent service in which no session is casting. The session of that
  id is found in the container of all users, it is not destroyed and its user is alive
  (\<open>sv_releasable\<close>), and if it is in front it is one that the lists handle, neither a photo nor of a
  bundle on the control list (\<open>sv_listed\<close>). After HandleSessionRelease it is in no container, in no list of
  sessions in front or for key events, and on top of no user; its object is destroyed and has no
  controllers left, each of its controllers has forgotten it and is out of the list of its process.
  Every other session is still in the container, in front and on top where it was, with nothing but the
  mark and time of a top session changed, and the service is consistent. What happens without the
  hypotheses is in \<open>sv_released_session_stays_in_front\<close> and in the theorems on users that are not alive.\<close>

theorem sv_release:
  assumes "sv_ok sv" and "\<And>t. \<not> siCasting (items (svStore sv) t)"
    and "ss_GetSessionById (items (svStore sv)) sid (umAll (svUsers sv)) = Some s" and "sv_releasable s sv"
    and "sv_listed s sv" and "sv' = sv_HandleSessionRelease env sid sv"
  shows "sv_ok sv' \<and> sv_gone s sv'
    \<and> siDestroyed (items (svStore sv') s) \<and> siControllers (items (svStore sv') s) = []
    \<and> (\<forall>c \<in> snd ` set (siControllers (items (svStore sv) s)).
        ctSession (ctrls (svStore sv') c) = None \<and> \<not> in_ctrl_list c (ctPid (ctrls (svStore sv) c)) (svControllers sv'))
    \<and> set (ss_GetAllSessions (umAll (svUsers sv'))) = set (ss_GetAllSessions (umAll (svUsers sv))) - {s}
    \<and> (\<forall>v. set (um_front v (svUsers sv')) = set (um_front v (svUsers sv)) - {s})
    \<and> (\<forall>t. t \<noteq> s \<longrightarrow> si_core (items (svStore sv') t) = si_core (items (svStore sv) t)
        \<and> (\<forall>v. um_GetTopSession v (svUsers sv) = Some t \<longrightarrow> um_GetTopSession v (svUsers sv') = Some t))"
proof -
  note R = sv_HandleSessionRelease_spec [OF assms]
  have "\<forall>t. t \<noteq> s \<longrightarrow> si_core (items (svStore sv') t) = si_core (items (svStore sv) t)
      \<and> (\<forall>v. um_GetTopSession v (svUsers sv) = Some t \<longrightarrow> um_GetTopSession v (svUsers sv') = Some t)"
    using R by (elim conjE) simp
  with R show ?thesis by (elim conjE) (intro conjI; assumption)
qed

text \<open>A service with one audio session, on top and in front, that a controller watches.\<close>

definition example_env :: env where
  "example_env = \<lparr>envRunning = (\<lambda>_ _. False), envNow = 5, envNotifyOk = True, envWantOk = True,
     envFlow = False, envCriticalOk = True\<rparr>"

definition example_item :: session where
  "example_item = new_session\<lparr>siSessionId := ''s'', siPid := 7, siUid := 20000001, siUserId := 100,
     siType := SESSION_TYPE_AUDIO, siBundle := ''b'', siAbility := ''a'', siControllers := [(9, 3)]\<rparr>"

definition example_service :: service where
  "example_service = \<lparr>svStore = \<lparr>items = (\<lambda>_. example_item), ctrls = (\<lambda>_. \<lparr>ctPid = 9, ctSession = Some 7,
       ctSessionId = ''s'', ctUserId = 100, ctFromSession = False, ctHasCallback = True\<rparr>)\<rparr>,
     svUsers = \<lparr>umStacks = [(100, \<lparr>ssSessions = [((7, ''a''), 7)], ssStack = [7], ssReclaimTask = False\<rparr>)],
       umAll = \<lparr>ssSessions = [((7, ''a''), 7)], ssStack = [7], ssReclaimTask = False\<rparr>,
       umFront = [(100, [7])], umKeyEvent = [(100, [7])], umListeners = [], umAllListeners = [],
       umTop = [(100, Some 7)], umCurUser = 100, umAlive = [100], umFiles = (\<lambda>_. None), umRemovable = (\<lambda>_. True)\<rparr>,
     svControllers = [(9, [3])], svAnco = None, svHasMediaCapsule = False, svHasRemoveEvent = False,
     svMediaCardOpen = [], svCardStopTask = [], svCritical = True, svControlBundleNames = [],
     svControlListForNtf = [], svControlBundles = [], svLocalFrontSessionId = ''s'', svMigrateServers = 1,
     svAncoMediaSessionChange = False, svEvents = []\<rparr>"

lemma example_um_stack:
  "um_stack u (svUsers example_service) = (if u = 100
    then \<lparr>ssSessions = [((7, ''a''), 7)], ssStack = [7], ssReclaimTask = False\<rparr> else new_session_stack)"
  by (simp add: example_service_def um_stack_def)

lemma example_um_ok: "um_ok (items (svStore example_service)) (svUsers example_service)"
proof -
  have st: "ss_ok \<lparr>ssSessions = [((7, ''a''), 7)], ssStack = [7], ssReclaimTask = b\<rparr>" for b
    by (simp add: ss_ok_def cmap_ok_def SESSION_NUM_MAX_def)
  then have "um_stacks_ok (svUsers example_service)"
    by (simp add: um_stacks_ok_def example_um_stack) (simp add: example_service_def cmap_ok_def)
  then show ?thesis
    by (simp add: um_ok_def um_partition_def um_ids_ok_def um_keys_ok_def example_um_stack)
      (auto simp: example_service_def example_item_def ss_GetSession_def ss_GetAllSessions_def new_session_stack_def
        split: if_splits)
qed

lemma example_sv_ok: "sv_ok example_service"
  using example_um_ok
  by (simp add: sv_ok_def um_front_def um_key_list_def um_GetTopSession_def um_of_user_def)
    (auto simp: example_service_def example_item_def ss_GetAllSessions_def split: if_splits)

theorem sv_release_witness:
  "sv_gone 7 (sv_HandleSessionRelease example_env ''s'' example_service)"
proof -
  have "ss_GetSessionById (items (svStore example_service)) ''s'' (umAll (svUsers example_service)) = Some 7"
    "sv_releasable 7 example_service" "\<not> siCasting (items (svStore example_service) t)"
    "sv_listed 7 example_service" for t
    by (simp_all add: example_service_def example_item_def ss_GetSessionById_def sv_releasable_def
        sv_listed_def ss_GetAllSessions_def um_IsUserAlive_def new_session_def)
  then show ?thesis using sv_release [OF example_sv_ok, of "''s''" 7] by blast
qed

text \<open>
  Clients that die, the creation of sessions and controllers, the top session of a user; and two
  places where the code does not keep what \<^verbatim>\<open>HandleSessionRelease\<close> otherwise promises.
\<close>

section \<open>Clients that die\<close>

definition sv_clean :: "service \<Rightarrow> bool" where
  "sv_clean sv \<longleftrightarrow> sv_ok sv \<and> (\<forall>t. \<not> siCasting (items (svStore sv) t))
     \<and> (\<forall>s \<in> set (ss_GetAllSessions (umAll (svUsers sv))). sv_releasable s sv \<and> sv_listed s sv)"

lemma sv_cleanD:
  assumes "sv_clean sv"
  shows "sv_ok sv" and "\<not> siCasting (items (svStore sv) t)"
    and "s \<in> set (ss_GetAllSessions (umAll (svUsers sv))) \<Longrightarrow> sv_releasable s sv"
    and "s \<in> set (ss_GetAllSessions (umAll (svUsers sv))) \<Longrightarrow> sv_listed s sv"
  using assms by (simp_all add: sv_clean_def)

lemma sv_ok_gone:
  assumes ok: "sv_ok sv" and s: "s \<notin> set (ss_GetAllSessions (umAll (svUsers sv)))"
  shows "sv_gone s sv"
proof -
  have "ss_GetSession p a (umAll (svUsers sv)) \<noteq> Some s" for p a
    using s stack.inv_all [OF um_okD(1) [OF sv_okD(1) [OF ok]], of s] by blast
  then have "s \<notin> set (ss_GetAllSessions (um_stack u (svUsers sv)))" for u
    by (rule um_gone_lookup(2) [OF sv_okD(1) [OF ok]])
  then show ?thesis using s sv_okD(2,3,5) [OF ok] by (auto simp: sv_gone_def um_of_user_def)
qed

lemma sv_find_by_id:
  assumes ok: "sv_ok sv" and s: "s \<in> set (ss_GetAllSessions (umAll (svUsers sv)))"
  shows "ss_GetSessionById (items (svStore sv)) (siSessionId (items (svStore sv) s)) (umAll (svUsers sv)) = Some s"
proof -
  let ?P = "\<lambda>t. siSessionId (items (svStore sv) t) = siSessionId (items (svStore sv) s)"
  let ?l = "ssStack (umAll (svUsers sv))"
  have "List.find ?P ?l \<noteq> None" using s by (auto simp: find_None_iff ss_GetAllSessions_def)
  then obtain t where t: "List.find ?P ?l = Some t" by blast
  then have "t \<in> set ?l" "?P t" by (auto simp: find_Some_iff)
  then have "t = s" using um_okD(6) [OF sv_okD(1) [OF ok]] s by (auto simp: ss_GetAllSessions_def dest: inj_onD)
  then show ?thesis using t by (simp add: ss_GetSessionById_def)
qed

lemma sv_release_clean:
  assumes c: "sv_clean sv" and s: "s \<in> set (ss_GetAllSessions (umAll (svUsers sv)))"
    and sv': "sv' = sv_HandleSessionRelease env (siSessionId (items (svStore sv) s)) sv"
  shows "sv_clean sv'" and "siDestroyed (items (svStore sv') s)"
    and "set (ss_GetAllSessions (umAll (svUsers sv'))) = set (ss_GetAllSessions (umAll (svUsers sv))) - {s}"
    and "t \<noteq> s \<Longrightarrow> si_core (items (svStore sv') t) = si_core (items (svStore sv) t)"
    and "set (um_front v (svUsers sv')) = set (um_front v (svUsers sv)) - {s}"
    and "um_GetTopSession v (svUsers sv) \<noteq> Some s \<Longrightarrow> um_GetTopSession v (svUsers sv') = um_GetTopSession v (svUsers sv)"
proof -
  note R = sv_HandleSessionRelease_spec [OF sv_cleanD(1,2) [OF c] sv_find_by_id [OF sv_cleanD(1) [OF c] s]
      sv_cleanD(3,4) [OF c s] sv']
  have ok: "sv_ok sv'" and dest: "siDestroyed (items (svStore sv') s)"
    and all: "set (ss_GetAllSessions (umAll (svUsers sv'))) = set (ss_GetAllSessions (umAll (svUsers sv))) - {s}"
    and front: "\<And>v. set (um_front v (svUsers sv')) = set (um_front v (svUsers sv)) - {s}"
    and alive: "umAlive (svUsers sv') = umAlive (svUsers sv)"
    and names: "svControlBundleNames sv' = svControlBundleNames sv"
    and core: "\<And>t. si_core (items (svStore sv') t) = si_core (((items (svStore sv)) (s := si_destroy (items (svStore sv) s))) t)"
    using R by (simp_all del: fun_upd_apply)
  show "set (um_front v (svUsers sv')) = set (um_front v (svUsers sv)) - {s}" by (rule front)
  show "um_GetTopSession v (svUsers sv) \<noteq> Some s \<Longrightarrow> um_GetTopSession v (svUsers sv') = um_GetTopSession v (svUsers sv)"
    using R by blast
  have cast: "\<not> siCasting (items (svStore sv') t)" for t
    using si_core_fields(8) [OF core [of t]] sv_cleanD(2) [OF c] by (simp add: si_destroy_def)
  have core': "si_core (items (svStore sv') t) = si_core (items (svStore sv) t)" if "t \<noteq> s" for t
    using core [of t] that by simp
  have "sv_releasable t sv' \<and> sv_listed t sv'" if "t \<in> set (ss_GetAllSessions (umAll (svUsers sv')))" for t
  proof -
    have t: "t \<in> set (ss_GetAllSessions (umAll (svUsers sv)))" "t \<noteq> s" using that all by auto
    note C = si_core_fields [OF core' [OF t(2)]]
    show ?thesis using that sv_cleanD(3,4) [OF c t(1)]
      by (auto simp: sv_releasable_def sv_listed_def C front alive names um_IsUserAlive_def)
  qed
  then show "sv_clean sv'" using ok cast by (simp add: sv_clean_def)
  show "siDestroyed (items (svStore sv') s)" by (rule dest)
  show "set (ss_GetAllSessions (umAll (svUsers sv'))) = set (ss_GetAllSessions (umAll (svUsers sv))) - {s}" by (rule all)
  show "t \<noteq> s \<Longrightarrow> si_core (items (svStore sv') t) = si_core (items (svStore sv) t)" by (rule core')
qed

lemma sv_release_list:
  assumes "sv_clean sv" and "distinct ss" and "set ss \<subseteq> set (ss_GetAllSessions (umAll (svUsers sv)))"
    and "sv' = foldl (\<lambda>sv s. sv_HandleSessionRelease env (siSessionId (items (svStore sv) s)) sv) sv ss"
  shows "sv_clean sv' \<and> set (ss_GetAllSessions (umAll (svUsers sv'))) = set (ss_GetAllSessions (umAll (svUsers sv))) - set ss
    \<and> (\<forall>s \<in> set ss. siDestroyed (items (svStore sv') s))
    \<and> (\<forall>t. t \<notin> set ss \<longrightarrow> si_core (items (svStore sv') t) = si_core (items (svStore sv) t))
    \<and> (\<forall>v. set (um_front v (svUsers sv')) = set (um_front v (svUsers sv)) - set ss)
    \<and> (\<forall>v. um_GetTopSession v (svUsers sv) \<notin> Some ` set ss \<longrightarrow> um_GetTopSession v (svUsers sv') = um_GetTopSession v (svUsers sv))"
  using assms
proof (induction ss arbitrary: sv)
  case (Cons s ss)
  let ?sv = "sv_HandleSessionRelease env (siSessionId (items (svStore sv) s)) sv"
  have "s \<in> set (ss_GetAllSessions (umAll (svUsers sv)))" using Cons.prems(3) by simp
  note R = sv_release_clean [OF Cons.prems(1) this refl, where env = env]
  have "set ss \<subseteq> set (ss_GetAllSessions (umAll (svUsers ?sv)))" using Cons.prems(2,3) R(3) by auto
  from Cons.IH [OF R(1) _ this] Cons.prems(2,4)
  have IH: "sv_clean sv'" "set (ss_GetAllSessions (umAll (svUsers sv'))) = set (ss_GetAllSessions (umAll (svUsers ?sv))) - set ss"
    "\<forall>t \<in> set ss. siDestroyed (items (svStore sv') t)"
    "\<forall>t. t \<notin> set ss \<longrightarrow> si_core (items (svStore sv') t) = si_core (items (svStore ?sv) t)"
    "\<forall>v. set (um_front v (svUsers sv')) = set (um_front v (svUsers ?sv)) - set ss"
    "\<forall>v. um_GetTopSession v (svUsers ?sv) \<notin> Some ` set ss \<longrightarrow> um_GetTopSession v (svUsers sv') = um_GetTopSession v (svUsers ?sv)"
    by simp_all
  have "siDestroyed (items (svStore sv') s)"
    using si_core_fields(10) [OF IH(4) [rule_format, of s]] R(2) Cons.prems(2) by simp
  moreover have "\<forall>t. t \<notin> set (s # ss) \<longrightarrow> si_core (items (svStore sv') t) = si_core (items (svStore sv) t)"
    using IH(4) R(4) by simp
  moreover have "\<forall>v. set (um_front v (svUsers sv')) = set (um_front v (svUsers sv)) - set (s # ss)" using IH(5) R(5) by auto
  moreover have "um_GetTopSession v (svUsers sv') = um_GetTopSession v (svUsers sv)"
    if "um_GetTopSession v (svUsers sv) \<notin> Some ` set (s # ss)" for v
    using IH(6) [rule_format, of v] R(6) [of v] that by auto
  ultimately show ?case using IH(1-3) R(3) by auto
qed simp

text \<open>Dropping the controllers of a client touches no container, list or top session, and of a session only its controllers.\<close>

definition si_uncontrolled :: "session \<Rightarrow> session" where
  "si_uncontrolled s = s\<lparr>siControllers := []\<rparr>"

definition sv_same :: "service \<Rightarrow> service \<Rightarrow> bool" where
  "sv_same sv sv' \<longleftrightarrow> svUsers sv' = svUsers sv
     \<and> (\<forall>t. si_uncontrolled (items (svStore sv') t) = si_uncontrolled (items (svStore sv) t))"

lemma sv_same_fields:
  assumes "sv_same sv sv'"
  shows "siUserId (items (svStore sv') t) = siUserId (items (svStore sv) t)"
    and "siSessionId (items (svStore sv') t) = siSessionId (items (svStore sv) t)"
    and "siPid (items (svStore sv') t) = siPid (items (svStore sv) t)"
    and "siAbility (items (svStore sv') t) = siAbility (items (svStore sv) t)"
    and "siDestroyed (items (svStore sv') t) = siDestroyed (items (svStore sv) t)"
proof -
  have "si_uncontrolled (items (svStore sv') t) = si_uncontrolled (items (svStore sv) t)" using assms by (simp add: sv_same_def)
  from arg_cong [OF this, of siUserId] arg_cong [OF this, of siSessionId] arg_cong [OF this, of siPid]
    arg_cong [OF this, of siAbility] arg_cong [OF this, of siDestroyed]
  show "siUserId (items (svStore sv') t) = siUserId (items (svStore sv) t)"
    "siSessionId (items (svStore sv') t) = siSessionId (items (svStore sv) t)"
    "siPid (items (svStore sv') t) = siPid (items (svStore sv) t)"
    "siAbility (items (svStore sv') t) = siAbility (items (svStore sv) t)"
    "siDestroyed (items (svStore sv') t) = siDestroyed (items (svStore sv) t)" by (simp_all add: si_uncontrolled_def)
qed

lemma sv_same_ok: "sv_same sv sv' \<Longrightarrow> sv_ok sv \<Longrightarrow> sv_ok sv'"
  using sv_same_fields by (intro sv_ok_cong [of sv sv']) (simp_all add: sv_same_def)

lemma ct_DestroyWithoutReply_same: "sv_same sv (ct_DestroyWithoutReply c sv)"
  by (simp add: sv_same_def si_uncontrolled_def ct_DestroyWithoutReply_def si_HandleControllerRelease_def Let_def split: option.splits)

lemma ct_DestroyWithoutReply_list: "sv_same sv (foldl (\<lambda>sv c. ct_DestroyWithoutReply c sv) sv cs)"
proof (induction cs arbitrary: sv)
  case (Cons c cs)
  show ?case using Cons.IH [of "ct_DestroyWithoutReply c sv"] ct_DestroyWithoutReply_same [of sv c]
    by (simp add: sv_same_def)
qed (simp add: sv_same_def)

lemma sv_ClearController_spec:
  assumes "sv' = sv_ClearControllerForClientDiedNoLock pid sv"
  shows "sv_same sv sv'" and "map_of (svControllers sv') pid = None"
  using assms ct_DestroyWithoutReply_list
  by (auto simp: sv_ClearControllerForClientDiedNoLock_def Let_def map_of_cmap_erase sv_same_def split: option.splits)

lemma um_RemoveSessionListener_simps [simp]:
  "umAll (um_RemoveSessionListener pid um) = umAll um" "umStacks (um_RemoveSessionListener pid um) = umStacks um"
  "um_front u (um_RemoveSessionListener pid um) = um_front u um"
  "um_key_list u (um_RemoveSessionListener pid um) = um_key_list u um"
  "um_GetTopSession u (um_RemoveSessionListener pid um) = um_GetTopSession u um"
  "um_IsUserAlive u (um_RemoveSessionListener pid um) = um_IsUserAlive u um"
  by (simp_all add: um_RemoveSessionListener_def um_front_def um_key_list_def um_GetTopSession_def um_IsUserAlive_def)

lemma sv_clean_listener: "sv_clean sv \<Longrightarrow> sv_clean (sv_upd_users (um_RemoveSessionListener pid) sv)"
  using sv_ok_cong [of sv "sv_upd_users (um_RemoveSessionListener pid) sv"]
  by (simp add: sv_clean_def sv_releasable_def sv_listed_def)

lemma sv_pid_sessions:
  assumes ok: "um_ok h um"
  shows "set (ss_GetSessionsByPid pid (umAll um)) = {s \<in> set (ss_GetAllSessions (umAll um)). siPid (h s) = pid}"
    and "distinct (ss_GetSessionsByPid pid (umAll um))"
proof -
  note D = um_okD(1) [OF ok]
  have "s \<in> set (ss_GetSessionsByPid pid (umAll um)) \<longleftrightarrow> (\<exists>a. ss_GetSession pid a (umAll um) = Some s)" for s
    unfolding ss_lookup_set [OF D] ss_GetSessionsByPid_def by (cases "umAll um") force
  moreover have "(\<exists>a. ss_GetSession pid a (umAll um) = Some s) \<longleftrightarrow>
      s \<in> set (ss_GetAllSessions (umAll um)) \<and> siPid (h s) = pid" for s
    unfolding stack.inv_all [OF D] by (metis um_okD(5) [OF ok])
  ultimately show "set (ss_GetSessionsByPid pid (umAll um)) = {s \<in> set (ss_GetAllSessions (umAll um)). siPid (h s) = pid}"
    by auto
  show "distinct (ss_GetSessionsByPid pid (umAll um))"
    using D by (simp add: ss_GetSessionsByPid_def ss_ok_def distinct_map_filter)
qed



end
