(* ===== verification/ServiceTop.thy ===== *)
theory ServiceTop
  imports ServiceProps
begin

text \<open>
  The top session of a user: who carries the flag \<^verbatim>\<open>isTop_\<close>, and what becomes of the top session
  of a user that is not alive.
\<close>

section \<open>One top session per user\<close>

text \<open>Among the sessions of the service, those marked as top are exactly the top sessions of their users.\<close>

definition sv_top_flags :: "service \<Rightarrow> bool" where
  "sv_top_flags sv \<longleftrightarrow> (\<forall>s \<in> set (ss_GetAllSessions (umAll (svUsers sv))).
     siIsTop (items (svStore sv) s) \<longleftrightarrow> um_GetTopSession (siUserId (items (svStore sv) s)) (svUsers sv) = Some s)"

text \<open>The user whose top session a call sets.\<close>

definition sv_top_user :: "sref option \<Rightarrow> int \<Rightarrow> service \<Rightarrow> int" where
  "sv_top_user newTopSession v sv = (case newTopSession of
     None \<Rightarrow> sv_GetTargetUserId v sv | Some s \<Rightarrow> siUserId (items (svStore sv) s))"

lemma sv_UpdateTopSession_items:
  assumes "u = sv_top_user new v sv"
  shows "siIsTop (items (svStore (sv_UpdateTopSession env new v sv)) t) =
      (new = Some t \<or> (siIsTop (items (svStore sv) t) \<and> um_GetTopSession u (svUsers sv) \<noteq> Some t))"
    and "siPlayingTime (items (svStore (sv_UpdateTopSession env new v sv)) t) =
      (if new = Some t \<and> u = umCurUser (svUsers sv) then envNow env else siPlayingTime (items (svStore sv) t))"
  using assms by (auto simp: sv_UpdateTopSession_def sv_clear_top_def sv_UpdateSessionTimestamp_def si_SetTop_def sv_top_user_def
      si_SetPlayingTime_def Let_def split: option.splits)

text \<open>C20: let the marked sessions be exactly the top sessions of their users. \<^verbatim>\<open>UpdateTopSession\<close> with a session of the service
  makes it the top session of its own user, whatever user is passed; with a null pointer it leaves the user that is passed without a
  top session, or the current user if that one is not alive. Afterwards the marked sessions are again exactly the top sessions;
  for all other users top session and marks are as before. The playing time of a new top session of the current
  user is set, every other stays.\<close>

theorem sv_UpdateTopSession_one_top:
  assumes "sv_ok sv" and "sv_top_flags sv" and "\<forall>s. new = Some s \<longrightarrow> s \<in> set (ss_GetAllSessions (umAll (svUsers sv)))"
    and "sv' = sv_UpdateTopSession env new v sv" and "u = sv_top_user new v sv"
  shows "sv_ok sv' \<and> sv_top_flags sv'
    \<and> (\<forall>w. um_GetTopSession w (svUsers sv') = (if w = u then new else um_GetTopSession w (svUsers sv)))
    \<and> ss_GetAllSessions (umAll (svUsers sv')) = ss_GetAllSessions (umAll (svUsers sv))
    \<and> (\<forall>t \<in> set (ss_GetAllSessions (umAll (svUsers sv))). siUserId (items (svStore sv') t) = siUserId (items (svStore sv) t)
        \<and> siIsTop (items (svStore sv') t)
          = (if siUserId (items (svStore sv) t) = u then new = Some t else siIsTop (items (svStore sv) t)))
    \<and> (\<forall>t. siPlayingTime (items (svStore sv') t) =
        (if new = Some t \<and> u = umCurUser (svUsers sv) then envNow env else siPlayingTime (items (svStore sv) t)))"
proof -
  have stacks: "um_stacks_ok (svUsers sv)" using sv_okD(1) [OF assms(1)] by (simp add: um_ok_def)
  note T = sv_UpdateTopSession_frame [OF stacks]
  have fr: "sv_frame sv sv'" unfolding assms(4) by (rule T)
  have top: "um_GetTopSession w (svUsers sv') = (if w = u then new else um_GetTopSession w (svUsers sv))" for w
    unfolding assms(4,5) using T(2,3) by (cases new) (simp_all add: sv_top_user_def)
  have all: "umAll (svUsers sv') = umAll (svUsers sv)" using fr by (simp add: sv_frame_def)
  note U = sv_frame_items(1) [OF fr]
  note I = sv_UpdateTopSession_items [OF assms(5), where env = env, folded assms(4)]
  have new: "um_of_user (items (svStore sv)) u s (svUsers sv)" if "new = Some s" for s
    using that assms(3,5) by (simp add: um_of_user_def sv_top_user_def)
  then have ok: "sv_ok sv'" using top sv_okD(5) [OF assms(1)]
    by (intro sv_frame_ok [OF assms(1) fr]) (auto split: if_splits)
  have user: "siUserId (items (svStore sv) t) = w" if "um_GetTopSession w (svUsers sv) = Some t" for w t
    using sv_okD(5) [OF assms(1) that] by (simp add: um_of_user_def)
  have flag: "siIsTop (items (svStore sv') t)
      = (if siUserId (items (svStore sv) t) = u then new = Some t else siIsTop (items (svStore sv) t))"
    if "t \<in> set (ss_GetAllSessions (umAll (svUsers sv)))" for t
    using I(1) [of t] assms(2) that user new by (auto simp: sv_top_flags_def um_of_user_def)
  then have "sv_top_flags sv'"
    using assms(2) new unfolding sv_top_flags_def all U top by (auto simp: um_of_user_def)
  with flag show ?thesis using ok top I(2) all U by simp
qed

theorem sv_UpdateTopSession_one_top_witness:
  "um_GetTopSession 100 (svUsers (sv_UpdateTopSession example_env (Some 7) 0 (example_service\<lparr>svUsers :=
     (svUsers example_service)\<lparr>umTop := []\<rparr>\<rparr>))) = Some 7"
proof -
  let ?sv = "example_service\<lparr>svUsers := (svUsers example_service)\<lparr>umTop := []\<rparr>\<rparr>"
  have um: "um_ok (items (svStore ?sv)) (svUsers ?sv)"
    using example_um_ok um_ok_cong [of "svUsers ?sv" "svUsers example_service" "items (svStore example_service)"] by simp
  have none: "um_GetTopSession w (svUsers ?sv) = None" for w by (simp add: um_GetTopSession_def)
  then have ok: "sv_ok ?sv" using example_sv_ok um by (simp add: sv_ok_def um_of_user_def)
  have "\<not> siIsTop (items (svStore ?sv) t)" for t by (simp add: example_service_def example_item_def new_session_def)
  with none have flags: "sv_top_flags ?sv" by (simp add: sv_top_flags_def)
  have "7 \<in> set (ss_GetAllSessions (umAll (svUsers ?sv)))" by (simp add: example_service_def ss_GetAllSessions_def)
  then have listed: "\<forall>s. Some 7 = Some s \<longrightarrow> s \<in> set (ss_GetAllSessions (umAll (svUsers ?sv)))" by blast
  have "sv_top_user (Some 7) 0 ?sv = 100" by (simp add: sv_top_user_def example_service_def example_item_def)
  with sv_UpdateTopSession_one_top [OF ok flags listed refl refl, of example_env 0] show ?thesis by metis
qed

section \<open>Users that are not alive\<close>

text \<open>the release of the top session of a user that is not among the alive users, with no other
  session in front of that user: UpdateTopSession(nullptr, userId) falls back to the current user,
  so the released session stays on top of its own user and the current user's top session is
  taken off.\<close>

theorem sv_release_top_of_dead_user:
  assumes "um_stacks_ok (svUsers sv)" and "0 < u" and "\<And>t. \<not> siCasting (items (svStore sv) t)"
    and "\<not> um_IsUserAlive u (svUsers sv)" and "u \<noteq> umCurUser (svUsers sv)"
    and "um_GetTopSession u (svUsers sv) = Some s"
    and "\<forall>t \<in> set (um_front u (svUsers sv)). siBundle (items (svStore sv) t) = siBundle (items (svStore sv) s)"
    and "sv' = sv_HandleTopSessionRelease env u s sv"
  shows "um_GetTopSession u (svUsers sv') = Some s \<and> um_GetTopSession (umCurUser (svUsers sv)) (svUsers sv') = None"
proof -
  obtain r sv1 where g: "sv_GetOtherPlayingSession env u (siBundle (items (svStore sv) s)) sv = (r, sv1)" by fastforce
  note G = sv_GetOtherPlayingSession_spec [OF assms(1,2,3) g]
  have r: "r = None" using G(4) assms(7) by (cases r) auto
  have target: "sv_GetTargetUserId u sv1 = umCurUser (svUsers sv)"
    using assms(4) G(1) by (simp add: sv_GetTargetUserId_def um_IsUserAlive_def sv_frame_def)
  have eq: "svUsers sv' = svUsers (sv_UpdateTopSession env None u sv1)"
    using assms(6,8) g r by (simp add: sv_HandleTopSessionRelease_def Let_def)
  note T = sv_UpdateTopSession_frame(3) [OF sv_frame_stacks_ok [OF G(1)], where env = env and u = u]
  show ?thesis using T target G(3) assms(5,6) by (simp add: eq)
qed

definition example_dead_user :: service where
  "example_dead_user = example_service\<lparr>svUsers := (svUsers example_service)\<lparr>umCurUser := 101, umAlive := [101],
     umTop := [(100, Some 7), (101, Some 8)]\<rparr>\<rparr>"

theorem sv_release_top_of_dead_user_witness:
  "um_GetTopSession 100 (svUsers (sv_HandleTopSessionRelease example_env 100 7 example_dead_user)) = Some 7"
proof -
  have "um_stacks_ok (svUsers example_dead_user)"
    using example_um_ok um_stacks_ok_cong [of "svUsers example_dead_user" "svUsers example_service"]
    by (simp add: um_ok_def example_dead_user_def)
  moreover have "\<not> siCasting (items (svStore example_dead_user) t)" "\<not> um_IsUserAlive 100 (svUsers example_dead_user)"
    "umCurUser (svUsers example_dead_user) = 101" "um_GetTopSession 100 (svUsers example_dead_user) = Some 7"
    "\<forall>t \<in> set (um_front 100 (svUsers example_dead_user)). siBundle (items (svStore example_dead_user) t)
      = siBundle (items (svStore example_dead_user) 7)" for t
    by (simp_all add: example_dead_user_def example_service_def example_item_def new_session_def um_IsUserAlive_def
        um_GetTopSession_def um_front_def)
  ultimately show ?thesis
    using sv_release_top_of_dead_user [OF _ _ _ _ _ _ _ refl, where sv = example_dead_user and u = 100 and s = 7 and env = example_env] by simp
qed

end
