(* ===== verification/ServiceCreate.thy ===== *)
theory ServiceCreate
  imports ServiceTop
begin

text \<open>
  The creation of sessions, with its refusals, and what becomes of a call session whose bundle is on
  the control list.
\<close>

section \<open>The steps of a creation\<close>

lemma sv_CreateNewSession_spec:
  assumes "sid \<noteq> []" and "sv_CreateNewSession s sid uid pid tag type third el sv = (r, sv')"
  shows "r = Some s" and "svUsers sv' = svUsers sv" and "t \<noteq> s \<Longrightarrow> items (svStore sv') t = items (svStore sv) t"
    and "siSessionId (items (svStore sv') s) = sid" and "siPid (items (svStore sv') s) = pid"
    and "siUserId (items (svStore sv') s) = sv_GetUserIdFromCallingUid uid sv"
    and "siAbility (items (svStore sv') s) = elAbility el" and "siType (items (svStore sv') s) = type"
    and "siBundle (items (svStore sv') s) = elBundle el" and "\<not> siCasting (items (svStore sv') s)"
    and "\<not> siDestroyed (items (svStore sv') s)" and "svControlBundleNames sv' = svControlBundleNames sv"
  using assms by (auto simp: sv_CreateNewSession_def new_session_def Let_def split: if_splits)

lemma um_Add_lists:
  assumes "um_AddSessionForCurrentUser p a s u um = (r, um')"
  shows "um_front v um' = um_front v um" and "um_key_list v um' = um_key_list v um"
    and "um_GetTopSession v um' = um_GetTopSession v um" and "umCurUser um' = umCurUser um" and "umAlive um' = umAlive um"
  using assms by (auto simp: um_AddSessionForCurrentUser_def um_front_def um_key_list_def um_GetTopSession_def
      um_user_def split_beta Let_def split: if_splits)

lemma um_user_GetContainer [simp]: "um_user u (snd (um_GetContainerFromUser v um)) = um_user u um"
  by (simp add: um_user_def)

lemma sv_critical_simps [simp]:
  "svStore (sv_SetCriticalWhenCreate env s sv) = svStore sv" "svUsers (sv_SetCriticalWhenCreate env s sv) = svUsers sv"
  "svControlBundleNames (sv_SetCriticalWhenCreate env s sv) = svControlBundleNames sv"
  by (simp_all add: sv_SetCriticalWhenCreate_def sv_SetCritical_def Let_def)

lemma sv_AddExtraFrontSession_spec:
  assumes ok: "sv_ok sv" and s: "um_of_user (items (svStore sv)) u s (svUsers sv)" and u: "0 < u"
    and sv': "sv' = sv_AddExtraFrontSession type s sv"
  shows "sv_ok sv'" and "svStore sv' = svStore sv" and "umAll (svUsers sv') = umAll (svUsers sv)"
    and "um_stack v (svUsers sv') = um_stack v (svUsers sv)" and "umCurUser (svUsers sv') = umCurUser (svUsers sv)"
    and "um_front v (svUsers sv') = (if v = u \<and> (type = SESSION_TYPE_VOICE_CALL \<or> type = SESSION_TYPE_VIDEO_CALL)
      \<and> s \<notin> set (um_front u (svUsers sv)) then s # um_front u (svUsers sv) else um_front v (svUsers sv))"
    and "umAlive (svUsers sv') = umAlive (svUsers sv)" and "svControlBundleNames sv' = svControlBundleNames sv"
proof -
  let ?call = "type = SESSION_TYPE_VOICE_CALL \<or> type = SESSION_TYPE_VIDEO_CALL"
  have stacks: "um_stacks_ok (svUsers sv)" using sv_okD(1) [OF ok] by (simp add: um_ok_def)
  have su: "siUserId (items (svStore sv) s) = u" using s by (simp add: um_of_user_def)
  define um1 where "um1 = snd (um_GetCurSessionListForFront u (svUsers sv))"
  let ?front = "um_front u (svUsers sv)"
  have g: "sv_GetCurSessionListForFront u sv = (?front, sv\<lparr>svUsers := um1\<rparr>)"
    using um_front_list(1) [of u "svUsers sv"] u
    by (simp add: sv_GetCurSessionListForFront_def um1_def um_user_def split_beta Let_def)
  have users: "svUsers sv' = (if ?call \<and> s \<notin> set ?front then um_set_front u (s # ?front) um1 else um1)"
    and store: "svStore sv' = svStore sv" and names: "svControlBundleNames sv' = svControlBundleNames sv"
    using g su by (simp_all add: sv' sv_AddExtraFrontSession_def Let_def)
  note L = um_front_list um1_def
  show "svStore sv' = svStore sv" "svControlBundleNames sv' = svControlBundleNames sv" by (rule store, rule names)
  show "umAll (svUsers sv') = umAll (svUsers sv)" "um_stack v (svUsers sv') = um_stack v (svUsers sv)"
    "umCurUser (svUsers sv') = umCurUser (svUsers sv)" "umAlive (svUsers sv') = umAlive (svUsers sv)" by (simp_all add: users L)
  have front: "um_front v (svUsers sv') = (if v = u \<and> ?call \<and> s \<notin> set ?front then s # ?front
      else um_front v (svUsers sv))" for v
    using u by (auto simp: users L um_user_def)
  then show "um_front v (svUsers sv') = (if v = u \<and> ?call \<and> s \<notin> set ?front then s # ?front
      else um_front v (svUsers sv))" .
  have um: "um_ok (items (svStore sv')) (svUsers sv')"
    using sv_okD(1) [OF ok] um_ok_cong [of "svUsers sv'" "svUsers sv" "items (svStore sv)"]
    by (simp add: users store L)
  have mem: "um_of_user (items (svStore sv')) w t (svUsers sv') = um_of_user (items (svStore sv)) w t (svUsers sv)" for w t
    by (simp add: um_of_user_def users store L)
  have rest: "um_key_list w (svUsers sv') = um_key_list w (svUsers sv)"
    "um_GetTopSession w (svUsers sv') = um_GetTopSession w (svUsers sv)" for w
    by (simp_all add: users L)
  show "sv_ok sv'"
    unfolding sv_ok_def using um sv_okD(2-5) [OF ok] s by (auto simp: mem rest front split: if_splits)
qed

section \<open>What a creation does\<close>

text \<open>A pointer and an id that are not in use, and a key that is free for every user.\<close>

definition sv_fresh :: "sref \<Rightarrow> string \<Rightarrow> int \<Rightarrow> string \<Rightarrow> service \<Rightarrow> bool" where
  "sv_fresh s sid pid ability sv \<longleftrightarrow> s \<notin> set (ss_GetAllSessions (umAll (svUsers sv))) \<and> sid \<noteq> []
     \<and> (\<forall>t \<in> set (ss_GetAllSessions (umAll (svUsers sv))). siSessionId (items (svStore sv) t) \<noteq> sid)
     \<and> ss_GetSession pid ability (umAll (svUsers sv)) = None"

text \<open>The object is made and added to the containers.\<close>

lemma sv_create_added:
  assumes ok: "sv_ok sv" and cur: "0 < sv_GetUserIdFromCallingUid uid sv"
    and fresh: "sv_fresh s sid pid (elAbility el) sv"
    and new: "sv_CreateNewSession s sid uid pid tag type third el (sv\<lparr>svUsers := um0\<rparr>) = (r0, sv1)"
    and um0: "um0 = snd (um_GetContainerFromUser v (svUsers sv))"
    and add: "um_AddSessionForCurrentUser pid (elAbility el) s (sv_GetUserIdFromCallingUid uid sv) um0 = (ret, um1)"
    and sv2: "sv2 = sv1\<lparr>svUsers := um1\<rparr>" and u: "u = sv_GetUserIdFromCallingUid uid sv"
  shows "if length (ss_GetAllSessions (umAll (svUsers sv))) < SESSION_NUM_MAX
    then ret = AVSESSION_SUCCESS \<and> sv_ok sv2 \<and> siUserId (items (svStore sv2) s) = u
      \<and> ss_GetAllSessions (umAll (svUsers sv2)) = s # ss_GetAllSessions (umAll (svUsers sv))
      \<and> ss_GetAllSessions (um_stack u (svUsers sv2)) = s # ss_GetAllSessions (um_stack u (svUsers sv))
      \<and> (\<forall>w. um_front w (svUsers sv2) = um_front w (svUsers sv))
    else ret = ERR_SESSION_EXCEED_MAX \<and> um1 = um0"
proof -
  have sid: "sid \<noteq> []" using fresh by (simp add: sv_fresh_def)
  note N = sv_CreateNewSession_spec [OF sid new]
  have G: "sv_GetUserIdFromCallingUid uid (sv\<lparr>svUsers := um0\<rparr>) = u"
    by (simp add: u um0 sv_GetUserIdFromCallingUid_def Let_def)
  let ?h = "items (svStore sv1)"
  have all0: "umAll um0 = umAll (svUsers sv)" "um_stack w um0 = um_stack w (svUsers sv)" for w by (simp_all add: um0)
  have other: "?h t = items (svStore sv) t" if "t \<in> set (ss_GetAllSessions (umAll (svUsers sv)))" for t
    using N(3) [of t] fresh that by (auto simp: sv_fresh_def)
  have "um_ok (items (svStore sv)) um0"
    unfolding um0 by (rule um_ok_container [OF sv_okD(1) [OF ok]])
  then have ok0: "um_ok ?h um0"
    by (rule um_ok_same_items) (use other in \<open>simp add: um_same_items_def all0\<close>)
  have item: "um_new_item ?h s um0"
    using fresh other N(4,5,7) by (auto simp: um_new_item_def sv_fresh_def all0)
  have usr: "siUserId (?h s) = um_user u um0" using N(6) G cur u by (simp add: um_user_def)
  have add': "um_AddSessionForCurrentUser (siPid (?h s)) (siAbility (?h s)) s u um0 = (ret, um1)"
    using add N(5,7) u by simp
  note A = um_AddSession_ok [OF ok0 item usr add'] and L = um_Add_lists [OF add]
  show ?thesis
  proof (cases "length (ss_GetAllSessions (umAll (svUsers sv))) < SESSION_NUM_MAX")
    case True
    then have A': "ret = AVSESSION_SUCCESS" "um_ok ?h um1" "ss_GetAllSessions (umAll um1) = s # ss_GetAllSessions (umAll (svUsers sv))"
      "ss_GetAllSessions (um_stack u um1) = s # ss_GetAllSessions (um_stack u (svUsers sv))"
      using A N(6) G by (simp_all add: all0)
    have lists: "um_front w um1 = um_front w (svUsers sv)" "um_key_list w um1 = um_key_list w (svUsers sv)"
      "um_GetTopSession w um1 = um_GetTopSession w (svUsers sv)" for w
      using L by (simp_all add: um0 um_front_def um_key_list_def um_GetTopSession_def)
    have mem: "um_of_user ?h w t um1" if "um_of_user (items (svStore sv)) w t (svUsers sv)" for w t
      using that other [of t] A'(3) by (simp add: um_of_user_def)
    have "sv_ok sv2"
      unfolding sv_ok_def using A'(2) sv_okD(2-5) [OF ok] mem by (simp add: sv2 lists)
    then show ?thesis using True A' lists N(6) G by (simp add: sv2)
  next
    case False
    then show ?thesis using A by (simp add: all0)
  qed
qed

lemma sv_timestamp_ok:
  "sv_ok sv \<Longrightarrow> sv_ok (sv_UpdateSessionTimestamp env s (sv\<lparr>svAnco := x\<rparr>))"
  by (rule sv_ok_cong) (simp_all add: sv_UpdateSessionTimestamp_def si_SetPlayingTime_def)

text \<open>The last steps of a creation, on the service \<open>sv1\<close> that has the session in both containers.\<close>

lemma sv_create_last_steps:
  assumes "sv_ok sv1" and "siUserId (items (svStore sv1) s) = u" and "0 < u"
    and "s \<in> set (ss_GetAllSessions (umAll (svUsers sv1)))"
    and "s \<notin> set (um_front u (svUsers sv1))"
    and sv3: "sv3 = sv_AddExtraFrontSession type s (sv_log (SessionCreated s) (sv_SetCriticalWhenCreate env s sv1))"
    and sv': "sv' = (if siUid (sv_item sv3 s) = ancoUid \<and> sv_IsLocalSessionPlaying env (Some s) sv3
        then sv_UpdateSessionTimestamp env s (sv3\<lparr>svAnco := Some s\<rparr>) else sv3)"
  shows "sv_ok sv' \<and> siUserId (items (svStore sv') s) = u \<and> umAll (svUsers sv') = umAll (svUsers sv1)
    \<and> um_stack u (svUsers sv') = um_stack u (svUsers sv1)
    \<and> um_front u (svUsers sv') = (if type = SESSION_TYPE_VOICE_CALL \<or> type = SESSION_TYPE_VIDEO_CALL
        then s # um_front u (svUsers sv1) else um_front u (svUsers sv1))
    \<and> (\<forall>v. v \<noteq> u \<longrightarrow> um_front v (svUsers sv') = um_front v (svUsers sv1))
    \<and> umAlive (svUsers sv') = umAlive (svUsers sv1) \<and> umCurUser (svUsers sv') = umCurUser (svUsers sv1)
    \<and> svControlBundleNames sv' = svControlBundleNames sv1
    \<and> (\<forall>t. si_core (items (svStore sv') t) = si_core (items (svStore sv1) t))"
proof -
  define sv2 where "sv2 = sv_log (SessionCreated s) (sv_SetCriticalWhenCreate env s sv1)"
  have ok2: "sv_ok sv2" using sv_ok_cong [OF assms(1), of sv2] by (simp add: sv2_def)
  have mem: "um_of_user (items (svStore sv2)) u s (svUsers sv2)" using assms(2,4) by (simp add: um_of_user_def sv2_def)
  note X = sv_AddExtraFrontSession_spec [OF ok2 mem assms(3) sv3 [folded sv2_def]]
  have st: "svStore sv3 = svStore sv1" "svUsers sv2 = svUsers sv1" using X(2) by (simp_all add: sv2_def)
  have "sv_ok sv'" using sv_timestamp_ok [OF X(1)] X(1) by (simp add: sv')
  moreover have "svUsers sv' = svUsers sv3" by (simp add: sv' sv_UpdateSessionTimestamp_def)
  moreover have "siUserId (items (svStore sv') s) = u"
    using assms(2) st by (simp add: sv' sv_UpdateSessionTimestamp_def si_SetPlayingTime_def)
  moreover have "svControlBundleNames sv' = svControlBundleNames sv1"
    using X(8) by (simp add: sv' sv_UpdateSessionTimestamp_def sv2_def)
  moreover have "si_core (items (svStore sv') t) = si_core (items (svStore sv1) t)" for t
    using st by (simp add: sv' sv_UpdateSessionTimestamp_def)
  ultimately show ?thesis using X(3-7) st(2) assms(5) by simp
qed

lemma sv_CreateSession_spec:
  assumes "sv_ok sv" and "sv_IsParamInvalid uid tag type e" and "tag \<noteq> ''ancoMediaSession''" and "tag \<noteq> ''anco_audio''"
    and "u = sv_GetUserIdFromCallingUid uid sv" and "0 < u" and "\<not> ss_PidHasSession pid (um_stack u (svUsers sv))"
    and "sv_fresh s sid pid (elAbility (sv_CorrectElementForThirdPartyCaller bundle ability third e)) sv"
    and "s \<notin> set (um_front u (svUsers sv))"
    and "sv_CreateSessionInner env bundle ability s sid uid pid tag type third e sv = (ret, r, sv')"
  shows "if length (ss_GetAllSessions (umAll (svUsers sv))) < SESSION_NUM_MAX
    then ret = AVSESSION_SUCCESS \<and> r = Some s \<and> sv_ok sv' \<and> siUserId (items (svStore sv') s) = u
      \<and> ss_GetAllSessions (umAll (svUsers sv')) = s # ss_GetAllSessions (umAll (svUsers sv))
      \<and> ss_GetAllSessions (um_stack u (svUsers sv')) = s # ss_GetAllSessions (um_stack u (svUsers sv))
      \<and> um_front u (svUsers sv') = (if type = SESSION_TYPE_VOICE_CALL \<or> type = SESSION_TYPE_VIDEO_CALL
          then s # um_front u (svUsers sv) else um_front u (svUsers sv))
      \<and> (\<forall>v. v \<noteq> u \<longrightarrow> um_front v (svUsers sv') = um_front v (svUsers sv))
      \<and> umAlive (svUsers sv') = umAlive (svUsers sv) \<and> umCurUser (svUsers sv') = umCurUser (svUsers sv)
      \<and> svControlBundleNames sv' = svControlBundleNames sv
      \<and> (\<forall>t. t \<noteq> s \<longrightarrow> si_core (items (svStore sv') t) = si_core (items (svStore sv) t))
      \<and> (\<exists>c. si_core (items (svStore sv') s) = si_core c \<and> siSessionId c = sid \<and> siType c = type \<and> \<not> siCasting c
          \<and> \<not> siDestroyed c
          \<and> siBundle c = elBundle (sv_CorrectElementForThirdPartyCaller bundle ability third e))
    else ret = ERR_SESSION_EXCEED_MAX \<and> r = None
      \<and> umAll (svUsers sv') = umAll (svUsers sv) \<and> (\<forall>v. um_stack v (svUsers sv') = um_stack v (svUsers sv))"
proof -
  define el where "el = sv_CorrectElementForThirdPartyCaller bundle ability third e"
  define um0 where "um0 = snd (um_GetContainerFromUser u (svUsers sv))"
  have refresh: "sv_RefreshUserFromAnco env uid tag e sv = sv"
    using assms(3,4) by (simp add: sv_RefreshUserFromAnco_def Let_def)
  have has: "sv_AbilityHasSession pid u sv = (False, sv\<lparr>svUsers := um0\<rparr>)"
    using assms(6,7) by (simp add: sv_AbilityHasSession_def um0_def split_beta Let_def)
  have fresh: "sv_fresh s sid pid (elAbility el) sv" using assms(8) by (simp add: el_def)
  obtain r0 sv1 where new: "sv_CreateNewSession s sid uid pid tag type third el (sv\<lparr>svUsers := um0\<rparr>) = (r0, sv1)" by fastforce
  have sid: "sid \<noteq> []" using fresh by (simp add: sv_fresh_def)
  note N = sv_CreateNewSession_spec [OF sid new]
  obtain ret1 um1 where add: "um_AddSessionForCurrentUser pid (elAbility el) s u um0 = (ret1, um1)" by fastforce
  have cur: "0 < sv_GetUserIdFromCallingUid uid sv" using assms(5,6) by simp
  note B = sv_create_added [OF assms(1) cur fresh new um0_def add [unfolded assms(5)] refl assms(5)]
  define sv3 where "sv3 = sv_AddExtraFrontSession type s
    (sv_log (SessionCreated s) (sv_SetCriticalWhenCreate env s (sv1\<lparr>svUsers := um1\<rparr>)))"
  have eq: "(ret, r, sv') = (if ret1 \<noteq> AVSESSION_SUCCESS then (ERR_SESSION_EXCEED_MAX, None, sv1\<lparr>svUsers := um1\<rparr>)
      else (AVSESSION_SUCCESS, Some s, if siUid (sv_item sv3 s) = ancoUid \<and> sv_IsLocalSessionPlaying env (Some s) sv3
        then sv_UpdateSessionTimestamp env s (sv3\<lparr>svAnco := Some s\<rparr>) else sv3))"
    unfolding assms(10) [symmetric] sv_CreateSessionInner_def Let_def
    using assms(2) refresh has new add N(1,2) assms(5)
    by (simp add: el_def [symmetric] sv3_def cong: if_cong)
  show ?thesis
  proof (cases "length (ss_GetAllSessions (umAll (svUsers sv))) < SESSION_NUM_MAX")
    case True
    then have B': "ret1 = AVSESSION_SUCCESS" "sv_ok (sv1\<lparr>svUsers := um1\<rparr>)" "siUserId (items (svStore sv1) s) = u"
      "ss_GetAllSessions (umAll um1) = s # ss_GetAllSessions (umAll (svUsers sv))"
      "ss_GetAllSessions (um_stack u um1) = s # ss_GetAllSessions (um_stack u (svUsers sv))"
      "um_front u um1 = um_front u (svUsers sv)"
      using B by simp_all
    have mem: "s \<in> set (ss_GetAllSessions (umAll (svUsers (sv1\<lparr>svUsers := um1\<rparr>))))" using B'(4) by simp
    have "ret = AVSESSION_SUCCESS" "r = Some s" and sv': "sv' = (if siUid (sv_item sv3 s) = ancoUid \<and> sv_IsLocalSessionPlaying env (Some s) sv3
        then sv_UpdateSessionTimestamp env s (sv3\<lparr>svAnco := Some s\<rparr>) else sv3)"
      using eq B'(1) by simp_all
    note Z = sv_create_last_steps [OF B'(2) _ assms(6) mem _ sv3_def sv']
    have rest: "umAlive um1 = umAlive (svUsers sv)" "umCurUser um1 = umCurUser (svUsers sv)"
      "\<forall>v. um_front v um1 = um_front v (svUsers sv)"
      using um_Add_lists(1,4,5) [OF add] by (simp_all add: um0_def um_front_def)
    have new: "\<exists>c. items (svStore sv1) s = c \<and> siSessionId c = sid \<and> siType c = type \<and> \<not> siCasting c \<and> \<not> siDestroyed c
        \<and> siBundle c = elBundle el" using N by simp
    show ?thesis using True \<open>ret = AVSESSION_SUCCESS\<close> \<open>r = Some s\<close> Z B'(3-6) assms(9) rest new N(3,12)
      by (simp add: el_def) metis
  next
    case False
    then have "ret1 = ERR_SESSION_EXCEED_MAX" "um1 = um0" using B by simp_all
    then show ?thesis using False eq by (simp add: um0_def ERR_SESSION_EXCEED_MAX_def AVSESSION_SUCCESS_def AVSESSION_ERROR_BASE_def)
  qed
qed

text \<open>C18: creating a session with valid parameters by a caller that is not one of the Android
  compatibility clients and has no session yet: with fewer than fifty sessions it succeeds, the
  service stays consistent, the session belongs to the caller's user and is the first of both
  containers; a call session is put in front at once, other types are not. With fifty sessions
  the result is ERR_SESSION_EXCEED_MAX and the containers are as before.\<close>

theorem sv_CreateSession_ok:
  assumes "sv_ok sv" and "sv_IsParamInvalid uid tag type e" and "tag \<noteq> ''ancoMediaSession''" and "tag \<noteq> ''anco_audio''"
    and "u = sv_GetUserIdFromCallingUid uid sv" and "0 < u" and "\<not> ss_PidHasSession pid (um_stack u (svUsers sv))"
    and "sv_fresh s sid pid (elAbility (sv_CorrectElementForThirdPartyCaller bundle ability third e)) sv"
    and "s \<notin> set (um_front u (svUsers sv))"
    and "sv_CreateSessionInner env bundle ability s sid uid pid tag type third e sv = (ret, r, sv')"
  shows "if length (ss_GetAllSessions (umAll (svUsers sv))) < SESSION_NUM_MAX
    then ret = AVSESSION_SUCCESS \<and> r = Some s \<and> sv_ok sv' \<and> siUserId (items (svStore sv') s) = u
      \<and> ss_GetAllSessions (umAll (svUsers sv')) = s # ss_GetAllSessions (umAll (svUsers sv))
      \<and> ss_GetAllSessions (um_stack u (svUsers sv')) = s # ss_GetAllSessions (um_stack u (svUsers sv))
      \<and> um_front u (svUsers sv') = (if type = SESSION_TYPE_VOICE_CALL \<or> type = SESSION_TYPE_VIDEO_CALL
          then s # um_front u (svUsers sv) else um_front u (svUsers sv))
    else ret = ERR_SESSION_EXCEED_MAX \<and> r = None
      \<and> umAll (svUsers sv') = umAll (svUsers sv) \<and> (\<forall>v. um_stack v (svUsers sv') = um_stack v (svUsers sv))"
  using sv_CreateSession_spec [OF assms] by (auto split: if_splits)

theorem sv_CreateSession_ok_witness:
  "fst (sv_CreateSessionInner example_env [] [] 8 ''t'' 20000002 8 ''tag'' SESSION_TYPE_VOICE_CALL False
     \<lparr>elDevice = [], elBundle = ''b'', elAbility = ''a''\<rparr> example_service) = AVSESSION_SUCCESS"
proof -
  let ?e = "\<lparr>elDevice = [], elBundle = ''b'', elAbility = ''a''\<rparr>"
  have valid: "sv_IsParamInvalid 20000002 ''tag'' SESSION_TYPE_VOICE_CALL ?e"
    by (simp add: sv_IsParamInvalid_def sv_IsElementNameValid_def name_regex_def cpp_word_char_def audioBrokerUid_def)
  have user: "sv_GetUserIdFromCallingUid 20000002 example_service = 100"
    by (simp add: sv_GetUserIdFromCallingUid_def uidToUserId_def signed_divide_int_def)
  have "\<not> ss_PidHasSession 8 (um_stack 100 (svUsers example_service))"
    by (simp add: ss_PidHasSession_def example_um_stack)
  moreover have "sv_fresh 8 ''t'' 8 ''a'' example_service" "8 \<notin> set (um_front 100 (svUsers example_service))"
    "length (ss_GetAllSessions (umAll (svUsers example_service))) = 1"
    by (simp_all add: sv_fresh_def example_service_def example_item_def ss_GetAllSessions_def ss_GetSession_def um_front_def)
  moreover obtain ret r sv' where c: "sv_CreateSessionInner example_env [] [] 8 ''t'' 20000002 8 ''tag''
      SESSION_TYPE_VOICE_CALL False ?e example_service = (ret, r, sv')" by (metis prod_cases3)
  ultimately show ?thesis
    using sv_CreateSession_ok [OF example_sv_ok valid _ _ user [symmetric] _ _ _ _ c]
    by (simp add: sv_CorrectElementForThirdPartyCaller_def SESSION_NUM_MAX_def)
qed

text \<open>C26: what a creation refuses, and that it leaves the sessions alone: invalid parameters, a
  process that already has a session of its user, and a failed allocation of the id. The caller is not the
  audio broker and the tag is none of the Android compatibility layer, for which a refused creation can give
  an existing session another key (\<open>CheckAndUpdateAncoMediaSession\<close>), and the user of the caller is
  positive.\<close>

theorem sv_CreateSession_refused:
  assumes "tag \<noteq> ''ancoMediaSession''" and "tag \<noteq> ''anco_audio''" and "uid \<noteq> audioBrokerUid"
    and "u = sv_GetUserIdFromCallingUid uid sv" and "0 < u"
    and "sv_CreateSessionInner env bundle ability s sid uid pid tag type third e sv = (ret, r, sv')"
    and "\<not> sv_IsParamInvalid uid tag type e \<or> ss_PidHasSession pid (um_stack u (svUsers sv)) \<or> sid = []"
  shows "ret = (if \<not> sv_IsParamInvalid uid tag type e then ERR_INVALID_PARAM
      else if ss_PidHasSession pid (um_stack u (svUsers sv)) then ERR_SESSION_IS_EXIST else ERR_NO_MEMORY)
    \<and> r = None \<and> svStore sv' = svStore sv \<and> umAll (svUsers sv') = umAll (svUsers sv)
    \<and> (\<forall>v. um_stack v (svUsers sv') = um_stack v (svUsers sv) \<and> um_front v (svUsers sv') = um_front v (svUsers sv)
        \<and> um_GetTopSession v (svUsers sv') = um_GetTopSession v (svUsers sv))"
proof (cases "sv_IsParamInvalid uid tag type e")
  case False
  then show ?thesis using assms(6) by (simp add: sv_CreateSessionInner_def)
next
  case True
  define um0 where "um0 = snd (um_GetContainerFromUser u (svUsers sv))"
  have refresh: "sv_RefreshUserFromAnco env uid tag e sv = sv"
    using assms(1,2) by (simp add: sv_RefreshUserFromAnco_def Let_def)
  have has: "sv_AbilityHasSession pid u sv = (ss_PidHasSession pid (um_stack u (svUsers sv)), sv\<lparr>svUsers := um0\<rparr>)"
    using assms(5) by (simp add: sv_AbilityHasSession_def um0_def split_beta Let_def)
  have "(ret, r, sv') = (if ss_PidHasSession pid (um_stack u (svUsers sv))
      then (ERR_SESSION_IS_EXIST, None, sv\<lparr>svUsers := um0\<rparr>) else (ERR_NO_MEMORY, None, sv\<lparr>svUsers := um0\<rparr>))"
    unfolding assms(6) [symmetric] sv_CreateSessionInner_def Let_def
    using True refresh has assms(3,4,7)
    by (auto simp: sv_CheckAndUpdateAncoMediaSession_def sv_CreateNewSession_def)
  then show ?thesis
    using True by (simp add: um0_def um_front_def um_GetTopSession_def split: if_splits)
qed

theorem sv_CreateSession_refused_witness:
  "fst (sv_CreateSessionInner example_env [] [] 8 ''t'' 20000002 7 ''tag'' SESSION_TYPE_AUDIO False
     \<lparr>elDevice = [], elBundle = ''b'', elAbility = ''a''\<rparr> example_service) = ERR_SESSION_IS_EXIST"
proof -
  let ?e = "\<lparr>elDevice = [], elBundle = ''b'', elAbility = ''a''\<rparr>"
  have "sv_IsParamInvalid 20000002 ''tag'' SESSION_TYPE_AUDIO ?e"
    by (simp add: sv_IsParamInvalid_def sv_IsElementNameValid_def name_regex_def cpp_word_char_def audioBrokerUid_def)
  moreover have "sv_GetUserIdFromCallingUid 20000002 example_service = 100"
    by (simp add: sv_GetUserIdFromCallingUid_def uidToUserId_def signed_divide_int_def)
  moreover have "ss_PidHasSession 7 (um_stack 100 (svUsers example_service))"
    by (simp add: ss_PidHasSession_def example_um_stack)
  moreover obtain ret r sv' where c: "sv_CreateSessionInner example_env [] [] 8 ''t'' 20000002 7 ''tag''
      SESSION_TYPE_AUDIO False ?e example_service = (ret, r, sv')" by (metis prod_cases3)
  ultimately show ?thesis
    using sv_CreateSession_refused [OF _ _ _ _ _ c, of 100] by (simp add: audioBrokerUid_def)
qed

section \<open>Call sessions of bundles on the control list\<close>

text \<open>a call session is put in front at its creation, without a look at the control list, but
  UpdateFrontSession leaves the list alone for a bundle on that list: when the session is released
  it is destroyed and in no container, and still in front.\<close>

theorem sv_released_session_stays_in_front:
  assumes "sv_ok sv" and "\<And>t. \<not> siCasting (items (svStore sv) t)"
    and "ss_GetSessionById (items (svStore sv)) sid (umAll (svUsers sv)) = Some s" and "sv_releasable s sv"
    and "siBundle (items (svStore sv) s) \<in> set (svControlBundleNames sv)"
    and "s \<in> set (um_front u (svUsers sv))"
    and "sv' = sv_HandleSessionRelease env sid sv"
  shows "siDestroyed (items (svStore sv') s) \<and> s \<notin> set (ss_GetAllSessions (umAll (svUsers sv')))
    \<and> s \<in> set (um_front u (svUsers sv'))"
proof -
  obtain cs sv1 where h: "sv_release_top env s sv = (cs, sv1)" by fastforce
  note T = sv_release_top_spec [OF assms(1,2,4) h]
  have core: "si_core (items (svStore sv1) s) = si_core (si_destroy (items (svStore sv) s))" using T(4) [of s] by simp
  note C = si_core_fields [OF core]
  have f: "siUserId (items (svStore sv1) s) = siUserId (items (svStore sv) s)"
    "siBundle (items (svStore sv1) s) = siBundle (items (svStore sv) s)" "siDestroyed (items (svStore sv1) s)"
    using C by (simp_all add: si_destroy_def)
  let ?h = "items (svStore sv1)"
  obtain r um1 where rm: "um_RemoveSessionForAllUser ?h (siPid (?h s)) (siAbility (?h s)) (svUsers sv1) = (r, um1)" by fastforce
  note R = um_RemoveSessionForAllUser_ok [OF sv_okD(1) [OF T(2)] rm] and L = um_Remove_lists [OF rm]
  have s: "s \<in> set (ss_GetAllSessions (umAll (svUsers sv1)))" using assms(4) T(8) by (simp add: sv_releasable_def)
  then have mem: "um_of_user ?h (siUserId (?h s)) s (svUsers sv1)" by (simp add: um_of_user_def)
  have r: "r = Some s"
    using R(1) um_of_user_lookup [OF sv_okD(1) [OF T(2)] mem] um_okD(4) [OF sv_okD(1) [OF T(2)]] by simp
  define sv2 where "sv2 = sv_remove_key_event (sv_session_user s sv) s (sv1\<lparr>svUsers := um1\<rparr>)"
  have lists: "sv_release_lists env (sv_session_user s sv) s sv1 = sv2"
    using rm assms(5) f T(6)
    by (simp add: sv_release_lists_def sv_UpdateFrontSession_def sv2_def sv_upd_users_def Let_def)
  have sv': "sv' = sv_RemoveControllersNoLock cs (sv_SetCriticalWhenRelease env sv2)"
    using sv_HandleSessionRelease_halves [OF assms(3) h] assms(7) lists by simp
  note K = sv_remove_key_event_spec [where u = "sv_session_user s sv" and s = s and sv = "sv1\<lparr>svUsers := um1\<rparr>", folded sv2_def]
  have q: "svUsers sv' = svUsers sv2" "svStore sv' = svStore sv1" using K by (simp_all add: sv' sv_RemoveControllers)
  have "s \<in> set (um_front u (svUsers sv'))" using assms(6) T(9) L(1) K(7) q by simp
  moreover have "ss_GetSession p a (umAll um1) \<noteq> Some s" for p a using R(3) r by simp
  then have "s \<notin> set (ss_GetAllSessions (umAll (svUsers sv')))"
    using um_gone_lookup(1) [OF R(2)] K(5) q by simp
  ultimately show ?thesis using f(3) q by simp
qed

theorem sv_released_session_stays_in_front_witness:
  "7 \<in> set (um_front 100 (svUsers (sv_HandleSessionRelease example_env ''s'' (example_service\<lparr>svControlBundleNames := [''b'']\<rparr>))))"
proof -
  let ?sv = "example_service\<lparr>svControlBundleNames := [''b'']\<rparr>"
  have "sv_ok ?sv" using sv_ok_cong [OF example_sv_ok, of ?sv] by simp
  moreover have "ss_GetSessionById (items (svStore ?sv)) ''s'' (umAll (svUsers ?sv)) = Some 7"
    "sv_releasable 7 ?sv" "\<not> siCasting (items (svStore ?sv) t)" "7 \<in> set (um_front 100 (svUsers ?sv))"
    "siBundle (items (svStore ?sv) 7) \<in> set (svControlBundleNames ?sv)" for t
    by (simp_all add: example_service_def example_item_def ss_GetSessionById_def sv_releasable_def
        ss_GetAllSessions_def um_IsUserAlive_def new_session_def um_front_def)
  ultimately show ?thesis
    using sv_released_session_stays_in_front [OF _ _ _ _ _ _ refl, where sv = ?sv and s = 7 and u = 100 and env = example_env and sid = "''s''"]
    by blast
qed

end
