(* ===== verification/FocusProps.thy ===== *)
theory FocusProps
  imports FocusStrategy ServiceCreate
begin

text \<open>
  The focus strategy: which processes it reports and what it remembers of them, two kinds of events
  that it gets wrong, and what a report does to the service.
\<close>

section \<open>The loop over the states\<close>

definition new_running :: "focus_strategy \<Rightarrow> focus_key \<times> int \<Rightarrow> bool" where
  "new_running fs e \<longleftrightarrow> snd e = runningState \<and> map_of (fsLast fs) (fst e) \<noteq> Some runningState"

definition new_stopped :: "focus_strategy \<Rightarrow> focus_key \<times> int \<Rightarrow> bool" where
  "new_stopped fs e \<longleftrightarrow> snd e \<noteq> runningState \<and> map_of (fsLast fs) (fst e) = Some runningState"

lemma fs_visit_spec:
  assumes "map_of (fsCurrent fs) k = Some v" and "fs_visit (k, v) (fs, fk, sk) = (fs', fk', sk')"
  shows "fk' = (if new_running fs (k, v) then k else fk)" and "sk' = (if new_stopped fs (k, v) then k else sk)"
    and "map_of (fsLast fs') j = (if j = k then if v = releaseState then None else Some v else map_of (fsLast fs) j)"
    and "map_of (fsCurrent fs') j = (if j = k \<and> v = releaseState then None else map_of (fsCurrent fs) j)"
    and "set (fsTasks fs') \<subseteq> set (fsTasks fs)"
  using assms
  by (auto simp: fs_visit_def fs_IsFocusSession_def fs_CheckFocusSessionStop_def new_running_def new_stopped_def
      fs_state_def runningState_def releaseState_def map_of_cmap_put map_of_cmap_erase Let_def split: if_splits)

lemma fs_scan_list:
  assumes "distinct (map fst es)" and "\<forall>e \<in> set es. map_of (fsCurrent fs) (fst e) = Some (snd e)"
    and "fold fs_visit es (fs, fk, sk) = (fs', fk', sk')"
  shows "fk' = last (fk # map fst (filter (new_running fs) es)) \<and> sk' = last (sk # map fst (filter (new_stopped fs) es))
    \<and> (\<forall>j. map_of (fsLast fs') j = (case map_of es j of
         Some v \<Rightarrow> if v = releaseState then None else Some v | None \<Rightarrow> map_of (fsLast fs) j))
    \<and> (\<forall>j. map_of (fsCurrent fs') j = (if map_of es j = Some releaseState then None else map_of (fsCurrent fs) j))
    \<and> set (fsTasks fs') \<subseteq> set (fsTasks fs)"
  using assms
proof (induction es arbitrary: fs fk sk)
  case (Cons e es)
  obtain k v where e: "e = (k, v)" by fastforce
  obtain fs1 fk1 sk1 where v: "fs_visit (k, v) (fs, fk, sk) = (fs1, fk1, sk1)" by (metis prod_cases3)
  have "map_of (fsCurrent fs) k = Some v" using Cons.prems(2) e by simp
  note V = fs_visit_spec [OF this v]
  have k: "k \<notin> fst ` set es" "map_of es k = None" using Cons.prems(1) e by (auto simp: map_of_eq_None_iff)
  then have neq: "fst d \<noteq> k" if "d \<in> set es" for d using that by (metis imageI)
  have same: "filter (new_running fs1) es = filter (new_running fs) es"
    "filter (new_stopped fs1) es = filter (new_stopped fs) es"
    using neq V(3) by (auto simp: new_running_def new_stopped_def intro!: filter_cong)
  have "\<forall>d \<in> set es. map_of (fsCurrent fs1) (fst d) = Some (snd d)" using Cons.prems(2) neq V(4) by simp
  moreover have "distinct (map fst es)" "fold fs_visit es (fs1, fk1, sk1) = (fs', fk', sk')"
    using Cons.prems(1,3) v by (simp_all add: e)
  ultimately have all: "fk' = last (fk1 # map fst (filter (new_running fs1) es)) \<and> sk' = last (sk1 # map fst (filter (new_stopped fs1) es))
    \<and> (\<forall>j. map_of (fsLast fs') j = (case map_of es j of
         Some v \<Rightarrow> if v = releaseState then None else Some v | None \<Rightarrow> map_of (fsLast fs1) j))
    \<and> (\<forall>j. map_of (fsCurrent fs') j = (if map_of es j = Some releaseState then None else map_of (fsCurrent fs1) j))
    \<and> set (fsTasks fs') \<subseteq> set (fsTasks fs1)"
    using Cons.IH by blast
  then have IH: "fk' = last (fk1 # map fst (filter (new_running fs1) es))"
    "sk' = last (sk1 # map fst (filter (new_stopped fs1) es))"
    "\<And>j. map_of (fsLast fs') j = (case map_of es j of
         Some v \<Rightarrow> if v = releaseState then None else Some v | None \<Rightarrow> map_of (fsLast fs1) j)"
    "\<And>j. map_of (fsCurrent fs') j = (if map_of es j = Some releaseState then None else map_of (fsCurrent fs1) j)"
    "set (fsTasks fs') \<subseteq> set (fsTasks fs1)"
    by blast+
  have "fk' = last (fk # map fst (filter (new_running fs) (e # es)))"
    "sk' = last (sk # map fst (filter (new_stopped fs) (e # es)))"
    using IH(1,2) V(1,2) by (simp_all add: same e)
  moreover have "map_of (fsLast fs') j = (case map_of (e # es) j of
         Some v \<Rightarrow> if v = releaseState then None else Some v | None \<Rightarrow> map_of (fsLast fs) j)"
    "map_of (fsCurrent fs') j = (if map_of (e # es) j = Some releaseState then None else map_of (fsCurrent fs) j)" for j
    using IH(3,4) [of j] V(3,4) [of j] k(2) by (auto simp: e split: option.splits)
  ultimately show ?case using IH(5) V(5) by blast
qed simp

lemma fs_scan_spec:
  assumes "cmap_ok (fsCurrent fs)" and "fs_scan fs = (fs', fk, sk)"
  shows "fk = last ((-1, -1) # map fst (filter (new_running fs) (fsCurrent fs)))"
    and "sk = last ((-1, -1) # map fst (filter (new_stopped fs) (fsCurrent fs)))"
    and "map_of (fsLast fs') j = (case map_of (fsCurrent fs) j of
         Some v \<Rightarrow> if v = releaseState then None else Some v | None \<Rightarrow> map_of (fsLast fs) j)"
    and "map_of (fsCurrent fs') j = (if map_of (fsCurrent fs) j = Some releaseState then None else map_of (fsCurrent fs) j)"
    and "set (fsTasks fs') \<subseteq> set (fsTasks fs)"
proof -
  have "\<forall>e \<in> set (fsCurrent fs). map_of (fsCurrent fs) (fst e) = Some (snd e)"
    using cmap_ok_distinct [OF assms(1)] by simp
  note L = fs_scan_list [OF cmap_ok_distinct [OF assms(1)] this assms(2) [unfolded fs_scan_def]]
  show "fk = last ((-1, -1) # map fst (filter (new_running fs) (fsCurrent fs)))"
    "sk = last ((-1, -1) # map fst (filter (new_stopped fs) (fsCurrent fs)))"
    "map_of (fsLast fs') j = (case map_of (fsCurrent fs) j of
         Some v \<Rightarrow> if v = releaseState then None else Some v | None \<Rightarrow> map_of (fsLast fs) j)"
    "map_of (fsCurrent fs') j = (if map_of (fsCurrent fs) j = Some releaseState then None else map_of (fsCurrent fs) j)"
    "set (fsTasks fs') \<subseteq> set (fsTasks fs)"
    using L by blast+
qed

lemma last_filter_in:
  assumes "last (x # map fst (filter P es)) = k" and "k \<noteq> x"
  shows "\<exists>e \<in> set es. P e \<and> fst e = k"
proof -
  from assms have "filter P es \<noteq> []" by auto
  with assms(1) have "last (map fst (filter P es)) = k" by simp
  then have "k \<in> set (map fst (filter P es))" using \<open>filter P es \<noteq> []\<close> last_in_set [of "map fst (filter P es)"] by simp
  then show ?thesis by auto
qed

section \<open>What the strategy reports\<close>

lemma fs_render_step_ok: "cmap_ok cur \<Longrightarrow> cmap_ok (fst (snd (fs_render_step control info (uids, cur, pk))))"
  by (auto simp: fs_render_step_def Let_def cmap_ok_put)

lemma fs_render_fold_ok:
  "cmap_ok cur \<Longrightarrow> cmap_ok (fst (snd (fold (fs_render_step control) infos (uids, cur, pk))))"
proof (induction infos arbitrary: uids cur pk)
  case (Cons i infos)
  obtain u c p where st: "fs_render_step control i (uids, cur, pk) = (u, c, p)" by (metis prod_cases3)
  then have "cmap_ok c" using fs_render_step_ok [OF Cons.prems, of control i uids pk] by simp
  then show ?case using Cons.IH [of c u p] st by simp
qed simp

lemma fs_Proc_spec:
  "cmap_ok (fsCurrent fs) \<Longrightarrow> cmap_ok (fsCurrent (fs_ProcAudioRenderChange control infos fs))"
  "fsLast (fs_ProcAudioRenderChange control infos fs) = fsLast fs"
  "fsTasks (fs_ProcAudioRenderChange control infos fs) = fsTasks fs"
  using fs_render_fold_ok [of "fsCurrent fs" control infos "[]" "(-1, -1)"]
  by (auto simp: fs_ProcAudioRenderChange_def split: prod.splits)

text \<open>the strategy is edge triggered. A process is reported as the focus only when it runs now
  and did not run after the last event; none is reported only when no process is new; afterwards
  the remembered states are the current ones, without the processes whose streams are released.\<close>

theorem fs_reports_new_only:
  assumes "cmap_ok (fsCurrent fs)" and "cur = fsCurrent (fs_ProcAudioRenderChange control infos fs)"
    and "fs_HandleAudioRenderStateChangeEvent control infos fs = (focus, fs')"
  shows "(\<forall>k. focus = Some k \<longrightarrow> map_of cur k = Some runningState \<and> map_of (fsLast fs) k \<noteq> Some runningState)
    \<and> (focus = None \<longrightarrow> (\<forall>k. map_of cur k = Some runningState \<longrightarrow> valid_key k) \<longrightarrow>
        (\<forall>k. map_of cur k = Some runningState \<longrightarrow> map_of (fsLast fs) k = Some runningState))
    \<and> (\<forall>j v. map_of cur j = Some v \<longrightarrow>
        map_of (fsLast fs') j = (if v = releaseState then None else Some v) \<and> map_of (fsCurrent fs') j = map_of (fsLast fs') j)"
proof -
  let ?fs = "fs_ProcAudioRenderChange control infos fs"
  have okc: "cmap_ok (fsCurrent ?fs)" and last: "fsLast ?fs = fsLast fs" using fs_Proc_spec assms(1) by blast+
  obtain fs1 fk sk where sc: "fs_scan ?fs = (fs1, fk, sk)" by (metis prod_cases3)
  note S = fs_scan_spec [OF okc sc]
  have focus: "focus = (if valid_key fk then Some fk else None)"
    and fs': "fsLast fs' = fsLast fs1" "fsCurrent fs' = fsCurrent fs1"
    using assms(3) sc by (auto simp: fs_HandleAudioRenderStateChangeEvent_def fs_DelayStopFocusSession_def Let_def split: if_splits)
  have run: "map_of cur fk = Some runningState \<and> map_of (fsLast fs) fk \<noteq> Some runningState" if "valid_key fk"
  proof -
    have "fk \<noteq> (-1, -1)" using that by (auto simp: valid_key_def)
    with S(1) last_filter_in obtain e where e: "e \<in> set (fsCurrent ?fs)" "new_running ?fs e" "fst e = fk" by metis
    then have "(fk, runningState) \<in> set (fsCurrent ?fs)" by (metis new_running_def prod.collapse)
    then have "map_of cur fk = Some runningState" using cmap_ok_in_set [OF okc] by (simp add: assms(2))
    then show ?thesis using e last by (simp add: new_running_def)
  qed
  have some: "focus \<noteq> None" if "map_of cur k = Some runningState" "map_of (fsLast fs) k \<noteq> Some runningState"
      "\<forall>k. map_of cur k = Some runningState \<longrightarrow> valid_key k" for k
  proof -
    have "(k, runningState) \<in> set (filter (new_running ?fs) (fsCurrent ?fs))"
      using that(1,2) last by (auto simp: assms(2) new_running_def dest: map_of_SomeD)
    then have ne: "filter (new_running ?fs) (fsCurrent ?fs) \<noteq> []" by (metis empty_iff empty_set)
    then have "fk \<in> set (map fst (filter (new_running ?fs) (fsCurrent ?fs)))"
      using S(1) last_in_set [of "map fst (filter (new_running ?fs) (fsCurrent ?fs))"] by simp
    then have "map_of cur fk = Some runningState"
      using cmap_ok_distinct [OF okc] by (auto simp: assms(2) new_running_def)
    then have "valid_key fk" using that(3) by blast
    then show ?thesis using focus by simp
  qed
  have "map_of (fsLast fs') j = (if v = releaseState then None else Some v) \<and> map_of (fsCurrent fs') j = map_of (fsLast fs') j"
    if "map_of cur j = Some v" for j v
    using S(3,4) [of j] that by (simp add: fs' assms(2))
  moreover have "\<forall>k. focus = Some k \<longrightarrow> map_of cur k = Some runningState \<and> map_of (fsLast fs) k \<noteq> Some runningState"
    using run focus by (metis option.distinct(1) option.inject)
  ultimately show ?thesis using some by blast
qed

definition example_infos :: "renderer_info list" where
  "example_infos = [\<lparr>riUid = 20000001, riPid = 7, riUsage = USAGE_MUSIC, riState = RENDERER_RUNNING\<rparr>]"

theorem fs_reports_new_only_witness:
  "map_of (fsLast (snd (fs_HandleAudioRenderStateChangeEvent [] example_infos new_focus_strategy))) (20000001, 7) = Some runningState"
  using fs_reports_new_only [OF _ refl prod.collapse [symmetric], of new_focus_strategy "[]" example_infos]
  by (simp add: new_focus_strategy_def fs_ProcAudioRenderChange_def example_infos_def fs_render_step_def Let_def
      ancoUid_def runningState_def releaseState_def)

text \<open>the state of a process depends on the order of the report. When its running stream comes
  before that of another process and a stopped one of its own comes after, the process counts as
  stopped; without the other process in between it counts as running.\<close>

theorem fs_interleaved_streams:
  assumes "riUid a \<noteq> ancoUid" and "riUid b \<noteq> ancoUid" and "control = []" and "riPid a \<noteq> 0" and "riPid b \<noteq> 0"
    and "(riUid a, riPid a) \<noteq> (riUid b, riPid b)" and "riState a = RENDERER_RUNNING" and "riState b = RENDERER_RUNNING"
  shows "map_of (fsCurrent (fs_ProcAudioRenderChange control [a, b, a\<lparr>riState := RENDERER_OTHER n\<rparr>] fs)) (riUid a, riPid a)
      = Some stopState
    \<and> map_of (fsCurrent (fs_ProcAudioRenderChange control [a, a\<lparr>riState := RENDERER_OTHER n\<rparr>, b] fs)) (riUid a, riPid a)
      = Some runningState"
  using assms by (auto simp: fs_ProcAudioRenderChange_def fs_render_step_def Let_def map_of_cmap_put split: prod.splits)

theorem fs_interleaved_streams_witness:
  "\<exists>a b. map_of (fsCurrent (fs_ProcAudioRenderChange [] [a, b, a\<lparr>riState := RENDERER_OTHER 5\<rparr>] new_focus_strategy)) (1, 2) = Some stopState
    \<and> riState a = RENDERER_RUNNING \<and> riUid a = 1 \<and> riPid a = 2"
  using fs_interleaved_streams [of "\<lparr>riUid = 1, riPid = 2, riUsage = USAGE_MUSIC, riState = RENDERER_RUNNING\<rparr>"
      "\<lparr>riUid = 3, riPid = 4, riUsage = USAGE_MUSIC, riState = RENDERER_RUNNING\<rparr>" "[]" 5 new_focus_strategy]
  by (intro exI [of _ "\<lparr>riUid = 1, riPid = 2, riUsage = USAGE_MUSIC, riState = RENDERER_RUNNING\<rparr>"]
      exI [of _ "\<lparr>riUid = 3, riPid = 4, riUsage = USAGE_MUSIC, riState = RENDERER_RUNNING\<rparr>"]) (simp add: ancoUid_def)

text \<open>of several processes that stop in one event only the last in the order of the map has its stop
  checked; the others are recorded as not running all the same, so no later event finds that they
  have stopped.\<close>

theorem fs_second_stop_lost:
  assumes "cmap_ok (fsCurrent fs)" and "cur = fsCurrent (fs_ProcAudioRenderChange control infos fs)"
    and "map_of cur a = Some stopState" and "map_of (fsLast fs) a = Some runningState"
    and "map_of cur b = Some stopState" and "map_of (fsLast fs) b = Some runningState" and "a < b"
    and "a \<notin> snd ` set (fsTasks fs)"
    and "fs_HandleAudioRenderStateChangeEvent control infos fs = (focus, fs')"
  shows "a \<notin> snd ` set (fsTasks fs') \<and> map_of (fsLast fs') a = Some stopState"
proof -
  let ?fs = "fs_ProcAudioRenderChange control infos fs"
  let ?stops = "filter (new_stopped ?fs) (fsCurrent ?fs)"
  have okc: "cmap_ok (fsCurrent ?fs)" and last: "fsLast ?fs = fsLast fs" and tasks: "fsTasks ?fs = fsTasks fs"
    using fs_Proc_spec assms(1) by blast+
  obtain fs1 fk sk where sc: "fs_scan ?fs = (fs1, fk, sk)" by (metis prod_cases3)
  note S = fs_scan_spec [OF okc sc]
  have "(b, stopState) \<in> set ?stops"
    using assms(5,6) last by (auto simp: assms(2) new_stopped_def stopState_def runningState_def dest: map_of_SomeD)
  then obtain xs ys where split: "?stops = xs @ (b, stopState) # ys" by (auto simp: in_set_conv_decomp)
  have srt: "sorted_wrt (<) (map fst ?stops)" using cmap_ok_filter [OF okc] by (simp add: cmap_ok_def)
  have "sk \<in> insert b (fst ` set ys)"
    unfolding S(2) split by (cases ys rule: rev_cases) auto
  then have "sk \<noteq> a" using srt assms(7) unfolding split by (auto simp: sorted_wrt_append)
  moreover have "fsTasks fs' = (if valid_key sk then fsTasks fs1 @ [(focus_task_name sk, sk)] else fsTasks fs1)"
    "fsLast fs' = fsLast fs1"
    using assms(9) sc by (auto simp: fs_HandleAudioRenderStateChangeEvent_def fs_DelayStopFocusSession_def Let_def split: if_splits)
  moreover have "map_of (fsLast fs1) a = Some stopState"
    using S(3) [of a] assms(2,3) by (simp add: stopState_def releaseState_def)
  ultimately show ?thesis using S(5) tasks assms(8) by auto
qed

theorem fs_second_stop_lost_witness:
  "\<exists>fs. map_of (fsLast fs) (1, 2) = Some runningState
    \<and> (1, 2) \<notin> snd ` set (fsTasks (snd (fs_HandleAudioRenderStateChangeEvent [] [] fs)))"
proof -
  define fs where "fs = new_focus_strategy\<lparr>fsLast := [((1, 2), runningState), ((3, 4), runningState)],
    fsCurrent := [((1, 2), stopState), ((3, 4), stopState)]\<rparr>"
  have "cmap_ok (fsCurrent fs)" by (simp add: fs_def cmap_ok_def)
  moreover have "fsCurrent (fs_ProcAudioRenderChange [] [] fs) = fsCurrent fs" by (simp add: fs_ProcAudioRenderChange_def)
  ultimately show ?thesis
    using fs_second_stop_lost [OF _ refl _ _ _ _ _ _ prod.collapse [symmetric], of fs "[]" "[]" "(1, 2)" "(3, 4)"]
    by (intro exI [of _ fs]) (simp add: fs_def new_focus_strategy_def)
qed

section \<open>What a report does to the service\<close>

lemma sv_frame_container:
  assumes "sv_ok sv"
  shows "sv_frame sv (sv\<lparr>svUsers := snd (um_GetContainerFromUser u (svUsers sv))\<rparr>)"
proof -
  have "um_stacks_ok (snd (um_GetContainerFromUser u (svUsers sv)))"
    using um_ok_container [OF sv_okD(1) [OF assms]] by (simp add: um_ok_def)
  then show ?thesis by (simp add: sv_frame_def um_front_def um_key_list_def)
qed

lemma sv_SelectFocusSession_spec:
  assumes ok: "sv_ok sv" and u: "u = sv_GetUserIdFromCallingUid uid sv"
    and r: "sv_SelectFocusSession env uid pid sv = (b, sv')"
  shows "sv_frame sv sv'" and "um_GetTopSession v (svUsers sv') = um_GetTopSession v (svUsers sv)" and "sv_ok sv'"
proof -
  define sv1 where "sv1 = sv\<lparr>svUsers := snd (um_GetContainerFromUser u (svUsers sv))\<rparr>"
  have fr1: "sv_frame sv sv1" unfolding sv1_def by (rule sv_frame_container [OF ok])
  have top1: "um_GetTopSession v (svUsers sv1) = um_GetTopSession v (svUsers sv)" for v
    by (simp add: sv1_def um_GetTopSession_def)
  have ok1: "sv_ok sv1" by (rule sv_frame_ok [OF ok fr1]) (use top1 sv_okD(5) [OF ok] in simp)
  let ?P = "\<lambda>s. siTag (items (svStore sv1) s) \<noteq> ''RemoteCast'' \<and> siPid (items (svStore sv1) s) = pid"
  have r': "(b, sv') = (case List.find ?P (ss_GetAllSessions (um_stack u (svUsers sv))) of
      None \<Rightarrow> (False, sv1) | Some s \<Rightarrow> sv_UpdateOrder env s sv1)"
    unfolding r [symmetric] by (simp add: sv_SelectFocusSession_def sv1_def u split_beta Let_def cong: option.case_cong)
  have "sv_frame sv1 sv' \<and> (\<forall>v. um_GetTopSession v (svUsers sv') = um_GetTopSession v (svUsers sv1))"
  proof (cases "List.find ?P (ss_GetAllSessions (um_stack u (svUsers sv)))")
    case None
    then show ?thesis using r' sv_frame_refl [OF sv_frame_stacks_ok [OF fr1]] by simp
  next
    case (Some s)
    then have "s \<in> set (ss_GetAllSessions (um_stack u (svUsers sv1)))" by (auto simp: find_Some_iff sv1_def)
    then obtain p a where "ss_GetSession p a (um_stack u (svUsers sv1)) = Some s"
      using stack.inv_all [OF um_okD(3) [OF sv_okD(1) [OF ok1]]] by blast
    then have "um_of_user (items (svStore sv1)) u s (svUsers sv1)"
      using um_okD(4) [OF sv_okD(1) [OF ok1]] stack.inv_all [OF um_okD(1) [OF sv_okD(1) [OF ok1]], of s]
      by (auto simp: um_of_user_def)
    from sv_UpdateOrder_frame [OF sv_okD(1) [OF ok1] this, of env b sv'] r' Some show ?thesis by simp
  qed
  then show "sv_frame sv sv'" "um_GetTopSession v (svUsers sv') = um_GetTopSession v (svUsers sv)"
    using sv_frame_trans [OF fr1] top1 by simp_all
  then show "sv_ok sv'" using sv_frame_ok [OF ok, of sv'] sv_okD(5) [OF ok] top1
      \<open>sv_frame sv1 sv' \<and> (\<forall>v. um_GetTopSession v (svUsers sv') = um_GetTopSession v (svUsers sv1))\<close> by simp
qed

lemma sv_HandleChangeTopSession_spec:
  assumes ok: "sv_ok sv" and u: "0 < u"
    and front: "\<exists>t \<in> set (um_front u (svUsers sv)). siUid (items (svStore sv) t) = uid
      \<and> siPid (items (svStore sv) t) = pid \<and> \<not> is_call (items (svStore sv) t)"
    and sv': "sv' = sv_HandleChangeTopSession env uid pid u sv"
  shows "\<exists>t. um_GetTopSession u (svUsers sv') = Some t \<and> siUid (items (svStore sv) t) = uid
      \<and> siPid (items (svStore sv) t) = pid" and "sv_frame sv sv'" and "sv_ok sv'"
proof -
  have stacks: "um_stacks_ok (svUsers sv)" using sv_okD(1) [OF ok] by (simp add: um_ok_def)
  obtain l sv1 where g: "sv_GetCurSessionListForFront u sv = (l, sv1)" by fastforce
  note F = sv_front_list [OF g stacks]
  let ?P = "\<lambda>s. siUid (items (svStore sv) s) = uid \<and> siPid (items (svStore sv) s) = pid \<and> \<not> is_call (items (svStore sv) s)"
  have l: "l = um_front u (svUsers sv)" using F(2) u by (simp add: um_user_def)
  then have "List.find ?P l \<noteq> None" using front by (auto simp: find_None_iff)
  then obtain t where t: "List.find ?P l = Some t" by blast
  then have tP: "?P t" and tl: "t \<in> set (um_front u (svUsers sv))" using l by (auto simp: find_Some_iff)
  have tu: "um_of_user (items (svStore sv)) u t (svUsers sv)" using sv_okD(2) [OF ok tl] .
  define sv2 where "sv2 = sv_UpdateTopSession env (Some t) u sv1"
  note T = sv_UpdateTopSession_frame [OF sv_frame_stacks_ok [OF F(1)]]
  have fr2: "sv_frame sv sv2" using sv_frame_trans [OF F(1) T(1)] by (simp add: sv2_def)
  have top2: "um_GetTopSession v (svUsers sv2) = (if v = u then Some t else um_GetTopSession v (svUsers sv))" for v
    using T(2) F(3,4) tu by (simp add: sv2_def um_of_user_def)
  have t1: "List.find (\<lambda>s. siUid (items (svStore sv1) s) = uid \<and> siPid (items (svStore sv1) s) = pid
      \<and> \<not> is_call (items (svStore sv1) s)) l = Some t" using t F(4) by simp
  have eq: "sv' = (if is_media (sv_item sv2 t) then sv_log (UpdateNotification (siUid (sv_item sv2 t)) (siPid (sv_item sv2 t)) True)
      (sv_NotifySystemUI env (sv_IsCapsuleNeeded u sv2) False u sv2) else sv2)"
    using g t1 top2 [of u] by (simp add: sv' sv_HandleChangeTopSession_def sv2_def [symmetric] Let_def)
  have users: "svUsers sv' = svUsers sv2" "svStore sv' = svStore sv2" "svControllers sv' = svControllers sv2"
    "svControlBundleNames sv' = svControlBundleNames sv2" by (simp_all add: eq)
  have "sv_frame sv2 sv'" by (rule sv_frame_fields [OF sv_frame_stacks_ok [OF fr2]]) (simp_all add: users)
  then show fr: "sv_frame sv sv'" using fr2 sv_frame_trans by blast
  show "\<exists>t. um_GetTopSession u (svUsers sv') = Some t \<and> siUid (items (svStore sv) t) = uid
      \<and> siPid (items (svStore sv) t) = pid" using top2 [of u] tP users by simp
  show "sv_ok sv'" by (rule sv_frame_ok [OF ok fr]) (use top2 tu users sv_okD(5) [OF ok] in \<open>auto split: if_splits\<close>)
qed

lemma sv_frame_user: "sv_frame sv sv' \<Longrightarrow> sv_GetUserIdFromCallingUid uid sv' = sv_GetUserIdFromCallingUid uid sv"
  by (simp add: sv_GetUserIdFromCallingUid_def sv_frame_def Let_def)

lemma sv_frame_item:
  "sv_frame sv sv' \<Longrightarrow> siUid (items (svStore sv') t) = siUid (items (svStore sv) t)
     \<and> siPid (items (svStore sv') t) = siPid (items (svStore sv) t)
     \<and> is_call (items (svStore sv') t) = is_call (items (svStore sv) t)"
  using si_core_fields(2,3,5) [of "items (svStore sv') t" "items (svStore sv) t"]
  by (simp add: sv_frame_def is_call_def si_GetSessionType_def)

text \<open>What the callback of the strategy does for a process that has a session in front which is not a call.\<close>

lemma sv_focus_gets_on_top:
  assumes "sv_ok sv" and "u = sv_GetUserIdFromCallingUid uid sv" and "0 < u" and "uid \<noteq> ancoUid"
    and "\<exists>t \<in> set (um_front u (svUsers sv)). siUid (items (svStore sv) t) = uid
      \<and> siPid (items (svStore sv) t) = pid \<and> \<not> is_call (items (svStore sv) t)"
    and "sv' = sv_UpdateFocusSession env (uid, pid) sv"
  shows "sv_ok sv' \<and> sv_frame sv sv' \<and> (\<exists>t. um_GetTopSession u (svUsers sv') = Some t
    \<and> siUid (items (svStore sv') t) = uid \<and> siPid (items (svStore sv') t) = pid)"
proof -
  obtain b sv1 where sel: "sv_SelectFocusSession env uid pid sv = (b, sv1)" by fastforce
  note S = sv_SelectFocusSession_spec [OF assms(1,2) sel]
  note I = sv_frame_item [OF S(1)]
  have u1: "sv_GetUserIdFromCallingUid uid sv1 = u" using sv_frame_user [OF S(1)] assms(2) by simp
  have sv': "sv' = sv_HandleFocusSession env uid pid True sv1" using assms(6) sel by (simp add: sv_UpdateFocusSession_def)
  show ?thesis
  proof (cases "\<exists>t. um_GetTopSession u (svUsers sv1) = Some t \<and> siUid (sv_item sv1 t) = uid \<and> siPid (sv_item sv1 t) = pid")
    case True
    then obtain t where t: "um_GetTopSession u (svUsers sv1) = Some t" "siUid (sv_item sv1 t) = uid" "siPid (sv_item sv1 t) = pid"
      by blast
    have q: "svUsers sv' = svUsers sv1" "svStore sv' = svStore sv1" "svControllers sv' = svControllers sv1"
      "svControlBundleNames sv' = svControlBundleNames sv1"
      using t u1 assms(4) by (simp_all add: sv' sv_HandleFocusSession_def sv_focus_is_top_def Let_def)
    have "sv_frame sv1 sv'" by (rule sv_frame_fields [OF sv_frame_stacks_ok [OF S(1)]]) (simp_all add: q)
    then have "sv_frame sv sv'" using S(1) sv_frame_trans by blast
    moreover have "sv_ok sv'" by (rule sv_ok_cong [OF S(3)]) (simp_all add: q)
    ultimately show ?thesis using t q by simp
  next
    case False
    then have "(case um_GetTopSession u (svUsers sv1) of None \<Rightarrow> False
        | Some t \<Rightarrow> siUid (sv_item sv1 t) = uid \<and> siPid (sv_item sv1 t) = pid) = False"
      by (auto split: option.splits)
    then have ch: "sv' = sv_HandleChangeTopSession env uid pid u sv1"
      using u1 assms(4) by (simp add: sv' sv_HandleFocusSession_def Let_def)
    have "\<exists>t \<in> set (um_front u (svUsers sv1)). siUid (items (svStore sv1) t) = uid
      \<and> siPid (items (svStore sv1) t) = pid \<and> \<not> is_call (items (svStore sv1) t)"
      using assms(5) S(1) I by (simp add: sv_frame_def)
    note H = sv_HandleChangeTopSession_spec [OF S(3) assms(3) this ch]
    show ?thesis using H(1,3) sv_frame_trans [OF S(1) H(2)] sv_frame_item [OF H(2)] by auto
  qed
qed

section \<open>From the streams to the top session\<close>

text \<open>The process that a report is about: of those that run now and did not run after the last report, the last one in the
  order of uid and pid.\<close>

definition fs_newly_playing :: "focus_key list \<Rightarrow> renderer_info list \<Rightarrow> focus_strategy \<Rightarrow> focus_key \<Rightarrow> bool" where
  "fs_newly_playing control infos fs k \<longleftrightarrow>
     map_of (fsCurrent (fs_ProcAudioRenderChange control infos fs)) k = Some runningState \<and> map_of (fsLast fs) k \<noteq> Some runningState"

lemma fs_reports_last_new:
  assumes "cmap_ok (fsCurrent fs)" and "fs_newly_playing control infos fs key" and "valid_key key"
    and "\<forall>k. fs_newly_playing control infos fs k \<longrightarrow> k \<le> key"
    and "fs_HandleAudioRenderStateChangeEvent control infos fs = (focus, fs')"
  shows "focus = Some key" and "map_of (fsLast fs') key = Some runningState"
proof -
  let ?fs = "fs_ProcAudioRenderChange control infos fs"
  let ?new = "filter (new_running ?fs) (fsCurrent ?fs)"
  have okc: "cmap_ok (fsCurrent ?fs)" and last: "fsLast ?fs = fsLast fs" using fs_Proc_spec assms(1) by blast+
  obtain fs1 fk sk where sc: "fs_scan ?fs = (fs1, fk, sk)" by (metis prod_cases3)
  note S = fs_scan_spec [OF okc sc]
  have "(key, runningState) \<in> set ?new"
    using assms(2) last by (auto simp: fs_newly_playing_def new_running_def dest: map_of_SomeD)
  then obtain xs ys where split: "?new = xs @ (key, runningState) # ys" by (auto simp: in_set_conv_decomp)
  have srt: "sorted_wrt (<) (map fst ?new)" using cmap_ok_filter [OF okc] by (simp add: cmap_ok_def)
  have "ys = []"
  proof (rule ccontr)
    assume "ys \<noteq> []"
    then obtain k v where kv: "(k, v) \<in> set ys" by (metis list.set_intros(1) neq_Nil_conv prod.exhaust)
    then have "key < k" using srt unfolding split by (auto simp: sorted_wrt_append)
    moreover have "(k, v) \<in> set ?new" unfolding split using kv by simp
    then have "fs_newly_playing control infos fs k"
      using last cmap_ok_in_set [OF okc] by (auto simp: fs_newly_playing_def new_running_def)
    ultimately show False using assms(4) by fastforce
  qed
  then have fk: "fk = key" using S(1) by (simp add: split)
  then show "focus = Some key"
    using assms(3,5) sc by (auto simp: fs_HandleAudioRenderStateChangeEvent_def Let_def)
  have "fsLast fs' = fsLast fs1"
    using assms(5) sc by (auto simp: fs_HandleAudioRenderStateChangeEvent_def fs_DelayStopFocusSession_def Let_def split: if_splits)
  then show "map_of (fsLast fs') key = Some runningState"
    using S(3) [of key] assms(2) by (simp add: fs_newly_playing_def runningState_def releaseState_def)
qed



end
