(* ===== verification/HashCalculator.thy ===== *)
theory HashCalculator
  imports Errors "HOL-Library.Word"
begin

unbundle bit_operations_syntax

text \<open>
  \<^verbatim>\<open>HashCalculator\<close> (\<^verbatim>\<open>utils/src/hash_calculator.cpp\<close>): SHA-256 over data that arrives in
  pieces. The context is the file's \<^verbatim>\<open>AlgoCTX\<close>, one per thread; a byte is an \<open>8 word\<close>. The casts
  to 64 bits before a sum and back to 32 after it are written out.
\<close>

section \<open>The macros\<close>

definition ROTR :: "32 word \<Rightarrow> nat \<Rightarrow> 32 word" where
  "ROTR x n = drop_bit n x OR push_bit (32 - n) x"

definition SHR :: "32 word \<Rightarrow> nat \<Rightarrow> 32 word" where
  "SHR x n = drop_bit n x"

definition Ch :: "32 word \<Rightarrow> 32 word \<Rightarrow> 32 word \<Rightarrow> 32 word" where
  "Ch x y z = (x AND y) XOR (NOT x AND z)"

definition Maj :: "32 word \<Rightarrow> 32 word \<Rightarrow> 32 word \<Rightarrow> 32 word" where
  "Maj x y z = (x AND y) XOR (x AND z) XOR (y AND z)"

definition Sigma0 :: "32 word \<Rightarrow> 32 word" where
  "Sigma0 x = ROTR x 2 XOR ROTR x 13 XOR ROTR x 22"

definition Sigma1 :: "32 word \<Rightarrow> 32 word" where
  "Sigma1 x = ROTR x 6 XOR ROTR x 11 XOR ROTR x 25"

definition sigma0 :: "32 word \<Rightarrow> 32 word" where
  "sigma0 x = ROTR x 7 XOR ROTR x 18 XOR SHR x 3"

definition sigma1 :: "32 word \<Rightarrow> 32 word" where
  "sigma1 x = ROTR x 17 XOR ROTR x 19 XOR SHR x 10"

definition BLOCK_SIZE :: nat where "BLOCK_SIZE = 64"
definition PAD_LENGTH :: nat where "PAD_LENGTH = 56"

text \<open>The table of round constants, each as its upper and lower 16 bits.\<close>

definition K256 :: "32 word list" where
  "K256 = map (\<lambda>(upper, lower). push_bit 16 upper OR lower) [
    (0x428a, 0x2f98), (0x7137, 0x4491), (0xb5c0, 0xfbcf), (0xe9b5, 0xdba5),
    (0x3956, 0xc25b), (0x59f1, 0x11f1), (0x923f, 0x82a4), (0xab1c, 0x5ed5),
    (0xd807, 0xaa98), (0x1283, 0x5b01), (0x2431, 0x85be), (0x550c, 0x7dc3),
    (0x72be, 0x5d74), (0x80de, 0xb1fe), (0x9bdc, 0x06a7), (0xc19b, 0xf174),
    (0xe49b, 0x69c1), (0xefbe, 0x4786), (0x0fc1, 0x9dc6), (0x240c, 0xa1cc),
    (0x2de9, 0x2c6f), (0x4a74, 0x84aa), (0x5cb0, 0xa9dc), (0x76f9, 0x88da),
    (0x983e, 0x5152), (0xa831, 0xc66d), (0xb003, 0x27c8), (0xbf59, 0x7fc7),
    (0xc6e0, 0x0bf3), (0xd5a7, 0x9147), (0x06ca, 0x6351), (0x1429, 0x2967),
    (0x27b7, 0x0a85), (0x2e1b, 0x2138), (0x4d2c, 0x6dfc), (0x5338, 0x0d13),
    (0x650a, 0x7354), (0x766a, 0x0abb), (0x81c2, 0xc92e), (0x9272, 0x2c85),
    (0xa2bf, 0xe8a1), (0xa81a, 0x664b), (0xc24b, 0x8b70), (0xc76c, 0x51a3),
    (0xd192, 0xe819), (0xd699, 0x0624), (0xf40e, 0x3585), (0x106a, 0xa070),
    (0x19a4, 0xc116), (0x1e37, 0x6c08), (0x2748, 0x774c), (0x34b0, 0xbcb5),
    (0x391c, 0x0cb3), (0x4ed8, 0xaa4a), (0x5b9c, 0xca4f), (0x682e, 0x6ff3),
    (0x748f, 0x82ee), (0x78a5, 0x636f), (0x84c8, 0x7814), (0x8cc7, 0x0208),
    (0x90be, 0xfffa), (0xa450, 0x6ceb), (0xbef9, 0xa3f7), (0xc671, 0x78f2)]"

section \<open>The context\<close>

record algo_ctx =
  ctxH :: "32 word list"
  ctxData :: "8 word list"
  ctxNum :: nat
  ctxNbits :: "64 word"

definition AlgoInit :: "algo_ctx \<Rightarrow> algo_ctx" where
  "AlgoInit c = c\<lparr>ctxH := [0x6a09e667, 0xbb67ae85, 0x3c6ef372, 0xa54ff53a, 0x510e527f, 0x9b05688c,
     0x1f83d9ab, 0x5be0cd19], ctxNum := 0, ctxNbits := 0\<rparr>"

section \<open>The transformation of a block\<close>

text \<open>A sum in 64 bits, cast to 32.\<close>

definition sum64 :: "32 word list \<Rightarrow> 32 word" where
  "sum64 xs = ucast (sum_list (map ucast xs) :: 64 word)"

definition load_be32 :: "8 word list \<Rightarrow> nat \<Rightarrow> 32 word" where
  "load_be32 block t = push_bit 24 (ucast (block ! (4 * t))) OR push_bit 16 (ucast (block ! (4 * t + 1)))
     OR push_bit 8 (ucast (block ! (4 * t + 2))) OR ucast (block ! (4 * t + 3))"

definition extend_w :: "32 word list \<Rightarrow> nat \<Rightarrow> 32 word list" where
  "extend_w w t = w @ [sum64 [sigma1 (w ! (t - 2)), w ! (t - 7), sigma0 (w ! (t - 15)), w ! (t - 16)]]"

definition schedule :: "8 word list \<Rightarrow> 32 word list" where
  "schedule block = foldl extend_w (map (load_be32 block) [0..<16]) [16..<64]"

type_synonym regs = "32 word \<times> 32 word \<times> 32 word \<times> 32 word \<times> 32 word \<times> 32 word \<times> 32 word \<times> 32 word"

definition algo_round :: "32 word list \<Rightarrow> regs \<Rightarrow> nat \<Rightarrow> regs" where
  "algo_round w r t = (case r of (a, b, c, d, e, f, g, h) \<Rightarrow>
     let t1 = sum64 [h, Sigma1 e, Ch e f g, K256 ! t, w ! t];
         t2 = sum64 [Sigma0 a, Maj a b c]
     in (sum64 [t1, t2], a, b, c, sum64 [d, t1], e, f, g))"

definition transform_h :: "32 word list \<Rightarrow> 8 word list \<Rightarrow> 32 word list" where
  "transform_h hs block = (case foldl (algo_round (schedule block))
       (hs ! 0, hs ! 1, hs ! 2, hs ! 3, hs ! 4, hs ! 5, hs ! 6, hs ! 7) [0..<64] of
     (a, b, c, d, e, f, g, h) \<Rightarrow> [sum64 [hs ! 0, a], sum64 [hs ! 1, b], sum64 [hs ! 2, c], sum64 [hs ! 3, d],
       sum64 [hs ! 4, e], sum64 [hs ! 5, f], sum64 [hs ! 6, g], sum64 [hs ! 7, h]])"

definition AlgoTransform :: "8 word list \<Rightarrow> algo_ctx \<Rightarrow> algo_ctx" where
  "AlgoTransform block c = c\<lparr>ctxH := transform_h (ctxH c) block\<rparr>"

section \<open>Data in pieces\<close>

text \<open>\<^verbatim>\<open>memcpy_s\<close> into the buffer: it fails when the room is too small.\<close>

definition memcpy_data :: "nat \<Rightarrow> 8 word list \<Rightarrow> algo_ctx \<Rightarrow> algo_ctx option" where
  "memcpy_data off src c = (if BLOCK_SIZE - off < length src then None
     else Some (c\<lparr>ctxData := take off (ctxData c) @ src @ drop (off + length src) (ctxData c)\<rparr>))"

text \<open>The loop over the complete blocks of the input, and what is left.\<close>

function full_blocks :: "8 word list \<Rightarrow> algo_ctx \<Rightarrow> 8 word list \<times> algo_ctx" where
  "full_blocks data c = (if BLOCK_SIZE \<le> length data
     then full_blocks (drop BLOCK_SIZE data) (AlgoTransform data c) else (data, c))"
  by pat_completeness auto
termination by (relation "measure (\<lambda>(data, c). length data)") (auto simp: BLOCK_SIZE_def)

declare full_blocks.simps [simp del]

definition update_rest :: "8 word list \<Rightarrow> algo_ctx \<Rightarrow> bool \<times> algo_ctx" where
  "update_rest data c = (case full_blocks data c of (rest, c) \<Rightarrow>
     if 0 < length rest then
       (case memcpy_data 0 rest c of None \<Rightarrow> (False, c) | Some c \<Rightarrow> (True, c\<lparr>ctxNum := length rest\<rparr>))
     else (True, c))"

definition AlgoUpdate :: "8 word list \<Rightarrow> algo_ctx \<Rightarrow> bool \<times> algo_ctx" where
  "AlgoUpdate data c =
     (if length data = 0 then (True, c)
      else let c = c\<lparr>ctxNbits := ctxNbits c + of_nat (length data) * 8\<rparr>
        in if ctxNum c \<noteq> 0 then
             (let need = BLOCK_SIZE - ctxNum c
              in if length data < need then
                   (case memcpy_data (ctxNum c) data c of None \<Rightarrow> (False, c)
                    | Some c \<Rightarrow> (True, c\<lparr>ctxNum := ctxNum c + length data\<rparr>))
                 else (case memcpy_data (ctxNum c) (take need data) c of None \<Rightarrow> (False, c)
                    | Some c \<Rightarrow> update_rest (drop need data) ((AlgoTransform (ctxData c) c)\<lparr>ctxNum := 0\<rparr>)))
           else update_rest data c)"

section \<open>The digest\<close>

definition be64 :: "64 word \<Rightarrow> 8 word list" where
  "be64 bits = map (\<lambda>n. ucast (drop_bit n bits AND 0xFF)) [56, 48, 40, 32, 24, 16, 8, 0]"

definition be32 :: "32 word \<Rightarrow> 8 word list" where
  "be32 x = map (\<lambda>n. ucast (drop_bit n x AND 0xFF)) [24, 16, 8, 0]"

definition cleared_ctx :: algo_ctx where
  "cleared_ctx = \<lparr>ctxH = replicate 8 0, ctxData = replicate 64 0, ctxNum = 0, ctxNbits = 0\<rparr>"

text \<open>The result is the digest, or nothing when the buffer is reported fuller than it can be.\<close>

definition AlgoFinal :: "algo_ctx \<Rightarrow> 8 word list option \<times> algo_ctx" where
  "AlgoFinal c =
     (if \<not> ctxNum c < 64 then (None, c)
      else
        let tmp = take (ctxNum c) (ctxData c) @ [0x80];
            (tmp, c) = (if PAD_LENGTH < length tmp
               then (replicate PAD_LENGTH 0, AlgoTransform (tmp @ replicate (BLOCK_SIZE - length tmp) 0) c)
               else (tmp @ replicate (PAD_LENGTH - length tmp) 0, c));
            c = AlgoTransform (tmp @ be64 (ctxNbits c)) c
        in (Some (concat (map be32 (ctxH c))), cleared_ctx))"

definition hash_Update :: "8 word list \<Rightarrow> algo_ctx \<Rightarrow> int \<times> algo_ctx" where
  "hash_Update value c = (case AlgoUpdate value c of (ok, c) \<Rightarrow>
     (if ok then AVSESSION_SUCCESS else AVSESSION_ERROR, c))"

text \<open>\<^verbatim>\<open>value.resize(32)\<close> comes first; \<open>value\<close> is what the caller's vector held.\<close>

definition hash_GetResult :: "8 word list \<Rightarrow> algo_ctx \<Rightarrow> int \<times> 8 word list \<times> algo_ctx" where
  "hash_GetResult value c = (case AlgoFinal c of
     (Some md, c) \<Rightarrow> (AVSESSION_SUCCESS, md, c)
   | (None, c) \<Rightarrow> (AVSESSION_ERROR, take 32 value @ replicate (32 - length value) 0, c))"

end
