(* ===== verification/HashProps.thy ===== *)
theory HashProps
  imports HashCalculator
begin

text \<open>
  SHA-256 as the standard defines it, on a whole message, and the equality with what
  \<^verbatim>\<open>HashCalculator\<close> computes of the same message in any number of pieces.
\<close>

section \<open>The standard's function\<close>

function sha_W :: "8 word list \<Rightarrow> nat \<Rightarrow> 32 word" where
  "sha_W M t = (if t < 16 then load_be32 M t
     else sigma1 (sha_W M (t - 2)) + sha_W M (t - 7) + sigma0 (sha_W M (t - 15)) + sha_W M (t - 16))"
  by pat_completeness auto
termination by (relation "measure snd") auto

declare sha_W.simps [simp del]

primrec sha_rounds :: "8 word list \<Rightarrow> regs \<Rightarrow> nat \<Rightarrow> regs" where
  "sha_rounds M r 0 = r"
| "sha_rounds M r (Suc t) = (case sha_rounds M r t of (a, b, c, d, e, f, g, h) \<Rightarrow>
     let t1 = h + Sigma1 e + Ch e f g + K256 ! t + sha_W M t; t2 = Sigma0 a + Maj a b c
     in (t1 + t2, a, b, c, d + t1, e, f, g))"

definition sha_compress :: "32 word list \<Rightarrow> 8 word list \<Rightarrow> 32 word list" where
  "sha_compress H M = (case sha_rounds M (H ! 0, H ! 1, H ! 2, H ! 3, H ! 4, H ! 5, H ! 6, H ! 7) 64 of
     (a, b, c, d, e, f, g, h) \<Rightarrow>
       [H ! 0 + a, H ! 1 + b, H ! 2 + c, H ! 3 + d, H ! 4 + e, H ! 5 + f, H ! 6 + g, H ! 7 + h])"

function sha_blocks :: "8 word list \<Rightarrow> 8 word list list" where
  "sha_blocks xs = (if length xs < 64 then [] else take 64 xs # sha_blocks (drop 64 xs))"
  by pat_completeness auto
termination by (relation "measure length") auto

declare sha_blocks.simps [simp del]

definition sha_pad :: "8 word list \<Rightarrow> 8 word list" where
  "sha_pad m = m @ [0x80] @ replicate ((119 - length m mod 64) mod 64) 0 @ be64 (of_nat (8 * length m))"

definition sha_H0 :: "32 word list" where
  "sha_H0 = [0x6a09e667, 0xbb67ae85, 0x3c6ef372, 0xa54ff53a, 0x510e527f, 0x9b05688c, 0x1f83d9ab, 0x5be0cd19]"

definition sha256 :: "8 word list \<Rightarrow> 8 word list" where
  "sha256 m = concat (map be32 (foldl sha_compress sha_H0 (sha_blocks (sha_pad m))))"

section \<open>The transformation of a block\<close>

lemma prod_cases8: "(\<And>a b c d e f g h. x = (a, b, c, d, e, f, g, h) \<Longrightarrow> P) \<Longrightarrow> P"
  by (metis prod.exhaust)

lemma ucast_add64: "(ucast (x + y :: 64 word) :: 32 word) = ucast x + ucast y"
proof (rule word_uint_eqI)
  show "uint (ucast (x + y) :: 32 word) = uint (ucast x + ucast y :: 32 word)"
    by (simp add: uint_word_ariths unsigned_ucast_eq take_bit_eq_mod mod_mod_cancel mod_simps)
qed

lemma ucast_up_down: "(ucast (ucast (x :: 32 word) :: 64 word) :: 32 word) = x"
  by (rule bit_word_eqI) (auto simp: bit_unsigned_iff bit_imp_le_length)

lemma sum64_eq: "sum64 xs = sum_list xs"
proof -
  have "(ucast (sum_list (map ucast xs) :: 64 word) :: 32 word) = sum_list xs"
    by (induction xs) (simp_all add: ucast_add64 ucast_up_down)
  then show ?thesis by (simp add: sum64_def)
qed

lemma schedule_upto:
  "16 \<le> n \<Longrightarrow> foldl extend_w (map (load_be32 block) [0..<16]) [16..<n] = map (sha_W block) [0..<n]"
proof (induction n rule: dec_induct)
  case base
  show ?case by (simp add: sha_W.simps)
next
  case (step n)
  have "foldl extend_w (map (load_be32 block) [0..<16]) [16..<Suc n] = extend_w (map (sha_W block) [0..<n]) n"
    using step by simp
  also have "\<dots> = map (sha_W block) [0..<Suc n]"
    using step(1) by (simp add: extend_w_def sum64_eq sha_W.simps [of block n] add.assoc)
  finally show ?case .
qed

lemma schedule_eq: "schedule block = map (sha_W block) [0..<64]"
  unfolding schedule_def by (rule schedule_upto) simp

lemma rounds_eq: "n \<le> 64 \<Longrightarrow> foldl (algo_round (schedule block)) r [0..<n] = sha_rounds block r n"
proof (induction n)
  case (Suc n)
  then have "foldl (algo_round (schedule block)) r [0..<Suc n] = algo_round (schedule block) (sha_rounds block r n) n"
    by simp
  also have "\<dots> = sha_rounds block r (Suc n)"
    using Suc.prems by (cases "sha_rounds block r n" rule: prod_cases8)
      (simp add: algo_round_def sum64_eq schedule_eq Let_def add.assoc)
  finally show ?case .
qed simp



lemma transform_eq: "transform_h H block = sha_compress H block"
  unfolding transform_h_def sha_compress_def by (simp add: rounds_eq sum64_eq split: prod.splits)

text \<open>Only the first 64 bytes of what the block pointer points to are read.\<close>

lemma load_take: "t < 16 \<Longrightarrow> load_be32 (take 64 M) t = load_be32 M t"
  by (simp add: load_be32_def)

lemma sha_W_take: "sha_W (take 64 M) t = sha_W M t"
  by (induction t rule: less_induct) (simp add: sha_W.simps load_take)

lemma sha_rounds_take: "sha_rounds (take 64 M) r n = sha_rounds M r n"
  by (induction n) (simp_all add: sha_W_take)

lemma compress_take: "sha_compress H (take 64 M) = sha_compress H M"
  by (simp add: sha_compress_def sha_rounds_take)

section \<open>Blocks\<close>

lemma sha_blocks_append: "length xs mod 64 = 0 \<Longrightarrow> sha_blocks (xs @ ys) = sha_blocks xs @ sha_blocks ys"
proof (induction xs rule: sha_blocks.induct)
  case (1 xs)
  show ?case
  proof (cases "length xs < 64")
    case True
    with 1(2) have "xs = []" by simp
    then show ?thesis by (simp add: sha_blocks.simps [of "[]"])
  next
    case False
    then have "length (drop 64 xs) mod 64 = 0" using 1(2) by (simp add: le_mod_geq [symmetric])
    from 1(1) [OF False this] show ?thesis using False
      by (subst (1 2) sha_blocks.simps) simp
  qed
qed

lemma sha_blocks_short: "length xs < 64 \<Longrightarrow> sha_blocks xs = []"
  by (simp add: sha_blocks.simps)

lemma sha_blocks_one: "length xs = 64 \<Longrightarrow> sha_blocks xs = [xs]"
  by (simp add: sha_blocks.simps [of xs] sha_blocks_short)

lemma full_blocks_spec:
  "\<exists>f. data = f @ fst (full_blocks data c) \<and> length f mod 64 = 0 \<and> length (fst (full_blocks data c)) < 64
     \<and> snd (full_blocks data c) = c\<lparr>ctxH := foldl sha_compress (ctxH c) (sha_blocks f)\<rparr>"
proof (induction data c rule: full_blocks.induct)
  case (1 data c)
  show ?case
  proof (cases "BLOCK_SIZE \<le> length data")
    case False
    then have "full_blocks data c = (data, c)" by (simp add: full_blocks.simps)
    then show ?thesis using False by (intro exI [of _ "[]"]) (simp add: BLOCK_SIZE_def sha_blocks_short)
  next
    case True
    let ?r = "full_blocks (drop 64 data) (AlgoTransform data c)"
    have eq: "full_blocks data c = ?r" using True by (simp add: full_blocks.simps [of data] BLOCK_SIZE_def)
    from 1 [OF True] obtain f where f: "drop 64 data = f @ fst ?r" "length f mod 64 = 0" "length (fst ?r) < 64"
      "snd ?r = (AlgoTransform data c)\<lparr>ctxH := foldl sha_compress (ctxH (AlgoTransform data c)) (sha_blocks f)\<rparr>"
      by (auto simp: BLOCK_SIZE_def)
    let ?f = "take 64 data @ f"
    have len: "length (take 64 data) = 64" using True by (simp add: BLOCK_SIZE_def)
    have "data = ?f @ fst ?r" using f(1) append_take_drop_id [of 64 data] by simp
    moreover have "length ?f mod 64 = 0" using f(2) len by simp
    moreover have "sha_blocks ?f = take 64 data # sha_blocks f"
      using len by (simp add: sha_blocks_append sha_blocks_one)
    then have "snd ?r = c\<lparr>ctxH := foldl sha_compress (ctxH c) (sha_blocks ?f)\<rparr>"
      using f(4) by (simp add: AlgoTransform_def transform_eq compress_take)
    ultimately show ?thesis using f(3) unfolding eq by (intro exI [of _ ?f] conjI)
  qed
qed

section \<open>The context after some of the message\<close>

text \<open>\<open>m\<close> has been taken in: its complete blocks are in the state, the rest is in the buffer.\<close>

definition ctx_of :: "8 word list \<Rightarrow> algo_ctx \<Rightarrow> bool" where
  "ctx_of m c \<longleftrightarrow> length (ctxData c) = 64 \<and> ctxNbits c = of_nat (length m) * 8
     \<and> (\<exists>f r. m = f @ r \<and> length f mod 64 = 0 \<and> length r < 64 \<and> ctxNum c = length r
        \<and> take (length r) (ctxData c) = r \<and> ctxH c = foldl sha_compress sha_H0 (sha_blocks f))"

lemma ctx_of_Init: "length (ctxData c) = 64 \<Longrightarrow> ctx_of [] (AlgoInit c)"
  by (simp add: ctx_of_def AlgoInit_def sha_H0_def sha_blocks_short)

lemma update_rest_ok:
  assumes "length (ctxData c) = 64" and "ctxNbits c = of_nat (length f + length data) * 8" and "length f mod 64 = 0"
    and "ctxNum c = 0" and "ctxH c = foldl sha_compress sha_H0 (sha_blocks f)"
    and "update_rest data c = (b, c')"
  shows "b \<and> ctx_of (f @ data) c'"
proof -
  obtain r c1 where fb: "full_blocks data c = (r, c1)" by fastforce
  from full_blocks_spec [of data c] obtain g where g: "data = g @ r" "length g mod 64 = 0" "length r < 64"
    "c1 = c\<lparr>ctxH := foldl sha_compress (ctxH c) (sha_blocks g)\<rparr>" by (auto simp: fb)
  have b: "b \<and> c' = (if r = [] then c1 else c1\<lparr>ctxData := r @ drop (length r) (ctxData c1), ctxNum := length r\<rparr>)"
    using assms(6) g(3) by (auto simp: update_rest_def fb memcpy_data_def BLOCK_SIZE_def split: if_splits)
  have "sha_blocks (f @ g) = sha_blocks f @ sha_blocks g" by (rule sha_blocks_append [OF assms(3)])
  moreover have "(length f + length g) mod 64 = 0" using assms(3) g(2) by presburger
  ultimately have "ctx_of (f @ data) c'"
    unfolding ctx_of_def using assms(1,2,4,5) g b
    by (intro conjI exI [of _ "f @ g"] exI [of _ r]) auto
  then show ?thesis using b by simp
qed

lemma AlgoUpdate_ok:
  assumes "ctx_of m c" and "AlgoUpdate data c = (b, c')"
  shows "b \<and> ctx_of (m @ data) c'"
proof (cases "data = []")
  case True
  then show ?thesis using assms by (simp add: AlgoUpdate_def)
next
  case False
  from assms(1) obtain f r where c: "length (ctxData c) = 64" "ctxNbits c = of_nat (length m) * 8" "m = f @ r"
    "length f mod 64 = 0" "length r < 64" "ctxNum c = length r" "take (length r) (ctxData c) = r"
    "ctxH c = foldl sha_compress sha_H0 (sha_blocks f)" by (auto simp: ctx_of_def)
  let ?c = "c\<lparr>ctxNbits := ctxNbits c + of_nat (length data) * 8\<rparr>"
  let ?need = "64 - length r"
  have bits: "ctxNbits ?c = of_nat (length (m @ data)) * 8" by (simp add: c(2) algebra_simps)
  consider "r = []" | "r \<noteq> []" "length data < ?need" | "r \<noteq> []" "?need \<le> length data" by linarith
  then show ?thesis
  proof cases
    case 1
    then have "update_rest data ?c = (b, c')" using assms(2) False c(6) by (simp add: AlgoUpdate_def Let_def)
    then show ?thesis using update_rest_ok [of ?c f data b c'] c bits 1 by simp
  next
    case 2
    have b: "b \<and> c' = ?c\<lparr>ctxData := r @ data @ drop (length r + length data) (ctxData c), ctxNum := length r + length data\<rparr>"
      using assms(2) False c(5-7) 2 by (auto simp: AlgoUpdate_def Let_def memcpy_data_def BLOCK_SIZE_def split: if_splits)
    have "ctx_of (m @ data) c'"
      unfolding ctx_of_def using b bits c 2 by (intro conjI exI [of _ f] exI [of _ "r @ data"]) auto
    then show ?thesis using b by simp
  next
    case 3
    let ?d = "r @ take ?need data"
    have len: "length ?d = 64" using 3 c(5) by simp
    have full: "take (length r) (ctxData c) @ take ?need data @ drop (length r + ?need) (ctxData c) = ?d"
      using c(1,5,7) by simp
    let ?c1 = "(AlgoTransform ?d (?c\<lparr>ctxData := ?d\<rparr>))\<lparr>ctxNum := 0\<rparr>"
    have u: "update_rest (drop ?need data) ?c1 = (b, c')"
      using assms(2) False c(1,5,6,7) 3 full
      by (simp add: AlgoUpdate_def Let_def memcpy_data_def BLOCK_SIZE_def min_def split: if_splits)
    have "ctxH ?c1 = foldl sha_compress sha_H0 (sha_blocks (f @ ?d))"
      using c(8) len sha_blocks_append [OF c(4), of ?d] sha_blocks_one [OF len]
      by (simp add: AlgoTransform_def transform_eq)
    moreover have "length (f @ ?d) mod 64 = 0" using c(4) len by (simp only: length_append) presburger
    moreover have n: "length (f @ ?d) + length (drop ?need data) = length (m @ data)" using c(3,5) 3 by simp
    have "ctxNbits ?c1 = of_nat (length (f @ ?d) + length (drop ?need data)) * 8"
      unfolding n by (simp only: bits [symmetric]) (simp add: AlgoTransform_def)
    ultimately have d: "length (f @ ?d) mod 64 = 0" "ctxH ?c1 = foldl sha_compress sha_H0 (sha_blocks (f @ ?d))"
      "ctxNbits ?c1 = of_nat (length (f @ ?d) + length (drop ?need data)) * 8"
      by blast+
    have "length (ctxData ?c1) = 64" "ctxNum ?c1 = 0" using len by (simp_all add: AlgoTransform_def)
    then have "b \<and> ctx_of ((f @ ?d) @ drop ?need data) c'"
      by (rule update_rest_ok [OF _ d(3) d(1) _ d(2) u])
    then show ?thesis using c(3) by simp
  qed
qed

section \<open>The digest\<close>

lemma pad_zeros:
  assumes "r < (64::nat)"
  shows "(119 - r) mod 64 = (if 55 < r then 119 - r else 55 - r)"
proof (cases "55 < r")
  case True
  then have "119 - r < 64" by arith
  then show ?thesis using True mod_less by presburger
next
  case False
  then have "119 - r = 64 + (55 - r)" by arith
  then have "(119 - r) mod 64 = (55 - r) mod 64" by (metis mod_add_self1)
  moreover have "55 - r < 64" by arith
  ultimately show ?thesis using False mod_less by presburger
qed

lemma length_be64 [simp]: "length (be64 x) = 8" by (simp add: be64_def)

lemma AlgoFinal_ok:
  assumes "ctx_of m c"
  shows "AlgoFinal c = (Some (sha256 m), cleared_ctx)"
proof -
  from assms obtain f r where c: "length (ctxData c) = 64" "ctxNbits c = of_nat (8 * length m)" "m = f @ r"
    "length f mod 64 = 0" "length r < 64" "ctxNum c = length r" "take (length r) (ctxData c) = r"
    "ctxH c = foldl sha_compress sha_H0 (sha_blocks f)" by (auto simp: ctx_of_def mult.commute)
  let ?tail = "be64 (ctxNbits c)"
  have mod: "length m mod 64 = length r" using c(3-5) by (simp add: mod_add_left_eq [symmetric])
  have pad: "sha_pad m = f @ r @ [0x80] @ replicate ((119 - length r) mod 64) 0 @ ?tail"
    by (simp add: sha_pad_def mod c(2)) (simp add: c(3))
  show ?thesis
  proof (cases "55 < length r")
    case False
    let ?b = "r @ [0x80] @ replicate (55 - length r) 0 @ ?tail"
    have len: "length ?b = 64" using False by simp
    have "sha_pad m = f @ ?b" using pad pad_zeros [OF c(5)] False by simp
    then have "sha_blocks (sha_pad m) = sha_blocks f @ [?b]"
      using sha_blocks_append [OF c(4), of ?b] sha_blocks_one [OF len] by simp
    then show ?thesis using c(5-8) False
      by (simp add: AlgoFinal_def sha256_def PAD_LENGTH_def BLOCK_SIZE_def AlgoTransform_def transform_eq Let_def)
  next
    case True
    let ?b = "r @ [0x80] @ replicate (63 - length r) 0" and ?b' = "replicate 56 0 @ ?tail"
    have len: "length ?b = 64" "length ?b' = 64" using c(5) by simp_all
    have "(119 - length r) mod 64 = (63 - length r) + 56" using pad_zeros [OF c(5)] c(5) True by simp
    then have "sha_pad m = f @ ?b @ ?b'" unfolding pad by (simp only: replicate_add append_assoc)
    then have "sha_blocks (sha_pad m) = sha_blocks f @ [?b, ?b']"
      using sha_blocks_append [OF c(4), of "?b @ ?b'"] sha_blocks_append [of ?b ?b'] sha_blocks_one [OF len(1)]
        sha_blocks_one [OF len(2)] len by simp
    then show ?thesis using c(5-8) True
      by (simp add: AlgoFinal_def sha256_def PAD_LENGTH_def BLOCK_SIZE_def AlgoTransform_def transform_eq Let_def)
  qed
qed

lemma updates_ok:
  "ctx_of m c \<Longrightarrow> ctx_of (m @ concat pieces) (foldl (\<lambda>c p. snd (hash_Update p c)) c pieces)"
proof (induction pieces arbitrary: m c)
  case (Cons p pieces)
  obtain b c' where u: "AlgoUpdate p c = (b, c')" by fastforce
  then have "snd (hash_Update p c) = c'" by (simp add: hash_Update_def)
  then show ?case using Cons.IH [of "m @ p" c'] AlgoUpdate_ok [OF Cons.prems u] by simp
qed simp

text \<open>C23: HashCalculator computes SHA-256: after Init, any number of calls of Update with pieces of any
  length, each of which succeeds, and GetResult, the result is the standard's digest of the pieces
  in one message, however the message was cut; the context is cleared.\<close>

theorem hash_in_pieces:
  assumes "length (ctxData c) = 64"
  shows "hash_GetResult value (foldl (\<lambda>c p. snd (hash_Update p c)) (AlgoInit c) pieces)
      = (AVSESSION_SUCCESS, sha256 (concat pieces), cleared_ctx)
    \<and> fst (hash_Update p (foldl (\<lambda>c p. snd (hash_Update p c)) (AlgoInit c) pieces)) = AVSESSION_SUCCESS"
proof -
  let ?c = "foldl (\<lambda>c p. snd (hash_Update p c)) (AlgoInit c) pieces"
  have m: "ctx_of (concat pieces) ?c" using updates_ok [OF ctx_of_Init [OF assms], of pieces] by simp
  obtain b c' where u: "AlgoUpdate p ?c = (b, c')" by fastforce
  then have "fst (hash_Update p ?c) = AVSESSION_SUCCESS"
    using AlgoUpdate_ok [OF m u] by (simp add: hash_Update_def)
  then show ?thesis by (simp add: hash_GetResult_def AlgoFinal_ok [OF m])
qed

theorem hash_in_pieces_witness:
  "fst (snd (hash_GetResult [] (foldl (\<lambda>c p. snd (hash_Update p c)) (AlgoInit cleared_ctx) [[1], [2, 3]]))) = sha256 [1, 2, 3]"
  using hash_in_pieces [of cleared_ctx "[]" "[[1], [2, 3]]"] by (simp add: cleared_ctx_def)

end
