(* ===== verification/CommandLimit.thy ===== *)
theory CommandLimit
  imports Prelude
begin

text \<open>
  \<^verbatim>\<open>CommandSendLimit\<close> (\<^verbatim>\<open>command_send_limit.cpp\<close>): how many commands a process may send in the
  period of the timer. \<open>clTimer\<close> is whether there is a timer; its callback is \<open>cl_ClearCommandLimits\<close>.
  A build without \<^verbatim>\<open>RAISE_COMMAND_RATE_LIMIT_ENABLE\<close> is modelled: the limit is ten.
\<close>

definition COMMAND_SEND_NUM_MAX :: int where "COMMAND_SEND_NUM_MAX = 10"

record command_limit =
  clLimits :: "(int, int) cmap"
  clTimer :: bool

definition new_command_limit :: command_limit where
  "new_command_limit = \<lparr>clLimits = [], clTimer = False\<rparr>"

definition cl_IsCommandSendEnable :: "int \<Rightarrow> command_limit \<Rightarrow> bool \<times> command_limit" where
  "cl_IsCommandSendEnable pid cl =
     (if \<not> clTimer cl then (True, cl)
      else case map_of (clLimits cl) pid of
        Some n \<Rightarrow> if COMMAND_SEND_NUM_MAX \<le> n then (False, cl)
                  else (True, cl\<lparr>clLimits := cmap_put pid (n + 1) (clLimits cl)\<rparr>)
      | None \<Rightarrow> (True, cl\<lparr>clLimits := cmap_insert pid 1 (clLimits cl)\<rparr>))"

definition cl_ClearCommandLimits :: "command_limit \<Rightarrow> command_limit" where
  "cl_ClearCommandLimits cl = cl\<lparr>clLimits := []\<rparr>"

definition cl_StartTimer :: "command_limit \<Rightarrow> command_limit" where
  "cl_StartTimer cl = (if clTimer cl then cl else cl\<lparr>clTimer := True\<rparr>)"

definition cl_StopTimer :: "command_limit \<Rightarrow> command_limit" where
  "cl_StopTimer cl = (if clTimer cl then cl\<lparr>clTimer := False, clLimits := []\<rparr> else cl\<lparr>clLimits := []\<rparr>)"

section \<open>Runs\<close>

text \<open>Requests of any processes, in order, within one period; the answers.\<close>

fun cl_requests :: "int list \<Rightarrow> command_limit \<Rightarrow> bool list \<times> command_limit" where
  "cl_requests [] cl = ([], cl)"
| "cl_requests (p # ps) cl = (let (b, cl) = cl_IsCommandSendEnable p cl; (bs, cl) = cl_requests ps cl in (b # bs, cl))"

definition cl_granted :: "int \<Rightarrow> int list \<Rightarrow> bool list \<Rightarrow> nat" where
  "cl_granted pid ps bs = length (filter (\<lambda>(p, b). p = pid \<and> b) (zip ps bs))"

definition cl_used :: "int \<Rightarrow> command_limit \<Rightarrow> nat" where
  "cl_used pid cl = (case map_of (clLimits cl) pid of Some n \<Rightarrow> nat n | None \<Rightarrow> 0)"

definition cl_ok :: "command_limit \<Rightarrow> bool" where
  "cl_ok cl \<longleftrightarrow> (\<forall>pid n. map_of (clLimits cl) pid = Some n \<longrightarrow> 0 < n \<and> n \<le> COMMAND_SEND_NUM_MAX)"

lemma cl_step:
  assumes "cl_ok cl" and "clTimer cl" and "cl_IsCommandSendEnable p cl = (b, cl')"
  shows "cl_ok cl'" and "clTimer cl'" and "b \<longleftrightarrow> cl_used p cl < 10"
    and "cl_used q cl' = cl_used q cl + (if b \<and> q = p then 1 else 0)"
proof -
  have n: "0 < n \<and> n \<le> 10" if "map_of (clLimits cl) p = Some n" for n
    using assms(1) that by (auto simp: cl_ok_def COMMAND_SEND_NUM_MAX_def)
  show "cl_ok cl'" "clTimer cl'" "b \<longleftrightarrow> cl_used p cl < 10"
    "cl_used q cl' = cl_used q cl + (if b \<and> q = p then 1 else 0)"
    using assms n by (fastforce simp: cl_IsCommandSendEnable_def cl_ok_def cl_used_def COMMAND_SEND_NUM_MAX_def
        cmap_insert_def map_of_cmap_put nat_add_distrib split: option.splits if_splits)+
qed

lemma cl_requests_spec:
  assumes "cl_ok cl" and "clTimer cl" and "cl_requests ps cl = (bs, cl')"
  shows "cl_ok cl' \<and> clTimer cl' \<and> length bs = length ps
    \<and> cl_granted pid ps bs = min (count_list ps pid) (10 - cl_used pid cl)
    \<and> cl_used pid cl' = cl_used pid cl + cl_granted pid ps bs"
  using assms
proof (induction ps arbitrary: cl bs cl')
  case Nil
  then show ?case by (simp add: cl_granted_def)
next
  case (Cons p ps)
  obtain b cl1 where s: "cl_IsCommandSendEnable p cl = (b, cl1)" by fastforce
  obtain bs1 cl2 where r: "cl_requests ps cl1 = (bs1, cl2)" by fastforce
  note S = cl_step [OF Cons.prems(1,2) s]
  from Cons.IH [OF S(1,2) r] Cons.prems(3) s r S(3) S(4) [of pid]
  show ?case by (auto simp: cl_granted_def)
qed

text \<open>C31: while the timer runs, between two of its callbacks a process is granted all its requests up
  to ten and no more than ten, whatever the other processes send.\<close>

theorem cl_at_most_ten:
  assumes "clTimer cl" and "cl_requests ps (cl_ClearCommandLimits cl) = (bs, cl')"
  shows "cl_granted pid ps bs = min (count_list ps pid) 10 \<and> cl_ok cl'"
proof -
  have "cl_ok (cl_ClearCommandLimits cl)" "clTimer (cl_ClearCommandLimits cl)" "cl_used pid (cl_ClearCommandLimits cl) = 0"
    using assms(1) by (simp_all add: cl_ok_def cl_ClearCommandLimits_def cl_used_def)
  from cl_requests_spec [OF this(1,2) assms(2), of pid] this(3) show ?thesis by simp
qed

theorem cl_at_most_ten_witness:
  "\<exists>bs. cl_granted 7 (replicate 12 7) bs = 10
     \<and> bs = fst (cl_requests (replicate 12 7) (cl_ClearCommandLimits (cl_StartTimer new_command_limit)))"
proof -
  obtain bs cl' where r: "cl_requests (replicate 12 7) (cl_ClearCommandLimits (cl_StartTimer new_command_limit)) = (bs, cl')"
    by fastforce
  have "clTimer (cl_StartTimer new_command_limit)" by (simp add: cl_StartTimer_def new_command_limit_def)
  moreover have "count_list (replicate 12 (7::int)) 7 = 12" by (simp add: numeral_eq_Suc)
  ultimately show ?thesis using cl_at_most_ten [OF _ r, of 7] r by (intro exI [of _ bs]) simp
qed

end
