(* ===== verification/BackgroundAudio.thy ===== *)
theory BackgroundAudio
  imports Prelude Errors
begin

text \<open>
  \<^verbatim>\<open>BackgroundAudioController\<close> (\<^verbatim>\<open>background_audio_controller.cpp\<close>): the processes that have
  sessions, by uid, and the decision to mute an application in the background that has none. The
  answers of the application manager, the permission checker and the audio framework are in the
  record \<open>bg_env\<close>; what the controller asks of them and of the service is a log of requests. The
  service pointer is set, as it is after \<^verbatim>\<open>Init\<close>.
\<close>

section \<open>State\<close>

record bg_env =
  beBackground :: "int \<Rightarrow> int \<Rightarrow> bool"
  beSystemApp :: "int \<Rightarrow> bool"
  beMuteOk :: "int \<Rightarrow> bool"

datatype bg_request =
    BgObserve int
  | BgUnobserve int
  | BgMute int
  | BgUnmute int
  | BgNotifyCheck int
  | BgReport int

text \<open>A stream: its process, whether it runs, is paused or stopped, and whether it is muted in the background.\<close>

datatype bg_renderer_state = BG_RUNNING | BG_PAUSED | BG_STOPPED | BG_OTHER

record bg_stream =
  bsUid :: int
  bsPid :: int
  bsState :: bg_renderer_state
  bsBackMute :: bool

record background =
  bgSessions :: "(int, int list) cmap"
  bgRequests :: "bg_request list"

definition new_background :: background where
  "new_background = \<lparr>bgSessions = [], bgRequests = []\<rparr>"

definition bg_ask :: "bg_request list \<Rightarrow> background \<Rightarrow> background" where
  "bg_ask rs bg = bg\<lparr>bgRequests := bgRequests bg @ rs\<rparr>"

section \<open>Operations\<close>

definition bg_OnSessionCreate :: "int \<Rightarrow> int \<Rightarrow> background \<Rightarrow> background" where
  "bg_OnSessionCreate uid pid bg =
     bg_ask [BgUnobserve uid]
       (case map_of (bgSessions bg) uid of
          None \<Rightarrow> bg\<lparr>bgSessions := cmap_insert uid [pid] (bgSessions bg)\<rparr>
        | Some s \<Rightarrow> bg\<lparr>bgSessions := cmap_put uid (cset_insert pid s) (bgSessions bg)\<rparr>)"

text \<open>\<^verbatim>\<open>MuteAudioStream\<close>, and the notice to the service when it succeeds.\<close>

definition bg_mute :: "bg_env \<Rightarrow> int \<Rightarrow> background \<Rightarrow> background" where
  "bg_mute env uid bg = bg_ask (if beMuteOk env uid then [BgMute uid, BgNotifyCheck uid] else [BgMute uid]) bg"

definition bg_OnSessionRelease :: "bg_env \<Rightarrow> int \<Rightarrow> int \<Rightarrow> bool \<Rightarrow> background \<Rightarrow> background" where
  "bg_OnSessionRelease env uid pid isThirdPartyApp bg =
     (let (isEmpty, bg) = (case map_of (bgSessions bg) uid of
            None \<Rightarrow> (False, bg)
          | Some s \<Rightarrow> (let s = cset_erase pid s
              in if s = [] then (True, bg\<lparr>bgSessions := cmap_erase uid (bgSessions bg)\<rparr>)
                 else (False, bg\<lparr>bgSessions := cmap_put uid s (bgSessions bg)\<rparr>)))
      in if isThirdPartyApp \<and> isEmpty then
           (let bg = bg_ask [BgObserve uid] bg
            in if beBackground env uid pid then bg_mute env uid bg else bg)
         else bg)"

definition bg_HasAVSession :: "int \<Rightarrow> background \<Rightarrow> bool" where
  "bg_HasAVSession uid bg \<longleftrightarrow> map_of (bgSessions bg) uid \<noteq> None"

definition bg_RendererChangeReport :: "bg_stream \<Rightarrow> background \<Rightarrow> background" where
  "bg_RendererChangeReport info bg =
     (if bsState info = BG_RUNNING \<or> bsState info = BG_PAUSED \<or> bsState info = BG_STOPPED
      then bg_ask [BgReport (bsUid info)] bg else bg)"

definition bg_stream_change :: "bg_env \<Rightarrow> bg_stream \<Rightarrow> background \<Rightarrow> background" where
  "bg_stream_change env info bg =
     (if bsState info \<noteq> BG_RUNNING then bg
      else if \<not> beBackground env (bsUid info) (bsPid info)
      then bg_ask (if bsBackMute info then [BgObserve (bsUid info), BgUnmute (bsUid info)] else [BgObserve (bsUid info)]) bg
      else if bg_HasAVSession (bsUid info) bg then bg_RendererChangeReport info bg
      else if beSystemApp env (bsUid info) then bg
      else if bsBackMute info then bg
      else bg_mute env (bsUid info) bg)"

definition bg_HandleAudioStreamRendererStateChange :: "bg_env \<Rightarrow> bg_stream list \<Rightarrow> background \<Rightarrow> background" where
  "bg_HandleAudioStreamRendererStateChange env infos bg = fold (bg_stream_change env) infos bg"

definition bg_HandleAppMuteState :: "bg_env \<Rightarrow> int \<Rightarrow> int \<Rightarrow> bool \<Rightarrow> background \<Rightarrow> background" where
  "bg_HandleAppMuteState env uid pid isBackground bg =
     (if \<not> isBackground then bg_ask [BgUnmute uid] bg
      else if beSystemApp env uid then bg
      else if bg_HasAVSession uid bg then bg
      else bg_mute env uid bg)"

text \<open>A continuous task: its creator and its modes; \<open>None\<close> when the list cannot be fetched.\<close>

definition bg_IsBackgroundMode :: "(int \<times> int list) list option \<Rightarrow> int \<Rightarrow> int \<Rightarrow> bool" where
  "bg_IsBackgroundMode tasks creatorUid mode =
     (case tasks of None \<Rightarrow> False
      | Some ts \<Rightarrow> list_ex (\<lambda>(creator, modes). creator = creatorUid \<and> mode \<in> set modes) ts)"

section \<open>Which uids have sessions\<close>

inductive bg_step :: "bg_env \<Rightarrow> (int \<times> int) set \<times> background \<Rightarrow> (int \<times> int) set \<times> background \<Rightarrow> bool" for env where
  bg_create: "bg_step env (S, bg) (insert (uid, pid) S, bg_OnSessionCreate uid pid bg)"
| bg_release: "bg_step env (S, bg) (S - {(uid, pid)}, bg_OnSessionRelease env uid pid t bg)"
| bg_streams: "bg_step env (S, bg) (S, bg_HandleAudioStreamRendererStateChange env infos bg)"
| bg_app: "bg_step env (S, bg) (S, bg_HandleAppMuteState env uid pid b bg)"

inductive bg_reachable :: "bg_env \<Rightarrow> (int \<times> int) set \<times> background \<Rightarrow> bool" for env where
  bg_init: "bg_reachable env ({}, new_background)"
| bg_steps: "bg_reachable env x \<Longrightarrow> bg_step env x y \<Longrightarrow> bg_reachable env y"

definition pids_of :: "int \<Rightarrow> (int, int list) cmap \<Rightarrow> int set" where
  "pids_of uid m = (case map_of m uid of None \<Rightarrow> {} | Some s \<Rightarrow> set s)"

definition bg_tracks :: "(int \<times> int) set \<Rightarrow> background \<Rightarrow> bool" where
  "bg_tracks S bg \<longleftrightarrow> (\<forall>uid. pids_of uid (bgSessions bg) = {pid. (uid, pid) \<in> S})
     \<and> (\<forall>uid. map_of (bgSessions bg) uid \<noteq> Some [])"

lemma bg_ask_sessions [simp]: "bgSessions (bg_ask rs bg) = bgSessions bg" "bgSessions (bg_mute env uid bg) = bgSessions bg"
  by (simp_all add: bg_ask_def bg_mute_def)

lemma bg_stream_sessions [simp]: "bgSessions (bg_stream_change env info bg) = bgSessions bg"
  by (simp add: bg_stream_change_def bg_RendererChangeReport_def)

lemma bg_streams_sessions [simp]: "bgSessions (bg_HandleAudioStreamRendererStateChange env infos bg) = bgSessions bg"
  unfolding bg_HandleAudioStreamRendererStateChange_def by (induction infos arbitrary: bg) simp_all

lemma bg_app_sessions [simp]: "bgSessions (bg_HandleAppMuteState env uid pid b bg) = bgSessions bg"
  by (simp add: bg_HandleAppMuteState_def)

lemma cset_insert_not_Nil [simp]: "cset_insert x s \<noteq> []"
  using set_cset_insert [of x s] by (metis empty_set insert_not_empty)

lemma bg_tracks_create:
  assumes "bg_tracks S bg"
  shows "bg_tracks (insert (uid, pid) S) (bg_OnSessionCreate uid pid bg)"
proof -
  let ?m = "bgSessions (bg_OnSessionCreate uid pid bg)"
  have "pids_of v ?m = (if v = uid then insert pid (pids_of v (bgSessions bg)) else pids_of v (bgSessions bg))"
    "map_of ?m v = Some [] \<Longrightarrow> map_of (bgSessions bg) v = Some []" for v
    by (auto simp: bg_OnSessionCreate_def pids_of_def cmap_insert_def map_of_cmap_put set_cset_insert
        split: option.splits if_splits)
  then show ?thesis using assms unfolding bg_tracks_def by auto
qed

lemma bg_tracks_release:
  assumes "bg_tracks S bg"
  shows "bg_tracks (S - {(uid, pid)}) (bg_OnSessionRelease env uid pid t bg)"
proof -
  let ?m = "bgSessions (bg_OnSessionRelease env uid pid t bg)"
  have m: "?m = (case map_of (bgSessions bg) uid of
      None \<Rightarrow> bgSessions bg | Some s \<Rightarrow> if cset_erase pid s = [] then cmap_erase uid (bgSessions bg)
        else cmap_put uid (cset_erase pid s) (bgSessions bg))"
    by (simp add: bg_OnSessionRelease_def Let_def split: option.splits)
  have empty: "set s - {pid} = {}" if "cset_erase pid s = []" for s :: "int list"
    using set_cset_erase [of pid s] that by simp
  have "pids_of v ?m = (if v = uid then pids_of v (bgSessions bg) - {pid} else pids_of v (bgSessions bg))"
    "map_of ?m v = Some [] \<Longrightarrow> map_of (bgSessions bg) v = Some []" for v
    using empty unfolding m
    by (auto simp: pids_of_def map_of_cmap_put map_of_cmap_erase set_cset_erase split: option.splits if_splits)
  then show ?thesis using assms unfolding bg_tracks_def by auto
qed

lemma bg_reachable_tracks: "bg_reachable env x \<Longrightarrow> bg_tracks (fst x) (snd x)"
proof (induction rule: bg_reachable.induct)
  case bg_init
  show ?case by (simp add: bg_tracks_def pids_of_def new_background_def)
next
  case (bg_steps x y)
  from bg_steps(2,3) show ?case
    by cases (simp_all add: bg_tracks_create bg_tracks_release, simp_all add: bg_tracks_def)
qed

section \<open>Who is muted\<close>

definition bg_muted_by :: "background \<Rightarrow> background \<Rightarrow> int set" where
  "bg_muted_by bg bg' = {uid. BgMute uid \<in> set (drop (length (bgRequests bg)) (bgRequests bg'))}"

definition bg_grows :: "background \<Rightarrow> background \<Rightarrow> (int \<Rightarrow> bool) \<Rightarrow> bool" where
  "bg_grows bg bg' P \<longleftrightarrow> (\<exists>rs. bgRequests bg' = bgRequests bg @ rs \<and> (\<forall>uid. BgMute uid \<in> set rs \<longrightarrow> P uid))"

lemma bg_grows_muted: "bg_grows bg bg' P \<Longrightarrow> uid \<in> bg_muted_by bg bg' \<Longrightarrow> P uid"
  by (auto simp: bg_grows_def bg_muted_by_def)

lemma bg_stream_grows:
  "bg_grows bg (bg_stream_change env info bg) (\<lambda>uid. \<not> bg_HasAVSession uid bg \<and> \<not> beSystemApp env uid)"
  by (auto simp: bg_grows_def bg_stream_change_def bg_RendererChangeReport_def bg_ask_def bg_mute_def)

lemma bg_streams_grow:
  "bg_grows bg (bg_HandleAudioStreamRendererStateChange env infos bg) (\<lambda>uid. \<not> bg_HasAVSession uid bg \<and> \<not> beSystemApp env uid)"
  unfolding bg_HandleAudioStreamRendererStateChange_def
proof (induction infos arbitrary: bg)
  case (Cons i infos)
  let ?bg = "bg_stream_change env i bg"
  have "bg_HasAVSession uid ?bg = bg_HasAVSession uid bg" for uid by (simp add: bg_HasAVSession_def)
  with bg_stream_grows [of bg env i] Cons.IH [of ?bg] show ?case by (auto simp: bg_grows_def)
qed (simp add: bg_grows_def)

lemma bg_release_grows:
  "bg_grows bg (bg_OnSessionRelease env v q t bg)
     (\<lambda>uid. uid = v \<and> t \<and> beBackground env v q \<and> (\<exists>s. map_of (bgSessions bg) v = Some s \<and> cset_erase q s = []))"
  by (cases "map_of (bgSessions bg) v") (auto simp: bg_grows_def bg_OnSessionRelease_def bg_ask_def bg_mute_def Let_def)

text \<open>C32: in every state that the controller reaches, it knows the applications with a session as such. A report of streams
  and a change between foreground and background mute only applications that have no session and are no system application.
  The release of a session mutes at most its own application, a third-party one whose process is in the background, and only if no
  process of that application has a session left. The creation of a session mutes nothing.\<close>

theorem bg_never_mutes_sessions:
  assumes "bg_reachable env (S, bg)"
  shows "(\<forall>uid. bg_HasAVSession uid bg \<longleftrightarrow> (\<exists>p. (uid, p) \<in> S))
    \<and> (\<forall>uid \<in> bg_muted_by bg (bg_HandleAudioStreamRendererStateChange env infos bg). (\<forall>p. (uid, p) \<notin> S) \<and> \<not> beSystemApp env uid)
    \<and> (\<forall>uid \<in> bg_muted_by bg (bg_HandleAppMuteState env v q b bg). (\<forall>p. (uid, p) \<notin> S) \<and> \<not> beSystemApp env uid)
    \<and> (\<forall>uid \<in> bg_muted_by bg (bg_OnSessionRelease env v q t bg).
         uid = v \<and> t \<and> beBackground env v q \<and> (\<forall>p. (uid, p) \<notin> S - {(v, q)}))
    \<and> bg_muted_by bg (bg_OnSessionCreate v q bg) = {}"
proof -
  have t: "bg_tracks S bg" using bg_reachable_tracks [OF assms] by simp
  then have has: "bg_HasAVSession v bg \<longleftrightarrow> (\<exists>p. (v, p) \<in> S)" for v
    unfolding bg_tracks_def bg_HasAVSession_def pids_of_def
    by (cases "map_of (bgSessions bg) v") (force split: option.splits, metis (mono_tags, lifting) empty_Collect_eq option.distinct(1) option.simps(5) set_empty)
  have app: "bg_grows bg (bg_HandleAppMuteState env v q b bg) (\<lambda>uid. \<not> bg_HasAVSession uid bg \<and> \<not> beSystemApp env uid)"
    by (auto simp: bg_grows_def bg_HandleAppMuteState_def bg_ask_def bg_mute_def)
  have create: "bg_grows bg (bg_OnSessionCreate v q bg) (\<lambda>_. False)"
    by (auto simp: bg_grows_def bg_OnSessionCreate_def bg_ask_def split: option.split)
  have last: "p = q" if "map_of (bgSessions bg) v = Some s" "cset_erase q s = []" "(v, p) \<in> S" for s p
  proof -
    have "pids_of v (bgSessions bg) = {p. (v, p) \<in> S}" using t by (simp add: bg_tracks_def)
    with that have "p \<in> set s" by (auto simp: pids_of_def)
    with set_cset_erase [of q s] that(2) show ?thesis by auto
  qed
  show ?thesis
    using has last bg_grows_muted [OF app] bg_grows_muted [OF bg_streams_grow] bg_grows_muted [OF bg_release_grows]
      bg_grows_muted [OF create] by blast
qed

theorem bg_never_mutes_sessions_witness:
  "\<exists>env. bg_reachable env ({(7, 1), (7, 2)}, bg_OnSessionCreate 7 2 (bg_OnSessionCreate 7 1 new_background))
   \<and> 7 \<notin> bg_muted_by (bg_OnSessionCreate 7 2 (bg_OnSessionCreate 7 1 new_background))
       (bg_OnSessionRelease env 7 1 True (bg_OnSessionCreate 7 2 (bg_OnSessionCreate 7 1 new_background)))
   \<and> 7 \<in> bg_muted_by (bg_OnSessionCreate 7 1 new_background) (bg_OnSessionRelease env 7 1 True (bg_OnSessionCreate 7 1 new_background))"
proof -
  let ?env = "\<lparr>beBackground = (\<lambda>_ _. True), beSystemApp = (\<lambda>_. False), beMuteOk = (\<lambda>_. True)\<rparr>"
    and ?bg = "bg_OnSessionCreate 7 2 (bg_OnSessionCreate 7 1 new_background)"
  have r: "bg_reachable ?env ({(7, 1), (7, 2)}, ?bg)"
    using bg_steps [OF bg_steps [OF bg_init bg_create] bg_create, of ?env 7 2 7 1] by (simp add: insert_commute)
  have "(7, 2) \<in> {(7, 1), (7, 2)} - {(7 :: int, 1 :: int)}" by simp
  with bg_never_mutes_sessions [OF r, of _ 7 1 _ True] have "7 \<notin> bg_muted_by ?bg (bg_OnSessionRelease ?env 7 1 True ?bg)" by blast
  moreover have "7 \<in> bg_muted_by (bg_OnSessionCreate 7 1 new_background)
      (bg_OnSessionRelease ?env 7 1 True (bg_OnSessionCreate 7 1 new_background))"
    by (simp add: bg_muted_by_def bg_OnSessionRelease_def bg_OnSessionCreate_def bg_ask_def bg_mute_def new_background_def
        cmap_insert_def cset_erase_def)
  ultimately show ?thesis using r by blast
qed

end
