(* ===== verification/Whitelist.thy ===== *)
theory Whitelist
  imports Prelude
begin

text \<open>
  \<^verbatim>\<open>AVSessionWhitelistConfigManager\<close> (\<^verbatim>\<open>avsession_whitelist_config_manager.cpp\<close>) in a build with
  \<^verbatim>\<open>INPUT_REDISTRIBUTE_ENABLE\<close>: which bundles get key events. The text comes from the settings
  service and is parsed by cJSON, a third-party library: its result is the parameter, the
  members of the members object in order, or none when the text is no object. A member is a boolean
  or a value of another kind.
\<close>

section \<open>Parsing\<close>

datatype json_member = JBool string bool | JOtherMember string

text \<open>
  The loop over the members: a member that is not a boolean is not left, as \<^verbatim>\<open>item = item->next\<close> is
  inside the condition. The loop may run for ever, so the function is partial.
\<close>

partial_function (option) wl_members :: "json_member list \<Rightarrow> (string, bool) cmap \<Rightarrow> (string, bool) cmap option" where
  "wl_members ms m = (case ms of
     [] \<Rightarrow> Some m
   | JBool key v # rest \<Rightarrow> wl_members rest (cmap_put key v m)
   | JOtherMember key # rest \<Rightarrow> wl_members (JOtherMember key # rest) m)"

definition wl_ParseJsonToMap ::
  "string \<Rightarrow> json_member list option \<Rightarrow> (string, bool) cmap \<Rightarrow> (bool \<times> (string, bool) cmap) option" where
  "wl_ParseJsonToMap jsonStr members m =
     (if jsonStr = [] then Some (False, m)
      else case members of
        None \<Rightarrow> Some (False, m)
      | Some ms \<Rightarrow> map_option (\<lambda>m. (True, m)) (wl_members ms m))"

section \<open>The manager\<close>

text \<open>\<open>wlAsked\<close> is the flag of \<^verbatim>\<open>std::call_once\<close>.\<close>

record whitelist =
  wlAsked :: bool
  wlLoaded :: bool
  wlInfo :: "(string, bool) cmap"

definition new_whitelist :: whitelist where
  "new_whitelist = \<lparr>wlAsked = False, wlLoaded = False, wlInfo = []\<rparr>"

definition wl_load :: "string \<Rightarrow> json_member list option \<Rightarrow> whitelist \<Rightarrow> whitelist option" where
  "wl_load jsonStr members wl =
     (if wlAsked wl then Some wl
      else map_option (\<lambda>(ok, m). wl\<lparr>wlAsked := True, wlInfo := m, wlLoaded := ok\<rparr>)
        (wl_ParseJsonToMap jsonStr members (wlInfo wl)))"

definition wl_GetSupportKeyEventFromSettings ::
  "string \<Rightarrow> json_member list option \<Rightarrow> string \<Rightarrow> whitelist \<Rightarrow> (bool \<times> whitelist) option" where
  "wl_GetSupportKeyEventFromSettings jsonStr members bundleName wl =
     (if bundleName = [] then Some (False, wl)
      else map_option (\<lambda>wl. (wlLoaded wl \<and> map_of (wlInfo wl) bundleName = Some True, wl)) (wl_load jsonStr members wl))"

definition wl_IsKeyEventSupported ::
  "string \<Rightarrow> json_member list option \<Rightarrow> bool \<Rightarrow> string \<Rightarrow> whitelist \<Rightarrow> (bool \<times> whitelist) option" where
  "wl_IsKeyEventSupported jsonStr members isSystemApp bundleName wl =
     (if bundleName = [] then Some (False, wl)
      else if isSystemApp then Some (False, wl)
      else wl_GetSupportKeyEventFromSettings jsonStr members bundleName wl)"

section \<open>When the loop ends\<close>

fun json_is_bool :: "json_member \<Rightarrow> bool" where
  "json_is_bool (JBool _ _) = True"
| "json_is_bool (JOtherMember _) = False"

fun json_put :: "json_member \<Rightarrow> (string, bool) cmap \<Rightarrow> (string, bool) cmap" where
  "json_put (JBool k v) m = cmap_put k v m"
| "json_put (JOtherMember _) m = m"

lemma wl_members_bools: "list_all json_is_bool ms \<Longrightarrow> wl_members ms m = Some (fold json_put ms m)"
proof (induction ms arbitrary: m)
  case Nil
  show ?case by (subst wl_members.simps) simp
next
  case (Cons x ms)
  then obtain k v where "x = JBool k v" by (cases x) auto
  with Cons show ?case by (subst wl_members.simps) simp
qed

lemma wl_members_some:
  assumes "wl_members ms m = Some m'"
  shows "list_all json_is_bool ms"
proof (rule wl_members.raw_induct [where P = "\<lambda>ms m m'. list_all json_is_bool ms", OF _ assms])
  fix f :: "json_member list \<Rightarrow> (string, bool) cmap \<Rightarrow> (string, bool) cmap option" and ms m m'
  assume IH: "\<And>ms m m'. f ms m = Some m' \<Longrightarrow> list_all json_is_bool ms"
    and body: "(case ms of [] \<Rightarrow> Some m | JBool key v # rest \<Rightarrow> f rest (cmap_put key v m)
      | JOtherMember key # rest \<Rightarrow> f (JOtherMember key # rest) m) = Some m'"
  show "list_all json_is_bool ms"
  proof (cases ms)
    case (Cons x rest)
    then show ?thesis
    proof (cases x)
      case (JBool key v)
      then show ?thesis using body IH Cons by fastforce
    next
      case (JOtherMember key)
      then have "f ms m = Some m'" using body Cons by simp
      then show ?thesis by (rule IH)
    qed
  qed simp
qed

text \<open>C33: the parser of the white list returns exactly when every member of the object is a boolean, and
  then the map holds the last value of each key; one member of another kind and it never returns.\<close>

theorem wl_members_returns:
  "(wl_members ms m = None \<longleftrightarrow> (\<exists>x \<in> set ms. \<not> json_is_bool x))
   \<and> (list_all json_is_bool ms \<longrightarrow> wl_members ms m = Some (fold json_put ms m))"
proof -
  have "wl_members ms m = None \<longleftrightarrow> \<not> list_all json_is_bool ms"
    using wl_members_bools [of ms m] wl_members_some [of ms m] by (cases "wl_members ms m") auto
  then show ?thesis using wl_members_bools by (auto simp: list_all_iff)
qed

theorem wl_members_returns_witness:
  "wl_members [JBool ''a'' True, JOtherMember ''b''] [] = None \<and> wl_members [JBool ''a'' True] [] = Some [(''a'', True)]"
  using wl_members_returns [of "[JBool ''a'' True, JOtherMember ''b'']" "[]"] wl_members_returns [of "[JBool ''a'' True]" "[]"]
  by simp

end
