(* ===== verification/SessionData.thy ===== *)
theory SessionData
  imports SessionItem PlaybackState MetaData ControlCommand
begin

text \<open>
  The data of a session (\<^verbatim>\<open>avsession_item.cpp\<close>) and how its controllers (\<^verbatim>\<open>avcontroller_item.cpp\<close>)
  pass changes on to their clients. The identity of the session is the record \<open>session\<close> of
  \<open>SessionItem\<close>, here the field \<open>sdCore\<close>; its controllers are held by value, by process, with the
  fields that decide what a client is told. What the code calls on other objects (the callbacks of
  clients, of the session's application and of the service, the audio manager) is recorded in
  order in \<open>sdEvents\<close>; the service has registered all its callbacks. The build is one without
  casting and without a remote source or sink. \<open>'w\<close> is \<^verbatim>\<open>AAFwk::WantParams\<close>, \<open>'q\<close> a queue item,
  which the session only stores and passes on.
\<close>

section \<open>What clients are told\<close>

datatype ('w, 'q) notice =
    OnPlaybackStateChange "'w playback_state"
  | OnMetaDataChange avmeta
  | OnActiveStateChange bool
  | OnValidCommandChange "i32 list"
  | OnSessionEventChange string 'w
  | OnQueueItemsChange "'q list"
  | OnQueueTitleChange string
  | OnExtrasChange 'w
  | OnMediaCenterControlTypeChanged "i32 list"
  | OnSupportedPlaySpeedsChanged "dbl list"
  | OnSupportedLoopModesChanged "i32 list"
  | OnCustomData 'w
  | OnDesktopLyricVisibilityChanged bool
  | OnDesktopLyricStateChanged bool
  | OnDesktopLyricEnabled bool

text \<open>The callback over IPC, the one in the process, and those registered for migration, by process.\<close>

datatype listener = Client | Inner | Migrate int

text \<open>\<open>acMigrate\<close>: the processes of \<^verbatim>\<open>callbackListForMigrate_\<close>, in ascending order.\<close>

record ctrl_data =
  cdCallback :: bool
  cdInner :: bool
  cdMigrate :: "int list"
  cdPlaybackMask :: "14 word"
  cdMetaMask :: "28 word"
  cdFromSession :: bool

definition new_ctrl_data :: ctrl_data where
  "new_ctrl_data = \<lparr>cdCallback = False, cdInner = False, cdMigrate = [], cdPlaybackMask = 0, cdMetaMask = 0,
     cdFromSession = False\<rparr>"

definition cd_client :: "('w, 'q) notice \<Rightarrow> ctrl_data \<Rightarrow> (listener \<times> ('w, 'q) notice) list" where
  "cd_client n c = (if cdCallback c then [(Client, n)] else [])"

definition cd_inner :: "('w, 'q) notice \<Rightarrow> ctrl_data \<Rightarrow> (listener \<times> ('w, 'q) notice) list" where
  "cd_inner n c = (if cdInner c then [(Inner, n)] else [])"

definition cd_migrate :: "('w, 'q) notice \<Rightarrow> ctrl_data \<Rightarrow> (listener \<times> ('w, 'q) notice) list" where
  "cd_migrate n c = map (\<lambda>p. (Migrate p, n)) (cdMigrate c)"

section \<open>The handlers of a controller\<close>

text \<open>\<^verbatim>\<open>mask.all()\<close> is the mask with every bit set.\<close>

definition cd_HandlePlaybackStateChange ::
  "'w playback_state \<Rightarrow> 14 word \<Rightarrow> ctrl_data \<Rightarrow> (listener \<times> ('w, 'q) notice) list" where
  "cd_HandlePlaybackStateChange state changedStateMask c =
     (let validMask = (if cdPlaybackMask c = -1 then cdPlaybackMask c else changedStateMask AND cdPlaybackMask c)
      in case ps_CopyToByMask validMask state new_playback_state of (ok, stateOut) \<Rightarrow>
        if ok then cd_client (OnPlaybackStateChange stateOut) c @ cd_inner (OnPlaybackStateChange stateOut) c
             @ cd_migrate (OnPlaybackStateChange stateOut) c
        else [])"

definition cd_HandleActiveStateChange :: "bool \<Rightarrow> ctrl_data \<Rightarrow> (listener \<times> ('w, 'q) notice) list" where
  "cd_HandleActiveStateChange isActive c = cd_client (OnActiveStateChange isActive) c"

definition cd_HandleValidCommandChange :: "i32 list \<Rightarrow> ctrl_data \<Rightarrow> (listener \<times> ('w, 'q) notice) list" where
  "cd_HandleValidCommandChange cmds c = cd_client (OnValidCommandChange cmds) c
     @ cd_inner (OnValidCommandChange cmds) c @ cd_migrate (OnValidCommandChange cmds) c"

definition cd_HandleSetSessionEvent :: "string \<Rightarrow> 'w \<Rightarrow> ctrl_data \<Rightarrow> (listener \<times> ('w, 'q) notice) list" where
  "cd_HandleSetSessionEvent event args c = cd_client (OnSessionEventChange event args) c
     @ cd_migrate (OnSessionEventChange event args) c"

definition cd_HandleQueueItemsChange :: "'q list \<Rightarrow> ctrl_data \<Rightarrow> (listener \<times> ('w, 'q) notice) list" where
  "cd_HandleQueueItemsChange xs c = cd_client (OnQueueItemsChange xs) c"

definition cd_HandleQueueTitleChange :: "string \<Rightarrow> ctrl_data \<Rightarrow> (listener \<times> ('w, 'q) notice) list" where
  "cd_HandleQueueTitleChange queueTitle c = cd_client (OnQueueTitleChange queueTitle) c"

definition cd_HandleExtrasChange :: "'w \<Rightarrow> ctrl_data \<Rightarrow> (listener \<times> ('w, 'q) notice) list" where
  "cd_HandleExtrasChange extras c = cd_client (OnExtrasChange extras) c"

definition cd_HandleMediaCenterControlTypeChange ::
  "i32 list \<Rightarrow> ctrl_data \<Rightarrow> (listener \<times> ('w, 'q) notice) list" where
  "cd_HandleMediaCenterControlTypeChange controlTypes c =
     cd_client (OnMediaCenterControlTypeChanged controlTypes) c @ cd_inner (OnMediaCenterControlTypeChanged controlTypes) c"

definition cd_HandleSupportedPlaySpeedsChange :: "dbl list \<Rightarrow> ctrl_data \<Rightarrow> (listener \<times> ('w, 'q) notice) list" where
  "cd_HandleSupportedPlaySpeedsChange speeds c =
     cd_client (OnSupportedPlaySpeedsChanged speeds) c @ cd_inner (OnSupportedPlaySpeedsChanged speeds) c"

definition cd_HandleSupportedLoopModesChange :: "i32 list \<Rightarrow> ctrl_data \<Rightarrow> (listener \<times> ('w, 'q) notice) list" where
  "cd_HandleSupportedLoopModesChange loopModes c =
     cd_client (OnSupportedLoopModesChanged loopModes) c @ cd_inner (OnSupportedLoopModesChanged loopModes) c"

definition cd_HandleCustomData :: "'w \<Rightarrow> ctrl_data \<Rightarrow> (listener \<times> ('w, 'q) notice) list" where
  "cd_HandleCustomData data c = cd_client (OnCustomData data) c"

definition cd_HandleDesktopLyricVisibilityChanged :: "bool \<Rightarrow> ctrl_data \<Rightarrow> (listener \<times> ('w, 'q) notice) list" where
  "cd_HandleDesktopLyricVisibilityChanged isVisible c = cd_client (OnDesktopLyricVisibilityChanged isVisible) c"

definition cd_HandleDesktopLyricStateChanged :: "bool \<Rightarrow> ctrl_data \<Rightarrow> (listener \<times> ('w, 'q) notice) list" where
  "cd_HandleDesktopLyricStateChanged isLocked c = cd_client (OnDesktopLyricStateChanged isLocked) c"

definition cd_HandleDesktopLyricEnabled :: "bool \<Rightarrow> ctrl_data \<Rightarrow> (listener \<times> ('w, 'q) notice) list" where
  "cd_HandleDesktopLyricEnabled isEnabled c = cd_client (OnDesktopLyricEnabled isEnabled) c"

text \<open>Registering callbacks and setting filters.\<close>

text \<open>\<open>migrateProxy\<close>: \<^verbatim>\<open>migrateProxyCallback_\<close> is set. Only a callback that is there is registered for migration.\<close>

definition cd_RegisterCallbackInner :: "int \<Rightarrow> bool \<Rightarrow> int \<Rightarrow> bool \<Rightarrow> ctrl_data \<Rightarrow> int \<times> ctrl_data" where
  "cd_RegisterCallbackInner pid migrateProxy callingPid callback c =
     (if pid = 0 \<and> migrateProxy \<and> callback
      then (AVSESSION_SUCCESS, c\<lparr>cdMigrate := cset_insert callingPid (cdMigrate c)\<rparr>)
      else (if callback then AVSESSION_SUCCESS else AVSESSION_ERROR, c\<lparr>cdCallback := callback\<rparr>))"

definition cd_RemoveCallbackForMigrate :: "int \<Rightarrow> ctrl_data \<Rightarrow> int \<times> ctrl_data" where
  "cd_RemoveCallbackForMigrate pid c = (AVSESSION_SUCCESS, c\<lparr>cdMigrate := cset_erase pid (cdMigrate c)\<rparr>)"

definition cd_RegisterAVControllerCallback :: "bool \<Rightarrow> ctrl_data \<Rightarrow> int \<times> ctrl_data" where
  "cd_RegisterAVControllerCallback callback c =
     (if callback then AVSESSION_SUCCESS else AVSESSION_ERROR, c\<lparr>cdInner := callback\<rparr>)"

definition cd_UnregisterAVControllerCallback :: "ctrl_data \<Rightarrow> int \<times> ctrl_data" where
  "cd_UnregisterAVControllerCallback c = (AVSESSION_SUCCESS, c\<lparr>cdInner := False\<rparr>)"

definition cd_SetMetaFilter :: "28 word \<Rightarrow> ctrl_data \<Rightarrow> int \<times> ctrl_data" where
  "cd_SetMetaFilter filt c = (AVSESSION_SUCCESS, c\<lparr>cdMetaMask := filt\<rparr>)"

definition cd_SetPlaybackFilter :: "14 word \<Rightarrow> ctrl_data \<Rightarrow> int \<times> ctrl_data" where
  "cd_SetPlaybackFilter filt c = (AVSESSION_SUCCESS, c\<lparr>cdPlaybackMask := filt\<rparr>)"

lemmas cd_defs = cd_client_def cd_inner_def cd_migrate_def cd_HandleActiveStateChange_def
  cd_HandleValidCommandChange_def cd_HandleSetSessionEvent_def cd_HandleQueueItemsChange_def
  cd_HandleQueueTitleChange_def cd_HandleExtrasChange_def cd_HandleMediaCenterControlTypeChange_def
  cd_HandleSupportedPlaySpeedsChange_def cd_HandleSupportedLoopModesChange_def cd_HandleCustomData_def
  cd_HandleDesktopLyricVisibilityChanged_def cd_HandleDesktopLyricStateChanged_def
  cd_HandleDesktopLyricEnabled_def

end
