(* ===== verification/SessionUpdate.thy ===== *)
theory SessionUpdate
  imports SessionData CppString
begin

text \<open>
  The operations of the application on its session (\<^verbatim>\<open>avsession_item.cpp\<close>) that store data and tell
  the controllers: playback state, queue, events, activity, supported commands, control types,
  speeds and loop modes, desktop lyric, background play mode; and when the session asks the service
  to be put in front. Metadata with its images is in \<open>SessionImages\<close>, the commands that come back
  from controllers in \<open>SessionCommands\<close>.
\<close>

section \<open>State\<close>

text \<open>The key codes of \<^verbatim>\<open>MMI::KeyEvent\<close> that the code names.\<close>

datatype key_code = KEYCODE_MEDIA_PLAY | KEYCODE_MEDIA_PAUSE | KEYCODE_MEDIA_PLAY_PAUSE | KEYCODE_MEDIA_STOP
  | KEYCODE_MEDIA_NEXT | KEYCODE_MEDIA_PREVIOUS | KEYCODE_MEDIA_REWIND | KEYCODE_MEDIA_FAST_FORWARD
  | KEYCODE_HEADSETHOOK | KEYCODE_SPACE | KEYCODE_DPAD_UP | KEYCODE_DPAD_DOWN | KEYCODE_DPAD_LEFT
  | KEYCODE_DPAD_RIGHT | KEYCODE_OTHER nat

text \<open>What the session's application is asked to do, over IPC or by the migration callback.\<close>

datatype 'w request =
    OnPlay control_command
  | OnPause
  | OnStop
  | OnPlayNext control_command
  | OnPlayPrevious control_command
  | OnFastForward i64 control_command
  | OnRewind i64 control_command
  | OnSeek i64
  | OnSetSpeed dbl
  | OnSetLoopMode i32
  | OnSetTargetLoopMode i32
  | OnToggleFavorite string
  | OnPlayFromAssetId i64
  | OnPlayWithAssetId string
  | OnAVCallAnswer
  | OnAVCallHangUp
  | OnAVCallToggleCallMute
  | OnMediaKeyEvent key_code
  | OnSkipToQueueItem int
  | OnCommonCommand string 'w
  | OnAppCustomData 'w
  | OnAppLyricVisibilityChanged bool
  | OnAppLyricStateChanged bool

datatype ('w, 'q) sd_event =
    Told int listener "('w, 'q) notice"
  | Asked "'w request"
  | AskedMigrate "'w request"
  | UpdateSession string bool int
  | AddAVQueueInfo
  | MediaSession string bool
  | BgPlayModeChange string int
  | NtfCapsule string
  | UpdateTop string
  | AudioScene bool
  | CtrlCmdEvent string int int
  | StartLyric string
  | LyricOperation string string

record desktop_lyric =
  dlSupported :: bool
  dlEnabled :: bool
  dlVisible :: bool
  dlLocked :: bool

text \<open>
  \<open>sdCallback\<close> and \<open>sdMigrate\<close>: the application's callback and the migration callback are there.
  \<open>sdCapsuleTask\<close>: the task \<^verbatim>\<open>CancelAncoMediaCapsule\<close> is posted. \<open>sdExtension\<close>: \<^verbatim>\<open>extension_\<close> is set.
\<close>

record ('w, 'q) sess_data =
  sdCore :: session
  sdPlayback :: "'w playback_state"
  sdMeta :: avmeta
  sdQueueItems :: "'q list"
  sdQueueTitle :: string
  sdSupportedCmd :: "i32 list"
  sdMediaKeySupport :: bool
  sdControlTypes :: "i32 list"
  sdSpeeds :: "dbl list"
  sdLoopModes :: "i32 list"
  sdCallback :: bool
  sdMigrate :: bool
  sdControllers :: "(int, ctrl_data) cmap"
  sdFirstAddToFront :: bool
  sdLyric :: desktop_lyric
  sdExtension :: bool
  sdPlaying :: bool
  sdMediaChange :: bool
  sdCapsuleTask :: bool
  sdAppIndex :: int
  sdLyricTitle :: string
  sdEvents :: "('w, 'q) sd_event list"

definition new_sess_data :: "session \<Rightarrow> ('w, 'q) sess_data" where
  "new_sess_data core = \<lparr>sdCore = core, sdPlayback = new_playback_state, sdMeta = new_avmeta, sdQueueItems = [],
     sdQueueTitle = [], sdSupportedCmd = [], sdMediaKeySupport = False, sdControlTypes = [], sdSpeeds = [],
     sdLoopModes = [], sdCallback = False, sdMigrate = False, sdControllers = [], sdFirstAddToFront = True,
     sdLyric = \<lparr>dlSupported = False, dlEnabled = False, dlVisible = False, dlLocked = False\<rparr>, sdExtension = True,
     sdPlaying = False, sdMediaChange = True, sdCapsuleTask = False, sdAppIndex = 0, sdLyricTitle = [], sdEvents = []\<rparr>"

definition sd_log :: "('w, 'q) sd_event list \<Rightarrow> ('w, 'q) sess_data \<Rightarrow> ('w, 'q) sess_data" where
  "sd_log es sd = sd\<lparr>sdEvents := sdEvents sd @ es\<rparr>"

text \<open>\<^verbatim>\<open>for (const auto& [pid, controller] : controllers_)\<close>, in ascending order of the processes.\<close>

definition sd_tell :: "(ctrl_data \<Rightarrow> (listener \<times> ('w, 'q) notice) list) \<Rightarrow> ('w, 'q) sess_data \<Rightarrow> ('w, 'q) sess_data" where
  "sd_tell h sd = sd_log (concat (map (\<lambda>(pid, c). map (\<lambda>(l, n). Told pid l n) (h c)) (sdControllers sd))) sd"

section \<open>In front\<close>

definition sd_meta_empty :: "('w, 'q) sess_data \<Rightarrow> bool" where
  "sd_meta_empty sd \<longleftrightarrow> title (sdMeta sd) = [] \<and> mediaImage (sdMeta sd) = None"

definition sd_HandleFrontSession :: "('w, 'q) sess_data \<Rightarrow> ('w, 'q) sess_data" where
  "sd_HandleFrontSession sd =
     (if sd_meta_empty sd \<or> sdSupportedCmd sd = [] then
        (if \<not> sdFirstAddToFront sd
         then (sd_log [UpdateSession (siSessionId (sdCore sd)) False (siUserId (sdCore sd))] sd)\<lparr>sdFirstAddToFront := True\<rparr>
         else sd)
      else if sdFirstAddToFront sd
      then (sd_log [UpdateSession (siSessionId (sdCore sd)) True (siUserId (sdCore sd))] sd)\<lparr>sdFirstAddToFront := False\<rparr>
      else sd)"

definition sd_HasAvQueueInfo :: "('w, 'q) sess_data \<Rightarrow> bool" where
  "sd_HasAvQueueInfo sd \<longleftrightarrow> \<not> (avQueueName (sdMeta sd) = [] \<or> avQueueId (sdMeta sd) = [])
     \<and> \<not> (avQueueImage (sdMeta sd) = None \<and> avQueueImageUri (sdMeta sd) = [])
     \<and> sint (psState (sdPlayback sd)) = PLAYBACK_STATE_PLAY"

definition sd_queue_info :: "('w, 'q) sess_data \<Rightarrow> ('w, 'q) sess_data" where
  "sd_queue_info sd = (if sd_HasAvQueueInfo sd then sd_log [AddAVQueueInfo] sd else sd)"

section \<open>Playback state\<close>

definition PLAYBACK_STATE_PAUSE :: int where "PLAYBACK_STATE_PAUSE = 3"
definition PLAYBACK_STATE_STOP :: int where "PLAYBACK_STATE_STOP = 6"

definition itemAudioBrokerUid :: int where "itemAudioBrokerUid = 5557"

definition sd_CheckIfSendCapsule :: "'w playback_state \<Rightarrow> ('w, 'q) sess_data \<Rightarrow> ('w, 'q) sess_data" where
  "sd_CheckIfSendCapsule state sd =
     (if siUid (sdCore sd) \<noteq> itemAudioBrokerUid then sd
      else if sint (psState state) = PLAYBACK_STATE_PLAY \<and> (\<not> sdPlaying sd \<or> sdMediaChange sd)
      then sd_log [MediaSession (siSessionId (sdCore sd)) True] (sd\<lparr>sdPlaying := True\<rparr>)
      else if sint (psState state) = PLAYBACK_STATE_PAUSE \<or> sint (psState state) = PLAYBACK_STATE_STOP
      then sd\<lparr>sdPlaying := False, sdCapsuleTask := True\<rparr>
      else sd)"

text \<open>The task that the pause posts, five seconds later.\<close>

definition sd_capsule_task :: "('w, 'q) sess_data \<Rightarrow> ('w, 'q) sess_data" where
  "sd_capsule_task sd = (let sd = sd\<lparr>sdCapsuleTask := False\<rparr>
     in if siDestroyed (sdCore sd) then sd
        else if \<not> sdPlaying sd then sd_log [MediaSession (siSessionId (sdCore sd)) False] sd
        else sd)"

definition sd_GetControlItemsPlaybackFilter :: "('w, 'q) sess_data \<Rightarrow> 14 word" where
  "sd_GetControlItemsPlaybackFilter sd =
     fold (\<lambda>(pid, c) filt. if cdPlaybackMask c \<noteq> -1 then filt OR cdPlaybackMask c else filt) (sdControllers sd) 0"

definition sd_SetAVPlaybackState ::
  "('w \<Rightarrow> 'w \<Rightarrow> bool) \<Rightarrow> 'w playback_state \<Rightarrow> ('w, 'q) sess_data \<Rightarrow> int \<times> ('w, 'q) sess_data" where
  "sd_SetAVPlaybackState weq state sd =
     (let recordFilter = sd_GetControlItemsPlaybackFilter sd;
          changedStateMask = (if recordFilter \<noteq> 0
            then ps_GetChangedStateMask weq recordFilter (sdPlayback sd) state else 0);
          (ok, p) = ps_CopyFrom state (sdPlayback sd);
          sd = sd\<lparr>sdPlayback := p, sdCore := (sdCore sd)\<lparr>siPlaybackState := sint (psState p)\<rparr>\<rparr>
      in if \<not> ok then (AVSESSION_ERROR, sd)
         else (AVSESSION_SUCCESS,
           sd_tell (cd_HandlePlaybackStateChange state changedStateMask)
             (sd_CheckIfSendCapsule state (sd_queue_info sd))))"

section \<open>Queue, title, extras, events\<close>

definition sd_SetAVQueueItems :: "'q list \<Rightarrow> ('w, 'q) sess_data \<Rightarrow> int \<times> ('w, 'q) sess_data" where
  "sd_SetAVQueueItems xs sd = (AVSESSION_SUCCESS, sd_tell (cd_HandleQueueItemsChange xs) (sd\<lparr>sdQueueItems := xs\<rparr>))"

definition sd_SetAVQueueTitle :: "string \<Rightarrow> ('w, 'q) sess_data \<Rightarrow> int \<times> ('w, 'q) sess_data" where
  "sd_SetAVQueueTitle t sd = (AVSESSION_SUCCESS, sd_tell (cd_HandleQueueTitleChange t) (sd\<lparr>sdQueueTitle := t\<rparr>))"

text \<open>\<open>customData\<close>: the string that the parameters hold under that name, if they hold one.\<close>

definition sd_SendCustomData :: "('w \<Rightarrow> string option) \<Rightarrow> 'w \<Rightarrow> ('w, 'q) sess_data \<Rightarrow> int \<times> ('w, 'q) sess_data" where
  "sd_SendCustomData customData data sd = (case customData data of
     None \<Rightarrow> (AVSESSION_ERROR, sd)
   | Some _ \<Rightarrow> (AVSESSION_SUCCESS, sd_tell (cd_HandleCustomData data) sd))"

definition sd_SetSessionEvent :: "string \<Rightarrow> 'w \<Rightarrow> ('w, 'q) sess_data \<Rightarrow> int \<times> ('w, 'q) sess_data" where
  "sd_SetSessionEvent event args sd = (AVSESSION_SUCCESS, sd_tell (cd_HandleSetSessionEvent event args) sd)"

section \<open>Activity\<close>

definition sd_set_active :: "bool \<Rightarrow> ('w, 'q) sess_data \<Rightarrow> ('w, 'q) sess_data" where
  "sd_set_active b sd =
     (let sd = sd_tell (cd_HandleActiveStateChange b) (sd\<lparr>sdCore := (sdCore sd)\<lparr>siIsActive := b\<rparr>\<rparr>)
      in if siType (sdCore sd) = SESSION_TYPE_VOICE_CALL \<or> siType (sdCore sd) = SESSION_TYPE_VIDEO_CALL
         then sd_log [AudioScene b] sd else sd)"

definition sd_Activate :: "('w, 'q) sess_data \<Rightarrow> int \<times> ('w, 'q) sess_data" where
  "sd_Activate sd = (AVSESSION_SUCCESS, sd_set_active True sd)"

definition sd_Deactivate :: "('w, 'q) sess_data \<Rightarrow> int \<times> ('w, 'q) sess_data" where
  "sd_Deactivate sd = (AVSESSION_SUCCESS, sd_set_active False sd)"

section \<open>Supported commands\<close>

definition sd_AddSupportCommand :: "i32 \<Rightarrow> ('w, 'q) sess_data \<Rightarrow> int \<times> ('w, 'q) sess_data" where
  "sd_AddSupportCommand cmd sd =
     (if sint cmd \<le> -1 \<or> SESSION_CMD_MAX \<le> sint cmd then (AVSESSION_ERROR, sd)
      else if cmd = SESSION_CMD_MEDIA_KEY_SUPPORT then (AVSESSION_SUCCESS, sd\<lparr>sdMediaKeySupport := True\<rparr>)
      else if cmd \<in> set (sdSupportedCmd sd) then (AVSESSION_SUCCESS, sd)
      else let cmds = sdSupportedCmd sd @ [cmd];
               sd = sd_HandleFrontSession (sd\<lparr>sdSupportedCmd := cmds\<rparr>)
           in (AVSESSION_SUCCESS, sd_tell (cd_HandleValidCommandChange cmds) sd))"

definition sd_DeleteSupportCommand :: "i32 \<Rightarrow> ('w, 'q) sess_data \<Rightarrow> int \<times> ('w, 'q) sess_data" where
  "sd_DeleteSupportCommand cmd sd =
     (if sint cmd \<le> -1 \<or> SESSION_CMD_MAX \<le> sint cmd then (AVSESSION_ERROR, sd)
      else if cmd = SESSION_CMD_MEDIA_KEY_SUPPORT then (AVSESSION_SUCCESS, sd\<lparr>sdMediaKeySupport := False\<rparr>)
      else let cmds = filter (\<lambda>c. c \<noteq> cmd) (sdSupportedCmd sd);
               sd = sd_HandleFrontSession (sd\<lparr>sdSupportedCmd := cmds\<rparr>)
           in (AVSESSION_SUCCESS, sd_tell (cd_HandleValidCommandChange cmds) sd))"

text \<open>The list comes from a migrated session and is not checked.\<close>

definition sd_SetSupportCommand :: "i32 list \<Rightarrow> ('w, 'q) sess_data \<Rightarrow> ('w, 'q) sess_data" where
  "sd_SetSupportCommand cmds sd =
     sd_tell (cd_HandleValidCommandChange cmds) (sd_HandleFrontSession (sd\<lparr>sdSupportedCmd := cmds\<rparr>))"

definition supportedCmdForCastSession :: "i32 list" where
  "supportedCmdForCastSession = [SESSION_CMD_PLAY, SESSION_CMD_PAUSE, SESSION_CMD_STOP, SESSION_CMD_PLAY_NEXT,
     SESSION_CMD_PLAY_PREVIOUS, SESSION_CMD_SEEK]"

definition sd_GetSupportCommand :: "('w, 'q) sess_data \<Rightarrow> i32 list" where
  "sd_GetSupportCommand sd =
     (if siBundle (sdCore sd) = ''castBundleName'' \<and> siAbility (sdCore sd) = ''castAbilityName''
      then supportedCmdForCastSession else sdSupportedCmd sd)"

section \<open>Control types, speeds, loop modes\<close>

definition sd_SetMediaCenterControlType :: "i32 list \<Rightarrow> ('w, 'q) sess_data \<Rightarrow> int \<times> ('w, 'q) sess_data" where
  "sd_SetMediaCenterControlType controlTypes sd =
     (AVSESSION_SUCCESS, sd_tell (cd_HandleMediaCenterControlTypeChange controlTypes) (sd\<lparr>sdControlTypes := controlTypes\<rparr>))"

definition sd_SetSupportedPlaySpeeds :: "dbl list \<Rightarrow> ('w, 'q) sess_data \<Rightarrow> int \<times> ('w, 'q) sess_data" where
  "sd_SetSupportedPlaySpeeds speeds sd =
     (AVSESSION_SUCCESS, sd_tell (cd_HandleSupportedPlaySpeedsChange speeds) (sd\<lparr>sdSpeeds := speeds\<rparr>))"

definition sd_SetSupportedLoopModes :: "i32 list \<Rightarrow> ('w, 'q) sess_data \<Rightarrow> int \<times> ('w, 'q) sess_data" where
  "sd_SetSupportedLoopModes loopModes sd =
     (AVSESSION_SUCCESS, sd_tell (cd_HandleSupportedLoopModesChange loopModes) (sd\<lparr>sdLoopModes := loopModes\<rparr>))"

section \<open>Desktop lyric\<close>

definition sd_SetDesktopLyricFeatureSupported :: "bool \<Rightarrow> ('w, 'q) sess_data \<Rightarrow> ('w, 'q) sess_data" where
  "sd_SetDesktopLyricFeatureSupported b sd = sd\<lparr>sdLyric := (sdLyric sd)\<lparr>dlSupported := b\<rparr>\<rparr>"

definition sd_EnableDesktopLyric :: "bool \<Rightarrow> ('w, 'q) sess_data \<Rightarrow> int \<times> ('w, 'q) sess_data" where
  "sd_EnableDesktopLyric isEnabled sd =
     (if \<not> dlSupported (sdLyric sd) then (ERR_DESKTOPLYRIC_NOT_SUPPORT, sd)
      else let sd = sd\<lparr>sdLyric := (sdLyric sd)\<lparr>dlEnabled := isEnabled\<rparr>\<rparr>;
               sd = (if isEnabled then sd
                     else sd\<lparr>sdLyric := (sdLyric sd)\<lparr>dlVisible := False, dlLocked := False\<rparr>\<rparr>)
           in (AVSESSION_SUCCESS, sd_tell (cd_HandleDesktopLyricEnabled isEnabled) sd))"

definition sd_lyric_check :: "('w, 'q) sess_data \<Rightarrow> int" where
  "sd_lyric_check sd = (if \<not> dlSupported (sdLyric sd) then ERR_DESKTOPLYRIC_NOT_SUPPORT
     else if \<not> dlEnabled (sdLyric sd) then ERR_DESKTOPLYRIC_NOT_ENABLE else AVSESSION_SUCCESS)"

definition sd_IsDesktopLyricEnabled :: "('w, 'q) sess_data \<Rightarrow> int + bool" where
  "sd_IsDesktopLyricEnabled sd =
     (if \<not> dlSupported (sdLyric sd) then Inl ERR_DESKTOPLYRIC_NOT_SUPPORT else Inr (dlEnabled (sdLyric sd)))"

definition sd_IsDesktopLyricVisible :: "('w, 'q) sess_data \<Rightarrow> int + bool" where
  "sd_IsDesktopLyricVisible sd =
     (if sd_lyric_check sd \<noteq> AVSESSION_SUCCESS then Inl (sd_lyric_check sd) else Inr (dlVisible (sdLyric sd)))"

definition sd_GetDesktopLyricState :: "('w, 'q) sess_data \<Rightarrow> int + bool" where
  "sd_GetDesktopLyricState sd =
     (if sd_lyric_check sd \<noteq> AVSESSION_SUCCESS then Inl (sd_lyric_check sd) else Inr (dlLocked (sdLyric sd)))"

definition sd_HandleDesktopLyricVisibilityChanged :: "bool \<Rightarrow> ('w, 'q) sess_data \<Rightarrow> ('w, 'q) sess_data" where
  "sd_HandleDesktopLyricVisibilityChanged isVisible sd =
     sd_tell (cd_HandleDesktopLyricVisibilityChanged isVisible)
       (if sdCallback sd then sd_log [Asked (OnAppLyricVisibilityChanged isVisible)] sd else sd)"

definition sd_HandleDesktopLyricStateChanged :: "bool \<Rightarrow> ('w, 'q) sess_data \<Rightarrow> ('w, 'q) sess_data" where
  "sd_HandleDesktopLyricStateChanged isLocked sd =
     sd_tell (cd_HandleDesktopLyricStateChanged isLocked)
       (if sdCallback sd then sd_log [Asked (OnAppLyricStateChanged isLocked)] sd else sd)"

text \<open>\<open>startOk\<close>: \<^verbatim>\<open>StartDesktopLyricAbility\<close> succeeds.\<close>

definition sd_SetDesktopLyricVisibleInner ::
  "bool \<Rightarrow> bool \<Rightarrow> string \<Rightarrow> ('w, 'q) sess_data \<Rightarrow> int \<times> ('w, 'q) sess_data" where
  "sd_SetDesktopLyricVisibleInner startOk isVisible handler sd =
     (if sd_lyric_check sd \<noteq> AVSESSION_SUCCESS then (sd_lyric_check sd, sd)
      else if \<not> sdExtension sd then (AVSESSION_ERROR, sd)
      else let sd = (if isVisible then sd_log [StartLyric handler] sd else sd)
      in if isVisible \<and> \<not> startOk then (AVSESSION_ERROR, sd)
      else let sd = sd\<lparr>sdLyric := (sdLyric sd)\<lparr>dlVisible := isVisible\<rparr>\<rparr>;
               sd = sd_HandleDesktopLyricVisibilityChanged isVisible sd
           in (AVSESSION_SUCCESS, sd_log [LyricOperation handler (if isVisible then ''OPEN'' else ''CLOSE'')] sd))"

definition sd_SetDesktopLyricStateInner ::
  "bool \<Rightarrow> string \<Rightarrow> ('w, 'q) sess_data \<Rightarrow> int \<times> ('w, 'q) sess_data" where
  "sd_SetDesktopLyricStateInner isLocked handler sd =
     (if sd_lyric_check sd \<noteq> AVSESSION_SUCCESS then (sd_lyric_check sd, sd)
      else if \<not> sdExtension sd then (AVSESSION_ERROR, sd)
      else let sd = sd\<lparr>sdLyric := (sdLyric sd)\<lparr>dlLocked := isLocked\<rparr>\<rparr>;
               sd = sd_HandleDesktopLyricStateChanged isLocked sd
           in (AVSESSION_SUCCESS, sd_log [LyricOperation handler (if isLocked then ''LOCK'' else ''UNLOCK'')] sd))"

section \<open>Background play, callbacks, controllers\<close>

definition sd_SetBackgroundPlayMode :: "int \<Rightarrow> ('w, 'q) sess_data \<Rightarrow> int \<times> ('w, 'q) sess_data" where
  "sd_SetBackgroundPlayMode mode sd = (AVSESSION_SUCCESS,
     sd_log [BgPlayModeChange (siSessionId (sdCore sd)) mode]
       (sd\<lparr>sdCore := (sdCore sd)\<lparr>siBackgroundPlayMode := mode\<rparr>\<rparr>))"

definition sd_RegisterCallbackInner :: "bool \<Rightarrow> ('w, 'q) sess_data \<Rightarrow> int \<times> ('w, 'q) sess_data" where
  "sd_RegisterCallbackInner callback sd = (AVSESSION_SUCCESS, sd\<lparr>sdCallback := callback\<rparr>)"

definition sd_RegisterAVSessionCallback :: "bool \<Rightarrow> ('w, 'q) sess_data \<Rightarrow> ('w, 'q) sess_data" where
  "sd_RegisterAVSessionCallback callback sd = sd\<lparr>sdMigrate := callback\<rparr>"

text \<open>\<^verbatim>\<open>std::map::insert\<close> keeps a controller that the process already has.\<close>

definition sd_AddController :: "int \<Rightarrow> ctrl_data \<Rightarrow> ('w, 'q) sess_data \<Rightarrow> int \<times> ('w, 'q) sess_data" where
  "sd_AddController pid c sd = (AVSESSION_SUCCESS, sd\<lparr>sdControllers :=
     cmap_insert pid (c\<lparr>cdFromSession := (pid = siPid (sdCore sd))\<rparr>) (sdControllers sd)\<rparr>)"

definition sd_HandleControllerRelease :: "int \<Rightarrow> ('w, 'q) sess_data \<Rightarrow> ('w, 'q) sess_data" where
  "sd_HandleControllerRelease pid sd = sd\<lparr>sdControllers := cmap_erase pid (sdControllers sd)\<rparr>"

lemmas sd_op_defs = sd_SetAVQueueItems_def sd_SetAVQueueTitle_def sd_SendCustomData_def sd_SetSessionEvent_def
  sd_set_active_def sd_Activate_def sd_Deactivate_def sd_SetMediaCenterControlType_def sd_SetSupportedPlaySpeeds_def
  sd_SetSupportedLoopModes_def sd_SetDesktopLyricFeatureSupported_def sd_EnableDesktopLyric_def
  sd_HandleDesktopLyricVisibilityChanged_def sd_HandleDesktopLyricStateChanged_def
  sd_SetDesktopLyricVisibleInner_def sd_SetDesktopLyricStateInner_def sd_SetBackgroundPlayMode_def
  sd_RegisterCallbackInner_def sd_RegisterAVSessionCallback_def sd_AddController_def sd_HandleControllerRelease_def

end
