(* ===== verification/SessionCommands.thy ===== *)
theory SessionCommands
  imports SessionUpdate CommandLimit
begin

text \<open>
  How a command gets from a controller, a media key or the service to the session's application:
  the checks of \<^verbatim>\<open>avcontroller_item.cpp\<close>, \<^verbatim>\<open>ExecuteControllerCommand\<close> and \<^verbatim>\<open>HandleMediaKeyEvent\<close> of
  \<^verbatim>\<open>avsession_item.cpp\<close> with their tables of handlers, and the handlers. An entry that the table
  \<^verbatim>\<open>cmdHandlers\<close> does not have is an empty function, whose call throws: then the result is \<open>None\<close>.
\<close>

section \<open>The handlers\<close>

definition sd_ask :: "'w request \<Rightarrow> ('w, 'q) sess_data \<Rightarrow> ('w, 'q) sess_data" where
  "sd_ask r sd = (if sdCallback sd then sd_log [Asked r] sd else sd)"

definition sd_ask_migrate :: "'w request \<Rightarrow> ('w, 'q) sess_data \<Rightarrow> ('w, 'q) sess_data" where
  "sd_ask_migrate r sd = (if sdMigrate sd then sd_log [AskedMigrate r] sd else sd)"

definition sd_publish :: "string \<Rightarrow> ('w, 'q) sess_data \<Rightarrow> ('w, 'q) sess_data" where
  "sd_publish name sd = sd_log [CtrlCmdEvent name (siUid (sdCore sd)) (siPid (sdCore sd))] sd"

definition sd_HandleOnPlay :: "control_command \<Rightarrow> ('w, 'q) sess_data \<Rightarrow> ('w, 'q) sess_data" where
  "sd_HandleOnPlay cmd sd =
     (let sd = sd_ask_migrate (OnPlay cmd) sd
      in if \<not> sdCallback sd then sd
         else let sd = sd_publish ''OnPlay'' (sd_ask (OnPlay cmd) sd)
         in case cc_GetPlayParam cmd of
              Inl _ \<Rightarrow> sd
            | Inr playParam \<Rightarrow> if playParam = siSessionId (sdCore sd) then sd_log [UpdateTop playParam] sd else sd)"

definition sd_HandleOnPause :: "control_command \<Rightarrow> ('w, 'q) sess_data \<Rightarrow> ('w, 'q) sess_data" where
  "sd_HandleOnPause cmd sd = sd_ask OnPause (sd_ask_migrate OnPause sd)"

definition sd_HandleOnPlayOrPause :: "control_command \<Rightarrow> ('w, 'q) sess_data \<Rightarrow> ('w, 'q) sess_data" where
  "sd_HandleOnPlayOrPause cmd sd =
     (if sint (psState (sdPlayback sd)) = PLAYBACK_STATE_PLAY then sd_HandleOnPause cmd sd else sd_HandleOnPlay cmd sd)"

definition sd_HandleOnStop :: "control_command \<Rightarrow> ('w, 'q) sess_data \<Rightarrow> ('w, 'q) sess_data" where
  "sd_HandleOnStop cmd sd = sd_ask OnStop sd"

definition sd_HandleOnPlayNext :: "control_command \<Rightarrow> ('w, 'q) sess_data \<Rightarrow> ('w, 'q) sess_data" where
  "sd_HandleOnPlayNext cmd sd = (let sd = sd_ask_migrate (OnPlayNext cmd) sd
     in if sdCallback sd then sd_publish ''OnPlayNext'' (sd_ask (OnPlayNext cmd) sd) else sd)"

definition sd_HandleOnPlayPrevious :: "control_command \<Rightarrow> ('w, 'q) sess_data \<Rightarrow> ('w, 'q) sess_data" where
  "sd_HandleOnPlayPrevious cmd sd = (let sd = sd_ask_migrate (OnPlayPrevious cmd) sd
     in if sdCallback sd then sd_publish ''OnPlayPrevious'' (sd_ask (OnPlayPrevious cmd) sd) else sd)"

definition sd_HandleOnFastForward :: "control_command \<Rightarrow> ('w, 'q) sess_data \<Rightarrow> ('w, 'q) sess_data" where
  "sd_HandleOnFastForward cmd sd =
     (case cc_GetForwardTime cmd of Inl _ \<Rightarrow> sd | Inr t \<Rightarrow> sd_ask (OnFastForward t cmd) sd)"

definition sd_HandleOnRewind :: "control_command \<Rightarrow> ('w, 'q) sess_data \<Rightarrow> ('w, 'q) sess_data" where
  "sd_HandleOnRewind cmd sd =
     (case cc_GetRewindTime cmd of Inl _ \<Rightarrow> sd | Inr t \<Rightarrow> sd_ask (OnRewind t cmd) sd)"

definition sd_HandleOnSeek :: "control_command \<Rightarrow> ('w, 'q) sess_data \<Rightarrow> ('w, 'q) sess_data" where
  "sd_HandleOnSeek cmd sd =
     (case cc_GetSeekTime cmd of Inl _ \<Rightarrow> sd | Inr t \<Rightarrow> sd_ask (OnSeek t) (sd_ask_migrate (OnSeek t) sd))"

definition sd_HandleOnSetSpeed :: "control_command \<Rightarrow> ('w, 'q) sess_data \<Rightarrow> ('w, 'q) sess_data" where
  "sd_HandleOnSetSpeed cmd sd = (case cc_GetSpeed cmd of Inl _ \<Rightarrow> sd | Inr v \<Rightarrow> sd_ask (OnSetSpeed v) sd)"

definition sd_HandleOnSetLoopMode :: "control_command \<Rightarrow> ('w, 'q) sess_data \<Rightarrow> ('w, 'q) sess_data" where
  "sd_HandleOnSetLoopMode cmd sd = (case cc_GetLoopMode cmd of Inl _ \<Rightarrow> sd
     | Inr v \<Rightarrow> sd_ask (OnSetLoopMode v) (sd_ask_migrate (OnSetLoopMode v) sd))"

definition sd_HandleOnSetTargetLoopMode :: "control_command \<Rightarrow> ('w, 'q) sess_data \<Rightarrow> ('w, 'q) sess_data" where
  "sd_HandleOnSetTargetLoopMode cmd sd =
     (case cc_GetTargetLoopMode cmd of Inl _ \<Rightarrow> sd | Inr v \<Rightarrow> sd_ask (OnSetTargetLoopMode v) sd)"

definition sd_HandleOnToggleFavorite :: "control_command \<Rightarrow> ('w, 'q) sess_data \<Rightarrow> ('w, 'q) sess_data" where
  "sd_HandleOnToggleFavorite cmd sd = (case cc_GetAssetId cmd of Inl _ \<Rightarrow> sd
     | Inr v \<Rightarrow> sd_ask (OnToggleFavorite v) (sd_ask_migrate (OnToggleFavorite v) sd))"

definition sd_HandleOnPlayFromAssetId :: "control_command \<Rightarrow> ('w, 'q) sess_data \<Rightarrow> ('w, 'q) sess_data" where
  "sd_HandleOnPlayFromAssetId cmd sd =
     (case cc_GetPlayFromAssetId cmd of Inl _ \<Rightarrow> sd | Inr v \<Rightarrow> sd_ask (OnPlayFromAssetId v) sd)"

definition sd_HandleOnPlayWithAssetId :: "control_command \<Rightarrow> ('w, 'q) sess_data \<Rightarrow> ('w, 'q) sess_data" where
  "sd_HandleOnPlayWithAssetId cmd sd = (case cc_GetPlayWithAssetId cmd of Inl _ \<Rightarrow> sd
     | Inr v \<Rightarrow> if v = [] then sd else sd_ask (OnPlayWithAssetId v) sd)"

definition sd_HandleOnAVCallAnswer :: "control_command \<Rightarrow> ('w, 'q) sess_data \<Rightarrow> ('w, 'q) sess_data" where
  "sd_HandleOnAVCallAnswer cmd sd = sd_ask OnAVCallAnswer sd"

definition sd_HandleOnAVCallHangUp :: "control_command \<Rightarrow> ('w, 'q) sess_data \<Rightarrow> ('w, 'q) sess_data" where
  "sd_HandleOnAVCallHangUp cmd sd = sd_ask OnAVCallHangUp sd"

definition sd_HandleOnAVCallToggleCallMute :: "control_command \<Rightarrow> ('w, 'q) sess_data \<Rightarrow> ('w, 'q) sess_data" where
  "sd_HandleOnAVCallToggleCallMute cmd sd = sd_ask OnAVCallToggleCallMute sd"

definition sd_HandleSkipToQueueItem :: "int \<Rightarrow> ('w, 'q) sess_data \<Rightarrow> ('w, 'q) sess_data" where
  "sd_HandleSkipToQueueItem itemId sd = sd_ask (OnSkipToQueueItem itemId) sd"

definition sd_ExecueCommonCommand :: "string \<Rightarrow> 'w \<Rightarrow> ('w, 'q) sess_data \<Rightarrow> ('w, 'q) sess_data" where
  "sd_ExecueCommonCommand commonCommand commandArgs sd =
     sd_ask (OnCommonCommand commonCommand commandArgs) (sd_ask_migrate (OnCommonCommand commonCommand commandArgs) sd)"

definition sd_ExecuteCustomData :: "'w \<Rightarrow> ('w, 'q) sess_data \<Rightarrow> ('w, 'q) sess_data" where
  "sd_ExecuteCustomData data sd = sd_ask (OnAppCustomData data) sd"

section \<open>Commands\<close>

abbreviation (input) SESSION_CMD_AVCALL_ANSWER :: i32 where "SESSION_CMD_AVCALL_ANSWER \<equiv> 12"
abbreviation (input) SESSION_CMD_AVCALL_HANG_UP :: i32 where "SESSION_CMD_AVCALL_HANG_UP \<equiv> 13"
abbreviation (input) SESSION_CMD_AVCALL_TOGGLE_CALL_MUTE :: i32 where "SESSION_CMD_AVCALL_TOGGLE_CALL_MUTE \<equiv> 14"

definition cmdHandlers :: "(i32 \<times> (control_command \<Rightarrow> ('w, 'q) sess_data \<Rightarrow> ('w, 'q) sess_data)) list" where
  "cmdHandlers = [
     (SESSION_CMD_PLAY, sd_HandleOnPlay), (SESSION_CMD_PAUSE, sd_HandleOnPause), (SESSION_CMD_STOP, sd_HandleOnStop),
     (SESSION_CMD_PLAY_NEXT, sd_HandleOnPlayNext), (SESSION_CMD_PLAY_PREVIOUS, sd_HandleOnPlayPrevious),
     (SESSION_CMD_FAST_FORWARD, sd_HandleOnFastForward), (SESSION_CMD_REWIND, sd_HandleOnRewind),
     (SESSION_CMD_SEEK, sd_HandleOnSeek), (SESSION_CMD_SET_SPEED, sd_HandleOnSetSpeed),
     (SESSION_CMD_SET_LOOP_MODE, sd_HandleOnSetLoopMode), (SESSION_CMD_SET_TARGET_LOOP_MODE, sd_HandleOnSetTargetLoopMode),
     (SESSION_CMD_TOGGLE_FAVORITE, sd_HandleOnToggleFavorite), (SESSION_CMD_PLAY_FROM_ASSETID, sd_HandleOnPlayFromAssetId),
     (SESSION_CMD_PLAY_WITH_ASSETID, sd_HandleOnPlayWithAssetId), (SESSION_CMD_AVCALL_ANSWER, sd_HandleOnAVCallAnswer),
     (SESSION_CMD_AVCALL_HANG_UP, sd_HandleOnAVCallHangUp),
     (SESSION_CMD_AVCALL_TOGGLE_CALL_MUTE, sd_HandleOnAVCallToggleCallMute)]"

definition CAST_STATIC_UID :: int where "CAST_STATIC_UID = 5526"

text \<open>
  Who calls: the uid, the bundle that the bundle manager gives for it, and the device of the first
  output device of the session, if there is one.
\<close>

record caller =
  crUid :: int
  crBundle :: string
  crCastDevice :: "string option"

definition sd_caller_info :: "caller \<Rightarrow> command_info \<Rightarrow> command_info" where
  "sd_caller_info cr ci =
     (let ci = (if crUid cr = CAST_STATIC_UID
            then (case crCastDevice cr of Some d \<Rightarrow> ci\<lparr>callerDeviceId := d\<rparr> | None \<Rightarrow> ci)
            else ci\<lparr>callerBundleName := crBundle cr\<rparr>)
      in ci\<lparr>callerType := (if crUid cr = CAST_STATIC_UID then ''cast'' else ''app'')\<rparr>)"

definition sd_command_back :: "caller \<Rightarrow> control_command \<Rightarrow> control_command" where
  "sd_command_back cr cmd =
     (let cmdInfo = sd_caller_info cr (cc_info cmd)
      in if callerModuleName cmdInfo \<noteq> [] \<or> crUid cr = CAST_STATIC_UID
         then snd (cc_SetCommandInfo cmdInfo cmd) else cmd)"

definition sd_ExecuteControllerCommand ::
  "caller \<Rightarrow> control_command \<Rightarrow> ('w, 'q) sess_data \<Rightarrow> ('w, 'q) sess_data option" where
  "sd_ExecuteControllerCommand cr cmd sd =
     (let code = cc_cmd cmd in
      if sint code < 0 \<or> SESSION_CMD_MAX \<le> sint code then Some sd
      else
        let cmdBack = sd_command_back cr cmd
        in if \<not> sdCallback sd \<and> \<not> sdMigrate sd then Some sd
           else if \<not> siIsActive (sdCore sd) then Some sd
           else map_option (\<lambda>h. h cmdBack sd) (map_of cmdHandlers code))"

section \<open>Media keys\<close>

definition keyEventCaller :: "(key_code \<times> (control_command \<Rightarrow> ('w, 'q) sess_data \<Rightarrow> ('w, 'q) sess_data)) list" where
  "keyEventCaller = [
     (KEYCODE_MEDIA_PLAY, sd_HandleOnPlay), (KEYCODE_MEDIA_PAUSE, sd_HandleOnPause),
     (KEYCODE_MEDIA_PLAY_PAUSE, sd_HandleOnPlayOrPause), (KEYCODE_MEDIA_STOP, sd_HandleOnPause),
     (KEYCODE_MEDIA_NEXT, sd_HandleOnPlayNext), (KEYCODE_MEDIA_PREVIOUS, sd_HandleOnPlayPrevious),
     (KEYCODE_MEDIA_REWIND, sd_HandleOnRewind), (KEYCODE_MEDIA_FAST_FORWARD, sd_HandleOnFastForward)]"

definition sd_PublishMediaKeyEvent :: "key_code \<Rightarrow> ('w, 'q) sess_data \<Rightarrow> ('w, 'q) sess_data" where
  "sd_PublishMediaKeyEvent keyCode sd =
     (if keyCode = KEYCODE_MEDIA_PLAY then sd_publish ''OnPlay'' sd
      else if keyCode = KEYCODE_MEDIA_NEXT then sd_publish ''OnPlayNext'' sd
      else if keyCode = KEYCODE_MEDIA_PREVIOUS then sd_publish ''OnPlayPrevious'' sd
      else sd)"

text \<open>The command that a key makes: both times are set, one after the other, in the one parameter.\<close>

definition sd_key_command :: "command_info \<Rightarrow> avmeta \<Rightarrow> control_command" where
  "sd_key_command cmdInfo m =
     (let cmd = snd (cc_SetCommand SESSION_CMD_PLAY new_control_command);
          rewindSkip = rewindSkipIntervals m; skip = skipIntervals m; fastForwardSkip = fastForwardSkipIntervals m;
          cmd = snd (cc_SetRewindTime (scast (if rewindSkip \<noteq> 0 then rewindSkip else skip)) cmd);
          cmd = snd (cc_SetForwardTime (scast (if fastForwardSkip \<noteq> 0 then fastForwardSkip else skip)) cmd)
      in snd (cc_SetCommandInfo cmdInfo cmd))"

definition sd_HandleMediaKeyEvent ::
  "key_code \<Rightarrow> command_info \<Rightarrow> ('w, 'q) sess_data \<Rightarrow> ('w, 'q) sess_data" where
  "sd_HandleMediaKeyEvent keyCode cmdInfo sd =
     (if \<not> siIsActive (sdCore sd) then sd
      else case (if sdMediaKeySupport sd then None else map_of keyEventCaller keyCode) of
        Some h \<Rightarrow> h (sd_key_command cmdInfo (sdMeta sd)) sd
      | None \<Rightarrow> sd_PublishMediaKeyEvent keyCode (sd_ask (OnMediaKeyEvent keyCode) sd))"

section \<open>What a controller sends\<close>

text \<open>
  \<open>None\<close> for the session: the controller has lost it. The limit on commands counts by the calling
  process. \<open>proxyRet\<close>: what the migration proxy's callback returns, if there is one.
\<close>

definition cd_SendControlCommand :: "caller \<Rightarrow> int \<Rightarrow> control_command \<Rightarrow> ('w, 'q) sess_data option \<times> command_limit
    \<Rightarrow> (int \<times> ('w, 'q) sess_data option \<times> command_limit) option" where
  "cd_SendControlCommand cr callingPid cmd st = (case st of (session, cl) \<Rightarrow>
     case session of
       None \<Rightarrow> Some (ERR_SESSION_NOT_EXIST, None, cl)
     | Some sd \<Rightarrow>
         if cc_cmd cmd \<notin> set (sd_GetSupportCommand sd) then Some (ERR_COMMAND_NOT_SUPPORT, Some sd, cl)
         else (let (enabled, cl) = cl_IsCommandSendEnable callingPid cl
           in if \<not> enabled then Some (ERR_COMMAND_SEND_EXCEED_MAX, Some sd, cl)
              else map_option (\<lambda>sd. (AVSESSION_SUCCESS, Some sd, cl)) (sd_ExecuteControllerCommand cr cmd sd)))"

definition cd_SendAVKeyEvent ::
  "key_code \<Rightarrow> ('w, 'q) sess_data option \<Rightarrow> int \<times> ('w, 'q) sess_data option" where
  "cd_SendAVKeyEvent keyCode session = (case session of
     None \<Rightarrow> (ERR_SESSION_NOT_EXIST, None)
   | Some sd \<Rightarrow> (AVSESSION_SUCCESS, Some (sd_HandleMediaKeyEvent keyCode new_command_info sd)))"

definition cd_SkipToQueueItem :: "int \<Rightarrow> ('w, 'q) sess_data option \<Rightarrow> int \<times> ('w, 'q) sess_data option" where
  "cd_SkipToQueueItem itemId session = (case session of
     None \<Rightarrow> (ERR_SESSION_NOT_EXIST, None)
   | Some sd \<Rightarrow> (AVSESSION_SUCCESS, Some (sd_HandleSkipToQueueItem itemId sd)))"

definition cd_SendCommonCommand :: "int option \<Rightarrow> int \<Rightarrow> string \<Rightarrow> 'w \<Rightarrow> ('w, 'q) sess_data option \<times> command_limit
    \<Rightarrow> int \<times> ('w, 'q) sess_data option \<times> command_limit" where
  "cd_SendCommonCommand proxyRet callingPid commonCommand commandArgs st = (case st of (session, cl) \<Rightarrow>
     if (case proxyRet of Some r \<Rightarrow> r \<noteq> AVSESSION_SUCCESS | None \<Rightarrow> False) then (the proxyRet, session, cl)
     else case session of
       None \<Rightarrow> (ERR_SESSION_NOT_EXIST, None, cl)
     | Some sd \<Rightarrow>
         (let (enabled, cl) = cl_IsCommandSendEnable callingPid cl
          in if \<not> enabled then (ERR_COMMAND_SEND_EXCEED_MAX, Some sd, cl)
             else (AVSESSION_SUCCESS, Some (sd_ExecueCommonCommand commonCommand commandArgs sd), cl)))"

definition cd_SendCustomData ::
  "('w \<Rightarrow> string option) \<Rightarrow> 'w \<Rightarrow> ('w, 'q) sess_data option \<Rightarrow> int \<times> ('w, 'q) sess_data option" where
  "cd_SendCustomData customData data session = (case customData data of
     None \<Rightarrow> (AVSESSION_ERROR, session)
   | Some _ \<Rightarrow> (case session of
       None \<Rightarrow> (ERR_SESSION_NOT_EXIST, None)
     | Some sd \<Rightarrow> (AVSESSION_SUCCESS, Some (sd_ExecuteCustomData data sd))))"

definition cd_SetDesktopLyricVisible ::
  "bool \<Rightarrow> bool \<Rightarrow> string \<Rightarrow> ('w, 'q) sess_data option \<Rightarrow> int \<times> ('w, 'q) sess_data option" where
  "cd_SetDesktopLyricVisible startOk isVisible callingBundleName session = (case session of
     None \<Rightarrow> (ERR_SESSION_NOT_EXIST, None)
   | Some sd \<Rightarrow> map_prod id Some (sd_SetDesktopLyricVisibleInner startOk isVisible callingBundleName sd))"

definition cd_SetDesktopLyricState ::
  "bool \<Rightarrow> string \<Rightarrow> ('w, 'q) sess_data option \<Rightarrow> int \<times> ('w, 'q) sess_data option" where
  "cd_SetDesktopLyricState isLocked callingBundleName session = (case session of
     None \<Rightarrow> (ERR_SESSION_NOT_EXIST, None)
   | Some sd \<Rightarrow> map_prod id Some (sd_SetDesktopLyricStateInner isLocked callingBundleName sd))"

definition cd_get :: "(('w, 'q) sess_data \<Rightarrow> 'r) \<Rightarrow> ('w, 'q) sess_data option \<Rightarrow> int + 'r" where
  "cd_get f session = (case session of None \<Rightarrow> Inl ERR_SESSION_NOT_EXIST | Some sd \<Rightarrow> Inr (f sd))"

definition cd_GetAVPlaybackState :: "('w, 'q) sess_data option \<Rightarrow> int + 'w playback_state" where
  "cd_GetAVPlaybackState session = cd_get sdPlayback session"

definition cd_GetValidCommands :: "('w, 'q) sess_data option \<Rightarrow> int + i32 list" where
  "cd_GetValidCommands session = cd_get sd_GetSupportCommand session"

definition cd_IsSessionActive :: "('w, 'q) sess_data option \<Rightarrow> int + bool" where
  "cd_IsSessionActive session = cd_get (\<lambda>sd. si_IsActive (sdCore sd)) session"

definition cd_GetAVQueueItems :: "('w, 'q) sess_data option \<Rightarrow> int + 'q list" where
  "cd_GetAVQueueItems session = cd_get sdQueueItems session"

definition cd_GetAVQueueTitle :: "('w, 'q) sess_data option \<Rightarrow> int + string" where
  "cd_GetAVQueueTitle session = cd_get sdQueueTitle session"

definition cd_GetMediaCenterControlType :: "('w, 'q) sess_data option \<Rightarrow> int + i32 list" where
  "cd_GetMediaCenterControlType session = cd_get sdControlTypes session"

definition cd_GetSupportedPlaySpeeds :: "('w, 'q) sess_data option \<Rightarrow> int + dbl list" where
  "cd_GetSupportedPlaySpeeds session = cd_get sdSpeeds session"

definition cd_GetSupportedLoopModes :: "('w, 'q) sess_data option \<Rightarrow> int + i32 list" where
  "cd_GetSupportedLoopModes session = cd_get sdLoopModes session"

lemmas sd_handler_defs = sd_HandleOnPlay_def sd_HandleOnPause_def sd_HandleOnStop_def sd_HandleOnPlayNext_def
  sd_HandleOnPlayPrevious_def sd_HandleOnFastForward_def sd_HandleOnRewind_def sd_HandleOnSeek_def
  sd_HandleOnSetSpeed_def sd_HandleOnSetLoopMode_def sd_HandleOnSetTargetLoopMode_def sd_HandleOnToggleFavorite_def
  sd_HandleOnPlayFromAssetId_def sd_HandleOnPlayWithAssetId_def sd_HandleOnAVCallAnswer_def
  sd_HandleOnAVCallHangUp_def sd_HandleOnAVCallToggleCallMute_def

end
