(* ===== verification/SessionImages.thy ===== *)
theory SessionImages
  imports SessionUpdate Utils
begin

text \<open>
  Setting and reading the metadata of a session. The images are large: the session writes them to
  files and empties the objects, and reads them back when somebody asks. An image is reached through
  a shared pointer, and several holders see it change, so the images live in a store here: a
  pointer is a number, \<open>imHeap\<close> maps it to the image. Metadata is a record with the two pointers
  beside it; \<open>pm_load\<close> is what a reader sees. The images inside \<open>pmData\<close> are not looked at.

  Metadata arrives by IPC, with image objects of its own. The notification of controllers is a
  task: \<open>imTasks\<close> are those that are posted. \<open>im_env\<close> says which files can be reached, made and
  opened, and what the uninitialised size variable holds.
\<close>

section \<open>Metadata with shared images\<close>

record pmeta =
  pmData :: avmeta
  pmMedia :: "nat option"
  pmQueue :: "nat option"

definition pm_load :: "(nat \<Rightarrow> pixel_map) \<Rightarrow> pmeta \<Rightarrow> avmeta" where
  "pm_load h p = (pmData p)\<lparr>mediaImage := map_option h (pmMedia p), avQueueImage := map_option h (pmQueue p)\<rparr>"

definition new_pmeta :: pmeta where
  "new_pmeta = \<lparr>pmData = new_avmeta, pmMedia = None, pmQueue = None\<rparr>"

text \<open>A copy of the fields whose bits are in \<open>m\<close> copies the pointers of the images.\<close>

definition pm_copy_ptrs :: "28 word \<Rightarrow> pmeta \<Rightarrow> avmeta \<Rightarrow> pmeta \<Rightarrow> pmeta" where
  "pm_copy_ptrs m from d to = \<lparr>pmData = d,
     pmMedia = (if bit m META_KEY_MEDIA_IMAGE then pmMedia from else pmMedia to),
     pmQueue = (if bit m META_KEY_AVQUEUE_IMAGE then pmQueue from else pmQueue to)\<rparr>"

definition pm_CopyFrom :: "pmeta \<Rightarrow> pmeta \<Rightarrow> bool \<times> pmeta" where
  "pm_CopyFrom from to =
     (case meta_CopyFrom (pmData from) (pmData to) of (ok, d) \<Rightarrow>
        (ok, if \<not> ok then to
             else if assetId (pmData from) \<noteq> assetId (pmData to) then from
             else pm_copy_ptrs (metaMask (pmData from)) from d to))"

definition pm_CopyToByMask :: "28 word \<Rightarrow> pmeta \<Rightarrow> pmeta \<Rightarrow> bool \<times> pmeta" where
  "pm_CopyToByMask msk from to =
     (case meta_CopyToByMask msk (pmData from) (pmData to) of (ok, d) \<Rightarrow>
        (ok, pm_copy_ptrs (metaMask (pmData from) AND msk) from d to))"

section \<open>State\<close>

record im_env =
  ieReachable :: "string \<Rightarrow> bool"
  ieCreatable :: "string \<Rightarrow> bool"
  ieOpenable :: "string \<Rightarrow> bool"
  ieSizeMemory :: "byte list"

record ('w, 'q) img_state =
  imSd :: "('w, 'q) sess_data"
  imMeta :: pmeta
  imHeap :: "nat \<Rightarrow> pixel_map"
  imNext :: nat
  imFiles :: files
  imTasks :: "(pmeta \<times> 28 word) list"

text \<open>The session's metadata is in both parts of the state: a change sets both.\<close>

definition im_set_meta :: "pmeta \<Rightarrow> ('w, 'q) img_state \<Rightarrow> ('w, 'q) img_state" where
  "im_set_meta p st = st\<lparr>imMeta := p, imSd := (imSd st)\<lparr>sdMeta := pm_load (imHeap st) p\<rparr>\<rparr>"

definition im_upd_sd :: "(('w, 'q) sess_data \<Rightarrow> ('w, 'q) sess_data) \<Rightarrow> ('w, 'q) img_state \<Rightarrow> ('w, 'q) img_state" where
  "im_upd_sd f st = st\<lparr>imSd := f (imSd st)\<rparr>"

definition im_set_buffer :: "nat \<Rightarrow> byte list \<Rightarrow> ('w, 'q) img_state \<Rightarrow> ('w, 'q) img_state" where
  "im_set_buffer a buf st = st\<lparr>imHeap := (imHeap st)(a := pm_SetInnerImgBuffer buf (imHeap st a))\<rparr>"

text \<open>\<^verbatim>\<open>Clear()\<close> of an image, if there is one.\<close>

definition im_clear :: "nat option \<Rightarrow> ('w, 'q) img_state \<Rightarrow> ('w, 'q) img_state" where
  "im_clear p st = (case p of None \<Rightarrow> st | Some a \<Rightarrow> im_set_buffer a [] st)"

definition im_alloc :: "pixel_map \<Rightarrow> ('w, 'q) img_state \<Rightarrow> nat \<times> ('w, 'q) img_state" where
  "im_alloc img st = (imNext st, st\<lparr>imHeap := (imHeap st)(imNext st := img), imNext := imNext st + 1\<rparr>)"

definition im_alloc_option :: "pixel_map option \<Rightarrow> ('w, 'q) img_state \<Rightarrow> nat option \<times> ('w, 'q) img_state" where
  "im_alloc_option img st = (case img of None \<Rightarrow> (None, st) | Some i \<Rightarrow> map_prod Some id (im_alloc i st))"

text \<open>Metadata as the stub unmarshals it.\<close>

definition im_receive :: "avmeta \<Rightarrow> ('w, 'q) img_state \<Rightarrow> pmeta \<times> ('w, 'q) img_state" where
  "im_receive m st =
     (let (a, st) = im_alloc_option (mediaImage m) st; (b, st) = im_alloc_option (avQueueImage m) st
      in (\<lparr>pmData = m, pmMedia = a, pmQueue = b\<rparr>, st))"

section \<open>Files\<close>

definition media_file_name :: "session \<Rightarrow> string" where
  "media_file_name core = siSessionId core @ FILE_SUFFIX"

definition im_write :: "im_env \<Rightarrow> nat \<Rightarrow> string \<Rightarrow> string \<Rightarrow> ('w, 'q) img_state \<Rightarrow> ('w, 'q) img_state" where
  "im_write env a dir name st = st\<lparr>imFiles := WriteImageToFile (ieReachable env) (ieCreatable env) (ieOpenable env)
     (Some (innerImgBuffer (imHeap st a))) dir name (imFiles st)\<rparr>"

definition im_read :: "im_env \<Rightarrow> nat option \<Rightarrow> string \<Rightarrow> string \<Rightarrow> ('w, 'q) img_state \<Rightarrow> ('w, 'q) img_state" where
  "im_read env p dir name st = (case p of
     None \<Rightarrow> st
   | Some a \<Rightarrow> (case ReadImageFromFile (ieReachable env) (ieOpenable env) (ieSizeMemory env)
         (Some (innerImgBuffer (imHeap st a))) dir name (imFiles st) of
       None \<Rightarrow> st | Some buf \<Rightarrow> im_set_buffer a buf st))"

definition im_ReadMetaDataImg :: "im_env \<Rightarrow> nat option \<Rightarrow> ('w, 'q) img_state \<Rightarrow> ('w, 'q) img_state" where
  "im_ReadMetaDataImg env p st =
     (let core = sdCore (imSd st) in im_read env p (GetCachePathName (siUserId core)) (media_file_name core) st)"

definition im_ReadMetaDataAVQueueImg :: "im_env \<Rightarrow> nat option \<Rightarrow> ('w, 'q) img_state \<Rightarrow> ('w, 'q) img_state" where
  "im_ReadMetaDataAVQueueImg env p st =
     (let core = sdCore (imSd st); queueId = avQueueId (pmData (imMeta st)); appIndex = sdAppIndex (imSd st);
          fileName = (if appIndex \<noteq> 0
            then siBundle core @ ''_'' @ int_to_string appIndex @ ''_'' @ queueId @ FILE_SUFFIX
            else siBundle core @ ''_'' @ queueId @ FILE_SUFFIX)
      in if \<not> IsValidFileName fileName then st
         else im_read env p (GetFixedPathName (siUserId core)) fileName st)"

section \<open>Setting the metadata\<close>

definition im_buffer_size :: "nat option \<Rightarrow> ('w, 'q) img_state \<Rightarrow> nat" where
  "im_buffer_size p st = (case p of None \<Rightarrow> 0 | Some a \<Rightarrow> length (innerImgBuffer (imHeap st a)))"

definition im_meta_bit :: "nat \<Rightarrow> pmeta \<Rightarrow> pmeta" where
  "im_meta_bit i p = p\<lparr>pmData := meta_setbit i (pmData p)\<rparr>"

definition im_ReadMediaAndAVQueueImg ::
  "im_env \<Rightarrow> 28 word \<Rightarrow> pmeta \<Rightarrow> ('w, 'q) img_state \<Rightarrow> ('w, 'q) img_state" where
  "im_ReadMediaAndAVQueueImg env recordFilter newData st =
     (let st = (if bit recordFilter META_KEY_AVQUEUE_IMAGE \<and> 0 < im_buffer_size (pmQueue newData) st
                  \<and> avQueueName (pmData newData) \<noteq> [] \<and> avQueueId (pmData newData) \<noteq> []
            then (let p = pmQueue (imMeta st); st = im_ReadMetaDataAVQueueImg env p st
                  in if 0 < im_buffer_size p st then im_set_meta (im_meta_bit META_KEY_AVQUEUE_IMAGE (imMeta st)) st else st)
            else st)
      in if bit recordFilter META_KEY_MEDIA_IMAGE \<and> 0 < im_buffer_size (pmMedia newData) st
         then (let p = pmMedia (imMeta st); st = im_ReadMetaDataImg env p st
               in if 0 < im_buffer_size p st then im_set_meta (im_meta_bit META_KEY_MEDIA_IMAGE (imMeta st)) st else st)
         else st)"

definition defaultBundleName :: string where "defaultBundleName = ''com.example.himusicdemo''"

definition sd_CheckTitleChange :: "avmeta \<Rightarrow> ('w, 'q) sess_data \<Rightarrow> bool" where
  "sd_CheckTitleChange m sd =
     (let isTitleChange = title (sdMeta sd) \<noteq> title m;
          isAncoTitleLyric = siUid (sdCore sd) = itemAudioBrokerUid \<and> str_find ''-'' (artist m) \<noteq> None;
          isTitleLyric = siBundle (sdCore sd) = defaultBundleName \<and> description m \<noteq> [] \<or> isAncoTitleLyric
      in isTitleChange \<and> \<not> isTitleLyric)"

text \<open>The media image goes to its file; the object is emptied and the session gets a new, empty one.\<close>

definition im_store_media :: "im_env \<Rightarrow> string \<Rightarrow> ('w, 'q) img_state \<Rightarrow> ('w, 'q) img_state" where
  "im_store_media env oldImageUri st = (case pmMedia (imMeta st) of
     None \<Rightarrow> st
   | Some a \<Rightarrow>
       (let core = sdCore (imSd st); dir = GetCachePathName (siUserId core); name = media_file_name core;
            (old, st) = im_alloc new_pixel_map st;
            st = im_read env (Some old) dir name st;
            st = (if oldImageUri \<noteq> mediaImageUri (pmData (imMeta st))
                    \<or> innerImgBuffer (imHeap st old) \<noteq> innerImgBuffer (imHeap st a)
                  then im_upd_sd (\<lambda>sd. sd\<lparr>sdMediaChange := True\<rparr>) st else st);
            st = im_clear (Some a) (im_write env a dir name st);
            (new, st) = im_alloc new_pixel_map st
        in im_set_meta ((im_meta_bit META_KEY_MEDIA_IMAGE (imMeta st))\<lparr>pmMedia := Some new\<rparr>) st))"

definition im_UpdateMetaData :: "im_env \<Rightarrow> pmeta \<Rightarrow> ('w, 'q) img_state \<Rightarrow> ('w, 'q) img_state" where
  "im_UpdateMetaData env m st =
     (let st = (if assetId (sdMeta (imSd st)) \<noteq> assetId (pmData m) \<or> sd_CheckTitleChange (pmData m) (imSd st)
            then im_upd_sd (\<lambda>sd. sd\<lparr>sdMediaChange := True, sdLyricTitle := title (pmData m)\<rparr>) st else st);
          oldImageUri = mediaImageUri (pmData (imMeta st))
      in case pm_CopyFrom m (imMeta st) of (ok, p) \<Rightarrow>
           if \<not> ok then st else im_store_media env oldImageUri (im_set_meta p st))"

text \<open>The queue image goes to its file, when the session knows the queue's name and id.\<close>

definition im_store_queue :: "im_env \<Rightarrow> pmeta \<Rightarrow> ('w, 'q) img_state \<Rightarrow> ('w, 'q) img_state" where
  "im_store_queue env m st = (case pmQueue m of
     None \<Rightarrow> st
   | Some a \<Rightarrow>
       if innerImgBuffer (imHeap st a) \<noteq> [] \<and> avQueueName (pmData (imMeta st)) \<noteq> [] \<and> avQueueId (pmData (imMeta st)) \<noteq> []
       then (let core = sdCore (imSd st);
                 fileName = siBundle core @ ''_'' @ avQueueId (pmData m) @ FILE_SUFFIX
             in if \<not> IsValidFileName fileName then st
                else im_clear (Some a) (im_write env a (GetFixedPathName (siUserId core)) fileName st))
       else st)"

definition im_CheckUseAVMetaData :: "im_env \<Rightarrow> pmeta \<Rightarrow> ('w, 'q) img_state \<Rightarrow> ('w, 'q) img_state" where
  "im_CheckUseAVMetaData env m st =
     (let sd = imSd st;
          sd = (if sdMediaChange sd \<and> siType (sdCore sd) \<noteq> SESSION_TYPE_PHOTO \<and> pmMedia m \<noteq> None
                then (sd_log [NtfCapsule (siSessionId (sdCore sd))] sd)\<lparr>sdMediaChange := False\<rparr> else sd);
          sd = sd_queue_info (sd_HandleFrontSession sd)
      in im_store_queue env m (st\<lparr>imSd := sd\<rparr>))"

definition sd_GetControlItemsMetaFilter :: "('w, 'q) sess_data \<Rightarrow> 28 word" where
  "sd_GetControlItemsMetaFilter sd =
     fold (\<lambda>(pid, c) filt. if cdMetaMask c \<noteq> -1 then filt OR cdMetaMask c else filt) (sdControllers sd) 0"

definition im_SetAVMetaData :: "im_env \<Rightarrow> pmeta \<Rightarrow> ('w, 'q) img_state \<Rightarrow> int \<times> ('w, 'q) img_state" where
  "im_SetAVMetaData env m st =
     (let recordFilter = sd_GetControlItemsMetaFilter (imSd st);
          st = (if recordFilter \<noteq> 0 then im_ReadMediaAndAVQueueImg env recordFilter m st else st);
          changedDataMask = (if recordFilter \<noteq> 0
            then meta_GetChangedDataMask recordFilter (pm_load (imHeap st) (imMeta st)) (pm_load (imHeap st) m) else 0);
          st = im_CheckUseAVMetaData env m (im_UpdateMetaData env m st)
      in (AVSESSION_SUCCESS, st\<lparr>imTasks := imTasks st @ [(m, changedDataMask)]\<rparr>))"

section \<open>Telling the controllers\<close>

text \<open>
  \<^verbatim>\<open>HandleMetaDataChange\<close> of the controller of a process: the images are read from their files into
  the objects, the callbacks are called, the objects are emptied.
\<close>

definition im_tell :: "int \<Rightarrow> avmeta \<Rightarrow> ctrl_data \<Rightarrow> ('w, 'q) img_state \<Rightarrow> ('w, 'q) img_state" where
  "im_tell pid m c st = im_upd_sd (sd_log (map (\<lambda>(l, n). Told pid l n)
     (cd_client (OnMetaDataChange m) c @ cd_inner (OnMetaDataChange m) c @ cd_migrate (OnMetaDataChange m) c))) st"

definition im_fill_images ::
  "im_env \<Rightarrow> ctrl_data \<Rightarrow> pmeta \<Rightarrow> ('w, 'q) img_state \<Rightarrow> pmeta \<times> ('w, 'q) img_state" where
  "im_fill_images env c out st =
     (let (out, st) = (if bit (cdMetaMask c) META_KEY_MEDIA_IMAGE \<and> pmMedia out \<noteq> None
            then (im_meta_bit META_KEY_MEDIA_IMAGE out, im_ReadMetaDataImg env (pmMedia out) st) else (out, st))
      in if bit (cdMetaMask c) META_KEY_AVQUEUE_IMAGE \<and> pmQueue out \<noteq> None
         then (im_meta_bit META_KEY_AVQUEUE_IMAGE out, im_ReadMetaDataAVQueueImg env (pmQueue out) st) else (out, st))"

text \<open>With an image and its address, the session's own process gets the address, the others the image.\<close>

definition im_image_or_uri :: "ctrl_data \<Rightarrow> pmeta \<Rightarrow> ('w, 'q) img_state \<Rightarrow> pmeta \<times> ('w, 'q) img_state" where
  "im_image_or_uri c out st =
     (if pmMedia out \<noteq> None \<and> mediaImageUri (pmData out) \<noteq> []
      then if cdFromSession c then (out, im_clear (pmMedia out) st)
           else (out\<lparr>pmData := meta_SetMediaImageUri [] (pmData out)\<rparr>, st)
      else (out, st))"

definition im_HandleMetaDataChange ::
  "im_env \<Rightarrow> pmeta \<Rightarrow> 28 word \<Rightarrow> int \<Rightarrow> ctrl_data \<Rightarrow> ('w, 'q) img_state \<Rightarrow> ('w, 'q) img_state" where
  "im_HandleMetaDataChange env data changedDataMask pid c st =
     (let validMask = (if cdMetaMask c = -1 then cdMetaMask c else changedDataMask AND cdMetaMask c);
          (ok, out) = pm_CopyToByMask validMask data new_pmeta;
          (out, st) =
            (if ok then
               (let (out, st) = im_fill_images env c out st;
                    out = out\<lparr>pmData := meta_SetAssetId (assetId (pmData data)) (pmData out)\<rparr>;
                    (out, st) = im_image_or_uri c out st
                in (out, im_tell pid (pm_load (imHeap st) out) c st))
             else (out, st))
      in im_clear (pmMedia out) (im_clear (pmQueue out) st))"

definition im_tell_all :: "im_env \<Rightarrow> pmeta \<Rightarrow> 28 word \<Rightarrow> ('w, 'q) img_state \<Rightarrow> ('w, 'q) img_state" where
  "im_tell_all env data changedDataMask st =
     foldl (\<lambda>st (pid, c). im_HandleMetaDataChange env data changedDataMask pid c st) st (sdControllers (imSd st))"

text \<open>The oldest task that \<^verbatim>\<open>SetAVMetaData\<close> posted runs.\<close>

definition im_run_task :: "im_env \<Rightarrow> ('w, 'q) img_state \<Rightarrow> ('w, 'q) img_state" where
  "im_run_task env st = (case imTasks st of
     [] \<Rightarrow> st
   | (data, changedDataMask) # ts \<Rightarrow>
       (let st = st\<lparr>imTasks := ts\<rparr>
        in if siDestroyed (sdCore (imSd st)) then st else im_tell_all env data changedDataMask st))"

section \<open>Reading the metadata\<close>

definition im_GetAVMetaData :: "im_env \<Rightarrow> ('w, 'q) img_state \<Rightarrow> int \<times> pmeta \<times> ('w, 'q) img_state" where
  "im_GetAVMetaData env st =
     (let st = im_ReadMetaDataImg env (pmMedia (imMeta st)) st;
          st = im_ReadMetaDataAVQueueImg env (pmQueue (imMeta st)) st
      in (AVSESSION_SUCCESS, imMeta st, st))"

text \<open>A controller's client reads: a new object receives the media image.\<close>

definition cd_ReadImgForMetaData :: "im_env \<Rightarrow> pmeta \<Rightarrow> ('w, 'q) img_state \<Rightarrow> pmeta \<times> ('w, 'q) img_state" where
  "cd_ReadImgForMetaData env data st =
     (if \<not> bit (metaMask (pmData data)) META_KEY_MEDIA_IMAGE then (data, st)
      else let (a, st) = im_alloc new_pixel_map st;
               st = im_ReadMetaDataImg env (Some a) st;
               data = (im_meta_bit META_KEY_MEDIA_IMAGE data)\<lparr>pmMedia := Some a\<rparr>
           in (data, im_ReadMetaDataAVQueueImg env (pmQueue data) st))"

definition cd_GetAVMetaData :: "im_env \<Rightarrow> ctrl_data \<Rightarrow> ('w, 'q) img_state \<Rightarrow> int \<times> pmeta \<times> ('w, 'q) img_state" where
  "cd_GetAVMetaData env c st =
     (let (data, st) = cd_ReadImgForMetaData env (imMeta st) st
      in if pmMedia data \<noteq> None \<and> mediaImageUri (pmData data) \<noteq> []
         then if cdFromSession c then (AVSESSION_SUCCESS, data, im_clear (pmMedia data) st)
              else (ERR_INVALID_PARAM, data, st)
         else (AVSESSION_SUCCESS, data, st))"

end
