(* ===== verification/SessionReach.thy ===== *)
theory SessionReach
  imports SessionCommands SessionImages
begin

text \<open>
  The runs of a session: every operation of its application, of its controllers, of the media keys
  and of the notification tasks, in any order and with any arguments, and the facts about single
  operations that the invariants need. Three parts of the state are followed: what the service
  has been told about the session being in front, the commands it supports, its desktop lyric.
\<close>

section \<open>Steps\<close>

text \<open>An operation on the controller of a process, which the session holds by value.\<close>

definition sd_on_controller :: "int \<Rightarrow> (ctrl_data \<Rightarrow> ctrl_data) \<Rightarrow> ('w, 'q) sess_data \<Rightarrow> ('w, 'q) sess_data" where
  "sd_on_controller pid f sd =
     sd\<lparr>sdControllers := map (\<lambda>(p, c). (p, if p = pid then f c else c)) (sdControllers sd)\<rparr>"

inductive sd_step :: "('w \<Rightarrow> 'w \<Rightarrow> bool) \<Rightarrow> ('w \<Rightarrow> string option) \<Rightarrow> ('w, 'q) sess_data \<Rightarrow> ('w, 'q) sess_data \<Rightarrow> bool"
  for weq customData where
  st_playback: "sd_SetAVPlaybackState weq state sd = (r, sd') \<Longrightarrow> sd_step weq customData sd sd'"
| st_capsule: "sd_step weq customData sd (sd_capsule_task sd)"
| st_queue: "sd_SetAVQueueItems xs sd = (r, sd') \<Longrightarrow> sd_step weq customData sd sd'"
| st_queue_title: "sd_SetAVQueueTitle t sd = (r, sd') \<Longrightarrow> sd_step weq customData sd sd'"
| st_custom: "sd_SendCustomData customData w sd = (r, sd') \<Longrightarrow> sd_step weq customData sd sd'"
| st_event: "sd_SetSessionEvent ev w sd = (r, sd') \<Longrightarrow> sd_step weq customData sd sd'"
| st_activate: "sd_Activate sd = (r, sd') \<Longrightarrow> sd_step weq customData sd sd'"
| st_deactivate: "sd_Deactivate sd = (r, sd') \<Longrightarrow> sd_step weq customData sd sd'"
| st_add: "sd_AddSupportCommand cmd sd = (r, sd') \<Longrightarrow> sd_step weq customData sd sd'"
| st_delete: "sd_DeleteSupportCommand cmd sd = (r, sd') \<Longrightarrow> sd_step weq customData sd sd'"
| st_types: "sd_SetMediaCenterControlType is sd = (r, sd') \<Longrightarrow> sd_step weq customData sd sd'"
| st_speeds: "sd_SetSupportedPlaySpeeds ds sd = (r, sd') \<Longrightarrow> sd_step weq customData sd sd'"
| st_loops: "sd_SetSupportedLoopModes is sd = (r, sd') \<Longrightarrow> sd_step weq customData sd sd'"
| st_feature: "sd_step weq customData sd (sd_SetDesktopLyricFeatureSupported b sd)"
| st_enable: "sd_EnableDesktopLyric b sd = (r, sd') \<Longrightarrow> sd_step weq customData sd sd'"
| st_visible: "sd_SetDesktopLyricVisibleInner ok b hdl sd = (r, sd') \<Longrightarrow> sd_step weq customData sd sd'"
| st_lock: "sd_SetDesktopLyricStateInner b hdl sd = (r, sd') \<Longrightarrow> sd_step weq customData sd sd'"
| st_background: "sd_SetBackgroundPlayMode mode sd = (r, sd') \<Longrightarrow> sd_step weq customData sd sd'"
| st_callback: "sd_RegisterCallbackInner b sd = (r, sd') \<Longrightarrow> sd_step weq customData sd sd'"
| st_migrate: "sd_step weq customData sd (sd_RegisterAVSessionCallback b sd)"
| st_controller: "sd_AddController pid c sd = (r, sd') \<Longrightarrow> sd_step weq customData sd sd'"
| st_release: "sd_step weq customData sd (sd_HandleControllerRelease pid sd)"
| st_on_controller: "sd_step weq customData sd (sd_on_controller pid f sd)"
| st_command: "cd_SendControlCommand cr callingPid cmd (Some sd, cl) = Some (r, Some sd', cl')
    \<Longrightarrow> sd_step weq customData sd sd'"
| st_system: "sd_ExecuteControllerCommand cr cmd sd = Some sd' \<Longrightarrow> sd_step weq customData sd sd'"
| st_key: "sd_step weq customData sd (sd_HandleMediaKeyEvent key info sd)"
| st_skip: "cd_SkipToQueueItem i (Some sd) = (r, Some sd') \<Longrightarrow> sd_step weq customData sd sd'"
| st_common: "cd_SendCommonCommand proxyRet callingPid s w (Some sd, cl) = (r, Some sd', cl')
    \<Longrightarrow> sd_step weq customData sd sd'"
| st_app_custom: "cd_SendCustomData customData w (Some sd) = (r, Some sd') \<Longrightarrow> sd_step weq customData sd sd'"

section \<open>Runs\<close>

text \<open>
  \<open>migrated\<close>: the session stands for one of another device, so its commands are set by
  \<open>sd_SetSupportCommand\<close>. The files and the environment may be anything at every step.
\<close>

definition new_img_state :: "session \<Rightarrow> files \<Rightarrow> ('w, 'q) img_state" where
  "new_img_state core files = \<lparr>imSd = new_sess_data core, imMeta = new_pmeta, imHeap = (\<lambda>_. new_pixel_map),
     imNext = 0, imFiles = files, imTasks = []\<rparr>"

inductive im_step :: "('w \<Rightarrow> 'w \<Rightarrow> bool) \<Rightarrow> ('w \<Rightarrow> string option) \<Rightarrow> bool \<Rightarrow> ('w, 'q) img_state \<Rightarrow> ('w, 'q) img_state \<Rightarrow> bool"
  for weq customData migrated where
  im_data: "sd_step weq customData (imSd st) sd \<Longrightarrow> im_step weq customData migrated st (st\<lparr>imSd := sd\<rparr>)"
| im_support: "migrated \<Longrightarrow> im_step weq customData migrated st (im_upd_sd (sd_SetSupportCommand cmds) st)"
| im_set: "im_receive m st = (p, st1) \<Longrightarrow> im_SetAVMetaData env p st1 = (r, st') \<Longrightarrow> im_step weq customData migrated st st'"
| im_task: "im_step weq customData migrated st (im_run_task env st)"
| im_get: "im_GetAVMetaData env st = (r, p, st') \<Longrightarrow> im_step weq customData migrated st st'"
| im_ctrl_get: "cd_GetAVMetaData env c st = (r, p, st') \<Longrightarrow> im_step weq customData migrated st st'"
| im_files: "im_step weq customData migrated st (st\<lparr>imFiles := files\<rparr>)"

inductive im_reachable :: "('w \<Rightarrow> 'w \<Rightarrow> bool) \<Rightarrow> ('w \<Rightarrow> string option) \<Rightarrow> bool \<Rightarrow> ('w, 'q) img_state \<Rightarrow> bool"
  for weq customData migrated where
  im_new: "im_reachable weq customData migrated (new_img_state core files)"
| im_then: "im_reachable weq customData migrated st \<Longrightarrow> im_step weq customData migrated st st'
    \<Longrightarrow> im_reachable weq customData migrated st'"

section \<open>Events\<close>

definition front_of :: "('w, 'q) sd_event list \<Rightarrow> bool list" where
  "front_of es = List.map_filter (\<lambda>e. case e of UpdateSession _ b _ \<Rightarrow> Some b | _ \<Rightarrow> None) es"

lemma front_of_simps [simp]:
  "front_of [] = []"
  "front_of (es @ fs) = front_of es @ front_of fs"
  "front_of (UpdateSession s b u # es) = b # front_of es"
  "front_of (Told p l n # es) = front_of es"
  "front_of (Asked q # es) = front_of es"
  "front_of (AskedMigrate q # es) = front_of es"
  "front_of (AddAVQueueInfo # es) = front_of es"
  "front_of (MediaSession s b # es) = front_of es"
  "front_of (BgPlayModeChange s i # es) = front_of es"
  "front_of (NtfCapsule s # es) = front_of es"
  "front_of (UpdateTop s # es) = front_of es"
  "front_of (AudioScene b # es) = front_of es"
  "front_of (CtrlCmdEvent s i j # es) = front_of es"
  "front_of (StartLyric s # es) = front_of es"
  "front_of (LyricOperation s t # es) = front_of es"
  by (simp_all add: front_of_def map_filter_def)

lemma front_of_told [simp]: "front_of (map (\<lambda>(l, n). Told p l n) ns) = []"
  by (induction ns) auto

lemma front_of_tells [simp]:
  "front_of (concat (map (\<lambda>(pid, c). map (\<lambda>(l, n). Told pid l n) (h c)) cs)) = []"
  by (induction cs) auto

lemma sdEvents_log [simp]: "sdEvents (sd_log es sd) = sdEvents sd @ es"
  by (simp add: sd_log_def)

lemma sd_log_fields [simp]:
  "sdCore (sd_log es sd) = sdCore sd" "sdPlayback (sd_log es sd) = sdPlayback sd" "sdMeta (sd_log es sd) = sdMeta sd"
  "sdSupportedCmd (sd_log es sd) = sdSupportedCmd sd" "sdControllers (sd_log es sd) = sdControllers sd"
  "sdFirstAddToFront (sd_log es sd) = sdFirstAddToFront sd" "sdLyric (sd_log es sd) = sdLyric sd"
  "sdCallback (sd_log es sd) = sdCallback sd" "sdMigrate (sd_log es sd) = sdMigrate sd"
  "sdPlaying (sd_log es sd) = sdPlaying sd" "sdMediaChange (sd_log es sd) = sdMediaChange sd"
  "sdExtension (sd_log es sd) = sdExtension sd" "sdAppIndex (sd_log es sd) = sdAppIndex sd"
  "sdMediaKeySupport (sd_log es sd) = sdMediaKeySupport sd" "sd_log [] sd = sd"
  by (simp_all add: sd_log_def)

lemma sd_log_log [simp]: "sd_log fs (sd_log es sd) = sd_log (es @ fs) sd"
  by (simp add: sd_log_def)

text \<open>Operations that only log, nothing about the front.\<close>

definition sd_quiet :: "('w, 'q) sess_data \<Rightarrow> ('w, 'q) sess_data \<Rightarrow> bool" where
  "sd_quiet sd sd' \<longleftrightarrow> (\<exists>es. sd' = sd_log es sd \<and> front_of es = [] \<and> (\<forall>p l n. Told p l n \<notin> set es))"

lemma sd_quiet_refl [simp, intro]: "sd_quiet sd sd"
  by (auto simp: sd_quiet_def intro: exI [of _ "[]"])

lemma sd_quiet_log:
  assumes "sd_quiet sd sd'" and "front_of es = []" and "\<And>p l n. Told p l n \<notin> set es"
  shows "sd_quiet sd (sd_log es sd')"
proof -
  obtain es0 where "sd' = sd_log es0 sd" "front_of es0 = []" "\<forall>p l n. Told p l n \<notin> set es0"
    using assms(1) unfolding sd_quiet_def by blast
  with assms(2,3) show ?thesis unfolding sd_quiet_def by (intro exI [of _ "es0 @ es"]) simp
qed

lemma sd_quiet_events [intro!]:
  "sd_quiet sd sd' \<Longrightarrow> sd_quiet sd (sd_log [Asked q] sd')"
  "sd_quiet sd sd' \<Longrightarrow> sd_quiet sd (sd_log [AskedMigrate q] sd')"
  "sd_quiet sd sd' \<Longrightarrow> sd_quiet sd (sd_log [CtrlCmdEvent nm i j] sd')"
  "sd_quiet sd sd' \<Longrightarrow> sd_quiet sd (sd_log [UpdateTop nm] sd')"
  by (simp_all add: sd_quiet_log)

lemma sd_quiet_ask [intro!]:
  "sd_quiet sd sd' \<Longrightarrow> sd_quiet sd (sd_ask q sd')" "sd_quiet sd sd' \<Longrightarrow> sd_quiet sd (sd_ask_migrate q sd')"
  "sd_quiet sd sd' \<Longrightarrow> sd_quiet sd (sd_publish nm sd')"
  by (auto simp: sd_ask_def sd_ask_migrate_def sd_publish_def)

lemma sd_quiet_handlers:
  "sd_quiet sd (sd_HandleOnPlay cmd sd)" "sd_quiet sd (sd_HandleOnPause cmd sd)" "sd_quiet sd (sd_HandleOnStop cmd sd)"
  "sd_quiet sd (sd_HandleOnPlayNext cmd sd)" "sd_quiet sd (sd_HandleOnPlayPrevious cmd sd)"
  "sd_quiet sd (sd_HandleOnFastForward cmd sd)" "sd_quiet sd (sd_HandleOnRewind cmd sd)" "sd_quiet sd (sd_HandleOnSeek cmd sd)"
  "sd_quiet sd (sd_HandleOnSetSpeed cmd sd)" "sd_quiet sd (sd_HandleOnSetLoopMode cmd sd)"
  "sd_quiet sd (sd_HandleOnSetTargetLoopMode cmd sd)" "sd_quiet sd (sd_HandleOnToggleFavorite cmd sd)"
  "sd_quiet sd (sd_HandleOnPlayFromAssetId cmd sd)" "sd_quiet sd (sd_HandleOnPlayWithAssetId cmd sd)"
  "sd_quiet sd (sd_HandleOnAVCallAnswer cmd sd)" "sd_quiet sd (sd_HandleOnAVCallHangUp cmd sd)"
  "sd_quiet sd (sd_HandleOnAVCallToggleCallMute cmd sd)"
  by (auto simp: sd_handler_defs Let_def split: sum.splits)

lemma sd_quiet_cmdHandlers: "(code, h) \<in> set cmdHandlers \<Longrightarrow> sd_quiet sd (h cmd sd)"
  unfolding cmdHandlers_def by (auto simp: sd_quiet_handlers)

lemma sd_quiet_execute: "sd_ExecuteControllerCommand cr cmd sd = Some sd' \<Longrightarrow> sd_quiet sd sd'"
  by (auto simp: sd_ExecuteControllerCommand_def Let_def split: if_splits dest!: map_of_SomeD sd_quiet_cmdHandlers)

lemma sd_quiet_send:
  "cd_SendControlCommand cr callingPid cmd (Some sd, cl) = Some (r, Some sd', cl') \<Longrightarrow> sd_quiet sd sd'"
  by (auto simp: cd_SendControlCommand_def split: if_splits prod.splits dest: sd_quiet_execute)

lemma sd_quiet_keyEventCaller: "(key, h) \<in> set keyEventCaller \<Longrightarrow> sd_quiet sd (h cmd sd)"
  unfolding keyEventCaller_def by (auto simp: sd_quiet_handlers sd_HandleOnPlayOrPause_def)

lemma sd_quiet_key: "sd_quiet sd (sd_HandleMediaKeyEvent key info sd)"
  by (auto simp: sd_HandleMediaKeyEvent_def sd_PublishMediaKeyEvent_def split: option.splits if_splits
      dest!: map_of_SomeD sd_quiet_keyEventCaller)

lemma sd_quiet_others:
  "cd_SkipToQueueItem i (Some sd) = (r, Some sd') \<Longrightarrow> sd_quiet sd sd'"
  "cd_SendCommonCommand proxyRet callingPid s w (Some sd, cl) = (r, Some sd', cl') \<Longrightarrow> sd_quiet sd sd'"
  "cd_SendCustomData customData w (Some sd) = (r, Some sd') \<Longrightarrow> sd_quiet sd sd'"
  by (auto simp: cd_SkipToQueueItem_def sd_HandleSkipToQueueItem_def cd_SendCommonCommand_def sd_ExecueCommonCommand_def
      cd_SendCustomData_def sd_ExecuteCustomData_def split: if_splits prod.splits option.splits)

end
