(* ===== verification/SessionFront.thy ===== *)
theory SessionFront
  imports SessionReach
begin

text \<open>
  Invariants of a session's data: what the service is told about the session being in front, the
  commands that can be supported, and the state of the desktop lyric.
\<close>

section \<open>In front\<close>

text \<open>The service has been told in turn that the session comes to the front and leaves it.\<close>

definition sd_told_ok :: "('w, 'q) sess_data \<Rightarrow> bool" where
  "sd_told_ok sd \<longleftrightarrow> (\<exists>n. front_of (sdEvents sd) = map even [0..<n] \<and> (odd n \<longleftrightarrow> \<not> sdFirstAddToFront sd))"

definition sd_front_ok :: "('w, 'q) sess_data \<Rightarrow> bool" where
  "sd_front_ok sd \<longleftrightarrow> (sdFirstAddToFront sd \<longleftrightarrow> sd_meta_empty sd \<or> sdSupportedCmd sd = [])"

definition sd_same_front :: "('w, 'q) sess_data \<Rightarrow> ('w, 'q) sess_data \<Rightarrow> bool" where
  "sd_same_front sd sd' \<longleftrightarrow> front_of (sdEvents sd') = front_of (sdEvents sd)
     \<and> sdFirstAddToFront sd' = sdFirstAddToFront sd \<and> sdSupportedCmd sd' = sdSupportedCmd sd"

definition sd_same_content :: "('w, 'q) sess_data \<Rightarrow> ('w, 'q) sess_data \<Rightarrow> bool" where
  "sd_same_content sd sd' \<longleftrightarrow> sd_same_front sd sd' \<and> sdMeta sd' = sdMeta sd"

lemmas sd_same_defs = sd_same_front_def sd_same_content_def sd_meta_empty_def

lemma sd_same_front_ok: "sd_same_front sd sd' \<Longrightarrow> sd_told_ok sd \<Longrightarrow> sd_told_ok sd'"
  by (simp add: sd_same_front_def sd_told_ok_def)

definition sd_held :: "('w, 'q) sess_data \<Rightarrow> bool" where
  "sd_held sd \<longleftrightarrow> sd_told_ok sd \<and> sd_front_ok sd"

lemma sd_same_content_ok: "sd_same_content sd sd' \<Longrightarrow> sd_held sd \<Longrightarrow> sd_held sd'"
  by (auto simp: sd_held_def sd_same_content_def sd_same_front_ok)
    (simp add: sd_front_ok_def sd_same_front_def sd_meta_empty_def)

lemma sd_quiet_content: "sd_quiet sd sd' \<Longrightarrow> sd_same_content sd sd'"
  by (auto simp: sd_quiet_def sd_same_defs)

lemma sd_front_ok_handle:
  assumes "sd_told_ok sd"
  shows "sd_held (sd_HandleFrontSession sd)"
proof -
  obtain n where n: "front_of (sdEvents sd) = map even [0..<n]" "odd n \<longleftrightarrow> \<not> sdFirstAddToFront sd"
    using assms by (auto simp: sd_told_ok_def)
  show ?thesis
    using n unfolding sd_HandleFrontSession_def
    by (auto simp: sd_held_def sd_told_ok_def sd_front_ok_def sd_meta_empty_def intro: exI [of _ n] exI [of _ "Suc n"])
qed

lemma sd_held_tell [simp]: "sd_held (sd_tell h sd) = sd_held sd"
  by (simp add: sd_held_def sd_told_ok_def sd_front_ok_def sd_tell_def sd_meta_empty_def)

lemma sd_held_support:
  assumes "sd_told_ok sd"
  shows "sd_held (sd_HandleFrontSession (sd\<lparr>sdSupportedCmd := cmds\<rparr>))"
proof -
  have "sd_told_ok (sd\<lparr>sdSupportedCmd := cmds\<rparr>)" using assms by (simp add: sd_told_ok_def)
  from sd_front_ok_handle [OF this] show ?thesis by simp
qed

lemma sd_held_commands:
  assumes "sd_held sd"
  shows "sd_AddSupportCommand cmd sd = (r, sd') \<Longrightarrow> sd_held sd'"
    and "sd_DeleteSupportCommand cmd sd = (r, sd') \<Longrightarrow> sd_held sd'"
proof -
  have told: "sd_told_ok sd" using assms by (simp add: sd_held_def)
  have key: "sd_held (sd\<lparr>sdMediaKeySupport := b\<rparr>)" for b
    using assms by (rule sd_same_content_ok [rotated]) (simp add: sd_same_defs)
  show "sd_AddSupportCommand cmd sd = (r, sd') \<Longrightarrow> sd_held sd'"
    using assms key sd_held_support [OF told] by (auto simp: sd_AddSupportCommand_def Let_def split: if_splits)
  show "sd_DeleteSupportCommand cmd sd = (r, sd') \<Longrightarrow> sd_held sd'"
    using assms key sd_held_support [OF told] by (auto simp: sd_DeleteSupportCommand_def Let_def split: if_splits)
qed

lemma sd_content_playback: "sd_SetAVPlaybackState weq state sd = (r, sd') \<Longrightarrow> sd_same_content sd sd'"
  by (auto simp: sd_SetAVPlaybackState_def sd_CheckIfSendCapsule_def sd_queue_info_def sd_tell_def sd_same_defs
      Let_def split: prod.splits if_splits)

lemma sd_content_ops:
  "sd_same_content sd (sd_capsule_task sd)"
  "sd_SetAVQueueItems xs sd = (r, sd') \<Longrightarrow> sd_same_content sd sd'"
  "sd_SetAVQueueTitle t sd = (r, sd') \<Longrightarrow> sd_same_content sd sd'"
  "sd_SendCustomData customData w sd = (r, sd') \<Longrightarrow> sd_same_content sd sd'"
  "sd_SetSessionEvent ev w sd = (r, sd') \<Longrightarrow> sd_same_content sd sd'"
  "sd_Activate sd = (r, sd') \<Longrightarrow> sd_same_content sd sd'"
  "sd_Deactivate sd = (r, sd') \<Longrightarrow> sd_same_content sd sd'"
  "sd_SetMediaCenterControlType is sd = (r, sd') \<Longrightarrow> sd_same_content sd sd'"
  "sd_SetSupportedPlaySpeeds ds sd = (r, sd') \<Longrightarrow> sd_same_content sd sd'"
  "sd_SetSupportedLoopModes is sd = (r, sd') \<Longrightarrow> sd_same_content sd sd'"
  "sd_same_content sd (sd_SetDesktopLyricFeatureSupported b sd)"
  "sd_EnableDesktopLyric b sd = (r, sd') \<Longrightarrow> sd_same_content sd sd'"
  "sd_SetDesktopLyricVisibleInner ok b hdl sd = (r, sd') \<Longrightarrow> sd_same_content sd sd'"
  "sd_SetDesktopLyricStateInner b hdl sd = (r, sd') \<Longrightarrow> sd_same_content sd sd'"
  "sd_SetBackgroundPlayMode mode sd = (r, sd') \<Longrightarrow> sd_same_content sd sd'"
  "sd_RegisterCallbackInner b sd = (r, sd') \<Longrightarrow> sd_same_content sd sd'"
  "sd_same_content sd (sd_RegisterAVSessionCallback b sd)"
  "sd_AddController pid c sd = (r, sd') \<Longrightarrow> sd_same_content sd sd'"
  "sd_same_content sd (sd_HandleControllerRelease pid sd)"
  "sd_same_content sd (sd_on_controller pid f sd)"
  by (auto simp: sd_op_defs sd_capsule_task_def sd_on_controller_def sd_tell_def sd_same_defs Let_def
      split: option.splits if_splits)

lemma sd_content_quiet:
  "cd_SendControlCommand cr callingPid cmd (Some sd, cl) = Some (r, Some sd', cl') \<Longrightarrow> sd_same_content sd sd'"
  "sd_ExecuteControllerCommand cr cmd sd = Some sd' \<Longrightarrow> sd_same_content sd sd'"
  "sd_same_content sd (sd_HandleMediaKeyEvent key info sd)"
  "cd_SkipToQueueItem i (Some sd) = (r, Some sd') \<Longrightarrow> sd_same_content sd sd'"
  "cd_SendCommonCommand proxyRet callingPid s w (Some sd, cl) = (r, Some sd', cl') \<Longrightarrow> sd_same_content sd sd'"
  "cd_SendCustomData customData w (Some sd) = (r, Some sd') \<Longrightarrow> sd_same_content sd sd'"
  by (blast intro: sd_quiet_content sd_quiet_send sd_quiet_execute sd_quiet_key sd_quiet_others)+

text \<open>Every step but those on the supported commands leaves what decides about the front.\<close>

lemma sd_step_cases_content:
  assumes "sd_step weq customData sd sd'"
  obtains (content) "sd_same_content sd sd'"
    | (add) cmd r where "sd_AddSupportCommand cmd sd = (r, sd')"
    | (delete) cmd r where "sd_DeleteSupportCommand cmd sd = (r, sd')"
  using assms
  by (cases rule: sd_step.cases)
    (metis sd_content_playback sd_content_ops sd_content_quiet)+

lemma sd_held_step: "sd_step weq customData sd sd' \<Longrightarrow> sd_held sd \<Longrightarrow> sd_held sd'"
  by (erule sd_step_cases_content) (blast intro: sd_same_content_ok sd_held_commands)+

section \<open>Metadata and the front\<close>

lemma imSd_images [simp]:
  "imSd (im_set_buffer a buf st) = imSd st" "imSd (im_clear p st) = imSd st" "imSd (im_write env a d nm st) = imSd st"
  "imSd (im_read env p d nm st) = imSd st" "imSd (im_ReadMetaDataImg env p st) = imSd st"
  "imSd (im_ReadMetaDataAVQueueImg env p st) = imSd st" "imSd (im_store_queue env m st) = imSd st"
  by (simp_all add: im_set_buffer_def im_clear_def im_write_def im_read_def im_ReadMetaDataImg_def
      im_ReadMetaDataAVQueueImg_def im_store_queue_def Let_def split: option.splits)

lemma imSd_alloc: "im_alloc i st = (a, st') \<Longrightarrow> imSd st' = imSd st"
  "im_alloc_option oi st = (oa, st') \<Longrightarrow> imSd st' = imSd st" "im_receive m st = (p, st') \<Longrightarrow> imSd st' = imSd st"
  by (auto simp: im_alloc_def im_alloc_option_def im_receive_def split: option.splits prod.splits)

lemma imSd_set_meta [simp]: "imSd (im_set_meta p st) = (imSd st)\<lparr>sdMeta := pm_load (imHeap st) p\<rparr>"
  by (simp add: im_set_meta_def)

lemma imSd_upd [simp]: "imSd (im_upd_sd f st) = f (imSd st)"
  by (simp add: im_upd_sd_def)

lemma im_front_read: "sd_same_front (imSd st) (imSd (im_ReadMediaAndAVQueueImg env filt m st))"
  by (simp add: im_ReadMediaAndAVQueueImg_def sd_same_defs Let_def)

lemma im_front_store: "sd_same_front (imSd st) (imSd (im_store_media env u st))"
  by (auto simp: im_store_media_def sd_same_defs Let_def dest!: imSd_alloc split: option.splits prod.splits)

lemma sd_same_front_trans: "sd_same_front a b \<Longrightarrow> sd_same_front b c \<Longrightarrow> sd_same_front a c"
  by (simp add: sd_same_front_def)

lemma im_front_update: "sd_same_front (imSd st) (imSd (im_UpdateMetaData env m st))"
proof -
  have "sd_same_front (imSd st) (imSd (im_set_meta p (im_upd_sd f st)))" "sd_same_front (imSd st) (imSd (im_set_meta p st))"
    if "f = (\<lambda>sd. sd\<lparr>sdMediaChange := True, sdLyricTitle := t\<rparr>)" for p f t
    using that by (simp_all add: sd_same_defs)
  note this [OF refl, THEN sd_same_front_trans, OF im_front_store]
  then show ?thesis by (auto simp: im_UpdateMetaData_def Let_def sd_same_defs split: prod.splits)
qed

lemma im_held_check:
  assumes "sd_told_ok (imSd st)"
  shows "sd_held (imSd (im_CheckUseAVMetaData env m st))"
proof -
  have queue: "sd_held (sd_queue_info sd) = sd_held sd" for sd :: "('a, 'b) sess_data"
    by (simp add: sd_held_def sd_told_ok_def sd_front_ok_def sd_queue_info_def sd_meta_empty_def)
  have "sd_told_ok (sd_log [NtfCapsule s] sd\<lparr>sdMediaChange := b\<rparr>) = sd_told_ok sd" for s b and sd :: "('a, 'b) sess_data"
    by (simp add: sd_told_ok_def)
  with assms show ?thesis
    by (auto simp: im_CheckUseAVMetaData_def Let_def queue sd_front_ok_handle)
qed

lemma im_held_set:
  assumes "sd_told_ok (imSd st)" and "im_SetAVMetaData env m st = (r, st')"
  shows "sd_held (imSd st')"
  using assms im_front_read im_front_update im_held_check
  by (auto simp: im_SetAVMetaData_def Let_def intro!: im_held_check sd_same_front_ok [OF im_front_update]
      sd_same_front_ok [OF im_front_read] split: if_splits)

lemma im_read_img:
  assumes "cd_ReadImgForMetaData env data st = (p, st')"
  shows "imSd st' = imSd st"
proof -
  obtain a st1 where a: "im_alloc new_pixel_map st = (a, st1)" by fastforce
  show ?thesis using assms imSd_alloc(1) [OF a]
    by (auto simp: cd_ReadImgForMetaData_def a Let_def split: if_splits)
qed

lemma im_content_get:
  "im_GetAVMetaData env st = (r, p, st') \<Longrightarrow> sd_same_content (imSd st) (imSd st')"
  "cd_GetAVMetaData env c st = (r, p, st') \<Longrightarrow> sd_same_content (imSd st) (imSd st')"
proof -
  show "im_GetAVMetaData env st = (r, p, st') \<Longrightarrow> sd_same_content (imSd st) (imSd st')"
    by (auto simp: im_GetAVMetaData_def sd_same_defs Let_def)
  obtain d st1 where d: "cd_ReadImgForMetaData env (imMeta st) st = (d, st1)" by fastforce
  show "cd_GetAVMetaData env c st = (r, p, st') \<Longrightarrow> sd_same_content (imSd st) (imSd st')"
    using im_read_img [OF d] by (auto simp: cd_GetAVMetaData_def d sd_same_defs split: if_splits)
qed

lemma imSd_fill: "im_fill_images env c out st = (out', st') \<Longrightarrow> imSd st' = imSd st"
  "im_image_or_uri c out st = (out', st') \<Longrightarrow> imSd st' = imSd st"
  by (auto simp: im_fill_images_def im_image_or_uri_def split: if_splits)

lemma im_content_tell: "sd_same_content sd (imSd (im_tell pid m c st)) = sd_same_content sd (imSd st)"
  by (simp add: im_tell_def sd_same_defs)

lemma im_content_handle: "sd_same_content (imSd st) (imSd (im_HandleMetaDataChange env data msk pid c st))"
proof -
  let ?mask = "if cdMetaMask c = -1 then cdMetaMask c else msk AND cdMetaMask c"
  let ?asset = "\<lambda>out :: pmeta. out\<lparr>pmData := meta_SetAssetId (assetId (pmData data)) (pmData out)\<rparr>"
  obtain ok out where copy: "pm_CopyToByMask ?mask data new_pmeta = (ok, out)" by fastforce
  obtain out1 st1 where fill: "im_fill_images env c out st = (out1, st1)" by fastforce
  obtain out2 st2 where img: "im_image_or_uri c (?asset out1) st1 = (out2, st2)" by fastforce
  have "imSd st2 = imSd st" using imSd_fill(1) [OF fill] imSd_fill(2) [OF img] by simp
  moreover have "sd_same_content sd sd" for sd :: "('a, 'b) sess_data" by (simp add: sd_same_defs)
  ultimately show ?thesis
    by (cases ok) (simp_all add: im_HandleMetaDataChange_def Let_def copy fill img im_content_tell)
qed

lemma im_content_task: "sd_same_content (imSd st) (imSd (im_run_task env st))"
proof -
  have trans: "sd_same_content a b \<Longrightarrow> sd_same_content b c \<Longrightarrow> sd_same_content a c" for a b c :: "('a, 'b) sess_data"
    by (simp add: sd_same_defs)
  have "sd_same_content (imSd st) (imSd (foldl (\<lambda>st (pid, c). im_HandleMetaDataChange env data msk pid c st) st cs))"
    for data msk cs and st :: "('a, 'b) img_state"
  proof (induction cs arbitrary: st)
    case (Cons e cs)
    then show ?case using im_content_handle trans by (cases e) (simp, blast)
  qed (simp add: sd_same_defs)
  then show ?thesis
    by (auto simp: im_run_task_def im_tell_all_def Let_def sd_same_defs split: list.splits prod.splits)
qed

lemma sd_held_im_step:
  assumes "im_step weq customData migrated st st'" and "sd_held (imSd st)"
  shows "sd_held (imSd st')"
  using assms(1)
proof cases
  case (im_support cmds)
  then show ?thesis using assms(2) sd_held_support [of "imSd st"] by (simp add: sd_SetSupportCommand_def sd_held_def [of "imSd st"])
next
  case (im_set m p st1 env r)
  from assms(2) have "sd_told_ok (imSd st1)" using imSd_alloc(3) [OF im_set(1)] by (simp add: sd_held_def)
  from this im_set(2) show ?thesis by (rule im_held_set)
qed (use assms(2) in \<open>auto intro: sd_held_step sd_same_content_ok im_content_get im_content_task\<close>)

lemma sd_held_reachable: "im_reachable weq customData migrated st \<Longrightarrow> sd_held (imSd st)"
proof (induction rule: im_reachable.induct)
  case (im_new core files)
  show ?case by (simp add: sd_held_def sd_told_ok_def sd_front_ok_def new_img_state_def new_sess_data_def
        sd_meta_empty_def new_avmeta_def)
qed (rule sd_held_im_step)

text \<open>C14: whatever the application, the controllers, the media keys and a migration do, in any order,
  the service has been told that the session comes to the front and leaves it in strict
  alternation, starting with the front, and the last thing it was told is that the session is in
  front exactly if the session now has a title or an image and supports some command.\<close>

theorem sd_front_in_step:
  assumes "im_reachable weq customData migrated st"
  shows "\<exists>n. front_of (sdEvents (imSd st)) = map even [0..<n]
    \<and> (odd n \<longleftrightarrow> \<not> sd_meta_empty (imSd st) \<and> sdSupportedCmd (imSd st) \<noteq> [])"
  using sd_held_reachable [OF assms] unfolding sd_held_def sd_told_ok_def sd_front_ok_def by blast

theorem sd_front_in_step_witness:
  "\<exists>st :: (nat, nat) img_state. sdSupportedCmd (imSd st) = [SESSION_CMD_PLAY]
     \<and> (\<exists>n. front_of (sdEvents (imSd st)) = map even [0..<n]
         \<and> (odd n \<longleftrightarrow> \<not> sd_meta_empty (imSd st) \<and> sdSupportedCmd (imSd st) \<noteq> []))"
proof -
  let ?st = "new_img_state new_session (\<lambda>_. None) :: (nat, nat) img_state"
  let ?sd = "snd (sd_AddSupportCommand SESSION_CMD_PLAY (imSd ?st))"
  have "im_reachable (=) (\<lambda>_. None) False (?st\<lparr>imSd := ?sd\<rparr>)"
    by (rule im_then [OF im_new im_data [OF st_add]]) (rule prod.collapse [symmetric])
  note sd_front_in_step [OF this]
  moreover have "sdSupportedCmd ?sd = [SESSION_CMD_PLAY]"
    by (simp add: sd_AddSupportCommand_def new_img_state_def new_sess_data_def sd_tell_def sd_HandleFrontSession_def
        sd_meta_empty_def new_avmeta_def Let_def)
  ultimately show ?thesis by (intro exI [of _ "?st\<lparr>imSd := ?sd\<rparr>"]) simp
qed

end
