(* ===== verification/SessionMirror.thy ===== *)
theory SessionMirror
  imports SessionFront
begin

text \<open>
  What a controller's client knows of a session: it is told the changed fields of the playback
  state within its filter, and by copying them into its own it keeps an image of the session's.
  Also the desktop lyric, whose flags a new user of the feature must not inherit.
\<close>

section \<open>The client's image of the playback state\<close>

text \<open>The client of the process \<open>pid\<close> copies what its callback receives into its own object.\<close>

definition sd_client_step :: "int \<Rightarrow> ('w, 'q) sd_event \<Rightarrow> 'w playback_state \<Rightarrow> 'w playback_state" where
  "sd_client_step pid e s = (case e of
     Told p l n \<Rightarrow> if p = pid \<and> l = Client
       then (case n of OnPlaybackStateChange t \<Rightarrow> snd (ps_CopyFrom t s) | _ \<Rightarrow> s) else s
   | _ \<Rightarrow> s)"

definition sd_client_view :: "int \<Rightarrow> ('w, 'q) sd_event list \<Rightarrow> 'w playback_state \<Rightarrow> 'w playback_state" where
  "sd_client_view pid es s = fold (sd_client_step pid) es s"

text \<open>Two playback states agree on the fields of a filter.\<close>

definition ps_agree :: "14 word \<Rightarrow> 'w playback_state \<Rightarrow> 'w playback_state \<Rightarrow> bool" where
  "ps_agree f a b \<longleftrightarrow> (\<forall>k < PLAYBACK_KEY_MAX. bit f k \<longrightarrow> ps_fields a ! k = ps_fields b ! k)"

lemma client_view_append [simp]: "sd_client_view pid (es @ fs) s = sd_client_view pid fs (sd_client_view pid es s)"
  by (simp add: sd_client_view_def)

lemma client_view_Nil [simp]: "sd_client_view pid [] s = s"
  by (simp add: sd_client_view_def)

lemma client_step_other:
  assumes "\<And>p l t. e \<noteq> Told p l (OnPlaybackStateChange t)"
  shows "sd_client_step pid e s = s"
proof (cases e)
  case (Told p l n)
  with assms show ?thesis by (cases n) (auto simp: sd_client_step_def)
qed (simp_all add: sd_client_step_def)

lemma client_view_other:
  assumes "\<And>p l t. Told p l (OnPlaybackStateChange t) \<notin> set es"
  shows "sd_client_view pid es s = s"
  using assms
proof (induction es arbitrary: s)
  case (Cons e es)
  have "sd_client_step pid e s = s" using Cons.prems by (intro client_step_other) auto
  moreover have "sd_client_view pid es s = s" using Cons.prems by (intro Cons.IH) simp
  ultimately show ?case by (simp add: sd_client_view_def)
qed simp

lemma ps_copied_fields:
  assumes "k < PLAYBACK_KEY_MAX"
  shows "ps_fields (snd (ps_CopyFrom t s)) ! k = (if bit (psMask t) k then ps_fields t ! k else ps_fields s ! k)"
proof -
  obtain r s' where "ps_CopyFrom t s = (r, s')" by fastforce
  with ps.copy_keys(1) [OF this [unfolded ps_CopyFrom_def] assms] show ?thesis by simp
qed

lemma ps_copy_result: "fst (ps_CopyFrom t s) \<longleftrightarrow> psMask t \<noteq> 0"
proof -
  obtain r s' where c: "ps_CopyFrom t s = (r, s')" by fastforce
  have "0 < PLAYBACK_KEY_MAX" by (simp add: PLAYBACK_KEY_MAX_def)
  from ps.copy_keys(3) [OF c [unfolded ps_CopyFrom_def] this] c show ?thesis by simp
qed

lemma ps_extract:
  assumes "ps_CopyToByMask m t new_playback_state = (ok, out)"
  shows "ok \<longleftrightarrow> psMask t AND m \<noteq> 0" and "psMask out = psMask t AND m"
    and "k < PLAYBACK_KEY_MAX \<Longrightarrow> bit (psMask t AND m) k \<Longrightarrow> ps_fields out ! k = ps_fields t ! k"
proof -
  note c = assms [unfolded ps_CopyToByMask_def]
  have pos: "0 < PLAYBACK_KEY_MAX" by (simp add: PLAYBACK_KEY_MAX_def)
  show "ok \<longleftrightarrow> psMask t AND m \<noteq> 0" using ps.copy_keys(3) [OF c pos] .
  show "psMask out = psMask t AND m" using ps.copy_mask_or [OF c] by (simp add: new_playback_state_def)
  show "k < PLAYBACK_KEY_MAX \<Longrightarrow> bit (psMask t AND m) k \<Longrightarrow> ps_fields out ! k = ps_fields t ! k"
    using ps.copy_keys(1) [OF c] by simp
qed

text \<open>The handler of a controller sends at most one change to its client.\<close>

lemma client_view_handler:
  assumes "cdCallback c" and "ps_CopyToByMask m t new_playback_state = (ok, out)"
    and "m = (if cdPlaybackMask c = -1 then cdPlaybackMask c else changed AND cdPlaybackMask c)"
  shows "sd_client_view pid (map (\<lambda>(l, n). Told pid l n) (cd_HandlePlaybackStateChange t changed c)) s
    = (if ok then snd (ps_CopyFrom out s) else s)"
proof -
  have mig: "sd_client_view pid (map (\<lambda>(l, n). Told pid l n) (map (\<lambda>p. (Migrate p, n)) ps)) s = s"
    for ps and n :: "('a, 'b) notice" and s :: "'a playback_state"
    by (induction ps) (auto simp: sd_client_view_def sd_client_step_def)
  show ?thesis
    using assms mig
    by (simp add: cd_HandlePlaybackStateChange_def Let_def cd_client_def cd_inner_def cd_migrate_def)
      (simp add: sd_client_view_def sd_client_step_def)
qed

lemma client_view_tell:
  fixes h :: "ctrl_data \<Rightarrow> (listener \<times> ('w, 'q) notice) list"
  assumes "distinct (map fst cs)"
  shows "sd_client_view pid (concat (map (\<lambda>(p, c). map (\<lambda>(l, n). Told p l n) (h c)) cs)) s
    = (case map_of cs pid of None \<Rightarrow> s
       | Some c \<Rightarrow> sd_client_view pid (map (\<lambda>(l, n). Told pid l n) (h c)) s)"
proof -
  have skip: "sd_client_view pid (map (\<lambda>(l, n). Told p l n) ns) s = s" if "pid \<noteq> p"
    for p and ns :: "(listener \<times> ('w, 'q) notice) list" and s
    using that by (induction ns) (auto simp: sd_client_view_def sd_client_step_def)
  show ?thesis using assms
  proof (induction cs arbitrary: s)
    case (Cons e cs)
    obtain p c where e: "e = (p, c)" by fastforce
    have none: "p = pid \<Longrightarrow> map_of cs pid = None" using Cons.prems e by (auto simp: map_of_eq_None_iff)
    show ?case using Cons.prems e none by (auto simp: Cons.IH skip split: option.splits)
  qed simp
qed

section \<open>Steps that keep a controller\<close>

text \<open>Runs in which the process \<open>pid\<close> keeps the controller \<open>c\<close>, with its filter.\<close>

inductive sd_watched :: "('w \<Rightarrow> string option) \<Rightarrow> int \<Rightarrow> ctrl_data \<Rightarrow> ('w, 'q) sess_data \<Rightarrow> ('w, 'q) sess_data \<Rightarrow> bool"
  for customData pid c sd where
  wa_start: "map_of (sdControllers sd) pid = Some c \<Longrightarrow> sd_watched customData pid c sd sd"
| wa_step: "sd_watched customData pid c sd sd' \<Longrightarrow> sd_step (=) customData sd' sd''
    \<Longrightarrow> map_of (sdControllers sd'') pid = Some c \<Longrightarrow> sd_watched customData pid c sd sd''"

text \<open>The filter of the session covers the filter of each of its controllers.\<close>

lemma playback_filter_covers:
  assumes "map_of (sdControllers sd) pid = Some c" and "cdPlaybackMask c \<noteq> -1" and "bit (cdPlaybackMask c) k"
  shows "bit (sd_GetControlItemsPlaybackFilter sd) k"
proof -
  let ?f = "\<lambda>(pid, c) filt. if cdPlaybackMask c \<noteq> -1 then filt OR cdPlaybackMask c else filt"
  have keep: "bit w k \<Longrightarrow> bit (fold ?f cs w) k" for cs :: "(int \<times> ctrl_data) list" and w
    by (induction cs arbitrary: w) (auto simp: bit_or_iff)
  have "bit (fold ?f cs w) k" if "(pid, c) \<in> set cs" for cs w
    using that assms(2,3) keep by (induction cs arbitrary: w) (auto simp: bit_or_iff)
  with assms(1) show ?thesis unfolding sd_GetControlItemsPlaybackFilter_def by (blast dest: map_of_SomeD)
qed

text \<open>A field that the check finds unchanged is equal.\<close>

lemma ps_same_field: "\<not> ps_differs (=) x y \<Longrightarrow> x = y"
proof (cases x)
  case (PExt a)
  then show "\<not> ps_differs (=) x y \<Longrightarrow> x = y" by (cases y; cases a; cases "case y of PExt b \<Rightarrow> b | _ \<Rightarrow> None") auto
qed (cases y; auto dest: dbl_eq_sound)+

lemma events_before_telling:
  "\<exists>es. sdEvents (sd_CheckIfSendCapsule t (sd_queue_info sd)) = sdEvents sd @ es \<and> (\<forall>p l n. Told p l n \<notin> set es)"
proof -
  have capsule: "\<exists>es. sdEvents (sd_CheckIfSendCapsule t s) = sdEvents s @ es \<and> (\<forall>p l n. Told p l n \<notin> set es)"
    for s :: "('a, 'b) sess_data"
    by (simp add: sd_CheckIfSendCapsule_def)
  have "\<exists>es. sdEvents (sd_queue_info sd) = sdEvents sd @ es \<and> (\<forall>p l n. Told p l n \<notin> set es)"
    by (simp add: sd_queue_info_def)
  then obtain es where es: "sdEvents (sd_queue_info sd) = sdEvents sd @ es" "\<forall>p l n. Told p l n \<notin> set es"
    by blast
  obtain fs where fs: "sdEvents (sd_CheckIfSendCapsule t (sd_queue_info sd)) = sdEvents (sd_queue_info sd) @ fs"
      "\<forall>p l n. Told p l n \<notin> set fs"
    using capsule by blast
  from es fs show ?thesis by (intro exI [of _ "es @ fs"]) simp
qed

lemma playback_step_agrees:
  assumes "sd_SetAVPlaybackState (=) t sd = (r, sd')" and "map_of (sdControllers sd) pid = Some c"
    and "distinct (map fst (sdControllers sd))" and "cdCallback c" and "ps_agree (cdPlaybackMask c) s (sdPlayback sd)"
  shows "\<exists>es. sdEvents sd' = sdEvents sd @ es \<and> ps_agree (cdPlaybackMask c) (sd_client_view pid es s) (sdPlayback sd')"
proof -
  let ?f = "cdPlaybackMask c" and ?filt = "sd_GetControlItemsPlaybackFilter sd"
  let ?changed = "if ?filt \<noteq> 0 then ps_GetChangedStateMask (=) ?filt (sdPlayback sd) t else 0"
  let ?m = "if ?f = -1 then ?f else ?changed AND ?f"
  let ?tell = "\<lambda>sd :: ('a, 'b) sess_data. concat (map (\<lambda>(pid, c). map (\<lambda>(l, n). Told pid l n)
    (cd_HandlePlaybackStateChange t ?changed c)) (sdControllers sd))"
  obtain ok p where p: "ps_CopyFrom t (sdPlayback sd) = (ok, p)" by fastforce
  have ok: "ok \<longleftrightarrow> psMask t \<noteq> 0" and fields: "\<And>k. k < PLAYBACK_KEY_MAX \<Longrightarrow>
      ps_fields p ! k = (if bit (psMask t) k then ps_fields t ! k else ps_fields (sdPlayback sd) ! k)"
    using ps_copy_result [of t "sdPlayback sd"] ps_copied_fields [of _ t "sdPlayback sd"] p by simp_all
  define m where m: "m = ?m"
  obtain sent out where out: "ps_CopyToByMask m t new_playback_state = (sent, out)" by fastforce
  have field: "ps_fields (if sent then snd (ps_CopyFrom out s) else s) ! k = ps_fields p ! k"
    if k: "k < PLAYBACK_KEY_MAX" "bit ?f k" for k
  proof (cases "bit (psMask t AND m) k")
    case True
    then have "sent" using ps_extract(1) [OF out] by auto
    with True k show ?thesis
      using ps_copied_fields [OF k(1), of out s] ps_extract(2,3) [OF out] fields [OF k(1)] by (auto simp: bit_and_iff)
  next
    case False
    have "\<not> (sent \<and> bit (psMask out) k)" using False ps_extract(2) [OF out] by simp
    then have "ps_fields (if sent then snd (ps_CopyFrom out s) else s) ! k = ps_fields (sdPlayback sd) ! k"
      using ps_copied_fields [OF k(1), of out s] assms(5) k by (auto simp: ps_agree_def)
    moreover have "ps_fields t ! k = ps_fields (sdPlayback sd) ! k" if "bit (psMask t) k"
    proof -
      have "?f \<noteq> -1" and unchanged: "\<not> bit ?changed k"
        using False that k(2) unfolding m by (auto simp: bit_and_iff split: if_splits)
      then have "bit ?filt k" using playback_filter_covers assms(2) k(2) by blast
      then have "?filt \<noteq> 0" by auto
      with unchanged \<open>bit ?filt k\<close> k(1) show ?thesis
        by (intro ps_same_field) (auto simp: ps_GetChangedStateMask_def bit_simps ps_check_fields)
    qed
    ultimately show ?thesis using fields [OF k(1)] by simp
  qed
  show ?thesis
  proof (cases ok)
    case False
    with assms(1) p have "sd' = sd\<lparr>sdPlayback := p, sdCore := (sdCore sd)\<lparr>siPlaybackState := sint (psState p)\<rparr>\<rparr>"
      by (simp add: sd_SetAVPlaybackState_def Let_def)
    moreover have "psMask t = 0" using False ok by simp
    ultimately show ?thesis using assms(5) fields by (auto simp: ps_agree_def intro: exI [of _ "[]"])
  next
    case True
    let ?sd1 = "sd_CheckIfSendCapsule t (sd_queue_info (sd\<lparr>sdPlayback := p,
      sdCore := (sdCore sd)\<lparr>siPlaybackState := sint (psState p)\<rparr>\<rparr>))"
    have "sd' = sd_tell (cd_HandlePlaybackStateChange t ?changed) ?sd1"
      using assms(1) p True by (simp add: sd_SetAVPlaybackState_def Let_def)
    moreover obtain es0 where es0: "sdEvents ?sd1 = sdEvents sd @ es0" "\<And>p l n. Told p l n \<notin> set es0"
      using events_before_telling [of t "sd\<lparr>sdPlayback := p, sdCore := (sdCore sd)\<lparr>siPlaybackState := sint (psState p)\<rparr>\<rparr>"]
      by auto
    moreover have "sdControllers ?sd1 = sdControllers sd" "sdPlayback ?sd1 = p"
      by (simp_all add: sd_CheckIfSendCapsule_def sd_queue_info_def)
    ultimately have "sdEvents sd' = sdEvents sd @ es0 @ ?tell sd" "sdPlayback sd' = p" by (simp_all add: sd_tell_def)
    moreover have "sd_client_view pid (?tell sd) s = (if sent then snd (ps_CopyFrom out s) else s)"
      by (simp only: client_view_tell [OF assms(3)] assms(2) option.case client_view_handler [OF assms(4) out m])
    moreover have "sd_client_view pid es0 s = s" by (rule client_view_other) (use es0(2) in simp)
    ultimately have "sd_client_view pid (es0 @ ?tell sd) s = (if sent then snd (ps_CopyFrom out s) else s)"
        "sdEvents sd' = sdEvents sd @ es0 @ ?tell sd" "sdPlayback sd' = p"
      by (simp_all only: client_view_append)
    then show ?thesis
      using field by (intro exI [of _ "es0 @ ?tell sd"]) (simp add: ps_agree_def)
  qed
qed

section \<open>The other steps\<close>

definition sd_no_state :: "('w, 'q) sess_data \<Rightarrow> ('w, 'q) sess_data \<Rightarrow> bool" where
  "sd_no_state sd sd' \<longleftrightarrow> sdPlayback sd' = sdPlayback sd
     \<and> (\<exists>es. sdEvents sd' = sdEvents sd @ es \<and> (\<forall>p l t. Told p l (OnPlaybackStateChange t) \<notin> set es))"

lemma no_state_same: "sdPlayback sd' = sdPlayback sd \<Longrightarrow> sdEvents sd' = sdEvents sd \<Longrightarrow> sd_no_state sd sd'"
  by (auto simp: sd_no_state_def intro: exI [of _ "[]"])

lemma no_state_trans: "sd_no_state a b \<Longrightarrow> sd_no_state b c \<Longrightarrow> sd_no_state a c"
  unfolding sd_no_state_def by fastforce

lemma no_state_log [intro]:
  "sd_no_state a b \<Longrightarrow> (\<And>p l t. Told p l (OnPlaybackStateChange t) \<notin> set es) \<Longrightarrow> sd_no_state a (sd_log es b)"
  by (erule no_state_trans) (auto simp: sd_no_state_def)

lemma no_state_tell [intro]:
  assumes "sd_no_state a b" and "\<And>c l t. (l, OnPlaybackStateChange t) \<notin> set (h c)"
  shows "sd_no_state a (sd_tell h b)"
  unfolding sd_tell_def using assms by (intro no_state_log) auto

lemma no_state_front [intro]: "sd_no_state a b \<Longrightarrow> sd_no_state a (sd_HandleFrontSession b)"
  by (erule no_state_trans) (auto simp: sd_no_state_def sd_HandleFrontSession_def)

lemma no_state_quiet: "sd_quiet sd sd' \<Longrightarrow> sd_no_state sd sd'"
  unfolding sd_quiet_def sd_no_state_def by fastforce

lemma no_state_commands:
  "sd_AddSupportCommand cmd sd = (r, sd') \<Longrightarrow> sd_no_state sd sd'"
  "sd_DeleteSupportCommand cmd sd = (r, sd') \<Longrightarrow> sd_no_state sd sd'"
  by (auto simp: sd_AddSupportCommand_def sd_DeleteSupportCommand_def Let_def cd_defs intro!: no_state_tell no_state_front
      intro: no_state_same split: if_splits)

lemma sd_log_lyric: "(sd_log es sd)\<lparr>sdLyric := x\<rparr> = sd_log es (sd\<lparr>sdLyric := x\<rparr>)"
  by (simp add: sd_log_def)

lemma no_state_ops:
  "sd_no_state sd (sd_capsule_task sd)"
  "sd_SetAVQueueItems xs sd = (r, sd') \<Longrightarrow> sd_no_state sd sd'"
  "sd_SetAVQueueTitle t sd = (r, sd') \<Longrightarrow> sd_no_state sd sd'"
  "sd_SendCustomData customData w sd = (r, sd') \<Longrightarrow> sd_no_state sd sd'"
  "sd_SetSessionEvent ev w sd = (r, sd') \<Longrightarrow> sd_no_state sd sd'"
  "sd_Activate sd = (r, sd') \<Longrightarrow> sd_no_state sd sd'"
  "sd_Deactivate sd = (r, sd') \<Longrightarrow> sd_no_state sd sd'"
  "sd_SetMediaCenterControlType is sd = (r, sd') \<Longrightarrow> sd_no_state sd sd'"
  "sd_SetSupportedPlaySpeeds ds sd = (r, sd') \<Longrightarrow> sd_no_state sd sd'"
  "sd_SetSupportedLoopModes is sd = (r, sd') \<Longrightarrow> sd_no_state sd sd'"
  "sd_no_state sd (sd_SetDesktopLyricFeatureSupported b sd)"
  "sd_EnableDesktopLyric b sd = (r, sd') \<Longrightarrow> sd_no_state sd sd'"
  "sd_SetDesktopLyricVisibleInner ok b hdl sd = (r, sd') \<Longrightarrow> sd_no_state sd sd'"
  "sd_SetDesktopLyricStateInner b hdl sd = (r, sd') \<Longrightarrow> sd_no_state sd sd'"
  "sd_SetBackgroundPlayMode mode sd = (r, sd') \<Longrightarrow> sd_no_state sd sd'"
  "sd_RegisterCallbackInner b sd = (r, sd') \<Longrightarrow> sd_no_state sd sd'"
  "sd_no_state sd (sd_RegisterAVSessionCallback b sd)"
  "sd_AddController pid c sd = (r, sd') \<Longrightarrow> sd_no_state sd sd'"
  "sd_no_state sd (sd_HandleControllerRelease pid sd)"
  "sd_no_state sd (sd_on_controller pid f sd)"
  by (auto simp: sd_op_defs sd_capsule_task_def sd_on_controller_def Let_def cd_defs sd_log_lyric
      intro!: no_state_log no_state_tell intro: no_state_same split: option.splits if_splits)

lemma no_state_quiets:
  "cd_SendControlCommand cr callingPid cmd (Some sd, cl) = Some (r, Some sd', cl') \<Longrightarrow> sd_no_state sd sd'"
  "sd_ExecuteControllerCommand cr cmd sd = Some sd' \<Longrightarrow> sd_no_state sd sd'"
  "sd_no_state sd (sd_HandleMediaKeyEvent key info sd)"
  "cd_SkipToQueueItem i (Some sd) = (r, Some sd') \<Longrightarrow> sd_no_state sd sd'"
  "cd_SendCommonCommand proxyRet callingPid s w (Some sd, cl) = (r, Some sd', cl') \<Longrightarrow> sd_no_state sd sd'"
  "cd_SendCustomData customData w (Some sd) = (r, Some sd') \<Longrightarrow> sd_no_state sd sd'"
  by (blast intro: no_state_quiet sd_quiet_send sd_quiet_execute sd_quiet_key sd_quiet_others)+

lemma sd_step_cases_state:
  assumes "sd_step weq customData sd sd'"
  obtains (playback) t r where "sd_SetAVPlaybackState weq t sd = (r, sd')" | (other) "sd_no_state sd sd'"
  using assms
  by (cases rule: sd_step.cases) (metis no_state_commands no_state_ops no_state_quiets)+

lemma controllers_quiet: "sd_quiet sd sd' \<Longrightarrow> sdControllers sd' = sdControllers sd"
  by (auto simp: sd_quiet_def)

lemma controllers_step: "sd_step weq customData sd sd' \<Longrightarrow> cmap_ok (sdControllers sd) \<Longrightarrow> cmap_ok (sdControllers sd')"
proof (induction rule: sd_step.cases)
  case (st_playback t sd r sd')
  then show ?case
    by (auto simp: sd_SetAVPlaybackState_def sd_CheckIfSendCapsule_def sd_queue_info_def sd_tell_def Let_def
        split: prod.splits if_splits)
next
  case (st_on_controller sd pid f)
  have keys: "map fst (map (\<lambda>(p, c). (p, if p = pid then f c else c)) cs) = map fst cs" for cs
    by (induction cs) auto
  from st_on_controller show ?case by (simp add: sd_on_controller_def cmap_ok_def keys del: map_map)
next
  case (st_add cmd sd r sd')
  then show ?case by (auto simp: sd_AddSupportCommand_def sd_HandleFrontSession_def sd_tell_def Let_def split: if_splits)
next
  case (st_delete cmd sd r sd')
  then show ?case by (auto simp: sd_DeleteSupportCommand_def sd_HandleFrontSession_def sd_tell_def Let_def split: if_splits)
qed (auto simp: sd_op_defs sd_capsule_task_def sd_tell_def Let_def cmap_simps split: option.splits if_splits
    dest: controllers_quiet [OF sd_quiet_send] controllers_quiet [OF sd_quiet_execute] controllers_quiet [OF sd_quiet_others(1)]
      controllers_quiet [OF sd_quiet_others(2)] controllers_quiet [OF sd_quiet_others(3)]
    simp: controllers_quiet [OF sd_quiet_key])

section \<open>The image is in step\<close>

text \<open>C9: the client's image refines the session's state. A client that starts from the session's
  playback state, or from any that agrees with it on its filter, and copies every change that its
  callback receives, agrees with the session on all fields of its filter after any run of any
  operations of the application, the other controllers and the keys, as long as its own
  controller is kept: nothing is lost by sending the changed fields only.\<close>

theorem sd_mirror_in_step:
  assumes "sd_watched customData pid c sd sd'" and "cdCallback c" and "cmap_ok (sdControllers sd)"
    and "ps_agree (cdPlaybackMask c) s (sdPlayback sd)"
  shows "\<exists>es. sdEvents sd' = sdEvents sd @ es \<and> ps_agree (cdPlaybackMask c) (sd_client_view pid es s) (sdPlayback sd')"
proof -
  have "cmap_ok (sdControllers sd') \<and> map_of (sdControllers sd') pid = Some c \<and>
    (\<exists>es. sdEvents sd' = sdEvents sd @ es \<and> ps_agree (cdPlaybackMask c) (sd_client_view pid es s) (sdPlayback sd'))"
    using assms(1)
  proof (induction rule: sd_watched.induct)
    case wa_start
    with assms(3,4) show ?case by (auto intro: exI [of _ "[]"])
  next
    case (wa_step sd' sd'')
    then obtain es where es: "sdEvents sd' = sdEvents sd @ es"
        "ps_agree (cdPlaybackMask c) (sd_client_view pid es s) (sdPlayback sd')" by blast
    from wa_step have ok: "distinct (map fst (sdControllers sd'))" "cmap_ok (sdControllers sd'')"
      by (auto intro: cmap_ok_distinct controllers_step)
    from wa_step.hyps(2) have "\<exists>fs. sdEvents sd'' = sdEvents sd' @ fs
        \<and> ps_agree (cdPlaybackMask c) (sd_client_view pid fs (sd_client_view pid es s)) (sdPlayback sd'')"
    proof (cases rule: sd_step_cases_state)
      case (playback t r)
      with wa_step.IH ok(1) assms(2) es(2) show ?thesis by (intro playback_step_agrees) auto
    next
      case other
      then obtain fs where "sdPlayback sd'' = sdPlayback sd'" "sdEvents sd'' = sdEvents sd' @ fs"
          "\<And>p l t. Told p l (OnPlaybackStateChange t) \<notin> set fs"
        unfolding sd_no_state_def by blast
      with es(2) client_view_other [of fs] show ?thesis by (intro exI [of _ fs]) simp
    qed
    then obtain fs where "sdEvents sd'' = sdEvents sd' @ fs"
        "ps_agree (cdPlaybackMask c) (sd_client_view pid fs (sd_client_view pid es s)) (sdPlayback sd'')" by blast
    with es ok(2) wa_step.hyps(3) show ?case by (auto intro!: exI [of _ "es @ fs"])
  qed
  then show ?thesis by blast
qed

theorem sd_mirror_in_step_witness:
  "\<exists>(sd :: (nat, nat) sess_data) (es :: (nat, nat) sd_event list). psState (sdPlayback sd) = 2 \<and> es \<noteq> []
     \<and> ps_agree 1 (sd_client_view 7 es new_playback_state) (sdPlayback sd)"
proof -
  let ?c = "new_ctrl_data\<lparr>cdCallback := True, cdPlaybackMask := 1\<rparr>"
  let ?sd = "(new_sess_data new_session)\<lparr>sdControllers := [(7, ?c)]\<rparr> :: (nat, nat) sess_data"
  let ?t = "ps_SetState 2 new_playback_state :: nat playback_state"
  obtain r sd' where sd': "sd_SetAVPlaybackState (=) ?t ?sd = (r, sd')" by fastforce
  have ctrl: "sdControllers sd' = [(7, ?c)]"
    using sd' by (auto simp: sd_SetAVPlaybackState_def sd_CheckIfSendCapsule_def sd_queue_info_def sd_tell_def Let_def
        split: prod.splits if_splits)
  have "sd_watched (\<lambda>_. None) 7 ?c ?sd sd'"
    by (rule wa_step [OF wa_start st_playback [OF sd']]) (simp_all add: ctrl)
  moreover have "cdCallback ?c" "cmap_ok (sdControllers ?sd)" by (simp_all add: cmap_ok_def)
  moreover have "ps_agree (cdPlaybackMask ?c) new_playback_state (sdPlayback ?sd)"
    by (simp add: ps_agree_def new_sess_data_def)
  ultimately obtain es where es: "sdEvents sd' = sdEvents ?sd @ es"
      "ps_agree (cdPlaybackMask ?c) (sd_client_view 7 es new_playback_state) (sdPlayback sd')"
    using sd_mirror_in_step by blast
  have "ps_fields (sdPlayback sd') ! 0 = PInt 2"
    using sd' ps_copied_fields [of 0 ?t "sdPlayback ?sd"]
    by (auto simp: sd_SetAVPlaybackState_def sd_CheckIfSendCapsule_def sd_queue_info_def sd_tell_def Let_def
        ps_SetState_def ps_setbit_def bit_simps ps_fields_def PLAYBACK_KEY_MAX_def split: prod.splits if_splits)
  then have "psState (sdPlayback sd') = 2" by (simp add: ps_fields_def)
  moreover have "es \<noteq> []"
    using es(2) calculation by (auto simp: ps_agree_def ps_fields_def new_playback_state_def PLAYBACK_KEY_MAX_def dest: spec [of _ 0])
  ultimately show ?thesis using es(2) by (intro exI [of _ sd'] exI [of _ es]) simp
qed

end
