(* ===== verification/SessionSafe.thy ===== *)
theory SessionSafe
  imports SessionFront ControlProps
begin

text \<open>
  The commands of a session: those it can support, what becomes of each, and the ones that the
  tables of handlers do not foresee.
\<close>

section \<open>Supported commands\<close>

definition cmds_ok :: "i32 list \<Rightarrow> bool" where
  "cmds_ok cmds \<longleftrightarrow> distinct cmds \<and> (\<forall>c \<in> set cmds. 0 \<le> sint c \<and> sint c < SESSION_CMD_MAX \<and> c \<noteq> SESSION_CMD_MEDIA_KEY_SUPPORT)"

lemma sint_eq_word: "sint (c :: i32) = k \<Longrightarrow> c = word_of_int k"
  by (metis scast_eq scast_id)

lemma cmd_number:
  assumes "0 \<le> sint (c :: i32)" and "sint c < SESSION_CMD_MAX"
  shows "c \<in> {0, 1, 2, 3, 4, 5, 6, 7, 8, 9, 10, 11, 12, 13, 14, 15, 16, 17}"
proof -
  have "sint c \<in> {0, 1, 2, 3, 4, 5, 6, 7, 8, 9, 10, 11, 12, 13, 14, 15, 16, 17}"
    using assms unfolding insert_iff empty_iff by presburger
  then show ?thesis by (auto dest!: sint_eq_word)
qed

lemma cmd_has_handler:
  assumes "0 \<le> sint c" and "sint c < SESSION_CMD_MAX" and "c \<noteq> SESSION_CMD_MEDIA_KEY_SUPPORT"
  shows "\<exists>h. map_of cmdHandlers c = Some h"
  using cmd_number [OF assms(1,2)] assms(3) by (auto simp: cmdHandlers_def)

lemma cmds_ok_commands:
  assumes "cmds_ok (sdSupportedCmd sd)"
  shows "sd_AddSupportCommand cmd sd = (r, sd') \<Longrightarrow> cmds_ok (sdSupportedCmd sd')"
    and "sd_DeleteSupportCommand cmd sd = (r, sd') \<Longrightarrow> cmds_ok (sdSupportedCmd sd')"
proof -
  have front: "sdSupportedCmd (sd_HandleFrontSession s) = sdSupportedCmd s" for s :: "('a, 'b) sess_data"
    by (simp add: sd_HandleFrontSession_def)
  show "sd_AddSupportCommand cmd sd = (r, sd') \<Longrightarrow> cmds_ok (sdSupportedCmd sd')"
    using assms by (auto simp: sd_AddSupportCommand_def Let_def sd_tell_def front cmds_ok_def split: if_splits)
  show "sd_DeleteSupportCommand cmd sd = (r, sd') \<Longrightarrow> cmds_ok (sdSupportedCmd sd')"
    using assms by (auto simp: sd_DeleteSupportCommand_def Let_def sd_tell_def front cmds_ok_def split: if_splits)
qed

lemma cmds_same: "sd_same_content sd sd' \<Longrightarrow> sdSupportedCmd sd' = sdSupportedCmd sd"
  by (simp add: sd_same_defs)

lemma cmds_ok_step: "sd_step weq customData sd sd' \<Longrightarrow> cmds_ok (sdSupportedCmd sd) \<Longrightarrow> cmds_ok (sdSupportedCmd sd')"
  by (erule sd_step_cases_content) (auto simp: cmds_same dest: cmds_ok_commands)

lemma cmds_check: "sdSupportedCmd (imSd (im_CheckUseAVMetaData env m st)) = sdSupportedCmd (imSd st)"
  by (simp add: im_CheckUseAVMetaData_def sd_queue_info_def sd_HandleFrontSession_def Let_def)

lemma cmds_same_front: "sd_same_front sd sd' \<Longrightarrow> sdSupportedCmd sd' = sdSupportedCmd sd"
  by (simp add: sd_same_front_def)

lemma cmds_set_meta: "im_SetAVMetaData env m st = (r, st') \<Longrightarrow> sdSupportedCmd (imSd st') = sdSupportedCmd (imSd st)"
  by (auto simp: im_SetAVMetaData_def Let_def cmds_check cmds_same_front [OF im_front_update] cmds_same_front [OF im_front_read])

lemma cmds_cast: "c \<in> set supportedCmdForCastSession \<Longrightarrow>
    0 \<le> sint c \<and> sint c < SESSION_CMD_MAX \<and> c \<noteq> SESSION_CMD_MEDIA_KEY_SUPPORT"
  by (auto simp: supportedCmdForCastSession_def)

lemma cmds_ok_im_step:
  assumes "im_step weq customData False st st'" and "cmds_ok (sdSupportedCmd (imSd st))"
  shows "cmds_ok (sdSupportedCmd (imSd st'))"
  using assms(1)
proof cases
  case (im_set m p st1 env r)
  then show ?thesis using assms(2) cmds_set_meta [OF im_set(2)] imSd_alloc(3) [OF im_set(1)] by simp
qed (use assms(2) in \<open>auto simp: cmds_same [OF im_content_task] cmds_same [OF im_content_get(1)]
      cmds_same [OF im_content_get(2)] intro: cmds_ok_step\<close>)

lemma im_cmds_ok: "im_reachable weq customData False st \<Longrightarrow> cmds_ok (sdSupportedCmd (imSd st))"
proof (induction rule: im_reachable.induct)
  case (im_new core files)
  show ?case by (simp add: new_img_state_def new_sess_data_def cmds_ok_def)
qed (rule cmds_ok_im_step)

text \<open>C16: a session that is not migrated supports every command at most once, only commands that
  exist, and never the switch for media keys, so a command that a controller sends it always
  finds a handler: the call returns, with one of the four results.\<close>

theorem cd_send_never_throws:
  assumes "im_reachable weq customData False st"
  shows "distinct (sdSupportedCmd (imSd st))
    \<and> (\<exists>r sd' cl'. cd_SendControlCommand cr callingPid cmd (Some (imSd st), cl) = Some (r, Some sd', cl')
        \<and> r \<in> {AVSESSION_SUCCESS, ERR_COMMAND_NOT_SUPPORT, ERR_COMMAND_SEND_EXCEED_MAX})"
proof -
  note ok = im_cmds_ok [OF assms]
  have handler: "\<exists>h. map_of cmdHandlers (cc_cmd cmd) = Some h" if "cc_cmd cmd \<in> set (sd_GetSupportCommand (imSd st))"
    using that ok cmds_cast [of "cc_cmd cmd"]
    by (intro cmd_has_handler) (auto simp: sd_GetSupportCommand_def cmds_ok_def split: if_splits)
  obtain enabled cl2 where cl: "cl_IsCommandSendEnable callingPid cl = (enabled, cl2)" by fastforce
  have "\<exists>r sd' cl'. cd_SendControlCommand cr callingPid cmd (Some (imSd st), cl) = Some (r, Some sd', cl')
        \<and> r \<in> {AVSESSION_SUCCESS, ERR_COMMAND_NOT_SUPPORT, ERR_COMMAND_SEND_EXCEED_MAX}"
    using handler by (auto simp: cd_SendControlCommand_def cl sd_ExecuteControllerCommand_def Let_def)
  with ok show ?thesis by (simp add: cmds_ok_def)
qed

theorem cd_send_never_throws_witness:
  "\<exists>st :: (nat, nat) img_state. sdSupportedCmd (imSd st) = []
     \<and> (\<exists>r sd' cl'. cd_SendControlCommand \<lparr>crUid = 1, crBundle = ''b'', crCastDevice = None\<rparr> 7
           (new_control_command\<lparr>cc_cmd := SESSION_CMD_MEDIA_KEY_SUPPORT\<rparr>) (Some (imSd st), new_command_limit)
         = Some (r, Some sd', cl')
         \<and> r \<in> {AVSESSION_SUCCESS, ERR_COMMAND_NOT_SUPPORT, ERR_COMMAND_SEND_EXCEED_MAX})"
proof -
  let ?st = "new_img_state new_session (\<lambda>_. None) :: (nat, nat) img_state"
  have "im_reachable (=) (\<lambda>_. None) False ?st" by (rule im_new)
  note cd_send_never_throws [OF this, THEN conjunct2]
  moreover have "sdSupportedCmd (imSd ?st) = []" by (simp add: new_img_state_def new_sess_data_def)
  ultimately show ?thesis by blast
qed

section \<open>Commands and requests\<close>

text \<open>What a command asks of the application; nothing if its parameter has another type.\<close>

definition cc_requests :: "control_command \<Rightarrow> 'w request list" where
  "cc_requests c =
     (let cmd = cc_cmd c; par = cc_param c in
      if cmd = SESSION_CMD_PLAY then [OnPlay c]
      else if cmd = SESSION_CMD_PAUSE then [OnPause]
      else if cmd = SESSION_CMD_STOP then [OnStop]
      else if cmd = SESSION_CMD_PLAY_NEXT then [OnPlayNext c]
      else if cmd = SESSION_CMD_PLAY_PREVIOUS then [OnPlayPrevious c]
      else if cmd = SESSION_CMD_FAST_FORWARD then (case par of VLong t \<Rightarrow> [OnFastForward t c] | _ \<Rightarrow> [])
      else if cmd = SESSION_CMD_REWIND then (case par of VLong t \<Rightarrow> [OnRewind t c] | _ \<Rightarrow> [])
      else if cmd = SESSION_CMD_SEEK then (case par of VLong t \<Rightarrow> [OnSeek t] | _ \<Rightarrow> [])
      else if cmd = SESSION_CMD_SET_SPEED then (case par of VDbl v \<Rightarrow> [OnSetSpeed v] | _ \<Rightarrow> [])
      else if cmd = SESSION_CMD_SET_LOOP_MODE then (case par of VInt v \<Rightarrow> [OnSetLoopMode v] | _ \<Rightarrow> [])
      else if cmd = SESSION_CMD_TOGGLE_FAVORITE then (case par of VStr v \<Rightarrow> [OnToggleFavorite v] | _ \<Rightarrow> [])
      else if cmd = SESSION_CMD_PLAY_FROM_ASSETID then (case par of VLong v \<Rightarrow> [OnPlayFromAssetId v] | _ \<Rightarrow> [])
      else if cmd = SESSION_CMD_AVCALL_ANSWER then [OnAVCallAnswer]
      else if cmd = SESSION_CMD_AVCALL_HANG_UP then [OnAVCallHangUp]
      else if cmd = SESSION_CMD_AVCALL_TOGGLE_CALL_MUTE then [OnAVCallToggleCallMute]
      else if cmd = SESSION_CMD_SET_TARGET_LOOP_MODE then (case par of VInt v \<Rightarrow> [OnSetTargetLoopMode v] | _ \<Rightarrow> [])
      else if cmd = SESSION_CMD_PLAY_WITH_ASSETID then (case par of VStr v \<Rightarrow> [OnPlayWithAssetId v] | _ \<Rightarrow> [])
      else [])"

definition asked_of :: "('w, 'q) sd_event list \<Rightarrow> 'w request list" where
  "asked_of es = List.map_filter (\<lambda>e. case e of Asked q \<Rightarrow> Some q | _ \<Rightarrow> None) es"

lemma asked_of_simps [simp]:
  "asked_of [] = []" "asked_of (es @ fs) = asked_of es @ asked_of fs" "asked_of (Asked q # es) = q # asked_of es"
  "asked_of (AskedMigrate q # es) = asked_of es" "asked_of (CtrlCmdEvent s i j # es) = asked_of es"
  "asked_of (UpdateTop s # es) = asked_of es"
  by (simp_all add: asked_of_def map_filter_def)

lemma asked_of_ask [simp]:
  "asked_of (sdEvents (sd_ask q sd)) = asked_of (sdEvents sd) @ (if sdCallback sd then [q] else [])"
  "asked_of (sdEvents (sd_ask_migrate q sd)) = asked_of (sdEvents sd)"
  "asked_of (sdEvents (sd_publish nm sd)) = asked_of (sdEvents sd)"
  "sdCallback (sd_ask q sd) = sdCallback sd" "sdCallback (sd_ask_migrate q sd) = sdCallback sd"
  "sdCallback (sd_publish nm sd) = sdCallback sd"
  by (simp_all add: sd_ask_def sd_ask_migrate_def sd_publish_def)

lemmas cc_getter_defs = cc_GetSpeed_def cc_GetForwardTime_def cc_GetRewindTime_def cc_GetSeekTime_def
  cc_GetLoopMode_def cc_GetTargetLoopMode_def cc_GetAssetId_def cc_GetPlayFromAssetId_def cc_GetPlayWithAssetId_def
  cc_GetPlayParam_def

lemma handler_asks:
  fixes sd :: "('w, 'q) sess_data"
  assumes "(cc_cmd cmd, h) \<in> set cmdHandlers" and "sdCallback sd" and "cc_accepts (cc_cmd cmd) (cc_param cmd)"
  shows "asked_of (sdEvents (h cmd sd)) = asked_of (sdEvents sd) @ cc_requests cmd
    \<and> length (cc_requests cmd :: 'w request list) = 1"
  using assms(1) unfolding cmdHandlers_def list.set insert_iff prod.inject empty_iff
  by (elim disjE conjE FalseE; insert assms(2,3);
      cases "cc_param cmd"; simp add: sd_handler_defs cc_requests_def cc_accepts_def cc_getter_defs Let_def)

lemma command_back_parts [simp]:
  "cc_cmd (sd_command_back cr cmd) = cc_cmd cmd" "cc_param (sd_command_back cr cmd) = cc_param cmd"
  by (simp_all add: sd_command_back_def cc_SetCommandInfo_def Let_def)

lemma cd_command_asks:
  fixes sd :: "('w, 'q) sess_data"
  assumes accepts: "cc_accepts (cc_cmd cmd) (cc_param cmd)" and "cc_cmd cmd \<in> set (sd_GetSupportCommand sd)"
    and "cmds_ok (sdSupportedCmd sd)" and "siIsActive (sdCore sd)" and "sdCallback sd"
    and "cl_IsCommandSendEnable callingPid cl = (True, cl')"
  shows "\<exists>es. cd_SendControlCommand cr callingPid cmd (Some sd, cl) = Some (AVSESSION_SUCCESS, Some (sd_log es sd), cl')
    \<and> asked_of es = cc_requests (sd_command_back cr cmd) \<and> length (asked_of es) = 1
    \<and> (\<forall>p l n. Told p l n \<notin> set es)"
proof -
  have range: "0 \<le> sint (cc_cmd cmd)" "sint (cc_cmd cmd) < SESSION_CMD_MAX" "cc_cmd cmd \<noteq> SESSION_CMD_MEDIA_KEY_SUPPORT"
    using assms(2,3) cmds_cast [of "cc_cmd cmd"] by (auto simp: sd_GetSupportCommand_def cmds_ok_def split: if_splits)
  obtain h :: "control_command \<Rightarrow> ('w, 'q) sess_data \<Rightarrow> ('w, 'q) sess_data" where h: "map_of cmdHandlers (cc_cmd cmd) = Some h"
    using cmd_has_handler [OF range] by blast
  let ?bk = "sd_command_back cr cmd"
  have mem: "(cc_cmd ?bk, h) \<in> set cmdHandlers" using h by (auto dest: map_of_SomeD)
  obtain es where es: "h ?bk sd = sd_log es sd" "\<forall>p l n. Told p l n \<notin> set es"
    using sd_quiet_cmdHandlers [OF mem] unfolding sd_quiet_def by blast
  have "asked_of es = cc_requests ?bk" "length (cc_requests ?bk :: 'w request list) = 1"
    using handler_asks [OF mem assms(5)] accepts es(1) by simp_all
  moreover have "sd_ExecuteControllerCommand cr cmd sd = Some (sd_log es sd)"
    using range assms(4,5) h es(1) by (simp add: sd_ExecuteControllerCommand_def Let_def)
  ultimately show ?thesis
    using es(2) assms(2,6) by (intro exI [of _ es]) (simp add: cd_SendControlCommand_def)
qed

text \<open>C10: from the wire to the application. The session is active, its application has registered a
  callback, its supported commands all have a handler (they always do, see \<open>cd_send_never_throws\<close> for
  the sessions that are reached), and the calling process is inside its rate limit. Then a command that the
  stub unmarshals and the session supports makes the controller's call succeed, and the application gets
  exactly one request, the one of this command with its parameter; everything else that the
  session holds is as before, and no controller is told anything. Without a callback nothing is asked, and
  the eleventh command of a period is refused (\<open>cl_at_most_ten\<close>).\<close>

theorem cd_command_reaches_app:
  fixes sd :: "('w, 'q) sess_data"
  assumes "cc_Unmarshalling P p = (Some cmd, p')" and "cc_cmd cmd \<in> set (sd_GetSupportCommand sd)"
    and "cmds_ok (sdSupportedCmd sd)" and "siIsActive (sdCore sd)" and "sdCallback sd"
    and "cl_IsCommandSendEnable callingPid cl = (True, cl')"
  shows "\<exists>es. cd_SendControlCommand cr callingPid cmd (Some sd, cl) = Some (AVSESSION_SUCCESS, Some (sd_log es sd), cl')
    \<and> asked_of es = cc_requests (sd_command_back cr cmd) \<and> length (asked_of es) = 1
    \<and> (\<forall>p l n. Told p l n \<notin> set es)"
  using cd_command_asks [OF _ assms(2-6)] cc_accepted [OF assms(1)] by simp

theorem cd_command_reaches_app_witness:
  "\<exists>cmd p' es. cc_Unmarshalling token_parcel [TI32 SESSION_CMD_SET_SPEED, TDbl (DFin 2)] = (Some cmd, p' :: nat token list)
     \<and> asked_of (es :: (nat, nat) sd_event list) = [OnSetSpeed (DFin 2)]
     \<and> fst (the (cd_SendControlCommand \<lparr>crUid = 1, crBundle = ''b'', crCastDevice = None\<rparr> 7 cmd
           (Some ((new_sess_data (new_session\<lparr>siIsActive := True\<rparr>))\<lparr>sdCallback := True,
              sdSupportedCmd := [SESSION_CMD_SET_SPEED]\<rparr> :: (nat, nat) sess_data), new_command_limit))) = AVSESSION_SUCCESS"
proof -
  let ?sd = "(new_sess_data (new_session\<lparr>siIsActive := True\<rparr>))\<lparr>sdCallback := True,
    sdSupportedCmd := [SESSION_CMD_SET_SPEED]\<rparr> :: (nat, nat) sess_data"
  let ?cmd = "new_control_command\<lparr>cc_cmd := SESSION_CMD_SET_SPEED, cc_param := VDbl (DFin 2)\<rparr>"
  let ?cr = "\<lparr>crUid = 1, crBundle = ''b'', crCastDevice = None\<rparr>"
  have cmd: "cc_Unmarshalling token_parcel [TI32 SESSION_CMD_SET_SPEED, TDbl (DFin 2)] = (Some ?cmd, [] :: nat token list)"
    by (simp add: cc_Unmarshalling_def token_parcel_def tok_read_def cc_SetCommand_def read_or_def
        cc_SetParamFromParcel_def cc_SetSpeed_def dbl_isfinite_def dbl_le_def new_control_command_def)
  have pre: "cc_cmd ?cmd \<in> set (sd_GetSupportCommand ?sd)" "cmds_ok (sdSupportedCmd ?sd)" "siIsActive (sdCore ?sd)"
    "sdCallback ?sd"
    by (simp_all add: sd_GetSupportCommand_def cmds_ok_def new_sess_data_def new_session_def)
  have lim: "cl_IsCommandSendEnable 7 new_command_limit = (True, new_command_limit)"
    by (simp add: cl_IsCommandSendEnable_def new_command_limit_def)
  obtain es where es: "cd_SendControlCommand ?cr 7 ?cmd (Some ?sd, new_command_limit)
      = Some (AVSESSION_SUCCESS, Some (sd_log es ?sd), new_command_limit)"
      "asked_of es = cc_requests (sd_command_back ?cr ?cmd)"
    using cd_command_reaches_app [OF cmd pre lim, of ?cr] by blast
  have "cc_requests (sd_command_back ?cr ?cmd) = [OnSetSpeed (DFin 2) :: nat request]"
    by (simp add: cc_requests_def)
  with es cmd show ?thesis by (intro exI [of _ ?cmd] exI [of _ "[]"] exI [of _ es]) simp
qed

section \<open>Commands without a handler\<close>

text \<open>The switch for media keys is the one command number in range that has no handler.\<close>

lemma sd_execute_throws:
  "sd_ExecuteControllerCommand cr cmd sd = None \<longleftrightarrow>
     cc_cmd cmd = SESSION_CMD_MEDIA_KEY_SUPPORT \<and> (sdCallback sd \<or> sdMigrate sd) \<and> siIsActive (sdCore sd)"
proof (cases "cc_cmd cmd = SESSION_CMD_MEDIA_KEY_SUPPORT")
  case True
  then show ?thesis by (auto simp: sd_ExecuteControllerCommand_def Let_def cmdHandlers_def)
next
  case False
  then have "\<exists>y. map_of cmdHandlers (cc_cmd cmd) = Some y" if "0 \<le> sint (cc_cmd cmd)" "sint (cc_cmd cmd) < SESSION_CMD_MAX"
    using that by (intro cmd_has_handler)
  with False show ?thesis by (auto simp: sd_ExecuteControllerCommand_def Let_def)
qed

section \<open>Media keys\<close>

text \<open>C35: the key for rewinding asks for a rewind by the fast-forward interval whenever that is
  positive, whatever the application set as its rewind interval: both intervals are stored in the
  one parameter of the command, the fast-forward interval last.\<close>

theorem sd_rewind_key_uses_forward_interval:
  assumes "siIsActive (sdCore sd)" and "sdCallback sd" and "\<not> sdMediaKeySupport sd"
    and "0 < sint (fastForwardSkipIntervals (sdMeta sd))"
  shows "\<exists>cmd. sd_HandleMediaKeyEvent KEYCODE_MEDIA_REWIND info sd
      = sd_log [Asked (OnRewind (scast (fastForwardSkipIntervals (sdMeta sd))) cmd)] sd"
proof -
  let ?f = "fastForwardSkipIntervals (sdMeta sd)"
  have "?f \<noteq> 0" using assms(4) by auto
  moreover have "sint (scast ?f :: i64) = sint ?f" by (rule sint_up_scast) (simp add: is_up)
  ultimately show ?thesis
    using assms
    by (auto simp: sd_HandleMediaKeyEvent_def keyEventCaller_def sd_HandleOnRewind_def sd_key_command_def Let_def
        cc_SetForwardTime_def cc_SetCommandInfo_def cc_GetRewindTime_def sd_ask_def)
qed

theorem sd_rewind_key_uses_forward_interval_witness:
  "\<exists>cmd. sdEvents (sd_HandleMediaKeyEvent KEYCODE_MEDIA_REWIND new_command_info
       ((new_sess_data (new_session\<lparr>siIsActive := True\<rparr>))\<lparr>sdCallback := True,
          sdMeta := new_avmeta\<lparr>rewindSkipIntervals := 5, fastForwardSkipIntervals := 30\<rparr>\<rparr> :: (nat, nat) sess_data))
     = [Asked (OnRewind 30 cmd)]"
proof -
  let ?sd = "(new_sess_data (new_session\<lparr>siIsActive := True\<rparr>))\<lparr>sdCallback := True,
    sdMeta := new_avmeta\<lparr>rewindSkipIntervals := 5, fastForwardSkipIntervals := 30\<rparr>\<rparr> :: (nat, nat) sess_data"
  have "siIsActive (sdCore ?sd)" "sdCallback ?sd" "\<not> sdMediaKeySupport ?sd"
    "0 < sint (fastForwardSkipIntervals (sdMeta ?sd))"
    by (simp_all add: new_sess_data_def new_session_def)
  then obtain cmd where "sd_HandleMediaKeyEvent KEYCODE_MEDIA_REWIND new_command_info ?sd
      = sd_log [Asked (OnRewind (scast (fastForwardSkipIntervals (sdMeta ?sd))) cmd)] ?sd"
    using sd_rewind_key_uses_forward_interval [of ?sd new_command_info] by blast
  then have "sdEvents (sd_HandleMediaKeyEvent KEYCODE_MEDIA_REWIND new_command_info ?sd) = [Asked (OnRewind 30 cmd)]"
    by (simp add: new_sess_data_def)
  then show ?thesis by blast
qed

end
