(* ===== verification/ServiceCallbacks.thy ===== *)
theory ServiceCallbacks
  imports SessionFront FocusProps ServiceCreate
begin

text \<open>
  The callbacks that \<^verbatim>\<open>ServiceCallback\<close> of \<^verbatim>\<open>avsession_service.cpp\<close> sets on each session, and the
  events of a session's data (\<open>sd_event\<close>) that they answer. \<open>permitted\<close> is the answer of the
  permission checker about the caller.
\<close>

section \<open>The callbacks\<close>

definition sessionCastState :: string where "sessionCastState = ''CAST_STATE''"

definition sv_on_UpdateSession :: "env \<Rightarrow> string \<Rightarrow> bool \<Rightarrow> int \<Rightarrow> service \<Rightarrow> service" where
  "sv_on_UpdateSession env sessionId isAdd userId sv =
     (let userId = sv_GetTargetUserId userId sv
      in if sessionId = sessionCastState
         then let (l, sv) = sv_GetCurSessionListForFront userId sv in sv_UpdateLocalFrontSession l sv
         else let (st, um) = um_GetContainerFromUser userId (svUsers sv); sv = sv\<lparr>svUsers := um\<rparr>
         in case ss_GetSessionById (items (svStore sv)) sessionId st of
              None \<Rightarrow> sv
            | Some s \<Rightarrow> sv_UpdateFrontSession env s isAdd sv)"

text \<open>\<^verbatim>\<open>GetContainerFromAll().GetSessionById(sessionId)\<close>, with nothing done when there is none.\<close>

definition sv_by_id :: "string \<Rightarrow> (sref \<Rightarrow> service \<Rightarrow> service) \<Rightarrow> service \<Rightarrow> service" where
  "sv_by_id sessionId f sv =
     (case ss_GetSessionById (items (svStore sv)) sessionId (umAll (svUsers sv)) of None \<Rightarrow> sv | Some s \<Rightarrow> f s sv)"

definition sv_is_user_top :: "sref \<Rightarrow> service \<Rightarrow> bool" where
  "sv_is_user_top s sv \<longleftrightarrow> um_GetTopSession (sv_session_user s sv) (svUsers sv) = Some s"

definition sv_extras_of_top :: "env \<Rightarrow> sref \<Rightarrow> service \<Rightarrow> service" where
  "sv_extras_of_top env s sv =
     (if sv_is_user_top s sv
      then sv_NotifySystemUI env (sv_IsCapsuleNeeded (sv_session_user s sv) sv \<and> svHasMediaCapsule sv) False
             (sv_session_user s sv) sv
      else sv)"

definition sv_on_UpdateExtras :: "env \<Rightarrow> string \<Rightarrow> service \<Rightarrow> service" where
  "sv_on_UpdateExtras env sessionId sv = sv_by_id sessionId (sv_extras_of_top env) sv"

definition sv_anco_to_top :: "env \<Rightarrow> sref \<Rightarrow> int \<Rightarrow> service \<Rightarrow> service" where
  "sv_anco_to_top env s userId sv =
     (if svAncoMediaSessionChange sv
      then (sv_UpdateTopSession env (Some s) userId sv)\<lparr>svAncoMediaSessionChange := False\<rparr> else sv)"

definition sv_capsule_of_top :: "env \<Rightarrow> bool \<Rightarrow> sref \<Rightarrow> service \<Rightarrow> service" where
  "sv_capsule_of_top env isMediaChange s sv =
     (if sv_is_user_top s sv
      then let userId = sv_session_user s sv; sv = sv_anco_to_top env s userId sv
           in sv_NotifySystemUI env (sv_IsCapsuleNeeded userId sv \<and> svHasMediaCapsule sv) isMediaChange userId sv
      else sv)"

definition sv_on_NtfCapsule :: "env \<Rightarrow> string \<Rightarrow> bool \<Rightarrow> service \<Rightarrow> service" where
  "sv_on_NtfCapsule env sessionId isMediaChange sv =
     (if svHasMediaCapsule sv then sv_by_id sessionId (sv_capsule_of_top env isMediaChange) sv else sv)"

definition sv_media_session_to_top :: "env \<Rightarrow> bool \<Rightarrow> sref \<Rightarrow> service \<Rightarrow> service" where
  "sv_media_session_to_top env isMediaChange s sv =
     (let userId = sv_session_user s sv;
          sv = snd (sv_SelectFocusSession env (siUid (sv_item sv s)) (siPid (sv_item sv s)) sv);
          (l, sv) = sv_GetCurSessionListForFront userId sv
      in if s \<notin> set l then sv
         else let sv = (sv_UpdateTopSession env (Some s) userId sv)\<lparr>svAncoMediaSessionChange := False\<rparr>
         in sv_NotifySystemUI env (sv_IsCapsuleNeeded userId sv) isMediaChange userId sv)"

definition sv_media_session :: "env \<Rightarrow> bool \<Rightarrow> bool \<Rightarrow> sref \<Rightarrow> service \<Rightarrow> service" where
  "sv_media_session env isPlaying isMediaChange s sv =
     (let (isProcSameTop, sv) = sv_ProcTopSessionPlaying env (Some s) isPlaying isMediaChange sv
      in if isProcSameTop \<and> \<not> svAncoMediaSessionChange sv then sv
         else if \<not> isPlaying then sv
         else sv_media_session_to_top env isMediaChange s sv)"

definition sv_on_MediaSession :: "env \<Rightarrow> string \<Rightarrow> bool \<Rightarrow> bool \<Rightarrow> service \<Rightarrow> service" where
  "sv_on_MediaSession env sessionId isPlaying isMediaChange sv =
     sv_by_id sessionId (sv_media_session env isPlaying isMediaChange) sv"

definition sv_mode_of_top :: "env \<Rightarrow> sref \<Rightarrow> service \<Rightarrow> service" where
  "sv_mode_of_top env s sv =
     (if sv_is_user_top s sv
      then sv_NotifySystemUI env (sv_IsCapsuleNeeded (sv_session_user s sv) sv) False (sv_session_user s sv) sv else sv)"

definition sv_on_BgPlayModeChange :: "env \<Rightarrow> string \<Rightarrow> service \<Rightarrow> service" where
  "sv_on_BgPlayModeChange env sessionId sv = sv_by_id sessionId (sv_mode_of_top env) sv"

text \<open>The last two look in the container of the current user.\<close>

definition sv_by_id_current :: "string \<Rightarrow> (sref \<Rightarrow> service \<Rightarrow> service) \<Rightarrow> service \<Rightarrow> service" where
  "sv_by_id_current sessionId f sv =
     (let (st, um) = um_GetContainer (svUsers sv); sv = sv\<lparr>svUsers := um\<rparr>
      in case ss_GetSessionById (items (svStore sv)) sessionId st of None \<Rightarrow> sv | Some s \<Rightarrow> f s sv)"

definition sv_add_key_event :: "sref \<Rightarrow> service \<Rightarrow> service" where
  "sv_add_key_event s sv =
     (let userId = siUserId (sv_item sv s);
          (l, um) = um_GetCurSessionListForKeyEvent userId (svUsers sv)
      in sv\<lparr>svUsers := if s \<in> set l then um else um_set_key_event userId (s # l) um\<rparr>)"

definition sv_on_KeyEvent :: "bool \<Rightarrow> string \<Rightarrow> service \<Rightarrow> service" where
  "sv_on_KeyEvent permitted sessionId sv = (if permitted then sv_by_id_current sessionId sv_add_key_event sv else sv)"

definition sv_playing_to_top :: "env \<Rightarrow> sref \<Rightarrow> service \<Rightarrow> service" where
  "sv_playing_to_top env s sv =
     (if \<not> sv_IsLocalSessionPlaying env (Some s) sv then sv
      else
        let userId = sv_session_user s sv;
            sv = sv_UpdateTopSession env (Some s) userId sv;
            sv = snd (sv_SelectFocusSession env (siUid (sv_item sv s)) (siPid (sv_item sv s)) sv)
        in sv_NotifySystemUI env (sv_IsCapsuleNeeded userId sv) False userId sv)"

definition sv_on_UpdateTop :: "env \<Rightarrow> bool \<Rightarrow> string \<Rightarrow> service \<Rightarrow> service" where
  "sv_on_UpdateTop env permitted sessionId sv =
     (if permitted then sv_by_id_current sessionId (sv_playing_to_top env) sv else sv)"

section \<open>The events of a session\<close>

text \<open>
  What the service does with an event, with the argument \<open>isMediaChange\<close> that the session passes:
  true for the capsule of a notification (\<^verbatim>\<open>CheckUseAVMetaData\<close>), false for a playing session
  (\<^verbatim>\<open>CheckIfSendCapsule\<close>). The other events go to other services or to clients.
\<close>

definition sv_on_event :: "env \<Rightarrow> bool \<Rightarrow> ('w, 'q) sd_event \<Rightarrow> service \<Rightarrow> service" where
  "sv_on_event env permitted e sv = (case e of
     UpdateSession sid b u \<Rightarrow> sv_on_UpdateSession env sid b u sv
   | MediaSession sid b \<Rightarrow> sv_on_MediaSession env sid b False sv
   | BgPlayModeChange sid mode \<Rightarrow> sv_on_BgPlayModeChange env sid sv
   | NtfCapsule sid \<Rightarrow> sv_on_NtfCapsule env sid True sv
   | UpdateTop sid \<Rightarrow> sv_on_UpdateTop env permitted sid sv
   | _ \<Rightarrow> sv)"

end
