(* ===== verification/ServiceSteady.thy ===== *)
theory ServiceSteady
  imports ServiceCallbacks
begin

text \<open>
  The handlers of the service that change neither who is in a container nor who is in front: reports
  of the audio framework, the callbacks of sessions other than \<^verbatim>\<open>UpdateSession\<close>, the media card.
  All of them keep the invariant and the frame, whatever their arguments.
\<close>

section \<open>Steady steps\<close>

text \<open>The build has no casting; users have positive numbers.\<close>

definition sv_calm :: "service \<Rightarrow> bool" where
  "sv_calm sv \<longleftrightarrow> sv_ok sv \<and> (\<forall>t. \<not> siCasting (items (svStore sv) t)) \<and> 0 < umCurUser (svUsers sv)
     \<and> (\<forall>s \<in> set (ss_GetAllSessions (umAll (svUsers sv))). 0 < siUserId (items (svStore sv) s))"

definition sv_steady :: "service \<Rightarrow> service \<Rightarrow> bool" where
  "sv_steady sv sv' \<longleftrightarrow> sv_calm sv' \<and> sv_frame sv sv'"

lemma sv_calm_ok: "sv_calm sv \<Longrightarrow> sv_ok sv"
  by (simp add: sv_calm_def)

lemma sv_calm_stacks: "sv_calm sv \<Longrightarrow> um_stacks_ok (svUsers sv)"
  using sv_okD(1) by (simp add: sv_calm_def um_ok_def)

lemma sv_steadyI: "sv_calm sv \<Longrightarrow> sv_frame sv sv' \<Longrightarrow> sv_ok sv' \<Longrightarrow> sv_steady sv sv'"
  using sv_frame_items(1,7) [of sv sv'] by (simp add: sv_steady_def sv_calm_def) (simp add: sv_frame_def)

lemma sv_steady_refl: "sv_calm sv \<Longrightarrow> sv_steady sv sv"
  using sv_frame_refl sv_calm_stacks by (simp add: sv_steady_def)

lemma sv_steady_trans: "sv_steady a b \<Longrightarrow> sv_steady b c \<Longrightarrow> sv_steady a c"
  using sv_frame_trans by (auto simp: sv_steady_def)

lemma sv_steady_calm: "sv_steady sv sv' \<Longrightarrow> sv_calm sv'"
  by (simp add: sv_steady_def)

lemma sv_steady_of_user:
  "sv_steady sv sv' \<Longrightarrow> um_of_user (items (svStore sv')) u s (svUsers sv') = um_of_user (items (svStore sv)) u s (svUsers sv)"
  by (rule sv_frame_of_user) (simp add: sv_steady_def)

lemma sv_steady_user: "sv_steady sv sv' \<Longrightarrow> siUserId (items (svStore sv') s) = siUserId (items (svStore sv) s)"
  "sv_steady sv sv' \<Longrightarrow> umCurUser (svUsers sv') = umCurUser (svUsers sv)"
  "sv_steady sv sv' \<Longrightarrow> sv_session_user s sv' = sv_session_user s sv"
proof -
  assume "sv_steady sv sv'"
  then have f: "sv_frame sv sv'" by (simp add: sv_steady_def)
  show u: "siUserId (items (svStore sv') s) = siUserId (items (svStore sv) s)" using f by (rule sv_frame_items)
  show c: "umCurUser (svUsers sv') = umCurUser (svUsers sv)" using f by (simp add: sv_frame_def)
  show "sv_session_user s sv' = sv_session_user s sv" using u c by (simp add: sv_session_user_def)
qed

lemma sv_steady_fields:
  assumes "sv_calm sv" and "svStore sv' = svStore sv" and "svUsers sv' = svUsers sv" and "svControllers sv' = svControllers sv"
    and "svControlBundleNames sv' = svControlBundleNames sv"
  shows "sv_steady sv sv'"
proof (rule sv_steadyI [OF assms(1)])
  show "sv_frame sv sv'" using sv_calm_stacks [OF assms(1)] assms by (intro sv_frame_fields)
  show "sv_ok sv'" using assms(2,3) sv_calm_ok [OF assms(1)] by (simp add: sv_ok_def)
qed

lemma sv_steady_notify: "sv_calm sv \<Longrightarrow> sv_steady sv (sv_NotifySystemUI env a b u sv)"
  by (rule sv_steady_fields) simp_all

lemma sv_steady_log: "sv_calm sv \<Longrightarrow> sv_steady sv (sv_log e sv)"
  by (rule sv_steady_fields) simp_all

lemma sv_steady_top:
  assumes "sv_calm sv" and "um_of_user (items (svStore sv)) u s (svUsers sv)"
  shows "sv_steady sv (sv_UpdateTopSession env (Some s) w sv)"
proof -
  note T = sv_UpdateTopSession_frame [OF sv_calm_stacks [OF assms(1)]]
  have "sv_ok (sv_UpdateTopSession env (Some s) w sv)"
    by (rule sv_frame_ok [OF sv_calm_ok [OF assms(1)] T(1)])
      (use T(2) assms sv_okD(5) [OF sv_calm_ok [OF assms(1)]] in \<open>auto simp: um_of_user_def split: if_splits\<close>)
  then show ?thesis by (rule sv_steadyI [OF assms(1) T(1)])
qed

lemma sv_steady_timestamp:
  assumes "sv_calm sv"
  shows "sv_steady sv (sv_UpdateSessionTimestamp env s sv)"
proof (rule sv_steadyI [OF assms])
  show f: "sv_frame sv (sv_UpdateSessionTimestamp env s sv)"
    unfolding sv_UpdateSessionTimestamp_def using sv_calm_stacks [OF assms] by (rule sv_frame_upd_item) simp
  show "sv_ok (sv_UpdateSessionTimestamp env s sv)"
    by (rule sv_frame_ok [OF sv_calm_ok [OF assms] f])
      (simp add: sv_UpdateSessionTimestamp_def sv_okD(5) [OF sv_calm_ok [OF assms]])
qed

lemma sv_steady_front_list:
  assumes "sv_calm sv" and "sv_GetCurSessionListForFront u sv = (l, sv')"
  shows "sv_steady sv sv'" and "l = um_front (um_user u (svUsers sv)) (svUsers sv)"
    and "s \<in> set l \<Longrightarrow> um_of_user (items (svStore sv')) (um_user u (svUsers sv)) s (svUsers sv')"
proof -
  note F = sv_front_list [OF assms(2) sv_calm_stacks [OF assms(1)]]
  have "sv_ok sv'"
    by (rule sv_frame_ok [OF sv_calm_ok [OF assms(1)] F(1)]) (use F(3) sv_okD(5) [OF sv_calm_ok [OF assms(1)]] in simp)
  then show st: "sv_steady sv sv'" by (rule sv_steadyI [OF assms(1) F(1)])
  show "l = um_front (um_user u (svUsers sv)) (svUsers sv)" by (rule F(2))
  then show "s \<in> set l \<Longrightarrow> um_of_user (items (svStore sv')) (um_user u (svUsers sv)) s (svUsers sv')"
    using sv_okD(2) [OF sv_calm_ok [OF assms(1)]] sv_steady_of_user [OF st] by simp
qed

lemma sv_steady_container:
  assumes "sv_calm sv"
  shows "sv_steady sv (sv\<lparr>svUsers := snd (um_GetContainerFromUser u (svUsers sv))\<rparr>)"
proof (rule sv_steadyI [OF assms sv_frame_container [OF sv_calm_ok [OF assms]]])
  show "sv_ok (sv\<lparr>svUsers := snd (um_GetContainerFromUser u (svUsers sv))\<rparr>)"
    by (rule sv_frame_ok [OF sv_calm_ok [OF assms] sv_frame_container [OF sv_calm_ok [OF assms]]])
      (use sv_okD(5) [OF sv_calm_ok [OF assms]] in \<open>simp add: um_GetTopSession_def\<close>)
qed

lemma sv_steady_select: "sv_calm sv \<Longrightarrow> sv_steady sv (snd (sv_SelectFocusSession env uid pid sv))"
  using sv_SelectFocusSession_spec [OF sv_calm_ok refl prod.collapse [symmetric]] by (intro sv_steadyI) auto

lemma sv_steady_other:
  assumes "sv_calm sv" and "0 < u" and "sv_GetOtherPlayingSession env u bundle sv = (r, sv')"
  shows "sv_steady sv sv'" and "r = Some t \<Longrightarrow> um_of_user (items (svStore sv')) u t (svUsers sv')"
proof -
  have cast: "\<And>t. \<not> siCasting (items (svStore sv) t)" using assms(1) by (simp add: sv_calm_def)
  note G = sv_GetOtherPlayingSession_spec [OF sv_calm_stacks [OF assms(1)] assms(2) cast assms(3)]
  have "sv_ok sv'" by (rule sv_frame_ok [OF sv_calm_ok [OF assms(1)] G(1)]) (use G(3) sv_okD(5) [OF sv_calm_ok [OF assms(1)]] in simp)
  then show st: "sv_steady sv sv'" by (rule sv_steadyI [OF assms(1) G(1)])
  show "r = Some t \<Longrightarrow> um_of_user (items (svStore sv')) u t (svUsers sv')"
    using G(4) sv_okD(2) [OF sv_calm_ok [OF assms(1)]] sv_steady_of_user [OF st] by blast
qed

lemma sv_steady_handle_other:
  assumes "sv_calm sv" and "0 < u" and "\<And>t. r = Some t \<Longrightarrow> um_of_user (items (svStore sv)) u t (svUsers sv)"
  shows "sv_steady sv (sv_HandleOtherSessionPlaying env r sv)"
proof (cases r)
  case None
  then show ?thesis using sv_steady_refl [OF assms(1)] by (simp add: sv_HandleOtherSessionPlaying_def)
next
  case (Some t)
  note H = sv_HandleOtherSessionPlaying_spec [OF sv_calm_ok [OF assms(1)] assms(3) [OF Some] assms(2)]
  have "sv_ok (sv_HandleOtherSessionPlaying env (Some t) sv)"
    by (rule sv_frame_ok [OF sv_calm_ok [OF assms(1)] H(1)])
      (use H(2) assms(3) [OF Some] sv_okD(5) [OF sv_calm_ok [OF assms(1)]] in \<open>auto split: if_splits\<close>)
  then show ?thesis unfolding Some by (rule sv_steadyI [OF assms(1) H(1)])
qed

text \<open>When a session stops, another one that plays may take over.\<close>

lemma sv_steady_take_over:
  assumes "sv_calm sv" and "0 < u"
    and "(if isPlaying then (None, sv) else sv_GetOtherPlayingSession env u [] sv) = (r, sv1)"
  shows "sv_steady sv (if isPlaying then sv1 else sv_HandleOtherSessionPlaying env r sv1)"
proof (cases isPlaying)
  case True
  then show ?thesis using assms sv_steady_refl by simp
next
  case False
  then have g: "sv_GetOtherPlayingSession env u [] sv = (r, sv1)" using assms(3) by simp
  note G = sv_steady_other [OF assms(1,2) g]
  show ?thesis using False sv_steady_trans [OF G(1) sv_steady_handle_other [OF sv_steady_calm [OF G(1)] assms(2) G(2)]] by simp
qed

section \<open>The handlers\<close>

lemma sv_calm_member:
  assumes "sv_calm sv" and "s \<in> set (ss_GetAllSessions (umAll (svUsers sv)))"
  shows "um_of_user (items (svStore sv)) (siUserId (items (svStore sv) s)) s (svUsers sv)"
    and "0 < siUserId (items (svStore sv) s)" and "sv_session_user s sv = siUserId (items (svStore sv) s)"
  using assms by (auto simp: um_of_user_def sv_calm_def sv_session_user_def)

lemma ss_GetSessionById_member: "ss_GetSessionById h sid st = Some s \<Longrightarrow> s \<in> set (ss_GetAllSessions st) \<and> siSessionId (h s) = sid"
  unfolding ss_GetSessionById_def by (auto simp: find_Some_iff ss_GetAllSessions_def)

text \<open>Keeping the members.\<close>

lemma sv_steady_members: "sv_steady sv sv' \<Longrightarrow> umAll (svUsers sv') = umAll (svUsers sv)"
  by (simp add: sv_steady_def sv_frame_def)

lemma sv_steady_ProcTop:
  assumes "sv_calm sv" and "s \<in> set (ss_GetAllSessions (umAll (svUsers sv)))"
    and "sv_ProcTopSessionPlaying env (Some s) isPlaying isMediaChange sv = (b, sv')"
  shows "sv_steady sv sv'"
proof -
  define u where "u = siUserId (items (svStore sv) s)"
  note M = sv_calm_member [OF assms(1,2), folded u_def]
  obtain r sv1 where g: "(if isPlaying then (None, sv) else sv_GetOtherPlayingSession env u [] sv) = (r, sv1)" by fastforce
  define sv2 where "sv2 = (if isPlaying then sv1 else sv_HandleOtherSessionPlaying env r sv1)"
  have st: "sv_steady sv sv2" unfolding sv2_def by (rule sv_steady_take_over [OF assms(1) M(2) g])
  have "sv' = sv \<or> sv' = (if r = None then sv_NotifySystemUI env (isPlaying \<and> sv_IsCapsuleNeeded u sv2) isMediaChange u sv2 else sv2)"
    using assms(3) g M(3) by (auto simp: sv_ProcTopSessionPlaying_def sv2_def Let_def split: if_splits)
  then show ?thesis
    using sv_steady_refl [OF assms(1)] st sv_steady_trans [OF st sv_steady_notify [OF sv_steady_calm [OF st]]]
    by (auto split: if_splits)
qed

lemma sv_steady_by_id:
  assumes "sv_calm sv" and "\<And>s. s \<in> set (ss_GetAllSessions (umAll (svUsers sv))) \<Longrightarrow> sv_steady sv (f s sv)"
  shows "sv_steady sv (sv_by_id sid f sv)"
  using assms sv_steady_refl ss_GetSessionById_member by (auto simp: sv_by_id_def split: option.splits)

lemma sv_steady_by_id_current:
  assumes "sv_calm sv" and "\<And>s sv'. sv_steady sv sv' \<Longrightarrow> s \<in> set (ss_GetAllSessions (umAll (svUsers sv'))) \<Longrightarrow> sv_steady sv' (f s sv')"
  shows "sv_steady sv (sv_by_id_current sid f sv)"
proof -
  let ?u = "umCurUser (svUsers sv)"
  define sv1 where "sv1 = sv\<lparr>svUsers := snd (um_GetContainerFromUser ?u (svUsers sv))\<rparr>"
  have st: "sv_steady sv sv1" unfolding sv1_def by (rule sv_steady_container [OF assms(1)])
  have eq: "sv_by_id_current sid f sv = (case ss_GetSessionById (items (svStore sv1)) sid (um_stack ?u (svUsers sv)) of
      None \<Rightarrow> sv1 | Some s \<Rightarrow> f s sv1)"
    by (simp add: sv_by_id_current_def um_GetContainer_def sv1_def split_beta Let_def cong: option.case_cong)
  have "s \<in> set (ss_GetAllSessions (umAll (svUsers sv1)))" if "ss_GetSessionById h sid (um_stack ?u (svUsers sv)) = Some s" for h s
  proof -
    note ok = sv_okD(1) [OF sv_calm_ok [OF assms(1)]]
    from ss_GetSessionById_member [OF that] obtain p a where "ss_GetSession p a (um_stack ?u (svUsers sv)) = Some s"
      using stack.inv_all [OF um_okD(3) [OF ok]] by blast
    then show ?thesis
      using um_okD(4) [OF ok] stack.inv_all [OF um_okD(1) [OF ok], of s] sv_steady_members [OF st] by auto
  qed
  then show ?thesis using st assms(2) [OF st] sv_steady_trans [OF st] unfolding eq by (auto split: option.splits)
qed

lemma sv_steady_top_only:
  assumes "sv_calm sv"
  shows "sv_steady sv (sv_mode_of_top env s sv)" and "sv_steady sv (sv_extras_of_top env s sv)"
  using sv_steady_refl [OF assms] sv_steady_notify [OF assms] by (simp_all add: sv_mode_of_top_def sv_extras_of_top_def)

lemma sv_steady_anco: "sv_steady sv sv1 \<Longrightarrow> sv_steady sv (sv1\<lparr>svAncoMediaSessionChange := b\<rparr>)"
  by (rule sv_steady_trans [where b = sv1]) (simp_all add: sv_steady_fields [OF sv_steady_calm])

lemma sv_steady_anco_to_top:
  assumes "sv_calm sv" and "s \<in> set (ss_GetAllSessions (umAll (svUsers sv)))"
  shows "sv_steady sv (sv_anco_to_top env s u sv)"
  using sv_steady_refl [OF assms(1)] sv_steady_anco [OF sv_steady_top [OF assms(1) sv_calm_member(1) [OF assms]]]
  by (simp add: sv_anco_to_top_def)

lemma sv_steady_capsule_of_top:
  assumes "sv_calm sv" and "s \<in> set (ss_GetAllSessions (umAll (svUsers sv)))"
  shows "sv_steady sv (sv_capsule_of_top env b s sv)"
proof -
  note st = sv_steady_anco_to_top [OF assms, of env "sv_session_user s sv"]
  from sv_steady_trans [OF st sv_steady_notify [OF sv_steady_calm [OF st]]] show ?thesis
    using sv_steady_refl [OF assms(1)] by (simp add: sv_capsule_of_top_def Let_def)
qed

lemma sv_steady_media_session_to_top:
  assumes "sv_calm sv" and "s \<in> set (ss_GetAllSessions (umAll (svUsers sv)))"
  shows "sv_steady sv (sv_media_session_to_top env b s sv)"
proof -
  define u where "u = sv_session_user s sv"
  define sv1 where "sv1 = snd (sv_SelectFocusSession env (siUid (sv_item sv s)) (siPid (sv_item sv s)) sv)"
  obtain l sv2 where g: "sv_GetCurSessionListForFront u sv1 = (l, sv2)" by fastforce
  define sv3 where "sv3 = (sv_UpdateTopSession env (Some s) u sv2)\<lparr>svAncoMediaSessionChange := False\<rparr>"
  have 1: "sv_steady sv sv1" unfolding sv1_def by (rule sv_steady_select [OF assms(1)])
  note F = sv_steady_front_list [OF sv_steady_calm [OF 1] g]
  have 2: "sv_steady sv sv2" by (rule sv_steady_trans [OF 1 F(1)])
  have mem: "s \<in> set (ss_GetAllSessions (umAll (svUsers sv2)))" using assms(2) sv_steady_members [OF 2] by simp
  have 3: "sv_steady sv sv3" unfolding sv3_def
    by (rule sv_steady_trans [OF 2 sv_steady_anco [OF sv_steady_top [OF sv_steady_calm [OF 2] sv_calm_member(1) [OF sv_steady_calm [OF 2] mem]]]])
  have eq: "sv_media_session_to_top env b s sv = (if s \<notin> set l then sv2 else sv_NotifySystemUI env (sv_IsCapsuleNeeded u sv3) b u sv3)"
    using g by (simp add: sv_media_session_to_top_def u_def [symmetric] sv1_def [symmetric] sv3_def Let_def)
  show ?thesis unfolding eq using 2 sv_steady_trans [OF 3 sv_steady_notify [OF sv_steady_calm [OF 3]]] by simp
qed

lemma sv_steady_media_session:
  assumes "sv_calm sv" and "s \<in> set (ss_GetAllSessions (umAll (svUsers sv)))"
  shows "sv_steady sv (sv_media_session env isPlaying b s sv)"
proof -
  obtain same sv1 where g: "sv_ProcTopSessionPlaying env (Some s) isPlaying b sv = (same, sv1)" by fastforce
  note st = sv_steady_ProcTop [OF assms g]
  have "s \<in> set (ss_GetAllSessions (umAll (svUsers sv1)))" using assms(2) sv_steady_members [OF st] by simp
  from sv_steady_trans [OF st sv_steady_media_session_to_top [OF sv_steady_calm [OF st] this]] st
  show ?thesis by (simp add: sv_media_session_def g)
qed

lemma sv_steady_playing_to_top:
  assumes "sv_calm sv" and "s \<in> set (ss_GetAllSessions (umAll (svUsers sv)))"
  shows "sv_steady sv (sv_playing_to_top env s sv)"
proof -
  note st = sv_steady_top [OF assms(1) sv_calm_member(1) [OF assms], of env "sv_session_user s sv"]
  note st = sv_steady_trans [OF st sv_steady_select [OF sv_steady_calm [OF st]]]
  from sv_steady_trans [OF st sv_steady_notify [OF sv_steady_calm [OF st]]] show ?thesis
    using sv_steady_refl [OF assms(1)] by (simp add: sv_playing_to_top_def Let_def)
qed

text \<open>The callbacks, apart from the one about the front, whatever session they name.\<close>

lemma sv_steady_callbacks:
  assumes "sv_calm sv"
  shows "sv_steady sv (sv_on_UpdateExtras env sid sv)" and "sv_steady sv (sv_on_NtfCapsule env sid b sv)"
    and "sv_steady sv (sv_on_MediaSession env sid isPlaying b sv)" and "sv_steady sv (sv_on_BgPlayModeChange env sid sv)"
    and "sv_steady sv (sv_on_UpdateTop env permitted sid sv)"
proof -
  note by_id = sv_steady_by_id [OF assms] and refl = sv_steady_refl [OF assms]
  show "sv_steady sv (sv_on_UpdateExtras env sid sv)" unfolding sv_on_UpdateExtras_def
    by (rule by_id) (rule sv_steady_top_only [OF assms])
  show "sv_steady sv (sv_on_BgPlayModeChange env sid sv)" unfolding sv_on_BgPlayModeChange_def
    by (rule by_id) (rule sv_steady_top_only [OF assms])
  show "sv_steady sv (sv_on_MediaSession env sid isPlaying b sv)" unfolding sv_on_MediaSession_def
    by (rule by_id) (rule sv_steady_media_session [OF assms])
  show "sv_steady sv (sv_on_NtfCapsule env sid b sv)"
    using refl by_id [of "sv_capsule_of_top env b" sid, OF sv_steady_capsule_of_top [OF assms]] by (simp add: sv_on_NtfCapsule_def)
  show "sv_steady sv (sv_on_UpdateTop env permitted sid sv)"
    using refl sv_steady_by_id_current [OF assms, of "sv_playing_to_top env" sid, OF sv_steady_playing_to_top [OF sv_steady_calm]] by (simp add: sv_on_UpdateTop_def)
qed

section \<open>Reports of the audio framework\<close>

lemma sv_steady_change_top:
  assumes "sv_calm sv" and "0 < u"
  shows "sv_steady sv (sv_HandleChangeTopSession env uid pid u sv)"
proof (cases "\<exists>t \<in> set (um_front u (svUsers sv)). siUid (items (svStore sv) t) = uid
    \<and> siPid (items (svStore sv) t) = pid \<and> \<not> is_call (items (svStore sv) t)")
  case True
  from sv_HandleChangeTopSession_spec(2,3) [OF sv_calm_ok [OF assms(1)] assms(2) True refl] assms(1)
  show ?thesis by (intro sv_steadyI)
next
  case False
  obtain l sv1 where g: "sv_GetCurSessionListForFront u sv = (l, sv1)" by fastforce
  note F = sv_steady_front_list [OF assms(1) g] and S = sv_front_list(4) [OF g sv_calm_stacks [OF assms(1)]]
  have "List.find (\<lambda>s. siUid (sv_item sv1 s) = uid \<and> siPid (sv_item sv1 s) = pid \<and> \<not> is_call (sv_item sv1 s)) l = None"
    using False F(2) assms(2) S by (simp add: find_None_iff um_user_def)
  then show ?thesis using F(1) by (simp add: sv_HandleChangeTopSession_def g)
qed

lemma sv_steady_focus_is_top:
  assumes "sv_calm sv" and "0 < u"
  shows "sv_steady sv (sv_focus_is_top env u t isPlaying sv)"
proof -
  obtain r sv1 where g: "(if isPlaying then (None, sv) else sv_GetOtherPlayingSession env u [] sv) = (r, sv1)" by fastforce
  define sv2 where "sv2 = (if isPlaying then sv1 else sv_HandleOtherSessionPlaying env r sv1)"
  define sv3 where "sv3 = (if isPlaying then sv_log (UpdateNotification (siUid (sv_item sv2 t)) (siPid (sv_item sv2 t)) True) sv2 else sv2)"
  have 2: "sv_steady sv sv2" unfolding sv2_def by (rule sv_steady_take_over [OF assms g])
  have 3: "sv_steady sv sv3"
    using 2 sv_steady_trans [OF 2 sv_steady_log [OF sv_steady_calm [OF 2]]] by (simp add: sv3_def)
  have 4: "sv_steady sv (sv_NotifySystemUI env a b u sv3)" for a b
    by (rule sv_steady_trans [OF 3 sv_steady_notify [OF sv_steady_calm [OF 3]]])
  have "sv_focus_is_top env u t isPlaying sv \<in> {sv, sv2, sv3, sv_NotifySystemUI env (isPlaying \<and> sv_IsCapsuleNeeded u sv3) False u sv3}"
    using g by (cases isPlaying) (auto simp: sv_focus_is_top_def sv2_def sv3_def Let_def)
  then show ?thesis using sv_steady_refl [OF assms(1)] 2 3 4 by auto
qed

lemma sv_steady_anco_focus:
  assumes "sv_calm sv"
  shows "sv_steady sv (sv_anco_focus env uid u sv)"
proof -
  define sv1 where "sv1 = sv\<lparr>svUsers := snd (um_GetContainerFromUser u (svUsers sv))\<rparr>"
  have 1: "sv_steady sv sv1" unfolding sv1_def by (rule sv_steady_container [OF assms])
  have 2: "sv_steady sv (sv1\<lparr>svAnco := a\<rparr>)" for a
    by (rule sv_steady_trans [OF 1 sv_steady_fields [OF sv_steady_calm [OF 1]]]) simp_all
  obtain st um where c: "um_GetContainerFromUser u (svUsers sv) = (st, um)" by fastforce
  then have sv1: "sv\<lparr>svUsers := um\<rparr> = sv1" by (simp add: sv1_def)
  have "sv_anco_focus env uid u sv = (case ss_GetSessionByUid (items (svStore sv1)) uid st of
      None \<Rightarrow> sv1 | Some s \<Rightarrow> sv_UpdateSessionTimestamp env s (sv1\<lparr>svAnco := Some s\<rparr>))"
    unfolding sv_anco_focus_def c Let_def prod.case sv1 ..
  then show ?thesis
    using 1 sv_steady_trans [OF 2 sv_steady_timestamp [OF sv_steady_calm [OF 2]]] by (auto split: option.splits)
qed

lemma sv_steady_focus:
  assumes "sv_calm sv"
  shows "sv_steady sv (sv_HandleFocusSession env uid pid isPlaying sv)"
proof -
  have u: "0 < sv_GetUserIdFromCallingUid uid sv"
    using assms by (auto simp: sv_GetUserIdFromCallingUid_def sv_calm_def Let_def)
  show ?thesis
    using sv_steady_anco_focus [OF assms] sv_steady_focus_is_top [OF assms u] sv_steady_change_top [OF assms u]
      sv_steady_refl [OF assms]
    by (auto simp: sv_HandleFocusSession_def Let_def split: option.splits)
qed

lemma sv_steady_UpdateFocusSession:
  assumes "sv_calm sv"
  shows "sv_steady sv (sv_UpdateFocusSession env k sv)"
  unfolding sv_UpdateFocusSession_def
  by (rule sv_steady_trans [OF sv_steady_select [OF assms] sv_steady_focus [OF sv_steady_calm [OF sv_steady_select [OF assms]]]])

text \<open>A report of the audio framework, and the check that it delays.\<close>

lemma sv_steady_audio:
  assumes "sv_calm sv"
  shows "sv_steady sv (snd (sv_audio_event env infos (fs, sv)))" and "sv_steady sv (snd (sv_focus_stop_task env k (fs, sv)))"
  using sv_steady_UpdateFocusSession [OF assms] sv_steady_focus [OF assms] sv_steady_refl [OF assms]
  by (auto simp: sv_audio_event_def sv_focus_stop_task_def split: prod.splits option.splits)

section \<open>The media card\<close>

lemma sv_steady_card:
  assumes "sv_calm sv"
  shows "sv_steady sv (snd (sv_HandleMediaCardStateChangeEvent env a u sv))" and "sv_steady sv (sv_card_stop_task env u sv)"
proof -
  show "sv_steady sv (snd (sv_HandleMediaCardStateChangeEvent env a u sv))"
    using assms by (rule sv_steady_fields)
      (simp_all add: sv_HandleMediaCardStateChangeEvent_def sv_SetCardStateChangeStopTask_def sv_SetMediaCardOpen_def Let_def)
  show "sv_steady sv (sv_card_stop_task env u sv)"
    using assms by (rule sv_steady_fields)
      (simp_all add: sv_card_stop_task_def sv_SetCardStateChangeStopTask_def)
qed

end
