(* ===== verification/ServiceFront.thy ===== *)
theory ServiceFront
  imports ServiceSteady
begin

text \<open>
  The list of sessions in front under \<^verbatim>\<open>UpdateFrontSession\<close>, for any session and either direction:
  exactly the named session enters or leaves the list of its user.
\<close>

section \<open>Steps that keep everything but the lists\<close>

definition sv_near :: "service \<Rightarrow> service \<Rightarrow> bool" where
  "sv_near sv sv' \<longleftrightarrow> sv_calm sv' \<and> (\<forall>t. si_core (items (svStore sv') t) = si_core (items (svStore sv) t))
     \<and> svControlBundleNames sv' = svControlBundleNames sv \<and> umAll (svUsers sv') = umAll (svUsers sv)
     \<and> umAlive (svUsers sv') = umAlive (svUsers sv) \<and> umCurUser (svUsers sv') = umCurUser (svUsers sv)"

lemma sv_near_refl: "sv_calm sv \<Longrightarrow> sv_near sv sv"
  by (simp add: sv_near_def)

lemma sv_near_trans: "sv_near a b \<Longrightarrow> sv_near b c \<Longrightarrow> sv_near a c"
  by (simp add: sv_near_def)

lemma sv_near_calm: "sv_near sv sv' \<Longrightarrow> sv_calm sv'"
  by (simp add: sv_near_def)

lemma sv_steady_near: "sv_steady sv sv' \<Longrightarrow> sv_near sv sv'"
  by (simp add: sv_steady_def sv_near_def sv_frame_def)

lemma sv_steady_front: "sv_steady sv sv' \<Longrightarrow> set (um_front v (svUsers sv')) = set (um_front v (svUsers sv))"
  by (simp add: sv_steady_def sv_frame_def)

lemma sv_near_items:
  assumes "sv_near sv sv'"
  shows "siUserId (items (svStore sv') s) = siUserId (items (svStore sv) s)"
    and "siBundle (items (svStore sv') s) = siBundle (items (svStore sv) s)"
    and "siType (items (svStore sv') s) = siType (items (svStore sv) s)"
    and "siSessionId (items (svStore sv') s) = siSessionId (items (svStore sv) s)"
    and "siDestroyed (items (svStore sv') s) = siDestroyed (items (svStore sv) s)"
proof -
  have "si_core (items (svStore sv') s) = si_core (items (svStore sv) s)" using assms by (simp add: sv_near_def)
  note F = si_core_fields [OF this]
  show "siUserId (items (svStore sv') s) = siUserId (items (svStore sv) s)"
    "siBundle (items (svStore sv') s) = siBundle (items (svStore sv) s)"
    "siType (items (svStore sv') s) = siType (items (svStore sv) s)"
    "siSessionId (items (svStore sv') s) = siSessionId (items (svStore sv) s)"
    "siDestroyed (items (svStore sv') s) = siDestroyed (items (svStore sv) s)" by (rule F)+
qed

lemma sv_near_of_user:
  "sv_near sv sv' \<Longrightarrow> um_of_user (items (svStore sv')) u s (svUsers sv') = um_of_user (items (svStore sv)) u s (svUsers sv)"
  using sv_near_items(1) [of sv sv' s] by (simp add: um_of_user_def sv_near_def)

text \<open>A list of sessions of the user in the place of the list in front.\<close>

lemma sv_near_set_front:
  assumes "sv_calm sv" and "0 < u" and "\<And>s. s \<in> set l \<Longrightarrow> um_of_user (items (svStore sv)) u s (svUsers sv)"
  shows "sv_near sv (sv_upd_users (um_set_front u l) sv)"
proof -
  let ?sv = "sv_upd_users (um_set_front u l) sv"
  have "um_ok (items (svStore sv)) (um_set_front u l (svUsers sv))"
    using sv_okD(1) [OF sv_calm_ok [OF assms(1)]] um_ok_cong [of "um_set_front u l (svUsers sv)" "svUsers sv"] by simp
  then have "sv_ok ?sv"
    using sv_okD [OF sv_calm_ok [OF assms(1)]] assms(2,3) by (simp add: sv_ok_def um_of_user_def um_user_def)
  then show ?thesis using assms(1) by (simp add: sv_near_def sv_calm_def)
qed

lemma sv_front_positive [simp]: "0 < u \<Longrightarrow> um_user u um = u"
  by (simp add: um_user_def)

section \<open>The front\<close>

definition sv_frontable :: "sref \<Rightarrow> service \<Rightarrow> bool" where
  "sv_frontable s sv \<longleftrightarrow> siBundle (items (svStore sv) s) \<notin> set (svControlBundleNames sv)
     \<and> siType (items (svStore sv) s) \<noteq> SESSION_TYPE_PHOTO"

lemma sv_near_frontable: "sv_near sv sv' \<Longrightarrow> sv_frontable s sv' = sv_frontable s sv"
  using sv_near_items(2,3) [of sv sv' s] by (simp add: sv_frontable_def sv_near_def)

lemma sv_steady_fields_near: "sv_calm sv \<Longrightarrow> svStore sv' = svStore sv \<Longrightarrow> svUsers sv' = svUsers sv \<Longrightarrow>
    svControllers sv' = svControllers sv \<Longrightarrow> svControlBundleNames sv' = svControlBundleNames sv \<Longrightarrow> sv_near sv sv'"
  by (rule sv_steady_near [OF sv_steady_fields])

lemma sv_UpdateFrontSession_add:
  assumes calm: "sv_calm sv" and s: "um_of_user (items (svStore sv)) u s (svUsers sv)" and u: "0 < u"
    and can: "sv_frontable s sv" and sv': "sv' = sv_UpdateFrontSession env s True sv"
  shows "sv_near sv sv'" and "set (um_front v (svUsers sv')) =
    (if v = u then insert s (set (um_front v (svUsers sv))) else set (um_front v (svUsers sv)))"
proof -
  obtain l sv1 where g: "sv_GetCurSessionListForFront u sv = (l, sv1)" by fastforce
  note F = sv_steady_front_list [OF calm g]
  have l: "l = um_front u (svUsers sv1)" using F(2) sv_front_list(5) [OF g sv_calm_stacks [OF calm]] u by simp
  define sv2 where "sv2 = sv_log (UpdateNotification (siUid (sv_item sv1 s)) (siPid (sv_item sv1 s)) True) sv1"
  have 2: "sv_steady sv sv2" unfolding sv2_def
    by (rule sv_steady_trans [OF F(1) sv_steady_log [OF sv_steady_calm [OF F(1)]]])
  note c2 = sv_steady_calm [OF 2]
  have l2: "um_front u (svUsers sv2) = l" "\<And>t. t \<in> set l \<Longrightarrow> um_of_user (items (svStore sv2)) u t (svUsers sv2)"
    using l F(3) u by (simp_all add: sv2_def)
  have s2: "um_of_user (items (svStore sv2)) u s (svUsers sv2)" using s sv_steady_of_user [OF 2] by simp
  have us: "siUserId (items (svStore sv) s) = u" using s by (simp add: um_of_user_def)
  define sv3 where "sv3 = sv_upd_users (um_set_front u (s # l)) sv2"
  have 3: "sv_near sv2 sv3" unfolding sv3_def
    using c2 u by (rule sv_near_set_front) (use s2 l2(2) in auto)
  note c3 = sv_near_calm [OF 3]
  have s3: "um_of_user (items (svStore sv3)) u s (svUsers sv3)" using s2 sv_near_of_user [OF 3] by simp
  define sv4 where "sv4 = (if sv_IsLocalSessionPlaying env (Some s) sv3
      then sv_NotifySystemUI env (sv_IsCapsuleNeeded u (sv_UpdateTopSession env (Some s) u sv3)) False u
             (sv_UpdateTopSession env (Some s) u sv3) else sv3)"
  have 4: "sv_steady sv3 sv4"
  proof -
    note T = sv_steady_top [OF c3 s3, of env u]
    show ?thesis using sv_steady_trans [OF T sv_steady_notify [OF sv_steady_calm [OF T]]] sv_steady_refl [OF c3]
      by (simp add: sv4_def)
  qed
  have eq: "sv' = (if s \<in> set l then sv2 else sv_NotifySessionChange (s # l) u (sv_UpdateLocalFrontSession (s # l) sv4))"
    using g can us by (simp add: sv' sv_UpdateFrontSession_def sv_frontable_def si_GetSessionType_photo sv2_def
        sv3_def sv4_def sv_front_list(4) [OF g sv_calm_stacks [OF calm]] Let_def cong: if_cong)
  have 5: "sv_near sv sv2" "sv_near sv sv4"
    using sv_near_trans [OF sv_steady_near [OF 2] sv_near_trans [OF 3 sv_steady_near [OF 4]]] sv_steady_near [OF 2] by simp_all
  show "sv_near sv sv'"
    using 5 sv_near_trans [OF 5(2) sv_steady_fields_near [OF sv_near_calm [OF 5(2)], of "sv_NotifySessionChange (s # l) u (sv_UpdateLocalFrontSession (s # l) sv4)"]]
    by (simp add: eq)
  have "set (um_front v (svUsers sv4)) = (if v = u then insert s (set l) else set (um_front v (svUsers sv2)))" for v
    using sv_steady_front [OF 4] u by (simp add: sv3_def)
  then show "set (um_front v (svUsers sv')) = (if v = u then insert s (set (um_front v (svUsers sv))) else set (um_front v (svUsers sv)))"
    using sv_steady_front [OF 2] l2(1) by (auto simp: eq)
qed

lemma sv_UpdateFrontSession_drop:
  assumes calm: "sv_calm sv" and s: "um_of_user (items (svStore sv)) u s (svUsers sv)" and u: "0 < u"
    and alive: "um_IsUserAlive u (svUsers sv)"
    and can: "sv_frontable s sv" and sv': "sv' = sv_UpdateFrontSession env s False sv"
  shows "sv_near sv sv'" and "set (um_front v (svUsers sv')) =
    (if v = u then set (um_front v (svUsers sv)) - {s} else set (um_front v (svUsers sv)))"
proof -
  obtain l0 sv1 where g: "sv_GetCurSessionListForFront u sv = (l0, sv1)" by fastforce
  note F = sv_steady_front_list [OF calm g]
  define sv2 where "sv2 = sv_log (UpdateNotification (siUid (sv_item sv1 s)) (siPid (sv_item sv1 s)) False) sv1"
  have 2: "sv_steady sv sv2" unfolding sv2_def
    by (rule sv_steady_trans [OF F(1) sv_steady_log [OF sv_steady_calm [OF F(1)]]])
  note c2 = sv_steady_calm [OF 2]
  have us: "siUserId (items (svStore sv) s) = u" using s by (simp add: um_of_user_def)
  define sv3 where "sv3 = sv_HandleTopSessionRelease env u s sv2"
  have cast: "\<And>t. \<not> siCasting (items (svStore sv2) t)" using c2 by (simp add: sv_calm_def)
  have alive2: "um_IsUserAlive u (svUsers sv2)" and us2: "siUserId (items (svStore sv2) s) = u"
    using alive us sv_steady_near [OF 2] sv_steady_user(1) [OF 2] by (simp_all add: um_IsUserAlive_def sv_near_def)
  note T = sv_HandleTopSessionRelease_spec [OF sv_calm_ok [OF c2] cast u alive2 us2 sv3_def]
  have 3: "sv_steady sv sv3" by (rule sv_steady_trans [OF 2 sv_steadyI [OF c2 T(1,2)]])
  obtain l sv4 where g4: "sv_GetCurSessionListForFront u sv3 = (l, sv4)" by fastforce
  note F4 = sv_steady_front_list [OF sv_steady_calm [OF 3] g4]
  have l: "l = um_front u (svUsers sv3)" using F4(2) u by simp
  have 4: "sv_steady sv sv4" by (rule sv_steady_trans [OF 3 F4(1)])
  define sv5 where "sv5 = sv_upd_users (um_set_front u (list_remove s l)) sv4"
  have 5: "sv_near sv4 sv5" unfolding sv5_def
    using sv_steady_calm [OF 4] u by (rule sv_near_set_front) (use F4(3) u in auto)
  have eq: "sv' = sv_NotifySessionChange (list_remove s l) u (sv_UpdateLocalFrontSession (list_remove s l) sv5)"
    using g g4 can us by (simp add: sv' sv_UpdateFrontSession_def sv_frontable_def si_GetSessionType_photo sv2_def
        sv3_def sv5_def sv_front_list(4) [OF g sv_calm_stacks [OF calm]] Let_def cong: if_cong)
  have 6: "sv_near sv sv5" by (rule sv_near_trans [OF sv_steady_near [OF 4] 5])
  show "sv_near sv sv'" unfolding eq by (rule sv_near_trans [OF 6 sv_steady_fields_near [OF sv_near_calm [OF 6]]]) simp_all
  show "set (um_front v (svUsers sv')) = (if v = u then set (um_front v (svUsers sv)) - {s} else set (um_front v (svUsers sv)))"
    using sv_steady_front [OF 3, of u] sv_steady_front [OF 4, of v] u by (auto simp: eq sv5_def l)
qed

text \<open>Sessions of other bundles are left alone.\<close>

lemma sv_UpdateFrontSession_no:
  assumes "sv_calm sv" and "\<not> sv_frontable s sv" and "sv' = sv_UpdateFrontSession env s b sv"
  shows "sv_steady sv sv'"
proof -
  obtain l sv1 where g: "sv_GetCurSessionListForFront (siUserId (items (svStore sv) s)) sv = (l, sv1)" by fastforce
  have "sv' = sv \<or> sv' = sv1" using assms(2,3) g sv_front_list(4) [OF g sv_calm_stacks [OF assms(1)]]
    by (auto simp: sv_UpdateFrontSession_def sv_frontable_def si_GetSessionType_photo Let_def)
  then show ?thesis using sv_steady_refl [OF assms(1)] sv_steady_front_list(1) [OF assms(1) g] by auto
qed

end
