(* ===== verification/SessionEvents.thy ===== *)
theory SessionEvents
  imports SessionFront "HOL-Library.Sublist"
begin

text \<open>
  What a step of a session adds to its events: the steps only append, they never change who the
  session is, and what they tell the service about the front names the session itself and its user.
\<close>

section \<open>Who the session is\<close>

text \<open>A session without the three fields that its own operations set.\<close>

definition si_identity :: "session \<Rightarrow> session" where
  "si_identity s = s\<lparr>siPlaybackState := 0, siIsActive := False, siBackgroundPlayMode := 0\<rparr>"

lemma si_identity_set [simp]:
  "si_identity (s\<lparr>siPlaybackState := x\<rparr>) = si_identity s" "si_identity (s\<lparr>siIsActive := b\<rparr>) = si_identity s"
  "si_identity (s\<lparr>siBackgroundPlayMode := y\<rparr>) = si_identity s"
  by (simp_all add: si_identity_def)

lemma si_identity_fields:
  assumes "si_identity s = si_identity t"
  shows "siSessionId s = siSessionId t" and "siPid s = siPid t" and "siUid s = siUid t"
    and "siUserId s = siUserId t" and "siType s = siType t" and "siBundle s = siBundle t"
    and "siAbility s = siAbility t" and "siCasting s = siCasting t" and "siDestroyed s = siDestroyed t"
  using assms by (cases s, cases t, simp add: si_identity_def)+

section \<open>Appended events\<close>

definition addressed :: "session \<Rightarrow> ('w, 'q) sd_event \<Rightarrow> bool" where
  "addressed c e \<longleftrightarrow> (case e of UpdateSession sid b u \<Rightarrow> sid = siSessionId c \<and> u = siUserId c | _ \<Rightarrow> True)"

lemma addressed_simps [simp]:
  "addressed c (UpdateSession sid b u) \<longleftrightarrow> sid = siSessionId c \<and> u = siUserId c"
  "addressed c (Told p l n)" "addressed c (Asked q)" "addressed c (AskedMigrate q)" "addressed c AddAVQueueInfo"
  "addressed c (MediaSession sid b)" "addressed c (BgPlayModeChange sid i)" "addressed c (NtfCapsule sid)"
  "addressed c (UpdateTop sid)" "addressed c (AudioScene b)" "addressed c (CtrlCmdEvent nm i j)"
  "addressed c (StartLyric sid)" "addressed c (LyricOperation sid tt)"
  by (simp_all add: addressed_def)

definition sd_new_events :: "('w, 'q) sess_data \<Rightarrow> ('w, 'q) sess_data \<Rightarrow> ('w, 'q) sd_event list" where
  "sd_new_events sd sd' = drop (length (sdEvents sd)) (sdEvents sd')"

definition sd_adds :: "('w, 'q) sess_data \<Rightarrow> ('w, 'q) sess_data \<Rightarrow> bool" where
  "sd_adds sd sd' \<longleftrightarrow> si_identity (sdCore sd') = si_identity (sdCore sd) \<and> prefix (sdEvents sd) (sdEvents sd')
     \<and> (\<forall>e \<in> set (sd_new_events sd sd'). addressed (sdCore sd) e)"

lemma addressed_cong: "si_identity c = si_identity d \<Longrightarrow> addressed c e = addressed d e"
  using si_identity_fields(1,4) [of c d] by (simp add: addressed_def split: sd_event.splits)

lemma sd_adds_refl [simp]: "sd_adds sd sd"
  by (simp add: sd_adds_def sd_new_events_def)

lemma sd_adds_trans:
  assumes "sd_adds a b" and "sd_adds b c"
  shows "sd_adds a c"
proof -
  obtain es fs where es: "sdEvents b = sdEvents a @ es" and fs: "sdEvents c = sdEvents b @ fs"
    using assms by (auto simp: sd_adds_def elim!: prefixE)
  have "addressed (sdCore b) e = addressed (sdCore a) e" for e
    using assms(1) by (intro addressed_cong) (simp add: sd_adds_def)
  with assms es fs show ?thesis by (auto simp: sd_adds_def sd_new_events_def)
qed

lemma sd_adds_log: "(\<And>e. e \<in> set es \<Longrightarrow> addressed (sdCore sd) e) \<Longrightarrow> sd_adds sd (sd_log es sd)"
  by (simp add: sd_adds_def sd_new_events_def)

text \<open>Changes of other fields.\<close>

lemma sd_adds_fields:
  "sdCore sd' = sdCore sd \<Longrightarrow> sdEvents sd' = sdEvents sd \<Longrightarrow> sd_adds sd sd'"
  by (simp add: sd_adds_def sd_new_events_def)

lemma sd_adds_told: "sd_adds sd (sd_tell h sd)"
  unfolding sd_tell_def by (rule sd_adds_log) auto

lemma sd_adds_front: "sd_adds sd (sd_HandleFrontSession sd)"
  by (simp add: sd_HandleFrontSession_def sd_adds_def sd_new_events_def)

section \<open>Steps on the data\<close>

lemma told_addressed [simp]:
  "\<forall>x\<in>set cs. \<forall>e\<in>(\<lambda>(l, n). Told p l n) ` A x. addressed c e"
  by auto

lemma sd_adds_quiet:
  assumes "sd_quiet sd sd'"
  shows "sd_adds sd sd'"
proof -
  obtain es where es: "sd' = sd_log es sd" "front_of es = []" using assms by (auto simp: sd_quiet_def)
  have "addressed (sdCore sd) e" if "e \<in> set es" for e
  proof (cases e)
    case (UpdateSession sid b u)
    then have "b \<in> set (front_of es)" using that
      by (force simp: front_of_def map_filter_def image_iff)
    then show ?thesis using es(2) by simp
  qed simp_all
  then show ?thesis unfolding es(1) by (rule sd_adds_log)
qed

lemma sd_adds_playback: "sd_SetAVPlaybackState weq state sd = (r, sd') \<Longrightarrow> sd_adds sd sd'"
  by (auto simp: sd_SetAVPlaybackState_def sd_CheckIfSendCapsule_def sd_queue_info_def sd_tell_def sd_adds_def
      sd_new_events_def Let_def split: prod.splits if_splits)

lemma sd_adds_commands:
  "sd_AddSupportCommand cmd sd = (r, sd') \<Longrightarrow> sd_adds sd sd'"
  "sd_DeleteSupportCommand cmd sd = (r, sd') \<Longrightarrow> sd_adds sd sd'"
  "sd_adds sd (sd_SetSupportCommand cmds sd)"
  by (auto simp: sd_AddSupportCommand_def sd_DeleteSupportCommand_def sd_SetSupportCommand_def sd_HandleFrontSession_def
      sd_tell_def sd_adds_def sd_new_events_def Let_def split: if_splits)

lemma sd_adds_ops:
  "sd_adds sd (sd_capsule_task sd)"
  "sd_SetAVQueueItems xs sd = (r, sd') \<Longrightarrow> sd_adds sd sd'"
  "sd_SetAVQueueTitle t sd = (r, sd') \<Longrightarrow> sd_adds sd sd'"
  "sd_SendCustomData customData w sd = (r, sd') \<Longrightarrow> sd_adds sd sd'"
  "sd_SetSessionEvent ev w sd = (r, sd') \<Longrightarrow> sd_adds sd sd'"
  "sd_Activate sd = (r, sd') \<Longrightarrow> sd_adds sd sd'"
  "sd_Deactivate sd = (r, sd') \<Longrightarrow> sd_adds sd sd'"
  "sd_SetMediaCenterControlType is sd = (r, sd') \<Longrightarrow> sd_adds sd sd'"
  "sd_SetSupportedPlaySpeeds ds sd = (r, sd') \<Longrightarrow> sd_adds sd sd'"
  "sd_SetSupportedLoopModes is sd = (r, sd') \<Longrightarrow> sd_adds sd sd'"
  "sd_adds sd (sd_SetDesktopLyricFeatureSupported b sd)"
  "sd_EnableDesktopLyric b sd = (r, sd') \<Longrightarrow> sd_adds sd sd'"
  "sd_SetDesktopLyricVisibleInner ok b hdl sd = (r, sd') \<Longrightarrow> sd_adds sd sd'"
  "sd_SetDesktopLyricStateInner b hdl sd = (r, sd') \<Longrightarrow> sd_adds sd sd'"
  "sd_SetBackgroundPlayMode mode sd = (r, sd') \<Longrightarrow> sd_adds sd sd'"
  "sd_RegisterCallbackInner b sd = (r, sd') \<Longrightarrow> sd_adds sd sd'"
  "sd_adds sd (sd_RegisterAVSessionCallback b sd)"
  "sd_AddController pid c sd = (r, sd') \<Longrightarrow> sd_adds sd sd'"
  "sd_adds sd (sd_HandleControllerRelease pid sd)"
  "sd_adds sd (sd_on_controller pid f sd)"
  by (auto simp: sd_op_defs sd_capsule_task_def sd_on_controller_def sd_tell_def sd_adds_def sd_new_events_def Let_def
      split: option.splits if_splits)

lemma sd_adds_step:
  assumes "sd_step weq customData sd sd'"
  shows "sd_adds sd sd'"
  using assms
  by (cases rule: sd_step.cases)
    (metis sd_adds_playback sd_adds_commands sd_adds_ops sd_adds_quiet sd_quiet_send sd_quiet_execute sd_quiet_key
      sd_quiet_others)+

section \<open>Steps on the metadata\<close>

lemma sd_adds_same: "sdCore sd' = sdCore sd \<Longrightarrow> sdEvents sd' = sdEvents sd @ es \<Longrightarrow>
    (\<And>e. e \<in> set es \<Longrightarrow> addressed (sdCore sd) e) \<Longrightarrow> sd_adds sd sd'"
  by (simp add: sd_adds_def sd_new_events_def)

lemma im_adds_read: "sd_adds (imSd st) (imSd (im_ReadMediaAndAVQueueImg env filt m st))"
  by (rule sd_adds_fields) (simp_all add: im_ReadMediaAndAVQueueImg_def Let_def)

lemma im_adds_store: "sd_adds (imSd st) (imSd (im_store_media env u st))"
  by (rule sd_adds_fields) (auto simp: im_store_media_def Let_def dest!: imSd_alloc split: option.splits prod.splits)

lemma im_adds_update: "sd_adds (imSd st) (imSd (im_UpdateMetaData env m st))"
proof -
  let ?new = "assetId (sdMeta (imSd st)) \<noteq> assetId (pmData m) \<or> sd_CheckTitleChange (pmData m) (imSd st)"
  let ?f = "\<lambda>sd :: ('a, 'b) sess_data. sd\<lparr>sdMediaChange := True, sdLyricTitle := title (pmData m)\<rparr>"
  define st1 where "st1 = (if ?new then im_upd_sd ?f st else st)"
  obtain ok p where c: "pm_CopyFrom m (imMeta st1) = (ok, p)" by fastforce
  have 1: "sd_adds (imSd st) (imSd st1)" by (rule sd_adds_fields) (simp_all add: st1_def)
  have 2: "sd_adds (imSd st1) (imSd (im_set_meta p st1))" by (rule sd_adds_fields) simp_all
  have "im_UpdateMetaData env m st =
      (if \<not> ok then st1 else im_store_media env (mediaImageUri (pmData (imMeta st1))) (im_set_meta p st1))"
    unfolding im_UpdateMetaData_def Let_def st1_def [symmetric] c by simp
  then show ?thesis using 1 sd_adds_trans [OF 1 sd_adds_trans [OF 2 im_adds_store]] by simp
qed

lemma im_adds_check: "sd_adds (imSd st) (imSd (im_CheckUseAVMetaData env m st))"
proof -
  have 1: "sd_adds sd ((sd_log [NtfCapsule i] sd)\<lparr>sdMediaChange := b\<rparr>)" for i b and sd :: "('a, 'b) sess_data"
    by (rule sd_adds_same [where es = "[NtfCapsule i]"]) auto
  have 2: "sd_adds sd (sd_queue_info sd)" for sd :: "('a, 'b) sess_data"
    by (auto simp: sd_queue_info_def intro!: sd_adds_log)
  note F = sd_adds_trans [OF sd_adds_front 2]
  show ?thesis using F sd_adds_trans [OF 1 F] by (simp add: im_CheckUseAVMetaData_def Let_def)
qed

lemma im_adds_set:
  assumes "im_SetAVMetaData env m st = (r, st')"
  shows "sd_adds (imSd st) (imSd st')"
proof -
  define st1 where "st1 = (if sd_GetControlItemsMetaFilter (imSd st) \<noteq> 0
    then im_ReadMediaAndAVQueueImg env (sd_GetControlItemsMetaFilter (imSd st)) m st else st)"
  have "sd_adds (imSd st) (imSd st1)" by (simp add: st1_def im_adds_read)
  note sd_adds_trans [OF sd_adds_trans [OF this im_adds_update] im_adds_check, of env m env m]
  moreover have "imSd st' = imSd (im_CheckUseAVMetaData env m (im_UpdateMetaData env m st1))"
    using assms by (auto simp: im_SetAVMetaData_def st1_def [symmetric] Let_def)
  ultimately show ?thesis by simp
qed

lemma im_adds_handle: "sd_adds (imSd st) (imSd (im_HandleMetaDataChange env data msk pid c st))"
proof -
  let ?mask = "if cdMetaMask c = -1 then cdMetaMask c else msk AND cdMetaMask c"
  let ?asset = "\<lambda>out :: pmeta. out\<lparr>pmData := meta_SetAssetId (assetId (pmData data)) (pmData out)\<rparr>"
  obtain ok out where copy: "pm_CopyToByMask ?mask data new_pmeta = (ok, out)" by fastforce
  obtain out1 st1 where fill: "im_fill_images env c out st = (out1, st1)" by fastforce
  obtain out2 st2 where img: "im_image_or_uri c (?asset out1) st1 = (out2, st2)" by fastforce
  have "imSd st2 = imSd st" using imSd_fill(1) [OF fill] imSd_fill(2) [OF img] by simp
  moreover have "sd_adds (imSd s) (imSd (im_tell pid m c s))" for s :: "('a, 'b) img_state" and m
    by (simp add: im_tell_def) (rule sd_adds_log, auto)
  note this [of st2]
  ultimately show ?thesis
    by (cases ok) (simp_all add: im_HandleMetaDataChange_def Let_def copy fill img)
qed

lemma im_adds_task: "sd_adds (imSd st) (imSd (im_run_task env st))"
proof -
  have "sd_adds (imSd st) (imSd (foldl (\<lambda>st (pid, c). im_HandleMetaDataChange env data msk pid c st) st cs))"
    for data msk cs and st :: "('a, 'b) img_state"
  proof (induction cs arbitrary: st)
    case (Cons e cs)
    then show ?case using im_adds_handle sd_adds_trans by (cases e) (simp, blast)
  qed simp
  from this [of "st\<lparr>imTasks := t\<rparr>" for t] show ?thesis
    by (auto simp: im_run_task_def im_tell_all_def Let_def split: list.splits prod.splits)
qed

lemma im_adds_get:
  "im_GetAVMetaData env st = (r, p, st') \<Longrightarrow> sd_adds (imSd st) (imSd st')"
  "cd_GetAVMetaData env c st = (r, p, st') \<Longrightarrow> sd_adds (imSd st) (imSd st')"
proof -
  show "im_GetAVMetaData env st = (r, p, st') \<Longrightarrow> sd_adds (imSd st) (imSd st')"
    by (auto simp: im_GetAVMetaData_def Let_def)
  obtain d st1 where d: "cd_ReadImgForMetaData env (imMeta st) st = (d, st1)" by fastforce
  show "cd_GetAVMetaData env c st = (r, p, st') \<Longrightarrow> sd_adds (imSd st) (imSd st')"
    using im_read_img [OF d] by (auto simp: cd_GetAVMetaData_def d split: if_splits)
qed

text \<open>Every step of a session.\<close>

lemma im_adds_step:
  assumes "im_step weq customData migrated st st'"
  shows "sd_adds (imSd st) (imSd st')"
  using assms
proof cases
  case (im_set m p st1 env r)
  then show ?thesis using im_adds_set [OF im_set(2)] imSd_alloc(3) [OF im_set(1)] by simp
qed (auto intro: sd_adds_step sd_adds_commands im_adds_task im_adds_get)

end
