(* ===== verification/ServiceWorld.thy ===== *)
theory ServiceWorld
  imports ServiceFront SessionEvents ServiceCreate
begin

text \<open>
  The service together with the data of its sessions: a step of a session runs on the service's own
  object of that session and is followed by the callbacks that it made, in their order; the service
  has its own steps. Runs of this world are the runs of the whole program, but for the lists of
  controllers and listeners, and one call at a time.
\<close>

section \<open>The world\<close>

record ('w, 'q) world =
  wService :: service
  wFocus :: focus_strategy
  wData :: "sref \<Rightarrow> ('w, 'q) img_state"

text \<open>The values that the members of the service are declared with; \<open>account\<close> is the user of the foreground.\<close>

definition new_service ::
  "(sref \<Rightarrow> session) \<Rightarrow> (cref \<Rightarrow> controller) \<Rightarrow> string list \<Rightarrow> string list \<Rightarrow> nat \<Rightarrow> int
    \<Rightarrow> (string \<Rightarrow> bool) \<Rightarrow> service" where
  "new_service sessions controllers controlBundleNames controlListForNtf migrateServers account removable =
     \<lparr>svStore = \<lparr>items = sessions, ctrls = controllers\<rparr>,
      svUsers = um_Init account (new_users_manager removable),
      svControllers = [], svAnco = None, svHasMediaCapsule = False, svHasRemoveEvent = False, svMediaCardOpen = [],
      svCardStopTask = [], svCritical = False, svControlBundleNames = controlBundleNames,
      svControlListForNtf = controlListForNtf, svControlBundles = [], svLocalFrontSessionId = [],
      svMigrateServers = migrateServers, svAncoMediaSessionChange = False, svEvents = []\<rparr>"

text \<open>The data of a session, with the object that the service holds.\<close>

definition w_view :: "sref \<Rightarrow> ('w, 'q) world \<Rightarrow> ('w, 'q) img_state" where
  "w_view s w = im_upd_sd (\<lambda>sd. sd\<lparr>sdCore := sv_item (wService w) s\<rparr>) (wData w s)"

definition w_run_session :: "env \<Rightarrow> bool \<Rightarrow> sref \<Rightarrow> ('w, 'q) img_state \<Rightarrow> ('w, 'q) world \<Rightarrow> ('w, 'q) world" where
  "w_run_session env permitted s st' w =
     w\<lparr>wService := foldl (\<lambda>sv e. sv_on_event env permitted e sv)
         (sv_upd_item s (\<lambda>_. sdCore (imSd st')) (wService w)) (sd_new_events (imSd (w_view s w)) (imSd st')),
       wData := (wData w)(s := st')\<rparr>"

text \<open>The parameters of a creation that the runs below allow: not the callers of the Android
  compatibility layer, which may switch the user; no call session of a bundle on the control list,
  which would stay in front for ever (see \<open>sv_released_session_stays_in_front\<close>).\<close>

definition w_creatable :: "string \<Rightarrow> string \<Rightarrow> sref \<Rightarrow> string \<Rightarrow> int \<Rightarrow> int \<Rightarrow> string \<Rightarrow> int \<Rightarrow> bool \<Rightarrow> element \<Rightarrow> service \<Rightarrow> bool" where
  "w_creatable bundle ability s sid uid pid tag type third e sv \<longleftrightarrow>
     tag \<noteq> ''ancoMediaSession'' \<and> tag \<noteq> ''anco_audio'' \<and> uid \<noteq> audioBrokerUid \<and> sid \<noteq> sessionCastState
     \<and> um_IsUserAlive (sv_GetUserIdFromCallingUid uid sv) (svUsers sv)
     \<and> sv_fresh s sid pid (elAbility (sv_CorrectElementForThirdPartyCaller bundle ability third e)) sv
     \<and> (type = SESSION_TYPE_VOICE_CALL \<or> type = SESSION_TYPE_VIDEO_CALL \<longrightarrow>
         elBundle (sv_CorrectElementForThirdPartyCaller bundle ability third e) \<notin> set (svControlBundleNames sv))"

inductive w_step :: "('w \<Rightarrow> 'w \<Rightarrow> bool) \<Rightarrow> ('w \<Rightarrow> string option) \<Rightarrow> bool \<Rightarrow> ('w, 'q) world \<Rightarrow> ('w, 'q) world \<Rightarrow> bool"
  for weq customData migrated where
  w_session: "s \<in> set (ss_GetAllSessions (umAll (svUsers (wService w)))) \<Longrightarrow> im_step weq customData migrated (w_view s w) st'
    \<Longrightarrow> w_step weq customData migrated w (w_run_session env permitted s st' w)"
| w_audio: "sv_audio_event env infos (wFocus w, wService w) = (fs, sv)
    \<Longrightarrow> w_step weq customData migrated w (w\<lparr>wFocus := fs, wService := sv\<rparr>)"
| w_stop: "sv_focus_stop_task env k (wFocus w, wService w) = (fs, sv)
    \<Longrightarrow> w_step weq customData migrated w (w\<lparr>wFocus := fs, wService := sv\<rparr>)"
| w_card: "sv_HandleMediaCardStateChangeEvent env a u (wService w) = (posted, sv)
    \<Longrightarrow> w_step weq customData migrated w (w\<lparr>wService := sv\<rparr>)"
| w_card_task: "w_step weq customData migrated w (w\<lparr>wService := sv_card_stop_task env u (wService w)\<rparr>)"
| w_extras: "w_step weq customData migrated w (w\<lparr>wService := sv_on_UpdateExtras env sid (wService w)\<rparr>)"
| w_user: "e = SWITCHED \<and> 0 < u \<or> e = REMOVED
    \<Longrightarrow> w_step weq customData migrated w (w\<lparr>wService := sv_HandleUserEvent env e u (wService w)\<rparr>)"
| w_create: "w_creatable bundle ability s sid uid pid tag type third e (wService w)
    \<Longrightarrow> sv_CreateSessionInner env bundle ability s sid uid pid tag type third e (wService w) = (ret, Some r, sv)
    \<Longrightarrow> w_step weq customData migrated w (w\<lparr>wService := sv, wData := (wData w)(s := new_img_state (sv_item sv s) files)\<rparr>)"
| w_release: "s \<in> set (ss_GetAllSessions (umAll (svUsers (wService w))))
    \<Longrightarrow> w_step weq customData migrated w (w\<lparr>wService := sv_HandleSessionRelease env (siSessionId (sv_item (wService w) s)) (wService w)\<rparr>)"

inductive w_reachable :: "('w \<Rightarrow> 'w \<Rightarrow> bool) \<Rightarrow> ('w \<Rightarrow> string option) \<Rightarrow> bool \<Rightarrow> ('w, 'q) world \<Rightarrow> bool"
  for weq customData migrated where
  w_start: "(\<And>s. \<not> siCasting (sessions s)) \<Longrightarrow> 0 < account
    \<Longrightarrow> w_reachable weq customData migrated \<lparr>wService = new_service sessions controllers names ntf migrate account removable,
          wFocus = new_focus_strategy, wData = init\<rparr>"
| w_then: "w_reachable weq customData migrated w \<Longrightarrow> w_step weq customData migrated w w' \<Longrightarrow> w_reachable weq customData migrated w'"

section \<open>The invariant\<close>

text \<open>A call session is put in front at its creation, the others when they ask for it.\<close>

definition w_tracked :: "sref \<Rightarrow> service \<Rightarrow> bool" where
  "w_tracked s sv \<longleftrightarrow> sv_frontable s sv \<and> \<not> is_call (items (svStore sv) s)"

definition in_front :: "sref \<Rightarrow> service \<Rightarrow> bool" where
  "in_front s sv \<longleftrightarrow> s \<in> set (um_front (siUserId (items (svStore sv) s)) (svUsers sv))"

definition w_told :: "('w, 'q) img_state \<Rightarrow> bool" where
  "w_told st \<longleftrightarrow> odd (length (front_of (sdEvents (imSd st))))"

definition w_agree :: "sref \<Rightarrow> service \<Rightarrow> ('w, 'q) img_state \<Rightarrow> bool" where
  "w_agree s sv st \<longleftrightarrow> sd_held (imSd st) \<and> siSessionId (items (svStore sv) s) \<noteq> sessionCastState
     \<and> (w_tracked s sv \<longrightarrow> (in_front s sv \<longleftrightarrow> w_told st))"

text \<open>The service's part, with the current user and the users of the sessions positive and alive.\<close>

definition sv_good :: "service \<Rightarrow> bool" where
  "sv_good sv \<longleftrightarrow> sv_clean sv \<and> 0 < umCurUser (svUsers sv)"

abbreviation sv_members :: "service \<Rightarrow> sref set" where
  "sv_members sv \<equiv> set (ss_GetAllSessions (umAll (svUsers sv)))"

definition w_ok :: "('w, 'q) world \<Rightarrow> bool" where
  "w_ok w \<longleftrightarrow> sv_good (wService w) \<and> (\<forall>s \<in> sv_members (wService w). w_agree s (wService w) (wData w s))"

lemma sv_good_calm: "sv_good sv \<Longrightarrow> sv_calm sv"
  by (auto simp: sv_good_def sv_clean_def sv_calm_def sv_releasable_def)

lemma sv_good_member:
  assumes "sv_good sv" and "s \<in> sv_members sv"
  shows "0 < siUserId (items (svStore sv) s)" and "um_IsUserAlive (siUserId (items (svStore sv) s)) (svUsers sv)"
    and "um_of_user (items (svStore sv)) (siUserId (items (svStore sv) s)) s (svUsers sv)"
    and "in_front s sv \<Longrightarrow> sv_frontable s sv"
  using assms by (auto simp: sv_good_def sv_clean_def sv_releasable_def um_of_user_def in_front_def sv_listed_def sv_frontable_def)

text \<open>A near service in which nobody came to the front but sessions that may.\<close>

lemma sv_near_good:
  assumes "sv_good sv" and "sv_near sv sv'" and "\<And>s. s \<in> sv_members sv \<Longrightarrow> in_front s sv' \<Longrightarrow> in_front s sv \<or> sv_frontable s sv"
  shows "sv_good sv'" and "sv_members sv' = sv_members sv" and "w_tracked s sv' = w_tracked s sv"
proof -
  note I = sv_near_items [OF assms(2)] and N = assms(2) [unfolded sv_near_def]
  show m: "sv_members sv' = sv_members sv" using N by simp
  show "w_tracked s sv' = w_tracked s sv"
    using sv_near_frontable [OF assms(2)] I(3) by (simp add: w_tracked_def is_call_def si_GetSessionType_def)
  have "sv_releasable s sv' \<and> sv_listed s sv'" if "s \<in> sv_members sv'" for s
  proof -
    have s: "s \<in> sv_members sv" using that m by simp
    have "sv_releasable s sv'"
      using assms(1) s N I(1,5) by (simp add: sv_good_def sv_clean_def sv_releasable_def um_IsUserAlive_def)
    moreover have "sv_listed s sv'"
      using assms(3) [OF s] sv_good_member(4) [OF assms(1) s] sv_near_frontable [OF assms(2), of s]
      by (auto simp: sv_listed_def sv_frontable_def in_front_def)
    ultimately show ?thesis by simp
  qed
  then show "sv_good sv'" using N assms(1) by (simp add: sv_good_def sv_clean_def sv_calm_def)
qed

lemma sv_steady_in_front: "sv_steady sv sv' \<Longrightarrow> in_front s sv' = in_front s sv"
  using sv_steady_front sv_steady_user(1) by (simp add: in_front_def)

lemma w_ok_steady:
  assumes "w_ok w" and "sv_steady (wService w) sv'"
  shows "w_ok (w\<lparr>wFocus := fs, wService := sv'\<rparr>)"
proof -
  have good: "sv_good (wService w)" using assms(1) by (simp add: w_ok_def)
  note N = sv_near_good [OF good sv_steady_near [OF assms(2)]]
  have "w_agree s sv' st = w_agree s (wService w) st" for s and st :: "('a, 'b) img_state"
    using N(3) sv_steady_in_front [OF assms(2), of s] sv_near_items(4) [OF sv_steady_near [OF assms(2)], of s]
    by (simp add: w_agree_def sv_steady_in_front [OF assms(2)])
  then show ?thesis using assms(1) N(1,2) sv_steady_in_front [OF assms(2)] by (simp add: w_ok_def)
qed

section \<open>A step of a session\<close>

text \<open>The object with other values in the fields that a session sets itself.\<close>

lemma sv_put_item:
  assumes "sv_good sv" and "si_identity c = si_identity (items (svStore sv) s)" and "sv1 = sv_upd_item s (\<lambda>_. c) sv"
  shows "sv_good sv1" and "svUsers sv1 = svUsers sv" and "svControlBundleNames sv1 = svControlBundleNames sv"
    and "si_identity (items (svStore sv1) t) = si_identity (items (svStore sv) t)"
    and "in_front t sv1 = in_front t sv" and "w_tracked t sv1 = w_tracked t sv"
proof -
  show q: "svUsers sv1 = svUsers sv" "svControlBundleNames sv1 = svControlBundleNames sv" by (simp_all add: assms(3))
  show id: "si_identity (items (svStore sv1) t) = si_identity (items (svStore sv) t)" for t
    using assms(2) by (simp add: assms(3))
  note F = si_identity_fields [OF id]
  have u: "um_of_user (items (svStore sv1)) v t (svUsers sv1) = um_of_user (items (svStore sv)) v t (svUsers sv)" for v t
    by (simp add: um_of_user_def q F)
  show "in_front t sv1 = in_front t sv" "w_tracked t sv1 = w_tracked t sv"
    by (simp_all add: in_front_def w_tracked_def sv_frontable_def is_call_def si_GetSessionType_def q F)
  have "um_ok (items (svStore sv1)) (svUsers sv1) = um_ok (items (svStore sv)) (svUsers sv)"
    by (simp add: um_ok_def um_partition_def um_ids_ok_def um_keys_ok_def q F)
  then have "sv_ok sv1" using assms(1) by (simp add: sv_good_def sv_clean_def sv_ok_def u) (simp add: q)
  then show "sv_good sv1" using assms(1)
    by (simp add: sv_good_def sv_clean_def sv_releasable_def sv_listed_def q F)
qed

lemma sv_find_in_user:
  assumes "sv_ok sv" and "um_of_user (items (svStore sv)) u s (svUsers sv)"
  shows "ss_GetSessionById (items (svStore sv)) (siSessionId (items (svStore sv) s)) (um_stack u (svUsers sv)) = Some s"
proof -
  note ok = sv_okD(1) [OF assms(1)]
  let ?P = "\<lambda>t. siSessionId (items (svStore sv) t) = siSessionId (items (svStore sv) s)"
  let ?l = "ssStack (um_stack u (svUsers sv))"
  have "s \<in> set ?l"
    using um_of_user_lookup [OF ok assms(2)] stack.inv_all [OF um_okD(3) [OF ok], of s] by (auto simp: ss_GetAllSessions_def)
  then have "List.find ?P ?l \<noteq> None" by (auto simp: find_None_iff)
  then obtain t where t: "List.find ?P ?l = Some t" by blast
  then have "t \<in> set (ss_GetAllSessions (um_stack u (svUsers sv)))" "?P t" by (auto simp: find_Some_iff ss_GetAllSessions_def)
  then have "t \<in> sv_members sv" "?P t"
    using stack.inv_all [OF um_okD(3) [OF ok], of t] stack.inv_all [OF um_okD(1) [OF ok], of t] um_okD(4) [OF ok] by blast+
  then have "t = s" using um_okD(6) [OF ok] assms(2) by (auto simp: um_of_user_def dest: inj_onD)
  then show ?thesis using t by (simp add: ss_GetSessionById_def)
qed

text \<open>One event that names the session: it alone enters or leaves the front.\<close>

definition front_after :: "('w, 'q) sd_event \<Rightarrow> bool \<Rightarrow> bool" where
  "front_after e b = (case e of UpdateSession sid isAdd u \<Rightarrow> isAdd | _ \<Rightarrow> b)"

lemma sv_front_event:
  assumes "sv_good sv" and "s \<in> sv_members sv" and "siSessionId (items (svStore sv) s) \<noteq> sessionCastState"
    and "sv' = sv_on_UpdateSession env (siSessionId (items (svStore sv) s)) b (siUserId (items (svStore sv) s)) sv"
  shows "sv_near sv sv'" and "t \<noteq> s \<Longrightarrow> in_front t sv' = in_front t sv"
    and "in_front s sv' = (if sv_frontable s sv then b else in_front s sv)"
proof -
  define u where "u = siUserId (items (svStore sv) s)"
  note M = sv_good_member [OF assms(1,2), folded u_def] and calm = sv_good_calm [OF assms(1)]
  define sv1 where "sv1 = sv\<lparr>svUsers := snd (um_GetContainerFromUser u (svUsers sv))\<rparr>"
  have st: "sv_steady sv sv1" unfolding sv1_def by (rule sv_steady_container [OF calm])
  note c1 = sv_steady_calm [OF st]
  have s1: "um_of_user (items (svStore sv1)) u s (svUsers sv1)" using M(3) sv_steady_of_user [OF st] by simp
  have a1: "um_IsUserAlive u (svUsers sv1)" using M(2) by (simp add: sv1_def um_IsUserAlive_def)
  have f1: "sv_frontable s sv1 = sv_frontable s sv" by (rule sv_near_frontable [OF sv_steady_near [OF st]])
  have eq: "sv' = sv_UpdateFrontSession env s b sv1"
    using assms(3) M(2) sv_find_in_user [OF sv_calm_ok [OF calm] M(3)]
    by (simp add: assms(4) u_def [symmetric] sv_on_UpdateSession_def sv_GetTargetUserId_def split_beta sv1_def Let_def)
  have front1: "set (um_front v (svUsers sv1)) = set (um_front v (svUsers sv))" for v by (rule sv_steady_front [OF st])
  consider (add) "sv_frontable s sv" "b" | (drop) "sv_frontable s sv" "\<not> b" | (no) "\<not> sv_frontable s sv" by blast
  then have "sv_near sv1 sv' \<and> (\<forall>v. set (um_front v (svUsers sv')) =
      (if v = u \<and> sv_frontable s sv then (if b then insert s (set (um_front v (svUsers sv))) else set (um_front v (svUsers sv)) - {s})
       else set (um_front v (svUsers sv))))"
  proof cases
    case add
    with sv_UpdateFrontSession_add [OF c1 s1 M(1), of sv' env] f1 eq front1 show ?thesis by simp
  next
    case drop
    with sv_UpdateFrontSession_drop [OF c1 s1 M(1) a1, of sv' env] f1 eq front1 show ?thesis by simp
  next
    case no
    with sv_UpdateFrontSession_no [OF c1 _ eq] f1 have "sv_steady sv1 sv'" by simp
    with sv_steady_near sv_steady_front front1 no show ?thesis by simp
  qed
  note A = this
  show near: "sv_near sv sv'" using sv_near_trans [OF sv_steady_near [OF st]] A by blast
  have user: "siUserId (items (svStore sv') t) = siUserId (items (svStore sv) t)" for t by (rule sv_near_items(1) [OF near])
  show "t \<noteq> s \<Longrightarrow> in_front t sv' = in_front t sv" using A by (simp add: in_front_def user)
  show "in_front s sv' = (if sv_frontable s sv then b else in_front s sv)" using A by (simp add: in_front_def user u_def)
qed

lemma sv_event:
  assumes "sv_good sv" and "s \<in> sv_members sv" and "siSessionId (items (svStore sv) s) \<noteq> sessionCastState"
    and "addressed (items (svStore sv) s) e" and "sv' = sv_on_event env permitted e sv"
  shows "sv_near sv sv'" and "t \<noteq> s \<Longrightarrow> in_front t sv' = in_front t sv"
    and "sv_frontable s sv \<Longrightarrow> in_front s sv' = front_after e (in_front s sv)"
    and "\<not> sv_frontable s sv \<Longrightarrow> in_front s sv' = in_front s sv"
proof -
  note calm = sv_good_calm [OF assms(1)]
  have "sv_near sv sv' \<and> (t \<noteq> s \<longrightarrow> in_front t sv' = in_front t sv)
    \<and> in_front s sv' = (if sv_frontable s sv then front_after e (in_front s sv) else in_front s sv)" for t
  proof (cases "\<exists>b. e = UpdateSession (siSessionId (items (svStore sv) s)) b (siUserId (items (svStore sv) s))")
    case True
    then obtain b where e: "e = UpdateSession (siSessionId (items (svStore sv) s)) b (siUserId (items (svStore sv) s))" by blast
    then have "sv' = sv_on_UpdateSession env (siSessionId (items (svStore sv) s)) b (siUserId (items (svStore sv) s)) sv"
      by (simp add: assms(5) sv_on_event_def)
    note F = sv_front_event [OF assms(1-3) this]
    show ?thesis using F(1,3) F(2) [of t] e by (simp add: front_after_def)
  next
    case False
    have st: "sv_steady sv sv'" and same: "front_after e b = b" for b
      using False assms(4) sv_steady_callbacks [OF calm] sv_steady_refl [OF calm]
      by (auto simp: assms(5) sv_on_event_def front_after_def split: sd_event.splits)
    show ?thesis using sv_steady_near [OF st] sv_steady_in_front [OF st] same by simp
  qed
  note A = this
  show "sv_near sv sv'" "t \<noteq> s \<Longrightarrow> in_front t sv' = in_front t sv"
    "sv_frontable s sv \<Longrightarrow> in_front s sv' = front_after e (in_front s sv)"
    "\<not> sv_frontable s sv \<Longrightarrow> in_front s sv' = in_front s sv" using A by simp_all
qed

text \<open>The events of a step, one after the other.\<close>

lemma sv_events:
  assumes "sv_good sv" and "s \<in> sv_members sv" and "siSessionId (items (svStore sv) s) \<noteq> sessionCastState"
    and "\<forall>e \<in> set es. addressed (items (svStore sv) s) e" and "sv' = foldl (\<lambda>sv e. sv_on_event env permitted e sv) sv es"
  shows "sv_near sv sv' \<and> sv_good sv' \<and> (\<forall>t. t \<noteq> s \<longrightarrow> in_front t sv' = in_front t sv)
    \<and> in_front s sv' = (if sv_frontable s sv then last (in_front s sv # front_of es) else in_front s sv)"
  using assms
proof (induction es arbitrary: sv)
  case Nil
  then show ?case using sv_near_refl [OF sv_good_calm [OF Nil.prems(1)]] by simp
next
  case (Cons e es)
  define sv1 where "sv1 = sv_on_event env permitted e sv"
  have e: "addressed (items (svStore sv) s) e" using Cons.prems(4) by simp
  note E = sv_event [OF Cons.prems(1-3) e sv1_def] and I = sv_near_items [OF E(1)]
  have up: "in_front t sv1 \<Longrightarrow> in_front t sv \<or> sv_frontable t sv" for t
    using E(2-4) by (cases "t = s") auto
  note G = sv_near_good [OF Cons.prems(1) E(1) up]
  have a1: "addressed (items (svStore sv1) s) e = addressed (items (svStore sv) s) e" for e :: "('a, 'b) sd_event"
    using I(1,4) [of s] by (simp add: addressed_def split: sd_event.splits)
  have f1: "sv_frontable s sv1 = sv_frontable s sv" by (rule sv_near_frontable [OF E(1)])
  have "sv_near sv1 sv' \<and> sv_good sv' \<and> (\<forall>t. t \<noteq> s \<longrightarrow> in_front t sv' = in_front t sv1)
    \<and> in_front s sv' = (if sv_frontable s sv1 then last (in_front s sv1 # front_of es) else in_front s sv1)"
    using Cons.prems G(1,2) I(4) [of s] a1 by (intro Cons.IH) (simp_all add: sv1_def)
  note IH = this
  have front: "front_of (e # es) = (case e of UpdateSession sid b u \<Rightarrow> b # front_of es | _ \<Rightarrow> front_of es)"
    by (cases e) simp_all
  have "in_front s sv' = (if sv_frontable s sv then last (in_front s sv # front_of (e # es)) else in_front s sv)"
    using IH E(3,4) f1 by (cases e) (auto simp: front_after_def)
  moreover have "\<forall>t. t \<noteq> s \<longrightarrow> in_front t sv' = in_front t sv" using IH E(2) by simp
  ultimately show ?case using IH sv_near_trans [OF E(1)] by blast
qed

text \<open>What has been told in strict alternation says with its last word how often it was said.\<close>

lemma told_last:
  assumes "xs = map even [0..<n]" and "xs @ ys = map even [0..<m]"
  shows "last (odd n # ys) = odd m"
proof (cases ys)
  case Nil
  then show ?thesis using assms by (metis append_Nil2 diff_zero last.simps length_map length_upt)
next
  case (Cons y zs)
  then have "last (odd n # ys) = last (xs @ ys)" by simp
  moreover from Cons assms(2) have "m \<noteq> 0" by (metis append_is_Nil_conv list.distinct(1) list.simps(8) upt_0)
  then have "last (map even [0..<m]) = odd m" by (simp add: last_map)
  ultimately show ?thesis using assms(2) by simp
qed

lemma w_told_step:
  assumes "sd_held (imSd st)" and "sd_held (imSd st')" and "prefix (sdEvents (imSd st)) (sdEvents (imSd st'))"
  shows "last (w_told st # front_of (sd_new_events (imSd st) (imSd st'))) = w_told st'"
proof -
  obtain n m where n: "front_of (sdEvents (imSd st)) = map even [0..<n]" and m: "front_of (sdEvents (imSd st')) = map even [0..<m]"
    using assms(1,2) by (auto simp: sd_held_def sd_told_ok_def)
  obtain es where es: "sdEvents (imSd st') = sdEvents (imSd st) @ es" using assms(3) by (auto elim: prefixE)
  have "last (odd n # front_of es) = odd m" by (rule told_last [OF n]) (use m es in simp)
  then show ?thesis using es n m by (simp add: w_told_def sd_new_events_def)
qed

lemma sd_held_core [simp]: "sd_held (sd\<lparr>sdCore := c\<rparr>) = sd_held sd"
  by (simp add: sd_held_def sd_told_ok_def sd_front_ok_def sd_meta_empty_def)

lemma w_view_simps [simp]:
  "sdEvents (imSd (w_view s w)) = sdEvents (imSd (wData w s))" "sd_held (imSd (w_view s w)) = sd_held (imSd (wData w s))"
  "sdCore (imSd (w_view s w)) = sv_item (wService w) s"
  by (simp_all add: w_view_def)

lemma w_ok_session:
  assumes "w_ok w" and "s \<in> sv_members (wService w)" and "im_step weq customData migrated (w_view s w) st'"
  shows "w_ok (w_run_session env permitted s st' w)"
proof -
  let ?sv = "wService w" and ?es = "sd_new_events (imSd (w_view s w)) (imSd st')"
  define sv1 where "sv1 = sv_upd_item s (\<lambda>_. sdCore (imSd st')) ?sv"
  define sv' where "sv' = foldl (\<lambda>sv e. sv_on_event env permitted e sv) sv1 ?es"
  have good: "sv_good ?sv" and agree: "\<And>t. t \<in> sv_members ?sv \<Longrightarrow> w_agree t ?sv (wData w t)"
    using assms(1) by (simp_all add: w_ok_def)
  note adds = im_adds_step [OF assms(3), unfolded sd_adds_def, simplified]
  note P = sv_put_item [OF good conjunct1 [OF adds] sv1_def]
  note id = si_identity_fields [OF P(4)]
  have held: "sd_held (imSd st')" using sd_held_im_step [OF assms(3)] agree [OF assms(2)] by (simp add: w_agree_def)
  have mem1: "s \<in> sv_members sv1" using assms(2) P(2) by simp
  have id1: "siSessionId (items (svStore sv1) s) \<noteq> sessionCastState" using agree [OF assms(2)] id by (simp add: w_agree_def)
  have adr: "\<forall>e \<in> set ?es. addressed (items (svStore sv1) s) e" using adds by (simp add: addressed_cong [OF P(4)])
  note E = sv_events [OF P(1) mem1 id1 adr sv'_def]
  have near: "sv_near sv1 sv'" and front: "\<And>t. t \<noteq> s \<Longrightarrow> in_front t sv' = in_front t sv1" using E by blast+
  note I = sv_near_items [OF near]
  have tr: "w_tracked t sv' = w_tracked t ?sv" for t
    using sv_near_frontable [OF near, of t] I(3) [of t] P(6) [of t]
    by (simp add: w_tracked_def is_call_def si_GetSessionType_def)
  have mem: "sv_members sv' = sv_members ?sv" using near P(2) by (simp add: sv_near_def)
  have "w_agree t sv' (((wData w)(s := st')) t)" if "t \<in> sv_members ?sv" for t
  proof (cases "t = s")
    case True
    have "in_front s sv' = w_told st'" if "w_tracked s ?sv"
    proof -
      have "sv_frontable s sv1" using that P(6) [of s] by (simp add: w_tracked_def)
      then have "in_front s sv' = last (in_front s sv1 # front_of ?es)" using E by simp
      also have "in_front s sv1 = w_told (w_view s w)"
        using P(5) agree [OF assms(2)] that by (simp add: w_agree_def w_told_def)
      also have "last (w_told (w_view s w) # front_of ?es) = w_told st'"
        using agree [OF assms(2)] held adds by (intro w_told_step) (simp_all add: w_agree_def)
      finally show ?thesis .
    qed
    then show ?thesis using True held tr id1 I(4) [of s] by (simp add: w_agree_def)
  next
    case False
    then show ?thesis using agree [OF that] tr front [OF False] P(5) I(4) [of t] id(1) [of t] by (simp add: w_agree_def)
  qed
  then show ?thesis using E mem
    by (simp add: w_ok_def w_run_session_def sv1_def [symmetric] sv'_def [symmetric])
qed

section \<open>Users come and go\<close>

lemma sv_steady_no_top:
  assumes "sv_calm sv"
  shows "sv_steady sv (sv_UpdateTopSession env None u sv)"
proof -
  note T = sv_UpdateTopSession_frame [OF sv_calm_stacks [OF assms]]
  have "sv_ok (sv_UpdateTopSession env None u sv)"
    by (rule sv_frame_ok [OF sv_calm_ok [OF assms] T(1)])
      (use T(3) sv_okD(5) [OF sv_calm_ok [OF assms]] in \<open>auto split: if_splits\<close>)
  then show ?thesis by (rule sv_steadyI [OF assms T(1)])
qed

lemma w_ok_service:
  assumes "w_ok w" and "sv_good sv'" and "sv_members sv' \<subseteq> sv_members (wService w)"
    and "\<And>t. t \<in> sv_members sv' \<Longrightarrow> si_core (items (svStore sv') t) = si_core (items (svStore (wService w)) t)"
    and "svControlBundleNames sv' = svControlBundleNames (wService w)"
    and "\<And>t. t \<in> sv_members sv' \<Longrightarrow> in_front t sv' = in_front t (wService w)"
  shows "w_ok (w\<lparr>wService := sv'\<rparr>)"
proof -
  have "w_agree t sv' (wData w t)" if t: "t \<in> sv_members sv'" for t
  proof -
    note C = si_core_fields [OF assms(4) [OF t]]
    have "w_tracked t sv' = w_tracked t (wService w)"
      by (simp add: w_tracked_def sv_frontable_def is_call_def si_GetSessionType_def C assms(5))
    moreover have "w_agree t (wService w) (wData w t)" using assms(1,3) t by (auto simp: w_ok_def)
    ultimately show ?thesis using assms(6) [OF t] by (simp add: w_agree_def C)
  qed
  then show ?thesis using assms(2) by (simp add: w_ok_def)
qed

lemma sv_good_switched:
  assumes "sv_good sv" and "0 < u" and "sv1 = sv_upd_users (um_account_event (items (svStore sv)) SWITCHED u) sv"
  shows "sv_good sv1" and "in_front t sv1 = in_front t sv"
proof -
  have q: "svStore sv1 = svStore sv" "svControlBundleNames sv1 = svControlBundleNames sv"
    "umAll (svUsers sv1) = umAll (svUsers sv)" "umStacks (svUsers sv1) = umStacks (svUsers sv)"
    "umCurUser (svUsers sv1) = u" "set (umAlive (svUsers sv1)) = insert u (set (umAlive (svUsers sv)))"
    by (auto simp: assms(3) um_account_event_def)
  have l: "um_front v (svUsers sv1) = um_front v (svUsers sv)" "um_key_list v (svUsers sv1) = um_key_list v (svUsers sv)"
    "um_GetTopSession v (svUsers sv1) = um_GetTopSession v (svUsers sv)" for v
    by (simp_all add: assms(3) um_account_event_def um_front_def um_key_list_def um_GetTopSession_def)
  show "in_front t sv1 = in_front t sv" by (simp add: in_front_def l q)
  have "um_ok (items (svStore sv)) (svUsers sv1) = um_ok (items (svStore sv)) (svUsers sv)" by (rule um_ok_cong) (rule q)+
  then have "sv_ok sv1" using assms(1) by (simp add: sv_good_def sv_clean_def sv_ok_def um_of_user_def l q)
  then show "sv_good sv1" using assms(1,2)
    by (simp add: sv_good_def sv_clean_def sv_releasable_def sv_listed_def um_IsUserAlive_def l q)
qed

lemma sv_good_removed:
  assumes "sv_good sv" and "sv1 = sv_upd_users (um_account_event (items (svStore sv)) REMOVED u) sv"
  shows "sv_good sv1" and "sv_members sv1 = {s \<in> sv_members sv. siUserId (items (svStore sv) s) \<noteq> u}"
    and "t \<in> sv_members sv1 \<Longrightarrow> in_front t sv1 = in_front t sv"
proof -
  let ?h = "items (svStore sv)"
  note ok = sv_calm_ok [OF sv_good_calm [OF assms(1)]]
  have um: "svUsers sv1 = um_HandleUserRemoved ?h u (svUsers sv)" and q: "svStore sv1 = svStore sv"
    "svControlBundleNames sv1 = svControlBundleNames sv" by (simp_all add: assms(2) um_account_event_def)
  note R = um_HandleUserRemoved_ok [OF sv_okD(1) [OF ok] um]
  have l: "um_front v (svUsers sv1) = (if v = u then [] else um_front v (svUsers sv))"
    "um_key_list v (svUsers sv1) = (if v = u then [] else um_key_list v (svUsers sv))"
    "um_GetTopSession v (svUsers sv1) = (if v = u then None else um_GetTopSession v (svUsers sv))" for v
    by (auto simp: um um_HandleUserRemoved_def um_front_def um_key_list_def um_GetTopSession_def map_of_cmap_erase Let_def
        split: option.splits)
  have a: "set (umAlive (svUsers sv1)) = set (umAlive (svUsers sv)) - {u}" "umCurUser (svUsers sv1) = umCurUser (svUsers sv)"
    by (auto simp: um um_HandleUserRemoved_def Let_def split: option.splits)
  show m: "sv_members sv1 = {s \<in> sv_members sv. siUserId (?h s) \<noteq> u}"
    using stack.inv_all [OF um_okD(1) [OF R(1)]] stack.inv_all [OF um_okD(1) [OF sv_okD(1) [OF ok]]] R(2) by auto
  have of_user: "um_of_user ?h v t (svUsers sv1) \<longleftrightarrow> um_of_user ?h v t (svUsers sv) \<and> v \<noteq> u" for v t
    using m by (auto simp: um_of_user_def)
  have "sv_ok sv1" using R(1) sv_okD(2-5) [OF ok] by (simp add: sv_ok_def q l of_user)
  then show "sv_good sv1" using assms(1) m
    by (simp add: sv_good_def sv_clean_def sv_releasable_def sv_listed_def um_IsUserAlive_def l q a)
  show "t \<in> sv_members sv1 \<Longrightarrow> in_front t sv1 = in_front t sv" using m by (simp add: in_front_def l q)
qed

lemma sv_good_steady: "sv_good sv \<Longrightarrow> sv_steady sv sv' \<Longrightarrow> sv_good sv'"
  by (rule sv_near_good(1) [OF _ sv_steady_near]) (auto simp: sv_steady_in_front)

lemma w_ok_user:
  assumes "w_ok w" and "e = SWITCHED \<and> 0 < u \<or> e = REMOVED"
  shows "w_ok (w\<lparr>wService := sv_HandleUserEvent env e u (wService w)\<rparr>)"
proof -
  let ?sv = "wService w" and ?c = "um_GetCurrentUserId (svUsers (wService w))"
  have good: "sv_good ?sv" using assms(1) by (simp add: w_ok_def)
  note calm = sv_good_calm [OF good]
  define sv0 where "sv0 = (if e = SWITCHED \<and> u \<noteq> ?c then
      sv_ClearMediaCardStateByUser ?c (if svHasMediaCapsule ?sv then sv_NotifySystemUI env False False ?c ?sv else ?sv)
      else if e = REMOVED then sv_ClearMediaCardStateByUser u ?sv else ?sv)"
  have 0: "sv_steady ?sv sv0"
    using calm by (rule sv_steady_fields) (simp_all add: sv0_def sv_ClearMediaCardStateByUser_def)
  note g0 = sv_good_steady [OF good 0]
  define sv1 where "sv1 = sv_upd_users (um_account_event (items (svStore sv0)) e u) sv0"
  define sv2 where "sv2 = (if e = SWITCHED then sv_UpdateTopSession env (um_GetCurrentTopSession (svUsers sv1)) u sv1 else sv1)"
  have eq: "sv_HandleUserEvent env e u ?sv = sv2"
    by (simp only: sv_HandleUserEvent_def Let_def sv2_def sv1_def sv0_def)
  have g1: "sv_good sv1" and m1: "sv_members sv1 \<subseteq> sv_members sv0"
    and f1: "\<And>t. t \<in> sv_members sv1 \<Longrightarrow> in_front t sv1 = in_front t sv0"
    using assms(2) sv_good_switched [OF g0, of u] sv_good_removed [OF g0, of _ u]
    by (auto simp: sv1_def um_account_event_def)
  have 2: "sv_steady sv1 sv2"
    using sv_steady_refl [OF sv_good_calm [OF g1]] sv_steady_no_top [OF sv_good_calm [OF g1]]
      sv_steady_top [OF sv_good_calm [OF g1] sv_okD(5) [OF sv_calm_ok [OF sv_good_calm [OF g1]]]]
    by (cases "um_GetCurrentTopSession (svUsers sv1)") (auto simp: sv2_def um_GetCurrentTopSession_def)
  have st: "svStore sv1 = svStore sv0" "svControlBundleNames sv1 = svControlBundleNames sv0" by (simp_all add: sv1_def)
  show ?thesis unfolding eq
  proof (rule w_ok_service [OF assms(1) sv_good_steady [OF g1 2]])
    show "sv_members sv2 \<subseteq> sv_members ?sv" using m1 sv_steady_members [OF 0] sv_steady_members [OF 2] by simp
    show "svControlBundleNames sv2 = svControlBundleNames ?sv"
      using sv_steady_near [OF 0] sv_steady_near [OF 2] st by (simp add: sv_near_def)
    show "si_core (items (svStore sv2) t) = si_core (items (svStore ?sv) t)" for t
      using sv_steady_near [OF 0] sv_steady_near [OF 2] st by (simp add: sv_near_def)
    show "in_front t sv2 = in_front t ?sv" if "t \<in> sv_members sv2" for t
      using f1 that sv_steady_members [OF 2] sv_steady_in_front [OF 0] sv_steady_in_front [OF 2] by simp
  qed
qed

section \<open>Sessions come and go\<close>

text \<open>A release leaves the current user.\<close>

lemma cur_list: "sv_GetCurSessionListForFront u sv = (l, sv') \<Longrightarrow> umCurUser (svUsers sv') = umCurUser (svUsers sv)"
  by (auto simp: sv_GetCurSessionListForFront_def um_front_list(7) dest: arg_cong [where f = snd] split: prod.splits)
     (metis snd_conv um_front_list(7))

lemma cur_top [simp]: "umCurUser (svUsers (sv_UpdateTopSession env new u sv)) = umCurUser (svUsers sv)"
  by (auto simp: sv_UpdateTopSession_def sv_UpdateSessionTimestamp_def Let_def split: option.splits)

lemma cur_order: "sv_UpdateOrder env s sv = (b, sv') \<Longrightarrow> umCurUser (svUsers sv') = umCurUser (svUsers sv)"
  by (auto simp: sv_UpdateOrder_def sv_UpdateSessionTimestamp_def Let_def dest!: cur_list split: prod.splits if_splits)
     (metis snd_conv um_GetContainerFromUser_simps(8))+

lemma cur_other: "sv_GetOtherPlayingSession env u b sv = (r, sv') \<Longrightarrow> umCurUser (svUsers sv') = umCurUser (svUsers sv)"
  by (auto simp: sv_GetOtherPlayingSession_def dest!: cur_list split: prod.splits if_splits option.splits)

lemma cur_handle_other [simp]: "umCurUser (svUsers (sv_HandleOtherSessionPlaying env r sv)) = umCurUser (svUsers sv)"
  by (auto simp: sv_HandleOtherSessionPlaying_def Let_def dest!: cur_order split: prod.splits option.splits)

lemma cur_top_release [simp]: "umCurUser (svUsers (sv_HandleTopSessionRelease env u s sv)) = umCurUser (svUsers sv)"
  by (auto simp: sv_HandleTopSessionRelease_def Let_def dest!: cur_other split: prod.splits option.splits)

lemma cur_front [simp]: "umCurUser (svUsers (sv_UpdateFrontSession env s b sv)) = umCurUser (svUsers sv)"
  by (auto simp: sv_UpdateFrontSession_def Let_def dest!: cur_list split: prod.splits)

lemma cur_key [simp]: "umCurUser (svUsers (sv_remove_key_event u s sv)) = umCurUser (svUsers sv)"
  by (auto simp: sv_remove_key_event_def um_GetCurSessionListForKeyEvent_def um_set_key_event_def Let_def split: prod.splits option.splits)

lemma cur_handle_destroy: "svUsers (foldl (\<lambda>sv c. ct_HandleSessionDestroy c sv) sv cs) = svUsers sv"
  by (induction cs arbitrary: sv) (simp_all add: ct_HandleSessionDestroy_def Let_def)

lemma cur_destroy: "si_DestroyTask s sv = (cs, sv') \<Longrightarrow> umCurUser (svUsers sv') = umCurUser (svUsers sv)"
  by (auto simp: si_DestroyTask_def cur_handle_destroy Let_def split: if_splits)

lemma cur_remove [simp]: "umCurUser (snd (um_RemoveSessionForAllUser h p a um)) = umCurUser um"
  by (rule um_Remove_lists(4) [OF prod.collapse [symmetric]])

lemma cur_release: "umCurUser (svUsers (sv_HandleSessionRelease env sid sv)) = umCurUser (svUsers sv)"
  by (auto simp: sv_HandleSessionRelease_def sv_RemoveControllers Let_def dest!: cur_destroy split: prod.splits option.splits)

lemma w_ok_release:
  assumes "w_ok w" and "s \<in> sv_members (wService w)"
  shows "w_ok (w\<lparr>wService := sv_HandleSessionRelease env (siSessionId (sv_item (wService w) s)) (wService w)\<rparr>)"
proof -
  let ?sv = "wService w"
  define sv' where "sv' = sv_HandleSessionRelease env (siSessionId (items (svStore ?sv) s)) ?sv"
  have good: "sv_good ?sv" using assms(1) by (simp add: w_ok_def)
  then have clean: "sv_clean ?sv" by (simp add: sv_good_def)
  note R = sv_release_clean [OF clean assms(2) sv'_def]
  note S = sv_HandleSessionRelease_spec [OF sv_cleanD(1,2) [OF clean] sv_find_by_id [OF sv_cleanD(1) [OF clean] assms(2)]
      sv_cleanD(3,4) [OF clean assms(2)] sv'_def]
  have front: "set (um_front v (svUsers sv')) = set (um_front v (svUsers ?sv)) - {s}" for v using S by (simp del: fun_upd_apply)
  have names: "svControlBundleNames sv' = svControlBundleNames ?sv" using S by (simp del: fun_upd_apply)
  have cur: "umCurUser (svUsers sv') = umCurUser (svUsers ?sv)"
    by (simp add: sv'_def cur_release)
  have core: "si_core (items (svStore sv') t) = si_core (items (svStore ?sv) t)" if "t \<in> sv_members sv'" for t
    using that R(3,4) by auto
  have "w_ok (w\<lparr>wService := sv'\<rparr>)"
  proof (rule w_ok_service [OF assms(1)])
    show "sv_good sv'" using R(1) cur good by (simp add: sv_good_def)
    show "sv_members sv' \<subseteq> sv_members ?sv" using R(3) by auto
    show "in_front t sv' = in_front t ?sv" if "t \<in> sv_members sv'" for t
      using that R(3) front si_core_fields(4) [OF core [OF that]] by (auto simp: in_front_def)
  qed (rule core, assumption, rule names)
  then show ?thesis by (simp add: sv'_def)
qed

lemma is_call_type: "is_call c \<longleftrightarrow> siType c = SESSION_TYPE_VOICE_CALL \<or> siType c = SESSION_TYPE_VIDEO_CALL"
  by (simp add: is_call_def si_GetSessionType_def sessionTypeMap_def)

text \<open>A creation that returns a session had valid parameters, no session yet, and room.\<close>

lemma sv_created:
  assumes "sv_good sv" and "w_creatable bundle ability s sid uid pid tag type third e sv"
    and "sv_CreateSessionInner env bundle ability s sid uid pid tag type third e sv = (ret, Some r, sv')"
    and u: "u = sv_GetUserIdFromCallingUid uid sv"
  shows "r = s \<and> sv_ok sv' \<and> siUserId (items (svStore sv') s) = u
      \<and> ss_GetAllSessions (umAll (svUsers sv')) = s # ss_GetAllSessions (umAll (svUsers sv))
      \<and> um_front u (svUsers sv') = (if type = SESSION_TYPE_VOICE_CALL \<or> type = SESSION_TYPE_VIDEO_CALL
          then s # um_front u (svUsers sv) else um_front u (svUsers sv))
      \<and> (\<forall>v. v \<noteq> u \<longrightarrow> um_front v (svUsers sv') = um_front v (svUsers sv))
      \<and> umAlive (svUsers sv') = umAlive (svUsers sv) \<and> umCurUser (svUsers sv') = umCurUser (svUsers sv)
      \<and> svControlBundleNames sv' = svControlBundleNames sv
      \<and> (\<forall>t. t \<noteq> s \<longrightarrow> si_core (items (svStore sv') t) = si_core (items (svStore sv) t))
      \<and> (\<exists>c. si_core (items (svStore sv') s) = si_core c \<and> siSessionId c = sid \<and> siType c = type \<and> \<not> siCasting c
          \<and> \<not> siDestroyed c
          \<and> siBundle c = elBundle (sv_CorrectElementForThirdPartyCaller bundle ability third e))"
proof -
  have ok: "sv_ok sv" and cur: "0 < umCurUser (svUsers sv)" using assms(1) by (simp_all add: sv_good_def sv_clean_def)
  have W: "tag \<noteq> ''ancoMediaSession''" "tag \<noteq> ''anco_audio''" "uid \<noteq> audioBrokerUid"
    "sv_fresh s sid pid (elAbility (sv_CorrectElementForThirdPartyCaller bundle ability third e)) sv"
    using assms(2) by (simp_all add: w_creatable_def)
  have u0: "0 < u" using cur by (auto simp: u sv_GetUserIdFromCallingUid_def Let_def)
  have valid: "sv_IsParamInvalid uid tag type e" using assms(3) by (auto simp: sv_CreateSessionInner_def split: if_splits)
  have has: "\<not> ss_PidHasSession pid (um_stack u (svUsers sv))"
  proof
    assume h: "ss_PidHasSession pid (um_stack u (svUsers sv))"
    have "fst (sv_AbilityHasSession pid u sv)"
      using h u0 by (simp add: sv_AbilityHasSession_def split_beta Let_def)
    then show False using assms(3) valid W(1,2) u
      by (auto simp: sv_CreateSessionInner_def sv_RefreshUserFromAnco_def Let_def split: prod.splits)
  qed
  have nf: "s \<notin> set (um_front u (svUsers sv))" using sv_okD(2) [OF ok] W(4) by (auto simp: sv_fresh_def um_of_user_def)
  from sv_CreateSession_spec [OF ok valid W(1,2) u u0 has W(4) nf assms(3)] show ?thesis by (auto split: if_splits)
qed

lemma w_ok_create:
  assumes "w_ok w" and "w_creatable bundle ability s sid uid pid tag type third e (wService w)"
    and "sv_CreateSessionInner env bundle ability s sid uid pid tag type third e (wService w) = (ret, Some r, sv')"
  shows "w_ok (w\<lparr>wService := sv', wData := (wData w)(s := new_img_state (sv_item sv' s) files)\<rparr>)"
proof -
  let ?sv = "wService w" and ?h = "items (svStore (wService w))" and ?h' = "items (svStore sv')"
  define u where "u = sv_GetUserIdFromCallingUid uid ?sv"
  have good: "sv_good ?sv" and agree: "\<And>t. t \<in> sv_members ?sv \<Longrightarrow> w_agree t ?sv (wData w t)"
    using assms(1) by (simp_all add: w_ok_def)
  note N = sv_created [OF good assms(2,3) u_def]
  have W: "sid \<noteq> sessionCastState" "um_IsUserAlive u (svUsers ?sv)" "s \<notin> sv_members ?sv"
    "type = SESSION_TYPE_VOICE_CALL \<or> type = SESSION_TYPE_VIDEO_CALL \<Longrightarrow>
       elBundle (sv_CorrectElementForThirdPartyCaller bundle ability third e) \<notin> set (svControlBundleNames ?sv)"
    using assms(2) by (simp_all add: w_creatable_def u_def sv_fresh_def)
  have u0: "0 < u" using good by (auto simp: u_def sv_good_def sv_GetUserIdFromCallingUid_def Let_def)
  have m: "sv_members sv' = insert s (sv_members ?sv)" using N by simp
  from N obtain c where c: "si_core (?h' s) = si_core c" "siSessionId c = sid" "siType c = type" "\<not> siCasting c"
    "\<not> siDestroyed c" "siBundle c = elBundle (sv_CorrectElementForThirdPartyCaller bundle ability third e)" by blast
  note C = si_core_fields [OF c(1)]
  have core: "si_core (?h' t) = si_core (?h t)" if "t \<noteq> s" for t using N that by blast
  note T = si_core_fields [OF core]
  have nf: "s \<notin> set (um_front v (svUsers ?sv))" for v
    using sv_okD(2) [OF sv_calm_ok [OF sv_good_calm [OF good]]] W(3) by (auto simp: um_of_user_def)
  have us: "siUserId (?h' s) = u" using N by simp
  have front: "in_front t sv' = in_front t ?sv" if "t \<noteq> s" for t
    using that N T(4) [OF that] by (cases "siUserId (?h t) = u") (auto simp: in_front_def)
  have fs: "in_front s sv' \<longleftrightarrow> is_call (?h' s)"
    using N us nf [of u] C(5) c(3) by (auto simp: in_front_def is_call_type)
  have "\<not> siCasting (?h' t)" for t
    using good T(8) C(8) c(4) by (cases "t = s") (auto simp: sv_good_def sv_clean_def)
  moreover have "sv_releasable t sv' \<and> sv_listed t sv'" if "t \<in> sv_members sv'" for t
  proof (cases "t = s")
    case True
    have "sv_releasable s sv'" using that True us u0 W(2) N C(10) c(5) by (simp add: sv_releasable_def um_IsUserAlive_def)
    moreover have "sv_listed s sv'"
      using fs W(4) C(5,6) c(3,6) N by (auto simp: sv_listed_def in_front_def is_call_type)
    ultimately show ?thesis using True by simp
  next
    case False
    then have t: "t \<in> sv_members ?sv" using that m by simp
    have "sv_releasable t ?sv" "sv_listed t ?sv" using good t by (simp_all add: sv_good_def sv_clean_def)
    then show ?thesis using that False T N front [OF False] t m
      by (simp add: sv_releasable_def sv_listed_def in_front_def um_IsUserAlive_def)
  qed
  ultimately have "sv_good sv'" using N good by (simp add: sv_good_def sv_clean_def)
  moreover have "w_agree t sv' (((wData w)(s := new_img_state (sv_item sv' s) files)) t)" if "t \<in> sv_members sv'" for t
  proof (cases "t = s")
    case True
    have "sd_held (imSd (new_img_state (sv_item sv' s) files) :: ('a, 'b) sess_data)"
      by (rule sd_held_reachable [OF im_new])
    moreover have "\<not> w_told (new_img_state (sv_item sv' s) files :: ('a, 'b) img_state)"
      by (simp add: w_told_def new_img_state_def new_sess_data_def)
    ultimately show ?thesis using True fs C(1) c(2) W(1) by (simp add: w_agree_def w_tracked_def)
  next
    case False
    have "w_tracked t sv' = w_tracked t ?sv"
      using T(5,6) [OF False] N by (simp add: w_tracked_def sv_frontable_def is_call_type)
    then show ?thesis using False that m agree [of t] front [OF False] T(1) [OF False] by (simp add: w_agree_def)
  qed
  ultimately show ?thesis by (simp add: w_ok_def)
qed

end
