(* ===== verification/WorldFront.thy ===== *)
theory WorldFront
  imports ServiceWorld
begin

text \<open>
  What holds in every run of the service with its sessions: the lists of sessions in front are
  exactly what the data of the sessions asks for.
\<close>

section \<open>Runs keep the invariant\<close>

lemma w_ok_step:
  assumes "w_step weq customData migrated w w'" and "w_ok w"
  shows "w_ok w'"
  using assms(1)
proof cases
  case (w_session s st' env permitted)
  then show ?thesis using w_ok_session [OF assms(2)] by simp
next
  case (w_user e u env)
  then show ?thesis using w_ok_user [OF assms(2)] by simp
next
  case w_create
  then show ?thesis using w_ok_create [OF assms(2)] by simp
next
  case (w_release s env)
  then show ?thesis using w_ok_release [OF assms(2)] by simp
next
  note calm = sv_good_calm [OF conjunct1 [OF assms(2) [unfolded w_ok_def]]]
    and steady = w_ok_steady [OF assms(2)] and steady1 = w_ok_steady [OF assms(2), of _ "wFocus w"]
  {
    case (w_audio env infos fs sv)
    then show ?thesis using steady sv_steady_audio(1) [OF calm, of env infos "wFocus w"] by simp
  next
    case (w_stop env k fs sv)
    then show ?thesis using steady sv_steady_audio(2) [OF calm, of env k "wFocus w"] by simp
  next
    case (w_card env a u posted sv)
    then show ?thesis using steady1 sv_steady_card(1) [OF calm, of env a u] by simp
  next
    case (w_card_task env u)
    then show ?thesis using steady1 sv_steady_card(2) [OF calm, of env u] by simp
  next
    case (w_extras env sid)
    then show ?thesis using steady1 sv_steady_callbacks(1) [OF calm, of env sid] by simp
  }
qed

lemma new_service_good:
  assumes "\<And>s. \<not> siCasting (sessions s)" and "0 < account"
  shows "sv_good (new_service sessions controllers names ntf migrate account removable)"
    and "sv_members (new_service sessions controllers names ntf migrate account removable) = {}"
proof -
  let ?sv = "new_service sessions controllers names ntf migrate account removable"
  show m: "sv_members ?sv = {}"
    by (simp add: new_service_def um_Init_def new_users_manager_def ss_GetAllSessions_def new_session_stack_def)
  have "um_ok sessions (svUsers ?sv)"
    using um_ok_cong [of "svUsers ?sv" "new_users_manager removable" sessions] by (simp add: new_service_def um_Init_def)
  then have "sv_ok ?sv"
    by (simp add: sv_ok_def um_front_def um_key_list_def um_GetTopSession_def)
      (simp add: new_service_def um_Init_def new_users_manager_def)
  then show "sv_good ?sv" using assms m
    by (simp add: sv_good_def sv_clean_def) (simp add: new_service_def um_Init_def)
qed

lemma w_ok_reachable: "w_reachable weq customData migrated w \<Longrightarrow> w_ok w"
proof (induction rule: w_reachable.induct)
  case (w_start sessions account controllers names ntf migrate init)
  then show ?case using new_service_good [of sessions account] by (simp add: w_ok_def)
qed (rule w_ok_step)

section \<open>In front\<close>

text \<open>C1: runs of the service with its sessions: applications that set metadata, playback state and
  commands in any order, controllers and media keys, reports of the audio framework, the media card,
  users that are switched and removed, sessions that are created and released. The runs start
  without a session, no session casts in them, and every creation is one that \<open>w_creatable\<close> allows:
  not by the audio broker or with a tag of the Android compatibility layer, of a user that is alive,
  with a fresh object, id and key, and no call session of a bundle on the control list. In every state
  of such a run the service is consistent, and a session in the container that is neither a call nor a
  photo nor of a bundle on the control list (\<open>w_tracked\<close>) is in its user's list of sessions in front
  exactly if it now has a title or an image and supports some command. A call is outside: it is put in
  front when it is created.\<close>

theorem session_in_front:
  assumes "w_reachable weq customData migrated w" and "s \<in> sv_members (wService w)" and "w_tracked s (wService w)"
  shows "sv_ok (wService w) \<and>
    (s \<in> set (um_front (siUserId (sv_item (wService w) s)) (svUsers (wService w)))
      \<longleftrightarrow> \<not> sd_meta_empty (imSd (wData w s)) \<and> sdSupportedCmd (imSd (wData w s)) \<noteq> [])"
proof -
  from w_ok_reachable [OF assms(1)] assms(2) have "w_agree s (wService w) (wData w s)" "sv_ok (wService w)"
    by (simp_all add: w_ok_def sv_good_def sv_clean_def)
  with assms(3) show ?thesis
    by (auto simp: w_agree_def w_told_def in_front_def sd_held_def sd_told_ok_def sd_front_ok_def)
qed

text \<open>A session of the user in the foreground, just created.\<close>

definition example_world :: "(nat, nat) world" where
  "example_world = \<lparr>wService = new_service (\<lambda>_. new_session) (\<lambda>_. \<lparr>ctPid = 0, ctSession = None, ctSessionId = [],
     ctUserId = 0, ctFromSession = False, ctHasCallback = False\<rparr>) [] [] 0 100 (\<lambda>_. True), wFocus = new_focus_strategy,
     wData = (\<lambda>_. new_img_state new_session (\<lambda>_. None))\<rparr>"

theorem session_in_front_witness:
  "\<exists>w :: (nat, nat) world. 1 \<in> sv_members (wService w) \<and> w_tracked 1 (wService w) \<and> sv_ok (wService w) \<and>
    (1 \<in> set (um_front (siUserId (sv_item (wService w) 1)) (svUsers (wService w)))
      \<longleftrightarrow> \<not> sd_meta_empty (imSd (wData w 1)) \<and> sdSupportedCmd (imSd (wData w 1)) \<noteq> [])"
proof -
  let ?e = "\<lparr>elDevice = [], elBundle = ''b'', elAbility = ''a''\<rparr>" and ?sv = "wService example_world"
  have start: "w_reachable (=) (\<lambda>_. None) False example_world"
    unfolding example_world_def by (rule w_start) (simp_all add: new_session_def)
  have good: "sv_good ?sv" and empty: "sv_members ?sv = {}"
    using new_service_good [of "\<lambda>_. new_session" 100] by (simp_all add: example_world_def new_session_def)
  have valid: "sv_IsParamInvalid 20000001 ''tag'' SESSION_TYPE_AUDIO ?e"
    by (simp add: sv_IsParamInvalid_def sv_IsElementNameValid_def name_regex_def cpp_word_char_def audioBrokerUid_def)
  have user: "sv_GetUserIdFromCallingUid 20000001 ?sv = 100"
    by (simp add: sv_GetUserIdFromCallingUid_def uidToUserId_def signed_divide_int_def)
  have can: "w_creatable [] [] 1 ''s'' 20000001 7 ''tag'' SESSION_TYPE_AUDIO False ?e ?sv"
    using empty by (simp add: w_creatable_def user audioBrokerUid_def sessionCastState_def sv_fresh_def um_IsUserAlive_def)
      (simp add: example_world_def new_service_def um_Init_def new_users_manager_def new_session_stack_def ss_GetSession_def)
  obtain ret r sv where c: "sv_CreateSessionInner example_env [] [] 1 ''s'' 20000001 7 ''tag'' SESSION_TYPE_AUDIO False ?e ?sv
      = (ret, r, sv)" by (metis prod_cases3)
  have fresh: "sv_fresh 1 ''s'' 7 (elAbility (sv_CorrectElementForThirdPartyCaller [] [] False ?e)) ?sv"
    using can by (simp add: w_creatable_def)
  have "\<not> ss_PidHasSession 7 (um_stack 100 (svUsers ?sv))" "1 \<notin> set (um_front 100 (svUsers ?sv))"
    "length (ss_GetAllSessions (umAll (svUsers ?sv))) < SESSION_NUM_MAX"
    by (simp_all add: example_world_def new_service_def um_Init_def new_users_manager_def um_stack_def um_front_def
        new_session_stack_def ss_PidHasSession_def ss_GetAllSessions_def SESSION_NUM_MAX_def)
  with sv_CreateSession_spec [OF _ valid _ _ user [symmetric] _ _ fresh _ c] good
  have "r = Some 1" by (simp add: sv_good_def sv_clean_def)
  with c have c': "sv_CreateSessionInner example_env [] [] 1 ''s'' 20000001 7 ''tag'' SESSION_TYPE_AUDIO False ?e ?sv
      = (ret, Some 1, sv)" by simp
  define w where "w = example_world\<lparr>wService := sv, wData := (wData example_world)(1 := new_img_state (sv_item sv 1) (\<lambda>_. None))\<rparr>"
  have reach: "w_reachable (=) (\<lambda>_. None) False w"
    unfolding w_def by (rule w_then [OF start w_create [OF can c']])
  note N = sv_created [OF good can c' refl]
  have mem: "1 \<in> sv_members (wService w)" using N by (simp add: w_def)
  obtain d where d: "si_core (items (svStore sv) 1) = si_core d" "siType d = SESSION_TYPE_AUDIO"
    using N by blast
  have "svControlBundleNames sv = []" using N by (simp add: example_world_def new_service_def)
  then have "w_tracked 1 (wService w)"
    using si_core_fields(5) [OF d(1)] d(2) by (simp add: w_def w_tracked_def sv_frontable_def is_call_type)
  with session_in_front [OF reach mem this] mem show ?thesis by blast
qed

section \<open>Users that are not alive\<close>

text \<open>the service knows as alive only the users that were switched to. The callback of a session of any
  other user looks for the session in the container of the current user instead, does not find it,
  and every list in front stays as it is: the session never comes to the front, and if it is in
  front it stays there.\<close>

theorem front_of_background_user:
  assumes "sv_ok sv" and "s \<in> sv_members sv" and "\<not> um_IsUserAlive (siUserId (sv_item sv s)) (svUsers sv)"
    and "um_IsUserAlive (umCurUser (svUsers sv)) (svUsers sv)" and "siSessionId (sv_item sv s) \<noteq> sessionCastState"
    and "sv' = sv_on_UpdateSession env (siSessionId (sv_item sv s)) isAdd (siUserId (sv_item sv s)) sv"
  shows "um_front u (svUsers sv') = um_front u (svUsers sv) \<and> svEvents sv' = svEvents sv"
proof -
  let ?h = "items (svStore sv)" and ?c = "umCurUser (svUsers sv)"
  note ok = sv_okD(1) [OF assms(1)]
  define sv1 where "sv1 = sv\<lparr>svUsers := snd (um_GetContainerFromUser ?c (svUsers sv))\<rparr>"
  have none: "ss_GetSessionById ?h (siSessionId (?h s)) (um_stack ?c (svUsers sv)) = None"
  proof (rule ccontr)
    assume "ss_GetSessionById ?h (siSessionId (?h s)) (um_stack ?c (svUsers sv)) \<noteq> None"
    then obtain t where "ss_GetSessionById ?h (siSessionId (?h s)) (um_stack ?c (svUsers sv)) = Some t" by blast
    then have t: "t \<in> set (ss_GetAllSessions (um_stack ?c (svUsers sv)))" "siSessionId (?h t) = siSessionId (?h s)"
      using ss_GetSessionById_member by blast+
    then have "t \<in> sv_members sv" "siUserId (?h t) = ?c"
      using stack.inv_all [OF um_okD(3) [OF ok], of t] stack.inv_all [OF um_okD(1) [OF ok], of t] um_okD(4) [OF ok] by blast+
    moreover have "t = s" using um_okD(6) [OF ok] t(2) assms(2) \<open>t \<in> sv_members sv\<close> by (auto dest: inj_onD)
    ultimately show False using assms(3,4) by simp
  qed
  have "sv' = sv1"
    using assms(3,5) none
    by (simp add: assms(6) sv_on_UpdateSession_def sv_GetTargetUserId_def split_beta sv1_def Let_def)
  then show ?thesis by (simp add: sv1_def um_front_def)
qed

theorem front_of_background_user_witness:
  "um_front 100 (svUsers (sv_on_UpdateSession example_env ''s'' False 100
     (example_service\<lparr>svUsers := (svUsers example_service)\<lparr>umCurUser := 101, umAlive := [101]\<rparr>\<rparr>))) = [7]"
proof -
  let ?sv = "example_service\<lparr>svUsers := (svUsers example_service)\<lparr>umCurUser := 101, umAlive := [101]\<rparr>\<rparr>"
  have "um_ok (items (svStore example_service)) (svUsers ?sv)"
    using example_um_ok um_ok_cong [of "svUsers ?sv" "svUsers example_service"] by simp
  then have "sv_ok ?sv" using example_sv_ok
    by (simp add: sv_ok_def um_of_user_def um_front_def um_key_list_def um_GetTopSession_def)
  moreover have "7 \<in> sv_members ?sv" "siUserId (sv_item ?sv 7) = 100" "siSessionId (sv_item ?sv 7) = ''s''"
    by (simp_all add: example_service_def example_item_def ss_GetAllSessions_def new_session_def)
  moreover have "um_front 100 (svUsers ?sv) = [7]" by (simp add: example_service_def um_front_def)
  ultimately show ?thesis
    using front_of_background_user [of ?sv 7 _ example_env False 100]
    by (simp add: um_IsUserAlive_def sessionCastState_def)
qed

end
