(* ===== verification/ServiceKeys.thy ===== *)
theory ServiceKeys
  imports ServiceWorld CommandLimit
begin

text \<open>
  Media keys and system commands in \<^verbatim>\<open>avsession_service.cpp\<close>: the key of a headset, whose presses are
  counted for half a second and become one command; the other keys, which go to the first session
  that registered for keys, or else to the top session; and what happens when there is none. They
  run on the world of \<open>ServiceWorld\<close>. \<open>None\<close> is the exception of \<^verbatim>\<open>cmdHandlers.at\<close>.
\<close>

section \<open>Sending to a session\<close>

text \<open>\<open>keyPermitted\<close>: the permission checker's answer for the callbacks; \<open>keyCaller\<close>: who calls.\<close>

record key_env =
  keyEnv :: env
  keyPermitted :: bool
  keyCaller :: caller

definition w_command :: "key_env \<Rightarrow> sref \<Rightarrow> control_command \<Rightarrow> ('w, 'q) world \<Rightarrow> ('w, 'q) world option" where
  "w_command k s cmd w =
     map_option (\<lambda>sd. w_run_session (keyEnv k) (keyPermitted k) s ((w_view s w)\<lparr>imSd := sd\<rparr>) w)
       (sd_ExecuteControllerCommand (keyCaller k) cmd (imSd (w_view s w)))"

definition w_media_key :: "key_env \<Rightarrow> sref \<Rightarrow> key_code \<Rightarrow> command_info \<Rightarrow> ('w, 'q) world \<Rightarrow> ('w, 'q) world" where
  "w_media_key k s key info w =
     w_run_session (keyEnv k) (keyPermitted k) s
       ((w_view s w)\<lparr>imSd := sd_HandleMediaKeyEvent key info (imSd (w_view s w))\<rparr>) w"

definition sv_IsAncoValid :: "service \<Rightarrow> bool" where
  "sv_IsAncoValid sv \<longleftrightarrow> (case svAnco sv of None \<Rightarrow> False | Some a \<Rightarrow> si_IsActive (sv_item sv a))"

text \<open>The session of the Android compatibility layer takes over when it played later.\<close>

definition sv_proc_session :: "sref \<Rightarrow> service \<Rightarrow> sref" where
  "sv_proc_session s sv = (case svAnco sv of
     None \<Rightarrow> s
   | Some a \<Rightarrow> if \<not> si_IsActive (sv_item sv a) then s
               else if siPlayingTime (sv_item sv s) > siPlayingTime (sv_item sv a) then s else a)"

definition BLUETOOTH_UID :: int where "BLUETOOTH_UID = 1002"
definition NEARLINK_UID :: int where "NEARLINK_UID = 7030"

definition key_command_info :: "int \<Rightarrow> string \<Rightarrow> command_info" where
  "key_command_info uid deviceId =
     (let info = (if uid = BLUETOOTH_UID then new_command_info\<lparr>callerType := ''bluetooth''\<rparr>
                  else if uid = NEARLINK_UID then new_command_info\<lparr>callerType := ''nearlink''\<rparr>
                  else new_command_info)
      in info\<lparr>callerDeviceId := deviceId\<rparr>)"

definition w_CheckSessionHandleKeyEvent ::
  "key_env \<Rightarrow> bool \<Rightarrow> control_command \<Rightarrow> key_code \<Rightarrow> sref \<Rightarrow> string \<Rightarrow> ('w, 'q) world \<Rightarrow> ('w, 'q) world option" where
  "w_CheckSessionHandleKeyEvent k procCmd cmd key s deviceId w =
     (let p = sv_proc_session s (wService w);
          info = key_command_info (crUid (keyCaller k)) deviceId
      in if procCmd then w_command k p (snd (cc_SetCommandInfo info cmd)) w
         else Some (w_media_key k p key info w))"

section \<open>No top session\<close>

text \<open>
  \<open>history\<close>: what \<^verbatim>\<open>GetColdStartSessionDescriptors\<close> reads from the file, bundle and session id.
  The result names the bundle that is started, with its device, if one is.
\<close>

definition sv_first_in_front :: "service \<Rightarrow> sref option \<times> service" where
  "sv_first_in_front sv =
     (let (l, sv) = sv_GetCurSessionListForFront 0 sv in (List.find (\<lambda>s. \<not> is_call (sv_item sv s)) l, sv))"

definition plays_cold :: "i32 \<Rightarrow> bool" where
  "plays_cold cmd \<longleftrightarrow> cmd = SESSION_CMD_PLAY \<or> cmd = SESSION_CMD_PLAY_NEXT \<or> cmd = SESSION_CMD_PLAY_PREVIOUS"

definition w_cold_bundle :: "(string \<times> string) list \<Rightarrow> ('w, 'q) world \<Rightarrow> string \<times> ('w, 'q) world" where
  "w_cold_bundle history w =
     (let (bundleName, sessionId) = hd history;
          (st, um) = um_GetContainer (svUsers (wService w));
          w = w\<lparr>wService := (wService w)\<lparr>svUsers := um\<rparr>\<rparr>
      in case ss_GetSessionById (items (svStore (wService w))) sessionId st of
           Some s \<Rightarrow> (if sdAppIndex (imSd (wData w s)) \<noteq> 0
             then bundleName @ ''_'' @ int_to_string (sdAppIndex (imSd (wData w s))) else bundleName, w)
         | None \<Rightarrow> (bundleName, w))"

definition w_HandleSystemKeyColdStart ::
  "key_env \<Rightarrow> (string \<times> string) list \<Rightarrow> control_command \<Rightarrow> string \<Rightarrow> ('w, 'q) world
    \<Rightarrow> (('w, 'q) world \<times> (string \<times> string) option) option" where
  "w_HandleSystemKeyColdStart k history cmd deviceId w =
     (let (first, sv) = sv_first_in_front (wService w); w = w\<lparr>wService := sv\<rparr>
      in case first of
           Some s \<Rightarrow> map_option (\<lambda>w. (w, None)) (w_CheckSessionHandleKeyEvent k True cmd (KEYCODE_OTHER 0) s deviceId w)
         | None \<Rightarrow>
             if sv_IsAncoValid (wService w)
             then map_option (\<lambda>w. (w, None)) (w_command k (the (svAnco (wService w))) cmd w)
             else if history = [] then Some (w, None)
             else if plays_cold (cc_cmd cmd)
             then (let (bundleName, w) = w_cold_bundle history w
                   in if fsPlayingUids (wFocus w) \<noteq> [] then Some (w, None) else Some (w, Some (bundleName, deviceId)))
             else Some (w, None))"

section \<open>The presses of a headset key\<close>

definition AVSESSION_CONTINUE :: int where "AVSESSION_CONTINUE = 1"
definition ONE_CLICK :: int where "ONE_CLICK = 1"
definition DOUBLE_CLICK :: int where "DOUBLE_CLICK = 2"
definition THREE_CLICK :: int where "THREE_CLICK = 3"

text \<open>The count is an atomic 32-bit integer, which wraps. \<open>clTask\<close>: how often the task that reads it is posted.\<close>

record clicks =
  clCount :: i32
  clFirst :: bool
  clTask :: nat

definition new_clicks :: clicks where
  "new_clicks = \<lparr>clCount = 0, clFirst = True, clTask = 0\<rparr>"

definition session_proc_command :: "('w, 'q) world \<Rightarrow> sref \<Rightarrow> control_command" where
  "session_proc_command w s =
     snd (cc_SetCommand (if siPlaybackState (sv_item (wService w) s) = PLAYBACK_STATE_PLAY then SESSION_CMD_PAUSE
       else SESSION_CMD_PLAY) new_control_command)"

definition w_GetSessionProcCommand :: "('w, 'q) world \<Rightarrow> sref option \<Rightarrow> control_command" where
  "w_GetSessionProcCommand w session = (case session of
     Some s \<Rightarrow> session_proc_command w (if sv_IsAncoValid (wService w) then sv_proc_session s (wService w) else s)
   | None \<Rightarrow> if sv_IsAncoValid (wService w) then session_proc_command w (the (svAnco (wService w)))
             else snd (cc_SetCommand SESSION_CMD_PLAY new_control_command))"

definition click_command :: "i32 \<Rightarrow> ('w, 'q) world \<Rightarrow> sref option \<Rightarrow> control_command" where
  "click_command count w curTopSession =
     (if sint count \<ge> THREE_CLICK then snd (cc_SetCommand SESSION_CMD_PLAY_PREVIOUS new_control_command)
      else if sint count = DOUBLE_CLICK then snd (cc_SetCommand SESSION_CMD_PLAY_NEXT new_control_command)
      else w_GetSessionProcCommand w curTopSession)"

text \<open>The task: the count becomes a command for the top session of the current user.\<close>

definition w_HandleEventHandlerCallBack :: "key_env \<Rightarrow> (string \<times> string) list \<Rightarrow> clicks \<times> ('w, 'q) world
    \<Rightarrow> (clicks \<times> ('w, 'q) world \<times> (string \<times> string) option) option" where
  "w_HandleEventHandlerCallBack k history st = (case st of (cl, w) \<Rightarrow>
     let curTopSession = um_GetCurrentTopSession (svUsers (wService w));
         done = cl\<lparr>clCount := 0, clFirst := True, clTask := clTask cl - 1\<rparr>
     in if sint (clCount cl) < ONE_CLICK then Some (done, w, None)
        else let cmd = click_command (clCount cl) w curTopSession
        in case curTopSession of
             Some t \<Rightarrow>
               if siTag (sv_item (wService w) t) = ''external_audio'' then Some (done, w, None)
               else map_option (\<lambda>w. (done, w, None)) (w_CheckSessionHandleKeyEvent k True cmd (KEYCODE_OTHER 0) t [] w)
           | None \<Rightarrow> map_option (\<lambda>(w, started). (done, w, started)) (w_HandleSystemKeyColdStart k history cmd [] w))"

definition is_click :: "key_code \<Rightarrow> bool" where
  "is_click key \<longleftrightarrow> key = KEYCODE_HEADSETHOOK \<or> key = KEYCODE_MEDIA_PLAY_PAUSE"

text \<open>A press of that key; \<open>posted\<close>: the event handler took the task.\<close>

definition click_press :: "bool \<Rightarrow> clicks \<Rightarrow> int \<times> clicks" where
  "click_press posted cl =
     (let cl = cl\<lparr>clCount := clCount cl + 1\<rparr>
      in if clFirst cl
         then (if posted then (AVSESSION_SUCCESS, cl\<lparr>clFirst := False, clTask := clTask cl + 1\<rparr>)
               else (AVSESSION_ERROR, cl\<lparr>clFirst := False\<rparr>))
         else (AVSESSION_SUCCESS, cl))"

section \<open>Keys\<close>

definition sv_first_for_keys :: "service \<Rightarrow> sref option \<times> service" where
  "sv_first_for_keys sv =
     (let (l, um) = um_GetCurSessionListForKeyEvent 0 (svUsers sv)
      in (case l of [] \<Rightarrow> None | s # _ \<Rightarrow> Some s, sv\<lparr>svUsers := um\<rparr>))"

definition w_key_to_top :: "key_env \<Rightarrow> key_code \<Rightarrow> string \<Rightarrow> int \<Rightarrow> ('w, 'q) world \<Rightarrow> (int \<times> ('w, 'q) world) option" where
  "w_key_to_top k key deviceId userId w =
     (case (if userId > 0 then um_GetTopSession userId (svUsers (wService w))
            else um_GetCurrentTopSession (svUsers (wService w))) of
        None \<Rightarrow> Some (AVSESSION_CONTINUE, w)
      | Some t \<Rightarrow> map_option (\<lambda>w. (AVSESSION_SUCCESS, w))
          (w_CheckSessionHandleKeyEvent k False new_control_command key t deviceId w))"

definition w_HandleKeyEvent :: "key_env \<Rightarrow> bool \<Rightarrow> key_code \<Rightarrow> string \<Rightarrow> int \<Rightarrow> clicks \<times> ('w, 'q) world
    \<Rightarrow> (int \<times> clicks \<times> ('w, 'q) world) option" where
  "w_HandleKeyEvent k posted key deviceId userId st = (case st of (cl, w) \<Rightarrow>
     if is_click key then (case click_press posted cl of (r, cl) \<Rightarrow> Some (r, cl, w))
     else case sv_first_for_keys (wService w) of
       (Some s, sv) \<Rightarrow> Some (AVSESSION_SUCCESS, cl, w_media_key k s key new_command_info (w\<lparr>wService := sv\<rparr>))
     | (None, sv) \<Rightarrow> map_option (\<lambda>(r, w). (r, cl, w)) (w_key_to_top k key deviceId userId (w\<lparr>wService := sv\<rparr>)))"

definition keyCodeToCommandMap :: "(key_code \<times> i32) list" where
  "keyCodeToCommandMap = [(KEYCODE_MEDIA_PLAY_PAUSE, SESSION_CMD_PLAY), (KEYCODE_MEDIA_PLAY, SESSION_CMD_PLAY),
     (KEYCODE_MEDIA_PAUSE, SESSION_CMD_PAUSE), (KEYCODE_MEDIA_STOP, SESSION_CMD_STOP),
     (KEYCODE_MEDIA_NEXT, SESSION_CMD_PLAY_NEXT), (KEYCODE_MEDIA_PREVIOUS, SESSION_CMD_PLAY_PREVIOUS),
     (KEYCODE_MEDIA_REWIND, SESSION_CMD_REWIND), (KEYCODE_MEDIA_FAST_FORWARD, SESSION_CMD_FAST_FORWARD)]"

definition ConvertKeyCodeToCommand :: "key_code \<Rightarrow> i32" where
  "ConvertKeyCodeToCommand key = (case map_of keyCodeToCommandMap key of Some c \<Rightarrow> c | None \<Rightarrow> SESSION_CMD_PLAY)"

text \<open>\<open>userId\<close> is what \<^verbatim>\<open>StringToInt32\<close> made of the parameter, \<open>-1\<close> when it is not a number.\<close>

definition w_SendSystemAVKeyEvent :: "key_env \<Rightarrow> (string \<times> string) list \<Rightarrow> bool \<Rightarrow> key_code \<Rightarrow> string \<Rightarrow> int
    \<Rightarrow> clicks \<times> ('w, 'q) world \<Rightarrow> (int \<times> clicks \<times> ('w, 'q) world \<times> (string \<times> string) option) option" where
  "w_SendSystemAVKeyEvent k history posted key deviceId userId st =
     (case w_HandleKeyEvent k posted key deviceId userId st of
        None \<Rightarrow> None
      | Some (ret, cl, w) \<Rightarrow>
          if ret \<noteq> AVSESSION_CONTINUE then Some (ret, cl, w, None)
          else map_option (\<lambda>(w, started). (AVSESSION_SUCCESS, cl, w, started))
            (w_HandleSystemKeyColdStart k history (snd (cc_SetCommand (ConvertKeyCodeToCommand key) new_control_command)) deviceId w))"

definition w_SendSystemControlCommand :: "key_env \<Rightarrow> (string \<times> string) list \<Rightarrow> int \<Rightarrow> control_command
    \<Rightarrow> command_limit \<times> ('w, 'q) world \<Rightarrow> (int \<times> command_limit \<times> ('w, 'q) world \<times> (string \<times> string) option) option" where
  "w_SendSystemControlCommand k history callingPid cmd st = (case st of (limit, w) \<Rightarrow>
     case um_GetTopSession (sv_GetUserIdFromCallingUid (crUid (keyCaller k)) (wService w)) (svUsers (wService w)) of
       Some t \<Rightarrow>
         (case cl_IsCommandSendEnable callingPid limit of (enabled, limit) \<Rightarrow>
            if \<not> enabled then Some (ERR_COMMAND_SEND_EXCEED_MAX, limit, w, None)
            else map_option (\<lambda>w. (AVSESSION_SUCCESS, limit, w, None))
              (w_CheckSessionHandleKeyEvent k True cmd (KEYCODE_OTHER 0) t [] w))
     | None \<Rightarrow> map_option (\<lambda>(w, started). (AVSESSION_SUCCESS, limit, w, started))
         (w_HandleSystemKeyColdStart k history cmd [] w))"

end
