(* ===== verification/KeysProps.thy ===== *)
theory KeysProps
  imports ServiceKeys SessionSafe
begin

text \<open>
  What the keys of a headset and the commands of the system do: the presses within one period become
  one command; a failed post of the task loses the key for good; a command number without a handler.
\<close>

section \<open>Clicks\<close>

lemma clicks_pressed:
  "0 < n \<Longrightarrow> ((\<lambda>cl. snd (click_press True cl)) ^^ n) new_clicks = \<lparr>clCount = of_nat n, clFirst = False, clTask = 1\<rparr>"
proof (induction n)
  case (Suc n)
  then show ?case by (cases "n = 0") (simp_all add: click_press_def new_clicks_def)
qed simp

lemma click_count_sint: "n < 2 ^ 31 \<Longrightarrow> sint (of_nat n :: i32) = int n"
  by (simp add: signed_of_nat signed_take_bit_int_eq_self)

lemma cc_SetCommand_in_range: "0 \<le> sint c \<Longrightarrow> sint c < SESSION_CMD_MAX \<Longrightarrow> cc_cmd (snd (cc_SetCommand c cmd)) = c"
  by (simp add: cc_SetCommand_def)

text \<open>The session that is asked whether it plays is the one that gets the command.\<close>

lemma w_GetSessionProcCommand_some:
  "w_GetSessionProcCommand w (Some s) = session_proc_command w (sv_proc_session s (wService w))"
  by (simp add: w_GetSessionProcCommand_def sv_IsAncoValid_def sv_proc_session_def split: option.splits)

definition click_code :: "nat \<Rightarrow> bool \<Rightarrow> i32" where
  "click_code n playing =
     (if 3 \<le> n then SESSION_CMD_PLAY_PREVIOUS else if n = 2 then SESSION_CMD_PLAY_NEXT
      else if playing then SESSION_CMD_PAUSE else SESSION_CMD_PLAY)"

lemma click_command_code:
  assumes "0 < n" and "n < 2 ^ 31"
  shows "cc_cmd (click_command (of_nat n) w (Some t)) =
    click_code n (siPlaybackState (sv_item (wService w) (sv_proc_session t (wService w))) = PLAYBACK_STATE_PLAY)"
proof -
  have set: "cc_cmd (snd (cc_SetCommand c new_control_command)) = c" if "c \<in> {SESSION_CMD_PLAY, SESSION_CMD_PAUSE,
      SESSION_CMD_PLAY_NEXT, SESSION_CMD_PLAY_PREVIOUS}" for c
    using that by (intro cc_SetCommand_in_range) auto
  note count = click_count_sint [OF assms(2)]
  consider "3 \<le> n" | "n = 2" | "n = 1" using assms(1) by linarith
  then show ?thesis
    by cases (simp_all add: click_command_def click_code_def count set w_GetSessionProcCommand_some
        session_proc_command_def THREE_CLICK_def DOUBLE_CLICK_def)
qed

text \<open>C15: presses of the headset key, fewer than the counter's 2^31, within the period of the task become exactly one
  command for the session on top of the current user, or the session of the compatibility layer when
  that is active and played later: the previous title after three presses or more, the next
  title after two, and after one press pause if that same session plays and play otherwise. The
  call never throws, and the counter starts again from nothing.\<close>

theorem clicks_become_one_command:
  assumes "0 < n" and "n < 2 ^ 31" and "um_GetCurrentTopSession (svUsers (wService w)) = Some t"
    and "siTag (sv_item (wService w) t) \<noteq> ''external_audio''" and "p = sv_proc_session t (wService w)"
  shows "\<exists>cmd sd. cc_cmd cmd = click_code n (siPlaybackState (sv_item (wService w) p) = PLAYBACK_STATE_PLAY)
    \<and> sd_ExecuteControllerCommand (keyCaller k) cmd (imSd (w_view p w)) = Some sd
    \<and> w_HandleEventHandlerCallBack k history (((\<lambda>cl. snd (click_press True cl)) ^^ n) new_clicks, w)
        = Some (new_clicks, w_run_session (keyEnv k) (keyPermitted k) p ((w_view p w)\<lparr>imSd := sd\<rparr>) w, None)"
proof -
  define cmd where "cmd = snd (cc_SetCommandInfo (key_command_info (crUid (keyCaller k)) []) (click_command (of_nat n) w (Some t)))"
  have code: "cc_cmd cmd = click_code n (siPlaybackState (sv_item (wService w) p) = PLAYBACK_STATE_PLAY)"
    using click_command_code [OF assms(1,2)] assms(5) by (simp add: cmd_def cc_SetCommandInfo_def)
  then have "cc_cmd cmd \<noteq> SESSION_CMD_MEDIA_KEY_SUPPORT" by (simp add: click_code_def)
  then obtain sd where sd: "sd_ExecuteControllerCommand (keyCaller k) cmd (imSd (w_view p w)) = Some sd"
    using sd_execute_throws by fastforce
  have "w_HandleEventHandlerCallBack k history (\<lparr>clCount = of_nat n, clFirst = False, clTask = 1\<rparr>, w)
      = Some (new_clicks, w_run_session (keyEnv k) (keyPermitted k) p ((w_view p w)\<lparr>imSd := sd\<rparr>) w, None)"
    using assms sd by (simp add: w_HandleEventHandlerCallBack_def ONE_CLICK_def click_count_sint w_CheckSessionHandleKeyEvent_def
        w_command_def cmd_def new_clicks_def Let_def)
  with code sd clicks_pressed [OF assms(1)] show ?thesis by (intro exI [of _ cmd] exI [of _ sd]) simp
qed

text \<open>Two presses, with the session of the example on top.\<close>

definition example_keys :: key_env where
  "example_keys = \<lparr>keyEnv = example_env, keyPermitted = True, keyCaller = \<lparr>crUid = BLUETOOTH_UID, crBundle = ''b'', crCastDevice = None\<rparr>\<rparr>"

definition top_world :: "(nat, nat) world" where
  "top_world = \<lparr>wService = example_service, wFocus = new_focus_strategy, wData = (\<lambda>_. new_img_state new_session (\<lambda>_. None))\<rparr>"

theorem clicks_become_one_command_witness:
  "\<exists>w'. w_HandleEventHandlerCallBack example_keys [] (\<lparr>clCount = 2, clFirst = False, clTask = 1\<rparr>, top_world)
     = Some (new_clicks, w', None)"
proof -
  have "um_GetCurrentTopSession (svUsers (wService top_world)) = Some 7"
    "siTag (sv_item (wService top_world) 7) \<noteq> ''external_audio''"
    by (simp_all add: top_world_def example_service_def um_GetCurrentTopSession_def um_GetTopSession_def example_item_def new_session_def)
  from clicks_become_one_command [of 2, OF _ _ this refl, where k = example_keys and history = "[]"]
  show ?thesis using clicks_pressed [of 2] by auto
qed

text \<open>when the event handler does not take the task, the press is answered with an error and the flag of
  the first press stays down: every later press is answered with success, and the task is never
  posted again.\<close>

theorem clicks_dead_after_failed_post:
  assumes "clFirst cl" and "click_press False cl = (r, cl1)"
    and "cl' = foldl (\<lambda>cl posted. snd (click_press posted cl)) cl1 later"
  shows "r = AVSESSION_ERROR \<and> clTask cl' = clTask cl \<and> \<not> clFirst cl'
    \<and> fst (click_press posted cl') = AVSESSION_SUCCESS"
proof -
  have "r = AVSESSION_ERROR" "clTask cl1 = clTask cl" "\<not> clFirst cl1"
    using assms(1,2) by (auto simp: click_press_def)
  moreover have "clTask (foldl (\<lambda>cl posted. snd (click_press posted cl)) c later) = clTask c
      \<and> \<not> clFirst (foldl (\<lambda>cl posted. snd (click_press posted cl)) c later)" if "\<not> clFirst c" for c
    using that by (induction later arbitrary: c) (simp_all add: click_press_def Let_def)
  ultimately show ?thesis using assms(3) by (simp add: click_press_def)
qed

theorem clicks_dead_after_failed_post_witness:
  "clTask (foldl (\<lambda>cl posted. snd (click_press posted cl)) (snd (click_press False new_clicks)) [True, True]) = 0"
proof -
  have "clFirst new_clicks" "clTask new_clicks = 0" by (simp_all add: new_clicks_def)
  with clicks_dead_after_failed_post [OF this(1) prod.collapse [symmetric] refl] show ?thesis by metis
qed

section \<open>Commands of the system\<close>

text \<open>a system command is not checked against the commands that the session supports, only its number is
  checked to be in range. The switch for media keys is the one number in range without a handler,
  so the call throws for it, and for no other, when the session on top has a callback and is active.\<close>

theorem system_command_throws:
  assumes "um_GetTopSession (sv_GetUserIdFromCallingUid (crUid (keyCaller k)) (wService w)) (svUsers (wService w)) = Some t"
    and "cl_IsCommandSendEnable callingPid limit = (True, limit')" and "p = sv_proc_session t (wService w)"
  shows "w_SendSystemControlCommand k history callingPid cmd (limit, w) = None \<longleftrightarrow>
    cc_cmd cmd = SESSION_CMD_MEDIA_KEY_SUPPORT \<and> (sdCallback (imSd (wData w p)) \<or> sdMigrate (imSd (wData w p)))
      \<and> siIsActive (sv_item (wService w) p)"
  using assms
  by (simp add: w_SendSystemControlCommand_def w_CheckSessionHandleKeyEvent_def w_command_def cc_SetCommandInfo_def
      w_view_def sd_execute_throws Let_def)

theorem system_command_throws_witness:
  "\<exists>w :: (nat, nat) world. w_SendSystemControlCommand example_keys []
     5 (new_control_command\<lparr>cc_cmd := SESSION_CMD_MEDIA_KEY_SUPPORT\<rparr>) (new_command_limit, w) = None"
proof -
  define w :: "(nat, nat) world" where "w = top_world\<lparr>wService := sv_upd_item 7 (\<lambda>s. s\<lparr>siIsActive := True\<rparr>) example_service,
    wData := (\<lambda>_. (new_img_state new_session (\<lambda>_. None))\<lparr>imSd := (new_sess_data new_session)\<lparr>sdCallback := True\<rparr>\<rparr>)\<rparr>"
  have "sv_GetUserIdFromCallingUid BLUETOOTH_UID (wService w) = 100"
    by (simp add: sv_GetUserIdFromCallingUid_def uidToUserId_def BLUETOOTH_UID_def signed_divide_int_def w_def)
      (simp add: example_service_def)
  then have t: "um_GetTopSession (sv_GetUserIdFromCallingUid (crUid (keyCaller example_keys)) (wService w)) (svUsers (wService w)) = Some 7"
    by (simp add: example_keys_def) (simp add: w_def example_service_def um_GetTopSession_def)
  have l: "cl_IsCommandSendEnable 5 new_command_limit = (True, new_command_limit)"
    by (simp add: cl_IsCommandSendEnable_def new_command_limit_def)
  have p: "sv_proc_session 7 (wService w) = 7"
    by (simp add: w_def sv_proc_session_def sv_upd_item_def example_service_def)
  have "sdCallback (imSd (wData w 7))" "siIsActive (sv_item (wService w) 7)" by (simp_all add: w_def)
  with system_command_throws [OF t l refl, of "[]" "new_control_command\<lparr>cc_cmd := SESSION_CMD_MEDIA_KEY_SUPPORT\<rparr>"] p
  show ?thesis by (intro exI [of _ w]) simp
qed

end
