(* ===== verification/QueueItem.thy ===== *)
theory QueueItem
  imports MetaWire ControlCommand
begin

text \<open>
  The items of a play queue, \<^verbatim>\<open>AVQueueItem\<close> (\<^verbatim>\<open>avqueue_item.h\<close>, \<^verbatim>\<open>avqueue_item.cpp\<close>), and the
  \<^verbatim>\<open>AVMediaDescription\<close> that an item holds (\<^verbatim>\<open>avmedia_description.h\<close>, \<^verbatim>\<open>avmedia_description.cpp\<close>), with the
  descriptors of its file and data source, as they are written to a parcel and read back. An item without a description is
  written but cannot be read; an icon that is empty or over ten megabytes, the information on the cast and the callback
  of the data source do not cross. A shared object that only this process can use is a number.
\<close>

section \<open>Descriptions and items\<close>

record av_file_descriptor =
  fdFd :: i32
  fdOffset :: i64
  fdLength :: i64

record av_data_src_descriptor =
  dsFileSize :: i64
  dsHasCallback :: bool
  dsCallback :: "nat option"

record 'w media_description =
  mdMediaId :: string
  mdTitle :: string
  mdSubtitle :: string
  mdDescription :: string
  mdIcon :: "pixel_map option"
  mdIconUri :: string
  mdExtras :: "'w option"
  mdMediaType :: string
  mdMediaSize :: i32
  mdAlbumTitle :: string
  mdLaunchClientData :: string
  mdAlbumCoverUri :: string
  mdLyricContent :: string
  mdLyricUri :: string
  mdArtist :: string
  mdMediaUri :: string
  mdFdSrc :: av_file_descriptor
  mdDuration :: i32
  mdStartPosition :: i32
  mdCreditsPosition :: i32
  mdAppName :: string
  mdDrmScheme :: string
  mdDataSrc :: av_data_src_descriptor
  mdPcmSrc :: bool
  mdCastInfo :: "nat option"

definition new_media_description :: "'w media_description" where
  "new_media_description = \<lparr>mdMediaId = [], mdTitle = [], mdSubtitle = [], mdDescription = [], mdIcon = None, mdIconUri = [],
     mdExtras = None, mdMediaType = [], mdMediaSize = 0, mdAlbumTitle = [], mdLaunchClientData = [], mdAlbumCoverUri = [],
     mdLyricContent = [], mdLyricUri = [], mdArtist = [], mdMediaUri = [],
     mdFdSrc = \<lparr>fdFd = -1, fdOffset = 0, fdLength = 0\<rparr>, mdDuration = 0, mdStartPosition = 0, mdCreditsPosition = 0,
     mdAppName = [], mdDrmScheme = [], mdDataSrc = \<lparr>dsFileSize = 0, dsHasCallback = False, dsCallback = None\<rparr>,
     mdPcmSrc = False, mdCastInfo = None\<rparr>"

record 'w queue_item =
  qiItemId :: i32
  qiDescription :: "'w media_description option"

definition new_queue_item :: "'w queue_item" where
  "new_queue_item = \<lparr>qiItemId = 0, qiDescription = None\<rparr>"

section \<open>A description in a parcel\<close>

definition fd_WriteToParcel :: "('p, 'w) parcel_ops \<Rightarrow> av_file_descriptor \<Rightarrow> 'p \<Rightarrow> bool \<times> 'p" where
  "fd_WriteToParcel P d = w_all [WriteInt32 P (fdFd d), WriteInt64 P (fdOffset d), WriteInt64 P (fdLength d)]"

definition fd_ReadFromParcel :: "('p, 'w) parcel_ops \<Rightarrow> 'w media_description \<times> 'p \<Rightarrow> bool \<times> 'w media_description \<times> 'p" where
  "fd_ReadFromParcel P = r_all [
     r_field (ReadInt32 P) (\<lambda>v d. d\<lparr>mdFdSrc := (mdFdSrc d)\<lparr>fdFd := v\<rparr>\<rparr>),
     r_field (ReadInt64 P) (\<lambda>v d. d\<lparr>mdFdSrc := (mdFdSrc d)\<lparr>fdOffset := v\<rparr>\<rparr>),
     r_field (ReadInt64 P) (\<lambda>v d. d\<lparr>mdFdSrc := (mdFdSrc d)\<lparr>fdLength := v\<rparr>\<rparr>)]"

definition ds_WriteToParcel :: "('p, 'w) parcel_ops \<Rightarrow> av_data_src_descriptor \<Rightarrow> 'p \<Rightarrow> bool \<times> 'p" where
  "ds_WriteToParcel P d = w_all [WriteInt64 P (dsFileSize d), WriteBool P (dsHasCallback d)]"

definition ds_ReadFromParcel :: "('p, 'w) parcel_ops \<Rightarrow> 'w media_description \<times> 'p \<Rightarrow> bool \<times> 'w media_description \<times> 'p" where
  "ds_ReadFromParcel P = r_all [
     r_field (ReadInt64 P) (\<lambda>v d. d\<lparr>mdDataSrc := (mdDataSrc d)\<lparr>dsFileSize := v\<rparr>\<rparr>),
     r_field (ReadBool P) (\<lambda>v d. d\<lparr>mdDataSrc := (mdDataSrc d)\<lparr>dsHasCallback := v\<rparr>\<rparr>)]"

definition md_writes :: "('p, 'w) parcel_ops \<Rightarrow> 'w media_description \<Rightarrow> ('p \<Rightarrow> bool \<times> 'p) list" where
  "md_writes P d = [
     WriteString P (mdMediaId d), WriteString P (mdTitle d), WriteString P (mdSubtitle d), WriteString P (mdDescription d),
     WriteString P (mdIconUri d), WriteString P (mdMediaType d), WriteInt32 P (mdMediaSize d), WriteString P (mdAlbumTitle d),
     WriteString P (mdAlbumCoverUri d), WriteString P (mdLyricContent d), WriteString P (mdLyricUri d),
     WriteString P (mdArtist d), WriteString P (mdMediaUri d), fd_WriteToParcel P (mdFdSrc d), WriteInt32 P (mdDuration d),
     WriteInt32 P (mdStartPosition d), WriteInt32 P (mdCreditsPosition d), WriteString P (mdAppName d),
     WriteString P (mdLaunchClientData d), WriteWantParams P (mdExtras d), WriteString P (mdDrmScheme d),
     ds_WriteToParcel P (mdDataSrc d), WriteBool P (mdPcmSrc d)]"

text \<open>The log of a description without an icon writes the null object that the reader expects.\<close>

definition maxIconSize :: nat where
  "maxIconSize = 10 * 1024 * 1024"

definition md_iconBuffer :: "'w media_description \<Rightarrow> byte list" where
  "md_iconBuffer d = (case mdIcon d of None \<Rightarrow> [] | Some icon \<Rightarrow>
     if length (innerImgBuffer icon) > maxIconSize then [] else innerImgBuffer icon)"

definition md_Marshalling :: "('p, 'w) parcel_ops \<Rightarrow> 'w media_description \<Rightarrow> 'p \<Rightarrow> bool \<times> 'p" where
  "md_Marshalling P d p = (case w_all (md_writes P d) p of (res, p) \<Rightarrow>
     (let iconBuffer = md_iconBuffer d; iconSize = (of_nat (length iconBuffer) :: i32) in
      case WriteInt32 P iconSize p of (ok, p) \<Rightarrow>
        if \<not> 0 < sint iconSize then (case WriteParcelable P None p of (_, p) \<Rightarrow> (res \<and> ok, p))
        else (case WriteRawData P iconBuffer p of (raw, p) \<Rightarrow> (res \<and> ok \<and> raw, p))))"

text \<open>Reading does not look at the results: a field that cannot be read keeps its first value.\<close>

fun r_each :: "('o \<times> 'p \<Rightarrow> bool \<times> 'o \<times> 'p) list \<Rightarrow> 'o \<times> 'p \<Rightarrow> 'o \<times> 'p" where
  "r_each [] s = s"
| "r_each (r # rs) s = r_each rs (snd (r s))"

definition md_ReadExtras :: "('p, 'w) parcel_ops \<Rightarrow> 'w media_description \<times> 'p \<Rightarrow> bool \<times> 'w media_description \<times> 'p" where
  "md_ReadExtras P s = (case s of (d, p) \<Rightarrow> (case ReadWantParams P p of (extras, p) \<Rightarrow> (True, d\<lparr>mdExtras := extras\<rparr>, p)))"

definition md_reads :: "('p, 'w) parcel_ops \<Rightarrow> ('w media_description \<times> 'p \<Rightarrow> bool \<times> 'w media_description \<times> 'p) list" where
  "md_reads P = [
     r_field (ReadString P) (\<lambda>v d. d\<lparr>mdMediaId := v\<rparr>),
     r_field (ReadString P) (\<lambda>v d. d\<lparr>mdTitle := v\<rparr>),
     r_field (ReadString P) (\<lambda>v d. d\<lparr>mdSubtitle := v\<rparr>),
     r_field (ReadString P) (\<lambda>v d. d\<lparr>mdDescription := v\<rparr>),
     r_field (ReadString P) (\<lambda>v d. d\<lparr>mdIconUri := v\<rparr>),
     r_field (ReadString P) (\<lambda>v d. d\<lparr>mdMediaType := v\<rparr>),
     r_field (ReadInt32 P) (\<lambda>v d. d\<lparr>mdMediaSize := v\<rparr>),
     r_field (ReadString P) (\<lambda>v d. d\<lparr>mdAlbumTitle := v\<rparr>),
     r_field (ReadString P) (\<lambda>v d. d\<lparr>mdAlbumCoverUri := v\<rparr>),
     r_field (ReadString P) (\<lambda>v d. d\<lparr>mdLyricContent := v\<rparr>),
     r_field (ReadString P) (\<lambda>v d. d\<lparr>mdLyricUri := v\<rparr>),
     r_field (ReadString P) (\<lambda>v d. d\<lparr>mdArtist := v\<rparr>),
     r_field (ReadString P) (\<lambda>v d. d\<lparr>mdMediaUri := v\<rparr>),
     fd_ReadFromParcel P,
     r_field (ReadInt32 P) (\<lambda>v d. d\<lparr>mdDuration := v\<rparr>),
     r_field (ReadInt32 P) (\<lambda>v d. d\<lparr>mdStartPosition := v\<rparr>),
     r_field (ReadInt32 P) (\<lambda>v d. d\<lparr>mdCreditsPosition := v\<rparr>),
     r_field (ReadString P) (\<lambda>v d. d\<lparr>mdAppName := v\<rparr>),
     r_field (ReadString P) (\<lambda>v d. d\<lparr>mdLaunchClientData := v\<rparr>),
     md_ReadExtras P,
     r_field (ReadString P) (\<lambda>v d. d\<lparr>mdDrmScheme := v\<rparr>),
     ds_ReadFromParcel P,
     r_field (ReadBool P) (\<lambda>v d. d\<lparr>mdPcmSrc := v\<rparr>)]"

definition md_Unmarshalling :: "('p, 'w) parcel_ops \<Rightarrow> 'p \<Rightarrow> 'w media_description option \<times> 'p" where
  "md_Unmarshalling P p = (case r_each (md_reads P) (new_media_description, p) of (d, p) \<Rightarrow>
     (case read_or 0 (ReadInt32 P) p of (iconSize, p) \<Rightarrow>
        if \<not> 0 < sint iconSize
        then (case ReadParcelable P (pm_Unmarshalling P) p of (icon, p) \<Rightarrow> (Some (d\<lparr>mdIcon := icon\<rparr>), p))
        else (case ReadRawData P (unat iconSize) p of
          (None, p) \<Rightarrow> (Some (d\<lparr>mdIcon := None\<rparr>), p)
        | (Some buffer, p) \<Rightarrow> (Some (d\<lparr>mdIcon := Some (pm_SetInnerImgBuffer buffer new_pixel_map)\<rparr>), p))))"

section \<open>An item in a parcel\<close>

text \<open>\<open>ReadDescription\<close> is \<^verbatim>\<open>ReadParcelable\<close> at the type of a description.\<close>

definition qi_Marshalling :: "('p, 'w) parcel_ops \<Rightarrow> 'w queue_item \<Rightarrow> 'p \<Rightarrow> bool \<times> 'p" where
  "qi_Marshalling P x = w_all [WriteInt32 P (qiItemId x), WriteParcelable P (map_option (md_Marshalling P) (qiDescription x))]"

definition qi_Unmarshalling :: "('p, 'w) parcel_ops \<Rightarrow> (('p \<Rightarrow> 'w media_description option \<times> 'p) \<Rightarrow> 'p \<Rightarrow> 'w media_description option \<times> 'p)
    \<Rightarrow> 'p \<Rightarrow> 'w queue_item option \<times> 'p" where
  "qi_Unmarshalling P ReadDescription p = (case ReadInt32 P p of
     (None, p) \<Rightarrow> (None, p)
   | (Some itemId, p) \<Rightarrow> (case ReadDescription (md_Unmarshalling P) p of
       (None, p) \<Rightarrow> (None, p)
     | (Some d, p) \<Rightarrow> (Some (new_queue_item\<lparr>qiItemId := itemId, qiDescription := Some d\<rparr>), p)))"

section \<open>What arrives\<close>

text \<open>The law of a reader of objects, as of \<^verbatim>\<open>ReadParcelable\<close>.\<close>

definition reads_parcelable :: "('p \<Rightarrow> 'w token list) \<Rightarrow> (('p \<Rightarrow> 'a option \<times> 'p) \<Rightarrow> 'p \<Rightarrow> 'a option \<times> 'p) \<Rightarrow> bool" where
  "reads_parcelable V rp \<longleftrightarrow>
     (\<forall>u p ts. V p = TMark False # ts \<longrightarrow> (\<exists>p'. rp u p = (None, p') \<and> V p' = ts)) \<and>
     (\<forall>u p ts. V p = TMark True # ts \<longrightarrow> (\<exists>p1. V p1 = ts \<and> rp u p = u p1))"

lemma writes_parcelable:
  assumes "fifo_parcel P V"
  shows "writes V m ts \<Longrightarrow> writes V (WriteParcelable P (Some m)) (TMark True # ts)"
    and "writes V (WriteParcelable P None) [TMark False]"
proof -
  show "writes V (WriteParcelable P None) [TMark False]"
    using fifo_parcelD(8) [OF assms] by (simp add: writes_def fifo_parcelable_def)
  assume m: "writes V m ts"
  show "writes V (WriteParcelable P (Some m)) (TMark True # ts)"
    unfolding writes_def
  proof (intro allI impI)
    fix p p' assume "WriteParcelable P (Some m) p = (True, p')"
    then obtain p1 where "V p1 = V p @ [TMark True]" "m p1 = (True, p')"
      using fifo_parcelD(8) [OF assms] unfolding fifo_parcelable_def by blast
    with writesD [OF m] show "V p' = V p @ TMark True # ts" by simp
  qed
qed

lemma reads_value_parcelable:
  assumes "reads_parcelable V rp"
  shows "reads_value V u ts v \<Longrightarrow> reads_value V (rp u) (TMark True # ts) v"
    and "reads_value V (rp u) [TMark False] None"
  using assms unfolding reads_value_def reads_parcelable_def by (metis append_Cons, metis append_Cons append_Nil)

definition md_arrives :: "'w media_description \<Rightarrow> 'w media_description" where
  "md_arrives d = d\<lparr>mdIcon := (if md_iconBuffer d = [] then None else Some (pm_SetInnerImgBuffer (md_iconBuffer d) new_pixel_map)),
     mdDataSrc := (mdDataSrc d)\<lparr>dsCallback := None\<rparr>, mdCastInfo := None\<rparr>"

definition qi_arrives :: "'w queue_item \<Rightarrow> 'w queue_item option" where
  "qi_arrives x = (case qiDescription x of None \<Rightarrow> None | Some d \<Rightarrow> Some (x\<lparr>qiDescription := Some (md_arrives d)\<rparr>))"

lemma qi_arrives_same:
  "qiDescription x = Some d \<Longrightarrow> mdIcon d = None \<Longrightarrow> dsCallback (mdDataSrc d) = None \<Longrightarrow> mdCastInfo d = None \<Longrightarrow> qi_arrives x = Some x"
  by (simp add: qi_arrives_def md_arrives_def md_iconBuffer_def)

text \<open>What arrived once arrives again as it is.\<close>

lemma md_arrives_again: "md_arrives (md_arrives d) = md_arrives d"
proof -
  have "md_iconBuffer (md_arrives d) = md_iconBuffer d"
    by (auto simp: md_arrives_def md_iconBuffer_def pm_SetInnerImgBuffer_def split: option.split)
  then show ?thesis by (simp add: md_arrives_def [of "md_arrives d"]) (simp add: md_arrives_def)
qed

lemma qi_arrives_again: "qi_arrives x = Some y \<Longrightarrow> qi_arrives y = Some y"
  by (auto simp: qi_arrives_def md_arrives_again split: option.splits)

definition md_core_tokens :: "'w media_description \<Rightarrow> 'w token list" where
  "md_core_tokens d = [TStr (mdMediaId d), TStr (mdTitle d), TStr (mdSubtitle d), TStr (mdDescription d), TStr (mdIconUri d),
     TStr (mdMediaType d), TI32 (mdMediaSize d), TStr (mdAlbumTitle d), TStr (mdAlbumCoverUri d), TStr (mdLyricContent d),
     TStr (mdLyricUri d), TStr (mdArtist d), TStr (mdMediaUri d), TI32 (fdFd (mdFdSrc d)), TI64 (fdOffset (mdFdSrc d)),
     TI64 (fdLength (mdFdSrc d)), TI32 (mdDuration d), TI32 (mdStartPosition d), TI32 (mdCreditsPosition d),
     TStr (mdAppName d), TStr (mdLaunchClientData d), TWant (mdExtras d), TStr (mdDrmScheme d),
     TI64 (dsFileSize (mdDataSrc d)), TBool (dsHasCallback (mdDataSrc d)), TBool (mdPcmSrc d)]"

definition md_icon_tokens :: "'w media_description \<Rightarrow> 'w token list" where
  "md_icon_tokens d = TI32 (of_nat (length (md_iconBuffer d)))
     # (if md_iconBuffer d = [] then [TMark False] else [TRaw (md_iconBuffer d)])"

definition qi_tokens :: "'w queue_item \<Rightarrow> 'w token list" where
  "qi_tokens x = TI32 (qiItemId x) # (case qiDescription x of None \<Rightarrow> [TMark False]
     | Some d \<Rightarrow> TMark True # md_core_tokens d @ md_icon_tokens d)"

lemma md_iconBuffer_size:
  "length (md_iconBuffer d) \<le> maxIconSize"
  "0 < sint (of_nat (length (md_iconBuffer d)) :: i32) \<longleftrightarrow> md_iconBuffer d \<noteq> []"
  "unat (of_nat (length (md_iconBuffer d)) :: i32) = length (md_iconBuffer d)"
proof -
  show len: "length (md_iconBuffer d) \<le> maxIconSize" by (simp add: md_iconBuffer_def split: option.split)
  then have "length (md_iconBuffer d) < 2 ^ 31" by (simp add: maxIconSize_def)
  from sint_of_nat_i32 [OF this] unat_of_nat_i32 [OF this]
  show "0 < sint (of_nat (length (md_iconBuffer d)) :: i32) \<longleftrightarrow> md_iconBuffer d \<noteq> []"
    "unat (of_nat (length (md_iconBuffer d)) :: i32) = length (md_iconBuffer d)" by simp_all
qed

lemma writes_md_core:
  assumes "fifo_parcel P V"
  shows "writes V (w_all (md_writes P d)) (md_core_tokens d)"
proof -
  have sources: "writes V (fd_WriteToParcel P fd) [TI32 (fdFd fd), TI64 (fdOffset fd), TI64 (fdLength fd)]"
    "writes V (ds_WriteToParcel P src) [TI64 (dsFileSize src), TBool (dsHasCallback src)]" for fd src
    unfolding fd_WriteToParcel_def ds_WriteToParcel_def by (intro writes_Cons1 writes_single writes_ops assms)+
  have "\<exists>ts. writes V (w_all (md_writes P d)) ts \<and> ts = md_core_tokens d"
    unfolding md_writes_def
    apply (rule exI, rule conjI)
     apply (rule writes_Cons writes_Nil writes_ops sources assms)+
    apply (simp add: md_core_tokens_def)
    done
  then show ?thesis by simp
qed

text \<open>The result of writing the null object is not looked at, so the parcel has to have room.\<close>

lemma writes_md:
  assumes "fifo_parcel P V" and "roomy P"
  shows "writes V (md_Marshalling P d) (md_core_tokens d @ md_icon_tokens d)"
  unfolding writes_def
proof (intro allI impI)
  fix p p' assume run: "md_Marshalling P d p = (True, p')"
  obtain res p1 where p1: "w_all (md_writes P d) p = (res, p1)" by fastforce
  obtain ok p2 where p2: "WriteInt32 P (of_nat (length (md_iconBuffer d))) p1 = (ok, p2)" by fastforce
  have "res" "ok" using run p1 p2 by (auto simp: md_Marshalling_def Let_def split: prod.splits if_splits)
  with p1 p2 writesD [OF writes_md_core [OF assms(1)]] writesD [OF writes_ops(1) [OF assms(1)]]
  have V: "V p2 = V p @ md_core_tokens d @ [TI32 (of_nat (length (md_iconBuffer d)))]" by fastforce
  show "V p' = V p @ md_core_tokens d @ md_icon_tokens d"
  proof (cases "md_iconBuffer d = []")
    case True
    obtain b p3 where p3: "WriteParcelable P None p2 = (b, p3)" by fastforce
    moreover have "fst (WriteParcelable P None p2)" using assms(2) by (simp add: roomy_def)
    ultimately have "WriteParcelable P None p2 = (True, p3)" by simp
    with writesD [OF writes_parcelable(2) [OF assms(1)]] have "V p3 = V p2 @ [TMark False]" by blast
    with True p3 run p1 p2 V show ?thesis by (auto simp: md_Marshalling_def md_icon_tokens_def)
  next
    case False
    then have big: "0 < sint (of_nat (length (md_iconBuffer d)) :: i32)" by (simp add: md_iconBuffer_size)
    with run p1 p2 have "WriteRawData P (md_iconBuffer d) p2 = (True, p')"
      by (auto simp: md_Marshalling_def Let_def split: prod.splits)
    with writesD [OF writes_ops(7) [OF assms(1)]] V False show ?thesis by (simp add: md_icon_tokens_def)
  qed
qed

lemma r_each_all: "r_all rs s = (True, s') \<Longrightarrow> r_each rs s = s'"
  by (induction rs arbitrary: s) (auto split: prod.splits if_splits)

text \<open>Reading the fields takes them over and keeps what does not cross.\<close>

definition md_fill :: "'w media_description \<Rightarrow> 'w media_description \<Rightarrow> 'w media_description" where
  "md_fill d obj = d\<lparr>mdIcon := mdIcon obj, mdCastInfo := mdCastInfo obj,
     mdDataSrc := (mdDataSrc d)\<lparr>dsCallback := dsCallback (mdDataSrc obj)\<rparr>\<rparr>"

lemma reads_md:
  assumes "fifo_parcel P V"
  shows "reads V (r_all (md_reads P)) (md_core_tokens d) (md_fill d)"
proof -
  have extras: "reads V (md_ReadExtras P) [TWant w] (\<lambda>d. d\<lparr>mdExtras := w\<rparr>)" for w
    using reads_ops(8) [OF assms] by (fastforce simp: reads_def reads_value_def md_ReadExtras_def)
  have "\<exists>ts f. reads V (r_all (md_reads P)) ts f \<and> ts = md_core_tokens d \<and> f = md_fill d"
    unfolding md_reads_def fd_ReadFromParcel_def ds_ReadFromParcel_def
    apply (rule exI, rule exI, rule conjI)
     apply (rule reads_Cons reads_Nil extras reads_field reads_ops assms)+
    apply (rule conjI)
     apply (simp add: md_core_tokens_def)
    apply (rule ext)
    subgoal for obj by (cases d; cases obj) (simp add: md_fill_def)
    done
  then show ?thesis by auto
qed

lemma md_fill_new: "(md_fill d new_media_description)\<lparr>mdIcon := x\<rparr>
    = d\<lparr>mdIcon := x, mdDataSrc := (mdDataSrc d)\<lparr>dsCallback := None\<rparr>, mdCastInfo := None\<rparr>"
  by (simp add: md_fill_def new_media_description_def)

lemma reads_value_md:
  assumes "fifo_parcel P V"
  shows "reads_value V (md_Unmarshalling P) (md_core_tokens d @ md_icon_tokens d) (Some (md_arrives d))"
  unfolding reads_value_def
proof (intro allI impI)
  fix p us assume "V p = (md_core_tokens d @ md_icon_tokens d) @ us"
  then have "V p = md_core_tokens d @ md_icon_tokens d @ us" by simp
  from readsD [OF reads_md [OF assms] this, of new_media_description] obtain p1
    where p1: "r_each (md_reads P) (new_media_description, p) = (md_fill d new_media_description, p1)" "V p1 = md_icon_tokens d @ us"
    using r_each_all by blast
  let ?size = "of_nat (length (md_iconBuffer d)) :: i32"
    and ?rest = "if md_iconBuffer d = [] then [TMark False] else [TRaw (md_iconBuffer d)]"
  have "V p1 = [TI32 ?size] @ ?rest @ us" using p1(2) by (simp add: md_icon_tokens_def)
  from reads_valueD [OF read_or_token [OF reads_ops(1) [OF assms]] this] obtain p2
    where p2: "read_or 0 (ReadInt32 P) p1 = (?size, p2)" "V p2 = ?rest @ us" by blast
  show "\<exists>p'. md_Unmarshalling P p = (Some (md_arrives d), p') \<and> V p' = us"
  proof (cases "md_iconBuffer d = []")
    case True
    then have "V p2 = pm_tokens None @ us" using p2(2) by simp
    from reads_valueD [OF reads_pixel_map [OF assms] this] obtain p3
      where "ReadParcelable P (pm_Unmarshalling P) p2 = (None, p3)" "V p3 = us" by auto
    with True p1(1) p2(1) show ?thesis
      by (simp add: md_Unmarshalling_def md_arrives_def md_fill_new)
  next
    case False
    then have "V p2 = [TRaw (md_iconBuffer d)] @ us" using p2(2) by simp
    from reads_valueD [OF reads_ops(7) [OF assms] this] obtain p3
      where "ReadRawData P (length (md_iconBuffer d)) p2 = (Some (md_iconBuffer d), p3)" "V p3 = us" by blast
    with False p1(1) p2(1) show ?thesis
      by (simp add: md_Unmarshalling_def md_arrives_def md_fill_new md_iconBuffer_size)
  qed
qed

section \<open>An item crosses\<close>

lemma writes_qi:
  assumes "fifo_parcel P V" and "roomy P"
  shows "writes V (qi_Marshalling P x) (qi_tokens x)"
  unfolding qi_Marshalling_def qi_tokens_def
  by (cases "qiDescription x")
    (use writes_parcelable [OF assms(1)] writes_md [OF assms] in
      \<open>auto intro!: writes_Cons1 writes_single writes_ops assms(1)\<close>)

lemma reads_value_qi:
  assumes "fifo_parcel P V" and "reads_parcelable V rd"
  shows "reads_value V (qi_Unmarshalling P rd) (qi_tokens x) (qi_arrives x)"
  unfolding reads_value_def
proof (intro allI impI)
  fix p us assume V: "V p = qi_tokens x @ us"
  let ?ts = "case qiDescription x of None \<Rightarrow> [TMark False] | Some d \<Rightarrow> TMark True # md_core_tokens d @ md_icon_tokens d"
  have "V p = [TI32 (qiItemId x)] @ ?ts @ us" using V by (simp add: qi_tokens_def)
  from reads_valueD [OF reads_ops(1) [OF assms(1)] this] obtain p1
    where p1: "ReadInt32 P p = (Some (qiItemId x), p1)" "V p1 = ?ts @ us" by blast
  have "reads_value V (rd (md_Unmarshalling P)) ?ts (map_option md_arrives (qiDescription x))"
    using reads_value_parcelable [OF assms(2)] reads_value_md [OF assms(1)] by (cases "qiDescription x") auto
  from reads_valueD [OF this p1(2)] obtain p2
    where "rd (md_Unmarshalling P) p1 = (map_option md_arrives (qiDescription x), p2)" "V p2 = us" by blast
  with p1(1) show "\<exists>p'. qi_Unmarshalling P rd p = (qi_arrives x, p') \<and> V p' = us"
    by (cases "qiDescription x") (simp_all add: qi_Unmarshalling_def qi_arrives_def new_queue_item_def)
qed

lemma roomy_md:
  assumes "roomy P"
  shows "fst (md_Marshalling P d p)"
proof -
  have "fst (fd_WriteToParcel P fd q)" "fst (ds_WriteToParcel P src q)" for fd src q
    unfolding fd_WriteToParcel_def ds_WriteToParcel_def by (rule w_all_succeeds; auto simp: roomy_ops [OF assms])+
  then have "fst (w_all (md_writes P d) p)"
    by (intro w_all_succeeds) (auto simp: md_writes_def roomy_ops [OF assms])
  moreover have "fst (WriteInt32 P i q)" "fst (WriteRawData P b q)" for i b q by (rule roomy_ops [OF assms])+
  ultimately show ?thesis
    by (cases "w_all (md_writes P d) p")
      (simp add: md_Marshalling_def Let_def split: prod.split, metis fst_conv)
qed

lemma roomy_qi: "roomy P \<Longrightarrow> fst (qi_Marshalling P x p)"
  unfolding qi_Marshalling_def
  by (rule w_all_succeeds) (cases "qiDescription x"; auto simp: roomy_ops roomy_md; auto simp: roomy_def roomy_md)

end
