(* ===== verification/Ipc.thy ===== *)
theory Ipc
  imports PlaybackProps ControlProps SessionCommands QueueItem
begin

text \<open>
  Calls between processes. A proxy in the client writes an interface token and the arguments into a
  \<^verbatim>\<open>MessageParcel\<close>, sends it with \<^verbatim>\<open>SendRequest\<close>, and reads the reply; the stub in the service reads the
  arguments, calls the object and writes the reply. The parcel is a parameter (\<open>ipc_ops\<close>), with the
  laws \<open>fifo_ipc\<close> of a first-in first-out channel. This theory has what all stubs and proxies
  share. \<open>'p\<close> is a parcel, \<open>'w\<close> a \<^verbatim>\<open>WantParams\<close>, \<open>'s\<close> the state of the service.
\<close>

section \<open>The parcel of a message\<close>

text \<open>The readers of objects take the unmarshalling function of the object's class.\<close>

record ('p, 'w) ipc_ops =
  ipParcel :: "('p, 'w) parcel_ops"
  ipEmpty :: 'p
  WriteInterfaceToken :: "string \<Rightarrow> 'p \<Rightarrow> bool \<times> 'p"
  ReadInterfaceToken :: "'p \<Rightarrow> string option \<times> 'p"
  WriteInt32Vector :: "i32 list \<Rightarrow> 'p \<Rightarrow> bool \<times> 'p"
  ReadInt32Vector :: "'p \<Rightarrow> i32 list option \<times> 'p"
  WriteDoubleVector :: "dbl list \<Rightarrow> 'p \<Rightarrow> bool \<times> 'p"
  ReadDoubleVector :: "'p \<Rightarrow> dbl list option \<times> 'p"
  WriteRemoteObject :: "nat \<Rightarrow> 'p \<Rightarrow> bool \<times> 'p"
  ReadRemoteObject :: "'p \<Rightarrow> nat option \<times> 'p"
  ReadQueueItem :: "('p \<Rightarrow> 'w queue_item option \<times> 'p) \<Rightarrow> 'p \<Rightarrow> 'w queue_item option \<times> 'p"
  ReadDescription :: "('p \<Rightarrow> 'w media_description option \<times> 'p) \<Rightarrow> 'p \<Rightarrow> 'w media_description option \<times> 'p"
  WriteKey :: "key_code \<Rightarrow> 'p \<Rightarrow> bool \<times> 'p"
  ReadKey :: "'p \<Rightarrow> key_code option \<times> 'p"
  ReadCommand :: "('p \<Rightarrow> control_command option \<times> 'p) \<Rightarrow> 'p \<Rightarrow> control_command option \<times> 'p"
  ReadState :: "('p \<Rightarrow> 'w playback_state option \<times> 'p) \<Rightarrow> 'p \<Rightarrow> 'w playback_state option \<times> 'p"

abbreviation w_i32 :: "('p, 'w) ipc_ops \<Rightarrow> int \<Rightarrow> 'p \<Rightarrow> bool \<times> 'p" where
  "w_i32 I n \<equiv> WriteInt32 (ipParcel I) (word_of_int n)"

text \<open>\<open>K\<close> is the token of a key event, whose class belongs to the input service.\<close>

definition fifo_ipc :: "('p, 'w) ipc_ops \<Rightarrow> ('p \<Rightarrow> 'w token list) \<Rightarrow> (key_code \<Rightarrow> 'w token) \<Rightarrow> bool" where
  "fifo_ipc I V K \<longleftrightarrow> fifo_parcel (ipParcel I) V \<and> V (ipEmpty I) = [] \<and>
     fifo_op V (WriteInterfaceToken I) (ReadInterfaceToken I) TName \<and>
     fifo_op V (WriteInt32Vector I) (ReadInt32Vector I) TInts \<and>
     fifo_op V (WriteDoubleVector I) (ReadDoubleVector I) TDbls \<and>
     fifo_op V (WriteRemoteObject I) (ReadRemoteObject I) TObj \<and>
     fifo_op V (WriteKey I) (ReadKey I) K \<and> reads_parcelable V (ReadQueueItem I) \<and> reads_parcelable V (ReadDescription I) \<and>
     reads_parcelable V (ReadCommand I) \<and> reads_parcelable V (ReadState I)"

definition roomy_ipc :: "('p, 'w) ipc_ops \<Rightarrow> bool" where
  "roomy_ipc I \<longleftrightarrow> roomy (ipParcel I) \<and> (\<forall>v p. fst (WriteInterfaceToken I v p)) \<and> (\<forall>v p. fst (WriteInt32Vector I v p))
     \<and> (\<forall>v p. fst (WriteDoubleVector I v p)) \<and> (\<forall>v p. fst (WriteRemoteObject I v p))
     \<and> (\<forall>v p. fst (WriteKey I v p))"

lemma fifo_ipcD:
  assumes "fifo_ipc I V K"
  shows "fifo_parcel (ipParcel I) V" and "V (ipEmpty I) = []"
    and "fifo_op V (WriteInterfaceToken I) (ReadInterfaceToken I) TName"
    and "fifo_op V (WriteInt32Vector I) (ReadInt32Vector I) TInts"
    and "fifo_op V (WriteDoubleVector I) (ReadDoubleVector I) TDbls"
    and "fifo_op V (WriteRemoteObject I) (ReadRemoteObject I) TObj"
    and "reads_parcelable V (ReadQueueItem I)" and "fifo_op V (WriteKey I) (ReadKey I) K"
    and "reads_parcelable V (ReadCommand I)" and "reads_parcelable V (ReadState I)" and "reads_parcelable V (ReadDescription I)"
  using assms unfolding fifo_ipc_def by simp_all

section \<open>The client's side\<close>

text \<open>
  \<open>remote\<close> sends a request: the code and the parcel give the result of \<^verbatim>\<open>SendRequest\<close> and the reply;
  it is \<open>None\<close> when the remote object is gone, and its value is \<open>None\<close> when the service throws.
  \<open>px_send\<close> is what every method of a proxy does up to the reply; \<open>gone\<close> is the result for an
  object that is destroyed.
\<close>

type_synonym ('p, 's) remote = "nat \<Rightarrow> 'p \<Rightarrow> 's \<Rightarrow> (int \<times> 'p \<times> 's) option"

definition px_send :: "('p, 'w) ipc_ops \<Rightarrow> string \<Rightarrow> int \<Rightarrow> bool \<Rightarrow> ('p, 's) remote option \<Rightarrow> nat
    \<Rightarrow> ('p \<Rightarrow> bool \<times> 'p) list \<Rightarrow> 's \<Rightarrow> ((int + 'p) \<times> 's) option" where
  "px_send I desc gone destroyed remote code ws s =
     (if destroyed then Some (Inl gone, s)
      else case w_all (WriteInterfaceToken I desc # ws) (ipEmpty I) of (ok, data) \<Rightarrow>
        if \<not> ok then Some (Inl ERR_MARSHALLING, s)
        else case remote of
          None \<Rightarrow> Some (Inl ERR_SERVICE_NOT_EXIST, s)
        | Some send \<Rightarrow> (case send code data s of
            None \<Rightarrow> None
          | Some (r, reply, s) \<Rightarrow> Some (if r \<noteq> 0 then Inl ERR_IPC_SEND_REQUEST else Inr reply, s)))"

text \<open>\<^verbatim>\<open>reply.ReadInt32(ret) ? ret : AVSESSION_ERROR\<close>, and the reading of an out parameter.\<close>

definition px_ret :: "('p, 'w) ipc_ops \<Rightarrow> int \<Rightarrow> int + 'p \<Rightarrow> int" where
  "px_ret I bad x = (case x of Inl e \<Rightarrow> e | Inr reply \<Rightarrow>
     (case ReadInt32 (ipParcel I) reply of (Some r, _) \<Rightarrow> sint r | (None, _) \<Rightarrow> bad))"

definition px_value :: "('p, 'w) ipc_ops \<Rightarrow> ('p \<Rightarrow> 'v option \<times> 'p) \<Rightarrow> int + 'p \<Rightarrow> int + 'v" where
  "px_value I rd x = (case x of Inl e \<Rightarrow> Inl e | Inr reply \<Rightarrow>
     (case ReadInt32 (ipParcel I) reply of
        (None, _) \<Rightarrow> Inl ERR_UNMARSHALLING
      | (Some r, p) \<Rightarrow>
          if sint r \<noteq> AVSESSION_SUCCESS then Inl (sint r)
          else (case rd p of (Some v, _) \<Rightarrow> Inr v | (None, _) \<Rightarrow> Inl ERR_UNMARSHALLING)))"

definition px_call :: "((int + 'p) \<Rightarrow> 'r) \<Rightarrow> ((int + 'p) \<times> 's) option \<Rightarrow> ('r \<times> 's) option" where
  "px_call f x = map_option (\<lambda>(y, s). (f y, s)) x"

section \<open>The service's side\<close>

text \<open>A handler gets the parcel after the token and gives its result and the reply.\<close>

type_synonym ('p, 's) handler = "'p \<Rightarrow> 's \<Rightarrow> (int \<times> 'p \<times> 's) option"

definition ERR_NONE :: int where "ERR_NONE = 0"

definition st_reply :: "('p, 'w) ipc_ops \<Rightarrow> ('p \<Rightarrow> bool \<times> 'p) list \<Rightarrow> 'p" where
  "st_reply I ws = snd (w_all ws (ipEmpty I))"

text \<open>A result code, and the result of a getter with its out parameter.\<close>

definition st_ret :: "('p, 'w) ipc_ops \<Rightarrow> int \<times> 's \<Rightarrow> (int \<times> 'p \<times> 's) option" where
  "st_ret I x = (case x of (r, s) \<Rightarrow> Some (ERR_NONE, st_reply I [w_i32 I r], s))"

definition st_value :: "('p, 'w) ipc_ops \<Rightarrow> ('v \<Rightarrow> 'p \<Rightarrow> bool \<times> 'p) \<Rightarrow> (int + 'v) \<times> 's \<Rightarrow> (int \<times> 'p \<times> 's) option" where
  "st_value I wr x = (case x of
     (Inl e, s) \<Rightarrow> Some (ERR_NONE, st_reply I [w_i32 I e], s)
   | (Inr v, s) \<Rightarrow> Some (ERR_NONE, st_reply I [w_i32 I AVSESSION_SUCCESS, wr v], s))"

text \<open>
  \<^verbatim>\<open>OnRemoteRequest\<close>: \<open>isLocal\<close> is \<^verbatim>\<open>IPCSkeleton::IsLocalCalling\<close>, \<open>rest\<close> the handling of the codes
  outside the table, by \<^verbatim>\<open>IPCObjectStub\<close> or by handlers that are not part of this model.
\<close>

definition OnRemoteRequest :: "('p, 'w) ipc_ops \<Rightarrow> string \<Rightarrow> bool \<Rightarrow> (nat \<times> ('p, 's) handler) list
    \<Rightarrow> ('p, 's) remote \<Rightarrow> ('p, 's) remote" where
  "OnRemoteRequest I desc isLocal handlers rest code data s =
     (if \<not> isLocal then Some (AVSESSION_ERROR, ipEmpty I, s)
      else case ReadInterfaceToken I data of (token, data) \<Rightarrow>
        if token \<noteq> Some desc then Some (AVSESSION_ERROR, ipEmpty I, s)
        else case map_of handlers code of Some h \<Rightarrow> h data s | None \<Rightarrow> rest code data s)"

text \<open>A queue item is written and read as an object; a queue is the number of its items and the items.\<close>

definition WriteItem :: "('p, 'w) ipc_ops \<Rightarrow> 'w queue_item \<Rightarrow> 'p \<Rightarrow> bool \<times> 'p" where
  "WriteItem I x = WriteParcelable (ipParcel I) (Some (qi_Marshalling (ipParcel I) x))"

definition ReadItem :: "('p, 'w) ipc_ops \<Rightarrow> 'p \<Rightarrow> 'w queue_item option \<times> 'p" where
  "ReadItem I = ReadQueueItem I (qi_Unmarshalling (ipParcel I) (ReadDescription I))"

definition w_items :: "('p, 'w) ipc_ops \<Rightarrow> 'w queue_item list \<Rightarrow> 'p \<Rightarrow> bool \<times> 'p" where
  "w_items I xs = w_all (w_i32 I (int (length xs)) # map (WriteItem I) xs)"

text \<open>The handlers for the lyric check every write.\<close>

definition st_checked :: "('p, 'w) ipc_ops \<Rightarrow> ('p \<Rightarrow> bool \<times> 'p) list \<Rightarrow> int \<Rightarrow> 's \<Rightarrow> (int \<times> 'p \<times> 's) option" where
  "st_checked I ws r s = (case w_all ws (ipEmpty I) of (ok, reply) \<Rightarrow> Some (if ok then r else ERR_MARSHALLING, reply, s))"

definition st_lyric :: "('p, 'w) ipc_ops \<Rightarrow> int + bool \<Rightarrow> 's \<Rightarrow> (int \<times> 'p \<times> 's) option" where
  "st_lyric I x s = (case x of
     Inl e \<Rightarrow> st_checked I [w_i32 I e] ERR_NONE s
   | Inr b \<Rightarrow> st_checked I [w_i32 I AVSESSION_SUCCESS, WriteBool (ipParcel I) b] ERR_NONE s)"

text \<open>\<^verbatim>\<open>data.ReadString()\<close> gives the empty string when nothing can be read.\<close>

definition read_string :: "('p, 'w) ipc_ops \<Rightarrow> 'p \<Rightarrow> string \<times> 'p" where
  "read_string I data = read_or [] (ReadString (ipParcel I)) data"

text \<open>The loop over the items, after their number was read and checked.\<close>

fun r_items :: "('p, 'w) ipc_ops \<Rightarrow> nat \<Rightarrow> 'p \<Rightarrow> 'w queue_item list option \<times> 'p" where
  "r_items I 0 p = (Some [], p)"
| "r_items I (Suc n) p = (case ReadItem I p of
     (None, p) \<Rightarrow> (None, p)
   | (Some x, p) \<Rightarrow> (case r_items I n p of (xs, p) \<Rightarrow> (map_option (Cons x) xs, p)))"

definition read_items :: "('p, 'w) ipc_ops \<Rightarrow> int \<Rightarrow> 'p \<Rightarrow> 'w queue_item list option \<times> 'p" where
  "read_items I bound p = (case read_or 0 (ReadInt32 (ipParcel I)) p of (itemNum, p) \<Rightarrow>
     if 0 \<le> sint itemNum \<and> sint itemNum < bound then r_items I (nat (sint itemNum)) p else (None, p))"

end
