(* ===== verification/MediaCenterControl.thy ===== *)
theory MediaCenterControl
  imports Prelude
begin

text \<open>
  The control types of the media center (\<^verbatim>\<open>avmedia_center_control_type.h\<close>): numbers on the wire, names
  for applications. The two hash maps are lists here; each key occurs once.
\<close>

definition mediaCenterTypeToStr :: "(i32 \<times> string) list" where
  "mediaCenterTypeToStr = [(0, ''playNext''), (1, ''playPrevious''), (2, ''fastForward''), (3, ''rewind''), (4, ''setSpeed''),
     (5, ''setLoopMode''), (6, ''toggleFavorite''), (7, ''play''), (8, ''pause'')]"

definition mediaCenterTypeToNum :: "(string \<times> i32) list" where
  "mediaCenterTypeToNum = [(''playNext'', 0), (''playPrevious'', 1), (''fastForward'', 2), (''rewind'', 3), (''setSpeed'', 4),
     (''setLoopMode'', 5), (''toggleFavorite'', 6), (''play'', 7), (''pause'', 8)]"

definition MediaCenterTypesToNums :: "string list \<Rightarrow> i32 list" where
  "MediaCenterTypesToNums types = List.map_filter (map_of mediaCenterTypeToNum) types"

definition MediaCenterTypesToStrs :: "i32 list \<Rightarrow> string list" where
  "MediaCenterTypesToStrs nums = List.map_filter (map_of mediaCenterTypeToStr) nums"

definition IsValidMediaCenterControlTypeStr :: "string \<Rightarrow> bool" where
  "IsValidMediaCenterControlTypeStr type \<longleftrightarrow> map_of mediaCenterTypeToNum type \<noteq> None"

definition IsValidMediaCenterControlTypeNum :: "i32 \<Rightarrow> bool" where
  "IsValidMediaCenterControlTypeNum num \<longleftrightarrow> map_of mediaCenterTypeToStr num \<noteq> None"

text \<open>The maps are inverse to each other.\<close>

lemma mediaCenter_inverse:
  "map_of mediaCenterTypeToStr n = Some t \<longleftrightarrow> map_of mediaCenterTypeToNum t = Some n"
  by (auto simp: mediaCenterTypeToStr_def mediaCenterTypeToNum_def split: if_splits)

lemma mediaCenter_round_trip:
  assumes "list_all IsValidMediaCenterControlTypeNum nums"
  shows "MediaCenterTypesToNums (MediaCenterTypesToStrs nums) = nums"
  using assms
proof (induction nums)
  case (Cons n nums)
  then obtain t where "map_of mediaCenterTypeToStr n = Some t" by (auto simp: IsValidMediaCenterControlTypeNum_def)
  with Cons mediaCenter_inverse [THEN iffD1, OF this] show ?case
    by (simp add: MediaCenterTypesToNums_def MediaCenterTypesToStrs_def map_filter_simps)
qed (simp add: MediaCenterTypesToNums_def MediaCenterTypesToStrs_def map_filter_simps)

text \<open>Only names that are known get a number, and every number that comes out is valid.\<close>

lemma mediaCenter_nums_valid: "list_all IsValidMediaCenterControlTypeNum (MediaCenterTypesToNums types)"
proof (induction types)
  case (Cons t types)
  then show ?case
    using mediaCenter_inverse [of _ t]
    by (auto simp: MediaCenterTypesToNums_def map_filter_simps IsValidMediaCenterControlTypeNum_def split: option.splits)
qed (simp add: MediaCenterTypesToNums_def map_filter_simps)

end
