(* ===== verification/SessionIpc.thy ===== *)
theory SessionIpc
  imports Ipc MediaCenterControl
begin

text \<open>
  The stub of a session in the service (\<^verbatim>\<open>avsession_stub.cpp\<close>). Behind it is the session of
  \<open>SessionUpdate\<close>; its state is \<open>sess_data\<close>. Not modelled: metadata, extras, the launch ability, call
  data and the queue information, whose codes go to \<open>rest\<close>. The codes are those of a build without
  the cast engine.
\<close>

section \<open>The session behind the stub\<close>

text \<open>
  What the environment says about a call: equality of parameters, the custom data's type check, whether the
  lyric ability starts, and what the service makes of the session when it is told to destroy it.
\<close>

record 'w sess_env =
  seWeq :: "'w \<Rightarrow> 'w \<Rightarrow> bool"
  seCustomData :: "'w \<Rightarrow> string option"
  seStartOk :: bool
  seDestroyed :: "('w, 'w queue_item) sess_data \<Rightarrow> ('w, 'w queue_item) sess_data"

definition sd_Destroy :: "'w sess_env \<Rightarrow> ('w, 'w queue_item) sess_data \<Rightarrow> int \<times> ('w, 'w queue_item) sess_data" where
  "sd_Destroy e sd = (AVSESSION_SUCCESS, if siDestroyed (sdCore sd) then sd else seDestroyed e sd)"

definition sd_SetDesktopLyricVisible :: "'w sess_env \<Rightarrow> bool \<Rightarrow> ('w, 'w queue_item) sess_data \<Rightarrow> int \<times> ('w, 'w queue_item) sess_data" where
  "sd_SetDesktopLyricVisible e isVisible sd = sd_SetDesktopLyricVisibleInner (seStartOk e) isVisible (siBundle (sdCore sd)) sd"

definition sd_SetDesktopLyricState :: "bool \<Rightarrow> ('w, 'w queue_item) sess_data \<Rightarrow> int \<times> ('w, 'w queue_item) sess_data" where
  "sd_SetDesktopLyricState isLocked sd = sd_SetDesktopLyricStateInner isLocked (siBundle (sdCore sd)) sd"

text \<open>The controller of the session's own process, which is made if there is none. A controller is known by
  its process.\<close>

definition sd_GetControllerInner :: "('w, 'w queue_item) sess_data \<Rightarrow> int \<times> ('w, 'w queue_item) sess_data" where
  "sd_GetControllerInner sd = (siPid (sdCore sd), sd\<lparr>sdControllers :=
     cmap_insert (siPid (sdCore sd)) (new_ctrl_data\<lparr>cdFromSession := True\<rparr>) (sdControllers sd)\<rparr>)"

section \<open>The handlers\<close>

text \<open>Several handlers write the result of the call and also return it as the result of the request.\<close>

definition st_result :: "('p, 'w) ipc_ops \<Rightarrow> int \<times> 's \<Rightarrow> (int \<times> 'p \<times> 's) option" where
  "st_result I x = (case x of (r, s) \<Rightarrow> case w_all [w_i32 I r] (ipEmpty I) of (ok, reply) \<Rightarrow>
     Some (if ok \<and> r \<noteq> AVSESSION_SUCCESS then r else ERR_NONE, reply, s))"

definition sst_GetSessionId :: "('p, 'w) ipc_ops \<Rightarrow> ('p, ('w, 'w queue_item) sess_data) handler" where
  "sst_GetSessionId I data sd = Some (ERR_NONE, st_reply I [WriteString (ipParcel I) (siSessionId (sdCore sd))], sd)"

definition sst_GetSessionType :: "('p, 'w) ipc_ops \<Rightarrow> ('p, ('w, 'w queue_item) sess_data) handler" where
  "sst_GetSessionType I data sd = Some (ERR_NONE, st_reply I [WriteString (ipParcel I) (si_GetSessionType (sdCore sd))], sd)"

definition sst_RegisterCallbackInner :: "('p, 'w) ipc_ops \<Rightarrow> ('p, ('w, 'w queue_item) sess_data) handler" where
  "sst_RegisterCallbackInner I data sd = (case ReadRemoteObject I data of
     (None, _) \<Rightarrow> st_ret I (ERR_UNMARSHALLING, sd)
   | (Some remoteObject, _) \<Rightarrow> st_ret I (sd_RegisterCallbackInner True sd))"

text \<open>The reply says success whatever the call returned.\<close>

definition sst_Destroy :: "('p, 'w) ipc_ops \<Rightarrow> 'w sess_env \<Rightarrow> ('p, ('w, 'w queue_item) sess_data) handler" where
  "sst_Destroy I e data sd = (case sd_Destroy e sd of (ret, sd) \<Rightarrow>
     case w_all [w_i32 I AVSESSION_SUCCESS] (ipEmpty I) of (ok, reply) \<Rightarrow>
       Some (if ok \<and> ret \<noteq> AVSESSION_SUCCESS then ret else ERR_NONE, reply, sd))"

definition sst_GetAVPlaybackState :: "('p, 'w) ipc_ops \<Rightarrow> ('p, ('w, 'w queue_item) sess_data) handler" where
  "sst_GetAVPlaybackState I data sd =
     st_value I (\<lambda>state. WriteParcelable (ipParcel I) (Some (ps_Marshalling (ipParcel I) state))) (Inr (sdPlayback sd), sd)"

definition sst_SetAVPlaybackState :: "('p, 'w) ipc_ops \<Rightarrow> 'w sess_env \<Rightarrow> ('p, ('w, 'w queue_item) sess_data) handler" where
  "sst_SetAVPlaybackState I e data sd = (case ReadState I (ps_Unmarshalling (ipParcel I)) data of
     (None, _) \<Rightarrow> st_ret I (ERR_UNMARSHALLING, sd)
   | (Some state, _) \<Rightarrow> st_result I (sd_SetAVPlaybackState (seWeq e) state sd))"

definition sst_GetAVQueueItems :: "('p, 'w) ipc_ops \<Rightarrow> ('p, ('w, 'w queue_item) sess_data) handler" where
  "sst_GetAVQueueItems I data sd = st_value I (w_items I) (Inr (sdQueueItems sd), sd)"

definition maxQueueItemLength :: int where "maxQueueItemLength = 1000"

definition sst_SetAVQueueItems :: "('p, 'w) ipc_ops \<Rightarrow> ('p, ('w, 'w queue_item) sess_data) handler" where
  "sst_SetAVQueueItems I data sd = (case read_items I maxQueueItemLength data of
     (None, _) \<Rightarrow> Some (ERR_UNMARSHALLING, ipEmpty I, sd)
   | (Some xs, _) \<Rightarrow> st_result I (sd_SetAVQueueItems xs sd))"

definition sst_GetAVQueueTitle :: "('p, 'w) ipc_ops \<Rightarrow> ('p, ('w, 'w queue_item) sess_data) handler" where
  "sst_GetAVQueueTitle I data sd = st_value I (WriteString (ipParcel I)) (Inr (sdQueueTitle sd), sd)"

definition sst_SetAVQueueTitle :: "('p, 'w) ipc_ops \<Rightarrow> ('p, ('w, 'w queue_item) sess_data) handler" where
  "sst_SetAVQueueTitle I data sd = (case ReadString (ipParcel I) data of
     (None, _) \<Rightarrow> Some (ERR_NONE, ipEmpty I, sd)
   | (Some t, _) \<Rightarrow> st_result I (sd_SetAVQueueTitle t sd))"

definition sst_SendCustomData :: "('p, 'w) ipc_ops \<Rightarrow> 'w sess_env \<Rightarrow> ('p, ('w, 'w queue_item) sess_data) handler" where
  "sst_SendCustomData I e data sd = (case ReadWantParams (ipParcel I) data of
     (None, _) \<Rightarrow> st_ret I (ERR_UNMARSHALLING, sd)
   | (Some customData, _) \<Rightarrow> st_ret I (sd_SendCustomData (seCustomData e) customData sd))"

definition maxArrSize :: nat where "maxArrSize = 100"

definition sst_SetMediaCenterControlType :: "('p, 'w) ipc_ops \<Rightarrow> ('p, ('w, 'w queue_item) sess_data) handler" where
  "sst_SetMediaCenterControlType I data sd = (case ReadInt32Vector I data of
     (None, _) \<Rightarrow> st_ret I (ERR_UNMARSHALLING, sd)
   | (Some controlTypes, _) \<Rightarrow> if length controlTypes > maxArrSize then st_ret I (ERR_INVALID_PARAM, sd)
       else st_ret I (sd_SetMediaCenterControlType controlTypes sd))"

definition sst_SetSupportedPlaySpeeds :: "('p, 'w) ipc_ops \<Rightarrow> ('p, ('w, 'w queue_item) sess_data) handler" where
  "sst_SetSupportedPlaySpeeds I data sd = (case ReadDoubleVector I data of
     (None, _) \<Rightarrow> st_ret I (ERR_UNMARSHALLING, sd)
   | (Some speeds, _) \<Rightarrow> if length speeds > maxArrSize then st_ret I (ERR_INVALID_PARAM, sd)
       else st_ret I (sd_SetSupportedPlaySpeeds speeds sd))"

definition sst_SetSupportedLoopModes :: "('p, 'w) ipc_ops \<Rightarrow> ('p, ('w, 'w queue_item) sess_data) handler" where
  "sst_SetSupportedLoopModes I data sd = (case ReadInt32Vector I data of
     (None, _) \<Rightarrow> st_ret I (ERR_UNMARSHALLING, sd)
   | (Some loopModes, _) \<Rightarrow> if length loopModes > maxArrSize then st_ret I (ERR_INVALID_PARAM, sd)
       else st_ret I (sd_SetSupportedLoopModes loopModes sd))"

definition sst_GetController :: "('p, 'w) ipc_ops \<Rightarrow> ('p, ('w, 'w queue_item) sess_data) handler" where
  "sst_GetController I data sd = (case sd_GetControllerInner sd of (controller, sd) \<Rightarrow>
     st_value I (WriteRemoteObject I) (Inr (nat controller), sd))"

definition sst_Activate :: "('p, 'w) ipc_ops \<Rightarrow> ('p, ('w, 'w queue_item) sess_data) handler" where
  "sst_Activate I data sd = st_ret I (sd_Activate sd)"

definition sst_Deactivate :: "('p, 'w) ipc_ops \<Rightarrow> ('p, ('w, 'w queue_item) sess_data) handler" where
  "sst_Deactivate I data sd = st_ret I (sd_Deactivate sd)"

definition sst_IsActive :: "('p, 'w) ipc_ops \<Rightarrow> ('p, ('w, 'w queue_item) sess_data) handler" where
  "sst_IsActive I data sd = Some (ERR_NONE, st_reply I [WriteBool (ipParcel I) (si_IsActive (sdCore sd))], sd)"

definition sst_AddSupportCommand :: "('p, 'w) ipc_ops \<Rightarrow> ('p, ('w, 'w queue_item) sess_data) handler" where
  "sst_AddSupportCommand I data sd = st_ret I (sd_AddSupportCommand (fst (read_or 0 (ReadInt32 (ipParcel I)) data)) sd)"

definition sst_DeleteSupportCommand :: "('p, 'w) ipc_ops \<Rightarrow> ('p, ('w, 'w queue_item) sess_data) handler" where
  "sst_DeleteSupportCommand I data sd = st_ret I (sd_DeleteSupportCommand (fst (read_or 0 (ReadInt32 (ipParcel I)) data)) sd)"

definition sst_SetSessionEvent :: "('p, 'w) ipc_ops \<Rightarrow> ('p, ('w, 'w queue_item) sess_data) handler" where
  "sst_SetSessionEvent I data sd = (case read_string I data of (event, data) \<Rightarrow>
     (case ReadWantParams (ipParcel I) data of
        (None, _) \<Rightarrow> st_ret I (ERR_UNMARSHALLING, sd)
      | (Some want, _) \<Rightarrow> st_ret I (sd_SetSessionEvent event want sd)))"

definition sst_EnableDesktopLyric :: "('p, 'w) ipc_ops \<Rightarrow> ('p, ('w, 'w queue_item) sess_data) handler" where
  "sst_EnableDesktopLyric I data sd = (case ReadBool (ipParcel I) data of
     (None, _) \<Rightarrow> Some (ERR_UNMARSHALLING, ipEmpty I, sd)
   | (Some isEnable, _) \<Rightarrow> (case sd_EnableDesktopLyric isEnable sd of (ret, sd) \<Rightarrow> st_checked I [w_i32 I ret] ERR_NONE sd))"

definition sst_SetDesktopLyricVisible :: "('p, 'w) ipc_ops \<Rightarrow> 'w sess_env \<Rightarrow> ('p, ('w, 'w queue_item) sess_data) handler" where
  "sst_SetDesktopLyricVisible I e data sd = (case ReadBool (ipParcel I) data of
     (None, _) \<Rightarrow> Some (ERR_UNMARSHALLING, ipEmpty I, sd)
   | (Some isVisible, _) \<Rightarrow> (case sd_SetDesktopLyricVisible e isVisible sd of (ret, sd) \<Rightarrow> st_checked I [w_i32 I ret] ERR_NONE sd))"

definition sst_IsDesktopLyricVisible :: "('p, 'w) ipc_ops \<Rightarrow> ('p, ('w, 'w queue_item) sess_data) handler" where
  "sst_IsDesktopLyricVisible I data sd = st_lyric I (sd_IsDesktopLyricVisible sd) sd"

definition sst_SetDesktopLyricState :: "('p, 'w) ipc_ops \<Rightarrow> ('p, ('w, 'w queue_item) sess_data) handler" where
  "sst_SetDesktopLyricState I data sd = (case ReadBool (ipParcel I) data of
     (None, _) \<Rightarrow> Some (ERR_UNMARSHALLING, ipEmpty I, sd)
   | (Some isLocked, _) \<Rightarrow> (case sd_SetDesktopLyricState isLocked sd of (ret, sd) \<Rightarrow> st_checked I [w_i32 I ret] ERR_NONE sd))"

definition sst_GetDesktopLyricState :: "('p, 'w) ipc_ops \<Rightarrow> ('p, ('w, 'w queue_item) sess_data) handler" where
  "sst_GetDesktopLyricState I data sd = st_lyric I (sd_GetDesktopLyricState sd) sd"

abbreviation (input) ENABLE_BACKGROUND_PLAY :: int where "ENABLE_BACKGROUND_PLAY \<equiv> 0"
abbreviation (input) DISABLE_BACKGROUND_PLAY :: int where "DISABLE_BACKGROUND_PLAY \<equiv> 1"

definition sst_SetBackgroundPlayMode :: "('p, 'w) ipc_ops \<Rightarrow> ('p, ('w, 'w queue_item) sess_data) handler" where
  "sst_SetBackgroundPlayMode I data sd = (let playMode = sint (fst (read_or 0 (ReadInt32 (ipParcel I)) data)) in
     if \<not> (playMode \<ge> ENABLE_BACKGROUND_PLAY \<and> playMode \<le> DISABLE_BACKGROUND_PLAY) then Some (ERR_UNMARSHALLING, ipEmpty I, sd)
     else (case sd_SetBackgroundPlayMode playMode sd of (ret, sd) \<Rightarrow> st_checked I [w_i32 I ret] ERR_NONE sd))"

text \<open>The request codes are the numbers of the enumeration in \<^verbatim>\<open>iav_session.h\<close>.\<close>

definition sess_handlers :: "('p, 'w) ipc_ops \<Rightarrow> 'w sess_env \<Rightarrow> (nat \<times> ('p, ('w, 'w queue_item) sess_data) handler) list" where
  "sess_handlers I e = [
     (0, sst_GetSessionId I), (1, sst_GetSessionType I), (4, sst_GetAVPlaybackState I), (5, sst_SetAVPlaybackState I e),
     (6, sst_GetAVQueueItems I), (7, sst_SetAVQueueItems I), (8, sst_GetAVQueueTitle I), (9, sst_SetAVQueueTitle I),
     (13, sst_GetController I), (25, sst_SendCustomData I e), (26, sst_SetMediaCenterControlType I),
     (27, sst_SetSupportedPlaySpeeds I), (28, sst_SetSupportedLoopModes I), (14, sst_RegisterCallbackInner I),
     (15, sst_Activate I), (16, sst_Deactivate I), (17, sst_IsActive I), (18, sst_Destroy I e),
     (19, sst_AddSupportCommand I), (20, sst_DeleteSupportCommand I), (21, sst_SetSessionEvent I),
     (29, sst_EnableDesktopLyric I), (30, sst_SetDesktopLyricVisible I e), (31, sst_IsDesktopLyricVisible I),
     (32, sst_SetDesktopLyricState I), (33, sst_GetDesktopLyricState I), (34, sst_SetBackgroundPlayMode I)]"

definition sessionDescriptor :: string where "sessionDescriptor = ''ohos.avsession.IAVSession''"

definition sess_stub :: "('p, 'w) ipc_ops \<Rightarrow> bool \<Rightarrow> 'w sess_env \<Rightarrow> ('p, ('w, 'w queue_item) sess_data) remote
    \<Rightarrow> ('p, ('w, 'w queue_item) sess_data) remote" where
  "sess_stub I isLocal e rest = OnRemoteRequest I sessionDescriptor isLocal (sess_handlers I e) rest"

end
