(* ===== verification/SessionProxy.thy ===== *)
theory SessionProxy
  imports SessionIpc
begin

text \<open>
  The proxy of a session in its application (\<^verbatim>\<open>avsession_proxy.cpp\<close>), one definition for each method. A
  controller that it keeps is a pair of the object and the answer of its \<^verbatim>\<open>IsDestroy\<close>.
\<close>

record sess_proxy =
  spDestroyed :: bool
  spController :: "(nat \<times> bool) option"

definition new_sess_proxy :: sess_proxy where
  "new_sess_proxy = \<lparr>spDestroyed = False, spController = None\<rparr>"

definition spx_send :: "('p, 'w) ipc_ops \<Rightarrow> sess_proxy \<Rightarrow> ('p, 's) remote option \<Rightarrow> nat \<Rightarrow> ('p \<Rightarrow> bool \<times> 'p) list
    \<Rightarrow> 's \<Rightarrow> ((int + 'p) \<times> 's) option" where
  "spx_send I px remote code ws s = px_send I sessionDescriptor ERR_SESSION_NOT_EXIST (spDestroyed px) remote code ws s"

definition spx_ret :: "('p, 'w) ipc_ops \<Rightarrow> sess_proxy \<Rightarrow> ('p, 's) remote option \<Rightarrow> nat \<Rightarrow> ('p \<Rightarrow> bool \<times> 'p) list
    \<Rightarrow> 's \<Rightarrow> (int \<times> 's) option" where
  "spx_ret I px remote code ws s = px_call (px_ret I AVSESSION_ERROR) (spx_send I px remote code ws s)"

definition spx_get :: "('p, 'w) ipc_ops \<Rightarrow> sess_proxy \<Rightarrow> ('p, 's) remote option \<Rightarrow> nat
    \<Rightarrow> ('p \<Rightarrow> 'v option \<times> 'p) \<Rightarrow> 's \<Rightarrow> ((int + 'v) \<times> 's) option" where
  "spx_get I px remote code rd s = px_call (px_value I rd) (spx_send I px remote code [] s)"

section \<open>Identity, callback, end\<close>

definition spx_string :: "('p, 'w) ipc_ops \<Rightarrow> int + 'p \<Rightarrow> string" where
  "spx_string I x = (case x of Inl _ \<Rightarrow> [] | Inr reply \<Rightarrow> fst (read_or [] (ReadString (ipParcel I)) reply))"

definition spx_GetSessionId :: "('p, 'w) ipc_ops \<Rightarrow> sess_proxy \<Rightarrow> ('p, 's) remote option \<Rightarrow> 's \<Rightarrow> (string \<times> 's) option" where
  "spx_GetSessionId I px remote s = px_call (spx_string I) (spx_send I px remote 0 [] s)"

definition spx_GetSessionType :: "('p, 'w) ipc_ops \<Rightarrow> sess_proxy \<Rightarrow> ('p, 's) remote option \<Rightarrow> 's \<Rightarrow> (string \<times> 's) option" where
  "spx_GetSessionType I px remote s = px_call (spx_string I) (spx_send I px remote 1 [] s)"

definition spx_RegisterCallbackInner :: "('p, 'w) ipc_ops \<Rightarrow> ('p, 's) remote option \<Rightarrow> nat \<Rightarrow> 's \<Rightarrow> (int \<times> 's) option" where
  "spx_RegisterCallbackInner I remote callback s =
     px_call (px_ret I AVSESSION_ERROR)
       (px_send I sessionDescriptor ERR_SESSION_NOT_EXIST False remote 14 [WriteRemoteObject I callback] s)"

text \<open>\<open>callback\<close>: the object for the application's callback, \<open>None\<close> when it passes a null pointer.\<close>

definition spx_RegisterCallback :: "('p, 'w) ipc_ops \<Rightarrow> sess_proxy \<Rightarrow> ('p, 's) remote option \<Rightarrow> nat option \<Rightarrow> 's \<Rightarrow> (int \<times> 's) option" where
  "spx_RegisterCallback I px remote callback s =
     (if spDestroyed px then Some (ERR_SESSION_NOT_EXIST, s)
      else case callback of
        None \<Rightarrow> Some (ERR_INVALID_PARAM, s)
      | Some cb \<Rightarrow> map_option (\<lambda>(r, s). (if r \<noteq> AVSESSION_SUCCESS then AVSESSION_ERROR else AVSESSION_SUCCESS, s))
          (spx_RegisterCallbackInner I remote cb s))"

definition spx_Destroy :: "('p, 'w) ipc_ops \<Rightarrow> sess_proxy \<Rightarrow> ('p, 's) remote option \<Rightarrow> 's \<Rightarrow> (int \<times> sess_proxy \<times> 's) option" where
  "spx_Destroy I px remote s = map_option (\<lambda>(r, s).
       (r, if r = AVSESSION_SUCCESS then px\<lparr>spDestroyed := True, spController := None\<rparr> else px, s))
     (spx_ret I px remote 18 [] s)"

section \<open>Data\<close>

definition spx_SetAVPlaybackState :: "('p, 'w) ipc_ops \<Rightarrow> sess_proxy \<Rightarrow> ('p, 's) remote option \<Rightarrow> 'w playback_state \<Rightarrow> 's
    \<Rightarrow> (int \<times> 's) option" where
  "spx_SetAVPlaybackState I px remote state s =
     (if \<not> ps_IsValid state then Some (ERR_INVALID_PARAM, s)
      else spx_ret I px remote 5 [WriteParcelable (ipParcel I) (Some (ps_Marshalling (ipParcel I) state))] s)"

definition spx_GetAVPlaybackState :: "('p, 'w) ipc_ops \<Rightarrow> sess_proxy \<Rightarrow> ('p, 's) remote option \<Rightarrow> 's
    \<Rightarrow> ((int + 'w playback_state) \<times> 's) option" where
  "spx_GetAVPlaybackState I px remote s = spx_get I px remote 4 (ReadState I (ps_Unmarshalling (ipParcel I))) s"

definition spx_SetAVQueueItems :: "('p, 'w) ipc_ops \<Rightarrow> sess_proxy \<Rightarrow> ('p, 's) remote option \<Rightarrow> 'w queue_item list \<Rightarrow> 's \<Rightarrow> (int \<times> 's) option" where
  "spx_SetAVQueueItems I px remote xs s = spx_ret I px remote 7 [w_items I xs] s"

definition maxQueueItems :: int where "maxQueueItems = 1000"

definition spx_GetAVQueueItems :: "('p, 'w) ipc_ops \<Rightarrow> sess_proxy \<Rightarrow> ('p, 's) remote option \<Rightarrow> 's \<Rightarrow> ((int + 'w queue_item list) \<times> 's) option" where
  "spx_GetAVQueueItems I px remote s = spx_get I px remote 6 (read_items I maxQueueItems) s"

definition spx_SetAVQueueTitle :: "('p, 'w) ipc_ops \<Rightarrow> sess_proxy \<Rightarrow> ('p, 's) remote option \<Rightarrow> string \<Rightarrow> 's \<Rightarrow> (int \<times> 's) option" where
  "spx_SetAVQueueTitle I px remote t s = spx_ret I px remote 9 [WriteString (ipParcel I) t] s"

definition spx_GetAVQueueTitle :: "('p, 'w) ipc_ops \<Rightarrow> sess_proxy \<Rightarrow> ('p, 's) remote option \<Rightarrow> 's \<Rightarrow> ((int + string) \<times> 's) option" where
  "spx_GetAVQueueTitle I px remote s = spx_get I px remote 8 (ReadString (ipParcel I)) s"

definition spx_SendCustomData :: "('p, 'w) ipc_ops \<Rightarrow> sess_proxy \<Rightarrow> ('p, 's) remote option \<Rightarrow> 'w \<Rightarrow> 's \<Rightarrow> (int \<times> 's) option" where
  "spx_SendCustomData I px remote customData s = spx_ret I px remote 25 [WriteWantParams (ipParcel I) (Some customData)] s"

definition spx_SetMediaCenterControlType :: "('p, 'w) ipc_ops \<Rightarrow> sess_proxy \<Rightarrow> ('p, 's) remote option \<Rightarrow> i32 list \<Rightarrow> 's
    \<Rightarrow> (int \<times> 's) option" where
  "spx_SetMediaCenterControlType I px remote controlTypes s =
     (if spDestroyed px then Some (ERR_SESSION_NOT_EXIST, s)
      else if \<not> list_all IsValidMediaCenterControlTypeNum controlTypes then Some (ERR_INVALID_PARAM, s)
      else spx_ret I px remote 26 [WriteInt32Vector I controlTypes] s)"

definition spx_SetSupportedPlaySpeeds :: "('p, 'w) ipc_ops \<Rightarrow> sess_proxy \<Rightarrow> ('p, 's) remote option \<Rightarrow> dbl list \<Rightarrow> 's
    \<Rightarrow> (int \<times> 's) option" where
  "spx_SetSupportedPlaySpeeds I px remote speeds s = spx_ret I px remote 27 [WriteDoubleVector I speeds] s"

definition spx_SetSupportedLoopModes :: "('p, 'w) ipc_ops \<Rightarrow> sess_proxy \<Rightarrow> ('p, 's) remote option \<Rightarrow> i32 list \<Rightarrow> 's
    \<Rightarrow> (int \<times> 's) option" where
  "spx_SetSupportedLoopModes I px remote loopModes s =
     (if spDestroyed px then Some (ERR_SESSION_NOT_EXIST, s)
      else if \<not> list_all ps_IsValidLoopMode loopModes then Some (ERR_INVALID_PARAM, s)
      else spx_ret I px remote 28 [WriteInt32Vector I loopModes] s)"

definition spx_SetSessionEvent :: "('p, 'w) ipc_ops \<Rightarrow> sess_proxy \<Rightarrow> ('p, 's) remote option \<Rightarrow> string \<Rightarrow> 'w \<Rightarrow> 's
    \<Rightarrow> (int \<times> 's) option" where
  "spx_SetSessionEvent I px remote event args s =
     spx_ret I px remote 21 [WriteString (ipParcel I) event, WriteWantParams (ipParcel I) (Some args)] s"

section \<open>The controller of the session\<close>

definition spx_GetControllerInner :: "('p, 'w) ipc_ops \<Rightarrow> sess_proxy \<Rightarrow> ('p, 's) remote option \<Rightarrow> 's \<Rightarrow> (nat option \<times> 's) option" where
  "spx_GetControllerInner I px remote s =
     map_option (\<lambda>(x, s). (case x of Inr controller \<Rightarrow> Some controller | Inl _ \<Rightarrow> None, s))
       (spx_get I px remote 13 (ReadRemoteObject I) s)"

text \<open>A new proxy of a controller is not destroyed.\<close>

definition spx_GetController :: "('p, 'w) ipc_ops \<Rightarrow> sess_proxy \<Rightarrow> ('p, 's) remote option \<Rightarrow> 's
    \<Rightarrow> (nat option \<times> sess_proxy \<times> 's) option" where
  "spx_GetController I px remote s =
     (if spDestroyed px then Some (None, px, s)
      else case spController px of
        Some (controller, False) \<Rightarrow> Some (Some controller, px, s)
      | _ \<Rightarrow> map_option (\<lambda>(object, s). case object of
            None \<Rightarrow> (None, px, s)
          | Some controller \<Rightarrow> (Some controller, px\<lparr>spController := Some (controller, False)\<rparr>, s))
          (spx_GetControllerInner I px remote s))"

section \<open>Activity and commands\<close>

definition spx_Activate :: "('p, 'w) ipc_ops \<Rightarrow> sess_proxy \<Rightarrow> ('p, 's) remote option \<Rightarrow> 's \<Rightarrow> (int \<times> 's) option" where
  "spx_Activate I px remote s = spx_ret I px remote 15 [] s"

definition spx_Deactivate :: "('p, 'w) ipc_ops \<Rightarrow> sess_proxy \<Rightarrow> ('p, 's) remote option \<Rightarrow> 's \<Rightarrow> (int \<times> 's) option" where
  "spx_Deactivate I px remote s = spx_ret I px remote 16 [] s"

text \<open>The method is a \<^verbatim>\<open>bool\<close>, so that an error code is true unless it is zero.\<close>

definition spx_IsActive :: "('p, 'w) ipc_ops \<Rightarrow> sess_proxy \<Rightarrow> ('p, 's) remote option \<Rightarrow> 's \<Rightarrow> (bool \<times> 's) option" where
  "spx_IsActive I px remote s = px_call (\<lambda>x. case x of Inl code \<Rightarrow> code \<noteq> 0
     | Inr reply \<Rightarrow> fst (read_or False (ReadBool (ipParcel I)) reply)) (spx_send I px remote 17 [] s)"

definition spx_AddSupportCommand :: "('p, 'w) ipc_ops \<Rightarrow> sess_proxy \<Rightarrow> ('p, 's) remote option \<Rightarrow> i32 \<Rightarrow> 's \<Rightarrow> (int \<times> 's) option" where
  "spx_AddSupportCommand I px remote cmd s =
     (if spDestroyed px then Some (ERR_SESSION_NOT_EXIST, s)
      else if \<not> sint cmd > -1 then Some (AVSESSION_ERROR, s)
      else if \<not> sint cmd < SESSION_CMD_MAX then Some (AVSESSION_ERROR, s)
      else spx_ret I px remote 19 [WriteInt32 (ipParcel I) cmd] s)"

definition spx_DeleteSupportCommand :: "('p, 'w) ipc_ops \<Rightarrow> sess_proxy \<Rightarrow> ('p, 's) remote option \<Rightarrow> i32 \<Rightarrow> 's \<Rightarrow> (int \<times> 's) option" where
  "spx_DeleteSupportCommand I px remote cmd s =
     (if spDestroyed px then Some (ERR_SESSION_NOT_EXIST, s)
      else if \<not> sint cmd > -1 then Some (AVSESSION_ERROR, s)
      else if \<not> sint cmd < SESSION_CMD_MAX then Some (AVSESSION_ERROR, s)
      else spx_ret I px remote 20 [WriteInt32 (ipParcel I) cmd] s)"

section \<open>Desktop lyric, background play\<close>

definition spx_lyric_ret :: "('p, 'w) ipc_ops \<Rightarrow> sess_proxy \<Rightarrow> ('p, 's) remote option \<Rightarrow> nat \<Rightarrow> ('p \<Rightarrow> bool \<times> 'p) list
    \<Rightarrow> 's \<Rightarrow> (int \<times> 's) option" where
  "spx_lyric_ret I px remote code ws s = px_call (px_ret I ERR_UNMARSHALLING) (spx_send I px remote code ws s)"

definition spx_EnableDesktopLyric :: "('p, 'w) ipc_ops \<Rightarrow> sess_proxy \<Rightarrow> ('p, 's) remote option \<Rightarrow> bool \<Rightarrow> 's \<Rightarrow> (int \<times> 's) option" where
  "spx_EnableDesktopLyric I px remote isEnabled s = spx_lyric_ret I px remote 29 [WriteBool (ipParcel I) isEnabled] s"

definition spx_SetDesktopLyricVisible :: "('p, 'w) ipc_ops \<Rightarrow> sess_proxy \<Rightarrow> ('p, 's) remote option \<Rightarrow> bool \<Rightarrow> 's \<Rightarrow> (int \<times> 's) option" where
  "spx_SetDesktopLyricVisible I px remote isVisible s = spx_lyric_ret I px remote 30 [WriteBool (ipParcel I) isVisible] s"

definition spx_IsDesktopLyricVisible :: "('p, 'w) ipc_ops \<Rightarrow> sess_proxy \<Rightarrow> ('p, 's) remote option \<Rightarrow> 's \<Rightarrow> ((int + bool) \<times> 's) option" where
  "spx_IsDesktopLyricVisible I px remote s = spx_get I px remote 31 (ReadBool (ipParcel I)) s"

definition spx_SetDesktopLyricState :: "('p, 'w) ipc_ops \<Rightarrow> sess_proxy \<Rightarrow> ('p, 's) remote option \<Rightarrow> bool \<Rightarrow> 's \<Rightarrow> (int \<times> 's) option" where
  "spx_SetDesktopLyricState I px remote isLocked s = spx_lyric_ret I px remote 32 [WriteBool (ipParcel I) isLocked] s"

definition spx_GetDesktopLyricState :: "('p, 'w) ipc_ops \<Rightarrow> sess_proxy \<Rightarrow> ('p, 's) remote option \<Rightarrow> 's \<Rightarrow> ((int + bool) \<times> 's) option" where
  "spx_GetDesktopLyricState I px remote s = spx_get I px remote 33 (ReadBool (ipParcel I)) s"

definition spx_SetBackgroundPlayMode :: "('p, 'w) ipc_ops \<Rightarrow> sess_proxy \<Rightarrow> ('p, 's) remote option \<Rightarrow> i32 \<Rightarrow> 's \<Rightarrow> (int \<times> 's) option" where
  "spx_SetBackgroundPlayMode I px remote mode s = spx_lyric_ret I px remote 34 [WriteInt32 (ipParcel I) mode] s"

end
