(* ===== verification/IpcServed.thy ===== *)
theory IpcServed
  imports Ipc
begin

text \<open>
  What holds of a request and its reply over a parcel that keeps the laws and has room: the handler gets
  what the proxy wrote, and the proxy reads what the handler wrote. The last section has the two
  shapes of a method, with a result code and with a value, for any table of handlers.
\<close>

section \<open>A message arrives as it was sent\<close>

text \<open>A result code survives the 32 bits of the wire.\<close>

definition code_ok :: "int \<Rightarrow> bool" where
  "code_ok r \<longleftrightarrow> -(2 ^ 31) \<le> r \<and> r < 2 ^ 31"

lemma code_ok_sint [simp]: "code_ok r \<Longrightarrow> sint (word_of_int r :: i32) = r"
  by (simp add: code_ok_def signed_of_int signed_take_bit_int_eq_self)

lemma code_ok_codes [simp]:
  "code_ok AVSESSION_SUCCESS" "code_ok AVSESSION_ERROR" "code_ok ERR_INVALID_PARAM" "code_ok ERR_SESSION_NOT_EXIST"
  "code_ok ERR_COMMAND_NOT_SUPPORT" "code_ok ERR_COMMAND_SEND_EXCEED_MAX" "code_ok ERR_UNMARSHALLING"
  "code_ok ERR_DESKTOPLYRIC_NOT_SUPPORT" "code_ok ERR_DESKTOPLYRIC_NOT_ENABLE"
  by (simp_all add: code_ok_def error_code_defs)

text \<open>The writes \<open>ws\<close> never fail and leave the tokens \<open>ts\<close>.\<close>

definition sends :: "('p \<Rightarrow> 'w token list) \<Rightarrow> ('p \<Rightarrow> bool \<times> 'p) list \<Rightarrow> 'w token list \<Rightarrow> bool" where
  "sends V ws ts \<longleftrightarrow> writes V (w_all ws) ts \<and> (\<forall>p. fst (w_all ws p))"

lemma sends_Nil: "sends V [] []"
  by (simp add: sends_def writes_def)

lemma w_all_Cons_fst: "fst (w p) \<Longrightarrow> (\<And>p. fst (w_all ws p)) \<Longrightarrow> fst (w_all (w # ws) p)"
  by (cases "w p") simp

lemma sends_Cons_list:
  assumes "writes V w us" and "\<And>p. fst (w p)" and "sends V ws ts"
  shows "sends V (w # ws) (us @ ts)"
  using writes_Cons [OF assms(1), of ws ts] w_all_Cons_fst [of w _ ws] assms(2,3) unfolding sends_def by blast

lemma sends_Cons: "writes V w [t] \<Longrightarrow> (\<And>p. fst (w p)) \<Longrightarrow> sends V ws ts \<Longrightarrow> sends V (w # ws) (t # ts)"
  using sends_Cons_list [of V w "[t]" ws ts] by simp

lemma sendsD:
  assumes "sends V ws ts"
  shows "\<exists>p'. w_all ws p = (True, p') \<and> V p' = V p @ ts"
proof -
  obtain ok p' where p: "w_all ws p = (ok, p')" by (cases "w_all ws p")
  have "fst (w_all ws p)" using assms unfolding sends_def by blast
  with p have "w_all ws p = (True, p')" by simp
  with writesD [of V "w_all ws" ts] assms show ?thesis unfolding sends_def by blast
qed

lemma st_reply_view: "sends V ws ts \<Longrightarrow> V (ipEmpty I) = [] \<Longrightarrow> V (st_reply I ws) = ts"
  using sendsD [of V ws ts "ipEmpty I"] by (auto simp: st_reply_def)

lemma reads_some: "reads_value V rd ts v \<Longrightarrow> V p = ts @ us \<Longrightarrow> \<exists>p'. rd p = (v, p') \<and> V p' = us"
  by (rule reads_valueD)

text \<open>The request, with the token, reaches the handler of its code.\<close>

lemma px_send_served:
  assumes "fifo_ipc I V K" and "roomy_ipc I" and "sends V ws ts" and "map_of handlers code = Some h"
  shows "\<exists>data. V data = ts \<and> px_send I desc gone False (Some (OnRemoteRequest I desc True handlers rest)) code ws s
    = map_option (\<lambda>(r, reply, s). (if r \<noteq> 0 then Inl ERR_IPC_SEND_REQUEST else Inr reply, s)) (h data s)"
proof -
  note F = fifo_ipcD [OF assms(1)]
  have "sends V (WriteInterfaceToken I desc # ws) (TName desc # ts)"
    by (rule sends_Cons [OF fifo_opD(1) [OF F(3)] _ assms(3)]) (use assms(2) in \<open>simp add: roomy_ipc_def\<close>)
  then obtain data0 where d0: "w_all (WriteInterfaceToken I desc # ws) (ipEmpty I) = (True, data0)" "V data0 = [TName desc] @ ts"
    using sendsD [of V _ _ "ipEmpty I"] F(2) by fastforce
  obtain data where d: "ReadInterfaceToken I data0 = (Some desc, data)" "V data = ts"
    using reads_valueD [OF fifo_opD(2) [OF F(3)] d0(2)] by blast
  have "OnRemoteRequest I desc True handlers rest code data0 s = h data s"
    using d(1) assms(4) by (simp add: OnRemoteRequest_def)
  with d0(1) d(2) show ?thesis
    unfolding px_send_def by (intro exI [of _ data]) (simp add: map_option_case split: option.splits)
qed

text \<open>What the proxy reads of a reply.\<close>

lemma px_ret_reply:
  assumes "fifo_ipc I V K" and "roomy_ipc I" and "code_ok r"
  shows "px_ret I bad (Inr (st_reply I [w_i32 I r])) = r"
proof -
  note F = fifo_ipcD [OF assms(1)]
  have "sends V [w_i32 I r] [TI32 (word_of_int r)]"
    by (intro sends_Cons sends_Nil writes_ops(1) F roomy_ops(1)) (use assms(2) in \<open>simp add: roomy_ipc_def\<close>)
  from st_reply_view [OF this F(2)] have "V (st_reply I [w_i32 I r]) = [TI32 (word_of_int r)] @ []" by simp
  from reads_valueD [OF reads_ops(1) [OF F(1)] this] assms(3) show ?thesis by (auto simp: px_ret_def)
qed

lemma px_value_reply:
  assumes "fifo_ipc I V K" and "roomy_ipc I"
  shows "code_ok e \<Longrightarrow> e \<noteq> AVSESSION_SUCCESS \<Longrightarrow> px_value I rd (Inr (st_reply I [w_i32 I e])) = Inl e"
    and "writes V (wr v) us \<Longrightarrow> (\<And>p. fst (wr v p)) \<Longrightarrow> reads_value V rd us (Some v')
      \<Longrightarrow> px_value I rd (Inr (st_reply I [w_i32 I AVSESSION_SUCCESS, wr v])) = Inr v'"
proof -
  note F = fifo_ipcD [OF assms(1)]
  have room: "fst (w_i32 I n p)" for n p using assms(2) by (simp add: roomy_ipc_def roomy_ops(1))
  have w: "writes V (w_i32 I n) [TI32 (word_of_int n)]" for n by (rule writes_ops(1) [OF F(1)])
  {
    assume e: "code_ok e" "e \<noteq> AVSESSION_SUCCESS"
    have "sends V [w_i32 I e] [TI32 (word_of_int e)]" by (intro sends_Cons sends_Nil w room)
    from st_reply_view [OF this F(2)] have "V (st_reply I [w_i32 I e]) = [TI32 (word_of_int e)] @ []" by simp
    from reads_valueD [OF reads_ops(1) [OF F(1)] this] e
    show "px_value I rd (Inr (st_reply I [w_i32 I e])) = Inl e" by (auto simp: px_value_def)
  }
  {
    assume v: "writes V (wr v) us" "\<And>p. fst (wr v p)" "reads_value V rd us (Some v')"
    have "sends V [w_i32 I AVSESSION_SUCCESS, wr v] (TI32 (word_of_int AVSESSION_SUCCESS) # us @ [])"
      by (intro sends_Cons sends_Cons_list sends_Nil w room v)
    from st_reply_view [OF this F(2)]
    have "V (st_reply I [w_i32 I AVSESSION_SUCCESS, wr v]) = [TI32 (word_of_int AVSESSION_SUCCESS)] @ us" by simp
    from reads_valueD [OF reads_ops(1) [OF F(1)] this] obtain p
      where p: "ReadInt32 (ipParcel I) (st_reply I [w_i32 I AVSESSION_SUCCESS, wr v]) = (Some (word_of_int AVSESSION_SUCCESS), p)"
        "V p = us @ []" by auto
    from reads_valueD [OF v(3) p(2)] p(1)
    show "px_value I rd (Inr (st_reply I [w_i32 I AVSESSION_SUCCESS, wr v])) = Inr v'" by (auto simp: px_value_def)
  }
qed

lemma op_crosses:
  "fifo_op V wr rd T \<Longrightarrow> (\<And>v p. fst (wr v p)) \<Longrightarrow> \<exists>us. writes V (wr v) us \<and> (\<forall>p. fst (wr v p)) \<and> reads_value V rd us (Some v)"
  using fifo_opD(1,2) by metis

lemma roomy_ipc_ops:
  assumes "roomy_ipc I"
  shows "fst (WriteInt32Vector I v p)" "fst (WriteDoubleVector I d p)" "fst (WriteString (ipParcel I) t p)"
    "fst (WriteBool (ipParcel I) b p)" "fst (WriteInt32 (ipParcel I) i p)" "fst (WriteKey I k p)"
    "fst (WriteWantParams (ipParcel I) w p)" "fst (WriteRemoteObject I n p)" "roomy (ipParcel I)"
  using assms roomy_ops [of "ipParcel I"] unfolding roomy_ipc_def by simp_all

lemma roomy_parcelable: "roomy P \<Longrightarrow> (\<And>q. fst (m q)) \<Longrightarrow> fst (WriteParcelable P (Some m) p)"
  unfolding roomy_def by simp

lemma st_checked_roomy:
  assumes "roomy_ipc I"
  shows "st_checked I [w_i32 I r] ERR_NONE s = st_ret I (r, s)"
    and "st_checked I [w_i32 I r] r s = Some (r, st_reply I [w_i32 I r], s)"
    and "st_lyric I x s = st_value I (WriteBool (ipParcel I)) (x, s)"
proof -
  have ok: "fst (w_all ws p)" if "ws = [w_i32 I r] \<or> ws = [w_i32 I r, WriteBool (ipParcel I) b]" for ws r b p
    using that by (intro w_all_succeeds) (auto simp: roomy_ipc_ops(4,5) [OF assms])
  have C: "st_checked I ws r' s' = Some (r', st_reply I ws, s')"
    if "ws = [w_i32 I r] \<or> ws = [w_i32 I r, WriteBool (ipParcel I) b]" for ws r b r' and s' :: 'c
    using ok [OF that, of "ipEmpty I"] by (cases "w_all ws (ipEmpty I)") (simp add: st_checked_def st_reply_def)
  show "st_checked I [w_i32 I r] ERR_NONE s = st_ret I (r, s)" "st_checked I [w_i32 I r] r s = Some (r, st_reply I [w_i32 I r], s)"
    using C by (simp_all add: st_ret_def)
  show "st_lyric I x s = st_value I (WriteBool (ipParcel I)) (x, s)"
    using C by (cases x) (simp_all add: st_lyric_def st_value_def)
qed

lemma read_one: "reads_value V rd [t] v \<Longrightarrow> V p = [t] \<Longrightarrow> \<exists>p'. rd p = (v, p')"
  using reads_valueD [of V rd "[t]" v p "[]"] by auto

section \<open>Objects in a parcel\<close>

lemma reads_value_ps:
  assumes "fifo_parcel P V" and "PLAYBACK_STATE_INITIAL \<le> sint (psState s)" and "sint (psState s) < PLAYBACK_STATE_MAX"
  shows "reads_value V (ps_Unmarshalling P) (TStr (bitset_to_string (psMask s)) # ps_core_tokens s @ [TWant (psExtras s)]) (Some s)"
  unfolding reads_value_def
proof (intro allI impI)
  fix p us assume "V p = (TStr (bitset_to_string (psMask s)) # ps_core_tokens s @ [TWant (psExtras s)]) @ us"
  from ps_read_tokens [OF assms(1) this] assms(2,3)
  show "\<exists>p'. ps_Unmarshalling P p = (Some s, p') \<and> V p' = us" by auto
qed

lemma cc_accepts_typed: "cc_accepts cmd par \<Longrightarrow> cc_typed cmd par"
  by (cases cmd rule: cmd_cases) (auto simp: cc_accepts_def cc_typed_def split: cmd_param.splits)

lemma cc_Marshalling_all: "cc_Marshalling P c = w_all (WriteInt32 P (cc_cmd c) # cc_param_writes P c)"
  by (rule ext) (simp add: cc_Marshalling_def split: prod.splits)

lemma writes_cc:
  assumes "fifo_parcel P V"
  shows "writes V (cc_Marshalling P c) (TI32 (cc_cmd c) # cc_tokens c)"
  using writes_Cons1 [OF writes_ops(1) [OF assms] writes_cc_params [OF assms]] by (simp only: cc_Marshalling_all)

lemma roomy_cc:
  assumes "roomy P" and "cc_typed (cc_cmd c) (cc_param c)"
  shows "fst (cc_Marshalling P c p)"
proof -
  have info: "fst (ci_Marshalling P i q)" for i q
    unfolding ci_Marshalling_def by (rule w_all_succeeds) (auto simp: roomy_ops [OF assms(1)])
  have "fst (w q)" if "w \<in> set (cc_param_writes P c)" for w q
    using that assms(2) info roomy_ops [OF assms(1)]
    by (cases "cc_cmd c" rule: cmd_cases; cases "cc_param c")
      (auto simp: cc_param_writes_def cc_typed_def cc_kind_defs w_long_def w_double_def w_int_def w_str_def w_play_def Let_def
        split: if_splits)
  then show ?thesis unfolding cc_Marshalling_all by (intro w_all_succeeds) (auto simp: roomy_ops [OF assms(1)])
qed

lemma reads_value_cc:
  assumes "fifo_parcel P V" and "cc_IsValid c" and "cc_accepts (cc_cmd c) (cc_param c)"
  shows "reads_value V (cc_Unmarshalling P) (TI32 (cc_cmd c) # cc_tokens c) (Some (cc_arrives c))"
  unfolding reads_value_def
proof (intro allI impI)
  fix p us assume "V p = (TI32 (cc_cmd c) # cc_tokens c) @ us"
  then have "V p = [TI32 (cc_cmd c)] @ cc_tokens c @ us" by simp
  from reads_valueD [OF reads_ops(1) [OF assms(1)] this]
  obtain r where r: "ReadInt32 P p = (Some (cc_cmd c), r)" "V r = cc_tokens c @ us" by blast
  obtain rc c1 p2 where p2: "cc_SetParamFromParcel P (cc_cmd c) (new_control_command\<lparr>cc_cmd := cc_cmd c\<rparr>, r) = (rc, c1, p2)"
      "rc = AVSESSION_SUCCESS" "c1 = cc_arrives c" "V p2 = us"
    using cc_read_back [OF assms(1) r(2) cc_accepts_typed [OF assms(3)] refl] assms(3) by blast
  with r(1) assms(2) show "\<exists>p'. cc_Unmarshalling P p = (Some (cc_arrives c), p') \<and> V p' = us"
    by (simp add: cc_Unmarshalling_def cc_SetCommand_def cc_IsValid_def)
qed

text \<open>A queue and its number. The queue arrives if every item does.\<close>

lemma item_crosses:
  assumes "fifo_ipc I V K" and "roomy_ipc I"
  shows "writes V (WriteItem I x) (TMark True # qi_tokens x)" and "fst (WriteItem I x p)"
    and "reads_value V (ReadItem I) (TMark True # qi_tokens x) (qi_arrives x)"
proof -
  note F = fifo_ipcD [OF assms(1)] and R = roomy_ipc_ops(9) [OF assms(2)]
  show "writes V (WriteItem I x) (TMark True # qi_tokens x)"
    unfolding WriteItem_def by (rule writes_parcelable(1) [OF F(1) writes_qi [OF F(1) R]])
  show "fst (WriteItem I x p)" unfolding WriteItem_def by (rule roomy_parcelable [OF R roomy_qi [OF R]])
  show "reads_value V (ReadItem I) (TMark True # qi_tokens x) (qi_arrives x)"
    unfolding ReadItem_def by (rule reads_value_parcelable(1) [OF F(7) reads_value_qi [OF F(1,11)]])
qed

definition items_tokens :: "'w queue_item list \<Rightarrow> 'w token list" where
  "items_tokens xs = concat (map (\<lambda>x. TMark True # qi_tokens x) xs)"

lemma items_tokens_simps [simp]:
  "items_tokens [] = []" "items_tokens (x # xs) = (TMark True # qi_tokens x) @ items_tokens xs"
  by (simp_all add: items_tokens_def)

lemma reads_items:
  assumes "fifo_ipc I V K" and "roomy_ipc I" and "V p = items_tokens xs @ us"
  shows "\<exists>p'. r_items I (length xs) p = (those (map qi_arrives xs), p') \<and> (those (map qi_arrives xs) \<noteq> None \<longrightarrow> V p' = us)"
  using assms(3)
proof (induction xs arbitrary: p)
  case Nil
  then show ?case by simp
next
  case (Cons x xs)
  then have "V p = (TMark True # qi_tokens x) @ items_tokens xs @ us" by simp
  from reads_valueD [OF item_crosses(3) [OF assms(1,2)] this]
  obtain p1 where p1: "ReadItem I p = (qi_arrives x, p1)" "V p1 = items_tokens xs @ us" by blast
  from Cons.IH [OF p1(2)] obtain p2 where "r_items I (length xs) p1 = (those (map qi_arrives xs), p2)"
    "those (map qi_arrives xs) \<noteq> None \<longrightarrow> V p2 = us" by blast
  with p1(1) show ?case by (cases "qi_arrives x") auto
qed

text \<open>What the reader of a queue gives: nothing when there are too many items or one does not arrive.\<close>

definition queue_arrives :: "int \<Rightarrow> 'w queue_item list \<Rightarrow> 'w queue_item list option" where
  "queue_arrives bound xs = (if int (length xs) < bound then those (map qi_arrives xs) else None)"

lemma those_same: "list_all (\<lambda>x. f x = Some x) xs \<Longrightarrow> those (map f xs) = Some xs"
  by (induction xs) auto

lemma those_again: "(\<And>x y. f x = Some y \<Longrightarrow> f y = Some y) \<Longrightarrow> those (map f xs) = Some ys
    \<Longrightarrow> length ys = length xs \<and> list_all (\<lambda>x. f x = Some x) ys"
  by (induction xs arbitrary: ys) (auto split: option.splits)

lemma queue_arrives_again:
  "queue_arrives bound xs = Some ys \<Longrightarrow> int (length ys) < bound \<and> list_all (\<lambda>x. qi_arrives x = Some x) ys"
  using those_again [of qi_arrives xs ys] qi_arrives_again by (auto simp: queue_arrives_def split: if_splits)

lemma queue_arrives_same: "int (length xs) < bound \<Longrightarrow> list_all (\<lambda>x. qi_arrives x = Some x) xs \<Longrightarrow> queue_arrives bound xs = Some xs"
  by (simp add: queue_arrives_def those_same)

lemma items_cross:
  assumes "fifo_ipc I V K" and "roomy_ipc I"
  shows "sends V (w_i32 I (int (length xs)) # map (WriteItem I) xs) (TI32 (word_of_int (int (length xs))) # items_tokens xs)"
    and "int (length xs) < 2 ^ 31 \<Longrightarrow> V p = TI32 (word_of_int (int (length xs))) # items_tokens xs @ us
      \<Longrightarrow> \<exists>p'. read_items I bound p = (queue_arrives bound xs, p') \<and> (queue_arrives bound xs \<noteq> None \<longrightarrow> V p' = us)"
proof -
  note F = fifo_ipcD [OF assms(1)]
  have "sends V (map (WriteItem I) xs) (items_tokens xs)"
  proof (induction xs)
    case (Cons x xs)
    then show ?case
      using sends_Cons_list [OF item_crosses(1) [OF assms] item_crosses(2) [OF assms] Cons.IH, of x] by simp
  qed (simp add: sends_Nil)
  then show "sends V (w_i32 I (int (length xs)) # map (WriteItem I) xs) (TI32 (word_of_int (int (length xs))) # items_tokens xs)"
    using assms(2) by (intro sends_Cons writes_ops(1) F) (simp_all add: roomy_ipc_def roomy_ops(1))
  assume len: "int (length xs) < 2 ^ 31" and "V p = TI32 (word_of_int (int (length xs))) # items_tokens xs @ us"
  then have "V p = [TI32 (word_of_int (int (length xs)))] @ items_tokens xs @ us" by simp
  from reads_valueD [OF read_or_token [OF reads_ops(1) [OF F(1)]] this]
  obtain p1 where p1: "read_or 0 (ReadInt32 (ipParcel I)) p = (word_of_int (int (length xs)), p1)" "V p1 = items_tokens xs @ us" by blast
  have "sint (word_of_nat (length xs) :: i32) = int (length xs)"
    using code_ok_sint [of "int (length xs)"] len by (simp add: code_ok_def)
  with reads_items [OF assms p1(2)] p1(1)
  show "\<exists>p'. read_items I bound p = (queue_arrives bound xs, p') \<and> (queue_arrives bound xs \<noteq> None \<longrightarrow> V p' = us)"
    by (auto simp: read_items_def queue_arrives_def)
qed

section \<open>Proxy and stub\<close>

lemma state_crosses:
  assumes "fifo_ipc I V K" and "roomy_ipc I" and "PLAYBACK_STATE_INITIAL \<le> sint (psState v)" and "sint (psState v) < PLAYBACK_STATE_MAX"
  shows "\<exists>us. writes V (WriteParcelable (ipParcel I) (Some (ps_Marshalling (ipParcel I) v))) us
    \<and> (\<forall>p. fst (WriteParcelable (ipParcel I) (Some (ps_Marshalling (ipParcel I) v)) p))
    \<and> reads_value V (ReadState I (ps_Unmarshalling (ipParcel I))) us (Some v)"
proof -
  note F = fifo_ipcD [OF assms(1)] and R = roomy_ipc_ops(9) [OF assms(2)]
  have "fst (WriteParcelable (ipParcel I) (Some (ps_Marshalling (ipParcel I) v)) p)" for p
    by (rule roomy_parcelable [OF R]) (rule roomy_ps [OF R])
  then show ?thesis
    using writes_parcelable(1) [OF F(1) writes_ps [OF F(1)], of v] reads_value_parcelable(1) [OF F(10) reads_value_ps [OF F(1) assms(3,4)]] by blast
qed

lemma items_value:
  assumes "fifo_ipc I V K" and "roomy_ipc I" and "queue_arrives bound xs = Some ys" and "bound \<le> 2 ^ 31"
  shows "\<exists>us. writes V (w_items I xs) us \<and> (\<forall>p. fst (w_items I xs p)) \<and> reads_value V (read_items I bound) us (Some ys)"
proof -
  have "int (length xs) < 2 ^ 31" using assms(3,4) by (simp add: queue_arrives_def split: if_splits)
  from items_cross(2) [OF assms(1,2) this] assms(3)
  have "reads_value V (read_items I bound) (TI32 (word_of_int (int (length xs))) # items_tokens xs) (Some ys)"
    unfolding reads_value_def by (metis append_Cons option.distinct(1))
  with items_cross(1) [OF assms(1,2), of xs] show ?thesis unfolding w_items_def sends_def by blast
qed

text \<open>A handler that gives a result code, and one that gives a value.\<close>

lemma px_ret_served:
  assumes "fifo_ipc I V K" and "roomy_ipc I" and "map_of handlers code = Some h" and "sends V ws ts"
    and "\<And>data. V data = ts \<Longrightarrow> h data s = Option.bind y (st_ret I)" and "\<And>r s'. y = Some (r, s') \<Longrightarrow> code_ok r"
  shows "px_call (px_ret I bad) (px_send I desc gone False (Some (OnRemoteRequest I desc True handlers rest)) code ws s) = y"
proof -
  obtain data where "V data = ts" and d: "px_send I desc gone False (Some (OnRemoteRequest I desc True handlers rest)) code ws s
    = map_option (\<lambda>(r, reply, s). (if r \<noteq> 0 then Inl ERR_IPC_SEND_REQUEST else Inr reply, s)) (h data s)"
    using px_send_served [OF assms(1,2,4,3)] by blast
  then have h: "h data s = Option.bind y (st_ret I)" using assms(5) by blast
  show ?thesis
  proof (cases y)
    case None
    then show ?thesis using d h by (simp add: px_call_def)
  next
    case (Some z)
    obtain r s' where "y = Some (r, s')" using Some by (cases z) simp
    with d h assms(6) px_ret_reply [OF assms(1,2)] show ?thesis
      by (simp add: px_call_def st_ret_def ERR_NONE_def)
  qed
qed

lemma px_get_served:
  assumes "fifo_ipc I V K" and "roomy_ipc I" and "map_of handlers code = Some h"
    and "\<And>data. V data = [] \<Longrightarrow> h data s = st_value I wr (x, s')"
    and "\<And>er. x = Inl er \<Longrightarrow> code_ok er \<and> er \<noteq> AVSESSION_SUCCESS"
    and "\<And>v. x = Inr v \<Longrightarrow> \<exists>us. writes V (wr v) us \<and> (\<forall>p. fst (wr v p)) \<and> reads_value V rd us (Some v)"
  shows "px_call (px_value I rd) (px_send I desc gone False (Some (OnRemoteRequest I desc True handlers rest)) code [] s) = Some (x, s')"
proof -
  obtain data where "V data = []" and d: "px_send I desc gone False (Some (OnRemoteRequest I desc True handlers rest)) code [] s
    = map_option (\<lambda>(r, reply, s). (if r \<noteq> 0 then Inl ERR_IPC_SEND_REQUEST else Inr reply, s)) (h data s)"
    using px_send_served [OF assms(1,2) sends_Nil assms(3)] by blast
  then have h: "h data s = st_value I wr (x, s')" using assms(4) by blast
  show ?thesis
  proof (cases x)
    case (Inl er)
    with d h px_value_reply(1) [OF assms(1,2), of er rd] assms(5) show ?thesis
      by (simp add: px_call_def st_value_def ERR_NONE_def)
  next
    case (Inr v)
    obtain us where "writes V (wr v) us" "\<forall>p. fst (wr v p)" "reads_value V rd us (Some v)" using assms(6) [OF Inr] by blast
    with d h Inr px_value_reply(2) [OF assms(1,2), of wr v us rd v] show ?thesis
      by (simp add: px_call_def st_value_def ERR_NONE_def)
  qed
qed

end
