(* ===== verification/SessionRemote.thy ===== *)
theory SessionRemote
  imports SessionProxy IpcServed
begin

text \<open>
  Calls of a session through its proxy and stub. \<open>app_do\<close> is the method of the proxy, \<open>sd_own\<close> the operation of the
  session itself. What differs on the way has definitions of its own: calls that the proxy answers and calls that proxy or stub
  refuse (\<open>app_refused\<close>), arguments that lose a part in the parcel (\<open>app_sent\<close>), results that are lost (\<open>app_masked\<close>), and the
  fields of the proxy (\<open>app_keeps\<close>).
\<close>

section \<open>Calls and answers\<close>

datatype 'w sess_call = SState "'w playback_state" | SGetState | SItems "'w queue_item list" | SGetItems | STitle string | SGetTitle
  | SCustom 'w | STypes "i32 list" | SSpeeds "dbl list" | SLoops "i32 list" | SEvent string 'w | SCallback "nat option"
  | SId | SType | SActivate | SDeactivate | SIsActive | SAdd i32 | SDelete i32 | SEnable bool | SVisible bool | SGetVisible
  | SLock bool | SGetLock | SBackground i32 | SController | SDestroy

datatype 'w sess_answer = ZCode int | ZState "int + 'w playback_state" | ZItems "int + 'w queue_item list" | ZString "int + string"
  | ZBool "int + bool" | ZName string | ZActive bool | ZController "nat option"

definition keeps :: "('v \<Rightarrow> 'a) \<Rightarrow> 'x \<Rightarrow> ('v \<times> 's) option \<Rightarrow> ('a \<times> 'x \<times> 's) option" where
  "keeps f px y = map_option (\<lambda>(v, s). (f v, px, s)) y"

definition app_do :: "('p, 'w) ipc_ops \<Rightarrow> sess_proxy \<Rightarrow> ('p, 's) remote option \<Rightarrow> 'w sess_call \<Rightarrow> 's
    \<Rightarrow> ('w sess_answer \<times> sess_proxy \<times> 's) option" where
  "app_do I px remote c s = (case c of
     SState state \<Rightarrow> keeps ZCode px (spx_SetAVPlaybackState I px remote state s)
   | SGetState \<Rightarrow> keeps ZState px (spx_GetAVPlaybackState I px remote s)
   | SItems xs \<Rightarrow> keeps ZCode px (spx_SetAVQueueItems I px remote xs s)
   | SGetItems \<Rightarrow> keeps ZItems px (spx_GetAVQueueItems I px remote s)
   | STitle t \<Rightarrow> keeps ZCode px (spx_SetAVQueueTitle I px remote t s)
   | SGetTitle \<Rightarrow> keeps ZString px (spx_GetAVQueueTitle I px remote s)
   | SCustom w \<Rightarrow> keeps ZCode px (spx_SendCustomData I px remote w s)
   | STypes ts \<Rightarrow> keeps ZCode px (spx_SetMediaCenterControlType I px remote ts s)
   | SSpeeds ds \<Rightarrow> keeps ZCode px (spx_SetSupportedPlaySpeeds I px remote ds s)
   | SLoops ls \<Rightarrow> keeps ZCode px (spx_SetSupportedLoopModes I px remote ls s)
   | SEvent ev w \<Rightarrow> keeps ZCode px (spx_SetSessionEvent I px remote ev w s)
   | SCallback cb \<Rightarrow> keeps ZCode px (spx_RegisterCallback I px remote cb s)
   | SId \<Rightarrow> keeps ZName px (spx_GetSessionId I px remote s)
   | SType \<Rightarrow> keeps ZName px (spx_GetSessionType I px remote s)
   | SActivate \<Rightarrow> keeps ZCode px (spx_Activate I px remote s)
   | SDeactivate \<Rightarrow> keeps ZCode px (spx_Deactivate I px remote s)
   | SIsActive \<Rightarrow> keeps ZActive px (spx_IsActive I px remote s)
   | SAdd cmd \<Rightarrow> keeps ZCode px (spx_AddSupportCommand I px remote cmd s)
   | SDelete cmd \<Rightarrow> keeps ZCode px (spx_DeleteSupportCommand I px remote cmd s)
   | SEnable b \<Rightarrow> keeps ZCode px (spx_EnableDesktopLyric I px remote b s)
   | SVisible b \<Rightarrow> keeps ZCode px (spx_SetDesktopLyricVisible I px remote b s)
   | SGetVisible \<Rightarrow> keeps ZBool px (spx_IsDesktopLyricVisible I px remote s)
   | SLock b \<Rightarrow> keeps ZCode px (spx_SetDesktopLyricState I px remote b s)
   | SGetLock \<Rightarrow> keeps ZBool px (spx_GetDesktopLyricState I px remote s)
   | SBackground mode \<Rightarrow> keeps ZCode px (spx_SetBackgroundPlayMode I px remote mode s)
   | SController \<Rightarrow> map_option (map_prod ZController id) (spx_GetController I px remote s)
   | SDestroy \<Rightarrow> map_option (map_prod ZCode id) (spx_Destroy I px remote s))"

text \<open>The operation of the session in the service, with its own answer.\<close>

definition sd_own :: "'w sess_env \<Rightarrow> 'w sess_call \<Rightarrow> ('w, 'w queue_item) sess_data \<Rightarrow> 'w sess_answer \<times> ('w, 'w queue_item) sess_data" where
  "sd_own e c sd = (case c of
     SState state \<Rightarrow> map_prod ZCode id (sd_SetAVPlaybackState (seWeq e) state sd)
   | SGetState \<Rightarrow> (ZState (Inr (sdPlayback sd)), sd)
   | SItems xs \<Rightarrow> map_prod ZCode id (sd_SetAVQueueItems xs sd)
   | SGetItems \<Rightarrow> (ZItems (Inr (sdQueueItems sd)), sd)
   | STitle t \<Rightarrow> map_prod ZCode id (sd_SetAVQueueTitle t sd)
   | SGetTitle \<Rightarrow> (ZString (Inr (sdQueueTitle sd)), sd)
   | SCustom w \<Rightarrow> map_prod ZCode id (sd_SendCustomData (seCustomData e) w sd)
   | STypes ts \<Rightarrow> map_prod ZCode id (sd_SetMediaCenterControlType ts sd)
   | SSpeeds ds \<Rightarrow> map_prod ZCode id (sd_SetSupportedPlaySpeeds ds sd)
   | SLoops ls \<Rightarrow> map_prod ZCode id (sd_SetSupportedLoopModes ls sd)
   | SEvent ev w \<Rightarrow> map_prod ZCode id (sd_SetSessionEvent ev w sd)
   | SCallback cb \<Rightarrow> map_prod ZCode id (sd_RegisterCallbackInner (cb \<noteq> None) sd)
   | SId \<Rightarrow> (ZName (siSessionId (sdCore sd)), sd)
   | SType \<Rightarrow> (ZName (si_GetSessionType (sdCore sd)), sd)
   | SActivate \<Rightarrow> map_prod ZCode id (sd_Activate sd)
   | SDeactivate \<Rightarrow> map_prod ZCode id (sd_Deactivate sd)
   | SIsActive \<Rightarrow> (ZActive (si_IsActive (sdCore sd)), sd)
   | SAdd cmd \<Rightarrow> map_prod ZCode id (sd_AddSupportCommand cmd sd)
   | SDelete cmd \<Rightarrow> map_prod ZCode id (sd_DeleteSupportCommand cmd sd)
   | SEnable b \<Rightarrow> map_prod ZCode id (sd_EnableDesktopLyric b sd)
   | SVisible b \<Rightarrow> map_prod ZCode id (sd_SetDesktopLyricVisible e b sd)
   | SGetVisible \<Rightarrow> (ZBool (sd_IsDesktopLyricVisible sd), sd)
   | SLock b \<Rightarrow> map_prod ZCode id (sd_SetDesktopLyricState b sd)
   | SGetLock \<Rightarrow> (ZBool (sd_GetDesktopLyricState sd), sd)
   | SBackground mode \<Rightarrow> map_prod ZCode id (sd_SetBackgroundPlayMode (sint mode) sd)
   | SController \<Rightarrow> map_prod (\<lambda>pid. ZController (Some (nat pid))) id (sd_GetControllerInner sd)
   | SDestroy \<Rightarrow> map_prod ZCode id (sd_Destroy e sd))"

text \<open>
  The answers that do not come from the session. The proxy refuses an invalid state, an unknown control type or loop mode and
  a null callback, and gives a controller that it keeps again while that is not destroyed. The stub refuses vectors that are too long, a
  mode for the background that is no mode, and a queue that does not arrive.
\<close>

definition app_refused :: "sess_proxy \<Rightarrow> 'w sess_call \<Rightarrow> 'w sess_answer option" where
  "app_refused px c = (case c of
     SState state \<Rightarrow> if ps_IsValid state then None else Some (ZCode ERR_INVALID_PARAM)
   | SItems xs \<Rightarrow> if queue_arrives maxQueueItemLength xs = None then Some (ZCode ERR_IPC_SEND_REQUEST) else None
   | STypes ts \<Rightarrow> if \<not> list_all IsValidMediaCenterControlTypeNum ts \<or> length ts > maxArrSize then Some (ZCode ERR_INVALID_PARAM) else None
   | SSpeeds ds \<Rightarrow> if length ds > maxArrSize then Some (ZCode ERR_INVALID_PARAM) else None
   | SLoops ls \<Rightarrow> if \<not> list_all ps_IsValidLoopMode ls \<or> length ls > maxArrSize then Some (ZCode ERR_INVALID_PARAM) else None
   | SCallback cb \<Rightarrow> if cb = None then Some (ZCode ERR_INVALID_PARAM) else None
   | SBackground mode \<Rightarrow> if sint mode < ENABLE_BACKGROUND_PLAY \<or> sint mode > DISABLE_BACKGROUND_PLAY
       then Some (ZCode ERR_IPC_SEND_REQUEST) else None
   | SController \<Rightarrow> (case spController px of Some (controller, False) \<Rightarrow> Some (ZController (Some controller)) | _ \<Rightarrow> None)
   | _ \<Rightarrow> None)"

definition app_sent :: "'w sess_call \<Rightarrow> 'w sess_call" where
  "app_sent c = (case c of SItems xs \<Rightarrow> SItems (the (queue_arrives maxQueueItemLength xs)) | _ \<Rightarrow> c)"

text \<open>The failure of a call that the stub returns as the result of the request.\<close>

definition ipc_code :: "int \<Rightarrow> int" where
  "ipc_code r = (if r = AVSESSION_SUCCESS then r else ERR_IPC_SEND_REQUEST)"

definition app_masked :: "'w sess_call \<Rightarrow> 'w sess_answer \<Rightarrow> 'w sess_answer" where
  "app_masked c a = (case (c, a) of (SState state, ZCode r) \<Rightarrow> ZCode (ipc_code r) | _ \<Rightarrow> a)"

text \<open>The proxy keeps a new controller, and is destroyed with its session.\<close>

definition app_keeps :: "'w sess_call \<Rightarrow> 'w sess_answer \<Rightarrow> sess_proxy \<Rightarrow> sess_proxy" where
  "app_keeps c a px = (case (c, a) of
     (SController, ZController (Some controller)) \<Rightarrow> px\<lparr>spController := Some (controller, False)\<rparr>
   | (SDestroy, ZCode r) \<Rightarrow> px\<lparr>spDestroyed := True, spController := None\<rparr>
   | _ \<Rightarrow> px)"

text \<open>The stored playback state has a known number, the stored queue arrived; the length of a new one fits its field.\<close>

definition app_crosses :: "'w sess_call \<Rightarrow> ('w, 'w queue_item) sess_data \<Rightarrow> bool" where
  "app_crosses c sd \<longleftrightarrow> (case c of
     SGetState \<Rightarrow> PLAYBACK_STATE_INITIAL \<le> sint (psState (sdPlayback sd)) \<and> sint (psState (sdPlayback sd)) < PLAYBACK_STATE_MAX
   | SGetItems \<Rightarrow> int (length (sdQueueItems sd)) < maxQueueItems \<and> list_all (\<lambda>x. qi_arrives x = Some x) (sdQueueItems sd)
   | SItems xs \<Rightarrow> int (length xs) < 2 ^ 31
   | _ \<Rightarrow> True)"

section \<open>Methods and handlers\<close>

lemma spx_send_served:
  assumes "fifo_ipc I V K" and "roomy_ipc I" and "\<not> spDestroyed px"
    and "sends V ws ts" and "map_of (sess_handlers I e) code = Some h"
  shows "\<exists>data. V data = ts \<and> spx_send I px (Some (sess_stub I True e rest)) code ws s
    = map_option (\<lambda>(r, reply, s). (if r \<noteq> 0 then Inl ERR_IPC_SEND_REQUEST else Inr reply, s)) (h data s)"
  using px_send_served [OF assms(1,2,4,5), of sessionDescriptor ERR_SESSION_NOT_EXIST rest s] assms(3)
  by (simp add: spx_send_def sess_stub_def)

lemma spx_ret_served:
  assumes "fifo_ipc I V K" and "roomy_ipc I" and "\<not> spDestroyed px"
    and "map_of (sess_handlers I e) code = Some h" and "sends V ws ts"
    and "\<And>data. V data = ts \<Longrightarrow> h data s = st_ret I x" and "code_ok (fst x)"
  shows "px_call (px_ret I bad) (spx_send I px (Some (sess_stub I True e rest)) code ws s) = Some x"
  using px_ret_served [OF assms(1,2,4,5), of s "Some x" bad sessionDescriptor ERR_SESSION_NOT_EXIST rest] assms(3,6,7)
  by (cases x) (simp add: spx_send_def sess_stub_def)

lemma spx_get_served:
  assumes "fifo_ipc I V K" and "roomy_ipc I" and "\<not> spDestroyed px"
    and "map_of (sess_handlers I e) code = Some h" and "\<And>data. V data = [] \<Longrightarrow> h data s = st_value I wr (x, s')"
    and "\<And>er. x = Inl er \<Longrightarrow> code_ok er \<and> er \<noteq> AVSESSION_SUCCESS"
    and "\<And>v. x = Inr v \<Longrightarrow> \<exists>us. writes V (wr v) us \<and> (\<forall>p. fst (wr v p)) \<and> reads_value V rd us (Some v)"
  shows "spx_get I px (Some (sess_stub I True e rest)) code rd s = Some (x, s')"
  using px_get_served [OF assms(1,2,4-7), of sessionDescriptor ERR_SESSION_NOT_EXIST rest] assms(3)
  by (simp add: spx_get_def spx_send_def sess_stub_def)

text \<open>A handler that returns the result of the call as the result of the request.\<close>

lemma spx_result_served:
  assumes "fifo_ipc I V K" and "roomy_ipc I" and "\<not> spDestroyed px"
    and "map_of (sess_handlers I e) code = Some h" and "sends V ws ts"
    and "\<And>data. V data = ts \<Longrightarrow> h data s = st_result I x"
  shows "px_call (px_ret I bad) (spx_send I px (Some (sess_stub I True e rest)) code ws s) = Some (map_prod ipc_code id x)"
proof -
  obtain r s' where x: "x = (r, s')" by (cases x)
  obtain data where data: "V data = ts" and sent: "spx_send I px (Some (sess_stub I True e rest)) code ws s
    = map_option (\<lambda>(r, reply, s). (if r \<noteq> 0 then Inl ERR_IPC_SEND_REQUEST else Inr reply, s)) (h data s)"
    using spx_send_served [OF assms(1-3,5,4)] by blast
  have "fst (w_all [w_i32 I r] (ipEmpty I))" by (rule w_all_succeeds) (simp add: roomy_ipc_ops(5) [OF assms(2)])
  then have "h data s = Some (if r \<noteq> AVSESSION_SUCCESS then r else ERR_NONE, st_reply I [w_i32 I r], s')"
    using assms(6) [OF data] x by (cases "w_all [w_i32 I r] (ipEmpty I)") (simp add: st_result_def st_reply_def)
  with sent x px_ret_reply [OF assms(1,2), of 0 bad] show ?thesis
    by (simp add: px_call_def ipc_code_def px_ret_def [of I _ "Inl _"] error_code_defs ERR_NONE_def code_ok_def)
qed

lemma spx_refused:
  assumes "fifo_ipc I V K" and "roomy_ipc I" and "\<not> spDestroyed px"
    and "map_of (sess_handlers I e) code = Some h" and "sends V ws ts"
    and "\<And>data. V data = ts \<Longrightarrow> \<exists>reply. h data s = Some (ERR_UNMARSHALLING, reply, s)"
  shows "px_call (px_ret I bad) (spx_send I px (Some (sess_stub I True e rest)) code ws s) = Some (ERR_IPC_SEND_REQUEST, s)"
  using spx_send_served [OF assms(1-3,5,4), of rest s] assms(6)
  by (fastforce simp: px_call_def px_ret_def error_code_defs)

end
