(* ===== verification/SessionServed.thy ===== *)
theory SessionServed
  imports SessionRemote
begin

text \<open>The methods of the proxy of a session, one by one.\<close>

lemma sd_codes:
  "code_ok (fst (sd_RegisterCallbackInner cb sd))" "code_ok (fst (sd_SendCustomData f w sd))"
  "code_ok (fst (sd_SetMediaCenterControlType ts sd))" "code_ok (fst (sd_SetSupportedPlaySpeeds ds sd))"
  "code_ok (fst (sd_SetSupportedLoopModes ls sd))" "code_ok (fst (sd_SetSessionEvent ev w sd))"
  "code_ok (fst (sd_Activate sd))" "code_ok (fst (sd_Deactivate sd))" "code_ok (fst (sd_AddSupportCommand cmd sd))"
  "code_ok (fst (sd_DeleteSupportCommand cmd sd))" "code_ok (fst (sd_EnableDesktopLyric b sd))"
  "code_ok (fst (sd_SetDesktopLyricVisible e b sd))" "code_ok (fst (sd_SetDesktopLyricState b sd))"
  "code_ok (fst (sd_SetBackgroundPlayMode i sd))"
  by (auto simp: sd_op_defs sd_RegisterCallbackInner_def sd_AddSupportCommand_def sd_DeleteSupportCommand_def
      sd_SetDesktopLyricVisible_def sd_SetDesktopLyricState_def sd_lyric_check_def Let_def split: option.splits)

lemma sd_ask_codes:
  "sd_IsDesktopLyricVisible sd = Inl er \<Longrightarrow> code_ok er \<and> er \<noteq> AVSESSION_SUCCESS"
  "sd_GetDesktopLyricState sd = Inl er \<Longrightarrow> code_ok er \<and> er \<noteq> AVSESSION_SUCCESS"
  by (auto simp: sd_IsDesktopLyricVisible_def sd_GetDesktopLyricState_def sd_lyric_check_def split: if_splits)

section \<open>Values\<close>

lemma session_getters:
  assumes "fifo_ipc I V K" and "roomy_ipc I" and "\<not> spDestroyed px" and "r = Some (sess_stub I True e rest)"
  shows "spx_GetAVQueueTitle I px r sd = Some (Inr (sdQueueTitle sd), sd)"
    and "spx_IsDesktopLyricVisible I px r sd = Some (sd_IsDesktopLyricVisible sd, sd)"
    and "spx_GetDesktopLyricState I px r sd = Some (sd_GetDesktopLyricState sd, sd)"
    and "spx_GetControllerInner I px r sd = Some (Some (nat (fst (sd_GetControllerInner sd))), snd (sd_GetControllerInner sd))"
    and "PLAYBACK_STATE_INITIAL \<le> sint (psState (sdPlayback sd)) \<Longrightarrow> sint (psState (sdPlayback sd)) < PLAYBACK_STATE_MAX
      \<Longrightarrow> spx_GetAVPlaybackState I px r sd = Some (Inr (sdPlayback sd), sd)"
    and "int (length (sdQueueItems sd)) < maxQueueItems \<Longrightarrow> list_all (\<lambda>x. qi_arrives x = Some x) (sdQueueItems sd)
      \<Longrightarrow> spx_GetAVQueueItems I px r sd = Some (Inr (sdQueueItems sd), sd)"
proof -
  note F = fifo_ipcD [OF assms(1)] and P = fifo_parcelD [OF fifo_ipcD(1) [OF assms(1)]] and R = roomy_ipc_ops [OF assms(2)]
    and S = spx_get_served [OF assms(1-3)]
  show "spx_GetAVQueueTitle I px r sd = Some (Inr (sdQueueTitle sd), sd)" unfolding spx_GetAVQueueTitle_def assms(4)
    by (rule S [OF _ _ _ op_crosses [OF P(5) R(3)], where h = "sst_GetAVQueueTitle I"])
      (auto simp: sess_handlers_def sst_GetAVQueueTitle_def)
  show "spx_IsDesktopLyricVisible I px r sd = Some (sd_IsDesktopLyricVisible sd, sd)"
    unfolding spx_IsDesktopLyricVisible_def assms(4)
    by (rule S [OF _ _ _ op_crosses [OF P(4) R(4)], where h = "sst_IsDesktopLyricVisible I"])
      (auto simp: sess_handlers_def sst_IsDesktopLyricVisible_def st_checked_roomy(3) [OF assms(2)] dest: sd_ask_codes)
  show "spx_GetDesktopLyricState I px r sd = Some (sd_GetDesktopLyricState sd, sd)"
    unfolding spx_GetDesktopLyricState_def assms(4)
    by (rule S [OF _ _ _ op_crosses [OF P(4) R(4)], where h = "sst_GetDesktopLyricState I"])
      (auto simp: sess_handlers_def sst_GetDesktopLyricState_def st_checked_roomy(3) [OF assms(2)] dest: sd_ask_codes)
  have "spx_get I px r 13 (ReadRemoteObject I) sd = Some (Inr (nat (fst (sd_GetControllerInner sd))), snd (sd_GetControllerInner sd))"
    unfolding assms(4)
    by (rule S [OF _ _ _ op_crosses [OF F(6) R(8)], where h = "sst_GetController I"])
      (auto simp: sess_handlers_def sst_GetController_def split: prod.splits)
  then show "spx_GetControllerInner I px r sd = Some (Some (nat (fst (sd_GetControllerInner sd))), snd (sd_GetControllerInner sd))"
    by (simp add: spx_GetControllerInner_def)
  {
    assume range: "PLAYBACK_STATE_INITIAL \<le> sint (psState (sdPlayback sd))" "sint (psState (sdPlayback sd)) < PLAYBACK_STATE_MAX"
    show "spx_GetAVPlaybackState I px r sd = Some (Inr (sdPlayback sd), sd)"
      unfolding spx_GetAVPlaybackState_def assms(4)
      by (rule S [OF _ _ _ state_crosses [OF assms(1,2)], where h = "sst_GetAVPlaybackState I"])
        (use range in \<open>auto simp: sess_handlers_def sst_GetAVPlaybackState_def\<close>)
  }
  {
    assume "int (length (sdQueueItems sd)) < maxQueueItems" "list_all (\<lambda>x. qi_arrives x = Some x) (sdQueueItems sd)"
    then have arrives: "queue_arrives maxQueueItems (sdQueueItems sd) = Some (sdQueueItems sd)" by (rule queue_arrives_same)
    show "spx_GetAVQueueItems I px r sd = Some (Inr (sdQueueItems sd), sd)"
      unfolding spx_GetAVQueueItems_def assms(4)
      by (rule S [OF _ _ _ items_value [OF assms(1,2)], where h = "sst_GetAVQueueItems I"])
        (use arrives in \<open>auto simp: sess_handlers_def sst_GetAVQueueItems_def maxQueueItems_def\<close>)
  }
qed

lemma session_plain:
  assumes "fifo_ipc I V K" and "roomy_ipc I" and "\<not> spDestroyed px" and "r = Some (sess_stub I True e rest)"
  shows "spx_GetSessionId I px r sd = Some (siSessionId (sdCore sd), sd)"
    and "spx_GetSessionType I px r sd = Some (si_GetSessionType (sdCore sd), sd)"
    and "spx_IsActive I px r sd = Some (si_IsActive (sdCore sd), sd)"
proof -
  note F = fifo_ipcD [OF assms(1)] and R = roomy_ipc_ops [OF assms(2)]
  note O = reads_ops [OF F(1)] and W = writes_ops [OF F(1)] and T = spx_send_served [OF assms(1-3) sends_Nil]
  have view: "V (st_reply I [w]) = [t]" if "writes V w [t]" "\<And>p. fst (w p)" for w t
    by (rule st_reply_view [OF sends_Cons [OF that sends_Nil] F(2)])
  have str: "spx_string I (Inr (st_reply I [WriteString (ipParcel I) v])) = v" for v
    using read_one [OF read_or_token [OF O(5)] view [OF W(5) R(3)], of "[]" v] by (auto simp: spx_string_def)
  have "spx_send I px r 0 [] sd = Some (Inr (st_reply I [WriteString (ipParcel I) (siSessionId (sdCore sd))]), sd)"
    using T [of e 0 "sst_GetSessionId I" rest sd] by (auto simp: assms(4) sess_handlers_def sst_GetSessionId_def ERR_NONE_def)
  then show "spx_GetSessionId I px r sd = Some (siSessionId (sdCore sd), sd)" by (simp add: spx_GetSessionId_def px_call_def str)
  have "spx_send I px r 1 [] sd = Some (Inr (st_reply I [WriteString (ipParcel I) (si_GetSessionType (sdCore sd))]), sd)"
    using T [of e 1 "sst_GetSessionType I" rest sd] by (auto simp: assms(4) sess_handlers_def sst_GetSessionType_def ERR_NONE_def)
  then show "spx_GetSessionType I px r sd = Some (si_GetSessionType (sdCore sd), sd)" by (simp add: spx_GetSessionType_def px_call_def str)
  have "spx_send I px r 17 [] sd = Some (Inr (st_reply I [WriteBool (ipParcel I) (si_IsActive (sdCore sd))]), sd)"
    using T [of e 17 "sst_IsActive I" rest sd] by (auto simp: assms(4) sess_handlers_def sst_IsActive_def ERR_NONE_def)
  with read_one [OF read_or_token [OF O(4)] view [OF W(4) R(4)], of False "si_IsActive (sdCore sd)"]
  show "spx_IsActive I px r sd = Some (si_IsActive (sdCore sd), sd)" by (auto simp: spx_IsActive_def px_call_def)
qed

section \<open>Calls with a result code\<close>

lemma session_simple_calls:
  assumes "fifo_ipc I V K" and "roomy_ipc I" and "\<not> spDestroyed px" and "r = Some (sess_stub I True e rest)"
  shows "spx_Activate I px r sd = Some (sd_Activate sd)"
    and "spx_Deactivate I px r sd = Some (sd_Deactivate sd)"
    and "spx_SendCustomData I px r w sd = Some (sd_SendCustomData (seCustomData e) w sd)"
    and "spx_SetSessionEvent I px r ev w sd = Some (sd_SetSessionEvent ev w sd)"
    and "spx_ret I px r 19 [WriteInt32 (ipParcel I) cmd] sd = Some (sd_AddSupportCommand cmd sd)"
    and "spx_ret I px r 20 [WriteInt32 (ipParcel I) cmd] sd = Some (sd_DeleteSupportCommand cmd sd)"
    and "spx_ret I px r 14 [WriteRemoteObject I cb] sd = Some (sd_RegisterCallbackInner True sd)"
proof -
  note F = fifo_ipcD [OF assms(1)] and R = roomy_ipc_ops [OF assms(2)]
  note O = reads_ops [OF F(1)] and W = writes_ops [OF F(1)] and S = spx_ret_served [OF assms(1-3)]
  note one = sends_Cons [OF _ _ sends_Nil]
  have arg: "fst (read_or 0 (ReadInt32 (ipParcel I)) data) = cmd" if "V data = [TI32 cmd]" for data
    using read_one [OF read_or_token [OF O(1)] that, of 0] by auto
  show "spx_Activate I px r sd = Some (sd_Activate sd)" unfolding spx_Activate_def spx_ret_def assms(4)
    by (rule S [where h = "sst_Activate I", OF _ sends_Nil _ sd_codes(7)]) (simp_all add: sess_handlers_def sst_Activate_def)
  show "spx_Deactivate I px r sd = Some (sd_Deactivate sd)" unfolding spx_Deactivate_def spx_ret_def assms(4)
    by (rule S [where h = "sst_Deactivate I", OF _ sends_Nil _ sd_codes(8)]) (simp_all add: sess_handlers_def sst_Deactivate_def)
  show "spx_SendCustomData I px r w sd = Some (sd_SendCustomData (seCustomData e) w sd)"
    unfolding spx_SendCustomData_def spx_ret_def assms(4)
    by (rule S [where h = "sst_SendCustomData I e", OF _ one [OF W(8) R(7)] _ sd_codes(2)])
      (use read_one [OF O(8), of _ "Some w"] in \<open>force simp: sess_handlers_def sst_SendCustomData_def\<close>)+
  have event: "sst_SetSessionEvent I data sd = st_ret I (sd_SetSessionEvent ev w sd)" if data: "V data = [TStr ev, TWant (Some w)]" for data
  proof -
    have "V data = [TStr ev] @ [TWant (Some w)]" using data by simp
    from reads_valueD [OF read_or_token [OF O(5)] this]
    obtain p where p: "read_or [] (ReadString (ipParcel I)) data = (ev, p)" "V p = [TWant (Some w)]" by blast
    from read_one [OF O(8) p(2)] p(1) show ?thesis by (auto simp: sst_SetSessionEvent_def read_string_def)
  qed
  have two: "sends V [WriteString (ipParcel I) ev, WriteWantParams (ipParcel I) (Some w)] [TStr ev, TWant (Some w)]"
    by (intro sends_Cons sends_Nil W R)
  show "spx_SetSessionEvent I px r ev w sd = Some (sd_SetSessionEvent ev w sd)"
    unfolding spx_SetSessionEvent_def spx_ret_def assms(4)
    by (rule S [where h = "sst_SetSessionEvent I", OF _ two event sd_codes(6)]) (simp_all add: sess_handlers_def)
  show "spx_ret I px r 19 [WriteInt32 (ipParcel I) cmd] sd = Some (sd_AddSupportCommand cmd sd)" unfolding spx_ret_def assms(4)
    by (rule S [where h = "sst_AddSupportCommand I", OF _ one [OF W(1) R(5)] _ sd_codes(9)])
      (use arg in \<open>auto simp: sess_handlers_def sst_AddSupportCommand_def\<close>)
  show "spx_ret I px r 20 [WriteInt32 (ipParcel I) cmd] sd = Some (sd_DeleteSupportCommand cmd sd)" unfolding spx_ret_def assms(4)
    by (rule S [where h = "sst_DeleteSupportCommand I", OF _ one [OF W(1) R(5)] _ sd_codes(10)])
      (use arg in \<open>auto simp: sess_handlers_def sst_DeleteSupportCommand_def\<close>)
  show "spx_ret I px r 14 [WriteRemoteObject I cb] sd = Some (sd_RegisterCallbackInner True sd)" unfolding spx_ret_def assms(4)
    by (rule S [where h = "sst_RegisterCallbackInner I", OF _ one [OF fifo_opD(1) [OF F(6)] R(8)] _ sd_codes(1)])
      (use read_one [OF fifo_opD(2) [OF F(6)], of _ cb] in \<open>force simp: sess_handlers_def sst_RegisterCallbackInner_def\<close>)+
qed

lemma session_vectors:
  assumes "fifo_ipc I V K" and "roomy_ipc I" and "\<not> spDestroyed px" and "r = Some (sess_stub I True e rest)"
  shows "spx_ret I px r 26 [WriteInt32Vector I ts] sd
      = Some (if length ts > maxArrSize then (ERR_INVALID_PARAM, sd) else sd_SetMediaCenterControlType ts sd)"
    and "spx_ret I px r 27 [WriteDoubleVector I ds] sd
      = Some (if length ds > maxArrSize then (ERR_INVALID_PARAM, sd) else sd_SetSupportedPlaySpeeds ds sd)"
    and "spx_ret I px r 28 [WriteInt32Vector I ls] sd
      = Some (if length ls > maxArrSize then (ERR_INVALID_PARAM, sd) else sd_SetSupportedLoopModes ls sd)"
proof -
  note F = fifo_ipcD [OF assms(1)] and R = roomy_ipc_ops [OF assms(2)] and S = spx_ret_served [OF assms(1-3)]
  note ints = read_one [OF fifo_opD(2) [OF F(4)]] and dbls = read_one [OF fifo_opD(2) [OF F(5)]]
  show "spx_ret I px r 26 [WriteInt32Vector I ts] sd
      = Some (if length ts > maxArrSize then (ERR_INVALID_PARAM, sd) else sd_SetMediaCenterControlType ts sd)"
    unfolding spx_ret_def assms(4)
    by (rule S [where h = "sst_SetMediaCenterControlType I", OF _ sends_Cons [OF fifo_opD(1) [OF F(4)] R(1) sends_Nil]])
      (use ints in \<open>fastforce simp: sess_handlers_def sst_SetMediaCenterControlType_def sd_codes\<close>)+
  show "spx_ret I px r 27 [WriteDoubleVector I ds] sd
      = Some (if length ds > maxArrSize then (ERR_INVALID_PARAM, sd) else sd_SetSupportedPlaySpeeds ds sd)"
    unfolding spx_ret_def assms(4)
    by (rule S [where h = "sst_SetSupportedPlaySpeeds I", OF _ sends_Cons [OF fifo_opD(1) [OF F(5)] R(2) sends_Nil]])
      (use dbls in \<open>fastforce simp: sess_handlers_def sst_SetSupportedPlaySpeeds_def sd_codes\<close>)+
  show "spx_ret I px r 28 [WriteInt32Vector I ls] sd
      = Some (if length ls > maxArrSize then (ERR_INVALID_PARAM, sd) else sd_SetSupportedLoopModes ls sd)"
    unfolding spx_ret_def assms(4)
    by (rule S [where h = "sst_SetSupportedLoopModes I", OF _ sends_Cons [OF fifo_opD(1) [OF F(4)] R(1) sends_Nil]])
      (use ints in \<open>fastforce simp: sess_handlers_def sst_SetSupportedLoopModes_def sd_codes\<close>)+
qed

lemma session_lyric_calls:
  assumes "fifo_ipc I V K" and "roomy_ipc I" and "\<not> spDestroyed px" and "r = Some (sess_stub I True e rest)"
  shows "spx_EnableDesktopLyric I px r b sd = Some (sd_EnableDesktopLyric b sd)"
    and "spx_SetDesktopLyricVisible I px r b sd = Some (sd_SetDesktopLyricVisible e b sd)"
    and "spx_SetDesktopLyricState I px r b sd = Some (sd_SetDesktopLyricState b sd)"
    and "spx_SetBackgroundPlayMode I px r mode sd =
      Some (if sint mode < ENABLE_BACKGROUND_PLAY \<or> sint mode > DISABLE_BACKGROUND_PLAY then (ERR_IPC_SEND_REQUEST, sd)
        else sd_SetBackgroundPlayMode (sint mode) sd)"
proof -
  note F = fifo_ipcD [OF assms(1)] and R = roomy_ipc_ops [OF assms(2)]
  note O = reads_ops [OF F(1)] and W = writes_ops [OF F(1)] and S = spx_ret_served [OF assms(1-3)]
  note one = sends_Cons [OF _ _ sends_Nil]
  have C: "(case x of (ret, s) \<Rightarrow> st_checked I [w_i32 I ret] ERR_NONE s) = st_ret I x" for x :: "int \<times> ('b, 'b queue_item) sess_data"
    by (cases x) (simp add: st_checked_roomy(1) [OF assms(2)])
  have B: "\<exists>p. ReadBool (ipParcel I) data = (Some b, p)" if "V data = [TBool b]" for data
    by (rule read_one [OF O(4) that])
  show "spx_EnableDesktopLyric I px r b sd = Some (sd_EnableDesktopLyric b sd)"
    unfolding spx_EnableDesktopLyric_def spx_lyric_ret_def assms(4)
    by (rule S [where h = "sst_EnableDesktopLyric I", OF _ one [OF W(4) R(4)] _ sd_codes(11)])
      (use B in \<open>force simp: sess_handlers_def sst_EnableDesktopLyric_def C\<close>)+
  show "spx_SetDesktopLyricVisible I px r b sd = Some (sd_SetDesktopLyricVisible e b sd)"
    unfolding spx_SetDesktopLyricVisible_def spx_lyric_ret_def assms(4)
    by (rule S [where h = "sst_SetDesktopLyricVisible I e", OF _ one [OF W(4) R(4)] _ sd_codes(12)])
      (use B in \<open>force simp: sess_handlers_def sst_SetDesktopLyricVisible_def C\<close>)+
  show "spx_SetDesktopLyricState I px r b sd = Some (sd_SetDesktopLyricState b sd)"
    unfolding spx_SetDesktopLyricState_def spx_lyric_ret_def assms(4)
    by (rule S [where h = "sst_SetDesktopLyricState I", OF _ one [OF W(4) R(4)] _ sd_codes(13)])
      (use B in \<open>force simp: sess_handlers_def sst_SetDesktopLyricState_def C\<close>)+
  have M: "\<exists>p. read_or 0 (ReadInt32 (ipParcel I)) data = (mode, p)" if "V data = [TI32 mode]" for data
    by (rule read_one [OF read_or_token [OF O(1)] that])
  have h: "map_of (sess_handlers I e) 34 = Some (sst_SetBackgroundPlayMode I)" by (simp add: sess_handlers_def)
  show "spx_SetBackgroundPlayMode I px r mode sd =
      Some (if sint mode < ENABLE_BACKGROUND_PLAY \<or> sint mode > DISABLE_BACKGROUND_PLAY then (ERR_IPC_SEND_REQUEST, sd)
        else sd_SetBackgroundPlayMode (sint mode) sd)"
  proof (cases "sint mode < ENABLE_BACKGROUND_PLAY \<or> sint mode > DISABLE_BACKGROUND_PLAY")
    case True
    have "spx_SetBackgroundPlayMode I px r mode sd = Some (ERR_IPC_SEND_REQUEST, sd)"
      unfolding spx_SetBackgroundPlayMode_def spx_lyric_ret_def assms(4)
      by (rule spx_refused [OF assms(1-3) h one [OF W(1) R(5)]])
        (use M True in \<open>fastforce simp: sst_SetBackgroundPlayMode_def\<close>)
    with True show ?thesis by simp
  next
    case False
    have "spx_SetBackgroundPlayMode I px r mode sd = Some (sd_SetBackgroundPlayMode (sint mode) sd)"
      unfolding spx_SetBackgroundPlayMode_def spx_lyric_ret_def assms(4)
    proof (rule S [OF h one [OF W(1) R(5)] _ sd_codes(14)])
      fix data assume "V data = [TI32 mode]"
      from M [OF this] obtain p where "read_or 0 (ReadInt32 (ipParcel I)) data = (mode, p)" by blast
      with False show "sst_SetBackgroundPlayMode I data sd = st_ret I (sd_SetBackgroundPlayMode (sint mode) sd)"
        unfolding sst_SetBackgroundPlayMode_def Let_def by (simp add: C)
    qed
    with False show ?thesis by simp
  qed
qed

section \<open>Calls whose failure is a failure of the request\<close>

lemma session_result_calls:
  assumes "fifo_ipc I V K" and "roomy_ipc I" and "\<not> spDestroyed px" and "r = Some (sess_stub I True e rest)"
  shows "spx_SetAVQueueTitle I px r t sd = Some (map_prod ipc_code id (sd_SetAVQueueTitle t sd))"
    and "ps_IsValid state \<Longrightarrow> spx_SetAVPlaybackState I px r state sd
      = Some (map_prod ipc_code id (sd_SetAVPlaybackState (seWeq e) state sd))"
    and "int (length xs) < 2 ^ 31 \<Longrightarrow> queue_arrives maxQueueItemLength xs = Some ys
      \<Longrightarrow> spx_SetAVQueueItems I px r xs sd = Some (map_prod ipc_code id (sd_SetAVQueueItems ys sd))"
    and "int (length xs) < 2 ^ 31 \<Longrightarrow> queue_arrives maxQueueItemLength xs = None
      \<Longrightarrow> spx_SetAVQueueItems I px r xs sd = Some (ERR_IPC_SEND_REQUEST, sd)"
    and "spx_Destroy I px r sd = Some (AVSESSION_SUCCESS, px\<lparr>spDestroyed := True, spController := None\<rparr>, snd (sd_Destroy e sd))"
proof -
  note F = fifo_ipcD [OF assms(1)] and R = roomy_ipc_ops [OF assms(2)]
  note O = reads_ops [OF F(1)] and W = writes_ops [OF F(1)] and S = spx_result_served [OF assms(1-3)]
  note one = sends_Cons [OF _ _ sends_Nil]
  show "spx_SetAVQueueTitle I px r t sd = Some (map_prod ipc_code id (sd_SetAVQueueTitle t sd))"
    unfolding spx_SetAVQueueTitle_def spx_ret_def assms(4)
    by (rule S [where h = "sst_SetAVQueueTitle I", OF _ one [OF W(5) R(3)]])
      (use read_one [OF O(5), of _ t] in \<open>force simp: sess_handlers_def sst_SetAVQueueTitle_def\<close>)+
  {
    assume "ps_IsValid state"
    then have range: "PLAYBACK_STATE_INITIAL \<le> sint (psState state)" "sint (psState state) < PLAYBACK_STATE_MAX"
      by (simp_all add: ps_IsValid_def)
    from state_crosses [OF assms(1,2) range] obtain us
      where us: "writes V (WriteParcelable (ipParcel I) (Some (ps_Marshalling (ipParcel I) state))) us"
        "\<And>p. fst (WriteParcelable (ipParcel I) (Some (ps_Marshalling (ipParcel I) state)) p)"
        "reads_value V (ReadState I (ps_Unmarshalling (ipParcel I))) us (Some state)" by blast
    have sent: "sends V [WriteParcelable (ipParcel I) (Some (ps_Marshalling (ipParcel I) state))] us"
      using sends_Cons_list [OF us(1,2) sends_Nil] by simp
    have got: "sst_SetAVPlaybackState I e data sd = st_result I (sd_SetAVPlaybackState (seWeq e) state sd)" if "V data = us" for data
      using reads_valueD [OF us(3), of data "[]"] that by (auto simp: sst_SetAVPlaybackState_def)
    have "spx_ret I px r 5 [WriteParcelable (ipParcel I) (Some (ps_Marshalling (ipParcel I) state))] sd
        = Some (map_prod ipc_code id (sd_SetAVPlaybackState (seWeq e) state sd))"
      unfolding spx_ret_def assms(4)
      by (rule S [where h = "sst_SetAVPlaybackState I e", OF _ sent got]) (simp_all add: sess_handlers_def)
    with \<open>ps_IsValid state\<close> show "spx_SetAVPlaybackState I px r state sd
        = Some (map_prod ipc_code id (sd_SetAVPlaybackState (seWeq e) state sd))" by (simp add: spx_SetAVPlaybackState_def)
  }
  let ?ts = "TI32 (word_of_int (int (length xs))) # items_tokens xs"
  have "fst (w_items I xs p)" "writes V (w_items I xs) ?ts" for p
    using items_cross(1) [OF assms(1,2), of xs] unfolding w_items_def sends_def by blast+
  from sends_Cons_list [OF this(2,1) sends_Nil] have sent: "sends V [w_items I xs] ?ts" by simp
  have h: "map_of (sess_handlers I e) 7 = Some (sst_SetAVQueueItems I)" by (simp add: sess_handlers_def)
  {
    assume len: "int (length xs) < 2 ^ 31"
    have read: "\<exists>p'. read_items I maxQueueItemLength data = (queue_arrives maxQueueItemLength xs, p')" if "V data = ?ts" for data
      using items_cross(2) [OF assms(1,2) len, of data "[]" maxQueueItemLength] that by auto
    {
      assume arr: "queue_arrives maxQueueItemLength xs = Some ys"
      have got: "sst_SetAVQueueItems I data sd = st_result I (sd_SetAVQueueItems ys sd)" if "V data = ?ts" for data
        using read [OF that] arr by (auto simp: sst_SetAVQueueItems_def)
      show "spx_SetAVQueueItems I px r xs sd = Some (map_prod ipc_code id (sd_SetAVQueueItems ys sd))"
        unfolding spx_SetAVQueueItems_def spx_ret_def assms(4) by (rule S [OF h sent got])
    }
    assume arr: "queue_arrives maxQueueItemLength xs = None"
    have got: "\<exists>reply. sst_SetAVQueueItems I data sd = Some (ERR_UNMARSHALLING, reply, sd)" if "V data = ?ts" for data
      using read [OF that] arr by (auto simp: sst_SetAVQueueItems_def)
    show "spx_SetAVQueueItems I px r xs sd = Some (ERR_IPC_SEND_REQUEST, sd)"
      unfolding spx_SetAVQueueItems_def spx_ret_def assms(4) by (rule spx_refused [OF assms(1-3) h sent got])
  }
  have "spx_ret I px r 18 [] sd = Some (map_prod ipc_code id (sd_Destroy e sd))"
    unfolding spx_ret_def assms(4)
    by (rule S [where h = "sst_Destroy I e", OF _ sends_Nil])
      (simp_all add: sess_handlers_def sst_Destroy_def st_result_def sd_Destroy_def)
  then show "spx_Destroy I px r sd
      = Some (AVSESSION_SUCCESS, px\<lparr>spDestroyed := True, spController := None\<rparr>, snd (sd_Destroy e sd))"
    by (simp add: spx_Destroy_def sd_Destroy_def ipc_code_def)
qed

end
