(* ===== verification/ControllerIpc.thy ===== *)
theory ControllerIpc
  imports Ipc
begin

text \<open>
  The stub of a controller in the service (\<^verbatim>\<open>avsession_controller_stub.cpp\<close>) and its proxy in the
  client (\<^verbatim>\<open>avsession_controller_proxy.cpp\<close>). Behind the stub is the controller of
  \<^verbatim>\<open>avcontroller_item.cpp\<close> as modelled in \<open>SessionData\<close> and \<open>SessionCommands\<close>. Not modelled: metadata,
  extras, call data and the launch ability, whose codes go to \<open>rest\<close>.
\<close>

section \<open>The controller behind the stub\<close>

text \<open>
  What the environment says about a call: the caller, its process, the custom data's type check, what
  the migration callback returns, whether the lyric ability starts.
\<close>

record 'w call_env =
  ceCaller :: caller
  cePid :: int
  ceCustomData :: "'w \<Rightarrow> string option"
  ceProxyRet :: "int option"
  ceStartOk :: bool

text \<open>
  The controller: its process, session and limit of commands. \<open>csOwn\<close> holds its own fields; a session
  has its controllers by value, so an update of them is made there too.
\<close>

record 'w ctrl_server =
  csPid :: int
  csSession :: "('w, 'w queue_item) sess_data option"
  csLimit :: command_limit
  csOwn :: ctrl_data
  csSessionId :: string
  csUserId :: int

definition cs_own :: "(ctrl_data \<Rightarrow> int \<times> ctrl_data) \<Rightarrow> 'w ctrl_server \<Rightarrow> int \<times> 'w ctrl_server" where
  "cs_own f s = (fst (f (csOwn s)),
     s\<lparr>csOwn := snd (f (csOwn s)),
       csSession := map_option (\<lambda>sd. sd\<lparr>sdControllers :=
         map (\<lambda>(p, c). (p, if p = csPid s then snd (f c) else c)) (sdControllers sd)\<rparr>) (csSession s)\<rparr>)"

definition cs_session :: "(('w, 'w queue_item) sess_data option \<Rightarrow> int \<times> ('w, 'w queue_item) sess_data option) \<Rightarrow> 'w ctrl_server
    \<Rightarrow> int \<times> 'w ctrl_server" where
  "cs_session f s = (case f (csSession s) of (r, sd) \<Rightarrow> (r, s\<lparr>csSession := sd\<rparr>))"

definition cs_SendControlCommand :: "'w call_env \<Rightarrow> control_command \<Rightarrow> 'w ctrl_server \<Rightarrow> (int \<times> 'w ctrl_server) option" where
  "cs_SendControlCommand e cmd s =
     map_option (\<lambda>(r, sd, cl). (r, s\<lparr>csSession := sd, csLimit := cl\<rparr>))
       (cd_SendControlCommand (ceCaller e) (cePid e) cmd (csSession s, csLimit s))"

definition cs_SendCommonCommand :: "'w call_env \<Rightarrow> string \<Rightarrow> 'w \<Rightarrow> 'w ctrl_server \<Rightarrow> int \<times> 'w ctrl_server" where
  "cs_SendCommonCommand e name args s =
     (case cd_SendCommonCommand (ceProxyRet e) (cePid e) name args (csSession s, csLimit s) of (r, sd, cl) \<Rightarrow>
        (r, s\<lparr>csSession := sd, csLimit := cl\<rparr>))"

text \<open>The getters of the lyric ask the session, whose answer may be an error.\<close>

definition cd_ask :: "(('w, 'w queue_item) sess_data \<Rightarrow> int + 'r) \<Rightarrow> ('w, 'w queue_item) sess_data option \<Rightarrow> int + 'r" where
  "cd_ask f session = (case session of None \<Rightarrow> Inl ERR_SESSION_NOT_EXIST | Some sd \<Rightarrow> f sd)"

definition cd_IsDesktopLyricEnabled :: "('w, 'w queue_item) sess_data option \<Rightarrow> int + bool" where
  "cd_IsDesktopLyricEnabled session = cd_ask sd_IsDesktopLyricEnabled session"

definition cd_IsDesktopLyricVisible :: "('w, 'w queue_item) sess_data option \<Rightarrow> int + bool" where
  "cd_IsDesktopLyricVisible session = cd_ask sd_IsDesktopLyricVisible session"

definition cd_GetDesktopLyricState :: "('w, 'w queue_item) sess_data option \<Rightarrow> int + bool" where
  "cd_GetDesktopLyricState session = cd_ask sd_GetDesktopLyricState session"

section \<open>The stub\<close>

definition cst_RegisterCallbackInner :: "('p, 'w) ipc_ops \<Rightarrow> 'w call_env \<Rightarrow> ('p, 'w ctrl_server) handler" where
  "cst_RegisterCallbackInner I e data s = (case ReadRemoteObject I data of
     (None, _) \<Rightarrow> st_ret I (ERR_UNMARSHALLING, s)
   | (Some remoteObject, _) \<Rightarrow> st_ret I (cs_own (cd_RegisterCallbackInner (csPid s) (ceProxyRet e \<noteq> None) (cePid e) True) s))"

definition cst_GetAVPlaybackState :: "('p, 'w) ipc_ops \<Rightarrow> ('p, 'w ctrl_server) handler" where
  "cst_GetAVPlaybackState I data s =
     st_value I (\<lambda>state. WriteParcelable (ipParcel I) (Some (ps_Marshalling (ipParcel I) state)))
       (cd_GetAVPlaybackState (csSession s), s)"

definition cst_SendAVKeyEvent :: "('p, 'w) ipc_ops \<Rightarrow> ('p, 'w ctrl_server) handler" where
  "cst_SendAVKeyEvent I data s = (case ReadKey I data of
     (None, _) \<Rightarrow> st_ret I (ERR_UNMARSHALLING, s)
   | (Some event, _) \<Rightarrow> st_ret I (cs_session (cd_SendAVKeyEvent event) s))"

definition cst_GetValidCommands :: "('p, 'w) ipc_ops \<Rightarrow> ('p, 'w ctrl_server) handler" where
  "cst_GetValidCommands I data s = st_value I (WriteInt32Vector I) (cd_GetValidCommands (csSession s), s)"

definition cst_SendControlCommand :: "('p, 'w) ipc_ops \<Rightarrow> 'w call_env \<Rightarrow> ('p, 'w ctrl_server) handler" where
  "cst_SendControlCommand I e data s = (case ReadCommand I (cc_Unmarshalling (ipParcel I)) data of
     (None, _) \<Rightarrow> st_ret I (ERR_UNMARSHALLING, s)
   | (Some cmd, _) \<Rightarrow> Option.bind (cs_SendControlCommand e cmd s) (st_ret I))"

definition cst_SendCommonCommand :: "('p, 'w) ipc_ops \<Rightarrow> 'w call_env \<Rightarrow> ('p, 'w ctrl_server) handler" where
  "cst_SendCommonCommand I e data s = (case read_string I data of (commonCommand, data) \<Rightarrow>
     (case ReadWantParams (ipParcel I) data of
        (None, _) \<Rightarrow> st_ret I (ERR_UNMARSHALLING, s)
      | (Some commandArgs, _) \<Rightarrow> st_ret I (cs_SendCommonCommand e commonCommand commandArgs s)))"

definition cst_SendCustomData :: "('p, 'w) ipc_ops \<Rightarrow> 'w call_env \<Rightarrow> ('p, 'w ctrl_server) handler" where
  "cst_SendCustomData I e data s = (case ReadWantParams (ipParcel I) data of
     (None, _) \<Rightarrow> st_ret I (ERR_UNMARSHALLING, s)
   | (Some customData, _) \<Rightarrow> st_ret I (cs_session (cd_SendCustomData (ceCustomData e) customData) s))"

text \<open>The checks of a mask that came as a string.\<close>

definition bad_mask :: "nat \<Rightarrow> string \<Rightarrow> bool" where
  "bad_mask n str \<longleftrightarrow> length str \<noteq> n \<or> list_ex (\<lambda>c. c \<notin> {CHR ''0'', CHR ''1''}) str"

definition cst_SetMetaFilter :: "('p, 'w) ipc_ops \<Rightarrow> ('p, 'w ctrl_server) handler" where
  "cst_SetMetaFilter I data s = (case read_string I data of (str, _) \<Rightarrow>
     if bad_mask META_KEY_MAX str then st_ret I (ERR_UNMARSHALLING, s)
     else st_ret I (cs_own (cd_SetMetaFilter (bitset_of_string str)) s))"

definition cst_SetPlaybackFilter :: "('p, 'w) ipc_ops \<Rightarrow> ('p, 'w ctrl_server) handler" where
  "cst_SetPlaybackFilter I data s = (case read_string I data of (str, _) \<Rightarrow>
     if bad_mask PLAYBACK_KEY_MAX str then st_ret I (ERR_UNMARSHALLING, s)
     else st_ret I (cs_own (cd_SetPlaybackFilter (bitset_of_string str)) s))"

definition cst_IsSessionActive :: "('p, 'w) ipc_ops \<Rightarrow> ('p, 'w ctrl_server) handler" where
  "cst_IsSessionActive I data s = st_value I (WriteBool (ipParcel I)) (cd_IsSessionActive (csSession s), s)"

definition cst_GetSessionId :: "('p, 'w) ipc_ops \<Rightarrow> ('p, 'w ctrl_server) handler" where
  "cst_GetSessionId I data s = Some (ERR_NONE, st_reply I [WriteString (ipParcel I) (csSessionId s)], s)"

definition cst_GetUserId :: "('p, 'w) ipc_ops \<Rightarrow> ('p, 'w ctrl_server) handler" where
  "cst_GetUserId I data s = Some (ERR_NONE, st_reply I [w_i32 I (csUserId s)], s)"

definition cst_GetAVQueueItems :: "('p, 'w) ipc_ops \<Rightarrow> ('p, 'w ctrl_server) handler" where
  "cst_GetAVQueueItems I data s = st_value I (w_items I) (cd_GetAVQueueItems (csSession s), s)"

definition cst_GetAVQueueTitle :: "('p, 'w) ipc_ops \<Rightarrow> ('p, 'w ctrl_server) handler" where
  "cst_GetAVQueueTitle I data s = st_value I (WriteString (ipParcel I)) (cd_GetAVQueueTitle (csSession s), s)"

definition cst_SkipToQueueItem :: "('p, 'w) ipc_ops \<Rightarrow> ('p, 'w ctrl_server) handler" where
  "cst_SkipToQueueItem I data s = (case ReadInt32 (ipParcel I) data of
     (None, _) \<Rightarrow> Some (ERR_NONE, ipEmpty I, s)
   | (Some itemId, _) \<Rightarrow> st_ret I (cs_session (cd_SkipToQueueItem (sint itemId)) s))"

definition cst_GetMediaCenterControlType :: "('p, 'w) ipc_ops \<Rightarrow> ('p, 'w ctrl_server) handler" where
  "cst_GetMediaCenterControlType I data s =
     st_value I (WriteInt32Vector I) (cd_GetMediaCenterControlType (csSession s), s)"

definition cst_GetSupportedPlaySpeeds :: "('p, 'w) ipc_ops \<Rightarrow> ('p, 'w ctrl_server) handler" where
  "cst_GetSupportedPlaySpeeds I data s = st_value I (WriteDoubleVector I) (cd_GetSupportedPlaySpeeds (csSession s), s)"

definition cst_GetSupportedLoopModes :: "('p, 'w) ipc_ops \<Rightarrow> ('p, 'w ctrl_server) handler" where
  "cst_GetSupportedLoopModes I data s = st_value I (WriteInt32Vector I) (cd_GetSupportedLoopModes (csSession s), s)"

definition cst_IsDesktopLyricEnabled :: "('p, 'w) ipc_ops \<Rightarrow> ('p, 'w ctrl_server) handler" where
  "cst_IsDesktopLyricEnabled I data s = st_lyric I (cd_IsDesktopLyricEnabled (csSession s)) s"

text \<open>This handler alone returns the result of the call as the result of the request.\<close>

definition cst_SetDesktopLyricVisible :: "('p, 'w) ipc_ops \<Rightarrow> 'w call_env \<Rightarrow> ('p, 'w ctrl_server) handler" where
  "cst_SetDesktopLyricVisible I e data s = (case ReadBool (ipParcel I) data of
     (None, _) \<Rightarrow> Some (ERR_UNMARSHALLING, ipEmpty I, s)
   | (Some isVisible, _) \<Rightarrow>
       (case cs_session (cd_SetDesktopLyricVisible (ceStartOk e) isVisible (crBundle (ceCaller e))) s of (ret, s) \<Rightarrow>
          st_checked I [w_i32 I ret] ret s))"

definition cst_IsDesktopLyricVisible :: "('p, 'w) ipc_ops \<Rightarrow> ('p, 'w ctrl_server) handler" where
  "cst_IsDesktopLyricVisible I data s = st_lyric I (cd_IsDesktopLyricVisible (csSession s)) s"

definition cst_SetDesktopLyricState :: "('p, 'w) ipc_ops \<Rightarrow> 'w call_env \<Rightarrow> ('p, 'w ctrl_server) handler" where
  "cst_SetDesktopLyricState I e data s = (case ReadBool (ipParcel I) data of
     (None, _) \<Rightarrow> Some (ERR_UNMARSHALLING, ipEmpty I, s)
   | (Some isLocked, _) \<Rightarrow>
       (case cs_session (cd_SetDesktopLyricState isLocked (crBundle (ceCaller e))) s of (ret, s) \<Rightarrow>
          st_checked I [w_i32 I ret] ERR_NONE s))"

definition cst_GetDesktopLyricState :: "('p, 'w) ipc_ops \<Rightarrow> ('p, 'w ctrl_server) handler" where
  "cst_GetDesktopLyricState I data s = st_lyric I (cd_GetDesktopLyricState (csSession s)) s"

text \<open>The request codes are the numbers of the enumeration in \<^verbatim>\<open>iavsession_controller.h\<close>.\<close>

definition ctrl_handlers :: "('p, 'w) ipc_ops \<Rightarrow> 'w call_env \<Rightarrow> (nat \<times> ('p, 'w ctrl_server) handler) list" where
  "ctrl_handlers I e = [
     (0, cst_RegisterCallbackInner I e), (2, cst_GetAVPlaybackState I), (4, cst_SendAVKeyEvent I),
     (6, cst_GetValidCommands I), (7, cst_SendControlCommand I e), (8, cst_SendCommonCommand I e),
     (23, cst_SendCustomData I e), (9, cst_SetMetaFilter I), (10, cst_SetPlaybackFilter I),
     (11, cst_IsSessionActive I), (12, cst_GetSessionId I), (13, cst_GetUserId I),
     (14, cst_GetAVQueueItems I), (15, cst_GetAVQueueTitle I), (16, cst_SkipToQueueItem I),
     (24, cst_GetMediaCenterControlType I), (25, cst_GetSupportedPlaySpeeds I), (26, cst_GetSupportedLoopModes I),
     (27, cst_IsDesktopLyricEnabled I), (28, cst_SetDesktopLyricVisible I e), (29, cst_IsDesktopLyricVisible I),
     (30, cst_SetDesktopLyricState I e), (31, cst_GetDesktopLyricState I)]"

definition controllerDescriptor :: string where "controllerDescriptor = ''ohos.avsession.IAVSessionController''"

definition ctrl_stub :: "('p, 'w) ipc_ops \<Rightarrow> bool \<Rightarrow> 'w call_env \<Rightarrow> ('p, 'w ctrl_server) remote
    \<Rightarrow> ('p, 'w ctrl_server) remote" where
  "ctrl_stub I isLocal e rest = OnRemoteRequest I controllerDescriptor isLocal (ctrl_handlers I e) rest"

end
