(* ===== verification/ControllerProxy.thy ===== *)
theory ControllerProxy
  imports ControllerIpc
begin

text \<open>
  The proxy of a controller (\<^verbatim>\<open>avsession_controller_proxy.cpp\<close>), one definition for each method. The state
  \<open>'s\<close> is that of the service behind \<open>remote\<close>; the proxy's own fields are the record \<open>ctrl_proxy\<close>.
\<close>

section \<open>The proxy\<close>

record 'w ctrl_proxy =
  pxDestroyed :: bool
  pxCurrentState :: "'w playback_state"

definition new_ctrl_proxy :: "'w ctrl_proxy" where
  "new_ctrl_proxy = \<lparr>pxDestroyed = False, pxCurrentState = new_playback_state\<rparr>"

definition cpx_send :: "('p, 'w) ipc_ops \<Rightarrow> 'w ctrl_proxy \<Rightarrow> ('p, 's) remote option \<Rightarrow> nat \<Rightarrow> ('p \<Rightarrow> bool \<times> 'p) list
    \<Rightarrow> 's \<Rightarrow> ((int + 'p) \<times> 's) option" where
  "cpx_send I px remote code ws s = px_send I controllerDescriptor ERR_CONTROLLER_NOT_EXIST (pxDestroyed px) remote code ws s"

text \<open>Most methods end in one of two ways: with the result code, or with a code and an out parameter.\<close>

definition cpx_ret :: "('p, 'w) ipc_ops \<Rightarrow> 'w ctrl_proxy \<Rightarrow> ('p, 's) remote option \<Rightarrow> nat \<Rightarrow> ('p \<Rightarrow> bool \<times> 'p) list
    \<Rightarrow> 's \<Rightarrow> (int \<times> 's) option" where
  "cpx_ret I px remote code ws s = px_call (px_ret I AVSESSION_ERROR) (cpx_send I px remote code ws s)"

definition cpx_get :: "('p, 'w) ipc_ops \<Rightarrow> 'w ctrl_proxy \<Rightarrow> ('p, 's) remote option \<Rightarrow> nat
    \<Rightarrow> ('p \<Rightarrow> 'v option \<times> 'p) \<Rightarrow> 's \<Rightarrow> ((int + 'v) \<times> 's) option" where
  "cpx_get I px remote code rd s = px_call (px_value I rd) (cpx_send I px remote code [] s)"

definition cpx_GetAVPlaybackState :: "('p, 'w) ipc_ops \<Rightarrow> 'w ctrl_proxy \<Rightarrow> ('p, 's) remote option \<Rightarrow> 's
    \<Rightarrow> ((int + 'w playback_state) \<times> 'w ctrl_proxy \<times> 's) option" where
  "cpx_GetAVPlaybackState I px remote s =
     map_option (\<lambda>(x, s). (x, case x of Inr state \<Rightarrow> px\<lparr>pxCurrentState := state\<rparr> | Inl _ \<Rightarrow> px, s))
       (cpx_get I px remote 2 (ReadState I (ps_Unmarshalling (ipParcel I))) s)"

definition maxItemNumber :: int where "maxItemNumber = 1000"

definition cpx_GetAVQueueItems :: "('p, 'w) ipc_ops \<Rightarrow> 'w ctrl_proxy \<Rightarrow> ('p, 's) remote option \<Rightarrow> 's
    \<Rightarrow> ((int + 'w queue_item list) \<times> 's) option" where
  "cpx_GetAVQueueItems I px remote s = cpx_get I px remote 14 (read_items I maxItemNumber) s"

definition cpx_GetAVQueueTitle :: "('p, 'w) ipc_ops \<Rightarrow> 'w ctrl_proxy \<Rightarrow> ('p, 's) remote option \<Rightarrow> 's
    \<Rightarrow> ((int + string) \<times> 's) option" where
  "cpx_GetAVQueueTitle I px remote s = cpx_get I px remote 15 (ReadString (ipParcel I)) s"

definition cpx_SkipToQueueItem :: "('p, 'w) ipc_ops \<Rightarrow> 'w ctrl_proxy \<Rightarrow> ('p, 's) remote option \<Rightarrow> i32 \<Rightarrow> 's
    \<Rightarrow> (int \<times> 's) option" where
  "cpx_SkipToQueueItem I px remote itemId s = cpx_ret I px remote 16 [WriteInt32 (ipParcel I) itemId] s"

definition cpx_GetMediaCenterControlType :: "('p, 'w) ipc_ops \<Rightarrow> 'w ctrl_proxy \<Rightarrow> ('p, 's) remote option \<Rightarrow> 's
    \<Rightarrow> ((int + i32 list) \<times> 's) option" where
  "cpx_GetMediaCenterControlType I px remote s = cpx_get I px remote 24 (ReadInt32Vector I) s"

definition cpx_GetSupportedPlaySpeeds :: "('p, 'w) ipc_ops \<Rightarrow> 'w ctrl_proxy \<Rightarrow> ('p, 's) remote option \<Rightarrow> 's
    \<Rightarrow> ((int + dbl list) \<times> 's) option" where
  "cpx_GetSupportedPlaySpeeds I px remote s = cpx_get I px remote 25 (ReadDoubleVector I) s"

definition cpx_GetSupportedLoopModes :: "('p, 'w) ipc_ops \<Rightarrow> 'w ctrl_proxy \<Rightarrow> ('p, 's) remote option \<Rightarrow> 's
    \<Rightarrow> ((int + i32 list) \<times> 's) option" where
  "cpx_GetSupportedLoopModes I px remote s = cpx_get I px remote 26 (ReadInt32Vector I) s"

definition cpx_GetValidCommands :: "('p, 'w) ipc_ops \<Rightarrow> 'w ctrl_proxy \<Rightarrow> ('p, 's) remote option \<Rightarrow> 's
    \<Rightarrow> ((int + i32 list) \<times> 's) option" where
  "cpx_GetValidCommands I px remote s = cpx_get I px remote 6 (ReadInt32Vector I) s"

definition cpx_IsSessionActive :: "('p, 'w) ipc_ops \<Rightarrow> 'w ctrl_proxy \<Rightarrow> ('p, 's) remote option \<Rightarrow> 's
    \<Rightarrow> ((int + bool) \<times> 's) option" where
  "cpx_IsSessionActive I px remote s = cpx_get I px remote 11 (ReadBool (ipParcel I)) s"

text \<open>What the senders do first: they ask whether the session is active, in a request of its own.\<close>

definition cpx_when_active :: "('p, 'w) ipc_ops \<Rightarrow> 'w ctrl_proxy \<Rightarrow> ('p, 's) remote option
    \<Rightarrow> ('s \<Rightarrow> (int \<times> 's) option) \<Rightarrow> 's \<Rightarrow> (int \<times> 's) option" where
  "cpx_when_active I px remote f s = Option.bind (cpx_IsSessionActive I px remote s) (\<lambda>(x, s).
     case x of Inl e \<Rightarrow> Some (e, s) | Inr isActive \<Rightarrow> if isActive then f s else Some (ERR_SESSION_DEACTIVE, s))"

text \<open>\<open>valid\<close> is the answer of \<^verbatim>\<open>IsValid\<close> of the key event.\<close>

definition cpx_SendAVKeyEvent :: "('p, 'w) ipc_ops \<Rightarrow> 'w ctrl_proxy \<Rightarrow> ('p, 's) remote option \<Rightarrow> bool \<Rightarrow> key_code \<Rightarrow> 's
    \<Rightarrow> (int \<times> 's) option" where
  "cpx_SendAVKeyEvent I px remote valid keyEvent s =
     (if pxDestroyed px then Some (ERR_CONTROLLER_NOT_EXIST, s)
      else if \<not> valid then Some (ERR_COMMAND_NOT_SUPPORT, s)
      else cpx_when_active I px remote (cpx_ret I px remote 4 [WriteKey I keyEvent]) s)"

definition cpx_SendControlCommand :: "('p, 'w) ipc_ops \<Rightarrow> 'w ctrl_proxy \<Rightarrow> ('p, 's) remote option \<Rightarrow> control_command \<Rightarrow> 's
    \<Rightarrow> (int \<times> 's) option" where
  "cpx_SendControlCommand I px remote cmd s =
     (if pxDestroyed px then Some (ERR_CONTROLLER_NOT_EXIST, s)
      else if \<not> cc_IsValid cmd then Some (ERR_COMMAND_NOT_SUPPORT, s)
      else cpx_when_active I px remote
        (cpx_ret I px remote 7 [WriteParcelable (ipParcel I) (Some (cc_Marshalling (ipParcel I) cmd))]) s)"

definition cpx_SendCommonCommand :: "('p, 'w) ipc_ops \<Rightarrow> 'w ctrl_proxy \<Rightarrow> ('p, 's) remote option \<Rightarrow> string \<Rightarrow> 'w \<Rightarrow> 's
    \<Rightarrow> (int \<times> 's) option" where
  "cpx_SendCommonCommand I px remote commonCommand commandArgs s =
     (if pxDestroyed px then Some (ERR_CONTROLLER_NOT_EXIST, s)
      else cpx_when_active I px remote (cpx_ret I px remote 8
        [WriteString (ipParcel I) commonCommand, WriteWantParams (ipParcel I) (Some commandArgs)]) s)"

definition cpx_SendCustomData :: "('p, 'w) ipc_ops \<Rightarrow> 'w ctrl_proxy \<Rightarrow> ('p, 's) remote option \<Rightarrow> 'w \<Rightarrow> 's
    \<Rightarrow> (int \<times> 's) option" where
  "cpx_SendCustomData I px remote data s =
     (if pxDestroyed px then Some (ERR_CONTROLLER_NOT_EXIST, s)
      else cpx_when_active I px remote (cpx_ret I px remote 23 [WriteWantParams (ipParcel I) (Some data)]) s)"

definition cpx_SetMetaFilter :: "('p, 'w) ipc_ops \<Rightarrow> 'w ctrl_proxy \<Rightarrow> ('p, 's) remote option \<Rightarrow> 28 word \<Rightarrow> 's
    \<Rightarrow> (int \<times> 's) option" where
  "cpx_SetMetaFilter I px remote filt s = cpx_ret I px remote 9 [WriteString (ipParcel I) (bitset_to_string filt)] s"

definition cpx_SetPlaybackFilter :: "('p, 'w) ipc_ops \<Rightarrow> 'w ctrl_proxy \<Rightarrow> ('p, 's) remote option \<Rightarrow> 14 word \<Rightarrow> 's
    \<Rightarrow> (int \<times> 's) option" where
  "cpx_SetPlaybackFilter I px remote filt s = cpx_ret I px remote 10 [WriteString (ipParcel I) (bitset_to_string filt)] s"

text \<open>\<^verbatim>\<open>RegisterCallbackInner\<close> does not look whether the proxy is destroyed; \<^verbatim>\<open>RegisterCallback\<close> does.\<close>

definition cpx_RegisterCallbackInner :: "('p, 'w) ipc_ops \<Rightarrow> ('p, 's) remote option \<Rightarrow> nat \<Rightarrow> 's \<Rightarrow> (int \<times> 's) option" where
  "cpx_RegisterCallbackInner I remote callback s =
     px_call (px_ret I AVSESSION_ERROR)
       (px_send I controllerDescriptor ERR_CONTROLLER_NOT_EXIST False remote 0 [WriteRemoteObject I callback] s)"

definition cpx_RegisterCallback :: "('p, 'w) ipc_ops \<Rightarrow> 'w ctrl_proxy \<Rightarrow> ('p, 's) remote option \<Rightarrow> nat \<Rightarrow> 's \<Rightarrow> (int \<times> 's) option" where
  "cpx_RegisterCallback I px remote callback s =
     (if pxDestroyed px then Some (ERR_CONTROLLER_NOT_EXIST, s) else cpx_RegisterCallbackInner I remote callback s)"

text \<open>The listener that the callback client gets.\<close>

definition cpx_on_playback_state :: "'w playback_state \<Rightarrow> 'w ctrl_proxy \<Rightarrow> 'w ctrl_proxy" where
  "cpx_on_playback_state state px = px\<lparr>pxCurrentState := state\<rparr>"

definition cpx_GetSessionId :: "('p, 'w) ipc_ops \<Rightarrow> 'w ctrl_proxy \<Rightarrow> ('p, 's) remote option \<Rightarrow> 's \<Rightarrow> (string \<times> 's) option" where
  "cpx_GetSessionId I px remote s = px_call (\<lambda>x. case x of Inl _ \<Rightarrow> []
     | Inr reply \<Rightarrow> fst (read_or [] (ReadString (ipParcel I)) reply)) (cpx_send I px remote 12 [] s)"

definition cpx_GetUserId :: "('p, 'w) ipc_ops \<Rightarrow> 'w ctrl_proxy \<Rightarrow> ('p, 's) remote option \<Rightarrow> 's \<Rightarrow> (int \<times> 's) option" where
  "cpx_GetUserId I px remote s = px_call (\<lambda>x. case x of Inl _ \<Rightarrow> -1
     | Inr reply \<Rightarrow> sint (fst (read_or (-1) (ReadInt32 (ipParcel I)) reply))) (cpx_send I px remote 13 [] s)"

text \<open>\<open>now\<close>: the time of day in milliseconds.\<close>

definition cpx_GetRealPlaybackPosition :: "i64 \<Rightarrow> 'w ctrl_proxy \<Rightarrow> i64" where
  "cpx_GetRealPlaybackPosition now px =
     (let position = psPosition (pxCurrentState px)
      in if \<not> sint (updateTime position) > 0 then 0 else elapsedTime position + (now - updateTime position))"

definition cpx_IsDestroy :: "'w ctrl_proxy \<Rightarrow> bool" where
  "cpx_IsDestroy px = pxDestroyed px"

definition cpx_IsDesktopLyricEnabled :: "('p, 'w) ipc_ops \<Rightarrow> 'w ctrl_proxy \<Rightarrow> ('p, 's) remote option \<Rightarrow> 's
    \<Rightarrow> ((int + bool) \<times> 's) option" where
  "cpx_IsDesktopLyricEnabled I px remote s = cpx_get I px remote 27 (ReadBool (ipParcel I)) s"

definition cpx_SetDesktopLyricVisible :: "('p, 'w) ipc_ops \<Rightarrow> 'w ctrl_proxy \<Rightarrow> ('p, 's) remote option \<Rightarrow> bool \<Rightarrow> 's
    \<Rightarrow> (int \<times> 's) option" where
  "cpx_SetDesktopLyricVisible I px remote isVisible s =
     px_call (px_ret I ERR_UNMARSHALLING) (cpx_send I px remote 28 [WriteBool (ipParcel I) isVisible] s)"

definition cpx_IsDesktopLyricVisible :: "('p, 'w) ipc_ops \<Rightarrow> 'w ctrl_proxy \<Rightarrow> ('p, 's) remote option \<Rightarrow> 's
    \<Rightarrow> ((int + bool) \<times> 's) option" where
  "cpx_IsDesktopLyricVisible I px remote s = cpx_get I px remote 29 (ReadBool (ipParcel I)) s"

definition cpx_SetDesktopLyricState :: "('p, 'w) ipc_ops \<Rightarrow> 'w ctrl_proxy \<Rightarrow> ('p, 's) remote option \<Rightarrow> bool \<Rightarrow> 's
    \<Rightarrow> (int \<times> 's) option" where
  "cpx_SetDesktopLyricState I px remote isLocked s =
     px_call (px_ret I ERR_UNMARSHALLING) (cpx_send I px remote 30 [WriteBool (ipParcel I) isLocked] s)"

definition cpx_GetDesktopLyricState :: "('p, 'w) ipc_ops \<Rightarrow> 'w ctrl_proxy \<Rightarrow> ('p, 's) remote option \<Rightarrow> 's
    \<Rightarrow> ((int + bool) \<times> 's) option" where
  "cpx_GetDesktopLyricState I px remote s = cpx_get I px remote 31 (ReadBool (ipParcel I)) s"

end
