(* ===== verification/ControllerRemote.thy ===== *)
theory ControllerRemote
  imports ControllerProxy IpcServed SessionSafe
begin

text \<open>
  Calls of a controller through its proxy and stub. \<open>ctrl_own\<close> is the call of the controller itself. On the way
  three things can differ, and each has a definition of its own: a call that the proxy refuses (\<open>ctrl_refused\<close>), an argument
  that loses a part in the parcel (\<open>ctrl_sent\<close>) and a result that is lost (\<open>ctrl_masked\<close>).
\<close>

section \<open>Calls and answers\<close>

datatype 'w ctrl_call = CGetState | CQueueItems | CQueueTitle | CControlTypes | CSpeeds | CLoopModes | CValidCommands
  | CIsActive | CSkip i32 | CKeyEvent key_code | CCommand control_command | CCommon string 'w | CCustom 'w
  | CMetaFilter "28 word" | CPlaybackFilter "14 word" | CRegister nat | CSessionId | CUserId
  | CLyricEnabled | CLyricVisible | CLyricState | CSetLyricVisible bool | CSetLyricState bool

datatype 'w ctrl_answer = AState "int + 'w playback_state" | AItems "int + 'w queue_item list" | AString "int + string"
  | AInts "int + i32 list" | ADbls "int + dbl list" | ABool "int + bool" | ACode int | AName string

definition proxy_do :: "('p, 'w) ipc_ops \<Rightarrow> 'w ctrl_proxy \<Rightarrow> ('p, 's) remote option \<Rightarrow> 'w ctrl_call \<Rightarrow> 's
    \<Rightarrow> ('w ctrl_answer \<times> 's) option" where
  "proxy_do I px remote c s = (case c of
     CGetState \<Rightarrow> map_option (\<lambda>(x, px, s). (AState x, s)) (cpx_GetAVPlaybackState I px remote s)
   | CQueueItems \<Rightarrow> map_option (map_prod AItems id) (cpx_GetAVQueueItems I px remote s)
   | CQueueTitle \<Rightarrow> map_option (map_prod AString id) (cpx_GetAVQueueTitle I px remote s)
   | CControlTypes \<Rightarrow> map_option (map_prod AInts id) (cpx_GetMediaCenterControlType I px remote s)
   | CSpeeds \<Rightarrow> map_option (map_prod ADbls id) (cpx_GetSupportedPlaySpeeds I px remote s)
   | CLoopModes \<Rightarrow> map_option (map_prod AInts id) (cpx_GetSupportedLoopModes I px remote s)
   | CValidCommands \<Rightarrow> map_option (map_prod AInts id) (cpx_GetValidCommands I px remote s)
   | CIsActive \<Rightarrow> map_option (map_prod ABool id) (cpx_IsSessionActive I px remote s)
   | CSkip i \<Rightarrow> map_option (map_prod ACode id) (cpx_SkipToQueueItem I px remote i s)
   | CKeyEvent key \<Rightarrow> map_option (map_prod ACode id) (cpx_SendAVKeyEvent I px remote True key s)
   | CCommand cmd \<Rightarrow> map_option (map_prod ACode id) (cpx_SendControlCommand I px remote cmd s)
   | CCommon name w \<Rightarrow> map_option (map_prod ACode id) (cpx_SendCommonCommand I px remote name w s)
   | CCustom w \<Rightarrow> map_option (map_prod ACode id) (cpx_SendCustomData I px remote w s)
   | CMetaFilter filt \<Rightarrow> map_option (map_prod ACode id) (cpx_SetMetaFilter I px remote filt s)
   | CPlaybackFilter filt \<Rightarrow> map_option (map_prod ACode id) (cpx_SetPlaybackFilter I px remote filt s)
   | CRegister callback \<Rightarrow> map_option (map_prod ACode id) (cpx_RegisterCallback I px remote callback s)
   | CSessionId \<Rightarrow> map_option (map_prod AName id) (cpx_GetSessionId I px remote s)
   | CUserId \<Rightarrow> map_option (map_prod ACode id) (cpx_GetUserId I px remote s)
   | CLyricEnabled \<Rightarrow> map_option (map_prod ABool id) (cpx_IsDesktopLyricEnabled I px remote s)
   | CLyricVisible \<Rightarrow> map_option (map_prod ABool id) (cpx_IsDesktopLyricVisible I px remote s)
   | CLyricState \<Rightarrow> map_option (map_prod ABool id) (cpx_GetDesktopLyricState I px remote s)
   | CSetLyricVisible b \<Rightarrow> map_option (map_prod ACode id) (cpx_SetDesktopLyricVisible I px remote b s)
   | CSetLyricState b \<Rightarrow> map_option (map_prod ACode id) (cpx_SetDesktopLyricState I px remote b s))"

text \<open>The call of the controller in the service, with its own answer.\<close>

definition ctrl_own :: "'w call_env \<Rightarrow> 'w ctrl_call \<Rightarrow> 'w ctrl_server \<Rightarrow> ('w ctrl_answer \<times> 'w ctrl_server) option" where
  "ctrl_own e c s = (case c of
     CGetState \<Rightarrow> Some (AState (cd_GetAVPlaybackState (csSession s)), s)
   | CQueueItems \<Rightarrow> Some (AItems (cd_GetAVQueueItems (csSession s)), s)
   | CQueueTitle \<Rightarrow> Some (AString (cd_GetAVQueueTitle (csSession s)), s)
   | CControlTypes \<Rightarrow> Some (AInts (cd_GetMediaCenterControlType (csSession s)), s)
   | CSpeeds \<Rightarrow> Some (ADbls (cd_GetSupportedPlaySpeeds (csSession s)), s)
   | CLoopModes \<Rightarrow> Some (AInts (cd_GetSupportedLoopModes (csSession s)), s)
   | CValidCommands \<Rightarrow> Some (AInts (cd_GetValidCommands (csSession s)), s)
   | CIsActive \<Rightarrow> Some (ABool (cd_IsSessionActive (csSession s)), s)
   | CSkip i \<Rightarrow> Some (map_prod ACode id (cs_session (cd_SkipToQueueItem (sint i)) s))
   | CKeyEvent key \<Rightarrow> Some (map_prod ACode id (cs_session (cd_SendAVKeyEvent key) s))
   | CCommand cmd \<Rightarrow> map_option (map_prod ACode id) (cs_SendControlCommand e cmd s)
   | CCommon name w \<Rightarrow> Some (map_prod ACode id (cs_SendCommonCommand e name w s))
   | CCustom w \<Rightarrow> Some (map_prod ACode id (cs_session (cd_SendCustomData (ceCustomData e) w) s))
   | CMetaFilter filt \<Rightarrow> Some (map_prod ACode id (cs_own (cd_SetMetaFilter filt) s))
   | CPlaybackFilter filt \<Rightarrow> Some (map_prod ACode id (cs_own (cd_SetPlaybackFilter filt) s))
   | CRegister callback \<Rightarrow> Some (map_prod ACode id
       (cs_own (cd_RegisterCallbackInner (csPid s) (ceProxyRet e \<noteq> None) (cePid e) True) s))
   | CSessionId \<Rightarrow> Some (AName (csSessionId s), s)
   | CUserId \<Rightarrow> Some (ACode (csUserId s), s)
   | CLyricEnabled \<Rightarrow> Some (ABool (cd_IsDesktopLyricEnabled (csSession s)), s)
   | CLyricVisible \<Rightarrow> Some (ABool (cd_IsDesktopLyricVisible (csSession s)), s)
   | CLyricState \<Rightarrow> Some (ABool (cd_GetDesktopLyricState (csSession s)), s)
   | CSetLyricVisible b \<Rightarrow> Some (map_prod ACode id
       (cs_session (cd_SetDesktopLyricVisible (ceStartOk e) b (crBundle (ceCaller e))) s))
   | CSetLyricState b \<Rightarrow> Some (map_prod ACode id
       (cs_session (cd_SetDesktopLyricState b (crBundle (ceCaller e))) s)))"

text \<open>The four senders are refused by the proxy while the session is not active, a command without a known number always.\<close>

definition inactive_code :: "'w ctrl_server \<Rightarrow> int option" where
  "inactive_code s = (case cd_IsSessionActive (csSession s) of
     Inl e \<Rightarrow> Some e | Inr b \<Rightarrow> if b then None else Some ERR_SESSION_DEACTIVE)"

definition ctrl_refused :: "'w ctrl_call \<Rightarrow> 'w ctrl_server \<Rightarrow> int option" where
  "ctrl_refused c s = (case c of
     CKeyEvent key \<Rightarrow> inactive_code s
   | CCommand cmd \<Rightarrow> if \<not> cc_IsValid cmd then Some ERR_COMMAND_NOT_SUPPORT else inactive_code s
   | CCommon name w \<Rightarrow> inactive_code s
   | CCustom w \<Rightarrow> inactive_code s
   | _ \<Rightarrow> None)"

definition ctrl_sent :: "'w ctrl_call \<Rightarrow> 'w ctrl_call" where
  "ctrl_sent c = (case c of CCommand cmd \<Rightarrow> CCommand (cc_arrives cmd) | _ \<Rightarrow> c)"

text \<open>The stub returns a failure to set the visibility of the lyric as a failure of the request.\<close>

definition ctrl_masked :: "'w ctrl_call \<Rightarrow> 'w ctrl_answer \<Rightarrow> 'w ctrl_answer" where
  "ctrl_masked c a = (case (c, a) of
     (CSetLyricVisible b, ACode r) \<Rightarrow> ACode (if r = AVSESSION_SUCCESS then r else ERR_IPC_SEND_REQUEST)
   | _ \<Rightarrow> a)"

text \<open>
  What the parcels can carry: the parameter of a command is one that its setters accept, result codes have 32 bits, the
  playback state of the session has a known number, and its queue is one that arrived, as every queue that was set through a
  proxy (\<open>queue_arrives_again\<close>).
\<close>

definition queue_readable :: "'w queue_item list \<Rightarrow> bool" where
  "queue_readable xs \<longleftrightarrow> int (length xs) < 1000 \<and> list_all (\<lambda>x. qi_arrives x = Some x) xs"

definition crosses :: "'w call_env \<Rightarrow> 'w ctrl_call \<Rightarrow> 'w ctrl_server \<Rightarrow> bool" where
  "crosses e c s \<longleftrightarrow> (case c of
     CCommand cmd \<Rightarrow> cc_accepts (cc_cmd cmd) (cc_param cmd)
   | CCommon name w \<Rightarrow> (\<forall>r. ceProxyRet e = Some r \<longrightarrow> code_ok r)
   | CUserId \<Rightarrow> code_ok (csUserId s)
   | CGetState \<Rightarrow> (\<forall>sd. csSession s = Some sd \<longrightarrow> PLAYBACK_STATE_INITIAL \<le> sint (psState (sdPlayback sd))
       \<and> sint (psState (sdPlayback sd)) < PLAYBACK_STATE_MAX)
   | CQueueItems \<Rightarrow> (\<forall>sd. csSession s = Some sd \<longrightarrow> queue_readable (sdQueueItems sd))
   | _ \<Rightarrow> True)"

section \<open>Proxy and stub\<close>

lemma cpx_send_served:
  assumes "fifo_ipc I V K" and "roomy_ipc I" and "\<not> pxDestroyed px"
    and "sends V ws ts" and "map_of (ctrl_handlers I e) code = Some h"
  shows "\<exists>data. V data = ts \<and> cpx_send I px (Some (ctrl_stub I True e rest)) code ws s
    = map_option (\<lambda>(r, reply, s). (if r \<noteq> 0 then Inl ERR_IPC_SEND_REQUEST else Inr reply, s)) (h data s)"
  using px_send_served [OF assms(1,2,4,5), of controllerDescriptor ERR_CONTROLLER_NOT_EXIST rest s] assms(3)
  by (simp add: cpx_send_def ctrl_stub_def)

lemma cpx_ret_served:
  assumes "fifo_ipc I V K" and "roomy_ipc I" and "\<not> pxDestroyed px"
    and "map_of (ctrl_handlers I e) code = Some h" and "sends V ws ts"
    and "\<And>data. V data = ts \<Longrightarrow> h data s = Option.bind y (st_ret I)" and "\<And>r s'. y = Some (r, s') \<Longrightarrow> code_ok r"
  shows "px_call (px_ret I bad) (cpx_send I px (Some (ctrl_stub I True e rest)) code ws s) = y"
  using px_ret_served [OF assms(1,2,4-7)] assms(3) by (simp add: cpx_send_def ctrl_stub_def)

lemma cpx_get_served:
  assumes "fifo_ipc I V K" and "roomy_ipc I" and "\<not> pxDestroyed px"
    and "map_of (ctrl_handlers I e) code = Some h" and "\<And>data. V data = [] \<Longrightarrow> h data s = st_value I wr (x, s)"
    and "\<And>er. x = Inl er \<Longrightarrow> code_ok er \<and> er \<noteq> AVSESSION_SUCCESS"
    and "\<And>v. x = Inr v \<Longrightarrow> \<exists>us. writes V (wr v) us \<and> (\<forall>p. fst (wr v p)) \<and> reads_value V rd us (Some v)"
  shows "cpx_get I px (Some (ctrl_stub I True e rest)) code rd s = Some (x, s)"
  using px_get_served [OF assms(1,2,4-7)] assms(3) by (simp add: cpx_get_def cpx_send_def ctrl_stub_def)

end
