(* ===== verification/ControllerClaims.thy ===== *)
theory ControllerClaims
  imports ControllerRemote
begin

text \<open>
  The methods of the proxy of a controller, one by one and together; a result that gets lost on the
  way; and a command from the client to the application.
\<close>

section \<open>Getters\<close>

lemma cd_get_error: "cd_get f session = Inl er \<Longrightarrow> code_ok er \<and> er \<noteq> AVSESSION_SUCCESS"
  by (auto simp: cd_get_def split: option.splits)

lemma cd_ask_error:
  "cd_IsDesktopLyricEnabled session = Inl er \<Longrightarrow> code_ok er \<and> er \<noteq> AVSESSION_SUCCESS"
  "cd_IsDesktopLyricVisible session = Inl er \<Longrightarrow> code_ok er \<and> er \<noteq> AVSESSION_SUCCESS"
  "cd_GetDesktopLyricState session = Inl er \<Longrightarrow> code_ok er \<and> er \<noteq> AVSESSION_SUCCESS"
  by (auto simp: cd_ask_def cd_IsDesktopLyricEnabled_def cd_IsDesktopLyricVisible_def cd_GetDesktopLyricState_def
      sd_IsDesktopLyricEnabled_def sd_IsDesktopLyricVisible_def sd_GetDesktopLyricState_def sd_lyric_check_def
      split: option.splits if_splits)

lemma getters_remote:
  assumes "fifo_ipc I V K" and "roomy_ipc I" and "\<not> pxDestroyed px" and "r = Some (ctrl_stub I True e rest)"
  shows "cpx_GetAVQueueTitle I px r s = Some (cd_GetAVQueueTitle (csSession s), s)"
    and "cpx_GetMediaCenterControlType I px r s = Some (cd_GetMediaCenterControlType (csSession s), s)"
    and "cpx_GetSupportedPlaySpeeds I px r s = Some (cd_GetSupportedPlaySpeeds (csSession s), s)"
    and "cpx_GetSupportedLoopModes I px r s = Some (cd_GetSupportedLoopModes (csSession s), s)"
    and "cpx_GetValidCommands I px r s = Some (cd_GetValidCommands (csSession s), s)"
    and "cpx_IsSessionActive I px r s = Some (cd_IsSessionActive (csSession s), s)"
    and "cpx_IsDesktopLyricEnabled I px r s = Some (cd_IsDesktopLyricEnabled (csSession s), s)"
    and "cpx_IsDesktopLyricVisible I px r s = Some (cd_IsDesktopLyricVisible (csSession s), s)"
    and "cpx_GetDesktopLyricState I px r s = Some (cd_GetDesktopLyricState (csSession s), s)"
proof -
  note F = fifo_ipcD [OF assms(1)] and P = fifo_parcelD [OF fifo_ipcD(1) [OF assms(1)]] and R = roomy_ipc_ops [OF assms(2)]
    and S = cpx_get_served [OF assms(1-3)]
  show "cpx_GetAVQueueTitle I px r s = Some (cd_GetAVQueueTitle (csSession s), s)" unfolding cpx_GetAVQueueTitle_def assms(4)
    by (rule S [OF _ _ _ op_crosses [OF P(5) R(3)], where h = "cst_GetAVQueueTitle I"])
      (auto simp: ctrl_handlers_def cst_GetAVQueueTitle_def cd_GetAVQueueTitle_def dest: cd_get_error)
  show "cpx_GetMediaCenterControlType I px r s = Some (cd_GetMediaCenterControlType (csSession s), s)"
    unfolding cpx_GetMediaCenterControlType_def assms(4)
    by (rule S [OF _ _ _ op_crosses [OF F(4) R(1)], where h = "cst_GetMediaCenterControlType I"])
      (auto simp: ctrl_handlers_def cst_GetMediaCenterControlType_def cd_GetMediaCenterControlType_def dest: cd_get_error)
  show "cpx_GetSupportedPlaySpeeds I px r s = Some (cd_GetSupportedPlaySpeeds (csSession s), s)"
    unfolding cpx_GetSupportedPlaySpeeds_def assms(4)
    by (rule S [OF _ _ _ op_crosses [OF F(5) R(2)], where h = "cst_GetSupportedPlaySpeeds I"])
      (auto simp: ctrl_handlers_def cst_GetSupportedPlaySpeeds_def cd_GetSupportedPlaySpeeds_def dest: cd_get_error)
  show "cpx_GetSupportedLoopModes I px r s = Some (cd_GetSupportedLoopModes (csSession s), s)"
    unfolding cpx_GetSupportedLoopModes_def assms(4)
    by (rule S [OF _ _ _ op_crosses [OF F(4) R(1)], where h = "cst_GetSupportedLoopModes I"])
      (auto simp: ctrl_handlers_def cst_GetSupportedLoopModes_def cd_GetSupportedLoopModes_def dest: cd_get_error)
  show "cpx_GetValidCommands I px r s = Some (cd_GetValidCommands (csSession s), s)"
    unfolding cpx_GetValidCommands_def assms(4)
    by (rule S [OF _ _ _ op_crosses [OF F(4) R(1)], where h = "cst_GetValidCommands I"])
      (auto simp: ctrl_handlers_def cst_GetValidCommands_def cd_GetValidCommands_def dest: cd_get_error)
  note B = S [OF _ _ _ op_crosses [OF P(4) R(4)]]
  show "cpx_IsSessionActive I px r s = Some (cd_IsSessionActive (csSession s), s)"
    unfolding cpx_IsSessionActive_def assms(4)
    by (rule B [where h = "cst_IsSessionActive I"])
      (auto simp: ctrl_handlers_def cst_IsSessionActive_def cd_IsSessionActive_def dest: cd_get_error)
  show "cpx_IsDesktopLyricEnabled I px r s = Some (cd_IsDesktopLyricEnabled (csSession s), s)"
    unfolding cpx_IsDesktopLyricEnabled_def assms(4)
    by (rule B [where h = "cst_IsDesktopLyricEnabled I"])
      (auto simp: ctrl_handlers_def cst_IsDesktopLyricEnabled_def st_checked_roomy(3) [OF assms(2)] dest: cd_ask_error)
  show "cpx_IsDesktopLyricVisible I px r s = Some (cd_IsDesktopLyricVisible (csSession s), s)"
    unfolding cpx_IsDesktopLyricVisible_def assms(4)
    by (rule B [where h = "cst_IsDesktopLyricVisible I"])
      (auto simp: ctrl_handlers_def cst_IsDesktopLyricVisible_def st_checked_roomy(3) [OF assms(2)] dest: cd_ask_error)
  show "cpx_GetDesktopLyricState I px r s = Some (cd_GetDesktopLyricState (csSession s), s)"
    unfolding cpx_GetDesktopLyricState_def assms(4)
    by (rule B [where h = "cst_GetDesktopLyricState I"])
      (auto simp: ctrl_handlers_def cst_GetDesktopLyricState_def st_checked_roomy(3) [OF assms(2)] dest: cd_ask_error)
qed

lemma state_remote:
  assumes "fifo_ipc I V K" and "roomy_ipc I" and "\<not> pxDestroyed px" and "crosses e CGetState s"
  shows "\<exists>px'. cpx_GetAVPlaybackState I px (Some (ctrl_stub I True e rest)) s = Some (cd_GetAVPlaybackState (csSession s), px', s)"
proof -
  have range: "PLAYBACK_STATE_INITIAL \<le> sint (psState v) \<and> sint (psState v) < PLAYBACK_STATE_MAX"
    if got: "cd_GetAVPlaybackState (csSession s) = Inr v" for v
    using got assms(4) by (cases "csSession s") (auto simp: cd_GetAVPlaybackState_def cd_get_def crosses_def)
  have "cpx_get I px (Some (ctrl_stub I True e rest)) 2 (ReadState I (ps_Unmarshalling (ipParcel I))) s
      = Some (cd_GetAVPlaybackState (csSession s), s)"
    by (rule cpx_get_served [OF assms(1-3) _ _ _ state_crosses [OF assms(1,2) range [THEN conjunct1] range [THEN conjunct2]],
          where h = "cst_GetAVPlaybackState I"])
      (auto simp: ctrl_handlers_def cst_GetAVPlaybackState_def cd_GetAVPlaybackState_def dest: cd_get_error)
  then show ?thesis by (simp add: cpx_GetAVPlaybackState_def)
qed

lemma items_remote:
  assumes "fifo_ipc I V K" and "roomy_ipc I" and "\<not> pxDestroyed px" and "crosses e CQueueItems s"
  shows "cpx_GetAVQueueItems I px (Some (ctrl_stub I True e rest)) s = Some (cd_GetAVQueueItems (csSession s), s)"
proof -
  have cross: "\<exists>us. writes V (w_items I v) us \<and> (\<forall>p. fst (w_items I v p)) \<and> reads_value V (read_items I maxItemNumber) us (Some v)"
    if "cd_GetAVQueueItems (csSession s) = Inr v" for v
  proof -
    have "queue_readable v"
      using that assms(4) by (auto simp: cd_GetAVQueueItems_def cd_get_def crosses_def split: option.splits)
    then have "queue_arrives maxItemNumber v = Some v"
      by (intro queue_arrives_same) (simp_all add: queue_readable_def maxItemNumber_def)
    from items_value [OF assms(1,2) this] show ?thesis by (simp add: maxItemNumber_def)
  qed
  show ?thesis unfolding cpx_GetAVQueueItems_def
    by (rule cpx_get_served [OF assms(1-3) _ _ _ cross, where h = "cst_GetAVQueueItems I"])
      (auto simp: ctrl_handlers_def cst_GetAVQueueItems_def cd_GetAVQueueItems_def dest: cd_get_error)
qed

section \<open>Setters and commands\<close>

lemma cs_session_code: "(\<And>sd. code_ok (fst (f sd))) \<Longrightarrow> Some (cs_session f s) = Some (r, s') \<Longrightarrow> code_ok r"
  by (auto simp: cs_session_def split: prod.splits) (metis fst_conv)

lemma cs_own_code: "Some (cs_own g s) = Some (r, s') \<Longrightarrow> (\<And>c. code_ok (fst (g c))) \<Longrightarrow> code_ok r"
  by (auto simp: cs_own_def)

lemma cd_codes:
  "code_ok (fst (cd_SkipToQueueItem i sd))" "code_ok (fst (cd_SendAVKeyEvent key sd))"
  "code_ok (fst (cd_SendCustomData f w sd))" "code_ok (fst (cd_SetDesktopLyricVisible ok b hdl sd))"
  "code_ok (fst (cd_SetDesktopLyricState b hdl sd))" "code_ok (fst (cd_RegisterCallbackInner pid proxy calling cb c))"
  "code_ok (fst (cd_SetMetaFilter m c))" "code_ok (fst (cd_SetPlaybackFilter fp c))"
  by (auto simp: cd_RegisterCallbackInner_def cd_SetMetaFilter_def cd_SetPlaybackFilter_def cd_SkipToQueueItem_def cd_SendAVKeyEvent_def cd_SendCustomData_def cd_SetDesktopLyricVisible_def
      cd_SetDesktopLyricState_def sd_SetDesktopLyricVisibleInner_def sd_SetDesktopLyricStateInner_def sd_lyric_check_def Let_def
      split: option.splits)

lemma cs_command_code: "cs_SendControlCommand e cmd s = Some (r, s') \<Longrightarrow> code_ok r"
  by (auto simp: cs_SendControlCommand_def cd_SendControlCommand_def Let_def split: option.splits if_splits prod.splits)

lemma cs_common_code:
  "(\<And>p. ceProxyRet e = Some p \<Longrightarrow> code_ok p) \<Longrightarrow> Some (cs_SendCommonCommand e name w s) = Some (r, s') \<Longrightarrow> code_ok r"
  by (auto simp: cs_SendCommonCommand_def cd_SendCommonCommand_def Let_def split: option.splits if_splits prod.splits)

lemma mask_crosses: "\<not> bad_mask 28 (bitset_to_string (m :: 28 word))" "\<not> bad_mask 14 (bitset_to_string (f :: 14 word))"
  using bitset_to_string_binary [of m] bitset_to_string_binary [of f] by (auto simp: bad_mask_def list_ex_iff)

lemma setters_remote:
  assumes "fifo_ipc I V K" and "roomy_ipc I" and "\<not> pxDestroyed px" and "r = Some (ctrl_stub I True e rest)"
  shows "cpx_SkipToQueueItem I px r i s = Some (cs_session (cd_SkipToQueueItem (sint i)) s)"
    and "cpx_SetMetaFilter I px r m s = Some (cs_own (cd_SetMetaFilter m) s)"
    and "cpx_SetPlaybackFilter I px r f s = Some (cs_own (cd_SetPlaybackFilter f) s)"
    and "cpx_SetDesktopLyricState I px r b s = Some (cs_session (cd_SetDesktopLyricState b (crBundle (ceCaller e))) s)"
    and "cpx_ret I px r 4 [WriteKey I key] s = Some (cs_session (cd_SendAVKeyEvent key) s)"
    and "cpx_ret I px r 23 [WriteWantParams (ipParcel I) (Some w)] s = Some (cs_session (cd_SendCustomData (ceCustomData e) w) s)"
proof -
  note F = fifo_ipcD [OF assms(1)] and R = roomy_ipc_ops [OF assms(2)]
  note O = reads_ops [OF F(1)] and W = writes_ops [OF F(1)] and S = cpx_ret_served [OF assms(1-3)]
  note one = sends_Cons [OF _ _ sends_Nil]
  show "cpx_SkipToQueueItem I px r i s = Some (cs_session (cd_SkipToQueueItem (sint i)) s)"
    unfolding cpx_SkipToQueueItem_def cpx_ret_def assms(4)
    by (rule S [where h = "cst_SkipToQueueItem I", OF _ one [OF W(1) R(5)] _ cs_session_code [OF cd_codes(1)]])
      (use read_one [OF O(1)] in \<open>force simp: ctrl_handlers_def cst_SkipToQueueItem_def\<close>)+
  show "cpx_ret I px r 4 [WriteKey I key] s = Some (cs_session (cd_SendAVKeyEvent key) s)"
    unfolding cpx_ret_def assms(4)
    by (rule S [where h = "cst_SendAVKeyEvent I", OF _ one [OF fifo_opD(1) [OF F(8)] R(6)] _ cs_session_code [OF cd_codes(2)]])
      (use read_one [OF fifo_opD(2) [OF F(8)]] in \<open>force simp: ctrl_handlers_def cst_SendAVKeyEvent_def\<close>)+
  show "cpx_ret I px r 23 [WriteWantParams (ipParcel I) (Some w)] s = Some (cs_session (cd_SendCustomData (ceCustomData e) w) s)"
    unfolding cpx_ret_def assms(4)
    by (rule S [where h = "cst_SendCustomData I e", OF _ one [OF W(8) R(7)] _ cs_session_code [OF cd_codes(3)]])
      (use read_one [OF O(8)] in \<open>force simp: ctrl_handlers_def cst_SendCustomData_def\<close>)+
  show "cpx_SetDesktopLyricState I px r b s = Some (cs_session (cd_SetDesktopLyricState b (crBundle (ceCaller e))) s)"
    unfolding cpx_SetDesktopLyricState_def assms(4)
    by (rule S [where h = "cst_SetDesktopLyricState I e", OF _ one [OF W(4) R(4)] _ cs_session_code [OF cd_codes(5)]])
      (use read_one [OF O(4)] st_checked_roomy(1) [OF assms(2)] in
        \<open>force simp: ctrl_handlers_def cst_SetDesktopLyricState_def split: prod.splits\<close>)+
  note T = read_one [OF read_or_token [OF O(5)]]
  have MF: "cst_SetMetaFilter I data s = Option.bind (Some (cs_own (cd_SetMetaFilter m) s)) (st_ret I)"
    if "V data = [TStr (bitset_to_string m)]" for data
    using T [OF that, of "[]"] mask_crosses(1) [of m]
    by (auto simp: cst_SetMetaFilter_def read_string_def META_KEY_MAX_def bitset_of_to_string)
  have PF: "cst_SetPlaybackFilter I data s = Option.bind (Some (cs_own (cd_SetPlaybackFilter f) s)) (st_ret I)"
    if "V data = [TStr (bitset_to_string f)]" for data
    using T [OF that, of "[]"] mask_crosses(2) [of f]
    by (auto simp: cst_SetPlaybackFilter_def read_string_def PLAYBACK_KEY_MAX_def bitset_of_to_string)
  show "cpx_SetMetaFilter I px r m s = Some (cs_own (cd_SetMetaFilter m) s)"
    unfolding cpx_SetMetaFilter_def cpx_ret_def assms(4)
    by (rule S [where h = "cst_SetMetaFilter I" and ts = "[TStr (bitset_to_string m)]"])
      (simp add: ctrl_handlers_def, rule one [OF W(5) R(3)], erule MF, erule cs_own_code, rule cd_codes(7))
  show "cpx_SetPlaybackFilter I px r f s = Some (cs_own (cd_SetPlaybackFilter f) s)"
    unfolding cpx_SetPlaybackFilter_def cpx_ret_def assms(4)
    by (rule S [where h = "cst_SetPlaybackFilter I" and ts = "[TStr (bitset_to_string f)]"])
      (simp add: ctrl_handlers_def, rule one [OF W(5) R(3)], erule PF, erule cs_own_code, rule cd_codes(8))
qed

lemma commands_remote:
  assumes "fifo_ipc I V K" and "roomy_ipc I" and "\<not> pxDestroyed px" and "r = Some (ctrl_stub I True e rest)"
  shows "cc_IsValid cmd \<Longrightarrow> cc_accepts (cc_cmd cmd) (cc_param cmd)
      \<Longrightarrow> cpx_ret I px r 7 [WriteParcelable (ipParcel I) (Some (cc_Marshalling (ipParcel I) cmd))] s
        = cs_SendControlCommand e (cc_arrives cmd) s"
    and "(\<And>p. ceProxyRet e = Some p \<Longrightarrow> code_ok p)
      \<Longrightarrow> cpx_ret I px r 8 [WriteString (ipParcel I) name, WriteWantParams (ipParcel I) (Some w)] s
        = Some (cs_SendCommonCommand e name w s)"
    and "cpx_RegisterCallback I px r callback s
      = Some (cs_own (cd_RegisterCallbackInner (csPid s) (ceProxyRet e \<noteq> None) (cePid e) True) s)"
proof -
  note F = fifo_ipcD [OF assms(1)] and R = roomy_ipc_ops [OF assms(2)]
  note O = reads_ops [OF F(1)] and W = writes_ops [OF F(1)] and S = cpx_ret_served [OF assms(1-3)]
  note one = sends_Cons [OF _ _ sends_Nil]
  {
    assume cmd: "cc_IsValid cmd" "cc_accepts (cc_cmd cmd) (cc_param cmd)"
    let ?ts = "TMark True # TI32 (cc_cmd cmd) # cc_tokens cmd"
    have sent: "sends V [WriteParcelable (ipParcel I) (Some (cc_Marshalling (ipParcel I) cmd))] ?ts"
      using sends_Cons_list [OF writes_parcelable(1) [OF F(1) writes_cc [OF F(1)]] _ sends_Nil, of cmd]
        roomy_parcelable [OF R(9) roomy_cc [OF R(9) cc_accepts_typed [OF cmd(2)]]] by simp
    have got: "cst_SendControlCommand I e data s = Option.bind (cs_SendControlCommand e (cc_arrives cmd) s) (st_ret I)"
      if "V data = ?ts" for data
      using reads_valueD [OF reads_value_parcelable(1) [OF F(9) reads_value_cc [OF F(1) cmd]], of data "[]"] that
      by (auto simp: cst_SendControlCommand_def)
    show "cpx_ret I px r 7 [WriteParcelable (ipParcel I) (Some (cc_Marshalling (ipParcel I) cmd))] s
        = cs_SendControlCommand e (cc_arrives cmd) s"
      unfolding cpx_ret_def assms(4)
      by (rule S [where h = "cst_SendControlCommand I e", OF _ sent got cs_command_code]) (simp_all add: ctrl_handlers_def)
  }
  {
    assume ret: "\<And>p. ceProxyRet e = Some p \<Longrightarrow> code_ok p"
    have sent: "sends V [WriteString (ipParcel I) name, WriteWantParams (ipParcel I) (Some w)] [TStr name, TWant (Some w)]"
      by (intro sends_Cons sends_Nil W R)
    have got: "cst_SendCommonCommand I e data s = Option.bind (Some (cs_SendCommonCommand e name w s)) (st_ret I)"
      if data: "V data = [TStr name, TWant (Some w)]" for data
    proof -
      have "V data = [TStr name] @ [TWant (Some w)]" using data by simp
      from reads_valueD [OF read_or_token [OF O(5)] this]
      obtain p where p: "read_or [] (ReadString (ipParcel I)) data = (name, p)" "V p = [TWant (Some w)]" by blast
      from read_one [OF O(8) p(2)] p(1) show ?thesis by (auto simp: cst_SendCommonCommand_def read_string_def)
    qed
    show "cpx_ret I px r 8 [WriteString (ipParcel I) name, WriteWantParams (ipParcel I) (Some w)] s
        = Some (cs_SendCommonCommand e name w s)"
      unfolding cpx_ret_def assms(4)
      by (rule S [where h = "cst_SendCommonCommand I e", OF _ sent got cs_common_code [OF ret]]) (simp_all add: ctrl_handlers_def)
  }
  have REG: "cst_RegisterCallbackInner I e data s
      = Option.bind (Some (cs_own (cd_RegisterCallbackInner (csPid s) (ceProxyRet e \<noteq> None) (cePid e) True) s)) (st_ret I)"
    if "V data = [TObj callback]" for data
    using read_one [OF fifo_opD(2) [OF F(6)] that] by (auto simp: cst_RegisterCallbackInner_def)
  have "cpx_ret I px r 0 [WriteRemoteObject I callback] s
      = Some (cs_own (cd_RegisterCallbackInner (csPid s) (ceProxyRet e \<noteq> None) (cePid e) True) s)"
    unfolding cpx_ret_def assms(4)
    by (rule S [where h = "cst_RegisterCallbackInner I e" and ts = "[TObj callback]"])
      (simp add: ctrl_handlers_def, rule one [OF fifo_opD(1) [OF F(6)] R(8)], erule REG, erule cs_own_code, rule cd_codes(6))
  then show "cpx_RegisterCallback I px r callback s
      = Some (cs_own (cd_RegisterCallbackInner (csPid s) (ceProxyRet e \<noteq> None) (cePid e) True) s)"
    using assms(3) by (simp add: cpx_RegisterCallback_def cpx_RegisterCallbackInner_def cpx_ret_def cpx_send_def)
qed

section \<open>The other methods\<close>

lemma ids_remote:
  assumes "fifo_ipc I V K" and "roomy_ipc I" and "\<not> pxDestroyed px" and "r = Some (ctrl_stub I True e rest)"
  shows "cpx_GetSessionId I px r s = Some (csSessionId s, s)"
    and "code_ok (csUserId s) \<Longrightarrow> cpx_GetUserId I px r s = Some (csUserId s, s)"
proof -
  note F = fifo_ipcD [OF assms(1)] and R = roomy_ipc_ops [OF assms(2)]
  note O = reads_ops [OF F(1)] and W = writes_ops [OF F(1)]
  have view: "V (st_reply I [w]) = [t]" if "writes V w [t]" "\<And>p. fst (w p)" for w t
    by (rule st_reply_view [OF sends_Cons [OF that sends_Nil] F(2)])
  note T = cpx_send_served [OF assms(1-3) sends_Nil]
  have "cpx_send I px r 12 [] s = Some (Inr (st_reply I [WriteString (ipParcel I) (csSessionId s)]), s)"
    using T [of e 12 "cst_GetSessionId I" rest s] by (auto simp: assms(4) ctrl_handlers_def cst_GetSessionId_def ERR_NONE_def)
  with read_one [OF read_or_token [OF O(5)] view [OF W(5) R(3)]]
  show "cpx_GetSessionId I px r s = Some (csSessionId s, s)" by (auto simp: cpx_GetSessionId_def px_call_def) (metis fst_conv)
  assume "code_ok (csUserId s)"
  moreover have "cpx_send I px r 13 [] s = Some (Inr (st_reply I [w_i32 I (csUserId s)]), s)"
    using T [of e 13 "cst_GetUserId I" rest s] by (auto simp: assms(4) ctrl_handlers_def cst_GetUserId_def ERR_NONE_def)
  ultimately show "cpx_GetUserId I px r s = Some (csUserId s, s)"
    using read_one [OF read_or_token [OF O(1)] view [OF W(1) R(5)]]
    by (auto simp: cpx_GetUserId_def px_call_def) (metis fst_conv code_ok_sint)
qed

end
