(* ===== verification/RemoteProps.thy ===== *)
theory RemoteProps
  imports ControllerClaims
begin

text \<open>
  The properties of remote calls: every method of the proxy is the controller's own call; the one
  result that gets lost on the way; and a command from the client's process to the application.
\<close>

section \<open>A parcel for concrete runs\<close>

text \<open>Keys are the values of the \<^verbatim>\<open>WantParams\<close> here.\<close>

definition tok_object :: "('w token list \<Rightarrow> 'a option \<times> 'w token list) \<Rightarrow> 'w token list \<Rightarrow> 'a option \<times> 'w token list" where
  "tok_object u ts = (case ts of TMark True # ts' \<Rightarrow> u ts' | TMark False # ts' \<Rightarrow> (None, ts') | _ \<Rightarrow> (None, ts))"

definition token_ipc :: "(key_code token list, key_code) ipc_ops" where
  "token_ipc = \<lparr>ipParcel = token_parcel, ipEmpty = [],
     WriteInterfaceToken = (\<lambda>v ts. (True, ts @ [TName v])),
     ReadInterfaceToken = tok_read (\<lambda>t. case t of TName v \<Rightarrow> Some v | _ \<Rightarrow> None),
     WriteInt32Vector = (\<lambda>v ts. (True, ts @ [TInts v])),
     ReadInt32Vector = tok_read (\<lambda>t. case t of TInts v \<Rightarrow> Some v | _ \<Rightarrow> None),
     WriteDoubleVector = (\<lambda>v ts. (True, ts @ [TDbls v])),
     ReadDoubleVector = tok_read (\<lambda>t. case t of TDbls v \<Rightarrow> Some v | _ \<Rightarrow> None),
     WriteRemoteObject = (\<lambda>v ts. (True, ts @ [TObj v])),
     ReadRemoteObject = tok_read (\<lambda>t. case t of TObj v \<Rightarrow> Some v | _ \<Rightarrow> None),
     ReadQueueItem = tok_object, ReadDescription = tok_object,
     WriteKey = (\<lambda>v ts. (True, ts @ [TWant (Some v)])),
     ReadKey = tok_read (\<lambda>t. case t of TWant v \<Rightarrow> v | _ \<Rightarrow> None),
     ReadCommand = tok_object, ReadState = tok_object\<rparr>"

lemma token_ipc_laws:
  "fifo_ipc token_ipc (\<lambda>ts. ts) (\<lambda>k. TWant (Some k))" "roomy_ipc token_ipc"
  by (simp_all add: fifo_ipc_def roomy_ipc_def token_ipc_def fifo_token_parcel roomy_token_parcel fifo_op_def
      tok_read_def tok_object_def reads_parcelable_def)

definition sample_session :: "(key_code, key_code queue_item) sess_data" where
  "sample_session = (new_sess_data (new_session\<lparr>siIsActive := True\<rparr>))\<lparr>sdCallback := True,
     sdSupportedCmd := [SESSION_CMD_SET_SPEED]\<rparr>"

definition sample_server :: "key_code ctrl_server" where
  "sample_server = \<lparr>csPid = 7, csSession = Some sample_session, csLimit = new_command_limit, csOwn = new_ctrl_data,
     csSessionId = ''s'', csUserId = 100\<rparr>"

definition sample_env :: "key_code call_env" where
  "sample_env = \<lparr>ceCaller = \<lparr>crUid = 1, crBundle = ''b'', crCastDevice = None\<rparr>, cePid = 7, ceCustomData = (\<lambda>_. None),
     ceProxyRet = None, ceStartOk = True\<rparr>"

definition sample_command :: control_command where
  "sample_command = new_control_command\<lparr>cc_cmd := SESSION_CMD_SET_SPEED, cc_param := VDbl (DFin 2)\<rparr>"

lemma sample_command_ok: "cc_IsValid sample_command" "cc_accepts (cc_cmd sample_command) (cc_param sample_command)"
  "cc_arrives sample_command = sample_command"
  by (simp_all add: sample_command_def cc_IsValid_def cc_accepts_def cc_arrives_def cc_kind_defs new_control_command_def
      dbl_isfinite_def)

section \<open>Every method\<close>

lemma lyric_visible_remote:
  assumes "fifo_ipc I V K" and "roomy_ipc I" and "\<not> pxDestroyed px" and "r = Some (ctrl_stub I True e rest)"
  shows "cpx_SetDesktopLyricVisible I px r b s
    = Some (map_prod (\<lambda>x. if x = AVSESSION_SUCCESS then x else ERR_IPC_SEND_REQUEST) id
        (cs_session (cd_SetDesktopLyricVisible (ceStartOk e) b (crBundle (ceCaller e))) s))"
proof -
  note F = fifo_ipcD [OF assms(1)] and R = roomy_ipc_ops [OF assms(2)]
  obtain x s' where call: "cs_session (cd_SetDesktopLyricVisible (ceStartOk e) b (crBundle (ceCaller e))) s = (x, s')"
    by (cases "cs_session (cd_SetDesktopLyricVisible (ceStartOk e) b (crBundle (ceCaller e))) s")
  have "sends V [WriteBool (ipParcel I) b] [TBool b]"
    by (rule sends_Cons [OF writes_ops(4) [OF F(1)] R(4) sends_Nil])
  moreover have "map_of (ctrl_handlers I e) 28 = Some (cst_SetDesktopLyricVisible I e)" by (simp add: ctrl_handlers_def)
  ultimately obtain data where data: "V data = [TBool b]"
    and sent: "cpx_send I px (Some (ctrl_stub I True e rest)) 28 [WriteBool (ipParcel I) b] s
      = map_option (\<lambda>(r, reply, s). (if r \<noteq> 0 then Inl ERR_IPC_SEND_REQUEST else Inr reply, s))
          (cst_SetDesktopLyricVisible I e data s)"
    using cpx_send_served [OF assms(1-3)] by blast
  have "cst_SetDesktopLyricVisible I e data s = Some (x, st_reply I [w_i32 I x], s')"
    using read_one [OF reads_ops(4) [OF F(1)] data] call st_checked_roomy(2) [OF assms(2)]
    by (auto simp: cst_SetDesktopLyricVisible_def)
  with sent assms(4) show ?thesis
    using px_ret_reply [OF assms(1,2), of 0 ERR_UNMARSHALLING] call
    by (simp add: cpx_SetDesktopLyricVisible_def px_call_def px_ret_def [of I _ "Inl _"] error_code_defs code_ok_def)
qed

lemma active_remote:
  assumes "fifo_ipc I V K" and "roomy_ipc I" and "\<not> pxDestroyed px" and "r = Some (ctrl_stub I True e rest)"
  shows "cpx_when_active I px r f s = (case inactive_code s of Some code \<Rightarrow> Some (code, s) | None \<Rightarrow> f s)"
  using getters_remote(6) [OF assms, of s]
  by (simp add: cpx_when_active_def inactive_code_def split: sum.split)

text \<open>C4: over a connection that works and with room in its parcels, a call of a proxy that is not destroyed gives the client what the
  controller itself answers and leaves the service in the state after that call, but for three things: a command, key event,
  common command or custom data for a session that is not active is refused by the proxy, and a command without a known number, and
  nothing happens (\<open>ctrl_refused\<close>); the controller gets a command as it arrives (\<open>ctrl_sent\<close>); an error of
  \<^verbatim>\<open>SetDesktopLyricVisible\<close> becomes the error of a broken connection (\<open>ctrl_masked\<close>). The calls are those that can cross
  (\<open>crosses\<close>): a command has a parameter that its setter accepts, result codes have 32 bits, and a playback state or a queue that is
  read is one that arrived in the service from an application.\<close>

theorem controller_calls_refine:
  assumes "fifo_ipc I V K" and "roomy_ipc I" and "\<not> pxDestroyed px" and "crosses e c s"
  shows "proxy_do I px (Some (ctrl_stub I True e rest)) c s = (case ctrl_refused c s of
     Some code \<Rightarrow> Some (ACode code, s)
   | None \<Rightarrow> map_option (map_prod (ctrl_masked c) id) (ctrl_own e (ctrl_sent c) s))"
proof -
  note A = assms(1-3)
  note G = getters_remote [OF A refl] setters_remote [OF A refl] ids_remote(1) [OF A refl] commands_remote(3) [OF A refl]
    lyric_visible_remote [OF A refl] active_remote [OF A refl]
  note defs = proxy_do_def ctrl_own_def ctrl_refused_def ctrl_sent_def ctrl_masked_def map_prod_def case_prod_unfold
    option.map_comp comp_def
  show ?thesis
  proof (cases c)
    case CGetState
    then show ?thesis using state_remote [OF A, of e s rest] assms(4) by (auto simp: defs)
  next
    case CQueueItems
    then show ?thesis using items_remote [OF A, of e s rest] assms(4) by (simp add: defs)
  next
    case (CKeyEvent key)
    with assms(3) show ?thesis by (simp add: defs cpx_SendAVKeyEvent_def G split: option.split)
  next
    case (CCommand cmd)
    then have ok: "cc_accepts (cc_cmd cmd) (cc_param cmd)" using assms(4) by (simp add: crosses_def)
    with CCommand assms(3) show ?thesis
      by (simp add: defs cpx_SendControlCommand_def G commands_remote(1) [OF A refl _ ok] split: option.split)
  next
    case (CCommon name w)
    then have ret: "\<And>p. ceProxyRet e = Some p \<Longrightarrow> code_ok p" using assms(4) by (simp add: crosses_def)
    with CCommon assms(3) show ?thesis
      by (simp add: defs cpx_SendCommonCommand_def G commands_remote(2) [OF A refl ret] split: option.split)
  next
    case (CCustom w)
    with assms(3) show ?thesis by (simp add: defs cpx_SendCustomData_def G split: option.split)
  next
    case CUserId
    then show ?thesis using ids_remote(2) [OF A refl] assms(4) by (simp add: defs crosses_def)
  qed (simp_all add: defs G)
qed

theorem controller_calls_refine_witness:
  "proxy_do token_ipc new_ctrl_proxy (Some (ctrl_stub token_ipc True sample_env (\<lambda>_ _ _. None))) (CCommand sample_command)
      sample_server = map_option (map_prod ACode id) (cs_SendControlCommand sample_env sample_command sample_server)
   \<and> proxy_do token_ipc new_ctrl_proxy (Some (ctrl_stub token_ipc True sample_env (\<lambda>_ _ _. None))) CValidCommands sample_server
      = Some (AInts (Inr [SESSION_CMD_SET_SPEED]), sample_server)"
proof -
  have px: "\<not> pxDestroyed new_ctrl_proxy" by (simp add: new_ctrl_proxy_def)
  note C = controller_calls_refine [OF token_ipc_laws px]
  have ok: "crosses sample_env (CCommand sample_command) sample_server" "crosses sample_env CValidCommands sample_server"
    using sample_command_ok by (simp_all add: crosses_def)
  have "inactive_code sample_server = None"
    by (simp add: inactive_code_def cd_IsSessionActive_def cd_get_def sample_server_def sample_session_def new_sess_data_def
        si_IsActive_def)
  with C [OF ok(1), of "\<lambda>_ _ _. None"] sample_command_ok
  have "proxy_do token_ipc new_ctrl_proxy (Some (ctrl_stub token_ipc True sample_env (\<lambda>_ _ _. None))) (CCommand sample_command)
      sample_server = map_option (map_prod ACode id) (cs_SendControlCommand sample_env sample_command sample_server)"
    by (simp add: ctrl_refused_def ctrl_sent_def ctrl_own_def ctrl_masked_def option.map_comp comp_def map_prod_def case_prod_unfold)
  moreover have "ctrl_own sample_env CValidCommands sample_server = Some (AInts (Inr [SESSION_CMD_SET_SPEED]), sample_server)"
    by (simp add: ctrl_own_def sample_server_def sample_session_def cd_GetValidCommands_def cd_get_def sd_GetSupportCommand_def
        new_sess_data_def new_session_def)
  ultimately show ?thesis using C [OF ok(2), of "\<lambda>_ _ _. None"] by (simp add: ctrl_refused_def ctrl_sent_def ctrl_masked_def)
qed

section \<open>A lost result\<close>

text \<open>C36: when the lyric may not be used, setting its visibility fails for the client with the error of a
  broken connection, and setting its state with the error that tells why.\<close>

theorem lyric_error_lost:
  assumes "fifo_ipc I V K" and "roomy_ipc I" and "\<not> pxDestroyed px" and "csSession s = Some sd"
    and "sd_lyric_check sd \<noteq> AVSESSION_SUCCESS"
  shows "cpx_SetDesktopLyricVisible I px (Some (ctrl_stub I True e rest)) b s = Some (ERR_IPC_SEND_REQUEST, s)
    \<and> cpx_SetDesktopLyricState I px (Some (ctrl_stub I True e rest)) b s = Some (sd_lyric_check sd, s)"
proof -
  have s: "s\<lparr>csSession := Some sd\<rparr> = s" using assms(4) by simp
  have "cs_session (cd_SetDesktopLyricVisible (ceStartOk e) b (crBundle (ceCaller e))) s = (sd_lyric_check sd, s)"
    "cs_session (cd_SetDesktopLyricState b (crBundle (ceCaller e))) s = (sd_lyric_check sd, s)"
    using assms(4,5) s by (simp_all add: cs_session_def cd_SetDesktopLyricVisible_def cd_SetDesktopLyricState_def
        sd_SetDesktopLyricVisibleInner_def sd_SetDesktopLyricStateInner_def)
  with lyric_visible_remote [OF assms(1-3) refl, of e rest b s] setters_remote(4) [OF assms(1-3) refl, of e rest b s] assms(5)
  show ?thesis by simp
qed

theorem lyric_error_lost_witness:
  "cpx_SetDesktopLyricVisible token_ipc new_ctrl_proxy (Some (ctrl_stub token_ipc True sample_env (\<lambda>_ _ _. None))) True sample_server
     = Some (ERR_IPC_SEND_REQUEST, sample_server) \<and> sd_lyric_check sample_session = ERR_DESKTOPLYRIC_NOT_SUPPORT"
proof -
  have px: "\<not> pxDestroyed new_ctrl_proxy" by (simp add: new_ctrl_proxy_def)
  have chk: "sd_lyric_check sample_session = ERR_DESKTOPLYRIC_NOT_SUPPORT"
    by (simp add: sd_lyric_check_def sample_session_def new_sess_data_def)
  have "csSession sample_server = Some sample_session" by (simp add: sample_server_def)
  from lyric_error_lost [OF token_ipc_laws px this] chk show ?thesis by (simp add: error_code_defs)
qed

section \<open>From the client to the application\<close>

lemma cc_accepts_arrives:
  "cc_accepts (cc_cmd cmd) (cc_param cmd) \<Longrightarrow> cc_accepts (cc_cmd cmd) (cc_param (cc_arrives cmd))"
  by (cases "cc_cmd cmd" rule: cmd_cases) (auto simp: cc_accepts_def cc_arrives_def cc_sent_param_def cc_has_param_def)

text \<open>C13: over a connection that works, with a proxy that is not destroyed, to a session that is active, whose
  application has registered a callback and which supports the command: a command with a valid number and a
  parameter that the setter of that number accepts, from a process inside its rate limit, makes the call
  succeed and asks the application exactly once, for this command and its parameter as they arrive
  (\<open>cc_arrives\<close>).\<close>

theorem client_command_reaches_app:
  assumes "fifo_ipc I V K" and "roomy_ipc I" and "\<not> pxDestroyed px"
    and "cc_IsValid cmd" and "cc_accepts (cc_cmd cmd) (cc_param cmd)"
    and "csSession s = Some sd" and "cc_cmd cmd \<in> set (sd_GetSupportCommand sd)" and "cmds_ok (sdSupportedCmd sd)"
    and "siIsActive (sdCore sd)" and "sdCallback sd" and "cl_IsCommandSendEnable (cePid e) (csLimit s) = (True, cl)"
  shows "\<exists>es. cpx_SendControlCommand I px (Some (ctrl_stub I True e rest)) cmd s
      = Some (AVSESSION_SUCCESS, s\<lparr>csSession := Some (sd_log es sd), csLimit := cl\<rparr>)
    \<and> asked_of es = cc_requests (sd_command_back (ceCaller e) (cc_arrives cmd)) \<and> length (asked_of es) = 1"
proof -
  note A = assms(1-3)
  have arr: "cc_cmd (cc_arrives cmd) = cc_cmd cmd" by (simp add: cc_arrives_def)
  obtain es where es: "cd_SendControlCommand (ceCaller e) (cePid e) (cc_arrives cmd) (Some sd, csLimit s)
      = Some (AVSESSION_SUCCESS, Some (sd_log es sd), cl)"
    "asked_of es = cc_requests (sd_command_back (ceCaller e) (cc_arrives cmd))" "length (asked_of es) = 1"
    using cd_command_asks [OF _ _ assms(8-11), of "cc_arrives cmd" "ceCaller e"] cc_accepts_arrives [OF assms(5)] assms(7) arr
    by auto
  have active: "cd_IsSessionActive (csSession s) = Inr True"
    using assms(6,9) by (simp add: cd_IsSessionActive_def cd_get_def si_IsActive_def)
  then have "inactive_code s = None" by (simp add: inactive_code_def)
  then have "cpx_SendControlCommand I px (Some (ctrl_stub I True e rest)) cmd s = cs_SendControlCommand e (cc_arrives cmd) s"
    unfolding cpx_SendControlCommand_def if_not_P [OF assms(3)] using assms(4)
    by (simp add: active_remote [OF A refl] commands_remote(1) [OF A refl assms(4,5)])
  with es assms(6) show ?thesis by (auto simp: cs_SendControlCommand_def)
qed

theorem client_command_reaches_app_witness:
  "\<exists>es s. cpx_SendControlCommand token_ipc new_ctrl_proxy (Some (ctrl_stub token_ipc True sample_env (\<lambda>_ _ _. None)))
      sample_command sample_server = Some (AVSESSION_SUCCESS, s) \<and> asked_of es = [OnSetSpeed (DFin 2)]
      \<and> csSession s = Some (sd_log es sample_session)"
proof -
  have px: "\<not> pxDestroyed new_ctrl_proxy" by (simp add: new_ctrl_proxy_def)
  have pre: "csSession sample_server = Some sample_session"
    "cc_cmd sample_command \<in> set (sd_GetSupportCommand sample_session)" "cmds_ok (sdSupportedCmd sample_session)"
    "siIsActive (sdCore sample_session)" "sdCallback sample_session"
    by (simp_all add: sample_server_def sample_session_def sample_command_def sd_GetSupportCommand_def cmds_ok_def
        new_sess_data_def new_session_def)
  have lim: "cl_IsCommandSendEnable (cePid sample_env) (csLimit sample_server) = (True, new_command_limit)"
    by (simp add: cl_IsCommandSendEnable_def new_command_limit_def sample_server_def)
  have req: "cc_requests (sd_command_back (ceCaller sample_env) sample_command) = [OnSetSpeed (DFin 2) :: key_code request]"
    by (simp add: cc_requests_def sample_command_def)
  from client_command_reaches_app [OF token_ipc_laws px sample_command_ok(1,2) pre lim, of "\<lambda>_ _ _. None"]
  show ?thesis unfolding sample_command_ok(3) req by force
qed

end
