(* ===== verification/AppProps.thy ===== *)
theory AppProps
  imports SessionServed RemoteProps
begin

text \<open>
  The properties of the remote calls of an application: every method of its proxy, what a client then reads
  through the proxy of a controller, and the answers of a proxy whose session is gone.
\<close>

section \<open>Every method\<close>

lemma ipc_code_success: "fst x = AVSESSION_SUCCESS \<Longrightarrow> map_prod ipc_code id x = x"
  by (cases x) (simp add: ipc_code_def)

lemma keeps_Some [simp]: "keeps f px (Some x) = Some (case x of (v, s) \<Rightarrow> (f v, px, s))"
  by (simp add: keeps_def)

lemma session_calls_refine_core:
  assumes "fifo_ipc I V K" and "roomy_ipc I" and "\<not> spDestroyed px" and "app_crosses c sd"
  shows "app_do I px (Some (sess_stub I True e rest)) c sd = Some (case app_refused px c of
     Some a \<Rightarrow> (a, px, sd)
   | None \<Rightarrow> (case sd_own e (app_sent c) sd of (a, sd') \<Rightarrow> (app_masked c a, app_keeps c a px, sd')))"
proof -
  let ?r = "Some (sess_stub I True e rest)"
  note G = session_getters [OF assms(1-3) refl] session_plain [OF assms(1-3) refl] session_simple_calls [OF assms(1-3) refl]
    session_vectors [OF assms(1-3) refl] session_lyric_calls [OF assms(1-3) refl]
    and R = session_result_calls [OF assms(1-3) refl]
  note defs = app_do_def app_refused_def app_sent_def app_masked_def app_keeps_def sd_own_def
  note proxy = spx_SetAVPlaybackState_def spx_SetMediaCenterControlType_def spx_SetSupportedLoopModes_def
    spx_SetSupportedPlaySpeeds_def spx_AddSupportCommand_def spx_DeleteSupportCommand_def spx_GetController_def
  show ?thesis
  proof (cases c)
    case (SState state)
    then show ?thesis
      by (cases "ps_IsValid state") (auto simp: defs R map_prod_def split: prod.split, simp_all add: spx_SetAVPlaybackState_def)
  next
    case SGetState
    then show ?thesis using G(5) assms(4) by (simp add: defs app_crosses_def)
  next
    case (SItems xs)
    have "map_prod ipc_code id (sd_SetAVQueueItems ys sd) = sd_SetAVQueueItems ys sd" for ys
      by (rule ipc_code_success) (simp add: sd_SetAVQueueItems_def)
    with SItems show ?thesis using assms(4)
      by (cases "queue_arrives maxQueueItemLength xs") (auto simp: defs R app_crosses_def map_prod_def split: prod.split)
  next
    case SGetItems
    then show ?thesis using G(6) assms(4) by (simp add: defs app_crosses_def)
  next
    case (STitle t)
    have "map_prod ipc_code id (sd_SetAVQueueTitle t sd) = sd_SetAVQueueTitle t sd"
      by (rule ipc_code_success) (simp add: sd_SetAVQueueTitle_def)
    with STitle show ?thesis by (simp add: defs R map_prod_def split: prod.split)
  next
    case (SCallback cb)
    have "spx_RegisterCallbackInner I ?r x sd = Some (sd_RegisterCallbackInner True sd)" for x
      using G(16) assms(3) by (simp add: spx_ret_def spx_send_def spx_RegisterCallbackInner_def)
    with SCallback assms(3) show ?thesis
      by (cases cb) (simp_all add: defs spx_RegisterCallback_def sd_RegisterCallbackInner_def)
  next
    case (SAdd cmd)
    then show ?thesis using assms(3) by (auto simp: defs proxy G map_prod_def sd_AddSupportCommand_def split: prod.split)
  next
    case (SDelete cmd)
    then show ?thesis using assms(3) by (auto simp: defs proxy G map_prod_def sd_DeleteSupportCommand_def split: prod.split)
  next
    case SController
    then show ?thesis using assms(3)
      by (auto simp: defs proxy G sd_GetControllerInner_def split: option.split prod.split bool.split)
  next
    case SDestroy
    then show ?thesis by (simp add: defs R sd_Destroy_def)
  qed (use assms(3) in \<open>auto simp: defs proxy G map_prod_def split: prod.split\<close>)
qed

text \<open>C5: over a connection that works and with room in its parcels, a call of the application's proxy that is not destroyed does to the
  session what the session's own operation does and answers what it answers, but for what the statement names: proxy or stub refuse a
  call (or give a controller that the proxy keeps) and the session stays as it is (\<open>app_refused\<close>); the session gets the queue items
  as they arrive (\<open>app_sent\<close>); a failure to set the playback state becomes the error of a broken connection (\<open>app_masked\<close>); the proxy
  keeps a new controller and ends with its session (\<open>app_keeps\<close>). A playback state or a queue that is read is one that
  arrived in the session, and the length of a queue that is set fits 31 bits (\<open>app_crosses\<close>).\<close>

theorem session_calls_refine:
  assumes "fifo_ipc I V K" and "roomy_ipc I" and "\<not> spDestroyed px" and "app_crosses c sd"
  shows "app_do I px (Some (sess_stub I True e rest)) c sd = Some (case app_refused px c of
     Some a \<Rightarrow> (a, px, sd)
   | None \<Rightarrow> (case sd_own e (app_sent c) sd of (a, sd') \<Rightarrow> (app_masked c a, app_keeps c a px, sd')))"
  by (rule session_calls_refine_core [OF assms])

definition sample_sess_env :: "key_code sess_env" where
  "sample_sess_env = \<lparr>seWeq = (=), seCustomData = (\<lambda>_. None), seStartOk = True, seDestroyed = (\<lambda>sd. sd)\<rparr>"

theorem session_calls_refine_witness:
  "\<exists>sd. app_do token_ipc new_sess_proxy (Some (sess_stub token_ipc True sample_sess_env (\<lambda>_ _ _. None))) (STitle ''t'') sample_session
     = Some (ZCode AVSESSION_SUCCESS, new_sess_proxy, sd) \<and> sdQueueTitle sd = ''t''"
proof -
  have px: "\<not> spDestroyed new_sess_proxy" by (simp add: new_sess_proxy_def)
  have "app_crosses (STitle ''t'') sample_session" by (simp add: app_crosses_def)
  from session_calls_refine [OF token_ipc_laws px this, of sample_sess_env "\<lambda>_ _ _. None"]
  show ?thesis
    by (simp add: app_refused_def app_sent_def app_masked_def app_keeps_def sd_own_def sd_SetAVQueueTitle_def sd_tell_def sd_log_def)
qed

section \<open>What the application sets, a client reads\<close>

text \<open>The calls that set something that a client can read, and what the client reads after a successful one, on the session
  \<open>sd\<close>. Metadata is not among them, the proxy of the session and that of the controller being modelled without it.\<close>

definition app_setting :: "'w sess_call \<Rightarrow> bool" where
  "app_setting c \<longleftrightarrow> (case c of SState _ \<Rightarrow> True | SItems _ \<Rightarrow> True | STitle _ \<Rightarrow> True | STypes _ \<Rightarrow> True | SSpeeds _ \<Rightarrow> True
     | SLoops _ \<Rightarrow> True | SActivate \<Rightarrow> True | SEnable _ \<Rightarrow> True | SVisible _ \<Rightarrow> True | SLock _ \<Rightarrow> True | _ \<Rightarrow> False)"

definition client_sees :: "('p, 'w) ipc_ops \<Rightarrow> 'w ctrl_proxy \<Rightarrow> ('p, 'w ctrl_server) remote option \<Rightarrow> 'w sess_call
    \<Rightarrow> ('w, 'w queue_item) sess_data \<Rightarrow> 'w ctrl_server \<Rightarrow> bool" where
  "client_sees I cx r c sd s \<longleftrightarrow> (case c of
     SState state \<Rightarrow> (\<exists>cx'. cpx_GetAVPlaybackState I cx r s = Some (Inr (snd (ps_CopyFrom state (sdPlayback sd))), cx', s))
   | SItems xs \<Rightarrow> (\<exists>ys. those (map qi_arrives xs) = Some ys \<and> cpx_GetAVQueueItems I cx r s = Some (Inr ys, s))
   | STitle t \<Rightarrow> cpx_GetAVQueueTitle I cx r s = Some (Inr t, s)
   | STypes ts \<Rightarrow> cpx_GetMediaCenterControlType I cx r s = Some (Inr ts, s)
   | SSpeeds ds \<Rightarrow> cpx_GetSupportedPlaySpeeds I cx r s = Some (Inr ds, s)
   | SLoops ls \<Rightarrow> cpx_GetSupportedLoopModes I cx r s = Some (Inr ls, s)
   | SActivate \<Rightarrow> cpx_IsSessionActive I cx r s = Some (Inr True, s)
   | SEnable b \<Rightarrow> cpx_IsDesktopLyricEnabled I cx r s = Some (Inr b, s)
   | SVisible b \<Rightarrow> cpx_IsDesktopLyricVisible I cx r s = Some (Inr b, s)
   | SLock b \<Rightarrow> cpx_GetDesktopLyricState I cx r s = Some (Inr b, s)
   | _ \<Rightarrow> False)"

lemma told_fields [simp]:
  "sdPlayback (sd_tell h sd) = sdPlayback sd" "sdQueueItems (sd_tell h sd) = sdQueueItems sd" "sdQueueTitle (sd_tell h sd) = sdQueueTitle sd"
  "sdControlTypes (sd_tell h sd) = sdControlTypes sd" "sdSpeeds (sd_tell h sd) = sdSpeeds sd" "sdLoopModes (sd_tell h sd) = sdLoopModes sd"
  "sdCore (sd_tell h sd) = sdCore sd" "sdLyric (sd_tell h sd) = sdLyric sd" "sdSupportedCmd (sd_tell h sd) = sdSupportedCmd sd"
  by (simp_all add: sd_tell_def sd_log_def)

lemma playback_set:
  "sdPlayback (snd (sd_SetAVPlaybackState weq state sd)) = snd (ps_CopyFrom state (sdPlayback sd))"
proof -
  have quiet: "sdPlayback (sd_CheckIfSendCapsule state (sd_queue_info sd')) = sdPlayback sd'" for sd' :: "('a, 'b) sess_data"
    by (simp add: sd_CheckIfSendCapsule_def sd_queue_info_def sd_log_def Let_def)
  obtain ok p where "ps_CopyFrom state (sdPlayback sd) = (ok, p)" by fastforce
  then show ?thesis by (simp add: sd_SetAVPlaybackState_def Let_def quiet)
qed

text \<open>What the session holds after the call succeeded.\<close>

lemma setting_stored:
  assumes "fst (sd_own e c sd) = ZCode AVSESSION_SUCCESS" and "sd' = snd (sd_own e c sd)"
  shows "c = SState state \<Longrightarrow> sdPlayback sd' = snd (ps_CopyFrom state (sdPlayback sd))"
    and "c = SItems xs \<Longrightarrow> sdQueueItems sd' = xs"
    and "c = STitle t \<Longrightarrow> sdQueueTitle sd' = t" and "c = STypes ts \<Longrightarrow> sdControlTypes sd' = ts"
    and "c = SSpeeds ds \<Longrightarrow> sdSpeeds sd' = ds" and "c = SLoops ls \<Longrightarrow> sdLoopModes sd' = ls"
    and "c = SActivate \<Longrightarrow> si_IsActive (sdCore sd')"
    and "c = SEnable b \<Longrightarrow> sd_IsDesktopLyricEnabled sd' = Inr b" and "c = SVisible b \<Longrightarrow> sd_IsDesktopLyricVisible sd' = Inr b"
    and "c = SLock b \<Longrightarrow> sd_GetDesktopLyricState sd' = Inr b"
proof -
  note defs = sd_own_def error_code_defs
  show "c = SState state \<Longrightarrow> sdPlayback sd' = snd (ps_CopyFrom state (sdPlayback sd))"
    using assms by (auto simp: defs playback_set)
  show "c = SItems xs \<Longrightarrow> sdQueueItems sd' = xs" using assms by (simp add: defs sd_SetAVQueueItems_def)
  show "c = STitle t \<Longrightarrow> sdQueueTitle sd' = t" using assms by (simp add: defs sd_SetAVQueueTitle_def)
  show "c = STypes ts \<Longrightarrow> sdControlTypes sd' = ts" using assms by (auto simp: defs sd_SetMediaCenterControlType_def)
  show "c = SSpeeds ds \<Longrightarrow> sdSpeeds sd' = ds" using assms by (auto simp: defs sd_SetSupportedPlaySpeeds_def)
  show "c = SLoops ls \<Longrightarrow> sdLoopModes sd' = ls" using assms by (auto simp: defs sd_SetSupportedLoopModes_def)
  show "c = SActivate \<Longrightarrow> si_IsActive (sdCore sd')"
    using assms by (simp_all add: defs sd_Activate_def sd_set_active_def sd_log_def si_IsActive_def Let_def)
  show "c = SEnable b \<Longrightarrow> sd_IsDesktopLyricEnabled sd' = Inr b"
    using assms by (auto simp: defs sd_EnableDesktopLyric_def sd_IsDesktopLyricEnabled_def Let_def split: if_splits)
  show "c = SVisible b \<Longrightarrow> sd_IsDesktopLyricVisible sd' = Inr b"
    using assms by (auto simp: defs sd_SetDesktopLyricVisible_def sd_SetDesktopLyricVisibleInner_def sd_HandleDesktopLyricVisibilityChanged_def
        sd_IsDesktopLyricVisible_def sd_lyric_check_def sd_log_def Let_def split: if_splits)
  show "c = SLock b \<Longrightarrow> sd_GetDesktopLyricState sd' = Inr b"
    using assms by (auto simp: defs sd_SetDesktopLyricState_def sd_SetDesktopLyricStateInner_def sd_HandleDesktopLyricStateChanged_def
        sd_GetDesktopLyricState_def sd_lyric_check_def sd_log_def Let_def split: if_splits)
qed

text \<open>A successful call of the proxy was one of the session.\<close>

lemma app_setting_own:
  assumes "fifo_ipc I V K" and "roomy_ipc I" and "\<not> spDestroyed px" and "app_crosses c sd" and "app_setting c"
    and "app_do I px (Some (sess_stub I True e rest)) c sd = Some (ZCode AVSESSION_SUCCESS, px', sd')"
  shows "app_refused px c = None \<and> fst (sd_own e (app_sent c) sd) = ZCode AVSESSION_SUCCESS \<and> sd' = snd (sd_own e (app_sent c) sd)"
proof -
  have got: "(case app_refused px c of Some a \<Rightarrow> (a, px, sd)
     | None \<Rightarrow> (case sd_own e (app_sent c) sd of (a, sd') \<Rightarrow> (app_masked c a, app_keeps c a px, sd'))) = (ZCode AVSESSION_SUCCESS, px', sd')"
    using session_calls_refine_core [OF assms(1-4), of e rest] assms(6) by simp
  have "app_refused px c \<noteq> Some (ZCode AVSESSION_SUCCESS)" using assms(5)
    by (cases c) (simp_all add: app_refused_def app_setting_def error_code_defs)
  with got have none: "app_refused px c = None" by (auto split: option.splits)
  have unmask: "a = ZCode AVSESSION_SUCCESS" if "app_masked c a = ZCode AVSESSION_SUCCESS" for a
    using that by (cases c; cases a) (auto simp: app_masked_def ipc_code_def error_code_defs split: if_splits)
  obtain a sd1 where own: "sd_own e (app_sent c) sd = (a, sd1)" by fastforce
  with got none have "app_masked c a = ZCode AVSESSION_SUCCESS" "sd' = sd1" by simp_all
  with unmask own none show ?thesis by simp
qed

lemma copied_state_known:
  fixes state old :: "'w playback_state"
  assumes "ps_IsValid state" and "PLAYBACK_STATE_INITIAL \<le> sint (psState old)" and "sint (psState old) < PLAYBACK_STATE_MAX"
  shows "PLAYBACK_STATE_INITIAL \<le> sint (psState (snd (ps_CopyFrom state old)))
    \<and> sint (psState (snd (ps_CopyFrom state old))) < PLAYBACK_STATE_MAX"
proof -
  obtain out where out: "ps_CopyFrom state old = (psMask state \<noteq> 0, out)"
    "list_all (\<lambda>k. ps_fields out ! k = (if bit (psMask state) k then ps_fields state ! k else ps_fields old ! k)) [0..<PLAYBACK_KEY_MAX]"
    using ps_CopyFrom_spec by blast
  then have "ps_fields out ! 0 = (if bit (psMask state) 0 then ps_fields state ! 0 else ps_fields old ! 0)"
    by (simp add: list_all_iff PLAYBACK_KEY_MAX_def)
  then have "psState out = psState state \<or> psState out = psState old" by (auto simp: ps_fields_def split: if_splits)
  with assms out(1) show ?thesis by (auto simp: ps_IsValid_def)
qed

text \<open>C6: when the application has set one of the settings of \<open>app_setting\<close> with success - playback state, queue items, queue
  title, control types, speeds, loop modes, activation, the enabling, visibility and lock of the lyric - a client that reads it
  through the proxy of a controller of that session gets what was set: the playback state as merged into the former one, the
  queue items as they arrive in the service, everything else as it is. Both proxies are alive, the connections work, and the
  former playback state has a known number. Metadata is not among the settings.\<close>

theorem settings_reach_client:
  assumes "fifo_ipc I V K" and "roomy_ipc I" and "\<not> spDestroyed px" and "\<not> pxDestroyed cx" and "app_setting c" and "app_crosses c sd"
    and "PLAYBACK_STATE_INITIAL \<le> sint (psState (sdPlayback sd))" and "sint (psState (sdPlayback sd)) < PLAYBACK_STATE_MAX"
    and "app_do I px (Some (sess_stub I True e rest)) c sd = Some (ZCode AVSESSION_SUCCESS, px', sd')" and "csSession s = Some sd'"
  shows "client_sees I cx (Some (ctrl_stub I True ce crest)) c sd s"
proof -
  note O = app_setting_own [OF assms(1-3,6,5,9)]
  then have ok: "fst (sd_own e (app_sent c) sd) = ZCode AVSESSION_SUCCESS" "sd' = snd (sd_own e (app_sent c) sd)" by simp_all
  note stored = setting_stored [OF ok] and G = getters_remote [OF assms(1,2,4) refl]
    and defs = client_sees_def cd_get_def cd_ask_def
  show ?thesis
  proof (cases c)
    case (SState state)
    then have sent: "app_sent c = SState state" and valid: "ps_IsValid state"
      using O by (simp_all add: app_sent_def app_refused_def split: if_splits)
    from stored(1) [OF sent] have v: "sdPlayback sd' = snd (ps_CopyFrom state (sdPlayback sd))" .
    with copied_state_known [OF valid assms(7,8)] assms(10) have "crosses ce CGetState s" by (simp add: crosses_def)
    from state_remote [OF assms(1,2,4) this, of crest] v assms(10) SState show ?thesis
      by (simp add: defs cd_GetAVPlaybackState_def)
  next
    case (SItems xs)
    then obtain ys where ys: "queue_arrives maxQueueItemLength xs = Some ys" using O by (auto simp: app_refused_def split: if_splits)
    with SItems have "app_sent c = SItems ys" by (simp add: app_sent_def)
    from stored(2) [OF this] have v: "sdQueueItems sd' = ys" .
    with queue_arrives_again [OF ys] assms(10) have "crosses ce CQueueItems s"
      by (simp add: crosses_def queue_readable_def maxQueueItemLength_def)
    from items_remote [OF assms(1,2,4) this, of crest] v assms(10) SItems ys show ?thesis
      by (auto simp: defs cd_GetAVQueueItems_def queue_arrives_def split: if_splits)
  qed (use assms(5,10) stored(3-10) in \<open>auto simp: app_setting_def app_sent_def defs G cd_GetAVQueueTitle_def
      cd_GetMediaCenterControlType_def cd_GetSupportedPlaySpeeds_def cd_GetSupportedLoopModes_def cd_IsSessionActive_def
      cd_IsDesktopLyricEnabled_def cd_IsDesktopLyricVisible_def cd_GetDesktopLyricState_def\<close>)
qed

theorem settings_reach_client_witness:
  "\<exists>sd. app_do token_ipc new_sess_proxy (Some (sess_stub token_ipc True sample_sess_env (\<lambda>_ _ _. None))) (STitle ''t'') sample_session
     = Some (ZCode AVSESSION_SUCCESS, new_sess_proxy, sd)
   \<and> cpx_GetAVQueueTitle token_ipc new_ctrl_proxy (Some (ctrl_stub token_ipc True sample_env (\<lambda>_ _ _. None)))
       (sample_server\<lparr>csSession := Some sd\<rparr>) = Some (Inr ''t'', sample_server\<lparr>csSession := Some sd\<rparr>)"
proof -
  have px: "\<not> spDestroyed new_sess_proxy" "\<not> pxDestroyed new_ctrl_proxy" by (simp_all add: new_sess_proxy_def new_ctrl_proxy_def)
  have cr: "app_setting (STitle ''t'')" "app_crosses (STitle ''t'') sample_session" by (simp_all add: app_crosses_def app_setting_def)
  have st: "PLAYBACK_STATE_INITIAL \<le> sint (psState (sdPlayback sample_session))" "sint (psState (sdPlayback sample_session)) < PLAYBACK_STATE_MAX"
    by (simp_all add: sample_session_def new_sess_data_def new_playback_state_def PLAYBACK_STATE_INITIAL_def PLAYBACK_STATE_MAX_def)
  obtain sd where sd: "app_do token_ipc new_sess_proxy (Some (sess_stub token_ipc True sample_sess_env (\<lambda>_ _ _. None))) (STitle ''t'') sample_session
      = Some (ZCode AVSESSION_SUCCESS, new_sess_proxy, sd)"
    using session_calls_refine_core [OF token_ipc_laws px(1) cr(2), of sample_sess_env "\<lambda>_ _ _. None"]
    by (simp add: app_refused_def app_sent_def app_masked_def app_keeps_def sd_own_def sd_SetAVQueueTitle_def)
  have "csSession (sample_server\<lparr>csSession := Some sd\<rparr>) = Some sd" by simp
  from settings_reach_client [OF token_ipc_laws px cr st sd this, of sample_env "\<lambda>_ _ _. None"] sd
  show ?thesis by (auto simp: client_sees_def)
qed

section \<open>A session that is gone\<close>

text \<open>a proxy whose session is destroyed says that the session is active, as does one whose service is
  gone: the error code of the request becomes the truth value.\<close>

theorem gone_session_is_active:
  assumes "spDestroyed px \<or> r = None" and "roomy_ipc I"
  shows "spx_IsActive I px r sd = Some (True, sd)"
proof -
  have "fst (w_all [WriteInterfaceToken I sessionDescriptor] (ipEmpty I))"
    by (rule w_all_succeeds) (use assms(2) in \<open>simp add: roomy_ipc_def\<close>)
  then show ?thesis using assms(1)
    by (cases "w_all [WriteInterfaceToken I sessionDescriptor] (ipEmpty I)")
      (auto simp: spx_IsActive_def spx_send_def px_send_def px_call_def error_code_defs)
qed

theorem gone_session_is_active_witness:
  "\<exists>px sd. spx_Destroy token_ipc new_sess_proxy (Some (sess_stub token_ipc True sample_sess_env (\<lambda>_ _ _. None))) sample_session
     = Some (AVSESSION_SUCCESS, px, sd)
   \<and> spx_IsActive token_ipc px (Some (sess_stub token_ipc True sample_sess_env (\<lambda>_ _ _. None))) sd = Some (True, sd)"
proof -
  have px: "\<not> spDestroyed new_sess_proxy" by (simp add: new_sess_proxy_def)
  let ?px = "new_sess_proxy\<lparr>spDestroyed := True, spController := None\<rparr>"
  have "spDestroyed ?px \<or> Some (sess_stub token_ipc True sample_sess_env (\<lambda>_ _ _. None)) = None" by simp
  from gone_session_is_active [OF this token_ipc_laws(2)]
    session_result_calls(5) [OF token_ipc_laws px refl, of sample_sess_env "\<lambda>_ _ _. None" sample_session]
  show ?thesis by blast
qed

section \<open>A queue of a thousand items\<close>

text \<open>C37: over a connection that works, a queue of a thousand items or more, or with an item that has no description, is refused with
  the error of a broken connection and the session stays as it is; any other is set, each item as it arrives (\<open>md_arrives\<close>: an icon
  of more than 10 MB is gone, and so is what a description does not send).\<close>

theorem thousand_items_refused:
  assumes "fifo_ipc I V K" and "roomy_ipc I" and "\<not> spDestroyed px" and "length xs < 2 ^ 31"
  shows "spx_SetAVQueueItems I px (Some (sess_stub I True e rest)) xs sd =
    Some (if length xs < 1000 \<and> (\<forall>x \<in> set xs. qiDescription x \<noteq> None)
      then sd_SetAVQueueItems (map (\<lambda>x. x\<lparr>qiDescription := map_option md_arrives (qiDescription x)\<rparr>) xs) sd
      else (ERR_IPC_SEND_REQUEST, sd))"
proof -
  have len: "int (length xs) < 2 ^ 31" using assms(4) by simp
  have those: "those (map qi_arrives xs) = (if \<forall>x \<in> set xs. qiDescription x \<noteq> None
      then Some (map (\<lambda>x. x\<lparr>qiDescription := map_option md_arrives (qiDescription x)\<rparr>) xs) else None)"
    by (induction xs) (auto simp: qi_arrives_def split: option.split)
  have arr: "queue_arrives maxQueueItemLength xs = (if length xs < 1000 \<and> (\<forall>x \<in> set xs. qiDescription x \<noteq> None)
      then Some (map (\<lambda>x. x\<lparr>qiDescription := map_option md_arrives (qiDescription x)\<rparr>) xs) else None)"
    by (simp add: queue_arrives_def those maxQueueItemLength_def)
  have success: "map_prod ipc_code id (sd_SetAVQueueItems ys sd) = sd_SetAVQueueItems ys sd" for ys
    by (rule ipc_code_success) (simp add: sd_SetAVQueueItems_def)
  show ?thesis
    using session_result_calls(3,4) [OF assms(1-3) refl len] arr success by (auto split: if_splits)
qed

theorem thousand_items_refused_witness:
  "spx_SetAVQueueItems token_ipc new_sess_proxy (Some (sess_stub token_ipc True sample_sess_env (\<lambda>_ _ _. None)))
     (replicate 1000 new_queue_item) sample_session = Some (ERR_IPC_SEND_REQUEST, sample_session)"
proof -
  have px: "\<not> spDestroyed new_sess_proxy" by (simp add: new_sess_proxy_def)
  have "length (replicate 1000 (new_queue_item :: key_code queue_item)) < 2 ^ 31" by simp
  from thousand_items_refused [OF token_ipc_laws px this, of sample_sess_env "\<lambda>_ _ _. None" sample_session]
  show ?thesis by simp
qed

end
