(* ===== verification/CastSession.thy ===== *)
theory CastSession
  imports CppString Parcel Errors
begin

text \<open>
  Devices that media can be cast to (\<^verbatim>\<open>avsession_descriptor.h\<close>, \<^verbatim>\<open>avsession_info.h\<close>): \<^verbatim>\<open>DeviceInfo\<close>,
  the handle of a cast, and the numbers of the enumerations. \<^verbatim>\<open>OutputDeviceInfo\<close> is a list of devices.
  \<open>'a\<close> is \<^verbatim>\<open>AudioStreamInfo\<close>, which belongs to the audio framework.
\<close>

section \<open>Enumerations\<close>

definition CATEGORY_LOCAL :: i32 where "CATEGORY_LOCAL = 0"
definition CATEGORY_REMOTE :: i32 where "CATEGORY_REMOTE = 1"

definition TYPE_LOCAL :: "32 word" where "TYPE_LOCAL = 0"
definition TYPE_CAST_PLUS_MIRROR :: "32 word" where "TYPE_CAST_PLUS_MIRROR = 1"
definition TYPE_CAST_PLUS_STREAM :: "32 word" where "TYPE_CAST_PLUS_STREAM = 2"
definition TYPE_DLNA :: "32 word" where "TYPE_DLNA = 4"
definition TYPE_CAST_PLUS_AUDIO :: "32 word" where "TYPE_CAST_PLUS_AUDIO = 8"

lemmas protocol_defs = TYPE_LOCAL_def TYPE_CAST_PLUS_MIRROR_def TYPE_CAST_PLUS_STREAM_def TYPE_DLNA_def
  TYPE_CAST_PLUS_AUDIO_def

definition DEVICE_TYPE_TV :: i32 where "DEVICE_TYPE_TV = 2"
definition DEVICE_TYPE_CAR :: i32 where "DEVICE_TYPE_CAR = 4"
definition DEVICE_TYPE_PAD :: i32 where "DEVICE_TYPE_PAD = 6"
definition DEVICE_TYPE_DEFAULT_CAST_PLUS_STREAM :: i32 where "DEVICE_TYPE_DEFAULT_CAST_PLUS_STREAM = 7"
definition DEVICE_TYPE_2IN1 :: i32 where "DEVICE_TYPE_2IN1 = 8"
definition DEVICE_TYPE_HIPLAY :: i32 where "DEVICE_TYPE_HIPLAY = 15"

definition STATE_CONNECTING :: int where "STATE_CONNECTING = 0"
definition STATE_CONNECTED :: int where "STATE_CONNECTED = 1"
definition STATE_DISCONNECTED :: int where "STATE_DISCONNECTED = 6"

definition DEVICE_LEVEL :: i32 where "DEVICE_LEVEL = 1"
definition APP_LEVEL :: i32 where "APP_LEVEL = 2"

section \<open>Devices\<close>

record hiplay_info =
  hpSupportCastMode :: i32
  hpCastMode :: i32
  hpCastUid :: i32
  hpModuleId :: string
  hpSubmoduleId :: string

definition new_hiplay_info :: hiplay_info where
  "new_hiplay_info = \<lparr>hpSupportCastMode = 0, hpCastMode = 0, hpCastUid = 0, hpModuleId = [], hpSubmoduleId = []\<rparr>"

record 'a device_info =
  dvCastCategory :: i32
  dvDeviceId :: string
  dvDeviceName :: string
  dvNetworkId :: string
  dvIpAddress :: string
  dvManufacturer :: string
  dvModelName :: string
  dvDeviceType :: i32
  dvProviderId :: i32
  dvSupportedProtocols :: i32
  dvAuthenticationStatus :: i32
  dvSupportedDrmCapabilities :: "string list"
  dvSupportedPullClients :: "32 word list"
  dvIsLegacy :: bool
  dvMediumTypes :: i32
  dvStreamInfos :: "'a list"
  dvBleMac :: string
  dvTriggerType :: i32
  dvUuid :: string
  dvHiPlayDeviceInfo :: hiplay_info
  dvRealDeviceId :: string
  dvScreenId :: i32

definition new_device_info :: "'a device_info" where
  "new_device_info = \<lparr>dvCastCategory = 0, dvDeviceId = [], dvDeviceName = [], dvNetworkId = [], dvIpAddress = [],
     dvManufacturer = [], dvModelName = [], dvDeviceType = 0, dvProviderId = 0, dvSupportedProtocols = 0,
     dvAuthenticationStatus = 0, dvSupportedDrmCapabilities = [], dvSupportedPullClients = [], dvIsLegacy = False,
     dvMediumTypes = 2, dvStreamInfos = [], dvBleMac = [], dvTriggerType = 0, dvUuid = [],
     dvHiPlayDeviceInfo = new_hiplay_info, dvRealDeviceId = [], dvScreenId = -1\<rparr>"

text \<open>The constructor with a category, an id and a name, and the local device that the router puts in.\<close>

definition device_of :: "i32 \<Rightarrow> string \<Rightarrow> string \<Rightarrow> 'a device_info" where
  "device_of castCategory deviceId deviceName =
     new_device_info\<lparr>dvCastCategory := castCategory, dvDeviceId := deviceId, dvDeviceName := deviceName\<rparr>"

definition local_device :: "'a device_info" where
  "local_device = device_of CATEGORY_LOCAL ''-1'' ''LocalDevice''"

lemma deviceId_local [simp]: "dvDeviceId local_device = ''-1''"
  by (simp add: local_device_def device_of_def)

section \<open>The handle of a cast\<close>

text \<open>
  The first 32 bits are the number of the provider, the last 32 bits the number of the cast at the
  provider. The numbers are \<^verbatim>\<open>int32_t\<close>, the handle \<^verbatim>\<open>int64_t\<close>.
\<close>

definition cast_handle :: "int \<Rightarrow> int \<Rightarrow> int" where
  "cast_handle providerId castId =
     sint (push_bit 32 (word_of_int providerId :: 64 word) OR ucast (word_of_int castId :: 32 word))"

definition handle_provider :: "int \<Rightarrow> int" where
  "handle_provider castHandle = sint (ucast (drop_bit 32 (word_of_int castHandle :: 64 word)) :: 32 word)"

definition handle_cast_id :: "int \<Rightarrow> int" where
  "handle_cast_id castHandle =
     sint (ucast (drop_bit 32 (push_bit 32 (word_of_int castHandle :: 64 word))) :: 32 word)"

definition is_int32 :: "int \<Rightarrow> bool" where
  "is_int32 n \<longleftrightarrow> - (2 ^ 31) \<le> n \<and> n < 2 ^ 31"

lemma sint_i32: "is_int32 n \<Longrightarrow> sint (word_of_int n :: 32 word) = n"
  by (simp add: is_int32_def signed_of_int signed_take_bit_int_eq_self)

lemma is_int32_sint [simp]: "is_int32 (sint (w :: 32 word))"
  using sint_range_size [of w] by (simp add: is_int32_def word_size)

lemma handle_parts:
  "ucast (drop_bit 32 (push_bit 32 (x :: 64 word) OR ucast (y :: 32 word))) = (ucast x :: 32 word)"
  "ucast (drop_bit 32 (push_bit 32 (push_bit 32 (x :: 64 word) OR ucast (y :: 32 word)))) = y"
  by (rule bit_word_eqI, auto simp: bit_ucast_iff bit_drop_bit_eq bit_push_bit_iff bit_or_iff dest: bit_imp_le_length)+

lemma ucast_word_of_int: "ucast (word_of_int n :: 64 word) = (word_of_int n :: 32 word)"
  by (rule bit_word_eqI) (simp add: bit_ucast_iff bit_word_of_int_iff)

text \<open>A handle gives back its two numbers.\<close>

lemma handle_inverse:
  assumes "is_int32 p" and "is_int32 c"
  shows "handle_provider (cast_handle p c) = p" and "handle_cast_id (cast_handle p c) = c"
  using assms by (simp_all add: handle_provider_def handle_cast_id_def cast_handle_def handle_parts ucast_word_of_int sint_i32 del: drop_bit_or push_bit_or)

lemma scast_low: "(scast (w :: 64 word) :: 32 word) = ucast w"
  by (rule bit_word_eqI) (simp add: bit_signed_iff bit_ucast_iff min_def)

lemma cast_handle_low:
  assumes "is_int32 c"
  shows "sint (word_of_int (cast_handle p c) :: 32 word) = c"
proof -
  have "ucast (push_bit 32 (x :: 64 word) OR ucast (y :: 32 word)) = y" for x y
    by (rule bit_word_eqI) (auto simp: bit_ucast_iff bit_push_bit_iff bit_or_iff dest: bit_imp_le_length)
  then show ?thesis using assms by (simp add: cast_handle_def scast_low sint_i32)
qed

lemma cast_handle_inj:
  assumes "is_int32 p" and "is_int32 c" and "is_int32 p'" and "is_int32 c'"
  shows "cast_handle p c = cast_handle p' c' \<longleftrightarrow> p = p' \<and> c = c'"
  using handle_inverse [OF assms(1,2)] handle_inverse [OF assms(3,4)] by metis

text \<open>
  \<^verbatim>\<open>HwCastProviderSession\<close> (\<^verbatim>\<open>hw_cast_provider_session.cpp\<close>): one cast session of the cast engine, with
  the listeners for its state and the last state that no listener has seen. The cast engine is not
  part of the repository: the record \<open>cast_engine\<close> holds its constants and its calls, over a state
  \<open>'e\<close> of its own. Cast sessions and stream players of the engine are numbers. \<open>'a\<close> is
  \<^verbatim>\<open>AudioStreamInfo\<close>. The lock of the object is left out.
\<close>

section \<open>The cast engine\<close>

record service_info =
  svScreenId :: i32
  svServiceName :: string
  svIsTrusted :: bool

record 'a remote_device =
  rdDeviceId :: string
  rdDeviceName :: string
  rdRawDeviceType :: i32
  rdIpAddress :: string
  rdNetworkId :: string
  rdManufacturerName :: string
  rdModelName :: string
  rdProtocolCapabilities :: "32 word"
  rdDrmCapabilities :: "string list"
  rdIsLegacy :: bool
  rdMediumTypes :: i32
  rdStreamCapability :: string
  rdBleMac :: string
  rdUuid :: string
  rdIsSupportDeviceCast :: bool
  rdIsTrushed :: bool
  rdServiceInfos :: "service_info list"
  rdTriggerType :: i32
  rdSpid :: "32 word"
  rdAudioCapability :: 'a

record cast_property =
  cpProtocolType :: "32 word"
  cpEndType :: int
  cpAudioCodec :: int
  cpVideoCodec :: int
  cpWindow :: "(32 word \<times> 32 word \<times> 32 word \<times> 32 word) option"

record device_state_info =
  dsDeviceState :: int
  dsDeviceId :: string
  dsReasonCode :: int
  dsRadarErrCode :: int
  dsScreenId :: i32

text \<open>
  The constants of \<^verbatim>\<open>CastEngine::ProtocolType\<close>, \<^verbatim>\<open>DeviceState\<close> and \<^verbatim>\<open>EventId\<close>, the default of an
  audio capability, the calls of the session manager (\<open>csm\<close>), of a cast session (\<open>cs\<close>) and of a stream
  player (\<open>sp\<close>), and what the display manager and the JSON parser answer.
\<close>

record ('e, 'a) cast_engine =
  castPlusMirror :: "32 word"
  castPlusStream :: "32 word"
  castDlna :: "32 word"
  castPlusAudio :: "32 word"
  castSource :: int
  codecH265 :: int
  stConnected :: int
  stPlaying :: int
  stStream :: int
  stDisconnected :: int
  stMirrorToStream :: int
  stStreamToMirror :: int
  evStreamToMirrorFromSink :: int
  evConfigMode :: int
  evBypassData :: int
  evQueryRequest :: int
  evModeChange :: int
  passiveConflict :: "int \<Rightarrow> bool"
  noAudio :: 'a
  csmRegisterListener :: "'e \<Rightarrow> int \<times> 'e"
  csmUnregisterListener :: "'e \<Rightarrow> 'e"
  csmStartDeviceLogging :: "int \<Rightarrow> 32 word \<Rightarrow> 'e \<Rightarrow> 'e"
  csmStartDiscovery :: "int \<Rightarrow> string list \<Rightarrow> 'e \<Rightarrow> int \<times> 'e"
  csmStopDiscovery :: "'e \<Rightarrow> 'e"
  csmCreateCastSession :: "cast_property \<Rightarrow> 'e \<Rightarrow> (int \<times> nat option) \<times> 'e"
  csmGetCastSession :: "string \<Rightarrow> 'e \<Rightarrow> nat option \<times> 'e"
  csRegisterListener :: "nat \<Rightarrow> 'e \<Rightarrow> int \<times> 'e"
  csRelease :: "nat \<Rightarrow> 'e \<Rightarrow> 'e"
  csAddDevice :: "nat \<Rightarrow> 'a remote_device \<Rightarrow> 'e \<Rightarrow> int \<times> 'e"
  csAddDeviceWithConfig :: "nat \<Rightarrow> 'a remote_device \<Rightarrow> int \<Rightarrow> 'e \<Rightarrow> int \<times> 'e"
  csRemoveDevice :: "nat \<Rightarrow> string \<Rightarrow> int \<Rightarrow> 'e \<Rightarrow> bool \<times> 'e"
  csNotifyEvent :: "nat \<Rightarrow> int \<Rightarrow> string \<Rightarrow> 'e \<Rightarrow> 'e"
  csGetSessionId :: "nat \<Rightarrow> 'e \<Rightarrow> string \<times> 'e"
  csCreateStreamPlayer :: "nat \<Rightarrow> 'e \<Rightarrow> nat option \<times> 'e"
  csGetRemoteDeviceInfo :: "nat \<Rightarrow> string \<Rightarrow> 'e \<Rightarrow> 'a remote_device \<times> 'e"
  spRegisterListener :: "nat \<Rightarrow> 'e \<Rightarrow> int \<times> 'e"
  spRelease :: "nat \<Rightarrow> 'e \<Rightarrow> 'e"
  displaySize :: "(i32 \<times> i32) option"
  jsonNumbers :: "string \<Rightarrow> int option list option"
  jsonDeviceInfo :: "string \<Rightarrow> (string option \<times> int option) option"

definition new_remote_device :: "('e, 'a) cast_engine \<Rightarrow> 'a remote_device" where
  "new_remote_device E = \<lparr>rdDeviceId = [], rdDeviceName = [], rdRawDeviceType = 0, rdIpAddress = [],
     rdNetworkId = [], rdManufacturerName = [], rdModelName = [], rdProtocolCapabilities = 0,
     rdDrmCapabilities = [], rdIsLegacy = False, rdMediumTypes = 0, rdStreamCapability = [], rdBleMac = [],
     rdUuid = [], rdIsSupportDeviceCast = False, rdIsTrushed = False, rdServiceInfos = [], rdTriggerType = 0,
     rdSpid = 0, rdAudioCapability = noAudio E\<rparr>"

section \<open>State\<close>

text \<open>A listener is the router's \<^verbatim>\<open>CastSessionListener\<close>, known by a number.\<close>

record cast_session =
  hsCastSession :: "nat option"
  hsListeners :: "nat list"
  hsStashState :: int
  hsStashDeviceId :: string
  hsProtocolType :: "32 word"
  hsToastState :: int

definition new_cast_session :: "('e, 'a) cast_engine \<Rightarrow> nat option \<Rightarrow> cast_session" where
  "new_cast_session E castSession = \<lparr>hsCastSession = castSession, hsListeners = [], hsStashState = -1,
     hsStashDeviceId = [], hsProtocolType = castPlusStream E, hsToastState = STATE_DISCONNECTED\<rparr>"

text \<open>What a listener is told: its number, the state, the device and the reason.\<close>

type_synonym 'a told = "nat \<times> int \<times> 'a device_info \<times> int"

definition deviceStateConnection :: int where "deviceStateConnection = 6"
definition noReasonCode :: int where "noReasonCode = 0"
definition prepareState :: int where "prepareState = 2"

section \<open>Operations\<close>

definition hs_Init :: "('e, 'a) cast_engine \<Rightarrow> 'e \<Rightarrow> cast_session \<Rightarrow> int \<times> 'e" where
  "hs_Init E e s = (case hsCastSession s of Some cs \<Rightarrow> csRegisterListener E cs e | None \<Rightarrow> (AVSESSION_ERROR, e))"

definition hs_SetProtocolType :: "32 word \<Rightarrow> cast_session \<Rightarrow> cast_session" where
  "hs_SetProtocolType protocolType s = s\<lparr>hsProtocolType := protocolType\<rparr>"

definition hs_Release :: "('e, 'a) cast_engine \<Rightarrow> 'e \<times> cast_session \<Rightarrow> 'e \<times> cast_session" where
  "hs_Release E es = (case es of (e, s) \<Rightarrow> case hsCastSession s of
     None \<Rightarrow> (e, s)
   | Some cs \<Rightarrow> (csRelease E cs e, s\<lparr>hsToastState := STATE_DISCONNECTED, hsCastSession := None\<rparr>))"

text \<open>\<^verbatim>\<open>avToastDeviceState_\<close> while a device is added and after it.\<close>

definition hs_added :: "cast_session \<Rightarrow> int \<times> 'e \<Rightarrow> bool \<times> 'e \<times> cast_session" where
  "hs_added s x = (case x of (ret, e) \<Rightarrow>
     (ret = 0, e, s\<lparr>hsToastState := if ret = 0 then STATE_CONNECTING else STATE_DISCONNECTED\<rparr>))"

definition hs_AddDevice ::
  "('e, 'a) cast_engine \<Rightarrow> 'a device_info \<Rightarrow> 32 word \<Rightarrow> 'e \<times> cast_session \<Rightarrow> bool \<times> 'e \<times> cast_session" where
  "hs_AddDevice E deviceInfo spid es = (case es of (e, s) \<Rightarrow> case hsCastSession s of
     None \<Rightarrow> (False, e, s)
   | Some cs \<Rightarrow> hs_added s (csAddDevice E cs ((new_remote_device E)\<lparr>rdDeviceId := dvRealDeviceId deviceInfo,
         rdBleMac := dvBleMac deviceInfo, rdTriggerType := dvTriggerType deviceInfo, rdSpid := spid,
         rdServiceInfos := [\<lparr>svScreenId = dvScreenId deviceInfo, svServiceName = [], svIsTrusted = False\<rparr>]\<rparr>) e))"

definition hs_AddDeviceWithConnectionConfig ::
  "('e, 'a) cast_engine \<Rightarrow> 'a device_info \<Rightarrow> 32 word \<Rightarrow> int \<Rightarrow> 'e \<times> cast_session \<Rightarrow> bool \<times> 'e \<times> cast_session" where
  "hs_AddDeviceWithConnectionConfig E deviceInfo spid config es = (case es of (e, s) \<Rightarrow> case hsCastSession s of
     None \<Rightarrow> (False, e, s)
   | Some cs \<Rightarrow> hs_added s (csAddDeviceWithConfig E cs ((new_remote_device E)\<lparr>rdDeviceId := dvDeviceId deviceInfo,
         rdDeviceName := dvDeviceName deviceInfo, rdBleMac := dvBleMac deviceInfo,
         rdTriggerType := dvTriggerType deviceInfo, rdSpid := spid\<rparr>) config e))"

definition hs_SendCommandArgsToCast ::
  "('e, 'a) cast_engine \<Rightarrow> int \<Rightarrow> string \<Rightarrow> 'e \<Rightarrow> cast_session \<Rightarrow> 'e" where
  "hs_SendCommandArgsToCast E commandType params e s = (case hsCastSession s of
     None \<Rightarrow> e
   | Some cs \<Rightarrow> if commandType = 0 then csNotifyEvent E cs (evConfigMode E) params e
       else if commandType = 1 then csNotifyEvent E cs (evBypassData E) params e
       else if commandType = 2 then csNotifyEvent E cs (evQueryRequest E) params e
       else if commandType = 3 then csNotifyEvent E cs (evModeChange E) params e
       else e)"

definition hs_QueryCastSessionId :: "('e, 'a) cast_engine \<Rightarrow> 'e \<Rightarrow> cast_session \<Rightarrow> string \<times> 'e" where
  "hs_QueryCastSessionId E e s = (case hsCastSession s of None \<Rightarrow> ([], e) | Some cs \<Rightarrow> csGetSessionId E cs e)"

definition hs_RemoveDevice ::
  "('e, 'a) cast_engine \<Rightarrow> string \<Rightarrow> int \<Rightarrow> 'e \<times> cast_session \<Rightarrow> bool \<times> 'e \<times> cast_session" where
  "hs_RemoveDevice E deviceId action es = (case es of (e, s) \<Rightarrow> case hsCastSession s of
     None \<Rightarrow> (False, e, s)
   | Some cs \<Rightarrow> (case csRemoveDevice E cs deviceId action e of
       (ret, e) \<Rightarrow> (ret, e, s\<lparr>hsToastState := STATE_DISCONNECTED\<rparr>)))"

definition hs_CreateStreamPlayer :: "('e, 'a) cast_engine \<Rightarrow> 'e \<Rightarrow> cast_session \<Rightarrow> nat option \<times> 'e" where
  "hs_CreateStreamPlayer E e s =
     (case hsCastSession s of None \<Rightarrow> (None, e) | Some cs \<Rightarrow> csCreateStreamPlayer E cs e)"

text \<open>The out parameter keeps its value when there is no cast session.\<close>

definition hs_GetRemoteDrmCapabilities ::
  "('e, 'a) cast_engine \<Rightarrow> string \<Rightarrow> 'e \<Rightarrow> cast_session \<Rightarrow> string list option \<times> 'e" where
  "hs_GetRemoteDrmCapabilities E deviceId e s = (case hsCastSession s of
     None \<Rightarrow> (None, e)
   | Some cs \<Rightarrow> (case csGetRemoteDeviceInfo E cs deviceId e of (d, e) \<Rightarrow> (Some (rdDrmCapabilities d), e)))"

definition hs_GetRemoteNetWorkId ::
  "('e, 'a) cast_engine \<Rightarrow> string \<Rightarrow> 'e \<Rightarrow> cast_session \<Rightarrow> string option \<times> 'e" where
  "hs_GetRemoteNetWorkId E deviceId e s = (case hsCastSession s of
     None \<Rightarrow> (None, e)
   | Some cs \<Rightarrow> (case csGetRemoteDeviceInfo E cs deviceId e of (d, e) \<Rightarrow> (Some (rdNetworkId d), e)))"

section \<open>Listeners\<close>

definition hs_SetStreamState :: "'a device_info \<Rightarrow> cast_session \<Rightarrow> 'a told list \<times> cast_session" where
  "hs_SetStreamState deviceInfo s =
     (map (\<lambda>l. (l, deviceStateConnection, deviceInfo, noReasonCode)) (hsListeners s),
      s\<lparr>hsStashState := deviceStateConnection, hsStashDeviceId := dvDeviceId deviceInfo\<rparr>)"

text \<open>A new listener is told the state that was stashed, which stays stashed.\<close>

definition hs_RegisterListener :: "nat \<Rightarrow> cast_session \<Rightarrow> bool \<times> 'a told list \<times> cast_session" where
  "hs_RegisterListener l s =
     (if l \<in> set (hsListeners s) then (False, [], s)
      else (True,
        if 0 < hsStashState s
        then [(l, hsStashState s, device_of CATEGORY_LOCAL (hsStashDeviceId s) ''RemoteCast'', noReasonCode)] else [],
        s\<lparr>hsListeners := hsListeners s @ [l]\<rparr>))"

definition hs_UnRegisterListener :: "nat \<Rightarrow> cast_session \<Rightarrow> bool \<times> cast_session" where
  "hs_UnRegisterListener l s = (l \<in> set (hsListeners s), s\<lparr>hsListeners := remove1 l (hsListeners s)\<rparr>)"

section \<open>Events of the cast engine\<close>

definition hs_BuildAudioStreamInfos ::
  "('e, 'a) cast_engine \<Rightarrow> 'a remote_device \<Rightarrow> cast_session \<Rightarrow> 'a list" where
  "hs_BuildAudioStreamInfos E d s = (if hsProtocolType s = castPlusAudio E then [rdAudioCapability d] else [])"

definition hs_GetProtocolType :: "('e, 'a) cast_engine \<Rightarrow> 32 word \<Rightarrow> i32" where
  "hs_GetProtocolType E t = (t AND TYPE_CAST_PLUS_STREAM) OR (t AND TYPE_DLNA)
     OR (if t AND castPlusAudio E \<noteq> 0 then TYPE_CAST_PLUS_AUDIO else 0)"

definition noScreenId :: i32 where "noScreenId = -1"

definition hs_GetDeviceId :: "device_state_info \<Rightarrow> string" where
  "hs_GetDeviceId info =
     (if dsScreenId info = noScreenId then dsDeviceId info else dsDeviceId info @ int_to_string (sint (dsScreenId info)))"

text \<open>
  The state that is told to the listeners, or stashed when there is none: what they are told, and
  whether it was stashed. The duplicate of a stashed state is dropped before. \<open>d\<close> is the remote device.
\<close>

definition hs_deliver :: "('e, 'a) cast_engine \<Rightarrow> device_state_info \<Rightarrow> 'a remote_device
    \<Rightarrow> cast_session \<Rightarrow> 'a told list \<times> cast_session" where
  "hs_deliver E info d s =
     (if hsListeners s = []
      then ([], s\<lparr>hsStashState := dsDeviceState info, hsStashDeviceId := hs_GetDeviceId info\<rparr>)
      else (let deviceInfo = (device_of CATEGORY_LOCAL (hs_GetDeviceId info) ''RemoteCast'')
                 \<lparr>dvStreamInfos := hs_BuildAudioStreamInfos E d s,
                  dvSupportedProtocols := hs_GetProtocolType E (rdProtocolCapabilities d),
                  dvRealDeviceId := dsDeviceId info\<rparr>
        in (map (\<lambda>l. (l, dsDeviceState info, deviceInfo, dsReasonCode info)) (hsListeners s), s\<lparr>hsStashState := -1\<rparr>)))"

end
