(* ===== verification/CastProvider.thy ===== *)
theory CastProvider
  imports CastSession
begin

text \<open>
  \<^verbatim>\<open>HwCastProvider\<close> (\<^verbatim>\<open>hw_cast_provider.cpp\<close>): the cast sessions by number, the flags that say which
  numbers are in use, the controllers for their stream players, and the listeners for devices. The
  part of \<^verbatim>\<open>HwCastStreamPlayer\<close> that the provider calls (\<^verbatim>\<open>Init\<close>, \<^verbatim>\<open>Release\<close>) is here. Controllers are
  shared with the router and the sessions, so they are objects on a heap of their own
  (\<open>cast_mem\<close>), next to the state of the cast engine. The lock of the provider is left out.
\<close>

section \<open>State\<close>

record 'e cast_mem =
  cmEngine :: 'e
  cmPlayers :: "nat \<Rightarrow> nat option"
  cmNextPlayer :: nat

record hw_provider =
  hpCastFlag :: "bool list"
  hpSessions :: "(int, cast_session) cmap"
  hpControllers :: "(int, nat) cmap"
  hpListeners :: "nat list"
  hpIsRelease :: bool
  hpMirrorCastHandle :: int

definition maxCastSessionSize :: nat where "maxCastSessionSize = 256"

definition new_hw_provider :: hw_provider where
  "new_hw_provider = \<lparr>hpCastFlag = replicate maxCastSessionSize False, hpSessions = [], hpControllers = [],
     hpListeners = [], hpIsRelease = False, hpMirrorCastHandle = -1\<rparr>"

text \<open>A call of the engine on the memory, and an operation on the session of a number.\<close>

definition on_engine :: "('e \<Rightarrow> 'r \<times> 'e) \<Rightarrow> 'e cast_mem \<Rightarrow> 'r \<times> 'e cast_mem" where
  "on_engine f m = (case f (cmEngine m) of (r, e) \<Rightarrow> (r, m\<lparr>cmEngine := e\<rparr>))"

definition on_session :: "int \<Rightarrow> 'r \<Rightarrow> ('e \<times> cast_session \<Rightarrow> 'r \<times> 'e \<times> cast_session)
    \<Rightarrow> 'e cast_mem \<times> hw_provider \<Rightarrow> 'r \<times> 'e cast_mem \<times> hw_provider" where
  "on_session castId dflt f mp = (case mp of (m, p) \<Rightarrow> case map_of (hpSessions p) castId of
     None \<Rightarrow> (dflt, m, p)
   | Some s \<Rightarrow> (case f (cmEngine m, s) of (r, e, s) \<Rightarrow>
       (r, m\<lparr>cmEngine := e\<rparr>, p\<lparr>hpSessions := cmap_put castId s (hpSessions p)\<rparr>)))"

section \<open>Stream players\<close>

definition pl_Init :: "('e, 'a) cast_engine \<Rightarrow> nat option \<Rightarrow> 'e \<Rightarrow> int \<times> 'e" where
  "pl_Init E streamPlayer e = (case streamPlayer of Some sp \<Rightarrow> spRegisterListener E sp e | None \<Rightarrow> (AVSESSION_ERROR, e))"

definition pl_Release :: "('e, 'a) cast_engine \<Rightarrow> nat \<Rightarrow> 'e cast_mem \<Rightarrow> 'e cast_mem" where
  "pl_Release E a m = (case cmPlayers m a of
     None \<Rightarrow> m
   | Some sp \<Rightarrow> m\<lparr>cmEngine := spRelease E sp (cmEngine m), cmPlayers := (cmPlayers m)(a := None)\<rparr>)"

section \<open>Protocols\<close>

definition hp_GetProtocolType :: "('e, 'a) cast_engine \<Rightarrow> 32 word \<Rightarrow> i32" where
  "hp_GetProtocolType E t = (t AND TYPE_CAST_PLUS_STREAM) OR (t AND TYPE_DLNA)
     OR (if t AND castPlusAudio E \<noteq> 0 then TYPE_CAST_PLUS_AUDIO else 0)"

definition hp_GetCastProtocolType :: "('e, 'a) cast_engine \<Rightarrow> int \<Rightarrow> int" where
  "hp_GetCastProtocolType E castCapability = (let capability = (word_of_int castCapability :: 32 word) in
     sint ((if capability AND TYPE_CAST_PLUS_MIRROR \<noteq> 0 then castPlusMirror E else 0)
       OR (if capability AND TYPE_CAST_PLUS_STREAM \<noteq> 0 then castPlusStream E else 0)
       OR (if capability AND TYPE_DLNA \<noteq> 0 then castDlna E else 0)
       OR (if capability AND TYPE_CAST_PLUS_AUDIO \<noteq> 0 then castPlusAudio E else 0)))"

definition hp_InitCastSessionProperty :: "('e, 'a) cast_engine \<Rightarrow> 32 word \<Rightarrow> bool \<Rightarrow> cast_property" where
  "hp_InitCastSessionProperty E prototype isPcm =
     (let isHiScreen = (prototype AND TYPE_CAST_PLUS_AUDIO = 0);
          property = \<lparr>cpProtocolType = castPlusStream E, cpEndType = castSource E, cpAudioCodec = 0,
            cpVideoCodec = 0, cpWindow = None\<rparr>;
          property = (if isPcm then property\<lparr>cpProtocolType := if isHiScreen then castPlusMirror E else castPlusAudio E\<rparr>
            else property)
      in if isPcm \<and> isHiScreen
         then property\<lparr>cpAudioCodec := 1, cpVideoCodec := codecH265 E,
                cpWindow := map_option (\<lambda>(w, h). (0, 0, w, h)) (displaySize E)\<rparr>
         else property)"

section \<open>The provider\<close>

definition hp_Init :: "('e, 'a) cast_engine \<Rightarrow> 'e cast_mem \<Rightarrow> int \<times> 'e cast_mem" where
  "hp_Init E m = on_engine (csmRegisterListener E) m"

definition hp_StartDeviceLogging :: "('e, 'a) cast_engine \<Rightarrow> int \<Rightarrow> 32 word \<Rightarrow> 'e cast_mem \<Rightarrow> 'e cast_mem" where
  "hp_StartDeviceLogging E fd maxSize m = m\<lparr>cmEngine := csmStartDeviceLogging E fd maxSize (cmEngine m)\<rparr>"

definition hp_StopDeviceLogging :: "('e, 'a) cast_engine \<Rightarrow> 'e cast_mem \<Rightarrow> 'e cast_mem" where
  "hp_StopDeviceLogging E m = m\<lparr>cmEngine := csmStartDeviceLogging E (-1) 0 (cmEngine m)\<rparr>"

definition hp_StartDiscovery :: "('e, 'a) cast_engine \<Rightarrow> int \<Rightarrow> string list \<Rightarrow> 'e cast_mem \<Rightarrow> bool \<times> 'e cast_mem" where
  "hp_StartDiscovery E castCapability drmSchemes m =
     (case on_engine (csmStartDiscovery E (hp_GetCastProtocolType E castCapability) drmSchemes) m of
        (ret, m) \<Rightarrow> (ret \<noteq> 0, m))"

definition hp_StopDiscovery :: "('e, 'a) cast_engine \<Rightarrow> 'e cast_mem \<Rightarrow> 'e cast_mem" where
  "hp_StopDiscovery E m = m\<lparr>cmEngine := csmStopDiscovery E (cmEngine m)\<rparr>"

definition hp_SetDiscoverable :: "bool \<Rightarrow> int" where
  "hp_SetDiscoverable enable = AVSESSION_SUCCESS"

text \<open>The sessions are destroyed with the provider's maps: \<^verbatim>\<open>~HwCastProviderSession\<close> releases them.\<close>

fun release_sessions :: "('e, 'a) cast_engine \<Rightarrow> (int \<times> cast_session) list \<Rightarrow> 'e \<Rightarrow> 'e" where
  "release_sessions E [] e = e"
| "release_sessions E ((_, s) # ss) e = release_sessions E ss (fst (hs_Release E (e, s)))"

definition hp_Release :: "('e, 'a) cast_engine \<Rightarrow> 'e cast_mem \<times> hw_provider \<Rightarrow> 'e cast_mem \<times> hw_provider" where
  "hp_Release E mp = (case mp of (m, p) \<Rightarrow>
     (let e = release_sessions E (hpSessions p) (cmEngine m);
          p' = p\<lparr>hpSessions := [], hpControllers := [], hpListeners := [], hpCastFlag := []\<rparr>
      in if hpIsRelease p then (m\<lparr>cmEngine := e\<rparr>, p')
         else (m\<lparr>cmEngine := csmUnregisterListener E e\<rparr>, p'\<lparr>hpIsRelease := True\<rparr>)))"

text \<open>\<^verbatim>\<open>find(castFlag_.begin(), castFlag_.end(), false)\<close>\<close>

fun first_free :: "bool list \<Rightarrow> nat option" where
  "first_free [] = None"
| "first_free (b # bs) = (if \<not> b then Some 0 else map_option Suc (first_free bs))"

definition hp_StartCastSession ::
  "('e, 'a) cast_engine \<Rightarrow> 32 word \<Rightarrow> bool \<Rightarrow> 'e cast_mem \<times> hw_provider \<Rightarrow> int \<times> 'e cast_mem \<times> hw_provider" where
  "hp_StartCastSession E prototype isPcm mp = (case mp of (m, p) \<Rightarrow>
     (let isHiStream = (prototype AND TYPE_CAST_PLUS_AUDIO \<noteq> 0) in
      case on_engine (csmCreateCastSession E (hp_InitCastSessionProperty E prototype isPcm)) m of
        ((ret, castSession), m) \<Rightarrow>
      if ret \<noteq> AVSESSION_SUCCESS then (AVSESSION_ERROR, m, p)
      else case first_free (hpCastFlag p) of
        None \<Rightarrow> (AVSESSION_ERROR, m, p)
      | Some castId \<Rightarrow>
          (let s = new_cast_session E castSession;
               (r, e) = hs_Init E (cmEngine m) s
           in if r = AVSESSION_ERROR
              then (AVSESSION_ERROR, m\<lparr>cmEngine := fst (hs_Release E (e, s))\<rparr>, p)
              else (int castId, m\<lparr>cmEngine := e\<rparr>,
                p\<lparr>hpCastFlag := (hpCastFlag p)[castId := True],
                  hpSessions := cmap_put (int castId)
                    (if isHiStream then hs_SetProtocolType (castPlusAudio E) s else s) (hpSessions p)\<rparr>))))"

definition hp_StopCastSession ::
  "('e, 'a) cast_engine \<Rightarrow> int \<Rightarrow> 'e cast_mem \<times> hw_provider \<Rightarrow> 'e cast_mem \<times> hw_provider" where
  "hp_StopCastSession E castId mp = (case mp of (m, p) \<Rightarrow>
     (let m = (case map_of (hpControllers p) castId of Some a \<Rightarrow> pl_Release E a m | None \<Rightarrow> m);
          p = p\<lparr>hpControllers := cmap_erase castId (hpControllers p)\<rparr>
      in if castId = handle_cast_id (hpMirrorCastHandle p) then (m, p)
         else case map_of (hpSessions p) castId of
           None \<Rightarrow> (m, p)
         | Some s \<Rightarrow> (m\<lparr>cmEngine := fst (hs_Release E (cmEngine m, s))\<rparr>,
             p\<lparr>hpSessions := cmap_erase castId (hpSessions p),
               hpCastFlag := (hpCastFlag p)[nat castId := False]\<rparr>)))"

definition hp_AddCastDevice :: "('e, 'a) cast_engine \<Rightarrow> int \<Rightarrow> 'a device_info \<Rightarrow> 32 word
    \<Rightarrow> 'e cast_mem \<times> hw_provider \<Rightarrow> bool \<times> 'e cast_mem \<times> hw_provider" where
  "hp_AddCastDevice E castId deviceInfo spid = on_session castId False (hs_AddDevice E deviceInfo spid)"

definition hp_AddCastDeviceWithConnectionConfig :: "('e, 'a) cast_engine \<Rightarrow> int \<Rightarrow> 'a device_info \<Rightarrow> 32 word \<Rightarrow> int
    \<Rightarrow> 'e cast_mem \<times> hw_provider \<Rightarrow> bool \<times> 'e cast_mem \<times> hw_provider" where
  "hp_AddCastDeviceWithConnectionConfig E castId deviceInfo spid config =
     on_session castId False (hs_AddDeviceWithConnectionConfig E deviceInfo spid config)"

definition hp_RemoveCastDevice :: "('e, 'a) cast_engine \<Rightarrow> int \<Rightarrow> 'a device_info \<Rightarrow> int
    \<Rightarrow> 'e cast_mem \<times> hw_provider \<Rightarrow> bool \<times> 'e cast_mem \<times> hw_provider" where
  "hp_RemoveCastDevice E castId deviceInfo action =
     on_session castId False (hs_RemoveDevice E (dvRealDeviceId deviceInfo) action)"

definition hp_RegisterCastStateListener :: "nat \<Rightarrow> hw_provider \<Rightarrow> bool \<times> hw_provider" where
  "hp_RegisterCastStateListener l p =
     (if l \<in> set (hpListeners p) then (False, p) else (True, p\<lparr>hpListeners := hpListeners p @ [l]\<rparr>))"

definition hp_UnRegisterCastStateListener :: "nat \<Rightarrow> hw_provider \<Rightarrow> bool \<times> hw_provider" where
  "hp_UnRegisterCastStateListener l p = (l \<in> set (hpListeners p), p\<lparr>hpListeners := remove1 l (hpListeners p)\<rparr>)"

text \<open>The controller of a cast, made when it is first asked for.\<close>

definition hp_GetRemoteController ::
  "('e, 'a) cast_engine \<Rightarrow> int \<Rightarrow> 'e cast_mem \<times> hw_provider \<Rightarrow> nat option \<times> 'e cast_mem \<times> hw_provider" where
  "hp_GetRemoteController E castId mp = (case mp of (m, p) \<Rightarrow>
     (case map_of (hpControllers p) castId of
        Some a \<Rightarrow> (Some a, m, p)
      | None \<Rightarrow> (case map_of (hpSessions p) castId of
          None \<Rightarrow> (None, m, p)
        | Some s \<Rightarrow>
            (let (streamPlayer, e) = hs_CreateStreamPlayer E (cmEngine m) s;
                 (r, e) = pl_Init E streamPlayer e;
                 m = m\<lparr>cmEngine := e\<rparr>
             in if r = AVSESSION_ERROR then (None, m, p)
                else (Some (cmNextPlayer m),
                  m\<lparr>cmPlayers := (cmPlayers m)(cmNextPlayer m := streamPlayer), cmNextPlayer := Suc (cmNextPlayer m)\<rparr>,
                  p\<lparr>hpControllers := cmap_put castId (cmNextPlayer m) (hpControllers p)\<rparr>)))))"

definition hp_SetStreamState :: "int \<Rightarrow> 'a device_info \<Rightarrow> hw_provider \<Rightarrow> bool \<times> 'a told list \<times> hw_provider" where
  "hp_SetStreamState castHandle deviceInfo p = (let p = p\<lparr>hpMirrorCastHandle := castHandle\<rparr>; castId = handle_cast_id castHandle in
     case map_of (hpSessions p) castId of
       None \<Rightarrow> (False, [], p)
     | Some s \<Rightarrow> (case hs_SetStreamState deviceInfo s of (told, s) \<Rightarrow>
         (True, told, p\<lparr>hpSessions := cmap_put castId s (hpSessions p)\<rparr>)))"

definition hp_GetRemoteNetWorkId ::
  "('e, 'a) cast_engine \<Rightarrow> int \<Rightarrow> string \<Rightarrow> 'e cast_mem \<times> hw_provider \<Rightarrow> string option \<times> 'e cast_mem \<times> hw_provider" where
  "hp_GetRemoteNetWorkId E castId deviceId =
     on_session castId None (\<lambda>(e, s). case hs_GetRemoteNetWorkId E deviceId e s of (r, e) \<Rightarrow> (r, e, s))"

definition hp_GetRemoteDrmCapabilities ::
  "('e, 'a) cast_engine \<Rightarrow> int \<Rightarrow> string \<Rightarrow> 'e cast_mem \<times> hw_provider \<Rightarrow> string list option \<times> 'e cast_mem \<times> hw_provider" where
  "hp_GetRemoteDrmCapabilities E castId deviceId =
     on_session castId None (\<lambda>(e, s). case hs_GetRemoteDrmCapabilities E deviceId e s of (r, e) \<Rightarrow> (r, e, s))"

definition hp_GetMirrorCastHandle :: "hw_provider \<Rightarrow> int" where
  "hp_GetMirrorCastHandle p = hpMirrorCastHandle p"

definition hp_SetMirrorCastHandle :: "int \<Rightarrow> hw_provider \<Rightarrow> hw_provider" where
  "hp_SetMirrorCastHandle castHandle p = p\<lparr>hpMirrorCastHandle := castHandle\<rparr>"

definition hp_SendCommandArgsToCast ::
  "('e, 'a) cast_engine \<Rightarrow> int \<Rightarrow> int \<Rightarrow> string \<Rightarrow> 'e cast_mem \<times> hw_provider \<Rightarrow> unit \<times> 'e cast_mem \<times> hw_provider" where
  "hp_SendCommandArgsToCast E castId commandType params =
     on_session castId () (\<lambda>(e, s). ((), hs_SendCommandArgsToCast E commandType params e s, s))"

definition hp_QueryCastSessionId ::
  "('e, 'a) cast_engine \<Rightarrow> int \<Rightarrow> 'e cast_mem \<times> hw_provider \<Rightarrow> string \<times> 'e cast_mem \<times> hw_provider" where
  "hp_QueryCastSessionId E castId =
     on_session castId [] (\<lambda>(e, s). case hs_QueryCastSessionId E e s of (r, e) \<Rightarrow> (r, e, s))"

definition hp_RegisterCastSessionStateListener ::
  "int \<Rightarrow> nat \<Rightarrow> hw_provider \<Rightarrow> bool \<times> 'a told list \<times> hw_provider" where
  "hp_RegisterCastSessionStateListener castId l p = (case map_of (hpSessions p) castId of
     None \<Rightarrow> (False, [], p)
   | Some s \<Rightarrow> (case hs_RegisterListener l s of (ok, told, s) \<Rightarrow>
       (ok, told, p\<lparr>hpSessions := cmap_put castId s (hpSessions p)\<rparr>)))"

definition hp_UnRegisterCastSessionStateListener :: "int \<Rightarrow> nat \<Rightarrow> hw_provider \<Rightarrow> bool \<times> hw_provider" where
  "hp_UnRegisterCastSessionStateListener castId l p = (case map_of (hpSessions p) castId of
     None \<Rightarrow> (False, p)
   | Some s \<Rightarrow> (case hs_UnRegisterListener l s of (ok, s) \<Rightarrow>
       (ok, p\<lparr>hpSessions := cmap_put castId s (hpSessions p)\<rparr>)))"

section \<open>Devices that the engine finds\<close>

definition hp_ParsePullClients :: "('e, 'a) cast_engine \<Rightarrow> string \<Rightarrow> 32 word list" where
  "hp_ParsePullClients E str = (case jsonNumbers E str of
     None \<Rightarrow> [] | Some xs \<Rightarrow> map word_of_int (List.map_filter (\<lambda>x. x) xs))"

definition hp_ConvertCastDeviceTypeToDeviceType :: "i32 \<Rightarrow> i32" where
  "hp_ConvertCastDeviceTypeToDeviceType t =
     (case map_of [(0x9C, DEVICE_TYPE_TV), (0x11, DEVICE_TYPE_PAD), (0x83, DEVICE_TYPE_CAR),
        (0xA2F, DEVICE_TYPE_2IN1), (0xA33, DEVICE_TYPE_HIPLAY)] t of
        Some d \<Rightarrow> d | None \<Rightarrow> DEVICE_TYPE_DEFAULT_CAST_PLUS_STREAM)"

definition hp_buildDeviceInfo :: "('e, 'a) cast_engine \<Rightarrow> 'a remote_device \<Rightarrow> 'a device_info \<Rightarrow> 'a device_info" where
  "hp_buildDeviceInfo E d deviceInfo = deviceInfo\<lparr>dvCastCategory := CATEGORY_REMOTE,
     dvDeviceType := hp_ConvertCastDeviceTypeToDeviceType (rdRawDeviceType d),
     dvIpAddress := rdIpAddress d, dvNetworkId := rdNetworkId d, dvManufacturer := rdManufacturerName d,
     dvModelName := rdModelName d, dvSupportedProtocols := hp_GetProtocolType E (rdProtocolCapabilities d),
     dvSupportedDrmCapabilities := rdDrmCapabilities d, dvIsLegacy := rdIsLegacy d,
     dvMediumTypes := rdMediumTypes d, dvSupportedPullClients := hp_ParsePullClients E (rdStreamCapability d),
     dvBleMac := rdBleMac d, dvUuid := rdUuid d,
     dvHiPlayDeviceInfo := (dvHiPlayDeviceInfo deviceInfo)
       \<lparr>hpSupportCastMode := if rdIsSupportDeviceCast d then DEVICE_LEVEL else APP_LEVEL\<rparr>,
     dvRealDeviceId := rdDeviceId d\<rparr>"

text \<open>A device with services, such as a car, gives one device for each service.\<close>

definition hp_found :: "('e, 'a) cast_engine \<Rightarrow> 'a remote_device \<Rightarrow> 'a device_info list" where
  "hp_found E d =
     (if rdServiceInfos d = []
      then [hp_buildDeviceInfo E d (new_device_info\<lparr>dvDeviceId := rdDeviceId d, dvDeviceName := rdDeviceName d,
              dvAuthenticationStatus := of_bool (rdIsTrushed d)\<rparr>)]
      else map (\<lambda>info. hp_buildDeviceInfo E d (new_device_info\<lparr>
              dvDeviceId := rdDeviceId d @ int_to_string (sint (svScreenId info)),
              dvDeviceName := rdDeviceName d @ svServiceName info,
              dvAuthenticationStatus := of_bool (svIsTrusted info), dvScreenId := svScreenId info\<rparr>))
            (rdServiceInfos d))"

text \<open>The devices that each listener is told of.\<close>

definition hp_OnDeviceFound ::
  "('e, 'a) cast_engine \<Rightarrow> 'a remote_device list \<Rightarrow> hw_provider \<Rightarrow> (nat \<times> 'a device_info list) list" where
  "hp_OnDeviceFound E deviceList p =
     (if deviceList = [] then []
      else map (\<lambda>l. (l, List.concat (map (hp_found E) deviceList))) (hpListeners p))"

definition DEVICE_LOG_FULL :: int where "DEVICE_LOG_FULL = 1"
definition DEVICE_LOG_EXCEPTION :: int where "DEVICE_LOG_EXCEPTION = 2"

definition hp_OnLogEvent :: "int \<Rightarrow> int \<Rightarrow> hw_provider \<Rightarrow> (nat \<times> int \<times> int) list" where
  "hp_OnLogEvent eventId param p = map (\<lambda>l.
     (l, if eventId = DEVICE_LOG_FULL then DEVICE_LOG_FULL else DEVICE_LOG_EXCEPTION, param)) (hpListeners p)"

end
