(* ===== verification/CastRouter.thy ===== *)
theory CastRouter
  imports CastProvider
begin

text \<open>
  \<^verbatim>\<open>AVRouterImpl\<close> (\<^verbatim>\<open>avrouter_impl.cpp\<close>), \<^verbatim>\<open>AVCastProviderManager\<close>, and the switch for casting of
  the service (\<^verbatim>\<open>checkEnableCast\<close>, \<^verbatim>\<open>setInCast\<close> of \<^verbatim>\<open>avsession_service_ext.cpp\<close>), which turns the
  router on and off. The router keeps the providers by number, the casts by handle, the sessions that
  share a mirror cast, and who asked for discovery.

  A provider is an object on a heap: \<^verbatim>\<open>hwProvider_\<close> and the table of providers share it. What
  listeners and the service are told is recorded in \<open>rtOut\<close>, in order; what they do then are later
  steps. The locks are left out, \<^verbatim>\<open>servicePtr_\<close> is set by \<^verbatim>\<open>Init\<close> and stays, and the objects
  made by \<^verbatim>\<open>make_shared\<close> are never null. \<open>devs\<close> is \<^verbatim>\<open>outputDeviceInfo.deviceInfos_\<close>, whose first
  element the code takes without a check.
\<close>

section \<open>State\<close>

datatype cast_side = DEFAULT | CAST_SINK | CAST_SOURCE

datatype 'a rt_out =
    ListenerState nat int "'a device_info" bool int
  | ListenerStatePosted nat int "'a device_info" bool int
  | ListenerEvent nat int string
  | NotifyDeviceAvailable "'a device_info list"
  | NotifyDeviceLogEvent int int
  | NotifyDeviceOffline string
  | NotifyDeviceStateChange string int int int
  | NotifySystemCommonEvent string string
  | ReleaseCastSession int
  | CreateSessionByCast int int
  | SetIsSupportMirrorToStream bool
  | PublishCommonEvent string "string list"
  | CastAddToCollaboration "'a device_info"
  | PublishServiceState string bool
  | CastStateUpdated bool
  | StopCommand nat
  | StopSinkCast
  | PhotoCast bool

record 'a cast_handle_info =
  chOutputDevice :: "'a device_info list"
  chSessionId :: string
  chProxy :: "nat option"
  chListener :: "nat option"

definition new_cast_handle_info :: "'a cast_handle_info" where
  "new_cast_handle_info = \<lparr>chOutputDevice = [], chSessionId = ''-1'', chProxy = None, chListener = None\<rparr>"

record ('e, 'a) router =
  rtMem :: "'e cast_mem"
  rtProviders :: "nat \<Rightarrow> hw_provider"
  rtNextProvider :: nat
  rtServicePtr :: bool
  rtManagers :: "(int, nat) cmap"
  rtHwProvider :: "nat option"
  rtProviderNumber :: int
  rtHandles :: "(int, 'a cast_handle_info) cmap"
  rtMirrorSessions :: "(string, nat option) cmap"
  rtCacheStartDiscovery :: bool
  rtCacheStartDeviceLogging :: bool
  rtCacheCapability :: int
  rtCacheDrmSchemes :: "string list"
  rtPids :: "int list"
  rtCastListener :: nat
  rtDeviceType :: int
  rtInMirrorToStream :: bool
  rtRemoteCasting :: bool
  rtDevices :: "(string, 'a device_info) cmap"
  rtCastSide :: cast_side
  rtSinkSessionId :: string
  rtSourceDeviceId :: string
  rtSourceProtocols :: int
  rtSinkAllConnectResult :: int
  rtSinkDeviceName :: string
  rtDisconnectOther :: bool
  rtFromSink :: bool
  rtConnectedDevice :: "'a device_info"
  rtSinkUserId :: int
  rtInCast :: bool
  rtEnablePids :: "int list"
  rtCancelRelease :: bool
  rtReleases :: nat
  rtOut :: "'a rt_out list"

definition noMirrorCastHandle :: int where "noMirrorCastHandle = -1"
definition providerNumberEnableDefault :: int where "providerNumberEnableDefault = 1"
definition providerNumberDisable :: int where "providerNumberDisable = 0"
definition disconnectStateFromCast :: int where "disconnectStateFromCast = 5"
definition connectStateFromCast :: int where "connectStateFromCast = 6"
definition pcmCastSession :: string where "pcmCastSession = ''pcmCastSession''"
definition avSessionUid :: int where "avSessionUid = 6700"
definition INT64_MAX :: int where "INT64_MAX = 2 ^ 63 - 1"

definition new_router :: "'e \<Rightarrow> ('e, 'a) router" where
  "new_router e = \<lparr>rtMem = \<lparr>cmEngine = e, cmPlayers = (\<lambda>_. None), cmNextPlayer = 0\<rparr>,
     rtProviders = (\<lambda>_. new_hw_provider), rtNextProvider = 0, rtServicePtr = False, rtManagers = [],
     rtHwProvider = None, rtProviderNumber = 0, rtHandles = [], rtMirrorSessions = [],
     rtCacheStartDiscovery = False, rtCacheStartDeviceLogging = False, rtCacheCapability = -1,
     rtCacheDrmSchemes = [], rtPids = [], rtCastListener = 0, rtDeviceType = -1, rtInMirrorToStream = False,
     rtRemoteCasting = False, rtDevices = [], rtCastSide = DEFAULT, rtSinkSessionId = [],
     rtSourceDeviceId = [], rtSourceProtocols = 0, rtSinkAllConnectResult = AVSESSION_SUCCESS,
     rtSinkDeviceName = [], rtDisconnectOther = False, rtFromSink = False,
     rtConnectedDevice = new_device_info, rtSinkUserId = -1, rtInCast = False, rtEnablePids = [],
     rtCancelRelease = False, rtReleases = 0, rtOut = []\<rparr>"

text \<open>
  What the rest of the system answers: the device manager (a result and the type of this device), the
  types of a phone and of a 2in1, the collaboration service, and the connection state of the service.
\<close>

record rt_env =
  reLocalDeviceType :: "int \<times> int"
  rePhone :: int
  re2in1 :: int
  reCollaboration :: int
  reConnected :: bool

definition rt_emit :: "'a rt_out list \<Rightarrow> ('e, 'a) router \<Rightarrow> ('e, 'a) router" where
  "rt_emit os r = r\<lparr>rtOut := rtOut r @ os\<rparr>"

text \<open>An operation of the provider at an address, and one that leaves the engine alone.\<close>

definition on_provider :: "nat \<Rightarrow> ('e cast_mem \<times> hw_provider \<Rightarrow> 'r \<times> 'e cast_mem \<times> hw_provider)
    \<Rightarrow> ('e, 'a) router \<Rightarrow> 'r \<times> ('e, 'a) router" where
  "on_provider a f r = (case f (rtMem r, rtProviders r a) of (x, m, p) \<Rightarrow>
     (x, r\<lparr>rtMem := m, rtProviders := (rtProviders r)(a := p)\<rparr>))"

definition set_provider :: "nat \<Rightarrow> hw_provider \<Rightarrow> ('e, 'a) router \<Rightarrow> ('e, 'a) router" where
  "set_provider a p r = r\<lparr>rtProviders := (rtProviders r)(a := p)\<rparr>"

section \<open>Providers\<close>

definition rt_GetLocalDeviceType :: "rt_env \<Rightarrow> int" where
  "rt_GetLocalDeviceType env = snd (reLocalDeviceType env)"

definition rt_GetCastProvider :: "int \<Rightarrow> ('e, 'a) router \<Rightarrow> nat option" where
  "rt_GetCastProvider providerNumber r = map_of (rtManagers r) providerNumber"

definition rt_GetHwProvider :: "('e, 'a) router \<Rightarrow> nat option" where
  "rt_GetHwProvider r = rtHwProvider r"

text \<open>What is done on every provider in turn.\<close>

definition all_providers :: "('e cast_mem \<Rightarrow> 'e cast_mem) \<Rightarrow> ('e, 'a) router \<Rightarrow> ('e, 'a) router" where
  "all_providers f r = fold (\<lambda>_ r. r\<lparr>rtMem := f (rtMem r)\<rparr>) (rtManagers r) r"

definition rt_StartDeviceLogging ::
  "('e, 'a) cast_engine \<Rightarrow> int \<Rightarrow> 32 word \<Rightarrow> ('e, 'a) router \<Rightarrow> int \<times> ('e, 'a) router" where
  "rt_StartDeviceLogging E fd maxSize r =
     (if rtManagers r = [] then (AVSESSION_SUCCESS, r\<lparr>rtCacheStartDeviceLogging := True\<rparr>)
      else (AVSESSION_SUCCESS, all_providers (hp_StartDeviceLogging E fd maxSize) r))"

definition rt_StopDeviceLogging :: "('e, 'a) cast_engine \<Rightarrow> ('e, 'a) router \<Rightarrow> int \<times> ('e, 'a) router" where
  "rt_StopDeviceLogging E r =
     (AVSESSION_SUCCESS, all_providers (hp_StopDeviceLogging E) (r\<lparr>rtCacheStartDeviceLogging := False\<rparr>))"

definition rt_StartCastDiscovery ::
  "('e, 'a) cast_engine \<Rightarrow> int \<Rightarrow> int \<Rightarrow> string list \<Rightarrow> ('e, 'a) router \<Rightarrow> int \<times> ('e, 'a) router" where
  "rt_StartCastDiscovery E pid castDeviceCapability drmSchemes r =
     (let r = r\<lparr>rtPids := List.insert pid (rtPids r), rtCacheCapability := castDeviceCapability,
                rtCacheDrmSchemes := drmSchemes\<rparr>
      in if rtManagers r = [] then (AVSESSION_SUCCESS, r\<lparr>rtCacheStartDiscovery := True\<rparr>)
         else (AVSESSION_SUCCESS,
           all_providers (\<lambda>m. snd (hp_StartDiscovery E castDeviceCapability drmSchemes m)) r))"

definition rt_IsStopCastDiscovery :: "int \<Rightarrow> ('e, 'a) router \<Rightarrow> bool \<times> ('e, 'a) router" where
  "rt_IsStopCastDiscovery pid r =
     (if pid \<in> set (rtPids r)
      then (let r = r\<lparr>rtPids := filter (\<lambda>p. p \<noteq> pid) (rtPids r)\<rparr> in (rtPids r = [], r))
      else (False, r))"

definition rt_StopCastDiscovery ::
  "('e, 'a) cast_engine \<Rightarrow> int \<Rightarrow> ('e, 'a) router \<Rightarrow> int \<times> ('e, 'a) router" where
  "rt_StopCastDiscovery E pid r = (case rt_IsStopCastDiscovery pid r of (stop, r) \<Rightarrow>
     if \<not> stop then (AVSESSION_SUCCESS, r)
     else (AVSESSION_SUCCESS, all_providers (hp_StopDiscovery E) (r\<lparr>rtCacheStartDiscovery := False\<rparr>)))"

definition rt_SetDiscoverable :: "bool \<Rightarrow> ('e, 'a) router \<Rightarrow> int \<times> ('e, 'a) router" where
  "rt_SetDiscoverable enable r = (AVSESSION_SUCCESS, r)"

section \<open>On and off\<close>

definition rt_Init ::
  "('e, 'a) cast_engine \<Rightarrow> rt_env \<Rightarrow> int \<Rightarrow> ('e, 'a) router \<Rightarrow> int \<times> ('e, 'a) router" where
  "rt_Init E env pid r =
     (let r = r\<lparr>rtDeviceType := rt_GetLocalDeviceType env, rtServicePtr := True,
                rtCastListener := Suc (rtCastListener r)\<rparr>;
          (ret, m) = hp_Init E (rtMem r);
          r = r\<lparr>rtMem := m\<rparr>
      in if ret = AVSESSION_ERROR then (AVSESSION_ERROR, r)
         else
          (let a = rtNextProvider r;
               p = snd (hp_RegisterCastStateListener a new_hw_provider);
               r = r\<lparr>rtProviderNumber := providerNumberEnableDefault, rtNextProvider := Suc a,
                     rtProviders := (rtProviders r)(a := p), rtHwProvider := Some a,
                     rtManagers := cmap_put providerNumberEnableDefault a (rtManagers r)\<rparr>;
               r = (if rtCacheStartDiscovery r
                    then (snd (rt_StartCastDiscovery E pid (rtCacheCapability r) (rtCacheDrmSchemes r) r))
                      \<lparr>rtCacheStartDiscovery := False\<rparr>
                    else r)
           in (AVSESSION_SUCCESS, r)))"

definition rt_Release :: "('e, 'a) cast_engine \<Rightarrow> ('e, 'a) router \<Rightarrow> bool \<times> ('e, 'a) router" where
  "rt_Release E r = (case rtHwProvider r of
     None \<Rightarrow> (False, r)
   | Some a \<Rightarrow>
       (let r = r\<lparr>rtHwProvider := None, rtProviderNumber := providerNumberDisable, rtManagers := []\<rparr>;
            r = snd (on_provider a (\<lambda>mp. ((), hp_Release E mp)) r)
        in (False, r\<lparr>rtHandles := []\<rparr>)))"

definition sv_checkEnableCast ::
  "('e, 'a) cast_engine \<Rightarrow> rt_env \<Rightarrow> int \<Rightarrow> int \<Rightarrow> bool \<Rightarrow> ('e, 'a) router \<Rightarrow> int \<times> ('e, 'a) router" where
  "sv_checkEnableCast E env pid uid enable r =
     (let pids = (if enable then List.insert pid (rtEnablePids r) else filter (\<lambda>p. p \<noteq> pid) (rtEnablePids r));
          pids = (if uid = avSessionUid then filter (\<lambda>p. p \<noteq> pid) pids else pids);
          r = r\<lparr>rtEnablePids := pids, rtCancelRelease := (enable \<or> rtCancelRelease r)\<rparr>
      in if enable \<and> \<not> rtInCast r
         then (case rt_Init E env pid r of (ret, r) \<Rightarrow>
           (AVSESSION_SUCCESS, r\<lparr>rtInCast := (ret = AVSESSION_SUCCESS)\<rparr>))
         else if \<not> enable \<and> rtInCast r
         then (if rtEnablePids r \<noteq> [] then (AVSESSION_ERROR, r)
               else (AVSESSION_SUCCESS, r\<lparr>rtCancelRelease := False, rtReleases := Suc (rtReleases r)\<rparr>))
         else (AVSESSION_SUCCESS, r))"

text \<open>The thread that \<^verbatim>\<open>checkEnableCast(false)\<close> starts, after its wait.\<close>

definition sv_release_task :: "('e, 'a) cast_engine \<Rightarrow> rt_env \<Rightarrow> ('e, 'a) router \<Rightarrow> ('e, 'a) router" where
  "sv_release_task E env r = (let r = r\<lparr>rtReleases := rtReleases r - 1\<rparr> in
     if rtCancelRelease r \<or> rtRemoteCasting r \<or> reConnected env \<or> rtEnablePids r \<noteq> [] then r
     else (case rt_Release E r of (b, r) \<Rightarrow> r\<lparr>rtInCast := b\<rparr>))"

text \<open>What \<^verbatim>\<open>AVSessionService::OnClientDied\<close> does with the router: the answer of \<^verbatim>\<open>IsStopCastDiscovery\<close> is dropped.\<close>

definition sv_OnClientDied_cast :: "int \<Rightarrow> ('e, 'a) router \<Rightarrow> ('e, 'a) router" where
  "sv_OnClientDied_cast pid r = (let r = snd (rt_IsStopCastDiscovery pid r)
     in r\<lparr>rtEnablePids := filter (\<lambda>p. p \<noteq> pid) (rtEnablePids r)\<rparr>)"

section \<open>Casts\<close>

definition rt_GetRemoteController ::
  "('e, 'a) cast_engine \<Rightarrow> int \<Rightarrow> ('e, 'a) router \<Rightarrow> nat option \<times> ('e, 'a) router" where
  "rt_GetRemoteController E castHandle r =
     (let castId = handle_cast_id castHandle in
      case rt_GetCastProvider (handle_provider castHandle) r of
        None \<Rightarrow> (None, r)
      | Some a \<Rightarrow> (case map_of (rtHandles r) castHandle of
          None \<Rightarrow> on_provider a (hp_GetRemoteController E castId) r
        | Some info \<Rightarrow> (case chProxy info of
            Some c \<Rightarrow> (Some c, r)
          | None \<Rightarrow> (case on_provider a (hp_GetRemoteController E castId) r of (c, r) \<Rightarrow>
              on_provider a (hp_GetRemoteController E castId)
                (r\<lparr>rtHandles := cmap_put castHandle (info\<lparr>chProxy := c\<rparr>) (rtHandles r)\<rparr>)))))"

definition rt_StartCast :: "('e, 'a) cast_engine \<Rightarrow> 'a device_info list \<Rightarrow> string
    \<Rightarrow> ('e, 'a) router \<Rightarrow> int \<times> ('e, 'a) router" where
  "rt_StartCast E devs sessionId r =
     (let r = r\<lparr>rtCastSide := CAST_SOURCE\<rparr>; dev = hd devs in
      case rt_GetCastProvider (sint (dvProviderId dev)) r of
        None \<Rightarrow> (-1, r)
      | Some a \<Rightarrow> (case find (\<lambda>(_, info). chSessionId info \<noteq> sessionId \<and> chOutputDevice info \<noteq> []
            \<and> dvDeviceId (hd (chOutputDevice info)) = dvDeviceId dev) (rtHandles r) of
          Some (number, info) \<Rightarrow>
            (number, r\<lparr>rtHandles := cmap_put number (info\<lparr>chSessionId := sessionId\<rparr>) (rtHandles r)\<rparr>)
        | None \<Rightarrow> (case on_provider a (hp_StartCastSession E (dvSupportedProtocols dev) (sessionId = pcmCastSession)) r of
            (castId, r) \<Rightarrow>
              if castId = AVSESSION_ERROR then (AVSESSION_ERROR, r)
              else (let castHandle = cast_handle (sint (dvProviderId dev)) castId in
                (castHandle, r\<lparr>rtHandles := cmap_put castHandle
                  (new_cast_handle_info\<lparr>chSessionId := sessionId, chOutputDevice := [local_device]\<rparr>)
                  (rtHandles r)\<rparr>)))))"

text \<open>\<^verbatim>\<open>AddDevice\<close> and \<^verbatim>\<open>AddDeviceWithConnectionConfig\<close> differ in the call of the provider.\<close>

definition add_device :: "('a device_info \<Rightarrow> 'e cast_mem \<times> hw_provider \<Rightarrow> bool \<times> 'e cast_mem \<times> hw_provider)
    \<Rightarrow> int \<Rightarrow> 'a device_info list \<Rightarrow> ('e, 'a) router \<Rightarrow> int \<times> ('e, 'a) router" where
  "add_device f castId devs r =
     (let dev = hd devs; castHandle = cast_handle (sint (dvProviderId dev)) castId in
      if (case map_of (rtHandles r) castHandle of None \<Rightarrow> False | Some info \<Rightarrow>
            chOutputDevice info \<noteq> [] \<and> dvDeviceId (hd (chOutputDevice info)) = dvDeviceId dev)
      then (AVSESSION_SUCCESS, r)
      else case rt_GetCastProvider (sint (dvProviderId dev)) r of
        None \<Rightarrow> (AVSESSION_ERROR, r)
      | Some a \<Rightarrow> (case on_provider a (f dev) r of (ret, r) \<Rightarrow>
          (if ret then AVSESSION_SUCCESS else ERR_DEVICE_CONNECTION_FAILED,
           case map_of (rtHandles r) castHandle of
             Some info \<Rightarrow> if ret
               then r\<lparr>rtHandles := cmap_put castHandle (info\<lparr>chOutputDevice := devs\<rparr>) (rtHandles r)\<rparr> else r
           | None \<Rightarrow> r)))"

definition rt_AddDevice :: "('e, 'a) cast_engine \<Rightarrow> int \<Rightarrow> 'a device_info list \<Rightarrow> 32 word
    \<Rightarrow> ('e, 'a) router \<Rightarrow> int \<times> ('e, 'a) router" where
  "rt_AddDevice E castId devs spid = add_device (\<lambda>dev. hp_AddCastDevice E castId dev spid) castId devs"

definition rt_AddDeviceWithConnectionConfig :: "('e, 'a) cast_engine \<Rightarrow> int \<Rightarrow> 'a device_info list \<Rightarrow> 32 word
    \<Rightarrow> int \<Rightarrow> ('e, 'a) router \<Rightarrow> int \<times> ('e, 'a) router" where
  "rt_AddDeviceWithConnectionConfig E castId devs spid config =
     add_device (\<lambda>dev. hp_AddCastDeviceWithConnectionConfig E castId dev spid config) castId devs"

text \<open>Without a provider the handle itself is returned, as an \<^verbatim>\<open>int32_t\<close>.\<close>

definition to_int32 :: "int \<Rightarrow> int" where "to_int32 n = sint (word_of_int n :: 32 word)"

definition rt_StopCast ::
  "('e, 'a) cast_engine \<Rightarrow> int \<Rightarrow> int \<Rightarrow> ('e, 'a) router \<Rightarrow> int \<times> ('e, 'a) router" where
  "rt_StopCast E castHandle action r =
     (case rt_GetCastProvider (handle_provider castHandle) r of
        None \<Rightarrow> (to_int32 castHandle, r)
      | Some a \<Rightarrow> (case map_of (rtHandles r) castHandle of
          None \<Rightarrow> (AVSESSION_ERROR, r)
        | Some info \<Rightarrow>
            if chOutputDevice info = [] then (AVSESSION_ERROR, r)
            else (let r = snd (on_provider a (hp_RemoveCastDevice E (handle_cast_id castHandle)
                    (hd (chOutputDevice info)) action) r)
              in (AVSESSION_SUCCESS,
                  r\<lparr>rtHandles := cmap_put castHandle (info\<lparr>chOutputDevice := [local_device]\<rparr>) (rtHandles r)\<rparr>))))"

definition rt_StopCastSession :: "('e, 'a) cast_engine \<Rightarrow> int \<Rightarrow> ('e, 'a) router \<Rightarrow> int \<times> ('e, 'a) router" where
  "rt_StopCastSession E castHandle r =
     (let r = r\<lparr>rtInMirrorToStream := False, rtRemoteCasting := False, rtCastSide := DEFAULT\<rparr> in
      case rt_GetCastProvider (handle_provider castHandle) r of
        None \<Rightarrow> (to_int32 castHandle, r)
      | Some a \<Rightarrow>
          (let r = snd (on_provider a (\<lambda>mp. ((), hp_StopCastSession E (handle_cast_id castHandle) mp)) r)
           in case map_of (rtHandles r) castHandle of
             None \<Rightarrow> (AVSESSION_ERROR, r)
           | Some info \<Rightarrow> (AVSESSION_SUCCESS,
               r\<lparr>rtHandles := cmap_put castHandle (info\<lparr>chProxy := None\<rparr>) (rtHandles r)\<rparr>)))"

definition rt_GetRemoteNetWorkId ::
  "('e, 'a) cast_engine \<Rightarrow> int \<Rightarrow> string \<Rightarrow> ('e, 'a) router \<Rightarrow> (int \<times> string option) \<times> ('e, 'a) router" where
  "rt_GetRemoteNetWorkId E castHandle deviceId r =
     (case rt_GetCastProvider (handle_provider castHandle) r of
        None \<Rightarrow> ((AVSESSION_ERROR, None), r)
      | Some a \<Rightarrow> (case on_provider a (hp_GetRemoteNetWorkId E (handle_cast_id castHandle) deviceId) r of
          (x, r) \<Rightarrow> ((AVSESSION_SUCCESS, x), r)))"

definition rt_GetRemoteDrmCapabilities ::
  "('e, 'a) cast_engine \<Rightarrow> int \<Rightarrow> string \<Rightarrow> ('e, 'a) router \<Rightarrow> (int \<times> string list option) \<times> ('e, 'a) router" where
  "rt_GetRemoteDrmCapabilities E castHandle deviceId r =
     (case rt_GetCastProvider (handle_provider castHandle) r of
        None \<Rightarrow> ((AVSESSION_ERROR, None), r)
      | Some a \<Rightarrow> (case on_provider a (hp_GetRemoteDrmCapabilities E (handle_cast_id castHandle) deviceId) r of
          (x, r) \<Rightarrow> ((AVSESSION_SUCCESS, x), r)))"

definition rt_SendCommandArgsToCast ::
  "('e, 'a) cast_engine \<Rightarrow> int \<Rightarrow> int \<Rightarrow> string \<Rightarrow> ('e, 'a) router \<Rightarrow> ('e, 'a) router" where
  "rt_SendCommandArgsToCast E castHandle commandType params r =
     (case rt_GetCastProvider (handle_provider castHandle) r of
        None \<Rightarrow> r
      | Some a \<Rightarrow> snd (on_provider a (hp_SendCommandArgsToCast E (handle_cast_id castHandle) commandType params) r))"

definition rt_QueryCastSessionId ::
  "('e, 'a) cast_engine \<Rightarrow> int \<Rightarrow> ('e, 'a) router \<Rightarrow> string \<times> ('e, 'a) router" where
  "rt_QueryCastSessionId E castHandle r =
     (case rt_GetCastProvider (handle_provider castHandle) r of
        None \<Rightarrow> ([], r)
      | Some a \<Rightarrow> on_provider a (hp_QueryCastSessionId E (handle_cast_id castHandle)) r)"

section \<open>The mirror cast\<close>

text \<open>Without a provider the answer is \<^verbatim>\<open>providerNumberEnableDefault_\<close>.\<close>

definition rt_GetMirrorCastHandle :: "('e, 'a) router \<Rightarrow> int" where
  "rt_GetMirrorCastHandle r = (case map_of (rtManagers r) providerNumberEnableDefault of
     None \<Rightarrow> providerNumberEnableDefault
   | Some a \<Rightarrow> hp_GetMirrorCastHandle (rtProviders r a))"

definition rt_SetMirrorCastHandle :: "int \<Rightarrow> ('e, 'a) router \<Rightarrow> ('e, 'a) router" where
  "rt_SetMirrorCastHandle castHandle r = (case rt_GetHwProvider r of
     None \<Rightarrow> r
   | Some a \<Rightarrow> set_provider a (hp_SetMirrorCastHandle castHandle (rtProviders r a)) r)"

definition rt_GetMirrorDeviceId :: "('e, 'a) router \<Rightarrow> string" where
  "rt_GetMirrorDeviceId r = (case map_of (rtHandles r) (rt_GetMirrorCastHandle r) of
     Some info \<Rightarrow> if chOutputDevice info \<noteq> [] then dvDeviceId (hd (chOutputDevice info)) else ''-100''
   | None \<Rightarrow> ''-100'')"

end
