(* ===== verification/CastEvents.thy ===== *)
theory CastEvents
  imports CastRouter
begin

text \<open>
  The callbacks of \<^verbatim>\<open>AVRouterImpl\<close> (\<^verbatim>\<open>avrouter_impl.cpp\<close>): the listeners of the sessions that cast,
  what the cast engine reports (states, events, devices, its death), and the sink's side of a cast. The
  parts of \<^verbatim>\<open>HwCastProvider\<close> and \<^verbatim>\<open>HwCastProviderSession\<close> that call the router back are here too.
\<close>

section \<open>Connect states\<close>

definition rt_UpdateConnectState :: "('e, 'a) cast_engine \<Rightarrow> int \<Rightarrow> ('e, 'a) router \<Rightarrow> ('e, 'a) router" where
  "rt_UpdateConnectState E castState r =
     (let r = (if castState = stMirrorToStream E \<or> castState = stStreamToMirror E
               then r\<lparr>rtInMirrorToStream := (castState = stMirrorToStream E)\<rparr> else r)
      in if castState = stStream E \<or> castState = stDisconnected E \<or> castState = stStreamToMirror E
         then r\<lparr>rtRemoteCasting := (castState = stStream E)\<rparr> else r)"

section \<open>The sink's side\<close>

text \<open>The JSON text of the source device, and the session of the cast engine.\<close>

definition rt_SetSinkCastSessionInfo ::
  "('e, 'a) cast_engine \<Rightarrow> string \<Rightarrow> string \<Rightarrow> ('e, 'a) router \<Rightarrow> ('e, 'a) router" where
  "rt_SetSinkCastSessionInfo E deviceInfoStr sessionId r = (case jsonDeviceInfo E deviceInfoStr of
     None \<Rightarrow> r
   | Some (deviceId, protocolType) \<Rightarrow> r\<lparr>
       rtSourceDeviceId := (case deviceId of Some s \<Rightarrow> s | None \<Rightarrow> []),
       rtSourceProtocols := (case protocolType of Some n \<Rightarrow> n | None \<Rightarrow> 0),
       rtSinkSessionId := sessionId\<rparr>)"

text \<open>\<^verbatim>\<open>HwCastProvider::NotifyCastSessionCreated\<close> gets the session and posts a task, for the session it got.\<close>

definition hp_NotifyCastSessionCreated ::
  "('e, 'a) cast_engine \<Rightarrow> string \<Rightarrow> ('e, 'a) router \<Rightarrow> nat option \<times> ('e, 'a) router" where
  "hp_NotifyCastSessionCreated E castSessionId r =
     (case on_engine (csmGetCastSession E castSessionId) (rtMem r) of (cs, m) \<Rightarrow> (cs, r\<lparr>rtMem := m\<rparr>))"

definition hp_DestroyCastSessionCreated ::
  "('e, 'a) cast_engine \<Rightarrow> string \<Rightarrow> ('e, 'a) router \<Rightarrow> ('e, 'a) router" where
  "hp_DestroyCastSessionCreated E castSessionId r =
     (case on_engine (csmGetCastSession E castSessionId) (rtMem r) of (cs, m) \<Rightarrow>
       r\<lparr>rtMem := m\<lparr>cmEngine := fst (hs_Release E (cmEngine m, new_cast_session E cs))\<rparr>\<rparr>)"

text \<open>The session of the task is \<open>None\<close> when nothing is posted.\<close>

definition rt_NotifyCastSessionCreated ::
  "('e, 'a) cast_engine \<Rightarrow> rt_env \<Rightarrow> ('e, 'a) router \<Rightarrow> nat option \<times> ('e, 'a) router" where
  "rt_NotifyCastSessionCreated E env r =
     (if rtSinkSessionId r = [] \<or> rt_GetHwProvider r = None then (None, r)
      else (let r = (if rtDeviceType r = re2in1 env
                then rt_emit [CastAddToCollaboration (new_device_info\<lparr>dvDeviceId := rtSourceDeviceId r,
                         dvRealDeviceId := rtSourceDeviceId r,
                         dvSupportedProtocols := word_of_int (rtSourceProtocols r)\<rparr>)]
                       (r\<lparr>rtSinkAllConnectResult := reCollaboration env\<rparr>)
                else r)
            in hp_NotifyCastSessionCreated E (rtSinkSessionId r) (r\<lparr>rtCastSide := CAST_SINK\<rparr>)))"

definition rt_DestroyCastSessionCreated :: "('e, 'a) cast_engine \<Rightarrow> ('e, 'a) router \<Rightarrow> ('e, 'a) router" where
  "rt_DestroyCastSessionCreated E r =
     (if rtSinkSessionId r = [] \<or> rt_GetHwProvider r = None then r
      else hp_DestroyCastSessionCreated E (rtSinkSessionId r) r)"

definition rt_ReleaseCurrentCastSession :: "int \<Rightarrow> ('e, 'a) router \<Rightarrow> ('e, 'a) router" where
  "rt_ReleaseCurrentCastSession userId r =
     (if rtServicePtr r then rt_emit [ReleaseCastSession userId] r else r)"

definition rt_OnCastSessionCreated :: "int \<Rightarrow> int \<Rightarrow> ('e, 'a) router \<Rightarrow> int \<times> ('e, 'a) router" where
  "rt_OnCastSessionCreated castId userId r =
     (if rt_GetCastProvider providerNumberEnableDefault r = None then (-1, r)
      else (let castHandle = cast_handle 1 castId
        in (AVSESSION_SUCCESS,
            rt_emit [CreateSessionByCast castHandle userId] (r\<lparr>rtHandles := [(castHandle, new_cast_handle_info)]\<rparr>))))"

text \<open>
  The task has two parts. First the listeners for devices, which are provider managers, ask the service
  to release the cast sessions it has; then the new session gets a number. \<open>a\<close> is the provider, and
  \<open>listeners\<close> the copy of its listeners that the task makes.
\<close>

definition hp_created_release :: "nat list \<Rightarrow> int \<Rightarrow> ('e, 'a) router \<Rightarrow> ('e, 'a) router" where
  "hp_created_release listeners userId r = fold (\<lambda>_. rt_ReleaseCurrentCastSession userId) listeners r"

definition hp_created_session ::
  "('e, 'a) cast_engine \<Rightarrow> nat \<Rightarrow> nat list \<Rightarrow> nat option \<Rightarrow> int \<Rightarrow> ('e, 'a) router \<Rightarrow> ('e, 'a) router" where
  "hp_created_session E a listeners castSession userId r = (let p = rtProviders r a in
     case first_free (hpCastFlag p) of
        None \<Rightarrow> r
      | Some castId \<Rightarrow>
          (let s = new_cast_session E castSession;
               r = r\<lparr>rtMem := (rtMem r)\<lparr>cmEngine := snd (hs_Init E (cmEngine (rtMem r)) s)\<rparr>\<rparr>;
               r = set_provider a (p\<lparr>hpCastFlag := (hpCastFlag p)[castId := True],
                     hpSessions := cmap_put (int castId) s (hpSessions p)\<rparr>) r
           in fold (\<lambda>_ r. snd (rt_OnCastSessionCreated (int castId) userId r)) listeners r))"

section \<open>States of a cast\<close>

text \<open>
  The listeners of all casts get the state as a posted task. A disconnected cast gets the local
  device; the entry of \<^verbatim>\<open>RegisterStashCallback\<close> serves once.
\<close>

definition state_posts :: "int \<Rightarrow> 'a device_info \<Rightarrow> int \<Rightarrow> (int \<times> 'a cast_handle_info) list \<Rightarrow> 'a rt_out list" where
  "state_posts castState deviceInfo reasonCode hs =
     map (\<lambda>(_, info). ListenerStatePosted (the (chListener info)) castState deviceInfo True reasonCode)
       (filter (\<lambda>(_, info). chListener info \<noteq> None) hs)"

definition state_entry :: "int \<Rightarrow> int \<times> 'a cast_handle_info \<Rightarrow> int \<times> 'a cast_handle_info" where
  "state_entry castState e = (case e of (number, info) \<Rightarrow>
     if chListener info = None then (number, info)
     else (let info = (if castState = disconnectStateFromCast then info\<lparr>chOutputDevice := [local_device]\<rparr> else info)
       in (number, if number = INT64_MAX then info\<lparr>chListener := None\<rparr> else info)))"

definition rt_OnCastStateChange :: "('e, 'a) cast_engine \<Rightarrow> rt_env \<Rightarrow> int \<Rightarrow> int \<Rightarrow> int \<Rightarrow> 'a device_info \<Rightarrow> int
    \<Rightarrow> ('e, 'a) router \<Rightarrow> ('e, 'a) router" where
  "rt_OnCastStateChange E env pid uid castState deviceInfo reasonCode r =
     (let r = rt_UpdateConnectState E castState r;
          r = (if castState = stStream E then r\<lparr>rtConnectedDevice := deviceInfo\<rparr> else r)
      in if castState = stStream E \<and> rtSinkAllConnectResult r \<noteq> AVSESSION_SUCCESS
         then rt_DestroyCastSessionCreated E (r\<lparr>rtSinkAllConnectResult := AVSESSION_SUCCESS\<rparr>)
         else
          (let r = (if castState \<noteq> stStream E \<and> castState = stDisconnected E
                    then snd (sv_checkEnableCast E env pid uid False (rt_emit [SetIsSupportMirrorToStream False]
                      (r\<lparr>rtSinkAllConnectResult := AVSESSION_SUCCESS, rtCastSide := DEFAULT\<rparr>)))
                    else r)
           in rt_emit (state_posts castState deviceInfo reasonCode (rtHandles r))
                (r\<lparr>rtHandles := map (state_entry castState) (rtHandles r)\<rparr>)))"

text \<open>What a session of the provider tells its listeners: each is the router.\<close>

definition rt_told :: "('e, 'a) cast_engine \<Rightarrow> rt_env \<Rightarrow> int \<Rightarrow> int \<Rightarrow> 'a told list \<Rightarrow> ('e, 'a) router \<Rightarrow> ('e, 'a) router" where
  "rt_told E env pid uid told r =
     fold (\<lambda>(_, castState, deviceInfo, reasonCode). rt_OnCastStateChange E env pid uid castState deviceInfo reasonCode) told r"

section \<open>Listeners\<close>

definition handle_info :: "int \<Rightarrow> ('e, 'a) router \<Rightarrow> 'a cast_handle_info" where
  "handle_info castHandle r =
     (case map_of (rtHandles r) castHandle of Some info \<Rightarrow> info | None \<Rightarrow> new_cast_handle_info)"

definition rt_RegisterStashCallback :: "int \<Rightarrow> nat \<Rightarrow> string \<Rightarrow> ('e, 'a) router \<Rightarrow> ('e, 'a) router" where
  "rt_RegisterStashCallback castHandle callback sessionId r = r\<lparr>rtHandles := cmap_put castHandle
     ((handle_info castHandle r)\<lparr>chListener := Some callback, chSessionId := sessionId\<rparr>) (rtHandles r)\<rparr>"

text \<open>The registration of the router at the session of the provider, with what it is told at once.\<close>

definition rt_listen :: "('e, 'a) cast_engine \<Rightarrow> rt_env \<Rightarrow> int \<Rightarrow> int \<Rightarrow> nat \<Rightarrow> int \<Rightarrow> ('e, 'a) router \<Rightarrow> ('e, 'a) router" where
  "rt_listen E env pid uid a castId r =
     (case hp_RegisterCastSessionStateListener castId (rtCastListener r) (rtProviders r a) of
        (_, told, p) \<Rightarrow> rt_told E env pid uid told (set_provider a p r))"

definition rt_RegisterCallback :: "('e, 'a) cast_engine \<Rightarrow> rt_env \<Rightarrow> int \<Rightarrow> int \<Rightarrow> int \<Rightarrow> nat \<Rightarrow> string
    \<Rightarrow> 'a device_info \<Rightarrow> ('e, 'a) router \<Rightarrow> int \<times> ('e, 'a) router" where
  "rt_RegisterCallback E env pid uid castHandle callback sessionId deviceInfo r =
     (let castId = handle_cast_id castHandle; put = (\<lambda>info r. r\<lparr>rtHandles := cmap_put castHandle info (rtHandles r)\<rparr>) in
      case rt_GetCastProvider (handle_provider castHandle) r of
        None \<Rightarrow> (AVSESSION_ERROR, r)
      | Some a \<Rightarrow>
        if rt_GetMirrorCastHandle r = noMirrorCastHandle
        then (case map_of (rtHandles r) castHandle of
            None \<Rightarrow> (AVSESSION_SUCCESS, rt_listen E env pid uid a castId r)
          | Some info \<Rightarrow>
              if chOutputDevice info \<noteq> [] \<and> chListener info \<noteq> None
              then (AVSESSION_SUCCESS, rt_emit
                [ListenerState (the (chListener info)) disconnectStateFromCast (hd (chOutputDevice info)) False noReasonCode,
                 ListenerState callback connectStateFromCast (hd (chOutputDevice info)) False noReasonCode]
                (put (info\<lparr>chListener := Some callback\<rparr>) r))
              else (AVSESSION_SUCCESS, rt_listen E env pid uid a castId
                (put (info\<lparr>chListener := Some callback, chSessionId := sessionId\<rparr>) r)))
        else
         (let r = (case map_of (rtHandles r) castHandle of
              None \<Rightarrow> r\<lparr>rtMirrorSessions := cmap_put sessionId (Some callback) (rtMirrorSessions r)\<rparr>
            | Some info \<Rightarrow>
                if chListener info = None
                then (let r = rt_listen E env pid uid a castId r
                  in put ((handle_info castHandle r)\<lparr>chOutputDevice := [deviceInfo], chListener := Some callback,
                       chSessionId := sessionId\<rparr>) r)
                else r\<lparr>rtMirrorSessions := cmap_put sessionId (Some callback) (rtMirrorSessions r)\<rparr>)
          in (AVSESSION_SUCCESS, rt_emit [ListenerState callback connectStateFromCast deviceInfo False noReasonCode] r)))"

definition rt_UnRegisterCallback :: "int \<Rightarrow> string \<Rightarrow> ('e, 'a) router \<Rightarrow> int \<times> ('e, 'a) router" where
  "rt_UnRegisterCallback castHandle sessionId r =
     (case rt_GetCastProvider (handle_provider castHandle) r of
        None \<Rightarrow> (AVSESSION_ERROR, r)
      | Some a \<Rightarrow>
        (let r = (case map_of (rtHandles r) castHandle of
              None \<Rightarrow> r
            | Some info \<Rightarrow>
                if chSessionId info = sessionId
                then set_provider a (snd (hp_UnRegisterCastSessionStateListener (handle_cast_id castHandle)
                        (rtCastListener r) (rtProviders r a)))
                       (r\<lparr>rtHandles := cmap_put castHandle (info\<lparr>chListener := None\<rparr>) (rtHandles r)\<rparr>)
                else r)
         in (AVSESSION_SUCCESS, r\<lparr>rtMirrorSessions := cmap_erase sessionId (rtMirrorSessions r)\<rparr>)))"

definition rt_SetServiceAllConnectState :: "('e, 'a) cast_engine \<Rightarrow> rt_env \<Rightarrow> int \<Rightarrow> int \<Rightarrow> int \<Rightarrow> 'a device_info
    \<Rightarrow> ('e, 'a) router \<Rightarrow> int \<times> ('e, 'a) router" where
  "rt_SetServiceAllConnectState E env pid uid castHandle deviceInfo r =
     (let realCastHandle = (if castHandle = noMirrorCastHandle then rt_GetMirrorCastHandle r else castHandle);
          r = (case map_of (rtHandles r) realCastHandle of
              None \<Rightarrow> r
            | Some info \<Rightarrow> r\<lparr>rtHandles := cmap_put realCastHandle (info\<lparr>chOutputDevice := [deviceInfo]\<rparr>) (rtHandles r)\<rparr>)
      in case rt_GetCastProvider providerNumberEnableDefault r of
           None \<Rightarrow> (AVSESSION_ERROR, r)
         | Some a \<Rightarrow> (case hp_SetStreamState castHandle deviceInfo (rtProviders r a) of
             (_, told, p) \<Rightarrow> (AVSESSION_SUCCESS, rt_told E env pid uid told (set_provider a p r))))"

text \<open>
  One session keeps the mirror cast: the other listeners are told that they are disconnected, and the
  casts of other sessions go to the session's listener.
\<close>

definition takes_over :: "string \<Rightarrow> nat option \<Rightarrow> int \<times> 'a cast_handle_info \<Rightarrow> bool" where
  "takes_over sessionId l e \<longleftrightarrow> chSessionId (snd e) \<noteq> sessionId \<and> chListener (snd e) \<noteq> None \<and> l \<noteq> None"

definition rt_DisconnectOtherSession :: "string \<Rightarrow> 'a device_info \<Rightarrow> ('e, 'a) router \<Rightarrow> ('e, 'a) router" where
  "rt_DisconnectOtherSession sessionId deviceInfo r =
     (let l = Option.bind (map_of (rtMirrorSessions r) sessionId) (\<lambda>x. x);
          others = List.map_filter (\<lambda>(s, x). if s \<noteq> sessionId then x else None) (rtMirrorSessions r)
            @ map (\<lambda>e. the (chListener (snd e))) (filter (takes_over sessionId l) (rtHandles r));
          r = r\<lparr>rtMirrorSessions := [], rtHandles := map (\<lambda>e. if takes_over sessionId l e
                then (fst e, (snd e)\<lparr>chSessionId := sessionId, chListener := l\<rparr>) else e) (rtHandles r)\<rparr>
      in (rt_emit (map (\<lambda>x. ListenerState x disconnectStateFromCast deviceInfo False noReasonCode) others) r)
           \<lparr>rtDisconnectOther := False\<rparr>)"

section \<open>Events\<close>

definition rt_SetStreamToMirrorFromSink :: "bool \<Rightarrow> ('e, 'a) router \<Rightarrow> ('e, 'a) router" where
  "rt_SetStreamToMirrorFromSink fromSink r = r\<lparr>rtFromSink := fromSink\<rparr>"

definition rt_HandleStreamToMirrorFromSinkEvent ::
  "('e, 'a) cast_engine \<Rightarrow> ('e, 'a) router \<Rightarrow> ('e, 'a) router" where
  "rt_HandleStreamToMirrorFromSinkEvent E r =
     (let r = rt_UpdateConnectState E disconnectStateFromCast (rt_SetStreamToMirrorFromSink True r)
      in if \<not> rtServicePtr r then r
         else rt_emit (SetIsSupportMirrorToStream False #
           map (\<lambda>(_, info). ListenerStatePosted (the (chListener info)) disconnectStateFromCast (rtConnectedDevice r)
                  False noReasonCode)
             (filter (\<lambda>(_, info). chListener info \<noteq> None) (rtHandles r))) r)"

definition rt_OnCastEventRecv ::
  "('e, 'a) cast_engine \<Rightarrow> int \<Rightarrow> string \<Rightarrow> ('e, 'a) router \<Rightarrow> ('e, 'a) router" where
  "rt_OnCastEventRecv E errorCode errorMsg r =
     (let r = (if errorCode = evStreamToMirrorFromSink E then rt_HandleStreamToMirrorFromSinkEvent E r else r)
      in rt_emit (map (\<lambda>(_, info). ListenerEvent (the (chListener info)) errorCode errorMsg)
           (filter (\<lambda>(_, info). chListener info \<noteq> None) (rtHandles r))) r)"

definition rt_OnSystemCommonEvent :: "string \<Rightarrow> string \<Rightarrow> ('e, 'a) router \<Rightarrow> int \<times> ('e, 'a) router" where
  "rt_OnSystemCommonEvent commonEvent args r =
     (if \<not> rtServicePtr r then (ERR_SERVICE_NOT_EXIST, r)
      else (AVSESSION_SUCCESS, rt_emit [NotifySystemCommonEvent commonEvent args] r))"

definition rt_OnDeviceStateChange :: "string \<Rightarrow> int \<Rightarrow> int \<Rightarrow> int \<Rightarrow> ('e, 'a) router \<Rightarrow> int \<times> ('e, 'a) router" where
  "rt_OnDeviceStateChange deviceId deviceState reasonCode radarErrorCode r =
     (if \<not> rtServicePtr r then (ERR_SERVICE_NOT_EXIST, r)
      else (AVSESSION_SUCCESS, rt_emit [NotifyDeviceStateChange deviceId deviceState reasonCode radarErrorCode] r))"

definition rt_OnDeviceLogEvent :: "int \<Rightarrow> int \<Rightarrow> ('e, 'a) router \<Rightarrow> int \<times> ('e, 'a) router" where
  "rt_OnDeviceLogEvent eventId param r =
     (if \<not> rtServicePtr r then (ERR_SERVICE_NOT_EXIST, r)
      else (AVSESSION_SUCCESS, rt_emit [NotifyDeviceLogEvent eventId param] r))"

section \<open>Devices\<close>

definition rt_OnDeviceAvailable :: "'a device_info list \<Rightarrow> ('e, 'a) router \<Rightarrow> int \<times> ('e, 'a) router" where
  "rt_OnDeviceAvailable devs r =
     (if \<not> rtServicePtr r then (ERR_SERVICE_NOT_EXIST, r)
      else (AVSESSION_SUCCESS, rt_emit [NotifyDeviceAvailable devs]
        (r\<lparr>rtDevices := fold (\<lambda>d. cmap_put (dvDeviceId d) d) devs (rtDevices r)\<rparr>)))"

definition rt_OnDeviceOffline :: "string \<Rightarrow> ('e, 'a) router \<Rightarrow> int \<times> ('e, 'a) router" where
  "rt_OnDeviceOffline deviceId r =
     (if \<not> rtServicePtr r then (ERR_SERVICE_NOT_EXIST, r)
      else (AVSESSION_SUCCESS, rt_emit [NotifyDeviceOffline deviceId]
        (r\<lparr>rtDevices := cmap_erase deviceId (rtDevices r)\<rparr>)))"

text \<open>\<^verbatim>\<open>AVCastProviderManager::OnDeviceAvailable\<close> puts in the number of its provider.\<close>

definition pm_OnDeviceAvailable :: "int \<Rightarrow> 'a device_info list \<Rightarrow> ('e, 'a) router \<Rightarrow> ('e, 'a) router" where
  "pm_OnDeviceAvailable providerId devs r =
     snd (rt_OnDeviceAvailable (map (\<lambda>d. d\<lparr>dvProviderId := word_of_int providerId\<rparr>) devs) r)"

text \<open>
  The cast engine died. \<open>selfPid\<close> and \<open>selfUid\<close> are what \<^verbatim>\<open>IPCSkeleton\<close> answers outside of a call: the
  service itself.
\<close>

definition rt_OnCastServerDied ::
  "('e, 'a) cast_engine \<Rightarrow> rt_env \<Rightarrow> int \<Rightarrow> int \<Rightarrow> ('e, 'a) router \<Rightarrow> int \<times> ('e, 'a) router" where
  "rt_OnCastServerDied E env selfPid selfUid r =
     (if \<not> rtServicePtr r then (ERR_SERVICE_NOT_EXIST, r)
      else
       (let r = rt_emit (map (\<lambda>(deviceId, _). NotifyDeviceOffline deviceId) (rtDevices r)) (r\<lparr>rtInCast := False, rtDevices := []\<rparr>);
            r = r\<lparr>rtProviderNumber := providerNumberDisable, rtManagers := []\<rparr>;
            r = rt_OnCastStateChange E env selfPid selfUid disconnectStateFromCast
                  (device_of CATEGORY_LOCAL ''-1'' ''RemoteCast'') noReasonCode r;
            r = r\<lparr>rtHandles := []\<rparr>
        in if rtDeviceType r \<noteq> rePhone env then (AVSESSION_SUCCESS, r)
           else (let r = snd (rt_StartCastDiscovery E selfPid (rtCacheCapability r) (rtCacheDrmSchemes r) r)
             in (AVSESSION_SUCCESS, snd (sv_checkEnableCast E env selfPid selfUid True r)))))"

section \<open>The state of a device\<close>

definition MEDIA_CAST_DISCONNECT :: string where "MEDIA_CAST_DISCONNECT = ''usual.event.MEDIA_CAST_DISCONNECT''"
definition MEDIA_CAST_ERROR :: string where "MEDIA_CAST_ERROR = ''usual.event.MEDIA_CAST_ERROR''"
definition MEDIA_SERIES_CAST_CONFLICT :: string where
  "MEDIA_SERIES_CAST_CONFLICT = ''usual.event.MEDIA_SERIES_CAST_CONFLICT''"
definition MEDIA_SERIES_CAST_3VAP :: string where "MEDIA_SERIES_CAST_3VAP = ''usual.event.MEDIA_SERIES_CAST_3VAP''"

definition hs_ComputeToastOnDeviceState :: "('e, 'a) cast_engine \<Rightarrow> device_state_info \<Rightarrow> 'a remote_device
    \<Rightarrow> cast_session \<times> ('e, 'a) router \<Rightarrow> cast_session \<times> ('e, 'a) router" where
  "hs_ComputeToastOnDeviceState E info d sr = (case sr of (s, r) \<Rightarrow> let state = dsDeviceState info in
     if state = stStream E
     then (s\<lparr>hsToastState := STATE_CONNECTED\<rparr>,
       if rtCastSide r = CAST_SINK \<and> rtSinkDeviceName r \<noteq> []
       then rt_emit [PublishCommonEvent MEDIA_SERIES_CAST_CONFLICT [rtSinkDeviceName r, rdDeviceName d]]
              (r\<lparr>rtSinkDeviceName := []\<rparr>)
       else r)
     else if state = stStreamToMirror E
     then (s\<lparr>hsToastState := STATE_DISCONNECTED\<rparr>, r\<lparr>rtSinkDeviceName := []\<rparr>)
     else if state = stConnected E \<or> state = stPlaying E
     then (s\<lparr>hsToastState := prepareState\<rparr>, r\<lparr>rtSinkDeviceName := []\<rparr>)
     else if state \<noteq> stDisconnected E then (s, r)
     else if hsToastState s = STATE_CONNECTED
     then (s, if rtCastSide r = CAST_SOURCE then rt_emit [PublishCommonEvent MEDIA_CAST_DISCONNECT []] r else r)
     else if hsToastState s = STATE_CONNECTING
     then (s, if rtCastSide r = CAST_SOURCE
              then rt_emit [PublishCommonEvent (if passiveConflict E (dsRadarErrCode info)
                then MEDIA_SERIES_CAST_3VAP else MEDIA_CAST_ERROR) []] r
              else r)
     else (s, r))"

definition hs_OnDeviceStateChange :: "device_state_info \<Rightarrow> ('e, 'a) router \<Rightarrow> ('e, 'a) router" where
  "hs_OnDeviceStateChange info r = snd (rt_OnDeviceStateChange (hs_GetDeviceId info) (dsDeviceState info)
     (dsReasonCode info) (dsRadarErrCode info) r)"

text \<open>The engine reports a state of the session \<open>castId\<close> of the provider at \<open>a\<close>.\<close>

definition hs_OnDeviceState :: "('e, 'a) cast_engine \<Rightarrow> rt_env \<Rightarrow> int \<Rightarrow> int \<Rightarrow> nat \<Rightarrow> int \<Rightarrow> device_state_info
    \<Rightarrow> ('e, 'a) router \<Rightarrow> ('e, 'a) router" where
  "hs_OnDeviceState E env pid uid a castId info r =
     (case map_of (hpSessions (rtProviders r a)) castId of
        None \<Rightarrow> r
      | Some s \<Rightarrow>
          if hsStashState s = dsDeviceState info then r
          else
           (let (d, e) = (case hsCastSession s of
                    Some cs \<Rightarrow> csGetRemoteDeviceInfo E cs (dsDeviceId info) (cmEngine (rtMem r))
                  | None \<Rightarrow> (new_remote_device E, cmEngine (rtMem r)));
                (s, r) = hs_ComputeToastOnDeviceState E info d (s, r\<lparr>rtMem := (rtMem r)\<lparr>cmEngine := e\<rparr>\<rparr>);
                (told, s) = hs_deliver E info d s;
                p = rtProviders r a;
                r = set_provider a (p\<lparr>hpSessions := cmap_put castId s (hpSessions p)\<rparr>) r
            in fold (\<lambda>t r. hs_OnDeviceStateChange info (rt_told E env pid uid [t] r)) told r))"

text \<open>Events of the session: from 2000 to 2999 to the router, from 4200 to 4250 to the service.\<close>

definition hs_OnHiplayEventRecv :: "int \<Rightarrow> string \<Rightarrow> ('e, 'a) router \<Rightarrow> ('e, 'a) router" where
  "hs_OnHiplayEventRecv eventId jsonParam r =
     (if eventId = 4205 then snd (rt_OnSystemCommonEvent ''HIPLAY_CAST_MODE_CHANGE_RESULT'' jsonParam r)
      else if eventId = 4201 then snd (rt_OnSystemCommonEvent ''HIPLAY_BYPASS_DATA'' jsonParam r)
      else if eventId = 4203 then snd (rt_OnSystemCommonEvent ''HIPLAY_QUERY_RESPONSE'' jsonParam r)
      else if eventId = 4207 then snd (rt_OnSystemCommonEvent ''UPDATE_DEVICE_INFO'' jsonParam r)
      else r)"

definition hs_OnEvent ::
  "('e, 'a) cast_engine \<Rightarrow> nat \<Rightarrow> int \<Rightarrow> int \<Rightarrow> string \<Rightarrow> ('e, 'a) router \<Rightarrow> ('e, 'a) router" where
  "hs_OnEvent E a castId eventId jsonParam r =
     (case map_of (hpSessions (rtProviders r a)) castId of
        None \<Rightarrow> r
      | Some s \<Rightarrow>
          if 2000 \<le> eventId \<and> eventId \<le> 2999 then fold (\<lambda>_. rt_OnCastEventRecv E eventId jsonParam) (hsListeners s) r
          else if 4200 \<le> eventId \<and> eventId \<le> 4250 then hs_OnHiplayEventRecv eventId jsonParam r
          else r)"

section \<open>Accessors\<close>

definition rt_IsInMirrorToStreamState :: "('e, 'a) router \<Rightarrow> bool" where
  "rt_IsInMirrorToStreamState r = rtInMirrorToStream r"
definition rt_IsRemoteCasting :: "('e, 'a) router \<Rightarrow> bool" where "rt_IsRemoteCasting r = rtRemoteCasting r"
definition rt_SetCastSide :: "cast_side \<Rightarrow> ('e, 'a) router \<Rightarrow> ('e, 'a) router" where
  "rt_SetCastSide castSide r = r\<lparr>rtCastSide := castSide\<rparr>"
definition rt_GetCastSide :: "('e, 'a) router \<Rightarrow> cast_side" where "rt_GetCastSide r = rtCastSide r"
definition rt_SetCastingDeviceName :: "string \<Rightarrow> ('e, 'a) router \<Rightarrow> ('e, 'a) router" where
  "rt_SetCastingDeviceName deviceName r = r\<lparr>rtSinkDeviceName := deviceName\<rparr>"
definition rt_GetCastingDeviceName :: "('e, 'a) router \<Rightarrow> string" where
  "rt_GetCastingDeviceName r = rtSinkDeviceName r"

end
