(* ===== verification/CastInv.thy ===== *)
theory CastInv
  imports CastEvents
begin

text \<open>
  Invariants of casting. The flags of a provider are the numbers of its sessions, so that
  \<^verbatim>\<open>castFlag_[castId]\<close> is only written inside the vector, and every controller has its session. The
  router has at most one provider in its table, the one that \<^verbatim>\<open>hwProvider_\<close> points to. All steps of
  the router and of the cast engine keep this.
\<close>

section \<open>Providers\<close>

definition flagged :: "bool list \<Rightarrow> int set" where
  "flagged fs = int ` {i. i < length fs \<and> fs ! i}"

definition cmap_keys :: "('k, 'v) cmap \<Rightarrow> 'k set" where
  "cmap_keys m = fst ` set m"

definition hp_ok :: "hw_provider \<Rightarrow> bool" where
  "hp_ok p \<longleftrightarrow> cmap_ok (hpSessions p) \<and> cmap_keys (hpSessions p) = flagged (hpCastFlag p)
     \<and> length (hpCastFlag p) \<le> maxCastSessionSize \<and> cmap_keys (hpControllers p) \<subseteq> cmap_keys (hpSessions p)"

lemma cmap_keys_simps [simp]:
  "cmap_keys [] = {}" "cmap_keys (cmap_put k v m) = insert k (cmap_keys m)"
  "cmap_keys (cmap_erase k m) = cmap_keys m - {k}"
  by (auto simp: cmap_keys_def keys_cmap_put set_cmap_erase)

lemma map_of_keys: "map_of m k = Some v \<Longrightarrow> k \<in> cmap_keys m"
  by (auto simp: cmap_keys_def dest: map_of_SomeD intro: rev_image_eqI)

lemma first_free_Some: "first_free fs = Some i \<Longrightarrow> i < length fs \<and> \<not> fs ! i \<and> (\<forall>j < i. fs ! j)"
proof (induction fs arbitrary: i)
  case (Cons b fs)
  then show ?case
    by (cases i) (auto split: if_splits simp: less_Suc_eq_0_disj nth_Cons split: nat.splits)
qed simp

lemma first_free_None: "first_free fs = None \<longleftrightarrow> (\<forall>i < length fs. fs ! i)"
  by (induction fs) (auto simp: less_Suc_eq_0_disj)

lemma flagged_set:
  "i < length fs \<Longrightarrow> flagged (fs[i := True]) = insert (int i) (flagged fs)"
  by (auto simp: flagged_def nth_list_update)

lemma flagged_reset: "flagged (fs[i := False]) = flagged fs - {int i}"
proof -
  have "{j. j < length fs \<and> fs[i := False] ! j} = {j. j < length fs \<and> fs ! j} - {i}"
  proof (rule set_eqI)
    fix j show "j \<in> {j. j < length fs \<and> fs[i := False] ! j} \<longleftrightarrow> j \<in> {j. j < length fs \<and> fs ! j} - {i}"
      by (cases "j = i") simp_all
  qed
  then show ?thesis by (simp add: flagged_def image_set_diff [OF inj_of_nat])
qed

lemma flagged_nonneg: "c \<in> flagged fs \<Longrightarrow> 0 \<le> c"
  by (auto simp: flagged_def)

lemma new_provider_ok [simp]: "hp_ok new_hw_provider"
  by (auto simp: hp_ok_def new_hw_provider_def flagged_def)

lemma on_session_ok:
  "hp_ok p \<Longrightarrow> on_session c d f (m, p) = (x, m', p') \<Longrightarrow> hp_ok p'"
  by (auto simp: on_session_def hp_ok_def cmap_ok_put dest: map_of_keys split: option.splits prod.splits)

lemma put_session_ok:
  "hp_ok p \<Longrightarrow> map_of (hpSessions p) c = Some s \<Longrightarrow> hp_ok (p\<lparr>hpSessions := cmap_put c s' (hpSessions p)\<rparr>)"
  by (auto simp: hp_ok_def cmap_ok_put dest: map_of_keys)

lemma add_session_ok:
  assumes "hp_ok p" and "first_free (hpCastFlag p) = Some i"
  shows "hp_ok (p\<lparr>hpCastFlag := (hpCastFlag p)[i := True], hpSessions := cmap_put (int i) s (hpSessions p)\<rparr>)"
  using assms first_free_Some [OF assms(2)] by (auto simp: hp_ok_def cmap_ok_put flagged_set)

lemma hp_StartCastSession_ok:
  "hp_ok p \<Longrightarrow> hp_StartCastSession E t b (m, p) = (c, m', p') \<Longrightarrow> hp_ok p'"
  by (auto simp: hp_StartCastSession_def add_session_ok Let_def split: prod.splits option.splits if_splits)

lemma hp_StopCastSession_ok:
  assumes "hp_ok p" and "hp_StopCastSession E c (m, p) = (m', p')"
  shows "hp_ok p'"
proof -
  let ?q = "p\<lparr>hpControllers := cmap_erase c (hpControllers p)\<rparr>"
  have q: "hp_ok ?q" using assms(1) by (auto simp: hp_ok_def)
  have "hp_ok (?q\<lparr>hpSessions := cmap_erase c (hpSessions p), hpCastFlag := (hpCastFlag p)[nat c := False]\<rparr>)"
    if "map_of (hpSessions p) c = Some s" for s
  proof -
    have "c \<in> flagged (hpCastFlag p)" using map_of_keys [OF that] assms(1) by (simp add: hp_ok_def)
    then have "0 \<le> c" by (rule flagged_nonneg)
    then show ?thesis using assms(1) by (auto simp: hp_ok_def cmap_ok_erase flagged_reset)
  qed
  with q assms(2) show ?thesis
    by (auto simp: hp_StopCastSession_def Let_def split: option.splits if_splits)
qed

lemma add_controller_ok:
  "hp_ok p \<Longrightarrow> map_of (hpSessions p) c = Some s \<Longrightarrow> hp_ok (p\<lparr>hpControllers := cmap_put c a (hpControllers p)\<rparr>)"
  by (auto simp: hp_ok_def dest: map_of_keys)

lemma hp_GetRemoteController_ok:
  "hp_ok p \<Longrightarrow> hp_GetRemoteController E c (m, p) = (x, m', p') \<Longrightarrow> hp_ok p'"
  by (auto simp: hp_GetRemoteController_def Let_def intro: add_controller_ok split: option.splits prod.splits if_splits)

lemma hp_Release_ok: "hp_Release E (m, p) = (m', p') \<Longrightarrow> hp_ok p'"
  by (auto simp: hp_Release_def hp_ok_def flagged_def Let_def split: if_splits)

lemma hp_SetStreamState_ok: "hp_ok p \<Longrightarrow> hp_SetStreamState h d p = (x, told, p') \<Longrightarrow> hp_ok p'"
  by (auto simp: hp_SetStreamState_def hp_ok_def cmap_ok_put Let_def dest: map_of_keys split: option.splits prod.splits)

lemma hp_Register_ok: "hp_ok p \<Longrightarrow> hp_RegisterCastSessionStateListener c l p = (x, told, p') \<Longrightarrow> hp_ok p'"
  by (auto simp: hp_RegisterCastSessionStateListener_def intro: put_session_ok split: option.splits prod.splits)

lemma hp_UnRegister_ok: "hp_ok p \<Longrightarrow> hp_ok (snd (hp_UnRegisterCastSessionStateListener c l p))"
  by (auto simp: hp_UnRegisterCastSessionStateListener_def intro: put_session_ok split: option.splits prod.splits)

section \<open>The router\<close>

definition rt_ok :: "('e, 'a) router \<Rightarrow> bool" where
  "rt_ok r \<longleftrightarrow> (\<forall>a. hp_ok (rtProviders r a)) \<and> cmap_ok (rtHandles r)
     \<and> (rtManagers r = [] \<or> (\<exists>a. rtHwProvider r = Some a \<and> rtManagers r = [(1, a)]))"

named_theorems rt_ok_intros "operations that keep the invariant of the router"

lemma new_router_ok: "rt_ok (new_router e)"
  by (simp add: rt_ok_def new_router_def)

lemma rt_emit_ok [simp]: "rt_ok (rt_emit os r) = rt_ok r"
  by (simp add: rt_ok_def rt_emit_def)

lemma rt_ok_irrelevant [simp]:
  "rt_ok (r\<lparr>rtMem := m\<rparr>) = rt_ok r" "rt_ok (r\<lparr>rtServicePtr := b\<rparr>) = rt_ok r"
  "rt_ok (r\<lparr>rtNextProvider := n\<rparr>) = rt_ok r" "rt_ok (r\<lparr>rtProviderNumber := i\<rparr>) = rt_ok r"
  "rt_ok (r\<lparr>rtMirrorSessions := ms\<rparr>) = rt_ok r" "rt_ok (r\<lparr>rtCacheStartDiscovery := b\<rparr>) = rt_ok r"
  "rt_ok (r\<lparr>rtCacheStartDeviceLogging := b\<rparr>) = rt_ok r" "rt_ok (r\<lparr>rtCacheCapability := i\<rparr>) = rt_ok r"
  "rt_ok (r\<lparr>rtCacheDrmSchemes := ss\<rparr>) = rt_ok r" "rt_ok (r\<lparr>rtPids := is\<rparr>) = rt_ok r"
  "rt_ok (r\<lparr>rtCastListener := n\<rparr>) = rt_ok r" "rt_ok (r\<lparr>rtDeviceType := i\<rparr>) = rt_ok r"
  "rt_ok (r\<lparr>rtInMirrorToStream := b\<rparr>) = rt_ok r" "rt_ok (r\<lparr>rtRemoteCasting := b\<rparr>) = rt_ok r"
  "rt_ok (r\<lparr>rtDevices := ds\<rparr>) = rt_ok r" "rt_ok (r\<lparr>rtCastSide := c\<rparr>) = rt_ok r"
  "rt_ok (r\<lparr>rtSinkSessionId := s\<rparr>) = rt_ok r" "rt_ok (r\<lparr>rtSourceDeviceId := s\<rparr>) = rt_ok r"
  "rt_ok (r\<lparr>rtSourceProtocols := i\<rparr>) = rt_ok r" "rt_ok (r\<lparr>rtSinkAllConnectResult := i\<rparr>) = rt_ok r"
  "rt_ok (r\<lparr>rtSinkDeviceName := s\<rparr>) = rt_ok r" "rt_ok (r\<lparr>rtDisconnectOther := b\<rparr>) = rt_ok r"
  "rt_ok (r\<lparr>rtFromSink := b\<rparr>) = rt_ok r" "rt_ok (r\<lparr>rtConnectedDevice := d\<rparr>) = rt_ok r"
  "rt_ok (r\<lparr>rtInCast := b\<rparr>) = rt_ok r" "rt_ok (r\<lparr>rtEnablePids := is\<rparr>) = rt_ok r"
  "rt_ok (r\<lparr>rtCancelRelease := b\<rparr>) = rt_ok r" "rt_ok (r\<lparr>rtReleases := n\<rparr>) = rt_ok r"
  by (simp_all add: rt_ok_def)

lemma rt_ok_put [rt_ok_intros]: "rt_ok r \<Longrightarrow> rt_ok (r\<lparr>rtHandles := cmap_put h i (rtHandles r)\<rparr>)"
  by (simp add: rt_ok_def cmap_ok_put)

lemma rt_ok_put_of [rt_ok_intros]:
  "rt_ok r \<Longrightarrow> rtHandles r' = rtHandles r \<Longrightarrow> rt_ok r' \<Longrightarrow> rt_ok (r'\<lparr>rtHandles := cmap_put h i (rtHandles r)\<rparr>)"
  by (simp add: rt_ok_def cmap_ok_put)

lemma rt_ok_handles: "rt_ok r \<Longrightarrow> cmap_ok hs \<Longrightarrow> rt_ok (r\<lparr>rtHandles := hs\<rparr>)"
  by (simp add: rt_ok_def)

lemma cmap_ok_same_keys: "map fst hs' = map fst hs \<Longrightarrow> cmap_ok hs' = cmap_ok hs"
  by (simp add: cmap_ok_def)

lemma set_provider_ok [rt_ok_intros]: "rt_ok r \<Longrightarrow> hp_ok p \<Longrightarrow> rt_ok (set_provider a p r)"
  by (simp add: rt_ok_def set_provider_def)

lemma rt_ok_provider: "rt_ok r \<Longrightarrow> hp_ok (rtProviders r a)"
  by (simp add: rt_ok_def)

lemma on_provider_ok:
  assumes "rt_ok r" and "\<And>m p x m' p'. hp_ok p \<Longrightarrow> f (m, p) = (x, m', p') \<Longrightarrow> hp_ok p'"
  shows "rt_ok (snd (on_provider a f r))"
proof -
  obtain x m p where f: "f (rtMem r, rtProviders r a) = (x, m, p)" by (cases "f (rtMem r, rtProviders r a)") auto
  then have "hp_ok p" using assms by (blast dest: rt_ok_provider)
  with f assms(1) show ?thesis by (simp add: on_provider_def rt_ok_def)
qed

lemma handles_on_provider [simp]: "rtHandles (snd (on_provider a f r)) = rtHandles r"
  by (simp add: on_provider_def split: prod.splits)

lemma all_providers_fields [simp]:
  "rt_ok (all_providers f r) = rt_ok r"
proof -
  have "rt_ok (fold (\<lambda>_ r. r\<lparr>rtMem := f (rtMem r)\<rparr>) ms r) = rt_ok r" for ms :: "(int, nat) cmap"
    by (induction ms arbitrary: r) simp_all
  then show ?thesis by (simp add: all_providers_def)
qed

section \<open>Every operation keeps the invariant\<close>

lemma discovery_ok [rt_ok_intros]:
  "rt_ok r \<Longrightarrow> rt_ok (snd (rt_StartCastDiscovery E pid cap drm r))"
  "rt_ok r \<Longrightarrow> rt_ok (snd (rt_IsStopCastDiscovery pid r))"
  "rt_ok r \<Longrightarrow> rt_ok (snd (rt_StopCastDiscovery E pid r))"
  "rt_ok r \<Longrightarrow> rt_ok (snd (rt_StartDeviceLogging E fd n r))"
  "rt_ok r \<Longrightarrow> rt_ok (snd (rt_StopDeviceLogging E r))"
  by (simp_all add: rt_StartCastDiscovery_def rt_IsStopCastDiscovery_def rt_StopCastDiscovery_def
        rt_StartDeviceLogging_def rt_StopDeviceLogging_def Let_def split: prod.splits)

lemma fresh_provider_ok: "hp_ok (snd (hp_RegisterCastStateListener a new_hw_provider))"
  by (simp add: hp_RegisterCastStateListener_def) (simp add: hp_ok_def new_hw_provider_def flagged_def)

lemma rt_Init_ok [rt_ok_intros]: "rt_ok r \<Longrightarrow> rt_ok (snd (rt_Init E env pid r))"
  using fresh_provider_ok unfolding rt_Init_def Let_def
  by (auto split: prod.splits intro!: discovery_ok(1)) (auto simp: rt_ok_def providerNumberEnableDefault_def)

lemma rt_Release_ok [rt_ok_intros]: "rt_ok r \<Longrightarrow> rt_ok (snd (rt_Release E r))"
proof (cases "rtHwProvider r")
  case (Some a)
  assume r: "rt_ok r"
  obtain m p where f: "hp_Release E (rtMem r, rtProviders r a) = (m, p)" by (cases "hp_Release E (rtMem r, rtProviders r a)")
  with r hp_Release_ok [OF f] Some show ?thesis
    by (simp add: rt_Release_def on_provider_def rt_ok_def)
qed (simp add: rt_Release_def)

lemma rt_Init_okD: "rt_Init E env pid r = (x, r') \<Longrightarrow> rt_ok r \<Longrightarrow> rt_ok r'"
  using rt_Init_ok [of r E env pid] by simp

lemma rt_Release_okD: "rt_Release E r = (x, r') \<Longrightarrow> rt_ok r \<Longrightarrow> rt_ok r'"
  using rt_Release_ok [of r E] by simp

lemma rt_switch_ok [rt_ok_intros]:
  assumes "rt_ok r"
  shows "rt_ok (snd (sv_checkEnableCast E env pid uid b r))" and "rt_ok (sv_release_task E env r)"
  using assms unfolding sv_checkEnableCast_def sv_release_task_def Let_def
  by (auto split: prod.splits dest!: rt_Init_okD rt_Release_okD)

section \<open>Casts keep the invariant\<close>

lemma hp_step_ok [rt_ok_intros]:
  assumes "rt_ok r"
  shows "rt_ok (snd (on_provider a (hp_StartCastSession E t b) r))"
    and "rt_ok (snd (on_provider a (\<lambda>mp. ((), hp_StopCastSession E c mp)) r))"
    and "rt_ok (snd (on_provider a (hp_GetRemoteController E c) r))"
    and "rt_ok (snd (on_provider a (hp_AddCastDevice E c d spid) r))"
    and "rt_ok (snd (on_provider a (hp_AddCastDeviceWithConnectionConfig E c d spid cfg) r))"
    and "rt_ok (snd (on_provider a (hp_RemoveCastDevice E c d act) r))"
    and "rt_ok (snd (on_provider a (hp_GetRemoteNetWorkId E c did) r))"
    and "rt_ok (snd (on_provider a (hp_GetRemoteDrmCapabilities E c did) r))"
    and "rt_ok (snd (on_provider a (hp_SendCommandArgsToCast E c cmd ps) r))"
    and "rt_ok (snd (on_provider a (hp_QueryCastSessionId E c) r))"
  by (rule on_provider_ok [OF assms];
      auto simp: hp_AddCastDevice_def hp_AddCastDeviceWithConnectionConfig_def hp_RemoveCastDevice_def
        hp_GetRemoteNetWorkId_def hp_GetRemoteDrmCapabilities_def hp_SendCommandArgsToCast_def hp_QueryCastSessionId_def
        dest: hp_StartCastSession_ok hp_StopCastSession_ok hp_GetRemoteController_ok on_session_ok)+

lemma on_provider_handles: "on_provider a f r = (x, r') \<Longrightarrow> rtHandles r' = rtHandles r"
  using handles_on_provider [of a f r] by simp

lemma hp_step_okD:
  "on_provider a (hp_StartCastSession E t b) r = (x, r') \<Longrightarrow> rt_ok r \<Longrightarrow> rt_ok r'"
  "on_provider a (hp_GetRemoteController E c) r = (y, r') \<Longrightarrow> rt_ok r \<Longrightarrow> rt_ok r'"
  "on_provider a (hp_GetRemoteNetWorkId E c did) r = (z, r') \<Longrightarrow> rt_ok r \<Longrightarrow> rt_ok r'"
  "on_provider a (hp_GetRemoteDrmCapabilities E c did) r = (v, r') \<Longrightarrow> rt_ok r \<Longrightarrow> rt_ok r'"
  using hp_step_ok [of r] by (metis snd_conv)+

lemma rt_ok_cmap: "rt_ok r \<Longrightarrow> cmap_ok (rtHandles r)"
  by (simp add: rt_ok_def)

lemma put_handle_ok:
  "rt_ok r \<Longrightarrow> rtHandles r' = rtHandles r \<Longrightarrow> rt_ok r' \<Longrightarrow> cmap_ok (cmap_put h i (rtHandles r'))"
  by (simp add: rt_ok_def cmap_ok_put)

lemma rt_StartCast_ok [rt_ok_intros]: "rt_ok r \<Longrightarrow> rt_ok (snd (rt_StartCast E devs sid r))"
  unfolding rt_StartCast_def Let_def
  by (auto split: option.splits prod.splits dest!: hp_step_okD(1) intro!: rt_ok_handles intro: cmap_ok_put rt_ok_cmap)

lemma rt_GetRemoteController_ok [rt_ok_intros]: "rt_ok r \<Longrightarrow> rt_ok (snd (rt_GetRemoteController E h r))"
  unfolding rt_GetRemoteController_def Let_def
  by (auto split: option.splits prod.splits dest!: hp_step_okD(2)
      intro!: hp_step_ok(3) rt_ok_handles intro: cmap_ok_put rt_ok_cmap)

lemma rt_StopCast_ok [rt_ok_intros]: "rt_ok r \<Longrightarrow> rt_ok (snd (rt_StopCast E h act r))"
  unfolding rt_StopCast_def Let_def
  by (auto split: option.splits intro!: hp_step_ok(6) rt_ok_handles intro: cmap_ok_put rt_ok_cmap)

lemma rt_StopCastSession_ok [rt_ok_intros]: "rt_ok r \<Longrightarrow> rt_ok (snd (rt_StopCastSession E h r))"
  unfolding rt_StopCastSession_def Let_def
  by (auto split: option.splits intro!: hp_step_ok(2) rt_ok_handles intro: cmap_ok_put rt_ok_cmap)

lemma add_device_ok:
  fixes r :: "('e, 'a) router"
  assumes "rt_ok r" and "\<And>a d. rt_ok (snd (on_provider a (f d) r))"
  shows "rt_ok (snd (add_device f c devs r))"
proof -
  have step: "rt_ok r'" if "on_provider a (f d) r = (x, r')" for a d x r'
    using assms(2) [of a d] that by simp
  show ?thesis
    unfolding add_device_def Let_def
    by (auto split: option.splits prod.splits dest!: step intro!: rt_ok_handles intro: cmap_ok_put rt_ok_cmap assms(1))
qed

lemma rt_queries_ok [rt_ok_intros]:
  assumes "rt_ok r"
  shows "rt_ok (snd (rt_GetRemoteNetWorkId E h did r))" and "rt_ok (snd (rt_GetRemoteDrmCapabilities E h did r))"
    and "rt_ok (rt_SendCommandArgsToCast E h cmd ps r)" and "rt_ok (snd (rt_QueryCastSessionId E h r))"
    and "rt_ok (snd (rt_AddDevice E c devs spid r))" and "rt_ok (snd (rt_AddDeviceWithConnectionConfig E c devs spid cfg r))"
  using assms unfolding rt_GetRemoteNetWorkId_def rt_GetRemoteDrmCapabilities_def rt_SendCommandArgsToCast_def
    rt_QueryCastSessionId_def rt_AddDevice_def rt_AddDeviceWithConnectionConfig_def
  by (auto split: option.splits prod.splits dest!: hp_step_okD(3,4) intro!: hp_step_ok add_device_ok)

lemma hp_ok_mirror [simp]: "hp_ok (p\<lparr>hpMirrorCastHandle := h\<rparr>) = hp_ok p"
  by (simp add: hp_ok_def)

lemma rt_SetMirrorCastHandle_ok [rt_ok_intros]: "rt_ok r \<Longrightarrow> rt_ok (rt_SetMirrorCastHandle h r)"
  by (auto simp: rt_SetMirrorCastHandle_def hp_SetMirrorCastHandle_def split: option.splits
      intro!: set_provider_ok dest: rt_ok_provider)

section \<open>Callbacks keep the invariant\<close>

lemma rt_UpdateConnectState_ok [simp]: "rt_ok (rt_UpdateConnectState E c r) = rt_ok r"
  by (simp add: rt_UpdateConnectState_def Let_def)

lemma rt_sink_ok [rt_ok_intros]:
  assumes "rt_ok r"
  shows "rt_ok (rt_SetSinkCastSessionInfo E dev sid r)" and "rt_ok (snd (hp_NotifyCastSessionCreated E sid r))"
    and "rt_ok (hp_DestroyCastSessionCreated E sid r)" and "rt_ok (rt_ReleaseCurrentCastSession u r)"
    and "rt_ok (rt_DestroyCastSessionCreated E r)" and "rt_ok (snd (rt_OnCastSessionCreated c u r))"
  using assms by (auto simp: rt_SetSinkCastSessionInfo_def hp_NotifyCastSessionCreated_def
    hp_DestroyCastSessionCreated_def rt_DestroyCastSessionCreated_def rt_ReleaseCurrentCastSession_def
    rt_OnCastSessionCreated_def Let_def cmap_ok_def intro!: rt_ok_handles split: option.splits prod.splits)

lemma rt_NotifyCastSessionCreated_ok [rt_ok_intros]:
  "rt_ok r \<Longrightarrow> rt_ok (snd (rt_NotifyCastSessionCreated E env r))"
  by (auto simp: rt_NotifyCastSessionCreated_def Let_def intro!: rt_sink_ok)

lemma fold_ok: "rt_ok r \<Longrightarrow> (\<And>x r. x \<in> set xs \<Longrightarrow> rt_ok r \<Longrightarrow> rt_ok (f x r)) \<Longrightarrow> rt_ok (fold f xs r)"
  by (induction xs arbitrary: r) simp_all

lemma hp_created_ok [rt_ok_intros]:
  assumes "rt_ok r"
  shows "rt_ok (hp_created_release ls u r)" and "rt_ok (hp_created_session E a ls cs u r)"
  using assms unfolding hp_created_release_def hp_created_session_def Let_def
  by (auto split: option.splits intro!: fold_ok rt_sink_ok set_provider_ok add_session_ok dest: rt_ok_provider)

lemma map_fst_state_entry: "map fst (map (state_entry c) hs) = map fst hs"
  by (auto simp: state_entry_def Let_def split: prod.splits)

lemma rt_ok_entries: "rt_ok r \<Longrightarrow> rt_ok (r\<lparr>rtHandles := map (state_entry c) (rtHandles r)\<rparr>)"
  using cmap_ok_same_keys [OF map_fst_state_entry [of c "rtHandles r"]] by (simp add: rt_ok_def)

lemma rt_OnCastStateChange_ok [rt_ok_intros]:
  assumes "rt_ok r"
  shows "rt_ok (rt_OnCastStateChange E env pid uid c d n r)"
proof -
  define r1 where "r1 = (let r = rt_UpdateConnectState E c r in if c = stStream E then r\<lparr>rtConnectedDevice := d\<rparr> else r)"
  define r2 where "r2 = snd (sv_checkEnableCast E env pid uid False (rt_emit [SetIsSupportMirrorToStream False]
    (r1\<lparr>rtSinkAllConnectResult := AVSESSION_SUCCESS, rtCastSide := DEFAULT\<rparr>)))"
  have r1: "rt_ok r1" using assms by (simp add: r1_def Let_def)
  have "rt_ok r2" unfolding r2_def by (rule rt_switch_ok(1)) (simp add: r1)
  moreover have "rt_ok (rt_DestroyCastSessionCreated E (r1\<lparr>rtSinkAllConnectResult := AVSESSION_SUCCESS\<rparr>))"
    by (rule rt_sink_ok(5)) (simp add: r1)
  ultimately show ?thesis
    using r1 unfolding rt_OnCastStateChange_def r1_def [symmetric, unfolded Let_def] Let_def r2_def [symmetric]
    by (simp add: rt_ok_entries)
qed

lemma rt_told_ok [rt_ok_intros]: "rt_ok r \<Longrightarrow> rt_ok (rt_told E env pid uid ts r)"
  unfolding rt_told_def by (rule fold_ok) (auto intro: rt_OnCastStateChange_ok)

lemma rt_listen_ok [rt_ok_intros]: "rt_ok r \<Longrightarrow> rt_ok (rt_listen E env pid uid a c r)"
  unfolding rt_listen_def
  by (auto split: prod.splits intro!: rt_told_ok set_provider_ok dest: rt_ok_provider hp_Register_ok)

lemma rt_RegisterCallback_ok [rt_ok_intros]:
  "rt_ok r \<Longrightarrow> rt_ok (snd (rt_RegisterCallback E env pid uid h l sid d r))"
  unfolding rt_RegisterCallback_def Let_def
  by (auto split: option.splits intro!: rt_listen_ok rt_ok_handles cmap_ok_put intro: rt_ok_cmap)

lemma rt_listeners_ok [rt_ok_intros]:
  assumes "rt_ok r"
  shows "rt_ok (rt_RegisterStashCallback h l sid r)" and "rt_ok (snd (rt_UnRegisterCallback h sid r))"
    and "rt_ok (snd (rt_SetServiceAllConnectState E env pid uid h d r))" and "rt_ok (rt_DisconnectOtherSession sid d r)"
proof -
  show "rt_ok (rt_RegisterStashCallback h l sid r)"
    using assms by (simp add: rt_RegisterStashCallback_def rt_ok_put)
  show "rt_ok (snd (rt_UnRegisterCallback h sid r))"
    using assms unfolding rt_UnRegisterCallback_def Let_def
    by (auto split: option.splits intro!: set_provider_ok rt_ok_handles cmap_ok_put hp_UnRegister_ok dest: rt_ok_provider rt_ok_cmap)
  show "rt_ok (snd (rt_SetServiceAllConnectState E env pid uid h d r))"
    using assms unfolding rt_SetServiceAllConnectState_def Let_def
    by (auto split: option.splits prod.splits intro!: rt_told_ok set_provider_ok rt_ok_handles cmap_ok_put
        dest: rt_ok_provider rt_ok_cmap hp_SetStreamState_ok)
  have "map fst (map (\<lambda>e. if P e then (fst e, F e) else e) (rtHandles r)) = map fst (rtHandles r)" for P F
    by auto
  from cmap_ok_same_keys [OF this] rt_ok_cmap [OF assms] show "rt_ok (rt_DisconnectOtherSession sid d r)"
    unfolding rt_DisconnectOtherSession_def Let_def
    by (simp only: rt_ok_irrelevant rt_emit_ok) (rule rt_ok_handles; simp add: assms)
qed

text \<open>
  The steps of casting: what the service and its sessions call on the router, and what the cast engine
  reports. Every reachable state keeps the invariant \<open>rt_ok\<close>.
\<close>

section \<open>Events keep the invariant\<close>

lemma rt_events_ok [rt_ok_intros]:
  assumes "rt_ok r"
  shows "rt_ok (rt_HandleStreamToMirrorFromSinkEvent E r)" and "rt_ok (rt_OnCastEventRecv E code msg r)"
    and "rt_ok (snd (rt_OnSystemCommonEvent ev args r))" and "rt_ok (snd (rt_OnDeviceStateChange did st rc re r))"
    and "rt_ok (snd (rt_OnDeviceLogEvent lev n r))" and "rt_ok (snd (rt_OnDeviceAvailable devs r))"
    and "rt_ok (snd (rt_OnDeviceOffline did r))" and "rt_ok (pm_OnDeviceAvailable n devs r)"
    and "rt_ok (hs_OnDeviceStateChange info r)" and "rt_ok (hs_OnHiplayEventRecv hev json r)"
  using assms
  by (auto simp: rt_HandleStreamToMirrorFromSinkEvent_def rt_SetStreamToMirrorFromSink_def rt_OnCastEventRecv_def
        rt_OnSystemCommonEvent_def rt_OnDeviceStateChange_def rt_OnDeviceLogEvent_def rt_OnDeviceAvailable_def
        rt_OnDeviceOffline_def pm_OnDeviceAvailable_def hs_OnDeviceStateChange_def hs_OnHiplayEventRecv_def Let_def)

lemma rt_toast_ok: "hs_ComputeToastOnDeviceState E info d (s, r) = (s', r') \<Longrightarrow> rt_ok r \<Longrightarrow> rt_ok r'"
  by (auto simp: hs_ComputeToastOnDeviceState_def Let_def split: if_splits)

lemma rt_toast_providers: "hs_ComputeToastOnDeviceState E info d (s, r) = (s', r') \<Longrightarrow> rtProviders r' = rtProviders r"
  by (auto simp: hs_ComputeToastOnDeviceState_def rt_emit_def Let_def split: if_splits)

lemma hs_OnDeviceState_ok [rt_ok_intros]:
  assumes "rt_ok r"
  shows "rt_ok (hs_OnDeviceState E env pid uid a c info r)"
proof (cases "map_of (hpSessions (rtProviders r a)) c")
  case (Some s)
  obtain d e where de: "(case hsCastSession s of Some cs \<Rightarrow> csGetRemoteDeviceInfo E cs (dsDeviceId info) (cmEngine (rtMem r))
      | None \<Rightarrow> (new_remote_device E, cmEngine (rtMem r))) = (d, e)" by fastforce
  obtain s1 r1 where toast: "hs_ComputeToastOnDeviceState E info d (s, r\<lparr>rtMem := (rtMem r)\<lparr>cmEngine := e\<rparr>\<rparr>) = (s1, r1)"
    by fastforce
  obtain told s2 where told: "hs_deliver E info d s1 = (told, s2)" by fastforce
  have r1: "rt_ok r1" "rtProviders r1 = rtProviders r"
    using rt_toast_ok [OF toast] rt_toast_providers [OF toast] assms by simp_all
  have p: "hp_ok (rtProviders r1 a)" "map_of (hpSessions (rtProviders r1 a)) c = Some s"
    using rt_ok_provider [OF r1(1)] r1(2) Some by simp_all
  from put_session_ok [OF p] have "rt_ok (set_provider a ((rtProviders r1 a)\<lparr>hpSessions := cmap_put c s2 (hpSessions (rtProviders r1 a))\<rparr>) r1)"
    by (intro set_provider_ok r1(1))
  then show ?thesis
    using assms by (simp add: hs_OnDeviceState_def Some de toast told Let_def) (auto intro!: fold_ok rt_events_ok(9) rt_told_ok)
qed (simp add: hs_OnDeviceState_def assms)

lemma hs_OnEvent_ok [rt_ok_intros]: "rt_ok r \<Longrightarrow> rt_ok (hs_OnEvent E a c ev json r)"
  by (auto simp: hs_OnEvent_def split: option.splits intro!: fold_ok rt_events_ok)

lemma rt_OnCastServerDied_ok [rt_ok_intros]:
  assumes "rt_ok r"
  shows "rt_ok (snd (rt_OnCastServerDied E env pid uid r))"
proof -
  have nil: "rt_ok (r'\<lparr>rtManagers := []\<rparr>)" if "rt_ok r'" for r' :: "('a, 'b) router" using that by (simp add: rt_ok_def)
  have "rt_ok (rt_OnCastStateChange E env pid uid disconnectStateFromCast (device_of CATEGORY_LOCAL ''-1'' ''RemoteCast'')
      noReasonCode (rt_emit os (r\<lparr>rtInCast := False, rtDevices := []\<rparr>)\<lparr>rtProviderNumber := providerNumberDisable, rtManagers := []\<rparr>))"
    for os by (rule rt_OnCastStateChange_ok) (rule nil, simp add: assms)
  from rt_ok_handles [OF this] assms show ?thesis
    unfolding rt_OnCastServerDied_def Let_def
    by (auto intro!: rt_switch_ok(1) discovery_ok(1))
qed

lemma sv_OnClientDied_cast_ok [rt_ok_intros]: "rt_ok r \<Longrightarrow> rt_ok (sv_OnClientDied_cast pid r)"
  by (simp add: sv_OnClientDied_cast_def discovery_ok Let_def)

section \<open>Steps\<close>

inductive rt_step :: "('e, 'a) cast_engine \<Rightarrow> rt_env \<Rightarrow> ('e, 'a) router \<Rightarrow> ('e, 'a) router \<Rightarrow> bool" for E env where
  switch: "rt_step E env r (snd (sv_checkEnableCast E env pid uid b r))"
| release: "rt_step E env r (sv_release_task E env r)"
| start_logging: "rt_step E env r (snd (rt_StartDeviceLogging E fd n r))"
| stop_logging: "rt_step E env r (snd (rt_StopDeviceLogging E r))"
| start_discovery: "rt_step E env r (snd (rt_StartCastDiscovery E pid cap drm r))"
| stop_discovery: "rt_step E env r (snd (rt_StopCastDiscovery E pid r))"
| client_died: "rt_step E env r (sv_OnClientDied_cast pid r)"
| controller: "rt_step E env r (snd (rt_GetRemoteController E h r))"
| start_cast: "rt_step E env r (snd (rt_StartCast E devs sid r))"
| add_device: "rt_step E env r (snd (rt_AddDevice E c devs spid r))"
| add_device_config: "rt_step E env r (snd (rt_AddDeviceWithConnectionConfig E c devs spid cfg r))"
| stop_cast: "rt_step E env r (snd (rt_StopCast E h act r))"
| stop_session: "rt_step E env r (snd (rt_StopCastSession E h r))"
| network_id: "rt_step E env r (snd (rt_GetRemoteNetWorkId E h did r))"
| drm: "rt_step E env r (snd (rt_GetRemoteDrmCapabilities E h did r))"
| command: "rt_step E env r (rt_SendCommandArgsToCast E h cmd ps r)"
| query: "rt_step E env r (snd (rt_QueryCastSessionId E h r))"
| set_mirror: "rt_step E env r (rt_SetMirrorCastHandle h r)"
| stash: "rt_step E env r (rt_RegisterStashCallback h l sid r)"
| register: "rt_step E env r (snd (rt_RegisterCallback E env pid uid h l sid d r))"
| unregister: "rt_step E env r (snd (rt_UnRegisterCallback h sid r))"
| all_connect: "rt_step E env r (snd (rt_SetServiceAllConnectState E env pid uid h d r))"
| disconnect_others: "rt_step E env r (rt_DisconnectOtherSession sid d r)"
| sink_info: "rt_step E env r (rt_SetSinkCastSessionInfo E json sid r)"
| sink_notify: "rt_step E env r (snd (rt_NotifyCastSessionCreated E env r))"
| sink_release: "rt_step E env r (hp_created_release ls u r)"
| sink_session: "rt_step E env r (hp_created_session E a ls (Some cs) u r)"
| found: "rt_step E env r (pm_OnDeviceAvailable n devs r)"
| offline: "rt_step E env r (snd (rt_OnDeviceOffline did r))"
| log_event: "rt_step E env r (snd (rt_OnDeviceLogEvent ev n r))"
| state: "rt_step E env r (hs_OnDeviceState E env pid uid a c info r)"
| event: "rt_step E env r (hs_OnEvent E a c ev json r)"
| tell: "rt_step E env r (rt_emit os r)"
| died: "rt_step E env r (snd (rt_OnCastServerDied E env pid uid r))"

inductive rt_reachable :: "('e, 'a) cast_engine \<Rightarrow> rt_env \<Rightarrow> ('e, 'a) router \<Rightarrow> bool" for E env where
  init: "rt_reachable E env (new_router e)"
| step: "rt_reachable E env r \<Longrightarrow> rt_step E env r r' \<Longrightarrow> rt_reachable E env r'"

lemma rt_step_ok: "rt_step E env r r' \<Longrightarrow> rt_ok r \<Longrightarrow> rt_ok r'"
  by (induction rule: rt_step.induct) (simp_all add: rt_ok_intros)

lemma rt_reachable_rt_ok: "rt_reachable E env r \<Longrightarrow> rt_ok r"
  by (induction rule: rt_reachable.induct) (auto intro: new_router_ok rt_step_ok)

end
