(* ===== verification/CastItem.thy ===== *)
theory CastItem
  imports CastInv
begin

text \<open>
  Casting of a session (\<^verbatim>\<open>avsession_item.cpp\<close>): how \<^verbatim>\<open>AVSessionItem\<close> starts, takes over, switches and
  stops a cast. \<open>cast_item\<close> has the fields of the session that casting uses; the router is the second
  part of the state. What the collaboration service, the stream player and the service are told goes
  to the router's \<open>rtOut\<close>, in order with what the router itself says. Registration of a
  continuous task and reports are left out, and the lock.
\<close>

datatype multi_device_state = MULTI_DEFAULT | CASTING_SWITCH_DEVICE | CASTED_AND_CASTING | CASTING_AND_CASTED

record 'a cast_item =
  ciSessionId :: string
  ciTag :: string
  ciVideo :: bool
  ciPhoto :: bool
  ciListener :: nat
  ciHandle :: int
  ciDeviceId :: string
  ciProxy :: "nat option"
  ciMirrorOnce :: bool
  ciMulti :: multi_device_state
  ciNewDevices :: "'a device_info list"
  ciHiPlay :: bool
  ciDeviceMap :: "(string, 'a device_info) cmap"
  ciCollaborationDevice :: string
  ciCollaborationNetwork :: string
  ciMediaChange :: bool

definition new_cast_item :: "string \<Rightarrow> string \<Rightarrow> nat \<Rightarrow> 'a cast_item" where
  "new_cast_item sessionId tag l = \<lparr>ciSessionId = sessionId, ciTag = tag, ciVideo = False, ciPhoto = False, ciListener = l,
     ciHandle = 0, ciDeviceId = ''-100'', ciProxy = None, ciMirrorOnce = False, ciMulti = MULTI_DEFAULT,
     ciNewDevices = [], ciHiPlay = False, ciDeviceMap = [], ciCollaborationDevice = [], ciCollaborationNetwork = [], ciMediaChange = False\<rparr>"

text \<open>
  The caller, the clients that the device lets pull (\<^verbatim>\<open>GetSpid\<close>), whether the caller is the media
  controller or the scene board, and what the service and the collaboration service answer.
\<close>

record ci_env =
  cePid :: int
  ceUid :: int
  ceSpid :: "32 word"
  ceMediaOrSceneBoard :: bool
  ceHiPlayCasting :: bool
  cePcmRelease :: int
  ceCollaboration :: int

definition ACTION_DISCONNECT :: int where "ACTION_DISCONNECT = 0"
definition ACTION_CONTINUE_PLAY :: int where "ACTION_CONTINUE_PLAY = 1"
definition ERR_REPEAT_CAST :: int where "ERR_REPEAT_CAST = -(AVSESSION_ERROR_BASE + 27)"

definition deviceRemoveAction :: "i32 \<Rightarrow> int" where
  "deviceRemoveAction protocol = (case map_of [(2, 4), (4, 2), (8, 3)] protocol of Some a \<Rightarrow> a | None \<Rightarrow> 0)"

section \<open>What the session knows of its cast\<close>

definition ci_IsSinkCastSession :: "'a cast_item \<Rightarrow> bool" where
  "ci_IsSinkCastSession ci \<longleftrightarrow> ciTag ci = ''RemoteCast'' \<or> ciTag ci = ''projection_client''"

definition ci_IsCasting :: "'a cast_item \<Rightarrow> ('e, 'a) router \<Rightarrow> bool" where
  "ci_IsCasting ci r \<longleftrightarrow> ciTag ci \<noteq> ''RemoteCast'' \<and> 0 < ciHandle ci
     \<and> (ciHandle ci \<noteq> rt_GetMirrorCastHandle r \<or> rt_IsInMirrorToStreamState r)"

definition ci_IsCastConnected :: "'a cast_item \<Rightarrow> ('e, 'a) router \<Rightarrow> bool" where
  "ci_IsCastConnected ci r \<longleftrightarrow> ci_IsCasting ci r \<and> rt_IsRemoteCasting r"

definition ci_SetCastHandle :: "int \<Rightarrow> 'a cast_item \<times> ('e, 'a) router \<Rightarrow> 'a cast_item \<times> ('e, 'a) router" where
  "ci_SetCastHandle castHandle cr = (case cr of (ci, r) \<Rightarrow>
     (let ci = ci\<lparr>ciHandle := castHandle\<rparr> in (ci, rt_emit [CastStateUpdated (ci_IsCasting ci r)] r)))"

definition ci_UpdateCastDeviceMap :: "'a device_info \<Rightarrow> 'a cast_item \<Rightarrow> 'a cast_item" where
  "ci_UpdateCastDeviceMap d ci = ci\<lparr>ciDeviceMap := cmap_put (dvDeviceId d) d (ciDeviceMap ci)\<rparr>"

definition ci_InitAVCastControllerProxy ::
  "('e, 'a) cast_engine \<Rightarrow> 'a cast_item \<times> ('e, 'a) router \<Rightarrow> 'a cast_item \<times> ('e, 'a) router" where
  "ci_InitAVCastControllerProxy E cr = (case cr of (ci, r) \<Rightarrow>
     if ciProxy ci \<noteq> None \<or> (ciTag ci = ''RemoteCast'' \<and> \<not> rt_IsRemoteCasting r) then (ci, r)
     else (case rt_GetRemoteController E (ciHandle ci) r of (c, r) \<Rightarrow> (ci\<lparr>ciProxy := c\<rparr>, r)))"

section \<open>Stopping\<close>

definition publish_idle :: "string \<Rightarrow> 'a rt_out list" where
  "publish_idle s = [PublishServiceState s False]"

definition ci_StopCast :: "('e, 'a) cast_engine \<Rightarrow> ci_env \<Rightarrow> int \<Rightarrow> 'a cast_item \<times> ('e, 'a) router
    \<Rightarrow> int \<times> 'a cast_item \<times> ('e, 'a) router" where
  "ci_StopCast E env action cr = (case cr of (ci, r) \<Rightarrow>
     if ciHiPlay ci then (cePcmRelease env, ci, r)
     else if ci_IsSinkCastSession ci
     then (let r = rt_emit (publish_idle (ciCollaborationDevice ci) @ publish_idle (ciCollaborationNetwork ci)) r;
               r = snd (rt_UnRegisterCallback (ciHandle ci) (ciSessionId ci) r);
               (ret, r) = rt_StopCastSession E (ciHandle ci) r;
               (ci, r) = ci_SetCastHandle (-1) (ci, r)
           in (ret, ci\<lparr>ciDeviceId := ''-100''\<rparr>, r))
     else if rt_GetCastSide r = CAST_SINK
     then (AVSESSION_SUCCESS, ci, rt_emit [StopSinkCast] (rt_RegisterStashCallback INT64_MAX (ciListener ci) (ciSessionId ci) r))
     else if ciHandle ci = 0 \<or> ciHandle ci = -1 then (AVSESSION_SUCCESS, ci, r)
     else if ciHandle ci = rt_GetMirrorCastHandle r \<and> \<not> ceMediaOrSceneBoard env
     then (AVSESSION_SUCCESS, ci, case ciProxy ci of None \<Rightarrow> r | Some c \<Rightarrow> rt_emit [StopCommand c] r)
     else (case rt_StopCast E (ciHandle ci) action r of (ret, r) \<Rightarrow>
       (if ret = AVSESSION_ERROR then AVSESSION_ERROR else AVSESSION_SUCCESS, ci, r)))"

definition ci_ReleaseCast :: "('e, 'a) cast_engine \<Rightarrow> ci_env \<Rightarrow> bool \<Rightarrow> 'a cast_item \<times> ('e, 'a) router
    \<Rightarrow> int \<times> 'a cast_item \<times> ('e, 'a) router" where
  "ci_ReleaseCast E env continuePlay =
     ci_StopCast E env (if continuePlay then ACTION_CONTINUE_PLAY else ACTION_DISCONNECT)"

definition ci_StopCastSession ::
  "('e, 'a) cast_engine \<Rightarrow> 'a cast_item \<times> ('e, 'a) router \<Rightarrow> 'a cast_item \<times> ('e, 'a) router" where
  "ci_StopCastSession E cr = (case cr of (ci, r) \<Rightarrow> case rt_StopCastSession E (ciHandle ci) r of (ret, r) \<Rightarrow>
     if ret \<noteq> AVSESSION_ERROR
     then (case ci_SetCastHandle (-1) (ci, r) of (ci, r) \<Rightarrow> (ci\<lparr>ciDeviceId := ''-100''\<rparr>, r))
     else (ci, r))"

definition ci_DestroyCast :: "('e, 'a) cast_engine \<Rightarrow> ci_env \<Rightarrow> bool \<Rightarrow> 'a cast_item \<times> ('e, 'a) router
    \<Rightarrow> 'a cast_item \<times> ('e, 'a) router" where
  "ci_DestroyCast E env continuePlay cr = (case cr of (ci, r) \<Rightarrow>
     if ciTag ci \<noteq> ''RemoteCast'' \<and> 0 < ciHandle ci
     then (let r = rt_emit ((if ciPhoto ci then [PhotoCast False] else []) @ publish_idle (ciCollaborationDevice ci)
                 @ (if ciCollaborationNetwork ci \<noteq> [] then publish_idle (ciCollaborationNetwork ci) else [])) r;
               r = snd (rt_UnRegisterCallback (ciHandle ci) (ciSessionId ci) r)
           in ci_StopCastSession E (snd (ci_ReleaseCast E env continuePlay (ci, r))))
     else (ci, r))"

section \<open>Starting\<close>

definition ci_AddDevice :: "('e, 'a) cast_engine \<Rightarrow> rt_env \<Rightarrow> ci_env \<Rightarrow> int \<Rightarrow> 'a device_info list
    \<Rightarrow> 'a cast_item \<Rightarrow> ('e, 'a) router \<Rightarrow> int \<times> ('e, 'a) router" where
  "ci_AddDevice E re env castHandle devs ci r =
     rt_AddDevice E (to_int32 castHandle) devs (ceSpid env)
       (snd (rt_RegisterCallback E re (cePid env) (ceUid env) castHandle (ciListener ci) (ciSessionId ci) (hd devs) r))"

definition ci_SubStartCast :: "('e, 'a) cast_engine \<Rightarrow> rt_env \<Rightarrow> ci_env \<Rightarrow> 'a device_info list
    \<Rightarrow> 'a cast_item \<times> ('e, 'a) router \<Rightarrow> int \<times> 'a cast_item \<times> ('e, 'a) router" where
  "ci_SubStartCast E re env devs cr = (case cr of (ci, r) \<Rightarrow>
     case rt_StartCast E devs (ciSessionId ci) r of (castHandle, r) \<Rightarrow>
     if castHandle = AVSESSION_ERROR then (AVSESSION_ERROR, ci, r)
     else
      (let (ci, r) = ci_SetCastHandle castHandle (ci, r);
           (ret, r) = ci_AddDevice E re env castHandle devs ci r
       in if ret = AVSESSION_SUCCESS
          then (ret, ci\<lparr>ciDeviceId := dvDeviceId (hd devs)\<rparr>, r)
          else (ret, ci_DestroyCast E env False (ci, r))))"

definition ci_CastAddToCollaboration :: "ci_env \<Rightarrow> 'a device_info list \<Rightarrow> 'a cast_item \<times> ('e, 'a) router
    \<Rightarrow> int \<times> ('e, 'a) router" where
  "ci_CastAddToCollaboration env devs cr = (case cr of (ci, r) \<Rightarrow>
     case map_of (ciDeviceMap ci) (dvDeviceId (hd devs)) of
       None \<Rightarrow> (AVSESSION_ERROR, r)
     | Some d \<Rightarrow> (ceCollaboration env, rt_emit [CastAddToCollaboration d] r))"

definition CASTING_SWITCH_EVENT :: string where "CASTING_SWITCH_EVENT = ''usual.event.CASTING_SWITCH_DEVICE''"

definition ci_StartCast :: "('e, 'a) cast_engine \<Rightarrow> rt_env \<Rightarrow> ci_env \<Rightarrow> 'a device_info list
    \<Rightarrow> 'a cast_item \<times> ('e, 'a) router \<Rightarrow> int \<times> 'a cast_item \<times> ('e, 'a) router" where
  "ci_StartCast E re env devs cr = (case cr of (ci, r) \<Rightarrow>
     if rt_GetMirrorCastHandle r \<noteq> -1 \<and> ciHandle ci \<le> 0 \<and> ciVideo ci \<and> rt_GetMirrorDeviceId r = dvDeviceId (hd devs)
     then (let (ci, r) = ci_InitAVCastControllerProxy E (ci_SetCastHandle (rt_GetMirrorCastHandle r) (ci, r));
               r = snd (rt_RegisterCallback E re (cePid env) (ceUid env) (ciHandle ci) (ciListener ci) (ciSessionId ci) (hd devs) r)
           in (AVSESSION_SUCCESS, ci\<lparr>ciDeviceId := dvDeviceId (hd devs), ciMirrorOnce := True\<rparr>, r))
     else if 0 < ciHandle ci
     then (if ciDeviceId ci = dvDeviceId (hd devs) then (ERR_REPEAT_CAST, ci, r)
           else (AVSESSION_SUCCESS, snd (ci_StopCast E env (deviceRemoveAction (dvSupportedProtocols (hd devs)))
             (ci\<lparr>ciMulti := CASTING_SWITCH_DEVICE, ciNewDevices := devs\<rparr>, rt_emit [PublishCommonEvent CASTING_SWITCH_EVENT []] r))))
     else if rt_GetCastSide r = CAST_SINK
     then (AVSESSION_SUCCESS, snd (ci_StopCast E env ACTION_DISCONNECT
             (ci\<lparr>ciMulti := CASTED_AND_CASTING, ciNewDevices := devs\<rparr>, r)))
     else if rt_GetCastSide r = CAST_SOURCE \<and> rt_IsRemoteCasting r \<and> \<not> ceHiPlayCasting env \<and> rt_GetMirrorCastHandle r = -1
     then ci_SubStartCast E re env devs (ci, r)
     else (case ci_CastAddToCollaboration env devs (ci, r) of (ret, r) \<Rightarrow>
       if ret \<noteq> AVSESSION_SUCCESS then (ret, ci, rt_emit [PublishCommonEvent MEDIA_CAST_ERROR []] r)
       else ci_SubStartCast E re env devs (ci, r)))"

text \<open>The DRM capabilities are read into a copy of the device that is then used.\<close>

definition ci_RegisterListenerStreamToCast :: "('e, 'a) cast_engine \<Rightarrow> rt_env \<Rightarrow> ci_env \<Rightarrow> 'a device_info
    \<Rightarrow> 'a cast_item \<times> ('e, 'a) router \<Rightarrow> int \<times> 'a cast_item \<times> ('e, 'a) router" where
  "ci_RegisterListenerStreamToCast E re env d cr = (case cr of (ci, r) \<Rightarrow>
     let finish = (\<lambda>d (ci, r). (AVSESSION_SUCCESS, ci_UpdateCastDeviceMap d (ci\<lparr>ciDeviceId := dvDeviceId d\<rparr>),
           rt_SetCastingDeviceName (dvDeviceName d) r));
         register = (\<lambda>ci r. snd (rt_RegisterCallback E re (cePid env) (ceUid env) (ciHandle ci) (ciListener ci) (ciSessionId ci) d r))
     in if 0 < ciHandle ci then (AVSESSION_ERROR, ci, r)
        else if rt_GetMirrorCastHandle r = -1
        then (case rt_StartCast E [d] (ciSessionId ci) r of (castHandle, r) \<Rightarrow>
               (let (ci, r) = ci_SetCastHandle castHandle (ci, r) in
                if castHandle = AVSESSION_ERROR then (AVSESSION_ERROR, ci, r)
                else (let r = register ci r;
                          ((_, drm), r) = rt_GetRemoteDrmCapabilities E castHandle (dvRealDeviceId d) r;
                          d = (case drm of Some xs \<Rightarrow> d\<lparr>dvSupportedDrmCapabilities := xs\<rparr> | None \<Rightarrow> d);
                          r = snd (rt_SetServiceAllConnectState E re (cePid env) (ceUid env) castHandle d r)
                      in finish d (ci_InitAVCastControllerProxy E (ci\<lparr>ciMirrorOnce := True\<rparr>, r)))))
        else (let (ci, r) = ci_InitAVCastControllerProxy E (ci_SetCastHandle (rt_GetMirrorCastHandle r) (ci, r)) in
          if rt_IsInMirrorToStreamState r
          then (case ci_SetCastHandle (-1) (ci, r) of (ci, r) \<Rightarrow>
                 (AVSESSION_ERROR, ci\<lparr>ciProxy := None, ciMirrorOnce := False\<rparr>, r))
          else finish d (ci\<lparr>ciMirrorOnce := True\<rparr>, register ci r)))"

section \<open>From mirror to stream\<close>

text \<open>
  \<^verbatim>\<open>MirrorToStreamCast\<close> of the service (\<^verbatim>\<open>avsession_service_ext.cpp\<close>), for a session that is there: what the service knows of the
  device it mirrors to, and whether the application supports casting, is on the list of the cast engine
  and is in the background.
\<close>

record mirror_stream =
  msSupport :: bool
  msAppCastExit :: bool
  msDeviceId :: string
  msDeviceName :: string
  msDeviceType :: i32

record mirror_env =
  meAppSupportCast :: bool
  meWhiteApp :: bool
  meBackground :: bool

definition sv_IsMirrorToStreamCastAllowed ::
  "rt_env \<Rightarrow> mirror_env \<Rightarrow> mirror_stream \<Rightarrow> 'a cast_item \<times> ('e, 'a) router \<Rightarrow> bool" where
  "sv_IsMirrorToStreamCastAllowed re me ms cr = (case cr of (ci, r) \<Rightarrow>
     msSupport ms \<and> \<not> msAppCastExit ms \<and> reConnected re \<and> \<not> rtDisconnectOther r
     \<and> meAppSupportCast me \<and> meWhiteApp me \<and> ciVideo ci \<and> \<not> meBackground me
     \<and> (rtFromSink r \<longrightarrow> ciMediaChange ci))"

definition sv_MirrorToStreamCast :: "('e, 'a) cast_engine \<Rightarrow> rt_env \<Rightarrow> ci_env \<Rightarrow> mirror_env
    \<Rightarrow> mirror_stream \<times> 'a cast_item \<times> ('e, 'a) router \<Rightarrow> int \<times> mirror_stream \<times> 'a cast_item \<times> ('e, 'a) router" where
  "sv_MirrorToStreamCast E re env me s = (case s of (ms, ci, r) \<Rightarrow>
     if \<not> sv_IsMirrorToStreamCastAllowed re me ms (ci, r)
     then (AVSESSION_SUCCESS, ms\<lparr>msAppCastExit := False\<rparr>, ci, r)
     else
      (let r = rt_SetStreamToMirrorFromSink False r;
           ci = ci\<lparr>ciMediaChange := False\<rparr>;
           r = snd (sv_checkEnableCast E re (cePid env) (ceUid env) True r);
           r = r\<lparr>rtEnablePids := filter (\<lambda>p. p \<noteq> cePid env) (rtEnablePids r)\<rparr>;
           d = new_device_info\<lparr>dvDeviceId := msDeviceId ms, dvDeviceName := msDeviceName ms,
             dvDeviceType := msDeviceType ms, dvCastCategory := CATEGORY_REMOTE,
             dvSupportedProtocols := TYPE_CAST_PLUS_STREAM, dvProviderId := 1, dvRealDeviceId := msDeviceId ms\<rparr>;
           (ret, ci, r) = ci_RegisterListenerStreamToCast E re env d (ci, r)
       in (ret, ms, ci, r)))"

section \<open>The sink's session\<close>

definition local_output :: "'a device_info" where
  "local_output = device_of CATEGORY_LOCAL ''0'' ''LocalDevice''"

definition ci_RegisterDeviceStateCallback :: "('e, 'a) cast_engine \<Rightarrow> rt_env \<Rightarrow> ci_env \<Rightarrow> 'a cast_item
    \<Rightarrow> ('e, 'a) router \<Rightarrow> ('e, 'a) router" where
  "ci_RegisterDeviceStateCallback E re env ci r = snd (rt_RegisterCallback E re (cePid env) (ceUid env) (ciHandle ci)
     (ciListener ci) (ciSessionId ci) local_output r)"

definition ci_UnRegisterDeviceStateCallback :: "'a cast_item \<Rightarrow> ('e, 'a) router \<Rightarrow> ('e, 'a) router" where
  "ci_UnRegisterDeviceStateCallback ci r = snd (rt_UnRegisterCallback (ciHandle ci) (ciSessionId ci) r)"

end
