(* ===== verification/CastProps.thy ===== *)
theory CastProps
  imports CastInv CastItem
begin

text \<open>
  Properties of casts: their numbers, a new cast, and a cast that another session takes over.
  \<open>quiet_engine\<close> is an engine that grants everything and records its calls, for the concrete runs.
\<close>

section \<open>An engine for concrete runs\<close>

definition quiet_device :: "nat remote_device" where
  "quiet_device = \<lparr>rdDeviceId = ''tv'', rdDeviceName = ''TV'', rdRawDeviceType = 0x9C, rdIpAddress = [],
     rdNetworkId = ''net'', rdManufacturerName = [], rdModelName = [], rdProtocolCapabilities = 2,
     rdDrmCapabilities = [], rdIsLegacy = False, rdMediumTypes = 0, rdStreamCapability = [], rdBleMac = [],
     rdUuid = [], rdIsSupportDeviceCast = True, rdIsTrushed = True, rdServiceInfos = [], rdTriggerType = 0,
     rdSpid = 0, rdAudioCapability = 0\<rparr>"

definition quiet_engine :: "(string list, nat) cast_engine" where
  "quiet_engine = \<lparr>castPlusMirror = 1, castPlusStream = 2, castDlna = 4, castPlusAudio = 16, castSource = 0,
     codecH265 = 1, stConnected = 1, stPlaying = 3, stStream = 6, stDisconnected = 5, stMirrorToStream = 8,
     stStreamToMirror = 7, evStreamToMirrorFromSink = 2999, evConfigMode = 1, evBypassData = 2,
     evQueryRequest = 3, evModeChange = 4, passiveConflict = (\<lambda>_. False), noAudio = 0,
     csmRegisterListener = (\<lambda>e. (0, e @ [''listen''])), csmUnregisterListener = (\<lambda>e. e @ [''unlisten'']),
     csmStartDeviceLogging = (\<lambda>_ _ e. e @ [''log'']), csmStartDiscovery = (\<lambda>_ _ e. (0, e @ [''start''])),
     csmStopDiscovery = (\<lambda>e. e @ [''stop'']),
     csmCreateCastSession = (\<lambda>_ e. ((0, Some (List.length e)), e @ [''create''])),
     csmGetCastSession = (\<lambda>_ e. (Some 0, e)), csRegisterListener = (\<lambda>_ e. (0, e)),
     csRelease = (\<lambda>_ e. e @ [''release'']), csAddDevice = (\<lambda>_ _ e. (0, e @ [''add''])),
     csAddDeviceWithConfig = (\<lambda>_ _ _ e. (0, e @ [''add''])), csRemoveDevice = (\<lambda>_ _ _ e. (True, e @ [''remove''])),
     csNotifyEvent = (\<lambda>_ _ _ e. e), csGetSessionId = (\<lambda>_ e. (''cast'', e)),
     csCreateStreamPlayer = (\<lambda>cs e. (Some cs, e)), csGetRemoteDeviceInfo = (\<lambda>_ _ e. (quiet_device, e)),
     spRegisterListener = (\<lambda>_ e. (0, e)), spRelease = (\<lambda>_ e. e), displaySize = None,
     jsonNumbers = (\<lambda>_. None), jsonDeviceInfo = (\<lambda>_. None)\<rparr>"

lemma quiet_engine_calls [simp]:
  "csmRegisterListener quiet_engine e = (0, e @ [''listen''])" "csmStopDiscovery quiet_engine e = e @ [''stop'']"
  "csmStartDiscovery quiet_engine n ss e = (0, e @ [''start''])" "csRelease quiet_engine cs e = e @ [''release'']"
  "csmCreateCastSession quiet_engine pr e = ((0, Some (List.length e)), e @ [''create''])"
  "csRegisterListener quiet_engine cs e = (0, e)" "csRemoveDevice quiet_engine cs did act e = (True, e @ [''remove''])"
  "csAddDevice quiet_engine cs rd e = (0, e @ [''add''])"
  "stStream quiet_engine = 6" "stDisconnected quiet_engine = 5" "stMirrorToStream quiet_engine = 8" "stStreamToMirror quiet_engine = 7"
  by (simp_all add: quiet_engine_def)

definition phone_env :: rt_env where
  "phone_env = \<lparr>reLocalDeviceType = (0, 14), rePhone = 14, re2in1 = 12, reCollaboration = 0, reConnected = False\<rparr>"

text \<open>Casting switched on by the process 7, and a television at the provider.\<close>

definition demo_on :: "(string list, nat) router" where
  "demo_on = snd (sv_checkEnableCast quiet_engine phone_env 7 1000 True (new_router []))"

definition demo_tv :: "nat device_info" where
  "demo_tv = new_device_info\<lparr>dvDeviceId := ''tv'', dvProviderId := 1, dvSupportedProtocols := 2\<rparr>"

lemmas demo_simps = phone_env_def demo_tv_def new_router_def new_hw_provider_def
  sv_checkEnableCast_def rt_Init_def hp_Init_def on_engine_def hp_RegisterCastStateListener_def
  rt_GetLocalDeviceType_def error_code_defs providerNumberEnableDefault_def avSessionUid_def

section \<open>The numbers of casts\<close>

lemma map_of_None_keys: "map_of m c = None \<longleftrightarrow> c \<notin> cmap_keys m"
  by (simp add: cmap_keys_def map_of_eq_None_iff)

lemma card_flagged: "card (flagged fs) \<le> length fs"
proof -
  have "flagged fs \<subseteq> int ` {..< length fs}" by (auto simp: flagged_def)
  from card_mono [OF _ this] have "card (flagged fs) \<le> card (int ` {..< length fs})" by simp
  also have "\<dots> = length fs" by (simp add: card_image)
  finally show ?thesis .
qed

lemma hp_ok_sessions:
  assumes "hp_ok p"
  shows "map_of (hpSessions p) c \<noteq> None \<longleftrightarrow> 0 \<le> c \<and> nat c < length (hpCastFlag p) \<and> hpCastFlag p ! nat c"
    and "length (hpSessions p) \<le> maxCastSessionSize"
proof -
  have "map_of (hpSessions p) c \<noteq> None \<longleftrightarrow> c \<in> flagged (hpCastFlag p)"
    using assms by (simp add: hp_ok_def cmap_keys_def map_of_eq_None_iff)
  also have "\<dots> \<longleftrightarrow> 0 \<le> c \<and> nat c < length (hpCastFlag p) \<and> hpCastFlag p ! nat c"
    by (auto simp: flagged_def image_iff intro: exI [of _ "nat c"])
  finally show "map_of (hpSessions p) c \<noteq> None \<longleftrightarrow> 0 \<le> c \<and> nat c < length (hpCastFlag p) \<and> hpCastFlag p ! nat c" .
  have "length (hpSessions p) = card (cmap_keys (hpSessions p))"
    using assms cmap_ok_distinct [of "hpSessions p"] distinct_card [of "map fst (hpSessions p)"]
    by (simp add: hp_ok_def cmap_keys_def)
  also have "\<dots> \<le> maxCastSessionSize" using assms card_flagged [of "hpCastFlag p"] by (simp add: hp_ok_def)
  finally show "length (hpSessions p) \<le> maxCastSessionSize" .
qed

text \<open>C11: in every state that the router can reach, the flags of a provider mark exactly the numbers of
  its cast sessions, so a number that is handed out is free and \<^verbatim>\<open>castFlag_\<close> is never written outside;
  there are at most 256; every controller belongs to a cast session; and the provider that a handle leads
  to is the one whose mirror handle the router sets.\<close>

theorem cast_numbers_in_use:
  assumes "rt_reachable E env r"
  shows "(map_of (hpSessions (rtProviders r a)) c \<noteq> None
      \<longleftrightarrow> 0 \<le> c \<and> nat c < length (hpCastFlag (rtProviders r a)) \<and> hpCastFlag (rtProviders r a) ! nat c)
    \<and> length (hpSessions (rtProviders r a)) \<le> 256
    \<and> (map_of (hpSessions (rtProviders r a)) c = None \<longrightarrow> map_of (hpControllers (rtProviders r a)) c = None)
    \<and> (rt_GetCastProvider n r = Some b \<longrightarrow> n = 1 \<and> rt_GetHwProvider r = Some b)"
proof -
  have ok: "rt_ok r" by (rule rt_reachable_rt_ok [OF assms])
  note p = rt_ok_provider [OF ok, of a]
  have "map_of (hpControllers (rtProviders r a)) c = None" if "map_of (hpSessions (rtProviders r a)) c = None"
    using p that map_of_None_keys [of "hpSessions (rtProviders r a)" c] map_of_None_keys [of "hpControllers (rtProviders r a)" c]
    unfolding hp_ok_def by blast
  moreover have "n = 1 \<and> rt_GetHwProvider r = Some b" if "rt_GetCastProvider n r = Some b"
    using ok that by (auto simp: rt_ok_def rt_GetCastProvider_def rt_GetHwProvider_def split: if_splits)
  ultimately show ?thesis
    using hp_ok_sessions [OF p] by (simp add: maxCastSessionSize_def)
qed

lemma demo_on_reachable: "rt_reachable quiet_engine phone_env demo_on"
  unfolding demo_on_def by (rule rt_reachable.step [OF rt_reachable.init rt_step.switch])

definition demo_cast :: "(string list, nat) router" where
  "demo_cast = snd (rt_StartCast quiet_engine [demo_tv] ''s1'' demo_on)"

lemma demo_cast_reachable: "rt_reachable quiet_engine phone_env demo_cast"
  unfolding demo_cast_def by (rule rt_reachable.step [OF demo_on_reachable rt_step.start_cast])

theorem cast_numbers_in_use_witness:
  "rt_reachable quiet_engine phone_env demo_cast \<and> length (hpSessions (rtProviders demo_cast 0)) \<le> 256"
  using cast_numbers_in_use [OF demo_cast_reachable] demo_cast_reachable by blast

section \<open>A new cast\<close>

lemma cast_handle_pos:
  assumes "0 \<le> c" and "c < 2 ^ 31"
  shows "0 < cast_handle 1 c"
proof -
  let ?w = "push_bit 32 (word_of_int 1 :: 64 word) OR ucast (word_of_int c :: 32 word)"
  have "\<not> bit ?w 63" by (auto simp: bit_or_iff bit_push_bit_iff bit_ucast_iff bit_1_iff dest: bit_imp_le_length)
  then have "0 \<le> sint ?w" using bit_last_iff [of ?w] by simp
  moreover have "handle_provider (cast_handle 1 c) = 1"
    using handle_inverse(1) [of 1 c] assms by (simp add: is_int32_def)
  then have "cast_handle 1 c \<noteq> 0" by (auto simp: handle_provider_def)
  ultimately show ?thesis by (simp add: cast_handle_def)
qed

lemma hp_StartCastSession_new:
  assumes "first_free (hpCastFlag p) = Some i"
    and "csmCreateCastSession E (hp_InitCastSessionProperty E t b) (cmEngine m) = ((AVSESSION_SUCCESS, Some cs), e1)"
    and "csRegisterListener E cs e1 = (ret, e2)" and "ret \<noteq> AVSESSION_ERROR"
  shows "\<exists>s. hsCastSession s = Some cs \<and> hsListeners s = [] \<and> hsStashState s = -1
    \<and> hp_StartCastSession E t b (m, p) = (int i, m\<lparr>cmEngine := e2\<rparr>,
      p\<lparr>hpCastFlag := (hpCastFlag p)[i := True], hpSessions := cmap_put (int i) s (hpSessions p)\<rparr>)"
proof -
  let ?s = "new_cast_session E (Some cs)"
  let ?t = "if t AND TYPE_CAST_PLUS_AUDIO \<noteq> 0 then hs_SetProtocolType (castPlusAudio E) ?s else ?s"
  have "hs_Init E e1 ?s = (ret, e2)" using assms(3) by (simp add: hs_Init_def new_cast_session_def)
  then have "hp_StartCastSession E t b (m, p) = (int i, m\<lparr>cmEngine := e2\<rparr>,
      p\<lparr>hpCastFlag := (hpCastFlag p)[i := True], hpSessions := cmap_put (int i) ?t (hpSessions p)\<rparr>)"
    using assms by (simp add: hp_StartCastSession_def on_engine_def Let_def)
  moreover have "hsCastSession ?t = Some cs" "hsListeners ?t = []" "hsStashState ?t = -1"
    by (simp_all add: hs_SetProtocolType_def new_cast_session_def)
  ultimately show ?thesis by blast
qed

text \<open>The state after a new cast.\<close>

lemma rt_StartCast_new:
  assumes "rt_ok r" and "rt_GetCastProvider (sint (dvProviderId dev)) r = Some a"
    and "\<not> (\<exists>h info. (h, info) \<in> set (rtHandles r) \<and> chSessionId info \<noteq> sid \<and> chOutputDevice info \<noteq> []
        \<and> dvDeviceId (hd (chOutputDevice info)) = dvDeviceId dev)"
    and "first_free (hpCastFlag (rtProviders r a)) = Some i"
    and "csmCreateCastSession E (hp_InitCastSessionProperty E (dvSupportedProtocols dev) (sid = pcmCastSession))
        (cmEngine (rtMem r)) = ((AVSESSION_SUCCESS, Some cs), e1)"
    and "csRegisterListener E cs e1 = (ret, e2)" and "ret \<noteq> AVSESSION_ERROR"
  shows "\<exists>s. hsCastSession s = Some cs \<and> hsListeners s = [] \<and> hsStashState s = -1
    \<and> rt_StartCast E (dev # devs) sid r = (cast_handle 1 (int i), r\<lparr>rtCastSide := CAST_SOURCE,
      rtMem := (rtMem r)\<lparr>cmEngine := e2\<rparr>, rtProviders := (rtProviders r)(a := (rtProviders r a)
        \<lparr>hpCastFlag := (hpCastFlag (rtProviders r a))[i := True], hpSessions := cmap_put (int i) s (hpSessions (rtProviders r a))\<rparr>),
      rtHandles := cmap_put (cast_handle 1 (int i)) (new_cast_handle_info\<lparr>chSessionId := sid, chOutputDevice := [local_device]\<rparr>)
        (rtHandles r)\<rparr>)"
proof -
  have prov: "sint (dvProviderId dev) = 1"
    using assms(1,2) by (auto simp: rt_ok_def rt_GetCastProvider_def split: if_splits)
  have none: "find (\<lambda>(_, info). chSessionId info \<noteq> sid \<and> chOutputDevice info \<noteq> []
      \<and> dvDeviceId (hd (chOutputDevice info)) = dvDeviceId dev) (rtHandles r) = None"
    using assms(3) by (auto simp: find_None_iff)
  have ne: "int i \<noteq> AVSESSION_ERROR" by (simp add: AVSESSION_ERROR_def)
  have a': "rt_GetCastProvider (sint (dvProviderId dev)) (r\<lparr>rtCastSide := CAST_SOURCE\<rparr>) = Some a"
    using assms(2) by (simp add: rt_GetCastProvider_def)
  obtain s where s: "hsCastSession s = Some cs" "hsListeners s = []" "hsStashState s = -1"
    "hp_StartCastSession E (dvSupportedProtocols dev) (sid = pcmCastSession)
      (rtMem r, rtProviders r a) = (int i, (rtMem r)\<lparr>cmEngine := e2\<rparr>, (rtProviders r a)\<lparr>hpCastFlag := (hpCastFlag (rtProviders r a))[i := True],
        hpSessions := cmap_put (int i) s (hpSessions (rtProviders r a))\<rparr>)"
    using hp_StartCastSession_new [OF assms(4-7)] by blast
  then show ?thesis
    unfolding rt_StartCast_def Let_def list.sel a' option.case using none ne prov
    by (intro exI [of _ s]) (simp add: on_provider_def)
qed

lemma least_free:
  assumes "hp_ok p" and "first_free (hpCastFlag p) = Some i"
  shows "i < 256" and "map_of (hpSessions p) (int i) = None" and "\<forall>j < i. map_of (hpSessions p) (int j) \<noteq> None"
  using first_free_Some [OF assms(2)] hp_ok_sessions(1) [OF assms(1), of "int i"] hp_ok_sessions(1) [OF assms(1)] assms(1)
  by (simp_all add: hp_ok_def maxCastSessionSize_def)

text \<open>C38: a cast to a device to which no other session casts. When the cast engine creates the session
  and a number is free, the cast gets the least free number, and its handle is positive and leads back to
  the provider and to that number; the new cast starts on the local device, belongs to the session and has
  no listener; no other cast of the provider and no other handle changes.\<close>

theorem start_cast_new:
  assumes "rt_reachable E env r" and "rt_GetCastProvider (sint (dvProviderId dev)) r = Some a"
    and "\<not> (\<exists>h info. (h, info) \<in> set (rtHandles r) \<and> chSessionId info \<noteq> sid \<and> chOutputDevice info \<noteq> []
        \<and> dvDeviceId (hd (chOutputDevice info)) = dvDeviceId dev)"
    and "first_free (hpCastFlag (rtProviders r a)) = Some i"
    and "csmCreateCastSession E (hp_InitCastSessionProperty E (dvSupportedProtocols dev) (sid = pcmCastSession))
        (cmEngine (rtMem r)) = ((AVSESSION_SUCCESS, Some cs), e1)"
    and "csRegisterListener E cs e1 = (ret, e2)" and "ret \<noteq> AVSESSION_ERROR"
    and "rt_StartCast E (dev # devs) sid r = (h, r')"
  shows "h = cast_handle 1 (int i) \<and> 0 < h \<and> handle_provider h = 1 \<and> handle_cast_id h = int i
    \<and> map_of (hpSessions (rtProviders r a)) (int i) = None
    \<and> (\<forall>j < i. map_of (hpSessions (rtProviders r a)) (int j) \<noteq> None)
    \<and> (\<exists>s. map_of (hpSessions (rtProviders r' a)) (int i) = Some s \<and> hsCastSession s = Some cs)
    \<and> (\<forall>c. c \<noteq> int i \<longrightarrow> map_of (hpSessions (rtProviders r' a)) c = map_of (hpSessions (rtProviders r a)) c)
    \<and> map_of (rtHandles r') h = Some (new_cast_handle_info\<lparr>chSessionId := sid, chOutputDevice := [local_device]\<rparr>)
    \<and> (\<forall>k. k \<noteq> h \<longrightarrow> map_of (rtHandles r') k = map_of (rtHandles r) k)
    \<and> cmEngine (rtMem r') = e2"
proof -
  have ok: "rt_ok r" by (rule rt_reachable_rt_ok [OF assms(1)])
  note free = least_free [OF rt_ok_provider [OF ok] assms(4)]
  have h: "0 < cast_handle 1 (int i)" "handle_provider (cast_handle 1 (int i)) = 1" "handle_cast_id (cast_handle 1 (int i)) = int i"
    using free(1) handle_inverse [of 1 "int i"] cast_handle_pos [of "int i"] by (simp_all add: is_int32_def)
  from rt_StartCast_new [OF ok assms(2-7), of devs] assms(8) h free(2,3) show ?thesis by (auto simp: map_of_cmap_put)
qed

lemma first_free_replicate: "0 < n \<Longrightarrow> first_free (replicate n False) = Some 0"
  by (cases n) simp_all

lemma demo_on_parts:
  "rtManagers demo_on = [(1, 0)]" "rtHandles demo_on = []" "rtHwProvider demo_on = Some 0"
  "rtProviders demo_on 0 = new_hw_provider\<lparr>hpListeners := [0]\<rparr>" "rtMirrorSessions demo_on = []"
  "cmEngine (rtMem demo_on) = [''listen'']" "rtServicePtr demo_on" "rtDeviceType demo_on = 14"
  by (simp_all add: demo_on_def demo_simps Let_def)

theorem start_cast_new_witness:
  "fst (rt_StartCast quiet_engine [demo_tv] ''s1'' demo_on) = cast_handle 1 0 \<and> 0 < cast_handle 1 0"
proof -
  obtain h r where c: "rt_StartCast quiet_engine [demo_tv] ''s1'' demo_on = (h, r)" by fastforce
  have a: "rt_GetCastProvider (sint (dvProviderId demo_tv)) demo_on = Some 0"
    by (simp add: rt_GetCastProvider_def demo_on_parts demo_tv_def)
  have f: "first_free (hpCastFlag (rtProviders demo_on 0)) = Some 0"
    by (simp add: demo_on_parts new_hw_provider_def maxCastSessionSize_def first_free_replicate)
  have "\<not> (\<exists>h info. (h, info) \<in> set (rtHandles demo_on) \<and> chSessionId info \<noteq> ''s1'' \<and> chOutputDevice info \<noteq> []
        \<and> dvDeviceId (hd (chOutputDevice info)) = dvDeviceId demo_tv)" by (simp add: demo_on_parts)
  from start_cast_new [OF demo_on_reachable a this f _ _ _ c, of 1 "[''listen'', ''create'']" 0 "[''listen'', ''create'']"]
  show ?thesis using c by (simp add: demo_on_parts error_code_defs)
qed

section \<open>The router's steps\<close>

lemma to_int32_handle: "is_int32 c \<Longrightarrow> to_int32 (cast_handle p c) = c"
  by (simp add: to_int32_def cast_handle_low)

lemma mirror_handle_fields [simp]:
  "rt_GetMirrorCastHandle (r\<lparr>rtCastSide := x\<rparr>) = rt_GetMirrorCastHandle r"
  "rt_GetMirrorCastHandle (r\<lparr>rtHandles := hs\<rparr>) = rt_GetMirrorCastHandle r"
  "rt_GetMirrorCastHandle (r\<lparr>rtMem := m\<rparr>) = rt_GetMirrorCastHandle r"
  "rt_GetMirrorCastHandle (rt_emit os r) = rt_GetMirrorCastHandle r"
  by (simp_all add: rt_GetMirrorCastHandle_def rt_emit_def cong: option.case_cong)

lemma rt_StartCast_shared:
  assumes "rt_GetCastProvider (sint (dvProviderId dev)) r = Some a"
    and "find (\<lambda>(_, info). chSessionId info \<noteq> sid \<and> chOutputDevice info \<noteq> []
      \<and> dvDeviceId (hd (chOutputDevice info)) = dvDeviceId dev) (rtHandles r) = Some (h, info)"
  shows "rt_StartCast E (dev # devs) sid r
    = (h, r\<lparr>rtCastSide := CAST_SOURCE, rtHandles := cmap_put h (info\<lparr>chSessionId := sid\<rparr>) (rtHandles r)\<rparr>)"
  using assms by (simp add: rt_StartCast_def rt_GetCastProvider_def)

lemma rt_RegisterCallback_shared:
  assumes "rt_GetCastProvider (handle_provider h) r = Some a" and "rt_GetMirrorCastHandle r = -1"
    and "map_of (rtHandles r) h = Some info" and "chOutputDevice info = d # ds" and "chListener info = Some l0"
  shows "rt_RegisterCallback E re pid uid h l sid dev r = (AVSESSION_SUCCESS, rt_emit
    [ListenerState l0 disconnectStateFromCast d False noReasonCode, ListenerState l connectStateFromCast d False noReasonCode]
    (r\<lparr>rtHandles := cmap_put h (info\<lparr>chListener := Some l\<rparr>) (rtHandles r)\<rparr>))"
  using assms by (simp add: rt_RegisterCallback_def noMirrorCastHandle_def)

lemma add_device_known:
  assumes "map_of (rtHandles r) (cast_handle (sint (dvProviderId dev)) c) = Some info" and "chOutputDevice info = d # ds"
    and "dvDeviceId d = dvDeviceId dev"
  shows "add_device f c (dev # devs) r = (AVSESSION_SUCCESS, r)"
  using assms by (simp add: add_device_def)

section \<open>A cast that is taken over\<close>

text \<open>C7: another session casts to the device already. Then the session takes the cast over: it gets
  the handle of that cast, the other session is told that it is disconnected and this one that it is
  connected, in that order and each once; neither the provider nor the cast engine is asked, so the device
  sees no interruption.\<close>

theorem cast_taken_over:
  assumes "rt_reachable E re r" and "rt_GetCastProvider (sint (dvProviderId dev)) r = Some a"
    and "rt_GetMirrorCastHandle r = -1"
    and "find (\<lambda>(_, info). chSessionId info \<noteq> ciSessionId ci \<and> chOutputDevice info \<noteq> []
      \<and> dvDeviceId (hd (chOutputDevice info)) = dvDeviceId dev) (rtHandles r) = Some (cast_handle 1 c, info)"
    and "0 \<le> c" and "c < 2 ^ 31" and "chListener info = Some l0" and "ciTag ci \<noteq> ''RemoteCast''"
    and "ci_SubStartCast E re env (dev # devs) (ci, r) = (ret, ci', r')"
  shows "ret = AVSESSION_SUCCESS \<and> ciHandle ci' = cast_handle 1 c \<and> ciDeviceId ci' = dvDeviceId dev
    \<and> rtOut r' = rtOut r @ [CastStateUpdated True,
        ListenerState l0 disconnectStateFromCast (hd (chOutputDevice info)) False noReasonCode,
        ListenerState (ciListener ci) connectStateFromCast (hd (chOutputDevice info)) False noReasonCode]
    \<and> map_of (rtHandles r') (cast_handle 1 c) = Some (info\<lparr>chSessionId := ciSessionId ci, chListener := Some (ciListener ci)\<rparr>)
    \<and> rtProviders r' = rtProviders r \<and> rtMem r' = rtMem r"
proof -
  let ?h = "cast_handle 1 c" and ?i = "info\<lparr>chSessionId := ciSessionId ci\<rparr>"
  have ok: "rt_ok r" by (rule rt_reachable_rt_ok [OF assms(1)])
  have prov: "sint (dvProviderId dev) = 1" using ok assms(2) by (auto simp: rt_ok_def rt_GetCastProvider_def split: if_splits)
  have h: "handle_provider ?h = 1" "0 < ?h" "to_int32 ?h = c"
    using assms(5,6) handle_inverse(1) [of 1 c] cast_handle_pos [of c] by (simp_all add: is_int32_def to_int32_handle)
  then have neq: "?h \<noteq> AVSESSION_ERROR" "?h \<noteq> -1" by (simp_all add: AVSESSION_ERROR_def)
  from assms(4) have dev: "chOutputDevice info \<noteq> []" "dvDeviceId (hd (chOutputDevice info)) = dvDeviceId dev"
    by (auto simp: find_Some_iff)
  then obtain d ds where d: "chOutputDevice info = d # ds" "dvDeviceId d = dvDeviceId dev" by (cases "chOutputDevice info") auto
  define r1 where "r1 = rt_emit [CastStateUpdated True]
    (r\<lparr>rtCastSide := CAST_SOURCE, rtHandles := cmap_put ?h ?i (rtHandles r)\<rparr>)"
  have set: "ci_SetCastHandle ?h (ci, r\<lparr>rtCastSide := CAST_SOURCE, rtHandles := cmap_put ?h ?i (rtHandles r)\<rparr>) = (ci\<lparr>ciHandle := ?h\<rparr>, r1)"
    using assms(3,8) h neq by (simp add: ci_SetCastHandle_def ci_IsCasting_def r1_def)
  have r1: "rt_GetCastProvider (handle_provider ?h) r1 = Some a" "rt_GetMirrorCastHandle r1 = -1" "map_of (rtHandles r1) ?h = Some ?i"
    using assms(2,3) h prov by (simp_all add: r1_def) (simp_all add: rt_emit_def rt_GetCastProvider_def map_of_cmap_put)
  note reg = rt_RegisterCallback_shared [OF r1, of d ds l0 E re "cePid env" "ceUid env" "ciListener ci" "ciSessionId ci" dev]
  have add: "ci_AddDevice E re env ?h (dev # devs) (ci\<lparr>ciHandle := ?h\<rparr>) r1 = (AVSESSION_SUCCESS,
      snd (rt_RegisterCallback E re (cePid env) (ceUid env) ?h (ciListener ci) (ciSessionId ci) dev r1))"
    using reg d assms(7) unfolding ci_AddDevice_def rt_AddDevice_def
    by (simp add: h prov) (rule add_device_known [where d = d and ds = ds and info = "info\<lparr>chSessionId := ciSessionId ci, chListener := Some (ciListener ci)\<rparr>"], simp_all add: prov rt_emit_def map_of_cmap_put)
  have "ci_SubStartCast E re env (dev # devs) (ci, r) = (AVSESSION_SUCCESS, ci\<lparr>ciHandle := ?h, ciDeviceId := dvDeviceId dev\<rparr>,
      snd (rt_RegisterCallback E re (cePid env) (ceUid env) ?h (ciListener ci) (ciSessionId ci) dev r1))"
    using set add by (simp add: ci_SubStartCast_def rt_StartCast_shared [OF assms(2,4)] neq)
  with assms(9) have r': "ret = AVSESSION_SUCCESS" "ci' = ci\<lparr>ciHandle := ?h, ciDeviceId := dvDeviceId dev\<rparr>"
    "r' = snd (rt_RegisterCallback E re (cePid env) (ceUid env) ?h (ciListener ci) (ciSessionId ci) dev r1)" by simp_all
  show ?thesis
    unfolding r' using reg d assms(7) by (simp add: r1_def rt_emit_def map_of_cmap_put)
qed

text \<open>The session \<open>s1\<close> casts to the television, and \<open>s2\<close> starts to.\<close>

definition demo_shared :: "(string list, nat) router" where
  "demo_shared = snd (rt_AddDevice quiet_engine 0 [demo_tv] 0
     (snd (rt_RegisterCallback quiet_engine phone_env 7 1000 (cast_handle 1 0) 11 ''s1'' demo_tv demo_cast)))"

lemma demo_shared_reachable: "rt_reachable quiet_engine phone_env demo_shared"
  unfolding demo_shared_def
  by (rule rt_reachable.step [OF rt_reachable.step [OF demo_cast_reachable rt_step.register] rt_step.add_device])

lemma demo_shared_parts:
  "rtManagers demo_shared = [(1, 0)]" "rt_GetMirrorCastHandle demo_shared = -1"
  "rtHandles demo_shared = [(cast_handle 1 0, \<lparr>chOutputDevice = [demo_tv], chSessionId = ''s1'', chProxy = None, chListener = Some 11\<rparr>)]"
  by code_simp+

definition demo_session :: "nat cast_item" where
  "demo_session = new_cast_item ''s2'' ''tag'' 12"

definition demo_ci_env :: ci_env where
  "demo_ci_env = \<lparr>cePid = 8, ceUid = 1001, ceSpid = 0, ceMediaOrSceneBoard = False, ceHiPlayCasting = False,
     cePcmRelease = 0, ceCollaboration = 0\<rparr>"

lemma demo_session_parts [simp]:
  "ciSessionId demo_session = ''s2''" "ciTag demo_session = ''tag''" "ciListener demo_session = 12"
  by (simp_all add: demo_session_def new_cast_item_def)

theorem cast_taken_over_witness:
  "fst (ci_SubStartCast quiet_engine phone_env demo_ci_env [demo_tv] (demo_session, demo_shared)) = AVSESSION_SUCCESS"
proof -
  obtain ret ci r where c: "ci_SubStartCast quiet_engine phone_env demo_ci_env [demo_tv] (demo_session, demo_shared) = (ret, ci, r)"
    by (metis prod_cases3)
  have a: "rt_GetCastProvider (sint (dvProviderId demo_tv)) demo_shared = Some 0"
    by (simp add: rt_GetCastProvider_def demo_shared_parts demo_tv_def)
  have "find (\<lambda>(_, info). chSessionId info \<noteq> ciSessionId demo_session \<and> chOutputDevice info \<noteq> []
      \<and> dvDeviceId (hd (chOutputDevice info)) = dvDeviceId demo_tv) (rtHandles demo_shared)
    = Some (cast_handle 1 0, \<lparr>chOutputDevice = [demo_tv], chSessionId = ''s1'', chProxy = None, chListener = Some 11\<rparr>)"
    by (simp add: demo_shared_parts)
  from cast_taken_over [OF demo_shared_reachable a demo_shared_parts(2) this _ _ _ _ c] show ?thesis
    by (simp add: c)
qed

end
