(* ===== verification/CastClientProps.thy ===== *)
theory CastClientProps
  imports CastProps
begin

text \<open>
  What the clients of casting see: who keeps the search for devices alive, what a phone does when the
  cast engine dies, what a session is told while casting is off, and what a cast that its device refuses
  leaves behind.
\<close>

section \<open>The search for devices\<close>

lemma rt_ok_managers: "rt_ok r \<Longrightarrow> rtManagers r = [] \<or> (\<exists>a. rtManagers r = [(1, a)])"
  by (auto simp: rt_ok_def)

lemma all_providers_one:
  "rt_ok r \<Longrightarrow> all_providers f r = (if rtManagers r = [] then r else r\<lparr>rtMem := f (rtMem r)\<rparr>)"
  by (auto simp: all_providers_def dest: rt_ok_managers)

lemma rt_IsStopCastDiscovery_eq:
  "rt_IsStopCastDiscovery pid r = (set (rtPids r) = {pid}, r\<lparr>rtPids := filter (\<lambda>p. p \<noteq> pid) (rtPids r)\<rparr>)"
proof (cases "pid \<in> set (rtPids r)")
  case True
  then have "filter (\<lambda>p. p \<noteq> pid) (rtPids r) = [] \<longleftrightarrow> set (rtPids r) = {pid}" by (auto simp: filter_empty_conv)
  with True show ?thesis by (simp add: rt_IsStopCastDiscovery_def Let_def)
next
  case False
  then have "filter (\<lambda>p. p \<noteq> pid) (rtPids r) = rtPids r" by (intro filter_True) auto
  moreover from False have "set (rtPids r) \<noteq> {pid}" by blast
  ultimately show ?thesis using False by (simp only: rt_IsStopCastDiscovery_def if_False) simp
qed

lemma rt_StopCastDiscovery_eq:
  assumes "rt_ok r"
  shows "rtPids (snd (rt_StopCastDiscovery E pid r)) = filter (\<lambda>p. p \<noteq> pid) (rtPids r)"
    and "cmEngine (rtMem (snd (rt_StopCastDiscovery E pid r)))
      = (if set (rtPids r) = {pid} \<and> rtManagers r \<noteq> [] then csmStopDiscovery E (cmEngine (rtMem r)) else cmEngine (rtMem r))"
  using assms by (simp_all add: rt_StopCastDiscovery_def rt_IsStopCastDiscovery_eq all_providers_one hp_StopDiscovery_def)

lemma stop_discovery_nobody: "rtPids r = [] \<Longrightarrow> snd (rt_StopCastDiscovery E pid r) = r"
  by (simp add: rt_StopCastDiscovery_def rt_IsStopCastDiscovery_def)

lemma stop_discovery_nobody_all: "rtPids r = [] \<Longrightarrow> fold (\<lambda>p r. snd (rt_StopCastDiscovery E p r)) ps r = r"
  by (induction ps) (simp_all add: stop_discovery_nobody)

text \<open>C39: who keeps the search for devices alive. A process that stops it is no longer among those that
  want it, and the cast engine is told to stop exactly when this process was the last; nothing is told when
  there is no provider. When the last process dies instead, it is only forgotten: the engine goes on, and no
  sequence of calls to stop, from whatever processes, changes anything.\<close>

theorem search_stops_with_last_client:
  assumes "rt_reachable E env r"
  shows "set (rtPids (snd (rt_StopCastDiscovery E pid r))) = set (rtPids r) - {pid}
    \<and> cmEngine (rtMem (snd (rt_StopCastDiscovery E pid r)))
      = (if set (rtPids r) = {pid} \<and> rtManagers r \<noteq> [] then csmStopDiscovery E (cmEngine (rtMem r)) else cmEngine (rtMem r))
    \<and> rtMem (sv_OnClientDied_cast pid r) = rtMem r \<and> rtManagers (sv_OnClientDied_cast pid r) = rtManagers r
    \<and> (set (rtPids r) \<subseteq> {pid} \<longrightarrow>
        fold (\<lambda>p r. snd (rt_StopCastDiscovery E p r)) ps (sv_OnClientDied_cast pid r) = sv_OnClientDied_cast pid r)"
proof -
  have ok: "rt_ok r" by (rule rt_reachable_rt_ok [OF assms])
  have died: "rtMem (sv_OnClientDied_cast pid r) = rtMem r" "rtManagers (sv_OnClientDied_cast pid r) = rtManagers r"
    by (simp_all add: sv_OnClientDied_cast_def rt_IsStopCastDiscovery_def Let_def)
  have "rtPids (sv_OnClientDied_cast pid r) = []" if "set (rtPids r) \<subseteq> {pid}"
    using that by (auto simp: sv_OnClientDied_cast_def rt_IsStopCastDiscovery_eq Let_def filter_empty_conv)
  with died stop_discovery_nobody_all rt_StopCastDiscovery_eq [OF ok] show ?thesis by auto
qed

definition demo_search :: "(string list, nat) router" where
  "demo_search = snd (rt_StartCastDiscovery quiet_engine 7 2 [] demo_on)"

theorem search_stops_with_last_client_witness:
  "rt_reachable quiet_engine phone_env demo_search
    \<and> cmEngine (rtMem (snd (rt_StopCastDiscovery quiet_engine 7 demo_search))) = [''listen'', ''start'', ''stop'']
    \<and> cmEngine (rtMem (fold (\<lambda>p r. snd (rt_StopCastDiscovery quiet_engine p r)) [7, 8] (sv_OnClientDied_cast 7 demo_search)))
      = [''listen'', ''start'']"
proof -
  have r: "rt_reachable quiet_engine phone_env demo_search"
    unfolding demo_search_def by (rule rt_reachable.step [OF demo_on_reachable rt_step.start_discovery])
  have "rtPids demo_search = [7]" "rtManagers demo_search \<noteq> []" "cmEngine (rtMem demo_search) = [''listen'', ''start'']"
    by code_simp+
  with r search_stops_with_last_client [OF r, of 7 "[7, 8]"] show ?thesis by simp
qed

section \<open>The death of the cast engine\<close>

lemma rt_UpdateConnectState_fields [simp]:
  "rtMem (rt_UpdateConnectState E c r) = rtMem r" "rtProviders (rt_UpdateConnectState E c r) = rtProviders r"
  "rtNextProvider (rt_UpdateConnectState E c r) = rtNextProvider r" "rtManagers (rt_UpdateConnectState E c r) = rtManagers r"
  "rtHandles (rt_UpdateConnectState E c r) = rtHandles r" "rtInCast (rt_UpdateConnectState E c r) = rtInCast r"
  "rtPids (rt_UpdateConnectState E c r) = rtPids r" "rtOut (rt_UpdateConnectState E c r) = rtOut r"
  "rtCacheCapability (rt_UpdateConnectState E c r) = rtCacheCapability r" "rtDevices (rt_UpdateConnectState E c r) = rtDevices r"
  "rtCacheDrmSchemes (rt_UpdateConnectState E c r) = rtCacheDrmSchemes r" "rtDeviceType (rt_UpdateConnectState E c r) = rtDeviceType r"
  by (simp_all add: rt_UpdateConnectState_def Let_def)

lemma disconnect_off_fields:
  assumes "stDisconnected E = disconnectStateFromCast" and "stStream E \<noteq> disconnectStateFromCast" and "\<not> rtInCast r"
    and "q = rt_OnCastStateChange E env pid uid disconnectStateFromCast d n r"
  shows "rtMem q = rtMem r" and "rtProviders q = rtProviders r" and "rtNextProvider q = rtNextProvider r"
    and "rtManagers q = rtManagers r" and "rtInCast q = rtInCast r" and "rtPids q = rtPids r"
    and "rtCacheCapability q = rtCacheCapability r" and "rtCacheDrmSchemes q = rtCacheDrmSchemes r"
    and "rtDevices q = rtDevices r" and "rtDeviceType q = rtDeviceType r"
    and "rtOut q = rtOut r @ SetIsSupportMirrorToStream False # state_posts disconnectStateFromCast d n (rtHandles r)"
  using assms(1-3) unfolding assms(4)
  by (simp_all add: rt_OnCastStateChange_def sv_checkEnableCast_def rt_emit_def Let_def)

text \<open>Switching casting on while a search is wanted.\<close>

lemma sv_checkEnableCast_on:
  assumes "\<not> rtInCast r" and "rtManagers r = []" and "rtCacheStartDiscovery r"
    and "csmRegisterListener E (cmEngine (rtMem r)) = (x, e1)" and "x \<noteq> AVSESSION_ERROR"
    and "q = snd (sv_checkEnableCast E env pid uid True r)"
  shows "rtInCast q" and "rtManagers q = [(1, rtNextProvider r)]" and "rtHwProvider q = Some (rtNextProvider r)"
    and "rtProviders q = (rtProviders r)(rtNextProvider r := new_hw_provider\<lparr>hpListeners := [rtNextProvider r]\<rparr>)"
    and "rtPids q = List.insert pid (rtPids r)" and "rtHandles q = rtHandles r" and "rtDevices q = rtDevices r"
    and "rtOut q = rtOut r"
    and "cmEngine (rtMem q) = snd (csmStartDiscovery E (hp_GetCastProtocolType E (rtCacheCapability r)) (rtCacheDrmSchemes r) e1)"
  using assms(1-5) unfolding assms(6)
  by (simp_all add: sv_checkEnableCast_def rt_Init_def hp_Init_def on_engine_def rt_StartCastDiscovery_def
      all_providers_def hp_StartDiscovery_def hp_RegisterCastStateListener_def new_hw_provider_def
      providerNumberEnableDefault_def Let_def split: prod.splits)

text \<open>C12: on a phone, casting comes back by itself when the cast engine dies. The clients are told that every
  device went offline and every session with a listener that its cast is disconnected; all casts are
  forgotten; then a fresh provider listens to the new engine, casting is on, and the search for devices goes
  on with the capability and the schemes of the last client. That search runs in the name of the service, so
  from then on no client's stop reaches the engine.\<close>

theorem casting_comes_back:
  assumes "rt_reachable E env r" and "rtServicePtr r" and "rtDeviceType r = rePhone env"
    and "stDisconnected E = disconnectStateFromCast" and "stStream E \<noteq> disconnectStateFromCast"
    and "csmRegisterListener E (cmEngine (rtMem r)) = (x, e1)" and "x \<noteq> AVSESSION_ERROR"
    and "rt_OnCastServerDied E env selfPid selfUid r = (ret, r')"
  shows "ret = AVSESSION_SUCCESS \<and> rtInCast r' \<and> rtManagers r' = [(1, rtNextProvider r)]
    \<and> rtHwProvider r' = Some (rtNextProvider r)
    \<and> rtProviders r' (rtNextProvider r) = new_hw_provider\<lparr>hpListeners := [rtNextProvider r]\<rparr>
    \<and> rtHandles r' = [] \<and> rtDevices r' = []
    \<and> rtOut r' = rtOut r @ map (\<lambda>(deviceId, _). NotifyDeviceOffline deviceId) (rtDevices r) @ SetIsSupportMirrorToStream False #
        state_posts disconnectStateFromCast (device_of CATEGORY_LOCAL ''-1'' ''RemoteCast'') noReasonCode (rtHandles r)
    \<and> cmEngine (rtMem r') = snd (csmStartDiscovery E (hp_GetCastProtocolType E (rtCacheCapability r)) (rtCacheDrmSchemes r) e1)
    \<and> (\<forall>pid. pid \<noteq> selfPid \<longrightarrow> cmEngine (rtMem (snd (rt_StopCastDiscovery E pid r'))) = cmEngine (rtMem r'))"
proof -
  define r1 where "r1 = rt_emit (map (\<lambda>(deviceId, _). NotifyDeviceOffline deviceId) (rtDevices r)) (r\<lparr>rtInCast := False, rtDevices := []\<rparr>)
    \<lparr>rtProviderNumber := providerNumberDisable, rtManagers := []\<rparr>"
  define r2 where "r2 = rt_OnCastStateChange E env selfPid selfUid disconnectStateFromCast
    (device_of CATEGORY_LOCAL ''-1'' ''RemoteCast'') noReasonCode r1"
  define r3 where "r3 = snd (rt_StartCastDiscovery E selfPid (rtCacheCapability r2) (rtCacheDrmSchemes r2) (r2\<lparr>rtHandles := []\<rparr>))"
  have r1: "\<not> rtInCast r1" "rtManagers r1 = []" "rtMem r1 = rtMem r" "rtNextProvider r1 = rtNextProvider r" "rtHandles r1 = rtHandles r"
    "rtDevices r1 = []" "rtDeviceType r1 = rtDeviceType r" "rtCacheCapability r1 = rtCacheCapability r" "rtCacheDrmSchemes r1 = rtCacheDrmSchemes r"
    "rtOut r1 = rtOut r @ map (\<lambda>(deviceId, _). NotifyDeviceOffline deviceId) (rtDevices r)"
    by (simp_all add: r1_def rt_emit_def)
  note r2 = disconnect_off_fields [OF assms(4,5) r1(1) r2_def]
  have r3: "rtManagers r3 = []" "\<not> rtInCast r3" "rtCacheStartDiscovery r3" "rtMem r3 = rtMem r" "rtNextProvider r3 = rtNextProvider r"
    "rtHandles r3 = []" "rtDevices r3 = []" "rtOut r3 = rtOut r2" "rtCacheCapability r3 = rtCacheCapability r"
    "rtCacheDrmSchemes r3 = rtCacheDrmSchemes r"
    using r1 r2 by (simp_all add: r3_def rt_StartCastDiscovery_def Let_def)
  have died: "rt_OnCastServerDied E env selfPid selfUid r = (AVSESSION_SUCCESS, snd (sv_checkEnableCast E env selfPid selfUid True r3))"
    using assms(2,3) r1(7) r2(10) by (simp add: rt_OnCastServerDied_def Let_def r1_def [symmetric] r2_def [symmetric] r3_def [symmetric])
  then have r': "ret = AVSESSION_SUCCESS" "r' = snd (sv_checkEnableCast E env selfPid selfUid True r3)" using assms(8) by simp_all
  have "csmRegisterListener E (cmEngine (rtMem r3)) = (x, e1)" using assms(6) r3 by simp
  note on = sv_checkEnableCast_on [OF r3(2,1,3) this assms(7) r'(2)]
  have "rt_ok r'" using rt_OnCastServerDied_ok [OF rt_reachable_rt_ok [OF assms(1)], of E env selfPid selfUid] assms(8) by simp
  moreover have "set (rtPids r') \<noteq> {pid}" if "pid \<noteq> selfPid" for pid using on(5) that by auto
  ultimately have "\<forall>pid. pid \<noteq> selfPid \<longrightarrow> cmEngine (rtMem (snd (rt_StopCastDiscovery E pid r'))) = cmEngine (rtMem r')"
    by (simp add: rt_StopCastDiscovery_eq)
  with on r1 r2(11) r3 r'(1) show ?thesis by simp
qed

theorem casting_comes_back_witness:
  "rtInCast (snd (rt_OnCastServerDied quiet_engine phone_env 100 6700 demo_cast))
    \<and> rtManagers (snd (rt_OnCastServerDied quiet_engine phone_env 100 6700 demo_cast)) = [(1, 1)]"
proof -
  have d: "rtServicePtr demo_cast" "rtDeviceType demo_cast = rePhone phone_env" "rtNextProvider demo_cast = 1"
    by code_simp+
  from casting_comes_back [OF demo_cast_reachable d(1,2) _ _ _ _ surjective_pairing, of 0 "cmEngine (rtMem demo_cast) @ [''listen'']" 100 6700]
  show ?thesis using d by (simp add: disconnectStateFromCast_def AVSESSION_ERROR_def)
qed

section \<open>A cast that is none\<close>

lemma no_provider:
  assumes "rtManagers r = []"
  shows "rt_GetMirrorCastHandle r = 1" and "rt_GetCastProvider n r = None"
  using assms by (simp_all add: rt_GetMirrorCastHandle_def rt_GetCastProvider_def providerNumberEnableDefault_def)

lemma ci_InitAVCastControllerProxy_off:
  assumes "rtManagers r = []"
  shows "ci_InitAVCastControllerProxy E (ci, r) = (ci, r)"
  using assms by (simp add: ci_InitAVCastControllerProxy_def rt_GetRemoteController_def no_provider Let_def)

lemma rt_RegisterCallback_off: "rtManagers r = [] \<Longrightarrow> rt_RegisterCallback E re pid uid h l sid d r = (AVSESSION_ERROR, r)"
  by (simp add: rt_RegisterCallback_def no_provider)

lemma register_stream_off:
  assumes "rtManagers r = []" and "ciHandle ci \<le> 0" and "\<not> rtInMirrorToStream r"
  shows "ci_RegisterListenerStreamToCast E re env d (ci, r) = (AVSESSION_SUCCESS,
    ci_UpdateCastDeviceMap d (ci\<lparr>ciHandle := 1, ciMirrorOnce := True, ciDeviceId := dvDeviceId d\<rparr>),
    rt_SetCastingDeviceName (dvDeviceName d) (rt_emit [CastStateUpdated False] r))"
proof -
  have off: "rtManagers (rt_emit [CastStateUpdated False] r) = []" using assms(1) by (simp add: rt_emit_def)
  have "ci_SetCastHandle 1 (ci, r) = (ci\<lparr>ciHandle := 1\<rparr>, rt_emit [CastStateUpdated False] r)"
    using assms by (simp add: ci_SetCastHandle_def ci_IsCasting_def no_provider rt_IsInMirrorToStreamState_def)
  then show ?thesis
    using assms off by (simp add: ci_RegisterListenerStreamToCast_def no_provider ci_InitAVCastControllerProxy_off
        rt_RegisterCallback_off rt_IsInMirrorToStreamState_def rt_emit_def)
qed

text \<open>Switching casting on when the cast engine refuses the listener.\<close>

lemma sv_checkEnableCast_refused:
  assumes "\<not> rtInCast r" and "csmRegisterListener E (cmEngine (rtMem r)) = (AVSESSION_ERROR, e1)"
    and "q = snd (sv_checkEnableCast E re pid uid True r)"
  shows "\<not> rtInCast q" and "rtManagers q = rtManagers r" and "rtInMirrorToStream q = rtInMirrorToStream r"
    and "rtHandles q = rtHandles r" and "rtOut q = rtOut r" and "cmEngine (rtMem q) = e1"
  using assms(1,2) unfolding assms(3)
  by (simp_all add: sv_checkEnableCast_def rt_Init_def hp_Init_def on_engine_def error_code_defs Let_def)

text \<open>C40: a session goes from mirror to stream, and the cast engine refuses to be listened to, so casting stays
  off. The call reports success all the same: the session has the handle 1, which is the number of the
  provider that is missing, the device as its own, and no controller; nothing was asked of the cast engine but
  the listener. From the state in which the session is left, every start of a cast to this device is refused as
  a repeat and changes nothing, whatever the router and the cast engine are by then, so also when casting is
  on again; that lasts as long as nothing else takes the handle or the device from the session.\<close>

theorem mirror_to_phantom_cast:
  assumes "\<not> rtInCast r" and "rtManagers r = []" and "csmRegisterListener E (cmEngine (rtMem r)) = (AVSESSION_ERROR, e1)"
    and "sv_IsMirrorToStreamCastAllowed re me ms (ci, r)" and "ciHandle ci \<le> 0" and "\<not> rtInMirrorToStream r"
    and "sv_MirrorToStreamCast E re env me (ms, ci, r) = (ret, ms', ci', r')"
  shows "ret = AVSESSION_SUCCESS \<and> ciHandle ci' = 1 \<and> ciDeviceId ci' = msDeviceId ms \<and> ciProxy ci' = ciProxy ci
    \<and> \<not> ci_IsCasting ci' r' \<and> rtHandles r' = rtHandles r \<and> cmEngine (rtMem r') = e1
    \<and> (\<forall>E2 re2 env2 d ds r2. dvDeviceId d = msDeviceId ms \<longrightarrow>
        ci_StartCast E2 re2 env2 (d # ds) (ci', r2 :: ('f, 'b) router) = (ERR_REPEAT_CAST, ci', r2))"
proof -
  let ?r0 = "rt_SetStreamToMirrorFromSink False r"
  define q where "q = snd (sv_checkEnableCast E re (cePid env) (ceUid env) True ?r0)"
  note on = sv_checkEnableCast_refused [OF _ _ q_def, of e1]
  have q: "rtManagers q = []" "\<not> rtInMirrorToStream q" "rtHandles q = rtHandles r" "cmEngine (rtMem q) = e1"
    using on assms(1-3,6) by (simp_all add: rt_SetStreamToMirrorFromSink_def)
  let ?q = "q\<lparr>rtEnablePids := filter (\<lambda>p. p \<noteq> cePid env) (rtEnablePids q)\<rparr>"
  have reg: "ci_RegisterListenerStreamToCast E re env d (ci\<lparr>ciMediaChange := False\<rparr>, ?q) = (AVSESSION_SUCCESS,
      ci_UpdateCastDeviceMap d (ci\<lparr>ciMediaChange := False, ciHandle := 1, ciMirrorOnce := True, ciDeviceId := dvDeviceId d\<rparr>),
      rt_SetCastingDeviceName (dvDeviceName d) (rt_emit [CastStateUpdated False] ?q))" for d
    using q assms(5) by (subst register_stream_off) simp_all
  show ?thesis
    using assms(4,7) q unfolding sv_MirrorToStreamCast_def Let_def prod.case q_def [symmetric] reg
    by (auto simp: ci_UpdateCastDeviceMap_def ci_IsCasting_def rt_SetCastingDeviceName_def rt_emit_def no_provider
        rt_IsInMirrorToStreamState_def ci_StartCast_def)
qed

definition deaf_engine :: "(string list, nat) cast_engine" where
  "deaf_engine = quiet_engine\<lparr>csmRegisterListener := \<lambda>e. (AVSESSION_ERROR, e)\<rparr>"

definition demo_mirror :: mirror_stream where
  "demo_mirror = \<lparr>msSupport = True, msAppCastExit = False, msDeviceId = ''tv'', msDeviceName = ''TV'', msDeviceType = 0\<rparr>"

definition demo_video :: "nat cast_item" where
  "demo_video = demo_session\<lparr>ciVideo := True\<rparr>"

definition connected_env :: rt_env where
  "connected_env = phone_env\<lparr>reConnected := True\<rparr>"

definition video_env :: mirror_env where
  "video_env = \<lparr>meAppSupportCast = True, meWhiteApp = True, meBackground = False\<rparr>"

theorem mirror_to_phantom_cast_witness:
  "fst (sv_MirrorToStreamCast deaf_engine connected_env demo_ci_env video_env (demo_mirror, demo_video, new_router [])) = AVSESSION_SUCCESS"
proof -
  obtain ret ms ci r where c: "sv_MirrorToStreamCast deaf_engine connected_env demo_ci_env video_env
      (demo_mirror, demo_video, new_router []) = (ret, ms, ci, r)" by (metis prod_cases4)
  have h: "\<not> rtInCast (new_router [] :: (string list, nat) router)" "rtManagers (new_router [] :: (string list, nat) router) = []"
    "\<not> rtInMirrorToStream (new_router [] :: (string list, nat) router)" "ciHandle demo_video \<le> 0"
    "sv_IsMirrorToStreamCastAllowed connected_env video_env demo_mirror (demo_video, new_router [] :: (string list, nat) router)"
    by code_simp+
  have "csmRegisterListener deaf_engine (cmEngine (rtMem (new_router []))) = (AVSESSION_ERROR, [])"
    by (simp add: deaf_engine_def new_router_def)
  from mirror_to_phantom_cast [OF h(1,2) this h(5,4,3) c, THEN conjunct1] show ?thesis by (simp add: c)
qed

text \<open>
  A cast that the device refuses: between the start of the cast and its end the state is \<open>half_open\<close>, which
  every operation on the way keeps; at the end nothing of the cast is left at the provider.
\<close>

section \<open>The state of a cast whose device is not connected yet\<close>

definition half_open :: "nat \<Rightarrow> nat \<Rightarrow> string \<Rightarrow> nat \<Rightarrow> hw_provider \<Rightarrow> ('e, 'a) router \<Rightarrow> bool" where
  "half_open a i sid cs p r \<longleftrightarrow> rtManagers r = [(1, a)] \<and> rtCastSide r = CAST_SOURCE
     \<and> hpMirrorCastHandle (rtProviders r a) = -1 \<and> hpCastFlag (rtProviders r a) = (hpCastFlag p)[i := True]
     \<and> hpControllers (rtProviders r a) = hpControllers p
     \<and> (\<exists>s. map_of (hpSessions (rtProviders r a)) (int i) = Some s \<and> hsCastSession s = Some cs)
     \<and> (\<forall>c. c \<noteq> int i \<longrightarrow> map_of (hpSessions (rtProviders r a)) c = map_of (hpSessions p) c)
     \<and> (\<exists>info. map_of (rtHandles r) (cast_handle 1 (int i)) = Some info \<and> chOutputDevice info = [local_device]
          \<and> chSessionId info = sid)"

lemma half_open_provider: "half_open a i sid cs p r \<Longrightarrow> rt_GetCastProvider 1 r = Some a"
  by (simp add: half_open_def rt_GetCastProvider_def)

lemma half_open_mirror: "half_open a i sid cs p r \<Longrightarrow> rt_GetMirrorCastHandle r = -1"
  by (simp add: half_open_def rt_GetMirrorCastHandle_def hp_GetMirrorCastHandle_def providerNumberEnableDefault_def)

lemma half_open_emit [simp]: "half_open a i sid cs p (rt_emit os r) = half_open a i sid cs p r"
  by (simp add: half_open_def rt_emit_def)

lemma engine_emit [simp]: "rtMem (rt_emit os r) = rtMem r"
  by (simp add: rt_emit_def)

lemma small_handle_parts:
  assumes "i < 256"
  shows "handle_provider (cast_handle 1 (int i)) = 1" and "handle_cast_id (cast_handle 1 (int i)) = int i"
    and "0 < cast_handle 1 (int i)" and "to_int32 (cast_handle 1 (int i)) = int i"
  using assms handle_inverse [of 1 "int i"] cast_handle_pos [of "int i"] to_int32_handle [of "int i" 1]
  by (simp_all add: is_int32_def)

text \<open>What is asked of the cast engine for a device.\<close>

definition add_request :: "('e, 'a) cast_engine \<Rightarrow> 'a device_info \<Rightarrow> 32 word \<Rightarrow> 'a remote_device" where
  "add_request E dev spid = (new_remote_device E)\<lparr>rdDeviceId := dvRealDeviceId dev,
     rdBleMac := dvBleMac dev, rdTriggerType := dvTriggerType dev, rdSpid := spid,
     rdServiceInfos := [\<lparr>svScreenId = dvScreenId dev, svServiceName = [], svIsTrusted = False\<rparr>]\<rparr>"

section \<open>The operations on the way\<close>

lemma half_open_add:
  assumes "half_open a i sid cs p r" and "sint (dvProviderId dev) = 1" and "dvDeviceId dev \<noteq> ''-1''"
    and "csAddDevice E cs (add_request E dev spid) (cmEngine (rtMem r)) = (x, e)" and "x \<noteq> 0"
  shows "\<exists>r'. rt_AddDevice E (int i) (dev # devs) spid r = (ERR_DEVICE_CONNECTION_FAILED, r')
    \<and> half_open a i sid cs p r' \<and> cmEngine (rtMem r') = e"
proof -
  from assms(1) obtain s info where s: "map_of (hpSessions (rtProviders r a)) (int i) = Some s" "hsCastSession s = Some cs"
    and info: "map_of (rtHandles r) (cast_handle 1 (int i)) = Some info" "chOutputDevice info = [local_device]"
    unfolding half_open_def by blast
  have "hp_AddCastDevice E (int i) dev spid (rtMem r, rtProviders r a) = (False, (rtMem r)\<lparr>cmEngine := e\<rparr>,
      (rtProviders r a)\<lparr>hpSessions := cmap_put (int i) (s\<lparr>hsToastState := STATE_DISCONNECTED\<rparr>) (hpSessions (rtProviders r a))\<rparr>)"
    using s assms(4,5) by (simp add: hp_AddCastDevice_def on_session_def hs_AddDevice_def hs_added_def add_request_def)
  then show ?thesis
    using s info assms(1-3) half_open_provider [OF assms(1)]
    by (auto simp: rt_AddDevice_def add_device_def on_provider_def half_open_def map_of_cmap_put Let_def)
qed

lemma half_open_unregister:
  assumes "half_open a i sid cs p r" and "i < 256"
  shows "half_open a i sid cs p (snd (rt_UnRegisterCallback (cast_handle 1 (int i)) sid r))"
    and "rtMem (snd (rt_UnRegisterCallback (cast_handle 1 (int i)) sid r)) = rtMem r"
proof -
  from assms(1) obtain s info where s: "map_of (hpSessions (rtProviders r a)) (int i) = Some s" "hsCastSession s = Some cs"
    and info: "map_of (rtHandles r) (cast_handle 1 (int i)) = Some info" "chOutputDevice info = [local_device]" "chSessionId info = sid"
    unfolding half_open_def by blast
  note parts = s info small_handle_parts [OF assms(2)] half_open_provider [OF assms(1)]
  show "half_open a i sid cs p (snd (rt_UnRegisterCallback (cast_handle 1 (int i)) sid r))"
    using assms(1) parts by (auto simp: rt_UnRegisterCallback_def hp_UnRegisterCastSessionStateListener_def
        hs_UnRegisterListener_def set_provider_def half_open_def map_of_cmap_put Let_def)
  show "rtMem (snd (rt_UnRegisterCallback (cast_handle 1 (int i)) sid r)) = rtMem r"
    using parts by (simp add: rt_UnRegisterCallback_def set_provider_def Let_def)
qed

lemma half_open_stop:
  assumes "half_open a i sid cs p r" and "i < 256"
  shows "\<exists>r'. rt_StopCast E (cast_handle 1 (int i)) act r = (AVSESSION_SUCCESS, r') \<and> half_open a i sid cs p r'
    \<and> cmEngine (rtMem r') = snd (csRemoveDevice E cs [] act (cmEngine (rtMem r)))"
proof -
  from assms(1) obtain s info where s: "map_of (hpSessions (rtProviders r a)) (int i) = Some s" "hsCastSession s = Some cs"
    and info: "map_of (rtHandles r) (cast_handle 1 (int i)) = Some info" "chOutputDevice info = [local_device]" "chSessionId info = sid"
    unfolding half_open_def by blast
  obtain b e where e: "csRemoveDevice E cs [] act (cmEngine (rtMem r)) = (b, e)" by fastforce
  have "dvRealDeviceId (local_device :: 'b device_info) = []"
    by (simp add: local_device_def device_of_def new_device_info_def)
  then have "hp_RemoveCastDevice E (int i) local_device act (rtMem r, rtProviders r a) = (b, (rtMem r)\<lparr>cmEngine := e\<rparr>,
      (rtProviders r a)\<lparr>hpSessions := cmap_put (int i) (s\<lparr>hsToastState := STATE_DISCONNECTED\<rparr>) (hpSessions (rtProviders r a))\<rparr>)"
    using s e by (simp add: hp_RemoveCastDevice_def on_session_def hs_RemoveDevice_def)
  with assms(1) s info e small_handle_parts [OF assms(2)] half_open_provider [OF assms(1)] show ?thesis
    by (auto simp: rt_StopCast_def on_provider_def half_open_def map_of_cmap_put Let_def)
qed

lemma half_open_end:
  assumes "half_open a i sid cs p r" and "hp_ok p" and "first_free (hpCastFlag p) = Some i"
  shows "\<exists>r'. rt_StopCastSession E (cast_handle 1 (int i)) r = (AVSESSION_SUCCESS, r')
    \<and> cmEngine (rtMem r') = csRelease E cs (cmEngine (rtMem r)) \<and> hpCastFlag (rtProviders r' a) = hpCastFlag p
    \<and> (\<forall>c. map_of (hpSessions (rtProviders r' a)) c = map_of (hpSessions p) c)
    \<and> (\<forall>c. map_of (hpControllers (rtProviders r' a)) c = map_of (hpControllers p) c)"
proof -
  note free = least_free [OF assms(2,3)]
  have i: "i < length (hpCastFlag p)" "\<not> hpCastFlag p ! i" using first_free_Some [OF assms(3)] by simp_all
  have none: "map_of (hpControllers p) (int i) = None"
    using assms(2) free(2) map_of_None_keys [of "hpSessions p" "int i"] map_of_None_keys [of "hpControllers p" "int i"]
    unfolding hp_ok_def by blast
  have flags: "(hpCastFlag p)[i := False] = hpCastFlag p" using i by (metis (full_types) list_update_id)
  have "handle_cast_id (-1) = -1" by code_simp
  then have mirror: "handle_cast_id (-1) \<noteq> int i" by simp
  from assms(1) obtain s info where s: "map_of (hpSessions (rtProviders r a)) (int i) = Some s" "hsCastSession s = Some cs"
    and info: "map_of (rtHandles r) (cast_handle 1 (int i)) = Some info" unfolding half_open_def by blast
  have "hp_StopCastSession E (int i) (rtMem r, rtProviders r a) = ((rtMem r)\<lparr>cmEngine := csRelease E cs (cmEngine (rtMem r))\<rparr>,
      (rtProviders r a)\<lparr>hpControllers := cmap_erase (int i) (hpControllers p), hpSessions := cmap_erase (int i) (hpSessions (rtProviders r a)),
        hpCastFlag := hpCastFlag p\<rparr>)"
    using assms(1) s none flags mirror by (simp add: hp_StopCastSession_def half_open_def hs_Release_def Let_def)
  with assms(1) info none free(2) small_handle_parts [OF free(1)] show ?thesis
    by (auto simp: rt_StopCastSession_def rt_GetCastProvider_def on_provider_def half_open_def map_of_cmap_erase Let_def)
qed

section \<open>From the start to the end\<close>

lemma half_open_start:
  assumes "rt_ok r" and "rt_GetCastProvider (sint (dvProviderId dev)) r = Some a" and "rt_GetMirrorCastHandle r = -1"
    and "\<not> (\<exists>h info. (h, info) \<in> set (rtHandles r) \<and> chSessionId info \<noteq> sid \<and> chOutputDevice info \<noteq> []
        \<and> dvDeviceId (hd (chOutputDevice info)) = dvDeviceId dev)"
    and "first_free (hpCastFlag (rtProviders r a)) = Some i"
    and "csmCreateCastSession E (hp_InitCastSessionProperty E (dvSupportedProtocols dev) (sid = pcmCastSession))
        (cmEngine (rtMem r)) = ((AVSESSION_SUCCESS, Some cs), e1)"
    and "csRegisterListener E cs e1 = (x, e2)" and "x \<noteq> AVSESSION_ERROR"
  shows "\<exists>r0. rt_StartCast E (dev # devs) sid r = (cast_handle 1 (int i), r0) \<and> rt_GetMirrorCastHandle r0 = -1
    \<and> half_open a i sid cs (rtProviders r a)
        (snd (rt_RegisterCallback E re pid uid (cast_handle 1 (int i)) l sid dev (rt_emit os r0)))
    \<and> cmEngine (rtMem (snd (rt_RegisterCallback E re pid uid (cast_handle 1 (int i)) l sid dev (rt_emit os r0)))) = e2"
proof -
  let ?h = "cast_handle 1 (int i)" and ?p = "rtProviders r a"
  note i = least_free(1) [OF rt_ok_provider [OF assms(1)] assms(5)]
  have m: "rtManagers r = [(1, a)]"
    using assms(1,2) by (auto simp: rt_ok_def rt_GetCastProvider_def split: if_splits)
  have mirror: "hpMirrorCastHandle ?p = -1"
    using assms(3) m by (simp add: rt_GetMirrorCastHandle_def hp_GetMirrorCastHandle_def providerNumberEnableDefault_def)
  from rt_StartCast_new [OF assms(1,2,4-8), of devs] obtain s where s: "hsCastSession s = Some cs" "hsListeners s = []" "hsStashState s = -1"
    and start: "rt_StartCast E (dev # devs) sid r = (?h, r\<lparr>rtCastSide := CAST_SOURCE,
      rtMem := (rtMem r)\<lparr>cmEngine := e2\<rparr>, rtProviders := (rtProviders r)(a := ?p
        \<lparr>hpCastFlag := (hpCastFlag ?p)[i := True], hpSessions := cmap_put (int i) s (hpSessions ?p)\<rparr>),
      rtHandles := cmap_put ?h (new_cast_handle_info\<lparr>chSessionId := sid, chOutputDevice := [local_device]\<rparr>) (rtHandles r)\<rparr>)"
    (is "_ = (_, ?r0)") by blast
  have "rt_GetMirrorCastHandle ?r0 = -1"
    using m mirror by (simp add: rt_GetMirrorCastHandle_def hp_GetMirrorCastHandle_def providerNumberEnableDefault_def)
  moreover have prov: "rt_GetCastProvider 1 (rt_emit os ?r0) = Some a" using m by (simp add: rt_emit_def rt_GetCastProvider_def)
  moreover have info: "map_of (rtHandles (rt_emit os ?r0)) ?h = Some (new_cast_handle_info\<lparr>chSessionId := sid, chOutputDevice := [local_device]\<rparr>)"
    by (simp add: rt_emit_def map_of_cmap_put)
  ultimately have "rt_RegisterCallback E re pid uid ?h l sid dev (rt_emit os ?r0) = (AVSESSION_SUCCESS,
      rt_listen E re pid uid a (int i) ((rt_emit os ?r0)\<lparr>rtHandles := cmap_put ?h (new_cast_handle_info
        \<lparr>chSessionId := sid, chOutputDevice := [local_device], chListener := Some l\<rparr>) (rtHandles (rt_emit os ?r0))\<rparr>))"
    unfolding rt_RegisterCallback_def Let_def small_handle_parts [OF i] by (simp add: noMirrorCastHandle_def new_cast_handle_info_def)
  with start s m mirror small_handle_parts [OF i] show ?thesis
    by (simp add: rt_listen_def rt_told_def hp_RegisterCastSessionStateListener_def hs_RegisterListener_def map_of_cmap_put
        set_provider_def half_open_def rt_emit_def rt_GetMirrorCastHandle_def hp_GetMirrorCastHandle_def providerNumberEnableDefault_def)
qed

lemma half_open_destroy:
  assumes "half_open a i (ciSessionId ci) cs p r" and "hp_ok p" and "first_free (hpCastFlag p) = Some i"
    and "ciHandle ci = cast_handle 1 (int i)" and "\<not> ciHiPlay ci" and "\<not> ci_IsSinkCastSession ci"
    and "ci_DestroyCast E env False (ci, r) = (ci', r')"
  shows "ciHandle ci' = -1 \<and> ciDeviceId ci' = ''-100''
    \<and> cmEngine (rtMem r') = csRelease E cs (snd (csRemoveDevice E cs [] ACTION_DISCONNECT (cmEngine (rtMem r))))
    \<and> hpCastFlag (rtProviders r' a) = hpCastFlag p
    \<and> (\<forall>c. map_of (hpSessions (rtProviders r' a)) c = map_of (hpSessions p) c)
    \<and> (\<forall>c. map_of (hpControllers (rtProviders r' a)) c = map_of (hpControllers p) c)"
proof -
  let ?h = "cast_handle 1 (int i)"
  note i = least_free(1) [OF assms(2,3)]
  note h = small_handle_parts [OF i]
  obtain os where os: "ci_DestroyCast E env False (ci, r) = ci_StopCastSession E (snd (ci_ReleaseCast E env False
      (ci, snd (rt_UnRegisterCallback ?h (ciSessionId ci) (rt_emit os r)))))"
    using assms(4,6) h by (simp add: ci_DestroyCast_def ci_IsSinkCastSession_def Let_def)
  define q where "q = snd (rt_UnRegisterCallback ?h (ciSessionId ci) (rt_emit os r))"
  have q: "half_open a i (ciSessionId ci) cs p q" "rtMem q = rtMem r"
    unfolding q_def using half_open_unregister [of a i "ciSessionId ci" cs p "rt_emit os r"] assms(1) i by simp_all
  from half_open_stop [OF q(1) i, of E ACTION_DISCONNECT] obtain q2 where q2: "rt_StopCast E ?h ACTION_DISCONNECT q = (AVSESSION_SUCCESS, q2)"
    "half_open a i (ciSessionId ci) cs p q2" "cmEngine (rtMem q2) = snd (csRemoveDevice E cs [] ACTION_DISCONNECT (cmEngine (rtMem r)))"
    using q(2) by auto
  have side: "rt_GetCastSide q \<noteq> CAST_SINK" using q(1) by (simp add: half_open_def rt_GetCastSide_def)
  have stop: "snd (ci_ReleaseCast E env False (ci, q)) = (ci, q2)"
    using assms(4-6) side q2(1) h half_open_mirror [OF q(1)] by (simp add: ci_ReleaseCast_def ci_StopCast_def)
  from half_open_end [OF q2(2) assms(2,3), of E] obtain q3 where "rt_StopCastSession E ?h q2 = (AVSESSION_SUCCESS, q3)"
    "cmEngine (rtMem q3) = csRelease E cs (cmEngine (rtMem q2))" "hpCastFlag (rtProviders q3 a) = hpCastFlag p"
    "\<forall>c. map_of (hpSessions (rtProviders q3 a)) c = map_of (hpSessions p) c"
    "\<forall>c. map_of (hpControllers (rtProviders q3 a)) c = map_of (hpControllers p) c" by blast
  note q3 = this
  have "ci_StopCastSession E (ci, q2) = (ci\<lparr>ciHandle := -1, ciDeviceId := ''-100''\<rparr>, rt_emit [CastStateUpdated (ci_IsCasting (ci\<lparr>ciHandle := -1\<rparr>) q3)] q3)"
    using q3(1) assms(4) by (simp add: ci_StopCastSession_def ci_SetCastHandle_def error_code_defs Let_def)
  with os stop assms(7) have "ci' = ci\<lparr>ciHandle := -1, ciDeviceId := ''-100''\<rparr>"
    "r' = rt_emit [CastStateUpdated (ci_IsCasting (ci\<lparr>ciHandle := -1\<rparr>) q3)] q3" by (simp_all add: q_def)
  with q3(2-5) q2(3) show ?thesis by (simp add: rt_emit_def)
qed

text \<open>C8: a new cast whose device refuses the connection. The call fails with the error of the connection, and
  the cast is undone: the session has no handle and no device again, the provider has the sessions, the
  flags and the controllers that it had before, so the number is free again, and the cast engine was asked to
  disconnect the device and to release the session it had made.\<close>

theorem refused_cast_leaves_nothing:
  assumes "rt_reachable E re r" and "rt_GetCastProvider (sint (dvProviderId dev)) r = Some a" and "rt_GetMirrorCastHandle r = -1"
    and "\<not> (\<exists>h info. (h, info) \<in> set (rtHandles r) \<and> chSessionId info \<noteq> ciSessionId ci \<and> chOutputDevice info \<noteq> []
        \<and> dvDeviceId (hd (chOutputDevice info)) = dvDeviceId dev)"
    and "first_free (hpCastFlag (rtProviders r a)) = Some i"
    and "csmCreateCastSession E (hp_InitCastSessionProperty E (dvSupportedProtocols dev) (ciSessionId ci = pcmCastSession))
        (cmEngine (rtMem r)) = ((AVSESSION_SUCCESS, Some cs), e1)"
    and "csRegisterListener E cs e1 = (x, e2)" and "x \<noteq> AVSESSION_ERROR"
    and "csAddDevice E cs (add_request E dev (ceSpid env)) e2 = (y, e3)" and "y \<noteq> 0" and "dvDeviceId dev \<noteq> ''-1''"
    and "\<not> ciHiPlay ci" and "\<not> ci_IsSinkCastSession ci"
    and "ci_SubStartCast E re env (dev # devs) (ci, r) = (ret, ci', r')"
  shows "ret = ERR_DEVICE_CONNECTION_FAILED \<and> ciHandle ci' = -1 \<and> ciDeviceId ci' = ''-100''
    \<and> cmEngine (rtMem r') = csRelease E cs (snd (csRemoveDevice E cs [] ACTION_DISCONNECT e3))
    \<and> hpCastFlag (rtProviders r' a) = hpCastFlag (rtProviders r a)
    \<and> (\<forall>c. map_of (hpSessions (rtProviders r' a)) c = map_of (hpSessions (rtProviders r a)) c)
    \<and> (\<forall>c. map_of (hpControllers (rtProviders r' a)) c = map_of (hpControllers (rtProviders r a)) c)"
proof -
  let ?h = "cast_handle 1 (int i)" and ?ci = "ci\<lparr>ciHandle := cast_handle 1 (int i)\<rparr>"
  have ok: "rt_ok r" by (rule rt_reachable_rt_ok [OF assms(1)])
  have prov: "sint (dvProviderId dev) = 1" using ok assms(2) by (auto simp: rt_ok_def rt_GetCastProvider_def split: if_splits)
  note h = small_handle_parts [OF least_free(1) [OF rt_ok_provider [OF ok] assms(5)]]
  from half_open_start [OF ok assms(2-8), of devs re "cePid env" "ceUid env" "ciListener ci" "[CastStateUpdated True]"]
  obtain r0 where r0: "rt_StartCast E (dev # devs) (ciSessionId ci) r = (?h, r0)" "rt_GetMirrorCastHandle r0 = -1"
    and q: "half_open a i (ciSessionId ci) cs (rtProviders r a) (snd (rt_RegisterCallback E re (cePid env) (ceUid env) ?h
        (ciListener ci) (ciSessionId ci) dev (rt_emit [CastStateUpdated True] r0)))" 
      "cmEngine (rtMem (snd (rt_RegisterCallback E re (cePid env) (ceUid env) ?h
        (ciListener ci) (ciSessionId ci) dev (rt_emit [CastStateUpdated True] r0)))) = e2" by blast
  let ?q = "snd (rt_RegisterCallback E re (cePid env) (ceUid env) ?h (ciListener ci) (ciSessionId ci) dev
    (rt_emit [CastStateUpdated True] r0))"
  have set: "ci_SetCastHandle ?h (ci, r0) = (?ci, rt_emit [CastStateUpdated True] r0)"
    using r0(2) h assms(13) by (simp add: ci_SetCastHandle_def ci_IsCasting_def ci_IsSinkCastSession_def)
  from half_open_add [OF q(1) prov assms(11) _ assms(10), of E "ceSpid env" e3 devs] assms(9) q(2)
  obtain q2 where q2: "rt_AddDevice E (int i) (dev # devs) (ceSpid env) ?q = (ERR_DEVICE_CONNECTION_FAILED, q2)"
    "half_open a i (ciSessionId ci) cs (rtProviders r a) q2" "cmEngine (rtMem q2) = e3" by auto
  obtain ci2 r2 where d: "ci_DestroyCast E env False (?ci, q2) = (ci2, r2)" by fastforce
  have "ret = ERR_DEVICE_CONNECTION_FAILED" "ci' = ci2" "r' = r2"
    using assms(14) r0 set q2(1) h d by (simp_all add: ci_SubStartCast_def ci_AddDevice_def error_code_defs)
  with half_open_destroy [OF _ rt_ok_provider [OF ok] assms(5) _ _ _ d] q2(2,3) assms(12,13) show ?thesis
    by (simp add: ci_IsSinkCastSession_def)
qed

definition busy_engine :: "(string list, nat) cast_engine" where
  "busy_engine = quiet_engine\<lparr>csAddDevice := \<lambda>_ _ e. (1, e @ [''refused''])\<rparr>"

definition demo_busy :: "(string list, nat) router" where
  "demo_busy = snd (sv_checkEnableCast busy_engine phone_env 7 1000 True (new_router []))"

lemma demo_busy_parts:
  "rt_GetCastProvider (sint (dvProviderId demo_tv)) demo_busy = Some 0" "rt_GetMirrorCastHandle demo_busy = -1"
  "rtHandles demo_busy = []" "first_free (hpCastFlag (rtProviders demo_busy 0)) = Some 0"
  "cmEngine (rtMem demo_busy) = [''listen'']" "dvDeviceId demo_tv \<noteq> ''-1''" "\<not> ciHiPlay demo_session"
  "\<not> ci_IsSinkCastSession demo_session"
  by code_simp+

theorem refused_cast_leaves_nothing_witness:
  "cmEngine (rtMem (snd (snd (ci_SubStartCast busy_engine phone_env demo_ci_env [demo_tv] (demo_session, demo_busy)))))
    = [''listen'', ''create'', ''refused'', ''remove'', ''release'']"
proof -
  obtain ret ci r where c: "ci_SubStartCast busy_engine phone_env demo_ci_env [demo_tv] (demo_session, demo_busy) = (ret, ci, r)"
    by (metis prod_cases3)
  have reach: "rt_reachable busy_engine phone_env demo_busy"
    unfolding demo_busy_def by (rule rt_reachable.step [OF rt_reachable.init rt_step.switch])
  have none: "\<not> (\<exists>h info. (h, info) \<in> set (rtHandles demo_busy) \<and> chSessionId info \<noteq> ciSessionId demo_session \<and> chOutputDevice info \<noteq> []
      \<and> dvDeviceId (hd (chOutputDevice info)) = dvDeviceId demo_tv)" by (simp add: demo_busy_parts)
  have calls: "csmCreateCastSession busy_engine pr e = ((AVSESSION_SUCCESS, Some (List.length e)), e @ [''create''])"
    "csRegisterListener busy_engine cs e = (0, e)" "csAddDevice busy_engine cs d e = (1, e @ [''refused''])"
    "csRemoveDevice busy_engine cs did act e = (True, e @ [''remove''])" "csRelease busy_engine cs e = e @ [''release'']" for pr e cs d did act
    by (simp_all add: busy_engine_def error_code_defs)
  from refused_cast_leaves_nothing [OF reach demo_busy_parts(1,2) none demo_busy_parts(4) calls(1,2) _ calls(3) _ demo_busy_parts(6-8) c]
  show ?thesis by (simp add: c calls demo_busy_parts AVSESSION_ERROR_def)
qed

end
