(* ===== verification/Spec2Isabelle.thy ===== *)
theory Spec2Isabelle
  imports MetaInv MetaWireProps PlaybackProps ControlProps CastControlCommand UsersProps UtilsProps Base64 FocusProps HashProps CommandLimit BackgroundAudio Whitelist SessionMirror SessionSafe WorldFront KeysProps AppProps CastClientProps
begin

text \<open>
  A model of the OpenHarmony AV session service, the process that knows which applications play
  media, which of them is in front and on top, and who may control them.

  \<^bold>\<open>The program.\<close> An application asks the service (\<^verbatim>\<open>avsession_service.cpp\<close>) for a session, an
  object (\<^verbatim>\<open>avsession_item.cpp\<close>) that holds its metadata and playback state. The service keeps the
  sessions in containers (\<^verbatim>\<open>session_stack.cpp\<close>), one for each user and one for all
  (\<^verbatim>\<open>avsession_users_manager.cpp\<close>), and for each user a list of sessions in front, a list of
  sessions for key events and a top session. Clients watch and steer a session through controllers
  (\<^verbatim>\<open>avcontroller_item.cpp\<close>). Reports of the audio framework pass through
  \<^verbatim>\<open>focus_session_strategy.cpp\<close> and change the top session; \<^verbatim>\<open>background_audio_controller.cpp\<close>
  mutes applications in the background that have no session; \<^verbatim>\<open>command_send_limit.cpp\<close> limits the
  rate of commands. What clients and the service exchange are serialised objects
  (\<^verbatim>\<open>frameworks/common/src\<close>).

  \<^bold>\<open>Theories and code.\<close>
  \<^item> \<open>Prelude\<close>: lists, \<^verbatim>\<open>std::map\<close> and \<^verbatim>\<open>std::set\<close> as sorted lists (\<open>cmap\<close>), integers as strings;
    \<open>Errors\<close>: result codes; \<open>CppString\<close>: \<^verbatim>\<open>std::string\<close>.
  \<^item> \<open>Parcel\<close>: the parcel as a list of typed items, and the pixel map.
  \<^item> \<open>MaskedData\<close>, \<open>MetaData\<close>, \<open>MetaInv\<close>, \<open>MetaWire\<close>, \<open>MetaWireProps\<close>: \<^verbatim>\<open>avmeta_data.cpp\<close>. Each field has
    a bit; the tables of clone and check actions are lists in the order of the code.
  \<^item> \<open>PlaybackState\<close>, \<open>PlaybackProps\<close>: \<^verbatim>\<open>avplayback_state.cpp\<close>.
  \<^item> \<open>ControlCommand\<close>, \<open>ControlProps\<close>, \<open>CastControlCommand\<close>: \<^verbatim>\<open>avcontrol_command.cpp\<close>,
    \<^verbatim>\<open>command_info.cpp\<close>, \<^verbatim>\<open>avcast_control_command.cpp\<close>.
  \<^item> \<open>SessionItem\<close>: the objects of sessions and controllers and the store that holds them; a smart
    pointer to one is its number in the store.
  \<^item> \<open>SessionStack\<close>, \<open>StackProps\<close>: \<^verbatim>\<open>session_stack.cpp\<close>. The locale \<open>session_container\<close> states the
    contract of \<^verbatim>\<open>session_container.h\<close>; it is interpreted on the stack, and \<open>UsersManager\<close> uses it.
  \<^item> \<open>UsersManager\<close>, \<open>UsersInv\<close>, \<open>UsersOps\<close>, \<open>UsersProps\<close>: \<^verbatim>\<open>avsession_users_manager.cpp\<close>.
  \<^item> \<open>SessionService\<close>, \<open>SessionLife\<close>: \<^verbatim>\<open>avsession_service.cpp\<close> and \<^verbatim>\<open>avsession_service_ext.cpp\<close>; the
    state is the record \<open>service\<close>, what is told to listeners and migration servers is recorded in
    order in its log. \<open>ServiceInv\<close> holds the invariant \<open>sv_ok\<close>, \<open>ServiceOps\<close> and \<open>ServiceRelease\<close>
    that the operations keep it, \<open>ServiceProps\<close>, \<open>ServiceTop\<close> and \<open>ServiceCreate\<close>
    what the handlers promise.
  \<^item> \<open>SessionData\<close>, \<open>SessionUpdate\<close>, \<open>SessionCommands\<close>, \<open>SessionImages\<close>: what \<^verbatim>\<open>avsession_item.cpp\<close> and
    \<^verbatim>\<open>avcontroller_item.cpp\<close> do with the data of a session. The record \<open>sess_data\<close> is the object with what
    it tells others, in order: \<open>request\<close>s to the application, \<open>sd_event\<close>s to the service, \<open>notice\<close>s
    to controllers. Pixel maps are shared between objects, so they live in a store of buffers
    (\<open>img_state\<close>) together with the files that hold them. \<open>SessionReach\<close> has the runs of a session
    (\<open>im_step\<close>, \<open>im_reachable\<close>); \<open>SessionFront\<close>, \<open>SessionSafe\<close>, \<open>SessionMirror\<close>, \<open>SessionEvents\<close> what holds in them.
  \<^item> \<open>ServiceCallbacks\<close>: what the service does when a session calls back. \<open>ServiceWorld\<close>: the service
    with the data of all its sessions (\<open>world\<close>) and its steps (\<open>w_step\<close>): a step of a session is followed
    by the callbacks that it made. \<open>ServiceSteady\<close> and \<open>ServiceFront\<close> say which parts of the service an
    operation leaves as they are, \<open>WorldFront\<close> what holds in all runs. \<open>ServiceKeys\<close>, \<open>KeysProps\<close>: media keys and
    system commands.
  \<^item> \<open>QueueItem\<close>: \<^verbatim>\<open>avqueue_item.cpp\<close> and \<^verbatim>\<open>avmedia_description.cpp\<close>, how an item of a play queue is written and
    read, and what of it arrives. \<open>Ipc\<close>, \<open>IpcServed\<close>: what stubs and proxies share, over a parcel that is a
    parameter; queue items cross by their own marshalling. \<open>ControllerIpc\<close>,
    \<open>ControllerProxy\<close>: \<^verbatim>\<open>avsession_controller_stub.cpp\<close> in the service and \<^verbatim>\<open>avsession_controller_proxy.cpp\<close> in the
    client; \<open>ControllerRemote\<close>, \<open>ControllerClaims\<close>, \<open>RemoteProps\<close>: calls through both. \<open>SessionIpc\<close>, \<open>SessionProxy\<close>:
    \<^verbatim>\<open>avsession_stub.cpp\<close> and, in the application, \<^verbatim>\<open>avsession_proxy.cpp\<close>; \<open>SessionRemote\<close>, \<open>SessionServed\<close>, \<open>AppProps\<close>:
    calls through both, and from the application to a client. \<open>MediaCenterControl\<close>: \<^verbatim>\<open>avmedia_center_control_type.cpp\<close>.
  \<^item> \<open>FocusStrategy\<close>, \<open>FocusProps\<close>: \<^verbatim>\<open>focus_session_strategy.cpp\<close> and its calls into the service.
  \<^item> \<open>CastSession\<close>, \<open>CastProvider\<close>: devices, \<^verbatim>\<open>hw_cast_provider_session.cpp\<close> and \<^verbatim>\<open>hw_cast_provider.cpp\<close>, over a cast
    engine that is a parameter (the record \<open>cast_engine\<close>); \<open>CastRouter\<close>, \<open>CastEvents\<close>: \<^verbatim>\<open>avrouter_impl.cpp\<close> and the
    switch for casting of the service; \<open>CastItem\<close>: casting in \<^verbatim>\<open>avsession_item.cpp\<close>. \<open>CastInv\<close> holds the invariant \<open>rt_ok\<close>,
    the steps \<open>rt_step\<close> and the reachable states; \<open>CastProps\<close> and \<open>CastClientProps\<close> what holds.
  \<^item> \<open>BackgroundAudio\<close>, \<open>CommandLimit\<close>, \<open>Whitelist\<close>: the handlers of \<^verbatim>\<open>background_audio_controller.cpp\<close>,
    \<^verbatim>\<open>command_send_limit.cpp\<close> and \<^verbatim>\<open>avsession_whitelist_config_manager.cpp\<close>.
  \<^item> \<open>HashCalculator\<close>, \<open>HashProps\<close>: SHA-256 of \<^verbatim>\<open>utils/src/hash_calculator.cpp\<close>; \<open>Base64\<close>:
    \<^verbatim>\<open>migrate/base64_utils.h\<close>; \<open>Utils\<close>, \<open>UtilsProps\<close>: \<^verbatim>\<open>avsession_utils.h\<close>, on a file system that is
    a map from paths to bytes; whether the operating system opens, creates or removes a file is a
    parameter.

  \<^bold>\<open>What is shown.\<close> The containers, lists and top sessions of all users stay consistent under every
  modelled operation; creating and releasing a session, the death of a client and a report of the
  audio framework do what they promise, in a service where no session casts and for users that are alive; a
  session that plays gets on top; the serialised objects come out of a parcel as the theorems say, whole or with
  what is lost named. In the runs of the service with its sessions that \<open>w_step\<close> describes, the lists
  of sessions in front are what the data of the sessions asks for, calls, photos and controlled bundles
  apart; clients that follow the changes they are told have the state of the session; a command that passes
  the checks reaches the application as one request, also from the client's process; a call through proxy
  and stub is the controller's or the session's own call, but for the refusals, masked errors and losses on
  the way that the theorems name, and the settings of an application that the model has are read by its
  clients; the presses of a headset key become one command. A cast has a number of its own, can be taken over
  by another session, leaves nothing behind when its device refuses, and casting comes back when the cast
  engine dies. Fields that are not set have their default value, all but the filter of the metadata; the hash
  is that of the whole data however it is split; limits hold. Where the code does not do what it means to, a
  theorem shows the run: these are the properties of kind error.

  \<^bold>\<open>Loops.\<close> All loops are structural recursions, folds, or functions with a termination proof, apart from
  the loop over the members of the white list, which may run for ever and is a partial function.
  No fuel is used.

  \<^bold>\<open>Choices.\<close> The build has neither car features, system events nor the start-stop features. The theories
  on casting are for a build with the cast engine and the device manager; in the other theories the branches for casting
  are left out. The operations run one at a time: the code holds a recursive lock over each. An answer of another
  system service is an argument, or a field of the record \<open>env\<close>. The callbacks of a session run after
  the operation that makes them, in their order; the code makes them at the end or under a lock. The
  count of key presses is 32 bits wide; the theorem on it assumes less than 2^31 presses.

  \<^bold>\<open>Not modelled.\<close> The stream player and the audio cast forward to the cast engine; remote and migrated
  sessions and the soft bus depend on distributed services; the adapters, the other stubs and proxies and the
  script bindings only forward; shared memory, images, traces and dumps are calls of the platform.
\<close>

end
